(* ===== verification/Prelude.thy ===== *)
theory Prelude
  imports Complex_Main "HOL-Library.AList" "HOL-Library.Multiset"
begin

text \<open>
  Shared vocabulary of the development: identifiers and instants, the
  JavaScript string and array helpers the TypeScript sources use, stored JSON
  columns, and SQLite tables as row lists together with the lemmas that every
  store theory reuses.

  \<^item> Identifiers, SHAs and messages are \<open>string\<close>s. A \<open>char\<close> has 256 values, so a
    string here is the Latin-1 part of a JavaScript string; on it \<open>length\<close> counts
    UTF-16 units as the source does.
  \<^item> Instants are integers (milliseconds since the epoch). The sources store
    fixed-width ISO-8601 UTC strings, whose lexicographic order is the order of
    the instants they denote.
  \<^item> A table is the list of its rows in insertion order. \<open>ORDER BY\<close> is a stable
    sort and \<open>LIMIT\<close> is \<open>take\<close>.
\<close>

type_synonym ident = string
type_synonym time = int

section \<open>JavaScript helpers\<close>

text \<open>The Latin-1 characters that \<open>String.prototype.trim\<close> removes.\<close>

definition js_space :: "char \<Rightarrow> bool" where
  "js_space c \<longleftrightarrow> (of_char c :: nat) \<in> {9, 10, 11, 12, 13, 32, 160}"

definition js_trim :: "string \<Rightarrow> string" where
  "js_trim s = rev (dropWhile js_space (rev (dropWhile js_space s)))"

text \<open>\<open>toUpperCase\<close>, only used on drive letters: ASCII letters change, other characters stay.\<close>

definition js_upper :: "string \<Rightarrow> string" where
  "js_upper s = map (\<lambda>c. let n = (of_char c :: nat) in
     if 97 \<le> n \<and> n \<le> 122 then char_of (n - 32) else c) s"

text \<open>\<open>toLowerCase\<close> on the characters of the model, the first 256 code points.\<close>

definition js_lower :: "string \<Rightarrow> string" where
  "js_lower s = map (\<lambda>c. let n = (of_char c :: nat) in
     if 65 \<le> n \<and> n \<le> 90 \<or> 192 \<le> n \<and> n \<le> 222 \<and> n \<noteq> 215 then char_of (n + 32) else c) s"

text \<open>\<open>s.split(sep)\<close> for a one-character separator; never empty.\<close>

fun js_split :: "char \<Rightarrow> string \<Rightarrow> string list" where
  "js_split sep [] = [[]]"
| "js_split sep (c # cs) =
     (if c = sep then [] # js_split sep cs
      else (case js_split sep cs of [] \<Rightarrow> [[c]] | w # ws \<Rightarrow> (c # w) # ws))"

text \<open>A number in a template string.\<close>

fun js_nat :: "nat \<Rightarrow> string" where
  "js_nat n = (if n < 10 then [char_of (48 + n)] else js_nat (n div 10) @ [char_of (48 + n mod 10)])"

declare js_nat.simps [simp del]

definition js_int :: "int \<Rightarrow> string" where
  "js_int n = (if n < 0 then CHR ''-'' # js_nat (nat (- n)) else js_nat (nat n))"

text \<open>\<open>a ?? b\<close>.\<close>

definition coalesce :: "'a option \<Rightarrow> 'a option \<Rightarrow> 'a option" where
  "coalesce a b = (case a of None \<Rightarrow> b | Some x \<Rightarrow> Some x)"

text \<open>A column of a partial update: \<open>None\<close> leaves the old value.\<close>

definition set_col :: "'a option \<Rightarrow> 'a \<Rightarrow> 'a" where
  "set_col new old = (case new of None \<Rightarrow> old | Some v \<Rightarrow> v)"

lemma set_col_simps [simp]: "set_col None old = old" "set_col (Some v) old = v"
  by (simp_all add: set_col_def)

text \<open>A zod \<open>string().trim().min(lo).max(hi)\<close> field: the trimmed value, when its length fits.\<close>

definition z_trimmed :: "nat \<Rightarrow> nat \<Rightarrow> string \<Rightarrow> string option" where
  "z_trimmed lo hi s = (let t = js_trim s in
     if lo \<le> length t \<and> length t \<le> hi then Some t else None)"

text \<open>A stored JSON column: what \<open>JSON.parse\<close> finds there.\<close>

datatype 'a json = Json 'a | Corrupt

fun json_or :: "'a \<Rightarrow> 'a json \<Rightarrow> 'a" where
  "json_or d (Json x) = x"
| "json_or d Corrupt = d"

section \<open>Execution strategies and plans\<close>

text \<open>The types of \<open>packages/shared/src/execution-strategy.ts\<close> that dispatches and outbox effects carry.\<close>

datatype strategy = SINGLE_AGENT | SWARM | DAG

record dag_node_def =
  dn_node :: ident
  dn_packet :: ident
  dn_depends :: "ident list"

record execution_plan =
  pn_packetIds :: "ident list option"
  pn_dagNodes :: "dag_node_def list option"
  pn_maxConcurrency :: "int option"

text \<open>The permission presets, which policies and work packets name.\<close>

datatype perm_preset = CONSERVATIVE | BALANCED | UNATTENDED | CUSTOM

section \<open>Tables\<close>

named_theorems table_simps "equations that push lookups through table updates"

definition tbl_get :: "('r \<Rightarrow> 'k) \<Rightarrow> 'k \<Rightarrow> 'r list \<Rightarrow> 'r option" where
  "tbl_get key k t = find (\<lambda>r. key r = k) t"

definition tbl_update :: "('r \<Rightarrow> bool) \<Rightarrow> ('r \<Rightarrow> 'r) \<Rightarrow> 'r list \<Rightarrow> 'r list" where
  "tbl_update p f t = map (\<lambda>r. if p r then f r else r) t"

definition tbl_delete :: "('r \<Rightarrow> bool) \<Rightarrow> 'r list \<Rightarrow> 'r list" where
  "tbl_delete p t = filter (\<lambda>r. \<not> p r) t"

text \<open>\<open>INSERT OR IGNORE\<close> under one unique key: the flag is \<open>changes === 1\<close>.\<close>

definition tbl_insert_ignore :: "('r \<Rightarrow> 'k) \<Rightarrow> 'r \<Rightarrow> 'r list \<Rightarrow> 'r list \<times> bool" where
  "tbl_insert_ignore key r t =
     (case tbl_get key (key r) t of None \<Rightarrow> (t @ [r], True) | Some _ \<Rightarrow> (t, False))"

text \<open>A plain \<open>INSERT\<close>: \<open>None\<close> is the constraint error SQLite raises.\<close>

definition tbl_insert :: "('r \<Rightarrow> 'k) \<Rightarrow> 'r \<Rightarrow> 'r list \<Rightarrow> 'r list option" where
  "tbl_insert key r t = (case tbl_get key (key r) t of None \<Rightarrow> Some (t @ [r]) | Some _ \<Rightarrow> None)"

text \<open>\<open>INSERT .. ON CONFLICT(key) DO UPDATE\<close>.\<close>

definition tbl_upsert :: "('r \<Rightarrow> 'k) \<Rightarrow> 'r \<Rightarrow> 'r list \<Rightarrow> 'r list" where
  "tbl_upsert key r t = (case tbl_get key (key r) t of None \<Rightarrow> t @ [r]
     | Some _ \<Rightarrow> tbl_update (\<lambda>q. key q = key r) (\<lambda>_. r) t)"

definition order_asc :: "('r \<Rightarrow> time) \<Rightarrow> 'r list \<Rightarrow> 'r list" where
  "order_asc k t = sort_key k t"

definition order_desc :: "('r \<Rightarrow> time) \<Rightarrow> 'r list \<Rightarrow> 'r list" where
  "order_desc k t = sort_key (\<lambda>r. - k r) t"

definition first_row :: "'r list \<Rightarrow> 'r option" where
  "first_row t = (case t of [] \<Rightarrow> None | r # _ \<Rightarrow> Some r)"

definition unique_keys :: "('r \<Rightarrow> 'k) \<Rightarrow> 'r list \<Rightarrow> bool" where
  "unique_keys key t \<longleftrightarrow> distinct (map key t)"

subsection \<open>Lookup laws\<close>

lemma tbl_get_simps [table_simps]:
  "tbl_get key k [] = None"
  "tbl_get key k (r # t) = (if key r = k then Some r else tbl_get key k t)"
  by (simp_all add: tbl_get_def)

lemma tbl_get_append [table_simps]:
  "tbl_get key k (t @ u) = (case tbl_get key k t of None \<Rightarrow> tbl_get key k u | Some r \<Rightarrow> Some r)"
  by (induction t) (auto simp: table_simps)

lemma tbl_get_key: "tbl_get key k t = Some r \<Longrightarrow> key r = k"
  by (auto simp: tbl_get_def find_Some_iff)

lemma tbl_get_in_set: "tbl_get key k t = Some r \<Longrightarrow> r \<in> set t"
  by (auto simp: tbl_get_def find_Some_iff)

lemma tbl_get_None: "tbl_get key k t = None \<longleftrightarrow> k \<notin> key ` set t"
  by (auto simp: tbl_get_def find_None_iff)

lemma tbl_get_unique:
  "unique_keys key t \<Longrightarrow> r \<in> set t \<Longrightarrow> tbl_get key (key r) t = Some r"
  by (induction t) (auto simp: table_simps unique_keys_def)

lemma tbl_get_update:
  assumes "\<And>r. key (f r) = key r"
  shows "tbl_get key k (tbl_update p f t)
       = map_option (\<lambda>r. if p r then f r else r) (tbl_get key k t)"
  using assms by (induction t) (auto simp: tbl_update_def table_simps)

lemma tbl_get_replace [table_simps]:
  "key n = k \<Longrightarrow> tbl_get key k (tbl_update (\<lambda>r. key r = k) (\<lambda>_. n) t) = map_option (\<lambda>_. n) (tbl_get key k t)"
  by (induction t) (simp_all add: tbl_update_def tbl_get_simps)

lemma tbl_get_update_key:
  assumes "\<And>r. key (f r) = key r"
  shows "tbl_get key k (tbl_update (\<lambda>r. key r = j) f t)
       = (if k = j then map_option f (tbl_get key k t) else tbl_get key k t)"
proof -
  have "map_option (\<lambda>r. if key r = j then f r else r) (tbl_get key k t)
      = (if k = j then map_option f (tbl_get key k t) else tbl_get key k t)"
    by (cases "tbl_get key k t") (auto dest: tbl_get_key)
  then show ?thesis by (simp add: tbl_get_update assms)
qed

lemma tbl_get_delete_key:
  "tbl_get key k (tbl_delete (\<lambda>r. key r = j) t) = (if k = j then None else tbl_get key k t)"
  by (induction t) (auto simp: tbl_delete_def table_simps)

lemma tbl_get_upsert:
  "tbl_get key k (tbl_upsert key r t) = (if k = key r then Some r else tbl_get key k t)"
proof (cases "tbl_get key (key r) t")
  case None
  then show ?thesis
    by (auto simp: tbl_upsert_def table_simps split: option.splits)
next
  case (Some q)
  have "tbl_get key k (tbl_update (\<lambda>q. key q = key r) (\<lambda>_. r) t)
      = (if k = key r then map_option (\<lambda>_. r) (tbl_get key k t) else tbl_get key k t)"
    by (induction t) (auto simp: tbl_update_def table_simps)
  with Some show ?thesis by (auto simp: tbl_upsert_def)
qed

lemma tbl_update_none: "filter p t = [] \<Longrightarrow> tbl_update p f t = t"
  by (induction t) (auto simp: tbl_update_def split: if_splits)

lemma tbl_update_clears:
  "(\<And>r. p r \<Longrightarrow> \<not> p (f r)) \<Longrightarrow> filter p (tbl_update p f t) = []"
  by (induction t) (auto simp: tbl_update_def)

lemma tbl_get_unique': "unique_keys key t \<Longrightarrow> r \<in> set t \<Longrightarrow> key r = k \<Longrightarrow> tbl_get key k t = Some r"
  by (drule (1) tbl_get_unique) simp

subsection \<open>Unique keys are kept\<close>

lemma unique_keys_update:
  "(\<And>r. key (f r) = key r) \<Longrightarrow> unique_keys key (tbl_update p f t) = unique_keys key t"
  by (auto simp: unique_keys_def tbl_update_def comp_def if_distrib cong: if_cong)

lemma unique_keys_delete: "unique_keys key t \<Longrightarrow> unique_keys key (tbl_delete p t)"
  by (simp add: unique_keys_def tbl_delete_def distinct_map_filter)

lemma unique_keys_append:
  "unique_keys key (t @ [r]) \<longleftrightarrow> unique_keys key t \<and> tbl_get key (key r) t = None"
  by (auto simp: unique_keys_def tbl_get_None)

lemma unique_keys_insert_ignore:
  "unique_keys key t \<Longrightarrow> unique_keys key (fst (tbl_insert_ignore key r t))"
  by (auto simp: tbl_insert_ignore_def unique_keys_append split: option.splits)

lemma set_order [simp]: "set (order_asc k t) = set t" "set (order_desc k t) = set t"
  by (simp_all add: order_asc_def order_desc_def)

lemma length_order [simp]:
  "length (order_asc k t) = length t" "length (order_desc k t) = length t"
  by (simp_all add: order_asc_def order_desc_def)

lemma first_row_in_set: "first_row t = Some r \<Longrightarrow> r \<in> set t"
  by (auto simp: first_row_def split: list.splits)

lemma first_row_None [simp]: "first_row t = None \<longleftrightarrow> t = []"
  by (auto simp: first_row_def split: list.splits)

lemma order_empty [simp]: "order_desc k t = [] \<longleftrightarrow> t = []" "order_asc k t = [] \<longleftrightarrow> t = []"
  by (metis length_0_conv length_order)+

lemma first_row_order_desc:
  assumes "first_row (order_desc k t) = Some r" and "q \<in> set t"
  shows "k q \<le> k r"
proof -
  obtain rs where rs: "order_desc k t = r # rs"
    using assms(1) by (auto simp: first_row_def split: list.splits)
  have "sorted (map (\<lambda>x. - k x) (order_desc k t))"
    by (simp add: order_desc_def)
  moreover have "q \<in> set (r # rs)" using assms(2) by (metis rs set_order(2))
  ultimately show ?thesis using rs by auto
qed

section \<open>Insert contracts\<close>

text \<open>
  Stores that ignore an insert which violates a uniqueness constraint
  (\<open>INSERT OR IGNORE\<close>) rest their clients' idempotency on it. \<open>clash\<close> says that a row
  violates a constraint of the stored rows, \<open>same\<close> that two rows exclude each
  other, \<open>ok\<close> is the store's well-formedness.
\<close>

locale guarded_insert =
  fixes clash :: "'r \<Rightarrow> 'db \<Rightarrow> bool"
    and ins :: "'r \<Rightarrow> 'db \<Rightarrow> 'db \<times> bool"
    and same :: "'r \<Rightarrow> 'r \<Rightarrow> bool"
    and ok :: "'db \<Rightarrow> bool"
  assumes guard_reports: "snd (ins r db) \<longleftrightarrow> \<not> clash r db"
    and guard_refuses: "clash r db \<Longrightarrow> fst (ins r db) = db"
    and guard_records: "\<not> clash r db \<Longrightarrow> clash q (fst (ins r db)) \<longleftrightarrow> clash q db \<or> same q r"
    and guard_ok: "ok db \<Longrightarrow> ok (fst (ins r db))"
begin

lemma clash_kept: "clash q db \<Longrightarrow> clash q (fst (ins r db))"
  by (cases "clash r db") (simp_all add: guard_refuses guard_records)

text \<open>Of two rows that exclude each other at most one goes in, in either order.\<close>

lemma only_one_goes_in: "same q r \<Longrightarrow> \<not> (snd (ins r db) \<and> snd (ins q (fst (ins r db))))"
  using guard_records [of r db q] guard_reports by blast

end

section \<open>The unique-key store contract\<close>

text \<open>
  Three stores (actor leases, transition intents, outbox effects) rest their
  idempotency on \<open>INSERT OR IGNORE\<close> under a \<open>PRIMARY KEY\<close> or \<open>UNIQUE\<close> column. The
  interface their clients use is a presence test and an insert that reports
  whether it took effect; \<open>ok\<close> is the store's well-formedness.
\<close>

locale unique_store =
  fixes present :: "'k \<Rightarrow> 'db \<Rightarrow> bool"
    and ins :: "'r \<Rightarrow> 'db \<Rightarrow> 'db \<times> bool"
    and key :: "'r \<Rightarrow> 'k"
    and ok :: "'db \<Rightarrow> bool"
  assumes ins_reports: "snd (ins r db) \<longleftrightarrow> \<not> present (key r) db"
    and ins_refused: "present (key r) db \<Longrightarrow> fst (ins r db) = db"
    and ins_present: "present k (fst (ins r db)) \<longleftrightarrow> present k db \<or> k = key r"
    and ins_ok: "ok db \<Longrightarrow> ok (fst (ins r db))"
begin

text \<open>Of two inserts under one key the second is refused and changes nothing.\<close>

lemma second_insert_refused:
  assumes "key q = key r"
  shows "ins q (fst (ins r db)) = (fst (ins r db), False)"
proof -
  have "present (key q) (fst (ins r db))"
    using assms by (simp add: ins_present)
  then show ?thesis
    by (metis ins_refused ins_reports prod.collapse)
qed

lemma insert_wins_once:
  "key q = key r \<Longrightarrow> \<not> (snd (ins r db) \<and> snd (ins q (fst (ins r db))))"
  by (simp add: second_insert_refused)

lemma insert_commutes_presence:
  "present k (fst (ins q (fst (ins r db)))) = present k (fst (ins r (fst (ins q db))))"
  by (auto simp: ins_present)

end

text \<open>One unique key is a special case of the guarded insert.\<close>

sublocale unique_store \<subseteq> guard: guarded_insert "\<lambda>r db. present (key r) db" ins "\<lambda>q r. key q = key r" ok
  by unfold_locales (auto simp: ins_reports ins_refused ins_present ins_ok)

text \<open>Every row list with one unique key is such a store.\<close>

interpretation row_store: unique_store
  "\<lambda>k t. tbl_get key k t \<noteq> None" "tbl_insert_ignore key" key "unique_keys key"
  for key :: "'r \<Rightarrow> 'k"
  by unfold_locales
    (auto simp: tbl_insert_ignore_def table_simps unique_keys_append split: option.splits)

section \<open>Loops that update one row per element\<close>

lemma filter_unique:
  "unique_keys key t \<Longrightarrow> filter (\<lambda>r. key r = k) t = (case tbl_get key k t of None \<Rightarrow> [] | Some r \<Rightarrow> [r])"
proof (induction t)
  case (Cons r t)
  then have "unique_keys key t" "key r = k \<Longrightarrow> tbl_get key k t = None"
    by (auto simp: unique_keys_def tbl_get_None)
  with Cons.IH show ?case by (auto simp: table_simps)
qed (simp add: table_simps)

text \<open>
  A \<open>for\<close> loop over rows with distinct keys, whose body changes at most the row of
  the element at hand: the final lookup is one application of the change.
\<close>

lemma fold_keyed_updates:
  assumes "\<And>d s. ok s \<Longrightarrow> ok (step d s)"
    and "\<And>d s j. ok s \<Longrightarrow> get j (step d s) = (if p d \<and> j = key d then map_option g (get j s) else get j s)"
    and "distinct (map key ds)" and "ok s"
  shows "ok (fold step ds s) \<and> get j (fold step ds s) =
     (if \<exists>d \<in> set ds. p d \<and> key d = j then map_option g (get j s) else get j s)"
  using assms(3,4)
proof (induction ds arbitrary: s)
  case Nil
  then show ?case by simp
next
  case (Cons d ds)
  have "\<not> (\<exists>e \<in> set ds. p e \<and> key e = key d)" using Cons.prems(1) by (auto simp: image_iff)
  then show ?case
    using Cons.IH [of "step d s"] Cons.prems assms(1,2) by auto
qed


text \<open>The same when the change to a row depends on the element.\<close>

lemma fold_keyed_changes:
  assumes "\<And>d s. ok s \<Longrightarrow> ok (step d s)"
    and "\<And>d s j. ok s \<Longrightarrow> get j (step d s) = (if j = key d then upd d (get j s) else get j s)"
    and "distinct (map key ds)" and "ok s"
  shows "ok (fold step ds s) \<and> get j (fold step ds s) =
     (case tbl_get key j ds of None \<Rightarrow> get j s | Some d \<Rightarrow> upd d (get j s))"
  using assms(3,4)
proof (induction ds arbitrary: s)
  case Nil
  then show ?case by (simp add: table_simps)
next
  case (Cons d ds)
  then have "tbl_get key (key d) ds = None" by (simp add: tbl_get_None)
  then show ?case
    using Cons.IH [of "step d s"] Cons.prems assms(1,2) by (auto simp: table_simps split: option.splits)
qed

lemma fold_invariant_value: "(\<And>d s. f (step d s) = f s) \<Longrightarrow> f (fold step ds s) = f s"
  by (induction ds arbitrary: s) auto

end
