(* ===== verification/Permissions.thy ===== *)
theory Permissions
  imports Prelude
begin

text \<open>
  Autonomy permissions: the rule presets of \<open>packages/shared/src/permissions.ts\<close>
  and the policy service and store of \<open>apps/controller/src/permissions/\<close>.
  The state is the policy table, the decision table and the two outward
  channels (attention handler, event publisher) as lists of what was sent.
\<close>

section \<open>Data\<close>

datatype perm_action =
    REPOSITORY_FILE_READ | REPOSITORY_FILE_WRITE | OUTSIDE_REPOSITORY_FILESYSTEM
  | ENVIRONMENT_SECRETS_READ | NETWORK_ACCESS | GIT_COMMIT | GIT_PUSH_MAIN
  | GIT_FORCE_PUSH | BRANCH_CREATE_DELETE | DEPENDENCY_INSTALL
  | SYSTEM_PACKAGE_INSTALL | SHELL_COMMAND | GITHUB_MUTATION | EXTERNAL_SERVICE_WRITE

datatype perm_outcome = ALLOW | ALLOW_ONCE | ASK | DENY

datatype perm_enforcement = NATIVE_EXECUTOR | ORCA_ENFORCED | ADVISORY_ONLY | UNSUPPORTED

record perm_rule =
  rule_action :: perm_action
  rule_outcome :: perm_outcome

record perm_policy =
  pol_repo :: ident
  pol_preset :: perm_preset
  pol_rules :: "perm_rule list"
  pol_updated :: time

record perm_decision =
  pd_id :: ident
  pd_repo :: ident
  pd_run :: "ident option"
  pd_iteration :: "int option"
  pd_action :: perm_action
  pd_outcome :: perm_outcome
  pd_enforcement :: perm_enforcement
  pd_rationale :: string
  pd_actionable :: bool
  pd_created :: time
  pd_resolved :: "time option"

definition permissionActions :: "perm_action list" where
  "permissionActions = [
    REPOSITORY_FILE_READ, REPOSITORY_FILE_WRITE, OUTSIDE_REPOSITORY_FILESYSTEM,
    ENVIRONMENT_SECRETS_READ, NETWORK_ACCESS, GIT_COMMIT, GIT_PUSH_MAIN,
    GIT_FORCE_PUSH, BRANCH_CREATE_DELETE, DEPENDENCY_INSTALL, SYSTEM_PACKAGE_INSTALL,
    SHELL_COMMAND, GITHUB_MUTATION, EXTERNAL_SERVICE_WRITE]"

text \<open>The three actions that the sources list wherever a preset must not relax a rule.\<close>

definition absolute_actions :: "perm_action list" where
  "absolute_actions = [GIT_FORCE_PUSH, OUTSIDE_REPOSITORY_FILESYSTEM, ENVIRONMENT_SECRETS_READ]"

section \<open>Presets\<close>

fun outcomeByPreset :: "perm_preset \<Rightarrow> perm_outcome" where
  "outcomeByPreset CONSERVATIVE = ASK"
| "outcomeByPreset _ = ALLOW"

text \<open>\<open>const rule = rules.find(..); if (rule) rule.outcome = o\<close>: the first rule of the action.\<close>

fun set_first_outcome :: "perm_action \<Rightarrow> perm_outcome \<Rightarrow> perm_rule list \<Rightarrow> perm_rule list" where
  "set_first_outcome a v [] = []"
| "set_first_outcome a v (r # rs) =
     (if rule_action r = a then r\<lparr>rule_outcome := v\<rparr> # rs else r # set_first_outcome a v rs)"

definition createPermissionPreset :: "ident \<Rightarrow> perm_preset \<Rightarrow> time \<Rightarrow> perm_policy" where
  "createPermissionPreset repo preset now =
     (let common = outcomeByPreset preset;
          r0 = map (\<lambda>a. \<lparr>rule_action = a, rule_outcome = common\<rparr>) permissionActions;
          r1 = fold (\<lambda>a. set_first_outcome a ALLOW) [REPOSITORY_FILE_READ, GIT_COMMIT] r0;
          r2 = fold (\<lambda>a. set_first_outcome a DENY)
                 [OUTSIDE_REPOSITORY_FILESYSTEM, ENVIRONMENT_SECRETS_READ, GIT_FORCE_PUSH,
                  BRANCH_CREATE_DELETE, SYSTEM_PACKAGE_INSTALL] r1
      in \<lparr>pol_repo = repo, pol_preset = preset, pol_rules = r2, pol_updated = now\<rparr>)"

definition find_rule :: "perm_action \<Rightarrow> perm_rule list \<Rightarrow> perm_rule option" where
  "find_rule a rs = find (\<lambda>r. rule_action r = a) rs"

text \<open>
  The non-null assertion on \<open>absolute\<close> is the last branch: the preset has a rule
  for every action, so its \<open>None\<close> case is never taken (\<open>preset_total\<close>).
\<close>

definition getPermissionRule :: "perm_policy \<Rightarrow> perm_action \<Rightarrow> perm_rule" where
  "getPermissionRule policy a =
     (let absolute = find_rule a (pol_rules (createPermissionPreset (pol_repo policy) BALANCED 0));
          selected = find_rule a (pol_rules policy)
      in if a \<in> set absolute_actions then \<lparr>rule_action = a, rule_outcome = DENY\<rparr>
         else (case selected of Some r \<Rightarrow> r
               | None \<Rightarrow> (case absolute of Some r \<Rightarrow> r
                         | None \<Rightarrow> \<lparr>rule_action = a, rule_outcome = DENY\<rparr>)))"

section \<open>Store and service\<close>

record perm_state =
  ps_policies :: "(ident \<times> perm_policy json) list"
  ps_decisions :: "perm_decision list"
  ps_attention :: "perm_decision list"
  ps_events :: "perm_decision list"

definition ps_savePolicy :: "perm_policy \<Rightarrow> perm_state \<Rightarrow> perm_state" where
  "ps_savePolicy p s = s\<lparr>ps_policies := tbl_upsert fst (pol_repo p, Json p) (ps_policies s)\<rparr>"

definition ps_storedPolicy :: "ident \<Rightarrow> perm_state \<Rightarrow> perm_policy option" where
  "ps_storedPolicy repo s = (case tbl_get fst repo (ps_policies s) of
     None \<Rightarrow> None | Some (_, Corrupt) \<Rightarrow> None | Some (_, Json p) \<Rightarrow> Some p)"

definition ps_saveDecision :: "perm_decision \<Rightarrow> perm_state \<Rightarrow> perm_state option" where
  "ps_saveDecision d s = map_option (\<lambda>t. s\<lparr>ps_decisions := t\<rparr>)
     (tbl_insert pd_id d (ps_decisions s))"

definition ps_listDecisions :: "ident \<Rightarrow> nat \<Rightarrow> perm_state \<Rightarrow> perm_decision list" where
  "ps_listDecisions repo n s =
     take n (order_desc pd_created (filter (\<lambda>d. pd_repo d = repo) (ps_decisions s)))"

definition ps_getDecision :: "ident \<Rightarrow> perm_state \<Rightarrow> perm_decision option" where
  "ps_getDecision i s = tbl_get pd_id i (ps_decisions s)"

text \<open>The \<open>UPDATE .. WHERE id = ? AND resolved_at IS NULL\<close>; \<open>None\<close> when it changed no row.\<close>

definition ps_resolveDecision ::
    "ident \<Rightarrow> perm_outcome \<Rightarrow> time \<Rightarrow> perm_state \<Rightarrow> perm_decision option \<times> perm_state" where
  "ps_resolveDecision i v now s =
     (let hit = (\<lambda>d. pd_id d = i \<and> pd_resolved d = None);
          s' = s\<lparr>ps_decisions := tbl_update hit
                 (\<lambda>d. d\<lparr>pd_outcome := v, pd_resolved := Some now\<rparr>) (ps_decisions s)\<rparr>
      in if filter hit (ps_decisions s) = [] then (None, s')
         else (ps_getDecision i s', s'))"

definition ps_getPolicy :: "ident \<Rightarrow> time \<Rightarrow> perm_state \<Rightarrow> perm_policy \<times> perm_state" where
  "ps_getPolicy repo now s = (case ps_storedPolicy repo s of
     Some p \<Rightarrow> (p, s)
   | None \<Rightarrow> (let p = createPermissionPreset repo BALANCED now in (p, ps_savePolicy p s)))"

text \<open>The input is the parsed request body with its repository already replaced by the route's.\<close>

definition ps_setPolicy :: "ident \<Rightarrow> perm_policy \<Rightarrow> time \<Rightarrow> perm_state \<Rightarrow> perm_policy \<times> perm_state" where
  "ps_setPolicy repo parsed now s =
     (let rules = map (\<lambda>r. let absolute = getPermissionRule (createPermissionPreset repo BALANCED now) (rule_action r)
                           in if rule_action r \<in> set absolute_actions then absolute else r)
                      (pol_rules parsed);
          p = parsed\<lparr>pol_repo := repo, pol_rules := rules, pol_updated := now\<rparr>
      in (p, ps_savePolicy p s))"

definition ps_setPreset :: "ident \<Rightarrow> perm_preset \<Rightarrow> time \<Rightarrow> perm_state \<Rightarrow> perm_policy \<times> perm_state" where
  "ps_setPreset repo preset now s =
     (let p = createPermissionPreset repo preset now in (p, ps_savePolicy p s))"

text \<open>
  \<open>evaluate\<close>: \<open>native\<close> is \<open>hasNativePermissionApi?.(repositoryId) === true\<close> and \<open>fresh\<close>
  the UUID; a primary-key clash raises, which is \<open>None\<close>.
\<close>

definition ps_evaluate ::
    "(ident \<Rightarrow> bool) \<Rightarrow> ident \<Rightarrow> time \<Rightarrow> ident \<Rightarrow> perm_action \<Rightarrow> ident option \<Rightarrow> int option
     \<Rightarrow> perm_state \<Rightarrow> (perm_decision \<times> perm_state) option" where
  "ps_evaluate native fresh now repo a run iter s0 =
     (let (policy, s) = ps_getPolicy repo now s0;
          rule = getPermissionRule policy a;
          absolute = a \<in> set absolute_actions;
          enforcement = (if absolute then ORCA_ENFORCED
                         else if native repo then NATIVE_EXECUTOR else ADVISORY_ONLY);
          actionable = (rule_outcome rule = ASK);
          rationale = (if absolute
            then ''Absolute Orca safety invariant; presets cannot relax this action.''
            else if native repo
            then ''The selected executor advertises a native permission API.''
            else ''The selected executor cannot technically enforce this policy; Orca records it as advisory and surfaces ASK decisions.'');
          d = \<lparr>pd_id = fresh, pd_repo = repo, pd_run = run, pd_iteration = iter, pd_action = a,
               pd_outcome = rule_outcome rule, pd_enforcement = enforcement,
               pd_rationale = rationale, pd_actionable = actionable,
               pd_created = now, pd_resolved = None\<rparr>
      in map_option (\<lambda>s1. (d, s1\<lparr>ps_attention := (if actionable then ps_attention s1 @ [d] else ps_attention s1),
                                  ps_events := ps_events s1 @ [d]\<rparr>))
           (ps_saveDecision d s))"

section \<open>Preset lemmas\<close>

lemma preset_rules:
  "pol_rules (createPermissionPreset repo p now) =
     map (\<lambda>a. \<lparr>rule_action = a,
               rule_outcome = (if a \<in> {OUTSIDE_REPOSITORY_FILESYSTEM, ENVIRONMENT_SECRETS_READ,
                     GIT_FORCE_PUSH, BRANCH_CREATE_DELETE, SYSTEM_PACKAGE_INSTALL} then DENY
                 else if a \<in> {REPOSITORY_FILE_READ, GIT_COMMIT} then ALLOW
                 else outcomeByPreset p)\<rparr>) permissionActions"
  by (simp add: createPermissionPreset_def permissionActions_def Let_def)

lemma all_actions: "a \<in> set permissionActions"
  by (cases a) (simp_all add: permissionActions_def)

lemma find_rule_map:
  "a \<in> set as \<Longrightarrow> find_rule a (map (\<lambda>b. \<lparr>rule_action = b, rule_outcome = f b\<rparr>) as)
     = Some \<lparr>rule_action = a, rule_outcome = f a\<rparr>"
  by (induction as) (auto simp: find_rule_def)

lemma preset_total:
  "\<exists>r. find_rule a (pol_rules (createPermissionPreset repo p now)) = Some r \<and> rule_action r = a"
  unfolding preset_rules by (subst find_rule_map) (simp_all add: all_actions)

lemma getPermissionRule_absolute:
  "a \<in> set absolute_actions \<Longrightarrow> getPermissionRule policy a = \<lparr>rule_action = a, rule_outcome = DENY\<rparr>"
  by (simp add: getPermissionRule_def Let_def)

lemma getPermissionRule_action: "rule_action (getPermissionRule policy a) = a"
proof -
  obtain r where r: "find_rule a (pol_rules (createPermissionPreset (pol_repo policy) BALANCED 0)) = Some r"
      "rule_action r = a"
    using preset_total by blast
  show ?thesis
    by (auto simp: getPermissionRule_def Let_def r find_rule_def find_Some_iff split: option.splits)
qed

lemma ps_policies_saved: "ps_storedPolicy repo (ps_savePolicy p s) =
    (if repo = pol_repo p then Some p else ps_storedPolicy repo s)"
  by (auto simp: ps_storedPolicy_def ps_savePolicy_def tbl_get_upsert)

lemma getPolicy_then_stored:
  assumes "ps_getPolicy repo now s = (p, s')"
  shows "ps_storedPolicy repo s' = Some p"
  using assms
  by (auto simp: ps_getPolicy_def Let_def ps_policies_saved createPermissionPreset_def
           split: option.splits)

lemma perm_policy_read_frame:
  "ps_getPolicy repo now s = (p, s') \<Longrightarrow> ps_decisions s' = ps_decisions s
     \<and> ps_attention s' = ps_attention s \<and> ps_events s' = ps_events s"
  by (auto simp: ps_getPolicy_def Let_def ps_savePolicy_def split: option.splits)

section \<open>Properties\<close>

text \<open>
  Whatever policy is stored for the repository, an evaluation of a force push, of access
  outside the repository or of reading environment secrets is denied, is marked as
  enforced by Orca, is recorded in the decision table, and never raises an attention request.
\<close>

theorem absolute_actions_always_denied:
  assumes "a \<in> set absolute_actions"
    and "ps_evaluate native fresh now repo a run iter s = Some (d, s')"
  shows "pd_outcome d = DENY \<and> pd_enforcement d = ORCA_ENFORCED
       \<and> ps_getDecision fresh s' = Some d \<and> ps_attention s' = ps_attention s"
proof -
  obtain p s1 where g: "ps_getPolicy repo now s = (p, s1)" by force
  have fr: "ps_attention s1 = ps_attention s" using perm_policy_read_frame [OF g] by simp
  show ?thesis
    using assms(2) fr
    by (auto simp: ps_evaluate_def g Let_def getPermissionRule_absolute [OF assms(1)] assms(1)
          ps_saveDecision_def tbl_insert_def ps_getDecision_def table_simps split: option.splits)
qed

theorem absolute_actions_always_denied_witness:
  "\<exists>d s'. ps_evaluate (\<lambda>_. True) ''d1'' 7 ''r'' GIT_FORCE_PUSH None None
       \<lparr>ps_policies = [(''r'', Json \<lparr>pol_repo = ''r'', pol_preset = CUSTOM,
            pol_rules = [\<lparr>rule_action = GIT_FORCE_PUSH, rule_outcome = ALLOW\<rparr>], pol_updated = 0\<rparr>)],
        ps_decisions = [], ps_attention = [], ps_events = []\<rparr> = Some (d, s')
     \<and> pd_outcome d = DENY \<and> pd_enforcement d = ORCA_ENFORCED"
proof -
  let ?s = "\<lparr>ps_policies = [(''r'', Json \<lparr>pol_repo = ''r'', pol_preset = CUSTOM,
            pol_rules = [\<lparr>rule_action = GIT_FORCE_PUSH, rule_outcome = ALLOW\<rparr>], pol_updated = 0\<rparr>)],
        ps_decisions = [], ps_attention = [], ps_events = []\<rparr> :: perm_state"
  obtain d s' where e: "ps_evaluate (\<lambda>_. True) ''d1'' 7 ''r'' GIT_FORCE_PUSH None None ?s = Some (d, s')"
    by (simp add: ps_evaluate_def ps_saveDecision_def tbl_insert_def table_simps
          ps_getPolicy_def ps_storedPolicy_def Let_def)
  have "GIT_FORCE_PUSH \<in> set absolute_actions" by (simp add: absolute_actions_def)
  from absolute_actions_always_denied [OF this e] e show ?thesis by blast
qed

text \<open>
  A policy that a user saves keeps only \<open>DENY\<close> rules for the absolute actions, every
  other rule is stored as given, and the stored policy is the returned one.
\<close>

theorem setPolicy_keeps_absolute_denials:
  "ps_storedPolicy repo (snd (ps_setPolicy repo parsed now s)) = Some (fst (ps_setPolicy repo parsed now s))
   \<and> pol_rules (fst (ps_setPolicy repo parsed now s)) =
       map (\<lambda>r. if rule_action r \<in> set absolute_actions
                then \<lparr>rule_action = rule_action r, rule_outcome = DENY\<rparr> else r) (pol_rules parsed)"
  by (simp add: ps_setPolicy_def Let_def ps_policies_saved getPermissionRule_absolute cong: if_cong)

lemma saveDecision_unique:
  "ps_saveDecision d s = Some s' \<Longrightarrow> unique_keys pd_id (ps_decisions s)
     \<Longrightarrow> unique_keys pd_id (ps_decisions s')"
  by (auto simp: ps_saveDecision_def tbl_insert_def unique_keys_append split: option.splits)

text \<open>
  A pending decision is settled at most once: when \<open>resolveDecision\<close> succeeds the
  stored row carries exactly the given outcome and instant, and every later attempt,
  whatever its outcome, returns null and changes nothing.
\<close>

theorem decision_settled_once:
  assumes "unique_keys pd_id (ps_decisions s)"
    and "ps_resolveDecision i v now s = (Some d, s')"
  shows "pd_outcome d = v \<and> pd_resolved d = Some now
       \<and> ps_resolveDecision i w later s' = (None, s')"
proof -
  let ?hit = "\<lambda>d. pd_id d = i \<and> pd_resolved d = None"
  let ?set = "\<lambda>d. d\<lparr>pd_outcome := v, pd_resolved := Some now\<rparr>"
  have s': "s' = s\<lparr>ps_decisions := tbl_update ?hit ?set (ps_decisions s)\<rparr>"
    and ne: "filter ?hit (ps_decisions s) \<noteq> []"
    and d: "tbl_get pd_id i (tbl_update ?hit ?set (ps_decisions s)) = Some d"
    using assms(2) by (auto simp: ps_resolveDecision_def Let_def ps_getDecision_def split: if_splits)
  obtain d0 where d0: "d0 \<in> set (ps_decisions s)" "?hit d0"
    using ne by (auto simp: filter_empty_conv)
  have "tbl_get pd_id i (ps_decisions s) = Some d0"
    using tbl_get_unique' [OF assms(1) d0(1)] d0(2) by simp
  with d d0(2) have "d = ?set d0" by (simp add: tbl_get_update)
  moreover have "filter ?hit (ps_decisions s') = []"
    using tbl_update_clears [of ?hit ?set] by (simp add: s')
  moreover have "tbl_update ?hit (\<lambda>d. d\<lparr>pd_outcome := w, pd_resolved := Some later\<rparr>) (ps_decisions s')
      = ps_decisions s'"
    by (rule tbl_update_none) fact
  ultimately show ?thesis by (simp add: ps_resolveDecision_def)
qed

theorem decision_settled_once_witness:
  "let d = \<lparr>pd_id = ''d'', pd_repo = ''r'', pd_run = None, pd_iteration = None,
             pd_action = GIT_COMMIT, pd_outcome = ASK, pd_enforcement = ADVISORY_ONLY,
             pd_rationale = [], pd_actionable = True, pd_created = 0, pd_resolved = None\<rparr>;
       s = \<lparr>ps_policies = [], ps_decisions = [d], ps_attention = [], ps_events = []\<rparr>;
       s' = s\<lparr>ps_decisions := [d\<lparr>pd_outcome := ALLOW, pd_resolved := Some 5\<rparr>]\<rparr>
   in ps_resolveDecision ''d'' DENY 9 s' = (None, s')"
proof -
  let ?d = "\<lparr>pd_id = ''d'', pd_repo = ''r'', pd_run = None, pd_iteration = None,
             pd_action = GIT_COMMIT, pd_outcome = ASK, pd_enforcement = ADVISORY_ONLY,
             pd_rationale = [], pd_actionable = True, pd_created = 0, pd_resolved = None\<rparr>"
  let ?s = "\<lparr>ps_policies = [], ps_decisions = [?d], ps_attention = [], ps_events = []\<rparr>"
  have u: "unique_keys pd_id (ps_decisions ?s)" by (simp add: unique_keys_def)
  have "ps_resolveDecision ''d'' ALLOW 5 ?s
      = (Some (?d\<lparr>pd_outcome := ALLOW, pd_resolved := Some 5\<rparr>),
         ?s\<lparr>ps_decisions := [?d\<lparr>pd_outcome := ALLOW, pd_resolved := Some 5\<rparr>]\<rparr>)"
    by (simp add: ps_resolveDecision_def tbl_update_def ps_getDecision_def table_simps)
  from decision_settled_once [OF u this, of DENY 9] show ?thesis by (simp add: Let_def)
qed

end
