(* ===== verification/Scheduler.thy ===== *)
theory Scheduler
  imports Prelude
begin

text \<open>
  Inference admission: \<open>packages/shared/src/scheduler-policy.ts\<close> and
  \<open>apps/controller/src/scheduler/\<close>. The state holds the policy row, the decision
  table and the service's two in-memory maps (\<open>active\<close>, \<open>queued\<close>), which are
  association lists in insertion order as JavaScript \<open>Map\<close>s are. Numbers that
  zod admits as finite are rationals.
\<close>

section \<open>Data\<close>

datatype sched_preset = P_ECONOMY | P_BALANCED | P_MAXIMUM | P_CUSTOM
datatype admission_status = ADMITTED | QUEUED | REJECTED | RELEASED | STALE_RECOVERABLE
datatype limit_dim =
    TOTAL_ACTIVE_INFERENCE_SESSIONS | PER_PROVIDER_CONCURRENCY | PER_MODEL_CONCURRENCY
  | PER_REPOSITORY_SUBAGENT_CONCURRENCY | MACHINE_CPU_PERCENT | MACHINE_MEMORY_MB
  | CAMPAIGN_TOKEN_BUDGET | CAMPAIGN_SPEND_BUDGET
datatype request_kind = PRIMARY_EXECUTOR | SUBAGENT

fun dim_name :: "limit_dim \<Rightarrow> string" where
  "dim_name TOTAL_ACTIVE_INFERENCE_SESSIONS = ''TOTAL_ACTIVE_INFERENCE_SESSIONS''"
| "dim_name PER_PROVIDER_CONCURRENCY = ''PER_PROVIDER_CONCURRENCY''"
| "dim_name PER_MODEL_CONCURRENCY = ''PER_MODEL_CONCURRENCY''"
| "dim_name PER_REPOSITORY_SUBAGENT_CONCURRENCY = ''PER_REPOSITORY_SUBAGENT_CONCURRENCY''"
| "dim_name MACHINE_CPU_PERCENT = ''MACHINE_CPU_PERCENT''"
| "dim_name MACHINE_MEMORY_MB = ''MACHINE_MEMORY_MB''"
| "dim_name CAMPAIGN_TOKEN_BUDGET = ''CAMPAIGN_TOKEN_BUDGET''"
| "dim_name CAMPAIGN_SPEND_BUDGET = ''CAMPAIGN_SPEND_BUDGET''"

record sched_policy =
  sp_preset :: sched_preset
  sp_enabled :: bool
  sp_queueWhenLimited :: bool
  sp_total :: "nat option"
  sp_perProvider :: "nat option"
  sp_perModel :: "nat option"
  sp_perRepoSubagent :: "nat option"
  sp_cpuPercent :: "rat option"
  sp_memoryMb :: "rat option"
  sp_tokenBudget :: "rat option"
  sp_spendBudget :: "rat option"
  sp_updated :: time

record admission_request =
  rq_id :: ident
  rq_repo :: ident
  rq_run :: "ident option"
  rq_iteration :: "int option"
  rq_executor :: string
  rq_provider :: "string option"
  rq_model :: string
  rq_kind :: request_kind
  rq_tokens :: "rat option"
  rq_spend :: "rat option"
  rq_cpu :: "rat option"
  rq_memory :: "rat option"
  rq_requestedAt :: "time option"

record sched_decision =
  sd_id :: ident
  sd_request :: ident
  sd_repo :: ident
  sd_run :: "ident option"
  sd_iteration :: "int option"
  sd_executor :: string
  sd_provider :: "string option"
  sd_model :: string
  sd_kind :: request_kind
  sd_status :: admission_status
  sd_blockedBy :: "limit_dim option"
  sd_reason :: string
  sd_queuedAt :: "time option"
  sd_runnableAt :: "time option"
  sd_resolvedAt :: "time option"
  sd_policy :: sched_policy
  sd_created :: time

definition DEFAULT_SCHEDULER_POLICY :: sched_policy where
  "DEFAULT_SCHEDULER_POLICY = \<lparr>sp_preset = P_BALANCED, sp_enabled = True, sp_queueWhenLimited = True,
     sp_total = None, sp_perProvider = None, sp_perModel = None, sp_perRepoSubagent = None,
     sp_cpuPercent = None, sp_memoryMb = None, sp_tokenBudget = None, sp_spendBudget = None,
     sp_updated = 0\<rparr>"

text \<open>
  \<open>schedulerPolicySchema.parse\<close>: positive limits, a percentage of at most 100.
  \<open>None\<close> is the \<open>ZodError\<close>.
\<close>

definition pos_ok :: "'a::{zero,ord} option \<Rightarrow> bool" where
  "pos_ok x = (case x of None \<Rightarrow> True | Some v \<Rightarrow> 0 < v)"

definition pct_ok :: "rat option \<Rightarrow> bool" where
  "pct_ok x = (case x of None \<Rightarrow> True | Some v \<Rightarrow> 0 < v \<and> v \<le> 100)"

definition parse_policy :: "sched_policy \<Rightarrow> sched_policy option" where
  "parse_policy p = (if pos_ok (sp_total p) \<and> pos_ok (sp_perProvider p) \<and> pos_ok (sp_perModel p)
      \<and> pos_ok (sp_perRepoSubagent p) \<and> pct_ok (sp_cpuPercent p) \<and> pos_ok (sp_memoryMb p)
      \<and> pos_ok (sp_tokenBudget p) \<and> pos_ok (sp_spendBudget p) then Some p else None)"

definition z_opt :: "nat \<Rightarrow> nat \<Rightarrow> string option \<Rightarrow> string option option" where
  "z_opt lo hi x = (case x of None \<Rightarrow> Some None | Some s \<Rightarrow> map_option Some (z_trimmed lo hi s))"

text \<open>\<open>schedulerAdmissionRequestSchema.parse\<close>: trimmed bounded strings, positive amounts.\<close>

definition parse_request :: "admission_request \<Rightarrow> admission_request option" where
  "parse_request r =
     (case (z_trimmed 1 200 (rq_id r), z_trimmed 1 200 (rq_repo r), z_opt 0 200 (rq_run r),
            z_trimmed 1 200 (rq_executor r), z_opt 0 200 (rq_provider r), z_trimmed 1 300 (rq_model r)) of
        (Some i, Some repo, Some run, Some ex, Some pr, Some m) \<Rightarrow>
          (if pos_ok (rq_iteration r) \<and> pos_ok (rq_tokens r) \<and> pos_ok (rq_spend r)
              \<and> pct_ok (rq_cpu r) \<and> pos_ok (rq_memory r)
           then Some (r\<lparr>rq_id := i, rq_repo := repo, rq_run := run, rq_executor := ex,
                        rq_provider := pr, rq_model := m\<rparr>)
           else None)
      | _ \<Rightarrow> None)"

section \<open>Store\<close>

record sched_state =
  ss_policy :: "sched_policy json option"
  ss_decisions :: "sched_decision list"
  ss_active :: "(ident \<times> admission_request) list"
  ss_queued :: "(ident \<times> admission_request) list"

definition ss_savePolicy :: "sched_policy \<Rightarrow> sched_state \<Rightarrow> sched_state" where
  "ss_savePolicy p s = s\<lparr>ss_policy := Some (Json p)\<rparr>"

definition ss_getPolicy :: "time \<Rightarrow> sched_state \<Rightarrow> sched_policy \<times> sched_state" where
  "ss_getPolicy now s = (case ss_policy s of
     None \<Rightarrow> (let p = DEFAULT_SCHEDULER_POLICY\<lparr>sp_updated := now\<rparr> in (p, ss_savePolicy p s))
   | Some j \<Rightarrow> (json_or (DEFAULT_SCHEDULER_POLICY\<lparr>sp_updated := now\<rparr>) j, s))"

text \<open>The \<open>INSERT\<close>; a repeated decision id raises (\<open>None\<close>).\<close>

definition ss_saveDecision :: "sched_decision \<Rightarrow> sched_state \<Rightarrow> sched_state option" where
  "ss_saveDecision d s = map_option (\<lambda>t. s\<lparr>ss_decisions := t\<rparr>) (tbl_insert sd_id d (ss_decisions s))"

definition ss_getDecision :: "ident \<Rightarrow> sched_state \<Rightarrow> sched_decision option" where
  "ss_getDecision rid s =
     first_row (order_desc sd_created (filter (\<lambda>d. sd_request d = rid) (ss_decisions s)))"

definition ss_listDecisions :: "nat \<Rightarrow> sched_state \<Rightarrow> sched_decision list" where
  "ss_listDecisions n s = take n (order_desc sd_created (ss_decisions s))"

text \<open>
  \<open>updateDecision\<close>: the patch is a function on the current row, of which the
  \<open>UPDATE\<close> writes five columns only (\<open>queued_at\<close> is not among them).
\<close>

definition sd_write :: "sched_decision \<Rightarrow> sched_decision \<Rightarrow> sched_decision" where
  "sd_write nxt d = d\<lparr>sd_status := sd_status nxt, sd_blockedBy := sd_blockedBy nxt, sd_reason := sd_reason nxt,
     sd_runnableAt := sd_runnableAt nxt, sd_resolvedAt := sd_resolvedAt nxt\<rparr>"

definition ss_updateDecision ::
    "ident \<Rightarrow> (sched_decision \<Rightarrow> sched_decision) \<Rightarrow> sched_state \<Rightarrow> sched_state" where
  "ss_updateDecision rid patch s = (case ss_getDecision rid s of None \<Rightarrow> s
     | Some cur \<Rightarrow> (let nxt = patch cur in
         s\<lparr>ss_decisions := tbl_update (\<lambda>d. sd_request d = rid \<and> sd_id d = sd_id cur)
            (sd_write nxt) (ss_decisions s)\<rparr>))"

section \<open>Service\<close>

definition at_limit :: "'a::ord option \<Rightarrow> 'a \<Rightarrow> bool" where
  "at_limit l n = (case l of None \<Rightarrow> False | Some m \<Rightarrow> m \<le> n)"

definition over_limit :: "rat option \<Rightarrow> rat option \<Rightarrow> bool" where
  "over_limit l x = (case l of None \<Rightarrow> False | Some m \<Rightarrow> m < (case x of None \<Rightarrow> 0 | Some v \<Rightarrow> v))"

definition count_where :: "(admission_request \<Rightarrow> bool) \<Rightarrow> (ident \<times> admission_request) list \<Rightarrow> nat" where
  "count_where p active = length (filter p (map snd active))"

definition firstLimit ::
    "sched_policy \<Rightarrow> (ident \<times> admission_request) list \<Rightarrow> admission_request \<Rightarrow> limit_dim option" where
  "firstLimit policy active r =
     (if at_limit (sp_total policy) (length active) then Some TOTAL_ACTIVE_INFERENCE_SESSIONS
      else if rq_provider r \<noteq> None \<and> rq_provider r \<noteq> Some []
         \<and> at_limit (sp_perProvider policy) (count_where (\<lambda>x. rq_provider x = rq_provider r) active)
        then Some PER_PROVIDER_CONCURRENCY
      else if at_limit (sp_perModel policy) (count_where (\<lambda>x. rq_model x = rq_model r) active)
        then Some PER_MODEL_CONCURRENCY
      else if rq_kind r = SUBAGENT \<and> at_limit (sp_perRepoSubagent policy)
           (count_where (\<lambda>x. rq_repo x = rq_repo r \<and> rq_kind x = SUBAGENT) active)
        then Some PER_REPOSITORY_SUBAGENT_CONCURRENCY
      else if over_limit (sp_cpuPercent policy) (rq_cpu r) then Some MACHINE_CPU_PERCENT
      else if over_limit (sp_memoryMb policy) (rq_memory r) then Some MACHINE_MEMORY_MB
      else if over_limit (sp_tokenBudget policy) (rq_tokens r) then Some CAMPAIGN_TOKEN_BUDGET
      else if over_limit (sp_spendBudget policy) (rq_spend r) then Some CAMPAIGN_SPEND_BUDGET
      else None)"

definition blocked_by ::
    "sched_policy \<Rightarrow> (ident \<times> admission_request) list \<Rightarrow> admission_request \<Rightarrow> limit_dim option" where
  "blocked_by policy active r = (if sp_enabled policy then firstLimit policy active r else None)"

definition setPolicy :: "sched_policy \<Rightarrow> sched_state \<Rightarrow> (sched_policy \<times> sched_state) option" where
  "setPolicy input s = map_option (\<lambda>p. (p, ss_savePolicy p s)) (parse_policy input)"

datatype admit_error = ZodError | SqliteError

text \<open>The decision that \<open>admit\<close> builds, given the row found for the request.\<close>

definition admit_decision ::
    "ident \<Rightarrow> time \<Rightarrow> admission_request \<Rightarrow> sched_decision option \<Rightarrow> sched_policy \<Rightarrow> limit_dim option
     \<Rightarrow> sched_decision" where
  "admit_decision fresh now r existing policy blocked =
     (let status = (if blocked \<noteq> None then (if sp_queueWhenLimited policy then QUEUED else REJECTED) else ADMITTED);
          oldBlocked = Option.bind existing sd_blockedBy;
          oldQueued = Option.bind existing sd_queuedAt;
          wasQueued = (oldQueued \<noteq> None)
      in \<lparr>sd_id = (case existing of Some e \<Rightarrow> sd_id e | None \<Rightarrow> fresh),
          sd_request = rq_id r, sd_repo = rq_repo r, sd_run = rq_run r, sd_iteration = rq_iteration r,
          sd_executor = rq_executor r, sd_provider = rq_provider r, sd_model = rq_model r,
          sd_kind = rq_kind r, sd_status = status,
          sd_blockedBy = coalesce oldBlocked blocked,
          sd_reason = (case blocked of
              Some b \<Rightarrow> ''Queued by explicit '' @ dim_name b @ '' limit.''
            | None \<Rightarrow> if wasQueued
                then ''Admitted after the explicit scheduler limit '' @
                     (case oldBlocked of Some b \<Rightarrow> dim_name b | None \<Rightarrow> ''configured'') @ '' became available.''
                else ''Admitted: no configured scheduler limit blocks this request.''),
          sd_queuedAt = coalesce oldQueued (if blocked \<noteq> None \<and> status = QUEUED then Some now else None),
          sd_runnableAt = (if status = ADMITTED \<and> wasQueued then Some now else None),
          sd_resolvedAt = (if status = REJECTED then Some now else None),
          sd_policy = policy,
          sd_created = (case existing of Some e \<Rightarrow> sd_created e | None \<Rightarrow> now)\<rparr>)"

definition admit ::
    "ident \<Rightarrow> time \<Rightarrow> admission_request \<Rightarrow> sched_state \<Rightarrow> admit_error + (sched_decision \<times> sched_state)" where
  "admit fresh clock input s0 = (case parse_request input of None \<Rightarrow> Inl ZodError | Some r \<Rightarrow>
     (let existing = ss_getDecision (rq_id r) s0;
          again = (case existing of Some e \<Rightarrow> sd_status e = ADMITTED \<and> map_of (ss_active s0) (rq_id r) \<noteq> None
                                  | None \<Rightarrow> False)
      in if again then Inr (the existing, s0)
         else (let (policy, s) = ss_getPolicy clock s0;
                   now = (case rq_requestedAt r of Some t \<Rightarrow> t | None \<Rightarrow> clock);
                   d = admit_decision fresh now r existing policy (blocked_by policy (ss_active s) r);
                   stored = (case existing of None \<Rightarrow> ss_saveDecision d s
                                            | Some _ \<Rightarrow> Some (ss_updateDecision (rq_id r) (\<lambda>_. d) s))
               in (case stored of None \<Rightarrow> Inl SqliteError
                   | Some s1 \<Rightarrow> Inr (d, s1\<lparr>
                       ss_active := (if sd_status d = ADMITTED then AList.update (rq_id r) r (ss_active s1) else ss_active s1),
                       ss_queued := (if sd_status d = QUEUED then AList.update (rq_id r) r (ss_queued s1) else ss_queued s1)\<rparr>)))))"

text \<open>One turn of the \<open>admitQueued\<close> loop, and the loop over the queue's entries.\<close>

definition admitQueued_step :: "time \<Rightarrow> ident \<times> admission_request \<Rightarrow> sched_state \<Rightarrow> sched_state" where
  "admitQueued_step now e s0 =
     (let (policy, s) = ss_getPolicy now s0 in
      if blocked_by policy (ss_active s) (snd e) \<noteq> None then s
      else (let s1 = s\<lparr>ss_active := AList.update (fst e) (snd e) (ss_active s),
                       ss_queued := AList.delete (fst e) (ss_queued s)\<rparr>;
                cur = ss_getDecision (fst e) s1;
                oldBlocked = Option.bind cur sd_blockedBy
            in ss_updateDecision (fst e) (\<lambda>d. d\<lparr>sd_status := ADMITTED, sd_blockedBy := oldBlocked,
                 sd_reason := (case oldBlocked of
                     Some b \<Rightarrow> ''Admitted after the explicit scheduler limit '' @ dim_name b @ '' became available.''
                   | None \<Rightarrow> ''Admitted after the explicit scheduler limit became available.''),
                 sd_runnableAt := Some now\<rparr>) s1))"

definition admitQueued :: "time \<Rightarrow> sched_state \<Rightarrow> sched_state" where
  "admitQueued now s = fold (admitQueued_step now) (ss_queued s) s"

definition release :: "ident \<Rightarrow> time \<Rightarrow> sched_state \<Rightarrow> sched_decision option \<times> sched_state" where
  "release rid now s =
     (let s1 = s\<lparr>ss_active := AList.delete rid (ss_active s), ss_queued := AList.delete rid (ss_queued s)\<rparr>;
          s2 = ss_updateDecision rid (\<lambda>d. d\<lparr>sd_status := RELEASED,
                 sd_reason := ''Released by the owning execution strategy.'', sd_resolvedAt := Some now\<rparr>) s1;
          s3 = admitQueued now s2
      in (ss_getDecision rid s3, s3))"

definition request_of_decision :: "sched_decision \<Rightarrow> admission_request" where
  "request_of_decision d = \<lparr>rq_id = sd_request d, rq_repo = sd_repo d, rq_run = sd_run d,
     rq_iteration = sd_iteration d, rq_executor = sd_executor d, rq_provider = sd_provider d,
     rq_model = sd_model d, rq_kind = sd_kind d, rq_tokens = None, rq_spend = None, rq_cpu = None,
     rq_memory = None, rq_requestedAt = None\<rparr>"

definition recover_step ::
    "ident list \<Rightarrow> time \<Rightarrow> sched_decision \<Rightarrow> sched_decision list \<times> sched_state \<Rightarrow> sched_decision list \<times> sched_state" where
  "recover_step ids now d = (\<lambda>(acc, s).
     if sd_status d \<noteq> ADMITTED then (acc, s)
     else if sd_request d \<in> set ids
       then (acc, s\<lparr>ss_active := AList.update (sd_request d) (request_of_decision d) (ss_active s)\<rparr>)
     else (let s1 = ss_updateDecision (sd_request d) (\<lambda>c. c\<lparr>sd_status := STALE_RECOVERABLE,
                 sd_reason := ''Admission lease was not confirmed after controller restart; execution strategy must reconcile it.'',
                 sd_resolvedAt := Some now\<rparr>) s
           in (acc @ (case ss_getDecision (sd_request d) s1 of None \<Rightarrow> [] | Some n \<Rightarrow> [n]), s1)))"

definition recover :: "ident list \<Rightarrow> time \<Rightarrow> sched_state \<Rightarrow> sched_decision list \<times> sched_state" where
  "recover ids now s = fold (recover_step ids now) (ss_listDecisions 1000 s) ([], s)"

text \<open>\<open>const [strategyRunId, rest] = requestId.split(":")\<close>: both must be non-empty to name a run.\<close>

definition owning_run :: "ident \<Rightarrow> ident option" where
  "owning_run rid = (case js_split (CHR '':'') rid of
     a # b # _ \<Rightarrow> if a \<noteq> [] \<and> b \<noteq> [] then Some a else None | _ \<Rightarrow> None)"

definition reconcile_step ::
    "time \<Rightarrow> sched_decision \<Rightarrow> sched_decision list \<times> sched_state \<Rightarrow> sched_decision list \<times> sched_state" where
  "reconcile_step now d = (\<lambda>(acc, s).
     if sd_status d \<noteq> STALE_RECOVERABLE then (acc, s)
     else (let s1 = ss_updateDecision (sd_request d) (\<lambda>c. c\<lparr>sd_status := RELEASED,
                 sd_reason := (case owning_run (sd_request d) of
                     Some run \<Rightarrow> ''Stale admission lease closed after startup reconciliation; owning strategy run '' @ run
                                 @ '' cannot re-admit it (recovery is ownership-terminal).''
                   | None \<Rightarrow> ''Stale admission lease closed after startup reconciliation; its owning request cannot be re-admitted.''),
                 sd_resolvedAt := Some now\<rparr>) s
           in (acc @ (case ss_getDecision (sd_request d) s1 of None \<Rightarrow> [] | Some n \<Rightarrow> [n]), s1)))"

definition reconcileStaleLeases :: "time \<Rightarrow> sched_state \<Rightarrow> sched_decision list \<times> sched_state" where
  "reconcileStaleLeases now s = fold (reconcile_step now) (ss_listDecisions 1000 s) ([], s)"

section \<open>Concurrency limits\<close>

text \<open>What the four concurrency limits promise of the set of admitted requests.\<close>

definition within_limits :: "sched_policy \<Rightarrow> (ident \<times> admission_request) list \<Rightarrow> bool" where
  "within_limits p active \<longleftrightarrow>
     (\<forall>m. sp_total p = Some m \<longrightarrow> length active \<le> m)
   \<and> (\<forall>m pr. sp_perProvider p = Some m \<longrightarrow> pr \<noteq> [] \<longrightarrow> count_where (\<lambda>x. rq_provider x = Some pr) active \<le> m)
   \<and> (\<forall>m md. sp_perModel p = Some m \<longrightarrow> count_where (\<lambda>x. rq_model x = md) active \<le> m)
   \<and> (\<forall>m rp. sp_perRepoSubagent p = Some m \<longrightarrow>
        count_where (\<lambda>x. rq_repo x = rp \<and> rq_kind x = SUBAGENT) active \<le> m)"

text \<open>The policy in force, without the write that a first read performs.\<close>

definition policy_now :: "sched_state \<Rightarrow> sched_policy" where
  "policy_now s = fst (ss_getPolicy 0 s)"

definition sched_inv :: "sched_state \<Rightarrow> bool" where
  "sched_inv s \<longleftrightarrow> (sp_enabled (policy_now s) \<longrightarrow> within_limits (policy_now s) (ss_active s))"

lemma count_where_update:
  "count_where p (AList.update k r al) \<le> count_where p al + (if p r then 1 else 0)"
  by (induction al) (auto simp: count_where_def)

lemma length_alist_update: "length (AList.update k r al) \<le> Suc (length al)"
  by (induction al) auto

lemma count_where_delete: "count_where p (AList.delete k al) \<le> count_where p al"
  by (induction al) (auto simp: count_where_def AList.delete_eq)

lemma length_alist_delete: "length (AList.delete k al) \<le> length al"
  by (simp add: AList.delete_eq)

lemma within_limits_delete: "within_limits p al \<Longrightarrow> within_limits p (AList.delete k al)"
  unfolding within_limits_def
  by (meson count_where_delete length_alist_delete order_trans)

lemma not_at_limit: "\<not> at_limit (Some m) (n::nat) \<longleftrightarrow> n < m"
  by (auto simp: at_limit_def)

lemma firstLimit_NoneD:
  assumes "firstLimit p al r = None"
  shows "\<not> at_limit (sp_total p) (length al)"
    and "rq_provider r = Some pr \<Longrightarrow> pr \<noteq> [] \<Longrightarrow>
           \<not> at_limit (sp_perProvider p) (count_where (\<lambda>x. rq_provider x = Some pr) al)"
    and "\<not> at_limit (sp_perModel p) (count_where (\<lambda>x. rq_model x = rq_model r) al)"
    and "rq_kind r = SUBAGENT \<Longrightarrow>
           \<not> at_limit (sp_perRepoSubagent p) (count_where (\<lambda>x. rq_repo x = rq_repo r \<and> rq_kind x = SUBAGENT) al)"
  using assms by (auto simp: firstLimit_def split: if_splits)

lemma update_within_limit:
  assumes "count_where q al \<le> m" and "q r \<Longrightarrow> count_where q al < m"
  shows "count_where q (AList.update k r al) \<le> (m::nat)"
  using assms count_where_update [of q k r al] by (cases "q r") auto

text \<open>Admitting a request that no limit blocks keeps every limit.\<close>

lemma within_limits_admit:
  assumes w: "within_limits p al" and n: "firstLimit p al r = None"
  shows "within_limits p (AList.update k r al)"
  unfolding within_limits_def
proof (intro conjI allI impI)
  fix m assume "sp_total p = Some m"
  then show "length (AList.update k r al) \<le> m"
    using firstLimit_NoneD(1) [OF n] length_alist_update [of k r al]
    by (simp add: not_at_limit)
next
  fix m and pr :: string assume "sp_perProvider p = Some m" "pr \<noteq> []"
  then show "count_where (\<lambda>x. rq_provider x = Some pr) (AList.update k r al) \<le> m"
    using w firstLimit_NoneD(2) [OF n, of pr]
    by (intro update_within_limit) (auto simp: within_limits_def not_at_limit)
next
  fix m md assume "sp_perModel p = Some m"
  then show "count_where (\<lambda>x. rq_model x = md) (AList.update k r al) \<le> m"
    using w firstLimit_NoneD(3) [OF n]
    by (intro update_within_limit) (auto simp: within_limits_def not_at_limit)
next
  fix m rp assume "sp_perRepoSubagent p = Some m"
  then show "count_where (\<lambda>x. rq_repo x = rp \<and> rq_kind x = SUBAGENT) (AList.update k r al) \<le> m"
    using w firstLimit_NoneD(4) [OF n]
    by (intro update_within_limit) (auto simp: within_limits_def not_at_limit)
qed

subsection \<open>Frame of the store operations\<close>

lemma updateDecision_frame [simp]:
  "ss_active (ss_updateDecision rid f s) = ss_active s"
  "ss_queued (ss_updateDecision rid f s) = ss_queued s"
  "ss_policy (ss_updateDecision rid f s) = ss_policy s"
  by (simp_all add: ss_updateDecision_def Let_def split: option.splits)

lemma getPolicy_frame [simp]:
  "ss_active (snd (ss_getPolicy now s)) = ss_active s"
  "ss_queued (snd (ss_getPolicy now s)) = ss_queued s"
  "ss_decisions (snd (ss_getPolicy now s)) = ss_decisions s"
  by (simp_all add: ss_getPolicy_def ss_savePolicy_def Let_def split: option.splits)

lemma saveDecision_frame:
  "ss_saveDecision d s = Some s' \<Longrightarrow> ss_active s' = ss_active s \<and> ss_queued s' = ss_queued s \<and> ss_policy s' = ss_policy s"
  by (auto simp: ss_saveDecision_def)

text \<open>The instant at which a policy is first read is the only part of it that varies.\<close>

lemma policy_now_getPolicy:
  "fst (ss_getPolicy now s) = (policy_now s)\<lparr>sp_updated := sp_updated (fst (ss_getPolicy now s))\<rparr>"
  by (cases "ss_policy s"; cases "the (ss_policy s)")
     (simp_all add: policy_now_def ss_getPolicy_def Let_def DEFAULT_SCHEDULER_POLICY_def)

lemma policy_now_kept [simp]:
  "policy_now (ss_updateDecision rid f s) = policy_now s"
  "policy_now (s\<lparr>ss_active := a\<rparr>) = policy_now s"
  "policy_now (s\<lparr>ss_queued := q\<rparr>) = policy_now s"
  "policy_now (s\<lparr>ss_decisions := t\<rparr>) = policy_now s"
  by (simp_all add: policy_now_def ss_getPolicy_def ss_savePolicy_def Let_def split: option.splits)

lemma policy_now_after_read:
  "\<exists>t. policy_now (snd (ss_getPolicy now s)) = (policy_now s)\<lparr>sp_updated := t\<rparr>"
  by (cases "ss_policy s")
     (auto simp: policy_now_def ss_getPolicy_def ss_savePolicy_def Let_def DEFAULT_SCHEDULER_POLICY_def
           intro: exI [of _ "sp_updated (fst (ss_getPolicy 0 s))"])

lemma limits_ignore_updated [simp]:
  "within_limits (p\<lparr>sp_updated := t\<rparr>) al = within_limits p al"
  "firstLimit (p\<lparr>sp_updated := t\<rparr>) al r = firstLimit p al r"
  "blocked_by (p\<lparr>sp_updated := t\<rparr>) al r = blocked_by p al r"
  by (simp_all add: within_limits_def firstLimit_def blocked_by_def)

lemma blocked_by_read [simp]: "blocked_by (fst (ss_getPolicy now s)) al r = blocked_by (policy_now s) al r"
  by (subst policy_now_getPolicy) (rule limits_ignore_updated)

text \<open>Only the limits of the policy and the admitted requests matter to the invariant.\<close>

lemma sched_invI:
  assumes "policy_now s' = (policy_now s)\<lparr>sp_updated := t\<rparr>" and "sched_inv s"
    and "\<And>p. p = policy_now s \<Longrightarrow> sp_enabled p \<Longrightarrow> within_limits p (ss_active s) \<Longrightarrow> within_limits p (ss_active s')"
  shows "sched_inv s'"
  using assms by (simp add: sched_inv_def)

lemma sched_inv_read: "sched_inv s \<Longrightarrow> sched_inv (snd (ss_getPolicy now s))"
  using policy_now_after_read [of now s] by (auto intro: sched_invI)

lemma sched_inv_activate:
  assumes "sched_inv s" and "blocked_by (policy_now s) (ss_active s) r = None"
  shows "sched_inv (s\<lparr>ss_active := AList.update k r (ss_active s), ss_queued := q\<rparr>)"
  using assms by (auto simp: sched_inv_def blocked_by_def within_limits_admit)

lemma sched_inv_update: "sched_inv s \<Longrightarrow> sched_inv (ss_updateDecision rid f s)"
  by (simp add: sched_inv_def)

lemma admit_decision_status:
  "sd_status (admit_decision fresh now r e p b) =
     (if b = None then ADMITTED else if sp_queueWhenLimited p then QUEUED else REJECTED)"
  by (simp add: admit_decision_def Let_def)

text \<open>The state after a decision is stored, whichever way.\<close>

lemma stored_frame:
  assumes "(case existing of None \<Rightarrow> ss_saveDecision d s | Some _ \<Rightarrow> Some (ss_updateDecision rid f s)) = Some s1"
  shows "ss_active s1 = ss_active s \<and> ss_queued s1 = ss_queued s \<and> policy_now s1 = policy_now s"
  using assms
  by (auto simp: saveDecision_frame policy_now_def ss_getPolicy_def ss_savePolicy_def Let_def
           split: option.splits)

lemma admit_cases:
  assumes "admit fresh clock input s = Inr (d, s')"
  obtains (again) r where "parse_request input = Some r" "ss_getDecision (rq_id r) s = Some d"
      "sd_status d = ADMITTED" "map_of (ss_active s) (rq_id r) \<noteq> None" "s' = s"
  | (decided) r now p s0 s1 where "parse_request input = Some r" "ss_getPolicy clock s = (p, s0)"
      "d = admit_decision fresh now r (ss_getDecision (rq_id r) s) p (blocked_by p (ss_active s) r)"
      "(case ss_getDecision (rq_id r) s of None \<Rightarrow> ss_saveDecision d s0
          | Some _ \<Rightarrow> Some (ss_updateDecision (rq_id r) (\<lambda>_. d) s0)) = Some s1"
      "s' = s1\<lparr>ss_active := (if sd_status d = ADMITTED then AList.update (rq_id r) r (ss_active s) else ss_active s),
               ss_queued := (if sd_status d = QUEUED then AList.update (rq_id r) r (ss_queued s) else ss_queued s)\<rparr>"
proof -
  obtain r where r: "parse_request input = Some r"
    using assms by (auto simp: admit_def split: option.splits)
  obtain p s0 where g: "ss_getPolicy clock s = (p, s0)" by force
  have fr: "ss_active s0 = ss_active s" "ss_queued s0 = ss_queued s"
    using getPolicy_frame [of clock s] by (simp_all add: g)
  show thesis
  proof (cases "\<exists>e. ss_getDecision (rq_id r) s = Some e \<and> sd_status e = ADMITTED \<and> map_of (ss_active s) (rq_id r) \<noteq> None")
    case True
    then show thesis using assms r by (intro again [of r]) (auto simp: admit_def)
  next
    case False
    define now where "now = (case rq_requestedAt r of Some t \<Rightarrow> t | None \<Rightarrow> clock)"
    define d0 where "d0 = admit_decision fresh now r (ss_getDecision (rq_id r) s) p (blocked_by p (ss_active s) r)"
    let ?st = "case ss_getDecision (rq_id r) s of None \<Rightarrow> ss_saveDecision d0 s0
          | Some _ \<Rightarrow> Some (ss_updateDecision (rq_id r) (\<lambda>_. d0) s0)"
    have "admit fresh clock input s = (case ?st of None \<Rightarrow> Inl SqliteError
        | Some s1 \<Rightarrow> Inr (d0, s1\<lparr>
            ss_active := (if sd_status d0 = ADMITTED then AList.update (rq_id r) r (ss_active s1) else ss_active s1),
            ss_queued := (if sd_status d0 = QUEUED then AList.update (rq_id r) r (ss_queued s1) else ss_queued s1)\<rparr>))"
      using False by (auto simp: admit_def r g fr Let_def now_def d0_def split: option.splits)
    with assms obtain s1 where s1: "?st = Some s1" and "d = d0" and
      s': "s' = s1\<lparr>ss_active := (if sd_status d0 = ADMITTED then AList.update (rq_id r) r (ss_active s1) else ss_active s1),
                   ss_queued := (if sd_status d0 = QUEUED then AList.update (rq_id r) r (ss_queued s1) else ss_queued s1)\<rparr>"
      by (auto split: option.splits)
    have "ss_active s1 = ss_active s" "ss_queued s1 = ss_queued s"
      using stored_frame [OF s1] fr by simp_all
    then show thesis
      by (intro decided [OF r g d0_def [folded \<open>d = d0\<close>] s1 [folded \<open>d = d0\<close>]]) (simp add: s' \<open>d = d0\<close>)
  qed
qed

text \<open>Admission keeps every concurrency limit of the policy in force.\<close>

lemma admit_keeps_inv:
  assumes inv: "sched_inv s" and a: "admit fresh clock input s = Inr (d, s')"
  shows "sched_inv s'"
  using a
proof (cases rule: admit_cases)
  case (again r)
  then show ?thesis using inv by simp
next
  case (decided r now p s0 s1)
  have p: "blocked_by p al r = blocked_by (policy_now s) al r" for al
    using blocked_by_read [of clock s al r] by (simp add: decided(2))
  obtain t where t: "policy_now s1 = (policy_now s)\<lparr>sp_updated := t\<rparr>"
    using stored_frame [OF decided(4)] policy_now_after_read [of clock s] by (auto simp: decided(2))
  have "sd_status d = ADMITTED \<Longrightarrow> blocked_by (policy_now s) (ss_active s) r = None"
    by (auto simp: decided(3) admit_decision_status p split: if_splits)
  then show ?thesis
    by (intro sched_invI [OF _ inv, of _ t])
       (auto simp: decided(5) t blocked_by_def intro: within_limits_admit)
qed

lemma admitQueued_step_inv: "sched_inv s \<Longrightarrow> sched_inv (admitQueued_step now e s)"
proof -
  assume inv: "sched_inv s"
  obtain p s0 where g: "ss_getPolicy now s = (p, s0)" by force
  have inv0: "sched_inv s0" using sched_inv_read [OF inv, of now] by (simp add: g)
  have p: "blocked_by p al r = blocked_by (policy_now s0) al r" for al r
    using blocked_by_read [of now s al r] policy_now_after_read [of now s] by (auto simp: g)
  show ?thesis
    by (auto simp: admitQueued_step_def g Let_def p intro!: sched_inv_update sched_inv_activate inv0)
qed

lemma admitQueued_inv: "sched_inv s \<Longrightarrow> sched_inv (admitQueued now s)"
  unfolding admitQueued_def
  by (rule fold_invariant [where Q = "\<lambda>_. True"]) (auto intro: admitQueued_step_inv)

lemma release_keeps_inv: "sched_inv s \<Longrightarrow> sched_inv (snd (release rid now s))"
  by (auto simp: release_def Let_def sched_inv_def within_limits_delete
           intro!: admitQueued_inv [unfolded sched_inv_def, rule_format])

section \<open>Histories\<close>

datatype sched_op = OpAdmit ident time admission_request | OpRelease ident time

text \<open>A rejected input raises to the caller and leaves the service as it was.\<close>

fun sched_step :: "sched_op \<Rightarrow> sched_state \<Rightarrow> sched_state" where
  "sched_step (OpAdmit fresh now r) s = (case admit fresh now r s of Inl _ \<Rightarrow> s | Inr (_, s') \<Rightarrow> s')"
| "sched_step (OpRelease rid now) s = snd (release rid now s)"

lemma sched_step_inv: "sched_inv s \<Longrightarrow> sched_inv (sched_step op s)"
  by (cases op) (auto intro: admit_keeps_inv release_keeps_inv split: sum.splits)

lemma stored_policy_read:
  "ss_policy s = Some (Json p) \<Longrightarrow> ss_getPolicy now s = (p, s)"
  by (simp add: ss_getPolicy_def)

lemma admitQueued_step_policy:
  "ss_policy s = Some (Json p) \<Longrightarrow> ss_policy (admitQueued_step now e s) = Some (Json p)"
  by (simp add: admitQueued_step_def stored_policy_read Let_def)

lemma admitQueued_policy:
  assumes "ss_policy s = Some (Json p)"
  shows "ss_policy (admitQueued now s) = Some (Json p)"
  unfolding admitQueued_def
  by (rule fold_invariant [where Q = "\<lambda>_. True" and P = "\<lambda>s. ss_policy s = Some (Json p)"])
     (auto intro: admitQueued_step_policy assms)

lemma sched_step_policy:
  assumes p: "ss_policy s = Some (Json p)"
  shows "ss_policy (sched_step op s) = Some (Json p)"
proof (cases op)
  case (OpAdmit fresh now r)
  show ?thesis
  proof (cases "admit fresh now r s")
    case (Inr ds)
    obtain d s' where ds: "ds = (d, s')" by force
    with Inr have "admit fresh now r s = Inr (d, s')" by simp
    then have "ss_policy s' = Some (Json p)"
    proof (cases rule: admit_cases)
      case (decided r now q s0 s1)
      then show ?thesis
        using p by (auto simp: stored_policy_read saveDecision_frame split: option.splits)
    qed (simp add: p)
    then show ?thesis using OpAdmit Inr ds by simp
  qed (simp add: OpAdmit p)
next
  case (OpRelease rid now)
  then show ?thesis by (simp add: release_def Let_def admitQueued_policy p)
qed

text \<open>
  C26: concurrency safety. While an enabled policy is in force, starting from an empty
  service, no sequence of admissions and releases (whatever their order, repetitions
  and failures) ever has more sessions admitted in total, per provider, per model, or
  per repository for subagents than the policy's limits allow.
\<close>

theorem scheduler_limits_never_exceeded:
  assumes "ss_policy s = Some (Json p)" and "sp_enabled p" and "ss_active s = []"
  shows "within_limits p (ss_active (fold sched_step ops s))"
proof -
  let ?P = "\<lambda>s. sched_inv s \<and> ss_policy s = Some (Json p)"
  have "sched_inv s" by (simp add: sched_inv_def within_limits_def assms(3) count_where_def)
  then have "?P (fold sched_step ops s)"
    by (intro fold_invariant [where Q = "\<lambda>_. True" and P = ?P])
       (auto simp: assms(1) intro: sched_step_inv sched_step_policy)
  then have i: "sched_inv (fold sched_step ops s)" and q: "ss_policy (fold sched_step ops s) = Some (Json p)"
    by auto
  show ?thesis using i by (simp add: sched_inv_def policy_now_def stored_policy_read [OF q] assms(2))
qed

definition example_request :: "ident \<Rightarrow> admission_request" where
  "example_request i = \<lparr>rq_id = i, rq_repo = ''repo'', rq_run = None, rq_iteration = Some 1,
     rq_executor = ''opencode'', rq_provider = Some ''p'', rq_model = ''m'', rq_kind = SUBAGENT,
     rq_tokens = None, rq_spend = None, rq_cpu = None, rq_memory = None, rq_requestedAt = None\<rparr>"

definition example_sched :: sched_state where
  "example_sched = \<lparr>ss_policy = Some (Json (DEFAULT_SCHEDULER_POLICY\<lparr>sp_total := Some 1\<rparr>)),
     ss_decisions = [], ss_active = [], ss_queued = []\<rparr>"

theorem scheduler_limits_never_exceeded_witness:
  "length (ss_active (fold sched_step
     [OpAdmit ''d1'' 1 (example_request ''a''), OpAdmit ''d2'' 2 (example_request ''b'')] example_sched)) \<le> 1"
proof -
  let ?p = "DEFAULT_SCHEDULER_POLICY\<lparr>sp_total := Some 1\<rparr>"
  let ?s = "fold sched_step
     [OpAdmit ''d1'' 1 (example_request ''a''), OpAdmit ''d2'' 2 (example_request ''b'')] example_sched"
  have "within_limits ?p (ss_active ?s)"
    by (rule scheduler_limits_never_exceeded) (simp_all add: example_sched_def DEFAULT_SCHEDULER_POLICY_def)
  moreover have "sp_total ?p = Some 1" by simp
  ultimately show ?thesis unfolding within_limits_def by blast
qed

section \<open>The queue is drained on release\<close>

lemma count_where_append: "count_where q (al @ bl) = count_where q al + count_where q bl"
  by (simp add: count_where_def)

lemma at_limit_mono: "at_limit l m \<Longrightarrow> m \<le> (n::nat) \<Longrightarrow> at_limit l n"
  by (auto simp: at_limit_def split: option.splits)

text \<open>A request that some limit blocks stays blocked when more requests are admitted.\<close>

lemma blocked_append: "blocked_by p al r \<noteq> None \<Longrightarrow> blocked_by p (al @ bl) r \<noteq> None"
  by (auto simp: blocked_by_def firstLimit_def count_where_append
           dest: at_limit_mono [OF _ le_add1] split: if_splits)

lemma alist_update_cases:
  "map_of al k \<in> {None, Some r} \<Longrightarrow> \<exists>bl. AList.update k r al = al @ bl"
proof (induction al)
  case (Cons x al)
  then show ?case by (cases x) (auto split: if_splits)
qed simp

lemma map_of_append_keep: "map_of al k = Some v \<Longrightarrow> map_of (al @ bl) k = Some v"
  by (simp add: map_add_def)

text \<open>
  A queued request whose id is also admitted is the same request: \<open>admit\<close> leaves an
  entry of \<open>queued\<close> behind when it admits a request that was queued before.
\<close>

definition queue_consistent :: "sched_state \<Rightarrow> bool" where
  "queue_consistent s \<longleftrightarrow> distinct (map fst (ss_queued s))
     \<and> (\<forall>(k, r) \<in> set (ss_queued s). map_of (ss_active s) k \<in> {None, Some r})"

lemma queue_consistent_read:
  "queue_consistent (snd (ss_getPolicy now s)) = queue_consistent s"
  by (simp add: queue_consistent_def)

lemma admitQueued_step_effect:
  "ss_active (admitQueued_step now e s) =
     (if blocked_by (policy_now s) (ss_active s) (snd e) = None
      then AList.update (fst e) (snd e) (ss_active s) else ss_active s)"
  "ss_queued (admitQueued_step now e s) =
     (if blocked_by (policy_now s) (ss_active s) (snd e) = None
      then AList.delete (fst e) (ss_queued s) else ss_queued s)"
  "\<exists>t. policy_now (admitQueued_step now e s) = (policy_now s)\<lparr>sp_updated := t\<rparr>"
proof -
  obtain p s0 where g: "ss_getPolicy now s = (p, s0)" by force
  have fr: "ss_active s0 = ss_active s" "ss_queued s0 = ss_queued s"
    using getPolicy_frame [of now s] by (simp_all add: g)
  have p: "blocked_by p al r = blocked_by (policy_now s) al r" for al r
    using blocked_by_read [of now s al r] by (simp add: g)
  obtain t where t: "policy_now s0 = (policy_now s)\<lparr>sp_updated := t\<rparr>"
    using policy_now_after_read [of now s] by (auto simp: g)
  show "ss_active (admitQueued_step now e s) =
     (if blocked_by (policy_now s) (ss_active s) (snd e) = None
      then AList.update (fst e) (snd e) (ss_active s) else ss_active s)"
    "ss_queued (admitQueued_step now e s) =
     (if blocked_by (policy_now s) (ss_active s) (snd e) = None
      then AList.delete (fst e) (ss_queued s) else ss_queued s)"
    by (simp_all add: admitQueued_step_def g Let_def fr p)
  show "\<exists>t. policy_now (admitQueued_step now e s) = (policy_now s)\<lparr>sp_updated := t\<rparr>"
    by (auto simp: admitQueued_step_def g Let_def fr p t)
qed

text \<open>
  The loop over the rest \<open>es\<close> of the queue only adds to the admitted requests, keeps the
  entries it skipped, and leaves each entry of \<open>es\<close> admitted or blocked.
\<close>

lemma drain_loop:
  assumes "distinct (map fst es)" and "\<forall>(k, r) \<in> set es. map_of (ss_active s) k \<in> {None, Some r}"
  shows "\<exists>bl t. ss_active (fold (admitQueued_step now) es s) = ss_active s @ bl
       \<and> policy_now (fold (admitQueued_step now) es s) = (policy_now s)\<lparr>sp_updated := t\<rparr>
       \<and> set (ss_queued (fold (admitQueued_step now) es s)) \<subseteq> set (ss_queued s)
       \<and> (\<forall>(k, r) \<in> set es. map_of (ss_active s @ bl) k = Some r
             \<or> blocked_by (policy_now s) (ss_active s @ bl) r \<noteq> None)"
  using assms
proof (induction es arbitrary: s)
  case Nil
  show ?case by (rule exI [of _ "[]"], rule exI [of _ "sp_updated (policy_now s)"]) simp
next
  case (Cons e es)
  obtain k r where e: "e = (k, r)" by force
  let ?s1 = "admitQueued_step now e s"
  have kr: "map_of (ss_active s) k \<in> {None, Some r}" using Cons.prems(2) by (simp add: e)
  have "\<exists>b0. ss_active ?s1 = ss_active s @ b0"
    using alist_update_cases [OF kr] by (simp add: admitQueued_step_effect e)
  then obtain b0 where b0: "ss_active ?s1 = ss_active s @ b0" ..
  have hd: "map_of (ss_active ?s1) k = Some r \<or> blocked_by (policy_now s) (ss_active ?s1) r \<noteq> None"
    by (simp add: admitQueued_step_effect e update_conv')
  have keep: "map_of (ss_active ?s1) j \<in> {None, Some q}" if jq: "(j, q) \<in> set es" for j q
  proof -
    have "j \<noteq> k" using Cons.prems(1) jq by (force simp: e)
    then have "map_of (ss_active ?s1) j = map_of (ss_active s) j"
      by (simp add: admitQueued_step_effect e update_conv')
    then show ?thesis using Cons.prems(2) jq by auto
  qed
  then have "\<forall>(j, q) \<in> set es. map_of (ss_active ?s1) j \<in> {None, Some q}" by blast
  then obtain b1 t1 where IH: "ss_active (fold (admitQueued_step now) es ?s1) = ss_active ?s1 @ b1"
     "policy_now (fold (admitQueued_step now) es ?s1) = (policy_now ?s1)\<lparr>sp_updated := t1\<rparr>"
     "set (ss_queued (fold (admitQueued_step now) es ?s1)) \<subseteq> set (ss_queued ?s1)"
     "\<forall>(j, q) \<in> set es. map_of (ss_active ?s1 @ b1) j = Some q
          \<or> blocked_by (policy_now ?s1) (ss_active ?s1 @ b1) q \<noteq> None"
    using Cons.IH [of ?s1] Cons.prems(1) by auto
  obtain t0 where t0: "policy_now ?s1 = (policy_now s)\<lparr>sp_updated := t0\<rparr>"
    using admitQueued_step_effect(3) by blast
  let ?s2 = "fold (admitQueued_step now) (e # es) s"
  have "set (ss_queued ?s1) \<subseteq> set (ss_queued s)"
    by (auto simp: admitQueued_step_effect AList.delete_eq)
  then have q: "set (ss_queued ?s2) \<subseteq> set (ss_queued s)" using IH(3) by simp
  have a: "ss_active ?s2 = ss_active s @ b0 @ b1" using IH(1) b0 by simp
  have p: "policy_now ?s2 = (policy_now s)\<lparr>sp_updated := t1\<rparr>" using IH(2) t0 by simp
  have tl: "\<forall>(j, q) \<in> set es. map_of (ss_active s @ b0 @ b1) j = Some q
          \<or> blocked_by (policy_now s) (ss_active s @ b0 @ b1) q \<noteq> None"
    using IH(4) by (simp only: b0 t0 limits_ignore_updated append_assoc)
  have "map_of (ss_active ?s1 @ b1) k = Some r \<or> blocked_by (policy_now s) (ss_active ?s1 @ b1) r \<noteq> None"
    using hd blocked_append map_of_append_keep by metis
  then have "map_of (ss_active s @ b0 @ b1) k = Some r \<or> blocked_by (policy_now s) (ss_active s @ b0 @ b1) r \<noteq> None"
    unfolding b0 append_assoc .
  then have "\<forall>(j, q) \<in> set (e # es). map_of (ss_active s @ b0 @ b1) j = Some q
          \<or> blocked_by (policy_now s) (ss_active s @ b0 @ b1) q \<noteq> None"
    using tl unfolding e by simp
  with a p q show ?case by blast
qed

lemma admitQueued_drains:
  assumes "queue_consistent s"
    and "(k, r) \<in> set (ss_queued (admitQueued now s))"
    and "map_of (ss_active (admitQueued now s)) k \<noteq> Some r"
  shows "blocked_by (policy_now (admitQueued now s)) (ss_active (admitQueued now s)) r \<noteq> None"
proof -
  obtain bl t where d: "ss_active (admitQueued now s) = ss_active s @ bl"
      "policy_now (admitQueued now s) = (policy_now s)\<lparr>sp_updated := t\<rparr>"
      "set (ss_queued (admitQueued now s)) \<subseteq> set (ss_queued s)"
      "\<forall>(k, r) \<in> set (ss_queued s). map_of (ss_active s @ bl) k = Some r
             \<or> blocked_by (policy_now s) (ss_active s @ bl) r \<noteq> None"
    using drain_loop [of "ss_queued s" s now] assms(1)
    unfolding admitQueued_def queue_consistent_def by blast
  with assms(2) have "(k, r) \<in> set (ss_queued s)" by blast
  with d(4) assms(3) show ?thesis by (auto simp: d)
qed

lemma queue_consistent_delete:
  assumes "queue_consistent s"
  shows "queue_consistent (s\<lparr>ss_active := AList.delete rid (ss_active s), ss_queued := AList.delete rid (ss_queued s)\<rparr>)"
  using assms unfolding queue_consistent_def
  by (auto simp: AList.delete_eq distinct_map_filter delete_conv' [unfolded AList.delete_eq])

text \<open>
  No lost wake-up, on a consistent queue: request ids are unique, and a request that is both queued and
  active is the same request in both. When a request is released, every request that is still queued
  afterwards and not admitted is blocked by a configured limit under the sessions that
  are then admitted. A queued request that is admitted again with other parameters makes the queue
  inconsistent; nothing is claimed of it.
\<close>

theorem release_admits_every_runnable:
  assumes "queue_consistent s" and "s' = snd (release rid now s)"
    and "(k, r) \<in> set (ss_queued s')" and "map_of (ss_active s') k \<noteq> Some r"
  shows "blocked_by (policy_now s') (ss_active s') r \<noteq> None"
proof -
  define s2 where "s2 = ss_updateDecision rid (\<lambda>d. d\<lparr>sd_status := RELEASED,
       sd_reason := ''Released by the owning execution strategy.'', sd_resolvedAt := Some now\<rparr>)
     (s\<lparr>ss_active := AList.delete rid (ss_active s), ss_queued := AList.delete rid (ss_queued s)\<rparr>)"
  have "queue_consistent s2"
    using queue_consistent_delete [OF assms(1), of rid] by (simp add: s2_def queue_consistent_def)
  moreover have "s' = admitQueued now s2"
    by (simp add: assms(2) release_def s2_def Let_def)
  ultimately show ?thesis using admitQueued_drains assms(3,4) by blast
qed

theorem release_admits_every_runnable_witness:
  "let s = example_sched\<lparr>ss_active := [(''a'', example_request ''a'')],
                        ss_queued := [(''b'', example_request ''b''), (''c'', example_request ''c'')]\<rparr>;
       s' = snd (release ''a'' 5 s)
   in (''c'', example_request ''c'') \<in> set (ss_queued s')
      \<and> blocked_by (policy_now s') (ss_active s') (example_request ''c'') \<noteq> None"
proof -
  let ?s = "example_sched\<lparr>ss_active := [(''a'', example_request ''a'')],
                        ss_queued := [(''b'', example_request ''b''), (''c'', example_request ''c'')]\<rparr>"
  let ?s' = "snd (release ''a'' 5 ?s)"
  have q: "queue_consistent ?s" by (simp add: queue_consistent_def)
  have e: "ss_queued ?s' = [(''c'', example_request ''c'')]" "ss_active ?s' = [(''b'', example_request ''b'')]"
    by (simp_all add: release_def admitQueued_def admitQueued_step_def ss_getPolicy_def Let_def
          ss_updateDecision_def ss_getDecision_def order_desc_def first_row_def example_sched_def
          DEFAULT_SCHEDULER_POLICY_def blocked_by_def firstLimit_def at_limit_def count_where_def
          over_limit_def example_request_def AList.delete_eq)
  have "blocked_by (policy_now ?s') (ss_active ?s') (example_request ''c'') \<noteq> None"
    by (rule release_admits_every_runnable [OF q refl, of "''c''"]) (simp_all add: e)
  then show ?thesis by (simp add: Let_def e)
qed

section \<open>Restart\<close>

text \<open>\<open>admit\<close> inserts a row only for a request that has none, so requests are unique.\<close>

definition one_row_per_request :: "sched_state \<Rightarrow> bool" where
  "one_row_per_request s \<longleftrightarrow> unique_keys sd_request (ss_decisions s)"

abbreviation row_of :: "ident \<Rightarrow> sched_state \<Rightarrow> sched_decision option" where
  "row_of rid s \<equiv> tbl_get sd_request rid (ss_decisions s)"

lemma one_row_frame [simp]:
  "one_row_per_request (s\<lparr>ss_active := a\<rparr>) = one_row_per_request s"
  "one_row_per_request (s\<lparr>ss_queued := q\<rparr>) = one_row_per_request s"
  by (simp_all add: one_row_per_request_def)

lemma getDecision_row: "one_row_per_request s \<Longrightarrow> ss_getDecision rid s = row_of rid s"
  by (auto simp: ss_getDecision_def filter_unique one_row_per_request_def order_desc_def first_row_def
           split: option.splits)

lemma sd_write_request [simp]: "sd_request (sd_write n d) = sd_request d"
  by (simp add: sd_write_def)

lemma updateDecision_rows:
  assumes u: "one_row_per_request s"
  shows "one_row_per_request (ss_updateDecision rid f s)"
    and "row_of j (ss_updateDecision rid f s) =
      (if j = rid then map_option (\<lambda>d. sd_write (f d) d) (row_of j s) else row_of j s)"
proof -
  show "one_row_per_request (ss_updateDecision rid f s)"
    using u by (auto simp: one_row_per_request_def ss_updateDecision_def Let_def unique_keys_update split: option.splits)
  show "row_of j (ss_updateDecision rid f s) =
      (if j = rid then map_option (\<lambda>d. sd_write (f d) d) (row_of j s) else row_of j s)"
  proof (cases "row_of rid s")
    case None
    then show ?thesis by (simp add: ss_updateDecision_def getDecision_row u)
  next
    case (Some c)
    then show ?thesis
      by (cases "row_of j s")
         (auto simp: ss_updateDecision_def getDecision_row u Let_def tbl_get_update dest: tbl_get_key)
  qed
qed

lemma admit_rows:
  assumes u: "one_row_per_request s" and a: "admit fresh clock input s = Inr (d, s')"
  shows "one_row_per_request s'"
  using a
proof (cases rule: admit_cases)
  case (again r)
  then show ?thesis using u by simp
next
  case (decided r now p s0 s1)
  have u0: "one_row_per_request s0"
    using u getPolicy_frame(3) [of clock s] by (simp add: decided(2) one_row_per_request_def)
  have "one_row_per_request s1"
  proof (cases "ss_getDecision (rq_id r) s")
    case None
    then have "row_of (sd_request d) s0 = None"
      using getDecision_row [OF u] getPolicy_frame(3) [of clock s]
      by (simp add: decided(2,3) admit_decision_def Let_def)
    with None decided(4) u0 show ?thesis
      by (auto simp: ss_saveDecision_def tbl_insert_def one_row_per_request_def unique_keys_append split: option.splits)
  next
    case (Some c)
    then show ?thesis using decided(4) updateDecision_rows(1) [OF u0] by auto
  qed
  then show ?thesis by (simp add: decided(5) one_row_per_request_def)
qed

definition stale_row :: "time \<Rightarrow> sched_decision \<Rightarrow> sched_decision" where
  "stale_row now r = sd_write (r\<lparr>sd_status := STALE_RECOVERABLE,
     sd_reason := ''Admission lease was not confirmed after controller restart; execution strategy must reconcile it.'',
     sd_resolvedAt := Some now\<rparr>) r"

definition closed_row :: "time \<Rightarrow> sched_decision \<Rightarrow> sched_decision" where
  "closed_row now r = sd_write (r\<lparr>sd_status := RELEASED,
     sd_reason := (case owning_run (sd_request r) of
                     Some run \<Rightarrow> ''Stale admission lease closed after startup reconciliation; owning strategy run '' @ run
                                 @ '' cannot re-admit it (recovery is ownership-terminal).''
                   | None \<Rightarrow> ''Stale admission lease closed after startup reconciliation; its owning request cannot be re-admitted.''),
     sd_resolvedAt := Some now\<rparr>) r"

lemma row_status [simp]:
  "sd_status (stale_row now r) = STALE_RECOVERABLE" "sd_status (closed_row now r) = RELEASED"
  "sd_resolvedAt (closed_row now r) = Some now"
  by (simp_all add: stale_row_def closed_row_def sd_write_def)

lemma recover_step_rows:
  assumes "one_row_per_request (snd acc)"
  shows "one_row_per_request (snd (recover_step ids now d acc))"
    and "row_of j (snd (recover_step ids now d acc)) =
      (if (sd_status d = ADMITTED \<and> sd_request d \<notin> set ids) \<and> j = sd_request d
       then map_option (stale_row now) (row_of j (snd acc)) else row_of j (snd acc))"
  using assms
  by (auto simp: recover_step_def Let_def updateDecision_rows stale_row_def [abs_def] split: prod.splits)

lemma reconcile_step_rows:
  assumes "one_row_per_request (snd acc)"
  shows "one_row_per_request (snd (reconcile_step now d acc))"
    and "row_of j (snd (reconcile_step now d acc)) =
      (if sd_status d = STALE_RECOVERABLE \<and> j = sd_request d
       then map_option (closed_row now) (row_of j (snd acc)) else row_of j (snd acc))"
proof -
  show "one_row_per_request (snd (reconcile_step now d acc))"
    using assms by (auto simp: reconcile_step_def Let_def updateDecision_rows split: prod.splits)
  show "row_of j (snd (reconcile_step now d acc)) =
      (if sd_status d = STALE_RECOVERABLE \<and> j = sd_request d
       then map_option (closed_row now) (row_of j (snd acc)) else row_of j (snd acc))"
  proof (cases "row_of j (snd acc)")
    case (Some r)
    then have "sd_request r = j" by (rule tbl_get_key)
    with Some assms show ?thesis
      by (auto simp: reconcile_step_def Let_def updateDecision_rows closed_row_def split: prod.splits)
  qed (use assms in \<open>auto simp: reconcile_step_def Let_def updateDecision_rows split: prod.splits\<close>)
qed

text \<open>A listing that holds the whole table, as long as the table has at most 1000 rows.\<close>

lemma listed_rows:
  assumes "one_row_per_request s" and "length (ss_decisions s) \<le> 1000"
  shows "distinct (map sd_request (ss_listDecisions 1000 s))"
    and "d \<in> set (ss_listDecisions 1000 s) \<longleftrightarrow> row_of (sd_request d) s = Some d"
proof -
  have l: "ss_listDecisions 1000 s = order_desc sd_created (ss_decisions s)"
    using assms(2) by (simp add: ss_listDecisions_def)
  have "mset (map sd_request (order_desc sd_created (ss_decisions s))) = mset (map sd_request (ss_decisions s))"
    by (simp add: order_desc_def)
  then show "distinct (map sd_request (ss_listDecisions 1000 s))"
    using assms(1) unfolding l one_row_per_request_def unique_keys_def
    by (metis distinct_count_atmost_1 mset_eq_setD)
  show "d \<in> set (ss_listDecisions 1000 s) \<longleftrightarrow> row_of (sd_request d) s = Some d"
    using assms(1) by (auto simp: l one_row_per_request_def tbl_get_unique dest: tbl_get_in_set)
qed

lemma listed_match:
  assumes "one_row_per_request s" and "length (ss_decisions s) \<le> 1000"
  shows "(\<exists>d \<in> set (ss_listDecisions 1000 s). p d \<and> sd_request d = j) \<longleftrightarrow> (\<exists>r. row_of j s = Some r \<and> p r)"
proof
  assume "\<exists>r. row_of j s = Some r \<and> p r"
  then obtain r where r: "row_of j s = Some r" "p r" by blast
  then have "sd_request r = j" by (blast dest: tbl_get_key)
  with r show "\<exists>d \<in> set (ss_listDecisions 1000 s). p d \<and> sd_request d = j"
    using listed_rows(2) [OF assms, of r] by auto
qed (auto simp: listed_rows(2) [OF assms])

text \<open>What the two start-up passes do to each row.\<close>

lemma recover_rows:
  assumes u: "one_row_per_request s" and n: "length (ss_decisions s) \<le> 1000"
  shows "one_row_per_request (snd (recover ids now s))"
    and "row_of j (snd (recover ids now s)) = map_option
      (\<lambda>r. if sd_status r = ADMITTED \<and> j \<notin> set ids then stale_row now r else r) (row_of j s)"
proof -
  let ?p = "\<lambda>d. sd_status d = ADMITTED \<and> sd_request d \<notin> set ids"
  have f: "one_row_per_request (snd (recover ids now s)) \<and> row_of j (snd (recover ids now s)) =
      (if \<exists>d \<in> set (ss_listDecisions 1000 s). ?p d \<and> sd_request d = j
       then map_option (stale_row now) (row_of j s) else row_of j s)" for j
    unfolding recover_def
    using fold_keyed_updates [where ok = "\<lambda>a. one_row_per_request (snd a)" and step = "recover_step ids now"
        and get = "\<lambda>j a. row_of j (snd a)" and p = ?p and key = sd_request and g = "stale_row now"
        and s = "([], s)" and j = j, OF recover_step_rows listed_rows(1) [OF u n]]
    by (simp only: snd_conv u simp_thms)
  show "one_row_per_request (snd (recover ids now s))" using f by blast
  show "row_of j (snd (recover ids now s)) = map_option
      (\<lambda>r. if sd_status r = ADMITTED \<and> j \<notin> set ids then stale_row now r else r) (row_of j s)"
    using f [of j] listed_match [OF u n, of ?p j]
    by (cases "row_of j s") (auto dest: tbl_get_key)
qed

lemma reconcile_rows:
  assumes u: "one_row_per_request s" and n: "length (ss_decisions s) \<le> 1000"
  shows "row_of j (snd (reconcileStaleLeases now s)) = map_option
      (\<lambda>r. if sd_status r = STALE_RECOVERABLE then closed_row now r else r) (row_of j s)"
proof -
  have f: "row_of j (snd (reconcileStaleLeases now s)) =
      (if \<exists>d \<in> set (ss_listDecisions 1000 s). sd_status d = STALE_RECOVERABLE \<and> sd_request d = j
       then map_option (closed_row now) (row_of j s) else row_of j s)"
    unfolding reconcileStaleLeases_def
    using fold_keyed_updates [where ok = "\<lambda>a. one_row_per_request (snd a)" and step = "reconcile_step now"
        and get = "\<lambda>j a. row_of j (snd a)" and p = "\<lambda>d. sd_status d = STALE_RECOVERABLE" and key = sd_request
        and g = "closed_row now" and s = "([], s)" and j = j, OF reconcile_step_rows listed_rows(1) [OF u n]]
    by (simp only: snd_conv u simp_thms)
  then show ?thesis
    using listed_match [OF u n, of "\<lambda>d. sd_status d = STALE_RECOVERABLE" j]
    by (cases "row_of j s") auto
qed

lemma updateDecision_length: "length (ss_decisions (ss_updateDecision rid f s)) = length (ss_decisions s)"
  by (simp add: ss_updateDecision_def Let_def tbl_update_def split: option.splits)

lemma recover_length: "length (ss_decisions (snd (recover ids now s))) = length (ss_decisions s)"
  unfolding recover_def
  by (rule fold_invariant [where Q = "\<lambda>_. True" and P = "\<lambda>a. length (ss_decisions (snd a)) = length (ss_decisions s)"])
     (auto simp: recover_step_def Let_def updateDecision_length split: prod.splits)

text \<open>
  Start-up closes every lease that no live owner confirmed. After \<open>recover\<close> with the
  confirmed request ids and \<open>reconcileStaleLeases\<close>, a request whose row was admitted
  without confirmation, or was already stale, is \<open>RELEASED\<close> at the reconciliation
  instant; every other row is exactly what it was. (The passes read at most 1000 rows.)
\<close>

theorem startup_closes_unconfirmed_leases:
  assumes "one_row_per_request s" and "length (ss_decisions s) \<le> 1000"
    and "s' = snd (reconcileStaleLeases t2 (snd (recover ids t1 s)))"
    and "row_of rid s = Some r"
  shows "if sd_status r = STALE_RECOVERABLE \<or> (sd_status r = ADMITTED \<and> rid \<notin> set ids)
         then \<exists>r'. row_of rid s' = Some r' \<and> sd_status r' = RELEASED \<and> sd_resolvedAt r' = Some t2
         else row_of rid s' = Some r"
proof -
  let ?m = "snd (recover ids t1 s)"
  have m: "one_row_per_request ?m" "length (ss_decisions ?m) \<le> 1000"
    using recover_rows(1) [OF assms(1,2)] assms(2) by (simp_all add: recover_length)
  show ?thesis
    using assms(4) by (auto simp: assms(3) reconcile_rows [OF m] recover_rows(2) [OF assms(1,2)])
qed

definition example_row :: "ident \<Rightarrow> admission_status \<Rightarrow> sched_decision" where
  "example_row i st = (admit_decision i 0 (example_request i) None DEFAULT_SCHEDULER_POLICY None)\<lparr>sd_status := st\<rparr>"

theorem startup_closes_unconfirmed_leases_witness:
  "let s = example_sched\<lparr>ss_decisions := [example_row ''a'' ADMITTED, example_row ''b'' QUEUED]\<rparr>;
       s' = snd (reconcileStaleLeases 9 (snd (recover [] 8 s)))
   in (\<exists>r'. row_of ''a'' s' = Some r' \<and> sd_status r' = RELEASED \<and> sd_resolvedAt r' = Some 9)"
proof -
  let ?s = "example_sched\<lparr>ss_decisions := [example_row ''a'' ADMITTED, example_row ''b'' QUEUED]\<rparr>"
  have u: "one_row_per_request ?s"
    by (simp add: one_row_per_request_def unique_keys_def example_row_def admit_decision_def example_request_def)
  have n: "length (ss_decisions ?s) \<le> 1000" by simp
  have r: "row_of ''a'' ?s = Some (example_row ''a'' ADMITTED)"
    by (simp add: table_simps example_row_def admit_decision_def example_request_def)
  have st: "sd_status (example_row ''a'' ADMITTED) = ADMITTED" by (simp add: example_row_def)
  show ?thesis
    using startup_closes_unconfirmed_leases [OF u n refl r, where ?t2.0 = 9 and ids = "[]" and ?t1.0 = 8] by (simp add: st Let_def)
qed

text \<open>
  The queue instant of a re-admitted request is not persisted. When a request that has a
  row without one (rejected or released before) is queued, the decision that \<open>admit\<close> returns
  carries \<open>queuedAt\<close>, while the stored row keeps none: the \<open>UPDATE\<close> has no such column.
\<close>

theorem requeued_row_keeps_no_queue_instant:
  assumes "one_row_per_request s" and "admit fresh clock input s = Inr (d, s')"
    and "ss_getDecision (sd_request d) s = Some e" and "sd_queuedAt e = None" and "sd_status d = QUEUED"
  shows "sd_queuedAt d \<noteq> None \<and> (\<exists>r. ss_getDecision (sd_request d) s' = Some r \<and> sd_status r = QUEUED \<and> sd_queuedAt r = None)"
  using assms(2)
proof (cases rule: admit_cases)
  case (again r)
  then show ?thesis using assms(5) by simp
next
  case (decided r now p s0 s1)
  have rq: "sd_request d = rq_id r" by (simp add: decided(3) admit_decision_def Let_def)
  have u0: "one_row_per_request s0"
    using assms(1) getPolicy_frame(3) [of clock s] by (simp add: decided(2) one_row_per_request_def)
  have e0: "row_of (rq_id r) s0 = Some e"
    using assms(3) getDecision_row [OF assms(1)] getPolicy_frame(3) [of clock s] by (simp add: rq decided(2))
  have s1: "s1 = ss_updateDecision (rq_id r) (\<lambda>_. d) s0" using decided(4) assms(3) by (simp add: rq)
  have u': "one_row_per_request s'" by (rule admit_rows [OF assms(1,2)])
  have "row_of (rq_id r) s' = Some (sd_write d e)"
    by (simp add: decided(5) s1 updateDecision_rows(2) [OF u0] e0)
  moreover have "sd_queuedAt d \<noteq> None"
    using assms(3,4,5) unfolding rq
    by (auto simp: decided(3) admit_decision_def Let_def coalesce_def split: if_splits)
  ultimately show ?thesis
    using assms(4,5) by (simp add: rq getDecision_row [OF u'] sd_write_def)
qed

theorem requeued_row_keeps_no_queue_instant_witness:
  "let s = example_sched\<lparr>ss_decisions := [example_row ''b'' REJECTED], ss_active := [(''a'', example_request ''a'')]\<rparr>
   in \<exists>d s'. admit ''x'' 5 (example_request ''b'') s = Inr (d, s') \<and> sd_queuedAt d \<noteq> None
        \<and> (\<exists>r. ss_getDecision ''b'' s' = Some r \<and> sd_queuedAt r = None)"
proof -
  let ?s = "example_sched\<lparr>ss_decisions := [example_row ''b'' REJECTED], ss_active := [(''a'', example_request ''a'')]\<rparr>"
  have u: "one_row_per_request ?s" by (simp add: one_row_per_request_def unique_keys_def)
  have rq: "sd_request (example_row ''b'' REJECTED) = ''b''" "sd_queuedAt (example_row ''b'' REJECTED) = None"
    by (simp_all add: example_row_def admit_decision_def example_request_def coalesce_def)
  have g: "ss_getDecision ''b'' ?s = Some (example_row ''b'' REJECTED)"
    by (simp add: getDecision_row [OF u] table_simps rq)
  obtain d s' where a: "admit ''x'' 5 (example_request ''b'') ?s = Inr (d, s')" "sd_status d = QUEUED" "sd_request d = ''b''"
    by (simp add: admit_def parse_request_def z_trimmed_def z_opt_def js_trim_def js_space_def pos_ok_def pct_ok_def
          ss_getDecision_def order_desc_def first_row_def example_sched_def ss_getPolicy_def admit_decision_def
          Let_def blocked_by_def firstLimit_def at_limit_def DEFAULT_SCHEDULER_POLICY_def example_request_def
          example_row_def)
  show ?thesis
    using requeued_row_keeps_no_queue_instant [OF u a(1), of "example_row ''b'' REJECTED"] a g rq by (simp add: Let_def) blast
qed

end
