(* ===== verification/Process_Probe.thy ===== *)
theory Process_Probe
  imports Prelude
begin

text \<open>
  Process identity, \<open>apps/controller/src/ownership/process-probe.ts\<close>: the parsing of
  \<open>/proc/<pid>/stat\<close>, the portable and the Windows probe, and the interface
  (\<open>ProcessProbe\<close>) that lease reconciliation relies on. The operating system is a
  parameter: \<open>stat\<close> is what reading the stat file returns (None when it throws or
  the host is not Linux), \<open>kill0\<close> the outcome of signal 0, \<open>query\<close> the outcome of the
  PowerShell process query.
\<close>

datatype verdict = LIVE_MATCH | DEAD | PID_REUSED | UNKNOWN

definition isProcessReleasable :: "verdict \<Rightarrow> bool" where
  "isProcessReleasable v \<longleftrightarrow> v = DEAD"

definition isProcessBlocking :: "verdict \<Rightarrow> bool" where
  "isProcessBlocking v \<longleftrightarrow> v = LIVE_MATCH \<or> v = PID_REUSED \<or> v = UNKNOWN"

lemma releasable_xor_blocking: "isProcessReleasable v \<longleftrightarrow> \<not> isProcessBlocking v"
  by (cases v) (simp_all add: isProcessReleasable_def isProcessBlocking_def)

record proc_identity =
  pi_pid :: int
  pi_exe :: "string option"
  pi_marker :: "string option"

section \<open>The stat file\<close>

fun js_indexOf :: "char \<Rightarrow> string \<Rightarrow> int" where
  "js_indexOf c [] = -1"
| "js_indexOf c (x # xs) = (if x = c then 0 else
     (let i = js_indexOf c xs in if i < 0 then -1 else i + 1))"

text \<open>\<open>s.slice(a, b)\<close>; a negative bound counts from the end.\<close>

definition slice_bound :: "int \<Rightarrow> nat \<Rightarrow> nat" where
  "slice_bound i n = (if i < 0 then nat (int n + i) else min (nat i) n)"

definition js_slice :: "int \<Rightarrow> int \<Rightarrow> string \<Rightarrow> string" where
  "js_slice a b s = (let n = length s in
     take (slice_bound b n - slice_bound a n) (drop (slice_bound a n) s))"

text \<open>\<open>s.trim().split(/\s+/)\<close>: the words of \<open>s\<close>; the empty string splits into one empty word.\<close>

fun ws_words :: "string \<Rightarrow> string \<Rightarrow> string list" where
  "ws_words w [] = [rev w]"
| "ws_words w (c # cs) =
     (if js_space c then (if w = [] then ws_words [] cs else rev w # ws_words [] cs)
      else ws_words (c # w) cs)"

definition stat_fields :: "string \<Rightarrow> string list" where
  "stat_fields stat = ws_words [] (js_trim (js_slice (js_indexOf (CHR '')'') stat + 1) (int (length stat)) stat))"

definition nonempty :: "string option \<Rightarrow> string option" where
  "nonempty x = (case x of Some (c # cs) \<Rightarrow> Some (c # cs) | _ \<Rightarrow> None)"

definition nth_opt :: "'a list \<Rightarrow> nat \<Rightarrow> 'a option" where
  "nth_opt xs i = (if i < length xs then Some (xs ! i) else None)"

definition readPortableIdentity :: "string option \<Rightarrow> string option \<times> string option" where
  "readPortableIdentity stat = (case stat of None \<Rightarrow> (None, None)
     | Some s \<Rightarrow> (nonempty (nth_opt (stat_fields s) 19),
                 nonempty (Some (js_slice (js_indexOf (CHR ''('') s + 1) (js_indexOf (CHR '')'') s) s))))"

definition readLinuxProcState :: "string option \<Rightarrow> string option" where
  "readLinuxProcState stat = Option.bind stat (\<lambda>s. nth_opt (stat_fields s) 0)"

datatype kill0_result = Kill_ok | Kill_EPERM | Kill_other

definition isPidAlive :: "(int \<Rightarrow> string option) \<Rightarrow> (int \<Rightarrow> kill0_result) \<Rightarrow> int \<Rightarrow> bool" where
  "isPidAlive stat kill0 pid =
     (if pid \<le> 0 then False
      else if readLinuxProcState (stat pid) \<in> {Some ''Z'', Some ''X'', Some ''x''} then False
      else kill0 pid = Kill_ok \<or> kill0 pid = Kill_EPERM)"

section \<open>The portable probe\<close>

text \<open>Its state: the evidence captured at spawn, by pid.\<close>

type_synonym captures = "int \<rightharpoonup> string option \<times> string option"

definition portable_capture :: "(int \<Rightarrow> string option) \<Rightarrow> int \<Rightarrow> captures \<Rightarrow> captures" where
  "portable_capture stat pid cap = cap(pid \<mapsto> readPortableIdentity (stat pid))"

definition portable_seed :: "int \<Rightarrow> string option \<Rightarrow> string option \<Rightarrow> captures \<Rightarrow> captures" where
  "portable_seed pid marker exe cap = cap(pid \<mapsto> (marker, exe))"

definition portable_forget :: "int \<Rightarrow> captures \<Rightarrow> captures" where
  "portable_forget pid cap = cap(pid := None)"

definition portable_classify ::
    "(int \<Rightarrow> string option) \<Rightarrow> (int \<Rightarrow> kill0_result) \<Rightarrow> captures \<Rightarrow> proc_identity \<Rightarrow> verdict" where
  "portable_classify stat kill0 cap r =
     (if \<not> isPidAlive stat kill0 (pi_pid r) then DEAD
      else (case cap (pi_pid r) of None \<Rightarrow> UNKNOWN
        | Some (marker, exe) \<Rightarrow>
            (if pi_marker r = None \<and> pi_exe r = None then UNKNOWN
             else let markerMatches = (if pi_marker r = None then marker = None else pi_marker r = marker);
                      exeMatches = (if pi_exe r = None then exe = None else pi_exe r = exe)
                  in if markerMatches \<and> exeMatches then LIVE_MATCH else PID_REUSED)))"

text \<open>\<open>killVerifiedTree\<close>: \<open>Inl\<close> is the thrown refusal, \<open>Inr\<close> the pid that is signalled.\<close>

definition killVerifiedTree :: "(proc_identity \<Rightarrow> verdict) \<Rightarrow> proc_identity \<Rightarrow> verdict + int" where
  "killVerifiedTree classify r = (let v = classify r in if v \<noteq> LIVE_MATCH then Inl v else Inr (pi_pid r))"

section \<open>The Windows probe\<close>

datatype os_query = Q_found string string | Q_notfound | Q_error

text \<open>
  \<open>queryProcess\<close> after the command ran: \<open>out\<close> is its trimmed output parsed as
  creation date and name, None when the command or the parse threw.
\<close>

datatype query_output = Out_empty | Out_json "string option" "string option"

definition queryProcess :: "query_output option \<Rightarrow> os_query" where
  "queryProcess res = (case res of None \<Rightarrow> Q_error
     | Some Out_empty \<Rightarrow> Q_notfound
     | Some (Out_json date name) \<Rightarrow> (case nonempty date of None \<Rightarrow> Q_notfound
         | Some d \<Rightarrow> Q_found d (case name of None \<Rightarrow> [] | Some n \<Rightarrow> n)))"

definition windows_capture :: "os_query \<Rightarrow> string option \<times> string option" where
  "windows_capture q = (case q of Q_found d n \<Rightarrow> (Some d, nonempty (Some n)) | _ \<Rightarrow> (None, None))"

definition windows_classify :: "(int \<Rightarrow> os_query) \<Rightarrow> proc_identity \<Rightarrow> verdict" where
  "windows_classify query r = (case query (pi_pid r) of
     Q_notfound \<Rightarrow> DEAD | Q_error \<Rightarrow> UNKNOWN
   | Q_found date name \<Rightarrow>
       (if pi_marker r = None \<and> pi_exe r = None then UNKNOWN
        else let markerMatches = (case pi_marker r of None \<Rightarrow> True | Some m \<Rightarrow> m = date);
                 exeMatches = (case pi_exe r of None \<Rightarrow> True | Some e \<Rightarrow> js_lower e = js_lower name)
             in if markerMatches \<and> exeMatches then LIVE_MATCH else PID_REUSED))"

section \<open>The probe contract\<close>

text \<open>
  What both probes promise: death is reported only for a process the host says is
  gone, and a match only for a recorded identity that agrees with the evidence.
  \<open>gone\<close> and \<open>agrees\<close> are the host's view.
\<close>

locale process_probe =
  fixes classify :: "proc_identity \<Rightarrow> verdict"
    and gone :: "int \<Rightarrow> bool"
    and agrees :: "proc_identity \<Rightarrow> bool"
  assumes dead_gone: "classify r = DEAD \<longleftrightarrow> gone (pi_pid r)"
    and match_agrees: "classify r = LIVE_MATCH \<Longrightarrow> agrees r"
    and match_evidence: "classify r = LIVE_MATCH \<Longrightarrow> pi_marker r \<noteq> None \<or> pi_exe r \<noteq> None"
begin

lemma kill_only_verified:
  "killVerifiedTree classify r = Inr pid \<Longrightarrow>
     pid = pi_pid r \<and> \<not> gone pid \<and> agrees r \<and> (pi_marker r \<noteq> None \<or> pi_exe r \<noteq> None)"
  using dead_gone [of r] match_agrees [of r] match_evidence [of r]
  by (auto simp: killVerifiedTree_def Let_def split: if_splits)

lemma live_never_releasable: "\<not> gone (pi_pid r) \<Longrightarrow> isProcessBlocking (classify r)"
  using dead_gone [of r] by (cases "classify r") (auto simp: isProcessBlocking_def)

end

interpretation portable: process_probe
  "portable_classify stat kill0 cap"
  "\<lambda>pid. \<not> isPidAlive stat kill0 pid"
  "\<lambda>r. cap (pi_pid r) = Some (pi_marker r, pi_exe r)"
  for stat kill0 cap
  by unfold_locales (auto simp: portable_classify_def Let_def split: if_splits option.splits prod.splits)

interpretation windows: process_probe
  "windows_classify query"
  "\<lambda>pid. query pid = Q_notfound"
  "\<lambda>r. \<exists>d n. query (pi_pid r) = Q_found d n \<and> (\<forall>m. pi_marker r = Some m \<longrightarrow> m = d)
        \<and> (\<forall>e. pi_exe r = Some e \<longrightarrow> js_lower e = js_lower n)"
  for query
  by unfold_locales (auto simp: windows_classify_def Let_def split: if_splits option.splits os_query.splits)

text \<open>
  No blind kill on Windows. \<open>killVerifiedTree\<close> signals only a process the operating system
  currently reports under that pid, whose recorded identity is non-empty and whose
  recorded creation date, where there is one, equals the reported one.
\<close>

theorem windows_kill_only_verified:
  assumes "killVerifiedTree (windows_classify query) r = Inr pid"
  shows "pid = pi_pid r \<and> (pi_marker r \<noteq> None \<or> pi_exe r \<noteq> None)
       \<and> (\<exists>d n. query pid = Q_found d n \<and> (\<forall>m. pi_marker r = Some m \<longrightarrow> m = d)
             \<and> (\<forall>e. pi_exe r = Some e \<longrightarrow> js_lower e = js_lower n))"
  using windows.kill_only_verified [OF assms] by auto

theorem windows_kill_only_verified_witness:
  "killVerifiedTree (windows_classify (\<lambda>_. Q_found ''t0'' ''Node.exe''))
      \<lparr>pi_pid = 42, pi_exe = Some ''node.exe'', pi_marker = Some ''t0''\<rparr> = Inr 42
   \<and> (\<exists>d n. Q_found ''t0'' ''Node.exe'' = Q_found d n \<and> ''t0'' = d)"
proof -
  have l: "js_lower ''Node.exe'' = js_lower ''node.exe''" by code_simp
  have k: "killVerifiedTree (windows_classify (\<lambda>_. Q_found ''t0'' ''Node.exe''))
      \<lparr>pi_pid = 42, pi_exe = Some ''node.exe'', pi_marker = Some ''t0''\<rparr> = Inr 42"
    by (simp add: killVerifiedTree_def windows_classify_def l Let_def)
  from windows_kill_only_verified [OF k] k show ?thesis by auto
qed

text \<open>
  The Linux state field is read after the FIRST closing parenthesis of the stat line, so a
  process whose command name contains one is misread: a running process (state \<open>S\<close>)
  named \<open>a) Z b\<close>, alive to signal 0, is classified \<open>DEAD\<close> by the portable probe.
\<close>

theorem proc_name_with_parenthesis_read_as_dead:
  "portable_classify (\<lambda>_. Some ''7 (a) Z b) S 1 7 7 0'') (\<lambda>_. Kill_ok)
     [7 \<mapsto> (Some ''99'', Some ''a'')] \<lparr>pi_pid = 7, pi_exe = Some ''a'', pi_marker = Some ''99''\<rparr> = DEAD
   \<and> portable_classify (\<lambda>_. Some ''7 (a) S 1 7 7 0'') (\<lambda>_. Kill_ok)
     [7 \<mapsto> (Some ''99'', Some ''a'')] \<lparr>pi_pid = 7, pi_exe = Some ''a'', pi_marker = Some ''99''\<rparr> = LIVE_MATCH"
  by (simp add: portable_classify_def isPidAlive_def readLinuxProcState_def stat_fields_def js_slice_def
        slice_bound_def js_trim_def js_space_def nth_opt_def Let_def)

end
