(* ===== verification/Leases.thy ===== *)
theory Leases
  imports Process_Probe
begin

text \<open>
  Repository actor leases: \<open>RepositoryActorLeaseStore\<close> and \<open>ProcessOwnershipStore\<close> of
  \<open>apps/controller/src/ownership/ownership-store.ts\<close> and the service of
  \<open>actor-lease-service.ts\<close>. The state is the two tables and the audit trail, of
  which each entry keeps its kind, repository, run and reason. The primary key of the
  lease table is \<open>repository_id\<close>; foreign keys are left out.
\<close>

section \<open>Data\<close>

datatype actor_kind = K_SINGLE_AGENT | K_SWARM | K_DAG
datatype lease_state = L_STARTING | L_ACTIVE | L_RELEASING | L_QUARANTINED
datatype own_proc_state = O_STARTING | O_RUNNING | O_EXITED | O_KILL_CONFIRMED | O_UNKNOWN
datatype proc_kind = DIRECT_EXECUTOR | SWARM_WORKER | DAG_WORKER

record lease =
  ls_repo :: ident
  ls_id :: ident
  ls_instance :: ident
  ls_run :: "ident option"
  ls_iteration :: "int option"
  ls_kind :: actor_kind
  ls_actor :: "ident option"
  ls_state :: lease_state
  ls_created :: time
  ls_updated :: time
  ls_released :: "time option"
  ls_error :: "string option"

record proc_record =
  pr_id :: ident
  pr_instance :: ident
  pr_repo :: ident
  pr_run :: "ident option"
  pr_iteration :: "int option"
  pr_actor :: "ident option"
  pr_packet :: "ident option"
  pr_kind :: proc_kind
  pr_pid :: int
  pr_exe :: "string option"
  pr_marker :: "string option"
  pr_state :: own_proc_state
  pr_created :: time
  pr_updated :: time
  pr_error :: "string option"

datatype audit_kind = Lease_acquired | Lease_conflict | Lease_quarantined | Lease_released
  | Process_verdict verdict | Recovery_decision

record audit =
  au_kind :: audit_kind
  au_repo :: ident
  au_run :: "ident option"
  au_reason :: string

record own_state =
  ow_leases :: "lease list"
  ow_procs :: "proc_record list"
  ow_audit :: "audit list"

section \<open>Stores\<close>

definition lease_get :: "ident \<Rightarrow> own_state \<Rightarrow> lease option" where
  "lease_get repo s = tbl_get ls_repo repo (ow_leases s)"

definition lease_insert :: "lease \<Rightarrow> own_state \<Rightarrow> own_state \<times> bool" where
  "lease_insert l s = (case tbl_insert_ignore ls_repo l (ow_leases s) of (t, ok) \<Rightarrow> (s\<lparr>ow_leases := t\<rparr>, ok))"

text \<open>
  \<open>updateState\<close>: of the optional columns, \<open>None\<close> stands for \<open>undefined\<close> (left alone) and
  \<open>Some v\<close> for a value to write, \<open>Some None\<close> being null.
\<close>

definition lease_write :: "lease_state \<Rightarrow> ident option option \<Rightarrow> ident option option \<Rightarrow> string option option
     \<Rightarrow> time \<Rightarrow> lease \<Rightarrow> lease" where
  "lease_write st actor run err now l = l\<lparr>ls_state := st, ls_updated := now,
     ls_actor := set_col actor (ls_actor l), ls_run := set_col run (ls_run l),
     ls_error := set_col err (ls_error l)\<rparr>"

definition lease_updateState ::
    "ident \<Rightarrow> lease_state \<Rightarrow> ident option option \<Rightarrow> ident option option \<Rightarrow> string option option \<Rightarrow> time
     \<Rightarrow> own_state \<Rightarrow> own_state" where
  "lease_updateState repo st actor run err now s =
     s\<lparr>ow_leases := tbl_update (\<lambda>l. ls_repo l = repo) (lease_write st actor run err now) (ow_leases s)\<rparr>"

text \<open>The store's \<open>release\<close>: mark \<open>RELEASING\<close>, then delete the row.\<close>

definition lease_delete :: "ident \<Rightarrow> own_state \<Rightarrow> own_state" where
  "lease_delete repo s = s\<lparr>ow_leases := tbl_delete (\<lambda>l. ls_repo l = repo) (ow_leases s)\<rparr>"

definition lease_store_release :: "ident \<Rightarrow> time \<Rightarrow> own_state \<Rightarrow> own_state" where
  "lease_store_release repo now s = lease_delete repo
     (s\<lparr>ow_leases := tbl_update (\<lambda>l. ls_repo l = repo)
          (\<lambda>l. l\<lparr>ls_state := L_RELEASING, ls_released := Some now, ls_updated := now\<rparr>) (ow_leases s)\<rparr>)"

definition proc_insert :: "proc_record \<Rightarrow> own_state \<Rightarrow> own_state option" where
  "proc_insert p s = map_option (\<lambda>t. s\<lparr>ow_procs := t\<rparr>) (tbl_insert pr_id p (ow_procs s))"

definition proc_setState :: "ident \<Rightarrow> own_proc_state \<Rightarrow> string option \<Rightarrow> time \<Rightarrow> own_state \<Rightarrow> own_state" where
  "proc_setState i st err now s = s\<lparr>ow_procs := tbl_update (\<lambda>p. pr_id p = i)
     (\<lambda>p. p\<lparr>pr_state := st, pr_updated := now, pr_error := err\<rparr>) (ow_procs s)\<rparr>"

definition proc_listByRepository :: "ident \<Rightarrow> own_state \<Rightarrow> proc_record list" where
  "proc_listByRepository repo s = filter (\<lambda>p. pr_repo p = repo) (ow_procs s)"

definition proc_listByActor :: "ident \<Rightarrow> own_state \<Rightarrow> proc_record list" where
  "proc_listByActor actor s = filter (\<lambda>p. pr_actor p = Some actor) (ow_procs s)"

definition emitAudit :: "audit_kind \<Rightarrow> ident \<Rightarrow> ident option \<Rightarrow> string \<Rightarrow> own_state \<Rightarrow> own_state" where
  "emitAudit k repo run reason s = s\<lparr>ow_audit := ow_audit s @
     [\<lparr>au_kind = k, au_repo = repo, au_run = run, au_reason = reason\<rparr>]\<rparr>"

section \<open>Service\<close>

datatype acquire_outcome = Acquired | Conflict | Quarantined

fun state_name :: "lease_state \<Rightarrow> string" where
  "state_name L_STARTING = ''STARTING''"
| "state_name L_ACTIVE = ''ACTIVE''"
| "state_name L_RELEASING = ''RELEASING''"
| "state_name L_QUARANTINED = ''QUARANTINED''"

record acquire_opts =
  ao_run :: "ident option"
  ao_iteration :: "int option"
  ao_actor :: "ident option"

definition acquire ::
    "ident \<Rightarrow> time \<Rightarrow> ident \<Rightarrow> ident \<Rightarrow> actor_kind \<Rightarrow> acquire_opts \<Rightarrow> own_state
     \<Rightarrow> (acquire_outcome \<times> lease option) \<times> own_state" where
  "acquire leaseId now repo inst kind opts s =
     (let insert_path =
        (case lease_insert \<lparr>ls_repo = repo, ls_id = leaseId, ls_instance = inst, ls_run = ao_run opts,
                ls_iteration = ao_iteration opts, ls_kind = kind, ls_actor = ao_actor opts,
                ls_state = L_STARTING, ls_created = now, ls_updated = now, ls_released = None,
                ls_error = None\<rparr> s of
           (s1, True) \<Rightarrow> (let l = lease_get repo s1 in
              ((Acquired, l), emitAudit Lease_acquired repo (coalesce (Option.bind l ls_run) (ao_run opts)) [] s1))
         | (s1, False) \<Rightarrow> (case lease_get repo s1 of
              Some a \<Rightarrow> if ls_state a = L_QUARANTINED
                 then ((Quarantined, Some a), emitAudit Lease_quarantined repo (coalesce (ls_run a) (ao_run opts))
                         ''lease became quarantined'' s1)
                 else ((Conflict, Some a), emitAudit Lease_conflict repo (coalesce (ls_run a) (ao_run opts))
                         ''another actor lease already owns this repository (PK boundary)'' s1)
            | None \<Rightarrow> ((Conflict, None), emitAudit Lease_conflict repo (ao_run opts)
                         ''another actor lease already owns this repository (PK boundary)'' s1)))
      in (case lease_get repo s of
            None \<Rightarrow> insert_path
          | Some e \<Rightarrow>
              if ls_state e = L_QUARANTINED then
                ((Quarantined, Some e), emitAudit Lease_quarantined repo (coalesce (ls_run e) (ao_run opts))
                   ''repository actor is quarantined; manual reconciliation required'' s)
              else if ls_instance e \<noteq> inst \<or> ls_state e = L_ACTIVE \<or> ls_state e = L_STARTING then
                ((Conflict, Some e), emitAudit Lease_conflict repo (coalesce (ls_run e) (ao_run opts))
                   (''repository already has a '' @ state_name (ls_state e) @
                    '' actor lease owned by controller instance '' @ ls_instance e) s)
              else insert_path))"

definition bindActor :: "ident \<Rightarrow> ident \<Rightarrow> ident option option \<Rightarrow> time \<Rightarrow> own_state \<Rightarrow> own_state" where
  "bindActor repo actor run now s = lease_updateState repo L_STARTING (Some (Some actor)) run None now s"

definition markActive :: "ident \<Rightarrow> time \<Rightarrow> own_state \<Rightarrow> own_state" where
  "markActive repo now s = lease_updateState repo L_ACTIVE None None None now s"

definition quarantine :: "ident \<Rightarrow> string \<Rightarrow> time \<Rightarrow> own_state \<Rightarrow> own_state" where
  "quarantine repo reason now s =
     (let s1 = lease_updateState repo L_QUARANTINED None None (Some (Some reason)) now s
      in emitAudit Lease_quarantined repo (Option.bind (lease_get repo s1) ls_run) reason s1)"

definition terminalProcessState :: "proc_record \<Rightarrow> bool" where
  "terminalProcessState p \<longleftrightarrow> pr_state p = O_EXITED \<or> pr_state p = O_KILL_CONFIRMED"

fun proc_state_name :: "own_proc_state \<Rightarrow> string" where
  "proc_state_name O_STARTING = ''STARTING''"
| "proc_state_name O_RUNNING = ''RUNNING''"
| "proc_state_name O_EXITED = ''EXITED''"
| "proc_state_name O_KILL_CONFIRMED = ''KILL_CONFIRMED''"
| "proc_state_name O_UNKNOWN = ''UNKNOWN''"

definition release :: "ident \<Rightarrow> ident \<Rightarrow> time \<Rightarrow> own_state \<Rightarrow> own_state" where
  "release repo inst now s = (case lease_get repo s of None \<Rightarrow> s
     | Some l \<Rightarrow>
         if ls_instance l \<noteq> inst then
           (let reason = ''release attempted by non-owning controller instance'' in
            emitAudit Lease_quarantined repo (ls_run l) reason
              (lease_updateState repo L_QUARANTINED None None (Some (Some reason)) now s))
         else (case find (\<lambda>p. \<not> terminalProcessState p) (proc_listByRepository repo s) of
             Some p \<Rightarrow> (let reason = ''cannot release: process '' @ pr_id p @ '' still in state '' @ proc_state_name (pr_state p)
                in emitAudit Lease_quarantined repo (ls_run l) reason
                     (lease_updateState repo L_QUARANTINED None None (Some (Some reason)) now s))
           | None \<Rightarrow> emitAudit Lease_released repo (ls_run l) [] (lease_store_release repo now s)))"

definition identity_of :: "proc_record \<Rightarrow> proc_identity" where
  "identity_of p = \<lparr>pi_pid = pr_pid p, pi_exe = pr_exe p, pi_marker = pr_marker p\<rparr>"

definition classifyRecord :: "(proc_identity \<Rightarrow> verdict) \<Rightarrow> proc_record \<Rightarrow> verdict" where
  "classifyRecord classify p = (if terminalProcessState p then DEAD else classify (identity_of p))"

record reconcile_result =
  rr_repo :: ident
  rr_prior :: lease
  rr_procs :: "(ident \<times> int \<times> verdict) list"
  rr_released :: bool
  rr_reason :: string

definition verdict_name :: "verdict \<Rightarrow> string" where
  "verdict_name v = (case v of LIVE_MATCH \<Rightarrow> ''LIVE_MATCH'' | DEAD \<Rightarrow> ''DEAD''
     | PID_REUSED \<Rightarrow> ''PID_REUSED'' | UNKNOWN \<Rightarrow> ''UNKNOWN'')"

text \<open>The two ways a prior lease is settled; \<open>cs\<close> is the classified process list.\<close>

definition settle_quarantine ::
    "time \<Rightarrow> lease \<Rightarrow> (ident \<times> int \<times> verdict) list \<Rightarrow> string \<Rightarrow> reconcile_result list \<times> own_state
     \<Rightarrow> reconcile_result list \<times> own_state" where
  "settle_quarantine now l cs reason = (\<lambda>(acc, s).
     (acc @ [\<lparr>rr_repo = ls_repo l, rr_prior = l, rr_procs = cs, rr_released = False, rr_reason = reason\<rparr>],
      emitAudit Recovery_decision (ls_repo l) (ls_run l) reason
        (emitAudit Lease_quarantined (ls_repo l) (ls_run l) reason
          (lease_updateState (ls_repo l) L_QUARANTINED None None (Some (Some reason)) now s))))"

definition settle_release ::
    "time \<Rightarrow> lease \<Rightarrow> (ident \<times> int \<times> verdict) list \<Rightarrow> reconcile_result list \<times> own_state
     \<Rightarrow> reconcile_result list \<times> own_state" where
  "settle_release now l cs = (\<lambda>(acc, s).
     (let reason = ''all owned processes confirmed dead; lease released for recovery'' in
     (acc @ [\<lparr>rr_repo = ls_repo l, rr_prior = l, rr_procs = cs, rr_released = True, rr_reason = reason\<rparr>],
      emitAudit Recovery_decision (ls_repo l) (ls_run l) reason
        (emitAudit Lease_released (ls_repo l) (ls_run l) reason
          (lease_store_release (ls_repo l) now s)))))"

definition blocking_reason :: "ident \<times> int \<times> verdict \<Rightarrow> string" where
  "blocking_reason = (\<lambda>(i, pid, v). if v = UNKNOWN
     then ''process '' @ i @ '' liveness unverifiable after restart; refusing to assume death''
     else ''process '' @ i @ '' verdict='' @ verdict_name v @ ''; prior writer may still be alive'')"

definition reconcile_lease ::
    "(proc_identity \<Rightarrow> verdict) \<Rightarrow> time \<Rightarrow> lease \<Rightarrow> reconcile_result list \<times> own_state
     \<Rightarrow> reconcile_result list \<times> own_state" where
  "reconcile_lease classify now l = (\<lambda>(acc, s).
     (let ps = proc_listByRepository (ls_repo l) s in
      if ps = [] \<and> (ls_state l = L_STARTING \<or> ls_state l = L_ACTIVE) then
        settle_quarantine now l []
          ''prior lease has no process ownership record; spawn/persistence window is ambiguous after restart'' (acc, s)
      else
        (let cs = map (\<lambda>p. (pr_id p, pr_pid p, classifyRecord classify p)) ps;
             s1 = fold (\<lambda>(i, pid, v). emitAudit (Process_verdict v) (ls_repo l) (ls_run l) []) cs s
         in (case find (\<lambda>(i, pid, v). \<not> isProcessReleasable v) cs of
               Some (i, pid, v) \<Rightarrow> settle_quarantine now l cs
                  (blocking_reason (i, pid, v)) (acc, s1)
             | None \<Rightarrow> settle_release now l cs (acc, s1)))))"

text \<open>\<open>priorInstanceLeases\<close>; \<open>repos\<close> is the optional filter.\<close>

definition priorInstanceLeases :: "ident \<Rightarrow> ident list option \<Rightarrow> own_state \<Rightarrow> lease list" where
  "priorInstanceLeases cur repos s =
     List.map_filter (\<lambda>i. lease_get i s)
       (filter (\<lambda>i. case repos of None \<Rightarrow> True | Some rs \<Rightarrow> i \<in> set rs)
         (map ls_repo (filter (\<lambda>l. ls_instance l \<noteq> cur) (ow_leases s))))"

definition reconcileOnStartup ::
    "(proc_identity \<Rightarrow> verdict) \<Rightarrow> time \<Rightarrow> ident \<Rightarrow> ident list option \<Rightarrow> own_state
     \<Rightarrow> reconcile_result list \<times> own_state" where
  "reconcileOnStartup classify now cur repos s =
     fold (reconcile_lease classify now) (priorInstanceLeases cur repos s) ([], s)"


section \<open>Leases and processes under every operation\<close>

named_theorems lease_simps "effect of the operations on leases, processes and lookups"

definition lease_ok :: "own_state \<Rightarrow> bool" where
  "lease_ok s \<longleftrightarrow> unique_keys ls_repo (ow_leases s)"

lemma emitAudit_simps [lease_simps, simp]:
  "ow_leases (emitAudit k r run m s) = ow_leases s" "ow_procs (emitAudit k r run m s) = ow_procs s"
  "lease_get j (emitAudit k r run m s) = lease_get j s"
  by (simp_all add: emitAudit_def lease_get_def)

lemma last_audit [simp]: "last (ow_audit (emitAudit k r run m s)) = \<lparr>au_kind = k, au_repo = r, au_run = run, au_reason = m\<rparr>"
  by (simp add: emitAudit_def)

lemma lease_write_simps [simp]:
  "ls_repo (lease_write st a r e now l) = ls_repo l" "ls_state (lease_write st a r e now l) = st"
  "ls_instance (lease_write st a r e now l) = ls_instance l"
  by (simp_all add: lease_write_def)

lemma updateState_simps [lease_simps, simp]:
  "ow_procs (lease_updateState repo st a r e now s) = ow_procs s"
  "lease_get j (lease_updateState repo st a r e now s) =
     (if j = repo then map_option (lease_write st a r e now) (lease_get j s) else lease_get j s)"
  "lease_ok (lease_updateState repo st a r e now s) = lease_ok s"
  by (simp_all add: lease_updateState_def lease_get_def tbl_get_update_key lease_ok_def unique_keys_update)

lemma store_release_simps [lease_simps, simp]:
  "ow_procs (lease_store_release repo now s) = ow_procs s"
  "lease_get j (lease_store_release repo now s) = (if j = repo then None else lease_get j s)"
  "lease_ok s \<Longrightarrow> lease_ok (lease_store_release repo now s)"
  by (simp_all add: lease_store_release_def lease_delete_def lease_get_def tbl_get_delete_key
      tbl_get_update_key lease_ok_def unique_keys_delete unique_keys_update)

lemma lease_ok_audit [simp]: "lease_ok (emitAudit k r run m s) = lease_ok s"
  by (simp add: lease_ok_def)

lemma proc_list_cong: "ow_procs s = ow_procs t \<Longrightarrow> proc_listByRepository r s = proc_listByRepository r t"
  by (simp add: proc_listByRepository_def)

subsection \<open>Acquire\<close>

interpretation lease_store: unique_store
  "\<lambda>repo s. lease_get repo s \<noteq> None" lease_insert ls_repo lease_ok
  by unfold_locales
    (auto simp: lease_get_def lease_insert_def lease_ok_def tbl_insert_ignore_def table_simps
        unique_keys_append split: option.splits)

lemma lease_insert_new:
  "lease_get (ls_repo l) s = None \<Longrightarrow> lease_insert l s = (s\<lparr>ow_leases := ow_leases s @ [l]\<rparr>, True)"
  by (simp add: lease_insert_def lease_get_def tbl_insert_ignore_def)

lemma lease_insert_taken: "lease_get (ls_repo l) s = Some e \<Longrightarrow> lease_insert l s = (s, False)"
  by (simp add: lease_insert_def lease_get_def tbl_insert_ignore_def)

lemma lease_get_append:
  "lease_get j (s\<lparr>ow_leases := ow_leases s @ [l]\<rparr>)
     = (case lease_get j s of None \<Rightarrow> if ls_repo l = j then Some l else None | Some e \<Rightarrow> Some e)"
  by (simp add: lease_get_def table_simps split: option.split)

lemma acquire_cases:
  "case acquire leaseId now repo inst kind opts s of ((outcome, l), s') \<Rightarrow>
     (case lease_get repo s of
        None \<Rightarrow> outcome = Acquired \<and> l = lease_get repo s'
          \<and> (\<exists>n. ow_leases s' = ow_leases s @ [n] \<and> l = Some n \<and> ls_state n = L_STARTING
                \<and> ls_instance n = inst \<and> ls_run n = ao_run opts)
      | Some e \<Rightarrow> outcome = (if ls_state e = L_QUARANTINED then Quarantined else Conflict)
          \<and> l = Some e \<and> ow_leases s' = ow_leases s)
     \<and> lease_ok s' = lease_ok s"
proof (cases "lease_get repo s")
  case None
  then show ?thesis
    by (simp add: acquire_def Let_def lease_insert_new lease_get_append lease_ok_def unique_keys_append)
      (simp add: lease_get_def)
next
  case (Some e)
  then show ?thesis
    by (auto simp: acquire_def Let_def lease_insert_taken [where e = e])
qed

text \<open>
  The actor lease is exclusive. \<open>acquire\<close> succeeds exactly when the repository has no lease row; it then appends
  one \<open>STARTING\<close> lease of the caller and returns it, and leaves every other
  repository's lease alone. In every other case the outcome says so, a quarantined
  lease is reported as quarantined, and no lease changes.
\<close>

theorem acquire_exclusive:
  "case acquire leaseId now repo inst kind opts s of ((outcome, l), s') \<Rightarrow>
     (case lease_get repo s of
        None \<Rightarrow> outcome = Acquired \<and> l = lease_get repo s'
          \<and> (\<exists>n. ow_leases s' = ow_leases s @ [n] \<and> l = Some n \<and> ls_state n = L_STARTING
                \<and> ls_instance n = inst \<and> ls_run n = ao_run opts)
      | Some e \<Rightarrow> outcome = (if ls_state e = L_QUARANTINED then Quarantined else Conflict)
          \<and> l = Some e \<and> ow_leases s' = ow_leases s)
     \<and> lease_ok s' = lease_ok s"
  by (rule acquire_cases)

subsection \<open>Release\<close>

lemma release_cases:
  "case lease_get repo s of
     None \<Rightarrow> release repo inst now s = s
   | Some l \<Rightarrow>
       (let s' = release repo inst now s in
          ow_procs s' = ow_procs s \<and>
          (\<forall>j. lease_get j s' =
             (if j \<noteq> repo then lease_get j s
              else if ls_instance l = inst \<and> list_all terminalProcessState (proc_listByRepository repo s) then None
              else Some (l\<lparr>ls_state := L_QUARANTINED, ls_updated := now,
                     ls_error := Some (au_reason (last (ow_audit s')))\<rparr>))))"
proof (cases "lease_get repo s")
  case None
  then show ?thesis by (simp add: release_def)
next
  case (Some l)
  have w: "lease_write L_QUARANTINED None None (Some (Some m)) now l
      = l\<lparr>ls_state := L_QUARANTINED, ls_updated := now, ls_error := Some m\<rparr>" for m
    by (simp add: lease_write_def set_col_def)
  have "find (\<lambda>p. \<not> terminalProcessState p) (proc_listByRepository repo s) = None
      \<longleftrightarrow> list_all terminalProcessState (proc_listByRepository repo s)"
    by (auto simp: find_None_iff list_all_iff)
  with Some show ?thesis
    by (auto simp: release_def Let_def w split: option.splits)
qed


text \<open>
  A lease is released only by the controller instance that holds it and only
  when every process recorded for the repository is terminal; any other release
  of a held lease leaves it \<open>QUARANTINED\<close>. Other repositories' leases do not
  change, and no process record does.
\<close>

theorem release_only_when_dead:
  "case lease_get repo s of
     None \<Rightarrow> release repo inst now s = s
   | Some l \<Rightarrow>
       (let s' = release repo inst now s in
          ow_procs s' = ow_procs s \<and>
          (\<forall>j. lease_get j s' =
             (if j \<noteq> repo then lease_get j s
              else if ls_instance l = inst \<and> list_all terminalProcessState (proc_listByRepository repo s) then None
              else Some (l\<lparr>ls_state := L_QUARANTINED, ls_updated := now,
                     ls_error := Some (au_reason (last (ow_audit s')))\<rparr>))))"
  by (rule release_cases)

subsection \<open>Startup reconciliation\<close>

text \<open>When reconciliation may free a lease: every recorded process is confirmed dead
  and the record is not the ambiguous empty one.\<close>

definition lease_safe :: "(proc_identity \<Rightarrow> verdict) \<Rightarrow> proc_record list \<Rightarrow> lease \<Rightarrow> bool" where
  "lease_safe classify procs l \<longleftrightarrow>
     (let ps = filter (\<lambda>p. pr_repo p = ls_repo l) procs in
      \<not> (ps = [] \<and> (ls_state l = L_STARTING \<or> ls_state l = L_ACTIVE))
      \<and> list_all (\<lambda>p. terminalProcessState p \<or> classify (identity_of p) = DEAD) ps)"

definition quarantined_from :: "lease \<Rightarrow> lease \<Rightarrow> bool" where
  "quarantined_from l l' \<longleftrightarrow> ls_state l' = L_QUARANTINED \<and> ls_repo l' = ls_repo l
     \<and> ls_id l' = ls_id l \<and> ls_instance l' = ls_instance l \<and> ls_run l' = ls_run l"

text \<open>The message a lease is quarantined with, None when it is released.\<close>

definition reconcile_reason :: "(proc_identity \<Rightarrow> verdict) \<Rightarrow> proc_record list \<Rightarrow> lease \<Rightarrow> string option" where
  "reconcile_reason classify procs l =
     (let ps = filter (\<lambda>p. pr_repo p = ls_repo l) procs in
      if ps = [] \<and> (ls_state l = L_STARTING \<or> ls_state l = L_ACTIVE)
      then Some ''prior lease has no process ownership record; spawn/persistence window is ambiguous after restart''
      else map_option blocking_reason
        (find (\<lambda>(i, pid, v). \<not> isProcessReleasable v)
           (map (\<lambda>p. (pr_id p, pr_pid p, classifyRecord classify p)) ps)))"

lemma reason_None_iff_safe: "reconcile_reason classify procs l = None \<longleftrightarrow> lease_safe classify procs l"
  by (auto simp: reconcile_reason_def lease_safe_def Let_def find_None_iff list_all_iff
      isProcessReleasable_def classifyRecord_def)

definition settled :: "(proc_identity \<Rightarrow> verdict) \<Rightarrow> proc_record list \<Rightarrow> time \<Rightarrow> lease \<Rightarrow> lease option \<Rightarrow> lease option" where
  "settled classify procs now d e = (case reconcile_reason classify procs d of
     None \<Rightarrow> None
   | Some m \<Rightarrow> map_option (lease_write L_QUARANTINED None None (Some (Some m)) now) e)"

lemma fold_audit_simps:
  "lease_get j (fold (\<lambda>(i, pid, v). emitAudit (k v) r run m) cs s) = lease_get j s"
  "ow_procs (fold (\<lambda>(i, pid, v). emitAudit (k v) r run m) cs s) = ow_procs s"
  "lease_ok (fold (\<lambda>(i, pid, v). emitAudit (k v) r run m) cs s) = lease_ok s"
  by (induction cs arbitrary: s) (auto split: prod.splits)

lemma reconcile_lease_cases:
  "\<exists>cs s1. ow_leases s1 = ow_leases s \<and> ow_procs s1 = ow_procs s \<and>
     reconcile_lease classify now l (acc, s) = (case reconcile_reason classify (ow_procs s) l of
        None \<Rightarrow> settle_release now l cs (acc, s1) | Some m \<Rightarrow> settle_quarantine now l cs m (acc, s1))"
proof -
  let ?ps = "proc_listByRepository (ls_repo l) s"
  let ?cs = "map (\<lambda>p. (pr_id p, pr_pid p, classifyRecord classify p)) ?ps"
  let ?s1 = "fold (\<lambda>(i, pid, v). emitAudit (Process_verdict v) (ls_repo l) (ls_run l) []) ?cs s"
  have ps: "?ps = filter (\<lambda>p. pr_repo p = ls_repo l) (ow_procs s)"
    by (simp add: proc_listByRepository_def)
  have s1: "ow_leases ?s1 = ow_leases s" "ow_procs ?s1 = ow_procs s"
    by (rule fold_invariant_value; simp split: prod.split)+
  show ?thesis
  proof (cases "?ps = [] \<and> (ls_state l = L_STARTING \<or> ls_state l = L_ACTIVE)")
    case True
    then show ?thesis
      by (intro exI [of _ "[]"] exI [of _ s]) (simp add: reconcile_lease_def reconcile_reason_def Let_def ps)
  next
    case False
    have r: "reconcile_lease classify now l (acc, s) =
       (case find (\<lambda>(i, pid, v). \<not> isProcessReleasable v) ?cs of
          Some (i, pid, v) \<Rightarrow> settle_quarantine now l ?cs (blocking_reason (i, pid, v)) (acc, ?s1)
        | None \<Rightarrow> settle_release now l ?cs (acc, ?s1))"
      by (simp only: reconcile_lease_def prod.case Let_def False if_False)
    have q: "reconcile_reason classify (ow_procs s) l
        = map_option blocking_reason (find (\<lambda>(i, pid, v). \<not> isProcessReleasable v) ?cs)"
      using False by (simp only: reconcile_reason_def Let_def ps [symmetric] if_False)
    show ?thesis
      by (intro exI [of _ ?cs] exI [of _ ?s1] conjI s1)
        (simp only: r q option.map option.case split: option.split prod.split, simp)
  qed
qed

lemma reconcile_lease_effect:
  "lease_get j (snd (reconcile_lease classify now d acc_s)) =
     (if j = ls_repo d then settled classify (ow_procs (snd acc_s)) now d (lease_get j (snd acc_s))
      else lease_get j (snd acc_s))
   \<and> ow_procs (snd (reconcile_lease classify now d acc_s)) = ow_procs (snd acc_s)
   \<and> (lease_ok (snd acc_s) \<longrightarrow> lease_ok (snd (reconcile_lease classify now d acc_s)))"
proof -
  obtain acc s where [simp]: "acc_s = (acc, s)" by (cases acc_s)
  obtain cs s1 where s1: "ow_leases s1 = ow_leases s" "ow_procs s1 = ow_procs s"
    and r: "reconcile_lease classify now d (acc, s) = (case reconcile_reason classify (ow_procs s) d of
        None \<Rightarrow> settle_release now d cs (acc, s1) | Some m \<Rightarrow> settle_quarantine now d cs m (acc, s1))"
    using reconcile_lease_cases by blast
  have g: "lease_get k s1 = lease_get k s" "lease_ok s1 = lease_ok s" for k
    using s1 by (simp_all add: lease_get_def lease_ok_def)
  show ?thesis
    by (cases "reconcile_reason classify (ow_procs s) d")
      (simp_all add: r settled_def settle_release_def settle_quarantine_def Let_def g s1)
qed

lemma prior_leases_eq:
  assumes "lease_ok s"
  shows "priorInstanceLeases cur None s = filter (\<lambda>l. ls_instance l \<noteq> cur) (ow_leases s)"
proof -
  have "l \<in> set (ow_leases s) \<Longrightarrow> lease_get (ls_repo l) s = Some l" for l
    using assms by (simp add: lease_ok_def lease_get_def tbl_get_unique)
  then have "set xs \<subseteq> set (ow_leases s) \<Longrightarrow>
      List.map_filter (\<lambda>i. lease_get i s) (map ls_repo xs) = xs" for xs
    by (induction xs) (simp_all add: List.map_filter_simps)
  then show ?thesis by (auto simp: priorInstanceLeases_def)
qed

lemma prior_lookup:
  "unique_keys ls_repo t \<Longrightarrow> tbl_get ls_repo j (filter p t)
     = (case tbl_get ls_repo j t of None \<Rightarrow> None | Some l \<Rightarrow> if p l then Some l else None)"
proof (induction t)
  case (Cons l t)
  then have "unique_keys ls_repo t" "ls_repo l = j \<Longrightarrow> tbl_get ls_repo j t = None"
    by (auto simp: unique_keys_def tbl_get_None)
  with Cons.IH show ?case by (auto simp: table_simps)
qed (simp add: table_simps)

lemma reconcile_effect:
  fixes classify now cur
  assumes "lease_ok s"
  defines "s' \<equiv> snd (reconcileOnStartup classify now cur None s)"
  shows "lease_get j s' = (case lease_get j s of None \<Rightarrow> None
           | Some l \<Rightarrow> if ls_instance l = cur then Some l
                      else settled classify (ow_procs s) now l (Some l))"
    and "lease_ok s'" and "ow_procs s' = ow_procs s"
proof -
  let ?ds = "filter (\<lambda>l. ls_instance l \<noteq> cur) (ow_leases s)"
  let ?ok = "\<lambda>a :: reconcile_result list \<times> own_state. lease_ok (snd a) \<and> ow_procs (snd a) = ow_procs s"
  let ?get = "\<lambda>j (a :: reconcile_result list \<times> own_state). lease_get j (snd a)"
  have d: "distinct (map ls_repo ?ds)"
    using assms(1) by (simp add: lease_ok_def unique_keys_def distinct_map_filter)
  have "?ok (fold (reconcile_lease classify now) ?ds ([], s)) \<and>
      ?get j (fold (reconcile_lease classify now) ?ds ([], s)) =
       (case tbl_get ls_repo j ?ds of None \<Rightarrow> ?get j ([], s)
         | Some l \<Rightarrow> settled classify (ow_procs s) now l (?get j ([], s)))"
  proof (rule fold_keyed_changes [where ok = ?ok and get = ?get and key = ls_repo
        and upd = "settled classify (ow_procs s) now"])
    show "?ok (reconcile_lease classify now d a)" if "?ok a" for d a
      using that reconcile_lease_effect [of "[]" classify now d a] by simp
    show "?get j (reconcile_lease classify now d a)
        = (if j = ls_repo d then settled classify (ow_procs s) now d (?get j a) else ?get j a)"
      if "?ok a" for d a j
      using that reconcile_lease_effect [of j classify now d a] by simp
  qed (use assms(1) d in auto)
  moreover have "tbl_get ls_repo j ?ds = (case lease_get j s of None \<Rightarrow> None
       | Some l \<Rightarrow> if ls_instance l \<noteq> cur then Some l else None)"
    using assms(1) by (simp add: prior_lookup lease_ok_def lease_get_def)
  ultimately show "lease_get j s' = (case lease_get j s of None \<Rightarrow> None
           | Some l \<Rightarrow> if ls_instance l = cur then Some l
                      else settled classify (ow_procs s) now l (Some l))"
    and "lease_ok s'" and "ow_procs s' = ow_procs s"
    using assms(1) by (auto simp: s'_def reconcileOnStartup_def prior_leases_eq split: option.splits)
qed

lemma reconcile_cases:
  assumes "lease_ok s"
  shows "let s' = snd (reconcileOnStartup classify now cur None s) in (case lease_get repo s of
       None \<Rightarrow> lease_get repo s' = None
     | Some l \<Rightarrow>
        if ls_instance l = cur then lease_get repo s' = Some l
        else if lease_safe classify (ow_procs s) l then lease_get repo s' = None
        else (\<exists>l'. lease_get repo s' = Some l' \<and> quarantined_from l l'
               \<and> fst (fst (acquire lid t repo inst kind opts s')) = Quarantined))
   \<and> lease_ok s'"
proof (cases "lease_get repo s")
  case None
  then show ?thesis using reconcile_effect [OF assms(1)] by (simp add: Let_def)
next
  case (Some l)
  define s' where "s' = snd (reconcileOnStartup classify now cur None s)"
  have e: "lease_get repo s' = (if ls_instance l = cur then Some l else settled classify (ow_procs s) now l (Some l))"
    using reconcile_effect [OF assms(1)] Some by (simp add: s'_def)
  have q: "quarantined_from l (lease_write L_QUARANTINED None None m now l)" for m
    by (simp add: quarantined_from_def lease_write_def set_col_def)
  have a: "lease_get repo s' = Some l' \<Longrightarrow> ls_state l' = L_QUARANTINED \<Longrightarrow>
      fst (fst (acquire lid t repo inst kind opts s')) = Quarantined" for l'
    by (simp add: acquire_def Let_def)
  show ?thesis
    using Some e q a reconcile_effect(2) [OF assms(1), of classify now cur] reason_None_iff_safe [of classify "ow_procs s" l]
    by (auto simp: s'_def [symmetric] settled_def split: option.splits)
qed

text \<open>
  C22: startup reconciliation fails closed. A lease left by another controller instance survives
  as \<open>QUARANTINED\<close>, keeping its owner and run, unless every process recorded for
  its repository is terminal or classified \<open>DEAD\<close> and the record is not the
  ambiguous empty one; only then is it released. Leases of the current instance
  and repositories without a lease are untouched, and afterwards \<open>acquire\<close> refuses
  a quarantined repository. A repository has at most one lease row, before and after.
\<close>

theorem reconcile_fails_closed:
  assumes "lease_ok s"
  shows "let s' = snd (reconcileOnStartup classify now cur None s) in (case lease_get repo s of
       None \<Rightarrow> lease_get repo s' = None
     | Some l \<Rightarrow>
        if ls_instance l = cur then lease_get repo s' = Some l
        else if lease_safe classify (ow_procs s) l then lease_get repo s' = None
        else (\<exists>l'. lease_get repo s' = Some l' \<and> quarantined_from l l'
               \<and> fst (fst (acquire lid t repo inst kind opts s')) = Quarantined))
   \<and> lease_ok s'"
  using assms by (rule reconcile_cases)

definition demo_lease :: "lease_state \<Rightarrow> lease" where
  "demo_lease st = \<lparr>ls_repo = ''r'', ls_id = ''l'', ls_instance = ''old'', ls_run = Some ''run'',
     ls_iteration = Some 1, ls_kind = K_SINGLE_AGENT, ls_actor = Some ''a'', ls_state = st,
     ls_created = 0, ls_updated = 0, ls_released = None, ls_error = None\<rparr>"

definition demo_proc :: "own_proc_state \<Rightarrow> proc_record" where
  "demo_proc st = \<lparr>pr_id = ''p'', pr_instance = ''old'', pr_repo = ''r'', pr_run = Some ''run'',
     pr_iteration = Some 1, pr_actor = Some ''a'', pr_packet = None, pr_kind = DIRECT_EXECUTOR, pr_pid = 7,
     pr_exe = None, pr_marker = None, pr_state = st, pr_created = 0, pr_updated = 0, pr_error = None\<rparr>"

theorem reconcile_fails_closed_witness:
  "lease_ok \<lparr>ow_leases = [demo_lease L_ACTIVE], ow_procs = [demo_proc O_RUNNING], ow_audit = []\<rparr>
   \<and> (\<exists>l'. lease_get ''r'' (snd (reconcileOnStartup (\<lambda>_. UNKNOWN) 5 ''new'' None
         \<lparr>ow_leases = [demo_lease L_ACTIVE], ow_procs = [demo_proc O_RUNNING], ow_audit = []\<rparr>)) = Some l'
       \<and> quarantined_from (demo_lease L_ACTIVE) l')"
proof -
  let ?s = "\<lparr>ow_leases = [demo_lease L_ACTIVE], ow_procs = [demo_proc O_RUNNING], ow_audit = []\<rparr>"
  have ok: "lease_ok ?s" by (simp add: lease_ok_def unique_keys_def)
  have g: "lease_get ''r'' ?s = Some (demo_lease L_ACTIVE)"
    by (simp add: lease_get_def table_simps demo_lease_def)
  have u: "\<not> lease_safe (\<lambda>_. UNKNOWN) [demo_proc O_RUNNING] (demo_lease L_ACTIVE)"
    by (simp add: lease_safe_def demo_lease_def demo_proc_def terminalProcessState_def)
  have i: "ls_instance (demo_lease L_ACTIVE) \<noteq> ''new''" by (simp add: demo_lease_def)
  have "\<exists>l'. lease_get ''r'' (snd (reconcileOnStartup (\<lambda>_. UNKNOWN) 5 ''new'' None ?s)) = Some l'
       \<and> quarantined_from (demo_lease L_ACTIVE) l'"
    using reconcile_fails_closed [OF ok, where repo = "''r''" and cur = "''new''" and classify = "\<lambda>_. UNKNOWN" and now = 5] g u i
    by (force simp: Let_def simp del: ex_simps)
  with ok show ?thesis by blast
qed


section \<open>The lease over a sequence of operations\<close>

datatype lease_op =
    Do_acquire ident time ident ident actor_kind acquire_opts
  | Do_bind ident ident "ident option option" time
  | Do_activate ident time
  | Do_quarantine ident string time
  | Do_release ident ident time
  | Do_reconcile "proc_identity \<Rightarrow> verdict" time ident
  | Do_spawned proc_record
  | Do_proc_state ident own_proc_state "string option" time

fun lease_step :: "lease_op \<Rightarrow> own_state \<Rightarrow> own_state" where
  "lease_step (Do_acquire lid t repo inst k opts) s = snd (acquire lid t repo inst k opts s)"
| "lease_step (Do_bind repo actor run t) s = bindActor repo actor run t s"
| "lease_step (Do_activate repo t) s = markActive repo t s"
| "lease_step (Do_quarantine repo r t) s = quarantine repo r t s"
| "lease_step (Do_release repo inst t) s = release repo inst t s"
| "lease_step (Do_reconcile classify t cur) s = snd (reconcileOnStartup classify t cur None s)"
| "lease_step (Do_spawned p) s = (case proc_insert p s of None \<Rightarrow> s | Some s' \<Rightarrow> s')"
| "lease_step (Do_proc_state i st e t) s = proc_setState i st e t s"

lemma proc_ops_keep_leases [simp]:
  "lease_get j (proc_setState i st e t s) = lease_get j s" "lease_ok (proc_setState i st e t s) = lease_ok s"
  "proc_insert p s = Some s' \<Longrightarrow> lease_get j s' = lease_get j s"
  "proc_insert p s = Some s' \<Longrightarrow> lease_ok s' = lease_ok s"
  by (auto simp: proc_setState_def proc_insert_def lease_get_def lease_ok_def)

lemma acquire_ok: "lease_ok (snd (acquire lid t repo inst k opts s)) = lease_ok s"
  using acquire_cases [where leaseId = lid and now = t and repo = repo and inst = inst and kind = k and opts = opts and s = s] by auto

lemma acquire_keeps: "lease_get j s = Some l \<Longrightarrow> lease_get j (snd (acquire lid t repo inst k opts s)) = Some l"
  using acquire_cases [where leaseId = lid and now = t and repo = repo and inst = inst and kind = k and opts = opts and s = s] by (auto simp: lease_get_def table_simps split: option.splits)

lemma release_get:
  "lease_get j (release repo inst t s) = (if j \<noteq> repo then lease_get j s else
     case lease_get repo s of None \<Rightarrow> None
     | Some l \<Rightarrow> if ls_instance l = inst \<and> list_all terminalProcessState (proc_listByRepository repo s) then None
         else map_option (\<lambda>l. l\<lparr>ls_state := L_QUARANTINED, ls_updated := t,
                ls_error := Some (au_reason (last (ow_audit (release repo inst t s))))\<rparr>) (Some l))"
  using release_cases [where repo = repo and s = s and inst = inst and now = t] by (auto simp: Let_def split: option.splits)

lemma release_ok: "lease_ok s \<Longrightarrow> lease_ok (release repo inst t s)"
  by (auto simp: release_def Let_def split: option.splits)

lemma lease_step_ok: "lease_ok s \<Longrightarrow> lease_ok (lease_step op s)"
  by (cases op) (auto simp: acquire_ok bindActor_def markActive_def quarantine_def Let_def release_ok
      reconcile_effect(2) split: option.splits)

text \<open>The operations that may take a repository's lease out of quarantine.\<close>

definition clears_quarantine :: "lease_op \<Rightarrow> ident \<Rightarrow> lease \<Rightarrow> own_state \<Rightarrow> bool" where
  "clears_quarantine op repo l s = (case op of
       Do_bind r a run t \<Rightarrow> r = repo
     | Do_activate r t \<Rightarrow> r = repo
     | Do_release r inst t \<Rightarrow> r = repo \<and> ls_instance l = inst
         \<and> list_all terminalProcessState (proc_listByRepository repo s)
     | Do_reconcile classify t cur \<Rightarrow> ls_instance l \<noteq> cur \<and> lease_safe classify (ow_procs s) l
     | _ \<Rightarrow> False)"

text \<open>
  What ends a quarantine. A quarantined lease stays quarantined under every lease and
  process operation but four, and each of these does end it: a release by its owner once every
  recorded process is terminal, a startup reconciliation that finds every process
  dead, and \<open>bindActor\<close> and \<open>markActive\<close>, which overwrite the state without looking at
  it although \<open>quarantine\<close> is documented as \<open>Never silently clears\<close>.
\<close>

theorem quarantine_ended_by:
  assumes "lease_ok s" and "lease_get repo s = Some l" and "ls_state l = L_QUARANTINED"
  shows "map_option ls_state (lease_get repo (lease_step op s)) = Some L_QUARANTINED
     \<longleftrightarrow> \<not> clears_quarantine op repo l s"
proof (cases op)
  case (Do_reconcile classify t cur)
  then show ?thesis
    using assms reason_None_iff_safe [of classify "ow_procs s" l]
    by (auto simp: clears_quarantine_def reconcile_effect(1) settled_def split: option.splits)
next
  case (Do_acquire lid t r inst k opts)
  then show ?thesis using assms by (simp add: clears_quarantine_def acquire_keeps)
next
  case (Do_release r inst t)
  then show ?thesis using assms by (auto simp: clears_quarantine_def release_get)
qed (use assms in \<open>auto simp: clears_quarantine_def bindActor_def markActive_def quarantine_def Let_def
      split: option.splits\<close>)

theorem quarantine_ended_by_witness:
  "lease_get ''r'' \<lparr>ow_leases = [demo_lease L_QUARANTINED], ow_procs = [], ow_audit = []\<rparr>
     = Some (demo_lease L_QUARANTINED)
   \<and> map_option ls_state (lease_get ''r'' (lease_step (Do_activate ''r'' 1)
        \<lparr>ow_leases = [demo_lease L_QUARANTINED], ow_procs = [], ow_audit = []\<rparr>)) \<noteq> Some L_QUARANTINED"
proof -
  let ?s = "\<lparr>ow_leases = [demo_lease L_QUARANTINED], ow_procs = [], ow_audit = []\<rparr>"
  have ok: "lease_ok ?s" by (simp add: lease_ok_def unique_keys_def)
  have g: "lease_get ''r'' ?s = Some (demo_lease L_QUARANTINED)"
    by (simp add: lease_get_def table_simps demo_lease_def)
  have q: "ls_state (demo_lease L_QUARANTINED) = L_QUARANTINED" by (simp add: demo_lease_def)
  from quarantine_ended_by [OF ok g q, of "Do_activate ''r'' 1"] g show ?thesis
    by (simp add: clears_quarantine_def)
qed

end
