(* ===== verification/Transitions.thy ===== *)
theory Transitions
  imports Prelude "HOL-Library.Sublist"
begin

text \<open>
  Durable transitions: \<open>TransitionIntentStore\<close> and \<open>OutboxStore\<close> of
  \<open>apps/controller/src/ownership/ownership-store.ts\<close> and the service of
  \<open>transition-service.ts\<close>. The state is the two tables and \<open>ts_app\<close>, whatever else
  the caller's \<open>apply\<close> callback and the outbox deliverer change. Random identifiers
  and the clock are arguments. Audit events are left out: they change no state.
\<close>

section \<open>Data\<close>

datatype source_kind = SRC_DISPATCH | SRC_SOL_CONTROL | SRC_EXECUTOR_COMPLETION | SRC_STRATEGY_COMPLETION
datatype intent_state = I_PENDING | I_APPLYING | I_APPLIED | I_FAILED_RETRYABLE | I_FAILED_TERMINAL
datatype effect_state = E_PENDING | E_DELIVERING | E_DELIVERED | E_FAILED_RETRYABLE | E_FAILED_TERMINAL

record intent =
  it_id :: ident
  it_repo :: ident
  it_run :: "ident option"
  it_source :: source_kind
  it_source_id :: ident
  it_operation :: string
  it_payload :: string
  it_state :: intent_state
  it_attempts :: nat
  it_error :: "string option"
  it_created :: time
  it_updated :: time

text \<open>
  The JSON payload of an effect, with every field any effect kind carries; a field that
  is absent, or not a string, is None; strategy names are those the code writes.
\<close>

record payload =
  pl_resultStatus :: "string option"
  pl_runId :: "ident option"
  pl_dispatchId :: "ident option"
  pl_strategy :: "strategy option"
  pl_executionPlan :: "execution_plan option"
  pl_repositoryId :: "ident option"

definition no_payload :: payload where
  "no_payload = \<lparr>pl_resultStatus = None, pl_runId = None, pl_dispatchId = None, pl_strategy = None, pl_executionPlan = None,
     pl_repositoryId = None\<rparr>"

record outbox_item =
  ob_id :: ident
  ob_key :: string
  ob_repo :: ident
  ob_run :: "ident option"
  ob_kind :: string
  ob_payload :: "payload json"
  ob_state :: effect_state
  ob_attempts :: nat
  ob_error :: "string option"
  ob_created :: time
  ob_updated :: time

record effect_spec =
  es_key :: string
  es_repo :: ident
  es_run :: "ident option"
  es_kind :: string
  es_payload :: "payload json"

record 'a tstate =
  ts_intents :: "intent list"
  ts_outbox :: "outbox_item list"
  ts_app :: 'a

section \<open>The intent store\<close>

type_synonym intent_key = "source_kind \<times> ident \<times> string"

definition intent_key :: "intent \<Rightarrow> intent_key" where
  "intent_key i = (it_source i, it_source_id i, it_operation i)"

text \<open>\<open>PRIMARY KEY (intent_id)\<close> and \<open>UNIQUE (source_kind, source_id, operation)\<close>.\<close>

definition intent_clash :: "intent \<Rightarrow> 'a tstate \<Rightarrow> bool" where
  "intent_clash r s = list_ex (\<lambda>i. it_id i = it_id r \<or> intent_key i = intent_key r) (ts_intents s)"

definition intent_enqueue :: "intent \<Rightarrow> 'a tstate \<Rightarrow> 'a tstate \<times> bool" where
  "intent_enqueue r s = (if intent_clash r s then (s, False)
     else (s\<lparr>ts_intents := ts_intents s @ [r]\<rparr>, True))"

definition getBySource :: "intent_key \<Rightarrow> 'a tstate \<Rightarrow> intent option" where
  "getBySource k s = tbl_get intent_key k (ts_intents s)"

definition hasIntentForSourceExcluding :: "source_kind \<Rightarrow> ident \<Rightarrow> string list \<Rightarrow> 'a tstate \<Rightarrow> bool" where
  "hasIntentForSourceExcluding k i excluded s =
     list_ex (\<lambda>r. it_source r = k \<and> it_source_id r = i \<and> it_operation r \<notin> set excluded) (ts_intents s)"

definition markApplying :: "ident \<Rightarrow> time \<Rightarrow> 'a tstate \<Rightarrow> 'a tstate \<times> bool" where
  "markApplying i now s =
     (let p = (\<lambda>r. it_id r = i \<and> it_state r = I_PENDING) in
      (s\<lparr>ts_intents := tbl_update p
           (\<lambda>r. r\<lparr>it_state := I_APPLYING, it_updated := now, it_attempts := it_attempts r + 1\<rparr>) (ts_intents s)\<rparr>,
       length (filter p (ts_intents s)) = 1))"

definition intent_setState :: "ident \<Rightarrow> intent_state \<Rightarrow> string option \<Rightarrow> time \<Rightarrow> 'a tstate \<Rightarrow> 'a tstate" where
  "intent_setState i st err now s = s\<lparr>ts_intents := tbl_update (\<lambda>r. it_id r = i)
     (\<lambda>r. r\<lparr>it_state := st, it_updated := now, it_error := err\<rparr>) (ts_intents s)\<rparr>"

definition intent_listByState :: "intent_state \<Rightarrow> nat \<Rightarrow> 'a tstate \<Rightarrow> intent list" where
  "intent_listByState st n s = take n (order_asc it_created (filter (\<lambda>r. it_state r = st) (ts_intents s)))"

section \<open>The outbox store\<close>

definition outbox_clash :: "outbox_item \<Rightarrow> 'a tstate \<Rightarrow> bool" where
  "outbox_clash r s = list_ex (\<lambda>i. ob_id i = ob_id r \<or> ob_key i = ob_key r) (ts_outbox s)"

definition outbox_insert :: "outbox_item \<Rightarrow> 'a tstate \<Rightarrow> 'a tstate \<times> bool" where
  "outbox_insert r s = (if outbox_clash r s then (s, False)
     else (s\<lparr>ts_outbox := ts_outbox s @ [r]\<rparr>, True))"

definition outbox_row :: "ident \<Rightarrow> time \<Rightarrow> effect_spec \<Rightarrow> outbox_item" where
  "outbox_row i now e = \<lparr>ob_id = i, ob_key = es_key e, ob_repo = es_repo e, ob_run = es_run e,
     ob_kind = es_kind e, ob_payload = es_payload e, ob_state = E_PENDING, ob_attempts = 0,
     ob_error = None, ob_created = now, ob_updated = now\<rparr>"

definition outbox_enqueue :: "ident \<Rightarrow> time \<Rightarrow> effect_spec \<Rightarrow> 'a tstate \<Rightarrow> 'a tstate \<times> bool" where
  "outbox_enqueue i now e s = outbox_insert (outbox_row i now e) s"

definition markDelivering :: "ident \<Rightarrow> time \<Rightarrow> 'a tstate \<Rightarrow> 'a tstate \<times> bool" where
  "markDelivering i now s =
     (let p = (\<lambda>r. ob_id r = i \<and> ob_state r = E_PENDING) in
      (s\<lparr>ts_outbox := tbl_update p
           (\<lambda>r. r\<lparr>ob_state := E_DELIVERING, ob_updated := now, ob_attempts := ob_attempts r + 1\<rparr>) (ts_outbox s)\<rparr>,
       length (filter p (ts_outbox s)) = 1))"

definition outbox_setState :: "ident \<Rightarrow> effect_state \<Rightarrow> string option \<Rightarrow> time \<Rightarrow> 'a tstate \<Rightarrow> 'a tstate" where
  "outbox_setState i st err now s = s\<lparr>ts_outbox := tbl_update (\<lambda>r. ob_id r = i)
     (\<lambda>r. r\<lparr>ob_state := st, ob_updated := now, ob_error := err\<rparr>) (ts_outbox s)\<rparr>"

definition outbox_get :: "ident \<Rightarrow> 'a tstate \<Rightarrow> outbox_item option" where
  "outbox_get i s = tbl_get ob_id i (ts_outbox s)"

definition outbox_listByState :: "effect_state \<Rightarrow> nat \<Rightarrow> 'a tstate \<Rightarrow> outbox_item list" where
  "outbox_listByState st n s = take n (order_asc ob_created (filter (\<lambda>r. ob_state r = st) (ts_outbox s)))"

section \<open>The service\<close>

record 'a apply_opts =
  eo_source :: source_kind
  eo_source_id :: ident
  eo_operation :: string
  eo_repo :: ident
  eo_run :: "ident option"
  eo_payload :: string
  eo_apply :: "'a \<Rightarrow> string + effect_spec list \<times> 'a"

definition eo_key :: "'a apply_opts \<Rightarrow> intent_key" where
  "eo_key c = (eo_source c, eo_source_id c, eo_operation c)"

record apply_result =
  ar_applied :: bool
  ar_intent :: ident
  ar_outbox :: "effect_spec list"

text \<open>
  \<open>withTransaction\<close>: the body runs on the state; when it throws, every table change
  it made is rolled back and the error is thrown on.
\<close>

definition withTransaction :: "('s \<Rightarrow> string + 'r \<times> 's) \<Rightarrow> 's \<Rightarrow> (string + 'r) \<times> 's" where
  "withTransaction body s = (case body s of Inl e \<Rightarrow> (Inl e, s) | Inr (r, s') \<Rightarrow> (Inr r, s'))"

definition apply_body ::
    "ident \<Rightarrow> (nat \<Rightarrow> ident) \<Rightarrow> time \<Rightarrow> 'a apply_opts \<Rightarrow> 'a tstate \<Rightarrow> string + effect_spec list \<times> 'a tstate" where
  "apply_body iid uuid now c s = (case eo_apply c (ts_app s) of
       Inl e \<Rightarrow> Inl e
     | Inr (specs, a) \<Rightarrow> Inr (specs, intent_setState iid I_APPLIED None now
         (fold (\<lambda>(n, e) s. fst (outbox_enqueue (uuid n) now e s)) (List.enumerate 0 specs) (s\<lparr>ts_app := a\<rparr>))))"

text \<open>\<open>enqueueAndApply\<close>: \<open>Inl\<close> is the error thrown out of the transaction.\<close>

definition enqueueAndApply ::
    "ident \<Rightarrow> (nat \<Rightarrow> ident) \<Rightarrow> time \<Rightarrow> 'a apply_opts \<Rightarrow> 'a tstate \<Rightarrow> (string + apply_result) \<times> 'a tstate" where
  "enqueueAndApply iid uuid now c s =
     (case intent_enqueue \<lparr>it_id = iid, it_repo = eo_repo c, it_run = eo_run c, it_source = eo_source c,
             it_source_id = eo_source_id c, it_operation = eo_operation c, it_payload = eo_payload c,
             it_state = I_PENDING, it_attempts = 0, it_error = None, it_created = now, it_updated = now\<rparr> s of
        (s1, False) \<Rightarrow> (Inr \<lparr>ar_applied = False, ar_intent = iid, ar_outbox = []\<rparr>, s1)
      | (s1, True) \<Rightarrow> (case markApplying iid now s1 of
            (s2, False) \<Rightarrow> (Inr \<lparr>ar_applied = False, ar_intent = iid, ar_outbox = []\<rparr>, s2)
          | (s2, True) \<Rightarrow> (case withTransaction (apply_body iid uuid now c) s2 of
                (Inl e, s3) \<Rightarrow> (Inl e, s3)
              | (Inr specs, s3) \<Rightarrow> (Inr \<lparr>ar_applied = True, ar_intent = iid, ar_outbox = specs\<rparr>, s3))))"

text \<open>\<open>listPendingOutbox\<close>, also the work list of \<open>replayOutbox\<close>.\<close>

definition listPendingOutbox :: "'a tstate \<Rightarrow> outbox_item list" where
  "listPendingOutbox s = outbox_listByState E_PENDING 100 s @ outbox_listByState E_DELIVERING 100 s"

text \<open>One turn of the replay loop; \<open>deliver\<close> returns the message it threw, if any.\<close>

definition replay_step ::
    "(outbox_item \<Rightarrow> 'a tstate \<Rightarrow> string option \<times> 'a tstate) \<Rightarrow> time \<Rightarrow> outbox_item \<Rightarrow> 'a tstate \<Rightarrow> 'a tstate" where
  "replay_step deliver now item s =
     (if ob_state item = E_DELIVERED \<or> ob_state item = E_FAILED_TERMINAL then s
      else (case markDelivering (ob_id item) now s of (s1, claimed) \<Rightarrow>
        if \<not> claimed \<and> ob_state item \<noteq> E_DELIVERING then s1
        else (case deliver item s1 of
            (None, s2) \<Rightarrow> outbox_setState (ob_id item) E_DELIVERED None now s2
          | (Some message, s2) \<Rightarrow> outbox_setState (ob_id item) E_FAILED_RETRYABLE (Some message) now s2)))"

definition replayOutbox ::
    "(outbox_item \<Rightarrow> 'a tstate \<Rightarrow> string option \<times> 'a tstate) \<Rightarrow> time \<Rightarrow> 'a tstate \<Rightarrow> 'a tstate" where
  "replayOutbox deliver now s = fold (replay_step deliver now) (listPendingOutbox s) s"

definition hasCompletedIterationFor :: "ident \<Rightarrow> 'a tstate \<Rightarrow> bool" where
  "hasCompletedIterationFor d s =
     hasIntentForSourceExcluding SRC_DISPATCH d [''DISPATCH_START'', ''DISPATCH_DRAIN''] s"

definition hasSuccessfulCompletionFor :: "ident \<Rightarrow> 'a tstate \<Rightarrow> bool" where
  "hasSuccessfulCompletionFor d s \<longleftrightarrow>
     getBySource (SRC_DISPATCH, d, ''COMPLETE'') s \<noteq> None
     \<or> getBySource (SRC_DISPATCH, d, ''POSTFLIGHT_COMPLETE'') s \<noteq> None"


section \<open>The stores as guarded inserts\<close>

interpretation intents: guarded_insert intent_clash intent_enqueue
  "\<lambda>q r. it_id q = it_id r \<or> intent_key q = intent_key r"
  "\<lambda>s. unique_keys it_id (ts_intents s) \<and> unique_keys intent_key (ts_intents s)"
  by unfold_locales
    (auto simp: intent_clash_def intent_enqueue_def unique_keys_def list_ex_iff)

interpretation outbox: guarded_insert outbox_clash outbox_insert
  "\<lambda>q r. ob_id q = ob_id r \<or> ob_key q = ob_key r"
  "\<lambda>s. unique_keys ob_id (ts_outbox s) \<and> unique_keys ob_key (ts_outbox s)"
  by unfold_locales
    (auto simp: outbox_clash_def outbox_insert_def unique_keys_def list_ex_iff)

definition tstate_ok :: "'a tstate \<Rightarrow> bool" where
  "tstate_ok s \<longleftrightarrow> unique_keys it_id (ts_intents s) \<and> unique_keys intent_key (ts_intents s)
     \<and> unique_keys ob_id (ts_outbox s) \<and> unique_keys ob_key (ts_outbox s)"

named_theorems transition_simps "effect of the store operations on tables and keys"

lemma intent_key_update [simp]:
  "intent_key (r\<lparr>it_state := st, it_updated := now, it_error := err\<rparr>) = intent_key r"
  "intent_key (r\<lparr>it_state := st, it_updated := now, it_attempts := n\<rparr>) = intent_key r"
  by (simp_all add: intent_key_def)

lemma intent_ops_frame [transition_simps]:
  "ts_outbox (fst (intent_enqueue r s)) = ts_outbox s" "ts_app (fst (intent_enqueue r s)) = ts_app s"
  "ts_outbox (fst (markApplying i now s)) = ts_outbox s" "ts_app (fst (markApplying i now s)) = ts_app s"
  "ts_outbox (intent_setState i st e now s) = ts_outbox s" "ts_app (intent_setState i st e now s) = ts_app s"
  by (simp_all add: intent_enqueue_def markApplying_def intent_setState_def Let_def)

lemma outbox_ops_frame [transition_simps]:
  "ts_intents (fst (outbox_insert r s)) = ts_intents s" "ts_app (fst (outbox_insert r s)) = ts_app s"
  "ts_intents (fst (markDelivering i now s)) = ts_intents s" "ts_app (fst (markDelivering i now s)) = ts_app s"
  "ts_intents (outbox_setState i oe e now s) = ts_intents s" "ts_app (outbox_setState i oe e now s) = ts_app s"
  by (simp_all add: outbox_insert_def markDelivering_def outbox_setState_def Let_def)

lemma intent_keys_kept [transition_simps]:
  "map intent_key (ts_intents (fst (markApplying i now s))) = map intent_key (ts_intents s)"
  "map it_id (ts_intents (fst (markApplying i now s))) = map it_id (ts_intents s)"
  "map intent_key (ts_intents (intent_setState i st e now s)) = map intent_key (ts_intents s)"
  "map it_id (ts_intents (intent_setState i st e now s)) = map it_id (ts_intents s)"
  by (auto simp: markApplying_def intent_setState_def tbl_update_def Let_def)

lemma outbox_keys_kept [transition_simps]:
  "map ob_key (ts_outbox (fst (markDelivering i now s))) = map ob_key (ts_outbox s)"
  "map ob_id (ts_outbox (fst (markDelivering i now s))) = map ob_id (ts_outbox s)"
  "map ob_key (ts_outbox (outbox_setState i st e now s)) = map ob_key (ts_outbox s)"
  "map ob_id (ts_outbox (outbox_setState i st e now s)) = map ob_id (ts_outbox s)"
  by (auto simp: markDelivering_def outbox_setState_def tbl_update_def Let_def)

text \<open>The outbox rows a committed transition adds.\<close>

definition add_effects :: "(nat \<Rightarrow> ident) \<Rightarrow> time \<Rightarrow> (nat \<times> effect_spec) list \<Rightarrow> 'a tstate \<Rightarrow> 'a tstate" where
  "add_effects uuid now = fold (\<lambda>(n, e) s. fst (outbox_enqueue (uuid n) now e s))"

lemma add_effects_frame [transition_simps]:
  "ts_intents (add_effects uuid now es s) = ts_intents s" "ts_app (add_effects uuid now es s) = ts_app s"
  by (induction es arbitrary: s) (auto simp: add_effects_def outbox_enqueue_def transition_simps)

lemma add_effects_ok: "tstate_ok s \<Longrightarrow> tstate_ok (add_effects uuid now es s)"
proof (induction es arbitrary: s)
  case (Cons e es)
  have "tstate_ok (fst (outbox_enqueue (uuid (fst e)) now (snd e) s))"
    using Cons.prems outbox.guard_ok [of s "outbox_row (uuid (fst e)) now (snd e)"]
    by (simp add: tstate_ok_def outbox_enqueue_def transition_simps)
  then show ?case using Cons.IH by (simp add: add_effects_def split_beta)
qed (simp add: add_effects_def)

lemma add_effects_prefix: "\<exists>new. ts_outbox (add_effects uuid now es s) = ts_outbox s @ new
    \<and> (\<forall>r \<in> set new. ob_state r = E_PENDING \<and> ob_attempts r = 0)"
proof (induction es arbitrary: s)
  case (Cons e es)
  let ?s = "fst (outbox_enqueue (uuid (fst e)) now (snd e) s)"
  obtain new where "ts_outbox (add_effects uuid now es ?s) = ts_outbox ?s @ new"
    "\<forall>r \<in> set new. ob_state r = E_PENDING \<and> ob_attempts r = 0"
    using Cons.IH by blast
  then show ?case
    by (auto simp: add_effects_def split_beta outbox_enqueue_def outbox_insert_def outbox_row_def)
qed (simp add: add_effects_def)

text \<open>The rows added are rows of the effects asked for, in their order, each at most once.\<close>

lemma add_effects_rows: "\<exists>new. ts_outbox (add_effects uuid now es s) = ts_outbox s @ new
    \<and> subseq new (map (\<lambda>(n, e). outbox_row (uuid n) now e) es)"
proof (induction es arbitrary: s)
  case (Cons e es)
  let ?r = "outbox_row (uuid (fst e)) now (snd e)" and ?s = "fst (outbox_enqueue (uuid (fst e)) now (snd e) s)"
  obtain new where n: "ts_outbox (add_effects uuid now es ?s) = ts_outbox ?s @ new"
    "subseq new (map (\<lambda>(n, e). outbox_row (uuid n) now e) es)"
    using Cons.IH by blast
  have step: "add_effects uuid now (e # es) s = add_effects uuid now es ?s" by (simp add: add_effects_def split_beta)
  show ?case
  proof (cases "outbox_clash ?r s")
    case True
    then have "?s = s" by (simp add: outbox_enqueue_def outbox_insert_def)
    moreover have "subseq new (?r # map (\<lambda>e. outbox_row (uuid (fst e)) now (snd e)) es)"
      using n(2) by (intro list_emb_Cons) (simp add: case_prod_unfold)
    ultimately show ?thesis using n(1) step by (intro exI [of _ new]) (simp add: case_prod_unfold)
  next
    case False
    then have "ts_outbox ?s = ts_outbox s @ [?r]" by (simp add: outbox_enqueue_def outbox_insert_def)
    with n step show ?thesis by (intro exI [of _ "?r # new"]) (simp add: case_prod_unfold)
  qed
qed (simp add: add_effects_def)

lemma add_effects_keys:
  assumes "distinct (map (uuid \<circ> fst) es)" and "\<And>n e. (n, e) \<in> set es \<Longrightarrow> uuid n \<notin> ob_id ` set (ts_outbox s)"
  shows "ob_key ` set (ts_outbox (add_effects uuid now es s)) = ob_key ` set (ts_outbox s) \<union> es_key ` snd ` set es"
  using assms
proof (induction es arbitrary: s)
  case (Cons e es)
  let ?s = "fst (outbox_enqueue (uuid (fst e)) now (snd e) s)"
  have i: "ob_id ` set (ts_outbox ?s) \<subseteq> insert (uuid (fst e)) (ob_id ` set (ts_outbox s))"
    by (auto simp: outbox_enqueue_def outbox_insert_def outbox_row_def)
  have "uuid (fst e) \<notin> ob_id ` set (ts_outbox s)" using Cons.prems(2) [of "fst e" "snd e"] by simp
  then have k: "ob_key ` set (ts_outbox ?s) = insert (es_key (snd e)) (ob_key ` set (ts_outbox s))"
    by (auto simp: outbox_enqueue_def outbox_insert_def outbox_row_def outbox_clash_def list_ex_iff image_iff)
      metis
  have u: "uuid n \<notin> ob_id ` set (ts_outbox ?s)" if "(n, x) \<in> set es" for n x
  proof -
    have "uuid n \<in> (\<lambda>a. uuid (fst a)) ` set es" using that by force
    moreover have "uuid (fst e) \<notin> (\<lambda>a. uuid (fst a)) ` set es" using Cons.prems(1) by (simp add: comp_def)
    ultimately have "uuid n \<noteq> uuid (fst e)" by metis
    moreover have "uuid n \<notin> ob_id ` set (ts_outbox s)" using that Cons.prems(2) [of n x] by simp
    ultimately show ?thesis using i by blast
  qed
  from Cons.IH [OF _ u] Cons.prems(1) k show ?case
    by (auto simp: add_effects_def split_beta)
qed (simp add: add_effects_def)


lemma add_one_effect:
  "\<not> outbox_clash (outbox_row (u 0) now e) s \<Longrightarrow> ts_outbox (add_effects u now [(0, e)] s) = ts_outbox s @ [outbox_row (u 0) now e]"
  by (simp add: add_effects_def outbox_enqueue_def outbox_insert_def)

lemma add_two_effects:
  assumes "\<not> outbox_clash (outbox_row (u 0) now e) s" and "\<not> outbox_clash (outbox_row (u 1) now f) s"
    and "u 0 \<noteq> u 1" and "es_key e \<noteq> es_key f"
  shows "ts_outbox (add_effects u now (List.enumerate 0 [e, f]) s) =
     ts_outbox s @ [outbox_row (u 0) now e, outbox_row (u 1) now f]"
  using assms by (auto simp: add_effects_def outbox_enqueue_def outbox_insert_def outbox_clash_def outbox_row_def list_ex_iff)

lemma pending_appended:
  assumes "listPendingOutbox s = []" and "ts_outbox t = ts_outbox s @ rows"
    and "list_all (\<lambda>r. ob_state r = E_PENDING \<and> ob_created r = now) rows" and "length rows \<le> 100"
  shows "listPendingOutbox t = rows"
proof -
  have none: "filter (\<lambda>r. ob_state r = E_PENDING) (ts_outbox s) = []" "filter (\<lambda>r. ob_state r = E_DELIVERING) (ts_outbox s) = []"
    using assms(1) by (simp_all add: listPendingOutbox_def outbox_listByState_def)
  have "filter (\<lambda>r. ob_state r = E_PENDING) rows = rows" "filter (\<lambda>r. ob_state r = E_DELIVERING) rows = []"
    using assms(3) by (simp_all add: list_all_iff filter_id_conv filter_empty_conv)
  moreover have "sort_key ob_created rows = rows"
  proof (rule sort_key_id_if_sorted)
    have "map ob_created rows = replicate (length rows) now"
      using assms(3) by (intro replicate_eqI) (auto simp: list_all_iff)
    then show "sorted (map ob_created rows)" by simp
  qed
  ultimately show ?thesis
    using none assms(2,4) by (simp add: listPendingOutbox_def outbox_listByState_def order_asc_def)
qed


section \<open>One call\<close>

definition call_row :: "ident \<Rightarrow> time \<Rightarrow> intent_state \<Rightarrow> nat \<Rightarrow> 'a apply_opts \<Rightarrow> intent" where
  "call_row iid now st n c = \<lparr>it_id = iid, it_repo = eo_repo c, it_run = eo_run c, it_source = eo_source c,
     it_source_id = eo_source_id c, it_operation = eo_operation c, it_payload = eo_payload c,
     it_state = st, it_attempts = n, it_error = None, it_created = now, it_updated = now\<rparr>"

lemma call_row_simps [simp]:
  "it_id (call_row iid now st n c) = iid" "intent_key (call_row iid now st n c) = eo_key c"
  "it_state (call_row iid now st n c) = st"
  by (simp_all add: call_row_def intent_key_def eo_key_def)

lemma tbl_update_append: "tbl_update p f (t @ u) = tbl_update p f t @ tbl_update p f u"
  by (simp add: tbl_update_def)

lemma markApplying_new:
  assumes "iid \<notin> it_id ` set (ts_intents s)"
  shows "markApplying iid now (s\<lparr>ts_intents := ts_intents s @ [call_row iid now I_PENDING 0 c]\<rparr>)
       = (s\<lparr>ts_intents := ts_intents s @ [call_row iid now I_APPLYING 1 c]\<rparr>, True)"
proof -
  have none: "filter (\<lambda>r. it_id r = iid \<and> it_state r = I_PENDING) (ts_intents s) = []"
    using assms by (auto simp: filter_empty_conv)
  show ?thesis
    by (simp add: markApplying_def Let_def none tbl_update_append tbl_update_none [OF none])
      (simp add: tbl_update_def call_row_def)
qed

lemma setState_new:
  assumes "iid \<notin> it_id ` set t" and "ts_intents s = t @ [call_row iid now I_APPLYING 1 c]"
  shows "intent_setState iid I_APPLIED None now s = s\<lparr>ts_intents := t @ [call_row iid now I_APPLIED 1 c]\<rparr>"
proof -
  have none: "filter (\<lambda>r. it_id r = iid) t = []" using assms(1) by (auto simp: filter_empty_conv)
  show ?thesis
    by (simp add: intent_setState_def assms(2) tbl_update_append tbl_update_none [OF none])
      (simp add: tbl_update_def call_row_def)
qed

lemma update_swap: "s\<lparr>ts_intents := t, ts_app := a\<rparr> = s\<lparr>ts_app := a, ts_intents := t\<rparr>"
  by (cases s) simp

lemma outbox_enqueue_intents:
  "fst (outbox_enqueue i now e (s\<lparr>ts_intents := t\<rparr>)) = (fst (outbox_enqueue i now e s))\<lparr>ts_intents := t\<rparr>"
  by (simp add: outbox_enqueue_def outbox_insert_def outbox_clash_def)

lemma add_effects_intents:
  "add_effects uuid now es (s\<lparr>ts_intents := t\<rparr>) = (add_effects uuid now es s)\<lparr>ts_intents := t\<rparr>"
  by (induction es arbitrary: s) (simp_all add: add_effects_def outbox_enqueue_intents split_beta)

lemma enqueueAndApply_eq:
  "enqueueAndApply iid uuid now c s =
     (if intent_clash (call_row iid now I_PENDING 0 c) s
      then (Inr \<lparr>ar_applied = False, ar_intent = iid, ar_outbox = []\<rparr>, s)
      else (case eo_apply c (ts_app s) of
          Inl e \<Rightarrow> (Inl e, s\<lparr>ts_intents := ts_intents s @ [call_row iid now I_APPLYING 1 c]\<rparr>)
        | Inr (specs, a) \<Rightarrow> (Inr \<lparr>ar_applied = True, ar_intent = iid, ar_outbox = specs\<rparr>,
            (add_effects uuid now (List.enumerate 0 specs) (s\<lparr>ts_app := a\<rparr>))
              \<lparr>ts_intents := ts_intents s @ [call_row iid now I_APPLIED 1 c]\<rparr>)))"
proof (cases "intent_clash (call_row iid now I_PENDING 0 c) s")
  case True
  then show ?thesis
    by (simp add: enqueueAndApply_def call_row_def [symmetric] intent_enqueue_def)
next
  case False
  then have fresh: "iid \<notin> it_id ` set (ts_intents s)"
    by (auto simp: intent_clash_def list_ex_iff)
  show ?thesis
  proof (cases "eo_apply c (ts_app s)")
    case (Inl e)
    with False show ?thesis
      by (simp add: enqueueAndApply_def call_row_def [symmetric] intent_enqueue_def markApplying_new [OF fresh]
          withTransaction_def apply_body_def)
  next
    case (Inr r)
    then obtain specs a where r: "eo_apply c (ts_app s) = Inr (specs, a)" by (cases r) auto
    let ?es = "List.enumerate 0 specs" and ?t = "ts_intents s @ [call_row iid now I_APPLYING 1 c]"
    have "add_effects uuid now ?es (s\<lparr>ts_intents := ?t, ts_app := a\<rparr>)
        = (add_effects uuid now ?es (s\<lparr>ts_app := a\<rparr>))\<lparr>ts_intents := ?t\<rparr>"
      unfolding update_swap by (rule add_effects_intents)
    then have "intent_setState iid I_APPLIED None now (add_effects uuid now ?es (s\<lparr>ts_intents := ?t, ts_app := a\<rparr>))
      = (add_effects uuid now ?es (s\<lparr>ts_app := a\<rparr>))\<lparr>ts_intents := ts_intents s @ [call_row iid now I_APPLIED 1 c]\<rparr>"
      using setState_new [OF fresh, where c = c and now = now
          and s = "(add_effects uuid now ?es (s\<lparr>ts_app := a\<rparr>))\<lparr>ts_intents := ?t\<rparr>"] by simp
    with False r show ?thesis
      by (simp add: enqueueAndApply_def call_row_def [symmetric] intent_enqueue_def markApplying_new [OF fresh]
          withTransaction_def apply_body_def add_effects_def [symmetric])
  qed
qed


section \<open>Sequences of calls\<close>

type_synonym 'a call = "ident \<times> (nat \<Rightarrow> ident) \<times> time \<times> 'a apply_opts"

fun call :: "'a call \<Rightarrow> 'a tstate \<Rightarrow> (string + apply_result) \<times> 'a tstate" where
  "call (iid, uuid, now, c) s = enqueueAndApply iid uuid now c s"

fun call_key :: "'a call \<Rightarrow> intent_key" where
  "call_key (iid, uuid, now, c) = eo_key c"

fun run_calls :: "'a call list \<Rightarrow> 'a tstate \<Rightarrow> (intent_key \<times> (string + apply_result)) list \<times> 'a tstate" where
  "run_calls [] s = ([], s)"
| "run_calls (c # cs) s = (let (r, s1) = call c s; (rs, s2) = run_calls cs s1 in ((call_key c, r) # rs, s2))"

definition was_applied :: "string + apply_result \<Rightarrow> bool" where
  "was_applied r = (case r of Inl e \<Rightarrow> False | Inr a \<Rightarrow> ar_applied a)"

definition has_intent :: "intent_key \<Rightarrow> 'a tstate \<Rightarrow> bool" where
  "has_intent k s \<longleftrightarrow> list_ex (\<lambda>i. intent_key i = k) (ts_intents s)"

lemma call_effect:
  "call c s = (r, s') \<Longrightarrow> (has_intent k s' \<longleftrightarrow> has_intent k s \<or> (k = call_key c \<and> s' \<noteq> s))
     \<and> (was_applied r \<longrightarrow> \<not> has_intent (call_key c) s \<and> has_intent (call_key c) s')"
  by (cases c) (auto simp: enqueueAndApply_eq has_intent_def was_applied_def intent_clash_def list_ex_iff
      split: if_splits sum.splits prod.splits)

lemma call_intents:
  "call c s = (r, s') \<Longrightarrow> \<exists>new. ts_intents s' = ts_intents s @ new
     \<and> (has_intent (call_key c) s \<longrightarrow> new = [] \<and> \<not> was_applied r)"
  by (cases c) (auto simp: enqueueAndApply_eq has_intent_def was_applied_def intent_clash_def list_ex_iff
      transition_simps split: if_splits sum.splits prod.splits)

text \<open>
  C23: at most once. In any sequence of \<open>enqueueAndApply\<close> calls, whatever their callbacks do and
  whether they throw, at most one call for a given source and operation reports
  itself applied, and none when an intent for it is already stored.
\<close>

theorem transition_applied_at_most_once:
  "length (filter (\<lambda>e. fst e = key \<and> was_applied (snd e)) (fst (run_calls cs s)))
     \<le> (if has_intent key s then 0 else 1)"
proof (induction cs arbitrary: s)
  case (Cons c cs)
  obtain r s1 where c: "call c s = (r, s1)" by (cases "call c s")
  have "has_intent key s \<Longrightarrow> has_intent key s1"
    and "call_key c = key \<Longrightarrow> was_applied r \<Longrightarrow> \<not> has_intent key s \<and> has_intent key s1"
    using call_effect [OF c] by auto
  with Cons.IH [of s1] show ?case
    by (auto simp: c split: prod.splits if_splits)
qed simp

lemma enumerated_ids: "inj uuid \<Longrightarrow> distinct (map (uuid \<circ> fst) (List.enumerate n specs))"
  unfolding map_map [symmetric] by (simp add: distinct_map) (metis inj_on_subset subset_UNIV)

text \<open>
  C24: one call is all or nothing, but for its intent row. When it throws, the callback's
  changes and the outbox are rolled back and one \<open>APPLYING\<close> intent remains; when it reports
  applied, the callback ran once on the state before the call, its result is the new state,
  the intent is \<open>APPLIED\<close>, the rows appended to the outbox are rows of the effects asked for, in their order,
  and afterwards every effect asked for has a row under its key; when it reports not applied
  nothing changed. Hypothesis: the generated outbox identifiers are distinct and not yet in
  the outbox. The transaction is the code's callback and inserts: a failure of the database's own
  \<open>BEGIN\<close> or \<open>COMMIT\<close> is not modelled, and \<open>ts_app\<close> rolls back as a whole.
\<close>

theorem enqueueAndApply_atomic:
  assumes "inj uuid" and "\<And>n. uuid n \<notin> ob_id ` set (ts_outbox s)"
  shows "case enqueueAndApply iid uuid now c s of
     (Inl e, s') \<Rightarrow> eo_apply c (ts_app s) = Inl e \<and> ts_app s' = ts_app s \<and> ts_outbox s' = ts_outbox s
        \<and> ts_intents s' = ts_intents s @ [call_row iid now I_APPLYING 1 c]
   | (Inr r, s') \<Rightarrow> if ar_applied r
        then (\<exists>specs a new. eo_apply c (ts_app s) = Inr (specs, a) \<and> ts_app s' = a \<and> ar_outbox r = specs
           \<and> ts_outbox s' = ts_outbox s @ new
           \<and> subseq new (map (\<lambda>(n, e). outbox_row (uuid n) now e) (List.enumerate 0 specs))
           \<and> ob_key ` set (ts_outbox s') = ob_key ` set (ts_outbox s) \<union> es_key ` set specs
           \<and> ts_intents s' = ts_intents s @ [call_row iid now I_APPLIED 1 c])
        else s' = s"
proof (cases "intent_clash (call_row iid now I_PENDING 0 c) s")
  case True
  then show ?thesis by (simp add: enqueueAndApply_eq)
next
  case False
  show ?thesis
  proof (cases "eo_apply c (ts_app s)")
    case (Inl e)
    with False show ?thesis by (simp add: enqueueAndApply_eq)
  next
    case (Inr r)
    obtain specs a where r: "r = (specs, a)" by (cases r)
    let ?t = "s\<lparr>ts_app := a\<rparr>" and ?es = "List.enumerate 0 specs"
    obtain new where n: "ts_outbox (add_effects uuid now ?es ?t) = ts_outbox s @ new"
        "subseq new (map (\<lambda>(n, e). outbox_row (uuid n) now e) ?es)"
      using add_effects_rows [of uuid now ?es ?t] by auto
    have "ob_key ` set (ts_outbox (add_effects uuid now ?es ?t)) = ob_key ` set (ts_outbox s) \<union> es_key ` set specs"
      using add_effects_keys [OF enumerated_ids [OF assms(1), of 0 specs], where s = ?t and now = now] assms(2)
      by (simp add: set_map [symmetric] del: set_map)
    with False Inr r n show ?thesis
      by (simp add: enqueueAndApply_eq transition_simps)
  qed
qed

text \<open>
  Every effect of an applied transition is durable. With fresh outbox identifiers, each effect key the callback
  asked for is stored, and no effect key is stored twice.
\<close>

theorem applied_effects_stored:
  assumes "tstate_ok s" and "enqueueAndApply iid uuid now c s = (Inr r, s')" and "ar_applied r"
    and "inj uuid" and "\<And>n. uuid n \<notin> ob_id ` set (ts_outbox s)"
  shows "ob_key ` set (ts_outbox s') = ob_key ` set (ts_outbox s) \<union> es_key ` set (ar_outbox r)
       \<and> tstate_ok s'"
proof -
  have nc: "\<not> intent_clash (call_row iid now I_PENDING 0 c) s"
    using assms(2,3) by (auto simp: enqueueAndApply_eq split: if_splits)
  then obtain specs a where a: "eo_apply c (ts_app s) = Inr (specs, a)"
    using assms(2) by (auto simp: enqueueAndApply_eq split: sum.splits)
  let ?s = "add_effects uuid now (List.enumerate 0 specs) (s\<lparr>ts_app := a\<rparr>)"
  have s': "s' = ?s\<lparr>ts_intents := ts_intents s @ [call_row iid now I_APPLIED 1 c]\<rparr>" "ar_outbox r = specs"
    using assms(2) nc a by (auto simp: enqueueAndApply_eq)
  from add_effects_keys [OF enumerated_ids [OF assms(4), of 0 specs], of "s\<lparr>ts_app := a\<rparr>" now] assms(5)
  have "ob_key ` set (ts_outbox ?s) = ob_key ` set (ts_outbox s) \<union> es_key ` set specs"
    by (simp add: set_map [symmetric] del: set_map)
  moreover have "tstate_ok ?s" using assms(1) by (intro add_effects_ok) (simp add: tstate_ok_def)
  moreover have "intent_key (call_row iid now I_APPLIED 1 c) \<notin> intent_key ` set (ts_intents s)"
    "iid \<notin> it_id ` set (ts_intents s)"
    using nc by (auto simp: intent_clash_def list_ex_iff)
  ultimately show ?thesis
    using assms(1) by (auto simp: s' tstate_ok_def unique_keys_def)
qed


definition demo_call :: "(nat \<Rightarrow> string + effect_spec list \<times> nat) \<Rightarrow> nat apply_opts" where
  "demo_call f = \<lparr>eo_source = SRC_DISPATCH, eo_source_id = ''d'', eo_operation = ''COMPLETE'', eo_repo = ''r'',
     eo_run = None, eo_payload = ''{}'', eo_apply = f\<rparr>"

definition demo_effect :: effect_spec where
  "demo_effect = \<lparr>es_key = ''wake:1'', es_repo = ''r'', es_run = None, es_kind = ''SUBMIT_SOL_WAKE'', es_payload = Json no_payload\<rparr>"

definition demo_tstate :: "nat tstate" where
  "demo_tstate = \<lparr>ts_intents = [], ts_outbox = [], ts_app = 0\<rparr>"

theorem enqueueAndApply_atomic_witness:
  "let s' = snd (enqueueAndApply ''i'' (\<lambda>n. replicate n (CHR ''a'')) 1
      (demo_call (\<lambda>n. Inr ([demo_effect], n + 1))) demo_tstate) in
     ts_app s' = 1 \<and> ob_key ` set (ts_outbox s') = {''wake:1''}"
proof -
  let ?c = "demo_call (\<lambda>n. Inr ([demo_effect], n + 1))"
  let ?u = "\<lambda>n. replicate n (CHR ''a'')"
  have inj: "inj ?u" by (rule inj_onI) simp
  have "\<not> intent_clash (call_row ''i'' 1 I_PENDING 0 ?c) demo_tstate"
    by (simp add: intent_clash_def demo_tstate_def)
  then have e: "enqueueAndApply ''i'' ?u 1 ?c demo_tstate
      = (Inr \<lparr>ar_applied = True, ar_intent = ''i'', ar_outbox = [demo_effect]\<rparr>,
         snd (enqueueAndApply ''i'' ?u 1 ?c demo_tstate))"
    by (simp add: enqueueAndApply_eq) (simp add: demo_call_def)
  have f: "?u n \<notin> ob_id ` set (ts_outbox demo_tstate)" for n by (simp add: demo_tstate_def)
  have "eo_apply ?c (ts_app demo_tstate) = Inr ([demo_effect], 1)" "es_key demo_effect = ''wake:1''"
    "ts_outbox demo_tstate = []"
    by (simp_all add: demo_call_def demo_tstate_def demo_effect_def)
  with enqueueAndApply_atomic [OF inj f, where iid = "''i''" and now = 1 and c = ?c] e
  obtain new where "ts_app (snd (enqueueAndApply ''i'' ?u 1 ?c demo_tstate)) = 1"
    "ob_key ` set (ts_outbox (snd (enqueueAndApply ''i'' ?u 1 ?c demo_tstate))) = {''wake:1''}"
    by (cases "enqueueAndApply ''i'' ?u 1 ?c demo_tstate") simp
  then show ?thesis by (simp only: Let_def)
qed

theorem applied_effects_stored_witness:
  "ob_key ` set (ts_outbox (snd (enqueueAndApply ''i'' (\<lambda>n. replicate n (CHR ''a'')) 1
      (demo_call (\<lambda>n. Inr ([demo_effect], n + 1))) demo_tstate))) = {''wake:1''}"
proof -
  let ?c = "demo_call (\<lambda>n. Inr ([demo_effect], n + 1))"
  let ?u = "\<lambda>n. replicate n (CHR ''a'')"
  have ok: "tstate_ok demo_tstate" by (simp add: tstate_ok_def demo_tstate_def unique_keys_def)
  have inj: "inj ?u" by (rule inj_onI) simp
  have "\<not> intent_clash (call_row ''i'' 1 I_PENDING 0 ?c) demo_tstate"
    by (simp add: intent_clash_def demo_tstate_def)
  then have e: "enqueueAndApply ''i'' ?u 1 ?c demo_tstate
      = (Inr \<lparr>ar_applied = True, ar_intent = ''i'', ar_outbox = [demo_effect]\<rparr>,
         snd (enqueueAndApply ''i'' ?u 1 ?c demo_tstate))"
    by (simp add: enqueueAndApply_eq) (simp add: demo_call_def)
  have f: "?u n \<notin> ob_id ` set (ts_outbox demo_tstate)" for n by (simp add: demo_tstate_def)
  from applied_effects_stored [OF ok e _ inj f] show ?thesis
    by (simp add: demo_tstate_def demo_effect_def)
qed

text \<open>
  A transition whose callback throws is lost. The intent is enqueued and marked \<open>APPLYING\<close> outside the
  transaction that is rolled back, so after a failed call every later call for
  the same source and operation is refused as a duplicate: the callback never runs
  again, however many retries follow, and the intent stays \<open>APPLYING\<close>. The service documents
  the enqueue and the mutation as \<open>all in one transaction\<close>.
\<close>

theorem failed_transition_never_retried:
  assumes "call c s = (Inl e, s')"
  shows "\<not> list_ex (\<lambda>x. fst x = call_key c \<and> was_applied (snd x)) (fst (run_calls cs s'))
       \<and> list_ex (\<lambda>i. intent_key i = call_key c \<and> it_state i = I_APPLYING) (ts_intents (snd (run_calls cs s')))"
proof -
  have "list_ex (\<lambda>i. intent_key i = call_key c \<and> it_state i = I_APPLYING) (ts_intents s')"
    using assms by (cases c) (auto simp: enqueueAndApply_eq split: if_splits sum.splits prod.splits)
  then show ?thesis
  proof (induction cs arbitrary: s')
    case (Cons d cs)
    obtain r s1 where d: "call d s' = (r, s1)" by (cases "call d s'")
    obtain new where new: "ts_intents s1 = ts_intents s' @ new" using call_intents [OF d] by blast
    have "list_ex (\<lambda>i. intent_key i = call_key c \<and> it_state i = I_APPLYING) (ts_intents s1)"
      using Cons.prems by (simp add: new)
    moreover have "has_intent (call_key c) s'" using Cons.prems by (auto simp: has_intent_def list_ex_iff)
    moreover have "call_key d = call_key c \<Longrightarrow> \<not> was_applied r"
      using call_effect [OF d, of "call_key c"] \<open>has_intent (call_key c) s'\<close> by auto
    ultimately show ?case using Cons.IH [of s1] by (auto simp: d split: prod.splits)
  qed simp
qed

theorem failed_transition_never_retried_witness:
  "was_applied (fst (call (''j'', \<lambda>_. ''o'', 2, demo_call (\<lambda>n. Inr ([], n + 1)))
     (snd (call (''i'', \<lambda>_. ''o'', 1, demo_call (\<lambda>n. Inl ''disk full'')) demo_tstate)))) = False"
proof -
  let ?c = "(''i'', \<lambda>_. ''o'', 1, demo_call (\<lambda>n. Inl ''disk full''))"
  let ?d = "(''j'', \<lambda>_. ''o'', 2, demo_call (\<lambda>n. Inr ([], n + 1)))"
  have "call ?c demo_tstate = (Inl ''disk full'', snd (call ?c demo_tstate))"
    by (simp add: enqueueAndApply_eq intent_clash_def demo_tstate_def) (simp add: demo_call_def)
  from failed_transition_never_retried [OF this, of "[?d]"] show ?thesis
    by (simp add: demo_call_def eo_key_def split: prod.splits)
qed

section \<open>Replaying the outbox\<close>

text \<open>
  A delivery that leaves the two tables alone: \<open>err\<close> is the message it throws, \<open>eff\<close> its
  effect elsewhere.
\<close>

definition plain_delivery ::
    "(outbox_item \<Rightarrow> string option) \<Rightarrow> (outbox_item \<Rightarrow> 'a \<Rightarrow> 'a) \<Rightarrow> outbox_item \<Rightarrow> 'a tstate \<Rightarrow> string option \<times> 'a tstate" where
  "plain_delivery err eff item s = (err item, s\<lparr>ts_app := eff item (ts_app s)\<rparr>)"

definition settled_row :: "(outbox_item \<Rightarrow> string option) \<Rightarrow> time \<Rightarrow> outbox_item \<Rightarrow> outbox_item" where
  "settled_row err now d = d\<lparr>ob_state := if err d = None then E_DELIVERED else E_FAILED_RETRYABLE,
     ob_updated := now, ob_error := err d,
     ob_attempts := if ob_state d = E_PENDING then ob_attempts d + 1 else ob_attempts d\<rparr>"

lemma outbox_get_update:
  "(\<And>r. ob_id (f r) = ob_id r) \<Longrightarrow> tbl_get ob_id j (tbl_update (\<lambda>r. ob_id r = i \<and> p r) f t)
     = (case tbl_get ob_id j t of None \<Rightarrow> None | Some r \<Rightarrow> Some (if j = i \<and> p r then f r else r))"
  by (subst tbl_get_update) (auto dest: tbl_get_key split: option.splits)

lemma delivering_get:
  "outbox_get j (fst (markDelivering i now s)) = (case outbox_get j s of None \<Rightarrow> None
     | Some r \<Rightarrow> Some (if j = i \<and> ob_state r = E_PENDING
         then r\<lparr>ob_state := E_DELIVERING, ob_updated := now, ob_attempts := ob_attempts r + 1\<rparr> else r))"
  by (simp add: outbox_get_def markDelivering_def Let_def outbox_get_update split: option.split)

lemma setState_get:
  "outbox_get j (outbox_setState i st err now s) = (case outbox_get j s of None \<Rightarrow> None
     | Some r \<Rightarrow> Some (if j = i then r\<lparr>ob_state := st, ob_updated := now, ob_error := err\<rparr> else r))"
  using outbox_get_update [of "\<lambda>r. r\<lparr>ob_state := st, ob_updated := now, ob_error := err\<rparr>" j i "\<lambda>_. True" "ts_outbox s"]
  by (simp add: outbox_get_def outbox_setState_def split: option.split)

lemma delivering_claims:
  assumes "unique_keys ob_id (ts_outbox s)"
  shows "snd (markDelivering i now s) \<longleftrightarrow> (\<exists>r. outbox_get i s = Some r \<and> ob_state r = E_PENDING)"
proof -
  have "filter (\<lambda>r. ob_id r = i \<and> ob_state r = E_PENDING) (ts_outbox s)
      = filter (\<lambda>r. ob_state r = E_PENDING) (filter (\<lambda>r. ob_id r = i) (ts_outbox s))"
    by (simp add: conj_commute)
  then show ?thesis
    using filter_unique [OF assms, of i]
    by (auto simp: markDelivering_def Let_def outbox_get_def split: option.splits)
qed

lemma replay_step_effect:
  fixes err and eff :: "outbox_item \<Rightarrow> 'a \<Rightarrow> 'a" and now :: time and s :: "'a tstate"
  assumes u: "unique_keys ob_id (ts_outbox s)" and g: "outbox_get (ob_id d) s = Some d"
    and st: "ob_state d = E_PENDING \<or> ob_state d = E_DELIVERING"
  defines "s' \<equiv> replay_step (plain_delivery err eff) now d s"
  shows "unique_keys ob_id (ts_outbox s')" and "ts_app s' = eff d (ts_app s)"
    and "outbox_get j s' = (if j = ob_id d then Some (settled_row err now d) else outbox_get j s)"
    and "ts_intents s' = ts_intents s"
proof -
  let ?s1 = "fst (markDelivering (ob_id d) now s)"
  have c: "snd (markDelivering (ob_id d) now s) \<longleftrightarrow> ob_state d = E_PENDING"
    using delivering_claims [OF u] g by auto
  have s': "s' = outbox_setState (ob_id d) (if err d = None then E_DELIVERED else E_FAILED_RETRYABLE) (err d) now
      (?s1\<lparr>ts_app := eff d (ts_app s)\<rparr>)"
    using st c by (auto simp: s'_def replay_step_def split_beta plain_delivery_def transition_simps split: option.splits)
  have o: "outbox_get k (t\<lparr>ts_app := a\<rparr>) = outbox_get k t" for k a and t :: "'a tstate"
    by (simp add: outbox_get_def)
  show "ts_app s' = eff d (ts_app s)" "ts_intents s' = ts_intents s" by (simp_all add: s' transition_simps)
  show "unique_keys ob_id (ts_outbox s')"
    using u by (simp add: unique_keys_def s' transition_simps)
  show "outbox_get j s' = (if j = ob_id d then Some (settled_row err now d) else outbox_get j s)"
    using st g by (auto simp: s' setState_get o delivering_get settled_row_def split: option.splits)
qed

lemma replay_fold:
  assumes "unique_keys ob_id (ts_outbox s)" and "distinct (map ob_id ds)"
    and "\<And>d. d \<in> set ds \<Longrightarrow> outbox_get (ob_id d) s = Some d \<and> (ob_state d = E_PENDING \<or> ob_state d = E_DELIVERING)"
  shows "ts_app (fold (replay_step (plain_delivery err eff) now) ds s) = fold eff ds (ts_app s)
    \<and> unique_keys ob_id (ts_outbox (fold (replay_step (plain_delivery err eff) now) ds s))
    \<and> outbox_get j (fold (replay_step (plain_delivery err eff) now) ds s)
        = (case tbl_get ob_id j ds of None \<Rightarrow> outbox_get j s | Some d \<Rightarrow> Some (settled_row err now d))"
  using assms
proof (induction ds arbitrary: s)
  case (Cons d ds)
  let ?s = "replay_step (plain_delivery err eff) now d s"
  have d: "outbox_get (ob_id d) s = Some d" "ob_state d = E_PENDING \<or> ob_state d = E_DELIVERING"
    using Cons.prems(3) by simp_all
  note e = replay_step_effect [OF Cons.prems(1) d]
  have "outbox_get (ob_id x) ?s = Some x \<and> (ob_state x = E_PENDING \<or> ob_state x = E_DELIVERING)"
    if "x \<in> set ds" for x
  proof -
    have "ob_id x \<noteq> ob_id d" using that Cons.prems(2) by (force simp: image_iff)
    then show ?thesis using that Cons.prems(3) [of x] e(3) by simp
  qed
  with Cons.IH [of ?s] Cons.prems(2) e
  have "ts_app (fold (replay_step (plain_delivery err eff) now) ds ?s) = fold eff ds (eff d (ts_app s))
    \<and> unique_keys ob_id (ts_outbox (fold (replay_step (plain_delivery err eff) now) ds ?s))
    \<and> outbox_get j (fold (replay_step (plain_delivery err eff) now) ds ?s)
        = (case tbl_get ob_id j ds of None \<Rightarrow> outbox_get j ?s | Some d \<Rightarrow> Some (settled_row err now d))"
    by simp
  moreover have "ob_id d = j \<Longrightarrow> tbl_get ob_id j ds = None"
    using Cons.prems(2) by (auto simp: tbl_get_None)
  ultimately show ?case using e(3) by (auto simp: table_simps split: option.splits)
qed (simp add: table_simps)


lemma listed_row:
  assumes "unique_keys ob_id (ts_outbox s)" and "d \<in> set (listPendingOutbox s)"
  shows "outbox_get (ob_id d) s = Some d \<and> (ob_state d = E_PENDING \<or> ob_state d = E_DELIVERING)"
proof -
  have "d \<in> set (ts_outbox s)" "ob_state d = E_PENDING \<or> ob_state d = E_DELIVERING"
    using assms(2) by (auto simp: listPendingOutbox_def outbox_listByState_def dest!: in_set_takeD)
  then show ?thesis using tbl_get_unique [OF assms(1)] by (simp add: outbox_get_def)
qed

lemma distinct_order_asc: "distinct (map key (order_asc k t)) = distinct (map key t)"
  unfolding order_asc_def
  by (metis mset_eq_imp_distinct_iff mset_map mset_sort)

lemma listByState_ids:
  assumes "unique_keys ob_id (ts_outbox s)"
  shows "distinct (map ob_id (outbox_listByState st n s))"
proof -
  have "distinct (map ob_id (order_asc ob_created (filter (\<lambda>r. ob_state r = st) (ts_outbox s))))"
    unfolding distinct_order_asc
    by (rule distinct_map_filter) (use assms in \<open>simp only: unique_keys_def\<close>)
  then show ?thesis
    by (simp only: outbox_listByState_def take_map [symmetric] distinct_take)
qed

lemma listed_ids:
  assumes "unique_keys ob_id (ts_outbox s)"
  shows "distinct (map ob_id (listPendingOutbox s))"
proof -
  have "ob_id x \<noteq> ob_id y" if "x \<in> set (outbox_listByState E_PENDING 100 s)"
    and "y \<in> set (outbox_listByState E_DELIVERING 100 s)" for x y
  proof
    assume i: "ob_id x = ob_id y"
    have m: "x \<in> set (ts_outbox s)" "y \<in> set (ts_outbox s)" "ob_state x = E_PENDING" "ob_state y = E_DELIVERING"
      using that by (auto simp: outbox_listByState_def dest!: in_set_takeD)
    have "Some x = Some y"
      using tbl_get_unique [OF assms m(1)] tbl_get_unique [OF assms m(2)] i by metis
    with m show False by simp
  qed
  then show ?thesis
    using listByState_ids [OF assms] by (auto simp: listPendingOutbox_def)
qed

text \<open>
  C25: one replay delivers each listed item exactly once, in order (the pending items oldest first, then the ones a crash
  left \<open>DELIVERING\<close>, at most a hundred of each), also when deliveries throw; every
  listed row ends \<open>DELIVERED\<close> or \<open>FAILED_RETRYABLE\<close> with the message, and no
  other row changes. The deliveries are those that leave the two tables alone; rows are unique by identifier and by key.
\<close>

theorem replay_delivers_each_once:
  assumes "tstate_ok s"
  shows "let s' = replayOutbox (plain_delivery err (\<lambda>d log. log @ [ob_id d])) now s in
     ts_app s' = ts_app s @ map ob_id (listPendingOutbox s)
     \<and> distinct (map ob_id (listPendingOutbox s))
     \<and> outbox_get j s' = (case tbl_get ob_id j (listPendingOutbox s) of
           None \<Rightarrow> outbox_get j s | Some d \<Rightarrow> Some (settled_row err now d))"
proof -
  have u: "unique_keys ob_id (ts_outbox s)" using assms by (simp add: tstate_ok_def)
  have "fold (\<lambda>d log. log @ [ob_id d]) ds log = log @ map ob_id ds" for ds log
    by (induction ds arbitrary: log) simp_all
  with replay_fold [OF u listed_ids [OF u] listed_row [OF u], where eff = "\<lambda>d log. log @ [ob_id d]"
      and err = err and now = now and j = j]
  show ?thesis by (simp add: Let_def replayOutbox_def listed_ids [OF u])
qed

definition demo_outbox :: "effect_state \<Rightarrow> outbox_item" where
  "demo_outbox st = \<lparr>ob_id = ''o'', ob_key = ''wake:1'', ob_repo = ''r'', ob_run = None, ob_kind = ''SUBMIT_SOL_WAKE'',
     ob_payload = Json no_payload, ob_state = st, ob_attempts = 0, ob_error = None, ob_created = 0, ob_updated = 0\<rparr>"

theorem replay_delivers_each_once_witness:
  "ts_app (replayOutbox (plain_delivery (\<lambda>_. Some ''offline'') (\<lambda>d log. log @ [ob_id d])) 7
      \<lparr>ts_intents = [], ts_outbox = [demo_outbox E_PENDING], ts_app = []\<rparr>) = [''o'']"
proof -
  let ?s = "\<lparr>ts_intents = [], ts_outbox = [demo_outbox E_PENDING], ts_app = [] :: ident list\<rparr>"
  have ok: "tstate_ok ?s" by (simp add: tstate_ok_def unique_keys_def)
  have l: "listPendingOutbox ?s = [demo_outbox E_PENDING]"
    by (simp add: listPendingOutbox_def outbox_listByState_def order_asc_def demo_outbox_def)
  have "ts_app (replayOutbox (plain_delivery (\<lambda>_. Some ''offline'') (\<lambda>d log. log @ [ob_id d])) 7 ?s)
      = ts_app ?s @ map ob_id (listPendingOutbox ?s)"
    using replay_delivers_each_once [OF ok, where err = "\<lambda>_. Some ''offline''" and now = 7]
    unfolding Let_def by blast
  with l show ?thesis by (simp add: demo_outbox_def)
qed

subsection \<open>What no operation picks up again\<close>

datatype 'a trans_op =
    Op_call "'a call"
  | Op_replay "outbox_item \<Rightarrow> string option" "outbox_item \<Rightarrow> 'a \<Rightarrow> 'a" time

fun trans_step :: "'a trans_op \<Rightarrow> 'a tstate \<Rightarrow> 'a tstate" where
  "trans_step (Op_call c) s = snd (call c s)"
| "trans_step (Op_replay err eff now) s = replayOutbox (plain_delivery err eff) now s"

lemma call_ok: "tstate_ok s \<Longrightarrow> tstate_ok (snd (call c s))"
proof (cases c)
  case (fields iid uuid now c')
  assume ok: "tstate_ok s"
  have "tstate_ok (add_effects uuid now es (s\<lparr>ts_app := a\<rparr>))" for es a
    using ok by (intro add_effects_ok) (simp add: tstate_ok_def)
  with ok fields show ?thesis
    by (auto simp: enqueueAndApply_eq tstate_ok_def unique_keys_def intent_clash_def list_ex_iff
        split: sum.splits)
qed

lemma call_keeps_rows:
  assumes "outbox_get j s = Some r" shows "outbox_get j (snd (call c s)) = Some r"
proof (cases c)
  case (fields iid uuid now c')
  have k: "outbox_get j (add_effects uuid now es (s\<lparr>ts_app := a\<rparr>)) = Some r" for es a
  proof -
    obtain new where "ts_outbox (add_effects uuid now es (s\<lparr>ts_app := a\<rparr>)) = ts_outbox s @ new"
      using add_effects_prefix [of uuid now es "s\<lparr>ts_app := a\<rparr>"] by auto
    then show ?thesis using assms by (simp add: outbox_get_def table_simps)
  qed
  have "outbox_get j (t\<lparr>ts_intents := x\<rparr>) = outbox_get j t" for t :: "'a tstate" and x
    by (simp add: outbox_get_def)
  with fields assms k show ?thesis by (auto simp: enqueueAndApply_eq split: sum.splits)
qed

lemma replay_ok:
  assumes "tstate_ok s" shows "tstate_ok (replayOutbox (plain_delivery err eff) now s)"
proof -
  have "tstate_ok t \<Longrightarrow> tstate_ok (replay_step (plain_delivery err eff) now d t)" for d and t :: "'a tstate"
    by (auto simp: replay_step_def split_beta plain_delivery_def tstate_ok_def unique_keys_def transition_simps
        split: option.splits)
  then have "tstate_ok t \<Longrightarrow> tstate_ok (fold (replay_step (plain_delivery err eff) now) ds t)" for ds and t :: "'a tstate"
    by (induction ds arbitrary: t) auto
  then show ?thesis using assms by (simp add: replayOutbox_def)
qed

lemma trans_step_ok: "tstate_ok s \<Longrightarrow> tstate_ok (trans_step op s)"
  by (cases op) (auto simp: call_ok replay_ok)

text \<open>
  A delivery that failed once is never tried again. A \<open>FAILED_RETRYABLE\<close> row is not on the work list
  of \<open>replayOutbox\<close>, so no sequence of transitions and replays changes it again:
  its attempt counter stays and it is never delivered, although the code that sets the
  state calls it retryable.
\<close>

theorem failed_delivery_never_replayed:
  assumes "tstate_ok s" and "outbox_get j s = Some r" and "ob_state r = E_FAILED_RETRYABLE"
  shows "outbox_get j (fold trans_step ops s) = Some r"
  using assms(1,2)
proof (induction ops arbitrary: s)
  case (Cons op ops)
  have "outbox_get j (trans_step op s) = Some r"
  proof (cases op)
    case (Op_call c)
    with Cons.prems show ?thesis by (simp add: call_keeps_rows)
  next
    case (Op_replay err eff now)
    have u: "unique_keys ob_id (ts_outbox s)" using Cons.prems by (simp add: tstate_ok_def)
    have "tbl_get ob_id j (listPendingOutbox s) = None"
    proof (rule ccontr)
      assume "tbl_get ob_id j (listPendingOutbox s) \<noteq> None"
      then obtain d where d: "tbl_get ob_id j (listPendingOutbox s) = Some d" by blast
      with listed_row [OF u tbl_get_in_set [OF d]] tbl_get_key [OF d] Cons.prems(2) assms(3)
      show False by simp
    qed
    with replay_fold [OF u listed_ids [OF u] listed_row [OF u], where eff = eff and err = err and now = now and j = j] Cons.prems(2)
    show ?thesis by (simp add: Op_replay replayOutbox_def)
  qed
  with Cons.IH [of "trans_step op s"] trans_step_ok [OF Cons.prems(1)] show ?case by simp
qed simp

theorem failed_delivery_never_replayed_witness:
  "outbox_get ''o'' (fold trans_step [Op_replay (\<lambda>_. None) (\<lambda>d n. n + 1) 7, Op_replay (\<lambda>_. None) (\<lambda>d n. n + 1) 8]
      \<lparr>ts_intents = [], ts_outbox = [demo_outbox E_FAILED_RETRYABLE], ts_app = 0 :: nat\<rparr>)
   = Some (demo_outbox E_FAILED_RETRYABLE)"
  by (rule failed_delivery_never_replayed)
    (simp_all add: tstate_ok_def unique_keys_def outbox_get_def table_simps demo_outbox_def)

end
