(* ===== verification/Work_Packets.thy ===== *)
theory Work_Packets
  imports Prelude "HOL-Library.Monad_Syntax"
begin

text \<open>
  Work packets, their results, isolated worktrees and integration reports:
  \<open>packages/shared/src/work-packets.ts\<close>, the report and node types of
  \<open>execution-strategy.ts\<close>, and \<open>packets/work-packet-store.ts\<close> and
  \<open>packets/work-packet-service.ts\<close> of the controller. The state is the four tables of the
  store. Rows are written by these operations only, under the repository and run they name, so the
  foreign keys are not modelled; the unique columns are. Numbers of budgets are rationals.
\<close>

section \<open>Data\<close>

datatype packet_status = PK_QUEUED | PK_STARTING | PK_RUNNING | PK_WAITING_PERMISSION | PK_RETRYING
  | PK_COMPLETED | PK_FAILED | PK_BLOCKED | PK_SKIPPED_DEPENDENCY | PK_CANCELLED
datatype result_status = RS_COMPLETED | RS_FAILED | RS_BLOCKED | RS_CANCELLED | RS_SKIPPED
  | RS_SKIPPED_DEPENDENCY | RS_INTEGRATION_CONFLICT
datatype worktree_status = WT_ALLOCATED | WT_ACTIVE | WT_RELEASED | WT_STALE | WT_CLEANUP_REQUIRED | WT_ORPHANED
datatype integration_status = IN_COMPLETED | IN_PARTIAL | IN_INTEGRATION_CONFLICT | IN_BLOCKED
datatype executor_source = REPOSITORY_DEFAULT | EXPLICIT_RULE
datatype host_env = ENV_windows | ENV_wsl

fun result_status_name :: "result_status \<Rightarrow> string" where
  "result_status_name RS_COMPLETED = ''COMPLETED''"
| "result_status_name RS_FAILED = ''FAILED''"
| "result_status_name RS_BLOCKED = ''BLOCKED''"
| "result_status_name RS_CANCELLED = ''CANCELLED''"
| "result_status_name RS_SKIPPED = ''SKIPPED''"
| "result_status_name RS_SKIPPED_DEPENDENCY = ''SKIPPED_DEPENDENCY''"
| "result_status_name RS_INTEGRATION_CONFLICT = ''INTEGRATION_CONFLICT''"

fun integration_status_name :: "integration_status \<Rightarrow> string" where
  "integration_status_name IN_COMPLETED = ''COMPLETED''"
| "integration_status_name IN_PARTIAL = ''PARTIAL''"
| "integration_status_name IN_INTEGRATION_CONFLICT = ''INTEGRATION_CONFLICT''"
| "integration_status_name IN_BLOCKED = ''BLOCKED''"

record packet_executor =
  pe_role :: string
  pe_cli :: string
  pe_model :: string
  pe_provider :: "string option"
  pe_source :: executor_source

record packet_budget =
  bg_runtimeMs :: int
  bg_retries :: int
  bg_tokens :: "rat option"
  bg_spend :: "rat option"

record packet_permission =
  pp_preset :: perm_preset
  pp_allowed :: "string list"
  pp_denied :: "string list"

record work_packet =
  wp_id :: ident
  wp_campaign :: ident
  wp_run :: ident
  wp_iter :: int
  wp_parent :: "ident option"
  wp_workstream :: string
  wp_goal :: string
  wp_requirements :: "string list"
  wp_allowed :: "string list"
  wp_read :: "string list"
  wp_depends :: "ident list"
  wp_executor :: packet_executor
  wp_verification :: "string list"
  wp_budget :: packet_budget
  wp_permission :: packet_permission
  wp_status :: packet_status
  wp_created :: time
  wp_updated :: time

record provenance =
  pv_worktree :: ident
  pv_path :: string
  pv_branch :: string
  pv_base :: string
  pv_commit :: "string option"

text \<open>The optional \<open>policyViolationPaths\<close> is written by no code and refused by the strict schema.\<close>

record packet_result =
  re_packet :: ident
  re_campaign :: ident
  re_run :: ident
  re_iter :: int
  re_status :: result_status
  re_worktree :: "provenance option"
  re_files :: "string list"
  re_verification :: "string list"
  re_findings :: "string list"
  re_risks :: "string list"
  re_artifacts :: "string list"
  re_affected :: "ident list"
  re_usage :: "ident list"
  re_summary :: string
  re_blocker :: "string option"
  re_created :: time

record worktree =
  wt_id :: ident
  wt_repo :: ident
  wt_packet :: ident
  wt_campaign :: ident
  wt_run :: ident
  wt_iter :: int
  wt_path :: string
  wt_branch :: string
  wt_env :: host_env
  wt_distro :: "string option"
  wt_base :: string
  wt_inputs :: "string list"
  wt_status :: worktree_status
  wt_created :: time
  wt_released :: "time option"
  wt_error :: "string option"

datatype main_relation = UP_TO_DATE | LOCAL_AHEAD | REMOTE_AHEAD | DIVERGED

record publication =
  pu_relation :: main_relation
  pu_reconciled :: bool
  pu_finalHead :: string
  pu_preReconciliation :: "string option"

record integration_report =
  ir_repo :: ident
  ir_run :: ident
  ir_iter :: int
  ir_status :: integration_status
  ir_packets :: "ident list"
  ir_results :: "packet_result list"
  ir_commit :: "string option"
  ir_blocker :: "string option"
  ir_created :: time

section \<open>Nodes and reports\<close>

datatype strategy_status = SS_QUEUED | SS_RUNNING | SS_PAUSED | SS_STOPPING | SS_COMPLETED | SS_PARTIAL
  | SS_BLOCKED | SS_FAILED | SS_CANCELLED | SS_RECOVERY_REQUIRED
datatype dag_node_status = DN_QUEUED | DN_STARTING | DN_RUNNING | DN_WAITING_DEPENDENCY | DN_WAITING_PERMISSION
  | DN_RETRYING | DN_COMPLETED | DN_FAILED | DN_BLOCKED | DN_SKIPPED | DN_CANCELLED | DN_INTEGRATING

fun strategy_status_name :: "strategy_status \<Rightarrow> string" where
  "strategy_status_name SS_QUEUED = ''QUEUED''"
| "strategy_status_name SS_RUNNING = ''RUNNING''"
| "strategy_status_name SS_PAUSED = ''PAUSED''"
| "strategy_status_name SS_STOPPING = ''STOPPING''"
| "strategy_status_name SS_COMPLETED = ''COMPLETED''"
| "strategy_status_name SS_PARTIAL = ''PARTIAL''"
| "strategy_status_name SS_BLOCKED = ''BLOCKED''"
| "strategy_status_name SS_FAILED = ''FAILED''"
| "strategy_status_name SS_CANCELLED = ''CANCELLED''"
| "strategy_status_name SS_RECOVERY_REQUIRED = ''RECOVERY_REQUIRED''"

record dag_node =
  nd_strategy :: ident
  nd_id :: ident
  nd_packet :: ident
  nd_depends :: "ident list"
  nd_status :: dag_node_status
  nd_budget :: packet_budget
  nd_attempt :: int
  nd_retries :: int
  nd_reason :: "string option"
  nd_inputs :: "string list"
  nd_base :: "string option"
  nd_started :: "time option"
  nd_finished :: "time option"
  nd_result :: "ident option"
  nd_created :: time
  nd_updated :: time

text \<open>The two report types in one; the node fields are those of a DAG report and empty in a swarm report.\<close>

record execution_report =
  er_strategyRun :: ident
  er_repo :: ident
  er_run :: ident
  er_iter :: int
  er_strategy :: strategy
  er_status :: strategy_status
  er_maxConcurrency :: int
  er_packets :: "ident list"
  er_nodeIds :: "ident list"
  er_nodes :: "dag_node list"
  er_results :: "packet_result list"
  er_integration :: "integration_report option"
  er_decisions :: "ident list"
  er_controls :: "ident list"
  er_blocker :: "string option"
  er_started :: time
  er_finished :: time

section \<open>Safe relative paths\<close>

definition js_slashes :: "string \<Rightarrow> string" where
  "js_slashes s = map (\<lambda>c. if c = CHR 0x5C then CHR ''/'' else c) s"

definition isSafeRelativePath :: "string \<Rightarrow> bool" where
  "isSafeRelativePath p = (if p = [] then False
     else if hd p = CHR ''/'' \<or> hd p = CHR 0x5C then False
     else \<not> list_ex (\<lambda>seg. seg = ''..'') (js_split (CHR ''/'') (js_slashes p)))"

section \<open>Schemas\<close>

text \<open>
  The zod schemas parse a typed value field by field: every string is trimmed, and one field out of
  its bounds refuses the whole value. None is the \<open>ZodError\<close>.
\<close>

fun all_some :: "'a option list \<Rightarrow> 'a list option" where
  "all_some [] = Some []"
| "all_some (None # xs) = None"
| "all_some (Some x # xs) = map_option ((#) x) (all_some xs)"

definition z_list :: "nat \<Rightarrow> ('a \<Rightarrow> 'b option) \<Rightarrow> 'a list \<Rightarrow> 'b list option" where
  "z_list hi f xs = (if length xs \<le> hi then all_some (map f xs) else None)"

definition z_nullable :: "('a \<Rightarrow> 'b option) \<Rightarrow> 'a option \<Rightarrow> 'b option option" where
  "z_nullable f x = (case x of None \<Rightarrow> Some None | Some v \<Rightarrow> map_option Some (f v))"

definition isSha40 :: "string \<Rightarrow> bool" where
  "isSha40 s \<longleftrightarrow> length s = 40 \<and> list_all (\<lambda>c. let n = (of_char c :: nat) in
     (48 \<le> n \<and> n \<le> 57) \<or> (97 \<le> n \<and> n \<le> 102) \<or> (65 \<le> n \<and> n \<le> 70)) s"

definition z_sha :: "string \<Rightarrow> string option" where
  "z_sha s = (if isSha40 s then Some s else None)"

abbreviation pathList :: "string list \<Rightarrow> string list option" where
  "pathList \<equiv> z_list 500 (z_trimmed 1 500)"


definition packetExecutorSchema :: "packet_executor \<Rightarrow> packet_executor option" where
  "packetExecutorSchema e = do {
     role \<leftarrow> z_trimmed 1 100 (pe_role e);
     cli \<leftarrow> z_trimmed 1 200 (pe_cli e);
     model \<leftarrow> z_trimmed 1 300 (pe_model e);
     provider \<leftarrow> z_nullable (z_trimmed 0 200) (pe_provider e);
     Some \<lparr>pe_role = role, pe_cli = cli, pe_model = model, pe_provider = provider, pe_source = pe_source e\<rparr> }"

definition z_budget :: "packet_budget \<Rightarrow> packet_budget option" where
  "z_budget b = (if 0 < bg_runtimeMs b \<and> 0 \<le> bg_retries b
       \<and> (case bg_tokens b of None \<Rightarrow> True | Some n \<Rightarrow> 0 < n)
       \<and> (case bg_spend b of None \<Rightarrow> True | Some n \<Rightarrow> 0 < n)
     then Some b else None)"

definition z_permission :: "packet_permission \<Rightarrow> packet_permission option" where
  "z_permission p = do {
     allowed \<leftarrow> z_list 100 (z_trimmed 1 100) (pp_allowed p);
     denied \<leftarrow> z_list 100 (z_trimmed 1 100) (pp_denied p);
     Some \<lparr>pp_preset = pp_preset p, pp_allowed = allowed, pp_denied = denied\<rparr> }"

definition workPacketSchema :: "work_packet \<Rightarrow> work_packet option" where
  "workPacketSchema p = do {
     i \<leftarrow> z_trimmed 1 200 (wp_id p);
     campaign \<leftarrow> z_trimmed 1 200 (wp_campaign p);
     r \<leftarrow> z_trimmed 1 200 (wp_run p);
     parent \<leftarrow> z_nullable (z_trimmed 0 200) (wp_parent p);
     ws \<leftarrow> z_trimmed 1 200 (wp_workstream p);
     goal \<leftarrow> z_trimmed 1 4000 (wp_goal p);
     reqs \<leftarrow> z_list 200 (z_trimmed 1 4000) (wp_requirements p);
     allowed \<leftarrow> pathList (wp_allowed p);
     rd \<leftarrow> pathList (wp_read p);
     deps \<leftarrow> z_list 100 (z_trimmed 1 200) (wp_depends p);
     ex \<leftarrow> packetExecutorSchema (wp_executor p);
     ver \<leftarrow> z_list 100 (z_trimmed 1 1000) (wp_verification p);
     b \<leftarrow> z_budget (wp_budget p);
     perm \<leftarrow> z_permission (wp_permission p);
     if 0 < wp_iter p then
       Some \<lparr>wp_id = i, wp_campaign = campaign, wp_run = r, wp_iter = wp_iter p, wp_parent = parent,
         wp_workstream = ws, wp_goal = goal, wp_requirements = reqs, wp_allowed = allowed, wp_read = rd,
         wp_depends = deps, wp_executor = ex, wp_verification = ver, wp_budget = b, wp_permission = perm,
         wp_status = wp_status p, wp_created = wp_created p, wp_updated = wp_updated p\<rparr>
     else None }"

definition worktreeSchema :: "provenance \<Rightarrow> provenance option" where
  "worktreeSchema v = do {
     i \<leftarrow> z_trimmed 1 200 (pv_worktree v);
     path \<leftarrow> z_trimmed 1 1000 (pv_path v);
     branch \<leftarrow> z_trimmed 1 300 (pv_branch v);
     base \<leftarrow> z_sha (pv_base v);
     commit \<leftarrow> z_nullable z_sha (pv_commit v);
     Some \<lparr>pv_worktree = i, pv_path = path, pv_branch = branch, pv_base = base, pv_commit = commit\<rparr> }"

definition workPacketResultSchema :: "packet_result \<Rightarrow> packet_result option" where
  "workPacketResultSchema x = do {
     pk \<leftarrow> z_trimmed 1 200 (re_packet x);
     campaign \<leftarrow> z_trimmed 1 200 (re_campaign x);
     r \<leftarrow> z_trimmed 1 200 (re_run x);
     wt \<leftarrow> z_nullable worktreeSchema (re_worktree x);
     files \<leftarrow> pathList (re_files x);
     ver \<leftarrow> z_list 200 (z_trimmed 1 2000) (re_verification x);
     findings \<leftarrow> z_list 200 (z_trimmed 1 4000) (re_findings x);
     risks \<leftarrow> z_list 200 (z_trimmed 1 4000) (re_risks x);
     artifacts \<leftarrow> z_list 200 (z_trimmed 1 1000) (re_artifacts x);
     affected \<leftarrow> z_list 100 (z_trimmed 1 200) (re_affected x);
     usage \<leftarrow> z_list 100 (z_trimmed 1 200) (re_usage x);
     summary \<leftarrow> z_trimmed 1 4000 (re_summary x);
     blocker \<leftarrow> z_nullable (z_trimmed 0 4000) (re_blocker x);
     if 0 < re_iter x then
       Some \<lparr>re_packet = pk, re_campaign = campaign, re_run = r, re_iter = re_iter x, re_status = re_status x,
         re_worktree = wt, re_files = files, re_verification = ver, re_findings = findings, re_risks = risks,
         re_artifacts = artifacts, re_affected = affected, re_usage = usage, re_summary = summary,
         re_blocker = blocker, re_created = re_created x\<rparr>
     else None }"

text \<open>Parsing is idempotent: what a schema accepted it accepts again, unchanged.\<close>

lemma js_trim_parts: "\<exists>a b. s = a @ js_trim s @ b"
proof -
  obtain a where a: "s = a @ dropWhile js_space s" by (metis takeWhile_dropWhile_id)
  obtain b where "rev (dropWhile js_space s) = b @ dropWhile js_space (rev (dropWhile js_space s))"
    by (metis takeWhile_dropWhile_id)
  then have "dropWhile js_space s = js_trim s @ rev b"
    unfolding js_trim_def by (metis rev_append rev_rev_ident)
  with a show ?thesis by (metis append.assoc)
qed

lemma js_trim_idem [simp]: "js_trim (js_trim s) = js_trim s"
proof -
  let ?u = "dropWhile js_space s" and ?d = "dropWhile js_space"
  have head: "?d (js_trim s) = js_trim s"
  proof (cases "js_trim s")
    case (Cons c cs)
    have "?u \<noteq> []" using Cons unfolding js_trim_def by (intro notI) simp
    then have "\<not> js_space (hd ?u)" by (rule hd_dropWhile)
    obtain b where b: "?u = js_trim s @ b"
      unfolding js_trim_def by (metis rev_append rev_rev_ident takeWhile_dropWhile_id)
    have "hd ?u = c" using b Cons by simp
    with \<open>\<not> js_space (hd ?u)\<close> Cons show ?thesis by simp
  qed simp
  have "?d (rev (js_trim s)) = rev (js_trim s)"
    by (simp add: js_trim_def dropWhile_eq_self_iff hd_dropWhile)
  then show ?thesis using head by (metis js_trim_def rev_rev_ident)
qed

lemma z_trimmed_idem: "z_trimmed lo hi s = Some t \<Longrightarrow> z_trimmed lo hi t = Some t"
  by (auto simp: z_trimmed_def Let_def split: if_splits)

lemma z_trimmed_bounds: "z_trimmed lo hi s = Some t \<Longrightarrow> lo \<le> length t \<and> length t \<le> hi"
  by (auto simp: z_trimmed_def Let_def split: if_splits)


lemma all_some_Some: "all_some xs = Some ys \<longleftrightarrow> xs = map Some ys"
proof (induction xs arbitrary: ys)
  case (Cons a xs)
  then show ?case by (cases a; cases ys) auto
qed auto

lemma z_list_idem:
  assumes "z_list hi f xs = Some ys" and "\<And>x y. f x = Some y \<Longrightarrow> f y = Some y"
  shows "z_list hi f ys = Some ys"
proof -
  have m: "map f xs = map Some ys" and "length xs \<le> hi"
    using assms(1) by (auto simp: z_list_def all_some_Some split: if_splits)
  then have "length ys \<le> hi" by (metis length_map)
  moreover have "map f ys = map Some ys"
  proof (rule nth_equalityI)
    fix i assume "i < length (map f ys)"
    then have i: "i < length ys" by simp
    then have "f (xs ! i) = Some (ys ! i)" using m by (metis length_map nth_map)
    then show "map f ys ! i = map Some ys ! i" using i assms(2) by simp
  qed simp
  ultimately show ?thesis by (simp add: z_list_def all_some_Some)
qed

lemma z_nullable_idem:
  "z_nullable f x = Some y \<Longrightarrow> (\<And>a b. f a = Some b \<Longrightarrow> f b = Some b) \<Longrightarrow> z_nullable f y = Some y"
  by (auto simp: z_nullable_def split: option.splits)

lemma z_sha_idem: "z_sha s = Some t \<Longrightarrow> z_sha t = Some t"
  by (auto simp: z_sha_def split: if_splits)

lemmas z_idem = z_trimmed_idem z_sha_idem z_list_idem [OF _ z_trimmed_idem] z_nullable_idem [OF _ z_trimmed_idem]
  z_nullable_idem [OF _ z_sha_idem]

lemma worktreeSchema_idem: "worktreeSchema v = Some w \<Longrightarrow> worktreeSchema w = Some w"
  by (auto simp: worktreeSchema_def bind_eq_Some_conv intro: z_idem)

lemma resultSchema_idem: "workPacketResultSchema x = Some y \<Longrightarrow> workPacketResultSchema y = Some y"
  by (auto simp: workPacketResultSchema_def bind_eq_Some_conv
      intro: z_idem z_nullable_idem [OF _ worktreeSchema_idem] split: if_splits)

lemma packetSchema_idem: "workPacketSchema x = Some y \<Longrightarrow> workPacketSchema y = Some y"
  by (auto simp: workPacketSchema_def packetExecutorSchema_def z_permission_def z_budget_def
      bind_eq_Some_conv intro: z_idem split: if_splits)


section \<open>The store\<close>

record packet_row =
  kr_id :: ident
  kr_repo :: ident
  kr_campaign :: ident
  kr_run :: ident
  kr_iter :: int
  kr_parent :: "ident option"
  kr_workstream :: string
  kr_status :: packet_status
  kr_json :: "work_packet json"
  kr_created :: time
  kr_updated :: time

record result_row =
  rr_packet :: ident
  rr_repo :: ident
  rr_run :: ident
  rr_iter :: int
  rr_status :: result_status
  rr_json :: "packet_result json"
  rr_created :: time

record integration_row =
  nr_id :: ident
  nr_repo :: ident
  nr_run :: ident
  nr_iter :: int
  nr_status :: integration_status
  nr_report :: "integration_report json"
  nr_created :: time

record packet_db =
  db_packets :: "packet_row list"
  db_results :: "result_row list"
  db_worktrees :: "worktree list"
  db_integrations :: "integration_row list"

definition row_of_packet :: "ident \<Rightarrow> work_packet \<Rightarrow> packet_row" where
  "row_of_packet repo p = \<lparr>kr_id = wp_id p, kr_repo = repo, kr_campaign = wp_campaign p, kr_run = wp_run p,
     kr_iter = wp_iter p, kr_parent = wp_parent p, kr_workstream = wp_workstream p, kr_status = wp_status p,
     kr_json = Json p, kr_created = wp_created p, kr_updated = wp_updated p\<rparr>"

definition packet_save :: "work_packet \<Rightarrow> ident \<Rightarrow> packet_db \<Rightarrow> packet_db option" where
  "packet_save p repo db = map_option (\<lambda>t. db\<lparr>db_packets := t\<rparr>) (tbl_insert kr_id (row_of_packet repo p) (db_packets db))"

fun json_opt :: "'a json \<Rightarrow> 'a option" where
  "json_opt (Json x) = Some x"
| "json_opt Corrupt = None"

definition packet_get :: "ident \<Rightarrow> packet_db \<Rightarrow> work_packet option" where
  "packet_get i db = Option.bind (tbl_get kr_id i (db_packets db)) (\<lambda>r. json_opt (kr_json r))"

definition getRepositoryId :: "ident \<Rightarrow> packet_db \<Rightarrow> ident option" where
  "getRepositoryId i db = map_option kr_repo (tbl_get kr_id i (db_packets db))"

definition packet_listByRun :: "ident \<Rightarrow> packet_db \<Rightarrow> work_packet list" where
  "packet_listByRun i db = List.map_filter (\<lambda>r. json_opt (kr_json r))
     (order_asc kr_iter (order_asc kr_created (filter (\<lambda>r. kr_run r = i) (db_packets db))))"

definition packet_updateStatus ::
    "ident \<Rightarrow> packet_status \<Rightarrow> time \<Rightarrow> packet_db \<Rightarrow> work_packet option \<times> packet_db" where
  "packet_updateStatus i st now db = (case packet_get i db of None \<Rightarrow> (None, db)
     | Some p \<Rightarrow> (let u = p\<lparr>wp_status := st, wp_updated := now\<rparr>
        in (Some u, db\<lparr>db_packets := tbl_update (\<lambda>r. kr_id r = i)
             (\<lambda>r. r\<lparr>kr_status := st, kr_json := Json u, kr_updated := now\<rparr>) (db_packets db)\<rparr>)))"

definition row_of_result :: "ident \<Rightarrow> packet_result \<Rightarrow> result_row" where
  "row_of_result repo x = \<lparr>rr_packet = re_packet x, rr_repo = repo, rr_run = re_run x, rr_iter = re_iter x,
     rr_status = re_status x, rr_json = Json x, rr_created = re_created x\<rparr>"

text \<open>On a conflict only the status, the JSON text and the instant are replaced.\<close>

definition saveResult :: "packet_result \<Rightarrow> ident \<Rightarrow> packet_db \<Rightarrow> packet_db" where
  "saveResult x repo db = db\<lparr>db_results := (case tbl_get rr_packet (re_packet x) (db_results db) of
       None \<Rightarrow> db_results db @ [row_of_result repo x]
     | Some _ \<Rightarrow> tbl_update (\<lambda>r. rr_packet r = re_packet x)
         (\<lambda>r. r\<lparr>rr_status := re_status x, rr_json := Json x, rr_created := re_created x\<rparr>) (db_results db))\<rparr>"

definition getResult :: "ident \<Rightarrow> packet_db \<Rightarrow> packet_result option" where
  "getResult i db = Option.bind (tbl_get rr_packet i (db_results db)) (\<lambda>r. json_opt (rr_json r))"

definition listResults :: "ident \<Rightarrow> packet_db \<Rightarrow> packet_result list" where
  "listResults i db = List.map_filter (\<lambda>r. json_opt (rr_json r))
     (order_asc rr_iter (order_asc rr_created (filter (\<lambda>r. rr_run r = i) (db_results db))))"

text \<open>\<open>saveWorktree\<close>: the id, the path and the branch are each unique; None is the constraint error.\<close>

definition worktree_clash :: "worktree \<Rightarrow> packet_db \<Rightarrow> bool" where
  "worktree_clash w db \<longleftrightarrow>
     list_ex (\<lambda>q. wt_id q = wt_id w \<or> wt_path q = wt_path w \<or> wt_branch q = wt_branch w) (db_worktrees db)"

definition saveWorktree :: "worktree \<Rightarrow> packet_db \<Rightarrow> packet_db option" where
  "saveWorktree w db = (if worktree_clash w db then None else Some (db\<lparr>db_worktrees := db_worktrees db @ [w]\<rparr>))"

definition getWorktree :: "ident \<Rightarrow> packet_db \<Rightarrow> worktree option" where
  "getWorktree i db = tbl_get wt_id i (db_worktrees db)"

definition getWorktreeByPacket :: "ident \<Rightarrow> packet_db \<Rightarrow> worktree option" where
  "getWorktreeByPacket i db = first_row (order_desc wt_created (filter (\<lambda>w. wt_packet w = i) (db_worktrees db)))"

definition listWorktrees :: "ident \<Rightarrow> worktree_status list option \<Rightarrow> packet_db \<Rightarrow> worktree list" where
  "listWorktrees repo statuses db = filter (\<lambda>w. case statuses of None \<Rightarrow> True | Some l \<Rightarrow> wt_status w \<in> set l)
     (order_desc wt_created (filter (\<lambda>w. wt_repo w = repo) (db_worktrees db)))"

record worktree_patch =
  wu_status :: "worktree_status option"
  wu_released :: "time option option"
  wu_error :: "string option option"
  wu_inputs :: "string list option"

definition no_worktree_patch :: worktree_patch where
  "no_worktree_patch = \<lparr>wu_status = None, wu_released = None, wu_error = None, wu_inputs = None\<rparr>"

definition updateWorktree :: "ident \<Rightarrow> worktree_patch \<Rightarrow> packet_db \<Rightarrow> worktree option \<times> packet_db" where
  "updateWorktree i u db = (case getWorktree i db of None \<Rightarrow> (None, db)
     | Some c \<Rightarrow> (let n = c\<lparr>wt_status := set_col (wu_status u) (wt_status c), wt_released := set_col (wu_released u) (wt_released c),
            wt_error := set_col (wu_error u) (wt_error c), wt_inputs := set_col (wu_inputs u) (wt_inputs c)\<rparr>
        in (Some n, db\<lparr>db_worktrees := tbl_update (\<lambda>w. wt_id w = i) (\<lambda>_. n) (db_worktrees db)\<rparr>)))"

definition saveIntegration :: "ident \<Rightarrow> integration_report \<Rightarrow> ident \<Rightarrow> packet_db \<Rightarrow> packet_db option" where
  "saveIntegration fresh rep repo db = map_option (\<lambda>t. db\<lparr>db_integrations := t\<rparr>)
     (tbl_insert nr_id \<lparr>nr_id = fresh, nr_repo = repo, nr_run = ir_run rep, nr_iter = ir_iter rep,
        nr_status = ir_status rep, nr_report = Json rep, nr_created = ir_created rep\<rparr> (db_integrations db))"

definition listIntegrations :: "ident \<Rightarrow> packet_db \<Rightarrow> integration_report list" where
  "listIntegrations i db = List.map_filter (\<lambda>r. json_opt (nr_report r))
     (order_desc nr_created (filter (\<lambda>r. nr_run r = i) (db_integrations db)))"


section \<open>The packet service\<close>

datatype packet_error = PE_zod | PE_invalid string | PE_sqlite

text \<open>The input of a creation; the optional fields of budget and permission policy are options.\<close>

record packet_input =
  pi_workstream :: string
  pi_goal :: string
  pi_requirements :: "string list option"
  pi_allowed :: "string list option"
  pi_read :: "string list option"
  pi_depends :: "ident list option"
  pi_parent :: "ident option"
  pi_executor :: packet_executor
  pi_verification :: "string list option"
  pi_runtimeMs :: "int option"
  pi_retries :: "int option"
  pi_tokens :: "rat option"
  pi_spend :: "rat option"
  pi_preset :: "perm_preset option"
  pi_allowedActions :: "string list option"
  pi_deniedActions :: "string list option"

abbreviation or_else :: "'a \<Rightarrow> 'a option \<Rightarrow> 'a" where
  "or_else d x \<equiv> (case x of None \<Rightarrow> d | Some v \<Rightarrow> v)"

definition unsafe_paths :: "string list \<Rightarrow> string option" where
  "unsafe_paths ps = find (\<lambda>p. \<not> isSafeRelativePath p) ps"

definition packet_of_input :: "ident \<Rightarrow> time \<Rightarrow> ident \<Rightarrow> int \<Rightarrow> packet_input \<Rightarrow> work_packet" where
  "packet_of_input fresh now run_id iter x = \<lparr>wp_id = fresh, wp_campaign = run_id, wp_run = run_id, wp_iter = iter,
     wp_parent = pi_parent x, wp_workstream = pi_workstream x, wp_goal = pi_goal x,
     wp_requirements = or_else [] (pi_requirements x), wp_allowed = or_else [] (pi_allowed x),
     wp_read = or_else [] (pi_read x), wp_depends = or_else [] (pi_depends x), wp_executor = pi_executor x,
     wp_verification = or_else [] (pi_verification x),
     wp_budget = \<lparr>bg_runtimeMs = or_else 1800000 (pi_runtimeMs x), bg_retries = or_else 0 (pi_retries x),
       bg_tokens = pi_tokens x, bg_spend = pi_spend x\<rparr>,
     wp_permission = \<lparr>pp_preset = or_else BALANCED (pi_preset x), pp_allowed = or_else [] (pi_allowedActions x),
       pp_denied = or_else [] (pi_deniedActions x)\<rparr>,
     wp_status = PK_QUEUED, wp_created = now, wp_updated = now\<rparr>"

definition packet_create ::
    "ident \<Rightarrow> time \<Rightarrow> ident \<Rightarrow> ident \<Rightarrow> int \<Rightarrow> packet_input \<Rightarrow> packet_db \<Rightarrow> packet_error + work_packet \<times> packet_db" where
  "packet_create fresh now repo run_id iter x db =
     (case unsafe_paths (or_else [] (pi_allowed x) @ or_else [] (pi_read x)) of
        Some p \<Rightarrow> Inl (PE_invalid (''Work packet path is not safe: '' @ p))
      | None \<Rightarrow> (case workPacketSchema (packet_of_input fresh now run_id iter x) of
          None \<Rightarrow> Inl PE_zod
        | Some p \<Rightarrow> if wp_run p \<noteq> run_id \<or> repo = []
            then Inl (PE_invalid ''Work packet repository/run correlation is invalid.'')
            else (case packet_save p repo db of None \<Rightarrow> Inl PE_sqlite | Some db' \<Rightarrow> Inr (p, db'))))"

fun packet_status_of :: "result_status \<Rightarrow> packet_status" where
  "packet_status_of RS_COMPLETED = PK_COMPLETED"
| "packet_status_of RS_SKIPPED_DEPENDENCY = PK_SKIPPED_DEPENDENCY"
| "packet_status_of RS_CANCELLED = PK_CANCELLED"
| "packet_status_of RS_BLOCKED = PK_BLOCKED"
| "packet_status_of RS_INTEGRATION_CONFLICT = PK_BLOCKED"
| "packet_status_of RS_FAILED = PK_FAILED"
| "packet_status_of RS_SKIPPED = PK_FAILED"

definition provenance_matches :: "ident \<Rightarrow> provenance \<Rightarrow> packet_db \<Rightarrow> bool" where
  "provenance_matches pid v db = (case getWorktree (pv_worktree v) db of None \<Rightarrow> False
     | Some w \<Rightarrow> wt_packet w = pid \<and> wt_branch w = pv_branch v \<and> wt_base w = pv_base v)"

definition recordResult ::
    "time \<Rightarrow> ident \<Rightarrow> work_packet \<Rightarrow> packet_result \<Rightarrow> packet_db \<Rightarrow> packet_error + packet_result \<times> packet_db" where
  "recordResult now repo p input db = (case workPacketResultSchema input of None \<Rightarrow> Inl PE_zod
     | Some x \<Rightarrow>
        if re_packet x \<noteq> wp_id p \<or> re_run x \<noteq> wp_run p \<or> re_campaign x \<noteq> wp_campaign p \<or> re_iter x \<noteq> wp_iter p
        then Inl (PE_invalid ''Work packet result correlation does not match its packet.'')
        else if (case re_worktree x of None \<Rightarrow> False | Some v \<Rightarrow> \<not> provenance_matches (wp_id p) v db)
        then Inl (PE_invalid ''Work packet result worktree provenance does not match the persisted isolated worktree.'')
        else Inr (x, snd (packet_updateStatus (wp_id p) (packet_status_of (re_status x)) now (saveResult x repo db))))"


section \<open>What the store returns\<close>

named_theorems packet_simps "lookups in the packet tables after their operations"

lemma getResult_save [packet_simps]:
  "getResult i (saveResult x repo db) = (if i = re_packet x then Some x else getResult i db)"
proof (cases "tbl_get rr_packet (re_packet x) (db_results db)")
  case None
  then show ?thesis
    by (auto simp: getResult_def saveResult_def row_of_result_def table_simps split: option.splits)
next
  case (Some r)
  then show ?thesis
    by (auto simp: getResult_def saveResult_def tbl_get_update_key split: option.splits)
qed

lemma packet_get_save: "packet_save p repo db = Some db' \<Longrightarrow> packet_get i db' = (if i = wp_id p then Some p else packet_get i db)"
  by (auto simp: packet_save_def packet_get_def tbl_insert_def row_of_packet_def table_simps split: option.splits)

lemma packet_get_updateStatus [packet_simps]:
  "packet_get j (snd (packet_updateStatus i st now db)) =
     (if j = i then map_option (\<lambda>p. p\<lparr>wp_status := st, wp_updated := now\<rparr>) (packet_get i db) else packet_get j db)"
  by (cases "tbl_get kr_id i (db_packets db)")
    (auto simp: packet_updateStatus_def packet_get_def Let_def tbl_get_update_key split: option.splits)

lemma packet_updateStatus_frame [packet_simps]:
  "getResult j (snd (packet_updateStatus i st now db)) = getResult j db"
  "getRepositoryId j (snd (packet_updateStatus i st now db)) = getRepositoryId j db"
  "db_results (snd (packet_updateStatus i st now db)) = db_results db"
  "db_worktrees (snd (packet_updateStatus i st now db)) = db_worktrees db"
  "db_integrations (snd (packet_updateStatus i st now db)) = db_integrations db"
  by (auto simp: getResult_def getRepositoryId_def packet_updateStatus_def Let_def tbl_get_update_key
      option.map_comp comp_def split: option.splits)

lemma saveResult_frame [packet_simps]:
  "packet_get i (saveResult x repo db) = packet_get i db"
  "getRepositoryId i (saveResult x repo db) = getRepositoryId i db"
  "db_packets (saveResult x repo db) = db_packets db"
  "db_worktrees (saveResult x repo db) = db_worktrees db"
  "db_integrations (saveResult x repo db) = db_integrations db"
  by (simp_all add: packet_get_def getRepositoryId_def saveResult_def)

lemma recordResult_Inr:
  "recordResult now repo p input db = Inr (x, db') \<Longrightarrow>
   workPacketResultSchema input = Some x \<and> re_packet x = wp_id p \<and> re_run x = wp_run p
   \<and> re_campaign x = wp_campaign p \<and> re_iter x = wp_iter p
   \<and> (case re_worktree x of None \<Rightarrow> True | Some v \<Rightarrow> provenance_matches (wp_id p) v db)
   \<and> db' = snd (packet_updateStatus (wp_id p) (packet_status_of (re_status x)) now (saveResult x repo db))"
  by (auto simp: recordResult_def split: option.splits if_splits)

text \<open>
  C40: a recorded result is what the store returns. When \<open>recordResult\<close> accepts a result for a
  stored packet, the stored result is the schema's canonical form (parsing it again changes
  nothing), it belongs to the packet's own run and iteration, the packet carries the status the
  result stands for, and no other packet's record or result is touched.
\<close>

theorem recorded_result_is_canonical:
  assumes "recordResult now repo p input db = Inr (x, db')" and "packet_get (wp_id p) db = Some q"
  shows "getResult (wp_id p) db' = Some x \<and> workPacketResultSchema x = Some x
    \<and> re_run x = wp_run p \<and> re_iter x = wp_iter p
    \<and> packet_get (wp_id p) db' = Some (q\<lparr>wp_status := packet_status_of (re_status x), wp_updated := now\<rparr>)
    \<and> (if j = wp_id p then True else getResult j db' = getResult j db \<and> packet_get j db' = packet_get j db)"
  using recordResult_Inr [OF assms(1)] assms(2) by (auto simp: packet_simps resultSchema_idem)


definition demo_packet :: "ident \<Rightarrow> ident list \<Rightarrow> work_packet" where
  "demo_packet i deps = \<lparr>wp_id = i, wp_campaign = ''a'', wp_run = ''a'', wp_iter = 1, wp_parent = None,
     wp_workstream = ''w'', wp_goal = ''g'', wp_requirements = [], wp_allowed = [], wp_read = [], wp_depends = deps,
     wp_executor = \<lparr>pe_role = ''worker'', pe_cli = ''cli'', pe_model = ''m'', pe_provider = None, pe_source = EXPLICIT_RULE\<rparr>,
     wp_verification = [], wp_budget = \<lparr>bg_runtimeMs = 1000, bg_retries = 0, bg_tokens = None, bg_spend = None\<rparr>,
     wp_permission = \<lparr>pp_preset = BALANCED, pp_allowed = [], pp_denied = []\<rparr>, wp_status = PK_QUEUED,
     wp_created = 0, wp_updated = 0\<rparr>"

definition demo_result :: "ident \<Rightarrow> result_status \<Rightarrow> packet_result" where
  "demo_result i st = \<lparr>re_packet = i, re_campaign = ''a'', re_run = ''a'', re_iter = 1, re_status = st, re_worktree = None,
     re_files = [], re_verification = [], re_findings = [], re_risks = [], re_artifacts = [], re_affected = [], re_usage = [],
     re_summary = ''done'', re_blocker = None, re_created = 5\<rparr>"

definition demo_db :: "work_packet list \<Rightarrow> packet_db" where
  "demo_db ps = \<lparr>db_packets = map (row_of_packet ''r'') ps, db_results = [], db_worktrees = [], db_integrations = []\<rparr>"

theorem recorded_result_is_canonical_witness:
  "getResult ''p1'' (snd (projr (recordResult 9 ''r'' (demo_packet ''p1'' []) (demo_result ''p1'' RS_COMPLETED)
     (demo_db [demo_packet ''p1'' []])))) = Some (demo_result ''p1'' RS_COMPLETED)"
proof -
  let ?p = "demo_packet ''p1'' []"
  have r: "recordResult 9 ''r'' ?p (demo_result ''p1'' RS_COMPLETED) (demo_db [?p]) =
      Inr (demo_result ''p1'' RS_COMPLETED, snd (projr (recordResult 9 ''r'' ?p (demo_result ''p1'' RS_COMPLETED) (demo_db [?p]))))"
    by code_simp
  have "packet_get (wp_id ?p) (demo_db [?p]) = Some ?p" by code_simp
  from recorded_result_is_canonical [OF r this] show ?thesis by (simp add: demo_packet_def)
qed

end
