(* ===== verification/Run_Stores.thy ===== *)
theory Run_Stores
  imports Work_Packets
begin

text \<open>
  The tables the orchestration loop reads and writes, and the pure functions of the loop
  state: \<open>packages/shared/src/loop.ts\<close>, \<open>loop/run-store.ts\<close>, \<open>loop/run-policy-store.ts\<close>,
  \<open>watcher/dispatch-store.ts\<close>, \<open>watcher/sol-control-store.ts\<close> and
  \<open>strategy/strategy-run-store.ts\<close> of the controller. Each store is a set of
  operations on one row list. The column \<open>drain_reason\<close> exists: migrations run before
  any store is made.
\<close>

section \<open>Loop states\<close>

datatype loop_state = IDLE | SOL_PENDING | SOL_REVIEWING | EXECUTOR_PENDING | EXECUTING
  | GOAL_COMPLETE | BLOCKED | NEEDS_HUMAN | PAUSED | STOPPED | DRAINING | CEILING_REACHED
  | SOL_STALLED | ATTENTION_REQUIRED | EXECUTOR_UNAVAILABLE | RECOVERY_REQUIRED

datatype drain_reason = USER_STOP | WALL_CLOCK_CEILING | ITERATION_CEILING
datatype loop_actor = A_SOL | A_EXECUTOR | A_NONE

fun loop_state_name :: "loop_state \<Rightarrow> string" where
  "loop_state_name IDLE = ''IDLE''"
| "loop_state_name SOL_PENDING = ''SOL_PENDING''"
| "loop_state_name SOL_REVIEWING = ''SOL_REVIEWING''"
| "loop_state_name EXECUTOR_PENDING = ''EXECUTOR_PENDING''"
| "loop_state_name EXECUTING = ''EXECUTING''"
| "loop_state_name GOAL_COMPLETE = ''GOAL_COMPLETE''"
| "loop_state_name BLOCKED = ''BLOCKED''"
| "loop_state_name NEEDS_HUMAN = ''NEEDS_HUMAN''"
| "loop_state_name PAUSED = ''PAUSED''"
| "loop_state_name STOPPED = ''STOPPED''"
| "loop_state_name DRAINING = ''DRAINING''"
| "loop_state_name CEILING_REACHED = ''CEILING_REACHED''"
| "loop_state_name SOL_STALLED = ''SOL_STALLED''"
| "loop_state_name ATTENTION_REQUIRED = ''ATTENTION_REQUIRED''"
| "loop_state_name EXECUTOR_UNAVAILABLE = ''EXECUTOR_UNAVAILABLE''"
| "loop_state_name RECOVERY_REQUIRED = ''RECOVERY_REQUIRED''"

definition isTerminalLoopState :: "loop_state \<Rightarrow> bool" where
  "isTerminalLoopState st \<longleftrightarrow> st = GOAL_COMPLETE \<or> st = BLOCKED \<or> st = NEEDS_HUMAN \<or> st = STOPPED
     \<or> st = CEILING_REACHED \<or> st = SOL_STALLED \<or> st = ATTENTION_REQUIRED
     \<or> st = EXECUTOR_UNAVAILABLE \<or> st = RECOVERY_REQUIRED"

definition loopActor :: "loop_state \<Rightarrow> loop_actor" where
  "loopActor st = (if st = SOL_PENDING \<or> st = SOL_REVIEWING then A_SOL
     else if st = EXECUTOR_PENDING \<or> st = EXECUTING then A_EXECUTOR else A_NONE)"

definition shouldNotifyLoopState :: "loop_state \<Rightarrow> bool" where
  "shouldNotifyLoopState st \<longleftrightarrow> st = GOAL_COMPLETE \<or> st = NEEDS_HUMAN \<or> st = BLOCKED \<or> st = SOL_STALLED
     \<or> st = ATTENTION_REQUIRED \<or> st = EXECUTOR_UNAVAILABLE \<or> st = RECOVERY_REQUIRED
     \<or> st = CEILING_REACHED \<or> st = STOPPED"

text \<open>
  The three classifications of a loop state fit together: the user is notified of exactly the
  terminal states, and a state with an active actor is not terminal.
\<close>

theorem loop_state_classes:
  "(isTerminalLoopState st \<longleftrightarrow> shouldNotifyLoopState st)
   \<and> (if loopActor st = A_NONE then isTerminalLoopState st \<or> st \<in> {IDLE, PAUSED, DRAINING}
      else \<not> isTerminalLoopState st)"
  by (cases st) (simp_all add: isTerminalLoopState_def shouldNotifyLoopState_def loopActor_def)

section \<open>Runs\<close>

record run =
  ru_id :: ident
  ru_repo :: ident
  ru_goal :: string
  ru_status :: loop_state
  ru_iter :: int
  ru_max :: int
  ru_dispatch :: "ident option"
  ru_error :: "string option"
  ru_started :: time
  ru_finished :: "time option"
  ru_created :: time
  ru_updated :: time
  ru_drain :: "drain_reason option"

record run_updates =
  up_iter :: "int option"
  up_dispatch :: "ident option option"
  up_error :: "string option option"
  up_finished :: "time option option"
  up_drain :: "drain_reason option option"

definition no_updates :: run_updates where
  "no_updates = \<lparr>up_iter = None, up_dispatch = None, up_error = None, up_finished = None, up_drain = None\<rparr>"

text \<open>\<open>create\<close>; None is the primary key violation.\<close>

definition run_create :: "run \<Rightarrow> run list \<Rightarrow> run list option" where
  "run_create r t = tbl_insert ru_id r t"

definition run_get :: "ident \<Rightarrow> run list \<Rightarrow> run option" where
  "run_get i t = tbl_get ru_id i t"

definition run_getByRepository :: "ident \<Rightarrow> run list \<Rightarrow> run list" where
  "run_getByRepository repo t = order_desc ru_started (filter (\<lambda>r. ru_repo r = repo) t)"

definition inactive_states :: "loop_state list" where
  "inactive_states = [GOAL_COMPLETE, BLOCKED, NEEDS_HUMAN, STOPPED, SOL_STALLED, EXECUTOR_UNAVAILABLE,
     ATTENTION_REQUIRED, RECOVERY_REQUIRED, CEILING_REACHED]"

definition getActiveRun :: "ident \<Rightarrow> run list \<Rightarrow> run option" where
  "getActiveRun repo t = first_row (order_desc ru_started
     (filter (\<lambda>r. ru_repo r = repo \<and> ru_status r \<notin> set inactive_states) t))"

definition listActiveRuns :: "run list \<Rightarrow> run list" where
  "listActiveRuns t = order_asc ru_started (filter (\<lambda>r. ru_status r \<notin> set inactive_states) t)"

definition getLatestStalledRun :: "ident \<Rightarrow> run list \<Rightarrow> run option" where
  "getLatestStalledRun repo t = first_row (order_desc ru_started
     (filter (\<lambda>r. ru_repo r = repo \<and> ru_status r = SOL_STALLED) t))"

definition getLatestRun :: "ident \<Rightarrow> run list \<Rightarrow> run option" where
  "getLatestRun repo t = first_row (order_desc ru_started (filter (\<lambda>r. ru_repo r = repo) t))"

definition run_write :: "loop_state \<Rightarrow> run_updates \<Rightarrow> time \<Rightarrow> run \<Rightarrow> run \<Rightarrow> run" where
  "run_write st u now e r = r\<lparr>ru_status := st,
     ru_iter := set_col (up_iter u) (ru_iter e), ru_dispatch := set_col (up_dispatch u) (ru_dispatch e),
     ru_error := set_col (up_error u) (ru_error e), ru_finished := set_col (up_finished u) (ru_finished e),
     ru_drain := set_col (up_drain u) (ru_drain e), ru_updated := now\<rparr>"

definition run_updateStatus :: "ident \<Rightarrow> loop_state \<Rightarrow> run_updates \<Rightarrow> time \<Rightarrow> run list \<Rightarrow> run list" where
  "run_updateStatus i st u now t = (case run_get i t of None \<Rightarrow> t
     | Some e \<Rightarrow> tbl_update (\<lambda>r. ru_id r = i) (run_write st u now e) t)"

definition run_setDrainReason :: "ident \<Rightarrow> drain_reason option \<Rightarrow> time \<Rightarrow> run list \<Rightarrow> run list" where
  "run_setDrainReason i d now t =
     tbl_update (\<lambda>r. ru_id r = i) (\<lambda>r. r\<lparr>ru_drain := d, ru_updated := now\<rparr>) t"

definition run_clearDrainReason :: "ident \<Rightarrow> time \<Rightarrow> run list \<Rightarrow> run list" where
  "run_clearDrainReason i now t = run_setDrainReason i None now t"

definition run_getDrainReason :: "ident \<Rightarrow> run list \<Rightarrow> drain_reason option" where
  "run_getDrainReason i t = Option.bind (run_get i t) ru_drain"

subsection \<open>Lookups after updates\<close>

named_theorems run_simps "lookups in the run table after its updates"

lemma terminal_is_inactive: "st \<in> set inactive_states \<longleftrightarrow> isTerminalLoopState st"
  by (auto simp: inactive_states_def isTerminalLoopState_def)

lemma run_write_id [simp]:
  "ru_id (run_write st u now e r) = ru_id r" "ru_repo (run_write st u now e r) = ru_repo r"
  "ru_status (run_write st u now e r) = st" "ru_started (run_write st u now e r) = ru_started r"
  "ru_max (run_write st u now e r) = ru_max r"
  by (simp_all add: run_write_def)

lemma run_get_updateStatus [run_simps]:
  "run_get j (run_updateStatus i st u now t) = (if j = i then map_option (\<lambda>r. run_write st u now r r) (run_get i t)
     else run_get j t)"
proof (cases "run_get i t")
  case None
  then show ?thesis by (simp add: run_updateStatus_def)
next
  case (Some e)
  then show ?thesis
    by (auto simp: run_updateStatus_def run_get_def tbl_get_update_key)
qed

lemma run_get_setDrain [run_simps]:
  "run_get j (run_setDrainReason i d now t) =
     (if j = i then map_option (\<lambda>r. r\<lparr>ru_drain := d, ru_updated := now\<rparr>) (run_get j t) else run_get j t)"
  by (simp add: run_setDrainReason_def run_get_def tbl_get_update_key)

lemma run_get_clearDrain [run_simps]:
  "run_get j (run_clearDrainReason i now t) =
     (if j = i then map_option (\<lambda>r. r\<lparr>ru_drain := None, ru_updated := now\<rparr>) (run_get j t) else run_get j t)"
  by (simp add: run_clearDrainReason_def run_simps)

lemma run_keys_kept [run_simps]:
  "map ru_id (run_updateStatus i st u now t) = map ru_id t"
  "map ru_id (run_setDrainReason i d now t) = map ru_id t"
  "map ru_id (run_clearDrainReason i now t) = map ru_id t"
  by (auto simp: run_updateStatus_def run_setDrainReason_def run_clearDrainReason_def tbl_update_def
      split: option.splits)

lemma run_get_id: "run_get i t = Some r \<Longrightarrow> ru_id r = i"
  by (auto simp: run_get_def dest: tbl_get_key)

lemma getActiveRun_SomeD:
  "getActiveRun repo t = Some r \<Longrightarrow> r \<in> set t \<and> ru_repo r = repo \<and> \<not> isTerminalLoopState (ru_status r)"
  by (auto simp: getActiveRun_def terminal_is_inactive dest: first_row_in_set)

lemma getActiveRun_get:
  "getActiveRun repo t = Some r \<Longrightarrow> unique_keys ru_id t \<Longrightarrow> run_get (ru_id r) t = Some r"
  by (auto dest!: getActiveRun_SomeD simp: run_get_def tbl_get_unique)

lemma getActiveRun_None:
  "getActiveRun repo t = None \<longleftrightarrow> (\<forall>r \<in> set t. ru_repo r = repo \<longrightarrow> isTerminalLoopState (ru_status r))"
  by (auto simp: getActiveRun_def filter_empty_conv terminal_is_inactive)

section \<open>Run policies\<close>

text \<open>Of the captured policy, the fields the loop reads.\<close>

record run_policy =
  rp_maxRuntimeMinutes :: int
  rp_maxIterations :: int
  rp_busyRetryMax :: nat
  rp_busyRetryDelayMs :: int
  rp_completionWaitMs :: int

type_synonym policy_table = "(ident \<times> run_policy json) list"

definition rps_save :: "ident \<Rightarrow> run_policy \<Rightarrow> policy_table \<Rightarrow> policy_table" where
  "rps_save i p t = AList.update i (Json p) t"

definition rps_get :: "ident \<Rightarrow> policy_table \<Rightarrow> run_policy option" where
  "rps_get i t = (case map_of t i of None \<Rightarrow> None | Some (Json p) \<Rightarrow> Some p | Some Corrupt \<Rightarrow> None)"

section \<open>Dispatches\<close>

datatype dispatch_status = DI_detected | DI_consumed | DI_rejected

record dispatch =
  di_id :: ident
  di_repo :: ident
  di_run :: ident
  di_iter :: int
  di_commit :: string
  di_base :: string
  di_change :: string
  di_goal :: string
  di_version :: int
  di_status :: dispatch_status
  di_reason :: "string option"
  di_strategy :: "strategy option"
  di_plan :: "execution_plan json option"
  di_created :: time
  di_updated :: time

definition dispatch_create :: "dispatch \<Rightarrow> dispatch list \<Rightarrow> dispatch list option" where
  "dispatch_create d t = tbl_insert di_id d t"

definition dispatch_get :: "ident \<Rightarrow> dispatch list \<Rightarrow> dispatch option" where
  "dispatch_get i t = tbl_get di_id i t"

text \<open>\<open>ORDER BY iteration DESC, created_at DESC\<close>: the second key is sorted first, the sort being stable.\<close>

definition dispatch_getByRepository :: "ident \<Rightarrow> dispatch list \<Rightarrow> dispatch list" where
  "dispatch_getByRepository repo t =
     order_desc di_iter (order_desc di_created (filter (\<lambda>d. di_repo d = repo) t))"

definition dispatch_updateStatus :: "ident \<Rightarrow> dispatch_status \<Rightarrow> string option \<Rightarrow> time \<Rightarrow> dispatch list \<Rightarrow> dispatch list" where
  "dispatch_updateStatus i st reason now t = tbl_update (\<lambda>d. di_id d = i)
     (\<lambda>d. d\<lparr>di_status := st, di_reason := reason, di_updated := now\<rparr>) t"

definition hasDispatch :: "ident \<Rightarrow> dispatch list \<Rightarrow> bool" where
  "hasDispatch i t = list_ex (\<lambda>d. di_id d = i) t"

definition hasCommit :: "string \<Rightarrow> dispatch list \<Rightarrow> bool" where
  "hasCommit sha t = list_ex (\<lambda>d. di_commit d = sha) t"

lemma dispatch_get_update [run_simps]:
  "dispatch_get j (dispatch_updateStatus i st reason now t) =
     (if j = i then map_option (\<lambda>d. d\<lparr>di_status := st, di_reason := reason, di_updated := now\<rparr>) (dispatch_get j t)
      else dispatch_get j t)"
  by (simp add: dispatch_get_def dispatch_updateStatus_def tbl_get_update_key)

record watcher_state =
  ws_repo :: ident
  ws_sha :: "string option"
  ws_polled :: "time option"
  ws_error :: "string option"
  ws_updated :: time

definition getWatcherState :: "ident \<Rightarrow> watcher_state list \<Rightarrow> watcher_state option" where
  "getWatcherState repo t = tbl_get ws_repo repo t"

definition upsertWatcherState ::
    "ident \<Rightarrow> string option option \<Rightarrow> time option option \<Rightarrow> string option option \<Rightarrow> time
     \<Rightarrow> watcher_state list \<Rightarrow> watcher_state \<times> watcher_state list" where
  "upsertWatcherState repo sha polled err now t = (case getWatcherState repo t of
       Some e \<Rightarrow> (let w = \<lparr>ws_repo = repo, ws_sha = set_col sha (ws_sha e), ws_polled = set_col polled (ws_polled e),
                         ws_error = set_col err (ws_error e), ws_updated = now\<rparr>
          in (w, tbl_update (\<lambda>q. ws_repo q = repo) (\<lambda>_. w) t))
     | None \<Rightarrow> (let w = \<lparr>ws_repo = repo, ws_sha = set_col sha None, ws_polled = set_col polled None,
                         ws_error = set_col err None, ws_updated = now\<rparr>
          in (w, t @ [w])))"

section \<open>Sol controls\<close>

datatype control_decision = CD_GOAL_COMPLETE | CD_BLOCKED | CD_NEEDS_HUMAN | CD_PAUSED
datatype control_status = SC_detected | SC_consumed | SC_rejected

record sol_control =
  sc_id :: ident
  sc_repo :: ident
  sc_run :: ident
  sc_controlId :: ident
  sc_decision :: control_decision
  sc_iter :: int
  sc_commit :: string
  sc_dispatch :: "ident option"
  sc_status :: control_status
  sc_reason :: "string option"
  sc_created :: time
  sc_updated :: time

definition control_create :: "sol_control \<Rightarrow> sol_control list \<Rightarrow> sol_control list option" where
  "control_create c t = tbl_insert sc_id c t"

definition control_get :: "ident \<Rightarrow> sol_control list \<Rightarrow> sol_control option" where
  "control_get i t = tbl_get sc_id i t"

definition control_getByRepository :: "ident \<Rightarrow> sol_control list \<Rightarrow> sol_control list" where
  "control_getByRepository repo t = order_desc sc_created (filter (\<lambda>c. sc_repo c = repo) t)"

definition hasControl :: "ident \<Rightarrow> sol_control list \<Rightarrow> bool" where
  "hasControl i t = list_ex (\<lambda>c. sc_id c = i) t"

definition control_updateStatus :: "ident \<Rightarrow> control_status \<Rightarrow> string option \<Rightarrow> time \<Rightarrow> sol_control list \<Rightarrow> sol_control list" where
  "control_updateStatus i st reason now t = tbl_update (\<lambda>c. sc_id c = i)
     (\<lambda>c. c\<lparr>sc_status := st, sc_reason := reason, sc_updated := now\<rparr>) t"

lemma control_get_update [run_simps]:
  "control_get j (control_updateStatus i st reason now t) =
     (if j = i then map_option (\<lambda>c. c\<lparr>sc_status := st, sc_reason := reason, sc_updated := now\<rparr>) (control_get j t)
      else control_get j t)"
  by (simp add: control_get_def control_updateStatus_def tbl_get_update_key)

section \<open>Strategy runs\<close>

datatype control_state = CS_NONE | PAUSE_REQUESTED | STOP_REQUESTED | KILL_REQUESTED
datatype strategy_decision = SD_PAUSE | SD_STOP | SD_KILL | SD_RESUME

record strategy_run =
  sr_id :: ident
  sr_repo :: ident
  sr_campaign :: ident
  sr_run :: ident
  sr_iter :: int
  sr_strategy :: strategy
  sr_status :: strategy_status
  sr_maxConcurrency :: int
  sr_packets :: "ident list"
  sr_control :: control_state
  sr_dispatch :: "ident option"
  sr_base :: "string option"
  sr_started :: "time option"
  sr_finished :: "time option"
  sr_error :: "string option"
  sr_report :: "execution_report option"
  sr_created :: time
  sr_updated :: time

record strategy_patch =
  sp_status :: "strategy_status option"
  sp_control :: "control_state option"
  sp_started :: "time option option"
  sp_finished :: "time option option"
  sp_error :: "string option option"
  sp_report :: "execution_report option option"
  sp_dispatch :: "ident option option"
  sp_base :: "string option option"

definition no_patch :: strategy_patch where
  "no_patch = \<lparr>sp_status = None, sp_control = None, sp_started = None, sp_finished = None, sp_error = None,
     sp_report = None, sp_dispatch = None, sp_base = None\<rparr>"

definition strategy_create :: "strategy_run \<Rightarrow> strategy_run list \<Rightarrow> strategy_run list option" where
  "strategy_create r t = tbl_insert sr_id r t"

definition strategy_get :: "ident \<Rightarrow> strategy_run list \<Rightarrow> strategy_run option" where
  "strategy_get i t = tbl_get sr_id i t"

definition getActiveForRun :: "ident \<Rightarrow> strategy_run list \<Rightarrow> strategy_run option" where
  "getActiveForRun i t = first_row (order_desc sr_created (filter (\<lambda>r. sr_run r = i \<and>
     sr_status r \<in> {SS_QUEUED, SS_RUNNING, SS_PAUSED, SS_STOPPING, SS_RECOVERY_REQUIRED}) t))"

definition listByRun :: "ident \<Rightarrow> strategy_run list \<Rightarrow> strategy_run list" where
  "listByRun i t = order_asc sr_iter (order_asc sr_created (filter (\<lambda>r. sr_run r = i) t))"

definition listRecoverable :: "strategy_run list \<Rightarrow> strategy_run list" where
  "listRecoverable t = order_asc sr_created (filter (\<lambda>r. sr_status r \<in> {SS_QUEUED, SS_RUNNING, SS_STOPPING}) t)"

definition strategy_update ::
    "ident \<Rightarrow> strategy_patch \<Rightarrow> time \<Rightarrow> strategy_run list \<Rightarrow> strategy_run option \<times> strategy_run list" where
  "strategy_update i p now t = (case strategy_get i t of None \<Rightarrow> (None, t)
     | Some c \<Rightarrow> (let n = c\<lparr>sr_status := set_col (sp_status p) (sr_status c),
            sr_control := set_col (sp_control p) (sr_control c),
            sr_started := set_col (sp_started p) (sr_started c), sr_finished := set_col (sp_finished p) (sr_finished c),
            sr_error := set_col (sp_error p) (sr_error c), sr_report := set_col (sp_report p) (sr_report c),
            sr_dispatch := set_col (sp_dispatch p) (sr_dispatch c), sr_base := set_col (sp_base p) (sr_base c),
            sr_updated := now\<rparr>
        in (Some n, tbl_update (\<lambda>r. sr_id r = i) (\<lambda>_. n) t)))"

record strategy_control =
  st_controlId :: ident
  st_strategy :: ident
  st_repo :: ident
  st_run :: ident
  st_iter :: int
  st_decision :: strategy_decision
  st_reason :: "string option"
  st_created :: time

definition createControl :: "strategy_control \<Rightarrow> strategy_control list \<Rightarrow> strategy_control list option" where
  "createControl c t = tbl_insert st_controlId c t"

definition listControls :: "ident \<Rightarrow> strategy_control list \<Rightarrow> strategy_control list" where
  "listControls i t = order_asc st_created (filter (\<lambda>c. st_strategy c = i) t)"

section \<open>Strategy ownership\<close>

text \<open>\<open>loop/strategy-ownership.ts\<close>.\<close>

definition isStrategyTerminal :: "strategy_status \<Rightarrow> bool" where
  "isStrategyTerminal st \<longleftrightarrow> st \<in> {SS_COMPLETED, SS_PARTIAL, SS_BLOCKED, SS_FAILED, SS_CANCELLED, SS_RECOVERY_REQUIRED}"

datatype publish_status = PB_PUBLISHED | PB_BLOCKED

record publish_result =
  pb_status :: publish_status
  pb_pushed :: "string option"
  pb_result :: "string option"
  pb_verified :: bool
  pb_blocker :: "string option"

definition isRemotePublishConfirmed :: "publish_result option \<Rightarrow> bool" where
  "isRemotePublishConfirmed remote = (case remote of None \<Rightarrow> False
     | Some r \<Rightarrow> pb_status r = PB_PUBLISHED \<and> pb_verified r)"

definition formatPostflightBlocker :: "publish_result option \<Rightarrow> string" where
  "formatPostflightBlocker remote = (case remote of None \<Rightarrow> ''postflight did not produce a publication result''
     | Some r \<Rightarrow> (case pb_status r of PB_PUBLISHED \<Rightarrow> ''PUBLISHED'' | PB_BLOCKED \<Rightarrow> ''BLOCKED'') @ '': '' @
         (case pb_blocker r of Some (c # cs) \<Rightarrow> c # cs | _ \<Rightarrow> ''remote state could not be verified''))"

definition POSTFLIGHT_BLOCKED_PREFIX :: string where
  "POSTFLIGHT_BLOCKED_PREFIX = ''POSTFLIGHT_BLOCKED:''"

definition owns_iteration :: "ident \<Rightarrow> strategy_run \<Rightarrow> bool" where
  "owns_iteration i r \<longleftrightarrow> sr_run r = i \<and>
     (if isStrategyTerminal (sr_status r) then sr_status r = SS_RECOVERY_REQUIRED else True)"

text \<open>
  An ownership-active strategy record blocks a second start unless it is one that recovery closed:
  the states \<open>getActiveForRun\<close> looks for are exactly the non-terminal ones and
  \<open>RECOVERY_REQUIRED\<close>, and a record it returns belongs to the run and is the newest such.
\<close>

theorem active_strategy_newest:
  "case getActiveForRun i t of
     None \<Rightarrow> filter (owns_iteration i) t = []
   | Some r \<Rightarrow> r \<in> set t \<and> owns_iteration i r
       \<and> list_all (\<lambda>q. sr_created q \<le> sr_created r) (filter (owns_iteration i) t)"
proof -
  let ?p = "\<lambda>r. sr_run r = i \<and> sr_status r \<in> {SS_QUEUED, SS_RUNNING, SS_PAUSED, SS_STOPPING, SS_RECOVERY_REQUIRED}"
  have p: "?p = owns_iteration i"
    by (auto simp: fun_eq_iff owns_iteration_def isStrategyTerminal_def split: strategy_status.splits)
      (metis strategy_status.exhaust)
  show ?thesis
  proof (cases "getActiveForRun i t")
    case None
    then have "first_row (order_desc sr_created (filter (owns_iteration i) t)) = None"
      by (simp only: getActiveForRun_def p)
    with None show ?thesis by simp
  next
    case (Some r)
    then have f: "first_row (order_desc sr_created (filter (owns_iteration i) t)) = Some r"
      by (simp only: getActiveForRun_def p)
    have "r \<in> set t" "owns_iteration i r" using first_row_in_set [OF f] by auto
    moreover have "sr_created q \<le> sr_created r" if "q \<in> set (filter (owns_iteration i) t)" for q
      by (rule first_row_order_desc [OF f that])
    ultimately show ?thesis using Some by (auto simp: list_all_iff)
  qed
qed

end
