(* ===== verification/Loop_State.thy ===== *)
theory Loop_State
  imports Run_Stores Transitions
begin

text \<open>
  The state and environment of \<open>LoopService\<close> (\<open>apps/controller/src/loop/loop-service.ts\<close>)
  and \<open>IterationExecutionCoordinator\<close> (\<open>iteration-execution-coordinator.ts\<close>): the tables,
  the in-memory drain sets and timers, and the calls that leave the two services. A
  call that is awaited (browser, executor, strategy engines) is a function of the whole
  state to a result and a new state, so that whatever other handlers do while it is
  pending is part of its effect. Each handler reads the clock once, \<open>cx_now\<close>;
  \<open>cx_payload\<close> is the JSON text of its intent, which nothing reads back. Events
  that are only published are left out. The wiring is that of \<open>app.ts\<close>: stores and
  coordinator are present; the transition processor is present when \<open>en_transition\<close>.
\<close>

section \<open>State\<close>

record repo_record =
  rc_id :: ident
  rc_displayName :: string
  rc_conversationUrl :: string
  rc_maxIterations :: int
  rc_maxRuntimeMinutes :: int

text \<open>A pending busy retry: the run the closure holds, and whether it reads the row again.\<close>

record busy_timer =
  bt_run :: run
  bt_result :: string
  bt_reread :: bool

text \<open>\<open>ap_repos\<close> is in the order in which \<open>RepositoryStore.list()\<close> returns the rows, newest first.\<close>

record app =
  ap_repos :: "repo_record list"
  ap_runs :: "run list"
  ap_policies :: policy_table
  ap_dispatches :: "dispatch list"
  ap_controls :: "sol_control list"
  ap_strategies :: "strategy_run list"
  ap_ceilingPending :: "ident set"
  ap_stopPending :: "ident set"
  ap_wallTimers :: "ident \<rightharpoonup> time"
  ap_busyTimers :: "ident \<rightharpoonup> busy_timer"
  ap_shuttingDown :: bool

type_synonym lstate = "app tstate"

definition upd_app :: "(app \<Rightarrow> app) \<Rightarrow> lstate \<Rightarrow> lstate" where
  "upd_app f s = s\<lparr>ts_app := f (ts_app s)\<rparr>"

abbreviation runs :: "lstate \<Rightarrow> run list" where
  "runs s \<equiv> ap_runs (ts_app s)"

section \<open>Environment\<close>

datatype wake_outcome = W_submitted | W_busy "string option" | W_failed "string option" | W_throws string

record wake_request =
  wr_repositoryName :: string
  wr_run :: ident
  wr_iteration :: int
  wr_dispatch :: "ident option"
  wr_result :: string
  wr_url :: string
  wr_waitMs :: "int option"

text \<open>What \<open>startStrategyForDispatch\<close> is given; the marker contributes its identifier and iteration.\<close>

record start_request =
  sq_strategy :: strategy
  sq_repo :: ident
  sq_run :: ident
  sq_iter :: int
  sq_dispatch :: "ident option"
  sq_plan :: "execution_plan option"

text \<open>
  \<open>en_solOperations\<close>: repository and whether its operation is stalled or completed;
  \<open>en_busyRetryCount\<close> and \<open>en_activeResult\<close>: the stored operation's counter and result.
  A returned \<open>string option\<close> is the message of the error thrown, if any.
\<close>

record env =
  en_transition :: bool
  en_submitSolWake :: "ident \<Rightarrow> wake_request \<Rightarrow> lstate \<Rightarrow> wake_outcome \<times> lstate"
  en_completeSolOperation :: "ident \<Rightarrow> ident option \<Rightarrow> int option \<Rightarrow> lstate \<Rightarrow> lstate"
  en_closeRepositoryPage :: "ident \<Rightarrow> lstate \<Rightarrow> lstate"
  en_solOperations :: "lstate \<Rightarrow> (ident \<times> bool) list"
  en_activeResult :: "ident \<Rightarrow> lstate \<Rightarrow> string option"
  en_busyRetryCount :: "ident \<Rightarrow> lstate \<Rightarrow> nat"
  en_executorStart :: "ident \<Rightarrow> ident option \<Rightarrow> bool \<Rightarrow> lstate \<Rightarrow> string option \<times> lstate"
  en_executorPause :: "ident \<Rightarrow> lstate \<Rightarrow> string option \<times> lstate"
  en_executorKill :: "ident \<Rightarrow> lstate \<Rightarrow> lstate"
  en_strategyStart :: "start_request \<Rightarrow> lstate \<Rightarrow> string option \<times> lstate"
  en_strategyControl :: "ident \<Rightarrow> strategy_run \<Rightarrow> strategy_decision \<Rightarrow> lstate \<Rightarrow> string option \<times> lstate"
  en_executorShutdown :: "lstate \<Rightarrow> lstate"
  en_delay :: "lstate \<Rightarrow> lstate"
  en_publish :: "strategy_run \<Rightarrow> lstate \<Rightarrow> (string + publish_result) \<times> lstate"

record ctx =
  cx_now :: time
  cx_intent :: ident
  cx_payload :: string
  cx_uuid :: "nat \<Rightarrow> ident"

definition BUSY_MAX_RETRIES :: nat where
  "BUSY_MAX_RETRIES = 3"

section \<open>Store operations on the whole state\<close>

definition updateStatus :: "ctx \<Rightarrow> ident \<Rightarrow> loop_state \<Rightarrow> run_updates \<Rightarrow> app \<Rightarrow> app" where
  "updateStatus cx i st u a = a\<lparr>ap_runs := run_updateStatus i st u (cx_now cx) (ap_runs a)\<rparr>"

definition setDrainReason :: "ctx \<Rightarrow> ident \<Rightarrow> drain_reason option \<Rightarrow> app \<Rightarrow> app" where
  "setDrainReason cx i d a = a\<lparr>ap_runs := run_setDrainReason i d (cx_now cx) (ap_runs a)\<rparr>"

definition clearDrainReason :: "ctx \<Rightarrow> ident \<Rightarrow> app \<Rightarrow> app" where
  "clearDrainReason cx i a = setDrainReason cx i None a"

definition consumeDispatch :: "ctx \<Rightarrow> ident \<Rightarrow> app \<Rightarrow> app" where
  "consumeDispatch cx d a = a\<lparr>ap_dispatches := dispatch_updateStatus d DI_consumed None (cx_now cx) (ap_dispatches a)\<rparr>"

definition markControl :: "ctx \<Rightarrow> ident \<Rightarrow> control_status \<Rightarrow> string option \<Rightarrow> app \<Rightarrow> app" where
  "markControl cx c st reason a = a\<lparr>ap_controls := control_updateStatus c st reason (cx_now cx) (ap_controls a)\<rparr>"

definition add_ceiling :: "ident \<Rightarrow> app \<Rightarrow> app" where
  "add_ceiling repo a = a\<lparr>ap_ceilingPending := insert repo (ap_ceilingPending a)\<rparr>"

definition del_ceiling :: "ident \<Rightarrow> app \<Rightarrow> app" where
  "del_ceiling repo a = a\<lparr>ap_ceilingPending := ap_ceilingPending a - {repo}\<rparr>"

definition add_stop :: "ident \<Rightarrow> app \<Rightarrow> app" where
  "add_stop repo a = a\<lparr>ap_stopPending := insert repo (ap_stopPending a)\<rparr>"

definition del_stop :: "ident \<Rightarrow> app \<Rightarrow> app" where
  "del_stop repo a = a\<lparr>ap_stopPending := ap_stopPending a - {repo}\<rparr>"

definition cancelWallClockCeiling :: "ident \<Rightarrow> app \<Rightarrow> app" where
  "cancelWallClockCeiling repo a = a\<lparr>ap_wallTimers := (ap_wallTimers a)(repo := None)\<rparr>"

definition clearBusyRetry :: "ident \<Rightarrow> app \<Rightarrow> app" where
  "clearBusyRetry repo a = a\<lparr>ap_busyTimers := (ap_busyTimers a)(repo := None)\<rparr>"

definition releaseTerminalTimers :: "ident \<Rightarrow> app \<Rightarrow> app" where
  "releaseTerminalTimers repo a = cancelWallClockCeiling repo (clearBusyRetry repo a)"

definition active_run :: "ident \<Rightarrow> app \<Rightarrow> run option" where
  "active_run repo a = getActiveRun repo (ap_runs a)"

definition repo_get :: "ident \<Rightarrow> app \<Rightarrow> repo_record option" where
  "repo_get i a = tbl_get rc_id i (ap_repos a)"

definition policy_of :: "ident \<Rightarrow> app \<Rightarrow> run_policy option" where
  "policy_of i a = rps_get i (ap_policies a)"

section \<open>Drain predicates\<close>

definition drain_of :: "run \<Rightarrow> app \<Rightarrow> drain_reason option" where
  "drain_of r a = coalesce (ru_drain r) (run_getDrainReason (ru_id r) (ap_runs a))"

definition isDrainPending :: "ident \<Rightarrow> run option \<Rightarrow> app \<Rightarrow> bool" where
  "isDrainPending repo r a = (case r of None \<Rightarrow> False
     | Some run \<Rightarrow> if repo \<in> ap_stopPending a \<or> repo \<in> ap_ceilingPending a then True
         else drain_of run a \<in> {Some USER_STOP, Some WALL_CLOCK_CEILING, Some ITERATION_CEILING})"

definition isStopPendingEffective :: "ident \<Rightarrow> run option \<Rightarrow> app \<Rightarrow> bool" where
  "isStopPendingEffective repo r a = (if repo \<in> ap_stopPending a then True
     else (case r of None \<Rightarrow> False | Some run \<Rightarrow> drain_of run a = Some USER_STOP))"

definition isCeilingPendingEffective :: "ident \<Rightarrow> run option \<Rightarrow> app \<Rightarrow> bool" where
  "isCeilingPendingEffective repo r a = (if repo \<in> ap_ceilingPending a then True
     else (case r of None \<Rightarrow> False
       | Some run \<Rightarrow> drain_of run a = Some WALL_CLOCK_CEILING \<or> drain_of run a = Some ITERATION_CEILING))"

definition hasPendingDrain :: "ident \<Rightarrow> app \<Rightarrow> bool" where
  "hasPendingDrain repo a = (let r = active_run repo a in
     map_option ru_status r = Some DRAINING \<or> isDrainPending repo r a)"

lemma drain_pending_split:
  "isDrainPending repo (Some r) a \<longleftrightarrow>
     isStopPendingEffective repo (Some r) a \<or> isCeilingPendingEffective repo (Some r) a"
  by (auto simp: isDrainPending_def isStopPendingEffective_def isCeilingPendingEffective_def)

section \<open>Wall clock\<close>

definition DISPATCH_RECEPTIVE_STATES :: "loop_state list" where
  "DISPATCH_RECEPTIVE_STATES = [SOL_PENDING, SOL_REVIEWING]"

text \<open>\<open>(maxRuntimeMinutes || 0) * 60 * 1000\<close>; None when the repository is unknown.\<close>

definition max_runtime_ms :: "ident \<Rightarrow> ident \<Rightarrow> app \<Rightarrow> int option" where
  "max_runtime_ms repo runId a = map_option (\<lambda>rc.
     (case policy_of runId a of None \<Rightarrow> rc_maxRuntimeMinutes rc | Some p \<Rightarrow> rp_maxRuntimeMinutes p) * 60 * 1000)
     (repo_get repo a)"

definition isWallClockCeilingExceeded :: "ctx \<Rightarrow> run \<Rightarrow> app \<Rightarrow> bool" where
  "isWallClockCeilingExceeded cx r a = (case max_runtime_ms (ru_repo r) (ru_id r) a of None \<Rightarrow> False
     | Some ms \<Rightarrow> if ms \<le> 0 then False else ms \<le> cx_now cx - ru_started r)"

text \<open>
  The three drains. \<open>settle_ceiling\<close>, \<open>settle_stop\<close> and \<open>settle_generic\<close> are the bodies the
  handlers repeat at every boundary, with the message as argument.
\<close>

definition finish :: "ctx \<Rightarrow> ident \<Rightarrow> loop_state \<Rightarrow> string \<Rightarrow> app \<Rightarrow> app" where
  "finish cx i st msg = updateStatus cx i st
     (no_updates\<lparr>up_error := Some (Some msg), up_finished := Some (Some (cx_now cx)), up_drain := Some None\<rparr>)"

definition settle_ceiling :: "ctx \<Rightarrow> ident \<Rightarrow> ident \<Rightarrow> string \<Rightarrow> app \<Rightarrow> app" where
  "settle_ceiling cx repo i msg a = finish cx i CEILING_REACHED msg
     (cancelWallClockCeiling repo (clearDrainReason cx i (del_ceiling repo a)))"

definition settle_stop :: "ctx \<Rightarrow> ident \<Rightarrow> ident \<Rightarrow> string \<Rightarrow> app \<Rightarrow> app" where
  "settle_stop cx repo i msg a = finish cx i STOPPED msg
     (cancelWallClockCeiling repo (clearDrainReason cx i (del_stop repo a)))"

definition settle_generic :: "ctx \<Rightarrow> ident \<Rightarrow> ident \<Rightarrow> string \<Rightarrow> app \<Rightarrow> app" where
  "settle_generic cx repo i msg a = finish cx i CEILING_REACHED msg
     (cancelWallClockCeiling repo (clearDrainReason cx i (del_stop repo (del_ceiling repo a))))"

end
