(* ===== verification/Loop_Wake.thy ===== *)
theory Loop_Wake
  imports Loop_State "HOL-Library.Sublist"
begin

text \<open>
  Waking Sol: \<open>submitSolWakeForRun\<close>, the busy backpressure and the wall-clock ceiling of
  \<open>loop-service.ts\<close>. The browser call is \<open>en_submitSolWake\<close>; the state it returns is what
  the handler finds when the call settles.
\<close>

section \<open>Submitting a wake\<close>

definition or_default :: "string option \<Rightarrow> string \<Rightarrow> string" where
  "or_default m d = (case m of Some (c # cs) \<Rightarrow> c # cs | _ \<Rightarrow> d)"

definition busy_max :: "run_policy option \<Rightarrow> nat" where
  "busy_max p = (case p of None \<Rightarrow> BUSY_MAX_RETRIES | Some q \<Rightarrow> rp_busyRetryMax q)"

definition stall :: "ctx \<Rightarrow> ident \<Rightarrow> ident \<Rightarrow> string \<Rightarrow> app \<Rightarrow> app" where
  "stall cx repo i msg a = updateStatus cx i SOL_STALLED
     (no_updates\<lparr>up_error := Some (Some msg), up_finished := Some (Some (cx_now cx))\<rparr>)
     (releaseTerminalTimers repo a)"

definition isAttention :: "string \<Rightarrow> bool" where
  "isAttention msg \<longleftrightarrow> prefix ''ATTENTION_REQUIRED'' msg \<or> prefix ''CHATGPT_AUTH_REQUIRED'' msg
     \<or> sublist ''ATTENTION_REQUIRED'' msg"

text \<open>
  A busy answer: stall when the budget is used up, else review and retry later. The map holds the latest timer
  of a repository; one that is overwritten while it waits still fires in the code, which the model leaves out.
\<close>

definition busy_backoff ::
    "env \<Rightarrow> ctx \<Rightarrow> ident \<Rightarrow> run \<Rightarrow> run_policy option \<Rightarrow> string \<Rightarrow> string \<Rightarrow> lstate \<Rightarrow> lstate" where
  "busy_backoff en cx repo run policy result msg s =
     (if busy_max policy \<le> en_busyRetryCount en repo s then upd_app (stall cx repo (ru_id run) msg) s
      else (let s1 = (if map_option ru_status (run_get (ru_id run) (runs s)) = Some SOL_PENDING
                      then upd_app (updateStatus cx (ru_id run) SOL_REVIEWING no_updates) s else s)
        in upd_app (\<lambda>a. a\<lparr>ap_busyTimers := (ap_busyTimers a)(repo \<mapsto>
              \<lparr>bt_run = run, bt_result = result, bt_reread = True\<rparr>)\<rparr>) s1))"

definition wake_returned ::
    "env \<Rightarrow> ctx \<Rightarrow> ident \<Rightarrow> run \<Rightarrow> run_policy option \<Rightarrow> string \<Rightarrow> wake_outcome \<Rightarrow> lstate \<Rightarrow> lstate" where
  "wake_returned en cx repo run policy result w s =
     (case run_get (ru_id run) (runs s) of None \<Rightarrow> s
      | Some cur \<Rightarrow>
          if ru_status cur = DRAINING \<or> ru_status cur = STOPPED \<or> ru_status cur = CEILING_REACHED
             \<or> isDrainPending repo (Some cur) (ts_app s) then s
          else (case w of
              W_submitted \<Rightarrow> upd_app (\<lambda>a. updateStatus cx (ru_id run) SOL_REVIEWING no_updates (clearBusyRetry repo a)) s
            | W_busy msg \<Rightarrow> busy_backoff en cx repo run policy result
                 (or_default msg ''ChatGPT busy: backpressure (retries exhausted)'') s
            | W_failed msg \<Rightarrow> upd_app (stall cx repo (ru_id run) (or_default msg ''Wake submission failed'')) s
            | W_throws msg \<Rightarrow> s))"

definition wake_threw ::
    "env \<Rightarrow> ctx \<Rightarrow> ident \<Rightarrow> run \<Rightarrow> run_policy option \<Rightarrow> string \<Rightarrow> string \<Rightarrow> lstate \<Rightarrow> lstate" where
  "wake_threw en cx repo run policy result msg s =
     (if (case run_get (ru_id run) (runs s) of None \<Rightarrow> False
          | Some cur \<Rightarrow> ru_status cur = STOPPED \<or> ru_status cur = CEILING_REACHED
              \<or> isDrainPending repo (Some cur) (ts_app s)) then s
      else if isAttention msg then
        upd_app (\<lambda>a. updateStatus cx (ru_id run) ATTENTION_REQUIRED
          (no_updates\<lparr>up_error := Some (Some msg), up_finished := Some (Some (cx_now cx))\<rparr>) (clearBusyRetry repo a)) s
      else if prefix ''BUSY:'' msg then busy_backoff en cx repo run policy result msg s
      else upd_app (stall cx repo (ru_id run) msg) s)"

definition wake_request_of :: "repo_record \<Rightarrow> run_policy option \<Rightarrow> run \<Rightarrow> string \<Rightarrow> wake_request" where
  "wake_request_of rc policy run result = \<lparr>wr_repositoryName = rc_displayName rc, wr_run = ru_id run,
     wr_iteration = ru_iter run, wr_dispatch = (case ru_dispatch run of Some [] \<Rightarrow> None | d \<Rightarrow> d),
     wr_result = result, wr_url = rc_conversationUrl rc, wr_waitMs = map_option rp_completionWaitMs policy\<rparr>"

definition submitSolWakeForRun :: "env \<Rightarrow> ctx \<Rightarrow> ident \<Rightarrow> run \<Rightarrow> string \<Rightarrow> lstate \<Rightarrow> lstate" where
  "submitSolWakeForRun en cx repo run result s = (case repo_get repo (ts_app s) of None \<Rightarrow> s
     | Some rc \<Rightarrow> (let policy = policy_of (ru_id run) (ts_app s) in
         case en_submitSolWake en repo (wake_request_of rc policy run result) s of
           (W_throws msg, s1) \<Rightarrow> wake_threw en cx repo run policy result msg s1
         | (w, s1) \<Rightarrow> wake_returned en cx repo run policy result w s1))"

text \<open>The busy timer of a repository fires.\<close>

definition busy_timer_fires :: "env \<Rightarrow> ctx \<Rightarrow> ident \<Rightarrow> lstate \<Rightarrow> lstate" where
  "busy_timer_fires en cx repo s = (case ap_busyTimers (ts_app s) repo of None \<Rightarrow> s
     | Some bt \<Rightarrow> (let s1 = upd_app (clearBusyRetry repo) s;
           run = (if bt_reread bt then (case run_get (ru_id (bt_run bt)) (runs s1) of None \<Rightarrow> bt_run bt | Some r \<Rightarrow> r)
                  else bt_run bt)
         in submitSolWakeForRun en cx repo run (bt_result bt) s1))"

definition rehydrateBusyBackpressure :: "env \<Rightarrow> lstate \<Rightarrow> lstate" where
  "rehydrateBusyBackpressure en s = fold (\<lambda>(repo, settled) s.
     if settled then s
     else (case active_run repo (ts_app s) of None \<Rightarrow> s
       | Some run \<Rightarrow>
           if busy_max (policy_of (ru_id run) (ts_app s)) \<le> en_busyRetryCount en repo s then s
           else if ru_status run \<noteq> SOL_REVIEWING \<and> ru_status run \<noteq> SOL_PENDING then s
           else if ap_busyTimers (ts_app s) repo \<noteq> None then s
           else upd_app (\<lambda>a. a\<lparr>ap_busyTimers := (ap_busyTimers a)(repo \<mapsto> \<lparr>bt_run = run,
                  bt_result = (case en_activeResult en repo s of None \<Rightarrow> ''INITIAL'' | Some r \<Rightarrow> r),
                  bt_reread = False\<rparr>)\<rparr>) s)) (en_solOperations en s) s"

definition resubmitPendingWake :: "env \<Rightarrow> ctx \<Rightarrow> ident \<Rightarrow> run \<Rightarrow> lstate \<Rightarrow> lstate" where
  "resubmitPendingWake en cx repo run s = submitSolWakeForRun en cx repo run ''INITIAL'' s"

definition shutdown :: "lstate \<Rightarrow> lstate" where
  "shutdown s = upd_app (\<lambda>a. a\<lparr>ap_busyTimers := Map.empty, ap_wallTimers := Map.empty\<rparr>) s"

section \<open>What a settled wake does to the run\<close>

lemma upd_app_simps [simp]:
  "ts_app (upd_app f s) = f (ts_app s)" "ts_intents (upd_app f s) = ts_intents s"
  "ts_outbox (upd_app f s) = ts_outbox s" "upd_app f (upd_app g s) = upd_app (\<lambda>a. f (g a)) s"
  by (simp_all add: upd_app_def)

named_theorems loop_simps "effect of the loop's state updates on the tables and the pending sets"

lemma updateStatus_simps [loop_simps]:
  "ap_runs (updateStatus cx i st u a) = run_updateStatus i st u (cx_now cx) (ap_runs a)"
  "ap_dispatches (updateStatus cx i st u a) = ap_dispatches a" "ap_controls (updateStatus cx i st u a) = ap_controls a"
  "ap_strategies (updateStatus cx i st u a) = ap_strategies a" "ap_repos (updateStatus cx i st u a) = ap_repos a"
  "ap_policies (updateStatus cx i st u a) = ap_policies a"
  "ap_stopPending (updateStatus cx i st u a) = ap_stopPending a"
  "ap_ceilingPending (updateStatus cx i st u a) = ap_ceilingPending a"
  "ap_busyTimers (updateStatus cx i st u a) = ap_busyTimers a" "ap_wallTimers (updateStatus cx i st u a) = ap_wallTimers a"
  by (simp_all add: updateStatus_def)

lemma timer_simps [loop_simps]:
  "ap_runs (cancelWallClockCeiling repo a) = ap_runs a" "ap_runs (clearBusyRetry repo a) = ap_runs a"
  "ap_runs (releaseTerminalTimers repo a) = ap_runs a"
  "ap_stopPending (cancelWallClockCeiling repo a) = ap_stopPending a"
  "ap_ceilingPending (cancelWallClockCeiling repo a) = ap_ceilingPending a"
  "ap_stopPending (clearBusyRetry repo a) = ap_stopPending a"
  "ap_ceilingPending (clearBusyRetry repo a) = ap_ceilingPending a"
  "ap_stopPending (releaseTerminalTimers repo a) = ap_stopPending a"
  "ap_ceilingPending (releaseTerminalTimers repo a) = ap_ceilingPending a"
  "ap_dispatches (cancelWallClockCeiling repo a) = ap_dispatches a"
  "ap_strategies (cancelWallClockCeiling repo a) = ap_strategies a"
  "ap_controls (cancelWallClockCeiling repo a) = ap_controls a"
  "ap_repos (cancelWallClockCeiling repo a) = ap_repos a" "ap_policies (cancelWallClockCeiling repo a) = ap_policies a"
  by (simp_all add: cancelWallClockCeiling_def clearBusyRetry_def releaseTerminalTimers_def)

lemma pending_simps [loop_simps]:
  "ap_runs (del_ceiling repo a) = ap_runs a" "ap_runs (del_stop repo a) = ap_runs a"
  "ap_runs (add_ceiling repo a) = ap_runs a" "ap_runs (add_stop repo a) = ap_runs a"
  "ap_stopPending (del_ceiling repo a) = ap_stopPending a" "ap_stopPending (add_ceiling repo a) = ap_stopPending a"
  "ap_ceilingPending (del_stop repo a) = ap_ceilingPending a" "ap_ceilingPending (add_stop repo a) = ap_ceilingPending a"
  "ap_stopPending (del_stop repo a) = ap_stopPending a - {repo}"
  "ap_stopPending (add_stop repo a) = insert repo (ap_stopPending a)"
  "ap_ceilingPending (del_ceiling repo a) = ap_ceilingPending a - {repo}"
  "ap_ceilingPending (add_ceiling repo a) = insert repo (ap_ceilingPending a)"
  "ap_dispatches (del_ceiling repo a) = ap_dispatches a" "ap_dispatches (del_stop repo a) = ap_dispatches a"
  "ap_strategies (del_ceiling repo a) = ap_strategies a" "ap_strategies (del_stop repo a) = ap_strategies a"
  "ap_controls (del_ceiling repo a) = ap_controls a" "ap_controls (del_stop repo a) = ap_controls a"
  by (simp_all add: del_ceiling_def del_stop_def add_ceiling_def add_stop_def)

lemma drain_reason_simps [loop_simps]:
  "ap_runs (setDrainReason cx i d a) = run_setDrainReason i d (cx_now cx) (ap_runs a)"
  "ap_runs (clearDrainReason cx i a) = run_clearDrainReason i (cx_now cx) (ap_runs a)"
  "ap_stopPending (setDrainReason cx i d a) = ap_stopPending a"
  "ap_stopPending (clearDrainReason cx i a) = ap_stopPending a"
  "ap_ceilingPending (setDrainReason cx i d a) = ap_ceilingPending a"
  "ap_ceilingPending (clearDrainReason cx i a) = ap_ceilingPending a"
  "ap_dispatches (clearDrainReason cx i a) = ap_dispatches a" "ap_strategies (clearDrainReason cx i a) = ap_strategies a"
  "ap_controls (clearDrainReason cx i a) = ap_controls a"
  by (simp_all add: setDrainReason_def clearDrainReason_def run_clearDrainReason_def)

lemma consume_simps [loop_simps]:
  "ap_runs (consumeDispatch cx d a) = ap_runs a" "ap_stopPending (consumeDispatch cx d a) = ap_stopPending a"
  "ap_ceilingPending (consumeDispatch cx d a) = ap_ceilingPending a"
  "ap_strategies (consumeDispatch cx d a) = ap_strategies a"
  "ap_dispatches (consumeDispatch cx d a) = dispatch_updateStatus d DI_consumed None (cx_now cx) (ap_dispatches a)"
  by (simp_all add: consumeDispatch_def)

abbreviation status_of :: "ident \<Rightarrow> lstate \<Rightarrow> loop_state option" where
  "status_of i s \<equiv> map_option ru_status (run_get i (runs s))"

lemma status_updateStatus [loop_simps]:
  "map_option ru_status (run_get j (run_updateStatus i st u now t)) =
     (if j = i then map_option (\<lambda>_. st) (run_get i t) else map_option ru_status (run_get j t))"
  by (simp add: run_simps option.map_comp comp_def)


lemma submit_cases:
  assumes "repo_get repo (ts_app s) = Some rc"
    and "en_submitSolWake en repo (wake_request_of rc (policy_of (ru_id run) (ts_app s)) run result) s = (w, s1)"
  shows "submitSolWakeForRun en cx repo run result s =
     (case w of W_throws msg \<Rightarrow> wake_threw en cx repo run (policy_of (ru_id run) (ts_app s)) result msg s1
      | _ \<Rightarrow> wake_returned en cx repo run (policy_of (ru_id run) (ts_app s)) result w s1)"
  using assms by (simp add: submitSolWakeForRun_def Let_def split: wake_outcome.split)

lemma status_stall: "status_of i (upd_app (stall cx repo i msg) s) = map_option (\<lambda>_. SOL_STALLED) (run_get i (runs s))"
  by (simp add: stall_def loop_simps)

text \<open>
  A drain that lands while a wake is in flight wins. If, when the browser call settles, the run has been stopped
  or has reached its ceiling, or a drain is pending for it, the handler changes
  nothing, whether the call returned or threw.
\<close>

theorem wake_respects_drain:
  assumes "repo_get repo (ts_app s) = Some rc"
    and "en_submitSolWake en repo (wake_request_of rc (policy_of (ru_id run) (ts_app s)) run result) s = (w, tt)"
    and "run_get (ru_id run) (runs tt) = Some cur"
    and "ru_status cur = STOPPED \<or> ru_status cur = CEILING_REACHED \<or> isDrainPending repo (Some cur) (ts_app tt)"
  shows "submitSolWakeForRun en cx repo run result s = tt"
  using assms(3,4) unfolding submit_cases [OF assms(1,2)]
  by (cases w) (auto simp: wake_returned_def wake_threw_def)

definition demo_run :: "ident \<Rightarrow> loop_state \<Rightarrow> run" where
  "demo_run i st = \<lparr>ru_id = i, ru_repo = ''r'', ru_goal = ''g'', ru_status = st, ru_iter = 1, ru_max = 1,
     ru_dispatch = Some ''d1'', ru_error = None, ru_started = 0, ru_finished = None, ru_created = 0,
     ru_updated = 0, ru_drain = None\<rparr>"

definition demo_app :: "run list \<Rightarrow> app" where
  "demo_app rs = \<lparr>ap_repos = [\<lparr>rc_id = ''r'', rc_displayName = ''R'', rc_conversationUrl = ''u'',
     rc_maxIterations = 20, rc_maxRuntimeMinutes = 480\<rparr>], ap_runs = rs, ap_policies = [], ap_dispatches = [],
     ap_controls = [], ap_strategies = [], ap_ceilingPending = {}, ap_stopPending = {}, ap_wallTimers = Map.empty,
     ap_busyTimers = Map.empty, ap_shuttingDown = False\<rparr>"

definition demo_state :: "run list \<Rightarrow> lstate" where
  "demo_state rs = \<lparr>ts_intents = [], ts_outbox = [], ts_app = demo_app rs\<rparr>"

definition demo_env :: "(ident \<Rightarrow> wake_request \<Rightarrow> lstate \<Rightarrow> wake_outcome \<times> lstate) \<Rightarrow> env" where
  "demo_env submit = \<lparr>en_transition = True, en_submitSolWake = submit,
     en_completeSolOperation = (\<lambda>_ _ _ s. s), en_closeRepositoryPage = (\<lambda>_ s. s),
     en_solOperations = (\<lambda>_. []), en_activeResult = (\<lambda>_ _. None),
     en_busyRetryCount = (\<lambda>_ _. 0), en_executorStart = (\<lambda>_ _ _ s. (None, s)), en_executorPause = (\<lambda>_ s. (None, s)),
     en_executorKill = (\<lambda>_ s. s), en_strategyStart = (\<lambda>_ s. (None, s)),
     en_strategyControl = (\<lambda>_ _ _ s. (None, s)), en_executorShutdown = id, en_delay = id,
     en_publish = (\<lambda>_ s. (Inl ''offline'', s))\<rparr>"

definition demo_ctx :: ctx where
  "demo_ctx = \<lparr>cx_now = 7, cx_intent = ''i'', cx_payload = ''{}'', cx_uuid = (\<lambda>n. replicate n (CHR ''a''))\<rparr>"

lemma demo_lookups [simp]:
  "ts_app (demo_state rs) = demo_app rs" "ap_runs (demo_app rs) = rs" "ap_policies (demo_app rs) = []"
  "ap_stopPending (demo_app rs) = {}" "ap_ceilingPending (demo_app rs) = {}"
  "ap_strategies (demo_app rs) = []" "ap_controls (demo_app rs) = []" "ap_dispatches (demo_app rs) = []"
  "repo_get ''r'' (demo_app rs) = Some \<lparr>rc_id = ''r'', rc_displayName = ''R'', rc_conversationUrl = ''u'',
     rc_maxIterations = 20, rc_maxRuntimeMinutes = 480\<rparr>"
  "policy_of i (demo_app rs) = None"
  "run_get i [demo_run j st] = (if j = i then Some (demo_run j st) else None)"
  "ru_id (demo_run i st) = i" "ru_status (demo_run i st) = st" "ru_drain (demo_run i st) = None"
  "ru_repo (demo_run i st) = ''r''" "ru_iter (demo_run i st) = 1" "ru_max (demo_run i st) = 1"
  "ts_outbox (demo_state rs) = []" "ts_intents (demo_state rs) = []" "ru_dispatch (demo_run i st) = Some ''d1''"
  by (simp_all add: demo_state_def demo_app_def repo_get_def policy_of_def rps_get_def run_get_def table_simps
      demo_run_def)

theorem wake_respects_drain_witness:
  "submitSolWakeForRun (demo_env (\<lambda>_ _ _. (W_submitted, demo_state [demo_run ''a'' STOPPED]))) demo_ctx ''r''
     (demo_run ''a'' SOL_PENDING) ''INITIAL'' (demo_state [demo_run ''a'' SOL_PENDING])
   = demo_state [demo_run ''a'' STOPPED]"
  by (rule wake_respects_drain [where cur = "demo_run ''a'' STOPPED" and w = W_submitted])
    (simp_all add: demo_env_def)

text \<open>
  The other terminal states are not respected. When a submitted wake settles after the run has become
  terminal in the meantime by an emergency kill, a goal completion or any other terminal
  state than the two above, and no drain is pending, the handler writes
  \<open>SOL_REVIEWING\<close> over it: the closed run is active again.
\<close>

theorem wake_reopens_closed_run:
  assumes "repo_get repo (ts_app s) = Some rc"
    and "en_submitSolWake en repo (wake_request_of rc (policy_of (ru_id run) (ts_app s)) run result) s = (W_submitted, tt)"
    and "run_get (ru_id run) (runs tt) = Some cur"
    and "isTerminalLoopState (ru_status cur)" and "ru_status cur \<noteq> STOPPED" and "ru_status cur \<noteq> CEILING_REACHED"
    and "\<not> isDrainPending repo (Some cur) (ts_app tt)"
  shows "status_of (ru_id run) (submitSolWakeForRun en cx repo run result s) = Some SOL_REVIEWING"
proof -
  have "ru_status cur \<noteq> DRAINING" using assms(4) by (auto simp: isTerminalLoopState_def)
  then show ?thesis
    using assms(3,5,6,7) unfolding submit_cases [OF assms(1,2)]
    by (simp add: wake_returned_def loop_simps)
qed

theorem wake_reopens_closed_run_witness:
  "status_of ''a'' (submitSolWakeForRun
     (demo_env (\<lambda>_ _ s. (W_submitted, upd_app (updateStatus demo_ctx ''a'' RECOVERY_REQUIRED no_updates) s))) demo_ctx ''r''
     (demo_run ''a'' SOL_PENDING) ''INITIAL'' (demo_state [demo_run ''a'' SOL_PENDING])) = Some SOL_REVIEWING"
proof -
  let ?s1 = "upd_app (updateStatus demo_ctx ''a'' RECOVERY_REQUIRED no_updates) (demo_state [demo_run ''a'' SOL_PENDING])"
  obtain cur where cur: "run_get ''a'' (runs ?s1) = Some cur" "ru_status cur = RECOVERY_REQUIRED" "ru_drain cur = None"
    "ru_id cur = ''a''"
    by (simp add: loop_simps run_simps run_write_def no_updates_def)
  have nd: "\<not> isDrainPending ''r'' (Some cur) (ts_app ?s1)"
    using cur by (simp add: isDrainPending_def drain_of_def run_getDrainReason_def coalesce_def loop_simps)
  show ?thesis
    using wake_reopens_closed_run [where run = "demo_run ''a'' SOL_PENDING" and repo = "''r''" and tt = ?s1 and cur = cur
        and s = "demo_state [demo_run ''a'' SOL_PENDING]" and result = "''INITIAL''" and cx = demo_ctx
        and en = "demo_env (\<lambda>_ _ s. (W_submitted, upd_app (updateStatus demo_ctx ''a'' RECOVERY_REQUIRED no_updates) s))"]
      cur nd by (simp add: demo_env_def isTerminalLoopState_def)
qed

text \<open>
  Whatever the browser answers, the handler leaves the run as it is when the call settles, or under review, or stalled, or parked
  for attention; and a run it stalls keeps neither a busy retry nor a wall-clock
  timer.
\<close>

theorem wake_outcomes:
  assumes "repo_get repo (ts_app s) = Some rc"
    and "en_submitSolWake en repo (wake_request_of rc (policy_of (ru_id run) (ts_app s)) run result) s = (w, tt)"
  shows "let s' = submitSolWakeForRun en cx repo run result s in status_of (ru_id run) s' = status_of (ru_id run) tt
       \<or> status_of (ru_id run) s' = Some SOL_REVIEWING
       \<or> status_of (ru_id run) s' = Some ATTENTION_REQUIRED
       \<or> (status_of (ru_id run) s' = Some SOL_STALLED \<and> ap_busyTimers (ts_app s') repo = None
          \<and> ap_wallTimers (ts_app s') repo = None)"
proof -
  let ?ok = "\<lambda>t t'. status_of (ru_id run) t' = status_of (ru_id run) t \<or> status_of (ru_id run) t' = Some SOL_REVIEWING
     \<or> status_of (ru_id run) t' = Some ATTENTION_REQUIRED
     \<or> (status_of (ru_id run) t' = Some SOL_STALLED \<and> ap_busyTimers (ts_app t') repo = None
        \<and> ap_wallTimers (ts_app t') repo = None)"
  have st: "?ok t (upd_app (stall cx repo (ru_id run) msg) t)" for msg t
    by (cases "run_get (ru_id run) (runs t)")
      (simp_all add: stall_def loop_simps run_simps releaseTerminalTimers_def cancelWallClockCeiling_def clearBusyRetry_def)
  have b: "?ok t (busy_backoff en cx repo run p result msg t)" for p msg t
    using st [where t = t and msg = msg]
    by (cases "run_get (ru_id run) (runs t)") (simp_all add: busy_backoff_def Let_def loop_simps run_simps)
  have thr: "?ok t (wake_threw en cx repo run p result msg t)" for p msg t
    using st [where t = t and msg = msg] b [where t = t and p = p and msg = msg]
    by (cases "run_get (ru_id run) (runs t)") (simp_all add: wake_threw_def loop_simps run_simps)
  have ret: "?ok t (wake_returned en cx repo run p result w t)" for p t
    using st [where t = t] b [where t = t and p = p]
    by (cases w; cases "run_get (ru_id run) (runs t)") (simp_all add: wake_returned_def loop_simps run_simps)
  show ?thesis
    using thr [where t = tt and p = "policy_of (ru_id run) (ts_app s)"]
      ret [where t = tt and p = "policy_of (ru_id run) (ts_app s)"]
    unfolding Let_def submit_cases [OF assms(1,2)] by (cases w) simp_all
qed

theorem wake_outcomes_witness:
  "status_of ''a'' (submitSolWakeForRun (demo_env (\<lambda>_ _ s. (W_failed None, s))) demo_ctx ''r''
     (demo_run ''a'' SOL_PENDING) ''INITIAL'' (demo_state [demo_run ''a'' SOL_PENDING])) = Some SOL_STALLED"
proof -
  let ?s = "demo_state [demo_run ''a'' SOL_PENDING]"
  let ?en = "demo_env (\<lambda>_ _ s. (W_failed None, s))"
  have "let s' = submitSolWakeForRun ?en demo_ctx ''r'' (demo_run ''a'' SOL_PENDING) ''INITIAL'' ?s in
       status_of ''a'' s' = status_of ''a'' ?s
       \<or> status_of ''a'' s' = Some SOL_REVIEWING
       \<or> status_of ''a'' s' = Some ATTENTION_REQUIRED
       \<or> (status_of ''a'' s' = Some SOL_STALLED \<and> ap_busyTimers (ts_app s') ''r'' = None
          \<and> ap_wallTimers (ts_app s') ''r'' = None)"
    using wake_outcomes [where run = "demo_run ''a'' SOL_PENDING" and repo = "''r''" and s = ?s and tt = ?s
        and result = "''INITIAL''" and cx = demo_ctx and en = ?en and w = "W_failed None"]
    by (simp add: demo_env_def)
  moreover have "status_of ''a'' (submitSolWakeForRun ?en demo_ctx ''r'' (demo_run ''a'' SOL_PENDING) ''INITIAL'' ?s)
      = Some SOL_STALLED"
    by (simp add: submitSolWakeForRun_def demo_env_def wake_returned_def isDrainPending_def drain_of_def
        run_getDrainReason_def coalesce_def stall_def loop_simps)
  ultimately show ?thesis by (simp only: Let_def)
qed

end
