(* ===== verification/Loop_Drain.thy ===== *)
theory Loop_Drain
  imports Loop_Wake
begin

text \<open>
  Draining and stopping: the wall-clock ceiling, \<open>stopRunInternal\<close>, \<open>emergencyKillInternal\<close>,
  \<open>pauseRunInternal\<close>, \<open>resumeRunInternal\<close>, \<open>startRun\<close> and \<open>getStatus\<close> of \<open>loop-service.ts\<close>, and the reads of
  the coordinator they use.
\<close>

section \<open>Reads of the coordinator\<close>

definition getActiveStrategyRun :: "ident \<Rightarrow> app \<Rightarrow> strategy_run option" where
  "getActiveStrategyRun repo a =
     Option.bind (active_run repo a) (\<lambda>r. getActiveForRun (ru_id r) (ap_strategies a))"

datatype iteration_actor = AC_NONE | AC_SOL | AC_EXECUTOR | AC_SWARM | AC_DAG

definition strategy_actor :: "strategy \<Rightarrow> iteration_actor" where
  "strategy_actor st = (case st of SINGLE_AGENT \<Rightarrow> AC_EXECUTOR | SWARM \<Rightarrow> AC_SWARM | DAG \<Rightarrow> AC_DAG)"

definition getActiveActor :: "ident \<Rightarrow> app \<Rightarrow> iteration_actor" where
  "getActiveActor repo a = (case active_run repo a of None \<Rightarrow> AC_NONE
     | Some r \<Rightarrow> if ru_status r = SOL_PENDING \<or> ru_status r = SOL_REVIEWING then AC_SOL
        else (case getActiveForRun (ru_id r) (ap_strategies a) of
            Some st \<Rightarrow> strategy_actor (sr_strategy st)
          | None \<Rightarrow> if ru_status r = EXECUTOR_PENDING \<or> ru_status r = EXECUTING then AC_EXECUTOR else AC_NONE))"

definition drainActiveStrategy :: "env \<Rightarrow> ident \<Rightarrow> lstate \<Rightarrow> lstate" where
  "drainActiveStrategy en repo s = (case getActiveStrategyRun repo (ts_app s) of None \<Rightarrow> s
     | Some st \<Rightarrow> snd (en_strategyControl en repo st SD_STOP s))"

definition stopPausedStrategy :: "env \<Rightarrow> ident \<Rightarrow> lstate \<Rightarrow> lstate" where
  "stopPausedStrategy en repo s = (case getActiveStrategyRun repo (ts_app s) of None \<Rightarrow> s
     | Some st \<Rightarrow> if sr_status st \<noteq> SS_PAUSED then s else snd (en_strategyControl en repo st SD_STOP s))"

section \<open>The wall-clock ceiling\<close>

definition drain_for_ceiling :: "ctx \<Rightarrow> ident \<Rightarrow> app \<Rightarrow> app" where
  "drain_for_ceiling cx i = updateStatus cx i DRAINING
     (no_updates\<lparr>up_error := Some (Some ''Wall-clock ceiling reached (draining)''),
        up_drain := Some (Some WALL_CLOCK_CEILING)\<rparr>)"

definition handleWallClockCeiling :: "env \<Rightarrow> ctx \<Rightarrow> ident \<Rightarrow> lstate \<Rightarrow> lstate" where
  "handleWallClockCeiling en cx repo s = (case active_run repo (ts_app s) of None \<Rightarrow> s
     | Some r \<Rightarrow>
        if ru_status r \<in> {STOPPED, CEILING_REACHED, GOAL_COMPLETE, RECOVERY_REQUIRED} then upd_app (del_ceiling repo) s
        else if loopActor (ru_status r) = A_EXECUTOR \<or> loopActor (ru_status r) = A_SOL then
          drainActiveStrategy en repo (upd_app (\<lambda>a. add_ceiling repo
            (if ru_status r = DRAINING then setDrainReason cx (ru_id r) (Some WALL_CLOCK_CEILING) a
             else drain_for_ceiling cx (ru_id r) a)) s)
        else if (case getActiveStrategyRun repo (ts_app s) of None \<Rightarrow> False | Some st \<Rightarrow> sr_status st = SS_PAUSED) then
          stopPausedStrategy en repo (upd_app (\<lambda>a. add_ceiling repo
            (if ru_status r = DRAINING then a else drain_for_ceiling cx (ru_id r) a)) s)
        else upd_app (\<lambda>a. clearDrainReason cx (ru_id r) (del_ceiling repo
            (finish cx (ru_id r) CEILING_REACHED ''Wall-clock ceiling reached (drained at boundary)''
              (if ru_status r = DRAINING then a else drain_for_ceiling cx (ru_id r) a)))) s)"

definition scheduleWallClockCeiling :: "env \<Rightarrow> ctx \<Rightarrow> ident \<Rightarrow> run \<Rightarrow> lstate \<Rightarrow> lstate" where
  "scheduleWallClockCeiling en cx repo run s =
     (let s1 = upd_app (cancelWallClockCeiling repo) s in
      case max_runtime_ms repo (ru_id run) (ts_app s1) of None \<Rightarrow> s1
      | Some ms \<Rightarrow> if ms \<le> 0 then s1
          else if ru_started run + ms - cx_now cx \<le> 0 then handleWallClockCeiling en cx repo s1
          else upd_app (\<lambda>a. a\<lparr>ap_wallTimers := (ap_wallTimers a)(repo \<mapsto> ru_started run + ms)\<rparr>) s1)"

definition checkWallClockCeiling :: "env \<Rightarrow> ctx \<Rightarrow> ident \<Rightarrow> lstate \<Rightarrow> bool \<times> lstate" where
  "checkWallClockCeiling en cx repo s = (case active_run repo (ts_app s) of None \<Rightarrow> (False, s)
     | Some r \<Rightarrow> if \<not> isWallClockCeilingExceeded cx r (ts_app s) then (False, s)
         else (True, handleWallClockCeiling en cx repo s))"

definition rehydrate_repo :: "env \<Rightarrow> ctx \<Rightarrow> ident \<Rightarrow> lstate \<Rightarrow> lstate" where
  "rehydrate_repo en cx repo s = (case active_run repo (ts_app s) of None \<Rightarrow> s
     | Some r \<Rightarrow> (let dr = drain_of r (ts_app s);
          s1 = (if ru_status r = DRAINING then
                  (if dr = Some USER_STOP then upd_app (add_stop repo) s
                   else if dr = Some WALL_CLOCK_CEILING \<or> dr = Some ITERATION_CEILING then upd_app (add_ceiling repo) s
                   else s) else s)
        in if ru_status r \<in> {SOL_PENDING, SOL_REVIEWING, EXECUTOR_PENDING, EXECUTING, DRAINING, PAUSED} then
             (let s2 = scheduleWallClockCeiling en cx repo r s1 in
              if isWallClockCeilingExceeded cx r (ts_app s2) \<and> ru_status r \<noteq> DRAINING
                 \<and> ru_status r \<noteq> CEILING_REACHED \<and> ru_status r \<noteq> STOPPED
              then handleWallClockCeiling en cx repo s2 else s2)
           else s1))"

definition rehydrateWallClockCeilings :: "env \<Rightarrow> ctx \<Rightarrow> lstate \<Rightarrow> lstate" where
  "rehydrateWallClockCeilings en cx s = fold (rehydrate_repo en cx) (map rc_id (ap_repos (ts_app s))) s"

section \<open>Stop, kill, pause and resume\<close>

definition stopRunInternal :: "ctx \<Rightarrow> ident \<Rightarrow> lstate \<Rightarrow> lstate" where
  "stopRunInternal cx repo s = (case active_run repo (ts_app s) of None \<Rightarrow> s
     | Some r \<Rightarrow>
        if loopActor (ru_status r) = A_EXECUTOR \<or> loopActor (ru_status r) = A_SOL \<or> ru_status r = DRAINING then
          upd_app (\<lambda>a. add_stop repo
            (if ru_status r = DRAINING then setDrainReason cx (ru_id r) (Some USER_STOP) a
             else updateStatus cx (ru_id r) DRAINING (no_updates\<lparr>up_error := Some (Some ''Stopped by user (draining)''),
                    up_drain := Some (Some USER_STOP)\<rparr>) a)) s
        else upd_app (\<lambda>a. cancelWallClockCeiling repo (clearDrainReason cx (ru_id r)
               (finish cx (ru_id r) STOPPED ''Stopped by user'' a))) s)"

definition killed_msg :: string where
  "killed_msg = ''Run interrupted by emergency kill. Manual recovery required.''"

text \<open>The loop over all busy timers clears those of every repository.\<close>

definition emergencyKillInternal :: "env \<Rightarrow> ctx \<Rightarrow> ident \<Rightarrow> lstate \<Rightarrow> lstate" where
  "emergencyKillInternal en cx repo s =
     (let r = active_run repo (ts_app s);
          s1 = en_closeRepositoryPage en repo (en_executorKill en repo s);
          s2 = upd_app (\<lambda>a. cancelWallClockCeiling repo ((case r of None \<Rightarrow> del_ceiling repo (del_stop repo a)
                 | Some q \<Rightarrow> clearDrainReason cx (ru_id q) (del_ceiling repo (del_stop repo a)))
                   \<lparr>ap_busyTimers := Map.empty\<rparr>)) s1
      in case r of None \<Rightarrow> s2
         | Some q \<Rightarrow> upd_app (updateStatus cx (ru_id q) RECOVERY_REQUIRED
             (no_updates\<lparr>up_error := Some (Some killed_msg), up_finished := Some (Some (cx_now cx))\<rparr>)) s2)"

datatype loop_error = Not_found string | Validation string | Bad_request string | Domain string string nat
  | Thrown string

text \<open>Handlers that throw return the error and the state in which they threw.\<close>

definition pauseRunInternal :: "env \<Rightarrow> ctx \<Rightarrow> ident \<Rightarrow> lstate \<Rightarrow> loop_error option \<times> lstate" where
  "pauseRunInternal en cx repo s = (case active_run repo (ts_app s) of None \<Rightarrow> (None, s)
     | Some r \<Rightarrow> if loopActor (ru_status r) \<noteq> A_EXECUTOR
         then (Some (Bad_request (''Pause is only allowed while executor is active (current: '' @
               loop_state_name (ru_status r) @ '')'')), s)
         else (case en_executorPause en repo s of
             (Some e, s1) \<Rightarrow> (Some (Thrown e), s1)
           | (None, s1) \<Rightarrow> (None, upd_app (updateStatus cx (ru_id r) PAUSED no_updates) s1)))"

definition unavailable :: "ctx \<Rightarrow> ident \<Rightarrow> string \<Rightarrow> app \<Rightarrow> app" where
  "unavailable cx i msg = updateStatus cx i EXECUTOR_UNAVAILABLE
     (no_updates\<lparr>up_error := Some (Some msg), up_finished := Some (Some (cx_now cx))\<rparr>)"

definition resumeRunInternal :: "env \<Rightarrow> ctx \<Rightarrow> ident \<Rightarrow> lstate \<Rightarrow> lstate" where
  "resumeRunInternal en cx repo s = (case active_run repo (ts_app s) of None \<Rightarrow> s
     | Some r \<Rightarrow> if ru_status r \<noteq> PAUSED then s
         else (case ru_dispatch r of None \<Rightarrow> s | Some [] \<Rightarrow> s
           | Some d \<Rightarrow> (case en_executorStart en repo (Some d) True (upd_app (updateStatus cx (ru_id r) EXECUTING no_updates) s) of
                (None, s1) \<Rightarrow> s1
              | (Some e, s1) \<Rightarrow> upd_app (unavailable cx (ru_id r) e) s1)))"

definition drainRun :: "ctx \<Rightarrow> ident \<Rightarrow> lstate \<Rightarrow> lstate" where
  "drainRun cx repo s = (case active_run repo (ts_app s) of None \<Rightarrow> s
     | Some r \<Rightarrow> upd_app (updateStatus cx (ru_id r) DRAINING no_updates) s)"

section \<open>Starting a run\<close>

text \<open>\<open>a || b\<close> on numbers: zero is falsy.\<close>

definition or_num :: "int option \<Rightarrow> int \<Rightarrow> int" where
  "or_num a b = (case a of Some n \<Rightarrow> if n = 0 then b else n | None \<Rightarrow> b)"

text \<open>
  \<open>createPhaseBudgetPolicy\<close> with the defaults of \<open>DEFAULT_PHASE_BUDGET_POLICY\<close> for the
  fields the loop reads.
\<close>

definition createPhaseBudgetPolicy :: "repo_record \<Rightarrow> int \<Rightarrow> run_policy" where
  "createPhaseBudgetPolicy rc maxIter = \<lparr>rp_maxRuntimeMinutes = rc_maxRuntimeMinutes rc,
     rp_maxIterations = maxIter, rp_busyRetryMax = 3, rp_busyRetryDelayMs = 3500, rp_completionWaitMs = 1200000\<rparr>"

definition new_run :: "ctx \<Rightarrow> ident \<Rightarrow> ident \<Rightarrow> string \<Rightarrow> int \<Rightarrow> run" where
  "new_run cx i repo goal mx = \<lparr>ru_id = i, ru_repo = repo, ru_goal = goal, ru_status = SOL_PENDING, ru_iter = 0,
     ru_max = mx, ru_dispatch = None, ru_error = None, ru_started = cx_now cx, ru_finished = None,
     ru_created = cx_now cx, ru_updated = cx_now cx, ru_drain = None\<rparr>"

definition startRun ::
    "env \<Rightarrow> ctx \<Rightarrow> ident \<Rightarrow> ident \<Rightarrow> string \<Rightarrow> int option \<Rightarrow> lstate \<Rightarrow> (loop_error + run option) \<times> lstate" where
  "startRun en cx i repo goal maxIter s = (case repo_get repo (ts_app s) of
       None \<Rightarrow> (Inl (Not_found (''Repository '' @ repo @ '' not found'')), s)
     | Some rc \<Rightarrow> (case active_run repo (ts_app s) of
           Some r \<Rightarrow> (Inl (Validation (''Run '' @ ru_id r @ '' is already active for repository '' @ repo)), s)
         | None \<Rightarrow> (let mx = or_num maxIter (or_num (Some (rc_maxIterations rc)) 20);
                      run = new_run cx i repo goal mx
             in (case run_create run (runs s) of
                  None \<Rightarrow> (Inl (Thrown ''UNIQUE constraint failed: runs.id''), s)
                | Some t \<Rightarrow> (let s1 = upd_app (\<lambda>a. a\<lparr>ap_runs := t,
                                  ap_policies := rps_save i (createPhaseBudgetPolicy rc mx) (ap_policies a)\<rparr>) s;
                              s2 = submitSolWakeForRun en cx repo run ''INITIAL'' (scheduleWallClockCeiling en cx repo run s1)
                    in (Inr (run_get i (runs s2)), s2))))))"

section \<open>Status\<close>

record loop_status =
  lo_repo :: ident
  lo_state :: loop_state
  lo_run :: "run option"
  lo_iter :: int
  lo_max :: int
  lo_actor :: loop_actor

definition buildStatus :: "run \<Rightarrow> loop_status" where
  "buildStatus r = \<lparr>lo_repo = ru_repo r, lo_state = ru_status r, lo_run = Some r, lo_iter = ru_iter r,
     lo_max = ru_max r, lo_actor = loopActor (ru_status r)\<rparr>"

definition idleStatus :: "ident \<Rightarrow> loop_status" where
  "idleStatus repo = \<lparr>lo_repo = repo, lo_state = IDLE, lo_run = None, lo_iter = 0, lo_max = 0, lo_actor = A_NONE\<rparr>"

definition getStatus :: "ident \<Rightarrow> app \<Rightarrow> loop_status" where
  "getStatus repo a = (case active_run repo a of Some r \<Rightarrow> buildStatus r
     | None \<Rightarrow> (case getLatestRun repo (ap_runs a) of None \<Rightarrow> idleStatus repo
         | Some l \<Rightarrow> if ru_status l = STOPPED \<or> ru_status l = GOAL_COMPLETE then idleStatus repo else buildStatus l))"

section \<open>What the ceiling does\<close>

lemma drain_for_ceiling_effect:
  "run_get i (ap_runs a) = Some r \<Longrightarrow> map_option (\<lambda>q. (ru_status q, ru_drain q))
     (run_get i (ap_runs (drain_for_ceiling cx i a))) = Some (DRAINING, Some WALL_CLOCK_CEILING)"
  "ap_stopPending (drain_for_ceiling cx i a) = ap_stopPending a"
  "ap_strategies (drain_for_ceiling cx i a) = ap_strategies a"
  by (simp_all add: drain_for_ceiling_def loop_simps run_simps run_write_def no_updates_def)

lemma drain_for_ceiling_found:
  "run_get i (ap_runs a) = Some r \<Longrightarrow> \<exists>q. run_get i (ap_runs (drain_for_ceiling cx i a)) = Some q"
  by (simp add: drain_for_ceiling_def loop_simps run_simps)

text \<open>
  The wall-clock ceiling drains a run whose Sol or executor is at work and closes any other run. Without a strategy actor, a working run becomes \<open>DRAINING\<close>
  for the ceiling, which stays pending; every other active run is \<open>CEILING_REACHED\<close> at once,
  also one that a user's stop is already draining while its executor still works, for \<open>DRAINING\<close>
  counts as no actor. Either way a pending stop stays pending, and in the second case outlives the run.
\<close>

theorem ceiling_outcomes:
  assumes "active_run repo (ts_app s) = Some r" and "unique_keys ru_id (runs s)"
    and "\<And>i. getActiveForRun i (ap_strategies (ts_app s)) = None"
  shows "let s' = handleWallClockCeiling en cx repo s in
    map_option (\<lambda>q. (ru_status q, ru_drain q)) (run_get (ru_id r) (runs s')) =
      Some (if loopActor (ru_status r) = A_NONE then (CEILING_REACHED, None) else (DRAINING, Some WALL_CLOCK_CEILING))
    \<and> (repo \<in> ap_ceilingPending (ts_app s') \<longleftrightarrow> loopActor (ru_status r) \<noteq> A_NONE)
    \<and> ap_stopPending (ts_app s') = ap_stopPending (ts_app s)"
proof -
  have g: "run_get (ru_id r) (runs s) = Some r" using assms(1,2) by (simp add: active_run_def getActiveRun_get)
  have nt: "\<not> isTerminalLoopState (ru_status r)" using assms(1) by (auto simp: active_run_def dest: getActiveRun_SomeD)
  have strat: "getActiveStrategyRun repo a = None" if "ap_strategies a = ap_strategies (ts_app s)" for a
    using that assms(3) by (cases "active_run repo a") (simp_all add: getActiveStrategyRun_def)
  have idle: "drainActiveStrategy en repo t = t" if "ap_strategies (ts_app t) = ap_strategies (ts_app s)" for t
    using strat [OF that] by (simp add: drainActiveStrategy_def)
  show ?thesis
  proof (cases "loopActor (ru_status r) = A_NONE")
    case True
    let ?a = "if ru_status r = DRAINING then ts_app s else drain_for_ceiling cx (ru_id r) (ts_app s)"
    have "handleWallClockCeiling en cx repo s = upd_app (\<lambda>a. clearDrainReason cx (ru_id r) (del_ceiling repo
        (finish cx (ru_id r) CEILING_REACHED ''Wall-clock ceiling reached (drained at boundary)''
          (if ru_status r = DRAINING then a else drain_for_ceiling cx (ru_id r) a)))) s"
      using assms(1) nt True strat [OF refl] by (auto simp: handleWallClockCeiling_def isTerminalLoopState_def)
    moreover obtain q where "run_get (ru_id r) (ap_runs ?a) = Some q"
      using g drain_for_ceiling_found [OF g, of cx] by (cases "ru_status r = DRAINING") auto
    moreover have "ap_stopPending ?a = ap_stopPending (ts_app s)" by (simp add: drain_for_ceiling_effect)
    ultimately show ?thesis
      using True by (simp add: Let_def finish_def loop_simps run_simps run_write_def no_updates_def)
  next
    case False
    then have st: "ru_status r \<noteq> DRAINING" by (auto simp: loopActor_def split: if_splits)
    have "handleWallClockCeiling en cx repo s =
        drainActiveStrategy en repo (upd_app (\<lambda>a. add_ceiling repo (drain_for_ceiling cx (ru_id r) a)) s)"
      using assms(1) nt False st
      by (cases "loopActor (ru_status r)") (auto simp: handleWallClockCeiling_def isTerminalLoopState_def)
    also have "\<dots> = upd_app (\<lambda>a. add_ceiling repo (drain_for_ceiling cx (ru_id r) a)) s"
      by (rule idle) (simp add: add_ceiling_def drain_for_ceiling_effect)
    finally show ?thesis
      using False drain_for_ceiling_effect(1) [OF g, of cx]
      by (simp add: Let_def loop_simps drain_for_ceiling_effect(2))
  qed
qed

theorem ceiling_outcomes_witness:
  "let s' = handleWallClockCeiling (demo_env (\<lambda>_ _ s. (W_submitted, s))) demo_ctx ''r''
       (upd_app (add_stop ''r'') (demo_state [demo_run ''a'' DRAINING]))
   in status_of ''a'' s' = Some CEILING_REACHED \<and> ap_stopPending (ts_app s') = {''r''}"
proof -
  let ?s = "upd_app (add_stop ''r'') (demo_state [demo_run ''a'' DRAINING])"
  have a: "active_run ''r'' (ts_app ?s) = Some (demo_run ''a'' DRAINING)" and u: "unique_keys ru_id (runs ?s)"
    and n: "getActiveForRun i (ap_strategies (ts_app ?s)) = None" for i
    by (simp_all add: active_run_def getActiveRun_def terminal_is_inactive isTerminalLoopState_def order_desc_def
        first_row_def unique_keys_def getActiveForRun_def add_stop_def)
  from ceiling_outcomes [OF a u n, of "demo_env (\<lambda>_ _ s. (W_submitted, s))" demo_ctx]
  show ?thesis
    by (cases "run_get ''a'' (runs (handleWallClockCeiling (demo_env (\<lambda>_ _ s. (W_submitted, s))) demo_ctx ''r'' ?s))")
      (simp_all add: Let_def loopActor_def loop_simps)
qed

end
