(* ===== verification/Coordinator.thy ===== *)
theory Coordinator
  imports Loop_Drain
begin

text \<open>
  \<open>IterationExecutionCoordinator\<close> (\<open>apps/controller/src/loop/iteration-execution-coordinator.ts\<close>):
  the ownership boundary of an iteration, the start of its actor, and the campaign
  controls. \<open>en_strategyControl\<close> is the \<open>control\<close> call of the strategy engine that
  \<open>routeStrategyControl\<close> selects. A bounded wait polls at most once per interval, so the
  number of polls a timeout admits is its fuel.
\<close>

section \<open>Ownership\<close>

datatype conflict = SOL_ACTIVE_NO_DISPATCH | EXECUTOR_ACTIVE | STRATEGY_ACTIVE | RUN_NOT_RECEPTIVE
  | STRATEGY_NOT_AUTHORIZED | DISPATCH_STRATEGY_MISMATCH

record ownership_opts =
  oo_requested :: "strategy option"
  oo_allowSol :: bool
  oo_dispatch :: "ident option"
  oo_authorized :: "strategy option"

text \<open>\<open>dispatch?.strategy ?? "SINGLE_AGENT"\<close>.\<close>

definition resolveStrategy :: "dispatch option \<Rightarrow> strategy" where
  "resolveStrategy d = (case Option.bind d di_strategy of None \<Rightarrow> SINGLE_AGENT | Some st \<Rightarrow> st)"

text \<open>An absent or empty identifier is falsy.\<close>

definition truthy_id :: "ident option \<Rightarrow> bool" where
  "truthy_id i = (case i of Some (c # cs) \<Rightarrow> True | _ \<Rightarrow> False)"

definition live_strategy :: "ident \<Rightarrow> app \<Rightarrow> strategy_run option" where
  "live_strategy i a = (case getActiveForRun i (ap_strategies a) of None \<Rightarrow> None
     | Some st \<Rightarrow> if sr_status st = SS_RECOVERY_REQUIRED then None else Some st)"

text \<open>The conflict thrown, if any.\<close>

definition assertCampaignIterationOwnership :: "run \<Rightarrow> ownership_opts \<Rightarrow> app \<Rightarrow> conflict option" where
  "assertCampaignIterationOwnership r oo a =
     (let live = live_strategy (ru_id r) a in
      if (ru_status r = SOL_PENDING \<or> ru_status r = SOL_REVIEWING) \<and> \<not> oo_allowSol oo \<and> \<not> truthy_id (oo_dispatch oo)
      then Some SOL_ACTIVE_NO_DISPATCH
      else if (ru_status r = EXECUTOR_PENDING \<or> ru_status r = EXECUTING) \<and> live = None then Some EXECUTOR_ACTIVE
      else if live \<noteq> None then Some STRATEGY_ACTIVE
      else if ru_status r = DRAINING \<or> ru_status r = STOPPED \<or> ru_status r = CEILING_REACHED then Some RUN_NOT_RECEPTIVE
      else (case oo_requested oo of None \<Rightarrow> None
        | Some rq \<Rightarrow> if rq = SINGLE_AGENT then None
            else if \<not> truthy_id (oo_dispatch oo) then Some STRATEGY_NOT_AUTHORIZED
            else (case oo_authorized oo of None \<Rightarrow> None
              | Some au \<Rightarrow> if au \<noteq> rq then Some DISPATCH_STRATEGY_MISMATCH else None)))"

section \<open>Starting the actor of an iteration\<close>

definition shutting_msg :: "ident \<Rightarrow> string" where
  "shutting_msg repo =
     ''Controller is shutting down; new strategy/executor starts are rejected for repository '' @ repo @ ''.''"

definition coord_start :: "env \<Rightarrow> ctx \<Rightarrow> ident \<Rightarrow> run \<Rightarrow> dispatch option \<Rightarrow> execution_plan option \<Rightarrow> strategy option
     \<Rightarrow> lstate \<Rightarrow> string option \<times> lstate" where
  "coord_start en cx repo r d plan st s =
     (if ap_shuttingDown (ts_app s) then (Some (shutting_msg repo), s)
      else (let selected = (case st of Some x \<Rightarrow> x | None \<Rightarrow> resolveStrategy d);
                dispatchId = coalesce (map_option di_id d) (ru_dispatch r);
                iter = (case d of Some x \<Rightarrow> di_iter x | None \<Rightarrow> ru_iter r);
                s1 = upd_app (\<lambda>a. updateStatus cx (ru_id r) EXECUTING no_updates
                   (updateStatus cx (ru_id r) EXECUTOR_PENDING
                      (no_updates\<lparr>up_dispatch := Some dispatchId, up_iter := Some iter\<rparr>) a)) s
        in if selected = SINGLE_AGENT then en_executorStart en repo dispatchId False s1
           else en_strategyStart en \<lparr>sq_strategy = selected, sq_repo = repo, sq_run = ru_id r, sq_iter = iter,
                  sq_dispatch = dispatchId, sq_plan = plan\<rparr> s1))"

section \<open>Waiting for the engine\<close>

definition PAUSE_SETTLE_TIMEOUT_MS :: nat where
  "PAUSE_SETTLE_TIMEOUT_MS = 10000"
definition KILL_SETTLE_TIMEOUT_MS :: nat where
  "KILL_SETTLE_TIMEOUT_MS = 15000"
definition SHUTDOWN_SETTLE_GRACE_MS :: nat where
  "SHUTDOWN_SETTLE_GRACE_MS = 30000"
definition CONTROL_POLL_INTERVAL_MS :: nat where
  "CONTROL_POLL_INTERVAL_MS = 200"

definition polls :: "nat \<Rightarrow> nat" where
  "polls timeout = timeout div CONTROL_POLL_INTERVAL_MS"

fun boundary_polls :: "env \<Rightarrow> ident \<Rightarrow> strategy_status \<Rightarrow> nat \<Rightarrow> nat \<Rightarrow> lstate \<Rightarrow> loop_error option \<times> lstate" where
  "boundary_polls en i target timeout 0 s =
     (Some (Bad_request (''Strategy '' @ i @ '' did not reach '' @ strategy_status_name target @ '' within '' @
        js_nat timeout @ ''ms.'')), s)"
| "boundary_polls en i target timeout (Suc n) s = (case strategy_get i (ap_strategies (ts_app s)) of
       None \<Rightarrow> (Some (Bad_request (''Strategy '' @ i @ '' disappeared while waiting for '' @
                 strategy_status_name target @ ''.'')), s)
     | Some st \<Rightarrow> if sr_status st = target then (None, s)
         else if isStrategyTerminal (sr_status st) then
           (Some (Bad_request (''Strategy '' @ i @ '' reached terminal status '' @ strategy_status_name (sr_status st) @
              '' before the '' @ strategy_status_name target @ '' boundary.'')), s)
         else boundary_polls en i target timeout n (en_delay en s))"

definition waitForStrategyBoundary :: "env \<Rightarrow> ident \<Rightarrow> strategy_status \<Rightarrow> nat \<Rightarrow> lstate \<Rightarrow> loop_error option \<times> lstate" where
  "waitForStrategyBoundary en i target timeout s = boundary_polls en i target timeout (polls timeout) s"

fun settlement_polls :: "env \<Rightarrow> ident \<Rightarrow> nat \<Rightarrow> lstate \<Rightarrow> lstate" where
  "settlement_polls en i 0 s = s"
| "settlement_polls en i (Suc n) s = (case strategy_get i (ap_strategies (ts_app s)) of None \<Rightarrow> s
     | Some st \<Rightarrow> if isStrategyTerminal (sr_status st) \<or> sr_control st = KILL_REQUESTED then s
         else settlement_polls en i n (en_delay en s))"

definition waitForStrategySettlement :: "env \<Rightarrow> ident \<Rightarrow> nat \<Rightarrow> lstate \<Rightarrow> lstate" where
  "waitForStrategySettlement en i timeout s = settlement_polls en i (polls timeout) s"

section \<open>Campaign controls\<close>

definition routed :: "string option \<Rightarrow> loop_error option" where
  "routed e = map_option Thrown e"

definition coord_pause :: "env \<Rightarrow> ctx \<Rightarrow> ident \<Rightarrow> lstate \<Rightarrow> loop_error option \<times> lstate" where
  "coord_pause en cx repo s = (case active_run repo (ts_app s) of None \<Rightarrow> (None, s)
     | Some r \<Rightarrow> if ru_status r = PAUSED then (None, s)
        else if hasPendingDrain repo (ts_app s) then
          (Some (Bad_request (''Cannot pause repository '' @ repo @ '': a stop/ceiling drain is pending (campaign '' @
             loop_state_name (ru_status r) @ ''); Stop is not cancellable by Pause.'')), s)
        else (case getActiveForRun (ru_id r) (ap_strategies (ts_app s)) of
            Some st \<Rightarrow> (case en_strategyControl en repo st SD_PAUSE s of
                (Some e, s1) \<Rightarrow> (Some (Thrown e), s1)
              | (None, s1) \<Rightarrow> (case waitForStrategyBoundary en (sr_id st) SS_PAUSED PAUSE_SETTLE_TIMEOUT_MS s1 of
                    (Some e, s2) \<Rightarrow> (Some e, s2)
                  | (None, s2) \<Rightarrow> (None, upd_app (updateStatus cx (ru_id r) PAUSED no_updates) s2)))
          | None \<Rightarrow> if ru_status r = SOL_PENDING \<or> ru_status r = SOL_REVIEWING
              then (Some (Bad_request ''Pause is only allowed while executor is active.''), s)
              else (case en_executorPause en repo s of
                  (Some e, s1) \<Rightarrow> (Some (Thrown e), s1)
                | (None, s1) \<Rightarrow> (None, upd_app (updateStatus cx (ru_id r) PAUSED no_updates) s1))))"

definition not_paused_msg :: "ident \<Rightarrow> run \<Rightarrow> strategy_run option \<Rightarrow> string" where
  "not_paused_msg repo r st = ''Cannot resume repository '' @ repo @ '': campaign is '' @ loop_state_name (ru_status r) @
     (case st of None \<Rightarrow> '', not PAUSED.''
      | Some q \<Rightarrow> '' while strategy actor '' @ sr_id q @ '' is '' @ strategy_status_name (sr_status q) @
          ''; expected a PAUSED campaign.'')"

definition coord_resume :: "env \<Rightarrow> ctx \<Rightarrow> ident \<Rightarrow> lstate \<Rightarrow> loop_error option \<times> lstate" where
  "coord_resume en cx repo s = (case active_run repo (ts_app s) of None \<Rightarrow> (None, s)
     | Some r \<Rightarrow> (let st = getActiveForRun (ru_id r) (ap_strategies (ts_app s)) in
        if ru_status r \<noteq> PAUSED then (Some (Domain ''RUN_NOT_PAUSED'' (not_paused_msg repo r st) 409), s)
        else (case st of
            Some q \<Rightarrow> if sr_status q \<noteq> SS_PAUSED
                then (Some (Bad_request (''Cannot resume: strategy '' @ sr_id q @ '' is '' @
                        strategy_status_name (sr_status q) @ '', not PAUSED.'')), s)
                else (case en_strategyControl en repo q SD_RESUME s of
                    (Some e, s1) \<Rightarrow> (Some (Thrown e), s1)
                  | (None, s1) \<Rightarrow> (None, upd_app (updateStatus cx (ru_id r) EXECUTING no_updates) s1))
          | None \<Rightarrow> (None, resumeRunInternal en cx repo s))))"

definition coord_stop :: "env \<Rightarrow> ctx \<Rightarrow> ident \<Rightarrow> lstate \<Rightarrow> loop_error option \<times> lstate" where
  "coord_stop en cx repo s = (case active_run repo (ts_app s) of None \<Rightarrow> (None, s)
     | Some r \<Rightarrow> (case getActiveForRun (ru_id r) (ap_strategies (ts_app s)) of
         Some st \<Rightarrow> (case en_strategyControl en repo st SD_STOP
              (if ru_status r \<noteq> DRAINING then upd_app (updateStatus cx (ru_id r) DRAINING
                 (no_updates\<lparr>up_error := Some (Some ''Stopped by user (draining)''), up_drain := Some (Some USER_STOP)\<rparr>)) s
               else s) of (e, s1) \<Rightarrow> (routed e, s1))
       | None \<Rightarrow> (None, stopRunInternal cx repo s)))"

definition mark_recovery :: "ctx \<Rightarrow> ident \<Rightarrow> string \<Rightarrow> app \<Rightarrow> app" where
  "mark_recovery cx i msg = updateStatus cx i RECOVERY_REQUIRED
     (no_updates\<lparr>up_error := Some (Some msg), up_finished := Some (Some (cx_now cx))\<rparr>)"

definition coord_kill :: "env \<Rightarrow> ctx \<Rightarrow> ident \<Rightarrow> lstate \<Rightarrow> loop_error option \<times> lstate" where
  "coord_kill en cx repo s =
     (let active = active_run repo (ts_app s);
          st = Option.bind active (\<lambda>r. getActiveForRun (ru_id r) (ap_strategies (ts_app s)));
          after = (case st of
              Some q \<Rightarrow> (case en_strategyControl en repo q SD_KILL s of
                  (Some e, s1) \<Rightarrow> (Some (Thrown e), s1)
                | (None, s1) \<Rightarrow> (None, waitForStrategySettlement en (sr_id q) KILL_SETTLE_TIMEOUT_MS s1))
            | None \<Rightarrow> (None, en_executorKill en repo s))
      in case after of
          (Some e, s1) \<Rightarrow> (Some e, s1)
        | (None, s1) \<Rightarrow> (let s2 = en_closeRepositoryPage en repo s1 in
            (None, case active of None \<Rightarrow> s2
               | Some r \<Rightarrow> if ru_status r = RECOVERY_REQUIRED then s2
                   else upd_app (mark_recovery cx (ru_id r) killed_msg) s2)))"

section \<open>Shutdown\<close>

text \<open>
  The controls of all repositories are routed, then each is waited for. Their effects
  are taken in repository order; a control that fails is not waited for.
\<close>

type_synonym shutdown_target = "ident \<times> ident option"

definition shutdown_repo ::
    "env \<Rightarrow> ident \<Rightarrow> shutdown_target list \<times> lstate \<Rightarrow> shutdown_target list \<times> lstate" where
  "shutdown_repo en repo = (\<lambda>(targets, s). case active_run repo (ts_app s) of None \<Rightarrow> (targets, s)
     | Some r \<Rightarrow> (case getActiveForRun (ru_id r) (ap_strategies (ts_app s)) of
         None \<Rightarrow> (targets @ [(ru_id r, None)], en_executorShutdown en s)
       | Some st \<Rightarrow> (targets @ [(ru_id r, Some (sr_id st))], (case en_strategyControl en repo st SD_KILL s of
             (Some e, s1) \<Rightarrow> s1
           | (None, s1) \<Rightarrow> waitForStrategySettlement en (sr_id st) SHUTDOWN_SETTLE_GRACE_MS s1))))"

definition shutdown_mark :: "ctx \<Rightarrow> shutdown_target \<Rightarrow> lstate \<Rightarrow> lstate" where
  "shutdown_mark cx = (\<lambda>(i, st) s. case run_get i (runs s) of None \<Rightarrow> s
     | Some r \<Rightarrow> if ru_status r = RECOVERY_REQUIRED then s
         else upd_app (mark_recovery cx i (if st \<noteq> None
           then ''Controller shutdown: active strategy marked for recovery.''
           else ''Controller shutdown: active executor marked for recovery.'')) s)"

definition shutdown_targets :: "env \<Rightarrow> lstate \<Rightarrow> shutdown_target list \<times> lstate" where
  "shutdown_targets en s = (let s1 = upd_app (\<lambda>a. a\<lparr>ap_shuttingDown := True\<rparr>) s
     in fold (shutdown_repo en) (map rc_id (ap_repos (ts_app s1))) ([], s1))"

text \<open>Up to the wait for completion callbacks still in flight.\<close>

definition coord_shutdown :: "env \<Rightarrow> ctx \<Rightarrow> lstate \<Rightarrow> lstate" where
  "coord_shutdown en cx s = (case shutdown_targets en s of (targets, s1) \<Rightarrow> fold (shutdown_mark cx) targets s1)"

section \<open>What the coordinator guarantees\<close>

lemma truthy_Some [simp]: "truthy_id (Some d) \<longleftrightarrow> d \<noteq> []"
  by (cases d) (simp_all add: truthy_id_def)

text \<open>
  At the dispatch seam, where Sol's boundary is open and the dispatch authorises the strategy it selects, a
  start is admitted exactly when no live strategy record and no executor owns the
  iteration, the run is not draining, stopped or at its ceiling, and a swarm or DAG has
  a dispatch to authorise it. This is the guard with the options of that caller filled in.
\<close>

theorem dispatch_seam_ownership:
  "assertCampaignIterationOwnership r
     \<lparr>oo_requested = Some st, oo_allowSol = True, oo_dispatch = Some d, oo_authorized = Some st\<rparr> a = None
   \<longleftrightarrow> live_strategy (ru_id r) a = None
     \<and> ru_status r \<notin> {EXECUTOR_PENDING, EXECUTING, DRAINING, STOPPED, CEILING_REACHED}
     \<and> (if st = SINGLE_AGENT then True else d \<noteq> [])"
  by (auto simp: assertCampaignIterationOwnership_def Let_def)

lemma boundary_reached:
  "boundary_polls en i target timeout n s = (None, s') \<Longrightarrow>
     map_option sr_status (strategy_get i (ap_strategies (ts_app s'))) = Some target"
  by (induction n arbitrary: s) (auto split: option.splits if_splits)

text \<open>
  A campaign with a strategy actor is marked \<open>PAUSED\<close> only at the actor's boundary: when the pause of an active campaign
  succeeds, the strategy record is \<open>PAUSED\<close> too, whatever the engine and other handlers
  did during the wait, and no drain was pending when it was asked for.
\<close>

theorem pause_at_boundary:
  assumes "active_run repo (ts_app s) = Some r" and "ru_status r \<noteq> PAUSED"
    and "getActiveForRun (ru_id r) (ap_strategies (ts_app s)) = Some st"
    and "coord_pause en cx repo s = (None, s')"
  shows "map_option sr_status (strategy_get (sr_id st) (ap_strategies (ts_app s'))) = Some SS_PAUSED
     \<and> status_of (ru_id r) s' \<in> {None, Some PAUSED} \<and> \<not> hasPendingDrain repo (ts_app s)"
proof -
  obtain s1 s2 where c: "en_strategyControl en repo st SD_PAUSE s = (None, s1)"
    and b: "waitForStrategyBoundary en (sr_id st) SS_PAUSED PAUSE_SETTLE_TIMEOUT_MS s1 = (None, s2)"
    and s': "s' = upd_app (updateStatus cx (ru_id r) PAUSED no_updates) s2"
    and nd: "\<not> hasPendingDrain repo (ts_app s)"
    using assms by (auto simp: coord_pause_def split: if_splits prod.splits option.splits)
  show ?thesis
    using boundary_reached [OF b [unfolded waitForStrategyBoundary_def]] nd
    by (cases "run_get (ru_id r) (runs s2)") (simp_all add: s' loop_simps run_simps)
qed

text \<open>
  \<open>stop\<close> stamps the campaign before it routes the decision: the strategy engine is told to stop in a state where the run is already
  \<open>DRAINING\<close> for \<open>USER_STOP\<close>, so a paused actor that settles inside the call completes
  into a stopped campaign.
\<close>

theorem stop_stamps_first:
  assumes "active_run repo (ts_app s) = Some r" and "unique_keys ru_id (runs s)" and "ru_status r \<noteq> DRAINING"
    and "getActiveForRun (ru_id r) (ap_strategies (ts_app s)) = Some st"
  shows "\<exists>tt. map_option (\<lambda>q. (ru_status q, ru_drain q)) (run_get (ru_id r) (runs tt)) = Some (DRAINING, Some USER_STOP)
     \<and> coord_stop en cx repo s = (case en_strategyControl en repo st SD_STOP tt of (e, s1) \<Rightarrow> (routed e, s1))"
proof -
  have "run_get (ru_id r) (runs s) = Some r"
    using assms(1,2) by (simp add: active_run_def getActiveRun_get)
  then show ?thesis
    using assms by (intro exI [of _ "upd_app (updateStatus cx (ru_id r) DRAINING (no_updates\<lparr>up_error :=
      Some (Some ''Stopped by user (draining)''), up_drain := Some (Some USER_STOP)\<rparr>)) s"])
      (simp add: coord_stop_def loop_simps run_simps run_write_def no_updates_def)
qed

lemma status_mark: "status_of j (upd_app (mark_recovery cx i msg) s) =
    (if j = i then map_option (\<lambda>_. RECOVERY_REQUIRED) (run_get i (runs s)) else status_of j s)"
  by (simp add: mark_recovery_def loop_simps)

lemma shutdown_mark_status:
  "status_of j (shutdown_mark cx t s) =
     (if j = fst t then map_option (\<lambda>_. RECOVERY_REQUIRED) (run_get j (runs s)) else status_of j s)"
  by (cases t; cases "run_get (fst t) (runs s)") (auto simp: shutdown_mark_def mark_recovery_def loop_simps run_simps)

lemma shutdown_mark_status_kept:
  "status_of j s \<in> {None, Some RECOVERY_REQUIRED} \<Longrightarrow>
     status_of j (fold (shutdown_mark cx) ts s) \<in> {None, Some RECOVERY_REQUIRED}"
proof (induction ts arbitrary: s)
  case (Cons t ts)
  have "status_of j (shutdown_mark cx t s) \<in> {None, Some RECOVERY_REQUIRED}"
    using Cons.prems by (cases "run_get j (runs s)") (auto simp: shutdown_mark_status)
  then show ?case using Cons.IH by simp
qed simp

text \<open>
  Shutdown leaves no run it found active unmarked: every target that still exists is
  \<open>RECOVERY_REQUIRED\<close> once the marking loop is done, whatever the kills and waits did to it.
\<close>

theorem shutdown_marks_targets:
  "list_all (\<lambda>t. status_of (fst t) (coord_shutdown en cx s) \<in> {None, Some RECOVERY_REQUIRED})
     (fst (shutdown_targets en s))"
proof -
  have "status_of (fst t) (fold (shutdown_mark cx) ts s1) \<in> {None, Some RECOVERY_REQUIRED}" if "t \<in> set ts" for t ts s1
    using that
  proof (induction ts arbitrary: s1)
    case (Cons u us)
    show ?case
    proof (cases "t = u")
      case True
      have "status_of (fst t) (shutdown_mark cx u s1) \<in> {None, Some RECOVERY_REQUIRED}"
        by (cases "run_get (fst u) (runs s1)") (auto simp: True shutdown_mark_status)
      then show ?thesis using shutdown_mark_status_kept by simp
    next
      case False
      then show ?thesis using Cons by simp
    qed
  qed simp
  then show ?thesis by (auto simp: list_all_iff coord_shutdown_def split: prod.splits)
qed

section \<open>Witnesses\<close>

definition demo_report :: execution_report where
  "demo_report = \<lparr>er_strategyRun = ''st'', er_repo = ''r'', er_run = ''a'', er_iter = 1, er_strategy = SWARM,
     er_status = SS_COMPLETED, er_maxConcurrency = 2, er_packets = [], er_nodeIds = [], er_nodes = [], er_results = [],
     er_integration = None, er_decisions = [], er_controls = [], er_blocker = None, er_started = 0, er_finished = 0\<rparr>"

definition demo_strategy :: "strategy_status \<Rightarrow> strategy_run" where
  "demo_strategy st = \<lparr>sr_id = ''st'', sr_repo = ''r'', sr_campaign = ''a'', sr_run = ''a'', sr_iter = 1,
     sr_strategy = SWARM, sr_status = st, sr_maxConcurrency = 2, sr_packets = [], sr_control = CS_NONE,
     sr_dispatch = Some ''d1'', sr_base = None, sr_started = None, sr_finished = None, sr_error = None,
     sr_report = Some demo_report, sr_created = 0, sr_updated = 0\<rparr>"

definition demo_strategy_state :: "loop_state \<Rightarrow> strategy_status \<Rightarrow> lstate" where
  "demo_strategy_state st q = upd_app (\<lambda>a. a\<lparr>ap_strategies := [demo_strategy q]\<rparr>) (demo_state [demo_run ''a'' st])"

lemma demo_strategy_lookups [simp]:
  "runs (demo_strategy_state st q) = [demo_run ''a'' st]"
  "ap_strategies (ts_app (demo_strategy_state st q)) = [demo_strategy q]"
  "ap_stopPending (ts_app (demo_strategy_state st q)) = {}" "ap_ceilingPending (ts_app (demo_strategy_state st q)) = {}"
  "sr_id (demo_strategy q) = ''st''" "sr_status (demo_strategy q) = q"
  "getActiveForRun ''a'' [demo_strategy q] =
     (if q \<in> {SS_QUEUED, SS_RUNNING, SS_PAUSED, SS_STOPPING, SS_RECOVERY_REQUIRED} then Some (demo_strategy q) else None)"
  "strategy_get ''st'' [demo_strategy q] = Some (demo_strategy q)"
  by (auto simp: demo_strategy_state_def demo_strategy_def getActiveForRun_def order_desc_def first_row_def
      strategy_get_def table_simps)

lemma boundary_now:
  "map_option sr_status (strategy_get i (ap_strategies (ts_app s))) = Some target \<Longrightarrow> 0 < n \<Longrightarrow>
     boundary_polls en i target timeout n s = (None, s)"
  by (cases n) (auto split: option.splits)

lemma polls_pause [simp]: "0 < polls PAUSE_SETTLE_TIMEOUT_MS"
  by (simp add: polls_def PAUSE_SETTLE_TIMEOUT_MS_def CONTROL_POLL_INTERVAL_MS_def)

lemma demo_active [simp]:
  "getActiveRun ''r'' [demo_run i st] = (if isTerminalLoopState st then None else Some (demo_run i st))"
  by (auto simp: getActiveRun_def terminal_is_inactive order_desc_def first_row_def)

theorem pause_at_boundary_witness:
  "let s' = snd (coord_pause (demo_env (\<lambda>_ _ s. (W_submitted, s))) demo_ctx ''r'' (demo_strategy_state EXECUTING SS_PAUSED))
   in map_option sr_status (strategy_get ''st'' (ap_strategies (ts_app s'))) = Some SS_PAUSED
     \<and> status_of ''a'' s' \<in> {None, Some PAUSED}"
proof -
  let ?s = "demo_strategy_state EXECUTING SS_PAUSED"
  let ?en = "demo_env (\<lambda>_ _ s. (W_submitted, s))"
  have a: "active_run ''r'' (ts_app ?s) = Some (demo_run ''a'' EXECUTING)"
    by (simp add: active_run_def isTerminalLoopState_def)
  have "fst (coord_pause ?en demo_ctx ''r'' ?s) = None"
    by (simp add: coord_pause_def a hasPendingDrain_def isDrainPending_def drain_of_def run_getDrainReason_def
        coalesce_def demo_env_def waitForStrategyBoundary_def boundary_now run_simps run_get_def table_simps Let_def)
  then have "coord_pause ?en demo_ctx ''r'' ?s = (None, snd (coord_pause ?en demo_ctx ''r'' ?s))"
    by (simp add: prod_eq_iff)
  then show ?thesis
    using pause_at_boundary [where r = "demo_run ''a'' EXECUTING" and st = "demo_strategy SS_PAUSED" and s = ?s
        and repo = "''r''" and en = ?en and cx = demo_ctx and s' = "snd (coord_pause ?en demo_ctx ''r'' ?s)"] a
    by (simp add: Let_def)
qed

theorem stop_stamps_first_witness:
  "\<exists>tt. map_option (\<lambda>q. (ru_status q, ru_drain q)) (run_get ''a'' (runs tt)) = Some (DRAINING, Some USER_STOP)
     \<and> coord_stop (demo_env (\<lambda>_ _ s. (W_submitted, s))) demo_ctx ''r'' (demo_strategy_state PAUSED SS_PAUSED) = (None, tt)"
  using stop_stamps_first [where r = "demo_run ''a'' PAUSED" and st = "demo_strategy SS_PAUSED" and repo = "''r''"
      and s = "demo_strategy_state PAUSED SS_PAUSED" and cx = demo_ctx and en = "demo_env (\<lambda>_ _ s. (W_submitted, s))"]
  by (simp add: active_run_def isTerminalLoopState_def unique_keys_def demo_env_def routed_def)

end
