(* ===== verification/Loop_Dispatch.thy ===== *)
theory Loop_Dispatch
  imports Coordinator
begin

text \<open>
  From a detected dispatch to a started actor: \<open>onDispatchDetected\<close>,
  \<open>deliverOutboxEffect\<close> and \<open>deliverStartExecutionActor\<close> of \<open>loop-service.ts\<close>, with the
  durable transition and the path the code falls through to without one.
\<close>

section \<open>Delivering effects\<close>

definition plan_of :: "dispatch option \<Rightarrow> execution_plan option" where
  "plan_of d = (case Option.bind d di_plan of Some (Json p) \<Rightarrow> Some p | _ \<Rightarrow> None)"

text \<open>A failed start: the run is unavailable and its wall clock is cancelled.\<close>

definition start_failed :: "ctx \<Rightarrow> ident \<Rightarrow> ident \<Rightarrow> string \<Rightarrow> app \<Rightarrow> app" where
  "start_failed cx repo i e a = cancelWallClockCeiling repo (unavailable cx i (or_default (Some e) ''Error'') a)"

definition deliverStartExecutionActor :: "env \<Rightarrow> ctx \<Rightarrow> outbox_item \<Rightarrow> lstate \<Rightarrow> lstate" where
  "deliverStartExecutionActor en cx item s = (if \<not> truthy_id (ob_run item) then s
     else (case ob_payload item of Corrupt \<Rightarrow> s
       | Json p \<Rightarrow> if \<not> truthy_id (pl_dispatchId p) then s
           else (case run_get (the (ob_run item)) (runs s) of None \<Rightarrow> s
             | Some r \<Rightarrow>
                 if ru_status r \<noteq> EXECUTOR_PENDING then s
                 else if ru_dispatch r \<noteq> pl_dispatchId p then s
                 else if getActiveForRun (ru_id r) (ap_strategies (ts_app s)) \<noteq> None then s
                 else (let d = dispatch_get (the (pl_dispatchId p)) (ap_dispatches (ts_app s)) in
                   case coord_start en cx (ob_repo item) r d (coalesce (pl_executionPlan p) (plan_of d)) (pl_strategy p) s of
                     (None, s1) \<Rightarrow> s1
                   | (Some e, s1) \<Rightarrow> upd_app (start_failed cx (ob_repo item) (ru_id r) e) s1))))"

definition effect_status :: "payload json \<Rightarrow> string" where
  "effect_status p = (case p of Json q \<Rightarrow> or_default (pl_resultStatus q) ''COMPLETED'' | Corrupt \<Rightarrow> ''COMPLETED'')"

text \<open>No delivery throws: each branch handles its own errors.\<close>

definition deliverOutboxEffect :: "env \<Rightarrow> ctx \<Rightarrow> outbox_item \<Rightarrow> lstate \<Rightarrow> string option \<times> lstate" where
  "deliverOutboxEffect en cx item s = (None,
     if ob_kind item = ''SUBMIT_SOL_WAKE'' then
       (if \<not> truthy_id (ob_run item) then s
        else (case run_get (the (ob_run item)) (runs s) of None \<Rightarrow> s
          | Some r \<Rightarrow> submitSolWakeForRun en cx (ob_repo item) r (effect_status (ob_payload item)) s))
     else if ob_kind item = ''COMPLETE_SOL_OPERATION'' then
       (case ob_payload item of Corrupt \<Rightarrow> s
        | Json p \<Rightarrow> (let i = coalesce (pl_runId p) (ob_run item) in
            en_completeSolOperation en (ob_repo item)
              (if truthy_id i then i else coalesce (ob_run item) (Some [])) None s))
     else if ob_kind item = ''START_EXECUTION_ACTOR'' then deliverStartExecutionActor en cx item s
     else if ob_kind item = ''CLOSE_REPOSITORY_PAGE'' then
       (case ob_payload item of Corrupt \<Rightarrow> s
        | Json p \<Rightarrow> en_closeRepositoryPage en
            (case pl_repositoryId p of None \<Rightarrow> ob_repo item | Some q \<Rightarrow> q) s)
     else s)"

definition replay :: "env \<Rightarrow> ctx \<Rightarrow> lstate \<Rightarrow> lstate" where
  "replay en cx s = replayOutbox (deliverOutboxEffect en cx) (cx_now cx) s"

definition replayPendingTransitionOutbox :: "env \<Rightarrow> ctx \<Rightarrow> lstate \<Rightarrow> lstate" where
  "replayPendingTransitionOutbox en cx s = (if \<not> en_transition en then s else replay en cx s)"

section \<open>The two transitions of a dispatch\<close>

definition consume_detected :: "ctx \<Rightarrow> ident \<Rightarrow> app \<Rightarrow> app" where
  "consume_detected cx d a =
     (if map_option di_status (dispatch_get d (ap_dispatches a)) = Some DI_detected then consumeDispatch cx d a else a)"

definition effect_of :: "string \<Rightarrow> string \<Rightarrow> ident \<Rightarrow> ident \<Rightarrow> payload \<Rightarrow> effect_spec" where
  "effect_of key kind repo i p = \<lparr>es_key = key, es_repo = repo, es_run = Some i, es_kind = kind, es_payload = Json p\<rparr>"

definition close_sol :: "ident \<Rightarrow> ident \<Rightarrow> ident \<Rightarrow> effect_spec" where
  "close_sol repo i d = effect_of (''close-sol-'' @ i @ ''-'' @ d) ''COMPLETE_SOL_OPERATION'' repo i
     (no_payload\<lparr>pl_runId := Some i\<rparr>)"

definition start_actor :: "ident \<Rightarrow> ident \<Rightarrow> ident \<Rightarrow> strategy \<Rightarrow> execution_plan option \<Rightarrow> effect_spec" where
  "start_actor repo i d st plan = effect_of (''start-actor-'' @ i @ ''-'' @ d) ''START_EXECUTION_ACTOR'' repo i
     (no_payload\<lparr>pl_dispatchId := Some d, pl_strategy := Some st, pl_executionPlan := plan\<rparr>)"

definition at_sol_ceiling :: string where
  "at_sol_ceiling = ''Wall-clock ceiling reached (drained at Sol boundary)''"
definition at_sol_stop :: string where
  "at_sol_stop = ''Stopped by user (drained at Sol boundary)''"
definition at_sol_other :: string where
  "at_sol_other = ''Drained at Sol boundary''"

definition settle_at_sol :: "ctx \<Rightarrow> ident \<Rightarrow> ident \<Rightarrow> bool \<Rightarrow> bool \<Rightarrow> app \<Rightarrow> app" where
  "settle_at_sol cx repo i ceil stop =
     (if ceil then settle_ceiling cx repo i at_sol_ceiling
      else if stop then settle_stop cx repo i at_sol_stop else settle_generic cx repo i at_sol_other)"

definition drain_apply :: "ctx \<Rightarrow> ident \<Rightarrow> ident \<Rightarrow> ident \<Rightarrow> bool \<Rightarrow> bool \<Rightarrow> app \<Rightarrow> string + effect_spec list \<times> app" where
  "drain_apply cx repo d i ceil stop a =
     (let a1 = consume_detected cx d a in
      case coalesce (run_get i (ap_runs a1)) (active_run repo a1) of
        None \<Rightarrow> Inr ([], a1)
      | Some dr \<Rightarrow> Inr ([close_sol repo i d], settle_at_sol cx repo (ru_id dr) ceil stop a1))"

definition start_apply :: "ctx \<Rightarrow> ident \<Rightarrow> dispatch \<Rightarrow> ident \<Rightarrow> app \<Rightarrow> string + effect_spec list \<times> app" where
  "start_apply cx repo d i a =
     (let a1 = consume_detected cx (di_id d) a in
      case run_get i (ap_runs a1) of None \<Rightarrow> Inr ([], a1)
      | Some cur \<Rightarrow> if ru_status cur \<notin> set DISPATCH_RECEPTIVE_STATES then Inr ([], a1)
          else Inr ([close_sol repo i (di_id d), start_actor repo i (di_id d) (resolveStrategy (Some d)) (plan_of (Some d))],
            updateStatus cx i EXECUTOR_PENDING
              (no_updates\<lparr>up_dispatch := Some (Some (di_id d)), up_iter := Some (di_iter d)\<rparr>) a1))"

definition dispatch_opts ::
    "ctx \<Rightarrow> string \<Rightarrow> ident \<Rightarrow> ident \<Rightarrow> ident \<Rightarrow> (app \<Rightarrow> string + effect_spec list \<times> app) \<Rightarrow> app apply_opts" where
  "dispatch_opts cx operation repo d i f = \<lparr>eo_source = SRC_DISPATCH, eo_source_id = d, eo_operation = operation,
     eo_repo = repo, eo_run = Some i, eo_payload = cx_payload cx, eo_apply = f\<rparr>"

definition transit :: "ctx \<Rightarrow> app apply_opts \<Rightarrow> lstate \<Rightarrow> (string + apply_result) \<times> lstate" where
  "transit cx opts s = enqueueAndApply (cx_intent cx) (cx_uuid cx) (cx_now cx) opts s"

definition drain_tx :: "ctx \<Rightarrow> ident \<Rightarrow> ident \<Rightarrow> run \<Rightarrow> lstate \<Rightarrow> (string + apply_result) \<times> lstate" where
  "drain_tx cx repo d r s = (let a = ts_app s in
     transit cx (dispatch_opts cx ''DISPATCH_DRAIN'' repo d (ru_id r) (drain_apply cx repo d (ru_id r)
       (isCeilingPendingEffective repo (Some r) a \<or> ru_drain r = Some WALL_CLOCK_CEILING \<or> ru_drain r = Some ITERATION_CEILING)
       (isStopPendingEffective repo (Some r) a \<or> ru_drain r = Some USER_STOP))) s)"

definition start_tx :: "ctx \<Rightarrow> ident \<Rightarrow> dispatch \<Rightarrow> run \<Rightarrow> lstate \<Rightarrow> (string + apply_result) \<times> lstate" where
  "start_tx cx repo d r s =
     transit cx (dispatch_opts cx ''DISPATCH_START'' repo (di_id d) (ru_id r) (start_apply cx repo d (ru_id r))) s"

section \<open>The paths without a transition\<close>

definition iter_of :: "ident \<Rightarrow> lstate \<Rightarrow> int option" where
  "iter_of d s = map_option di_iter (dispatch_get d (ap_dispatches (ts_app s)))"

definition legacy_drain :: "env \<Rightarrow> ctx \<Rightarrow> ident \<Rightarrow> ident \<Rightarrow> run \<Rightarrow> bool \<Rightarrow> bool \<Rightarrow> lstate \<Rightarrow> lstate" where
  "legacy_drain en cx repo d pre ceil stop s =
     (let s1 = en_completeSolOperation en repo (Some (ru_id pre)) (iter_of d s) s in
      case coalesce (active_run repo (ts_app s1)) (run_get (ru_id pre) (runs s1)) of None \<Rightarrow> s1
      | Some dr \<Rightarrow> upd_app (\<lambda>a. settle_at_sol cx repo (ru_id dr)
            (ceil \<or> ru_drain dr = Some WALL_CLOCK_CEILING \<or> ru_drain dr = Some ITERATION_CEILING)
            (stop \<or> ru_drain dr = Some USER_STOP) (consumeDispatch cx d a)) s1)"

definition seam_opts :: "dispatch \<Rightarrow> ownership_opts" where
  "seam_opts d = \<lparr>oo_requested = Some (resolveStrategy (Some d)), oo_allowSol = True, oo_dispatch = Some (di_id d),
     oo_authorized = Some (resolveStrategy (Some d))\<rparr>"

definition legacy_start :: "env \<Rightarrow> ctx \<Rightarrow> ident \<Rightarrow> ident \<Rightarrow> lstate \<Rightarrow> lstate" where
  "legacy_start en cx repo d s =
     (let s1 = en_completeSolOperation en repo (map_option ru_id (active_run repo (ts_app s))) (iter_of d s) s in
      case active_run repo (ts_app s1) of None \<Rightarrow> s1
      | Some r \<Rightarrow> if ru_status r \<notin> set DISPATCH_RECEPTIVE_STATES then s1
          else (case dispatch_get d (ap_dispatches (ts_app s1)) of None \<Rightarrow> s1
            | Some q \<Rightarrow> if di_run q \<noteq> ru_id r \<or> di_iter q \<noteq> ru_iter r + 1 then s1
                else if assertCampaignIterationOwnership r (seam_opts q) (ts_app s1) \<noteq> None then s1
                else (case coord_start en cx repo r (Some q) (plan_of (Some q)) None
                        (upd_app (updateStatus cx (ru_id r) EXECUTOR_PENDING
                           (no_updates\<lparr>up_dispatch := Some (Some d), up_iter := Some (di_iter q)\<rparr>)) s1) of
                      (None, s2) \<Rightarrow> s2
                    | (Some e, s2) \<Rightarrow> upd_app (start_failed cx repo (ru_id r) e) s2)))"

section \<open>onDispatchDetected\<close>

definition correlated :: "ident \<Rightarrow> run \<Rightarrow> dispatch \<Rightarrow> bool" where
  "correlated repo r d \<longleftrightarrow> di_repo d = repo \<and> di_run d = ru_id r \<and> di_status d = DI_detected \<and> di_iter d = ru_iter r + 1"

definition start_admitted :: "run \<Rightarrow> dispatch \<Rightarrow> app \<Rightarrow> bool" where
  "start_admitted r d a \<longleftrightarrow> ru_status r \<in> set DISPATCH_RECEPTIVE_STATES
     \<and> di_run d = ru_id r \<and> di_iter d = ru_iter r + 1
     \<and> assertCampaignIterationOwnership r (seam_opts d) a = None"

definition onDispatchDetected :: "env \<Rightarrow> ctx \<Rightarrow> ident \<Rightarrow> ident \<Rightarrow> lstate \<Rightarrow> lstate" where
  "onDispatchDetected en cx repo d s = (case active_run repo (ts_app s) of
       None \<Rightarrow> legacy_start en cx repo d s
     | Some r \<Rightarrow> (case dispatch_get d (ap_dispatches (ts_app s)) of None \<Rightarrow> s
         | Some q \<Rightarrow> if \<not> correlated repo r q then s
             else if ru_status r = DRAINING \<or> isDrainPending repo (Some r) (ts_app s) then
               (let ceil = isCeilingPendingEffective repo (Some r) (ts_app s);
                    stop = isStopPendingEffective repo (Some r) (ts_app s)
                in if en_transition en then
                     (case drain_tx cx repo d r s of
                        (Inr _, s1) \<Rightarrow> replay en cx s1
                      | (Inl _, s1) \<Rightarrow> legacy_drain en cx repo d r ceil stop s1)
                   else legacy_drain en cx repo d r ceil stop s)
             else if en_transition en \<and> start_admitted r q (ts_app s) then
               (case start_tx cx repo q r s of
                  (Inr _, s1) \<Rightarrow> replay en cx s1
                | (Inl _, s1) \<Rightarrow> legacy_start en cx repo d s1)
             else legacy_start en cx repo d s))"

section \<open>Commits\<close>

declare map_option_eq_Some [iff del]

definition fresh_intent :: "ctx \<Rightarrow> intent_key \<Rightarrow> lstate \<Rightarrow> bool" where
  "fresh_intent cx k s \<longleftrightarrow> cx_intent cx \<notin> it_id ` set (ts_intents s) \<and> \<not> has_intent k s"

lemma transit_fresh:
  assumes "fresh_intent cx (eo_key c) s" and "eo_apply c (ts_app s) = Inr (specs, a)"
  shows "fst (transit cx c s) = Inr \<lparr>ar_applied = True, ar_intent = cx_intent cx, ar_outbox = specs\<rparr>"
    and "ts_app (snd (transit cx c s)) = a"
    and "ts_outbox (snd (transit cx c s)) =
      ts_outbox (add_effects (cx_uuid cx) (cx_now cx) (List.enumerate 0 specs) (s\<lparr>ts_app := a\<rparr>))"
proof -
  have "\<not> intent_clash (call_row (cx_intent cx) (cx_now cx) I_PENDING 0 c) s"
    using assms(1) unfolding fresh_intent_def intent_clash_def has_intent_def list_ex_iff by force
  with assms(2) show "fst (transit cx c s) = Inr \<lparr>ar_applied = True, ar_intent = cx_intent cx, ar_outbox = specs\<rparr>"
    "ts_app (snd (transit cx c s)) = a"
    "ts_outbox (snd (transit cx c s)) =
      ts_outbox (add_effects (cx_uuid cx) (cx_now cx) (List.enumerate 0 specs) (s\<lparr>ts_app := a\<rparr>))"
    by (simp_all add: transit_def enqueueAndApply_eq transition_simps)
qed

lemma transit_known:
  assumes "has_intent (eo_key c) s"
  shows "transit cx c s = (Inr \<lparr>ar_applied = False, ar_intent = cx_intent cx, ar_outbox = []\<rparr>, s)"
proof -
  have "intent_clash (call_row (cx_intent cx) (cx_now cx) I_PENDING 0 c) s"
    using assms by (auto simp: intent_clash_def has_intent_def list_ex_iff)
  then show ?thesis by (simp add: transit_def enqueueAndApply_eq)
qed

lemma dispatch_opts_simps [simp]:
  "eo_key (dispatch_opts cx oper repo d i f) = (SRC_DISPATCH, d, oper)"
  "eo_apply (dispatch_opts cx oper repo d i f) = f"
  by (simp_all add: dispatch_opts_def eo_key_def)

lemma consume_detected_simps [loop_simps]:
  "ap_runs (consume_detected cx d a) = ap_runs a" "ap_stopPending (consume_detected cx d a) = ap_stopPending a"
  "ap_ceilingPending (consume_detected cx d a) = ap_ceilingPending a"
  "ap_strategies (consume_detected cx d a) = ap_strategies a"
  by (simp_all add: consume_detected_def loop_simps)

abbreviation dispatch_status_of :: "ident \<Rightarrow> lstate \<Rightarrow> dispatch_status option" where
  "dispatch_status_of d s \<equiv> map_option di_status (dispatch_get d (ap_dispatches (ts_app s)))"

lemma consumed:
  "dispatch_get d (ap_dispatches a) = Some q \<Longrightarrow> di_status q = DI_detected \<Longrightarrow>
     map_option di_status (dispatch_get d (ap_dispatches (consume_detected cx d a))) = Some DI_consumed"
  by (simp add: consume_detected_def loop_simps run_simps)

lemma onDispatch_cases:
  assumes "active_run repo (ts_app s) = Some r" and "dispatch_get d (ap_dispatches (ts_app s)) = Some q"
    and "correlated repo r q" and "en_transition en"
  shows "ru_status r = DRAINING \<or> isDrainPending repo (Some r) (ts_app s) \<Longrightarrow> drain_tx cx repo d r s = (Inr x, tt)
      \<Longrightarrow> onDispatchDetected en cx repo d s = replay en cx tt"
    and "\<not> (ru_status r = DRAINING \<or> isDrainPending repo (Some r) (ts_app s)) \<Longrightarrow> start_admitted r q (ts_app s)
      \<Longrightarrow> start_tx cx repo q r s = (Inr x, tt) \<Longrightarrow> onDispatchDetected en cx repo d s = replay en cx tt"
  using assms by (simp_all add: onDispatchDetected_def Let_def)

lemma status_settle [loop_simps]:
  "map_option ru_status (run_get j (ap_runs (settle_ceiling cx repo i msg a))) =
     (if j = i then map_option (\<lambda>_. CEILING_REACHED) (run_get j (ap_runs a))
      else map_option ru_status (run_get j (ap_runs a)))"
  "map_option ru_status (run_get j (ap_runs (settle_stop cx repo i msg a))) =
     (if j = i then map_option (\<lambda>_. STOPPED) (run_get j (ap_runs a)) else map_option ru_status (run_get j (ap_runs a)))"
  "map_option ru_status (run_get j (ap_runs (settle_generic cx repo i msg a))) =
     (if j = i then map_option (\<lambda>_. CEILING_REACHED) (run_get j (ap_runs a))
      else map_option ru_status (run_get j (ap_runs a)))"
  by (simp_all add: settle_ceiling_def settle_stop_def settle_generic_def finish_def loop_simps run_get_clearDrain
      option.map_comp comp_def)

lemma settle_frame [loop_simps]:
  "ap_dispatches (settle_ceiling cx repo i msg a) = ap_dispatches a"
  "ap_dispatches (settle_stop cx repo i msg a) = ap_dispatches a"
  "ap_dispatches (settle_generic cx repo i msg a) = ap_dispatches a"
  "ap_stopPending (settle_ceiling cx repo i msg a) = ap_stopPending a"
  "ap_ceilingPending (settle_ceiling cx repo i msg a) = ap_ceilingPending a - {repo}"
  "ap_stopPending (settle_stop cx repo i msg a) = ap_stopPending a - {repo}"
  "ap_ceilingPending (settle_stop cx repo i msg a) = ap_ceilingPending a"
  "ap_stopPending (settle_generic cx repo i msg a) = ap_stopPending a - {repo}"
  "ap_ceilingPending (settle_generic cx repo i msg a) = ap_ceilingPending a - {repo}"
  by (simp_all add: settle_ceiling_def settle_stop_def settle_generic_def finish_def loop_simps)

lemma outbox_enqueue_app:
  "fst (outbox_enqueue i now e (t\<lparr>ts_app := a\<rparr>)) = (fst (outbox_enqueue i now e t))\<lparr>ts_app := a\<rparr>" for t :: lstate
  by (cases t) (simp add: outbox_enqueue_def outbox_insert_def outbox_clash_def)

lemma add_effects_app:
  "add_effects u now es (t\<lparr>ts_app := a\<rparr>) = (add_effects u now es t)\<lparr>ts_app := a\<rparr>" for t :: lstate
  by (induction es arbitrary: t) (simp_all add: add_effects_def outbox_enqueue_app split_beta)

lemma drain_tx_effect:
  assumes "fresh_intent cx (SRC_DISPATCH, d, ''DISPATCH_DRAIN'') s" and "run_get (ru_id r) (runs s) = Some r"
    and "dispatch_get d (ap_dispatches (ts_app s)) = Some q" and "di_status q = DI_detected"
    and "ru_status r = DRAINING \<or> isDrainPending repo (Some r) (ts_app s)"
    and "drain_tx cx repo d r s = (res, tt)"
  shows "res = Inr \<lparr>ar_applied = True, ar_intent = cx_intent cx, ar_outbox = [close_sol repo (ru_id r) d]\<rparr>
    \<and> status_of (ru_id r) tt = Some (if isCeilingPendingEffective repo (Some r) (ts_app s) then CEILING_REACHED
         else if isStopPendingEffective repo (Some r) (ts_app s) then STOPPED else CEILING_REACHED)
    \<and> dispatch_status_of d tt = Some DI_consumed
    \<and> ap_stopPending (ts_app tt) = (if isCeilingPendingEffective repo (Some r) (ts_app s)
         then ap_stopPending (ts_app s) else ap_stopPending (ts_app s) - {repo})
    \<and> ts_outbox tt = ts_outbox (add_effects (cx_uuid cx) (cx_now cx) [(0, close_sol repo (ru_id r) d)] s)"
proof -
  let ?ceil = "isCeilingPendingEffective repo (Some r) (ts_app s) \<or> ru_drain r = Some WALL_CLOCK_CEILING
    \<or> ru_drain r = Some ITERATION_CEILING"
  let ?stop = "isStopPendingEffective repo (Some r) (ts_app s) \<or> ru_drain r = Some USER_STOP"
  have c: "?ceil \<longleftrightarrow> isCeilingPendingEffective repo (Some r) (ts_app s)"
    by (auto simp: isCeilingPendingEffective_def drain_of_def coalesce_def)
  have st: "?stop \<longleftrightarrow> isStopPendingEffective repo (Some r) (ts_app s)"
    by (auto simp: isStopPendingEffective_def drain_of_def coalesce_def)
  let ?f = "drain_apply cx repo d (ru_id r) (isCeilingPendingEffective repo (Some r) (ts_app s))
     (isStopPendingEffective repo (Some r) (ts_app s))"
  let ?a = "settle_at_sol cx repo (ru_id r) (isCeilingPendingEffective repo (Some r) (ts_app s))
     (isStopPendingEffective repo (Some r) (ts_app s)) (consume_detected cx d (ts_app s))"
  have f: "?f (ts_app s) = Inr ([close_sol repo (ru_id r) d], ?a)"
    using assms(2) by (simp add: drain_apply_def Let_def loop_simps coalesce_def)
  have tx: "transit cx (dispatch_opts cx ''DISPATCH_DRAIN'' repo d (ru_id r) ?f) s = (res, tt)"
    using assms(6) unfolding drain_tx_def Let_def c st .
  note e = transit_fresh [where c = "dispatch_opts cx ''DISPATCH_DRAIN'' repo d (ru_id r) ?f", simplified,
      OF assms(1) f, unfolded tx]
  show ?thesis
    using e consumed [OF assms(3,4), of cx] assms(2)
    by (simp add: settle_at_sol_def loop_simps add_effects_app)
qed

text \<open>
  C37: a dispatch that arrives while a drain is pending ends the run and never starts an actor. When its transition is new,
  the run becomes \<open>CEILING_REACHED\<close> if a ceiling is pending, else \<open>STOPPED\<close> if a stop
  is; the dispatch is consumed; and the only effect committed with it closes Sol's
  operation; its row is put into the outbox unless one with its key or identifier is there. What follows is the delivery of the outbox. The ownership transition is wired and runs have unique identifiers.
\<close>

theorem drain_at_sol_boundary:
  assumes "active_run repo (ts_app s) = Some r" and "unique_keys ru_id (runs s)"
    and "dispatch_get d (ap_dispatches (ts_app s)) = Some q" and "correlated repo r q" and "en_transition en"
    and "ru_status r = DRAINING \<or> isDrainPending repo (Some r) (ts_app s)"
    and "fresh_intent cx (SRC_DISPATCH, d, ''DISPATCH_DRAIN'') s"
  shows "\<exists>tt. onDispatchDetected en cx repo d s = replay en cx tt
    \<and> fst (drain_tx cx repo d r s) =
        Inr \<lparr>ar_applied = True, ar_intent = cx_intent cx, ar_outbox = [close_sol repo (ru_id r) d]\<rparr>
    \<and> status_of (ru_id r) tt = Some (if isCeilingPendingEffective repo (Some r) (ts_app s) then CEILING_REACHED
         else if isStopPendingEffective repo (Some r) (ts_app s) then STOPPED else CEILING_REACHED)
    \<and> dispatch_status_of d tt = Some DI_consumed
    \<and> ts_outbox tt = ts_outbox (add_effects (cx_uuid cx) (cx_now cx) [(0, close_sol repo (ru_id r) d)] s)"
proof -
  have g: "run_get (ru_id r) (runs s) = Some r" using assms(1,2) by (simp add: active_run_def getActiveRun_get)
  have det: "di_status q = DI_detected" using assms(4) by (simp add: correlated_def)
  obtain res tt where tx: "drain_tx cx repo d r s = (res, tt)" by (cases "drain_tx cx repo d r s")
  note e = drain_tx_effect [OF assms(7) g assms(3) det assms(6) tx]
  then have "drain_tx cx repo d r s = (Inr \<lparr>ar_applied = True, ar_intent = cx_intent cx,
      ar_outbox = [close_sol repo (ru_id r) d]\<rparr>, tt)" using tx by simp
  from onDispatch_cases(1) [OF assms(1,3,4,5,6) this] e tx show ?thesis by (intro exI [of _ tt]) simp
qed

lemma start_tx_effect:
  assumes "fresh_intent cx (SRC_DISPATCH, di_id q, ''DISPATCH_START'') s" and "run_get (ru_id r) (runs s) = Some r"
    and "dispatch_get (di_id q) (ap_dispatches (ts_app s)) = Some q" and "di_status q = DI_detected"
    and "ru_status r \<in> set DISPATCH_RECEPTIVE_STATES" and "start_tx cx repo q r s = (res, tt)"
  defines "effects \<equiv> [close_sol repo (ru_id r) (di_id q),
      start_actor repo (ru_id r) (di_id q) (resolveStrategy (Some q)) (plan_of (Some q))]"
  shows "res = Inr \<lparr>ar_applied = True, ar_intent = cx_intent cx, ar_outbox = effects\<rparr>"
    and "map_option (\<lambda>c. (ru_status c, ru_dispatch c, ru_iter c)) (run_get (ru_id r) (runs tt)) =
       Some (EXECUTOR_PENDING, Some (di_id q), di_iter q)"
    and "dispatch_status_of (di_id q) tt = Some DI_consumed"
    and "ap_strategies (ts_app tt) = ap_strategies (ts_app s)"
    and "ts_outbox tt = ts_outbox (add_effects (cx_uuid cx) (cx_now cx) (List.enumerate 0 effects) s)"
proof -
  let ?f = "start_apply cx repo q (ru_id r)"
  let ?a = "updateStatus cx (ru_id r) EXECUTOR_PENDING
     (no_updates\<lparr>up_dispatch := Some (Some (di_id q)), up_iter := Some (di_iter q)\<rparr>) (consume_detected cx (di_id q) (ts_app s))"
  have f: "?f (ts_app s) = Inr (effects, ?a)"
    using assms(2,5) by (simp add: start_apply_def Let_def loop_simps effects_def)
  have tx: "transit cx (dispatch_opts cx ''DISPATCH_START'' repo (di_id q) (ru_id r) ?f) s = (res, tt)"
    using assms(6) unfolding start_tx_def .
  note e = transit_fresh [where c = "dispatch_opts cx ''DISPATCH_START'' repo (di_id q) (ru_id r) ?f", simplified,
      OF assms(1) f, unfolded tx]
  show "res = Inr \<lparr>ar_applied = True, ar_intent = cx_intent cx, ar_outbox = effects\<rparr>" using e(1) by simp
  show "map_option (\<lambda>c. (ru_status c, ru_dispatch c, ru_iter c)) (run_get (ru_id r) (runs tt)) =
       Some (EXECUTOR_PENDING, Some (di_id q), di_iter q)"
    using e(2) assms(2) by (simp add: loop_simps run_simps run_write_def no_updates_def)
  show "dispatch_status_of (di_id q) tt = Some DI_consumed"
    using e(2) consumed [OF assms(3,4), of cx] by (simp add: loop_simps)
  show "ap_strategies (ts_app tt) = ap_strategies (ts_app s)" using e(2) by (simp add: loop_simps)
  show "ts_outbox tt = ts_outbox (add_effects (cx_uuid cx) (cx_now cx) (List.enumerate 0 effects) s)"
    using e(3) by (simp add: add_effects_app)
qed

text \<open>
  C1: a correlated dispatch that finds Sol's boundary open is started in one commit. When no drain is pending, the ownership boundary is free
  and the transition is new, the run becomes \<open>EXECUTOR_PENDING\<close> for this dispatch and its
  iteration, the dispatch is consumed, and exactly two rows are stored in the outbox, the close of Sol's operation and
  after it the start of the actor with the dispatch's strategy and plan, both pending; then the outbox is delivered.
  Hypotheses, besides the run and the dispatch: the ownership transition is wired, the two generated row
  identifiers differ, and neither row meets a stored one with its identifier or its effect key.
\<close>

theorem start_is_one_commit:
  assumes "active_run repo (ts_app s) = Some r" and "unique_keys ru_id (runs s)"
    and "dispatch_get d (ap_dispatches (ts_app s)) = Some q" and "correlated repo r q" and "en_transition en"
    and "\<not> (ru_status r = DRAINING \<or> isDrainPending repo (Some r) (ts_app s))"
    and "start_admitted r q (ts_app s)"
    and "fresh_intent cx (SRC_DISPATCH, d, ''DISPATCH_START'') s"
    and "cx_uuid cx 0 \<noteq> cx_uuid cx 1"
    and "\<not> outbox_clash (outbox_row (cx_uuid cx 0) (cx_now cx) (close_sol repo (ru_id r) d)) s"
    and "\<not> outbox_clash (outbox_row (cx_uuid cx 1) (cx_now cx)
           (start_actor repo (ru_id r) d (resolveStrategy (Some q)) (plan_of (Some q)))) s"
  shows "\<exists>tt. onDispatchDetected en cx repo d s = replay en cx tt
    \<and> fst (start_tx cx repo q r s) = Inr \<lparr>ar_applied = True, ar_intent = cx_intent cx,
        ar_outbox = [close_sol repo (ru_id r) d, start_actor repo (ru_id r) d (resolveStrategy (Some q)) (plan_of (Some q))]\<rparr>
    \<and> ts_outbox tt = ts_outbox s @
        [outbox_row (cx_uuid cx 0) (cx_now cx) (close_sol repo (ru_id r) d),
         outbox_row (cx_uuid cx 1) (cx_now cx)
           (start_actor repo (ru_id r) d (resolveStrategy (Some q)) (plan_of (Some q)))]
    \<and> map_option (\<lambda>c. (ru_status c, ru_dispatch c, ru_iter c)) (run_get (ru_id r) (runs tt)) =
        Some (EXECUTOR_PENDING, Some d, ru_iter r + 1)
    \<and> dispatch_status_of d tt = Some DI_consumed"
proof -
  have g: "run_get (ru_id r) (runs s) = Some r" using assms(1,2) by (simp add: active_run_def getActiveRun_get)
  have d: "di_id q = d" using assms(3) by (auto simp: dispatch_get_def dest: tbl_get_key)
  have det: "di_status q = DI_detected" "di_iter q = ru_iter r + 1" using assms(4) by (simp_all add: correlated_def)
  have rec: "ru_status r \<in> set DISPATCH_RECEPTIVE_STATES" using assms(7) by (simp add: start_admitted_def)
  obtain res tt where tx: "start_tx cx repo q r s = (res, tt)" by (cases "start_tx cx repo q r s")
  note e = start_tx_effect [OF assms(8) [folded d] g assms(3) [folded d] det(1) rec tx]
  have "start_tx cx repo q r s = (Inr \<lparr>ar_applied = True, ar_intent = cx_intent cx,
      ar_outbox = [close_sol repo (ru_id r) d, start_actor repo (ru_id r) d (resolveStrategy (Some q)) (plan_of (Some q))]\<rparr>, tt)"
    using tx e(1) d by simp
  moreover have "es_key (close_sol repo (ru_id r) d) \<noteq>
      es_key (start_actor repo (ru_id r) d (resolveStrategy (Some q)) (plan_of (Some q)))"
    by (simp add: close_sol_def start_actor_def effect_of_def)
  from add_two_effects [where u = "cx_uuid cx", OF assms(10,11,9) this] e(5) d
  have "ts_outbox tt = ts_outbox s @ [outbox_row (cx_uuid cx 0) (cx_now cx) (close_sol repo (ru_id r) d),
      outbox_row (cx_uuid cx 1) (cx_now cx)
        (start_actor repo (ru_id r) d (resolveStrategy (Some q)) (plan_of (Some q)))]" by simp
  ultimately show ?thesis using onDispatch_cases(2) [OF assms(1,3,4,5,6,7)] e(2,3) d det(2)
    by (intro exI [of _ tt]) simp
qed

section \<open>Effects that find nothing to do\<close>

lemma app_same: "ts_app t = a \<Longrightarrow> t\<lparr>ts_app := a\<rparr> = t"
  by (cases t) simp

lemma replay_step_idle:
  assumes "\<And>t. ts_app t = a \<Longrightarrow> deliver d t = (None, t)" and "ts_app s = a"
  shows "replay_step deliver now d s = replay_step (plain_delivery (\<lambda>_. None) (\<lambda>_ a. a)) now d s"
    and "ts_app (replay_step deliver now d s) = a"
proof -
  have "deliver d (fst (markDelivering (ob_id d) now s)) = (None, fst (markDelivering (ob_id d) now s))"
    using assms by (simp add: transition_simps)
  moreover have m: "ts_app (fst (markDelivering (ob_id d) now s)) = a"
    using assms(2) by (simp add: transition_simps)
  ultimately show "replay_step deliver now d s = replay_step (plain_delivery (\<lambda>_. None) (\<lambda>_ a. a)) now d s"
    "ts_app (replay_step deliver now d s) = a"
    using assms(2)
    by (simp_all add: replay_step_def plain_delivery_def split_beta transition_simps app_same [OF m])
qed

lemma replay_fold_idle:
  assumes "\<And>d t. d \<in> set ds \<Longrightarrow> ts_app t = ts_app s \<Longrightarrow> deliver d t = (None, t)"
  shows "fold (replay_step deliver now) ds s = fold (replay_step (plain_delivery (\<lambda>_. None) (\<lambda>_ a. a)) now) ds s"
  using assms
proof (induction ds arbitrary: s)
  case (Cons d ds)
  note i = replay_step_idle [where deliver = deliver and d = d and a = "ts_app s" and s = s and now = now, OF Cons.prems(1)]
  have "fold (replay_step deliver now) ds (replay_step deliver now d s)
      = fold (replay_step (plain_delivery (\<lambda>_. None) (\<lambda>_ a. a)) now) ds (replay_step deliver now d s)"
    by (rule Cons.IH) (use Cons.prems i in simp)
  then show ?case using i(1) by simp
qed simp

lemma replay_idle:
  assumes "unique_keys ob_id (ts_outbox s)"
    and "\<And>d t. d \<in> set (listPendingOutbox s) \<Longrightarrow> ts_app t = ts_app s \<Longrightarrow> deliver d t = (None, t)"
  shows "ts_app (replayOutbox deliver now s) = ts_app s"
    and "d \<in> set (listPendingOutbox s) \<Longrightarrow>
      outbox_get (ob_id d) (replayOutbox deliver now s) = Some (settled_row (\<lambda>_. None) now d)"
proof -
  note f = replay_fold [OF assms(1) listed_ids [OF assms(1)] listed_row [OF assms(1)],
      where err = "\<lambda>_. None" and eff = "\<lambda>_ a. a" and now = now]
  have e: "replayOutbox deliver now s = fold (replay_step (plain_delivery (\<lambda>_. None) (\<lambda>_ a. a)) now) (listPendingOutbox s) s"
    unfolding replayOutbox_def by (rule replay_fold_idle) (use assms(2) in blast)
  have "fold (\<lambda>_ a. a) ds x = x" for ds :: "outbox_item list" and x :: 'a
    by (induction ds) simp_all
  with f e show "ts_app (replayOutbox deliver now s) = ts_app s" by simp
  assume d: "d \<in> set (listPendingOutbox s)"
  have "tbl_get ob_id (ob_id d) (listPendingOutbox s) = Some d"
    using tbl_get_unique [of ob_id "listPendingOutbox s" d] listed_ids [OF assms(1)] d by (simp add: unique_keys_def)
  with f [where j = "ob_id d"] e show "outbox_get (ob_id d) (replayOutbox deliver now s) = Some (settled_row (\<lambda>_. None) now d)"
    by simp
qed

lemma deliver_start_blocked:
  assumes "ob_kind item = ''START_EXECUTION_ACTOR''" and "ob_run item = Some (ru_id r)"
    and "getActiveForRun (ru_id r) (ap_strategies (ts_app s)) \<noteq> None"
  shows "deliverOutboxEffect en cx item s = (None, s)"
  using assms
  by (auto simp: deliverOutboxEffect_def deliverStartExecutionActor_def dest: run_get_id
      split: json.splits option.splits)

text \<open>
  A run whose earlier swarm or DAG was closed as \<open>RECOVERY_REQUIRED\<close> can never start an actor again. The ownership check
  admits its next dispatch, since such a record is \<open>ownership-terminal\<close>, and the commit
  consumes the dispatch; but the delivery of the start takes the same record for a
  running actor and does nothing. The effect is recorded as delivered and the run
  stays \<open>EXECUTOR_PENDING\<close>. The outbox may hold any delivered or failed rows but none that is still to be delivered, the two
  new rows do not meet a stored one, and the browser call is one that changes no table.
\<close>

theorem recovered_run_strands:
  assumes "active_run repo (ts_app s) = Some r" and "unique_keys ru_id (runs s)"
    and "listPendingOutbox s = []" and "unique_keys ob_id (ts_outbox s)"
    and "\<not> outbox_clash (outbox_row (cx_uuid cx 0) (cx_now cx) (close_sol repo (ru_id r) d)) s"
    and "\<not> outbox_clash (outbox_row (cx_uuid cx 1) (cx_now cx)
           (start_actor repo (ru_id r) d (resolveStrategy (Some q)) (plan_of (Some q)))) s"
    and "dispatch_get d (ap_dispatches (ts_app s)) = Some q" and "correlated repo r q" and "en_transition en"
    and "\<not> (ru_status r = DRAINING \<or> isDrainPending repo (Some r) (ts_app s))"
    and "ru_status r \<in> set DISPATCH_RECEPTIVE_STATES"
    and "getActiveForRun (ru_id r) (ap_strategies (ts_app s)) = Some st" and "sr_status st = SS_RECOVERY_REQUIRED"
    and "fresh_intent cx (SRC_DISPATCH, d, ''DISPATCH_START'') s" and "cx_uuid cx 0 \<noteq> cx_uuid cx 1"
    and "ru_id r \<noteq> []" and "d \<noteq> []" and "\<And>p i n t. en_completeSolOperation en p i n t = t"
  shows "status_of (ru_id r) (onDispatchDetected en cx repo d s) = Some EXECUTOR_PENDING
    \<and> dispatch_status_of d (onDispatchDetected en cx repo d s) = Some DI_consumed
    \<and> map_option ob_state (outbox_get (cx_uuid cx 1) (onDispatchDetected en cx repo d s)) = Some E_DELIVERED"
proof -
  have g: "run_get (ru_id r) (runs s) = Some r" using assms(1,2) by (simp add: active_run_def getActiveRun_get)
  have d: "di_id q = d" using assms(7) by (auto simp: dispatch_get_def dest: tbl_get_key)
  have cor: "di_run q = ru_id r" "di_status q = DI_detected" "di_iter q = ru_iter r + 1"
    using assms(8) by (simp_all add: correlated_def)
  have "live_strategy (ru_id r) (ts_app s) = None" using assms(12,13) by (simp add: live_strategy_def)
  then have "start_admitted r q (ts_app s)"
    using assms(11,17) cor d
    by (auto simp: start_admitted_def assertCampaignIterationOwnership_def seam_opts_def Let_def
        DISPATCH_RECEPTIVE_STATES_def)
  moreover obtain res tt where tx: "start_tx cx repo q r s = (res, tt)" by (cases "start_tx cx repo q r s")
  note e = start_tx_effect [OF assms(14) [folded d] g assms(7) [folded d] cor(2) assms(11) tx, unfolded d]
  ultimately have on: "onDispatchDetected en cx repo d s = replay en cx tt"
    using onDispatch_cases(2) [OF assms(1,7,8,9,10)] tx e(1) by simp
  let ?c = "outbox_row (cx_uuid cx 0) (cx_now cx) (close_sol repo (ru_id r) d)"
  let ?a = "outbox_row (cx_uuid cx 1) (cx_now cx)
     (start_actor repo (ru_id r) d (resolveStrategy (Some q)) (plan_of (Some q)))"
  have "es_key (close_sol repo (ru_id r) d) \<noteq> es_key (start_actor repo (ru_id r) d (resolveStrategy (Some q)) (plan_of (Some q)))"
    by (simp add: close_sol_def start_actor_def effect_of_def)
  from add_two_effects [where u = "cx_uuid cx", OF assms(5,6,15) this] e(5)
  have ob: "ts_outbox tt = ts_outbox s @ [?c, ?a]" by simp
  have l: "listPendingOutbox tt = [?c, ?a]"
    by (rule pending_appended [OF assms(3) ob, where now = "cx_now cx"]) (simp_all add: outbox_row_def)
  have u: "unique_keys ob_id (ts_outbox tt)" 
    using assms(4,5,6,15) by (auto simp: ob unique_keys_def outbox_row_def outbox_clash_def list_ex_iff)
  have idle: "deliverOutboxEffect en cx x t = (None, t)" if "x \<in> set (listPendingOutbox tt)" "ts_app t = ts_app tt" for x t
  proof -
    have "deliverOutboxEffect en cx ?c t = (None, t)"
      by (simp add: deliverOutboxEffect_def outbox_row_def close_sol_def effect_of_def assms(18))
    moreover have "deliverOutboxEffect en cx ?a t = (None, t)"
      by (rule deliver_start_blocked [where r = r])
        (use that(2) e(4) assms(12) in \<open>simp_all add: outbox_row_def start_actor_def effect_of_def\<close>)
    ultimately show ?thesis using that(1) l by auto
  qed
  note ri = replay_idle [OF u idle, where now = "cx_now cx"]
  have "outbox_get (cx_uuid cx 1) (replay en cx tt) = Some (settled_row (\<lambda>_. None) (cx_now cx) ?a)"
    using ri(2) [where d = ?a] l by (simp add: replay_def outbox_row_def)
  moreover have "map_option ru_status (run_get (ru_id r) (runs tt)) = Some EXECUTOR_PENDING"
    using e(2) by (cases "run_get (ru_id r) (runs tt)") simp_all
  ultimately show ?thesis
    using e(3) ri(1) by (simp add: on replay_def settled_row_def)
qed

lemma start_changes_status:
  assumes "\<And>q t. status_of i (snd (en_strategyStart en q t)) = status_of i t"
    and "\<And>p d b t. status_of i (snd (en_executorStart en p d b t)) = status_of i t"
    and "run_get i (runs s) = Some r"
  shows "case coord_start en cx repo r d plan st s of (None, s1) \<Rightarrow> status_of i s1 = Some EXECUTING
     | (Some e, s1) \<Rightarrow> status_of i (upd_app (start_failed cx repo i e) s1) = Some EXECUTOR_UNAVAILABLE"
proof -
  have i: "ru_id r = i" using run_get_id [OF assms(3)] .
  let ?s = "upd_app (\<lambda>a. updateStatus cx (ru_id r) EXECUTING no_updates (updateStatus cx (ru_id r) EXECUTOR_PENDING
     (no_updates\<lparr>up_dispatch := Some (coalesce (map_option di_id d) (ru_dispatch r)),
        up_iter := Some (case d of Some x \<Rightarrow> di_iter x | None \<Rightarrow> ru_iter r)\<rparr>) a)) s"
  have s: "status_of i ?s = Some EXECUTING" by (simp add: i loop_simps run_simps assms(3))
  have f: "status_of i (upd_app (start_failed cx repo i e) t) = Some EXECUTOR_UNAVAILABLE"
    if "status_of i t \<noteq> None" for e t
    using that by (cases "run_get i (runs t)") (simp_all add: start_failed_def unavailable_def loop_simps)
  have strat: "status_of i (snd (en_strategyStart en q ?s)) = Some EXECUTING" for q using assms(1) s by metis
  have exec: "status_of i (snd (en_executorStart en p x b ?s)) = Some EXECUTING" for p x b using assms(2) s by metis
  show ?thesis
  proof (cases "ap_shuttingDown (ts_app s)")
    case True
    then show ?thesis using f [of s] assms(3) by (simp add: coord_start_def)
  next
    case False
    have "status_of i (snd (coord_start en cx repo r d plan st s)) = Some EXECUTING"
      using strat exec False by (simp add: coord_start_def Let_def)
    then show ?thesis
      using f [of "snd (coord_start en cx repo r d plan st s)"]
      by (cases "coord_start en cx repo r d plan st s"; cases "fst (coord_start en cx repo r d plan st s)") simp_all
  qed
qed

lemma deliver_start_unless_pending:
  assumes "ob_kind item = ''START_EXECUTION_ACTOR''" and "ob_run item = Some i" and "status_of i s \<noteq> Some EXECUTOR_PENDING"
  shows "deliverOutboxEffect en cx item s = (None, s)"
  using assms
  by (auto simp: deliverOutboxEffect_def deliverStartExecutionActor_def split: json.splits option.splits)

lemma deliver_start_cases:
  assumes "ob_kind item = ''START_EXECUTION_ACTOR''" and "ob_run item = Some i"
    and "\<And>q t. status_of i (snd (en_strategyStart en q t)) = status_of i t"
    and "\<And>p d b t. status_of i (snd (en_executorStart en p d b t)) = status_of i t"
  shows "(\<forall>c. deliverOutboxEffect en c item s = (None, s))
    \<or> (status_of i (snd (deliverOutboxEffect en cx item s)) \<in> {Some EXECUTING, Some EXECUTOR_UNAVAILABLE})"
proof (cases "\<forall>c. deliverStartExecutionActor en c item s = s")
  case True
  then show ?thesis using assms(1) by (simp add: deliverOutboxEffect_def)
next
  case False
  then obtain c where c: "deliverStartExecutionActor en c item s \<noteq> s" by blast
  then have run: "truthy_id (ob_run item)" by (simp add: deliverStartExecutionActor_def split: if_splits)
  obtain p where pl: "ob_payload item = Json p"
    using c by (cases "ob_payload item") (auto simp: deliverStartExecutionActor_def split: if_splits)
  have t: "truthy_id (pl_dispatchId p)" using c pl by (simp add: deliverStartExecutionActor_def split: if_splits)
  obtain r where r: "run_get i (runs s) = Some r"
    using c pl assms(2) by (cases "run_get i (runs s)") (auto simp: deliverStartExecutionActor_def split: if_splits)
  have p: "ob_payload item = Json p" "truthy_id (pl_dispatchId p)" "run_get i (runs s) = Some r"
    "ru_status r = EXECUTOR_PENDING" "ru_dispatch r = pl_dispatchId p"
    "getActiveForRun (ru_id r) (ap_strategies (ts_app s)) = None" "truthy_id (ob_run item)"
    using c pl t r run assms(2) by (simp_all add: deliverStartExecutionActor_def split: if_splits)
  let ?d = "dispatch_get (the (pl_dispatchId p)) (ap_dispatches (ts_app s))"
  have i: "ru_id r = i" using run_get_id [OF p(3)] .
  have e: "deliverStartExecutionActor en cx item s = (case coord_start en cx (ob_repo item) r ?d
      (coalesce (pl_executionPlan p) (plan_of ?d)) (pl_strategy p) s of (None, s1) \<Rightarrow> s1
      | (Some e, s1) \<Rightarrow> upd_app (start_failed cx (ob_repo item) (ru_id r) e) s1)"
    using p assms(2) by (simp add: deliverStartExecutionActor_def Let_def)
  from start_changes_status [OF assms(3,4) p(3), of cx "ob_repo item" ?d "coalesce (pl_executionPlan p) (plan_of ?d)"
      "pl_strategy p"]
  have "status_of i (deliverStartExecutionActor en cx item s) \<in> {Some EXECUTING, Some EXECUTOR_UNAVAILABLE}"
    by (auto simp: e i split: prod.splits option.splits)
  then show ?thesis using assms(1) by (simp add: deliverOutboxEffect_def)
qed

text \<open>
  C2: delivering the start of an actor twice starts it once. Whether the first delivery started the actor, failed to or found
  nothing to do, a second delivery of the same effect, at any later clock, changes nothing.
  The engines are those that leave the status of the run to the coordinator.
\<close>

theorem start_delivered_once:
  assumes "ob_kind item = ''START_EXECUTION_ACTOR''" and "ob_run item = Some i"
    and "\<And>q t. status_of i (snd (en_strategyStart en q t)) = status_of i t"
    and "\<And>p d b t. status_of i (snd (en_executorStart en p d b t)) = status_of i t"
  shows "deliverOutboxEffect en cx' item (snd (deliverOutboxEffect en cx item s)) = (None, snd (deliverOutboxEffect en cx item s))"
  using deliver_start_cases [OF assms, of s cx]
proof
  assume "\<forall>c. deliverOutboxEffect en c item s = (None, s)"
  then show ?thesis by simp
next
  assume "status_of i (snd (deliverOutboxEffect en cx item s)) \<in> {Some EXECUTING, Some EXECUTOR_UNAVAILABLE}"
  then show ?thesis by (intro deliver_start_unless_pending [OF assms(1,2)]) auto
qed

text \<open>
  A stop entry of the repository ends whatever run is active. \<open>stopPending\<close> is kept per repository: a run without a drain of
  its own becomes \<open>STOPPED\<close> at its first valid dispatch while an entry is there, and the dispatch
  is consumed without starting an actor. The theorem is the drain at the Sol boundary read for such a run; that
  \<open>kill\<close> and \<open>startRun\<close> leave an entry in place is what its witness evaluates.
\<close>

theorem stale_stop_ends_next_run:
  assumes "active_run repo (ts_app s) = Some r" and "unique_keys ru_id (runs s)" and "ru_drain r = None"
    and "repo \<in> ap_stopPending (ts_app s)" and "repo \<notin> ap_ceilingPending (ts_app s)"
    and "dispatch_get d (ap_dispatches (ts_app s)) = Some q" and "correlated repo r q" and "en_transition en"
    and "fresh_intent cx (SRC_DISPATCH, d, ''DISPATCH_DRAIN'') s"
  shows "\<exists>tt. onDispatchDetected en cx repo d s = replay en cx tt \<and> status_of (ru_id r) tt = Some STOPPED
    \<and> dispatch_status_of d tt = Some DI_consumed
    \<and> fst (drain_tx cx repo d r s) =
        Inr \<lparr>ar_applied = True, ar_intent = cx_intent cx, ar_outbox = [close_sol repo (ru_id r) d]\<rparr>"
proof -
  have g: "run_get (ru_id r) (runs s) = Some r" using assms(1,2) by (simp add: active_run_def getActiveRun_get)
  have det: "di_status q = DI_detected" using assms(7) by (simp add: correlated_def)
  have n: "drain_of r (ts_app s) = None" using assms(3) g by (simp add: drain_of_def coalesce_def run_getDrainReason_def)
  have p: "isDrainPending repo (Some r) (ts_app s)" "isStopPendingEffective repo (Some r) (ts_app s)"
    "\<not> isCeilingPendingEffective repo (Some r) (ts_app s)"
    using assms(4,5) n by (simp_all add: isDrainPending_def isStopPendingEffective_def isCeilingPendingEffective_def)
  obtain res tt where tx: "drain_tx cx repo d r s = (res, tt)" by (cases "drain_tx cx repo d r s")
  note e = drain_tx_effect [OF assms(9) g assms(6) det disjI2 [OF p(1)] tx]
  have "onDispatchDetected en cx repo d s = replay en cx tt"
    using onDispatch_cases(1) [OF assms(1,6,7,8) disjI2 [OF p(1)]] tx e by metis
  with e tx p show ?thesis by (intro exI [of _ tt]) simp
qed

section \<open>Witnesses\<close>

definition demo_dispatch :: "ident \<Rightarrow> int \<Rightarrow> dispatch" where
  "demo_dispatch run n = \<lparr>di_id = ''d2'', di_repo = ''r'', di_run = run, di_iter = n, di_commit = ''c'', di_base = ''b'',
     di_change = ''p'', di_goal = ''g'', di_version = 1, di_status = DI_detected, di_reason = None, di_strategy = None,
     di_plan = None, di_created = 5, di_updated = 5\<rparr>"

definition quiet_env :: env where
  "quiet_env = demo_env (\<lambda>_ _ s. (W_submitted, s))"

lemma quiet_env_simps [simp]:
  "en_transition quiet_env" "en_completeSolOperation quiet_env p i n t = t"
  "en_strategyStart quiet_env q t = (None, t)" "en_executorStart quiet_env p d b t = (None, t)"
  by (simp_all add: quiet_env_def demo_env_def)

text \<open>A run is stopped while Sol works, then killed; the repository starts another run.\<close>

definition demo_next :: lstate where
  "demo_next = (let s1 = snd (coord_stop quiet_env demo_ctx ''r'' (demo_state [demo_run ''a'' SOL_PENDING]));
      s2 = snd (coord_kill quiet_env demo_ctx ''r'' s1);
      s3 = snd (startRun quiet_env (demo_ctx\<lparr>cx_now := 9\<rparr>) ''b'' ''r'' ''next goal'' None s2)
    in upd_app (\<lambda>a. a\<lparr>ap_dispatches := [demo_dispatch ''b'' 1]\<rparr>) s3)"

lemma demo_next_facts:
  "map_option (\<lambda>r. (ru_id r, ru_iter r, ru_drain r)) (active_run ''r'' (ts_app demo_next)) = Some (''b'', 0, None)"
  "unique_keys ru_id (runs demo_next)" "''r'' \<in> ap_stopPending (ts_app demo_next)"
  "''r'' \<notin> ap_ceilingPending (ts_app demo_next)" "ts_intents demo_next = []"
  by code_simp+

theorem stale_stop_ends_next_run_witness:
  "\<exists>tt. onDispatchDetected quiet_env demo_ctx ''r'' ''d2'' demo_next = replay quiet_env demo_ctx tt
     \<and> status_of ''b'' tt = Some STOPPED"
proof -
  obtain r where r: "active_run ''r'' (ts_app demo_next) = Some r" "ru_id r = ''b''" "ru_iter r = 0" "ru_drain r = None"
    using demo_next_facts(1) by (cases "active_run ''r'' (ts_app demo_next)") simp_all
  have d: "dispatch_get ''d2'' (ap_dispatches (ts_app demo_next)) = Some (demo_dispatch ''b'' 1)"
    by (simp add: demo_next_def Let_def dispatch_get_def table_simps demo_dispatch_def)
  have c: "correlated ''r'' r (demo_dispatch ''b'' 1)" using r by (simp add: correlated_def demo_dispatch_def)
  have f: "fresh_intent demo_ctx (SRC_DISPATCH, ''d2'', ''DISPATCH_DRAIN'') demo_next"
    by (simp add: fresh_intent_def has_intent_def demo_next_facts)
  from stale_stop_ends_next_run [OF r(1) demo_next_facts(2) r(4) demo_next_facts(3,4) d c quiet_env_simps(1) f] r(2)
  show ?thesis by auto
qed

definition demo_review :: "ident set \<Rightarrow> lstate" where
  "demo_review stops = upd_app (\<lambda>a. a\<lparr>ap_dispatches := [demo_dispatch ''a'' 2], ap_stopPending := stops,
     ap_strategies := [demo_strategy SS_RECOVERY_REQUIRED]\<rparr>) (demo_state [demo_run ''a'' SOL_REVIEWING])"

lemma demo_review_facts [simp]:
  "active_run ''r'' (ts_app (demo_review p)) = Some (demo_run ''a'' SOL_REVIEWING)"
  "runs (demo_review p) = [demo_run ''a'' SOL_REVIEWING]"
  "dispatch_get ''d2'' (ap_dispatches (ts_app (demo_review p))) = Some (demo_dispatch ''a'' 2)"
  "correlated ''r'' (demo_run ''a'' SOL_REVIEWING) (demo_dispatch ''a'' 2)"
  "ap_strategies (ts_app (demo_review p)) = [demo_strategy SS_RECOVERY_REQUIRED]"
  "isDrainPending ''r'' (Some (demo_run ''a'' SOL_REVIEWING)) (ts_app (demo_review p)) \<longleftrightarrow> ''r'' \<in> p"
  "fresh_intent demo_ctx k (demo_review p)" "ts_outbox (demo_review p) = []"
  by (simp_all add: demo_review_def active_run_def isTerminalLoopState_def dispatch_get_def table_simps demo_dispatch_def
      correlated_def isDrainPending_def drain_of_def run_getDrainReason_def coalesce_def fresh_intent_def has_intent_def)

theorem recovered_run_strands_witness:
  "let s' = onDispatchDetected quiet_env demo_ctx ''r'' ''d2'' (demo_review {}) in
     status_of ''a'' s' = Some EXECUTOR_PENDING \<and> dispatch_status_of ''d2'' s' = Some DI_consumed
     \<and> map_option ob_state (outbox_get ''a'' s') = Some E_DELIVERED"
  using recovered_run_strands [where r = "demo_run ''a'' SOL_REVIEWING" and s = "demo_review {}" and repo = "''r''"
      and d = "''d2''" and q = "demo_dispatch ''a'' 2" and en = quiet_env and st = "demo_strategy SS_RECOVERY_REQUIRED"
      and cx = demo_ctx]
  by (simp add: listPendingOutbox_def outbox_listByState_def order_asc_def outbox_clash_def unique_keys_def DISPATCH_RECEPTIVE_STATES_def demo_ctx_def [THEN arg_cong [where f = cx_uuid]] Let_def)

theorem drain_at_sol_boundary_witness:
  "\<exists>tt. onDispatchDetected quiet_env demo_ctx ''r'' ''d2'' (demo_review {''r''}) = replay quiet_env demo_ctx tt
     \<and> dispatch_status_of ''d2'' tt = Some DI_consumed"
  using drain_at_sol_boundary [where r = "demo_run ''a'' SOL_REVIEWING" and s = "demo_review {''r''}" and repo = "''r''"
      and d = "''d2''" and q = "demo_dispatch ''a'' 2" and en = quiet_env and cx = demo_ctx]
  by (auto simp: unique_keys_def)

theorem start_is_one_commit_witness:
  "\<exists>tt. onDispatchDetected quiet_env demo_ctx ''r'' ''d2'' (demo_review {}) = replay quiet_env demo_ctx tt
     \<and> map ob_kind (ts_outbox tt) = [''COMPLETE_SOL_OPERATION'', ''START_EXECUTION_ACTOR'']
     \<and> map_option (\<lambda>c. (ru_status c, ru_dispatch c, ru_iter c)) (run_get ''a'' (runs tt)) =
        Some (EXECUTOR_PENDING, Some ''d2'', 2)"
proof -
  have "start_admitted (demo_run ''a'' SOL_REVIEWING) (demo_dispatch ''a'' 2) (ts_app (demo_review {}))"
    by (simp add: start_admitted_def DISPATCH_RECEPTIVE_STATES_def demo_dispatch_def seam_opts_def live_strategy_def
        assertCampaignIterationOwnership_def Let_def resolveStrategy_def)
  moreover have "\<not> outbox_clash x (demo_review {})" for x by (simp add: outbox_clash_def)
  moreover have "cx_uuid demo_ctx 0 \<noteq> cx_uuid demo_ctx 1" by (simp add: demo_ctx_def)
  ultimately show ?thesis
    using start_is_one_commit [where r = "demo_run ''a'' SOL_REVIEWING" and s = "demo_review {}" and repo = "''r''"
      and d = "''d2''" and q = "demo_dispatch ''a'' 2" and en = quiet_env and cx = demo_ctx]
    by (auto simp: unique_keys_def outbox_row_def close_sol_def start_actor_def effect_of_def)
qed

definition demo_start :: outbox_item where
  "demo_start = outbox_row ''o'' 0 (start_actor ''r'' ''a'' ''d1'' SINGLE_AGENT None)"

theorem start_delivered_once_witness:
  "let s = demo_state [demo_run ''a'' EXECUTOR_PENDING]; s' = snd (deliverOutboxEffect quiet_env demo_ctx demo_start s) in
     status_of ''a'' s' = Some EXECUTING \<and> deliverOutboxEffect quiet_env demo_ctx demo_start s' = (None, s')"
proof -
  let ?s = "demo_state [demo_run ''a'' EXECUTOR_PENDING]"
  have "status_of ''a'' (snd (deliverOutboxEffect quiet_env demo_ctx demo_start ?s)) = Some EXECUTING"
    by code_simp
  moreover have "deliverOutboxEffect quiet_env demo_ctx demo_start (snd (deliverOutboxEffect quiet_env demo_ctx demo_start ?s))
      = (None, snd (deliverOutboxEffect quiet_env demo_ctx demo_start ?s))"
    by (rule start_delivered_once [where i = "''a''"]) (simp_all add: demo_start_def outbox_row_def start_actor_def effect_of_def)
  ultimately show ?thesis by (simp add: Let_def)
qed

end
