(* ===== verification/Loop_Completion.thy ===== *)
theory Loop_Completion
  imports Loop_Dispatch
begin

text \<open>
  The end of an iteration: \<open>onExecutorCompleted\<close>, \<open>onStrategyCompleted\<close>,
  \<open>applyIterationCompletion\<close>, \<open>continueCompletedIteration\<close>, \<open>markPostflightBlocked\<close> and
  \<open>completePostflightRetry\<close> of \<open>loop-service.ts\<close>, and \<open>handleStrategyCompleted\<close> and the
  postflight sweep of the coordinator. An executor result is read for its status only.
\<close>

section \<open>Completion records\<close>

definition iterationAlreadyCompleted :: "env \<Rightarrow> ident \<Rightarrow> lstate \<Rightarrow> bool" where
  "iterationAlreadyCompleted en d s = (if en_transition en then hasCompletedIterationFor d s
     else map_option di_status (dispatch_get d (ap_dispatches (ts_app s))) = Some DI_consumed)"

definition iterationCompletedSuccessfully :: "env \<Rightarrow> ident \<Rightarrow> lstate \<Rightarrow> bool" where
  "iterationCompletedSuccessfully en d s = (if en_transition en then hasSuccessfulCompletionFor d s
     else map_option di_status (dispatch_get d (ap_dispatches (ts_app s))) = Some DI_consumed)"

section \<open>After a successful iteration\<close>

definition at_boundary_ceiling :: string where
  "at_boundary_ceiling = ''Wall-clock ceiling reached (drained at boundary)''"
definition at_boundary_stop :: string where
  "at_boundary_stop = ''Stopped by user (drained at boundary)''"
definition at_boundary_other :: string where
  "at_boundary_other = ''Drained at boundary''"

definition if_draining :: "ident \<Rightarrow> (app \<Rightarrow> app) \<Rightarrow> app \<Rightarrow> app" where
  "if_draining i f a = (if map_option ru_status (run_get i (ap_runs a)) = Some DRAINING then f a else a)"

definition ceiling_gate :: "ctx \<Rightarrow> ident \<Rightarrow> ident \<Rightarrow> drain_reason \<Rightarrow> string \<Rightarrow> app \<Rightarrow> app" where
  "ceiling_gate cx repo i reason msg a = cancelWallClockCeiling repo (clearDrainReason cx i (del_ceiling repo
     (if_draining i (finish cx i CEILING_REACHED msg) (add_ceiling repo
       (updateStatus cx i DRAINING (no_updates\<lparr>up_drain := Some (Some reason)\<rparr>) a)))))"

definition continueCompletedIteration :: "env \<Rightarrow> ctx \<Rightarrow> ident \<Rightarrow> run \<Rightarrow> lstate \<Rightarrow> bool \<times> lstate" where
  "continueCompletedIteration en cx repo r s =
     (if ru_max r \<le> ru_iter r then
        (False, upd_app (ceiling_gate cx repo (ru_id r) ITERATION_CEILING ''Iteration ceiling reached (drained at boundary)'') s)
      else if isWallClockCeilingExceeded cx r (ts_app s) then
        (False, upd_app (ceiling_gate cx repo (ru_id r) WALL_CLOCK_CEILING at_boundary_ceiling) s)
      else (True, submitSolWakeForRun en cx repo r ''COMPLETED'' s))"

section \<open>Applying a completion\<close>

definition settle_at_boundary :: "ctx \<Rightarrow> ident \<Rightarrow> ident \<Rightarrow> bool \<Rightarrow> bool \<Rightarrow> app \<Rightarrow> app" where
  "settle_at_boundary cx repo i ceil stop =
     (if ceil then settle_ceiling cx repo i at_boundary_ceiling
      else if stop then settle_stop cx repo i at_boundary_stop else settle_generic cx repo i at_boundary_other)"

definition consume_if :: "ctx \<Rightarrow> bool \<Rightarrow> ident \<Rightarrow> app \<Rightarrow> app" where
  "consume_if cx b d a = (if b then consumeDispatch cx d a else a)"

definition drained_apply :: "ctx \<Rightarrow> ident \<Rightarrow> ident \<Rightarrow> ident \<Rightarrow> bool \<Rightarrow> bool \<Rightarrow> bool \<Rightarrow> app \<Rightarrow> string + effect_spec list \<times> app" where
  "drained_apply cx repo d i hasResult ceil stop a =
     Inr ([], if_draining i (settle_at_boundary cx repo i ceil stop) (consume_if cx hasResult d a))"

text \<open>The path without a transition releases the drain first and then closes the run.\<close>

definition drained_legacy :: "ctx \<Rightarrow> ident \<Rightarrow> ident \<Rightarrow> ident \<Rightarrow> bool \<Rightarrow> bool \<Rightarrow> bool \<Rightarrow> app \<Rightarrow> app" where
  "drained_legacy cx repo d i hasResult ceil stop a =
     (let a1 = consume_if cx hasResult d a in
      if ceil then if_draining i (finish cx i CEILING_REACHED at_boundary_ceiling)
        (cancelWallClockCeiling repo (clearDrainReason cx i (del_ceiling repo a1)))
      else if stop then if_draining i (finish cx i STOPPED at_boundary_stop)
        (cancelWallClockCeiling repo (clearDrainReason cx i (del_stop repo a1)))
      else if_draining i (finish cx i CEILING_REACHED at_boundary_other)
        (cancelWallClockCeiling repo (clearDrainReason cx i (del_stop repo (del_ceiling repo a1)))))"

definition wake_effect :: "ident \<Rightarrow> ident \<Rightarrow> ident \<Rightarrow> effect_spec" where
  "wake_effect repo i d = effect_of (''sol-wake:'' @ repo @ '':'' @ i @ '':'' @ d) ''SUBMIT_SOL_WAKE'' repo i
     (no_payload\<lparr>pl_resultStatus := Some ''COMPLETED''\<rparr>)"

definition complete_apply :: "ctx \<Rightarrow> ident \<Rightarrow> ident \<Rightarrow> ident \<Rightarrow> app \<Rightarrow> string + effect_spec list \<times> app" where
  "complete_apply cx repo d i a = Inr ([wake_effect repo i d], consumeDispatch cx d a)"

definition failure_message :: "loop_state \<Rightarrow> string option \<Rightarrow> string" where
  "failure_message st detail =
     (let base = (if st = RECOVERY_REQUIRED
            then ''Strategy turn completed without a valid result; treat as invalid/incomplete.''
            else ''Strategy reported '' @ loop_state_name st @ ''.'')
      in case detail of Some (c # cs) \<Rightarrow> base @ '' (publication: '' @ (c # cs) @ '')'' | _ \<Rightarrow> base)"

definition fail_apply :: "ctx \<Rightarrow> ident \<Rightarrow> ident \<Rightarrow> ident \<Rightarrow> bool \<Rightarrow> loop_state \<Rightarrow> string \<Rightarrow> app \<Rightarrow> string + effect_spec list \<times> app" where
  "fail_apply cx repo d i hasResult st msg a =
     (let a1 = consume_if cx hasResult d a in
      Inr ([], if run_get i (ap_runs a1) = None then a1
        else cancelWallClockCeiling repo (finish cx i st msg a1)))"

definition complete_opts :: "ctx \<Rightarrow> ident \<Rightarrow> ident \<Rightarrow> ident \<Rightarrow> app apply_opts" where
  "complete_opts cx repo d i = dispatch_opts cx ''COMPLETE'' repo d i (complete_apply cx repo d i)"

definition fail_opts :: "ctx \<Rightarrow> ident \<Rightarrow> ident \<Rightarrow> ident \<Rightarrow> bool \<Rightarrow> loop_state \<Rightarrow> string \<Rightarrow> app apply_opts" where
  "fail_opts cx repo d i hasResult st msg =
     dispatch_opts cx (''FAIL_'' @ loop_state_name st) repo d i (fail_apply cx repo d i hasResult st msg)"

definition drained_opts :: "ctx \<Rightarrow> ident \<Rightarrow> ident \<Rightarrow> run \<Rightarrow> bool \<Rightarrow> app \<Rightarrow> app apply_opts" where
  "drained_opts cx repo d r hasResult a =
     dispatch_opts cx (if hasResult then ''COMPLETE_DRAIN'' else ''FAIL_DRAIN'') repo d (ru_id r)
       (drained_apply cx repo d (ru_id r) hasResult (isCeilingPendingEffective repo (Some r) a)
          (isStopPendingEffective repo (Some r) a))"

text \<open>\<open>Inl\<close> is an error thrown to the caller.\<close>

definition applyIterationCompletion :: "env \<Rightarrow> ctx \<Rightarrow> ident \<Rightarrow> run \<Rightarrow> ident \<Rightarrow> bool \<Rightarrow> loop_state \<Rightarrow> bool \<Rightarrow> string option
     \<Rightarrow> lstate \<Rightarrow> string option \<times> lstate" where
  "applyIterationCompletion en cx repo r d isCompleted terminal hasResult detail s =
     (if ru_status r = DRAINING then
        (let a = ts_app s;
             legacy = upd_app (drained_legacy cx repo d (ru_id r) hasResult
               (isCeilingPendingEffective repo (Some r) a) (isStopPendingEffective repo (Some r) a))
         in (None, if en_transition en then
              (case transit cx (drained_opts cx repo d r hasResult a) s of
                 (Inr _, s1) \<Rightarrow> s1
               | (Inl _, s1) \<Rightarrow> legacy s1)
            else legacy s))
      else if isCompleted then
        (if en_transition en then
           (case transit cx (complete_opts cx repo d (ru_id r)) s of
              (Inl e, s1) \<Rightarrow> (Some e, s1)
            | (Inr _, s1) \<Rightarrow> (None, replay en cx s1))
         else (None, snd (continueCompletedIteration en cx repo r (upd_app (consumeDispatch cx d) s))))
      else (let msg = failure_message terminal detail;
                legacy = upd_app (\<lambda>a. cancelWallClockCeiling repo (updateStatus cx (ru_id r) terminal
                  (no_updates\<lparr>up_error := Some (Some msg), up_finished := Some (Some (cx_now cx))\<rparr>) a))
        in (None, if en_transition en then
             (case transit cx (fail_opts cx repo d (ru_id r) hasResult terminal msg) s of
                (Inr _, s1) \<Rightarrow> s1
              | (Inl _, s1) \<Rightarrow> legacy s1)
           else legacy s)))"

section \<open>Completion of the executor\<close>

datatype executor_status = ER_COMPLETED | ER_BLOCKED | ER_NEEDS_HUMAN | ER_FAILED

definition no_result_msg :: string where
  "no_result_msg = ''Executor turn completed without producing a valid, committed result manifest. Treat as invalid/incomplete, not success (E).''"

definition onExecutorCompleted ::
    "env \<Rightarrow> ctx \<Rightarrow> ident \<Rightarrow> ident \<Rightarrow> executor_status option \<Rightarrow> lstate \<Rightarrow> string option \<times> lstate" where
  "onExecutorCompleted en cx repo d result s = (case active_run repo (ts_app s) of None \<Rightarrow> (None, s)
     | Some r \<Rightarrow>
         if ru_status r = STOPPED \<or> ru_status r = RECOVERY_REQUIRED then (None, s)
         else if ru_status r = DRAINING then
           applyIterationCompletion en cx repo r d False RECOVERY_REQUIRED (result \<noteq> None) None s
         else (case result of
             None \<Rightarrow> (None, upd_app (mark_recovery cx (ru_id r) no_result_msg) s)
           | Some st \<Rightarrow> applyIterationCompletion en cx repo r d (st = ER_COMPLETED)
               (if st = ER_BLOCKED then BLOCKED else if st = ER_NEEDS_HUMAN then NEEDS_HUMAN else RECOVERY_REQUIRED)
               True None s))"

section \<open>Completion of a strategy\<close>

definition postflight_blocker :: "publish_result option \<Rightarrow> string" where
  "postflight_blocker remote = POSTFLIGHT_BLOCKED_PREFIX @ '' '' @ formatPostflightBlocker remote"

definition markPostflightBlocked :: "ctx \<Rightarrow> ident \<Rightarrow> strategy_run \<Rightarrow> publish_result option \<Rightarrow> app \<Rightarrow> app" where
  "markPostflightBlocked cx repo rec remote a = (let blocker = postflight_blocker remote in
     case run_get (sr_run rec) (ap_runs a) of None \<Rightarrow> a
     | Some r \<Rightarrow>
         if ru_status r = EXECUTOR_PENDING \<or> ru_status r = EXECUTING then
           cancelWallClockCeiling repo (mark_recovery cx (ru_id r) blocker a)
         else if ru_status r = RECOVERY_REQUIRED then
           updateStatus cx (ru_id r) RECOVERY_REQUIRED (no_updates\<lparr>up_error := Some (Some blocker)\<rparr>) a
         else if ru_status r = DRAINING then
           mark_recovery cx (ru_id r) blocker (cancelWallClockCeiling repo (clearDrainReason cx (ru_id r)
             (del_stop repo (del_ceiling repo a))))
         else a)"

definition onStrategyCompleted :: "env \<Rightarrow> ctx \<Rightarrow> ident \<Rightarrow> ident \<Rightarrow> strategy_status \<Rightarrow> strategy_run
     \<Rightarrow> publish_result option \<Rightarrow> lstate \<Rightarrow> string option \<times> lstate" where
  "onStrategyCompleted en cx repo d st rec remote s = (case active_run repo (ts_app s) of None \<Rightarrow> (None, s)
     | Some r \<Rightarrow>
         if ru_status r = STOPPED \<or> ru_status r = RECOVERY_REQUIRED then (None, s)
         else if iterationAlreadyCompleted en d s then (None, s)
         else if st = SS_COMPLETED \<and> \<not> isRemotePublishConfirmed remote then
           (None, upd_app (markPostflightBlocked cx repo rec remote) s)
         else if ru_status r = DRAINING then
           applyIterationCompletion en cx repo r d (st = SS_COMPLETED) RECOVERY_REQUIRED True None s
         else if st = SS_COMPLETED then
           applyIterationCompletion en cx repo r d True RECOVERY_REQUIRED True None s
         else applyIterationCompletion en cx repo r d False
             (if st = SS_PARTIAL \<or> st = SS_BLOCKED then BLOCKED else RECOVERY_REQUIRED) True
             (if isRemotePublishConfirmed remote then None else Some (formatPostflightBlocker remote)) s)"

definition strategy_error :: "ctx \<Rightarrow> ident \<Rightarrow> string option \<Rightarrow> app \<Rightarrow> app" where
  "strategy_error cx i e a =
     a\<lparr>ap_strategies := snd (strategy_update i (no_patch\<lparr>sp_error := Some e\<rparr>) (cx_now cx) (ap_strategies a))\<rparr>"

definition publish :: "env \<Rightarrow> strategy_run \<Rightarrow> lstate \<Rightarrow> publish_result \<times> lstate" where
  "publish en rec s = (case en_publish en rec s of
       (Inr p, s1) \<Rightarrow> (p, s1)
     | (Inl e, s1) \<Rightarrow> (\<lparr>pb_status = PB_BLOCKED, pb_pushed = None, pb_result = None, pb_verified = False,
                         pb_blocker = Some (or_default (Some e) ''Error'')\<rparr>, s1))"

definition handleStrategyCompleted :: "env \<Rightarrow> ctx \<Rightarrow> ident \<Rightarrow> strategy_run \<Rightarrow> lstate \<Rightarrow> lstate" where
  "handleStrategyCompleted en cx repo rec s =
     (if \<not> truthy_id (sr_dispatch rec) then s
      else if repo_get repo (ts_app s) = None then s
      else (case (if sr_report rec \<noteq> None then map_prod Some id (publish en rec s) else (None, s)) of
          (remote, s1) \<Rightarrow>
            (let s2 = (if sr_status rec \<in> {SS_COMPLETED, SS_PARTIAL, SS_BLOCKED} \<and> \<not> isRemotePublishConfirmed remote
                  then upd_app (strategy_error cx (sr_id rec) (Some (postflight_blocker remote))) s1 else s1)
             in snd (onStrategyCompleted en cx repo (the (sr_dispatch rec)) (sr_status rec) rec remote s2))))"

section \<open>Retrying a postflight\<close>

datatype retry_outcome = WAKE_SUBMITTED | CAMPAIGN_CLOSED | ALREADY_APPLIED

definition postflight_opts :: "ctx \<Rightarrow> ident \<Rightarrow> ident \<Rightarrow> ident \<Rightarrow> app apply_opts" where
  "postflight_opts cx repo d i =
     dispatch_opts cx ''POSTFLIGHT_COMPLETE'' repo d i (\<lambda>a. Inr ([], consumeDispatch cx d a))"

definition closed_states :: "loop_state list" where
  "closed_states = [STOPPED, CEILING_REACHED, GOAL_COMPLETE, BLOCKED, NEEDS_HUMAN, SOL_STALLED, EXECUTOR_UNAVAILABLE,
     ATTENTION_REQUIRED, DRAINING]"

definition completePostflightRetry ::
    "env \<Rightarrow> ctx \<Rightarrow> ident \<Rightarrow> strategy_run \<Rightarrow> lstate \<Rightarrow> (string + retry_outcome) \<times> lstate" where
  "completePostflightRetry en cx repo rec s =
     (if \<not> truthy_id (sr_dispatch rec) then (Inr ALREADY_APPLIED, s)
      else (let d = the (sr_dispatch rec) in
        if dispatch_get d (ap_dispatches (ts_app s)) = None then (Inr ALREADY_APPLIED, s)
        else if iterationAlreadyCompleted en d s then (Inr ALREADY_APPLIED, s)
        else (case run_get (sr_run rec) (runs s) of None \<Rightarrow> (Inr ALREADY_APPLIED, s)
          | Some r \<Rightarrow>
              if ru_status r \<in> {EXECUTING, EXECUTOR_PENDING, SOL_PENDING, SOL_REVIEWING} then (Inr ALREADY_APPLIED, s)
              else (case (if en_transition en then transit cx (postflight_opts cx repo d (ru_id r)) s
                     else (Inr \<lparr>ar_applied = True, ar_intent = [], ar_outbox = []\<rparr>, upd_app (consumeDispatch cx d) s)) of
                  (Inl e, s1) \<Rightarrow> (Inl e, s1)
                | (Inr _, s1) \<Rightarrow> if ru_status r \<in> set closed_states then (Inr CAMPAIGN_CLOSED, s1)
                    else (case continueCompletedIteration en cx repo r s1 of
                        (woke, s2) \<Rightarrow> (Inr (if woke then WAKE_SUBMITTED else CAMPAIGN_CLOSED), s2))))))"

record postflight_summary =
  ps_candidates :: "strategy_run list"
  ps_republished :: nat
  ps_confirmed :: nat
  ps_blocked :: nat
  ps_failures :: "string list"

definition sweep_record :: "env \<Rightarrow> ctx \<Rightarrow> ident \<Rightarrow> strategy_run \<Rightarrow> postflight_summary \<times> lstate \<Rightarrow> postflight_summary \<times> lstate" where
  "sweep_record en cx repo rec = (\<lambda>(p, s).
     if sr_status rec \<noteq> SS_COMPLETED \<or> sr_report rec = None \<or> \<not> truthy_id (sr_dispatch rec) then (p, s)
     else (let d = the (sr_dispatch rec) in
       if dispatch_get d (ap_dispatches (ts_app s)) = None \<or> iterationAlreadyCompleted en d s then (p, s)
       else (case publish en rec s of (remote, s1) \<Rightarrow>
         (let p1 = p\<lparr>ps_candidates := ps_candidates p @ [rec], ps_republished := ps_republished p + 1\<rparr> in
          if isRemotePublishConfirmed (Some remote) then
            (case completePostflightRetry en cx repo rec (upd_app (strategy_error cx (sr_id rec) None) s1) of
               (Inr _, s2) \<Rightarrow> (p1\<lparr>ps_confirmed := ps_confirmed p1 + 1\<rparr>, s2)
             | (Inl e, s2) \<Rightarrow> (p1\<lparr>ps_failures := ps_failures p1 @ [sr_id rec @ '': '' @ e]\<rparr>, s2))
          else (p1\<lparr>ps_blocked := ps_blocked p1 + 1\<rparr>,
                upd_app (\<lambda>a. markPostflightBlocked cx repo rec (Some remote)
                  (strategy_error cx (sr_id rec) (Some (postflight_blocker (Some remote))) a)) s1)))))"

definition sweepPendingPostflights :: "env \<Rightarrow> ctx \<Rightarrow> ident \<Rightarrow> lstate \<Rightarrow> postflight_summary \<times> lstate" where
  "sweepPendingPostflights en cx repo s =
     (let p = \<lparr>ps_candidates = [], ps_republished = 0, ps_confirmed = 0, ps_blocked = 0, ps_failures = []\<rparr> in
      if repo_get repo (ts_app s) = None then (p, s)
      else fold (\<lambda>r (p, s). fold (sweep_record en cx repo) (listByRun (ru_id r) (ap_strategies (ts_app s))) (p, s))
        (run_getByRepository repo (runs s)) (p, s))"

text \<open>One sweep at a time per repository, so a retry is a sweep.\<close>

definition retryPendingPostflight :: "env \<Rightarrow> ctx \<Rightarrow> ident \<Rightarrow> lstate \<Rightarrow> postflight_summary \<times> lstate" where
  "retryPendingPostflight en cx repo s = sweepPendingPostflights en cx repo s"

definition retryAllPendingPostflights :: "env \<Rightarrow> ctx \<Rightarrow> lstate \<Rightarrow> postflight_summary list \<times> lstate" where
  "retryAllPendingPostflights en cx s = fold (\<lambda>repo (ps, s).
     case retryPendingPostflight en cx repo s of (p, s1) \<Rightarrow> (ps @ [p], s1)) (map rc_id (ap_repos (ts_app s))) ([], s)"

section \<open>Lemmas\<close>

lemma if_draining_status: "map_option ru_status (run_get i (ap_runs a)) = Some DRAINING \<Longrightarrow> if_draining i f a = f a"
  by (simp add: if_draining_def)

lemma consume_if_simps [loop_simps]:
  "ap_runs (consume_if cx b d a) = ap_runs a" "ap_stopPending (consume_if cx b d a) = ap_stopPending a"
  "ap_ceilingPending (consume_if cx b d a) = ap_ceilingPending a"
  "ap_strategies (consume_if cx b d a) = ap_strategies a"
  by (simp_all add: consume_if_def loop_simps)

lemma consume_if_status:
  "map_option di_status (dispatch_get d (ap_dispatches (consume_if cx b d a))) =
     (if b then map_option (\<lambda>_. DI_consumed) (dispatch_get d (ap_dispatches a))
      else map_option di_status (dispatch_get d (ap_dispatches a)))"
  by (simp add: consume_if_def loop_simps run_simps option.map_comp comp_def)

lemma finish_simps [loop_simps]:
  "map_option ru_status (run_get j (ap_runs (finish cx i st msg a))) =
     (if j = i then map_option (\<lambda>_. st) (run_get i (ap_runs a)) else map_option ru_status (run_get j (ap_runs a)))"
  "ap_dispatches (finish cx i st msg a) = ap_dispatches a" "ap_strategies (finish cx i st msg a) = ap_strategies a"
  "ap_stopPending (finish cx i st msg a) = ap_stopPending a" "ap_ceilingPending (finish cx i st msg a) = ap_ceilingPending a"
  by (simp_all add: finish_def loop_simps)

lemma mark_recovery_simps [loop_simps]:
  "map_option ru_status (run_get j (ap_runs (mark_recovery cx i msg a))) =
     (if j = i then map_option (\<lambda>_. RECOVERY_REQUIRED) (run_get i (ap_runs a))
      else map_option ru_status (run_get j (ap_runs a)))"
  "ap_dispatches (mark_recovery cx i msg a) = ap_dispatches a" "ap_strategies (mark_recovery cx i msg a) = ap_strategies a"
  "ap_stopPending (mark_recovery cx i msg a) = ap_stopPending a"
  "ap_ceilingPending (mark_recovery cx i msg a) = ap_ceilingPending a"
  by (simp_all add: mark_recovery_def loop_simps)

lemma transit_never_throws:
  assumes "\<And>a. \<exists>r. eo_apply c a = Inr r"
  shows "\<exists>x s1. transit cx c s = (Inr x, s1)"
proof -
  obtain specs a where "eo_apply c (ts_app s) = Inr (specs, a)" using assms [of "ts_app s"] by auto
  then show ?thesis by (simp add: transit_def enqueueAndApply_eq)
qed

lemma transit_records:
  assumes "transit cx c s = (Inr x, s1)" and "cx_intent cx \<notin> it_id ` set (ts_intents s)"
  shows "has_intent (eo_key c) s1"
  using assms by (auto simp: transit_def enqueueAndApply_eq has_intent_def intent_clash_def list_ex_iff
      rev_image_eqI split: if_splits sum.splits prod.splits)

lemma completion_recorded:
  assumes "has_intent (SRC_DISPATCH, d, oper) s" and "oper \<noteq> ''DISPATCH_START''" and "oper \<noteq> ''DISPATCH_DRAIN''"
  shows "hasCompletedIterationFor d s"
  using assms by (auto simp: hasCompletedIterationFor_def hasIntentForSourceExcluding_def has_intent_def list_ex_iff
      intent_key_def)

section \<open>Completion at a drain boundary\<close>

text \<open>
  A completion that finds the run draining closes it and wakes nobody. With a new transition the run becomes \<open>CEILING_REACHED\<close> if
  a ceiling is pending or no reason is known, else \<open>STOPPED\<close>; the dispatch is consumed
  exactly when there is a result; no effect enters the outbox, and the completion is
  recorded, so no later one for the dispatch is applied.
\<close>

theorem drained_completion:
  assumes "run_get (ru_id r) (runs s) = Some r" and "ru_status r = DRAINING" and "en_transition en"
    and "fresh_intent cx (SRC_DISPATCH, d, if hasResult then ''COMPLETE_DRAIN'' else ''FAIL_DRAIN'') s"
  shows "let s' = snd (applyIterationCompletion en cx repo r d isCompleted terminal hasResult detail s) in
    status_of (ru_id r) s' = Some (if isCeilingPendingEffective repo (Some r) (ts_app s) then CEILING_REACHED
       else if isStopPendingEffective repo (Some r) (ts_app s) then STOPPED else CEILING_REACHED)
    \<and> dispatch_status_of d s' = (if hasResult then map_option (\<lambda>_. DI_consumed) (dispatch_get d (ap_dispatches (ts_app s)))
         else dispatch_status_of d s)
    \<and> ts_outbox s' = ts_outbox s \<and> iterationAlreadyCompleted en d s'"
proof -
  let ?c = "drained_opts cx repo d r hasResult (ts_app s)"
  let ?a = "settle_at_boundary cx repo (ru_id r) (isCeilingPendingEffective repo (Some r) (ts_app s))
     (isStopPendingEffective repo (Some r) (ts_app s)) (consume_if cx hasResult d (ts_app s))"
  have k: "eo_key ?c = (SRC_DISPATCH, d, if hasResult then ''COMPLETE_DRAIN'' else ''FAIL_DRAIN'')"
    by (simp add: drained_opts_def)
  have f: "eo_apply ?c (ts_app s) = Inr ([], ?a)"
    using assms(1,2) by (simp add: drained_opts_def drained_apply_def if_draining_def loop_simps)
  note e = transit_fresh [OF assms(4) [folded k] f]
  obtain x s1 where t: "transit cx ?c s = (Inr x, s1)" using e(1) by (cases "transit cx ?c s") simp
  have s': "snd (applyIterationCompletion en cx repo r d isCompleted terminal hasResult detail s) = s1"
    using assms(2,3) t by (simp add: applyIterationCompletion_def Let_def)
  have "has_intent (eo_key ?c) s1"
    using transit_records [OF t] assms(4) by (simp add: fresh_intent_def)
  then have "hasCompletedIterationFor d s1"
    by (intro completion_recorded [where oper = "if hasResult then ''COMPLETE_DRAIN'' else ''FAIL_DRAIN''"])
      (simp_all add: k)
  moreover have "ts_app s1 = ?a" "ts_outbox s1 = ts_outbox s"
    using e(2,3) t by (simp_all add: add_effects_def)
  ultimately show ?thesis
    using assms(1,3) by (simp add: s' Let_def settle_at_boundary_def loop_simps consume_if_status
        iterationAlreadyCompleted_def)
qed

section \<open>The publication gate\<close>

lemma blocked_effect:
  "ap_dispatches (markPostflightBlocked cx repo rec remote a) = ap_dispatches a"
  "map_option ru_status (run_get i (ap_runs (markPostflightBlocked cx repo rec remote a))) =
     (if i = sr_run rec \<and> map_option ru_status (run_get i (ap_runs a)) \<in> {Some EXECUTOR_PENDING, Some EXECUTING, Some DRAINING}
      then Some RECOVERY_REQUIRED else map_option ru_status (run_get i (ap_runs a)))"
proof -
  show "ap_dispatches (markPostflightBlocked cx repo rec remote a) = ap_dispatches a"
    by (simp add: markPostflightBlocked_def Let_def loop_simps split: option.split)
  show "map_option ru_status (run_get i (ap_runs (markPostflightBlocked cx repo rec remote a))) =
     (if i = sr_run rec \<and> map_option ru_status (run_get i (ap_runs a)) \<in> {Some EXECUTOR_PENDING, Some EXECUTING, Some DRAINING}
      then Some RECOVERY_REQUIRED else map_option ru_status (run_get i (ap_runs a)))"
  proof (cases "run_get (sr_run rec) (ap_runs a)")
    case (Some r)
    have "ru_id r = sr_run rec" using run_get_id [OF Some] .
    with Some show ?thesis
      by (auto simp: markPostflightBlocked_def Let_def loop_simps run_get_clearDrain option.map_comp comp_def)
  qed (auto simp: markPostflightBlocked_def)
qed

text \<open>
  C4: an engine success whose publication is not confirmed is never taken for one. The callback consumes no dispatch, commits no
  transition and wakes nobody; it changes the status of no run but the record's
  own, and that one only from a working or draining state to \<open>RECOVERY_REQUIRED\<close>, so it is
  never left \<open>DRAINING\<close>.
\<close>

theorem unconfirmed_success_blocked:
  assumes "\<not> isRemotePublishConfirmed remote"
  shows "let s' = snd (onStrategyCompleted en cx repo d SS_COMPLETED rec remote s) in
    ap_dispatches (ts_app s') = ap_dispatches (ts_app s) \<and> ts_intents s' = ts_intents s \<and> ts_outbox s' = ts_outbox s
    \<and> (status_of i s' = status_of i s \<or> (i = sr_run rec \<and> status_of i s' = Some RECOVERY_REQUIRED
         \<and> status_of i s \<in> {Some EXECUTOR_PENDING, Some EXECUTING, Some DRAINING}))"
proof -
  have "snd (onStrategyCompleted en cx repo d SS_COMPLETED rec remote s) = s
    \<or> snd (onStrategyCompleted en cx repo d SS_COMPLETED rec remote s) = upd_app (markPostflightBlocked cx repo rec remote) s"
    using assms by (simp add: onStrategyCompleted_def split: option.split)
  then show ?thesis
    by (elim disjE) (auto simp: Let_def blocked_effect)
qed

section \<open>Applied once\<close>

lemma failed_completion:
  assumes "en_transition en" and "cx_intent cx \<notin> it_id ` set (ts_intents s)"
    and "ru_status r = DRAINING \<or> \<not> isCompleted"
  shows "fst (applyIterationCompletion en cx repo r d isCompleted terminal hasResult detail s) = None"
    and "hasCompletedIterationFor d (snd (applyIterationCompletion en cx repo r d isCompleted terminal hasResult detail s))"
proof -
  let ?c = "if ru_status r = DRAINING then drained_opts cx repo d r hasResult (ts_app s)
     else fail_opts cx repo d (ru_id r) hasResult terminal (failure_message terminal detail)"
  have "\<exists>x s1. transit cx ?c s = (Inr x, s1)"
    by (rule transit_never_throws) (simp add: drained_opts_def drained_apply_def fail_opts_def fail_apply_def Let_def)
  then obtain x s1 where t: "transit cx ?c s = (Inr x, s1)" by blast
  then have a: "applyIterationCompletion en cx repo r d isCompleted terminal hasResult detail s = (None, s1)"
    using assms(1,3) by (auto simp: applyIterationCompletion_def Let_def)
  have "has_intent (eo_key ?c) s1" using transit_records [OF t assms(2)] .
  then have "hasCompletedIterationFor d s1"
    by (auto simp: drained_opts_def fail_opts_def split: if_splits intro: completion_recorded)
  with a show "fst (applyIterationCompletion en cx repo r d isCompleted terminal hasResult detail s) = None"
    "hasCompletedIterationFor d (snd (applyIterationCompletion en cx repo r d isCompleted terminal hasResult detail s))"
    by simp_all
qed

text \<open>
  C3: an unsuccessful completion is applied once. Whatever a first callback with another outcome than \<open>COMPLETED\<close>
  did, a later callback for the same dispatch, with any outcome, record and
  publication, changes nothing and does not throw. Hypotheses: the ownership transition is wired and draws a new intent
  identifier, and the first callback finds an active run of the repository that is neither \<open>STOPPED\<close> nor
  \<open>RECOVERY_REQUIRED\<close>.
\<close>

theorem completion_applied_once:
  assumes "en_transition en" and "cx_intent cx \<notin> it_id ` set (ts_intents s)" and "st \<noteq> SS_COMPLETED"
    and "onStrategyCompleted en cx repo d st rec remote s = (e, tt)" and "active_run repo (ts_app s) = Some r"
    and "ru_status r \<noteq> STOPPED" and "ru_status r \<noteq> RECOVERY_REQUIRED"
  shows "e = None \<and> onStrategyCompleted en cx' repo d st' rec' remote' tt = (None, tt)"
proof -
  have "e = None \<and> hasCompletedIterationFor d tt"
  proof (cases "iterationAlreadyCompleted en d s")
    case True
    then show ?thesis using assms by (simp add: onStrategyCompleted_def iterationAlreadyCompleted_def)
  next
    case False
    have f: "fst (applyIterationCompletion en cx repo r d False b h m s) = None"
      "hasCompletedIterationFor d (snd (applyIterationCompletion en cx repo r d False b h m s))" for b h m
      using failed_completion [OF assms(1,2), where r = r and isCompleted = False] by simp_all
    show ?thesis
    proof (cases "ru_status r = DRAINING")
      case True
      then have "onStrategyCompleted en cx repo d st rec remote s
          = applyIterationCompletion en cx repo r d False RECOVERY_REQUIRED True None s"
        using assms False by (simp add: onStrategyCompleted_def)
      with f [of RECOVERY_REQUIRED True None] assms(4) show ?thesis by simp
    next
      case nd: False
      then obtain b m where "onStrategyCompleted en cx repo d st rec remote s = applyIterationCompletion en cx repo r d False b True m s"
        using assms(3,5-7) False nd unfolding onStrategyCompleted_def by auto
      with f [of b True m] assms(4) show ?thesis by simp
    qed
  qed
  then show ?thesis
    using assms(1) by (simp add: onStrategyCompleted_def iterationAlreadyCompleted_def split: option.split)
qed

section \<open>The ceilings after a success\<close>

lemma replay_single:
  assumes "listPendingOutbox s = []" and "\<not> outbox_clash row s" and "ts_outbox t = ts_outbox s @ [row]" and "ob_state row = E_PENDING"
  shows "ts_app (replayOutbox deliver now t) = ts_app (snd (deliver row (fst (markDelivering (ob_id row) now t))))"
proof -
  have "listPendingOutbox t = [row]"
    by (rule pending_appended [OF assms(1,3), where now = "ob_created row"]) (simp_all add: assms(4))
  moreover have "snd (markDelivering (ob_id row) now t)"
    using assms(2-4) by (auto simp: markDelivering_def Let_def outbox_clash_def list_ex_iff filter_empty_conv)
  ultimately show ?thesis
    using assms(4) by (simp add: replayOutbox_def replay_step_def split_beta transition_simps split: option.split)
qed

lemma ceiling_gate_status:
  "map_option ru_status (run_get i (ap_runs (ceiling_gate cx repo i reason msg a))) =
     map_option (\<lambda>_. CEILING_REACHED) (run_get i (ap_runs a))"
  "ap_ceilingPending (ceiling_gate cx repo i reason msg a) = ap_ceilingPending a - {repo}"
proof -
  let ?b = "add_ceiling repo (updateStatus cx i DRAINING (no_updates\<lparr>up_drain := Some (Some reason)\<rparr>) a)"
  have b: "map_option ru_status (run_get i (ap_runs ?b)) = map_option (\<lambda>_. DRAINING) (run_get i (ap_runs a))"
    by (simp add: loop_simps)
  have "map_option ru_status (run_get i (ap_runs (if_draining i (finish cx i CEILING_REACHED msg) ?b))) =
     map_option (\<lambda>_. CEILING_REACHED) (run_get i (ap_runs a))"
    by (cases "run_get i (ap_runs a)") (simp_all add: if_draining_def loop_simps run_simps)
  then show "map_option ru_status (run_get i (ap_runs (ceiling_gate cx repo i reason msg a))) =
     map_option (\<lambda>_. CEILING_REACHED) (run_get i (ap_runs a))"
    by (simp add: ceiling_gate_def loop_simps run_get_clearDrain option.map_comp comp_def)
  show "ap_ceilingPending (ceiling_gate cx repo i reason msg a) = ap_ceilingPending a - {repo}"
    by (simp add: ceiling_gate_def if_draining_def loop_simps)
qed

lemma submitted_wake_status:
  assumes "repo_get repo (ts_app s) = Some rc" and "\<And>p w t. en_submitSolWake en p w t = (W_submitted, t)"
    and "run_get (ru_id r) (runs s) = Some cur" and "ru_status cur \<notin> {DRAINING, STOPPED, CEILING_REACHED}"
    and "\<not> isDrainPending repo (Some cur) (ts_app s)"
  shows "status_of (ru_id r) (submitSolWakeForRun en cx repo r result s) = Some SOL_REVIEWING"
  using assms(3-5) unfolding submit_cases [OF assms(1,2)]
  by (simp add: wake_returned_def loop_simps)

lemma isDrainPending_cong:
  "ap_runs a = ap_runs b \<Longrightarrow> ap_stopPending a = ap_stopPending b \<Longrightarrow> ap_ceilingPending a = ap_ceilingPending b \<Longrightarrow>
     isDrainPending repo r a = isDrainPending repo r b"
  by (simp add: isDrainPending_def drain_of_def split: option.split)

text \<open>
  With the durable transition the iteration ceiling is not enforced. For a successful completion of a run that has used all its
  iterations, the path without a transition closes the run as \<open>CEILING_REACHED\<close>; the
  transition path, which production wires, commits the wake without looking at
  \<open>maxIterations\<close> or the clock, and once it is delivered Sol reviews and may dispatch again. The browser is one
  that accepts the wake at once, no drain is pending, the intent of the completion is new, and the outbox
  holds no row that is still to be delivered and none that meets the new one.
\<close>

theorem iteration_ceiling_needs_legacy_path:
  assumes "run_get (ru_id r) (runs s) = Some r" and "ru_status r = EXECUTING" and "ru_max r \<le> ru_iter r"
    and "\<not> isDrainPending repo (Some r) (ts_app s)" and "repo_get repo (ts_app s) = Some rc"
    and "listPendingOutbox s = []" and "\<not> outbox_clash (outbox_row (cx_uuid cx 0) (cx_now cx) (wake_effect repo (ru_id r) d)) s"
    and "fresh_intent cx (SRC_DISPATCH, d, ''COMPLETE'') s" and "ru_id r \<noteq> []"
    and "\<And>p w t. en_submitSolWake en p w t = (W_submitted, t)"
  shows "status_of (ru_id r) (snd (applyIterationCompletion en cx repo r d True terminal True None s))
    = Some (if en_transition en then SOL_REVIEWING else CEILING_REACHED)"
proof (cases "en_transition en")
  case False
  then show ?thesis
    using assms(1-3) by (simp add: applyIterationCompletion_def continueCompletedIteration_def ceiling_gate_status loop_simps)
next
  case True
  let ?c = "complete_opts cx repo d (ru_id r)"
  let ?row = "outbox_row (cx_uuid cx 0) (cx_now cx) (wake_effect repo (ru_id r) d)"
  have f: "eo_apply ?c (ts_app s) = Inr ([wake_effect repo (ru_id r) d], consumeDispatch cx d (ts_app s))"
    by (simp add: complete_opts_def complete_apply_def)
  have k: "eo_key ?c = (SRC_DISPATCH, d, ''COMPLETE'')" by (simp add: complete_opts_def)
  note e = transit_fresh [OF assms(8) [folded k] f]
  obtain x tt where t: "transit cx ?c s = (Inr x, tt)" using e(1) by (cases "transit cx ?c s") simp
  have app: "ts_app tt = consumeDispatch cx d (ts_app s)" using e(2) t by simp
  have ob: "ts_outbox tt = ts_outbox s @ [?row]"
    using e(3) t add_one_effect [where u = "cx_uuid cx", OF assms(7)] by (simp add: add_effects_app)
  let ?m = "fst (markDelivering (ob_id ?row) (cx_now cx) tt)"
  have m: "ts_app ?m = consumeDispatch cx d (ts_app s)" by (simp add: transition_simps app)
  have del: "snd (deliverOutboxEffect en cx ?row ?m) = submitSolWakeForRun en cx repo r ''COMPLETED'' ?m"
    using assms(1,9) m
    by (simp add: deliverOutboxEffect_def outbox_row_def wake_effect_def effect_of_def effect_status_def or_default_def
        loop_simps)
  have "status_of (ru_id r) (submitSolWakeForRun en cx repo r ''COMPLETED'' ?m) = Some SOL_REVIEWING"
  proof (rule submitted_wake_status [OF _ assms(10)])
    show "repo_get repo (ts_app ?m) = Some rc" using assms(5) m by (simp add: repo_get_def consumeDispatch_def)
    show "run_get (ru_id r) (runs ?m) = Some r" using assms(1) m by (simp add: loop_simps)
    show "ru_status r \<notin> {DRAINING, STOPPED, CEILING_REACHED}" using assms(2) by simp
    show "\<not> isDrainPending repo (Some r) (ts_app ?m)"
      using assms(4) isDrainPending_cong [of "ts_app ?m" "ts_app s" repo "Some r"] m by (simp add: loop_simps)
  qed
  then have "status_of (ru_id r) (replay en cx tt) = Some SOL_REVIEWING"
    using replay_single [OF assms(6,7) ob, of "deliverOutboxEffect en cx" "cx_now cx"] del by (simp add: replay_def outbox_row_def)
  then show ?thesis using True assms(2) t by (simp add: applyIterationCompletion_def)
qed

section \<open>Postflight retries\<close>

text \<open>
  A confirmed publication is not repeated. Once the retry of a record closed its campaign, by the state of the run or
  by a ceiling, a later sweep skips the record and publishes nothing.
\<close>

theorem confirmed_retry_not_republished:
  assumes "en_transition en" and "cx_intent cx \<notin> it_id ` set (ts_intents s)"
    and "completePostflightRetry en cx repo rec s = (Inr CAMPAIGN_CLOSED, tt)"
  shows "sweep_record en cx' repo rec (p, tt) = (p, tt)"
proof -
  let ?d = "the (sr_dispatch rec)"
  obtain r x s1 where r: "run_get (sr_run rec) (runs s) = Some r"
    and t: "transit cx (postflight_opts cx repo ?d (ru_id r)) s = (Inr x, s1)"
    and tt: "tt = s1 \<or> (\<exists>f. tt = upd_app f s1)"
    using assms(1,3)
    by (auto simp: completePostflightRetry_def Let_def continueCompletedIteration_def split: if_splits option.splits prod.splits sum.splits)
  have "has_intent (SRC_DISPATCH, ?d, ''POSTFLIGHT_COMPLETE'') s1"
    using transit_records [OF t assms(2)] by (simp add: postflight_opts_def)
  then have "hasCompletedIterationFor ?d s1" by (rule completion_recorded) simp_all
  then have "hasCompletedIterationFor ?d tt"
    using tt by (auto simp: hasCompletedIterationFor_def hasIntentForSourceExcluding_def)
  then show ?thesis using assms(1) by (simp add: sweep_record_def Let_def iterationAlreadyCompleted_def)
qed

text \<open>
  A refused retry loses its evidence and repeats the publication. While the campaign is working on a newer iteration, the
  retry of a record whose publication is confirmed is refused, \<open>so the dispatch/retry
  evidence stays intact\<close>; but the sweep has already cleared the record's
  \<open>POSTFLIGHT_BLOCKED\<close> error, counts the refusal as confirmed, and since nothing was recorded
  publishes the same report again at the next sweep.
\<close>

theorem refused_retry_erases_evidence:
  assumes "en_transition en" and "sr_status rec = SS_COMPLETED" and "sr_report rec \<noteq> None"
    and "sr_dispatch rec = Some d" and "d \<noteq> []" and "dispatch_get d (ap_dispatches (ts_app s)) \<noteq> None"
    and "\<not> iterationAlreadyCompleted en d s" and "en_publish en = (\<lambda>_ t. (Inr pub, t))"
    and "isRemotePublishConfirmed (Some pub)" and "strategy_get (sr_id rec) (ap_strategies (ts_app s)) = Some rec"
    and "status_of (sr_run rec) s \<in> {Some SOL_PENDING, Some SOL_REVIEWING, Some EXECUTOR_PENDING, Some EXECUTING}"
  shows "case sweep_record en cx repo rec (p, s) of (p', s') \<Rightarrow>
    ps_confirmed p' = ps_confirmed p + 1
    \<and> map_option sr_error (strategy_get (sr_id rec) (ap_strategies (ts_app s'))) = Some None
    \<and> ps_republished (fst (sweep_record en cx' repo rec (p', s'))) = ps_republished p + 2"
proof -
  let ?s = "upd_app (strategy_error cx (sr_id rec) None) s"
  have run: "runs ?s = runs s" "ap_dispatches (ts_app ?s) = ap_dispatches (ts_app s)"
    by (simp_all add: strategy_error_def)
  have it: "\<not> iterationAlreadyCompleted en d ?s"
    using assms(1,7) by (simp add: iterationAlreadyCompleted_def hasCompletedIterationFor_def
        hasIntentForSourceExcluding_def)
  obtain r where r: "run_get (sr_run rec) (runs s) = Some r"
    "ru_status r \<in> {EXECUTING, EXECUTOR_PENDING, SOL_PENDING, SOL_REVIEWING}"
    using assms(11) by (cases "run_get (sr_run rec) (runs s)") auto
  have ref: "completePostflightRetry en c repo rec t = (Inr ALREADY_APPLIED, t)" if "runs t = runs s" for c t
    using r assms(4) that by (auto simp: completePostflightRetry_def Let_def split: option.split)
  obtain dd where dd: "dispatch_get d (ap_dispatches (ts_app s)) = Some dd" using assms(6) by blast
  obtain rep where rep: "sr_report rec = Some rep" using assms(3) by blast
  have pub: "publish en rec t = (pub, t)" for t using assms(8) by (simp add: publish_def)
  have one: "sweep_record en c repo rec (q, t) = (q\<lparr>ps_candidates := ps_candidates q @ [rec],
      ps_republished := ps_republished q + 1, ps_confirmed := ps_confirmed q + 1\<rparr>,
      upd_app (strategy_error c (sr_id rec) None) t)"
    if "runs t = runs s" "ap_dispatches (ts_app t) = ap_dispatches (ts_app s)" "\<not> iterationAlreadyCompleted en d t" for c q t
    using assms(2,4,5,9) rep dd that ref [of "upd_app (strategy_error c (sr_id rec) None) t" c]
    by (simp add: sweep_record_def pub Let_def strategy_error_def)
  have "map_option sr_error (strategy_get (sr_id rec) (ap_strategies (ts_app ?s))) = Some None"
    using assms(10) by (simp add: strategy_error_def strategy_update_def no_patch_def Let_def strategy_get_def
        tbl_get_replace)
  then show ?thesis
    using one [OF refl refl assms(7), of cx p] one [OF run it, of cx'] by simp
qed

section \<open>Late completions\<close>

text \<open>
  A completion is not matched with the run it ends. \<open>onExecutorCompleted\<close> applies a turn without a result to whatever run
  of the repository is active, also when the dispatch that finished is not the one that run is
  working on: the run is closed for recovery.
\<close>

theorem stale_completion_hits_active_run:
  assumes "active_run repo (ts_app s) = Some r" and "unique_keys ru_id (runs s)" and "ru_status r \<noteq> DRAINING"
    and "ru_dispatch r \<noteq> Some d"
  shows "status_of (ru_id r) (snd (onExecutorCompleted en cx repo d None s)) = Some RECOVERY_REQUIRED"
proof -
  have g: "run_get (ru_id r) (runs s) = Some r" using assms(1,2) by (simp add: active_run_def getActiveRun_get)
  have "\<not> isTerminalLoopState (ru_status r)" using assms(1) by (auto simp: active_run_def dest: getActiveRun_SomeD)
  then show ?thesis
    using assms(1,3) g by (auto simp: onExecutorCompleted_def loop_simps isTerminalLoopState_def)
qed

section \<open>Witnesses\<close>

definition legacy_env :: env where
  "legacy_env = quiet_env\<lparr>en_transition := False\<rparr>"

lemma fresh_demo [simp]: "fresh_intent cx k (demo_state rs)"
  by (simp add: fresh_intent_def has_intent_def)

lemma drain_demo [simp]:
  "isDrainPending ''r'' (Some (demo_run ''a'' st)) (demo_app [demo_run ''a'' st]) = False"
  by (simp add: isDrainPending_def drain_of_def run_getDrainReason_def coalesce_def)

theorem drained_completion_witness:
  "status_of ''a'' (snd (applyIterationCompletion quiet_env demo_ctx ''r'' (demo_run ''a'' DRAINING) ''d1'' False
     RECOVERY_REQUIRED False None (demo_state [demo_run ''a'' DRAINING]))) = Some CEILING_REACHED"
proof -
  let ?s = "demo_state [demo_run ''a'' DRAINING]"
  have n: "isStopPendingEffective ''r'' (Some (demo_run ''a'' DRAINING)) (ts_app ?s) = False"
    by (simp add: isStopPendingEffective_def drain_of_def run_getDrainReason_def coalesce_def)
  show ?thesis
    using drained_completion [where r = "demo_run ''a'' DRAINING" and s = ?s and en = quiet_env and cx = demo_ctx
        and d = "''d1''" and hasResult = False and repo = "''r''" and isCompleted = False
        and terminal = RECOVERY_REQUIRED and detail = None] n
    by (simp add: Let_def)
qed

theorem unconfirmed_success_blocked_witness:
  "let s = demo_strategy_state DRAINING SS_COMPLETED;
       s' = snd (onStrategyCompleted quiet_env demo_ctx ''r'' ''d1'' SS_COMPLETED (demo_strategy SS_COMPLETED) None s)
   in ap_dispatches (ts_app s') = ap_dispatches (ts_app s) \<and> ts_outbox s' = ts_outbox s"
  using unconfirmed_success_blocked [where remote = None and en = quiet_env and cx = demo_ctx and repo = "''r''"
      and d = "''d1''" and rec = "demo_strategy SS_COMPLETED" and s = "demo_strategy_state DRAINING SS_COMPLETED" and i = "''a''"]
  by (simp add: isRemotePublishConfirmed_def Let_def)

theorem completion_applied_once_witness:
  "let s = demo_state [demo_run ''a'' EXECUTING];
       s' = snd (onStrategyCompleted quiet_env demo_ctx ''r'' ''d1'' SS_FAILED (demo_strategy SS_FAILED) None s)
   in onStrategyCompleted quiet_env demo_ctx ''r'' ''d1'' SS_COMPLETED (demo_strategy SS_COMPLETED) None s' = (None, s')"
proof -
  let ?s = "demo_state [demo_run ''a'' EXECUTING]"
  let ?o = "onStrategyCompleted quiet_env demo_ctx ''r'' ''d1'' SS_FAILED (demo_strategy SS_FAILED) None ?s"
  have o: "?o = (fst ?o, snd ?o)" by simp
  have "active_run ''r'' (ts_app ?s) = Some (demo_run ''a'' EXECUTING)"
    by (simp add: active_run_def isTerminalLoopState_def)
  from completion_applied_once [OF quiet_env_simps(1) _ _ o this]
  show ?thesis by (simp add: Let_def)
qed

theorem iteration_ceiling_needs_legacy_path_witness:
  "status_of ''a'' (snd (applyIterationCompletion quiet_env demo_ctx ''r'' (demo_run ''a'' EXECUTING) ''d1'' True
      RECOVERY_REQUIRED True None (demo_state [demo_run ''a'' EXECUTING]))) = Some SOL_REVIEWING
   \<and> status_of ''a'' (snd (applyIterationCompletion legacy_env demo_ctx ''r'' (demo_run ''a'' EXECUTING) ''d1'' True
      RECOVERY_REQUIRED True None (demo_state [demo_run ''a'' EXECUTING]))) = Some CEILING_REACHED"
  using iteration_ceiling_needs_legacy_path [where r = "demo_run ''a'' EXECUTING" and s = "demo_state [demo_run ''a'' EXECUTING]"
      and repo = "''r''" and cx = demo_ctx and d = "''d1''" and terminal = RECOVERY_REQUIRED and en = quiet_env]
    iteration_ceiling_needs_legacy_path [where r = "demo_run ''a'' EXECUTING" and s = "demo_state [demo_run ''a'' EXECUTING]"
      and repo = "''r''" and cx = demo_ctx and d = "''d1''" and terminal = RECOVERY_REQUIRED and en = legacy_env]
  by (simp add: listPendingOutbox_def outbox_listByState_def order_asc_def outbox_clash_def legacy_env_def quiet_env_def demo_env_def)

definition published :: publish_result where
  "published = \<lparr>pb_status = PB_PUBLISHED, pb_pushed = None, pb_result = None, pb_verified = True, pb_blocker = None\<rparr>"

definition publishing_env :: env where
  "publishing_env = quiet_env\<lparr>en_publish := (\<lambda>_ t. (Inr published, t))\<rparr>"

definition demo_sweep :: "loop_state \<Rightarrow> lstate" where
  "demo_sweep st = upd_app (\<lambda>a. a\<lparr>ap_dispatches := [(demo_dispatch ''a'' 1)\<lparr>di_id := ''d1''\<rparr>]\<rparr>)
     (demo_strategy_state st SS_COMPLETED)"

lemma demo_sweep_lookups [simp]:
  "runs (demo_sweep st) = [demo_run ''a'' st]" "ap_strategies (ts_app (demo_sweep st)) = [demo_strategy SS_COMPLETED]"
  "dispatch_get ''d1'' (ap_dispatches (ts_app (demo_sweep st))) = Some ((demo_dispatch ''a'' 1)\<lparr>di_id := ''d1''\<rparr>)"
  "ts_intents (demo_sweep st) = []"
  "sr_dispatch (demo_strategy q) = Some ''d1''" "sr_report (demo_strategy q) = Some demo_report" "sr_run (demo_strategy q) = ''a''"
  by (simp_all add: demo_sweep_def dispatch_get_def table_simps demo_strategy_def demo_strategy_state_def demo_state_def)

theorem confirmed_retry_not_republished_witness:
  "let s' = snd (completePostflightRetry publishing_env demo_ctx ''r'' (demo_strategy SS_COMPLETED) (demo_sweep BLOCKED))
   in sweep_record publishing_env demo_ctx ''r'' (demo_strategy SS_COMPLETED) (p, s') = (p, s')"
proof -
  let ?r = "completePostflightRetry publishing_env demo_ctx ''r'' (demo_strategy SS_COMPLETED) (demo_sweep BLOCKED)"
  have "fst ?r = Inr CAMPAIGN_CLOSED"
    by (simp add: completePostflightRetry_def Let_def truthy_id_def iterationAlreadyCompleted_def
        hasCompletedIterationFor_def hasIntentForSourceExcluding_def transit_def enqueueAndApply_eq intent_clash_def
        postflight_opts_def closed_states_def publishing_env_def)
  then have r: "?r = (Inr CAMPAIGN_CLOSED, snd ?r)" by (simp add: prod_eq_iff)
  have "en_transition publishing_env" by (simp add: publishing_env_def)
  from confirmed_retry_not_republished [OF this _ r] show ?thesis by (simp add: Let_def)
qed

theorem refused_retry_erases_evidence_witness:
  "let p = \<lparr>ps_candidates = [], ps_republished = 0, ps_confirmed = 0, ps_blocked = 0, ps_failures = []\<rparr>;
       r = sweep_record publishing_env demo_ctx ''r'' (demo_strategy SS_COMPLETED) (p, demo_sweep EXECUTING)
   in ps_confirmed (fst r) = 1
     \<and> ps_republished (fst (sweep_record publishing_env demo_ctx ''r'' (demo_strategy SS_COMPLETED) r)) = 2"
  using refused_retry_erases_evidence [where en = publishing_env and rec = "demo_strategy SS_COMPLETED" and d = "''d1''"
      and s = "demo_sweep EXECUTING" and pub = published and cx = demo_ctx and cx' = demo_ctx and repo = "''r''"
      and p = "\<lparr>ps_candidates = [], ps_republished = 0, ps_confirmed = 0, ps_blocked = 0, ps_failures = []\<rparr>"]
  by (simp add: publishing_env_def truthy_id_def iterationAlreadyCompleted_def hasCompletedIterationFor_def Let_def
      hasIntentForSourceExcluding_def published_def isRemotePublishConfirmed_def split_beta)

theorem stale_completion_hits_active_run_witness:
  "status_of ''a'' (snd (onExecutorCompleted quiet_env demo_ctx ''r'' ''d0'' None (demo_state [demo_run ''a'' SOL_PENDING])))
     = Some RECOVERY_REQUIRED"
  using stale_completion_hits_active_run [where r = "demo_run ''a'' SOL_PENDING" and s = "demo_state [demo_run ''a'' SOL_PENDING]"
      and repo = "''r''" and d = "''d0''" and en = quiet_env and cx = demo_ctx]
  by (simp add: active_run_def isTerminalLoopState_def unique_keys_def)

end
