(* ===== verification/Loop_Control.thy ===== *)
theory Loop_Control
  imports Loop_Completion
begin

text \<open>
  Sol's controls and recovery: \<open>validateSolControl\<close>, \<open>onControlDetected\<close>, \<open>recoverRun\<close> and
  \<open>hasPostflightBlockedEvidence\<close> of \<open>loop-service.ts\<close>.
\<close>

section \<open>Validation\<close>

fun decision_name :: "control_decision \<Rightarrow> string" where
  "decision_name CD_GOAL_COMPLETE = ''GOAL_COMPLETE''"
| "decision_name CD_BLOCKED = ''BLOCKED''"
| "decision_name CD_NEEDS_HUMAN = ''NEEDS_HUMAN''"
| "decision_name CD_PAUSED = ''PAUSED''"

fun control_status_name :: "control_status \<Rightarrow> string" where
  "control_status_name SC_detected = ''detected''"
| "control_status_name SC_consumed = ''consumed''"
| "control_status_name SC_rejected = ''rejected''"

fun strategy_name :: "strategy \<Rightarrow> string" where
  "strategy_name SINGLE_AGENT = ''SINGLE_AGENT''"
| "strategy_name SWARM = ''SWARM''"
| "strategy_name DAG = ''DAG''"

definition or_null :: "string option \<Rightarrow> string" where
  "or_null i = (case i of None \<Rightarrow> ''null'' | Some x \<Rightarrow> x)"

text \<open>The reason of the rejection, None when the control is valid.\<close>

definition validateSolControl ::
    "ident \<Rightarrow> sol_control option \<Rightarrow> run option \<Rightarrow> control_decision \<Rightarrow> bool \<Rightarrow> app \<Rightarrow> string option" where
  "validateSolControl repo control target decision stalled a =
     (case getActiveStrategyRun repo a of
       Some st \<Rightarrow> Some (''an execution strategy actor ('' @ strategy_name (sr_strategy st) @
         '') is still active for this iteration; Sol control '' @ [CHR 0x27] @ decision_name decision @ [CHR 0x27] @
         '' cannot be applied while an execution actor is running'')
     | None \<Rightarrow> (case control of
         None \<Rightarrow> Some ''control record not found (cannot validate or consume)''
       | Some c \<Rightarrow>
           if sc_status c \<noteq> SC_detected then
             Some (''control is already '' @ control_status_name (sc_status c) @ '', not consumable'')
           else if sc_repo c \<noteq> repo then
             Some (''control.repositoryId '' @ sc_repo c @ '' does not match '' @ repo)
           else (case target of
               None \<Rightarrow> Some ''no active run for repository (control references an unknown run)''
             | Some r \<Rightarrow>
                 if stalled \<and> decision = CD_PAUSED then
                   Some ''PAUSED cannot be applied to a SOL_STALLED run (SOL_STALLED_PAUSE_UNSUPPORTED)''
                 else if sc_run c \<noteq> ru_id r then
                   Some (''control.runId '' @ sc_run c @ (if stalled then '' does not match the referenced SOL_STALLED run ''
                      else '' does not match active run '') @ ru_id r)
                 else if sc_iter c \<noteq> ru_iter r then
                   Some (''control.iteration '' @ js_int (sc_iter c) @ '' does not match expected Sol iteration '' @
                      js_int (ru_iter r))
                 else if sc_dispatch c \<noteq> None \<and> sc_dispatch c \<noteq> ru_dispatch r then
                   Some (''control.relatedDispatchId '' @ or_null (sc_dispatch c) @ '' does not match active dispatch '' @
                      or_null (ru_dispatch r))
                 else None)))"

section \<open>The transition of a control\<close>

definition control_target :: "ident \<Rightarrow> sol_control option \<Rightarrow> app \<Rightarrow> run option \<times> bool" where
  "control_target repo control a = (case active_run repo a of Some r \<Rightarrow> (Some r, False)
     | None \<Rightarrow> (case control of None \<Rightarrow> (None, False)
         | Some c \<Rightarrow> (case getLatestStalledRun repo (ap_runs a) of None \<Rightarrow> (None, False)
             | Some q \<Rightarrow> if ru_id q = sc_run c then (Some q, True) else (None, False))))"

definition stalled_state :: "control_decision \<Rightarrow> loop_state" where
  "stalled_state d = (if d = CD_GOAL_COMPLETE then GOAL_COMPLETE else if d = CD_BLOCKED then BLOCKED else NEEDS_HUMAN)"

definition decided_state :: "control_decision \<Rightarrow> loop_state" where
  "decided_state d = (if d = CD_GOAL_COMPLETE then GOAL_COMPLETE else if d = CD_BLOCKED then BLOCKED
     else if d = CD_NEEDS_HUMAN then NEEDS_HUMAN else PAUSED)"

datatype control_plan = CP_stalled loop_state | CP_ceiling | CP_stop | CP_state loop_state bool

text \<open>None: the handler returns before it commits anything.\<close>

definition control_plan_of :: "ident \<Rightarrow> run \<Rightarrow> bool \<Rightarrow> control_decision \<Rightarrow> app \<Rightarrow> control_plan option" where
  "control_plan_of repo r stalled decision a =
     (if stalled then
        (if map_option ru_status (run_get (ru_id r) (ap_runs a)) \<noteq> Some SOL_STALLED then None
         else Some (CP_stalled (stalled_state decision)))
      else if isDrainPending repo (Some r) a \<or> ru_status r = DRAINING then
        (if isCeilingPendingEffective repo (Some r) a then Some CP_ceiling
         else if isStopPendingEffective repo (Some r) a then Some CP_stop
         else None)
      else Some (CP_state (decided_state decision) (decision = CD_PAUSED)))"

definition finished_at :: "ctx \<Rightarrow> loop_state \<Rightarrow> run option \<Rightarrow> run_updates" where
  "finished_at cx st r = no_updates\<lparr>up_finished := Some (if st = GOAL_COMPLETE then Some (cx_now cx)
     else Option.bind r ru_finished)\<rparr>"

definition close_sol_control :: "ident \<Rightarrow> ident \<Rightarrow> ident \<Rightarrow> effect_spec" where
  "close_sol_control repo i c = effect_of (''close-sol-'' @ c) ''COMPLETE_SOL_OPERATION'' repo i
     (no_payload\<lparr>pl_repositoryId := Some repo, pl_runId := Some i\<rparr>)"

definition control_apply :: "ctx \<Rightarrow> ident \<Rightarrow> ident \<Rightarrow> ident \<Rightarrow> control_plan \<Rightarrow> app \<Rightarrow> string + effect_spec list \<times> app" where
  "control_apply cx repo i c plan a =
     (let a1 = markControl cx c SC_consumed None a; close = [close_sol_control repo i c]; cur = run_get i (ap_runs a1) in
      case plan of
        CP_stalled st \<Rightarrow> if map_option ru_status cur \<noteq> Some SOL_STALLED then Inr ([], a1)
          else Inr (close, updateStatus cx i st ((finished_at cx st cur)\<lparr>up_drain := Some None\<rparr>) (releaseTerminalTimers repo a1))
      | CP_ceiling \<Rightarrow> Inr (close, settle_ceiling cx repo i at_sol_ceiling a1)
      | CP_stop \<Rightarrow> Inr (close, settle_stop cx repo i at_sol_stop a1)
      | CP_state st _ \<Rightarrow> Inr (close, cancelWallClockCeiling repo (updateStatus cx i st (finished_at cx st cur) a1)))"

definition control_opts :: "ctx \<Rightarrow> ident \<Rightarrow> ident \<Rightarrow> ident \<Rightarrow> control_plan \<Rightarrow> app apply_opts" where
  "control_opts cx repo i c plan = \<lparr>eo_source = SRC_SOL_CONTROL, eo_source_id = c, eo_operation = ''APPLY_SOL_CONTROL'',
     eo_repo = repo, eo_run = Some i, eo_payload = cx_payload cx, eo_apply = control_apply cx repo i c plan\<rparr>"

text \<open>Only the transition path swallows an executor that cannot be paused.\<close>

definition control_tx ::
    "env \<Rightarrow> ctx \<Rightarrow> ident \<Rightarrow> sol_control \<Rightarrow> run \<Rightarrow> bool \<Rightarrow> control_decision \<Rightarrow> lstate \<Rightarrow> string option \<times> lstate" where
  "control_tx en cx repo c r stalled decision s = (case control_plan_of repo r stalled decision (ts_app s) of
       None \<Rightarrow> (None, s)
     | Some plan \<Rightarrow> (let s1 = (case plan of CP_state _ True \<Rightarrow> snd (en_executorPause en repo s) | _ \<Rightarrow> s) in
         case transit cx (control_opts cx repo (ru_id r) (sc_controlId c) plan) s1 of
           (Inl e, s2) \<Rightarrow> (Some e, s2)
         | (Inr _, s2) \<Rightarrow> (None, replay en cx s2)))"

definition control_legacy ::
    "env \<Rightarrow> ctx \<Rightarrow> ident \<Rightarrow> ident \<Rightarrow> run \<Rightarrow> bool \<Rightarrow> control_decision \<Rightarrow> lstate \<Rightarrow> string option \<times> lstate" where
  "control_legacy en cx repo cid r stalled decision s = (case control_plan_of repo r stalled decision (ts_app s) of
       None \<Rightarrow> (None, s)
     | Some (CP_stalled st) \<Rightarrow> (None, upd_app (\<lambda>a. updateStatus cx (ru_id r) st
           ((finished_at cx st (run_get (ru_id r) (ap_runs a)))\<lparr>up_drain := Some None\<rparr>) (releaseTerminalTimers repo a)) s)
     | Some CP_ceiling \<Rightarrow> (None, upd_app (settle_ceiling cx repo (ru_id r) at_sol_ceiling) s)
     | Some CP_stop \<Rightarrow> (None, upd_app (settle_stop cx repo (ru_id r) at_sol_stop) s)
     | Some (CP_state st pause) \<Rightarrow> (case (if pause then en_executorPause en repo s else (None, s)) of
           (Some e, s1) \<Rightarrow> (Some e, s1)
         | (None, s1) \<Rightarrow> (None, upd_app (\<lambda>a. cancelWallClockCeiling repo
               (updateStatus cx (ru_id r) st (finished_at cx st (Some r)) a)) s1)))"

section \<open>onControlDetected\<close>

definition reject_control :: "ctx \<Rightarrow> ident \<Rightarrow> sol_control option \<Rightarrow> string \<Rightarrow> lstate \<Rightarrow> lstate" where
  "reject_control cx cid control reason s =
     (if control = None then s else upd_app (markControl cx cid SC_rejected (Some reason)) s)"

definition onControlDetected ::
    "env \<Rightarrow> ctx \<Rightarrow> ident \<Rightarrow> ident \<Rightarrow> control_decision \<Rightarrow> ident \<Rightarrow> lstate \<Rightarrow> string option \<times> lstate" where
  "onControlDetected en cx repo cid decision runId s =
     (let a = ts_app s; control = control_get cid (ap_controls a) in
      case control_target repo control a of (target, stalled) \<Rightarrow>
        if (case control of None \<Rightarrow> False | Some c \<Rightarrow> sc_status c = SC_consumed \<or> sc_status c = SC_rejected) then (None, s)
        else (case validateSolControl repo control target decision stalled a of
            Some reason \<Rightarrow> (None, reject_control cx cid control reason s)
          | None \<Rightarrow>
              if decision = CD_GOAL_COMPLETE \<and> getActiveActor repo a \<in> {AC_SWARM, AC_DAG, AC_EXECUTOR} then
                (None, reject_control cx cid control ''EXECUTION_ACTOR_ACTIVE'' s)
              else (case (control, target) of
                  (Some c, Some r) \<Rightarrow>
                    if en_transition en then control_tx en cx repo c r stalled decision s
                    else control_legacy en cx repo cid r stalled decision
                      (upd_app (markControl cx cid SC_consumed None) (en_completeSolOperation en repo (Some runId) None s))
                | _ \<Rightarrow> (None, s))))"

section \<open>Recovery\<close>

datatype recovery_action = RA_retry | RA_stop | RA_complete

definition hasPostflightBlockedEvidence :: "ident \<Rightarrow> app \<Rightarrow> bool" where
  "hasPostflightBlockedEvidence i a = list_ex (\<lambda>st. sr_status st = SS_COMPLETED \<and>
     (case sr_error st of None \<Rightarrow> False | Some e \<Rightarrow> prefix POSTFLIGHT_BLOCKED_PREFIX e)) (listByRun i (ap_strategies a))"

definition recoverRun ::
    "env \<Rightarrow> ctx \<Rightarrow> ident \<Rightarrow> recovery_action \<Rightarrow> lstate \<Rightarrow> (loop_error + run option) \<times> lstate" where
  "recoverRun en cx repo action s = (case getLatestRun repo (runs s) of
       None \<Rightarrow> (Inl (Validation (''No run for repository '' @ repo)), s)
     | Some r \<Rightarrow>
         if ru_status r \<notin> {RECOVERY_REQUIRED, BLOCKED, NEEDS_HUMAN, ATTENTION_REQUIRED} then
           (Inl (Validation (''Run '' @ ru_id r @ '' is in status '' @ loop_state_name (ru_status r) @
              '', recovery not applicable'')), s)
         else (let fin = (\<lambda>st. upd_app (updateStatus cx (ru_id r) st (no_updates\<lparr>up_finished := Some (Some (cx_now cx))\<rparr>)) s);
                   s1 = (case action of
                      RA_stop \<Rightarrow> fin STOPPED
                    | RA_complete \<Rightarrow> fin GOAL_COMPLETE
                    | RA_retry \<Rightarrow> if hasPostflightBlockedEvidence (ru_id r) (ts_app s)
                        then snd (retryPendingPostflight en cx repo s)
                        else submitSolWakeForRun en cx repo r ''INITIAL''
                          (upd_app (updateStatus cx (ru_id r) SOL_PENDING no_updates) s))
             in (Inr (run_get (ru_id r) (runs s1)), s1)))"

section \<open>Lemmas\<close>

lemma markControl_simps [loop_simps]:
  "ap_runs (markControl cx c st reason a) = ap_runs a" "ap_stopPending (markControl cx c st reason a) = ap_stopPending a"
  "ap_ceilingPending (markControl cx c st reason a) = ap_ceilingPending a"
  "ap_strategies (markControl cx c st reason a) = ap_strategies a"
  "ap_dispatches (markControl cx c st reason a) = ap_dispatches a"
  "ap_controls (markControl cx c st reason a) = control_updateStatus c st reason (cx_now cx) (ap_controls a)"
  by (simp_all add: markControl_def)

lemma settle_controls [loop_simps]:
  "ap_controls (settle_ceiling cx repo i msg a) = ap_controls a" "ap_controls (settle_stop cx repo i msg a) = ap_controls a"
  by (simp_all add: settle_ceiling_def settle_stop_def finish_def loop_simps)

abbreviation control_status_of :: "ident \<Rightarrow> lstate \<Rightarrow> control_status option" where
  "control_status_of c s \<equiv> map_option sc_status (control_get c (ap_controls (ts_app s)))"

lemma reject_status:
  "control_get cid (ap_controls (ts_app s)) = Some c \<Longrightarrow>
     control_status_of cid (reject_control cx cid (Some c) reason s) = Some SC_rejected"
  by (simp add: reject_control_def loop_simps run_simps)

lemma reject_frame:
  "runs (reject_control cx cid c reason s) = runs s" "ts_outbox (reject_control cx cid c reason s) = ts_outbox s"
  by (simp_all add: reject_control_def loop_simps)

lemma onControl_rejects:
  assumes "control_get cid (ap_controls (ts_app s)) = Some c" and "sc_status c = SC_detected"
    and "control_target repo (Some c) (ts_app s) = (target, stalled)"
    and "validateSolControl repo (Some c) target decision stalled (ts_app s) = Some reason"
  shows "onControlDetected en cx repo cid decision runId s = (None, reject_control cx cid (Some c) reason s)"
  using assms by (simp add: onControlDetected_def Let_def)

lemma onControl_valid:
  assumes "control_get cid (ap_controls (ts_app s)) = Some c" and "sc_status c = SC_detected"
    and "active_run repo (ts_app s) = Some r"
    and "validateSolControl repo (Some c) (Some r) decision False (ts_app s) = None"
    and "decision = CD_GOAL_COMPLETE \<Longrightarrow> getActiveActor repo (ts_app s) \<notin> {AC_SWARM, AC_DAG, AC_EXECUTOR}"
    and "en_transition en"
  shows "onControlDetected en cx repo cid decision runId s = control_tx en cx repo c r False decision s"
  using assms by (auto simp: onControlDetected_def Let_def control_target_def)

lemma control_apply_effect:
  assumes "run_get i (ap_runs a) = Some r" and "control_get c (ap_controls a) = Some k"
  shows "(\<exists>st. plan = CP_stalled st) \<or> (\<exists>a'. control_apply cx repo i c plan a = Inr ([close_sol_control repo i c], a')
    \<and> map_option ru_status (run_get i (ap_runs a')) =
        Some (case plan of CP_ceiling \<Rightarrow> CEILING_REACHED | CP_stop \<Rightarrow> STOPPED | CP_state st _ \<Rightarrow> st | CP_stalled st \<Rightarrow> st)
    \<and> map_option sc_status (control_get c (ap_controls a')) = Some SC_consumed)"
  using assms by (cases plan) (simp_all add: control_apply_def Let_def loop_simps control_get_update)

section \<open>What controls may do\<close>

text \<open>
  A control that does not match the run it would end changes no run. If it names another run, iteration or repository, or a dispatch
  the run is not working on, it is rejected, every run stays as it is and no effect
  is stored, whatever it decides.
\<close>

theorem stale_control_rejected:
  assumes "control_get cid (ap_controls (ts_app s)) = Some c" and "sc_status c = SC_detected"
    and "active_run repo (ts_app s) = Some r"
    and "sc_repo c \<noteq> repo \<or> sc_run c \<noteq> ru_id r \<or> sc_iter c \<noteq> ru_iter r
       \<or> (sc_dispatch c \<noteq> None \<and> sc_dispatch c \<noteq> ru_dispatch r)"
  shows "let s' = snd (onControlDetected en cx repo cid decision runId s) in
    runs s' = runs s \<and> ts_outbox s' = ts_outbox s \<and> control_status_of cid s' = Some SC_rejected"
proof -
  have "validateSolControl repo (Some c) (Some r) decision False (ts_app s) \<noteq> None"
    using assms(2,4) by (auto simp: validateSolControl_def split: option.split)
  then obtain reason where "validateSolControl repo (Some c) (Some r) decision False (ts_app s) = Some reason" by blast
  from onControl_rejects [OF assms(1,2) _ this] assms(3) reject_status [OF assms(1)]
  show ?thesis by (simp add: control_target_def reject_frame Let_def)
qed

text \<open>
  The state in which the commit runs: before a \<open>PAUSED\<close> decision the handler awaits the pause of the executor,
  whose outcome it ignores.
\<close>

definition control_wait :: "env \<Rightarrow> ident \<Rightarrow> run \<Rightarrow> control_decision \<Rightarrow> lstate \<Rightarrow> lstate" where
  "control_wait en repo r decision s =
     (if decision = CD_PAUSED \<and> \<not> isDrainPending repo (Some r) (ts_app s) then snd (en_executorPause en repo s) else s)"

text \<open>
  C16: a control applies in one commit, and a pending drain overrides its decision. When a valid control finds a drain pending, the run ends
  \<open>CEILING_REACHED\<close> if a ceiling is pending and else \<open>STOPPED\<close>, even if Sol declared the goal complete;
  otherwise the run takes the state Sol decided, for each of the four decisions. The control is consumed and the close
  of Sol's operation is the only effect, put into the outbox unless a row with its key or identifier is there; the outbox is delivered afterwards. A run that is \<open>DRAINING\<close>
  with no drain pending is left alone, and the control with it. The drain is read before the executor is paused:
  a drain that arrives during a \<open>PAUSED\<close> decision's pause does not override it. Hypotheses: no actor is at work when the
  decision is \<open>GOAL_COMPLETE\<close>, the ownership transition is wired, and the pause of the executor
  removes neither the run's nor the control's row and commits no transition for this control.
\<close>

theorem control_commits_or_drains:
  assumes "control_get cid (ap_controls (ts_app s)) = Some c" and "sc_status c = SC_detected" and "sc_controlId c = cid"
    and "active_run repo (ts_app s) = Some r"
    and "validateSolControl repo (Some c) (Some r) decision False (ts_app s) = None"
    and "decision = CD_GOAL_COMPLETE \<Longrightarrow> getActiveActor repo (ts_app s) \<notin> {AC_SWARM, AC_DAG, AC_EXECUTOR}"
    and "en_transition en"
    and "run_get (ru_id r) (runs (control_wait en repo r decision s)) \<noteq> None"
    and "control_get cid (ap_controls (ts_app (control_wait en repo r decision s))) \<noteq> None"
    and "fresh_intent cx (SRC_SOL_CONTROL, cid, ''APPLY_SOL_CONTROL'') (control_wait en repo r decision s)"
  shows "if ru_status r = DRAINING \<and> \<not> isDrainPending repo (Some r) (ts_app s)
    then onControlDetected en cx repo cid decision runId s = (None, s)
    else (\<exists>tt. onControlDetected en cx repo cid decision runId s = (None, replay en cx tt)
      \<and> status_of (ru_id r) tt = Some (if isDrainPending repo (Some r) (ts_app s)
           then (if isCeilingPendingEffective repo (Some r) (ts_app s) then CEILING_REACHED else STOPPED)
           else decided_state decision)
      \<and> control_status_of cid tt = Some SC_consumed
      \<and> ts_outbox tt = ts_outbox (add_effects (cx_uuid cx) (cx_now cx) [(0, close_sol_control repo (ru_id r) cid)]
           (control_wait en repo r decision s)))"
proof -
  let ?dr = "isDrainPending repo (Some r) (ts_app s)" and ?ceil = "isCeilingPendingEffective repo (Some r) (ts_app s)"
  let ?s = "control_wait en repo r decision s"
  let ?plan = "if ?dr then (if ?ceil then CP_ceiling else CP_stop) else CP_state (decided_state decision) (decision = CD_PAUSED)"
  have handler: "onControlDetected en cx repo cid decision runId s = control_tx en cx repo c r False decision s"
    by (rule onControl_valid [OF assms(1,2,4,5,6,7)])
  show ?thesis
  proof (cases "ru_status r = DRAINING \<and> \<not> ?dr")
    case True
    then have "\<not> ?ceil" "\<not> isStopPendingEffective repo (Some r) (ts_app s)"
      using drain_pending_split [of repo r "ts_app s"] by auto
    with True handler show ?thesis by (simp add: control_tx_def control_plan_of_def)
  next
    case False
    then have plan: "control_plan_of repo r False decision (ts_app s) = Some ?plan"
      using drain_pending_split [of repo r "ts_app s"] by (auto simp: control_plan_of_def)
    obtain r' c' where g: "run_get (ru_id r) (runs ?s) = Some r'" "control_get cid (ap_controls (ts_app ?s)) = Some c'"
      using assms(8,9) by auto
    let ?c = "control_opts cx repo (ru_id r) cid ?plan"
    have k: "eo_key ?c = (SRC_SOL_CONTROL, cid, ''APPLY_SOL_CONTROL'')" by (simp add: control_opts_def eo_key_def)
    obtain a where f: "eo_apply ?c (ts_app ?s) = Inr ([close_sol_control repo (ru_id r) cid], a)"
      and a: "map_option ru_status (run_get (ru_id r) (ap_runs a)) =
         Some (if ?dr then (if ?ceil then CEILING_REACHED else STOPPED) else decided_state decision)"
        "map_option sc_status (control_get cid (ap_controls a)) = Some SC_consumed"
      using control_apply_effect [OF g, where cx = cx and repo = repo and plan = ?plan]
      by (cases ?dr; cases ?ceil) (auto simp: control_opts_def)
    note e = transit_fresh [OF assms(10) [folded k] f]
    obtain x tt where t: "transit cx ?c ?s = (Inr x, tt)" using e(1) by (cases "transit cx ?c ?s") simp
    have pause: "(case ?plan of CP_state _ True \<Rightarrow> snd (en_executorPause en repo s) | _ \<Rightarrow> s) = ?s"
      by (simp add: control_wait_def)
    have "control_tx en cx repo c r False decision s = (None, replay en cx tt)"
      using t assms(3) by (simp add: control_tx_def plan Let_def pause del: if_split_asm)
    with handler False show ?thesis
      using e(2,3) t a by (intro if_not_P [THEN iffD2] exI [of _ tt]) (auto simp add: add_effects_app)
  qed
qed

text \<open>
  A run whose swarm or DAG was closed as \<open>RECOVERY_REQUIRED\<close> accepts no control from Sol any more. The validation takes the
  record for an actor at work and rejects every decision, for any iteration,
  so Sol cannot complete, block or pause the recovered run.
\<close>

theorem recovered_run_rejects_controls:
  assumes "control_get cid (ap_controls (ts_app s)) = Some c" and "sc_status c = SC_detected"
    and "active_run repo (ts_app s) = Some r"
    and "getActiveForRun (ru_id r) (ap_strategies (ts_app s)) = Some st" and "sr_status st = SS_RECOVERY_REQUIRED"
  shows "let s' = snd (onControlDetected en cx repo cid decision runId s) in
    runs s' = runs s \<and> control_status_of cid s' = Some SC_rejected
    \<and> assertCampaignIterationOwnership (r\<lparr>ru_status := SOL_REVIEWING\<rparr>) \<lparr>oo_requested = Some SWARM, oo_allowSol = True,
        oo_dispatch = Some ''d'', oo_authorized = Some SWARM\<rparr> (ts_app s) = None"
proof -
  obtain reason where "validateSolControl repo (Some c) (Some r) decision False (ts_app s) = Some reason"
    using assms(3,4) by (simp add: validateSolControl_def getActiveStrategyRun_def)
  from onControl_rejects [OF assms(1,2) _ this] assms(3-5) reject_status [OF assms(1)]
  show ?thesis
    by (simp add: control_target_def reject_frame Let_def assertCampaignIterationOwnership_def live_strategy_def)
qed

text \<open>
  Only \<open>GOAL_COMPLETE\<close> is held back while a single agent works. With the executor active, the control that completes the goal
  is rejected as \<open>EXECUTION_ACTOR_ACTIVE\<close>; \<open>BLOCKED\<close> and \<open>NEEDS_HUMAN\<close>, just as terminal,
  close the run at once and the executor is neither stopped nor waited for. No drain is pending, the outbox
  holds no row that is still to be delivered and none that meets the new one, and the browser call changes no table.
\<close>

theorem terminal_controls_over_executor:
  assumes "control_get cid (ap_controls (ts_app s)) = Some c" and "sc_status c = SC_detected" and "sc_controlId c = cid"
    and "active_run repo (ts_app s) = Some r" and "unique_keys ru_id (runs s)" and "ru_status r = EXECUTING"
    and "validateSolControl repo (Some c) (Some r) decision False (ts_app s) = None"
    and "\<not> isDrainPending repo (Some r) (ts_app s)"
    and "decision \<in> {CD_GOAL_COMPLETE, CD_BLOCKED, CD_NEEDS_HUMAN}" and "en_transition en"
    and "fresh_intent cx (SRC_SOL_CONTROL, cid, ''APPLY_SOL_CONTROL'') s"
    and "listPendingOutbox s = []"
    and "\<not> outbox_clash (outbox_row (cx_uuid cx 0) (cx_now cx) (close_sol_control repo (ru_id r) cid)) s"
    and "\<And>p i n t. en_completeSolOperation en p i n t = t"
  shows "status_of (ru_id r) (snd (onControlDetected en cx repo cid decision runId s)) =
    Some (if decision = CD_GOAL_COMPLETE then EXECUTING else decided_state decision)"
proof -
  have g: "run_get (ru_id r) (runs s) = Some r" using assms(4,5) by (simp add: active_run_def getActiveRun_get)
  have none: "getActiveForRun (ru_id r) (ap_strategies (ts_app s)) = None"
    using assms(4,7) by (auto simp: validateSolControl_def getActiveStrategyRun_def split: option.splits)
  have actor: "getActiveActor repo (ts_app s) = AC_EXECUTOR"
    using assms(4,6) none by (simp add: getActiveActor_def)
  show ?thesis
  proof (cases "decision = CD_GOAL_COMPLETE")
    case True
    have "onControlDetected en cx repo cid decision runId s = (None, reject_control cx cid (Some c) ''EXECUTION_ACTOR_ACTIVE'' s)"
      using assms(1,2,4,7) actor True by (simp add: onControlDetected_def Let_def control_target_def)
    then show ?thesis using True g assms(6) by (simp add: reject_frame)
  next
    case False
    let ?c = "control_opts cx repo (ru_id r) cid (CP_state (decided_state decision) False)"
    have plan: "control_plan_of repo r False decision (ts_app s) = Some (CP_state (decided_state decision) False)"
      using assms(6,8,9) False by (auto simp: control_plan_of_def)
    have k: "eo_key ?c = (SRC_SOL_CONTROL, cid, ''APPLY_SOL_CONTROL'')" by (simp add: control_opts_def eo_key_def)
    obtain a where f: "eo_apply ?c (ts_app s) = Inr ([close_sol_control repo (ru_id r) cid], a)"
      and a: "map_option ru_status (run_get (ru_id r) (ap_runs a)) = Some (decided_state decision)"
      using g by (auto simp: control_opts_def control_apply_def Let_def loop_simps run_simps)
    note e = transit_fresh [OF assms(11) [folded k] f]
    obtain x tt where t: "transit cx ?c s = (Inr x, tt)" using e(1) by (cases "transit cx ?c s") simp
    let ?row = "outbox_row (cx_uuid cx 0) (cx_now cx) (close_sol_control repo (ru_id r) cid)"
    have ob: "ts_outbox tt = ts_outbox s @ [?row]"
      using e(3) t add_one_effect [where u = "cx_uuid cx", OF assms(13)] by (simp add: add_effects_app)
    have idle: "deliverOutboxEffect en cx ?row t = (None, t)" for t
      by (simp add: deliverOutboxEffect_def outbox_row_def close_sol_control_def effect_of_def assms(14))
    have tx: "control_tx en cx repo c r False decision s = (None, replay en cx tt)"
      using t assms(3) by (simp add: control_tx_def plan Let_def)
    have "onControlDetected en cx repo cid decision runId s = control_tx en cx repo c r False decision s"
      by (rule onControl_valid [OF assms(1,2,4,7) _ assms(10)]) (use False in simp)
    moreover have "ts_app (replay en cx tt) = ts_app tt"
      using replay_single [OF assms(12,13) ob, of "deliverOutboxEffect en cx" "cx_now cx"] idle
      by (simp add: replay_def outbox_row_def transition_simps)
    ultimately show ?thesis using tx a e(2) t False by simp
  qed
qed

section \<open>Recovering a stopped run\<close>

text \<open>
  A run that was being stopped when it was killed cannot be recovered. The kill keeps the reason of the drain and the retry does not clear
  it: the run is \<open>SOL_PENDING\<close> again with its stop still pending, so the answer of
  the wake is ignored and its first dispatch will end it. The browser is one that
  accepts the wake at once.
\<close>

theorem retry_keeps_pending_stop:
  assumes "getLatestRun repo (runs s) = Some r" and "unique_keys ru_id (runs s)" and "ru_status r = RECOVERY_REQUIRED"
    and "ru_drain r = Some USER_STOP" and "\<not> hasPostflightBlockedEvidence (ru_id r) (ts_app s)"
    and "\<And>p w t. en_submitSolWake en p w t = (W_submitted, t)"
  shows "let s' = snd (recoverRun en cx repo RA_retry s) in
    status_of (ru_id r) s' = Some SOL_PENDING \<and> isDrainPending repo (run_get (ru_id r) (runs s')) (ts_app s')"
proof -
  have g: "run_get (ru_id r) (runs s) = Some r"
    using assms(1,2) by (auto simp: getLatestRun_def run_get_def dest!: first_row_in_set intro: tbl_get_unique)
  let ?s = "upd_app (updateStatus cx (ru_id r) SOL_PENDING no_updates) s"
  obtain q where q: "run_get (ru_id r) (runs ?s) = Some q" "ru_status q = SOL_PENDING" "ru_drain q = Some USER_STOP"
    using g assms(4) by (simp add: loop_simps run_simps run_write_def no_updates_def)
  have p: "isDrainPending repo (Some q) (ts_app ?s)"
    using q by (simp add: isDrainPending_def drain_of_def coalesce_def)
  have "submitSolWakeForRun en cx repo r ''INITIAL'' ?s = ?s"
  proof (cases "repo_get repo (ts_app ?s)")
    case (Some rc)
    show ?thesis unfolding submit_cases [OF Some assms(6)] using q p by (simp add: wake_returned_def)
  qed (simp add: submitSolWakeForRun_def)
  then have "snd (recoverRun en cx repo RA_retry s) = ?s"
    using assms(1,3,5) by (simp add: recoverRun_def Let_def)
  then show ?thesis using q p by (simp add: Let_def)
qed

section \<open>Witnesses\<close>

definition demo_control :: "int \<Rightarrow> control_decision \<Rightarrow> sol_control" where
  "demo_control n d = \<lparr>sc_id = ''c1'', sc_repo = ''r'', sc_run = ''a'', sc_controlId = ''c1'', sc_decision = d, sc_iter = n,
     sc_commit = ''s'', sc_dispatch = Some ''d1'', sc_status = SC_detected, sc_reason = None, sc_created = 0, sc_updated = 0\<rparr>"

definition demo_controlled :: "loop_state \<Rightarrow> ident set \<Rightarrow> strategy_run list \<Rightarrow> sol_control \<Rightarrow> lstate" where
  "demo_controlled st stops srs c = upd_app (\<lambda>a. a\<lparr>ap_controls := [c], ap_stopPending := stops, ap_strategies := srs\<rparr>)
     (demo_state [demo_run ''a'' st])"

lemma demo_controlled_facts [simp]:
  "active_run ''r'' (ts_app (demo_controlled st p srs c)) = (if isTerminalLoopState st then None else Some (demo_run ''a'' st))"
  "runs (demo_controlled st p srs c) = [demo_run ''a'' st]"
  "control_get ''c1'' (ap_controls (ts_app (demo_controlled st p srs (demo_control n d)))) = Some (demo_control n d)"
  "ap_strategies (ts_app (demo_controlled st p srs c)) = srs"
  "isDrainPending ''r'' (Some (demo_run ''a'' st)) (ts_app (demo_controlled st p srs c)) \<longleftrightarrow> ''r'' \<in> p"
  "isCeilingPendingEffective ''r'' (Some (demo_run ''a'' st)) (ts_app (demo_controlled st p srs c)) = False"
  "fresh_intent demo_ctx k (demo_controlled st p srs c)" "ts_outbox (demo_controlled st p srs c) = []"
  by (simp_all add: demo_controlled_def active_run_def control_get_def table_simps demo_control_def
      isDrainPending_def drain_of_def run_getDrainReason_def coalesce_def fresh_intent_def has_intent_def
      isCeilingPendingEffective_def)

lemma demo_control_simps [simp]:
  "sc_status (demo_control n d) = SC_detected" "sc_controlId (demo_control n d) = ''c1''" "sc_repo (demo_control n d) = ''r''"
  "sc_run (demo_control n d) = ''a''" "sc_iter (demo_control n d) = n" "sc_dispatch (demo_control n d) = Some ''d1''"
  by (simp_all add: demo_control_def)

lemma demo_valid [simp]:
  "isTerminalLoopState st = False \<Longrightarrow> validateSolControl ''r'' (Some (demo_control 1 d)) (Some (demo_run ''a'' st)) d' False
     (ts_app (demo_controlled st p [] c)) = None"
  by (simp add: validateSolControl_def getActiveStrategyRun_def getActiveForRun_def order_desc_def first_row_def)

theorem stale_control_rejected_witness:
  "let s' = snd (onControlDetected quiet_env demo_ctx ''r'' ''c1'' CD_GOAL_COMPLETE ''a''
       (demo_controlled SOL_REVIEWING {} [] (demo_control 7 CD_GOAL_COMPLETE)))
   in runs s' = [demo_run ''a'' SOL_REVIEWING] \<and> control_status_of ''c1'' s' = Some SC_rejected"
  using stale_control_rejected [where cid = "''c1''" and c = "demo_control 7 CD_GOAL_COMPLETE" and repo = "''r''"
      and s = "demo_controlled SOL_REVIEWING {} [] (demo_control 7 CD_GOAL_COMPLETE)" and r = "demo_run ''a'' SOL_REVIEWING"
      and en = quiet_env and cx = demo_ctx and decision = CD_GOAL_COMPLETE and runId = "''a''"]
  by (simp add: isTerminalLoopState_def Let_def)

theorem control_commits_or_drains_witness:
  "(\<exists>tt. onControlDetected quiet_env demo_ctx ''r'' ''c1'' CD_GOAL_COMPLETE ''a''
      (demo_controlled SOL_REVIEWING {''r''} [] (demo_control 1 CD_GOAL_COMPLETE)) = (None, replay quiet_env demo_ctx tt)
    \<and> status_of ''a'' tt = Some STOPPED \<and> map ob_kind (ts_outbox tt) = [''COMPLETE_SOL_OPERATION''])
   \<and> (\<exists>tt. onControlDetected quiet_env demo_ctx ''r'' ''c1'' CD_PAUSED ''a''
      (demo_controlled SOL_REVIEWING {} [] (demo_control 1 CD_PAUSED)) = (None, replay quiet_env demo_ctx tt)
    \<and> status_of ''a'' tt = Some PAUSED)"
proof (rule conjI, goal_cases)
  let ?en = quiet_env and ?r = "demo_run ''a'' SOL_REVIEWING"
  case 1
  let ?s = "demo_controlled SOL_REVIEWING {''r''} [] (demo_control 1 CD_GOAL_COMPLETE)"
  have w: "control_wait ?en ''r'' ?r CD_GOAL_COMPLETE ?s = ?s" by (simp add: control_wait_def)
  show ?case
    using control_commits_or_drains [where cid = "''c1''" and c = "demo_control 1 CD_GOAL_COMPLETE" and repo = "''r''"
      and s = ?s and r = ?r and en = ?en and cx = demo_ctx and decision = CD_GOAL_COMPLETE and runId = "''a''"]
    by (auto simp: w isTerminalLoopState_def getActiveActor_def add_effects_def outbox_enqueue_def outbox_insert_def
        outbox_clash_def outbox_row_def close_sol_control_def effect_of_def)
next
  let ?en = quiet_env and ?r = "demo_run ''a'' SOL_REVIEWING"
  case 2
  let ?s = "demo_controlled SOL_REVIEWING {} [] (demo_control 1 CD_PAUSED)"
  have w: "control_wait ?en ''r'' ?r CD_PAUSED ?s = ?s" by (simp add: control_wait_def quiet_env_def demo_env_def)
  show ?case
    using control_commits_or_drains [where cid = "''c1''" and c = "demo_control 1 CD_PAUSED" and repo = "''r''"
      and s = ?s and r = ?r and en = ?en and cx = demo_ctx and decision = CD_PAUSED and runId = "''a''"]
    by (auto simp: w isTerminalLoopState_def decided_state_def)
qed

theorem recovered_run_rejects_controls_witness:
  "let s' = snd (onControlDetected quiet_env demo_ctx ''r'' ''c1'' CD_GOAL_COMPLETE ''a''
       (demo_controlled SOL_REVIEWING {} [demo_strategy SS_RECOVERY_REQUIRED] (demo_control 1 CD_GOAL_COMPLETE)))
   in runs s' = [demo_run ''a'' SOL_REVIEWING] \<and> control_status_of ''c1'' s' = Some SC_rejected"
  using recovered_run_rejects_controls [where cid = "''c1''" and c = "demo_control 1 CD_GOAL_COMPLETE" and repo = "''r''"
      and s = "demo_controlled SOL_REVIEWING {} [demo_strategy SS_RECOVERY_REQUIRED] (demo_control 1 CD_GOAL_COMPLETE)"
      and r = "demo_run ''a'' SOL_REVIEWING" and st = "demo_strategy SS_RECOVERY_REQUIRED"
      and en = quiet_env and cx = demo_ctx and decision = CD_GOAL_COMPLETE and runId = "''a''"]
  by (simp add: isTerminalLoopState_def Let_def)

theorem terminal_controls_over_executor_witness:
  "status_of ''a'' (snd (onControlDetected quiet_env demo_ctx ''r'' ''c1'' CD_BLOCKED ''a''
      (demo_controlled EXECUTING {} [] (demo_control 1 CD_BLOCKED)))) = Some BLOCKED"
  using terminal_controls_over_executor [where cid = "''c1''" and c = "demo_control 1 CD_BLOCKED" and repo = "''r''"
      and s = "demo_controlled EXECUTING {} [] (demo_control 1 CD_BLOCKED)" and r = "demo_run ''a'' EXECUTING"
      and en = quiet_env and cx = demo_ctx and decision = CD_BLOCKED and runId = "''a''"]
  by (simp add: listPendingOutbox_def outbox_listByState_def order_asc_def outbox_clash_def isTerminalLoopState_def unique_keys_def decided_state_def)

text \<open>The run is stopped while its executor works, and then killed.\<close>

definition demo_killed :: lstate where
  "demo_killed = snd (coord_kill quiet_env demo_ctx ''r'' (snd (coord_stop quiet_env demo_ctx ''r''
     (demo_state [demo_run ''a'' EXECUTING]))))"

lemma demo_killed_facts:
  "map_option (\<lambda>r. (ru_id r, ru_status r, ru_drain r)) (getLatestRun ''r'' (runs demo_killed)) =
     Some (''a'', RECOVERY_REQUIRED, Some USER_STOP)"
  "unique_keys ru_id (runs demo_killed)" "\<not> hasPostflightBlockedEvidence ''a'' (ts_app demo_killed)"
  by code_simp+

theorem retry_keeps_pending_stop_witness:
  "let s' = snd (recoverRun quiet_env demo_ctx ''r'' RA_retry demo_killed) in
     status_of ''a'' s' = Some SOL_PENDING \<and> isDrainPending ''r'' (run_get ''a'' (runs s')) (ts_app s')"
proof -
  obtain r where r: "getLatestRun ''r'' (runs demo_killed) = Some r" "ru_id r = ''a''" "ru_status r = RECOVERY_REQUIRED"
    "ru_drain r = Some USER_STOP"
    using demo_killed_facts(1) by (cases "getLatestRun ''r'' (runs demo_killed)") simp_all
  have w: "en_submitSolWake quiet_env p x t = (W_submitted, t)" for p x t by (simp add: quiet_env_def demo_env_def)
  from retry_keeps_pending_stop [OF r(1) demo_killed_facts(2) r(3,4) _ w] r(2) demo_killed_facts(3)
  show ?thesis by simp
qed

end
