(* ===== verification/Git_Host.thy ===== *)
theory Git_Host
  imports Work_Packets
begin

text \<open>
  What the packet services use of the host: the repository record of
  \<open>packages/shared/src/repository.ts\<close>, the path conversion of \<open>wsl-path.ts\<close>, Node's
  \<open>path\<close> functions (POSIX flavour), and the \<open>git\<close> wrappers of
  \<open>worktree-isolation-service.ts\<close> and \<open>integration-service.ts\<close>. Running a process and
  touching the file system are parameters over an arbitrary world \<open>'w\<close>.
\<close>

section \<open>Repositories\<close>

record repository =
  ry_id :: ident
  ry_displayName :: string
  ry_remote :: string
  ry_localPath :: string
  ry_env :: host_env
  ry_distro :: "string option"
  ry_cli :: string
  ry_model :: string
  ry_solUrl :: string
  ry_maxIterations :: int
  ry_maxRuntime :: int
  ry_enabled :: bool
  ry_created :: time
  ry_updated :: time

section \<open>Windows and WSL paths\<close>

definition is_letter :: "char \<Rightarrow> bool" where
  "is_letter c = (let n = (of_char c :: nat) in (65 \<le> n \<and> n \<le> 90) \<or> (97 \<le> n \<and> n \<le> 122))"

text \<open>The \<open>.\<close> of a regular expression without the \<open>s\<close> flag.\<close>

definition rx_dot :: "char \<Rightarrow> bool" where
  "rx_dot c \<longleftrightarrow> (of_char c :: nat) \<noteq> 10 \<and> (of_char c :: nat) \<noteq> 13"

definition js_backslashes :: "string \<Rightarrow> string" where
  "js_backslashes s = map (\<lambda>c. if c = CHR ''/'' then CHR 0x5C else c) s"

definition is_slash :: "char \<Rightarrow> bool" where
  "is_slash c \<longleftrightarrow> c = CHR ''/'' \<or> c = CHR 0x5C"

fun windows_path :: "string \<Rightarrow> (char \<times> string) option" where
  "windows_path (d # col # s # rest) =
     (if is_letter d \<and> col = CHR '':'' \<and> is_slash s \<and> list_all rx_dot rest then Some (d, rest) else None)"
| "windows_path _ = None"

fun wsl_path :: "string \<Rightarrow> (char \<times> string) option" where
  "wsl_path (a # b # c # e # f # d # s # rest) =
     (if [a, b, c, e, f] = ''/mnt/'' \<and> is_letter d \<and> is_slash s \<and> list_all rx_dot rest then Some (d, rest) else None)"
| "wsl_path _ = None"

definition toWslPath :: "string \<Rightarrow> string" where
  "toWslPath p = (case windows_path (js_slashes p) of None \<Rightarrow> js_slashes p
     | Some (d, rest) \<Rightarrow> ''/mnt/'' @ js_lower [d] @ ''/'' @ js_slashes rest)"

definition toWindowsPath :: "string \<Rightarrow> string" where
  "toWindowsPath p = (case wsl_path p of None \<Rightarrow> p
     | Some (d, rest) \<Rightarrow> js_upper [d] @ CHR '':'' # CHR 0x5C # js_backslashes rest)"

definition isWindowsPath :: "string \<Rightarrow> bool" where
  "isWindowsPath p \<longleftrightarrow> windows_path p \<noteq> None"

lemma js_slashes_simps [simp]:
  "js_slashes [] = []" "js_slashes (c # s) = (if c = CHR 0x5C then CHR ''/'' else c) # js_slashes s"
  "js_slashes (js_slashes s) = js_slashes s"
  by (simp_all add: js_slashes_def)

lemma js_backslashes_slashes: "CHR ''/'' \<notin> set s \<Longrightarrow> js_backslashes (js_slashes s) = s"
  by (induction s) (auto simp: js_backslashes_def)

lemma rx_dot_slashes [simp]: "list_all rx_dot (js_slashes s) = list_all rx_dot s"
  by (induction s) (auto simp: rx_dot_def)

lemma letter_lower:
  assumes "is_letter d"
  shows "\<exists>e. js_lower [d] = [e] \<and> is_letter e \<and> js_upper [e] = js_upper [d]"
proof -
  let ?n = "of_char d :: nat"
  have inv: "(of_char (char_of (?n + 32)) :: nat) = ?n + 32" if "?n \<le> 90" using that by simp
  show ?thesis
  proof (cases "65 \<le> ?n \<and> ?n \<le> 90")
    case True
    then show ?thesis using inv by (auto simp: js_lower_def js_upper_def is_letter_def Let_def)
  next
    case False
    then show ?thesis using assms by (auto simp: js_lower_def js_upper_def is_letter_def Let_def)
  qed
qed

text \<open>
  Paths survive the way into WSL and back. A Windows path written with backslashes, without
  line breaks, is turned into a \<open>/mnt\<close> path that \<open>toWindowsPath\<close> maps back to it, up to the
  case of the drive letter.
\<close>

theorem wsl_path_roundtrip:
  assumes "isWindowsPath (d # CHR '':'' # CHR 0x5C # rest)" and "CHR ''/'' \<notin> set rest"
  shows "toWindowsPath (toWslPath (d # CHR '':'' # CHR 0x5C # rest)) = js_upper [d] @ CHR '':'' # CHR 0x5C # rest
    \<and> take 5 (toWslPath (d # CHR '':'' # CHR 0x5C # rest)) = ''/mnt/''"
proof -
  have d: "is_letter d" and rest: "list_all rx_dot rest"
    using assms(1) by (simp_all add: isWindowsPath_def split: if_splits)
  obtain e where e: "js_lower [d] = [e]" "is_letter e" "js_upper [e] = js_upper [d]" using letter_lower [OF d] by blast
  have "d \<noteq> CHR 0x5C" using d by (auto simp: is_letter_def)
  then have w: "toWslPath (d # CHR '':'' # CHR 0x5C # rest) = ''/mnt/'' @ [e] @ ''/'' @ js_slashes rest"
    using d rest e by (simp add: toWslPath_def is_slash_def)
  show ?thesis
    unfolding w using e rest assms(2) by (simp add: toWindowsPath_def is_slash_def js_backslashes_slashes)
qed

theorem wsl_path_roundtrip_witness:
  "toWindowsPath (toWslPath (CHR ''d'' # CHR '':'' # CHR 0x5C # ''Repos'')) = js_upper ''d'' @ CHR '':'' # CHR 0x5C # ''Repos''
    \<and> take 5 (toWslPath (CHR ''d'' # CHR '':'' # CHR 0x5C # ''Repos'')) = ''/mnt/''"
  by (rule wsl_path_roundtrip) code_simp+


section \<open>Node paths\<close>

fun join_with :: "string \<Rightarrow> string list \<Rightarrow> string" where
  "join_with sep [] = []"
| "join_with sep [x] = x"
| "join_with sep (x # y # xs) = x @ sep @ join_with sep (y # xs)"

text \<open>\<open>normalizeString\<close>: empty segments and dots go, two dots take the segment before them.\<close>

fun norm_segs :: "bool \<Rightarrow> string list \<Rightarrow> string list \<Rightarrow> string list" where
  "norm_segs absolute acc [] = rev acc"
| "norm_segs absolute acc (s # segs) =
     (if s = [] \<or> s = ''.'' then norm_segs absolute acc segs
      else if s = ''..'' then (case acc of
          [] \<Rightarrow> norm_segs absolute (if absolute then [] else [''..'']) segs
        | a # acc' \<Rightarrow> norm_segs absolute (if a = ''..'' then ''..'' # acc else acc') segs)
      else norm_segs absolute (s # acc) segs)"

definition segments :: "string \<Rightarrow> string list" where
  "segments p = norm_segs True [] (js_split (CHR ''/'') p)"

definition path_normalize :: "string \<Rightarrow> string" where
  "path_normalize p = (if p = [] then ''.'' else
     (let absolute = (hd p = CHR ''/''); trailing = (last p = CHR ''/'');
          r = join_with ''/'' (norm_segs absolute [] (js_split (CHR ''/'') p))
      in if r = [] then (if absolute then ''/'' else if trailing then ''./'' else ''.'')
         else (if absolute then ''/'' else []) @ r @ (if trailing then ''/'' else [])))"

fun has_sub :: "string \<Rightarrow> string \<Rightarrow> bool" where
  "has_sub s [] = (s = [])"
| "has_sub s (c # cs) = (take (length s) (c # cs) = s \<or> has_sub s cs)"

definition path_join :: "string list \<Rightarrow> string" where
  "path_join ps = path_normalize (join_with ''/'' (filter (\<lambda>p. p \<noteq> []) ps))"

definition path_dirname :: "string \<Rightarrow> string" where
  "path_dirname p = (let up = rev (tl (dropWhile (\<lambda>c. c \<noteq> CHR ''/'') (rev p)))
     in if CHR ''/'' \<notin> set p then ''.'' else if up = [] then ''/'' else up)"

fun strip_common :: "string list \<Rightarrow> string list \<Rightarrow> string list \<times> string list" where
  "strip_common (a # as) (b # bs) = (if a = b then strip_common as bs else (a # as, b # bs))"
| "strip_common as bs = (as, bs)"

text \<open>\<open>path.relative\<close> between absolute paths.\<close>

definition path_relative :: "string \<Rightarrow> string \<Rightarrow> string" where
  "path_relative a b = (case strip_common (segments a) (segments b) of
     (up, down) \<Rightarrow> join_with ''/'' (map (\<lambda>_. ''..'') up @ down))"

definition starts_with :: "string \<Rightarrow> string \<Rightarrow> bool" where
  "starts_with s p \<longleftrightarrow> take (length p) s = p"

definition assertWithinDataDir :: "string \<Rightarrow> string \<Rightarrow> bool" where
  "assertWithinDataDir dataDir target = (let r = path_relative dataDir target
     in \<not> (starts_with r ''..'' \<or> (r \<noteq> [] \<and> hd r = CHR ''/'')))"

definition safe_char :: "char \<Rightarrow> bool" where
  "safe_char c \<longleftrightarrow> (let n = (of_char c :: nat) in is_letter c \<or> (48 \<le> n \<and> n \<le> 57) \<or> c \<in> {CHR ''.'', CHR ''_'', CHR ''-''})"

definition safe_name :: "string \<Rightarrow> string" where
  "safe_name s = map (\<lambda>c. if safe_char c then c else CHR ''-'') s"

definition safePart :: "string \<Rightarrow> string" where
  "safePart s = (let t = take 80 (safe_name s) in if t = [] then ''unknown'' else t)"

lemma safePart_chars: "list_all safe_char (safePart s)" "safePart s \<noteq> []" "length (safePart s) \<le> 80"
proof -
  have "list_all safe_char (safe_name s)"
    by (induction s) (auto simp: safe_name_def safe_char_def)
  then have "list_all safe_char (take 80 (safe_name s))"
    by (auto simp: list_all_iff dest: in_set_takeD)
  moreover have "list_all safe_char ''unknown''" by (simp add: safe_char_def is_letter_def)
  ultimately show "list_all safe_char (safePart s)" by (simp add: safePart_def Let_def)
qed (simp_all add: safePart_def Let_def)

text \<open>The check means what it says: an accepted path lies below the data directory.\<close>

lemma strip_common_prefix: "strip_common as bs = ([], d) \<Longrightarrow> bs = as @ d"
  by (induction as bs rule: strip_common.induct) (auto split: if_splits)

lemma join_with_head: "xs \<noteq> [] \<Longrightarrow> \<exists>r. join_with sep (x # xs) = x @ sep @ r"
  by (cases xs) auto

lemma within_is_below:
  assumes "assertWithinDataDir dataDir target"
  shows "\<exists>d. segments target = segments dataDir @ d"
proof -
  obtain up down where ud: "strip_common (segments dataDir) (segments target) = (up, down)" by fastforce
  have "up = []"
  proof (rule ccontr)
    assume "up \<noteq> []"
    then obtain u us where "up = u # us" by (cases up) auto
    then have "starts_with (path_relative dataDir target) ''..''"
      using ud by (cases "map (\<lambda>_. ''..'') us @ down") (auto simp: path_relative_def starts_with_def)
    then show False using assms by (simp add: assertWithinDataDir_def Let_def)
  qed
  then show ?thesis using ud strip_common_prefix by blast
qed

section \<open>Running git\<close>

datatype exec_result = Exec_ok string | Exec_fail string string

text \<open>
  \<open>hs_exec\<close> is \<open>execFile\<close>: command, arguments, working directory; it gives the standard output, or the
  standard error and the message. A returned \<open>string option\<close> is the message of the error thrown.
  \<open>hs_subdirs\<close> gives the directories below a directory, None when reading throws at a level.
\<close>

datatype dir_tree = Dir (dir_name: string) (dir_subs: "dir_tree list option")

record 'w host =
  hs_exec :: "string \<Rightarrow> string list \<Rightarrow> string option \<Rightarrow> 'w \<Rightarrow> exec_result \<times> 'w"
  hs_exists :: "string \<Rightarrow> 'w \<Rightarrow> bool"
  hs_mkdir :: "string \<Rightarrow> 'w \<Rightarrow> string option \<times> 'w"
  hs_rm :: "string \<Rightarrow> 'w \<Rightarrow> string option \<times> 'w"
  hs_write :: "string \<Rightarrow> string \<Rightarrow> 'w \<Rightarrow> string option \<times> 'w"
  hs_subdirs :: "string \<Rightarrow> 'w \<Rightarrow> dir_tree list option"

definition gitPath :: "repository \<Rightarrow> string \<Rightarrow> string" where
  "gitPath r v = (if ry_env r = ENV_wsl then toWslPath v else v)"

definition truthy :: "string option \<Rightarrow> bool" where
  "truthy x = (case x of Some (c # cs) \<Rightarrow> True | _ \<Rightarrow> False)"

definition distro_args :: "repository \<Rightarrow> string list" where
  "distro_args r = (if truthy (ry_distro r) then [''-d'', the (ry_distro r)] else [])"

definition run_git :: "string \<Rightarrow> 'w host \<Rightarrow> string \<Rightarrow> string list \<Rightarrow> string option \<Rightarrow> 'w \<Rightarrow> (string + string) \<times> 'w" where
  "run_git label h command args cwd w = (case hs_exec h command args cwd w of
       (Exec_ok out, w1) \<Rightarrow> (Inr (js_trim out), w1)
     | (Exec_fail err msg, w1) \<Rightarrow> (Inl (label @ '' ('' @ command @ '' '' @ join_with '' '' args @ ''): '' @
          (if js_trim err \<noteq> [] then js_trim err else msg)), w1))"

definition worktree_git :: "'w host \<Rightarrow> repository \<Rightarrow> string list \<Rightarrow> string \<Rightarrow> 'w \<Rightarrow> (string + string) \<times> 'w" where
  "worktree_git h r args cwd w =
     (if ry_env r = ENV_wsl
      then run_git ''Git worktree error'' h ''wsl.exe''
        (distro_args r @ [''--cd'', gitPath r cwd, ''--'', ''git'', ''-c'', ''core.longpaths=true''] @ args) None w
      else run_git ''Git worktree error'' h ''git'' ([''-c'', ''core.longpaths=true''] @ args) (Some cwd) w)"

definition integration_git :: "'w host \<Rightarrow> repository \<Rightarrow> string list \<Rightarrow> string \<Rightarrow> 'w \<Rightarrow> (string + string) \<times> 'w" where
  "integration_git h r args cwd w =
     (if ry_env r = ENV_wsl
      then run_git ''Git integration error'' h ''wsl.exe''
        (distro_args r @ [''--cd'', toWslPath cwd, ''--'', ''git''] @ args) None w
      else run_git ''Git integration error'' h ''git'' args (Some cwd) w)"


section \<open>Relative paths stay relative\<close>

lemma js_split_elems: "s \<in> set (js_split sep t) \<Longrightarrow> sep \<notin> set s"
  by (induction sep t arbitrary: s rule: js_split.induct) (auto split: if_splits list.splits)

lemma norm_segs_elems:
  "x \<in> set (norm_segs ab acc segs) \<Longrightarrow> x \<in> set acc \<or> (x \<in> set segs \<and> x \<noteq> []) \<or> x = ''..''"
  by (induction ab acc segs rule: norm_segs.induct) (auto split: if_splits list.splits)

lemma hd_join: "xs \<noteq> [] \<Longrightarrow> hd xs \<noteq> [] \<Longrightarrow> join_with sep xs \<noteq> [] \<and> hd (join_with sep xs) = hd (hd xs)"
  by (induction sep xs rule: join_with.induct) auto

lemma path_normalize_relative: "p = [] \<or> hd p \<noteq> CHR ''/'' \<Longrightarrow> path_normalize p \<noteq> [] \<and> hd (path_normalize p) \<noteq> CHR ''/''"
proof -
  assume rel: "p = [] \<or> hd p \<noteq> CHR ''/''"
  let ?segs = "norm_segs False [] (js_split (CHR ''/'') p)"
  show ?thesis
  proof (cases "p = [] \<or> ?segs = []")
    case True
    then show ?thesis using rel by (auto simp: path_normalize_def Let_def)
  next
    case False
    then have "hd ?segs \<in> set ?segs" by simp
    then have "hd ?segs \<noteq> [] \<and> CHR ''/'' \<notin> set (hd ?segs)"
      using norm_segs_elems [of "hd ?segs"] js_split_elems by fastforce
    moreover from this have "hd (hd ?segs) \<noteq> CHR ''/''" by (cases "hd ?segs") auto
    ultimately show ?thesis
      using False rel hd_join [of ?segs "''/''"] by (auto simp: path_normalize_def Let_def)
  qed
qed

lemma path_normalize_absolute: "p \<noteq> [] \<Longrightarrow> hd p = CHR ''/'' \<Longrightarrow> hd (path_normalize p) = CHR ''/''"
  by (auto simp: path_normalize_def Let_def)

lemma path_join_head: "d \<noteq> [] \<Longrightarrow> path_join (d # ps) = path_normalize (join_with ''/'' (d # filter (\<lambda>p. p \<noteq> []) ps))"
  by (simp add: path_join_def)

lemma path_join_relative: "d \<noteq> [] \<Longrightarrow> hd d \<noteq> CHR ''/'' \<Longrightarrow> path_join (d # ps) \<noteq> [] \<and> hd (path_join (d # ps)) \<noteq> CHR ''/''"
  using path_normalize_relative hd_join [of "d # filter (\<lambda>p. p \<noteq> []) ps"] by (simp add: path_join_head)

lemma path_join_absolute: "d \<noteq> [] \<Longrightarrow> hd d = CHR ''/'' \<Longrightarrow> hd (path_join (d # ps)) = CHR ''/''"
  using path_normalize_absolute hd_join [of "d # filter (\<lambda>p. p \<noteq> []) ps"] by (simp add: path_join_head)

section \<open>Which commands git runs\<close>

text \<open>A host that also writes down every git command and whether it succeeded.\<close>

definition git_part :: "repository \<Rightarrow> string list \<Rightarrow> string list" where
  "git_part r args = (if ry_env r = ENV_wsl then drop (length (distro_args r) + 4) args else args)"

type_synonym 'w logged = "'w \<times> (string list \<times> bool) list"

definition logged :: "repository \<Rightarrow> 'w host \<Rightarrow> 'w logged host" where
  "logged r h = \<lparr>hs_exec = (\<lambda>c a d (w, l). case hs_exec h c a d w of
         (x, w1) \<Rightarrow> (x, w1, l @ [(git_part r a, case x of Exec_ok _ \<Rightarrow> True | Exec_fail _ _ \<Rightarrow> False)])),
     hs_exists = (\<lambda>p (w, l). hs_exists h p w),
     hs_mkdir = (\<lambda>p (w, l). case hs_mkdir h p w of (e, w1) \<Rightarrow> (e, w1, l)),
     hs_rm = (\<lambda>p (w, l). case hs_rm h p w of (e, w1) \<Rightarrow> (e, w1, l)),
     hs_write = (\<lambda>p t (w, l). case hs_write h p t w of (e, w1) \<Rightarrow> (e, w1, l)),
     hs_subdirs = (\<lambda>p (w, l). hs_subdirs h p w)\<rparr>"

lemma logged_git:
  "integration_git (logged r h) r args cwd (w, l) = (y, w', l') \<Longrightarrow>
     l' = l @ [(args, case y of Inr _ \<Rightarrow> True | Inl _ \<Rightarrow> False)]"
  by (auto simp: integration_git_def run_git_def logged_def git_part_def split: if_splits prod.splits exec_result.splits)

end
