(* ===== verification/Worktrees.thy ===== *)
theory Worktrees
  imports Git_Host Leases
begin

text \<open>
  Isolated worktrees and staging checkouts, \<open>packets/worktree-isolation-service.ts\<close>: allocation on a
  deterministic path and branch, release, recovery after a restart, the sweep of staging
  checkouts, and the git mutations of the staging lineage. The state of an operation is the packet
  database and the host's world; an error is its message.
\<close>

section \<open>Reclaim guard\<close>

text \<open>
  \<open>we_classify\<close> is the probe, None when the service has no ownership dependencies; the probe answers None when it throws.
\<close>

record 'w wt_env =
  we_host :: "'w host"
  we_dataDir :: string
  we_classify :: "(proc_identity \<Rightarrow> verdict option) option"

text \<open>A probe that throws blocks the reclaim, as the \<open>catch\<close> does; a failing read of the process table is not modelled.\<close>

definition isReclaimBlocked :: "(proc_identity \<Rightarrow> verdict option) option \<Rightarrow> own_state \<Rightarrow> ident \<Rightarrow> bool" where
  "isReclaimBlocked classify own repo = (case classify of None \<Rightarrow> False
     | Some c \<Rightarrow> list_ex (\<lambda>p. \<not> (pr_state p = O_EXITED \<or> pr_state p = O_KILL_CONFIRMED)
           \<and> (case c (identity_of p) of None \<Rightarrow> True | Some v \<Rightarrow> v \<in> {LIVE_MATCH, UNKNOWN, PID_REUSED})) (proc_listByRepository repo own))"

section \<open>Allocation\<close>

type_synonym 'w wstate = "packet_db \<times> 'w"

definition worktree_path :: "string \<Rightarrow> repository \<Rightarrow> work_packet \<Rightarrow> string" where
  "worktree_path dataDir r p =
     path_join [dataDir, ''worktrees'', safePart (ry_id r), safePart (wp_run p), safePart (wp_id p)]"

definition worktree_branch :: "repository \<Rightarrow> work_packet \<Rightarrow> string" where
  "worktree_branch r p = ''orca/internal/'' @ safePart (ry_id r) @ ''/'' @ safePart (wp_run p) @ ''/''
     @ js_int (wp_iter p) @ ''/'' @ safePart (wp_id p)"

definition resolve_base :: "'w host \<Rightarrow> repository \<Rightarrow> string option \<Rightarrow> 'w \<Rightarrow> (string + string) \<times> 'w" where
  "resolve_base h r base w = (case base of
       Some b \<Rightarrow> if isSha40 b then (Inr b, w) else worktree_git h r [''rev-parse'', ''refs/heads/main''] (ry_localPath r) w
     | None \<Rightarrow> worktree_git h r [''rev-parse'', ''refs/heads/main''] (ry_localPath r) w)"

definition unique_failed :: string where
  "unique_failed = ''UNIQUE constraint failed: isolated_worktrees''"

text \<open>The dependency replay between creation and record; a failed one takes the checkout and its branch away again.\<close>

definition materialize_base ::
    "'w host \<Rightarrow> repository \<Rightarrow> string \<Rightarrow> string \<Rightarrow> string \<Rightarrow> (string \<Rightarrow> 'w \<Rightarrow> (string + string) \<times> 'w) option \<Rightarrow> 'w
     \<Rightarrow> (string + string) \<times> 'w" where
  "materialize_base h r path branch base materialize w = (case materialize of None \<Rightarrow> (Inr base, w)
     | Some m \<Rightarrow> (case m path w of
          (Inr head, w1) \<Rightarrow> (Inr (if isSha40 head then head else base), w1)
        | (Inl e, w1) \<Rightarrow> (let
             w2 = snd (worktree_git h r [''worktree'', ''remove'', ''--force'', gitPath r path] (ry_localPath r) w1);
             w3 = snd (worktree_git h r [''branch'', ''-D'', branch] (ry_localPath r) w2)
           in (Inl e, w3))))"

definition allocate_new ::
    "'w wt_env \<Rightarrow> ident \<Rightarrow> time \<Rightarrow> repository \<Rightarrow> work_packet \<Rightarrow> string option
     \<Rightarrow> (string \<Rightarrow> 'w \<Rightarrow> (string + string) \<times> 'w) option \<Rightarrow> 'w wstate \<Rightarrow> (string + worktree) \<times> 'w wstate" where
  "allocate_new en fresh now r p baseSha materialize = (\<lambda>(db, w).
     if wp_run p \<noteq> wp_campaign p then (Inl ''Worktree packet campaign/run correlation is invalid.'', db, w)
     else (case resolve_base (we_host en) r baseSha w of
         (Inl e, w1) \<Rightarrow> (Inl e, db, w1)
       | (Inr base, w1) \<Rightarrow>
          if \<not> isSha40 base then (Inl ''Cannot allocate a worktree without a valid local main SHA.'', db, w1)
          else (let path = worktree_path (we_dataDir en) r p; branch = worktree_branch r p in
            if \<not> assertWithinDataDir (we_dataDir en) path
            then (Inl ''Worktree path escaped the Orca data directory.'', db, w1)
            else (case hs_mkdir (we_host en) (path_dirname path) w1 of
                (Some e, w2) \<Rightarrow> (Inl e, db, w2)
              | (None, w2) \<Rightarrow>
                if hs_exists (we_host en) path w2
                then (Inl (''Deterministic worktree path already exists and was not removed: '' @ path), db, w2)
                else (case worktree_git (we_host en) r [''worktree'', ''add'', ''-b'', branch, gitPath r path, base] (ry_localPath r) w2 of
                    (Inl e, w3) \<Rightarrow> (Inl e, db, w3)
                  | (Inr _, w3) \<Rightarrow> (case materialize_base (we_host en) r path branch base materialize w3 of
                        (Inl e, w4) \<Rightarrow> (Inl e, db, w4)
                      | (Inr persisted, w4) \<Rightarrow> (let rec = \<lparr>wt_id = fresh, wt_repo = ry_id r, wt_packet = wp_id p,
                             wt_campaign = wp_campaign p, wt_run = wp_run p, wt_iter = wp_iter p, wt_path = path,
                             wt_branch = branch, wt_env = ry_env r, wt_distro = ry_distro r, wt_base = persisted,
                             wt_inputs = [], wt_status = WT_ACTIVE, wt_created = now, wt_released = None, wt_error = None\<rparr>
                          in (case saveWorktree rec db of
                              None \<Rightarrow> (Inl unique_failed, db, w4)
                            | Some db' \<Rightarrow> (Inr rec, db', w4)))))))))"

definition allocate ::
    "'w wt_env \<Rightarrow> ident \<Rightarrow> time \<Rightarrow> repository \<Rightarrow> work_packet \<Rightarrow> string option
     \<Rightarrow> (string \<Rightarrow> 'w \<Rightarrow> (string + string) \<times> 'w) option \<Rightarrow> 'w wstate \<Rightarrow> (string + worktree) \<times> 'w wstate" where
  "allocate en fresh now r p baseSha materialize s = (case getWorktreeByPacket (wp_id p) (fst s) of
       Some e \<Rightarrow> if wt_status e = WT_ALLOCATED \<or> wt_status e = WT_ACTIVE then (Inr e, s)
         else allocate_new en fresh now r p baseSha materialize s
     | None \<Rightarrow> allocate_new en fresh now r p baseSha materialize s)"


section \<open>Release\<close>

definition wt_update :: "ident \<Rightarrow> worktree_patch \<Rightarrow> 'w wstate \<Rightarrow> worktree option \<times> 'w wstate" where
  "wt_update i u = (\<lambda>(db, w). case updateWorktree i u db of (x, db') \<Rightarrow> (x, db', w))"

definition mark_worktree :: "worktree_status \<Rightarrow> time option option \<Rightarrow> string option \<Rightarrow> worktree_patch" where
  "mark_worktree st rel err = \<lparr>wu_status = Some st, wu_released = rel, wu_error = Some err, wu_inputs = None\<rparr>"

definition worktree_release ::
    "'w wt_env \<Rightarrow> own_state \<Rightarrow> time \<Rightarrow> repository \<Rightarrow> ident \<Rightarrow> 'w wstate \<Rightarrow> worktree option \<times> 'w wstate" where
  "worktree_release en own now r i = (\<lambda>(db, w).
     if isReclaimBlocked (we_classify en) own (ry_id r) then (getWorktree i db, db, w)
     else (case getWorktree i db of None \<Rightarrow> (None, db, w)
       | Some rec \<Rightarrow>
          if wt_repo rec \<noteq> ry_id r then (None, db, w)
          else if wt_status rec = WT_RELEASED then (Some rec, db, w)
          else if \<not> hs_exists (we_host en) (wt_path rec) w
          then wt_update i (mark_worktree WT_ORPHANED (Some (Some now))
                 (Some ''Worktree path is missing; branch provenance was retained.'')) (db, w)
          else (case worktree_git (we_host en) r [''status'', ''--porcelain''] (wt_path rec) w of
              (Inl e, w1) \<Rightarrow> wt_update i (mark_worktree WT_CLEANUP_REQUIRED None (Some e)) (db, w1)
            | (Inr status, w1) \<Rightarrow>
               if js_trim status \<noteq> []
               then wt_update i (mark_worktree WT_CLEANUP_REQUIRED None
                      (Some ''Worktree has uncommitted files; automatic cleanup is refused.'')) (db, w1)
               else (case worktree_git (we_host en) r [''worktree'', ''remove'', gitPath r (wt_path rec)] (ry_localPath r) w1 of
                   (Inl e, w2) \<Rightarrow> wt_update i (mark_worktree WT_CLEANUP_REQUIRED None (Some e)) (db, w2)
                 | (Inr _, w2) \<Rightarrow> (case worktree_git (we_host en) r [''branch'', ''-d'', wt_branch rec] (ry_localPath r) w2 of
                       (b, w3) \<Rightarrow> wt_update i (mark_worktree WT_RELEASED (Some (Some now))
                          (case b of Inr _ \<Rightarrow> None | Inl e \<Rightarrow> Some (''Internal branch retained: '' @ e))) (db, w3))))))"

section \<open>Recovery\<close>

definition recover_record ::
    "'w wt_env \<Rightarrow> repository \<Rightarrow> worktree \<Rightarrow> worktree list \<times> 'w wstate \<Rightarrow> worktree list \<times> 'w wstate" where
  "recover_record en r rec = (\<lambda>(acc, db, w).
     (case (if \<not> hs_exists (we_host en) (wt_path rec) w
         then wt_update (wt_id rec) (mark_worktree WT_ORPHANED None
                (Some ''Worktree path is missing after restart; no cleanup was attempted.'')) (db, w)
         else (case worktree_git (we_host en) r [''status'', ''--porcelain''] (wt_path rec) w of
             (Inr status, w1) \<Rightarrow> wt_update (wt_id rec) (if js_trim status \<noteq> []
                then mark_worktree WT_CLEANUP_REQUIRED None (Some ''Recovered worktree is dirty; user/worker files are preserved.'')
                else mark_worktree WT_STALE None
                  (Some ''Recovered after controller restart; explicit strategy reconciliation required.'')) (db, w1)
           | (Inl e, w1) \<Rightarrow> wt_update (wt_id rec) (mark_worktree WT_ORPHANED None (Some e)) (db, w1))) of
        (None, s') \<Rightarrow> (acc, s') | (Some n, s') \<Rightarrow> (acc @ [n], s')))"

text \<open>The staging sweep: the directories in preorder, decided deepest first. The root is the source's relative path.\<close>

fun collect_dirs :: "string \<Rightarrow> dir_tree list \<Rightarrow> string list" where
  "collect_dirs dir [] = []"
| "collect_dirs dir (Dir n subs # rest) = (let child = path_join [dir, n] in
     child # (case subs of None \<Rightarrow> [] | Some l \<Rightarrow> collect_dirs child l) @ collect_dirs dir rest)"

definition sweep_dir :: "'w wt_env \<Rightarrow> repository \<Rightarrow> string \<Rightarrow> string set \<times> 'w \<Rightarrow> string set \<times> 'w" where
  "sweep_dir en r dir = (\<lambda>(retained, w).
     if \<exists>k \<in> retained. starts_with k (dir @ ''/'') then (retained, w)
     else (let w1 = snd (worktree_git (we_host en) r [''worktree'', ''remove'', ''--force'', gitPath r dir] (ry_localPath r) w)
       in if \<not> hs_exists (we_host en) dir w1 then (retained, w1)
          else (case hs_rm (we_host en) dir w1 of
              (None, w2) \<Rightarrow> (retained, w2)
            | (Some _, w2) \<Rightarrow> (insert dir retained, w2))))"

definition staging_root :: "repository \<Rightarrow> string" where
  "staging_root r = path_join [''staging'', safePart (ry_id r)]"

definition sweepOrphanedStagings :: "'w wt_env \<Rightarrow> own_state \<Rightarrow> repository \<Rightarrow> 'w \<Rightarrow> 'w" where
  "sweepOrphanedStagings en own r w =
     (if isReclaimBlocked (we_classify en) own (ry_id r) then w
      else (let dirs = (case hs_subdirs (we_host en) (staging_root r) w of None \<Rightarrow> []
                 | Some l \<Rightarrow> collect_dirs (staging_root r) l)
        in snd (fold (sweep_dir en r) (rev dirs) ({}, w))))"

definition worktree_recover ::
    "'w wt_env \<Rightarrow> own_state \<Rightarrow> repository \<Rightarrow> 'w wstate \<Rightarrow> worktree list \<times> 'w wstate" where
  "worktree_recover en own r = (\<lambda>(db, w).
     if isReclaimBlocked (we_classify en) own (ry_id r) then ([], db, w)
     else (case fold (recover_record en r) (listWorktrees (ry_id r) (Some [WT_ALLOCATED, WT_ACTIVE]) db) ([], db, w) of
        (acc, db', w') \<Rightarrow> (acc, db', sweepOrphanedStagings en own r w')))"

section \<open>The staging checkout\<close>

record staging =
  sg_strategy :: ident
  sg_path :: string
  sg_branch :: string
  sg_base :: string

definition staging_path :: "string \<Rightarrow> repository \<Rightarrow> ident \<Rightarrow> ident \<Rightarrow> string" where
  "staging_path dataDir r run sid = path_join [dataDir, ''staging'', safePart (ry_id r), safePart run, safePart sid]"

definition ensureStaging ::
    "'w wt_env \<Rightarrow> repository \<Rightarrow> ident \<Rightarrow> ident \<Rightarrow> string \<Rightarrow> 'w \<Rightarrow> (string + staging) \<times> 'w" where
  "ensureStaging en r sid run base w =
     (if \<not> isSha40 base then (Inl ''Cannot create a strategy staging checkout without a valid base SHA.'', w)
      else (let h = we_host en; path = staging_path (we_dataDir en) r run sid; branch = ''orca/staging/'' @ safePart sid;
              handle = \<lparr>sg_strategy = sid, sg_path = path, sg_branch = branch, sg_base = base\<rparr> in
        if \<not> assertWithinDataDir (we_dataDir en) path then (Inl ''Worktree path escaped the Orca data directory.'', w)
        else (let found = hs_exists h path w;
                (head, w1) = (if found then worktree_git h r [''rev-parse'', ''--abbrev-ref'', ''HEAD''] path w else (Inl [], w)) in
          if found \<and> (case head of Inr b \<Rightarrow> js_trim b = branch | Inl _ \<Rightarrow> False) then (Inr handle, w1)
          else (let w3 = (if found then snd (hs_rm h path (snd (worktree_git h r
                        [''worktree'', ''remove'', ''--force'', gitPath r path] (ry_localPath r) w1))) else w1) in
            (case hs_mkdir h (path_dirname path) w3 of
                (Some e, w4) \<Rightarrow> (Inl e, w4)
              | (None, w4) \<Rightarrow> (case worktree_git h r [''worktree'', ''add'', ''-b'', branch, gitPath r path, base] (ry_localPath r) w4 of
                    (Inl e, w5) \<Rightarrow> (Inl e, w5)
                  | (Inr _, w5) \<Rightarrow> (Inr handle, w5)))))))"

definition isEmptyCherryPickError :: "string \<Rightarrow> bool" where
  "isEmptyCherryPickError m \<longleftrightarrow> has_sub ''previous cherry-pick is empty'' (js_lower m)
     \<or> has_sub ''previous cherry-pick is now empty'' (js_lower m)"

text \<open>A git mutation gives the new head, or the error. The flag \<open>alreadyApplied\<close> is read by no code.\<close>

definition abort_pick :: "'w host \<Rightarrow> repository \<Rightarrow> string \<Rightarrow> 'w \<Rightarrow> 'w" where
  "abort_pick h r path w = snd (worktree_git h r [''cherry-pick'', ''--abort''] path w)"

definition git_then_head ::
    "'w host \<Rightarrow> repository \<Rightarrow> string list \<Rightarrow> string \<Rightarrow> 'w \<Rightarrow> (string + string) \<times> 'w" where
  "git_then_head h r args cwd w = (case worktree_git h r args cwd w of
       (Inl e, w1) \<Rightarrow> (Inl e, w1)
     | (Inr _, w1) \<Rightarrow> worktree_git h r [''rev-parse'', ''HEAD''] cwd w1)"

definition cherryPickIntoStaging :: "'w host \<Rightarrow> repository \<Rightarrow> staging \<Rightarrow> string \<Rightarrow> 'w \<Rightarrow> (string + string) \<times> 'w" where
  "cherryPickIntoStaging h r sg sha w = (case git_then_head h r [''cherry-pick'', sha] (sg_path sg) w of
       (Inr head, w1) \<Rightarrow> (Inr head, w1)
     | (Inl e, w1) \<Rightarrow>
        if isEmptyCherryPickError e then
          (case git_then_head h r [''cherry-pick'', ''--skip''] (sg_path sg) w1 of
             (Inr head, w2) \<Rightarrow> (Inr head, w2)
           | (Inl _, w2) \<Rightarrow> (Inl e, abort_pick h r (sg_path sg) w2))
        else (Inl e, abort_pick h r (sg_path sg) w1))"

definition isCommitAncestorOfHead :: "'w host \<Rightarrow> repository \<Rightarrow> string \<Rightarrow> string \<Rightarrow> 'w \<Rightarrow> bool \<times> 'w" where
  "isCommitAncestorOfHead h r path sha w =
     map_prod (\<lambda>x. case x of Inr _ \<Rightarrow> True | Inl _ \<Rightarrow> False) id
       (worktree_git h r [''merge-base'', ''--is-ancestor'', sha, ''HEAD''] path w)"

fun replayCommits :: "'w host \<Rightarrow> repository \<Rightarrow> string \<Rightarrow> string \<Rightarrow> string list \<Rightarrow> 'w \<Rightarrow> (string + string) \<times> 'w" where
  "replayCommits h r path head [] w = (Inr head, w)"
| "replayCommits h r path head (sha # shas) w = (case git_then_head h r [''cherry-pick'', sha] path w of
       (Inr head', w1) \<Rightarrow> replayCommits h r path head' shas w1
     | (Inl e, w1) \<Rightarrow> (Inl (''DEPENDENCY_REPLAY_FAILED: '' @ sha @ '': '' @ e), abort_pick h r path w1))"

definition mergeFastForwardIntoMain :: "'w host \<Rightarrow> repository \<Rightarrow> string \<Rightarrow> 'w \<Rightarrow> (string + string) \<times> 'w" where
  "mergeFastForwardIntoMain h r branch w = git_then_head h r [''merge'', ''--ff-only'', branch] (ry_localPath r) w"

definition rebaseStagingOntoMain :: "'w host \<Rightarrow> repository \<Rightarrow> staging \<Rightarrow> 'w \<Rightarrow> string option \<times> 'w" where
  "rebaseStagingOntoMain h r sg w = (case worktree_git h r [''rebase'', ''main''] (sg_path sg) w of
       (Inr _, w1) \<Rightarrow> (None, w1)
     | (Inl e, w1) \<Rightarrow> (Some e, snd (worktree_git h r [''rebase'', ''--abort''] (sg_path sg) w1)))"

definition removeStagingWorktree :: "'w host \<Rightarrow> repository \<Rightarrow> staging \<Rightarrow> 'w \<Rightarrow> 'w" where
  "removeStagingWorktree h r sg w = (if \<not> hs_exists h (sg_path sg) w then w
     else snd (worktree_git h r [''worktree'', ''remove'', gitPath r (sg_path sg)] (ry_localPath r) w))"


section \<open>What allocation guarantees\<close>

lemma clash_by_path: "q \<in> set (db_worktrees db) \<Longrightarrow> wt_path q = wt_path w \<Longrightarrow> saveWorktree w db = None"
  by (auto simp: saveWorktree_def worktree_clash_def list_ex_iff)

lemma getWorktreeByPacket_in: "getWorktreeByPacket i db = Some w \<Longrightarrow> w \<in> set (db_worktrees db) \<and> wt_packet w = i"
  by (auto simp: getWorktreeByPacket_def dest: first_row_in_set)

lemma materialize_base_sha:
  "materialize_base h r path branch base m w = (Inr b, w') \<Longrightarrow> isSha40 base \<Longrightarrow> isSha40 b"
  by (auto simp: materialize_base_def Let_def split: option.splits sum.splits prod.splits if_splits)

text \<open>A new allocation, step by step: everything that held on the way to success.\<close>

lemma allocate_new_Inr:
  assumes "allocate_new en fresh now r p base m (db, w) = (Inr rec, db', w')"
  shows "wp_run p = wp_campaign p \<and> isSha40 (wt_base rec)
    \<and> assertWithinDataDir (we_dataDir en) (wt_path rec)
    \<and> wt_path rec = worktree_path (we_dataDir en) r p \<and> wt_branch rec = worktree_branch r p
    \<and> wt_packet rec = wp_id p \<and> wt_status rec = WT_ACTIVE \<and> saveWorktree rec db = Some db'"
  using assms
  by (auto simp: allocate_new_def Let_def split: if_splits sum.splits prod.splits option.splits dest: materialize_base_sha)

lemma allocate_new_db:
  "allocate_new en fresh now r p base m (db, w) = (Inl e, db', w') \<Longrightarrow> db' = db"
  by (auto simp: allocate_new_def Let_def split: if_splits sum.splits prod.splits option.splits)

text \<open>The host after a new allocation that stops before anything is created.\<close>

lemma allocate_new_escaped:
  assumes "allocate_new en fresh now r p base m (db, w) = (res, db', w')"
    and "\<not> assertWithinDataDir (we_dataDir en) (worktree_path (we_dataDir en) r p)"
  shows "w' = w \<or> w' = snd (resolve_base (we_host en) r base w)"
  using assms by (auto simp: allocate_new_def Let_def split: if_splits sum.splits prod.splits)

definition created_by_git :: "'w host \<Rightarrow> repository \<Rightarrow> worktree \<Rightarrow> bool" where
  "created_by_git h r rec \<longleftrightarrow> (\<exists>sha w w'. isSha40 sha \<and> \<not> hs_exists h (wt_path rec) w
     \<and> (\<exists>out. worktree_git h r [''worktree'', ''add'', ''-b'', wt_branch rec, gitPath r (wt_path rec), sha] (ry_localPath r) w = (Inr out, w')))"

lemma allocate_new_created:
  assumes "allocate_new en fresh now r p base m (db, w) = (Inr rec, db', w')"
  shows "created_by_git (we_host en) r rec"
proof -
  have "\<exists>sha w1 out w2. isSha40 sha \<and> \<not> hs_exists (we_host en) (wt_path rec) w1 \<and> worktree_git (we_host en) r
      [''worktree'', ''add'', ''-b'', wt_branch rec, gitPath r (wt_path rec), sha] (ry_localPath r) w1 = (Inr out, w2)"
    using assms by (auto simp: allocate_new_def Let_def split: if_splits sum.splits prod.splits option.splits) blast
  then show ?thesis unfolding created_by_git_def by blast
qed

lemma allocation_cases:
  assumes "allocate en fresh now r p base m (db, w) = (res, db', w')"
  shows "case res of
      Inl _ \<Rightarrow> db' = db \<and> (if assertWithinDataDir (we_dataDir en) (worktree_path (we_dataDir en) r p) then True
        else w' \<in> {w, snd (resolve_base (we_host en) r base w)})
    | Inr rec \<Rightarrow> if getWorktreeByPacket (wp_id p) db = Some rec \<and> wt_status rec \<in> {WT_ALLOCATED, WT_ACTIVE}
        then db' = db \<and> w' = w
        else wt_status rec = WT_ACTIVE \<and> isSha40 (wt_base rec)
          \<and> (\<exists>below. segments (wt_path rec) = segments (we_dataDir en) @ below)
          \<and> wt_path rec = worktree_path (we_dataDir en) r p \<and> wt_branch rec = worktree_branch r p
          \<and> created_by_git (we_host en) r rec
          \<and> \<not> worktree_clash rec db \<and> db_worktrees db' = db_worktrees db @ [rec]"
proof (cases "\<exists>e. getWorktreeByPacket (wp_id p) db = Some e \<and> wt_status e \<in> {WT_ALLOCATED, WT_ACTIVE}")
  case True
  then show ?thesis using assms by (auto simp: allocate_def split: if_splits)
next
  case False
  then have new: "allocate_new en fresh now r p base m (db, w) = (res, db', w')"
    using assms by (auto simp: allocate_def split: option.splits)
  show ?thesis
  proof (cases res)
    case (Inl e)
    then show ?thesis using allocate_new_db new allocate_new_escaped [OF new] by simp
  next
    case (Inr rec)
    have "created_by_git (we_host en) r rec"
      by (rule allocate_new_created [OF new [unfolded Inr]])
    with Inr new allocate_new_Inr [of en fresh now r p base m db w rec db' w'] False show ?thesis
      by (auto simp: within_is_below saveWorktree_def split: if_splits)
  qed
qed

text \<open>
  C33: where a worker may write. An allocation either hands out the packet's live worktree and
  changes nothing, or records one new worktree: active, below the data directory, on the path and
  branch the packet's ids determine, based on a 40-digit commit, and on a path and branch no
  other record has; git has added the worktree at that path on that branch, where nothing existed before.
  A refused allocation leaves the records alone, and when the packet's path escapes the
  data directory nothing is created on the host: at most main's commit was read.
\<close>

theorem allocation_confined:
  "case allocate en fresh now r p base m (db, w) of
      (Inl _, db', w') \<Rightarrow> db' = db \<and> (if assertWithinDataDir (we_dataDir en) (worktree_path (we_dataDir en) r p) then True
        else w' \<in> {w, snd (resolve_base (we_host en) r base w)})
    | (Inr rec, db', w') \<Rightarrow>
        if getWorktreeByPacket (wp_id p) db = Some rec \<and> wt_status rec \<in> {WT_ALLOCATED, WT_ACTIVE}
        then db' = db \<and> w' = w
        else wt_status rec = WT_ACTIVE \<and> isSha40 (wt_base rec)
          \<and> (\<exists>below. segments (wt_path rec) = segments (we_dataDir en) @ below)
          \<and> wt_path rec = worktree_path (we_dataDir en) r p \<and> wt_branch rec = worktree_branch r p
          \<and> created_by_git (we_host en) r rec
          \<and> \<not> worktree_clash rec db \<and> db_worktrees db' = db_worktrees db @ [rec]"
proof -
  obtain res db' w' where res: "allocate en fresh now r p base m (db, w) = (res, db', w')" by (metis prod_cases3)
  show ?thesis using allocation_cases [OF res] unfolding res by (cases res) (auto split: if_splits)
qed

text \<open>
  A worktree is for one use. Once the packet's latest worktree record is not live any more
  (released, stale, orphaned or in need of cleanup) and lies on the packet's own path, every
  later allocation for the packet fails, whatever the host and whatever happened to the
  checkout: either the path still exists, or the insert meets the unique path column, after the
  checkout and its branch were created.
\<close>

theorem spent_worktree_never_reallocated:
  assumes "getWorktreeByPacket (wp_id p) db = Some e" and "wt_path e = worktree_path (we_dataDir en) r p"
    and "wt_status e \<in> {WT_RELEASED, WT_STALE, WT_CLEANUP_REQUIRED, WT_ORPHANED}"
  shows "(case fst (allocate en fresh now r p base m (db, w)) of Inl _ \<Rightarrow> True | Inr _ \<Rightarrow> False)
    \<and> fst (snd (allocate en fresh now r p base m (db, w))) = db"
proof -
  obtain res db' w' where res: "allocate en fresh now r p base m (db, w) = (res, db', w')" by (metis prod_cases3)
  have new: "allocate_new en fresh now r p base m (db, w) = (res, db', w')"
    using res assms(1,3) by (auto simp: allocate_def)
  show ?thesis
  proof (cases res)
    case (Inl x)
    then show ?thesis using res new allocate_new_db by simp
  next
    case (Inr rec)
    then have "wt_path rec = wt_path e" "saveWorktree rec db = Some db'"
      using allocate_new_Inr [of en fresh now r p base m db w rec db' w'] new assms(2) by auto
    then show ?thesis using clash_by_path getWorktreeByPacket_in [OF assms(1)] by (metis option.distinct(1))
  qed
qed

text \<open>
  C34: nothing is reclaimed under a worker. In a service with ownership dependencies, while some process recorded for the repository is not
  terminal and the probe does not prove it dead, be it that the probe throws, releasing a worktree, the restart recovery and
  the staging sweep change neither the records nor the host.
\<close>

theorem no_reclaim_under_live_worker:
  assumes "we_classify en = Some c" and "q \<in> set (ow_procs own)" and "pr_repo q = ry_id r"
    and "pr_state q \<notin> {O_EXITED, O_KILL_CONFIRMED}" and "c (identity_of q) \<noteq> Some DEAD"
  shows "snd (worktree_release en own now r i s) = s \<and> worktree_recover en own r s = ([], s)
    \<and> sweepOrphanedStagings en own r w = w"
proof -
  have "case c (identity_of q) of None \<Rightarrow> True | Some v \<Rightarrow> v \<in> {LIVE_MATCH, UNKNOWN, PID_REUSED}"
    using assms(5) by (cases "c (identity_of q)"; cases "the (c (identity_of q))") auto
  then have "isReclaimBlocked (we_classify en) own (ry_id r)"
    using assms(1-4) by (auto simp: isReclaimBlocked_def proc_listByRepository_def list_ex_iff)
  then show ?thesis
    by (simp add: worktree_release_def worktree_recover_def sweepOrphanedStagings_def split_beta)
qed


lemma collect_dirs_relative:
  "dir \<noteq> [] \<Longrightarrow> hd dir \<noteq> CHR ''/'' \<Longrightarrow> list_all (\<lambda>d. d \<noteq> [] \<and> hd d \<noteq> CHR ''/'') (collect_dirs dir l)"
proof (induction dir l rule: collect_dirs.induct)
  case (2 dir n subs rest)
  then show ?case using path_join_relative [of dir "[n]"] by (auto simp: Let_def split: option.splits)
qed simp

text \<open>
  The staging sweep misses every staging checkout. Checkouts are made below the absolute
  data directory, the sweep walks \<open>staging/...\<close> relative to the controller's working directory
  (the root is built without the data directory), so no directory it visits is a
  staging checkout of any strategy run.
\<close>

theorem sweep_misses_staging:
  assumes "dataDir \<noteq> []" and "hd dataDir = CHR ''/''"
  shows "staging_path dataDir r' run sid \<notin> set (collect_dirs (staging_root r) l)"
proof -
  have "staging_root r \<noteq> [] \<and> hd (staging_root r) \<noteq> CHR ''/''"
    unfolding staging_root_def by (rule path_join_relative) simp_all
  then have "list_all (\<lambda>d. d \<noteq> [] \<and> hd d \<noteq> CHR ''/'') (collect_dirs (staging_root r) l)"
    by (simp add: collect_dirs_relative)
  moreover have "hd (staging_path dataDir r' run sid) = CHR ''/''"
    unfolding staging_path_def by (rule path_join_absolute) (use assms in simp_all)
  ultimately show ?thesis by (auto simp: list_all_iff)
qed

section \<open>Witnesses\<close>

definition demo_repository :: repository where
  "demo_repository = \<lparr>ry_id = ''r'', ry_displayName = ''R'', ry_remote = ''o'', ry_localPath = ''/repo'', ry_env = ENV_windows,
     ry_distro = None, ry_cli = ''cli'', ry_model = ''m'', ry_solUrl = ''u'', ry_maxIterations = 20, ry_maxRuntime = 480,
     ry_enabled = True, ry_created = 0, ry_updated = 0\<rparr>"

definition demo_sha :: string where
  "demo_sha = replicate 40 (CHR ''a'')"

text \<open>A host on which git succeeds, answering \<open>rev-parse\<close>, and no path exists.\<close>

definition demo_host :: "unit host" where
  "demo_host = \<lparr>hs_exec = (\<lambda>_ args _ w. (Exec_ok (if ''rev-parse'' \<in> set args then demo_sha else []), w)),
     hs_exists = (\<lambda>_ _. False), hs_mkdir = (\<lambda>_ w. (None, w)), hs_rm = (\<lambda>_ w. (None, w)), hs_write = (\<lambda>_ _ w. (None, w)),
     hs_subdirs = (\<lambda>_ _. None)\<rparr>"

definition demo_wt_env :: "unit wt_env" where
  "demo_wt_env = \<lparr>we_host = demo_host, we_dataDir = ''/data'', we_classify = Some (\<lambda>_. Some UNKNOWN)\<rparr>"

definition demo_worktree :: "worktree_status \<Rightarrow> worktree" where
  "demo_worktree st = \<lparr>wt_id = ''w1'', wt_repo = ''r'', wt_packet = ''p1'', wt_campaign = ''a'', wt_run = ''a'', wt_iter = 1,
     wt_path = ''/data/worktrees/r/a/p1'', wt_branch = ''orca/internal/r/a/1/p1'', wt_env = ENV_windows, wt_distro = None,
     wt_base = demo_sha, wt_inputs = [], wt_status = st, wt_created = 0, wt_released = None, wt_error = None\<rparr>"

theorem spent_worktree_never_reallocated_witness:
  "fst (allocate demo_wt_env ''w2'' 9 demo_repository (demo_packet ''p1'' []) (Some demo_sha) None
      ((demo_db [demo_packet ''p1'' []])\<lparr>db_worktrees := [demo_worktree WT_RELEASED]\<rparr>, ())) = Inl unique_failed"
proof -
  let ?db = "(demo_db [demo_packet ''p1'' []])\<lparr>db_worktrees := [demo_worktree WT_RELEASED]\<rparr>"
  have "getWorktreeByPacket (wp_id (demo_packet ''p1'' [])) ?db = Some (demo_worktree WT_RELEASED)"
    "wt_path (demo_worktree WT_RELEASED) = worktree_path (we_dataDir demo_wt_env) demo_repository (demo_packet ''p1'' [])"
    "wt_status (demo_worktree WT_RELEASED) \<in> {WT_RELEASED, WT_STALE, WT_CLEANUP_REQUIRED, WT_ORPHANED}"
    by code_simp+
  from spent_worktree_never_reallocated [OF this, of "''w2''" 9 "Some demo_sha" None "()"]
  have "(case fst (allocate demo_wt_env ''w2'' 9 demo_repository (demo_packet ''p1'' []) (Some demo_sha) None (?db, ())) of
      Inl _ \<Rightarrow> True | Inr _ \<Rightarrow> False)" by simp
  moreover have "fst (allocate demo_wt_env ''w2'' 9 demo_repository (demo_packet ''p1'' []) (Some demo_sha) None (?db, ()))
      = Inl unique_failed" by code_simp
  ultimately show ?thesis by simp
qed

theorem no_reclaim_under_live_worker_witness:
  "snd (worktree_release demo_wt_env \<lparr>ow_leases = [], ow_procs = [demo_proc O_RUNNING], ow_audit = []\<rparr> 9 demo_repository ''w1''
     ((demo_db [])\<lparr>db_worktrees := [demo_worktree WT_ACTIVE]\<rparr>, ())) = ((demo_db [])\<lparr>db_worktrees := [demo_worktree WT_ACTIVE]\<rparr>, ())"
  using no_reclaim_under_live_worker [where en = demo_wt_env and c = "\<lambda>_. Some UNKNOWN" and q = "demo_proc O_RUNNING"
      and own = "\<lparr>ow_leases = [], ow_procs = [demo_proc O_RUNNING], ow_audit = []\<rparr>" and r = demo_repository]
  by (simp add: demo_wt_env_def demo_proc_def demo_repository_def)

theorem sweep_misses_staging_witness:
  "staging_path ''/data'' demo_repository ''a'' ''s1'' = ''/data/staging/r/a/s1'' \<and>
   collect_dirs (staging_root demo_repository) [Dir ''a'' (Some [Dir ''s1'' None])] = [''staging/r/a'', ''staging/r/a/s1''] \<and>
   ''/data/staging/r/a/s1'' \<notin> set (collect_dirs (staging_root demo_repository) [Dir ''a'' (Some [Dir ''s1'' None])])"
proof -
  have p: "staging_path ''/data'' demo_repository ''a'' ''s1'' = ''/data/staging/r/a/s1''" by code_simp
  have c: "collect_dirs (staging_root demo_repository) [Dir ''a'' (Some [Dir ''s1'' None])] = [''staging/r/a'', ''staging/r/a/s1'']"
    by code_simp
  show ?thesis
    using sweep_misses_staging [where dataDir = "''/data''" and r' = demo_repository and run = "''a''" and sid = "''s1''"
        and r = demo_repository and l = "[Dir ''a'' (Some [Dir ''s1'' None])]"] p c by simp
qed

end
