(* ===== verification/Work_Graph.thy ===== *)
theory Work_Graph
  imports Work_Packets
begin

text \<open>
  The two graph algorithms the strategy engines run over dependency lists: the cycle search of
  \<open>SwarmExecutionService.hasCycle\<close> and \<open>DagExecutionService.hasCycle\<close> (one recursive
  function in the source, written out twice), and the topological order of
  \<open>IntegrationService\<close>. A graph is the entry list of the source's \<open>Map\<close> from an
  id to its dependencies. \<open>localeCompare\<close> is the host's collation: a rank \<open>coll\<close> of
  the ids.
\<close>

section \<open>The cycle search\<close>

type_synonym graph = "(ident \<times> ident list) list"

definition deps_of :: "graph \<Rightarrow> ident \<Rightarrow> ident list" where
  "deps_of g n = (case map_of g n of None \<Rightarrow> [] | Some ds \<Rightarrow> ds)"

lemma deps_of_unknown [simp]: "n \<notin> fst ` set g \<Longrightarrow> deps_of g n = []"
  by (simp add: deps_of_def map_of_eq_None_iff [THEN iffD2])

text \<open>The path grows by an id of the graph, or the id has no dependencies.\<close>

lemma path_grows:
  "n \<notin> p \<Longrightarrow> n \<in> fst ` set (g :: graph) \<Longrightarrow> card (fst ` set g - insert n p) < card (fst ` set g - p)"
  by (rule psubset_card_mono) auto

text \<open>
  \<open>visiting\<close> is the path of the recursion (an id is deleted from it on the way back),
  \<open>visited\<close> is shared by all calls and returned.
\<close>

function (sequential) visit :: "graph \<Rightarrow> ident set \<Rightarrow> ident set \<Rightarrow> ident \<Rightarrow> bool \<times> ident set"
  and visit_some :: "graph \<Rightarrow> ident set \<Rightarrow> ident set \<Rightarrow> ident list \<Rightarrow> bool \<times> ident set" where
  "visit g visiting visited n =
     (if n \<in> visiting then (True, visited)
      else if n \<in> visited then (False, visited)
      else (case visit_some g (insert n visiting) visited (deps_of g n) of
          (True, v) \<Rightarrow> (True, v)
        | (False, v) \<Rightarrow> (False, insert n v)))"
| "visit_some g visiting visited [] = (False, visited)"
| "visit_some g visiting visited (d # ds) =
     (case visit g visiting visited d of
        (True, v) \<Rightarrow> (True, v)
      | (False, v) \<Rightarrow> visit_some g visiting v ds)"
  by pat_completeness auto

termination
proof (relation "measures [\<lambda>x. case x of Inl (g, p, v, n) \<Rightarrow> card (fst ` set g - p) | Inr (g, p, v, ds) \<Rightarrow> card (fst ` set g - p),
    \<lambda>x. case x of Inl _ \<Rightarrow> 1 | Inr (g, p, v, ds) \<Rightarrow> 2 * length ds]", goal_cases)
  case (2 g p v n)
  show ?case
  proof (cases "n \<in> fst ` set g")
    case True
    then show ?thesis using path_grows [OF 2(1) True] by simp
  next
    case False
    then have "fst ` set g - insert n p = fst ` set g - p" by auto
    then show ?thesis using False by simp
  qed
qed simp_all

definition has_cycle :: "graph \<Rightarrow> ident list \<Rightarrow> bool" where
  "has_cycle g ns = fst (visit_some g {} {} ns)"

definition edges :: "graph \<Rightarrow> (ident \<times> ident) set" where
  "edges g = {(a, b). b \<in> set (deps_of g a)}"

text \<open>A hit is a cycle: everything on the path reaches the id at hand.\<close>

lemma visit_sound:
  "fst (visit g p v n) \<Longrightarrow> \<forall>a \<in> p. (a, n) \<in> (edges g)\<^sup>+ \<Longrightarrow> \<exists>m. (m, m) \<in> (edges g)\<^sup>+"
  "fst (visit_some g p v ds) \<Longrightarrow> \<forall>a \<in> p. \<forall>d \<in> set ds. (a, d) \<in> (edges g)\<^sup>+ \<Longrightarrow> \<exists>m. (m, m) \<in> (edges g)\<^sup>+"
proof (induction g p v n and g p v ds rule: visit_visit_some.induct)
  case (1 g p v n)
  show ?case
  proof (cases "n \<in> p")
    case True
    then show ?thesis using "1.prems"(2) by blast
  next
    case False
    then have "n \<notin> v" using "1.prems"(1) by (auto split: if_splits)
    have hit: "fst (visit_some g (insert n p) v (deps_of g n))"
      using "1.prems"(1) False \<open>n \<notin> v\<close> by (auto split: prod.splits bool.splits)
    have "(a, d) \<in> (edges g)\<^sup>+" if "a \<in> insert n p" "d \<in> set (deps_of g n)" for a d
    proof -
      have "(n, d) \<in> edges g" using that(2) by (simp add: edges_def)
      then show ?thesis using that(1) "1.prems"(2) by (auto intro: trancl_into_trancl)
    qed
    then show ?thesis using "1.IH" [OF False \<open>n \<notin> v\<close> hit] by blast
  qed
next
  case (3 g p v d ds)
  obtain b w where bw: "visit g p v d = (b, w)" by fastforce
  show ?case
  proof (cases b)
    case True
    then show ?thesis using "3.IH"(1) "3.prems"(2) bw by simp
  next
    case False
    then show ?thesis using "3.IH"(2) "3.prems" bw by auto
  qed
qed simp


text \<open>
  A miss leaves a closed set of finished ids without a cycle, in which the id at hand is.
\<close>

definition finished :: "graph \<Rightarrow> ident set \<Rightarrow> ident set \<Rightarrow> bool" where
  "finished g p v \<longleftrightarrow> p \<inter> v = {} \<and> edges g `` v \<subseteq> v \<and> (\<forall>a \<in> v. (a, a) \<notin> (edges g)\<^sup>+)"

lemma finished_insert:
  assumes f: "finished g (insert n p) v" and ds: "set (deps_of g n) \<subseteq> v" and n: "n \<notin> p"
  shows "finished g p (insert n v)"
proof -
  have closed: "edges g `` v \<subseteq> v" and disj: "insert n p \<inter> v = {}" and ac: "\<forall>a \<in> v. (a, a) \<notin> (edges g)\<^sup>+"
    using f by (auto simp: finished_def)
  have "(n, n) \<notin> (edges g)\<^sup>+"
  proof
    assume "(n, n) \<in> (edges g)\<^sup>+"
    then obtain d where "(n, d) \<in> edges g" "(d, n) \<in> (edges g)\<^sup>*" by (metis tranclD)
    then have "d \<in> v" using ds by (auto simp: edges_def)
    then have "n \<in> v" using Image_closed_trancl [OF closed] \<open>(d, n) \<in> (edges g)\<^sup>*\<close> by blast
    then show False using disj by blast
  qed
  moreover have "edges g `` insert n v \<subseteq> insert n v" using closed ds by (auto simp: edges_def)
  ultimately show ?thesis using disj ac n by (auto simp: finished_def)
qed

lemma visit_complete:
  "\<not> fst (visit g p v n) \<Longrightarrow> finished g p v \<Longrightarrow>
     v \<subseteq> snd (visit g p v n) \<and> n \<in> snd (visit g p v n) \<and> finished g p (snd (visit g p v n))"
  "\<not> fst (visit_some g p v ds) \<Longrightarrow> finished g p v \<Longrightarrow>
     v \<subseteq> snd (visit_some g p v ds) \<and> set ds \<subseteq> snd (visit_some g p v ds) \<and> finished g p (snd (visit_some g p v ds))"
proof (induction g p v n and g p v ds rule: visit_visit_some.induct)
  case (1 g p v n)
  show ?case
  proof (cases "n \<in> v")
    case True
    then show ?thesis using "1.prems" by (auto simp: finished_def)
  next
    case False
    have n: "n \<notin> p" using "1.prems"(1) by auto
    obtain w where w: "visit_some g (insert n p) v (deps_of g n) = (False, w)"
      using "1.prems"(1) n False by (auto split: prod.splits bool.splits)
    have "finished g (insert n p) v" using "1.prems"(2) False by (simp add: finished_def)
    then have "v \<subseteq> w" "set (deps_of g n) \<subseteq> w" "finished g (insert n p) w"
      using "1.IH" [OF n False] w by auto
    then show ?thesis using finished_insert n w False by auto
  qed
next
  case (3 g p v d ds)
  then obtain w where w: "visit g p v d = (False, w)" by (auto split: prod.splits bool.splits)
  have one: "v \<subseteq> w" "d \<in> w" "finished g p w" using "3.IH"(1) "3.prems"(2) w by simp_all
  moreover have "\<not> fst (visit_some g p w ds)" using "3.prems"(1) w by simp
  ultimately have "w \<subseteq> snd (visit_some g p w ds) \<and> set ds \<subseteq> snd (visit_some g p w ds)
      \<and> finished g p (snd (visit_some g p w ds))"
    using "3.IH"(2) w by simp
  then show ?case using one w by auto
qed simp

text \<open>Started from every id of the graph, the search decides whether the dependency relation is acyclic.\<close>

lemma has_cycle_acyclic:
  assumes "fst ` set g \<subseteq> set ns"
  shows "has_cycle g ns \<longleftrightarrow> \<not> acyclic (edges g)"
proof
  assume "has_cycle g ns"
  then show "\<not> acyclic (edges g)"
    using visit_sound(2) [of g "{}"] by (auto simp: has_cycle_def acyclic_def)
next
  assume "\<not> acyclic (edges g)"
  then obtain m where m: "(m, m) \<in> (edges g)\<^sup>+" by (auto simp: acyclic_def)
  then obtain d where "d \<in> set (deps_of g m)" unfolding edges_def by (blast dest: tranclD)
  then have "m \<in> set ns" using assms by (metis deps_of_unknown empty_iff list.set(1) subsetD)
  moreover have "set ns \<subseteq> snd (visit_some g {} {} ns) \<and> finished g {} (snd (visit_some g {} {} ns))"
    if "\<not> has_cycle g ns"
    using visit_complete(2) [of g "{}" "{}" ns] that by (simp add: has_cycle_def finished_def)
  ultimately show "has_cycle g ns" using m by (auto simp: finished_def)
qed


section \<open>The topological order\<close>

text \<open>
  \<open>incoming\<close> maps an id to the dependencies not yet put out; \<open>ready\<close> is sorted after every
  round. Packets are told apart by identity in the source and by their record here; their
  ids are distinct wherever the order is asked for.
\<close>

definition packet_graph :: "work_packet list \<Rightarrow> graph" where
  "packet_graph ps = rev (map (\<lambda>p. (wp_id p, wp_depends p)) ps)"

definition drop_dep :: "ident \<Rightarrow> graph \<Rightarrow> graph" where
  "drop_dep i incoming = map (\<lambda>(n, ds). (n, removeAll i ds)) incoming"

abbreviation by_id :: "(ident \<Rightarrow> int) \<Rightarrow> work_packet list \<Rightarrow> work_packet list" where
  "by_id coll \<equiv> sort_key (\<lambda>p. coll (wp_id p))"

definition newly_ready :: "work_packet list \<Rightarrow> graph \<Rightarrow> work_packet list \<Rightarrow> work_packet list \<Rightarrow> work_packet list" where
  "newly_ready packets incoming output ready =
     filter (\<lambda>c. deps_of incoming (wp_id c) = [] \<and> c \<notin> set output \<and> c \<notin> set ready) packets"

function (sequential) topo_loop ::
    "(ident \<Rightarrow> int) \<Rightarrow> work_packet list \<Rightarrow> graph \<Rightarrow> work_packet list \<Rightarrow> work_packet list \<Rightarrow> work_packet list" where
  "topo_loop coll packets incoming [] output = output"
| "topo_loop coll packets incoming (p # ready) output =
     topo_loop coll packets (drop_dep (wp_id p) incoming)
       (by_id coll (ready @ newly_ready packets (drop_dep (wp_id p) incoming) (output @ [p]) ready)) (output @ [p])"
  by pat_completeness auto

text \<open>A round takes new packets into the queue, or only shortens it.\<close>

termination
proof (relation "measures [\<lambda>(coll, ps, inc, ready, out). card (set ps - set (ready @ out)), \<lambda>(coll, ps, inc, ready, out). length ready]",
    goal_cases)
  case (2 coll ps inc p ready out)
  let ?new = "newly_ready ps (drop_dep (wp_id p) inc) (out @ [p]) ready"
  show ?case
  proof (cases "?new = []")
    case True
    then show ?thesis by simp
  next
    case False
    then obtain q where "q \<in> set ?new" by (meson list.set_sel(1))
    then have "q \<in> set ps - set (p # ready @ out)" "q \<in> set ?new"
      by (auto simp: newly_ready_def)
    then have "card (set ps - (set ready \<union> set ?new \<union> insert p (set out))) < card (set ps - set (p # ready @ out))"
      by (intro psubset_card_mono) auto
    then show ?thesis by (simp add: insert_commute Un_commute Un_left_commute)
  qed
qed simp

definition missing_dependency :: "work_packet list \<Rightarrow> ident option" where
  "missing_dependency ps = find (\<lambda>d. d \<notin> wp_id ` set ps) (concat (map wp_depends ps))"

definition topologicalOrder :: "(ident \<Rightarrow> int) \<Rightarrow> work_packet list \<Rightarrow> string + work_packet list" where
  "topologicalOrder coll packets = (case missing_dependency packets of
       Some d \<Rightarrow> Inl (''Missing packet dependency: '' @ d)
     | None \<Rightarrow> (let incoming = map (\<lambda>(n, ds). (n, remdups ds)) (packet_graph packets);
                  output = topo_loop coll packets incoming
                    (by_id coll (filter (\<lambda>p. deps_of incoming (wp_id p) = []) packets)) []
         in if length output = length packets then Inr output else Inl ''Packet dependency graph contains a cycle.''))"


text \<open>Every packet comes after the packets it depends on.\<close>

fun deps_first :: "ident set \<Rightarrow> work_packet list \<Rightarrow> bool" where
  "deps_first done [] = True"
| "deps_first done (p # ps) = (set (wp_depends p) \<subseteq> done \<and> deps_first (insert (wp_id p) done) ps)"

lemma deps_first_snoc: "deps_first D (xs @ [p]) \<longleftrightarrow> deps_first D xs \<and> set (wp_depends p) \<subseteq> D \<union> wp_id ` set xs"
  by (induction xs arbitrary: D) auto

lemma deps_of_packets:
  "distinct (map wp_id ps) \<Longrightarrow> p \<in> set ps \<Longrightarrow> deps_of (packet_graph ps) (wp_id p) = wp_depends p"
proof -
  assume "distinct (map wp_id ps)" and p: "p \<in> set ps"
  moreover have "map fst (packet_graph ps) = rev (map wp_id ps)" by (simp add: packet_graph_def rev_map comp_def)
  ultimately have "distinct (map fst (packet_graph ps))" by simp
  moreover have "(wp_id p, wp_depends p) \<in> set (packet_graph ps)" using p by (auto simp: packet_graph_def)
  ultimately show ?thesis by (simp add: deps_of_def)
qed

lemma deps_of_map [simp]: "deps_of (map (\<lambda>(n, ds). (n, f ds)) g) n = (if n \<in> fst ` set g then f (deps_of g n) else [])"
  by (induction g) (auto simp: deps_of_def)

lemma deps_of_drop [simp]: "deps_of (drop_dep i g) n = removeAll i (deps_of g n)"
  unfolding drop_dep_def by (cases "n \<in> fst ` set g") simp_all

lemma packet_graph_ids [simp]: "fst ` set (packet_graph ps) = wp_id ` set ps"
  by (force simp: packet_graph_def)

definition topo_inv :: "work_packet list \<Rightarrow> graph \<Rightarrow> work_packet list \<Rightarrow> work_packet list \<Rightarrow> bool" where
  "topo_inv ps inc ready out \<longleftrightarrow> distinct (ready @ out) \<and> set (ready @ out) \<subseteq> set ps \<and> deps_first {} out
     \<and> (\<forall>p \<in> set ps. set (deps_of inc (wp_id p)) = set (wp_depends p) - wp_id ` set out)
     \<and> (\<forall>p \<in> set ps. p \<in> set (ready @ out) \<longleftrightarrow> deps_of inc (wp_id p) = [])"

lemma topo_inv_step:
  assumes inv: "topo_inv ps inc (p # ready) out" and ps: "distinct (map wp_id ps)"
  shows "topo_inv ps (drop_dep (wp_id p) inc)
      (by_id coll (ready @ newly_ready ps (drop_dep (wp_id p) inc) (out @ [p]) ready)) (out @ [p])"
proof -
  let ?inc = "drop_dep (wp_id p) inc"
  let ?new = "newly_ready ps ?inc (out @ [p]) ready"
  have d: "distinct (p # ready @ out)" and sub: "set (p # ready @ out) \<subseteq> set ps" and out: "deps_first {} out"
    and deps: "\<And>q. q \<in> set ps \<Longrightarrow> set (deps_of inc (wp_id q)) = set (wp_depends q) - wp_id ` set out"
    and ready: "\<And>q. q \<in> set ps \<Longrightarrow> q \<in> set (p # ready @ out) \<longleftrightarrow> deps_of inc (wp_id q) = []"
    using inv by (auto simp: topo_inv_def)
  have "set (wp_depends p) \<subseteq> wp_id ` set out" using deps [of p] ready [of p] sub by auto
  then have "deps_first {} (out @ [p])" using out by (simp add: deps_first_snoc)
  moreover have "distinct ?new" using ps by (simp add: newly_ready_def distinct_map)
  then have "distinct (ready @ ?new @ out @ [p])" using d by (auto simp: newly_ready_def)
  then have "distinct (by_id coll (ready @ ?new) @ out @ [p])" by auto
  moreover have "set (by_id coll (ready @ ?new) @ out @ [p]) \<subseteq> set ps" using sub by (auto simp: newly_ready_def)
  moreover have "set (deps_of ?inc (wp_id q)) = set (wp_depends q) - wp_id ` set (out @ [p])" if "q \<in> set ps" for q
    using deps [OF that] by auto
  moreover have "q \<in> set (by_id coll (ready @ ?new) @ out @ [p]) \<longleftrightarrow> deps_of ?inc (wp_id q) = []" if "q \<in> set ps" for q
    using ready [OF that] that by (auto simp: newly_ready_def)
  ultimately show ?thesis unfolding topo_inv_def by blast
qed

lemma topo_loop_inv:
  "topo_inv ps inc ready out \<Longrightarrow> distinct (map wp_id ps) \<Longrightarrow> \<exists>inc'. topo_inv ps inc' [] (topo_loop coll ps inc ready out)"
proof (induction coll ps inc ready out rule: topo_loop.induct)
  case (2 coll ps inc p ready out)
  then show ?case using topo_inv_step [OF 2(2,3)] by simp
qed auto


lemma finite_edges: "finite (edges g)"
proof (rule finite_subset)
  show "edges g \<subseteq> fst ` set g \<times> (\<Union>e \<in> set g. set (snd e))"
  proof (rule subrelI)
    fix a b assume "(a, b) \<in> edges g"
    then obtain ds where "map_of g a = Some ds" "b \<in> set ds"
      by (cases "map_of g a") (simp_all add: edges_def deps_of_def)
    then have "(a, ds) \<in> set g" "b \<in> set ds" by (auto dest: map_of_SomeD)
    then show "(a, b) \<in> fst ` set g \<times> (\<Union>e \<in> set g. set (snd e))" by force
  qed
qed auto

lemma rank_decreases:
  "deps_first D R \<Longrightarrow> p \<in> set R \<Longrightarrow> distinct (map wp_id R) \<Longrightarrow> b \<in> set (wp_depends p) \<Longrightarrow> D \<inter> wp_id ` set R = {} \<Longrightarrow>
   b \<in> D \<or> length (takeWhile (\<lambda>q. wp_id q \<noteq> b) R) < length (takeWhile (\<lambda>q. wp_id q \<noteq> wp_id p) R)"
proof (induction R arbitrary: D)
  case (Cons q R)
  show ?case
  proof (cases "p = q")
    case True
    then show ?thesis using Cons.prems by auto
  next
    case False
    then have "p \<in> set R" "wp_id q \<noteq> wp_id p" using Cons.prems by (auto simp: image_iff)
    then show ?thesis using Cons.IH [of "insert (wp_id q) D"] Cons.prems by auto
  qed
qed simp

lemma deps_first_acyclic:
  assumes R: "deps_first {} R" and ids: "distinct (map wp_id R)"
    and g: "\<And>a b. (a, b) \<in> edges g \<Longrightarrow> \<exists>p \<in> set R. wp_id p = a \<and> b \<in> set (wp_depends p)"
  shows "acyclic (edges g)"
proof (rule acyclicI_order)
  fix a b assume "(a, b) \<in> edges g"
  then obtain p where p: "p \<in> set R" "wp_id p = a" "b \<in> set (wp_depends p)" using g by blast
  show "length (takeWhile (\<lambda>q. wp_id q \<noteq> b) R) < length (takeWhile (\<lambda>q. wp_id q \<noteq> a) R)"
    using rank_decreases [OF R p(1) ids p(3)] p(2) by simp
qed

lemma edges_packet:
  assumes "distinct (map wp_id ps)"
  shows "(a, b) \<in> edges (packet_graph ps) \<longleftrightarrow> (\<exists>p \<in> set ps. wp_id p = a \<and> b \<in> set (wp_depends p))"
proof (cases "a \<in> wp_id ` set ps")
  case True
  then obtain p where p: "p \<in> set ps" "wp_id p = a" by blast
  moreover have "q = p" if "q \<in> set ps" "wp_id q = a" for q
    using that p assms unfolding distinct_map inj_on_def by blast
  moreover have "(a, b) \<in> edges (packet_graph ps) \<longleftrightarrow> b \<in> set (wp_depends p)"
    using deps_of_packets [OF assms p(1)] p(2) by (simp add: edges_def)
  ultimately show ?thesis by blast
next
  case False
  then show ?thesis by (auto simp: edges_def)
qed

lemma topo_covers:
  assumes inv: "topo_inv ps inc [] R" and ids: "distinct (map wp_id ps)" and known: "\<And>p. p \<in> set ps \<Longrightarrow> set (wp_depends p) \<subseteq> wp_id ` set ps"
    and ac: "acyclic (edges (packet_graph ps))" and "p \<in> set ps"
  shows "p \<in> set R"
proof -
  have "wf ((edges (packet_graph ps))\<inverse>)" by (rule finite_acyclic_wf_converse [OF finite_edges ac])
  then show ?thesis using \<open>p \<in> set ps\<close>
  proof (induction "wp_id p" arbitrary: p rule: wf_induct_rule)
    case less
    have "d \<in> wp_id ` set R" if "d \<in> set (wp_depends p)" for d
    proof -
      obtain q where q: "q \<in> set ps" "wp_id q = d" using known [OF less.prems] \<open>d \<in> set (wp_depends p)\<close> by blast
      have "(wp_id p, wp_id q) \<in> edges (packet_graph ps)"
        using edges_packet [OF ids] less.prems that q(2) by blast
      then show ?thesis using less.hyps [of q] q by blast
    qed
    then have "set (deps_of inc (wp_id p)) = {}" using inv less.prems by (auto simp: topo_inv_def)
    then show ?case using inv less.prems by (auto simp: topo_inv_def)
  qed
qed

lemma missing_dependency_None:
  "missing_dependency ps = None \<longleftrightarrow> (\<forall>p \<in> set ps. set (wp_depends p) \<subseteq> wp_id ` set ps)"
  by (auto simp: missing_dependency_def find_None_iff)


lemma topo_result:
  assumes ids: "distinct (map wp_id ps)" and known: "missing_dependency ps = None"
    and R: "R = topo_loop coll ps (map (\<lambda>(n, ds). (n, remdups ds)) (packet_graph ps))
        (by_id coll (filter (\<lambda>p. deps_of (map (\<lambda>(n, ds). (n, remdups ds)) (packet_graph ps)) (wp_id p) = []) ps)) []"
  shows "\<exists>inc. topo_inv ps inc [] R"
proof -
  have "distinct ps" using ids by (simp add: distinct_map)
  then show ?thesis unfolding R
    by (intro topo_loop_inv ids) (auto simp: topo_inv_def deps_of_packets [OF ids])
qed

lemma topologicalOrder_spec:
  assumes "distinct (map wp_id ps)"
  shows "case topologicalOrder coll ps of
      Inr order \<Rightarrow> set order = set ps \<and> distinct order \<and> deps_first {} order
        \<and> acyclic (edges (packet_graph ps)) \<and> missing_dependency ps = None
    | Inl _ \<Rightarrow> \<not> (acyclic (edges (packet_graph ps)) \<and> missing_dependency ps = None)"
proof (cases "missing_dependency ps")
  case (Some d)
  then show ?thesis by (simp add: topologicalOrder_def)
next
  case None
  define R where "R = topo_loop coll ps (map (\<lambda>(n, ds). (n, remdups ds)) (packet_graph ps))
        (by_id coll (filter (\<lambda>p. deps_of (map (\<lambda>(n, ds). (n, remdups ds)) (packet_graph ps)) (wp_id p) = []) ps)) []"
  obtain inc where inv: "topo_inv ps inc [] R" using topo_result [OF assms None R_def] by blast
  have R: "distinct R" "set R \<subseteq> set ps" "deps_first {} R" using inv by (auto simp: topo_inv_def)
  have dps: "distinct ps" using assms by (simp add: distinct_map)
  have order: "topologicalOrder coll ps =
      (if length R = length ps then Inr R else Inl ''Packet dependency graph contains a cycle.'')"
    using None by (simp add: topologicalOrder_def R_def Let_def)
  have full: "length R = length ps \<longleftrightarrow> set R = set ps"
    using R dps by (metis card_subset_eq distinct_card List.finite_set)
  have "acyclic (edges (packet_graph ps)) \<longleftrightarrow> set R = set ps"
  proof
    assume ac: "acyclic (edges (packet_graph ps))"
    have "p \<in> set R" if "p \<in> set ps" for p
      by (rule topo_covers [OF inv assms _ ac that]) (use None in \<open>auto simp: missing_dependency_None\<close>)
    then show "set R = set ps" using R(2) by blast
  next
    assume eq: "set R = set ps"
    then have "distinct (map wp_id R)" using assms R(1) by (simp add: distinct_map)
    then show "acyclic (edges (packet_graph ps))"
      using deps_first_acyclic [OF R(3)] edges_packet [OF assms] eq by blast
  qed
  then show ?thesis using order full R None by auto
qed


text \<open>
  C39: the topological order is one. For packets with distinct ids, \<open>topologicalOrder\<close> gives an
  order exactly if every dependency is among the packets and no dependency path returns to its
  start; the order then holds every packet once, each after all its dependencies.
\<close>

theorem topologicalOrder_correct:
  assumes "distinct (map wp_id ps)"
  shows "case topologicalOrder coll ps of
      Inr order \<Rightarrow> set order = set ps \<and> distinct order \<and> deps_first {} order
        \<and> acyclic (edges (packet_graph ps)) \<and> missing_dependency ps = None
    | Inl _ \<Rightarrow> \<not> (acyclic (edges (packet_graph ps)) \<and> missing_dependency ps = None)"
  by (rule topologicalOrder_spec [OF assms])

definition demo_coll :: "ident \<Rightarrow> int" where
  "demo_coll i = (case rev i of [] \<Rightarrow> 0 | c # _ \<Rightarrow> of_char c)"

theorem topologicalOrder_correct_witness:
  "case topologicalOrder demo_coll [demo_packet ''p3'' [''p1'', ''p2''], demo_packet ''p2'' [''p1''], demo_packet ''p1'' []] of
      Inr order \<Rightarrow> map wp_id order = [''p1'', ''p2'', ''p3''] \<and> deps_first {} order
    | Inl _ \<Rightarrow> False"
proof -
  let ?ps = "[demo_packet ''p3'' [''p1'', ''p2''], demo_packet ''p2'' [''p1''], demo_packet ''p1'' []]"
  have "distinct (map wp_id ?ps)" by (simp add: demo_packet_def)
  from topologicalOrder_correct [OF this, of demo_coll]
  show ?thesis
    by (simp add: topologicalOrder_def missing_dependency_def packet_graph_def deps_of_def newly_ready_def drop_dep_def
        Let_def demo_coll_def demo_packet_def)
qed



section \<open>The cycle check of a strategy\<close>

definition hasCycle :: "work_packet list \<Rightarrow> bool" where
  "hasCycle ps = has_cycle (packet_graph ps) (map wp_id ps)"

text \<open>
  C38: the depth first search a strategy validates its packets with answers true exactly when
  the dependency relation of the packets is cyclic, whatever the packets are: a self
  dependency and a dependency outside of the list are included.
\<close>

theorem cycle_check_exact: "hasCycle ps \<longleftrightarrow> \<not> acyclic (edges (packet_graph ps))"
  unfolding hasCycle_def by (rule has_cycle_acyclic) (auto simp: packet_graph_def)

end
