(* ===== verification/Integration.thy ===== *)
theory Integration
  imports Worktrees Work_Graph Run_Stores "HOL-Library.Sublist"
begin

text \<open>
  \<open>packets/integration-service.ts\<close>: \<open>integrate\<close> brings the accepted commits of a swarm iteration
  onto the persistent main in dependency order; \<open>publishToRemote\<close> reconciles local with remote
  main, commits the result manifest and pushes. One instant \<open>now\<close> serves a whole call; the
  per-repository mutex of publications makes them runs of the modelled body one after the other.
\<close>

section \<open>Integration\<close>

text \<open>The \<open>Map\<close> of results in insertion order.\<close>

type_synonym result_map = "(ident \<times> packet_result) list"

definition results_map :: "packet_result list \<Rightarrow> result_map" where
  "results_map xs = fold (\<lambda>x. AList.update (re_packet x) x) xs []"

definition synthetic :: "time \<Rightarrow> work_packet \<Rightarrow> result_status \<Rightarrow> string \<Rightarrow> packet_result" where
  "synthetic now p st blocker = \<lparr>re_packet = wp_id p, re_campaign = wp_campaign p, re_run = wp_run p, re_iter = wp_iter p,
     re_status = st, re_worktree = None, re_files = [], re_verification = [], re_findings = [], re_risks = [],
     re_artifacts = [], re_affected = wp_depends p, re_usage = [], re_summary = blocker, re_blocker = Some blocker,
     re_created = now\<rparr>"

record integ =
  ig_results :: result_map
  ig_ids :: "ident list"
  ig_paths :: "string list"
  ig_conflict :: bool

text \<open>Record a result that was not integrated: in the map, in the store, and as the packet's status.\<close>

definition settle_result ::
    "time \<Rightarrow> ident \<Rightarrow> ident \<Rightarrow> packet_status \<Rightarrow> packet_result \<Rightarrow> integ \<times> packet_db \<times> 'w \<Rightarrow> integ \<times> packet_db \<times> 'w" where
  "settle_result now repo pid st x = (\<lambda>(g, db, w).
     (g\<lparr>ig_results := AList.update pid x (ig_results g)\<rparr>, snd (packet_updateStatus pid st now (saveResult x repo db)), w))"

definition assertCommitOnBranch :: "'w host \<Rightarrow> repository \<Rightarrow> string \<Rightarrow> string \<Rightarrow> 'w \<Rightarrow> string option \<times> 'w" where
  "assertCommitOnBranch h r sha branch w =
     (case integration_git h r [''cat-file'', ''-e'', sha @ ''^{commit}''] (ry_localPath r) w of
        (Inl e, w1) \<Rightarrow> (Some e, w1)
      | (Inr _, w1) \<Rightarrow> (case integration_git h r [''merge-base'', ''--is-ancestor'', sha, branch] (ry_localPath r) w1 of
           (Inl e, w2) \<Rightarrow> (Some e, w2) | (Inr _, w2) \<Rightarrow> (None, w2)))"

definition pick_onto_main :: "'w host \<Rightarrow> repository \<Rightarrow> ident \<Rightarrow> provenance \<Rightarrow> string \<Rightarrow> packet_db \<Rightarrow> 'w \<Rightarrow> string option \<times> 'w" where
  "pick_onto_main h r pid v sha db w =
     (if (case getWorktree (pv_worktree v) db of None \<Rightarrow> True
          | Some wt \<Rightarrow> wt_repo wt \<noteq> ry_id r \<or> wt_packet wt \<noteq> pid \<or> wt_branch wt \<noteq> pv_branch v)
      then (Some ''Persisted worktree provenance is missing or mismatched.'', w)
      else (case assertCommitOnBranch h r sha (pv_branch v) w of
          (Some e, w1) \<Rightarrow> (Some e, w1)
        | (None, w1) \<Rightarrow> (case integration_git h r [''cherry-pick'', sha] (ry_localPath r) w1 of
             (Inl e, w2) \<Rightarrow> (Some e, w2) | (Inr _, w2) \<Rightarrow> (None, w2))))"

definition changed_paths :: "packet_result \<Rightarrow> string list" where
  "changed_paths x = map js_slashes (re_files x)"

text \<open>The first changed path that is integrated already; an empty one is falsy and counts as none.\<close>

definition overlap_with :: "string list \<Rightarrow> packet_result \<Rightarrow> string option" where
  "overlap_with ps x = (case find (\<lambda>f. f \<in> set ps) (changed_paths x) of
     None \<Rightarrow> None | Some f \<Rightarrow> if f = [] then None else Some f)"

lemma no_overlap: "overlap_with ps x = None \<Longrightarrow> [] \<notin> set (re_files x) \<Longrightarrow> set (changed_paths x) \<inter> set ps = {}"
proof -
  assume o: "overlap_with ps x = None" and e: "[] \<notin> set (re_files x)"
  from e have n: "[] \<notin> set (changed_paths x)" by (auto simp: changed_paths_def js_slashes_def)
  show "set (changed_paths x) \<inter> set ps = {}"
  proof (cases "find (\<lambda>f. f \<in> set ps) (changed_paths x)")
    case None
    then show ?thesis by (auto simp: find_None_iff)
  next
    case (Some f)
    then have "f \<in> set (changed_paths x)" by (auto simp: find_Some_iff)
    moreover have "f = []" using o Some by (simp add: overlap_with_def split: if_splits)
    ultimately show ?thesis using n by simp
  qed
qed

definition integrate_completed ::
    "'w host \<Rightarrow> time \<Rightarrow> repository \<Rightarrow> work_packet \<Rightarrow> packet_result option list \<Rightarrow> packet_result
     \<Rightarrow> integ \<times> packet_db \<times> 'w \<Rightarrow> integ \<times> packet_db \<times> 'w" where
  "integrate_completed h now r p deps x s = (case s of (g, db, w) \<Rightarrow>
     if list_ex (\<lambda>c. case c of None \<Rightarrow> False | Some d \<Rightarrow> re_packet d \<notin> set (ig_ids g)) deps
     then settle_result now (ry_id r) (wp_id p) PK_SKIPPED_DEPENDENCY
       (x\<lparr>re_status := RS_SKIPPED_DEPENDENCY, re_blocker := Some ''A dependency was not integrated successfully.''\<rparr>) s
     else (case overlap_with (ig_paths g) x of
       Some overlap \<Rightarrow> (case settle_result now (ry_id r) (wp_id p) PK_BLOCKED (x\<lparr>re_status := RS_INTEGRATION_CONFLICT,
            re_blocker := Some (''Changed path overlaps an already integrated sibling: '' @ overlap)\<rparr>) s of
          (g1, s1) \<Rightarrow> (g1\<lparr>ig_conflict := True\<rparr>, s1))
     | None \<Rightarrow>
        if \<not> truthy (Option.bind (re_worktree x) pv_commit) \<or> pv_branch (the (re_worktree x)) = []
        then settle_result now (ry_id r) (wp_id p) PK_BLOCKED (x\<lparr>re_status := RS_BLOCKED,
            re_blocker := Some ''Completed result has no worktree branch/commit provenance.''\<rparr>) s
        else (let v = the (re_worktree x) in
          case pick_onto_main h r (wp_id p) v (the (pv_commit v)) db w of
            (None, w1) \<Rightarrow> (g\<lparr>ig_ids := ig_ids g @ [wp_id p], ig_paths := ig_paths g @ changed_paths x\<rparr>,
                snd (packet_updateStatus (wp_id p) PK_COMPLETED now db), w1)
          | (Some e, w1) \<Rightarrow> (let w2 = snd (integration_git h r [''cherry-pick'', ''--abort''] (ry_localPath r) w1) in
              (case settle_result now (ry_id r) (wp_id p) PK_BLOCKED (x\<lparr>re_status := RS_INTEGRATION_CONFLICT,
                  re_blocker := Some (''Git integration failed and was aborted: '' @ e)\<rparr>) (g, db, w2) of
                (g1, s1) \<Rightarrow> (g1\<lparr>ig_conflict := True\<rparr>, s1))))))"

definition integrate_packet ::
    "'w host \<Rightarrow> time \<Rightarrow> repository \<Rightarrow> work_packet \<Rightarrow> integ \<times> packet_db \<times> 'w \<Rightarrow> integ \<times> packet_db \<times> 'w" where
  "integrate_packet h now r p s = (case s of (g, _) \<Rightarrow>
     (let deps = map (map_of (ig_results g)) (wp_depends p);
          failed = list_ex (\<lambda>c. case c of None \<Rightarrow> True | Some d \<Rightarrow> re_status d \<noteq> RS_COMPLETED) deps
      in (case map_of (ig_results g) (wp_id p) of
        None \<Rightarrow>
          if failed \<or> wp_depends p \<noteq> []
          then settle_result now (ry_id r) (wp_id p) PK_SKIPPED_DEPENDENCY
            (synthetic now p RS_SKIPPED_DEPENDENCY ''A dependency did not complete successfully.'') s
          else settle_result now (ry_id r) (wp_id p) PK_BLOCKED
            (synthetic now p RS_BLOCKED ''No durable worker result was recorded.'') s
      | Some x \<Rightarrow> if re_status x \<noteq> RS_COMPLETED then s else integrate_completed h now r p deps x s)))"

definition failed_states :: "result_status list" where
  "failed_states = [RS_FAILED, RS_BLOCKED, RS_CANCELLED, RS_SKIPPED, RS_SKIPPED_DEPENDENCY]"

definition persist :: "ident \<Rightarrow> repository \<Rightarrow> integration_report \<Rightarrow> packet_db \<times> 'w \<Rightarrow> integration_report option \<times> packet_db \<times> 'w" where
  "persist fresh r rep = (\<lambda>(db, w). case saveIntegration fresh rep (ry_id r) db of
     None \<Rightarrow> (None, db, w) | Some db' \<Rightarrow> (Some rep, db', w))"

definition integrate ::
    "'w host \<Rightarrow> (ident \<Rightarrow> int) \<Rightarrow> ident \<Rightarrow> time \<Rightarrow> repository \<Rightarrow> ident \<Rightarrow> int \<Rightarrow> work_packet list \<Rightarrow> packet_result list
     \<Rightarrow> packet_db \<times> 'w \<Rightarrow> integration_report option \<times> packet_db \<times> 'w" where
  "integrate h coll fresh now r run iter packets inputs = (\<lambda>(db, w).
     let refuse = (\<lambda>blocker. \<lparr>ir_repo = ry_id r, ir_run = run, ir_iter = iter, ir_status = IN_BLOCKED, ir_packets = [],
            ir_results = inputs, ir_commit = None, ir_blocker = Some blocker, ir_created = now\<rparr>) in
     case topologicalOrder coll packets of
       Inl blocker \<Rightarrow> persist fresh r (refuse blocker) (db, w)
     | Inr order \<Rightarrow> (case integration_git h r [''status'', ''--porcelain''] (ry_localPath r) w of
         (Inl e, w1) \<Rightarrow> persist fresh r (refuse (''MAIN_STATUS_UNAVAILABLE: '' @ e)) (db, w1)
       | (Inr status, w1) \<Rightarrow>
          if js_trim status \<noteq> []
          then persist fresh r (refuse ''Persistent main checkout is dirty; integration refuses to overwrite user work.'') (db, w1)
          else (case fold (integrate_packet h now r) order
                 (\<lparr>ig_results = results_map inputs, ig_ids = [], ig_paths = [], ig_conflict = False\<rparr>, db, w1) of
              (g, db2, w2) \<Rightarrow> (case integration_git h r [''rev-parse'', ''HEAD''] (ry_localPath r) w2 of
                (head, w3) \<Rightarrow> (let results = map snd (ig_results g);
                     hasFailure = list_ex (\<lambda>x. re_status x \<in> set failed_states) results;
                     status = (if ig_conflict g then IN_INTEGRATION_CONFLICT
                       else if length (ig_ids g) = length packets \<and> \<not> hasFailure then IN_COMPLETED
                       else if ig_ids g \<noteq> [] then IN_PARTIAL else IN_BLOCKED)
                   in persist fresh r \<lparr>ir_repo = ry_id r, ir_run = run, ir_iter = iter, ir_status = status,
                        ir_packets = ig_ids g, ir_results = results,
                        ir_commit = (case head of Inr s \<Rightarrow> Some s | Inl _ \<Rightarrow> None),
                        ir_blocker = (if ig_conflict g then Some ''One or more worker results could not be integrated without conflict.''
                          else if hasFailure then Some ''Some packet results were not successfully integrated.'' else None),
                        ir_created = now\<rparr> (db2, w3))))))"


subsection \<open>What is integrated\<close>

text \<open>A step records a result that is not integrated, finds one recorded before, or integrates.\<close>

lemma same_conflict: "g\<lparr>ig_results := m\<rparr> = g\<lparr>ig_results := m, ig_conflict := ig_conflict g\<rparr>"
  by (cases g) simp

lemma settle_result_results:
  "fst (settle_result now repo i st x (g, s)) = g\<lparr>ig_results := AList.update i x (ig_results g), ig_conflict := ig_conflict g\<rparr>"
  by (cases s) (simp add: settle_result_def same_conflict [symmetric])

definition recorded_as :: "integ \<Rightarrow> ident \<Rightarrow> ident \<Rightarrow> integ \<Rightarrow> bool" where
  "recorded_as g i k g' \<longleftrightarrow> (\<exists>y c. g' = g\<lparr>ig_results := AList.update i y (ig_results g), ig_conflict := c\<rparr> \<and> re_packet y = k)"

lemma recorded_settle:
  "re_packet y = k \<Longrightarrow> recorded_as g i k (fst (settle_result now repo i st y (g, s)))"
  "re_packet y = k \<Longrightarrow> recorded_as g i k ((fst (settle_result now repo i st y (g, s)))\<lparr>ig_conflict := True\<rparr>)"
  unfolding recorded_as_def settle_result_results by (blast, simp) blast

lemma integrate_completed_cases:
  "recorded_as g (wp_id p) (re_packet x) (fst (integrate_completed h now r p deps x (g, s)))
   \<or> (\<not> list_ex (\<lambda>c. case c of None \<Rightarrow> False | Some d \<Rightarrow> re_packet d \<notin> set (ig_ids g)) deps
      \<and> overlap_with (ig_paths g) x = None
      \<and> fst (integrate_completed h now r p deps x (g, s)) = g\<lparr>ig_ids := ig_ids g @ [wp_id p], ig_paths := ig_paths g @ changed_paths x\<rparr>)"
  by (cases s) (simp add: integrate_completed_def split_beta Let_def recorded_settle split: option.split)

lemma integrate_packet_cases:
  assumes "fst (integrate_packet h now r p (g, s)) = g'"
  obtains (recorded) "recorded_as g (wp_id p) (case map_of (ig_results g) (wp_id p) of None \<Rightarrow> wp_id p | Some x \<Rightarrow> re_packet x) g'"
  | (passed) x where "g' = g" "map_of (ig_results g) (wp_id p) = Some x" "re_status x \<noteq> RS_COMPLETED"
  | (integrated) x where "map_of (ig_results g) (wp_id p) = Some x" "re_status x = RS_COMPLETED"
      "\<And>d c. d \<in> set (wp_depends p) \<Longrightarrow> map_of (ig_results g) d = Some c \<Longrightarrow> re_packet c \<in> set (ig_ids g)"
      "overlap_with (ig_paths g) x = None"
      "g' = g\<lparr>ig_ids := ig_ids g @ [wp_id p], ig_paths := ig_paths g @ changed_paths x\<rparr>"
proof (cases "map_of (ig_results g) (wp_id p)")
  case None
  then have "recorded_as g (wp_id p) (wp_id p) g'"
    using assms by (auto simp: integrate_packet_def recorded_settle Let_def synthetic_def split: if_splits)
  then show thesis using recorded None by simp
next
  case (Some x)
  show thesis
  proof (cases "re_status x = RS_COMPLETED")
    case False
    then show thesis using passed assms Some by (simp add: integrate_packet_def Let_def split_beta)
  next
    case True
    let ?deps = "map (map_of (ig_results g)) (wp_depends p)"
    have g': "g' = fst (integrate_completed h now r p ?deps x (g, s))"
      using assms Some True by (simp add: integrate_packet_def Let_def split_beta)
    from integrate_completed_cases [of g p x h now r ?deps s] show thesis
    proof (elim disjE conjE)
      assume "recorded_as g (wp_id p) (re_packet x) (fst (integrate_completed h now r p ?deps x (g, s)))"
      then show thesis using recorded Some g' by simp
    next
      assume no: "\<not> list_ex (\<lambda>c. case c of None \<Rightarrow> False | Some d \<Rightarrow> re_packet d \<notin> set (ig_ids g)) ?deps"
        and f: "overlap_with (ig_paths g) x = None"
        and i: "fst (integrate_completed h now r p ?deps x (g, s)) =
          g\<lparr>ig_ids := ig_ids g @ [wp_id p], ig_paths := ig_paths g @ changed_paths x\<rparr>"
      show thesis
      proof (rule integrated [OF Some True _ f g' [unfolded i]])
        show "re_packet c \<in> set (ig_ids g)" if "d \<in> set (wp_depends p)" "map_of (ig_results g) d = Some c" for d c
          using no that by (force simp: list_ex_iff)
      qed
    qed
  qed
qed


text \<open>
  The loop invariant: \<open>done\<close> are the packets taken from the order so far, \<open>m0\<close> the results the
  integration was called with.
\<close>

definition files_of :: "result_map \<Rightarrow> ident \<Rightarrow> string set" where
  "files_of m i = (case map_of m i of None \<Rightarrow> {} | Some x \<Rightarrow> set (changed_paths x))"

definition accepted :: "result_map \<Rightarrow> ident \<Rightarrow> bool" where
  "accepted m i \<longleftrightarrow> map_option re_status (map_of m i) = Some RS_COMPLETED"

definition integ_inv :: "result_map \<Rightarrow> work_packet list \<Rightarrow> integ \<Rightarrow> bool" where
  "integ_inv m0 done g \<longleftrightarrow>
     (\<forall>i x. map_of (ig_results g) i = Some x \<longrightarrow> re_packet x = i)
     \<and> (\<forall>p \<in> set done. map_of (ig_results g) (wp_id p) \<noteq> None)
     \<and> (\<forall>i. i \<notin> wp_id ` set done \<or> i \<in> set (ig_ids g) \<longrightarrow> map_of (ig_results g) i = map_of m0 i)
     \<and> set (ig_ids g) \<subseteq> wp_id ` set done \<and> distinct (ig_ids g)
     \<and> (\<forall>p \<in> set done. wp_id p \<in> set (ig_ids g) \<longrightarrow> set (wp_depends p) \<subseteq> set (ig_ids g))
     \<and> (\<forall>i \<in> set (ig_ids g). accepted m0 i)
     \<and> sorted_wrt (\<lambda>i j. files_of m0 i \<inter> files_of m0 j = {}) (ig_ids g)
     \<and> set (ig_paths g) = (\<Union>i \<in> set (ig_ids g). files_of m0 i)"

lemma integ_inv_step:
  assumes inv: "integ_inv m0 done g" and new: "wp_id p \<notin> wp_id ` set done" and deps: "set (wp_depends p) \<subseteq> wp_id ` set done"
    and named: "\<And>x. map_of m0 (wp_id p) = Some x \<Longrightarrow> [] \<notin> set (re_files x)"
  shows "integ_inv m0 (done @ [p]) (fst (integrate_packet h now r p (g, s)))"
proof -
  have own: "\<And>i x. map_of (ig_results g) i = Some x \<Longrightarrow> re_packet x = i"
    and some: "\<And>q. q \<in> set done \<Longrightarrow> map_of (ig_results g) (wp_id q) \<noteq> None"
    and same: "\<And>i. i \<notin> wp_id ` set done \<or> i \<in> set (ig_ids g) \<Longrightarrow> map_of (ig_results g) i = map_of m0 i"
    and ids: "set (ig_ids g) \<subseteq> wp_id ` set done" "distinct (ig_ids g)"
    and closed: "\<And>q. q \<in> set done \<Longrightarrow> wp_id q \<in> set (ig_ids g) \<Longrightarrow> set (wp_depends q) \<subseteq> set (ig_ids g)"
    and acc: "\<forall>i \<in> set (ig_ids g). accepted m0 i"
    and disj: "sorted_wrt (\<lambda>i j. files_of m0 i \<inter> files_of m0 j = {}) (ig_ids g)"
    and paths: "set (ig_paths g) = (\<Union>i \<in> set (ig_ids g). files_of m0 i)"
    using inv by (auto simp: integ_inv_def)
  have p: "wp_id p \<notin> set (ig_ids g)" using ids new by blast
  show ?thesis
  proof (rule integrate_packet_cases [OF refl, where h = h and now = now and r = r and p = p and g = g and s = s])
    assume "recorded_as g (wp_id p) (case map_of (ig_results g) (wp_id p) of None \<Rightarrow> wp_id p | Some x \<Rightarrow> re_packet x)
      (fst (integrate_packet h now r p (g, s)))"
    then obtain y c where g': "fst (integrate_packet h now r p (g, s)) =
        g\<lparr>ig_results := AList.update (wp_id p) y (ig_results g), ig_conflict := c\<rparr>" and y: "re_packet y = wp_id p"
      using own by (auto simp: recorded_as_def split: option.splits)
    let ?m = "map_of (AList.update (wp_id p) y (ig_results g))"
    have "?m i = Some x \<Longrightarrow> re_packet x = i" for i x using own y by (auto simp: AList.update_conv' split: if_splits)
    moreover have "?m (wp_id q) \<noteq> None" if "q \<in> set (done @ [p])" for q using some that by (auto simp: AList.update_conv')
    moreover have "?m i = map_of m0 i" if "i \<notin> wp_id ` set (done @ [p]) \<or> i \<in> set (ig_ids g)" for i
      using same [of i] that p by (auto simp: AList.update_conv')
    moreover have "set (wp_depends q) \<subseteq> set (ig_ids g)" if "q \<in> set (done @ [p])" "wp_id q \<in> set (ig_ids g)" for q
      using closed that p by auto
    moreover have "set (ig_ids g) \<subseteq> wp_id ` set (done @ [p])" using ids by auto
    ultimately show ?thesis unfolding g' integ_inv_def using ids(2) acc disj paths by simp
  next
    fix x assume "fst (integrate_packet h now r p (g, s)) = g" "map_of (ig_results g) (wp_id p) = Some x"
    then show ?thesis using inv p by (auto simp: integ_inv_def)
  next
    fix x assume x: "map_of (ig_results g) (wp_id p) = Some x" "re_status x = RS_COMPLETED"
      and d: "\<And>d c. d \<in> set (wp_depends p) \<Longrightarrow> map_of (ig_results g) d = Some c \<Longrightarrow> re_packet c \<in> set (ig_ids g)"
      and none: "overlap_with (ig_paths g) x = None"
      and g': "fst (integrate_packet h now r p (g, s)) =
        g\<lparr>ig_ids := ig_ids g @ [wp_id p], ig_paths := ig_paths g @ changed_paths x\<rparr>"
    have m0: "map_of m0 (wp_id p) = Some x" using same [of "wp_id p"] new x(1) by auto
    have f: "set (changed_paths x) \<inter> set (ig_paths g) = {}" by (rule no_overlap [OF none named [OF m0]])
    have dp: "set (wp_depends p) \<subseteq> set (ig_ids g)"
    proof
      fix e assume e: "e \<in> set (wp_depends p)"
      then obtain c where "map_of (ig_results g) e = Some c" using deps some by fastforce
      then show "e \<in> set (ig_ids g)" using d [OF e] own by metis
    qed
    have cl: "\<forall>q \<in> set (done @ [p]). wp_id q \<in> set (ig_ids g @ [wp_id p]) \<longrightarrow> set (wp_depends q) \<subseteq> set (ig_ids g @ [wp_id p])"
    proof (intro ballI impI)
      fix q assume "q \<in> set (done @ [p])" "wp_id q \<in> set (ig_ids g @ [wp_id p])"
      then have "q = p \<or> q \<in> set done \<and> wp_id q \<in> set (ig_ids g)" using new by (auto simp: image_iff)
      then show "set (wp_depends q) \<subseteq> set (ig_ids g @ [wp_id p])" using dp closed by auto
    qed
    have "accepted m0 (wp_id p)" "files_of m0 (wp_id p) = set (changed_paths x)"
      using m0 x(2) by (simp_all add: accepted_def files_of_def)
    then show ?thesis
      using own some same ids acc disj paths p x m0 f cl
      unfolding g' integ_inv_def by (auto simp: sorted_wrt_append)
  qed
qed

subsection \<open>What git was asked to do\<close>

text \<open>The commands that bring an integrated packet onto main, each of them successful.\<close>

definition picks_of :: "result_map \<Rightarrow> ident \<Rightarrow> (string \<times> string) option" where
  "picks_of m i = Option.bind (Option.bind (map_of m i) re_worktree)
     (\<lambda>v. map_option (\<lambda>sha. (sha, pv_branch v)) (pv_commit v))"

definition pick_log :: "result_map \<Rightarrow> ident \<Rightarrow> (string list \<times> bool) list" where
  "pick_log m i = (case picks_of m i of None \<Rightarrow> []
     | Some (sha, branch) \<Rightarrow> [([''cat-file'', ''-e'', sha @ ''^{commit}''], True),
         ([''merge-base'', ''--is-ancestor'', sha, branch], True), ([''cherry-pick'', sha], True)])"

definition landed :: "string list \<times> bool \<Rightarrow> bool" where
  "landed e \<longleftrightarrow> snd e \<and> hd (fst e) = ''cherry-pick'' \<and> fst e \<noteq> [''cherry-pick'', ''--abort'']"

text \<open>The packet's commit comes from a worktree recorded for this repository, packet and branch.\<close>

definition from_recorded :: "ident \<Rightarrow> packet_db \<Rightarrow> result_map \<Rightarrow> ident \<Rightarrow> bool" where
  "from_recorded repo db m i = (case Option.bind (map_of m i) re_worktree of None \<Rightarrow> False
     | Some v \<Rightarrow> (case getWorktree (pv_worktree v) db of None \<Rightarrow> False
         | Some wt \<Rightarrow> wt_repo wt = repo \<and> wt_packet wt = i \<and> wt_branch wt = pv_branch v) \<and> truthy (pv_commit v))"

definition in_dep_order :: "work_packet list \<Rightarrow> ident list \<Rightarrow> bool" where
  "in_dep_order ps ids \<longleftrightarrow> list_all (\<lambda>p. if wp_id p \<in> set ids
     then set (wp_depends p) \<subseteq> set (takeWhile (\<lambda>i. i \<noteq> wp_id p) ids) else True) ps"

lemma in_dep_order_snoc:
  assumes "in_dep_order done ids" and "wp_id p \<notin> set ids" and "wp_id p \<notin> wp_id ` set done" and "set (wp_depends p) \<subseteq> set ids"
  shows "in_dep_order (done @ [p]) (ids @ [wp_id p])"
proof -
  have "takeWhile (\<lambda>i. i \<noteq> wp_id p) (ids @ [wp_id p]) = ids"
    using assms(2) by (subst takeWhile_append2) auto
  moreover have "takeWhile (\<lambda>i. i \<noteq> wp_id q) (ids @ [wp_id p]) = takeWhile (\<lambda>i. i \<noteq> wp_id q) ids" if "wp_id q \<in> set ids" for q
    by (rule takeWhile_append1 [OF that]) simp
  ultimately show "in_dep_order (done @ [p]) (ids @ [wp_id p])"
    using assms by (auto simp: in_dep_order_def list_all_iff image_iff)
qed

lemma in_dep_order_skip: "in_dep_order done ids \<Longrightarrow> wp_id p \<notin> set ids \<Longrightarrow> in_dep_order (done @ [p]) ids"
  by (simp add: in_dep_order_def)

lemma settle_worktrees: "db_worktrees (fst (snd (settle_result now repo i st x (g, db, w)))) = db_worktrees db"
    "snd (snd (settle_result now repo i st x (g, db, w))) = w"
    "ig_ids (fst (settle_result now repo i st x (g, db, w))) = ig_ids g"
  by (simp_all add: settle_result_def packet_updateStatus_def saveResult_def Let_def split: option.split)

lemma updateStatus_worktrees: "db_worktrees (snd (packet_updateStatus i st now db)) = db_worktrees db"
  by (simp add: packet_updateStatus_def Let_def split: option.split)

lemma pick_logged:
  assumes "pick_onto_main (logged r h) r pid v sha db (w, l) = (e, w', l')"
  shows "e = None \<Longrightarrow> (\<exists>wt. getWorktree (pv_worktree v) db = Some wt \<and> wt_repo wt = ry_id r \<and> wt_packet wt = pid
      \<and> wt_branch wt = pv_branch v)
      \<and> l' = l @ [([''cat-file'', ''-e'', sha @ ''^{commit}''], True),
         ([''merge-base'', ''--is-ancestor'', sha, pv_branch v], True), ([''cherry-pick'', sha], True)]"
    and "e \<noteq> None \<Longrightarrow> \<exists>new. l' = l @ new \<and> filter landed new = []"
  using assms
  by (auto simp: pick_onto_main_def assertCommitOnBranch_def landed_def dest!: logged_git
      split: if_splits option.splits prod.splits sum.splits)

text \<open>One step either lands nothing, or it lands the packet's commit from its recorded worktree.\<close>

definition lands :: "repository \<Rightarrow> packet_db \<Rightarrow> work_packet \<Rightarrow> integ \<Rightarrow> integ \<Rightarrow> (string list \<times> bool) list \<Rightarrow> bool" where
  "lands r db p g g' new \<longleftrightarrow> ig_ids g' = ig_ids g @ [wp_id p] \<and> from_recorded (ry_id r) db (ig_results g) (wp_id p)
     \<and> new = pick_log (ig_results g) (wp_id p) \<and> picks_of (ig_results g) (wp_id p) \<noteq> None"

lemma settled_lands_nothing:
  assumes "settle_result now repo i st x (g, db, w, l) = (g', db', w', l')"
  shows "db_worktrees db' = db_worktrees db \<and> ig_ids g' = ig_ids g \<and> l' = l"
  using settle_worktrees [of now repo i st x g db "(w, l)"] assms by simp

lemma integrate_completed_logged:
  assumes "integrate_completed (logged r h) now r p deps x (g, db, w, l) = (g', db', w', l')"
    and "map_of (ig_results g) (wp_id p) = Some x"
  shows "db_worktrees db' = db_worktrees db
    \<and> (\<exists>new. l' = l @ new \<and> (ig_ids g' = ig_ids g \<and> filter landed new = [] \<or> lands r db p g g' new))"
proof -
  let ?v = "the (re_worktree x)" and ?sha = "the (pv_commit (the (re_worktree x)))"
  obtain e w1 l1 where pick: "pick_onto_main (logged r h) r (wp_id p) ?v ?sha db (w, l) = (e, w1, l1)" by (metis surj_pair)
  obtain z w2 l2 where abort: "integration_git (logged r h) r [''cherry-pick'', ''--abort''] (ry_localPath r) (w1, l1) = (z, w2, l2)"
    by (metis surj_pair)
  consider (settled) st y where "settle_result now (ry_id r) (wp_id p) st y (g, db, w, l) = (g', db', w', l')"
    | (conflict) st y g1 where "settle_result now (ry_id r) (wp_id p) st y (g, db, w, l) = (g1, db', w', l')"
        "g' = g1\<lparr>ig_conflict := True\<rparr>"
    | (aborted) st y g1 where "e \<noteq> None" "settle_result now (ry_id r) (wp_id p) st y (g, db, w2, l2) = (g1, db', w', l')"
        "g' = g1\<lparr>ig_conflict := True\<rparr>"
    | (picked) "truthy (Option.bind (re_worktree x) pv_commit)" "e = None" "l' = l1"
        "db' = snd (packet_updateStatus (wp_id p) PK_COMPLETED now db)"
        "g' = g\<lparr>ig_ids := ig_ids g @ [wp_id p], ig_paths := ig_paths g @ changed_paths x\<rparr>"
    using assms(1) pick abort
    by (auto simp: integrate_completed_def Let_def split: if_splits option.splits prod.splits)
  then show ?thesis
  proof cases
    case settled
    then show ?thesis using settled_lands_nothing [OF settled] by simp
  next
    case conflict
    then show ?thesis using settled_lands_nothing [OF conflict(1)] by simp
  next
    case aborted
    obtain new where "l1 = l @ new" "filter landed new = []" using pick_logged(2) [OF pick aborted(1)] by auto
    then show ?thesis
      using settled_lands_nothing [OF aborted(2)] logged_git [OF abort] aborted(3)
      by (intro conjI exI [of _ "new @ [([''cherry-pick'', ''--abort''], case z of Inr _ \<Rightarrow> True | Inl _ \<Rightarrow> False)]"])
        (auto simp: landed_def)
  next
    case picked
    obtain v sha where "re_worktree x = Some v" "pv_commit v = Some sha" "truthy (Some sha)"
      using picked(1) by (cases "re_worktree x"; cases "pv_commit (the (re_worktree x))") (auto simp: truthy_def)
    with pick_logged(1) [OF pick picked(2)] show ?thesis
      using assms(2) picked(3-5)
      by (auto simp: lands_def from_recorded_def pick_log_def picks_of_def updateStatus_worktrees)
  qed
qed

lemma integrate_packet_logged:
  assumes "integrate_packet (logged r h) now r p (g, db, w, l) = (g', db', w', l')"
  shows "db_worktrees db' = db_worktrees db
    \<and> (\<exists>new. l' = l @ new \<and> (ig_ids g' = ig_ids g \<and> filter landed new = [] \<or> lands r db p g g' new))"
proof (cases "map_of (ig_results g) (wp_id p)")
  case None
  then obtain st y where "settle_result now (ry_id r) (wp_id p) st y (g, db, w, l) = (g', db', w', l')"
    using assms by (auto simp: integrate_packet_def Let_def split: if_splits)
  then show ?thesis using settled_lands_nothing by fastforce
next
  case (Some x)
  show ?thesis
  proof (cases "re_status x = RS_COMPLETED")
    case True
    then show ?thesis
      using assms Some integrate_completed_logged [OF _ Some] by (simp add: integrate_packet_def Let_def)
  qed (use assms Some in \<open>simp add: integrate_packet_def Let_def\<close>)
qed

definition git_inv ::
    "repository \<Rightarrow> packet_db \<Rightarrow> result_map \<Rightarrow> (string list \<times> bool) list \<Rightarrow> work_packet list
     \<Rightarrow> integ \<times> packet_db \<times> 'w logged \<Rightarrow> bool" where
  "git_inv r db0 m0 l0 seen s \<longleftrightarrow> (case s of (g, db, _, l) \<Rightarrow>
     db_worktrees db = db_worktrees db0 \<and> in_dep_order seen (ig_ids g)
     \<and> list_all (from_recorded (ry_id r) db0 m0) (ig_ids g)
     \<and> (\<exists>new. l = l0 @ new \<and> subseq (concat (map (pick_log m0) (ig_ids g))) new
          \<and> filter landed new = filter landed (concat (map (pick_log m0) (ig_ids g)))))"

lemma git_inv_step:
  assumes inv: "integ_inv m0 seen g" and "git_inv r db0 m0 l0 seen (g, db, w, l)" and new: "wp_id p \<notin> wp_id ` set seen"
    and deps: "set (wp_depends p) \<subseteq> wp_id ` set seen"
    and step: "integrate_packet (logged r h) now r p (g, db, w, l) = (g', db', w', l')"
    and inv': "integ_inv m0 (seen @ [p]) g'"
  shows "git_inv r db0 m0 l0 (seen @ [p]) (g', db', w', l')"
proof -
  from assms(2) obtain m where wt: "db_worktrees db = db_worktrees db0" and ord: "in_dep_order seen (ig_ids g)"
    and rec: "list_all (from_recorded (ry_id r) db0 m0) (ig_ids g)" and l: "l = l0 @ m"
    and sub: "subseq (concat (map (pick_log m0) (ig_ids g))) m"
    and land: "filter landed m = filter landed (concat (map (pick_log m0) (ig_ids g)))"
    by (auto simp: git_inv_def)
  have p: "wp_id p \<notin> set (ig_ids g)" using inv new by (auto simp: integ_inv_def)
  have m0: "map_of (ig_results g) (wp_id p) = map_of m0 (wp_id p)" using inv new by (simp add: integ_inv_def)
  from integrate_packet_logged [OF step] obtain n where wt': "db_worktrees db' = db_worktrees db" and l': "l' = l @ n"
    and c: "ig_ids g' = ig_ids g \<and> filter landed n = [] \<or> lands r db p g g' n" by auto
  from c show ?thesis
  proof
    assume i: "ig_ids g' = ig_ids g \<and> filter landed n = []"
    have "l' = l0 @ (m @ n) \<and> subseq (concat (map (pick_log m0) (ig_ids g))) (m @ n)"
      using l l' subseq_rev_drop_many [OF sub] by simp
    then show ?thesis using i wt wt' rec land in_dep_order_skip [OF ord p] by (auto simp: git_inv_def)
  next
    assume i: "lands r db p g g' n"
    then have ids: "ig_ids g' = ig_ids g @ [wp_id p]" and n: "n = pick_log m0 (wp_id p)"
      and f: "from_recorded (ry_id r) db0 m0 (wp_id p)"
      using m0 wt
      by (simp_all add: lands_def pick_log_def picks_of_def from_recorded_def getWorktree_def cong: option.case_cong)
    have "set (wp_depends p) \<subseteq> set (ig_ids g @ [wp_id p])"
      using inv' ids by (auto simp: integ_inv_def)
    then have "set (wp_depends p) \<subseteq> set (ig_ids g)" using deps new by auto
    note o = in_dep_order_snoc [OF ord p new this]
    have "l' = l0 @ (m @ n) \<and> subseq (concat (map (pick_log m0) (ig_ids g @ [wp_id p]))) (m @ n)"
      using l l' n list_emb_append_mono [OF sub, of n n] by simp
    then show ?thesis using ids wt wt' rec f land n o by (auto simp: git_inv_def)
  qed
qed

lemma integrate_fold:
  assumes "deps_first (wp_id ` set seen) ps" and "distinct (map wp_id (seen @ ps))"
    and "integ_inv m0 seen (fst s)" and "git_inv r db0 m0 l0 seen s"
    and named: "\<And>i x. map_of m0 i = Some x \<Longrightarrow> [] \<notin> set (re_files x)"
  shows "integ_inv m0 (seen @ ps) (fst (fold (integrate_packet (logged r h) now r) ps s))
    \<and> git_inv r db0 m0 l0 (seen @ ps) (fold (integrate_packet (logged r h) now r) ps s)"
  using assms(1-4)
proof (induction ps arbitrary: seen s)
  case (Cons p ps)
  obtain g db w l where s: "s = (g, db, w, l)" by (cases s)
  obtain g' db' w' l' where s': "integrate_packet (logged r h) now r p s = (g', db', w', l')"
    by (cases "integrate_packet (logged r h) now r p s")
  have new: "wp_id p \<notin> wp_id ` set seen" "set (wp_depends p) \<subseteq> wp_id ` set seen" using Cons.prems(1,2) by auto
  have i: "integ_inv m0 (seen @ [p]) g'"
    using integ_inv_step [OF Cons.prems(3) new named, where h = "logged r h" and now = now and r = r and s = "snd s"] s' s by simp
  have "git_inv r db0 m0 l0 (seen @ [p]) (g', db', w', l')"
    by (rule git_inv_step [OF _ _ new _ i]) (use Cons.prems(3,4) s s' in simp_all)
  then show ?case using Cons.IH [of "seen @ [p]" "(g', db', w', l')"] Cons.prems(1,2) s' i by simp
qed simp


definition own_keys :: "result_map \<Rightarrow> bool" where
  "own_keys m \<longleftrightarrow> (\<forall>i x. map_of m i = Some x \<longrightarrow> re_packet x = i)"

lemma own_keys_update: "own_keys m \<Longrightarrow> re_packet x = i \<Longrightarrow> own_keys (AList.update i x m)"
  unfolding own_keys_def by (metis AList.update_conv' fun_upd_apply option.inject)

lemma own_keys_results: "own_keys (results_map xs)"
proof -
  have "own_keys m \<Longrightarrow> own_keys (fold (\<lambda>x. AList.update (re_packet x) x) xs m)" for m
    by (induction xs arbitrary: m) (simp_all add: own_keys_update)
  moreover have "own_keys []" by (simp add: own_keys_def)
  ultimately show ?thesis by (simp add: results_map_def)
qed


lemma results_map_in: "map_of (results_map xs) i = Some x \<Longrightarrow> x \<in> set xs"
proof -
  have "map_of (fold (\<lambda>x. AList.update (re_packet x) x) xs m) i = Some x \<Longrightarrow> x \<in> set xs \<or> map_of m i = Some x" for m
  proof (induction xs arbitrary: m)
    case (Cons y ys)
    from Cons.IH [of "AList.update (re_packet y) y m"] Cons.prems show ?case
      by (auto simp: AList.update_conv' split: if_splits)
  qed simp
  from this [of "[]"] show "map_of (results_map xs) i = Some x \<Longrightarrow> x \<in> set xs" by (simp add: results_map_def)
qed

definition integ0 :: "packet_result list \<Rightarrow> integ" where
  "integ0 xs = \<lparr>ig_results = results_map xs, ig_ids = [], ig_paths = [], ig_conflict = False\<rparr>"

lemma integrate_inv:
  assumes "topologicalOrder coll ps = Inr order" and "distinct (map wp_id ps)" and "list_all (\<lambda>x. [] \<notin> set (re_files x)) inputs"
  shows "integ_inv (results_map inputs) order (fst (fold (integrate_packet (logged r h) now r) order (integ0 inputs, db, w, l)))
    \<and> git_inv r db (results_map inputs) l order (fold (integrate_packet (logged r h) now r) order (integ0 inputs, db, w, l))"
proof -
  have o: "set order = set ps" "distinct order" "deps_first {} order"
    using topologicalOrder_spec [OF assms(2), of coll] assms(1) by simp_all
  then have d: "distinct (map wp_id order)" using assms(2) by (simp add: distinct_map)
  have i: "integ_inv (results_map inputs) [] (integ0 inputs)"
    using own_keys_results [of inputs] by (auto simp: integ_inv_def own_keys_def integ0_def)
  have g: "git_inv r db (results_map inputs) l [] (integ0 inputs, db, w, l)"
    by (simp add: git_inv_def integ0_def in_dep_order_def)
  have "[] \<notin> set (re_files x)" if "map_of (results_map inputs) i = Some x" for i x
    using results_map_in [OF that] assms(3) by (simp add: list_all_iff)
  note named = this
  have "deps_first (wp_id ` set []) order" "distinct (map wp_id ([] @ order))" using o(3) d by simp_all
  from integrate_fold [OF this _ g named, where h = h and now = now] i show ?thesis by simp
qed

lemma all_integrated:
  assumes "integ_inv m order g" and "set order = set ps" and "distinct (map wp_id ps)"
    and "ids = ig_ids g" and "length (ig_ids g) = length ps"
  shows "set ids = wp_id ` set ps"
proof (rule card_subset_eq)
  show "set ids \<subseteq> wp_id ` set ps" using assms(1,2,4) by (simp add: integ_inv_def)
  have "card (set ids) = length ps" using assms(1,4,5) by (simp add: integ_inv_def distinct_card)
  then show "card (set ids) = card (wp_id ` set ps)" using assms(3) by (metis distinct_card length_map list.set_map)
qed simp

text \<open>
  C31: what lands on main is consistent. Every packet that the report of \<open>integrate\<close> names as
  integrated was accepted as completed by the caller, was produced in a worktree recorded for this repository, packet and branch,
  and comes after all packets it depends on, which are integrated as well. For each of them, in the report's order, git confirmed that the
  commit exists and is on the recorded branch before a successful cherry-pick of it, and no other cherry-pick went
  through. No two integrated packets changed a common path, and the report
  says completed only if every packet is integrated. Hypotheses: packet ids are distinct and no result lists an empty path,
  as the shared schema demands; the host is any host, with its git commands written down.
\<close>

theorem integrated_packets_consistent:
  assumes "distinct (map wp_id ps)" and "list_all (\<lambda>x. [] \<notin> set (re_files x)) inputs"
    and "integrate (logged r h) coll fresh now r run iter ps inputs (db, w, []) = (Some rep, db', w', cmds)"
  shows "distinct (ir_packets rep) \<and> set (ir_packets rep) \<subseteq> wp_id ` set ps
    \<and> list_all (accepted (results_map inputs)) (ir_packets rep)
    \<and> list_all (from_recorded (ry_id r) db (results_map inputs)) (ir_packets rep)
    \<and> in_dep_order ps (ir_packets rep)
    \<and> subseq (concat (map (pick_log (results_map inputs)) (ir_packets rep))) cmds
    \<and> filter landed cmds = filter landed (concat (map (pick_log (results_map inputs)) (ir_packets rep)))
    \<and> sorted_wrt (\<lambda>i j. files_of (results_map inputs) i \<inter> files_of (results_map inputs) j = {}) (ir_packets rep)
    \<and> (if ir_status rep = IN_COMPLETED then set (ir_packets rep) = wp_id ` set ps else True)"
proof (cases "topologicalOrder coll ps")
  case (Inl e)
  then have "ir_packets rep = [] \<and> ir_status rep = IN_BLOCKED \<and> cmds = []"
    using assms(3) by (auto simp: integrate_def persist_def split: option.splits)
  then show ?thesis by (simp add: in_dep_order_def list_all_iff)
next
  case (Inr order)
  obtain x w1 l1 where status: "integration_git (logged r h) r [''status'', ''--porcelain''] (ry_localPath r) (w, []) = (x, w1, l1)"
    by (metis surj_pair)
  obtain g db2 w2 l2 where fold: "fold (integrate_packet (logged r h) now r) order (integ0 inputs, db, w1, l1) = (g, db2, w2, l2)"
    by (cases "fold (integrate_packet (logged r h) now r) order (integ0 inputs, db, w1, l1)")
  obtain y w3 l3 where head: "integration_git (logged r h) r [''rev-parse'', ''HEAD''] (ry_localPath r) (w2, l2) = (y, w3, l3)"
    by (metis surj_pair)
  note logs = logged_git [OF status] logged_git [OF head]
  consider (refused) "ir_packets rep = []" "ir_status rep = IN_BLOCKED" "cmds = l1"
    | (finished) "ir_packets rep = ig_ids g" "cmds = l3" "ir_status rep = IN_COMPLETED \<Longrightarrow> length (ig_ids g) = length ps"
    using assms(3) Inr status fold head
    by (auto simp: integrate_def persist_def Let_def integ0_def [symmetric] split: option.splits sum.splits if_splits)
  then show ?thesis
  proof cases
    case refused
    then show ?thesis using logs(1) by (simp add: in_dep_order_def list_all_iff landed_def)
  next
    case finished
    have inv: "integ_inv (results_map inputs) order g"
      and git: "git_inv r db (results_map inputs) l1 order (g, db2, w2, l2)"
      using integrate_inv [OF Inr assms(1,2), of r h now db w1 l1] fold by simp_all
    have set_order: "set order = set ps" using topologicalOrder_spec [OF assms(1), of coll] Inr by simp
    have all: "set (ir_packets rep) = wp_id ` set ps" if "ir_status rep = IN_COMPLETED"
      by (rule all_integrated [OF inv set_order assms(1)]) (use finished that in simp_all)
    have "in_dep_order ps (ir_packets rep)" using git set_order finished(1) by (simp add: git_inv_def in_dep_order_def list_all_iff)
    moreover have "subseq (concat (map (pick_log (results_map inputs)) (ir_packets rep))) cmds
        \<and> filter landed cmds = filter landed (concat (map (pick_log (results_map inputs)) (ir_packets rep)))"
      using git finished(1,2) logs by (auto simp: git_inv_def landed_def)
    ultimately show ?thesis using inv git finished(1) set_order all by (simp add: integ_inv_def git_inv_def list_all_iff)
  qed
qed


section \<open>Witnesses\<close>

definition demo_worktree_of :: "ident \<Rightarrow> ident \<Rightarrow> worktree" where
  "demo_worktree_of i w = \<lparr>wt_id = w, wt_repo = ''r'', wt_packet = i, wt_campaign = ''a'', wt_run = ''a'', wt_iter = 1,
     wt_path = ''/data/'' @ i, wt_branch = ''b/'' @ i, wt_env = ENV_windows, wt_distro = None, wt_base = demo_sha, wt_inputs = [],
     wt_status = WT_ACTIVE, wt_created = 0, wt_released = None, wt_error = None\<rparr>"

definition demo_done :: "ident \<Rightarrow> ident \<Rightarrow> string list \<Rightarrow> packet_result" where
  "demo_done i w files = (demo_result i RS_COMPLETED)\<lparr>re_files := files, re_worktree := Some \<lparr>pv_worktree = w,
     pv_path = ''/data/'' @ i, pv_branch = ''b/'' @ i, pv_base = demo_sha, pv_commit = Some demo_sha\<rparr>\<rparr>"

text \<open>Three packets; the third changes a path of the first and is not integrated.\<close>

definition demo_integration :: "integration_report option \<times> packet_db \<times> unit logged" where
  "demo_integration = (let ps = [demo_packet ''p2'' [''p1''], demo_packet ''p1'' [], demo_packet ''p3'' []] in
     integrate (logged demo_repository demo_host) demo_coll ''i1'' 9 demo_repository ''a'' 1 ps
       [demo_done ''p1'' ''w1'' [''x''], demo_done ''p2'' ''w2'' [''y''], demo_done ''p3'' ''w3'' [''x'']]
       ((demo_db ps)\<lparr>db_worktrees := [demo_worktree_of ''p1'' ''w1'', demo_worktree_of ''p2'' ''w2'', demo_worktree_of ''p3'' ''w3'']\<rparr>, (), []))"

theorem integrated_packets_consistent_witness:
  "case fst demo_integration of None \<Rightarrow> False | Some rep \<Rightarrow> ir_packets rep = [''p1'', ''p2''] \<and> ir_status rep = IN_INTEGRATION_CONFLICT
     \<and> in_dep_order [demo_packet ''p2'' [''p1''], demo_packet ''p1'' [], demo_packet ''p3'' []] (ir_packets rep)"
proof -
  let ?ps = "[demo_packet ''p2'' [''p1''], demo_packet ''p1'' [], demo_packet ''p3'' []]"
  let ?xs = "[demo_done ''p1'' ''w1'' [''x''], demo_done ''p2'' ''w2'' [''y''], demo_done ''p3'' ''w3'' [''x'']]"
  have e: "map_option ir_packets (fst demo_integration) = Some [''p1'', ''p2'']"
    "map_option ir_status (fst demo_integration) = Some IN_INTEGRATION_CONFLICT" by code_simp+
  then obtain rep where rep: "fst demo_integration = Some rep" by blast
  have f: "ir_packets rep = [''p1'', ''p2'']" "ir_status rep = IN_INTEGRATION_CONFLICT" using e unfolding rep by simp_all
  have d: "demo_integration = (Some rep, fst (snd demo_integration), (), snd (snd (snd demo_integration)))"
    using rep by (simp add: prod_eq_iff)
  have "distinct (map wp_id ?ps)" "list_all (\<lambda>x. [] \<notin> set (re_files x)) ?xs"
    by (simp_all add: demo_packet_def demo_done_def)
  from integrated_packets_consistent [OF this d [unfolded demo_integration_def Let_def]]
  have "in_dep_order ?ps (ir_packets rep)" by blast
  then show ?thesis unfolding rep using f by simp
qed

end
