(* ===== verification/Publication.thy ===== *)
theory Publication
  imports Integration
begin

text \<open>
  \<open>IntegrationService.publishToRemote\<close>: making the integrated main durable on the remote. Git
  and the file system are the parameters of \<open>Git_Host\<close>; actions on the host's world are chained as
  the source chains awaited calls inside its \<open>try\<close>. \<open>created\<close> is the ISO text of the
  manifest's instant. The \<open>details\<close> record, which no caller reads, and the in-memory copy of the
  publication evidence on the caller's report are left out.
\<close>

section \<open>Actions\<close>

type_synonym ('w, 'a) act = "'w \<Rightarrow> (string + 'a) \<times> 'w"

definition act_return :: "'a \<Rightarrow> ('w, 'a) act" where
  "act_return x w = (Inr x, w)"

definition act_bind :: "('w, 'a) act \<Rightarrow> ('a \<Rightarrow> ('w, 'b) act) \<Rightarrow> ('w, 'b) act" where
  "act_bind m f w = (case m w of (Inl e, w1) \<Rightarrow> (Inl e, w1) | (Inr x, w1) \<Rightarrow> f x w1)"

text \<open>\<open>.catch\<close>: the error becomes a value.\<close>

definition act_catch :: "('w, 'a) act \<Rightarrow> ('w, string + 'a) act" where
  "act_catch m w = map_prod Inr id (m w)"

definition attempt :: "('w, 'a) act \<Rightarrow> ('w, bool) act" where
  "attempt m = act_bind (act_catch m) (\<lambda>x. act_return (case x of Inr _ \<Rightarrow> True | Inl _ \<Rightarrow> False))"

definition fs_act :: "('w \<Rightarrow> string option \<times> 'w) \<Rightarrow> ('w, unit) act" where
  "fs_act f w = (case f w of (None, w1) \<Rightarrow> (Inr (), w1) | (Some e, w1) \<Rightarrow> (Inl e, w1))"

section \<open>The manifest\<close>

datatype jval = JNull | JBool bool | JNum int | JStr string | JObj "(string \<times> jval) list"

definition hex_digit :: "nat \<Rightarrow> char" where
  "hex_digit n = char_of (if n < 10 then 48 + n else 87 + n)"

definition js_escape :: "char \<Rightarrow> string" where
  "js_escape c = (let n = (of_char c :: nat) in
     if n = 34 then [CHR 0x5C, c] else if n = 92 then [CHR 0x5C, c]
     else if n = 8 then CHR 0x5C # ''b'' else if n = 9 then CHR 0x5C # ''t'' else if n = 10 then CHR 0x5C # ''n''
     else if n = 12 then CHR 0x5C # ''f'' else if n = 13 then CHR 0x5C # ''r''
     else if n < 32 then CHR 0x5C # ''u00'' @ [hex_digit (n div 16), hex_digit (n mod 16)] else [c])"

definition js_quote :: "string \<Rightarrow> string" where
  "js_quote s = CHR 0x22 # concat (map js_escape s) @ [CHR 0x22]"

text \<open>\<open>JSON.stringify(v, null, 2)\<close> at indentation \<open>n\<close>.\<close>

fun js_pretty :: "nat \<Rightarrow> jval \<Rightarrow> string" where
  "js_pretty n JNull = ''null''"
| "js_pretty n (JBool b) = (if b then ''true'' else ''false'')"
| "js_pretty n (JNum i) = js_int i"
| "js_pretty n (JStr s) = js_quote s"
| "js_pretty n (JObj fs) = (if fs = [] then ''{}''
     else ''{'' @ [CHR 0x0A] @ join_with [CHR '','', CHR 0x0A]
         (map (\<lambda>(k, v). replicate (n + 2) (CHR '' '') @ js_quote k @ '': '' @ js_pretty (n + 2) v) fs)
       @ [CHR 0x0A] @ replicate n (CHR '' '') @ ''}'')"

fun relation_name :: "main_relation \<Rightarrow> string" where
  "relation_name UP_TO_DATE = ''UP_TO_DATE''"
| "relation_name LOCAL_AHEAD = ''LOCAL_AHEAD''"
| "relation_name REMOTE_AHEAD = ''REMOTE_AHEAD''"
| "relation_name DIVERGED = ''DIVERGED''"

fun strategy_name :: "strategy \<Rightarrow> string" where
  "strategy_name SINGLE_AGENT = ''SINGLE_AGENT''"
| "strategy_name SWARM = ''SWARM''"
| "strategy_name DAG = ''DAG''"

definition j_opt :: "string option \<Rightarrow> jval" where
  "j_opt x = (case x of None \<Rightarrow> JNull | Some s \<Rightarrow> JStr s)"

definition publication_json :: "publication \<Rightarrow> jval" where
  "publication_json p = JObj ([(''relation'', JStr (relation_name (pu_relation p))), (''reconciled'', JBool (pu_reconciled p)),
     (''finalHead'', JStr (pu_finalHead p))]
     @ (case pu_preReconciliation p of None \<Rightarrow> [] | Some s \<Rightarrow> [(''preReconciliationIntegrationSha'', JStr s)]))"

definition manifest ::
    "repository \<Rightarrow> ident \<Rightarrow> int \<Rightarrow> ident \<Rightarrow> execution_report option \<Rightarrow> string \<Rightarrow> string \<Rightarrow> publication \<Rightarrow> jval" where
  "manifest r run iter d report head created p = JObj
     [(''schemaVersion'', JNum 1), (''repositoryId'', JStr (ry_id r)), (''runId'', JStr run), (''iteration'', JNum iter),
      (''dispatchId'', JStr d), (''strategy'', j_opt (map_option (\<lambda>x. strategy_name (er_strategy x)) report)),
      (''strategyStatus'', j_opt (map_option (\<lambda>x. strategy_status_name (er_status x)) report)),
      (''integrationStatus'', j_opt (map_option (\<lambda>x. integration_status_name (ir_status x)) (Option.bind report er_integration))),
      (''finalCommitSha'', JStr head), (''createdAt'', JStr created), (''publication'', publication_json p)]"

section \<open>Publishing\<close>

definition git_act :: "'w host \<Rightarrow> repository \<Rightarrow> string list \<Rightarrow> ('w, string) act" where
  "git_act h r args = integration_git h r args (ry_localPath r)"

definition isAncestor :: "'w host \<Rightarrow> repository \<Rightarrow> string \<Rightarrow> string \<Rightarrow> ('w, bool) act" where
  "isAncestor h r a b = attempt (git_act h r [''merge-base'', ''--is-ancestor'', a, b])"

text \<open>The result is the error, None when the rebase went through.\<close>

definition rebaseOntoRemoteMain :: "'w host \<Rightarrow> repository \<Rightarrow> ('w, string option) act" where
  "rebaseOntoRemoteMain h r = act_bind (act_catch (git_act h r [''rebase'', ''origin/main'']))
     (\<lambda>x. case x of Inr _ \<Rightarrow> act_return None
        | Inl e \<Rightarrow> act_bind (act_catch (git_act h r [''rebase'', ''--abort''])) (\<lambda>_. act_return (Some e)))"

definition blocked_publish :: "string option \<Rightarrow> string \<Rightarrow> publish_result" where
  "blocked_publish res e = \<lparr>pb_status = PB_BLOCKED, pb_pushed = None, pb_result = res, pb_verified = False, pb_blocker = Some e\<rparr>"

definition classify_main :: "'w host \<Rightarrow> repository \<Rightarrow> string \<Rightarrow> string \<Rightarrow> ('w, main_relation) act" where
  "classify_main h r localHead remoteHead =
     (if remoteHead = [] \<or> remoteHead = localHead then act_return UP_TO_DATE
      else act_bind (isAncestor h r localHead remoteHead) (\<lambda>behind.
        if behind then act_return REMOTE_AHEAD
        else act_bind (isAncestor h r remoteHead localHead) (\<lambda>ahead.
          act_return (if ahead then LOCAL_AHEAD else DIVERGED))))"

text \<open>Reconciliation: whether main was rewritten, or the blocker.\<close>

definition reconcile_main :: "'w host \<Rightarrow> repository \<Rightarrow> main_relation \<Rightarrow> ('w, string + bool) act" where
  "reconcile_main h r rel = (case rel of
       REMOTE_AHEAD \<Rightarrow> act_bind (attempt (git_act h r [''merge'', ''--ff-only'', ''origin/main''])) (\<lambda>ff.
         if ff then act_return (Inr True)
         else act_bind (rebaseOntoRemoteMain h r) (\<lambda>x. act_return (case x of None \<Rightarrow> Inr True
           | Some e \<Rightarrow> Inl (''Unsafe remote advancement: cannot fast-forward or rebase local main onto remote main. '' @ e))))
     | DIVERGED \<Rightarrow> act_bind (rebaseOntoRemoteMain h r) (\<lambda>x. act_return (case x of None \<Rightarrow> Inr True
           | Some e \<Rightarrow> Inl (''Unsafe remote advancement: cannot reconcile local main with remote main. '' @ e)))
     | _ \<Rightarrow> act_return (Inr False))"

definition result_path :: "ident \<Rightarrow> string" where
  "result_path d = ''.orca/results/'' @ safe_name d @ ''.json''"

definition pre_sha :: "execution_report option \<Rightarrow> string option" where
  "pre_sha report = Option.bind (Option.bind report er_integration) ir_commit"

definition rewritten_sha :: "execution_report option \<Rightarrow> string \<Rightarrow> string option" where
  "rewritten_sha report head = (case pre_sha report of None \<Rightarrow> None
     | Some s \<Rightarrow> if s \<noteq> [] \<and> s \<noteq> head then Some s else None)"

definition commit_manifest ::
    "'w host \<Rightarrow> repository \<Rightarrow> ident \<Rightarrow> int \<Rightarrow> ident \<Rightarrow> execution_report option \<Rightarrow> string \<Rightarrow> main_relation \<Rightarrow> bool \<Rightarrow> string
     \<Rightarrow> ('w, string) act" where
  "commit_manifest h r run iter d report created rel reconciled head =
     (let text = js_pretty 0 (manifest r run iter d report head created
            \<lparr>pu_relation = rel, pu_reconciled = reconciled, pu_finalHead = head, pu_preReconciliation = rewritten_sha report head\<rparr>)
      in act_bind (fs_act (hs_mkdir h (path_join [ry_localPath r, ''.orca'', ''results'']))) (\<lambda>_.
         act_bind (fs_act (hs_write h (path_join [ry_localPath r, result_path d]) text)) (\<lambda>_.
         act_bind (git_act h r [''add'', result_path d]) (\<lambda>_.
         act_bind (git_act h r [''commit'', ''-m'', ''chore(orca): durable iteration result for '' @ safe_name d]) (\<lambda>_.
         git_act h r [''rev-parse'', ''HEAD''])))))"

text \<open>The push; a failed one takes the manifest commit back. A successful one is verified on the remote.\<close>

definition push_and_verify ::
    "'w host \<Rightarrow> repository \<Rightarrow> ident \<Rightarrow> execution_report option \<Rightarrow> string \<Rightarrow> string \<Rightarrow> ('w, publish_result) act" where
  "push_and_verify h r d report head resultSha =
     act_bind (act_catch (git_act h r [''push'', ''origin'', ''main''])) (\<lambda>pushed. case pushed of
         Inl e \<Rightarrow> act_bind (act_catch (git_act h r [''reset'', head])) (\<lambda>_.
           act_return (blocked_publish (Some resultSha) (''PUSH_FAILED: '' @ e)))
       | Inr _ \<Rightarrow> act_bind (git_act h r [''rev-parse'', ''HEAD'']) (\<lambda>pushHead.
           act_bind (isAncestor h r resultSha ''origin/main'') (\<lambda>onRemote.
           act_bind (attempt (git_act h r [''cat-file'', ''-e'', ''origin/main:'' @ result_path d])) (\<lambda>there.
           act_bind (case rewritten_sha report head of None \<Rightarrow> act_return False
              | Some s \<Rightarrow> isAncestor h r s ''origin/main'') (\<lambda>_.
           act_return (let verified = onRemote \<and> there in
             \<lparr>pb_status = (if verified then PB_PUBLISHED else PB_BLOCKED), pb_pushed = Some pushHead, pb_result = Some resultSha,
              pb_verified = verified,
              pb_blocker = (if verified then None else Some ''Remote verification failed after push.'')\<rparr>))))))"

definition publish_body ::
    "'w host \<Rightarrow> string \<Rightarrow> repository \<Rightarrow> ident \<Rightarrow> int \<Rightarrow> ident \<Rightarrow> execution_report option \<Rightarrow> ('w, publish_result) act" where
  "publish_body h created r run iter d report =
     act_bind (act_catch (git_act h r [''status'', ''--porcelain''])) (\<lambda>st. case st of
         Inl e \<Rightarrow> act_return (blocked_publish None (''MAIN_STATUS_UNAVAILABLE: '' @ e))
       | Inr mainStatus \<Rightarrow>
          if js_trim mainStatus \<noteq> []
          then act_return (blocked_publish None ''Persistent main checkout is dirty; publish refuses to overwrite user work.'')
          else act_bind (git_act h r [''rev-parse'', ''HEAD'']) (\<lambda>localHead.
            act_bind (git_act h r [''fetch'', ''origin'']) (\<lambda>_.
            act_bind (act_catch (git_act h r [''rev-parse'', ''origin/main''])) (\<lambda>remote.
            act_bind (classify_main h r localHead (case remote of Inr x \<Rightarrow> x | Inl _ \<Rightarrow> [])) (\<lambda>rel.
            act_bind (reconcile_main h r rel) (\<lambda>rec. case rec of
                Inl e \<Rightarrow> act_return (blocked_publish None e)
              | Inr reconciled \<Rightarrow> act_bind (git_act h r [''rev-parse'', ''HEAD'']) (\<lambda>head.
                  act_bind (commit_manifest h r run iter d report created rel reconciled head) (\<lambda>resultSha.
                  push_and_verify h r d report head resultSha))))))))"

definition publishToRemote ::
    "'w host \<Rightarrow> string \<Rightarrow> repository \<Rightarrow> ident \<Rightarrow> int \<Rightarrow> ident \<Rightarrow> execution_report option \<Rightarrow> 'w \<Rightarrow> publish_result \<times> 'w" where
  "publishToRemote h created r run iter d report w = (case publish_body h created r run iter d report w of
       (Inr p, w1) \<Rightarrow> (p, w1) | (Inl e, w1) \<Rightarrow> (blocked_publish None e, w1))"


section \<open>What a confirmed publication means\<close>

lemma act_bind_Inr:
  "act_bind m f w = (Inr y, w') \<longleftrightarrow> (\<exists>x w1. m w = (Inr x, w1) \<and> f x w1 = (Inr y, w'))"
  by (auto simp: act_bind_def split: prod.splits sum.splits)

lemma act_catch_Inr: "act_catch m w = (Inr x, w1) \<longleftrightarrow> m w = (x, w1)"
  by (auto simp: act_catch_def map_prod_def split: prod.splits)

lemma attempt_Inr: "attempt m w = (Inr b, w1) \<longleftrightarrow> (\<exists>x. m w = (x, w1) \<and> b = (case x of Inr _ \<Rightarrow> True | Inl _ \<Rightarrow> False))"
  by (auto simp: attempt_def act_bind_Inr act_catch_Inr act_return_def)

lemma attempt_True: "attempt m w = (Inr True, w1) \<longleftrightarrow> (\<exists>x. m w = (Inr x, w1))"
  by (cases "m w"; cases "fst (m w)") (auto simp: attempt_Inr)

lemma case_sum_act:
  "(case x of Inl e \<Rightarrow> f e | Inr y \<Rightarrow> g y) w = (Inr p, s) \<longleftrightarrow>
     (\<exists>e. x = Inl e \<and> f e w = (Inr p, s)) \<or> (\<exists>y. x = Inr y \<and> g y w = (Inr p, s))"
  by (cases x) auto

lemma logged_git_act:
  "git_act (logged r h) r args s = (y, s') \<Longrightarrow> snd s' = snd s @ [(args, case y of Inr _ \<Rightarrow> True | Inl _ \<Rightarrow> False)]"
  by (cases s; cases s') (auto simp: git_act_def dest: logged_git)

definition push_confirmed :: "string \<Rightarrow> ident \<Rightarrow> (string list \<times> bool) list \<Rightarrow> bool" where
  "push_confirmed sha d l \<longleftrightarrow> (let after = dropWhile (\<lambda>e. e \<noteq> ([''push'', ''origin'', ''main''], True)) l
     in after \<noteq> [] \<and> ([''merge-base'', ''--is-ancestor'', sha, ''origin/main''], True) \<in> set after
        \<and> ([''cat-file'', ''-e'', ''origin/main:'' @ result_path d], True) \<in> set after)"

lemma push_confirmed_suffix:
  "([''push'', ''origin'', ''main''], True) # post = suf \<Longrightarrow>
   ([''merge-base'', ''--is-ancestor'', sha, ''origin/main''], True) \<in> set post \<Longrightarrow>
   ([''cat-file'', ''-e'', ''origin/main:'' @ result_path d], True) \<in> set post \<Longrightarrow> push_confirmed sha d (pre @ suf)"
proof -
  have suffix: "set post \<subseteq> set (dropWhile (\<lambda>e. e \<noteq> x) (pre @ x # post)) \<and> dropWhile (\<lambda>e. e \<noteq> x) (pre @ x # post) \<noteq> []"
    for x :: "string list \<times> bool" and post
    by (induction pre) auto
  assume "([''push'', ''origin'', ''main''], True) # post = suf"
    "([''merge-base'', ''--is-ancestor'', sha, ''origin/main''], True) \<in> set post"
    "([''cat-file'', ''-e'', ''origin/main:'' @ result_path d], True) \<in> set post"
  then show ?thesis
    using suffix [of post "([''push'', ''origin'', ''main''], True)"] unfolding push_confirmed_def Let_def by blast
qed

lemma push_and_verify_published:
  assumes "push_and_verify (logged r h) r d report head sha s = (Inr p, s')" and "pb_status p = PB_PUBLISHED"
  shows "pb_verified p \<and> pb_result p = Some sha \<and> push_confirmed sha d (snd s')"
proof -
  obtain x s1 where 1: "git_act (logged r h) r [''push'', ''origin'', ''main''] s = (x, s1)" by (metis surj_pair)
  show ?thesis
  proof (cases x)
    case (Inl e)
    then show ?thesis
      using assms 1 by (auto simp: push_and_verify_def act_bind_Inr act_catch_Inr act_return_def blocked_publish_def)
  next
    case (Inr out)
    then obtain y2 s2 b3 s3 b4 s4 b5 where
      2: "git_act (logged r h) r [''rev-parse'', ''HEAD''] s1 = (Inr y2, s2)"
      and 3: "isAncestor (logged r h) r sha ''origin/main'' s2 = (Inr b3, s3)"
      and 4: "attempt (git_act (logged r h) r [''cat-file'', ''-e'', ''origin/main:'' @ result_path d]) s3 = (Inr b4, s4)"
      and 5: "(case rewritten_sha report head of None \<Rightarrow> act_return False
              | Some z \<Rightarrow> isAncestor (logged r h) r z ''origin/main'') s4 = (Inr b5, s')"
      and p: "pb_verified p = (b3 \<and> b4)" "pb_result p = Some sha" "pb_status p = (if b3 \<and> b4 then PB_PUBLISHED else PB_BLOCKED)"
      using assms(1) 1 by (auto simp: push_and_verify_def act_bind_Inr act_catch_Inr act_return_def Let_def)
    have "b3" "b4" using p(3) assms(2) by (simp_all split: if_splits)
    then obtain y3 y4 where 3: "git_act (logged r h) r [''merge-base'', ''--is-ancestor'', sha, ''origin/main''] s2 = (Inr y3, s3)"
      and 4: "git_act (logged r h) r [''cat-file'', ''-e'', ''origin/main:'' @ result_path d] s3 = (Inr y4, s4)"
      using 3 4 by (auto simp: isAncestor_def attempt_True)
    obtain more where "snd s' = snd s4 @ more"
      using 5 by (auto simp: act_return_def isAncestor_def attempt_Inr split: option.splits dest!: logged_git_act)
    then have "snd s' = snd s @ ([''push'', ''origin'', ''main''], True) # ([''rev-parse'', ''HEAD''], True)
        # ([''merge-base'', ''--is-ancestor'', sha, ''origin/main''], True)
        # ([''cat-file'', ''-e'', ''origin/main:'' @ result_path d], True) # more"
      using logged_git_act [OF 1] logged_git_act [OF 2] logged_git_act [OF 3] logged_git_act [OF 4] Inr by simp
    then have "push_confirmed sha d (snd s')" by (auto intro: push_confirmed_suffix [OF refl])
    then show ?thesis using p \<open>b3\<close> \<open>b4\<close> by simp
  qed
qed

text \<open>
  C32: a confirmed publication is on the remote. If \<open>publishToRemote\<close> reports
  published, the result is verified and names the manifest commit, and git has run a successful
  \<open>push origin main\<close> and after it confirmed that this commit is an ancestor of the remote main and
  that the remote main holds the result manifest.
\<close>

theorem published_means_on_remote:
  assumes "publishToRemote (logged r h) created r run iter d report (w, []) = (p, w', cmds)"
    and "pb_status p = PB_PUBLISHED"
  shows "isRemotePublishConfirmed (Some p) \<and> pb_result p \<noteq> None \<and> push_confirmed (the (pb_result p)) d cmds"
proof -
  have "publish_body (logged r h) created r run iter d report (w, []) = (Inr p, w', cmds)"
    using assms by (auto simp: publishToRemote_def blocked_publish_def split: prod.splits sum.splits)
  then obtain head sha s where "push_and_verify (logged r h) r d report head sha s = (Inr p, w', cmds)"
    using assms(2)
    by (auto simp: publish_body_def act_bind_Inr act_catch_Inr act_return_def blocked_publish_def case_sum_act split: if_splits)
  from push_and_verify_published [OF this assms(2)] show ?thesis
    using assms(2) by (simp add: isRemotePublishConfirmed_def)
qed


section \<open>Witnesses\<close>

definition demo_publish :: "publish_result \<times> unit logged" where
  "demo_publish = publishToRemote (logged demo_repository demo_host) ''2026'' demo_repository ''a'' 1 ''d1'' None ((), [])"

theorem published_means_on_remote_witness:
  "pb_result (fst demo_publish) = Some demo_sha \<and> push_confirmed demo_sha ''d1'' (snd (snd demo_publish))"
proof -
  have p: "pb_status (fst demo_publish) = PB_PUBLISHED" "pb_result (fst demo_publish) = Some demo_sha" by code_simp+
  have "publishToRemote (logged demo_repository demo_host) ''2026'' demo_repository ''a'' 1 ''d1'' None ((), []) =
      (fst demo_publish, (), snd (snd demo_publish))" by (simp add: demo_publish_def prod_eq_iff)
  from published_means_on_remote [OF this p(1)] p(2) show ?thesis by simp
qed

end
