(* ===== verification/Dag_Nodes.thy ===== *)
theory Dag_Nodes
  imports Run_Stores Work_Graph
begin

text \<open>
  The node table of DAG strategies: \<open>strategy/dag-node-store.ts\<close>, and the parts of
  \<open>strategy/dag-execution-service.ts\<close> that follow a running strategy: the hooks the engine calls, the
  events applied to nodes, and \<open>finalize\<close>. The state is the node table, with the strategy table
  where a report is completed.
\<close>

section \<open>The node store\<close>

definition node_key :: "dag_node \<Rightarrow> ident \<times> ident" where
  "node_key n = (nd_strategy n, nd_id n)"

text \<open>\<open>create\<close>; None is the violation of the primary key or of the unique packet.\<close>

definition node_create :: "dag_node \<Rightarrow> dag_node list \<Rightarrow> dag_node list option" where
  "node_create n t = (if list_ex (\<lambda>q. nd_strategy q = nd_strategy n \<and> (nd_id q = nd_id n \<or> nd_packet q = nd_packet n)) t
     then None else Some (t @ [n]))"

definition node_get :: "ident \<Rightarrow> ident \<Rightarrow> dag_node list \<Rightarrow> dag_node option" where
  "node_get sid i t = tbl_get node_key (sid, i) t"

definition node_getByPacket :: "ident \<Rightarrow> ident \<Rightarrow> dag_node list \<Rightarrow> dag_node option" where
  "node_getByPacket sid pid t = find (\<lambda>n. nd_strategy n = sid \<and> nd_packet n = pid) t"

text \<open>\<open>ORDER BY created_at ASC, node_id ASC\<close>; the second key compares bytes, by a rank of the ids.\<close>

definition node_list :: "(ident \<Rightarrow> int) \<Rightarrow> ident \<Rightarrow> dag_node list \<Rightarrow> dag_node list" where
  "node_list rank sid t = order_asc nd_created (sort_key (\<lambda>n. rank (nd_id n)) (filter (\<lambda>n. nd_strategy n = sid) t))"

definition node_listByStatus :: "(ident \<Rightarrow> int) \<Rightarrow> ident \<Rightarrow> dag_node_status list \<Rightarrow> dag_node list \<Rightarrow> dag_node list" where
  "node_listByStatus rank sid sts t = order_asc nd_created (sort_key (\<lambda>n. rank (nd_id n))
     (filter (\<lambda>n. nd_strategy n = sid \<and> nd_status n \<in> set sts) t))"

record node_patch =
  np_status :: "dag_node_status option"
  np_reason :: "string option option"
  np_started :: "time option option"
  np_finished :: "time option option"
  np_result :: "ident option option"
  np_attempt :: "int option"
  np_retries :: "int option"
  np_inputs :: "string list option"
  np_base :: "string option option"

definition no_node_patch :: node_patch where
  "no_node_patch = \<lparr>np_status = None, np_reason = None, np_started = None, np_finished = None, np_result = None,
     np_attempt = None, np_retries = None, np_inputs = None, np_base = None\<rparr>"

definition node_write :: "node_patch \<Rightarrow> time \<Rightarrow> dag_node \<Rightarrow> dag_node" where
  "node_write u now n = n\<lparr>nd_status := set_col (np_status u) (nd_status n), nd_reason := set_col (np_reason u) (nd_reason n),
     nd_started := set_col (np_started u) (nd_started n), nd_finished := set_col (np_finished u) (nd_finished n),
     nd_result := set_col (np_result u) (nd_result n), nd_attempt := set_col (np_attempt u) (nd_attempt n),
     nd_retries := set_col (np_retries u) (nd_retries n), nd_inputs := set_col (np_inputs u) (nd_inputs n),
     nd_base := set_col (np_base u) (nd_base n), nd_updated := now\<rparr>"

definition node_update :: "ident \<Rightarrow> ident \<Rightarrow> node_patch \<Rightarrow> time \<Rightarrow> dag_node list \<Rightarrow> dag_node option \<times> dag_node list" where
  "node_update sid i u now t = (case node_get sid i t of None \<Rightarrow> (None, t)
     | Some c \<Rightarrow> (Some (node_write u now c), tbl_update (\<lambda>n. node_key n = (sid, i)) (\<lambda>_. node_write u now c) t))"

abbreviation upd_node :: "ident \<Rightarrow> ident \<Rightarrow> node_patch \<Rightarrow> time \<Rightarrow> dag_node list \<Rightarrow> dag_node list" where
  "upd_node sid i u now t \<equiv> snd (node_update sid i u now t)"

lemma node_write_key [simp]: "node_key (node_write u now n) = node_key n" "nd_packet (node_write u now n) = nd_packet n"
  "nd_strategy (node_write u now n) = nd_strategy n" "nd_id (node_write u now n) = nd_id n"
  "nd_depends (node_write u now n) = nd_depends n"
  by (simp_all add: node_write_def node_key_def)

lemma node_get_update:
  "node_get s j (upd_node sid i u now t) =
     (if (s, j) = (sid, i) then map_option (node_write u now) (node_get s j t) else node_get s j t)"
proof (cases "node_get sid i t")
  case None
  then show ?thesis by (auto simp: node_update_def)
next
  case (Some c)
  have "node_key (node_write u now c) = (sid, i)" using Some by (auto simp: node_get_def dest: tbl_get_key)
  moreover have "tbl_get node_key (s, j) (tbl_update (\<lambda>n. node_key n = (sid, i)) (\<lambda>_. node_write u now c) t) = tbl_get node_key (s, j) t"
    if "(s, j) \<noteq> (sid, i)" "node_key (node_write u now c) = (sid, i)"
    using that by (induction t) (auto simp: tbl_update_def table_simps)
  ultimately show ?thesis
    using Some by (auto simp: node_update_def node_get_def table_simps)
qed

text \<open>An update touches one row: the rows of other nodes, and the keys of all, stay.\<close>

lemma node_update_keys: "map node_key (upd_node sid i u now t) = map node_key t"
proof (cases "node_get sid i t")
  case (Some c)
  then have "node_key (node_write u now c) = (sid, i)" by (auto simp: node_get_def dest: tbl_get_key)
  then show ?thesis using Some by (auto simp: node_update_def tbl_update_def)
qed (simp add: node_update_def)

section \<open>Hooks\<close>

text \<open>
  What the closures of \<open>DagExecutionService.hooks\<close> hold: the validated node definitions with the
  budgets of their packets. The strategy run id is the record's own once it is created.
\<close>

record dag_context =
  dc_nodes :: "dag_node_def list"
  dc_packets :: "work_packet list"

definition waits :: "ident list \<Rightarrow> bool" where
  "waits deps \<longleftrightarrow> deps \<noteq> []"

definition initial_node :: "time \<Rightarrow> ident \<Rightarrow> packet_budget \<Rightarrow> dag_node_def \<Rightarrow> dag_node" where
  "initial_node now sid budget d = \<lparr>nd_strategy = sid, nd_id = dn_node d, nd_packet = dn_packet d, nd_depends = dn_depends d,
     nd_status = (if waits (dn_depends d) then DN_WAITING_DEPENDENCY else DN_QUEUED), nd_budget = budget, nd_attempt = 0,
     nd_retries = bg_retries budget,
     nd_reason = (if waits (dn_depends d) then Some ''Waiting for explicit DAG dependencies.'' else None),
     nd_inputs = [], nd_base = None, nd_started = None, nd_finished = None, nd_result = None, nd_created = now, nd_updated = now\<rparr>"

text \<open>\<open>onCreated\<close>; None is the constraint error of an insert.\<close>

fun create_nodes :: "time \<Rightarrow> ident \<Rightarrow> work_packet list \<Rightarrow> dag_node_def list \<Rightarrow> dag_node list \<Rightarrow> dag_node list option" where
  "create_nodes now sid packets [] t = Some t"
| "create_nodes now sid packets (d # ds) t = (case tbl_get wp_id (dn_packet d) (rev packets) of None \<Rightarrow> None
     | Some p \<Rightarrow> Option.bind (node_create (initial_node now sid (wp_budget p) d) t) (create_nodes now sid packets ds))"

definition node_of_packet :: "dag_context \<Rightarrow> ident \<Rightarrow> ident option" where
  "node_of_packet c pid = map_option dn_node (find (\<lambda>d. dn_packet d = pid) (dc_nodes c))"

definition onNodeAllocated :: "dag_context \<Rightarrow> ident \<Rightarrow> time \<Rightarrow> ident \<Rightarrow> string \<Rightarrow> string list \<Rightarrow> dag_node list \<Rightarrow> dag_node list" where
  "onNodeAllocated c sid now pid base inputs t = (case node_of_packet c pid of None \<Rightarrow> t
     | Some i \<Rightarrow> if i = [] then t else upd_node sid i (no_node_patch\<lparr>np_status := Some DN_RUNNING, np_inputs := Some inputs,
          np_base := Some (if base = [] then None else Some base), np_started := Some (Some now)\<rparr>) now t)"

definition onNodeIntegrated :: "dag_context \<Rightarrow> ident \<Rightarrow> time \<Rightarrow> ident \<Rightarrow> integration_status \<Rightarrow> dag_node list \<Rightarrow> dag_node list" where
  "onNodeIntegrated c sid now pid st t = (case node_of_packet c pid of None \<Rightarrow> t
     | Some i \<Rightarrow> if i = [] then t else upd_node sid i (no_node_patch\<lparr>np_status := Some (if st \<noteq> IN_COMPLETED then DN_BLOCKED else DN_COMPLETED),
          np_result := Some (Some pid), np_finished := Some (Some now)\<rparr>) now t)"

section \<open>Events\<close>

datatype event_kind = EV_started | EV_worker_queued | EV_permission_required | EV_worker_started | EV_worker_completed
  | EV_integration_completed | EV_control | EV_completed | EV_recovery

text \<open>Of a published event, the data that the hooks and the strategy's clients read.\<close>

record strategy_event =
  ev_kind :: event_kind
  ev_at :: time
  ev_repo :: ident
  ev_strategy :: ident
  ev_packet :: "ident option"
  ev_reason :: "string option"
  ev_result :: "result_status option"
  ev_blocker :: "string option"
  ev_decision :: "strategy_decision option"
  ev_status :: "strategy_status option"

definition mk_event :: "event_kind \<Rightarrow> time \<Rightarrow> ident \<Rightarrow> ident \<Rightarrow> strategy_event" where
  "mk_event k when repo sid = \<lparr>ev_kind = k, ev_at = when, ev_repo = repo, ev_strategy = sid, ev_packet = None, ev_reason = None,
     ev_result = None, ev_blocker = None, ev_decision = None, ev_status = None\<rparr>"

fun node_status_of_event :: "result_status \<Rightarrow> dag_node_status" where
  "node_status_of_event RS_COMPLETED = DN_COMPLETED"
| "node_status_of_event RS_CANCELLED = DN_CANCELLED"
| "node_status_of_event RS_SKIPPED_DEPENDENCY = DN_SKIPPED"
| "node_status_of_event RS_BLOCKED = DN_BLOCKED"
| "node_status_of_event RS_FAILED = DN_FAILED"
| "node_status_of_event RS_SKIPPED = DN_FAILED"
| "node_status_of_event RS_INTEGRATION_CONFLICT = DN_FAILED"

fun node_status_of_report :: "result_status \<Rightarrow> dag_node_status" where
  "node_status_of_report RS_COMPLETED = DN_COMPLETED"
| "node_status_of_report RS_CANCELLED = DN_CANCELLED"
| "node_status_of_report RS_SKIPPED_DEPENDENCY = DN_SKIPPED"
| "node_status_of_report RS_BLOCKED = DN_BLOCKED"
| "node_status_of_report RS_INTEGRATION_CONFLICT = DN_BLOCKED"
| "node_status_of_report RS_FAILED = DN_FAILED"
| "node_status_of_report RS_SKIPPED = DN_FAILED"

definition waiting_states :: "dag_node_status list" where
  "waiting_states = [DN_QUEUED, DN_WAITING_DEPENDENCY, DN_WAITING_PERMISSION, DN_RETRYING]"

text \<open>Update every listed node whose status is among the given ones, each from the row listed before the loop.\<close>

definition upd_listed :: "(ident \<Rightarrow> int) \<Rightarrow> ident \<Rightarrow> (dag_node \<Rightarrow> bool) \<Rightarrow> (dag_node \<Rightarrow> node_patch) \<Rightarrow> time \<Rightarrow> dag_node list \<Rightarrow> dag_node list" where
  "upd_listed rank sid p f now t = fold (\<lambda>n t. if p n then upd_node sid (nd_id n) (f n) now t else t) (node_list rank sid t) t"

definition finalize ::
    "(ident \<Rightarrow> int) \<Rightarrow> time \<Rightarrow> strategy_run \<Rightarrow> strategy_run list \<times> dag_node list \<Rightarrow> strategy_run \<times> strategy_run list \<times> dag_node list" where
  "finalize rank now rec = (\<lambda>(ss, t).
     if sr_strategy rec \<noteq> DAG then (rec, ss, t)
     else (case sr_report rec of None \<Rightarrow> (rec, ss, t)
       | Some rep \<Rightarrow> if er_strategy rep \<noteq> DAG then (rec, ss, t)
         else (let results = map_of (rev (map (\<lambda>x. (re_packet x, x)) (er_results rep)));
                 t1 = fold (\<lambda>n t. case results (nd_packet n) of None \<Rightarrow> t
                     | Some x \<Rightarrow> (let st = node_status_of_report (re_status x) in
                         if nd_status n \<noteq> st \<or> nd_finished n = None
                         then upd_node (sr_id rec) (nd_id n) (no_node_patch\<lparr>np_status := Some st, np_finished := Some (Some (er_finished rep)),
                              np_result := Some (Some (nd_packet n)), np_reason := Some (re_blocker x)\<rparr>) now t else t))
                   (node_list rank (sr_id rec) t) t;
                 rep' = rep\<lparr>er_nodes := node_list rank (sr_id rec) t1\<rparr>
           in (case strategy_update (sr_id rec) (no_patch\<lparr>sp_report := Some (Some rep')\<rparr>) now ss of
               (Some n, ss') \<Rightarrow> (n, ss', t1)
             | (None, ss') \<Rightarrow> (rec\<lparr>sr_report := Some rep'\<rparr>, ss', t1)))))"

definition decision_name :: "strategy_decision \<Rightarrow> string" where
  "decision_name d = (case d of SD_PAUSE \<Rightarrow> ''PAUSE'' | SD_STOP \<Rightarrow> ''STOP'' | SD_KILL \<Rightarrow> ''KILL'' | SD_RESUME \<Rightarrow> ''RESUME'')"

definition applyEvent ::
    "(ident \<Rightarrow> int) \<Rightarrow> time \<Rightarrow> ident \<Rightarrow> strategy_event \<Rightarrow> strategy_run list \<times> dag_node list \<Rightarrow> strategy_run list \<times> dag_node list" where
  "applyEvent rank now sid ev = (\<lambda>(ss, t).
     (let node = Option.bind (ev_packet ev) (\<lambda>p. if p = [] then None else node_getByPacket sid p t) in
      if ev_kind ev = EV_worker_queued \<and> node \<noteq> None
      then (ss, upd_node sid (nd_id (the node)) (no_node_patch\<lparr>np_status := Some DN_QUEUED,
             np_reason := Some (Some (case ev_reason ev of Some x \<Rightarrow> x | None \<Rightarrow> ''Scheduler admission queued the node.''))\<rparr>) now t)
      else if ev_kind ev = EV_permission_required \<and> node \<noteq> None
      then (ss, upd_node sid (nd_id (the node)) (no_node_patch\<lparr>np_status := Some DN_WAITING_PERMISSION,
             np_reason := Some (Some (case ev_reason ev of Some x \<Rightarrow> x | None \<Rightarrow> ''Permission decision required.''))\<rparr>) now t)
      else if ev_kind ev = EV_worker_started \<and> node \<noteq> None
      then (ss, upd_node sid (nd_id (the node)) (no_node_patch\<lparr>np_status := Some DN_RUNNING,
             np_attempt := Some (nd_attempt (the node) + 1), np_started := Some (Some (ev_at ev)), np_reason := Some None\<rparr>) now t)
      else if ev_kind ev = EV_worker_completed \<and> node \<noteq> None
      then (ss, upd_node sid (nd_id (the node)) (no_node_patch\<lparr>
             np_status := Some (case ev_result ev of Some x \<Rightarrow> node_status_of_event x | None \<Rightarrow> DN_FAILED),
             np_finished := Some (Some (ev_at ev)), np_result := Some (ev_packet ev),
             np_reason := Some (case ev_blocker ev of Some (c # cs) \<Rightarrow> Some (c # cs) | _ \<Rightarrow> None)\<rparr>) now t)
      else if ev_kind ev = EV_integration_completed
      then (ss, upd_listed rank sid (\<lambda>n. nd_status n = DN_COMPLETED)
             (\<lambda>_. no_node_patch\<lparr>np_status := Some DN_INTEGRATING, np_reason := Some None\<rparr>) now t)
      else if ev_kind ev = EV_control \<and> ev_decision ev \<in> {Some SD_STOP, Some SD_KILL}
      then (ss, upd_listed rank sid (\<lambda>n. nd_status n \<in> set waiting_states)
             (\<lambda>_. no_node_patch\<lparr>np_status := Some (if ev_decision ev = Some SD_KILL then DN_BLOCKED else DN_CANCELLED),
                np_reason := Some (Some (case ev_reason ev of Some x \<Rightarrow> x | None \<Rightarrow> decision_name (the (ev_decision ev))))\<rparr>) now t)
      else if ev_kind ev = EV_completed
      then (case strategy_get sid ss of None \<Rightarrow> (ss, t) | Some rec \<Rightarrow> snd (finalize rank now rec (ss, t)))
      else (ss, t)))"

end
