(* ===== verification/Git_Client.thy ===== *)
theory Git_Client
  imports Git_Host Work_Packets
begin

text \<open>
  \<open>GitClient\<close> of \<open>apps/controller/src/watcher/git-client.ts\<close>, the read side of git that the watcher
  and the strategy engine share. Commands go through the host parameter of \<open>Git_Host\<close>; an
  error is its message. The two call forms of \<open>getRemoteHeadSha\<close> with and without a URL are the empty
  and the non-empty remote.
\<close>

section \<open>Contexts\<close>

record git_ctx =
  gx_env :: host_env
  gx_path :: string
  gx_linux :: "string option"
  gx_distro :: "string option"

text \<open>\<open>gitContext\<close> of the strategy engine.\<close>

definition gitContext :: "repository \<Rightarrow> string \<Rightarrow> git_ctx" where
  "gitContext r path = (if ry_env r = ENV_wsl
     then \<lparr>gx_env = ENV_wsl, gx_path = path, gx_linux = Some (toWslPath path), gx_distro = ry_distro r\<rparr>
     else \<lparr>gx_env = ENV_windows, gx_path = path, gx_linux = None, gx_distro = None\<rparr>)"

definition runProc :: "'w host \<Rightarrow> string \<Rightarrow> string list \<Rightarrow> string option \<Rightarrow> 'w \<Rightarrow> (string + string) \<times> 'w" where
  "runProc h command args cwd w = run_git ''Git error'' h command args cwd w"

definition wsl_prefix :: "git_ctx \<Rightarrow> string list" where
  "wsl_prefix c = (if truthy (gx_distro c) then [''-d'', the (gx_distro c)] else [])
     @ (if truthy (gx_linux c) then [''--cd'', the (gx_linux c)] else [])"

definition runGit :: "'w host \<Rightarrow> string list \<Rightarrow> git_ctx option \<Rightarrow> 'w \<Rightarrow> (string + string) \<times> 'w" where
  "runGit h args target w = (case target of
       None \<Rightarrow> runProc h ''git'' args None w
     | Some c \<Rightarrow> if gx_env c = ENV_wsl
         then runProc h ''wsl.exe'' (wsl_prefix c @ [''--'', ''git''] @ args) None w
         else runProc h ''git'' args (Some (gx_path c)) w)"

section \<open>Queries\<close>

definition head_of_listing :: "string \<Rightarrow> string option" where
  "head_of_listing out = (if isSha40 (take 40 out) \<and> drop 40 out \<noteq> [] \<and> js_space (hd (drop 40 out))
     then Some (js_lower (take 40 out)) else None)"

definition getRemoteHeadSha ::
    "'w host \<Rightarrow> string \<Rightarrow> string \<Rightarrow> git_ctx option \<Rightarrow> 'w \<Rightarrow> (string + string option) \<times> 'w" where
  "getRemoteHeadSha h remote branch c w =
     (let ref = ''refs/heads/'' @ branch;
          args = (if c = None \<or> remote \<noteq> [] then [''ls-remote'', remote, ref] else [''ls-remote'', ref])
      in (case runGit h args c w of
            (Inl e, w1) \<Rightarrow> (Inl (''Failed to query remote HEAD for '' @ remote @ '' ('' @ branch @ ''): '' @ e), w1)
          | (Inr out, w1) \<Rightarrow> (Inr (head_of_listing out), w1)))"

definition git_fetch :: "'w host \<Rightarrow> git_ctx \<Rightarrow> string \<Rightarrow> string \<Rightarrow> 'w \<Rightarrow> string option \<times> 'w" where
  "git_fetch h c remote branch w = (case runGit h [''fetch'', remote, branch] (Some c) w of
       (Inl e, w1) \<Rightarrow> (Some e, w1) | (Inr _, w1) \<Rightarrow> (None, w1))"

text \<open>\<open>split(/\s+/)\<close> of a trimmed line: its words.\<close>

function (sequential) js_words :: "string \<Rightarrow> string list" where
  "js_words [] = [[]]"
| "js_words (c # cs) = (if js_space c then [] # js_words (dropWhile js_space cs)
     else (case js_words cs of [] \<Rightarrow> [[c]] | w # ws \<Rightarrow> (c # w) # ws))"
  by pat_completeness auto
termination
  by (relation "measure length") (auto simp: le_imp_less_Suc length_dropWhile_le)

record file_change =
  fc_status :: string
  fc_path :: string

definition change_of_line :: "string \<Rightarrow> file_change option" where
  "change_of_line line = (case js_words (js_trim line) of
       s # p # ps \<Rightarrow> if s \<noteq> [] then Some \<lparr>fc_status = s, fc_path = join_with '' '' (p # ps)\<rparr> else None
     | _ \<Rightarrow> None)"

definition js_lines :: "string \<Rightarrow> string list" where
  "js_lines out = js_split (CHR 0x0A) out"

definition parse_changes :: "string \<Rightarrow> file_change list" where
  "parse_changes out = (if out = [] then [] else
     List.map_filter change_of_line (filter (\<lambda>l. js_trim l \<noteq> []) (js_lines out)))"

definition getCommitChanges :: "'w host \<Rightarrow> git_ctx \<Rightarrow> string \<Rightarrow> 'w \<Rightarrow> (string + file_change list) \<times> 'w" where
  "getCommitChanges h c sha w = map_prod (map_sum id parse_changes) id
     (runGit h [''diff-tree'', ''--no-commit-id'', ''--name-status'', ''-r'', ''-m'', ''--root'', sha] (Some c) w)"

definition getFileContentAtCommit :: "'w host \<Rightarrow> git_ctx \<Rightarrow> string \<Rightarrow> string \<Rightarrow> 'w \<Rightarrow> (string + string) \<times> 'w" where
  "getFileContentAtCommit h c sha path w = runGit h [''show'', sha @ '':'' @ path] (Some c) w"

definition parse_revisions :: "string \<Rightarrow> string list" where
  "parse_revisions out = (if out = [] then [] else filter (\<lambda>s. s \<noteq> []) (map js_trim (js_lines out)))"

definition getRevList :: "'w host \<Rightarrow> git_ctx \<Rightarrow> string \<Rightarrow> string \<Rightarrow> 'w \<Rightarrow> (string + string list) \<times> 'w" where
  "getRevList h c from_sha to_sha w = map_prod (map_sum id parse_revisions) id
     (runGit h [''rev-list'', ''--reverse'', CHR ''^'' # from_sha, to_sha] (Some c) w)"

definition getCurrentSha :: "'w host \<Rightarrow> git_ctx \<Rightarrow> 'w \<Rightarrow> string option \<times> 'w" where
  "getCurrentSha h c w = (case runGit h [''rev-parse'', ''HEAD''] (Some c) w of
       (Inl _, w1) \<Rightarrow> (None, w1) | (Inr out, w1) \<Rightarrow> (Some (js_lower out), w1))"

definition client_isAncestor :: "'w host \<Rightarrow> string \<Rightarrow> string \<Rightarrow> git_ctx option \<Rightarrow> 'w \<Rightarrow> bool \<times> 'w" where
  "client_isAncestor h a b c w = (case runGit h [''merge-base'', ''--is-ancestor'', a, b] c w of
       (Inl _, w1) \<Rightarrow> (False, w1) | (Inr _, w1) \<Rightarrow> (True, w1))"

definition getWorkingTreeStatus :: "'w host \<Rightarrow> git_ctx \<Rightarrow> 'w \<Rightarrow> (string + string) \<times> 'w" where
  "getWorkingTreeStatus h c w = runGit h [''status'', ''--porcelain''] (Some c) w"

definition hasUncommittedChanges :: "'w host \<Rightarrow> git_ctx \<Rightarrow> 'w \<Rightarrow> (string + bool) \<times> 'w" where
  "hasUncommittedChanges h c w = map_prod (map_sum id (\<lambda>s. js_trim s \<noteq> [])) id (getWorkingTreeStatus h c w)"


section \<open>Change listings\<close>

text \<open>How \<open>git diff-tree --name-status\<close> prints a change whose path needs no quoting.\<close>

definition print_change :: "file_change \<Rightarrow> string" where
  "print_change c = fc_status c @ CHR 0x09 # fc_path c"

definition wordy :: "string \<Rightarrow> bool" where
  "wordy s \<longleftrightarrow> s \<noteq> [] \<and> list_all (\<lambda>c. \<not> js_space c) s"

text \<open>A status without blanks, and a path whose words are separated by single spaces.\<close>

definition plain_change :: "file_change \<Rightarrow> bool" where
  "plain_change c \<longleftrightarrow> wordy (fc_status c) \<and> list_all wordy (js_split (CHR '' '') (fc_path c))"

lemma js_words_wordy: "wordy s \<Longrightarrow> js_words s = [s]"
  unfolding wordy_def
proof (induction s)
  case (Cons c s)
  then show ?case by (cases "s = []") auto
qed simp

lemma js_words_cut: "wordy s \<Longrightarrow> js_space b \<Longrightarrow> js_words (s @ b # t) = s # js_words (dropWhile js_space t)"
  unfolding wordy_def
proof (induction s)
  case (Cons c s)
  then show ?case by (cases "s = []") auto
qed simp

lemma wordy_dropWhile: "wordy s \<Longrightarrow> dropWhile js_space (s @ t) = s @ t"
  by (cases s) (auto simp: wordy_def)

lemma join_with_Cons: "xs \<noteq> [] \<Longrightarrow> join_with sep (x # xs) = x @ sep @ join_with sep xs"
  by (cases xs) auto

lemma space_is_space: "js_space (CHR '' '')" "js_space (CHR 0x09)" "js_space (CHR 0x0A)"
  by (simp_all add: js_space_def)

lemma js_words_join:
  "list_all wordy ws \<Longrightarrow> ws \<noteq> [] \<Longrightarrow> js_words (join_with '' '' ws) = ws"
proof (induction ws)
  case (Cons x xs)
  show ?case
  proof (cases xs)
    case Nil
    then show ?thesis using Cons.prems by (simp add: js_words_wordy)
  next
    case (Cons y ys)
    then have ih: "js_words (join_with '' '' xs) = xs" using Cons.IH Cons.prems by simp
    have "dropWhile js_space (join_with '' '' xs) = join_with '' '' xs"
      using Cons Cons.prems wordy_dropWhile [of y] by (cases ys) (auto simp: wordy_dropWhile [of y "[]", simplified])
    then show ?thesis
      using Cons Cons.prems ih js_words_cut [of x "CHR '' ''" "join_with '' '' xs"] space_is_space
      by (simp add: join_with_Cons)
  qed
qed simp

lemma js_trim_id: "s \<noteq> [] \<Longrightarrow> \<not> js_space (hd s) \<Longrightarrow> \<not> js_space (last s) \<Longrightarrow> js_trim s = s"
  using dropWhile_eq_self_iff [of js_space s] dropWhile_eq_self_iff [of js_space "rev s"]
  by (simp add: js_trim_def hd_rev)

lemma js_split_none: "sep \<notin> set s \<Longrightarrow> js_split sep s = [s]"
  by (induction s) auto

lemma js_split_cut: "sep \<notin> set s \<Longrightarrow> js_split sep (s @ sep # t) = s # js_split sep t"
  by (induction s) (auto split: list.splits)

lemma js_split_join:
  "list_all (\<lambda>s. sep \<notin> set s) xs \<Longrightarrow> xs \<noteq> [] \<Longrightarrow> js_split sep (join_with [sep] xs) = xs"
proof (induction xs)
  case (Cons x xs)
  then show ?case by (cases "xs = []") (simp_all add: js_split_none join_with_Cons js_split_cut)
qed simp

lemma js_split_nonempty: "js_split sep s \<noteq> []"
  by (induction s) (auto split: list.splits)

lemma join_js_split: "join_with [sep] (js_split sep s) = s"
proof (induction s)
  case (Cons c s)
  then show ?case
    using js_split_nonempty [of sep s]
    by (cases "js_split sep s"; cases "tl (js_split sep s)") (auto simp: join_with_Cons)
qed simp

lemma plain_line:
  assumes "plain_change c"
  shows "change_of_line (print_change c) = Some c" and "js_trim (print_change c) = print_change c"
    and "print_change c \<noteq> []" and "CHR 0x0A \<notin> set (print_change c)"
proof -
  let ?ws = "js_split (CHR '' '') (fc_path c)"
  have s: "wordy (fc_status c)" and ws: "list_all wordy ?ws" using assms by (simp_all add: plain_change_def)
  have path: "join_with '' '' ?ws = fc_path c" by (rule join_js_split)
  have ne: "?ws \<noteq> []" by (rule js_split_nonempty)
  have words: "js_words (fc_path c) = ?ws" using js_words_join [OF ws ne] by (simp only: path)
  have ends: "fc_path c \<noteq> [] \<and> \<not> js_space (hd (fc_path c)) \<and> \<not> js_space (last (fc_path c)) \<and> CHR 0x0A \<notin> set (fc_path c)"
  proof -
    have "xs \<noteq> [] \<Longrightarrow> list_all wordy xs \<Longrightarrow> join_with '' '' xs \<noteq> [] \<and> \<not> js_space (hd (join_with '' '' xs))
        \<and> \<not> js_space (last (join_with '' '' xs)) \<and> CHR 0x0A \<notin> set (join_with '' '' xs)" for xs
    proof (induction xs)
      case (Cons x xs)
      then have "x \<noteq> []" "list_all (\<lambda>c. \<not> js_space c) x" by (simp_all add: wordy_def)
      then have x: "\<not> js_space (hd x)" "\<not> js_space (last x)" "CHR 0x0A \<notin> set x"
        using space_is_space(3) by (auto simp: list_all_iff)
      show ?case using Cons x \<open>x \<noteq> []\<close> by (cases "xs = []") (auto simp: join_with_Cons)
    qed simp
    from this [OF ne ws] show ?thesis unfolding path .
  qed
  have st: "fc_status c \<noteq> []" "\<not> js_space (hd (fc_status c))" "CHR 0x0A \<notin> set (fc_status c)"
    using s space_is_space(3) by (auto simp: wordy_def list_all_iff)
  show t: "js_trim (print_change c) = print_change c"
    by (rule js_trim_id) (use st ends in \<open>auto simp: print_change_def\<close>)
  have "dropWhile js_space (fc_path c) = fc_path c" using ends by (cases "fc_path c") auto
  then have "js_words (print_change c) = fc_status c # ?ws"
    using js_words_cut [OF s space_is_space(2), of "fc_path c"] words by (simp add: print_change_def)
  then show "change_of_line (print_change c) = Some c"
    using st path ne by (cases ?ws) (simp_all add: change_of_line_def t)
  show "print_change c \<noteq> []" "CHR 0x0A \<notin> set (print_change c)" using st ends by (auto simp: print_change_def)
qed

text \<open>
  A change listing survives the parser. Changes with a status and a path whose words are
  separated by single spaces, printed one per line the way \<open>git diff-tree --name-status\<close>
  prints them, are parsed back exactly, in order.
\<close>

theorem change_listing_roundtrip:
  assumes "list_all plain_change cs"
  shows "parse_changes (join_with [CHR 0x0A] (map print_change cs)) = cs"
proof (cases "cs = []")
  case True
  then show ?thesis by (simp add: parse_changes_def)
next
  case False
  let ?out = "join_with [CHR 0x0A] (map print_change cs)"
  have lines: "js_lines ?out = map print_change cs"
    unfolding js_lines_def by (rule js_split_join) (use assms False plain_line(4) in \<open>auto simp: list_all_iff\<close>)
  have "?out \<noteq> []"
  proof -
    obtain c cs' where cs: "cs = c # cs'" using False by (cases cs) auto
    then have "print_change c \<noteq> []" using assms plain_line(3) by simp
    then show ?thesis by (cases cs') (simp_all add: cs)
  qed
  moreover have "List.map_filter change_of_line (map print_change cs) = cs"
    using assms by (induction cs) (simp_all add: plain_line(1) List.map_filter_simps)
  moreover have "filter (\<lambda>l. js_trim l \<noteq> []) (map print_change cs) = map print_change cs"
    using assms plain_line(2,3) by (auto simp: filter_id_conv list_all_iff)
  ultimately show ?thesis by (simp add: parse_changes_def lines)
qed

theorem change_listing_roundtrip_witness:
  "parse_changes (join_with [CHR 0x0A] (map print_change
     [\<lparr>fc_status = ''M'', fc_path = ''src/main.ts''\<rparr>, \<lparr>fc_status = ''A'', fc_path = ''my docs/a b.md''\<rparr>]))
   = [\<lparr>fc_status = ''M'', fc_path = ''src/main.ts''\<rparr>, \<lparr>fc_status = ''A'', fc_path = ''my docs/a b.md''\<rparr>]"
  by (rule change_listing_roundtrip) code_simp

text \<open>Two spaces in a row are one afterwards: such a path is reported under another name.\<close>

theorem double_space_path_renamed:
  "parse_changes (print_change \<lparr>fc_status = ''A'', fc_path = ''src/a  b.ts''\<rparr>) = [\<lparr>fc_status = ''A'', fc_path = ''src/a b.ts''\<rparr>]"
  by code_simp

end
