(* ===== verification/Executor_Runner.thy ===== *)
theory Executor_Runner
  imports Prelude
begin

text \<open>
  \<open>ExecutorRunner\<close> of \<open>apps/controller/src/executor/executor-runner.ts\<close>: the supervision of one child
  process. The process, the log stream and the adapter are external; the runner is the flags it
  keeps, the \<open>onExit\<close> calls it made and the number of kill requests it sent to the child. An event is
  what the process, the awaited ownership hook, the watchdog timer or a caller does.
\<close>

section \<open>State and operations\<close>

datatype exit_reason = NORMAL_EXIT | PAUSED_EXIT | EMERGENCY_KILLED | WATCHDOG_TIMEOUT | SPAWN_FAILURE

fun exit_reason_name :: "exit_reason \<Rightarrow> string" where
  "exit_reason_name NORMAL_EXIT = ''NORMAL_EXIT''"
| "exit_reason_name PAUSED_EXIT = ''PAUSED''"
| "exit_reason_name EMERGENCY_KILLED = ''EMERGENCY_KILLED''"
| "exit_reason_name WATCHDOG_TIMEOUT = ''WATCHDOG_TIMEOUT''"
| "exit_reason_name SPAWN_FAILURE = ''SPAWN_FAILURE''"

record exit_details =
  xd_code :: "int option"
  xd_reason :: exit_reason
  xd_timedOut :: bool
  xd_wasKilled :: bool
  xd_wasPaused :: bool

record runner =
  rn_child :: bool
  rn_listening :: bool
  rn_killed :: bool
  rn_paused :: bool
  rn_timedOut :: bool
  rn_fired :: bool
  rn_hookPending :: bool
  rn_pendingExit :: "(int option \<times> exit_reason) option"
  rn_timer :: bool
  rn_exits :: "exit_details list"
  rn_kills :: nat

definition new_runner :: runner where
  "new_runner = \<lparr>rn_child = False, rn_listening = False, rn_killed = False, rn_paused = False, rn_timedOut = False,
     rn_fired = False, rn_hookPending = False, rn_pendingExit = None, rn_timer = False, rn_exits = [], rn_kills = 0\<rparr>"

text \<open>The delivery of an exit, the part that \<open>fire\<close> and \<open>fireBufferedExit\<close> share.\<close>

definition fireBufferedExit :: "int option \<Rightarrow> exit_reason \<Rightarrow> runner \<Rightarrow> runner" where
  "fireBufferedExit code reason r = (if rn_fired r then r
     else r\<lparr>rn_fired := True, rn_timer := False, rn_exits := rn_exits r @ [\<lparr>xd_code = code, xd_reason = reason,
         xd_timedOut = rn_timedOut r, xd_wasKilled = (rn_killed r \<and> \<not> rn_paused r), xd_wasPaused = rn_paused r\<rparr>]\<rparr>)"

definition fire_exit :: "int option \<Rightarrow> exit_reason \<Rightarrow> runner \<Rightarrow> runner" where
  "fire_exit code reason r = (if rn_hookPending r
     then (if rn_pendingExit r = None then r\<lparr>rn_pendingExit := Some (code, reason)\<rparr> else r)
     else fireBufferedExit code reason r)"

definition exit_cause :: "exit_reason \<Rightarrow> runner \<Rightarrow> exit_reason" where
  "exit_cause plain r = (if rn_paused r then PAUSED_EXIT else if rn_timedOut r then WATCHDOG_TIMEOUT
     else if rn_killed r then EMERGENCY_KILLED else plain)"

definition runner_kill :: "runner \<Rightarrow> runner" where
  "runner_kill r = r\<lparr>rn_killed := True, rn_kills := (if rn_child r then rn_kills r + 1 else rn_kills r)\<rparr>"

definition runner_pause :: "runner \<Rightarrow> runner" where
  "runner_pause r = runner_kill (r\<lparr>rn_paused := True\<rparr>)"

text \<open>\<open>start\<close> up to the awaited hook, and from the settled hook to its end.\<close>

definition spawn_child :: "runner \<Rightarrow> runner" where
  "spawn_child r = r\<lparr>rn_child := True\<rparr>"

definition arm_watchdog :: "int \<Rightarrow> runner \<Rightarrow> runner" where
  "arm_watchdog ms r = (if ms > 0 then r\<lparr>rn_timer := True\<rparr> else r)"

definition spawned :: "int \<Rightarrow> bool \<Rightarrow> runner \<Rightarrow> runner" where
  "spawned ms hook r = (if hook then r\<lparr>rn_listening := True, rn_hookPending := True\<rparr>
     else arm_watchdog ms (r\<lparr>rn_listening := True\<rparr>))"

definition hook_settled :: "int \<Rightarrow> bool \<Rightarrow> runner \<Rightarrow> runner" where
  "hook_settled ms ok r =
     (let r1 = r\<lparr>rn_hookPending := False\<rparr>;
          r2 = (case rn_pendingExit r1 of None \<Rightarrow> r1
                | Some (code, reason) \<Rightarrow> fireBufferedExit code reason (r1\<lparr>rn_pendingExit := None\<rparr>))
      in if ok then arm_watchdog ms r2 else r2)"

definition watchdog_fires :: "runner \<Rightarrow> runner" where
  "watchdog_fires r = runner_kill (r\<lparr>rn_timer := False, rn_timedOut := True\<rparr>)"

definition isRunning :: "bool \<Rightarrow> runner \<Rightarrow> bool" where
  "isRunning child_alive r \<longleftrightarrow> rn_child r \<and> \<not> rn_killed r \<and> \<not> rn_paused r \<and> child_alive"

datatype runner_event = Start | Spawned | Hook_settled bool | Child_exit "int option" | Child_error
  | Watchdog | Kill_call | Pause_call

fun runner_step :: "int \<Rightarrow> bool \<Rightarrow> runner_event \<Rightarrow> runner \<Rightarrow> runner" where
  "runner_step ms hook Start r = (if rn_child r then r else spawn_child r)"
| "runner_step ms hook Spawned r = (if rn_child r \<and> \<not> rn_listening r then spawned ms hook r else r)"
| "runner_step ms hook (Hook_settled ok) r = (if rn_hookPending r then hook_settled ms ok r else r)"
| "runner_step ms hook (Child_exit code) r = (if rn_listening r then fire_exit code (exit_cause NORMAL_EXIT r) r else r)"
| "runner_step ms hook Child_error r = (if rn_listening r then fire_exit None (exit_cause SPAWN_FAILURE r) r else r)"
| "runner_step ms hook Watchdog r = (if rn_timer r then watchdog_fires r else r)"
| "runner_step ms hook Kill_call r = runner_kill r"
| "runner_step ms hook Pause_call r = runner_pause r"

definition runner_run :: "int \<Rightarrow> bool \<Rightarrow> runner_event list \<Rightarrow> runner" where
  "runner_run ms hook evs = fold (runner_step ms hook) evs new_runner"

lemmas runner_defs = fireBufferedExit_def fire_exit_def runner_kill_def runner_pause_def spawn_child_def arm_watchdog_def
  spawned_def hook_settled_def watchdog_fires_def Let_def


section \<open>What the runner promises\<close>

text \<open>
  The exits told are one at most; a timed out or paused runner is a killed one; an exit told
  carries the flags in that order.
\<close>

definition runner_inv :: "runner \<Rightarrow> bool" where
  "runner_inv r \<longleftrightarrow> (rn_fired r \<longleftrightarrow> rn_exits r \<noteq> []) \<and> length (rn_exits r) \<le> 1
     \<and> (rn_timedOut r \<longrightarrow> rn_killed r) \<and> (rn_paused r \<longrightarrow> rn_killed r)
     \<and> list_all (\<lambda>x. xd_timedOut x \<longrightarrow> xd_wasKilled x \<or> xd_wasPaused x) (rn_exits r)
     \<and> list_all (\<lambda>x. \<not> (xd_wasKilled x \<and> xd_wasPaused x)) (rn_exits r)"

lemma runner_inv_step: "runner_inv r \<Longrightarrow> runner_inv (runner_step ms hook e r)"
  by (cases e) (auto simp: runner_inv_def runner_defs split: option.splits prod.splits)

lemma runner_inv_run: "runner_inv (runner_run ms hook evs)"
proof -
  have "runner_inv r \<Longrightarrow> runner_inv (fold (runner_step ms hook) evs r)" for r
    by (induction evs arbitrary: r) (simp_all add: runner_inv_step)
  then show ?thesis by (simp add: runner_run_def new_runner_def runner_inv_def)
qed

text \<open>The first end of the child that the listeners see: its code, None for an error.\<close>

fun first_end :: "bool \<Rightarrow> bool \<Rightarrow> runner_event list \<Rightarrow> int option option" where
  "first_end child listening [] = None"
| "first_end child listening (e # es) = (case e of
       Start \<Rightarrow> first_end True listening es
     | Spawned \<Rightarrow> first_end child (child \<or> listening) es
     | Child_exit code \<Rightarrow> if listening then Some code else first_end child listening es
     | Child_error \<Rightarrow> if listening then Some None else first_end child listening es
     | _ \<Rightarrow> first_end child listening es)"

text \<open>The exits due for it: none while the hook is awaited.\<close>

definition due :: "int option option \<Rightarrow> bool \<Rightarrow> int option list" where
  "due x waiting = (case x of None \<Rightarrow> [] | Some c \<Rightarrow> if waiting then [] else [c])"

definition untold :: "runner \<Rightarrow> bool" where
  "untold r \<longleftrightarrow> rn_exits r = [] \<and> \<not> rn_fired r \<and> rn_pendingExit r = None \<and> (rn_listening r \<longrightarrow> rn_child r)"

definition told :: "int option \<Rightarrow> runner \<Rightarrow> bool" where
  "told c r \<longleftrightarrow> rn_listening r \<and> (if rn_hookPending r
     then map_option fst (rn_pendingExit r) = Some c \<and> rn_exits r = [] \<and> \<not> rn_fired r
     else map xd_code (rn_exits r) = [c] \<and> rn_fired r)"

lemma told_step: "told c r \<Longrightarrow> told c (runner_step ms hook e r)"
  by (cases e) (auto simp: told_def runner_defs split: if_splits option.splits prod.splits)

lemma told_run: "told c r \<Longrightarrow> told c (fold (runner_step ms hook) evs r)"
  by (induction evs arbitrary: r) (simp_all add: told_step)

lemma untold_step:
  assumes "untold r"
  shows "case e of
      Child_exit code \<Rightarrow> if rn_listening r then told code (runner_step ms hook e r) else runner_step ms hook e r = r
    | Child_error \<Rightarrow> if rn_listening r then told None (runner_step ms hook e r) else runner_step ms hook e r = r
    | _ \<Rightarrow> untold (runner_step ms hook e r)
       \<and> rn_child (runner_step ms hook e r) = (e = Start \<or> rn_child r)
       \<and> rn_listening (runner_step ms hook e r) = (if e = Spawned then rn_child r \<or> rn_listening r else rn_listening r)"
  using assms by (cases e) (auto simp: untold_def told_def runner_defs)

lemma exits_of_run:
  "untold r \<Longrightarrow> map xd_code (rn_exits (fold (runner_step ms hook) evs r)) =
     due (first_end (rn_child r) (rn_listening r) evs) (rn_hookPending (fold (runner_step ms hook) evs r))"
proof (induction evs arbitrary: r)
  case Nil
  then show ?case by (simp add: untold_def due_def)
next
  case (Cons e evs)
  note st = untold_step [OF Cons.prems, where e = e and ms = ms and hook = hook]
  have told: "map xd_code (rn_exits (fold (runner_step ms hook) evs q)) =
      due (Some c) (rn_hookPending (fold (runner_step ms hook) evs q))" if "told c q" for c q
    using told_run [OF that, of ms hook evs] by (simp add: told_def due_def split: if_splits)
  show ?case
    using st told Cons.IH [of "runner_step ms hook e r"] Cons.IH [of r] Cons.prems
    by (cases e) (simp_all split: if_splits)
qed

text \<open>
  C35: a child's end is told exactly once. Whatever order the spawn, the awaited ownership hook, exits,
  process errors, the watchdog and the kill and pause calls come in, \<open>onExit\<close> is called for the first end of the child
  after the spawn and for no other, with its code, as soon as no hook is awaited; a run that timed out was killed or
  paused, and never both are reported.
\<close>

theorem exit_told_once:
  "map xd_code (rn_exits (runner_run ms hook evs)) = due (first_end False False evs) (rn_hookPending (runner_run ms hook evs))
   \<and> list_all (\<lambda>x. (if xd_timedOut x then xd_wasKilled x \<noteq> xd_wasPaused x else True) \<and> \<not> (xd_wasKilled x \<and> xd_wasPaused x))
       (rn_exits (runner_run ms hook evs))"
proof -
  let ?r = "runner_run ms hook evs"
  have "untold new_runner" "rn_child new_runner = False" "rn_listening new_runner = False"
    by (simp_all add: untold_def new_runner_def)
  with exits_of_run [of new_runner ms hook evs]
  have "map xd_code (rn_exits ?r) = due (first_end False False evs) (rn_hookPending ?r)" by (simp add: runner_run_def)
  moreover have "list_all (\<lambda>x. xd_timedOut x \<longrightarrow> xd_wasKilled x \<or> xd_wasPaused x) (rn_exits ?r)
      \<and> list_all (\<lambda>x. \<not> (xd_wasKilled x \<and> xd_wasPaused x)) (rn_exits ?r)"
    using runner_inv_run [of ms hook evs] by (simp add: runner_inv_def)
  ultimately show ?thesis by (auto simp: list_all_iff)
qed

text \<open>
  An exit that arrives while the ownership hook is awaited is kept: when the hook settles, with
  or without success, it is told, with its code.
\<close>

theorem buffered_exit_delivered:
  assumes "rn_listening r" and "rn_hookPending r" and "rn_pendingExit r = None" and "\<not> rn_fired r" and "rn_exits r = []"
  shows "map xd_code (rn_exits (hook_settled ms ok (runner_step ms hook (Child_exit code) r))) = [code]"
  using assms by (simp add: runner_defs)

theorem buffered_exit_delivered_witness:
  "map xd_code (rn_exits (hook_settled 0 True (runner_step 0 True (Child_exit (Some 3))
     (runner_run 0 True [Start, Spawned])))) = [Some 3]"
  by (rule buffered_exit_delivered) code_simp+

text \<open>
  The watchdog outlives a short child: it is armed after the buffered exit was told, and when it
  fires the kill goes to the process id of a child that has ended.
\<close>

theorem watchdog_armed_after_exit:
  "let r = runner_run 1000 True [Start, Spawned, Child_exit (Some 0), Hook_settled True] in
     rn_fired r \<and> rn_timer r \<and> rn_kills r = 0 \<and> rn_kills (runner_step 1000 True Watchdog r) = 1"
  by code_simp

end
