(* ===== verification/Swarm_Worker.thy ===== *)
theory Swarm_Worker
  imports Git_Client Executor_Runner Permissions
begin

text \<open>
  What a strategy worker is given and how its end is judged: the executor profiles of
  \<open>apps/controller/src/executor/profiles.ts\<close>, and of
  \<open>apps/controller/src/strategy/swarm-execution-service.ts\<close> the worker prompt, the write permission,
  the allowed-path check and \<open>buildWorkerResult\<close>.
\<close>

section \<open>Executor profiles\<close>

datatype profile = PR_kimi | PR_codex | PR_generic | PR_test | PR_swarm_test | PR_opencode

record invocation =
  iv_command :: string
  iv_args :: "string list"

record invocation_params =
  ip_cli :: string
  ip_model :: string
  ip_prompt :: string
  ip_env :: host_env

definition resolveProfile :: "string \<Rightarrow> profile" where
  "resolveProfile cli = (let n = js_lower cli in
     if has_sub ''orca-swarm-test-harness'' n then PR_swarm_test
     else if has_sub ''orca-test-harness'' n then PR_test
     else if has_sub ''kimi'' n then PR_kimi
     else if has_sub ''codex'' n then PR_codex
     else if has_sub ''opencode'' n then PR_opencode
     else PR_generic)"

text \<open>\<open>harness\<close> is the environment variable that names the script, \<open>node\<close> is \<open>process.execPath\<close>.\<close>

definition harness_invocation :: "string \<Rightarrow> string \<Rightarrow> string option \<Rightarrow> invocation_params \<Rightarrow> string + invocation" where
  "harness_invocation missing node harness p = (if \<not> truthy harness then Inl missing
     else if ip_env p = ENV_wsl then Inr \<lparr>iv_command = ''node'', iv_args = [toWslPath (the harness)]\<rparr>
     else Inr \<lparr>iv_command = node, iv_args = [the harness]\<rparr>)"

definition buildTestInvocation :: "string \<Rightarrow> string option \<Rightarrow> invocation_params \<Rightarrow> string + invocation" where
  "buildTestInvocation = harness_invocation
     ''ORCA_TEST_EXECUTOR_HARNESS is not set; cannot build a test executor invocation.''"

definition buildSwarmTestInvocation :: "string \<Rightarrow> string option \<Rightarrow> invocation_params \<Rightarrow> string + invocation" where
  "buildSwarmTestInvocation = harness_invocation
     ''ORCA_SWARM_TEST_HARNESS is not set; cannot build a swarm test invocation.''"

definition buildExecutorInvocation ::
    "string \<Rightarrow> string option \<Rightarrow> string option \<Rightarrow> profile \<Rightarrow> invocation_params \<Rightarrow> string + invocation" where
  "buildExecutorInvocation node test_harness swarm_harness profile p = (case profile of
       PR_kimi \<Rightarrow> Inr \<lparr>iv_command = ip_cli p, iv_args = [''-m'', ip_model p, ''-p'', ip_prompt p]\<rparr>
     | PR_codex \<Rightarrow> Inr \<lparr>iv_command = ip_cli p,
         iv_args = [''exec'', ''-s'', ''danger-full-access'', ''-m'', ip_model p, ''--json'', ip_prompt p]\<rparr>
     | PR_opencode \<Rightarrow> Inr \<lparr>iv_command = ip_cli p, iv_args = [''run'', ''--model'', ip_model p, ip_prompt p]\<rparr>
     | PR_generic \<Rightarrow> Inr \<lparr>iv_command = ip_cli p, iv_args = [''--model'', ip_model p, ip_prompt p]\<rparr>
     | PR_test \<Rightarrow> buildTestInvocation node test_harness p
     | PR_swarm_test \<Rightarrow> buildSwarmTestInvocation node swarm_harness p)"

definition or_none :: "string \<Rightarrow> string" where
  "or_none s = (if s = [] then ''none'' else s)"

definition buildWorkerPrompt :: "work_packet \<Rightarrow> string" where
  "buildWorkerPrompt p = join_with [CHR 0x0A]
     [''You are an isolated Orca swarm worker.'',
      ''Workstream: '' @ wp_workstream p,
      ''Goal: '' @ wp_goal p,
      ''Requirements: '' @ or_none (join_with '' | '' (wp_requirements p)),
      ''Allowed paths: '' @ or_none (join_with '', '' (wp_allowed p)),
      ''Read paths: '' @ or_none (join_with '', '' (wp_read p)),
      ''Dependencies: '' @ or_none (join_with '', '' (wp_depends p)),
      ''Work only in the supplied isolated checkout. Commit completed changes locally; do not push or rewrite main. Return structured evidence through the worker result path.'']"

section \<open>Write permission\<close>

text \<open>
  \<open>policy\<close> tells whether a \<open>permissionPolicyService\<close> is wired; its \<open>evaluate\<close> writes a decision. None is
  the database error of that write.
\<close>

definition evaluateWritePermission ::
    "(ident \<Rightarrow> bool) option \<Rightarrow> ident \<Rightarrow> time \<Rightarrow> ident \<Rightarrow> ident \<Rightarrow> int \<Rightarrow> work_packet \<Rightarrow> perm_state
     \<Rightarrow> (perm_outcome \<times> perm_state) option" where
  "evaluateWritePermission policy fresh now repo run iter p s =
     (let pp = wp_permission p in
      if ''REPOSITORY_FILE_WRITE'' \<in> set (pp_denied pp) \<or> ''GIT_COMMIT'' \<in> set (pp_denied pp) then Some (DENY, s)
      else if pp_preset pp = CONSERVATIVE \<and> ''REPOSITORY_FILE_WRITE'' \<notin> set (pp_allowed pp) then Some (ASK, s)
      else if pp_preset pp = CUSTOM \<and> ''REPOSITORY_FILE_WRITE'' \<notin> set (pp_allowed pp) then Some (ASK, s)
      else (case policy of None \<Rightarrow> Some (ALLOW, s)
        | Some native \<Rightarrow> map_option (\<lambda>(d, s1). (if pd_outcome d = DENY then DENY else if pd_outcome d = ASK then ASK else ALLOW, s1))
            (ps_evaluate native fresh now repo REPOSITORY_FILE_WRITE (Some run) (Some iter) s)))"

section \<open>Allowed paths\<close>

text \<open>
  A pattern with a star is compiled to a regular expression. Of its segments only \<open>**\<close> and \<open>*\<close>
  are translated; the escaped characters of any other segment leave the star itself alone, so
  there it is the quantifier of the character before it, and without one the expression is a
  \<open>SyntaxError\<close>.
\<close>

datatype rx_token = Tk_char char | Tk_star | Tk_dots | Tk_name
datatype rx_atom = At_char char | At_dot | At_name

definition segment_tokens :: "string \<Rightarrow> rx_token list" where
  "segment_tokens seg = (if seg = ''**'' then [Tk_dots] else if seg = ''*'' then [Tk_name]
     else map (\<lambda>c. if c = CHR ''*'' then Tk_star else Tk_char c) seg)"

fun join_tokens :: "rx_token list list \<Rightarrow> rx_token list" where
  "join_tokens [] = []"
| "join_tokens [x] = x"
| "join_tokens (x # y # xs) = x @ Tk_char (CHR ''/'') # join_tokens (y # xs)"

definition pattern_tokens :: "string \<Rightarrow> rx_token list" where
  "pattern_tokens a = join_tokens (map segment_tokens (js_split (CHR ''/'') a))"

fun compile_pattern :: "rx_token list \<Rightarrow> (rx_atom \<times> bool) list option" where
  "compile_pattern [] = Some []"
| "compile_pattern (Tk_star # ts) = None"
| "compile_pattern (Tk_dots # ts) = map_option ((#) (At_dot, True)) (compile_pattern ts)"
| "compile_pattern (Tk_name # ts) = map_option ((#) (At_name, True)) (compile_pattern ts)"
| "compile_pattern (Tk_char c # Tk_star # ts) = map_option ((#) (At_char c, True)) (compile_pattern ts)"
| "compile_pattern (Tk_char c # ts) = map_option ((#) (At_char c, False)) (compile_pattern ts)"

fun atom_accepts :: "rx_atom \<Rightarrow> char \<Rightarrow> bool" where
  "atom_accepts (At_char c) d = (c = d)"
| "atom_accepts At_dot d = rx_dot d"
| "atom_accepts At_name d = (d \<noteq> CHR ''/'')"

function (sequential) rx_match :: "(rx_atom \<times> bool) list \<Rightarrow> string \<Rightarrow> bool" where
  "rx_match [] s = (s = [])"
| "rx_match ((a, False) # r) s = (case s of [] \<Rightarrow> False | c # cs \<Rightarrow> atom_accepts a c \<and> rx_match r cs)"
| "rx_match ((a, True) # r) s = (rx_match r s \<or> (case s of [] \<Rightarrow> False | c # cs \<Rightarrow> atom_accepts a c \<and> rx_match ((a, True) # r) cs))"
  by pat_completeness auto
termination by (relation "measures [length \<circ> fst, length \<circ> snd]") auto

definition rx_specials :: "char set" where
  "rx_specials = set ''.+?^${}()|[]'' \<union> {CHR 0x5C}"

definition segment_source :: "string \<Rightarrow> string" where
  "segment_source seg = (if seg = ''**'' then ''(?:.*)'' else if seg = ''*'' then ''[^/]*''
     else concat (map (\<lambda>c. if c \<in> rx_specials then [CHR 0x5C, c] else [c]) seg))"

definition syntax_error :: "string \<Rightarrow> string" where
  "syntax_error a = ''Invalid regular expression: /^'' @ join_with ''/'' (map segment_source (js_split (CHR ''/'') a))
     @ ''$/: Nothing to repeat''"

text \<open>One allowed path; the error is the \<open>SyntaxError\<close>.\<close>

definition path_matches :: "string \<Rightarrow> string \<Rightarrow> string + bool" where
  "path_matches file raw = (let a = js_trim (js_slashes raw) in
     if a = [] then Inr False
     else if a = ''*'' \<or> a = ''**'' \<or> a = ''*/*'' then Inr True
     else if CHR ''*'' \<in> set a then (case compile_pattern (pattern_tokens a) of
         None \<Rightarrow> Inl (syntax_error a) | Some rx \<Rightarrow> Inr (rx_match rx file))
     else Inr (file = a \<or> (last a = CHR ''/'' \<and> starts_with file a)
       \<or> (CHR ''/'' \<notin> set a \<and> last (js_split (CHR ''/'') file) = a) \<or> starts_with file (a @ ''/'')))"

fun allowed_by :: "string \<Rightarrow> string list \<Rightarrow> string + bool" where
  "allowed_by file [] = Inr False"
| "allowed_by file (raw # rest) = (case path_matches file raw of
       Inl e \<Rightarrow> Inl e | Inr True \<Rightarrow> Inr True | Inr False \<Rightarrow> allowed_by file rest)"

definition isPathAllowed :: "string \<Rightarrow> string list \<Rightarrow> string + bool" where
  "isPathAllowed file allowed = allowed_by (js_slashes file) allowed"

text \<open>\<open>filesChanged.filter(file => !isPathAllowed(file, allowedPaths))\<close>.\<close>

fun violating :: "string list \<Rightarrow> string list \<Rightarrow> string + string list" where
  "violating allowed [] = Inr []"
| "violating allowed (f # fs) = (case isPathAllowed f allowed of Inl e \<Rightarrow> Inl e
     | Inr ok \<Rightarrow> (case violating allowed fs of Inl e \<Rightarrow> Inl e | Inr vs \<Rightarrow> Inr (if ok then vs else f # vs)))"

section \<open>The result of a worker\<close>

definition syntheticResult :: "time \<Rightarrow> work_packet \<Rightarrow> result_status \<Rightarrow> string \<Rightarrow> provenance option \<Rightarrow> packet_result" where
  "syntheticResult now p st blocker wt = \<lparr>re_packet = wp_id p, re_campaign = wp_campaign p, re_run = wp_run p, re_iter = wp_iter p,
     re_status = st, re_worktree = wt, re_files = [], re_verification = [], re_findings = [], re_risks = [blocker],
     re_artifacts = [], re_affected = wp_depends p, re_usage = [], re_summary = blocker, re_blocker = Some blocker,
     re_created = now\<rparr>"

definition provenance_of :: "worktree \<Rightarrow> string option \<Rightarrow> provenance" where
  "provenance_of wt commit = \<lparr>pv_worktree = wt_id wt, pv_path = wt_path wt, pv_branch = wt_branch wt, pv_base = wt_base wt, pv_commit = commit\<rparr>"

fun changes_of_commits :: "'w host \<Rightarrow> git_ctx \<Rightarrow> string list \<Rightarrow> 'w \<Rightarrow> (string + file_change list) \<times> 'w" where
  "changes_of_commits h c [] w = (Inr [], w)"
| "changes_of_commits h c (sha # shas) w = (case getCommitChanges h c sha w of
       (Inl e, w1) \<Rightarrow> (Inl e, w1)
     | (Inr cs, w1) \<Rightarrow> (case changes_of_commits h c shas w1 of
          (Inl e, w2) \<Rightarrow> (Inl e, w2) | (Inr ds, w2) \<Rightarrow> (Inr (cs @ ds), w2)))"

text \<open>The head of the worktree and the changed files. An error of the listing leaves no files; the head stays.\<close>

definition worker_changes :: "'w host \<Rightarrow> git_ctx \<Rightarrow> string \<Rightarrow> 'w \<Rightarrow> (string option \<times> string list) \<times> 'w" where
  "worker_changes h c base w = (case getCurrentSha h c w of
       (None, w1) \<Rightarrow> ((None, []), w1)
     | (Some head, w1) \<Rightarrow>
        if head = [] \<or> head = base then ((Some head, []), w1)
        else (case getRevList h c base head w1 of
            (Inl _, w2) \<Rightarrow> ((Some head, []), w2)
          | (Inr commits, w2) \<Rightarrow> (case changes_of_commits h c commits w2 of
               (Inl _, w3) \<Rightarrow> ((Some head, []), w3)
             | (Inr cs, w3) \<Rightarrow> ((Some head, rev (remdups (rev (map (\<lambda>x. js_slashes (fc_path x)) cs)))), w3))))"

definition exit_text :: "string \<Rightarrow> int option \<Rightarrow> string" where
  "exit_text unknown code = (case code of None \<Rightarrow> unknown | Some n \<Rightarrow> js_int n)"

definition worker_commit :: "string option \<Rightarrow> string \<Rightarrow> string option" where
  "worker_commit head base = (if truthy head \<and> head \<noteq> Some base then head else None)"

definition worker_reason :: "exit_details \<Rightarrow> string list \<Rightarrow> string option \<Rightarrow> string option" where
  "worker_reason d bad commit = (if xd_wasPaused d then Some ''PAUSED''
     else if xd_wasKilled d then Some ''EMERGENCY_KILLED''
     else if xd_timedOut d then Some ''EXECUTOR_WATCHDOG_TIMEOUT''
     else if bad \<noteq> [] then Some ''POLICY_VIOLATION''
     else if xd_code d \<noteq> Some 0 then Some (''EXECUTOR_EXIT_'' @ exit_text ''UNKNOWN'' (xd_code d))
     else if commit = None then Some ''WORKER_NO_COMMIT'' else None)"

definition worker_status :: "exit_details \<Rightarrow> string list \<Rightarrow> string option \<Rightarrow> result_status" where
  "worker_status d bad commit = (if xd_wasPaused d \<or> xd_wasKilled d then RS_CANCELLED
     else if bad \<noteq> [] then RS_BLOCKED
     else if xd_code d = Some 0 \<and> commit \<noteq> None then RS_COMPLETED else RS_FAILED)"

definition result_of_worker ::
    "time \<Rightarrow> work_packet \<Rightarrow> worktree \<Rightarrow> exit_details \<Rightarrow> string list \<Rightarrow> string list \<Rightarrow> ident list \<Rightarrow> string option \<Rightarrow> packet_result" where
  "result_of_worker now p wt d files bad usage commit =
     (let st = worker_status d bad commit; reason = worker_reason d bad commit in
      \<lparr>re_packet = wp_id p, re_campaign = wp_campaign p, re_run = wp_run p, re_iter = wp_iter p, re_status = st,
       re_worktree = Some (provenance_of wt commit), re_files = files,
       re_verification = [''executor_exit_code='' @ exit_text ''unknown'' (xd_code d), ''executor_exit_reason='' @ exit_reason_name (xd_reason d)]
         @ (case commit of None \<Rightarrow> [] | Some s \<Rightarrow> [''worker_commit='' @ s])
         @ (if bad \<noteq> [] then [''allowed_paths_violation='' @ join_with '','' bad] else []),
       re_findings = [],
       re_risks = (if st = RS_COMPLETED then [] else if bad \<noteq> [] then [''POLICY_VIOLATION: '' @ join_with '', '' bad]
         else [case reason of Some x \<Rightarrow> x | None \<Rightarrow> ''WORKER_FAILED'']),
       re_artifacts = [], re_affected = wp_depends p, re_usage = usage,
       re_summary = (if st = RS_COMPLETED then ''Worker '' @ wp_workstream p @ '' completed.''
         else if bad \<noteq> [] then ''Worker '' @ wp_workstream p @ '' modified paths outside allowedPaths: '' @ join_with '', '' bad @ ''.''
         else ''Worker '' @ wp_workstream p @ '' did not complete.''),
       re_blocker = reason, re_created = now\<rparr>)"

text \<open>\<open>usage\<close> is the outcome of the telemetry capture: an error, no metric, or the id of one.\<close>

definition buildWorkerResult ::
    "'w host \<Rightarrow> time \<Rightarrow> repository \<Rightarrow> work_packet \<Rightarrow> worktree \<Rightarrow> string + ident option \<Rightarrow> exit_details \<Rightarrow> 'w
     \<Rightarrow> (string + packet_result) \<times> 'w" where
  "buildWorkerResult h now r p wt usage d w = (case worker_changes h (gitContext r (wt_path wt)) (wt_base wt) w of
       ((head, files), w1) \<Rightarrow>
         (case (if wp_allowed p \<noteq> [] then violating (wp_allowed p) files else Inr []) of
            Inl e \<Rightarrow> (Inl e, w1)
          | Inr bad \<Rightarrow> (case usage of Inl e \<Rightarrow> (Inl e, w1)
             | Inr metric \<Rightarrow> (Inr (result_of_worker now p wt d files bad (case metric of None \<Rightarrow> [] | Some i \<Rightarrow> [i])
                 (worker_commit head (wt_base wt))), w1))))"

text \<open>What \<open>onExit\<close> settles the worker with: an error becomes a failed result.\<close>

definition worker_outcome ::
    "'w host \<Rightarrow> time \<Rightarrow> repository \<Rightarrow> work_packet \<Rightarrow> worktree \<Rightarrow> string + ident option \<Rightarrow> exit_details \<Rightarrow> 'w \<Rightarrow> packet_result \<times> 'w" where
  "worker_outcome h now r p wt usage d w = (case buildWorkerResult h now r p wt usage d w of
       (Inr x, w1) \<Rightarrow> (x, w1)
     | (Inl e, w1) \<Rightarrow> (syntheticResult now p RS_FAILED (''WORKER_RESULT_FAILED: '' @ e) (Some (provenance_of wt None)), w1))"

definition start_failed :: "time \<Rightarrow> work_packet \<Rightarrow> worktree \<Rightarrow> string \<Rightarrow> packet_result" where
  "start_failed now p wt e = syntheticResult now p RS_FAILED (''EXECUTOR_START_FAILED: '' @ e) (Some (provenance_of wt None))"



section \<open>Path patterns\<close>

text \<open>A segment the translation gets right: a lone star, or a name without one.\<close>

definition plain_segment :: "string \<Rightarrow> bool" where
  "plain_segment seg \<longleftrightarrow> (seg = ''*'' \<or> CHR ''*'' \<notin> set seg) \<and> CHR ''/'' \<notin> set seg"

definition segment_atoms :: "string \<Rightarrow> (rx_atom \<times> bool) list" where
  "segment_atoms seg = (if seg = ''*'' then [(At_name, True)] else map (\<lambda>c. (At_char c, False)) seg)"

fun join_atoms :: "string list \<Rightarrow> (rx_atom \<times> bool) list" where
  "join_atoms [] = []"
| "join_atoms [x] = segment_atoms x"
| "join_atoms (x # y # xs) = segment_atoms x @ (At_char (CHR ''/''), False) # join_atoms (y # xs)"

lemma compile_char:
  "(\<And>r'. ts \<noteq> Tk_star # r') \<Longrightarrow> compile_pattern (Tk_char c # ts) = map_option ((#) (At_char c, False)) (compile_pattern ts)"
  by (cases ts rule: compile_pattern.cases) auto

lemma compile_chars:
  "CHR ''*'' \<notin> set seg \<Longrightarrow> (\<And>r'. ts \<noteq> Tk_star # r') \<Longrightarrow>
   compile_pattern (map (\<lambda>c. if c = CHR ''*'' then Tk_star else Tk_char c) seg @ ts)
     = map_option ((@) (map (\<lambda>c. (At_char c, False)) seg)) (compile_pattern ts)"
proof (induction seg)
  case Nil
  then show ?case by (simp add: option.map_ident_strong)
next
  case (Cons c seg)
  let ?m = "map (\<lambda>c. if c = CHR ''*'' then Tk_star else Tk_char c) seg @ ts"
  have "c \<noteq> CHR ''*''" using Cons.prems(1) by auto
  moreover have "?m \<noteq> Tk_star # r'" for r' using Cons.prems by (cases seg) auto
  ultimately show ?case using Cons compile_char [of ?m c] by (simp add: option.map_comp comp_def)
qed

lemma tokens_start: "plain_segment y \<Longrightarrow> join_tokens (map segment_tokens (y # xs)) \<noteq> Tk_star # r"
  by (cases xs; cases y) (auto simp: plain_segment_def segment_tokens_def split: if_splits)

lemma segment_compiles:
  "plain_segment x \<Longrightarrow> (\<And>r'. ts \<noteq> Tk_star # r') \<Longrightarrow>
   compile_pattern (segment_tokens x @ ts) = map_option ((@) (segment_atoms x)) (compile_pattern ts)"
proof -
  assume x: "plain_segment x" and ts: "\<And>r'. ts \<noteq> Tk_star # r'"
  have "(@) [a] = (#) a" for a :: "rx_atom \<times> bool" by (rule ext) simp
  then show ?thesis
    using compile_chars [of x ts] x ts by (auto simp: plain_segment_def segment_tokens_def segment_atoms_def)
qed

lemma pattern_compiles:
  "list_all plain_segment segs \<Longrightarrow> compile_pattern (join_tokens (map segment_tokens segs)) = Some (join_atoms segs)"
proof (induction segs rule: join_atoms.induct)
  case (2 x)
  then show ?case using segment_compiles [of x "[]"] by simp
next
  case (3 x y xs)
  let ?rest = "join_tokens (map segment_tokens (y # xs))"
  have ih: "compile_pattern ?rest = Some (join_atoms (y # xs))" using 3 by simp
  have "?rest \<noteq> Tk_star # r" for r using 3(2) by (intro tokens_start) simp
  then have "compile_pattern (Tk_char (CHR ''/'') # ?rest) = Some ((At_char (CHR ''/''), False) # join_atoms (y # xs))"
    using ih compile_char [of ?rest] by simp
  then show ?case using 3(2) segment_compiles [of x "Tk_char (CHR ''/'') # ?rest"] by simp
qed simp

lemma match_chars: "rx_match (map (\<lambda>c. (At_char c, False)) seg @ r) s \<longleftrightarrow> (\<exists>t. s = seg @ t \<and> rx_match r t)"
  by (induction seg arbitrary: s) (auto split: list.splits)

lemma match_name: "rx_match ((At_name, True) # r) s \<longleftrightarrow> (\<exists>u t. s = u @ t \<and> CHR ''/'' \<notin> set u \<and> rx_match r t)"
proof (induction s)
  case (Cons c cs)
  have "rx_match ((At_name, True) # r) (c # cs) \<longleftrightarrow>
      rx_match r (c # cs) \<or> c \<noteq> CHR ''/'' \<and> (\<exists>u t. cs = u @ t \<and> CHR ''/'' \<notin> set u \<and> rx_match r t)"
    using Cons by simp
  also have "\<dots> \<longleftrightarrow> (\<exists>u t. c # cs = u @ t \<and> CHR ''/'' \<notin> set u \<and> rx_match r t)" (is "?L \<longleftrightarrow> ?R")
  proof
    assume ?L
    then show ?R
    proof (elim disjE conjE exE)
      assume "rx_match r (c # cs)"
      then show ?R by (intro exI [of _ "[]"] exI [of _ "c # cs"]) simp
    next
      fix u t assume "c \<noteq> CHR ''/''" "cs = u @ t" "CHR ''/'' \<notin> set u" "rx_match r t"
      then show ?R by (intro exI [of _ "c # u"] exI [of _ t]) auto
    qed
  next
    assume ?R
    then obtain u t where "c # cs = u @ t" "CHR ''/'' \<notin> set u" "rx_match r t" by blast
    then show ?L by (cases u) auto
  qed
  finally show ?case .
qed simp

lemma match_segment:
  "plain_segment x \<Longrightarrow> rx_match (segment_atoms x @ r) s \<longleftrightarrow>
     (\<exists>u t. s = u @ t \<and> CHR ''/'' \<notin> set u \<and> (x = ''*'' \<or> x = u) \<and> rx_match r t)"
  using match_chars [of x r s] match_name [of r s] by (auto simp: segment_atoms_def plain_segment_def)

lemma match_segments:
  "list_all plain_segment segs \<Longrightarrow> segs \<noteq> [] \<Longrightarrow>
     rx_match (join_atoms segs) s \<longleftrightarrow> list_all2 (\<lambda>p x. p = ''*'' \<or> p = x) segs (js_split (CHR ''/'') s)"
proof (induction segs arbitrary: s rule: join_atoms.induct)
  case (2 x)
  have "rx_match (segment_atoms x) s \<longleftrightarrow> CHR ''/'' \<notin> set s \<and> (x = ''*'' \<or> x = s)"
    using 2 match_segment [of x "[]" s] by auto
  moreover have "length (js_split (CHR ''/'') s) = 1 \<longleftrightarrow> CHR ''/'' \<notin> set s"
    by (induction s) (auto split: list.splits simp: js_split_nonempty)
  ultimately show ?case
    using js_split_none [of "CHR ''/''" s] by (auto dest: list_all2_lengthD)
next
  case (3 x y xs)
  let ?r = "join_atoms (y # xs)"
  have ih: "rx_match ?r t \<longleftrightarrow> list_all2 (\<lambda>p x. p = ''*'' \<or> p = x) (y # xs) (js_split (CHR ''/'') t)" for t
    using 3 by simp
  have tail: "rx_match ((At_char (CHR ''/''), False) # ?r) v \<longleftrightarrow> (\<exists>t. v = CHR ''/'' # t \<and> rx_match ?r t)" for v
    by (cases v) auto
  have "rx_match (join_atoms (x # y # xs)) s \<longleftrightarrow> (\<exists>u v. s = u @ v \<and> CHR ''/'' \<notin> set u \<and> (x = ''*'' \<or> x = u)
      \<and> rx_match ((At_char (CHR ''/''), False) # ?r) v)"
    unfolding join_atoms.simps(3) by (rule match_segment) (use 3(2) in simp)
  also have "\<dots> \<longleftrightarrow> (\<exists>u t. s = u @ CHR ''/'' # t \<and> CHR ''/'' \<notin> set u \<and> (x = ''*'' \<or> x = u)
      \<and> list_all2 (\<lambda>p x. p = ''*'' \<or> p = x) (y # xs) (js_split (CHR ''/'') t))"
    unfolding tail ih by blast
  also have "\<dots> \<longleftrightarrow> list_all2 (\<lambda>p x. p = ''*'' \<or> p = x) (x # y # xs) (js_split (CHR ''/'') s)"
  proof (cases "CHR ''/'' \<in> set s")
    case True
    then obtain u t where s: "s = u @ CHR ''/'' # t" "CHR ''/'' \<notin> set u" by (meson split_list_first)
    let ?Q = "\<lambda>u t. (x = ''*'' \<or> x = u) \<and> list_all2 (\<lambda>p x. p = ''*'' \<or> p = x) (y # xs) (js_split (CHR ''/'') t)"
    have same: "u' = u \<and> t' = t" if "s = u' @ CHR ''/'' # t'" "CHR ''/'' \<notin> set u'" for u' t'
      using s that by (metis js_split_cut list.inject same_append_eq)
    have "(\<exists>u t. s = u @ CHR ''/'' # t \<and> CHR ''/'' \<notin> set u \<and> ?Q u t) \<longleftrightarrow> ?Q u t" using s same by blast
    also have "\<dots> \<longleftrightarrow> list_all2 (\<lambda>p x. p = ''*'' \<or> p = x) (x # y # xs) (js_split (CHR ''/'') s)"
      using s by (simp add: js_split_cut)
    finally show ?thesis by blast
  next
    case False
    then show ?thesis by (auto simp: js_split_none)
  qed
  finally show ?case .
qed simp

text \<open>
  Where the pattern language is well behaved. A pattern all of whose segments are a lone star
  or a name without a star allows exactly the paths of the same number of segments that agree
  with it at every name: a star stands for one whole segment and never for a separator.
\<close>

theorem star_segments_exact:
  assumes "list_all plain_segment (js_split (CHR ''/'') a)" and "CHR ''*'' \<in> set a"
    and "a \<noteq> ''*''" and "a \<noteq> ''*/*''" and "js_trim (js_slashes a) = a"
  shows "path_matches file a = Inr (list_all2 (\<lambda>p x. p = ''*'' \<or> p = x) (js_split (CHR ''/'') a) (js_split (CHR ''/'') file))"
proof -
  have "a \<noteq> ''**''" using assms(1) by (auto simp: plain_segment_def)
  moreover have "compile_pattern (pattern_tokens a) = Some (join_atoms (js_split (CHR ''/'') a))"
    unfolding pattern_tokens_def by (rule pattern_compiles) (rule assms(1))
  ultimately show ?thesis
    using assms match_segments [OF assms(1) js_split_nonempty] by (auto simp: path_matches_def Let_def)
qed

theorem star_segments_exact_witness:
  "path_matches ''src/core/x.ts'' ''src/*/x.ts''
     = Inr (list_all2 (\<lambda>p x. p = ''*'' \<or> p = x) (js_split (CHR ''/'') ''src/*/x.ts'') (js_split (CHR ''/'') ''src/core/x.ts''))"
  by (rule star_segments_exact) code_simp+

text \<open>
  A star inside a name is not a wildcard. \<open>src/*.ts\<close> refuses the files it is meant for and
  accepts a file outside of the directory; \<open>*.ts\<close> is no regular expression at all, so the check
  throws for every file and a worker's finished work becomes a failure.
\<close>

theorem star_in_name_misread:
  "isPathAllowed ''src/a.ts'' [''src/*.ts''] = Inr False \<and> isPathAllowed ''src.ts'' [''src/*.ts''] = Inr True
   \<and> isPathAllowed ''a.ts'' [''*.ts''] = Inl (''Invalid regular expression: /^*'' @ [CHR 0x5C] @ ''.ts$/: Nothing to repeat'')"
  by code_simp



section \<open>When a worker counts as completed\<close>

text \<open>
  C36: completion needs evidence. A worker's result says completed exactly if the process ended with
  exit code 0 without a pause or a kill, the worktree's head differs from the base it was given, and
  no listed change lies outside of the packet's scope; it then names that head as its commit.
\<close>

theorem completed_needs_evidence:
  assumes "buildWorkerResult h now r p wt usage d w = (Inr x, w')"
    and "worker_changes h (gitContext r (wt_path wt)) (wt_base wt) w = ((head, files), w1)"
  shows "re_files x = files \<and> (re_status x = RS_COMPLETED \<longleftrightarrow>
      xd_code d = Some 0 \<and> \<not> xd_wasPaused d \<and> \<not> xd_wasKilled d \<and> truthy head \<and> head \<noteq> Some (wt_base wt)
      \<and> (wp_allowed p = [] \<or> violating (wp_allowed p) files = Inr []))
    \<and> (if re_status x = RS_COMPLETED then map_option pv_commit (re_worktree x) = Some head else True)"
proof -
  obtain bad usage' where bad: "(if wp_allowed p \<noteq> [] then violating (wp_allowed p) files else Inr []) = Inr bad"
    and x: "x = result_of_worker now p wt d files bad usage' (worker_commit head (wt_base wt))"
    using assms unfolding buildWorkerResult_def by (simp split: sum.splits) (elim conjE, blast)
  have ok: "bad = [] \<longleftrightarrow> wp_allowed p = [] \<or> violating (wp_allowed p) files = Inr []"
    using bad by (cases "wp_allowed p = []") auto
  have st: "re_status x = worker_status d bad (worker_commit head (wt_base wt))" "re_files x = files"
    "re_worktree x = Some (provenance_of wt (worker_commit head (wt_base wt)))"
    by (simp_all add: x result_of_worker_def Let_def)
  have c: "worker_commit head (wt_base wt) \<noteq> None \<longleftrightarrow> truthy head \<and> head \<noteq> Some (wt_base wt)"
    by (cases head) (simp_all add: worker_commit_def truthy_def)
  have final: "re_status x = RS_COMPLETED \<longleftrightarrow> \<not> (xd_wasPaused d \<or> xd_wasKilled d) \<and> bad = [] \<and> xd_code d = Some 0
      \<and> worker_commit head (wt_base wt) \<noteq> None"
    by (simp add: st worker_status_def)
  have "re_status x = RS_COMPLETED \<Longrightarrow> worker_commit head (wt_base wt) = head"
    unfolding final c by (simp add: worker_commit_def)
  then have commit: "re_status x = RS_COMPLETED \<Longrightarrow> map_option pv_commit (re_worktree x) = Some head"
    by (simp add: st(3) provenance_of_def)
  show ?thesis
  proof (cases "re_status x = RS_COMPLETED")
    case True
    then show ?thesis using commit final ok c st(2) by simp
  next
    case False
    then show ?thesis using final ok c st(2) by auto
  qed
qed

definition demo_worker_tree :: worktree where
  "demo_worker_tree = \<lparr>wt_id = ''w'', wt_repo = ''r'', wt_packet = ''p'', wt_campaign = ''c'', wt_run = ''c'', wt_iter = 1,
     wt_path = ''/d/w'', wt_branch = ''b'', wt_env = ENV_windows, wt_distro = None, wt_base = replicate 40 (CHR ''a''),
     wt_inputs = [], wt_status = WT_ACTIVE, wt_created = 0, wt_released = None, wt_error = None\<rparr>"

definition demo_exit :: exit_details where
  "demo_exit = \<lparr>xd_code = Some 0, xd_reason = NORMAL_EXIT, xd_timedOut = False, xd_wasKilled = False, xd_wasPaused = False\<rparr>"

text \<open>A host on which \<open>rev-parse\<close> answers with one head and the listing of revisions fails or gives one commit.\<close>

definition demo_git :: "bool \<Rightarrow> string \<Rightarrow> unit host" where
  "demo_git listed head = \<lparr>hs_exec = (\<lambda>c args cwd w. if ''rev-parse'' \<in> set args then (Exec_ok head, w)
       else if ''rev-list'' \<in> set args then (if listed then (Exec_ok head, w) else (Exec_fail [] ''stdout maxBuffer exceeded'', w))
       else (Exec_ok (''M'' @ CHR 0x09 # ''src/a.ts''), w)),
     hs_exists = (\<lambda>p w. True), hs_mkdir = (\<lambda>p w. (None, w)), hs_rm = (\<lambda>p w. (None, w)), hs_write = (\<lambda>p t w. (None, w)),
     hs_subdirs = (\<lambda>p w. None)\<rparr>"

definition demo_place :: repository where
  "demo_place = \<lparr>ry_id = ''r'', ry_displayName = ''r'', ry_remote = [], ry_localPath = ''/d/r'', ry_env = ENV_windows, ry_distro = None,
     ry_cli = ''kimi'', ry_model = ''m'', ry_solUrl = [], ry_maxIterations = 20, ry_maxRuntime = 480, ry_enabled = True,
     ry_created = 0, ry_updated = 0\<rparr>"

definition demo_scoped :: work_packet where
  "demo_scoped = (demo_packet ''p'' [])\<lparr>wp_allowed := [''src/'']\<rparr>"

theorem completed_needs_evidence_witness:
  "let b = buildWorkerResult (demo_git True (replicate 40 (CHR ''b''))) 7 demo_place demo_scoped demo_worker_tree (Inr None) demo_exit ();
       x = (case fst b of Inr x \<Rightarrow> x | Inl _ \<Rightarrow> syntheticResult 7 demo_scoped RS_FAILED [] None) in
   re_files x = [''src/a.ts''] \<and> (re_status x = RS_COMPLETED \<longleftrightarrow>
      xd_code demo_exit = Some 0 \<and> \<not> xd_wasPaused demo_exit \<and> \<not> xd_wasKilled demo_exit
      \<and> truthy (Some (replicate 40 (CHR ''b''))) \<and> Some (replicate 40 (CHR ''b'')) \<noteq> Some (wt_base demo_worker_tree)
      \<and> (wp_allowed demo_scoped = [] \<or> violating (wp_allowed demo_scoped) [''src/a.ts''] = Inr []))
    \<and> (if re_status x = RS_COMPLETED then map_option pv_commit (re_worktree x) = Some (Some (replicate 40 (CHR ''b''))) else True)"
  unfolding Let_def
  by (rule completed_needs_evidence [where h = "demo_git True (replicate 40 (CHR ''b''))" and now = 7 and r = demo_place
      and p = demo_scoped and wt = demo_worker_tree and usage = "Inr None" and d = demo_exit and w = "()" and w' = "()" and ?w1.0 = "()"])
    code_simp+

text \<open>
  The scope check fails open. When git cannot list what the worker changed, the list of changes is
  empty and the result completed: a worker may commit anywhere if the listing fails, for instance
  because its output is too large.
\<close>

theorem unlisted_changes_pass_scope:
  assumes "getCurrentSha h (gitContext r (wt_path wt)) w = (Some head, w1)" and "head \<noteq> []" and "head \<noteq> wt_base wt"
    and "getRevList h (gitContext r (wt_path wt)) (wt_base wt) head w1 = (Inl e, w2)"
    and "xd_code d = Some 0" and "\<not> xd_wasPaused d" and "\<not> xd_wasKilled d" and "usage = Inr metric"
  shows "case buildWorkerResult h now r p wt usage d w of
      (Inr x, _) \<Rightarrow> re_status x = RS_COMPLETED \<and> re_files x = [] \<and> map_option pv_commit (re_worktree x) = Some (Some head)
    | (Inl _, _) \<Rightarrow> False"
proof -
  have "truthy (Some head)" using assms(2) by (cases head) (simp_all add: truthy_def)
  then show ?thesis
    using assms by (simp add: buildWorkerResult_def worker_changes_def result_of_worker_def worker_status_def worker_commit_def
        provenance_of_def Let_def)
qed

theorem unlisted_changes_pass_scope_witness:
  "case buildWorkerResult (demo_git False (replicate 40 (CHR ''b''))) 7 demo_place demo_scoped demo_worker_tree (Inr None) demo_exit () of
      (Inr x, _) \<Rightarrow> re_status x = RS_COMPLETED \<and> re_files x = []
        \<and> map_option pv_commit (re_worktree x) = Some (Some (replicate 40 (CHR ''b'')))
    | (Inl _, _) \<Rightarrow> False"
  by (rule unlisted_changes_pass_scope [where head = "replicate 40 (CHR ''b'')" and ?w1.0 = "()" and ?w2.0 = "()" and metric = None
      and e = "case fst (getRevList (demo_git False (replicate 40 (CHR ''b''))) (gitContext demo_place (wt_path demo_worker_tree))
          (wt_base demo_worker_tree) (replicate 40 (CHR ''b'')) ()) of Inl e \<Rightarrow> e | Inr _ \<Rightarrow> []"]) code_simp+

text \<open>
  A base SHA in capitals hides a missing commit: git prints the head in lower case, the comparison
  is one of strings, so a worker that committed nothing is reported as completed with the base as
  its commit.
\<close>

theorem capital_base_hides_missing_commit:
  "let base = replicate 40 (CHR ''A''); wt = demo_worker_tree\<lparr>wt_base := base\<rparr> in
   case fst (buildWorkerResult (demo_git True (js_lower base)) 7 demo_place (demo_packet ''p'' []) wt (Inr None) demo_exit ()) of
     Inr x \<Rightarrow> re_status x = RS_COMPLETED \<and> map_option pv_commit (re_worktree x) = Some (Some (js_lower base))
   | Inl _ \<Rightarrow> False"
  by code_simp

text \<open>
  The watchdog is never named. A child the watchdog ended was killed by the runner, so its result
  is a cancellation with the blocker of an emergency kill (or of a pause), never
  \<open>EXECUTOR_WATCHDOG_TIMEOUT\<close> and never failed.
\<close>

theorem watchdog_reported_as_kill:
  assumes "xd \<in> set (rn_exits (runner_run ms hook evs))" and "xd_timedOut xd"
  shows "worker_status xd bad commit = RS_CANCELLED \<and> worker_reason xd bad commit \<in> {Some ''EMERGENCY_KILLED'', Some ''PAUSED''}"
proof -
  have "xd_wasKilled xd \<or> xd_wasPaused xd"
    using runner_inv_run [of ms hook evs] assms by (auto simp: runner_inv_def list_all_iff)
  then show ?thesis by (auto simp: worker_status_def worker_reason_def)
qed

theorem watchdog_reported_as_kill_witness:
  "let xd = last (rn_exits (runner_run 1000 False [Start, Spawned, Watchdog, Child_exit None])) in
   worker_status xd [] None = RS_CANCELLED \<and> worker_reason xd [] None \<in> {Some ''EMERGENCY_KILLED'', Some ''PAUSED''}"
  unfolding Let_def
  by (rule watchdog_reported_as_kill [where ms = 1000 and hook = False and evs = "[Start, Spawned, Watchdog, Child_exit None]"]) code_simp+

end
