(* ===== verification/Swarm_State.thy ===== *)
theory Swarm_State
  imports Swarm_Worker Publication Dag_Nodes Scheduler
begin

text \<open>
  \<open>SwarmExecutionService\<close> of \<open>apps/controller/src/strategy/swarm-execution-service.ts\<close>, first part: the
  state the service works on (the tables of its stores, its maps in memory and the host's world),
  publishing with the hooks of a strategy, and the staging checkout that collects the commits of a
  DAG run and is landed on main at its end.

  The hooks of a strategy are data: \<open>hk_dag\<close> is the context of the hooks that
  \<open>DagExecutionService\<close> installs, and \<open>hk_completed\<close> tells that the loop's \<open>onCompleted\<close> is installed; the
  records it is called with are kept. A host operation of the worktree and integration services is
  one step on the host's world; the integration mutex orders these steps and is left out.
\<close>

section \<open>State\<close>

record hooks =
  hk_dag :: "dag_context option"
  hk_completed :: bool

definition no_hooks :: hooks where
  "no_hooks = \<lparr>hk_dag = None, hk_completed = False\<rparr>"

record 'w swarm =
  sm_db :: packet_db
  sm_repos :: "repository list"
  sm_runs :: "run list"
  sm_strategies :: "strategy_run list"
  sm_controls :: "strategy_control list"
  sm_sched :: sched_state
  sm_perm :: perm_state
  sm_own :: own_state
  sm_nodes :: "dag_node list"
  sm_hooks :: "(ident \<times> hooks) list"
  sm_stagings :: "(ident \<times> staging) list"
  sm_staged :: "(ident \<times> string list) list"
  sm_events :: "strategy_event list"
  sm_completed :: "strategy_run list"
  sm_world :: 'w

text \<open>
  The surroundings: host and probe, the collation of \<open>localeCompare\<close>, the rank of node ids in SQLite's
  order, the permission service (None when it is not wired), the controller instance that owns leases
  (None without ownership), the messages of a \<open>ZodError\<close> of the result schema, of SQLite and of a refused
  admission request, the path of Node and the two test harnesses of the process environment.
\<close>

record 'w swarm_env =
  se_wt :: "'w wt_env"
  se_coll :: "ident \<Rightarrow> int"
  se_rank :: "ident \<Rightarrow> int"
  se_policy :: "(ident \<Rightarrow> bool) option"
  se_owner :: "ident option"
  se_zodMessage :: "packet_result \<Rightarrow> string"
  se_sqlMessage :: string
  se_admitMessage :: string
  se_node :: string
  se_testHarness :: "string option"
  se_swarmHarness :: "string option"

abbreviation se_host :: "'w swarm_env \<Rightarrow> 'w host" where
  "se_host en \<equiv> we_host (se_wt en)"

text \<open>A host operation of the world alone.\<close>

definition on_world :: "('w \<Rightarrow> 'a \<times> 'w) \<Rightarrow> 'w swarm \<Rightarrow> 'a \<times> 'w swarm" where
  "on_world f s = (case f (sm_world s) of (x, w) \<Rightarrow> (x, s\<lparr>sm_world := w\<rparr>))"

definition repo_get :: "ident \<Rightarrow> repository list \<Rightarrow> repository option" where
  "repo_get i t = tbl_get ry_id i t"

text \<open>\<open>publish\<close>: to the bus, then to the strategy's own hook; errors of either are swallowed.\<close>

definition sm_publish :: "'w swarm_env \<Rightarrow> time \<Rightarrow> hooks option \<Rightarrow> strategy_event \<Rightarrow> 'w swarm \<Rightarrow> 'w swarm" where
  "sm_publish en now hk ev s = (let s1 = s\<lparr>sm_events := sm_events s @ [ev]\<rparr> in
     (case Option.bind hk hk_dag of None \<Rightarrow> s1
      | Some _ \<Rightarrow> (case applyEvent (se_rank en) now (ev_strategy ev) ev (sm_strategies s1, sm_nodes s1) of
          (ss, ns) \<Rightarrow> s1\<lparr>sm_strategies := ss, sm_nodes := ns\<rparr>)))"

definition sm_notify :: "hooks option \<Rightarrow> strategy_run \<Rightarrow> 'w swarm \<Rightarrow> 'w swarm" where
  "sm_notify hk rec s = (if (case hk of None \<Rightarrow> False | Some k \<Rightarrow> hk_completed k)
     then s\<lparr>sm_completed := sm_completed s @ [rec]\<rparr> else s)"

definition sm_update :: "ident \<Rightarrow> strategy_patch \<Rightarrow> time \<Rightarrow> 'w swarm \<Rightarrow> strategy_run option \<times> 'w swarm" where
  "sm_update i p now s = (case strategy_update i p now (sm_strategies s) of (x, t) \<Rightarrow> (x, s\<lparr>sm_strategies := t\<rparr>))"

definition sm_packetStatus :: "ident \<Rightarrow> packet_status \<Rightarrow> time \<Rightarrow> 'w swarm \<Rightarrow> 'w swarm" where
  "sm_packetStatus i st now s = s\<lparr>sm_db := snd (packet_updateStatus i st now (sm_db s))\<rparr>"

definition error_message :: "'w swarm_env \<Rightarrow> packet_result \<Rightarrow> packet_error \<Rightarrow> string" where
  "error_message en x e = (case e of PE_zod \<Rightarrow> se_zodMessage en x | PE_invalid m \<Rightarrow> m | PE_sqlite \<Rightarrow> se_sqlMessage en)"

definition sm_record ::
    "'w swarm_env \<Rightarrow> time \<Rightarrow> ident \<Rightarrow> work_packet \<Rightarrow> packet_result \<Rightarrow> 'w swarm \<Rightarrow> string + packet_result \<times> 'w swarm" where
  "sm_record en now repo p x s = (case recordResult now repo p x (sm_db s) of
       Inl e \<Rightarrow> Inl (error_message en x e)
     | Inr (y, db) \<Rightarrow> Inr (y, s\<lparr>sm_db := db\<rparr>))"

definition request_id :: "ident \<Rightarrow> ident \<Rightarrow> ident" where
  "request_id sid pid = sid @ '':'' @ pid"

definition sm_releaseRequest :: "ident \<Rightarrow> time \<Rightarrow> 'w swarm \<Rightarrow> 'w swarm" where
  "sm_releaseRequest rid now s = s\<lparr>sm_sched := snd (Scheduler.release rid now (sm_sched s))\<rparr>"

definition control_state_of :: "ident \<Rightarrow> 'w swarm \<Rightarrow> control_state" where
  "control_state_of sid s = (case strategy_get sid (sm_strategies s) of None \<Rightarrow> CS_NONE | Some r \<Rightarrow> sr_control r)"

section \<open>The strategy base\<close>

definition currentMainSha :: "'w swarm_env \<Rightarrow> repository \<Rightarrow> 'w swarm \<Rightarrow> string option \<times> 'w swarm" where
  "currentMainSha en r = on_world (getCurrentSha (se_host en) (gitContext r (ry_localPath r)))"

definition valid_base :: "strategy_run \<Rightarrow> string option" where
  "valid_base rec = (case sr_base rec of Some b \<Rightarrow> if isSha40 b then Some b else None | None \<Rightarrow> None)"

definition resolveStrategyBase ::
    "'w swarm_env \<Rightarrow> time \<Rightarrow> repository \<Rightarrow> strategy_run \<Rightarrow> 'w swarm \<Rightarrow> string option \<times> 'w swarm" where
  "resolveStrategyBase en now r rec s = (case valid_base rec of Some b \<Rightarrow> (Some b, s)
     | None \<Rightarrow> (case currentMainSha en r s of (captured, s1) \<Rightarrow>
         (captured, if truthy captured \<and> \<not> truthy (sr_base rec)
            then snd (sm_update (sr_id rec) (no_patch\<lparr>sp_base := Some captured\<rparr>) now s1) else s1)))"

section \<open>Dependency commits\<close>

text \<open>The breadth-first walk of \<open>transitiveDependencyCommits\<close>: the dependencies in the order they are first met.\<close>

definition packet_depends :: "work_packet list \<Rightarrow> ident \<Rightarrow> ident list" where
  "packet_depends ps d = deps_of (packet_graph ps) d"

function (sequential) dependency_walk :: "work_packet list \<Rightarrow> ident list \<Rightarrow> ident list \<Rightarrow> ident list" where
  "dependency_walk ps seen [] = []"
| "dependency_walk ps seen (d # queue) = (if d \<in> set seen then dependency_walk ps seen queue
     else d # dependency_walk ps (d # seen) (queue @ packet_depends ps d))"
  by pat_completeness auto
termination
proof (relation "measures [\<lambda>(ps, seen, q). card ((set q \<union> set (concat (map wp_depends ps))) - set seen), \<lambda>(ps, seen, q). length q]",
    goal_cases)
  case (2 ps seen d queue)
  let ?U = "set (concat (map wp_depends ps))"
  have "card ((set queue \<union> ?U) - set seen) \<le> card ((set (d # queue) \<union> ?U) - set seen)" by (rule card_mono) auto
  then show ?case by (auto simp: le_less)
next
  case (3 ps seen d queue)
  let ?U = "set (concat (map wp_depends ps))"
  have "set (packet_depends ps d) \<subseteq> ?U"
    by (cases "map_of (packet_graph ps) d") (auto simp: packet_depends_def deps_of_def packet_graph_def dest!: map_of_SomeD)
  then have "(set (queue @ packet_depends ps d) \<union> ?U) - set (d # seen) \<subset> (set (d # queue) \<union> ?U) - set seen"
    using 3 by auto
  then have "card ((set (queue @ packet_depends ps d) \<union> ?U) - set (d # seen)) < card ((set (d # queue) \<union> ?U) - set seen)"
    by (rule psubset_card_mono [rotated]) simp
  then show ?case by simp
qed simp

definition result_or_stored :: "result_map \<Rightarrow> packet_db \<Rightarrow> ident \<Rightarrow> packet_result option" where
  "result_or_stored results db i = coalesce (map_of results i) (getResult i db)"

definition accepted_commit :: "packet_result \<Rightarrow> (time \<times> string) option" where
  "accepted_commit x = (case Option.bind (re_worktree x) pv_commit of None \<Rightarrow> None
     | Some sha \<Rightarrow> if re_status x = RS_COMPLETED \<and> sha \<noteq> [] then Some (re_created x, sha) else None)"

definition transitiveDependencyCommits :: "work_packet \<Rightarrow> work_packet list \<Rightarrow> result_map \<Rightarrow> packet_db \<Rightarrow> string list" where
  "transitiveDependencyCommits p ps results db =
     map snd (sort_key fst (List.map_filter (\<lambda>i. Option.bind (result_or_stored results db i) accepted_commit)
       (dependency_walk ps [] (wp_depends p))))"

section \<open>Staging\<close>

definition ensureStagingCheckout ::
    "'w swarm_env \<Rightarrow> repository \<Rightarrow> strategy_run \<Rightarrow> 'w swarm \<Rightarrow> (string + staging) \<times> 'w swarm" where
  "ensureStagingCheckout en r rec s = (case map_of (sm_stagings s) (sr_id rec) of
       Some sg \<Rightarrow> (Inr sg, s)
     | None \<Rightarrow> (case (case valid_base rec of Some b \<Rightarrow> (Some b, s) | None \<Rightarrow> currentMainSha en r s) of
          (base, s1) \<Rightarrow>
            if \<not> truthy base then (Inl ''Cannot resolve an immutable base for the staging checkout.'', s1)
            else (case on_world (ensureStaging (se_wt en) r (sr_id rec) (sr_run rec) (the base)) s1 of
                (Inl e, s2) \<Rightarrow> (Inl e, s2)
              | (Inr sg, s2) \<Rightarrow> (Inr sg, s2\<lparr>sm_stagings := AList.update (sr_id rec) sg (sm_stagings s2)\<rparr>))))"

definition node_report ::
    "repository \<Rightarrow> time \<Rightarrow> packet_result \<Rightarrow> integration_status \<Rightarrow> ident list \<Rightarrow> string option \<Rightarrow> string option \<Rightarrow> integration_report" where
  "node_report r now x st ids head blocker = \<lparr>ir_repo = ry_id r, ir_run = re_run x, ir_iter = re_iter x, ir_status = st,
     ir_packets = ids, ir_results = [x], ir_commit = head, ir_blocker = blocker, ir_created = now\<rparr>"

definition staged_shas :: "ident \<Rightarrow> 'w swarm \<Rightarrow> string list" where
  "staged_shas sid s = (case map_of (sm_staged s) sid of None \<Rightarrow> [] | Some l \<Rightarrow> l)"

definition stageNodeCommit ::
    "'w swarm_env \<Rightarrow> time \<Rightarrow> repository \<Rightarrow> strategy_run \<Rightarrow> packet_result \<Rightarrow> 'w swarm \<Rightarrow> integration_report \<times> 'w swarm" where
  "stageNodeCommit en now r rec x s =
     (let commit = Option.bind (re_worktree x) pv_commit in
      if \<not> truthy commit
      then (node_report r now x IN_BLOCKED [] None (Some ''Completed result has no worktree branch/commit provenance.''), s)
      else (case ensureStagingCheckout en r rec s of
          (Inl e, s1) \<Rightarrow> (node_report r now x IN_BLOCKED [] None (Some (''STAGING_UNAVAILABLE: '' @ e)), s1)
        | (Inr sg, s1) \<Rightarrow> (case on_world (cherryPickIntoStaging (se_host en) r sg (the commit)) s1 of
             (Inl e, s2) \<Rightarrow> (node_report r now x IN_INTEGRATION_CONFLICT [] None
                (Some (''Git integration failed and was aborted: '' @ e)), s2)
           | (Inr head, s2) \<Rightarrow> (node_report r now x IN_COMPLETED [re_packet x] (Some head) None,
                s2\<lparr>sm_staged := AList.update (sr_id rec) (the commit # staged_shas (sr_id rec) s2) (sm_staged s2)\<rparr>))))"

fun first_by_sha :: "string set \<Rightarrow> (time \<times> string) list \<Rightarrow> (time \<times> string) list" where
  "first_by_sha seen [] = []"
| "first_by_sha seen (c # cs) = (if snd c \<in> seen then first_by_sha seen cs else c # first_by_sha (insert (snd c) seen) cs)"

definition acceptedIterationResultCommits :: "(ident \<Rightarrow> int) \<Rightarrow> strategy_run \<Rightarrow> packet_db \<Rightarrow> (time \<times> string) list" where
  "acceptedIterationResultCommits coll rec db = sort_key fst (sort_key (\<lambda>c. coll (snd c))
     (first_by_sha {} (List.map_filter (\<lambda>x. if re_iter x \<noteq> sr_iter rec then None else accepted_commit x)
        (listResults (sr_run rec) db))))"

fun reconcileStagingLineage ::
    "'w swarm_env \<Rightarrow> repository \<Rightarrow> staging \<Rightarrow> string list \<Rightarrow> (time \<times> string) list \<Rightarrow> 'w swarm \<Rightarrow> string option \<times> 'w swarm" where
  "reconcileStagingLineage en r sg staged [] s = (None, s)"
| "reconcileStagingLineage en r sg staged ((t, sha) # cs) s =
     (if sha \<in> set staged then reconcileStagingLineage en r sg staged cs s
      else (case on_world (isCommitAncestorOfHead (se_host en) r (sg_path sg) sha) s of
          (True, s1) \<Rightarrow> reconcileStagingLineage en r sg staged cs s1
        | (False, s1) \<Rightarrow> (case on_world (cherryPickIntoStaging (se_host en) r sg sha) s1 of
             (Inr _, s2) \<Rightarrow> reconcileStagingLineage en r sg staged cs s2
           | (Inl e, s2) \<Rightarrow> (Some (''LINEAGE_RECONCILIATION_CONFLICT: cherry-pick of previously accepted commit '' @ sha
                @ '' failed and was aborted: '' @ e), s2))))"

record landing =
  la_status :: integration_status
  la_commit :: "string option"
  la_blocker :: "string option"

definition not_landed :: "integration_status \<Rightarrow> string \<Rightarrow> landing option" where
  "not_landed st blocker = Some \<lparr>la_status = st, la_commit = None, la_blocker = Some blocker\<rparr>"

definition landed :: "string \<Rightarrow> landing option" where
  "landed head = Some \<lparr>la_status = IN_COMPLETED, la_commit = Some head, la_blocker = None\<rparr>"

definition forget_checkout :: "'w swarm_env \<Rightarrow> repository \<Rightarrow> staging \<Rightarrow> 'w swarm \<Rightarrow> 'w swarm" where
  "forget_checkout en r sg s = s\<lparr>sm_world := removeStagingWorktree (se_host en) r sg (sm_world s)\<rparr>"

text \<open>The merge of a reconciled lineage: fast forward, or rebase and fast forward.\<close>

definition merge_lineage :: "'w swarm_env \<Rightarrow> repository \<Rightarrow> staging \<Rightarrow> 'w swarm \<Rightarrow> landing option \<times> 'w swarm" where
  "merge_lineage en r sg s = (case on_world (mergeFastForwardIntoMain (se_host en) r (sg_branch sg)) s of
       (Inr head, s1) \<Rightarrow> (landed head, forget_checkout en r sg s1)
     | (Inl _, s1) \<Rightarrow> (case on_world (rebaseStagingOntoMain (se_host en) r sg) s1 of
          (Some e, s2) \<Rightarrow> (not_landed IN_INTEGRATION_CONFLICT
             (''FINAL_INTEGRATION_CONFLICT: cannot fast-forward or rebase the staging lineage onto main. '' @ e), s2)
        | (None, s2) \<Rightarrow> (case on_world (mergeFastForwardIntoMain (se_host en) r (sg_branch sg)) s2 of
             (Inl e, s3) \<Rightarrow> (not_landed IN_BLOCKED
                (''FINAL_INTEGRATION_FAILED: staging rebased onto main but the fast-forward failed. '' @ e), s3)
           | (Inr head, s3) \<Rightarrow> (landed head, forget_checkout en r sg s3))))"

definition landStagingLineage ::
    "'w swarm_env \<Rightarrow> repository \<Rightarrow> strategy_run \<Rightarrow> 'w swarm \<Rightarrow> landing option \<times> 'w swarm" where
  "landStagingLineage en r rec s =
     (let commits = acceptedIterationResultCommits (se_coll en) rec (sm_db s) in
      if commits = [] then (None, s)
      else (case on_world (getWorkingTreeStatus (se_host en) (gitContext r (ry_localPath r))) s of
          (Inl e, s1) \<Rightarrow> (not_landed IN_BLOCKED (''MAIN_STATUS_UNAVAILABLE: '' @ e), s1)
        | (Inr st, s1) \<Rightarrow>
            if js_trim st \<noteq> []
            then (not_landed IN_BLOCKED
              ''FINAL_INTEGRATION_DIRTY_MAIN: persistent main checkout is dirty; the staging lineage was not merged.'', s1)
            else (case ensureStagingCheckout en r rec s1 of
                (Inl e, s2) \<Rightarrow> (not_landed IN_BLOCKED (''STAGING_UNAVAILABLE: '' @ e), s2)
              | (Inr sg, s2) \<Rightarrow> (case reconcileStagingLineage en r sg (staged_shas (sr_id rec) s2) commits s2 of
                   (Some e, s3) \<Rightarrow> (not_landed IN_INTEGRATION_CONFLICT e, s3)
                 | (None, s3) \<Rightarrow> merge_lineage en r sg s3))))"

end
