(* ===== verification/Swarm_Engine.thy ===== *)
theory Swarm_Engine
  imports Swarm_State
begin

text \<open>
  \<open>SwarmExecutionService.executeRecord\<close>: the loop that runs the packets of one strategy, the
  workers it launches and the report it ends with. A \<open>job\<close> is one activation of \<open>executeRecord\<close>: its local
  variables with the place it is at (\<open>exec\<close>), and the state of the service. What runs between two
  \<open>await\<close>s is one step or several; the source cannot be interrupted between packets that are only
  considered, so the model has more interleavings than the code. Host operations of an awaited call
  are one step. Messages of errors that the source cannot meet (a packet that is not of the strategy) are
  a fixed text.
\<close>

section \<open>State\<close>

datatype phase = W_running | W_result packet_result | W_staging packet_result | W_failed string | W_rejected

record worker =
  wk_packet :: work_packet
  wk_request :: ident
  wk_tree :: worktree
  wk_runner :: "runner option"
  wk_attempt :: "ident option"
  wk_hookOk :: bool
  wk_phase :: phase

datatype pc = PC_begin | PC_top | PC_scan "work_packet list" bool
  | PC_allocate work_packet "work_packet list" bool "string list"
  | PC_killing | PC_wait bool | PC_race "ident list" | PC_delay
  | PC_pausing | PC_final | PC_integrate "ident list" "packet_result list"
  | PC_staging strategy_status "string option" execution_report
  | PC_release strategy_status "string option" execution_report "ident list"
  | PC_end

record exec =
  ex_rec :: strategy_run
  ex_repo :: repository
  ex_run :: run
  ex_packets :: "work_packet list"
  ex_hooks :: hooks
  ex_started :: time
  ex_pc :: pc
  ex_pending :: "ident list"
  ex_results :: result_map
  ex_workers :: "(ident \<times> worker) list"
  ex_queued :: "ident list"
  ex_idle :: nat
  ex_base :: "string option"

type_synonym 'w job = "exec \<times> 'w swarm"

section \<open>Actions\<close>

definition raise :: "string \<Rightarrow> ('w job, 'a) act" where
  "raise m j = (Inl m, j)"

definition on_exec :: "(exec \<Rightarrow> exec) \<Rightarrow> ('w job, unit) act" where
  "on_exec f = (\<lambda>(e, s). (Inr (), f e, s))"

definition on_swarm :: "('w swarm \<Rightarrow> 'w swarm) \<Rightarrow> ('w job, unit) act" where
  "on_swarm f = (\<lambda>(e, s). (Inr (), e, f s))"

definition with_job :: "(exec \<Rightarrow> 'w swarm \<Rightarrow> ('w job, 'a) act) \<Rightarrow> ('w job, 'a) act" where
  "with_job f = (\<lambda>(e, s). f e s (e, s))"

abbreviation goto :: "pc \<Rightarrow> ('w job, unit) act" where
  "goto p \<equiv> on_exec (ex_pc_update (\<lambda>_. p))"

definition job_event :: "exec \<Rightarrow> event_kind \<Rightarrow> time \<Rightarrow> strategy_event" where
  "job_event e k now = mk_event k now (ry_id (ex_repo e)) (sr_id (ex_rec e))"

definition emit :: "'w swarm_env \<Rightarrow> time \<Rightarrow> (exec \<Rightarrow> strategy_event) \<Rightarrow> ('w job, unit) act" where
  "emit en now ev = (\<lambda>(e, s). (Inr (), e, sm_publish en now (Some (ex_hooks e)) (ev e) s))"

definition record_result :: "'w swarm_env \<Rightarrow> time \<Rightarrow> work_packet \<Rightarrow> packet_result \<Rightarrow> ('w job, packet_result) act" where
  "record_result en now p x = (\<lambda>(e, s). case sm_record en now (ry_id (ex_repo e)) p x s of
       Inl m \<Rightarrow> (Inl m, e, s) | Inr (y, s1) \<Rightarrow> (Inr y, e, s1))"

text \<open>\<open>results.set(id, recordResult(...)); pending.delete(id)\<close> with a synthetic result.\<close>

definition settle :: "'w swarm_env \<Rightarrow> time \<Rightarrow> result_status \<Rightarrow> string \<Rightarrow> work_packet \<Rightarrow> ('w job, unit) act" where
  "settle en now st blocker p = act_bind (record_result en now p (syntheticResult now p st blocker None))
     (\<lambda>y. on_exec (\<lambda>e. e\<lparr>ex_results := AList.update (wp_id p) y (ex_results e), ex_pending := removeAll (wp_id p) (ex_pending e)\<rparr>))"

fun settle_all :: "'w swarm_env \<Rightarrow> time \<Rightarrow> result_status \<Rightarrow> string \<Rightarrow> ident list \<Rightarrow> ('w job, unit) act" where
  "settle_all en now st blocker [] = act_return ()"
| "settle_all en now st blocker (i # ids) = with_job (\<lambda>e s. case tbl_get wp_id i (ex_packets e) of
       None \<Rightarrow> raise ''Cannot read properties of undefined''
     | Some p \<Rightarrow> act_bind (settle en now st blocker p) (\<lambda>_. settle_all en now st blocker ids))"

text \<open>\<open>runner?.kill()\<close> or \<open>runner?.pause()\<close> of every worker.\<close>

definition signal :: "(runner \<Rightarrow> runner) \<Rightarrow> exec \<Rightarrow> exec" where
  "signal f e = e\<lparr>ex_workers := map (\<lambda>(i, w). (i, w\<lparr>wk_runner := map_option f (wk_runner w)\<rparr>)) (ex_workers e)\<rparr>"

section \<open>Start of the loop\<close>

definition js_set :: "'a list \<Rightarrow> 'a list" where
  "js_set xs = rev (remdups (rev xs))"

definition completed_before :: "packet_db \<Rightarrow> work_packet \<Rightarrow> packet_result option" where
  "completed_before db p = (case getResult (wp_id p) db of None \<Rightarrow> None
     | Some x \<Rightarrow> if re_status x = RS_COMPLETED then Some x else None)"

definition exec_start ::
    "'w swarm_env \<Rightarrow> time \<Rightarrow> strategy_run \<Rightarrow> repository \<Rightarrow> run \<Rightarrow> work_packet list \<Rightarrow> hooks \<Rightarrow> 'w swarm \<Rightarrow> 'w job" where
  "exec_start en now rec r ru packets hk s =
     (let s1 = s\<lparr>sm_hooks := AList.update (sr_id rec) hk (sm_hooks s)\<rparr>;
          s2 = snd (sm_update (sr_id rec) (no_patch\<lparr>sp_status := Some SS_RUNNING, sp_started := Some (Some now),
                 sp_control := Some CS_NONE, sp_error := Some None\<rparr>) now s1);
          s3 = sm_publish en now (Some hk) (mk_event EV_started now (ry_id r) (sr_id rec)) s2;
          known = List.map_filter (\<lambda>p. map_option (\<lambda>x. (wp_id p, x)) (completed_before (sm_db s3) p)) packets
      in (\<lparr>ex_rec = rec, ex_repo = r, ex_run = ru, ex_packets = packets, ex_hooks = hk, ex_started = now, ex_pc = PC_begin,
           ex_pending = filter (\<lambda>i. i \<notin> set (map fst known)) (js_set (map wp_id packets)),
           ex_results = fold (\<lambda>(i, x). AList.update i x) known [], ex_workers = [], ex_queued = [], ex_idle = 0,
           ex_base = None\<rparr>, s3))"

definition exec_begin :: "'w swarm_env \<Rightarrow> time \<Rightarrow> ('w job, unit) act" where
  "exec_begin en now = (\<lambda>(e, s). case resolveStrategyBase en now (ex_repo e) (ex_rec e) s of
     (b, s1) \<Rightarrow> (Inr (), e\<lparr>ex_base := b, ex_rec := (if truthy b \<and> \<not> truthy (sr_base (ex_rec e)) then (ex_rec e)\<lparr>sr_base := b\<rparr> else ex_rec e),
        ex_pc := PC_top\<rparr>, s1))"

definition exec_top :: "'w swarm_env \<Rightarrow> time \<Rightarrow> ('w job, unit) act" where
  "exec_top en now = with_job (\<lambda>e s.
     if ex_pending e = [] \<and> ex_workers e = [] then goto PC_final
     else (case control_state_of (sr_id (ex_rec e)) s of
         PAUSE_REQUESTED \<Rightarrow> on_exec (\<lambda>e. (signal runner_pause e)\<lparr>ex_pc := PC_pausing\<rparr>)
       | KILL_REQUESTED \<Rightarrow> act_bind (settle_all en now RS_CANCELLED ''EMERGENCY_KILLED: swarm worker was not started.'' (ex_pending e))
           (\<lambda>_. on_exec (\<lambda>e. (signal runner_kill e)\<lparr>ex_pc := PC_killing\<rparr>))
       | STOP_REQUESTED \<Rightarrow> act_bind (settle_all en now RS_CANCELLED ''USER_STOP: swarm worker was not started.'' (ex_pending e))
           (\<lambda>_. goto (PC_wait False))
       | CS_NONE \<Rightarrow> goto (PC_scan (sort_key (\<lambda>p. se_coll en (wp_id p))
           (filter (\<lambda>p. wp_id p \<in> set (ex_pending e)) (ex_packets e))) False)))"

section \<open>One packet of a scan\<close>

definition admission_of :: "exec \<Rightarrow> work_packet \<Rightarrow> admission_request" where
  "admission_of e p = \<lparr>rq_id = request_id (sr_id (ex_rec e)) (wp_id p), rq_repo = ry_id (ex_repo e),
     rq_run = Some (ru_id (ex_run e)), rq_iteration = Some (ru_iter (ex_run e)), rq_executor = pe_cli (wp_executor p),
     rq_provider = pe_provider (wp_executor p), rq_model = pe_model (wp_executor p), rq_kind = SUBAGENT,
     rq_tokens = bg_tokens (wp_budget p), rq_spend = bg_spend (wp_budget p), rq_cpu = None, rq_memory = None,
     rq_requestedAt = None\<rparr>"

definition outcome_text :: "perm_outcome \<Rightarrow> string" where
  "outcome_text oc = (case oc of ALLOW \<Rightarrow> ''ALLOW'' | ALLOW_ONCE \<Rightarrow> ''ALLOW_ONCE'' | ASK \<Rightarrow> ''ASK'' | DENY \<Rightarrow> ''DENY'')"

definition refuse_packet :: "'w swarm_env \<Rightarrow> time \<Rightarrow> perm_outcome \<Rightarrow> work_packet \<Rightarrow> ('w job, unit) act" where
  "refuse_packet en now oc p =
     act_bind (on_swarm (sm_packetStatus (wp_id p) PK_WAITING_PERMISSION now)) (\<lambda>_.
     act_bind (emit en now (\<lambda>e. (job_event e EV_permission_required now)\<lparr>ev_packet := Some (wp_id p),
        ev_reason := Some ''Repository file write policy requires an actionable permission decision.''\<rparr>)) (\<lambda>_.
     settle en now RS_BLOCKED (''PERMISSION_'' @ outcome_text oc @ '': repository file write policy requires attention.'') p))"

text \<open>The commits a DAG node starts from besides its base; a swarm packet has none.\<close>

definition inputs_for :: "exec \<Rightarrow> 'w swarm \<Rightarrow> work_packet \<Rightarrow> string list" where
  "inputs_for e s p = (if sr_strategy (ex_rec e) = DAG
     then transitiveDependencyCommits p (ex_packets e) (ex_results e) (sm_db s) else [])"

definition not_admitted :: "'w swarm_env \<Rightarrow> time \<Rightarrow> sched_decision \<Rightarrow> work_packet \<Rightarrow> ('w job, unit) act" where
  "not_admitted en now d p = with_job (\<lambda>e s. let rid = request_id (sr_id (ex_rec e)) (wp_id p) in
     act_bind (if sd_status d = QUEUED \<and> rid \<notin> set (ex_queued e)
        then act_bind (on_exec (\<lambda>e. e\<lparr>ex_queued := ex_queued e @ [rid]\<rparr>)) (\<lambda>_.
          emit en now (\<lambda>e. (job_event e EV_worker_queued now)\<lparr>ev_packet := Some (wp_id p), ev_reason := Some (sd_reason d)\<rparr>))
        else act_return ())
     (\<lambda>_. if sd_status d = REJECTED then settle en now RS_BLOCKED (''SCHEDULER_REJECTED: '' @ sd_reason d) p else act_return ()))"

definition admit_packet ::
    "'w swarm_env \<Rightarrow> time \<Rightarrow> (string \<Rightarrow> ident) \<Rightarrow> work_packet \<Rightarrow> work_packet list \<Rightarrow> bool \<Rightarrow> ('w job, unit) act" where
  "admit_packet en now fresh p rest launched = with_job (\<lambda>e s.
     case admit (fresh ''decision'') now (admission_of e p) (sm_sched s) of
       Inl err \<Rightarrow> raise (case err of ZodError \<Rightarrow> se_admitMessage en | SqliteError \<Rightarrow> se_sqlMessage en)
     | Inr (d, sched) \<Rightarrow> act_bind (on_swarm (sm_sched_update (\<lambda>_. sched))) (\<lambda>_.
         if sd_status d \<noteq> ADMITTED then act_bind (not_admitted en now d p) (\<lambda>_. goto (PC_scan rest launched))
         else act_bind (on_swarm (sm_packetStatus (wp_id p) PK_STARTING now)) (\<lambda>_.
           goto (PC_allocate p rest launched (inputs_for e s p)))))"

definition permit_packet ::
    "'w swarm_env \<Rightarrow> time \<Rightarrow> (string \<Rightarrow> ident) \<Rightarrow> work_packet \<Rightarrow> work_packet list \<Rightarrow> bool \<Rightarrow> ('w job, unit) act" where
  "permit_packet en now fresh p rest launched = with_job (\<lambda>e s.
     case evaluateWritePermission (se_policy en) (fresh ''permission'') now (ry_id (ex_repo e)) (ru_id (ex_run e))
          (ru_iter (ex_run e)) p (sm_perm s) of
       None \<Rightarrow> raise (se_sqlMessage en)
     | Some (oc, perm) \<Rightarrow> act_bind (on_swarm (sm_perm_update (\<lambda>_. perm))) (\<lambda>_.
         if oc = ASK \<or> oc = DENY then act_bind (refuse_packet en now oc p) (\<lambda>_. goto (PC_scan rest launched))
         else admit_packet en now fresh p rest launched))"

definition consider_packet ::
    "'w swarm_env \<Rightarrow> time \<Rightarrow> (string \<Rightarrow> ident) \<Rightarrow> work_packet \<Rightarrow> work_packet list \<Rightarrow> bool \<Rightarrow> ('w job, unit) act" where
  "consider_packet en now fresh p rest launched = with_job (\<lambda>e s.
     if sr_maxConcurrency (ex_rec e) \<le> int (length (ex_workers e)) then goto (PC_wait launched)
     else if list_ex (\<lambda>d. d \<in> set (ex_pending e)) (wp_depends p) then goto (PC_scan rest launched)
     else (let deps = map (result_or_stored (ex_results e) (sm_db s)) (wp_depends p) in
       if list_ex (\<lambda>x. case x of None \<Rightarrow> False | Some y \<Rightarrow> re_status y \<noteq> RS_COMPLETED) deps
       then act_bind (settle en now RS_SKIPPED_DEPENDENCY ''A dependency did not complete successfully.'' p)
              (\<lambda>_. goto (PC_scan rest launched))
       else if None \<in> set deps then goto (PC_scan rest launched)
       else permit_packet en now fresh p rest launched))"

section \<open>Allocation and launch\<close>

definition allocation_failed :: "'w swarm_env \<Rightarrow> time \<Rightarrow> string \<Rightarrow> work_packet \<Rightarrow> ('w job, unit) act" where
  "allocation_failed en now m p = with_job (\<lambda>e s.
     act_bind (on_swarm (sm_releaseRequest (request_id (sr_id (ex_rec e)) (wp_id p)) now)) (\<lambda>_.
     settle en now RS_BLOCKED (if starts_with m ''DEPENDENCY_REPLAY_FAILED'' then m else ''WORKTREE_ALLOCATION_FAILED: '' @ m) p))"

text \<open>The synchronous part of \<open>runWorker\<close>: an invocation that cannot be built is a rejected worker.\<close>

definition first_phase :: "'w swarm_env \<Rightarrow> exec \<Rightarrow> work_packet \<Rightarrow> phase \<times> runner option" where
  "first_phase en e p = (case buildExecutorInvocation (se_node en) (se_testHarness en) (se_swarmHarness en)
        (resolveProfile (pe_cli (wp_executor p)))
        \<lparr>ip_cli = pe_cli (wp_executor p), ip_model = pe_model (wp_executor p), ip_prompt = buildWorkerPrompt p, ip_env = ry_env (ex_repo e)\<rparr> of
       Inl m \<Rightarrow> (W_failed m, None) | Inr _ \<Rightarrow> (W_running, Some (runner_step (bg_runtimeMs (wp_budget p)) (se_owner en \<noteq> None) Start new_runner)))"

definition launch :: "'w swarm_env \<Rightarrow> time \<Rightarrow> work_packet \<Rightarrow> worktree \<Rightarrow> work_packet list \<Rightarrow> ('w job, unit) act" where
  "launch en now p wt rest = act_bind (on_exec (\<lambda>e. case first_phase en e p of (ph, rn) \<Rightarrow>
        e\<lparr>ex_pending := removeAll (wp_id p) (ex_pending e),
          ex_workers := AList.update (wp_id p) \<lparr>wk_packet = p, wk_request = request_id (sr_id (ex_rec e)) (wp_id p), wk_tree = wt,
            wk_runner = rn, wk_attempt = None, wk_hookOk = True, wk_phase = ph\<rparr> (ex_workers e),
          ex_pc := PC_scan rest True\<rparr>))
     (\<lambda>_. emit en now (\<lambda>e. (job_event e EV_worker_started now)\<lparr>ev_packet := Some (wp_id p)\<rparr>))"

definition hook_allocated :: "time \<Rightarrow> exec \<Rightarrow> ident \<Rightarrow> string \<Rightarrow> string list \<Rightarrow> 'w swarm \<Rightarrow> 'w swarm" where
  "hook_allocated now e pid base inputs s = (case hk_dag (ex_hooks e) of None \<Rightarrow> s
     | Some c \<Rightarrow> s\<lparr>sm_nodes := onNodeAllocated c (sr_id (ex_rec e)) now pid base inputs (sm_nodes s)\<rparr>)"

definition replay_for :: "'w swarm_env \<Rightarrow> exec \<Rightarrow> string list \<Rightarrow> (string \<Rightarrow> 'w \<Rightarrow> (string + string) \<times> 'w) option" where
  "replay_for en e inputs = (if inputs = [] then None
     else Some (\<lambda>path. replayCommits (se_host en) (ex_repo e) path [] inputs))"

definition exec_allocate ::
    "'w swarm_env \<Rightarrow> time \<Rightarrow> (string \<Rightarrow> ident) \<Rightarrow> work_packet \<Rightarrow> work_packet list \<Rightarrow> bool \<Rightarrow> string list \<Rightarrow> ('w job, unit) act" where
  "exec_allocate en now fresh p rest launched inputs = (\<lambda>(e, s).
     case allocate (se_wt en) (fresh ''worktree'') now (ex_repo e) p (ex_base e) (replay_for en e inputs) (sm_db s, sm_world s) of
       (Inl m, db, w) \<Rightarrow> act_bind (allocation_failed en now m p) (\<lambda>_. goto (PC_scan rest launched))
          (e, s\<lparr>sm_db := db, sm_world := w\<rparr>)
     | (Inr wt, db, w) \<Rightarrow>
         (let db1 = (if inputs = [] then db else snd (updateWorktree (wt_id wt) (no_worktree_patch\<lparr>wu_inputs := Some inputs\<rparr>) db));
              s1 = hook_allocated now e (wp_id p) (wt_base wt) inputs (s\<lparr>sm_db := db1, sm_world := w\<rparr>)
          in launch en now p wt rest (e, sm_packetStatus (wp_id p) PK_RUNNING now s1)))"

section \<open>After a scan\<close>

definition exec_wait :: "'w swarm_env \<Rightarrow> time \<Rightarrow> bool \<Rightarrow> ('w job, unit) act" where
  "exec_wait en now launched = with_job (\<lambda>e s.
     if ex_workers e \<noteq> [] then on_exec (\<lambda>e. e\<lparr>ex_idle := 0, ex_pc := PC_race (map fst (ex_workers e))\<rparr>)
     else if ex_pending e \<noteq> [] \<and> \<not> launched
     then act_bind (on_exec (\<lambda>e. e\<lparr>ex_idle := ex_idle e + 1\<rparr>)) (\<lambda>_.
       if 600 < ex_idle e + 1
       then act_bind (settle_all en now RS_BLOCKED ''SCHEDULER_WAIT_TIMEOUT: packet did not become runnable.'' (ex_pending e))
              (\<lambda>_. goto PC_top)
       else goto PC_delay)
     else goto PC_top)"

section \<open>Workers\<close>

definition set_worker :: "ident \<Rightarrow> (worker \<Rightarrow> worker) \<Rightarrow> exec \<Rightarrow> exec" where
  "set_worker i f e = e\<lparr>ex_workers := map (\<lambda>(j, w). (j, if j = i then f w else w)) (ex_workers e)\<rparr>"

abbreviation set_phase :: "ident \<Rightarrow> phase \<Rightarrow> exec \<Rightarrow> exec" where
  "set_phase i ph \<equiv> set_worker i (wk_phase_update (\<lambda>_. ph))"

text \<open>\<open>onSpawn\<close>: the process record of the child. Without it the child is killed (outside) and the lease quarantined.\<close>

record spawn_evidence =
  sv_pid :: int
  sv_exe :: "string option"
  sv_marker :: "string option"

definition proc_of_worker :: "time \<Rightarrow> ident \<Rightarrow> ident \<Rightarrow> exec \<Rightarrow> work_packet \<Rightarrow> spawn_evidence \<Rightarrow> proc_record" where
  "proc_of_worker now owner aid e p v = \<lparr>pr_id = aid, pr_instance = owner, pr_repo = ry_id (ex_repo e),
     pr_run = Some (sr_run (ex_rec e)), pr_iteration = Some (sr_iter (ex_rec e)), pr_actor = Some (sr_id (ex_rec e)),
     pr_packet = Some (wp_id p), pr_kind = (if sr_strategy (ex_rec e) = DAG then DAG_WORKER else SWARM_WORKER),
     pr_pid = sv_pid v, pr_exe = sv_exe v, pr_marker = sv_marker v, pr_state = O_RUNNING, pr_created = now, pr_updated = now,
     pr_error = None\<rparr>"

definition worker_spawned ::
    "'w swarm_env \<Rightarrow> time \<Rightarrow> ident \<Rightarrow> spawn_evidence \<Rightarrow> exec \<Rightarrow> worker \<Rightarrow> 'w swarm \<Rightarrow> worker \<times> 'w swarm" where
  "worker_spawned en now aid v e wk s = (case se_owner en of None \<Rightarrow> (wk, s)
     | Some owner \<Rightarrow> (case proc_insert (proc_of_worker now owner aid e (wk_packet wk) v) (sm_own s) of
          Some own \<Rightarrow> (wk\<lparr>wk_attempt := Some aid\<rparr>, s\<lparr>sm_own := own\<rparr>)
        | None \<Rightarrow> (wk\<lparr>wk_attempt := Some aid, wk_hookOk := False\<rparr>,
            s\<lparr>sm_own := quarantine (ry_id (ex_repo e)) (''worker ownership persistence failed: '' @ se_sqlMessage en) now (sm_own s)\<rparr>)))"

definition exit_state :: "exit_details \<Rightarrow> own_proc_state" where
  "exit_state d = (if xd_wasKilled d \<or> xd_reason d = EMERGENCY_KILLED then O_KILL_CONFIRMED else O_EXITED)"

definition worker_exited :: "'w swarm_env \<Rightarrow> time \<Rightarrow> exit_details \<Rightarrow> worker \<Rightarrow> 'w swarm \<Rightarrow> 'w swarm" where
  "worker_exited en now d wk s = (case (se_owner en, wk_attempt wk) of
       (Some _, Some i) \<Rightarrow> s\<lparr>sm_own := proc_setState i (exit_state d) None now (sm_own s)\<rparr> | _ \<Rightarrow> s)"

text \<open>An event at the child process of a worker, with what \<open>onSpawn\<close> and \<open>onExit\<close> write at once.\<close>

definition runner_moves ::
    "'w swarm_env \<Rightarrow> time \<Rightarrow> ident \<Rightarrow> spawn_evidence \<Rightarrow> runner_event \<Rightarrow> ident \<Rightarrow> 'w job \<Rightarrow> 'w job" where
  "runner_moves en now aid v ev i = (\<lambda>(e, s). case map_of (ex_workers e) i of None \<Rightarrow> (e, s)
     | Some wk \<Rightarrow> (case wk_runner wk of None \<Rightarrow> (e, s)
        | Some r \<Rightarrow> (let
             ev' = (case ev of Hook_settled _ \<Rightarrow> Hook_settled (wk_hookOk wk) | _ \<Rightarrow> ev);
             r' = runner_step (bg_runtimeMs (wp_budget (wk_packet wk))) (se_owner en \<noteq> None) ev' r;
             (wk1, s1) = (if rn_hookPending r' \<and> \<not> rn_hookPending r then worker_spawned en now aid v e wk s else (wk, s));
             s2 = (if rn_exits r = [] \<and> rn_exits r' \<noteq> [] then worker_exited en now (last (rn_exits r')) wk1 s1 else s1)
           in (set_worker i (\<lambda>_. wk1\<lparr>wk_runner := Some r'\<rparr>) e, s2))))"

text \<open>The exit told to the worker becomes its result; so does a failed start. The first one counts.\<close>

definition worker_returns :: "'w swarm_env \<Rightarrow> time \<Rightarrow> string + ident option \<Rightarrow> ident \<Rightarrow> 'w job \<Rightarrow> 'w job" where
  "worker_returns en now usage i = (\<lambda>(e, s). case map_of (ex_workers e) i of None \<Rightarrow> (e, s)
     | Some wk \<Rightarrow> (case Option.bind (wk_runner wk) (\<lambda>r. first_row (rn_exits r)) of None \<Rightarrow> (e, s)
        | Some d \<Rightarrow> if wk_phase wk \<noteq> W_running then (e, s)
            else (case on_world (worker_outcome (se_host en) now (ex_repo e) (wk_packet wk) (wk_tree wk) usage d) s of
               (x, s1) \<Rightarrow> (set_phase i (W_result x) e, s1))))"

definition worker_unstarted :: "time \<Rightarrow> string \<Rightarrow> ident \<Rightarrow> 'w job \<Rightarrow> 'w job" where
  "worker_unstarted now m i = (\<lambda>(e, s). case map_of (ex_workers e) i of None \<Rightarrow> (e, s)
     | Some wk \<Rightarrow> if wk_phase wk \<noteq> W_running then (e, s)
         else (set_phase i (W_result (start_failed now (wk_packet wk) (wk_tree wk) m)) e, s))"

definition retire_worker :: "time \<Rightarrow> ident \<Rightarrow> worker \<Rightarrow> packet_result \<Rightarrow> 'w job \<Rightarrow> 'w job" where
  "retire_worker now i wk y = (\<lambda>(e, s). (e\<lparr>ex_results := AList.update i y (ex_results e), ex_workers := AList.delete i (ex_workers e)\<rparr>,
     sm_releaseRequest (wk_request wk) now s))"

definition worker_done :: "'w swarm_env \<Rightarrow> time \<Rightarrow> ident \<Rightarrow> worker \<Rightarrow> packet_result \<Rightarrow> 'w job \<Rightarrow> 'w job" where
  "worker_done en now i wk y j = snd (emit en now (\<lambda>e. (job_event e EV_worker_completed (re_created y))\<lparr>ev_packet := Some i,
     ev_result := Some (re_status y), ev_blocker := re_blocker y\<rparr>) (retire_worker now i wk y j))"

definition staged_result :: "worker \<Rightarrow> packet_result \<Rightarrow> integration_report \<Rightarrow> packet_result" where
  "staged_result wk y rep = (let nm = integration_status_name (ir_status rep) in
     y\<lparr>re_status := RS_BLOCKED,
       re_blocker := Some (if ir_status rep = IN_INTEGRATION_CONFLICT then ''INTEGRATION_CONFLICT'' else ''NODE_INTEGRATION_'' @ nm),
       re_risks := re_risks y @ [''node_integration='' @ nm],
       re_summary := ''Worker '' @ wp_workstream (wk_packet wk) @ '' completed but its staging did not ('' @ nm @ '').''\<rparr>)"

definition hook_integrated :: "time \<Rightarrow> exec \<Rightarrow> ident \<Rightarrow> integration_status \<Rightarrow> 'w swarm \<Rightarrow> 'w swarm" where
  "hook_integrated now e pid st s = (case hk_dag (ex_hooks e) of None \<Rightarrow> s
     | Some c \<Rightarrow> s\<lparr>sm_nodes := onNodeIntegrated c (sr_id (ex_rec e)) now pid st (sm_nodes s)\<rparr>)"

definition needs_staging :: "exec \<Rightarrow> packet_result \<Rightarrow> bool" where
  "needs_staging e y \<longleftrightarrow> sr_strategy (ex_rec e) = DAG \<and> re_status y = RS_COMPLETED \<and> truthy (Option.bind (re_worktree y) pv_commit)"

definition stage_worker :: "'w swarm_env \<Rightarrow> time \<Rightarrow> ident \<Rightarrow> worker \<Rightarrow> packet_result \<Rightarrow> 'w job \<Rightarrow> 'w job" where
  "stage_worker en now i wk y = (\<lambda>(e, s). case stageNodeCommit en now (ex_repo e) (ex_rec e) y s of
     (rep, s1) \<Rightarrow> (let s2 = hook_integrated now e i (ir_status rep) s1 in
       if ir_status rep = IN_COMPLETED then worker_done en now i wk y (e, s2)
       else (case record_result en now (wk_packet wk) (staged_result wk y rep) (e, s2) of
           (Inl m, e3, s3) \<Rightarrow> (set_phase i (W_failed m) e3, s3)
         | (Inr z, j) \<Rightarrow> worker_done en now i wk z j)))"

definition worker_turn :: "'w swarm_env \<Rightarrow> time \<Rightarrow> ident \<Rightarrow> 'w job \<Rightarrow> 'w job" where
  "worker_turn en now i = (\<lambda>(e, s). case map_of (ex_workers e) i of None \<Rightarrow> (e, s)
     | Some wk \<Rightarrow> (case wk_phase wk of
         W_result x \<Rightarrow> (case record_result en now (wk_packet wk) x (e, s) of
             (Inl m, e1, s1) \<Rightarrow> (set_phase i (W_failed m) e1, s1)
           | (Inr y, e1, s1) \<Rightarrow> if needs_staging e1 y then (set_phase i (W_staging y) e1, s1) else worker_done en now i wk y (e1, s1))
       | W_staging y \<Rightarrow> stage_worker en now i wk y (e, s)
       | W_failed m \<Rightarrow> (case record_result en now (wk_packet wk) (syntheticResult now (wk_packet wk) RS_FAILED
              (''WORKER_RESULT_FAILED: '' @ m) (Some (provenance_of (wk_tree wk) None))) (e, s) of
             (Inl _, e1, s1) \<Rightarrow> (set_phase i W_rejected e1, s1)
           | (Inr y, j) \<Rightarrow> retire_worker now i wk y j)
       | _ \<Rightarrow> (e, s)))"

section \<open>The end of a strategy\<close>

definition final_results :: "exec \<Rightarrow> packet_db \<Rightarrow> packet_result list" where
  "final_results e db = List.map_filter (\<lambda>p. result_or_stored (ex_results e) db (wp_id p)) (ex_packets e)"

definition report_of ::
    "exec \<Rightarrow> 'w swarm \<Rightarrow> time \<Rightarrow> ident list \<Rightarrow> packet_result list \<Rightarrow> integration_report option \<Rightarrow> strategy_status \<Rightarrow> string option
     \<Rightarrow> execution_report" where
  "report_of e s now controls results integration st blocker = \<lparr>er_strategyRun = sr_id (ex_rec e), er_repo = ry_id (ex_repo e),
     er_run = ru_id (ex_run e), er_iter = ru_iter (ex_run e), er_strategy = (if sr_strategy (ex_rec e) = DAG then DAG else SWARM),
     er_status = st, er_maxConcurrency = sr_maxConcurrency (ex_rec e), er_packets = map wp_id (ex_packets e),
     er_nodeIds = (if sr_strategy (ex_rec e) = DAG then (case hk_dag (ex_hooks e) of None \<Rightarrow> [] | Some c \<Rightarrow> map dn_node (dc_nodes c)) else []),
     er_nodes = [], er_results = (case integration of Some i \<Rightarrow> ir_results i | None \<Rightarrow> results), er_integration = integration,
     er_decisions = map sd_id (filter (\<lambda>d. starts_with (sd_request d) (request_id (sr_id (ex_rec e)) []))
       (ss_listDecisions 1000 (sm_sched s))),
     er_controls = controls, er_blocker = blocker, er_started = ex_started e, er_finished = now\<rparr>"

definition write_report ::
    "time \<Rightarrow> ident list \<Rightarrow> packet_result list \<Rightarrow> integration_report option \<Rightarrow> strategy_status \<Rightarrow> string option \<Rightarrow> ('w job, unit) act" where
  "write_report now controls results integration st blocker =
     with_job (\<lambda>e s. goto (PC_staging st blocker (report_of e s now controls results integration st blocker)))"

text \<open>Reading the control state: a requested control decides, otherwise the results are integrated.\<close>

definition exec_final :: "time \<Rightarrow> ('w job, unit) act" where
  "exec_final now = with_job (\<lambda>e s.
     let sid = sr_id (ex_rec e); controls = map st_controlId (listControls sid (sm_controls s)); results = final_results e (sm_db s) in
     case control_state_of sid s of
       PAUSE_REQUESTED \<Rightarrow> write_report now controls results None SS_PAUSED (Some ''PAUSED: explicit swarm pause requested.'')
     | KILL_REQUESTED \<Rightarrow> write_report now controls results None SS_RECOVERY_REQUIRED (Some ''EMERGENCY_KILLED: explicit swarm kill requested.'')
     | STOP_REQUESTED \<Rightarrow> write_report now controls results None SS_CANCELLED (Some ''USER_STOP: explicit swarm stop requested.'')
     | CS_NONE \<Rightarrow> goto (PC_integrate controls results))"

definition conflicted :: "packet_result \<Rightarrow> bool" where
  "conflicted x \<longleftrightarrow> re_status x = RS_BLOCKED \<and> re_blocker x = Some ''INTEGRATION_CONFLICT''"

definition dag_outcome :: "packet_result list \<Rightarrow> integration_status" where
  "dag_outcome results =
     (if results \<noteq> [] \<and> list_all (\<lambda>x. re_status x = RS_COMPLETED) results then IN_COMPLETED
      else if list_ex conflicted results then IN_INTEGRATION_CONFLICT
      else if list_ex (\<lambda>x. re_status x = RS_FAILED \<or> re_status x = RS_BLOCKED \<and> \<not> conflicted x) results then IN_BLOCKED
      else IN_PARTIAL)"

definition landing_failure :: "landing option \<Rightarrow> landing option" where
  "landing_failure l = (case l of None \<Rightarrow> None | Some x \<Rightarrow> if la_status x = IN_COMPLETED then None else Some x)"

definition dag_integration :: "exec \<Rightarrow> time \<Rightarrow> packet_result list \<Rightarrow> landing option \<Rightarrow> string option \<Rightarrow> integration_report" where
  "dag_integration e now results l head = (let oc = dag_outcome results in
     \<lparr>ir_repo = ry_id (ex_repo e), ir_run = ru_id (ex_run e), ir_iter = ru_iter (ex_run e),
      ir_status = (case landing_failure l of Some x \<Rightarrow> if oc = IN_COMPLETED then la_status x else oc | None \<Rightarrow> oc),
      ir_packets = map re_packet (filter (\<lambda>x. re_status x = RS_COMPLETED) results), ir_results = results, ir_commit = head,
      ir_blocker = (if oc = IN_COMPLETED then Option.bind (landing_failure l) la_blocker
        else Some ''Some DAG nodes did not complete successfully.''), ir_created = now\<rparr>)"

text \<open>The landing of a DAG lineage, with main's head where the landing names none.\<close>

definition land_dag :: "'w swarm_env \<Rightarrow> time \<Rightarrow> packet_result list \<Rightarrow> ('w job, integration_report) act" where
  "land_dag en now results = (\<lambda>(e, s). case landStagingLineage en (ex_repo e) (ex_rec e) s of
     (l, s1) \<Rightarrow> (case Option.bind l la_commit of
         Some (c # cs) \<Rightarrow> (Inr (dag_integration e now results l (Some (c # cs))), e, s1)
       | _ \<Rightarrow> (case currentMainSha en (ex_repo e) s1 of (head, s2) \<Rightarrow> (Inr (dag_integration e now results l head), e, s2))))"

definition integrate_swarm :: "'w swarm_env \<Rightarrow> (string \<Rightarrow> ident) \<Rightarrow> time \<Rightarrow> packet_result list \<Rightarrow> ('w job, integration_report) act" where
  "integrate_swarm en fresh now results = (\<lambda>(e, s).
     case integrate (se_host en) (se_coll en) (fresh ''integration'') now (ex_repo e) (ru_id (ex_run e)) (ru_iter (ex_run e))
            (ex_packets e) results (sm_db s, sm_world s) of
       (None, db, w) \<Rightarrow> (Inl (se_sqlMessage en), e, s\<lparr>sm_db := db, sm_world := w\<rparr>)
     | (Some rep, db, w) \<Rightarrow> (Inr rep, e, s\<lparr>sm_db := db, sm_world := w\<rparr>))"

definition status_of_integration :: "integration_status \<Rightarrow> strategy_status" where
  "status_of_integration st = (if st = IN_COMPLETED then SS_COMPLETED
     else if st = IN_PARTIAL \<or> st = IN_INTEGRATION_CONFLICT then SS_PARTIAL else SS_BLOCKED)"

definition exec_integrate ::
    "'w swarm_env \<Rightarrow> (string \<Rightarrow> ident) \<Rightarrow> time \<Rightarrow> ident list \<Rightarrow> packet_result list \<Rightarrow> ('w job, unit) act" where
  "exec_integrate en fresh now controls results = with_job (\<lambda>e s.
     act_bind (if sr_strategy (ex_rec e) = DAG then land_dag en now results else integrate_swarm en fresh now results) (\<lambda>rep.
     act_bind (emit en now (\<lambda>e. job_event e EV_integration_completed (ir_created rep))) (\<lambda>_.
     write_report now controls results (Some rep) (status_of_integration (ir_status rep)) (ir_blocker rep))))"

text \<open>The worktrees to release: those in use, without those a policy violation keeps.\<close>

definition worktree_to_release :: "exec \<Rightarrow> packet_db \<Rightarrow> work_packet \<Rightarrow> ident option" where
  "worktree_to_release e db p = (case getWorktreeByPacket (wp_id p) db of None \<Rightarrow> None
     | Some wt \<Rightarrow> if wt_status wt \<notin> {WT_ACTIVE, WT_STALE, WT_ALLOCATED} then None
         else if Option.bind (map_of (ex_results e) (wp_id p)) re_blocker = Some ''POLICY_VIOLATION'' then None
         else Some (wt_id wt))"

definition exec_staging :: "'w swarm_env \<Rightarrow> strategy_status \<Rightarrow> string option \<Rightarrow> execution_report \<Rightarrow> ('w job, unit) act" where
  "exec_staging en st blocker rep = with_job (\<lambda>e s.
     if st = SS_PAUSED \<or> st = SS_RECOVERY_REQUIRED then goto (PC_release st blocker rep [])
     else act_bind (on_swarm (\<lambda>s. if sr_strategy (ex_rec e) \<noteq> DAG then s
            else (case map_of (sm_stagings s) (sr_id (ex_rec e)) of None \<Rightarrow> s | Some sg \<Rightarrow> forget_checkout en (ex_repo e) sg s)))
       (\<lambda>_. goto (PC_release st blocker rep (List.map_filter (worktree_to_release e (sm_db s)) (ex_packets e)))))"

definition exec_release ::
    "'w swarm_env \<Rightarrow> time \<Rightarrow> strategy_status \<Rightarrow> string option \<Rightarrow> execution_report \<Rightarrow> ident \<Rightarrow> ident list \<Rightarrow> ('w job, unit) act" where
  "exec_release en now st blocker rep i ids = with_job (\<lambda>e s.
     act_bind (on_swarm (\<lambda>s. case worktree_release (se_wt en) (sm_own s) now (ex_repo e) i (sm_db s, sm_world s) of
         (_, db, w) \<Rightarrow> s\<lparr>sm_db := db, sm_world := w\<rparr>))
       (\<lambda>_. goto (PC_release st blocker rep ids)))"

text \<open>A kill or a stop that came while the strategy was finalized decides its status.\<close>

definition override_status :: "control_state \<Rightarrow> strategy_status \<Rightarrow> string option \<Rightarrow> strategy_status \<times> string option" where
  "override_status c st blocker = (case c of
       KILL_REQUESTED \<Rightarrow> (SS_RECOVERY_REQUIRED, Some ''EMERGENCY_KILLED: kill requested during strategy finalization.'')
     | STOP_REQUESTED \<Rightarrow> (SS_CANCELLED, Some ''USER_STOP: stop requested during strategy finalization.'')
     | _ \<Rightarrow> (st, blocker))"

definition close_lease :: "'w swarm_env \<Rightarrow> time \<Rightarrow> ident \<Rightarrow> ident \<Rightarrow> strategy_status \<Rightarrow> own_state \<Rightarrow> own_state" where
  "close_lease en now repo sid st own = (case se_owner en of None \<Rightarrow> own
     | Some owner \<Rightarrow> if st = SS_PAUSED then own
        else (let procs = proc_listByActor sid own in
          if list_all terminalProcessState procs then Leases.release repo owner now own
          else if st \<noteq> SS_RECOVERY_REQUIRED
          then quarantine repo (''strategy '' @ sid @ '' terminal '' @ strategy_status_name st @ '' but ''
                 @ js_nat (length (filter (\<lambda>p. \<not> terminalProcessState p) procs)) @ '' worker(s) not terminal'') now own
          else own))"

definition exec_store :: "'w swarm_env \<Rightarrow> time \<Rightarrow> strategy_status \<Rightarrow> string option \<Rightarrow> execution_report \<Rightarrow> ('w job, unit) act" where
  "exec_store en now st blocker rep = (\<lambda>(e, s).
     let sid = sr_id (ex_rec e); finished = er_finished rep in
     case override_status (control_state_of sid s) st blocker of (st', blocker') \<Rightarrow>
       (case sm_update sid (no_patch\<lparr>sp_status := Some st', sp_finished := Some (Some finished), sp_report := Some (Some rep),
              sp_error := Some blocker'\<rparr>) now s of
          (final, s1) \<Rightarrow> (let
             s2 = s1\<lparr>sm_own := close_lease en now (ry_id (ex_repo e)) sid st' (sm_own s1)\<rparr>;
             rec' = (case final of Some r \<Rightarrow> r
               | None \<Rightarrow> (ex_rec e)\<lparr>sr_status := st', sr_finished := Some finished, sr_report := Some rep, sr_error := blocker',
                   sr_updated := finished\<rparr>);
             s3 = (if isStrategyTerminal st' then sm_notify (Some (ex_hooks e)) rec' s2 else s2);
             s4 = sm_publish en now (Some (ex_hooks e)) ((job_event e EV_completed finished)\<lparr>ev_status := Some st', ev_blocker := blocker'\<rparr>) s3
           in (Inr (), e\<lparr>ex_pc := PC_end\<rparr>, s4))))"

definition failStrategy :: "'w swarm_env \<Rightarrow> time \<Rightarrow> ident \<Rightarrow> string \<Rightarrow> 'w swarm \<Rightarrow> 'w swarm" where
  "failStrategy en now sid m s = (case strategy_get sid (sm_strategies s) of None \<Rightarrow> s
     | Some _ \<Rightarrow> (let msg = ''STRATEGY_FAILED: '' @ m in
         case sm_update sid (no_patch\<lparr>sp_status := Some SS_FAILED, sp_error := Some (Some msg), sp_finished := Some (Some now)\<rparr>) now s of
           (None, s1) \<Rightarrow> s1\<lparr>sm_hooks := AList.delete sid (sm_hooks s1)\<rparr>
         | (Some next, s1) \<Rightarrow> (let
              s2 = sm_publish en now (map_of (sm_hooks s1) sid) ((mk_event EV_completed now (sr_repo next) sid)
                     \<lparr>ev_status := Some SS_FAILED, ev_reason := Some msg\<rparr>) s1;
              s3 = sm_notify (map_of (sm_hooks s2) sid) next s2
            in s3\<lparr>sm_hooks := AList.delete sid (sm_hooks s3)\<rparr>)))"

text \<open>The \<open>finally\<close> block.\<close>

definition exec_cleanup :: "ident \<Rightarrow> 'w swarm \<Rightarrow> 'w swarm" where
  "exec_cleanup sid s = (if (case strategy_get sid (sm_strategies s) of Some r \<Rightarrow> sr_status r = SS_PAUSED | None \<Rightarrow> False) then s
     else s\<lparr>sm_stagings := AList.delete sid (sm_stagings s), sm_staged := AList.delete sid (sm_staged s),
       sm_hooks := AList.delete sid (sm_hooks s)\<rparr>)"

section \<open>Steps\<close>

definition exec_act :: "'w swarm_env \<Rightarrow> time \<Rightarrow> (string \<Rightarrow> ident) \<Rightarrow> pc \<Rightarrow> ('w job, unit) act" where
  "exec_act en now fresh p = (case p of
       PC_begin \<Rightarrow> exec_begin en now
     | PC_top \<Rightarrow> exec_top en now
     | PC_scan [] launched \<Rightarrow> goto (PC_wait launched)
     | PC_scan (x # rest) launched \<Rightarrow> consider_packet en now fresh x rest launched
     | PC_allocate x rest launched inputs \<Rightarrow> exec_allocate en now fresh x rest launched inputs
     | PC_killing \<Rightarrow> goto (PC_wait False)
     | PC_wait launched \<Rightarrow> exec_wait en now launched
     | PC_race ids \<Rightarrow> goto PC_top
     | PC_delay \<Rightarrow> goto PC_top
     | PC_pausing \<Rightarrow> goto PC_final
     | PC_final \<Rightarrow> exec_final now
     | PC_integrate controls results \<Rightarrow> exec_integrate en fresh now controls results
     | PC_staging st blocker rep \<Rightarrow> exec_staging en st blocker rep
     | PC_release st blocker rep [] \<Rightarrow> exec_store en now st blocker rep
     | PC_release st blocker rep (i # ids) \<Rightarrow> exec_release en now st blocker rep i ids
     | PC_end \<Rightarrow> act_return ())"

text \<open>What is thrown inside of the \<open>try\<close> fails the strategy; the \<open>finally\<close> block runs either way.\<close>

definition exec_main :: "'w swarm_env \<Rightarrow> time \<Rightarrow> (string \<Rightarrow> ident) \<Rightarrow> 'w job \<Rightarrow> 'w job" where
  "exec_main en now fresh j = (case exec_act en now fresh (ex_pc (fst j)) j of
       (Inr _, e, s) \<Rightarrow> (e, if ex_pc e = PC_end then exec_cleanup (sr_id (ex_rec e)) s else s)
     | (Inl m, e, s) \<Rightarrow> (e\<lparr>ex_pc := PC_end\<rparr>, exec_cleanup (sr_id (ex_rec e)) (failStrategy en now (sr_id (ex_rec e)) m s)))"

text \<open>
  A race is over when one of its workers has left or its promise is rejected (the loop catches
  that). Everywhere else but at the end the loop goes on by itself.
\<close>

definition left_or_rejected :: "exec \<Rightarrow> ident \<Rightarrow> bool" where
  "left_or_rejected e i = (case map_of (ex_workers e) i of None \<Rightarrow> True | Some wk \<Rightarrow> wk_phase wk = W_rejected)"

definition main_ready :: "exec \<Rightarrow> bool" where
  "main_ready e = (case ex_pc e of PC_race ids \<Rightarrow> list_ex (left_or_rejected e) ids | PC_end \<Rightarrow> False | _ \<Rightarrow> True)"

text \<open>
  The first argument counts: 1 for a step of the loop or of a worker's promise, 0 for the rest (what happens
  at a child process, a control that signals the workers, any change of the service's state by others).
\<close>

inductive engine_step :: "'w swarm_env \<Rightarrow> nat \<Rightarrow> 'w job \<Rightarrow> 'w job \<Rightarrow> bool" for en :: "'w swarm_env" where
  Main: "main_ready (fst j) \<Longrightarrow> engine_step en 1 j (exec_main en now fresh j)"
| Returns: "worker_returns en now usage i j \<noteq> j \<Longrightarrow> engine_step en 1 j (worker_returns en now usage i j)"
| Unstarted: "worker_unstarted now m i j \<noteq> j \<Longrightarrow> engine_step en 1 j (worker_unstarted now m i j)"
| Turn: "worker_turn en now i j \<noteq> j \<Longrightarrow> engine_step en 1 j (worker_turn en now i j)"
| Runner: "engine_step en 0 j (runner_moves en now aid v ev i j)"
| Killed: "engine_step en 0 (e, s) (signal runner_kill e, s)"
| Paused: "engine_step en 0 (e, s) (signal runner_pause e, s)"
| Outside: "engine_step en 0 (e, s) (e, s')"

inductive engine_run :: "'w swarm_env \<Rightarrow> nat \<Rightarrow> 'w job \<Rightarrow> 'w job \<Rightarrow> bool" for en :: "'w swarm_env" where
  Stay: "engine_run en 0 j j"
| Step: "engine_run en n j k \<Longrightarrow> engine_step en m k l \<Longrightarrow> engine_run en (n + m) j l"

end
