(* ===== verification/Engine_Laws.thy ===== *)
theory Engine_Laws
  imports Swarm_Engine "HOL-Library.Multiset"
begin

text \<open>
  What the loop of \<open>executeRecord\<close> keeps, over any interleaving of its steps with those of its workers:
  the packets stay divided into pending ones, running ones and those with a result, and the workers stay
  within the limit of the strategy. A triple \<open>ens P m Q R\<close> says what an action does to the local
  variables: from \<open>P\<close> it returns with \<open>Q\<close> or throws with \<open>R\<close>.
\<close>

section \<open>Triples\<close>

definition ens :: "(exec \<Rightarrow> bool) \<Rightarrow> ('w job, 'a) act \<Rightarrow> (exec \<Rightarrow> bool) \<Rightarrow> (exec \<Rightarrow> bool) \<Rightarrow> bool" where
  "ens P m Q R \<longleftrightarrow> (\<forall>e s. P e \<longrightarrow> (case m (e, s) of (Inr _, e', _) \<Rightarrow> Q e' | (Inl _, e', _) \<Rightarrow> R e'))"

named_theorems ens_rules

lemma ensI:
  assumes "\<And>e s x e' s'. P e \<Longrightarrow> m (e, s) = (x, e', s') \<Longrightarrow> (case x of Inr _ \<Rightarrow> Q e' | Inl _ \<Rightarrow> R e')"
  shows "ens P m Q R"
  unfolding ens_def
proof (intro allI impI)
  fix e s assume "P e"
  then show "case m (e, s) of (Inr _, e', _) \<Rightarrow> Q e' | (Inl _, e', _) \<Rightarrow> R e'"
    using assms [of e s "fst (m (e, s))" "fst (snd (m (e, s)))" "snd (snd (m (e, s)))"]
    by (simp add: split_beta split: sum.splits)
qed

lemma ensD:
  assumes "ens P m Q R" and "P e" and "m (e, s) = (x, e', s')"
  shows "case x of Inr _ \<Rightarrow> Q e' | Inl _ \<Rightarrow> R e'"
proof -
  have "case m (e, s) of (Inr _, e', _) \<Rightarrow> Q e' | (Inl _, e', _) \<Rightarrow> R e'"
    by (rule assms(1) [unfolded ens_def, rule_format, OF assms(2)])
  then show ?thesis by (simp add: assms(3) split: sum.splits)
qed

lemma ens_bind:
  assumes m: "ens P m Q R" and f: "\<And>x. ens Q (f x) S R"
  shows "ens P (act_bind m f) S R"
proof (rule ensI)
  fix e s x e' s' assume P: "P e" and r: "act_bind m f (e, s) = (x, e', s')"
  obtain y e1 s1 where y: "m (e, s) = (y, e1, s1)" by (cases "m (e, s)") auto
  show "case x of Inr _ \<Rightarrow> S e' | Inl _ \<Rightarrow> R e'"
  proof (cases y)
    case (Inl z)
    then show ?thesis using ensD [OF m P y] r y by (auto simp: act_bind_def)
  next
    case (Inr z)
    then have "Q e1" "f z (e1, s1) = (x, e', s')" using ensD [OF m P y] r y by (auto simp: act_bind_def)
    from ensD [OF f this] show ?thesis .
  qed
qed

lemma ens_with_job:
  assumes "\<And>e s. P e \<Longrightarrow> ens (\<lambda>e'. e' = e) (f e s) Q R"
  shows "ens P (with_job f) Q R"
proof (rule ensI)
  fix e s x e' s' assume "P e" and "with_job f (e, s) = (x, e', s')"
  then show "case x of Inr _ \<Rightarrow> Q e' | Inl _ \<Rightarrow> R e'"
    using ensD [OF assms [of e s] refl] by (simp add: with_job_def)
qed

lemma ens_pre: "ens P m Q R \<Longrightarrow> (\<And>e. P' e \<Longrightarrow> P e) \<Longrightarrow> ens P' m Q R"
  by (rule ensI) (auto dest: ensD)

lemma ens_on_exec: "(\<And>e. P e \<Longrightarrow> Q (f e)) \<Longrightarrow> ens P (on_exec f) Q R"
  by (simp add: ens_def on_exec_def)

lemma ens_return [ens_rules]: "(\<And>e. P e \<Longrightarrow> Q e) \<Longrightarrow> ens P (act_return x) Q R"
  by (simp add: ens_def act_return_def)

lemma ens_on_swarm [ens_rules]: "ens P (on_swarm f) P R"
  by (simp add: ens_def on_swarm_def)

lemma ens_emit [ens_rules]: "ens P (emit en now ev) P R"
  by (simp add: ens_def emit_def)

lemma ens_raise [ens_rules]: "(\<And>e. P e \<Longrightarrow> R e) \<Longrightarrow> ens P (raise m) Q R"
  by (simp add: ens_def raise_def)

lemma ens_record: "(\<And>e. P e \<Longrightarrow> R e) \<Longrightarrow> ens P (record_result en now p x) P R"
  by (auto simp: ens_def record_result_def split: sum.splits)

lemma ens_if: "(c \<Longrightarrow> ens P m Q R) \<Longrightarrow> (\<not> c \<Longrightarrow> ens P n Q R) \<Longrightarrow> ens P (if c then m else n) Q R"
  by simp

section \<open>The invariant\<close>

definition packet_ids :: "exec \<Rightarrow> ident list" where
  "packet_ids e = map wp_id (ex_packets e)"

definition accounted :: "exec \<Rightarrow> bool" where
  "accounted e \<longleftrightarrow> distinct (packet_ids e)
     \<and> mset (ex_pending e @ map fst (ex_workers e) @ map fst (ex_results e)) = mset (packet_ids e)"

definition within_limit :: "exec \<Rightarrow> bool" where
  "within_limit e \<longleftrightarrow> int (length (ex_workers e)) \<le> sr_maxConcurrency (ex_rec e)"

definition workers_named :: "exec \<Rightarrow> bool" where
  "workers_named e \<longleftrightarrow> (\<forall>(i, w) \<in> set (ex_workers e). wp_id (wk_packet w) = i)"

definition books_kept :: "exec \<Rightarrow> bool" where
  "books_kept e \<longleftrightarrow> accounted e \<and> within_limit e \<and> workers_named e"

definition lined :: "ident list \<Rightarrow> exec \<Rightarrow> bool" where
  "lined ids e \<longleftrightarrow> books_kept e \<and> distinct ids \<and> set ids \<subseteq> set (ex_pending e)"

definition exec_inv :: "exec \<Rightarrow> bool" where
  "exec_inv e \<longleftrightarrow> books_kept e \<and> (case ex_pc e of PC_scan rest l \<Rightarrow> lined (map wp_id rest) e
     | PC_allocate p rest l inputs \<Rightarrow> lined (wp_id p # map wp_id rest) e \<and> int (length (ex_workers e)) < sr_maxConcurrency (ex_rec e)
     | _ \<Rightarrow> True)"

text \<open>The place in the program is not among what the books depend on.\<close>

lemma frame_pc [simp]: "books_kept (e\<lparr>ex_pc := p\<rparr>) = books_kept e" "lined xs (e\<lparr>ex_pc := p\<rparr>) = lined xs e"
  "books_kept (e\<lparr>ex_idle := k\<rparr>) = books_kept e" "books_kept (e\<lparr>ex_queued := q\<rparr>) = books_kept e"
  "lined xs (e\<lparr>ex_queued := q\<rparr>) = lined xs e"
  by (simp_all add: books_kept_def lined_def accounted_def within_limit_def workers_named_def packet_ids_def)

lemma books_distinct:
  assumes "accounted e"
  shows "distinct (ex_pending e @ map fst (ex_workers e) @ map fst (ex_results e))"
  using assms mset_eq_imp_distinct_iff unfolding accounted_def by blast

lemma alist_update_fresh: "k \<notin> set (map fst al) \<Longrightarrow> map fst (AList.update k v al) = map fst al @ [k]"
  by (simp add: update_keys)

lemma keys_delete: "map fst (AList.delete k al) = removeAll k (map fst al)"
  by (induction al) (auto simp: AList.delete_eq)

lemma alist_update_new: "k \<notin> set (map fst al) \<Longrightarrow> AList.update k v al = al @ [(k, v)]"
  by (induction al) auto

lemma mset_removeAll_distinct: "distinct xs \<Longrightarrow> x \<in> set xs \<Longrightarrow> mset xs = add_mset x (mset (removeAll x xs))"
  by (simp add: distinct_remove1_removeAll [symmetric])

text \<open>The three ways a packet moves: it is settled without a worker, it is launched, its worker retires.\<close>

lemma accounted_move:
  assumes "accounted e" and "packet_ids e' = packet_ids e"
    and "mset (ex_pending e' @ map fst (ex_workers e') @ map fst (ex_results e'))
       = mset (ex_pending e @ map fst (ex_workers e) @ map fst (ex_results e))"
  shows "accounted e'"
  using assms by (simp add: accounted_def)

lemma settle_moves:
  assumes "lined (wp_id p # ids) e"
  shows "lined ids (e\<lparr>ex_results := AList.update (wp_id p) y (ex_results e), ex_pending := removeAll (wp_id p) (ex_pending e)\<rparr>)"
proof -
  have a: "accounted e" and i: "wp_id p \<in> set (ex_pending e)" using assms by (auto simp: lined_def books_kept_def)
  have d: "distinct (ex_pending e)" "wp_id p \<notin> set (map fst (ex_results e))" using books_distinct [OF a] i by auto
  have "accounted (e\<lparr>ex_results := AList.update (wp_id p) y (ex_results e), ex_pending := removeAll (wp_id p) (ex_pending e)\<rparr>)"
    by (rule accounted_move [OF a])
      (simp_all add: packet_ids_def alist_update_fresh [OF d(2)] mset_removeAll_distinct [OF d(1) i] del: mset_filter)
  then show ?thesis
    using assms by (auto simp: lined_def books_kept_def within_limit_def workers_named_def rev_image_eqI)
qed

lemma launch_moves:
  assumes "lined (wp_id p # ids) e" and "int (length (ex_workers e)) < sr_maxConcurrency (ex_rec e)" and "wk_packet w = p"
  shows "lined ids (e\<lparr>ex_pending := removeAll (wp_id p) (ex_pending e), ex_workers := AList.update (wp_id p) w (ex_workers e)\<rparr>)"
proof -
  have a: "accounted e" and i: "wp_id p \<in> set (ex_pending e)" using assms by (auto simp: lined_def books_kept_def)
  have d: "distinct (ex_pending e)" "wp_id p \<notin> set (map fst (ex_workers e))" using books_distinct [OF a] i by auto
  have "accounted (e\<lparr>ex_pending := removeAll (wp_id p) (ex_pending e), ex_workers := AList.update (wp_id p) w (ex_workers e)\<rparr>)"
    by (rule accounted_move [OF a])
      (simp_all add: packet_ids_def alist_update_fresh [OF d(2)] mset_removeAll_distinct [OF d(1) i] del: mset_filter)
  then show ?thesis
    using assms by (auto simp: lined_def books_kept_def within_limit_def workers_named_def alist_update_new [OF d(2)] rev_image_eqI)
qed

section \<open>The loop keeps the books\<close>

lemma lined_books [simp]: "lined ids e \<Longrightarrow> books_kept e"
  by (simp add: lined_def)

lemma lined_nil [simp]: "lined [] e = books_kept e"
  by (simp add: lined_def)

lemma lined_tl: "lined (i # ids) e \<Longrightarrow> lined ids e"
  by (simp add: lined_def)

lemma ens_settle: "ens (lined (wp_id p # ids)) (settle en now st blocker p) (lined ids) books_kept"
  unfolding settle_def
  by (rule ens_bind [OF ens_record]) (auto intro: ens_on_exec settle_moves)

lemma ens_settle_all: "ens (lined ids) (settle_all en now st blocker ids) books_kept books_kept"
proof (induction ids)
  case Nil
  show ?case by (auto intro: ens_rules)
next
  case (Cons i ids)
  have "ens (lined (wp_id p # ids)) (act_bind (settle en now st blocker p) (\<lambda>_. settle_all en now st blocker ids)) books_kept books_kept" for p
    by (rule ens_bind [OF ens_settle Cons])
  note step = this
  show ?case
    unfolding settle_all.simps
  proof (rule ens_with_job)
    fix e and s :: "'a swarm"
    assume l: "lined (i # ids) e"
    show "ens (\<lambda>e'. e' = e) (case tbl_get wp_id i (ex_packets e) of None \<Rightarrow> raise ''Cannot read properties of undefined''
        | Some p \<Rightarrow> act_bind (settle en now st blocker p) (\<lambda>_. settle_all en now st blocker ids)) books_kept books_kept"
    proof (cases "tbl_get wp_id i (ex_packets e)")
      case None
      then show ?thesis using l by (auto intro: ens_raise)
    next
      case (Some p)
      then have "wp_id p = i" by (rule tbl_get_key)
      then show ?thesis using l Some by (auto intro: ens_pre [OF step [of p]])
    qed
  qed
qed

text \<open>From the books and the place the invariant follows.\<close>

lemma signal_books [simp]: "books_kept (signal f e) = books_kept e"
  by (auto simp: signal_def books_kept_def accounted_def within_limit_def workers_named_def packet_ids_def split_beta comp_def)

lemma pending_lined: "books_kept e \<Longrightarrow> lined (ex_pending e) e"
  using books_distinct [of e] by (simp add: lined_def books_kept_def)

lemma scan_lined:
  assumes "books_kept e"
  shows "lined (map wp_id (sort_key f (filter (\<lambda>p. wp_id p \<in> set (ex_pending e)) (ex_packets e)))) e"
proof -
  have "distinct (map wp_id (ex_packets e))" using assms by (simp add: books_kept_def accounted_def packet_ids_def)
  then have "distinct (map wp_id (sort_key f (filter P (ex_packets e))))" for P
    by (simp add: distinct_map inj_on_def)
  then show ?thesis using assms by (auto simp: lined_def)
qed

lemma ens_top: "ens books_kept (exec_top en now) exec_inv books_kept"
  unfolding exec_top_def
proof (rule ens_with_job)
  fix e and s :: "'a swarm"
  assume b: "books_kept e"
  have all: "ens (\<lambda>e'. e' = e) (settle_all en now st m (ex_pending e)) books_kept books_kept" for st m
    by (rule ens_pre [OF ens_settle_all]) (simp add: pending_lined b)
  show "ens (\<lambda>e'. e' = e) (if ex_pending e = [] \<and> ex_workers e = [] then goto PC_final
     else (case control_state_of (sr_id (ex_rec e)) s of
         PAUSE_REQUESTED \<Rightarrow> on_exec (\<lambda>e. (signal runner_pause e)\<lparr>ex_pc := PC_pausing\<rparr>)
       | KILL_REQUESTED \<Rightarrow> act_bind (settle_all en now RS_CANCELLED ''EMERGENCY_KILLED: swarm worker was not started.'' (ex_pending e))
           (\<lambda>_. on_exec (\<lambda>e. (signal runner_kill e)\<lparr>ex_pc := PC_killing\<rparr>))
       | STOP_REQUESTED \<Rightarrow> act_bind (settle_all en now RS_CANCELLED ''USER_STOP: swarm worker was not started.'' (ex_pending e))
           (\<lambda>_. goto (PC_wait False))
       | CS_NONE \<Rightarrow> goto (PC_scan (sort_key (\<lambda>p. se_coll en (wp_id p))
           (filter (\<lambda>p. wp_id p \<in> set (ex_pending e)) (ex_packets e))) False))) exec_inv books_kept"
    using b by (auto intro!: ens_on_exec ens_bind [OF all] simp: exec_inv_def scan_lined split: control_state.split)
qed

lemma ens_scan: "(\<And>e. P e \<Longrightarrow> lined (map wp_id rest) e) \<Longrightarrow> ens P (goto (PC_scan rest l)) exec_inv R"
  by (rule ens_on_exec) (auto simp: exec_inv_def intro: lined_books)

lemma ens_not_admitted: "ens (lined (wp_id p # ids)) (not_admitted en now d p) (lined ids) books_kept"
  unfolding not_admitted_def Let_def
proof (rule ens_with_job)
  fix e and s :: "'a swarm"
  assume l: "lined (wp_id p # ids) e"
  show "ens (\<lambda>e'. e' = e)
     (act_bind (if sd_status d = QUEUED \<and> request_id (sr_id (ex_rec e)) (wp_id p) \<notin> set (ex_queued e)
        then act_bind (on_exec (\<lambda>e'. e'\<lparr>ex_queued := ex_queued e' @ [request_id (sr_id (ex_rec e)) (wp_id p)]\<rparr>)) (\<lambda>_.
          emit en now (\<lambda>e. (job_event e EV_worker_queued now)\<lparr>ev_packet := Some (wp_id p), ev_reason := Some (sd_reason d)\<rparr>))
        else act_return ())
     (\<lambda>_. if sd_status d = REJECTED then settle en now RS_BLOCKED (''SCHEDULER_REJECTED: '' @ sd_reason d) p else act_return ()))
     (lined ids) books_kept"
    by (rule ens_bind [where Q = "lined (wp_id p # ids)"])
      (auto simp: l lined_tl intro!: ens_if ens_settle ens_rules ens_bind [where Q = "lined (wp_id p # ids)"] ens_on_exec)
qed

abbreviation free_slot :: "exec \<Rightarrow> bool" where
  "free_slot e \<equiv> int (length (ex_workers e)) < sr_maxConcurrency (ex_rec e)"

lemma ens_admit:
  "ens (\<lambda>e. lined (wp_id p # map wp_id rest) e \<and> free_slot e) (admit_packet en now fresh p rest l) exec_inv books_kept"
  unfolding admit_packet_def
proof (rule ens_with_job)
  fix e and s :: "'a swarm"
  assume l: "lined (wp_id p # map wp_id rest) e \<and> free_slot e"
  have go: "ens (\<lambda>e'. e' = e) (act_bind (on_swarm f) (\<lambda>_.
         if sd_status d \<noteq> ADMITTED then act_bind (not_admitted en now d p) (\<lambda>_. goto (PC_scan rest l))
         else act_bind (on_swarm g) (\<lambda>_. goto (PC_allocate p rest l (inputs_for e s p))))) exec_inv books_kept" for f g d
  proof (rule ens_bind [OF ens_on_swarm], rule ens_if)
    show "ens (\<lambda>e'. e' = e) (act_bind (not_admitted en now d p) (\<lambda>_. goto (PC_scan rest l))) exec_inv books_kept"
      by (rule ens_bind [OF ens_pre [OF ens_not_admitted]]) (auto simp: l intro: ens_scan)
    show "ens (\<lambda>e'. e' = e) (act_bind (on_swarm g) (\<lambda>_. goto (PC_allocate p rest l (inputs_for e s p)))) exec_inv books_kept"
      by (rule ens_bind [OF ens_on_swarm]) (use l in \<open>auto simp: exec_inv_def intro!: ens_on_exec intro: lined_books\<close>)
  qed
  show "ens (\<lambda>e'. e' = e) (case admit (fresh ''decision'') now (admission_of e p) (sm_sched s) of
       Inl err \<Rightarrow> raise (case err of ZodError \<Rightarrow> se_admitMessage en | SqliteError \<Rightarrow> se_sqlMessage en)
     | Inr (d, sched) \<Rightarrow> act_bind (on_swarm (sm_sched_update (\<lambda>_. sched))) (\<lambda>_.
         if sd_status d \<noteq> ADMITTED then act_bind (not_admitted en now d p) (\<lambda>_. goto (PC_scan rest l))
         else act_bind (on_swarm (sm_packetStatus (wp_id p) PK_STARTING now)) (\<lambda>_.
           goto (PC_allocate p rest l (inputs_for e s p))))) exec_inv books_kept"
  proof (cases "admit (fresh ''decision'') now (admission_of e p) (sm_sched s)")
    case (Inl err)
    then show ?thesis using l by (auto intro: ens_raise lined_books)
  next
    case (Inr x)
    show ?thesis unfolding Inr sum.case by (cases x) (simp only: prod.case, rule go)
  qed
qed

lemma ens_permit:
  "ens (\<lambda>e. lined (wp_id p # map wp_id rest) e \<and> free_slot e) (permit_packet en now fresh p rest l) exec_inv books_kept"
  unfolding permit_packet_def
proof (rule ens_with_job)
  fix e and s :: "'a swarm"
  assume l: "lined (wp_id p # map wp_id rest) e \<and> free_slot e"
  have refuse: "ens (\<lambda>e'. e' = e) (act_bind (refuse_packet en now oc p) (\<lambda>_. goto (PC_scan rest l))) exec_inv books_kept" for oc
    unfolding refuse_packet_def
    by (rule ens_bind [OF ens_pre [OF ens_bind [OF ens_on_swarm ens_bind [OF ens_emit ens_settle]]]]) (auto simp: l intro: ens_scan)
  have "ens (\<lambda>e'. e' = e) (act_bind (on_swarm f) (\<lambda>_.
         if oc = ASK \<or> oc = DENY then act_bind (refuse_packet en now oc p) (\<lambda>_. goto (PC_scan rest l))
         else admit_packet en now fresh p rest l)) exec_inv books_kept" for f oc
    by (rule ens_bind [OF ens_on_swarm], rule ens_if) (auto intro: refuse ens_pre [OF ens_admit] simp: l)
  then show "ens (\<lambda>e'. e' = e) (case evaluateWritePermission (se_policy en) (fresh ''permission'') now (ry_id (ex_repo e)) (ru_id (ex_run e))
          (ru_iter (ex_run e)) p (sm_perm s) of
       None \<Rightarrow> raise (se_sqlMessage en)
     | Some (oc, perm) \<Rightarrow> act_bind (on_swarm (sm_perm_update (\<lambda>_. perm))) (\<lambda>_.
         if oc = ASK \<or> oc = DENY then act_bind (refuse_packet en now oc p) (\<lambda>_. goto (PC_scan rest l))
         else admit_packet en now fresh p rest l)) exec_inv books_kept"
    using l by (auto intro: ens_raise split: option.split prod.split)
qed

lemma ens_consider:
  "ens (lined (wp_id p # map wp_id rest)) (consider_packet en now fresh p rest l) exec_inv books_kept"
  unfolding consider_packet_def Let_def
proof (intro ens_with_job ens_if)
  fix e and s :: "'a swarm"
  assume l: "lined (wp_id p # map wp_id rest) e"
  then have l': "lined (map wp_id rest) e" by (rule lined_tl)
  show "ens (\<lambda>e'. e' = e) (goto (PC_wait l)) exec_inv books_kept"
    using l by (auto simp: exec_inv_def intro!: ens_on_exec)
  show "ens (\<lambda>e'. e' = e) (goto (PC_scan rest l)) exec_inv books_kept" "ens (\<lambda>e'. e' = e) (goto (PC_scan rest l)) exec_inv books_kept"
    using l' by (auto intro: ens_scan)
  show "ens (\<lambda>e'. e' = e) (act_bind (settle en now RS_SKIPPED_DEPENDENCY ''A dependency did not complete successfully.'' p)
              (\<lambda>_. goto (PC_scan rest l))) exec_inv books_kept"
    by (rule ens_bind [OF ens_pre [OF ens_settle]]) (auto simp: l intro: ens_scan)
  show "ens (\<lambda>e'. e' = e) (permit_packet en now fresh p rest l) exec_inv books_kept"
    if "\<not> sr_maxConcurrency (ex_rec e) \<le> int (length (ex_workers e))"
    using that l by (auto intro: ens_pre [OF ens_permit])
qed

lemma ens_allocation_failed: "ens (lined (wp_id p # ids)) (allocation_failed en now m p) (lined ids) books_kept"
  unfolding allocation_failed_def
  by (rule ens_with_job, rule ens_bind [OF ens_on_swarm]) (auto intro: ens_pre [OF ens_settle])

lemma ens_launch:
  "ens (\<lambda>e. lined (wp_id p # map wp_id rest) e \<and> free_slot e) (launch en now p wt rest) exec_inv books_kept"
  unfolding launch_def
proof (rule ens_bind [OF ens_on_exec [where Q = exec_inv] ens_emit])
  fix e
  assume l: "lined (wp_id p # map wp_id rest) e \<and> free_slot e"
  obtain ph rn where f: "first_phase en e p = (ph, rn)" by (cases "first_phase en e p")
  have "lined (map wp_id rest) (e\<lparr>ex_pending := removeAll (wp_id p) (ex_pending e),
          ex_workers := AList.update (wp_id p) \<lparr>wk_packet = p, wk_request = request_id (sr_id (ex_rec e)) (wp_id p), wk_tree = wt,
            wk_runner = rn, wk_attempt = None, wk_hookOk = True, wk_phase = ph\<rparr> (ex_workers e)\<rparr>)" (is "lined _ ?e")
    by (rule launch_moves) (use l in simp_all)
  then have "exec_inv (?e\<lparr>ex_pc := PC_scan rest True\<rparr>)" unfolding exec_inv_def by (auto intro: lined_books)
  then show "exec_inv (case first_phase en e p of (ph, rn) \<Rightarrow>
        e\<lparr>ex_pending := removeAll (wp_id p) (ex_pending e),
          ex_workers := AList.update (wp_id p) \<lparr>wk_packet = p, wk_request = request_id (sr_id (ex_rec e)) (wp_id p), wk_tree = wt,
            wk_runner = rn, wk_attempt = None, wk_hookOk = True, wk_phase = ph\<rparr> (ex_workers e),
          ex_pc := PC_scan rest True\<rparr>)"
    by (simp add: f)
qed

lemma ens_allocate:
  "ens (\<lambda>e. lined (wp_id p # map wp_id rest) e \<and> free_slot e) (exec_allocate en now fresh p rest l inputs) exec_inv books_kept"
proof (rule ensI)
  fix e and s :: "'a swarm" and x e' s'
  assume l: "lined (wp_id p # map wp_id rest) e \<and> free_slot e"
    and r: "exec_allocate en now fresh p rest l inputs (e, s) = (x, e', s')"
  obtain y db w where a: "allocate (se_wt en) (fresh ''worktree'') now (ex_repo e) p (ex_base e) (replay_for en e inputs) (sm_db s, sm_world s)
      = (y, db, w)" by (metis surj_pair)
  show "case x of Inr _ \<Rightarrow> exec_inv e' | Inl _ \<Rightarrow> books_kept e'"
  proof (cases y)
    case (Inl m)
    have "ens (lined (wp_id p # map wp_id rest)) (act_bind (allocation_failed en now m p) (\<lambda>_. goto (PC_scan rest l))) exec_inv books_kept"
      by (rule ens_bind [OF ens_allocation_failed]) (auto intro: ens_scan)
    from ensD [OF this conjunct1 [OF l]] show ?thesis using r a Inl by (simp add: exec_allocate_def)
  next
    case (Inr wt)
    then show ?thesis using ensD [OF ens_launch l] r a by (simp add: exec_allocate_def Let_def)
  qed
qed

lemma ens_wait: "ens books_kept (exec_wait en now l) exec_inv books_kept"
  unfolding exec_wait_def
proof (rule ens_with_job, intro ens_if)
  fix e and s :: "'a swarm"
  assume b: "books_kept e"
  show "ens (\<lambda>e'. e' = e) (on_exec (\<lambda>e. e\<lparr>ex_idle := 0, ex_pc := PC_race (map fst (ex_workers e))\<rparr>)) exec_inv books_kept"
    "ens (\<lambda>e'. e' = e) (goto PC_top) exec_inv books_kept"
    using b by (auto simp: exec_inv_def intro!: ens_on_exec)
  have all: "ens (lined (ex_pending e)) (act_bind (settle_all en now st m (ex_pending e)) (\<lambda>_. goto PC_top)) exec_inv books_kept" for st m
    by (rule ens_bind [OF ens_settle_all]) (auto simp: exec_inv_def intro!: ens_on_exec)
  show "ens (\<lambda>e'. e' = e) (act_bind (on_exec (\<lambda>e. e\<lparr>ex_idle := ex_idle e + 1\<rparr>)) (\<lambda>_.
       if 600 < ex_idle e + 1
       then act_bind (settle_all en now RS_BLOCKED ''SCHEDULER_WAIT_TIMEOUT: packet did not become runnable.'' (ex_pending e))
              (\<lambda>_. goto PC_top)
       else goto PC_delay)) exec_inv books_kept"
    using pending_lined [OF b]
    by (auto intro!: ens_bind [where Q = "\<lambda>e'. lined (ex_pending e) e'"] ens_if ens_on_exec ens_pre [OF all] simp: exec_inv_def lined_def)
qed

text \<open>From the end of the loop on, the books are only read.\<close>

definition closing :: "pc \<Rightarrow> bool" where
  "closing p = (case p of PC_scan _ _ \<Rightarrow> False | PC_allocate _ _ _ _ \<Rightarrow> False | _ \<Rightarrow> True)"

lemma exec_inv_closing: "closing p \<Longrightarrow> books_kept e \<Longrightarrow> exec_inv (e\<lparr>ex_pc := p\<rparr>)"
  by (auto simp: exec_inv_def closing_def split: pc.splits)

lemma ens_goto: "closing p \<Longrightarrow> (\<And>e. P e \<Longrightarrow> books_kept e) \<Longrightarrow> ens P (goto p) exec_inv R"
  by (rule ens_on_exec) (simp add: exec_inv_closing)

lemma ens_write_report: "ens books_kept (write_report now cs xs i st b) exec_inv R"
  unfolding write_report_def by (auto intro!: ens_with_job ens_goto simp: closing_def)

lemma ens_final: "ens books_kept (exec_final now) exec_inv books_kept"
  unfolding exec_final_def Let_def
  by (rule ens_with_job) (auto intro: ens_pre [OF ens_write_report] ens_goto simp: closing_def split: control_state.split)

lemma ens_land: "ens books_kept (land_dag en now xs) books_kept books_kept"
  by (rule ensI) (auto simp: land_dag_def split: prod.splits option.splits list.splits)

lemma ens_integrate_swarm: "ens books_kept (integrate_swarm en fresh now xs) books_kept books_kept"
  by (rule ensI) (auto simp: integrate_swarm_def split: prod.splits option.splits)

lemma ens_integrate: "ens books_kept (exec_integrate en fresh now cs xs) exec_inv books_kept"
  unfolding exec_integrate_def
proof (rule ens_with_job)
  fix e and s :: "'a swarm"
  assume b: "books_kept e"
  show "ens (\<lambda>e'. e' = e) (act_bind (if sr_strategy (ex_rec e) = DAG then land_dag en now xs else integrate_swarm en fresh now xs) (\<lambda>rep.
     act_bind (emit en now (\<lambda>e. job_event e EV_integration_completed (ir_created rep))) (\<lambda>_.
     write_report now cs xs (Some rep) (status_of_integration (ir_status rep)) (ir_blocker rep)))) exec_inv books_kept"
    by (rule ens_bind [where Q = books_kept], rule ens_if)
      (auto simp: b intro: ens_pre [OF ens_land] ens_pre [OF ens_integrate_swarm] ens_bind [OF ens_emit ens_write_report])
qed

lemma ens_staging: "ens books_kept (exec_staging en st b rep) exec_inv books_kept"
  unfolding exec_staging_def
  by (rule ens_with_job, intro ens_if) (auto intro!: ens_goto ens_bind [OF ens_on_swarm] simp: closing_def)

lemma ens_release: "ens books_kept (exec_release en now st b rep i ids) exec_inv books_kept"
  unfolding exec_release_def
  by (rule ens_with_job) (auto intro!: ens_goto ens_bind [OF ens_on_swarm] simp: closing_def)

lemma ens_store: "ens books_kept (exec_store en now st b rep) exec_inv books_kept"
  by (rule ensI) (auto simp: exec_store_def Let_def exec_inv_def split: prod.splits)

lemma ens_begin: "ens books_kept (exec_begin en now) exec_inv books_kept"
  by (rule ensI)
    (auto simp: exec_begin_def exec_inv_def books_kept_def accounted_def within_limit_def workers_named_def packet_ids_def split: prod.splits)

lemma ens_act: "ens (\<lambda>e. exec_inv e \<and> ex_pc e = p) (exec_act en now fresh p) exec_inv books_kept"
proof -
  have b: "exec_inv e \<Longrightarrow> books_kept e" for e by (simp add: exec_inv_def)
  have pre: "ens books_kept m exec_inv R \<Longrightarrow> ens (\<lambda>e. exec_inv e \<and> ex_pc e = q) m exec_inv R" for m :: "('a job, unit) act" and R q
    by (erule ens_pre) (simp add: b)
  have go: "closing q \<Longrightarrow> ens books_kept (goto q :: ('a job, unit) act) exec_inv R" for q R
    by (rule ens_goto)
  show ?thesis
  proof (cases p)
    case (PC_scan rest l)
    show ?thesis
    proof (cases rest)
      case Nil
      then show ?thesis using PC_scan by (auto simp: exec_act_def closing_def b intro!: ens_goto)
    next
      case (Cons x xs)
      then show ?thesis using PC_scan by (auto simp: exec_act_def exec_inv_def intro: ens_pre [OF ens_consider])
    qed
  next
    case (PC_allocate x rest l inputs)
    then show ?thesis by (auto simp: exec_act_def exec_inv_def intro!: ens_pre [OF ens_allocate])
  next
    case (PC_release st bl rep ids)
    then show ?thesis by (cases ids) (auto simp: exec_act_def intro: pre ens_store ens_release)
  qed (auto simp: exec_act_def closing_def b intro!: ens_goto intro: pre ens_begin ens_top ens_wait go ens_final ens_integrate ens_staging ens_return)
qed

lemma main_inv:
  assumes "exec_inv (fst j)"
  shows "exec_inv (fst (exec_main en now fresh j))"
proof -
  obtain e s where j: "j = (e, s)" by (cases j)
  obtain x e' s' where r: "exec_act en now fresh (ex_pc e) (e, s) = (x, e', s')" by (metis surj_pair)
  have "exec_inv e \<and> ex_pc e = ex_pc e" using assms j by simp
  from ensD [OF ens_act this r] show ?thesis
    using j r by (auto simp: exec_main_def exec_inv_closing closing_def split: sum.splits)
qed

section \<open>The workers keep the books\<close>

lemma set_worker_frame [simp]: "ex_pc (set_worker i f e) = ex_pc e" "ex_pending (set_worker i f e) = ex_pending e"
  "ex_rec (set_worker i f e) = ex_rec e" "length (ex_workers (set_worker i f e)) = length (ex_workers e)"
  "ex_results (set_worker i f e) = ex_results e" "packet_ids (set_worker i f e) = packet_ids e"
  "map fst (ex_workers (set_worker i f e)) = map fst (ex_workers e)" "ex_idle (set_worker i f e) = ex_idle e"
  by (simp_all add: set_worker_def packet_ids_def split_beta comp_def)

lemma set_worker_inv:
  assumes "exec_inv e" and "\<And>w. (i, w) \<in> set (ex_workers e) \<Longrightarrow> wp_id (wk_packet (f w)) = i"
  shows "exec_inv (set_worker i f e)"
proof -
  have "workers_named (set_worker i f e)"
    using assms by (auto simp: exec_inv_def books_kept_def workers_named_def set_worker_def)
  then have "books_kept (set_worker i f e)"
    using assms(1) by (simp add: exec_inv_def books_kept_def accounted_def within_limit_def del: mset_map)
  then show ?thesis using assms(1) by (cases "ex_pc e") (simp_all add: exec_inv_def lined_def)
qed

lemma retire_inv:
  assumes e: "exec_inv e" and i: "i \<in> set (map fst (ex_workers e))"
  shows "exec_inv (e\<lparr>ex_results := AList.update i y (ex_results e), ex_workers := AList.delete i (ex_workers e)\<rparr>)" (is "exec_inv ?e")
proof -
  have a: "accounted e" and w: "within_limit e" "workers_named e" using e by (auto simp: exec_inv_def books_kept_def)
  have d: "distinct (map fst (ex_workers e))" "i \<notin> set (map fst (ex_results e))" using books_distinct [OF a] i by auto
  have "accounted ?e"
    by (rule accounted_move [OF a])
      (simp_all add: packet_ids_def alist_update_fresh [OF d(2)] keys_delete mset_removeAll_distinct [OF d(1) i] del: mset_filter mset_map)
  moreover have len: "length (AList.delete i (ex_workers e)) \<le> length (ex_workers e)" by (rule length_alist_delete)
  moreover have "workers_named ?e" using w(2) by (auto simp: workers_named_def AList.delete_eq)
  ultimately have "books_kept ?e" using w(1) by (simp add: books_kept_def within_limit_def)
  then show ?thesis using e len by (cases "ex_pc e") (auto simp: exec_inv_def lined_def)
qed

lemma named_worker: "exec_inv e \<Longrightarrow> map_of (ex_workers e) i = Some wk \<Longrightarrow> wp_id (wk_packet wk) = i \<and> i \<in> set (map fst (ex_workers e))"
  by (auto simp: exec_inv_def books_kept_def workers_named_def rev_image_eqI dest!: map_of_SomeD)

lemma worker_done_exec [simp]:
  "fst (worker_done en now i wk y (e, s)) = e\<lparr>ex_results := AList.update i y (ex_results e), ex_workers := AList.delete i (ex_workers e)\<rparr>"
  "fst (retire_worker now i wk y (e, s)) = e\<lparr>ex_results := AList.update i y (ex_results e), ex_workers := AList.delete i (ex_workers e)\<rparr>"
  by (simp_all add: worker_done_def retire_worker_def emit_def)

lemma record_result_exec: "record_result en now p x (e, s) = (y, e', s') \<Longrightarrow> e' = e"
  by (auto simp: record_result_def split: sum.splits)

text \<open>A turn of a worker changes its phase, or retires it with a result.\<close>

definition moved :: "ident \<Rightarrow> exec \<Rightarrow> exec \<Rightarrow> bool" where
  "moved i e e' \<longleftrightarrow> (\<exists>ph. e' = set_phase i ph e)
     \<or> (\<exists>y. e' = e\<lparr>ex_results := AList.update i y (ex_results e), ex_workers := AList.delete i (ex_workers e)\<rparr>)"

lemma stage_worker_moves: "moved i e (fst (stage_worker en now i wk y (e, s)))"
proof -
  obtain rep s1 where st: "stageNodeCommit en now (ex_repo e) (ex_rec e) y s = (rep, s1)" by (cases "stageNodeCommit en now (ex_repo e) (ex_rec e) y s")
  let ?s2 = "hook_integrated now e i (ir_status rep) s1"
  obtain z e3 s3 where r: "record_result en now (wk_packet wk) (staged_result wk y rep) (e, ?s2) = (z, e3, s3)" by (metis surj_pair)
  have "e3 = e" by (rule record_result_exec [OF r])
  then show ?thesis using st r by (cases z) (auto simp: stage_worker_def Let_def moved_def)
qed

lemma worker_turn_moves:
  assumes "map_of (ex_workers e) i = Some wk"
  shows "moved i e (fst (worker_turn en now i (e, s))) \<or> worker_turn en now i (e, s) = (e, s)"
proof (cases "wk_phase wk")
  case (W_result x)
  obtain z e1 s1 where r: "record_result en now (wk_packet wk) x (e, s) = (z, e1, s1)" by (metis surj_pair)
  have "e1 = e" by (rule record_result_exec [OF r])
  then show ?thesis using assms W_result r by (cases z) (auto simp: worker_turn_def moved_def)
next
  case (W_failed m)
  obtain z e1 s1 where r: "record_result en now (wk_packet wk) (syntheticResult now (wk_packet wk) RS_FAILED
              (''WORKER_RESULT_FAILED: '' @ m) (Some (provenance_of (wk_tree wk) None))) (e, s) = (z, e1, s1)" by (metis surj_pair)
  have "e1 = e" by (rule record_result_exec [OF r])
  then show ?thesis using assms W_failed r by (cases z) (auto simp: worker_turn_def moved_def)
qed (use assms in \<open>auto simp: worker_turn_def intro: stage_worker_moves\<close>)

lemma set_phase_inv: "exec_inv e \<Longrightarrow> exec_inv (set_phase i ph e)"
  by (rule set_worker_inv) (auto simp: exec_inv_def books_kept_def workers_named_def)

lemma moved_inv:
  assumes "exec_inv e" and "map_of (ex_workers e) i = Some wk" and "moved i e e'"
  shows "exec_inv e'"
  using assms(3) named_worker [OF assms(1,2)] assms(1) unfolding moved_def
  by (elim disjE exE) (simp_all add: retire_inv set_phase_inv)

lemma worker_turn_inv: "exec_inv (fst j) \<Longrightarrow> exec_inv (fst (worker_turn en now i j))"
proof -
  assume e: "exec_inv (fst j)"
  obtain e s where j: "j = (e, s)" by (cases j)
  show ?thesis
  proof (cases "map_of (ex_workers e) i")
    case None
    then show ?thesis using e j by (simp add: worker_turn_def)
  next
    case (Some wk)
    then show ?thesis using worker_turn_moves [OF Some] moved_inv [OF _ Some] e j by (metis fst_conv)
  qed
qed

lemma returns_moves: "worker_returns en now usage i (e, s) \<noteq> (e, s) \<Longrightarrow>
    \<exists>x s'. worker_returns en now usage i (e, s) = (set_phase i (W_result x) e, s')
      \<and> (\<exists>wk. map_of (ex_workers e) i = Some wk \<and> wk_phase wk = W_running)"
  by (auto simp: worker_returns_def split: option.splits if_splits prod.splits)

lemma unstarted_moves: "worker_unstarted now m i (e, s) \<noteq> (e, s) \<Longrightarrow>
    \<exists>x. worker_unstarted now m i (e, s) = (set_phase i (W_result x) e, s)
      \<and> (\<exists>wk. map_of (ex_workers e) i = Some wk \<and> wk_phase wk = W_running)"
  by (auto simp: worker_unstarted_def split: option.splits if_splits)

lemma spawned_packet: "worker_spawned en now aid v e wk s = (wk', s') \<Longrightarrow> wk_packet wk' = wk_packet wk \<and> wk_phase wk' = wk_phase wk"
  by (auto simp: worker_spawned_def split: option.splits)

lemma runner_moves_exec:
  "runner_moves en now aid v ev i (e, s) = (e, s)
   \<or> (\<exists>w wk s'. runner_moves en now aid v ev i (e, s) = (set_worker i (\<lambda>_. w) e, s')
        \<and> map_of (ex_workers e) i = Some wk \<and> wk_packet w = wk_packet wk \<and> wk_phase w = wk_phase wk)"
proof (cases "map_of (ex_workers e) i")
  case (Some wk)
  show ?thesis
  proof (cases "wk_runner wk")
    case None
    then show ?thesis using Some by (simp add: runner_moves_def)
  next
    case (Some r)
    define r' where "r' = runner_step (bg_runtimeMs (wp_budget (wk_packet wk))) (se_owner en \<noteq> None)
      (case ev of Hook_settled _ \<Rightarrow> Hook_settled (wk_hookOk wk) | _ \<Rightarrow> ev) r"
    obtain w1 s1 where w: "(if rn_hookPending r' \<and> \<not> rn_hookPending r then worker_spawned en now aid v e wk s else (wk, s)) = (w1, s1)"
      by (metis surj_pair)
    have "wk_packet w1 = wk_packet wk \<and> wk_phase w1 = wk_phase wk" using w by (auto split: if_splits dest: spawned_packet)
    moreover have "runner_moves en now aid v ev i (e, s) = (set_worker i (\<lambda>_. w1\<lparr>wk_runner := Some r'\<rparr>) e,
        if rn_exits r = [] \<and> rn_exits r' \<noteq> [] then worker_exited en now (last (rn_exits r')) w1 s1 else s1)"
      by (simp only: runner_moves_def prod.case \<open>map_of (ex_workers e) i = Some wk\<close> Some option.case Let_def r'_def [symmetric] w)
    ultimately show ?thesis using \<open>map_of (ex_workers e) i = Some wk\<close> by (intro disjI2) fastforce
  qed
qed (simp add: runner_moves_def)

lemma signal_frame [simp]: "ex_pc (signal f e) = ex_pc e" "ex_pending (signal f e) = ex_pending e" "ex_rec (signal f e) = ex_rec e"
  "length (ex_workers (signal f e)) = length (ex_workers e)" "ex_results (signal f e) = ex_results e" "ex_idle (signal f e) = ex_idle e"
  by (simp_all add: signal_def)

lemma signal_inv: "exec_inv e \<Longrightarrow> exec_inv (signal f e)"
  by (cases "ex_pc e") (simp_all add: exec_inv_def lined_def)

lemma step_inv: "engine_step en n j k \<Longrightarrow> exec_inv (fst j) \<Longrightarrow> exec_inv (fst k)"
proof (induction rule: engine_step.induct)
  case (Main j now fresh)
  then show ?case by (simp add: main_inv)
next
  case (Returns now usage i j)
  then show ?case by (cases j) (metis fst_conv returns_moves set_phase_inv)
next
  case (Unstarted now m i j)
  then show ?case by (cases j) (metis fst_conv unstarted_moves set_phase_inv)
next
  case (Turn now i j)
  then show ?case by (simp add: worker_turn_inv)
next
  case (Runner j now aid v ev i)
  obtain e s where j: "j = (e, s)" by (cases j)
  from runner_moves_exec [of en now aid v ev i e s] show ?case
  proof
    assume "\<exists>w wk s'. runner_moves en now aid v ev i (e, s) = (set_worker i (\<lambda>_. w) e, s')
        \<and> map_of (ex_workers e) i = Some wk \<and> wk_packet w = wk_packet wk \<and> wk_phase w = wk_phase wk"
    then obtain w wk s' where w: "runner_moves en now aid v ev i (e, s) = (set_worker i (\<lambda>_. w) e, s')"
      "map_of (ex_workers e) i = Some wk" "wk_packet w = wk_packet wk" by blast
    have "exec_inv (set_worker i (\<lambda>_. w) e)"
      by (rule set_worker_inv) (use Runner j w named_worker [of e i wk] in simp_all)
    then show ?thesis using j w(1) by simp
  qed (use Runner j in simp)
qed (auto intro: signal_inv)

lemma run_inv: "engine_run en n j k \<Longrightarrow> exec_inv (fst j) \<Longrightarrow> exec_inv (fst k)"
  by (induction rule: engine_run.induct) (auto intro: step_inv)

section \<open>What never changes\<close>

definition static :: "exec \<Rightarrow> work_packet list \<times> int \<times> ident \<times> strategy \<times> repository \<times> run \<times> hooks \<times> time" where
  "static e = (ex_packets e, sr_maxConcurrency (ex_rec e), sr_id (ex_rec e), sr_strategy (ex_rec e), ex_repo e, ex_run e, ex_hooks e,
     ex_started e)"

definition steady :: "('w job, 'a) act \<Rightarrow> bool" where
  "steady m \<longleftrightarrow> (\<forall>j. static (fst (snd (m j))) = static (fst j))"

named_theorems steady_rules

lemma steady_bind [steady_rules]: "steady m \<Longrightarrow> (\<And>x. steady (f x)) \<Longrightarrow> steady (act_bind m f)"
  unfolding steady_def act_bind_def by (auto split: prod.split sum.split) (metis fst_conv snd_conv)+

lemma steady_with_job [steady_rules]: "(\<And>e s. steady (f e s)) \<Longrightarrow> steady (with_job f)"
  by (simp add: steady_def with_job_def split_beta)

lemma steady_basic [steady_rules]: "steady (act_return x)" "steady (on_swarm g)" "steady (emit en now ev)" "steady (raise m)"
  "steady (record_result en now p y)"
  by (auto simp: steady_def act_return_def on_swarm_def emit_def raise_def record_result_def split: sum.splits)

lemma steady_on_exec [steady_rules]: "(\<And>e. static (f e) = static e) \<Longrightarrow> steady (on_exec f)"
  by (simp add: steady_def on_exec_def split_beta)

lemma steady_settle [steady_rules]: "steady (settle en now st b p)"
  unfolding settle_def by (intro steady_rules) (simp add: static_def)

lemma steady_settle_all [steady_rules]: "steady (settle_all en now st b ids)"
  by (induction ids) (auto intro!: steady_rules split: option.split)

lemma steady_goto [steady_rules]: "steady (goto p)"
  by (intro steady_rules) (simp add: static_def)

lemma steady_signal: "static (signal f e) = static e" "static (set_worker i g e) = static e"
  by (simp_all add: static_def signal_def set_worker_def)

lemma steady_top: "steady (exec_top en now)"
  unfolding exec_top_def
  by (auto intro!: steady_rules simp: steady_signal split: control_state.split) (simp_all add: static_def signal_def)

lemma steady_admit: "steady (admit_packet en now fresh p rest l)"
  unfolding admit_packet_def not_admitted_def Let_def
  by (auto intro!: steady_rules simp: static_def split: sum.split prod.split)

lemma steady_consider: "steady (consider_packet en now fresh p rest l)"
  unfolding consider_packet_def permit_packet_def refuse_packet_def Let_def
  by (auto intro!: steady_rules steady_admit split: option.split prod.split)

lemma steady_allocate: "steady (exec_allocate en now fresh p rest l inputs)"
proof -
  have failed: "steady (act_bind (allocation_failed en now m p) (\<lambda>_. goto (PC_scan rest l)) :: ('a job, unit) act)" for m
    unfolding allocation_failed_def by (intro steady_rules) (simp add: static_def)
  have launch: "steady (launch en now p wt rest :: ('a job, unit) act)" for wt
    unfolding launch_def by (intro steady_rules) (simp add: static_def split: prod.split)
  show ?thesis
    using failed launch by (auto simp: steady_def exec_allocate_def Let_def split: prod.split sum.split)
qed

lemma steady_wait: "steady (exec_wait en now l)"
  unfolding exec_wait_def by (auto intro!: steady_rules simp: static_def)

lemma steady_report [steady_rules]: "steady (write_report now cs xs i st b)"
  unfolding write_report_def by (intro steady_rules) (simp add: static_def)

lemma steady_end: "steady (exec_final now)" "steady (exec_integrate en fresh now cs xs)" "steady (exec_staging en st b rep)"
  "steady (exec_release en now st b rep i ids)" "steady (exec_store en now st b rep)" "steady (exec_begin en now)"
proof -
  show "steady (exec_final now)"
    unfolding exec_final_def Let_def by (auto intro!: steady_rules split: control_state.split)
  have "steady (land_dag en now xs)" "steady (integrate_swarm en fresh now xs)"
    by (auto simp: steady_def land_dag_def integrate_swarm_def split: prod.split option.split list.split)
  then show "steady (exec_integrate en fresh now cs xs)"
    unfolding exec_integrate_def by (auto intro!: steady_rules)
  show "steady (exec_staging en st b rep)" "steady (exec_release en now st b rep i ids)"
    unfolding exec_staging_def exec_release_def by (auto intro!: steady_rules)
  show "steady (exec_store en now st b rep)" "steady (exec_begin en now)"
    by (auto simp: steady_def exec_store_def exec_begin_def static_def Let_def split: prod.split)
qed

lemma steady_act: "steady (exec_act en now fresh p)"
  by (auto simp: exec_act_def split: pc.split list.split
      intro!: steady_goto steady_top steady_consider steady_allocate steady_wait steady_end steady_basic(1))

lemma static_step: "engine_step en n j k \<Longrightarrow> static (fst k) = static (fst j)"
proof (induction rule: engine_step.induct)
  case (Main j now fresh)
  obtain x e' s' where r: "exec_act en now fresh (ex_pc (fst j)) j = (x, e', s')" by (metis surj_pair)
  then have "static e' = static (fst j)" using steady_act [of en now fresh "ex_pc (fst j)"] unfolding steady_def by (metis fst_conv snd_conv)
  then show ?case using r by (auto simp: exec_main_def static_def split: sum.split)
next
  case (Returns now usage i j)
  then show ?case by (cases j) (metis fst_conv returns_moves steady_signal(2))
next
  case (Unstarted now m i j)
  then show ?case by (cases j) (metis fst_conv unstarted_moves steady_signal(2))
next
  case (Turn now i j)
  obtain e s where j: "j = (e, s)" by (cases j)
  have "moved i e e' \<Longrightarrow> static e' = static e" for e'
    by (auto simp: moved_def steady_signal) (simp add: static_def)
  then show ?case using j worker_turn_moves [of e i _ en now s]
    by (cases "map_of (ex_workers e) i") (auto simp: worker_turn_def)
next
  case (Runner j now aid v ev i)
  then show ?case
    using runner_moves_exec [of en now aid v ev i "fst j" "snd j"] by (auto simp: steady_signal)
qed (simp_all add: steady_signal)

lemma static_run: "engine_run en n j k \<Longrightarrow> static (fst k) = static (fst j)"
  by (induction rule: engine_run.induct) (auto dest: static_step)

section \<open>Every run\<close>

lemma js_set_distinct: "distinct xs \<Longrightarrow> js_set xs = xs"
  by (simp add: js_set_def distinct_remdups_id)

lemma fold_update_fresh:
  "distinct (map fst (al @ kvs)) \<Longrightarrow> fold (\<lambda>(i, x). AList.update i x) kvs al = al @ kvs"
proof (induction kvs arbitrary: al)
  case (Cons kv kvs)
  then show ?case by (cases kv) (simp add: alist_update_new)
qed simp

lemma known_ids:
  "map fst (List.map_filter (\<lambda>p. map_option (\<lambda>x. (wp_id p, x)) (f p)) ps) = map wp_id (filter (\<lambda>p. f p \<noteq> None) ps)"
  by (induction ps) (auto simp: map_filter_simps split: option.split)

lemma start_inv:
  assumes d: "distinct (map wp_id packets)" and m: "0 \<le> sr_maxConcurrency rec"
  shows "exec_inv (fst (exec_start en now rec r ru packets hk s))"
proof -
  obtain db where db: "fst (exec_start en now rec r ru packets hk s) =
     (let known = List.map_filter (\<lambda>p. map_option (\<lambda>x. (wp_id p, x)) (completed_before db p)) packets in
       \<lparr>ex_rec = rec, ex_repo = r, ex_run = ru, ex_packets = packets, ex_hooks = hk, ex_started = now, ex_pc = PC_begin,
           ex_pending = filter (\<lambda>i. i \<notin> set (map fst known)) (js_set (map wp_id packets)),
           ex_results = fold (\<lambda>(i, x). AList.update i x) known [], ex_workers = [], ex_queued = [], ex_idle = 0, ex_base = None\<rparr>)"
    by (simp add: exec_start_def Let_def)
  let ?known = "List.map_filter (\<lambda>p. map_option (\<lambda>x. (wp_id p, x)) (completed_before db p)) packets"
  let ?done = "\<lambda>p. completed_before db p \<noteq> None"
  have k: "map fst ?known = map wp_id (filter ?done packets)" by (rule known_ids)
  have f: "fold (\<lambda>(i, x). AList.update i x) ?known [] = [] @ ?known"
    by (rule fold_update_fresh) (use d in \<open>simp add: k distinct_map inj_on_def\<close>)
  have p: "filter (\<lambda>i. i \<notin> set (map fst ?known)) (map wp_id packets) = map wp_id (filter (\<lambda>p. \<not> ?done p) packets)"
    unfolding k filter_map comp_def
    by (rule arg_cong [where f = "map wp_id"], rule filter_cong) (use d in \<open>auto simp: distinct_map inj_on_def\<close>)
  have "mset (map wp_id (filter (\<lambda>p. \<not> ?done p) packets) @ map wp_id (filter ?done packets)) = mset (map wp_id packets)"
    by (induction packets) auto
  then have "mset (map wp_id (filter (\<lambda>p. \<not> ?done p) packets) @ [] @ map fst ?known) = mset (map wp_id packets)"
    by (simp only: k append_Nil)
  then show ?thesis
    using d m unfolding db Let_def js_set_distinct [OF d] p f
    by (simp add: exec_inv_def books_kept_def accounted_def packet_ids_def within_limit_def workers_named_def del: mset_map)
qed

lemma start_static:
  "static (fst (exec_start en now rec r ru packets hk s)) = (packets, sr_maxConcurrency rec, sr_id rec, sr_strategy rec, r, ru, hk, now)"
  by (simp add: exec_start_def Let_def static_def)

text \<open>
  The books of a strategy balance. Whatever order the loop, the workers, the controls and the rest
  of the controller come in, and whatever fails, each packet of the strategy is at every moment exactly one
  of: pending, with a worker, or with a result in hand.
\<close>

theorem every_packet_accounted:
  assumes "distinct (map wp_id packets)" and "0 \<le> sr_maxConcurrency rec"
    and "engine_run en n (exec_start en now rec r ru packets hk s) (e, s')"
  shows "mset (ex_pending e @ map fst (ex_workers e) @ map fst (ex_results e)) = mset (map wp_id packets)"
proof -
  have "exec_inv e" using run_inv [OF assms(3) start_inv [OF assms(1,2)]] by simp
  moreover have "ex_packets e = packets" using static_run [OF assms(3)] by (simp add: start_static) (simp add: static_def)
  ultimately show ?thesis by (simp add: exec_inv_def books_kept_def accounted_def packet_ids_def)
qed

text \<open>
  The concurrency of a strategy is bounded: no interleaving has more workers than the strategy's
  \<open>maxConcurrency\<close>, though workers are counted before a worktree is allocated and added after it.
\<close>

theorem concurrency_never_exceeded:
  assumes "distinct (map wp_id packets)" and "0 \<le> sr_maxConcurrency rec"
    and "engine_run en n (exec_start en now rec r ru packets hk s) (e, s')"
  shows "int (length (ex_workers e)) \<le> sr_maxConcurrency rec"
proof -
  have "exec_inv e" using run_inv [OF assms(3) start_inv [OF assms(1,2)]] by simp
  moreover have "sr_maxConcurrency (ex_rec e) = sr_maxConcurrency rec"
    using static_run [OF assms(3)] by (simp add: start_static) (simp add: static_def)
  ultimately show ?thesis by (simp add: exec_inv_def books_kept_def within_limit_def)
qed

end
