(* ===== verification/Engine_Termination.thy ===== *)
theory Engine_Termination
  imports Engine_Laws
begin

text \<open>
  The loop of \<open>executeRecord\<close> ends. Every step of the loop and of a worker's promise lowers a measure:
  first what is left to do (pending packets and the phases of the workers), then the idle polls that are
  left, then the place in the program. The bound is explicit in the number of packets. One case is
  excluded, and shown to spin: a worker whose promise is rejected stays in the map for ever.
\<close>

section \<open>The measure\<close>

fun phase_weight :: "phase \<Rightarrow> nat" where
  "phase_weight W_running = 5"
| "phase_weight (W_result x) = 4"
| "phase_weight (W_staging x) = 3"
| "phase_weight (W_failed m) = 2"
| "phase_weight W_rejected = 1"

definition open_work :: "exec \<Rightarrow> nat" where
  "open_work e = 6 * length (ex_pending e) + (\<Sum>x \<leftarrow> ex_workers e. phase_weight (wk_phase (snd x)))"

definition polls_left :: "exec \<Rightarrow> nat" where
  "polls_left e = (if ex_workers e \<noteq> [] then 602 else 601 - ex_idle e)"

definition pass_rank :: "nat \<Rightarrow> nat" where
  "pass_rank n = 3 * n + 11"

text \<open>The place: end, integration, waiting, scan without a launch, top of the loop, scan with a launch.\<close>

definition place :: "exec \<Rightarrow> nat" where
  "place e = (let n = length (ex_packets e) in case ex_pc e of
       PC_end \<Rightarrow> 0
     | PC_release _ _ _ ids \<Rightarrow> 1 + length ids
     | PC_staging _ _ _ \<Rightarrow> n + 2
     | PC_integrate _ _ \<Rightarrow> n + 3
     | PC_final \<Rightarrow> n + 4
     | PC_pausing \<Rightarrow> n + 5
     | PC_top \<Rightarrow> if ex_pending e = [] \<and> ex_workers e = [] then n + 6 else pass_rank n
     | PC_race ids \<Rightarrow> if list_ex (left_or_rejected e) ids then pass_rank n + 1 else n + 7
     | PC_wait l \<Rightarrow> if l then pass_rank n + 2 else n + 8
     | PC_killing \<Rightarrow> n + 9
     | PC_scan rest l \<Rightarrow> (if l then pass_rank n + 2 else n + 9) + 2 * length rest + 1
     | PC_allocate _ rest l _ \<Rightarrow> (if l then pass_rank n + 2 else n + 9) + 2 * length rest + 2
     | PC_delay \<Rightarrow> pass_rank n + 1
     | PC_begin \<Rightarrow> pass_rank n + 1)"

definition steps_left :: "exec \<Rightarrow> nat" where
  "steps_left e = (open_work e * 603 + polls_left e) * (5 * length (ex_packets e) + 17) + place e"

definition progress :: "exec \<Rightarrow> exec \<Rightarrow> bool" where
  "progress e e' \<longleftrightarrow> open_work e' < open_work e
     \<or> open_work e' = open_work e \<and> (polls_left e' < polls_left e \<or> polls_left e' = polls_left e \<and> place e' < place e)"

lemma progress_steps:
  assumes "progress e e'" and "ex_packets e' = ex_packets e" and "place e' < 5 * length (ex_packets e) + 17"
  shows "steps_left e' < steps_left e"
proof -
  let ?B = "5 * length (ex_packets e) + 17"
  have p: "polls_left e' \<le> 602" by (auto simp: polls_left_def intro: le_trans [OF diff_le_self])
  consider "open_work e' * 603 + polls_left e' < open_work e * 603 + polls_left e"
    | "open_work e' * 603 + polls_left e' = open_work e * 603 + polls_left e" "place e' < place e"
    using assms(1) p unfolding progress_def by linarith
  then show ?thesis
  proof cases
    case 1
    then have "(open_work e' * 603 + polls_left e' + 1) * ?B \<le> (open_work e * 603 + polls_left e) * ?B"
      by (intro mult_right_mono) simp_all
    then show ?thesis using assms(2,3) by (simp add: steps_left_def add_mult_distrib)
  qed (simp add: steps_left_def assms(2))
qed

text \<open>The place is bounded where the invariant holds.\<close>

lemma lined_length:
  assumes "lined ids e"
  shows "length ids \<le> length (ex_packets e)"
proof -
  have "mset (ex_pending e @ map fst (ex_workers e) @ map fst (ex_results e)) = mset (packet_ids e)"
    using assms by (simp add: lined_def books_kept_def accounted_def del: mset_map)
  then have "length (ex_pending e @ map fst (ex_workers e) @ map fst (ex_results e)) = length (packet_ids e)" by (rule mset_eq_length)
  then have "length (ex_pending e) \<le> length (ex_packets e)" by (simp add: packet_ids_def)
  moreover have "length ids \<le> length (ex_pending e)"
    using assms distinct_card [of ids] card_mono [of "set (ex_pending e)" "set ids"] card_length [of "ex_pending e"]
    by (auto simp: lined_def)
  ultimately show ?thesis by simp
qed

definition release_ok :: "exec \<Rightarrow> bool" where
  "release_ok e \<longleftrightarrow> (case ex_pc e of PC_release _ _ _ ids \<Rightarrow> length ids \<le> length (ex_packets e)
     | PC_race ids \<Rightarrow> ids \<noteq> [] | _ \<Rightarrow> True)"

lemma place_bound:
  assumes "exec_inv e" and "release_ok e"
  shows "place e < 5 * length (ex_packets e) + 17"
proof (cases "ex_pc e")
  case (PC_scan rest l)
  then show ?thesis using assms(1) lined_length [of "map wp_id rest" e] by (simp add: place_def pass_rank_def exec_inv_def Let_def)
next
  case (PC_allocate p rest l inputs)
  then show ?thesis
    using assms(1) lined_length [of "map wp_id (p # rest)" e] by (simp add: place_def pass_rank_def exec_inv_def Let_def)
qed (use assms in \<open>simp_all add: place_def pass_rank_def release_ok_def Let_def\<close>)

section \<open>Every step of the loop lowers it\<close>

text \<open>\<open>kept\<close>: what an action leaves of the work it started with.\<close>

definition kept :: "exec \<Rightarrow> exec \<Rightarrow> bool" where
  "kept e0 e \<longleftrightarrow> open_work e \<le> open_work e0 \<and> ex_workers e = ex_workers e0 \<and> ex_idle e = ex_idle e0 \<and> ex_packets e = ex_packets e0"

definition lowered :: "exec \<Rightarrow> exec \<Rightarrow> bool" where
  "lowered e0 e \<longleftrightarrow> kept e0 e \<and> open_work e < open_work e0"

definition no_more :: "exec \<Rightarrow> exec \<Rightarrow> bool" where
  "no_more e0 e \<longleftrightarrow> open_work e < open_work e0 \<or> open_work e = open_work e0 \<and> polls_left e \<le> polls_left e0"

lemma ens_conj: "ens P m Q R \<Longrightarrow> ens P' m Q' R' \<Longrightarrow> ens (\<lambda>e. P e \<and> P' e) m (\<lambda>e. Q e \<and> Q' e) (\<lambda>e. R e \<and> R' e)"
  by (rule ensI) (auto dest: ensD split: sum.splits)

lemma ens_post: "ens P m Q R \<Longrightarrow> (\<And>e. Q e \<Longrightarrow> Q' e) \<Longrightarrow> (\<And>e. R e \<Longrightarrow> R' e) \<Longrightarrow> ens P m Q' R'"
  by (rule ensI) (auto dest: ensD split: sum.splits)

lemma kept_refl [simp]: "kept e e"
  by (simp add: kept_def)

lemma work_frame [simp]: "open_work (e\<lparr>ex_pc := q\<rparr>) = open_work e" "polls_left (e\<lparr>ex_pc := q\<rparr>) = polls_left e"
  "open_work (e\<lparr>ex_queued := qs\<rparr>) = open_work e" "open_work (e\<lparr>ex_idle := k\<rparr>) = open_work e"
  by (simp_all add: open_work_def polls_left_def)

lemma kept_frame [simp]: "kept e0 (e\<lparr>ex_pc := q\<rparr>) = kept e0 e" "kept e0 (e\<lparr>ex_queued := qs\<rparr>) = kept e0 e"
  by (simp_all add: kept_def)

lemma open_work_settle:
  assumes "i \<in> set (ex_pending e)"
  shows "open_work (e\<lparr>ex_results := xs, ex_pending := removeAll i (ex_pending e)\<rparr>) < open_work e"
proof -
  have "length (removeAll i (ex_pending e)) < length (ex_pending e)" by (rule length_removeAll_less [OF assms])
  then show ?thesis by (simp add: open_work_def)
qed

lemma ens_settle_work:
  "ens (\<lambda>e. kept e0 e \<and> wp_id p \<in> set (ex_pending e)) (settle en now st b p) (lowered e0) (kept e0)"
  unfolding settle_def
proof (rule ens_bind [OF ens_record], simp, rule ens_on_exec)
  fix y e
  assume k: "kept e0 e \<and> wp_id p \<in> set (ex_pending e)"
  show "lowered e0 (e\<lparr>ex_results := AList.update (wp_id p) y (ex_results e), ex_pending := removeAll (wp_id p) (ex_pending e)\<rparr>)"
    using k open_work_settle [of "wp_id p" e "AList.update (wp_id p) y (ex_results e)"] by (simp add: lowered_def kept_def)
qed

lemma ens_settle_all_work:
  "ens (\<lambda>e. kept e0 e \<and> lined ids e) (settle_all en now st b ids) (\<lambda>e. kept e0 e \<and> (ids = [] \<or> lowered e0 e)) (kept e0)"
proof (induction ids arbitrary: e0)
  case Nil
  show ?case by (auto intro: ens_rules)
next
  case (Cons i ids)
  show ?case
    unfolding settle_all.simps
  proof (rule ens_with_job)
    fix e and s :: "'a swarm"
    assume k: "kept e0 e \<and> lined (i # ids) e"
    show "ens (\<lambda>e'. e' = e) (case tbl_get wp_id i (ex_packets e) of None \<Rightarrow> raise ''Cannot read properties of undefined''
        | Some p \<Rightarrow> act_bind (settle en now st b p) (\<lambda>_. settle_all en now st b ids))
        (\<lambda>e. kept e0 e \<and> (i # ids = [] \<or> lowered e0 e)) (kept e0)"
    proof (cases "tbl_get wp_id i (ex_packets e)")
      case None
      then show ?thesis using k by (auto intro: ens_raise)
    next
      case (Some p)
      then have i: "wp_id p = i" by (rule tbl_get_key)
      have one: "ens (\<lambda>e'. e' = e) (settle en now st b p) (\<lambda>e'. lowered e0 e' \<and> lined ids e') (kept e0)"
        by (rule ens_post [OF ens_pre [OF ens_conj [OF ens_settle_work [of e0] ens_settle]]])
          (use k i in \<open>auto simp: lined_def\<close>)
      have rest: "ens (\<lambda>e'. lowered e0 e' \<and> lined ids e') (settle_all en now st b ids) (\<lambda>e'. kept e0 e' \<and> (i # ids = [] \<or> lowered e0 e')) (kept e0)"
      proof (rule ensI)
        fix e1 and s1 :: "'a swarm" and x e2 s2
        assume "lowered e0 e1 \<and> lined ids e1" and r: "settle_all en now st b ids (e1, s1) = (x, e2, s2)"
        then show "case x of Inr _ \<Rightarrow> kept e0 e2 \<and> (i # ids = [] \<or> lowered e0 e2) | Inl _ \<Rightarrow> kept e0 e2"
          using ensD [OF Cons [of e1] _ r] by (auto simp: lowered_def kept_def split: sum.splits)
      qed
      show ?thesis unfolding Some option.case by (rule ens_bind [OF one rest])
    qed
  qed
qed

text \<open>A jump makes progress if the work was lowered, or if it goes to a lower place.\<close>

lemma jump_progress:
  assumes "kept e0 e" and "lowered e0 e \<or> place (e\<lparr>ex_pc := q\<rparr>) < place e0"
  shows "progress e0 (e\<lparr>ex_pc := q\<rparr>)"
  using assms by (auto simp: progress_def lowered_def kept_def polls_left_def)

lemma ens_jump:
  "(\<And>e. P e \<Longrightarrow> kept e0 e \<and> (lowered e0 e \<or> place (e\<lparr>ex_pc := q\<rparr>) < place e0)) \<Longrightarrow> ens P (goto q) (progress e0) R"
  by (rule ens_on_exec) (auto intro: jump_progress)

lemma kept_empty: "kept e0 e \<Longrightarrow> \<not> lowered e0 e \<Longrightarrow> length (ex_pending e) = length (ex_pending e0)"
  by (auto simp: kept_def lowered_def open_work_def)

lemma place_simps:
  "ex_packets e = ex_packets e0 \<Longrightarrow> place (e\<lparr>ex_pc := PC_scan rest l\<rparr>) =
     (if l then pass_rank (length (ex_packets e0)) + 2 else length (ex_packets e0) + 9) + 2 * length rest + 1"
  "ex_packets e = ex_packets e0 \<Longrightarrow> place (e\<lparr>ex_pc := PC_wait l\<rparr>) =
     (if l then pass_rank (length (ex_packets e0)) + 2 else length (ex_packets e0) + 8)"
  "ex_packets e = ex_packets e0 \<Longrightarrow> place (e\<lparr>ex_pc := PC_allocate p rest l inputs\<rparr>) =
     (if l then pass_rank (length (ex_packets e0)) + 2 else length (ex_packets e0) + 9) + 2 * length rest + 2"
  "ex_packets e = ex_packets e0 \<Longrightarrow> place (e\<lparr>ex_pc := PC_killing\<rparr>) = length (ex_packets e0) + 9"
  "ex_packets e = ex_packets e0 \<Longrightarrow> place (e\<lparr>ex_pc := PC_final\<rparr>) = length (ex_packets e0) + 4"
  "ex_packets e = ex_packets e0 \<Longrightarrow> place (e\<lparr>ex_pc := PC_pausing\<rparr>) = length (ex_packets e0) + 5"
  "ex_packets e = ex_packets e0 \<Longrightarrow> place (e\<lparr>ex_pc := PC_integrate cs xs\<rparr>) = length (ex_packets e0) + 3"
  "ex_packets e = ex_packets e0 \<Longrightarrow> place (e\<lparr>ex_pc := PC_staging st b rep\<rparr>) = length (ex_packets e0) + 2"
  "place (e\<lparr>ex_pc := PC_release st b rep ids\<rparr>) = 1 + length ids"
  "ex_packets e = ex_packets e0 \<Longrightarrow> place (e\<lparr>ex_pc := PC_top\<rparr>) \<le> pass_rank (length (ex_packets e0))"
  by (simp_all add: place_def Let_def pass_rank_def)

lemma kept_packets: "kept e0 e \<Longrightarrow> ex_packets e = ex_packets e0"
  by (simp add: kept_def)

lemma lowered_kept: "lowered e0 e \<Longrightarrow> kept e0 e"
  by (simp add: lowered_def)

lemma work_top:
  assumes "exec_inv e0" and pc: "ex_pc e0 = PC_top"
  shows "ens (\<lambda>e. e = e0) (exec_top en now) (progress e0) (kept e0)"
  unfolding exec_top_def
proof (rule ens_with_job)
  fix e and s :: "'a swarm"
  assume e: "e = e0"
  let ?n = "length (ex_packets e0)"
  have b: "books_kept e0" using assms by (simp add: exec_inv_def)
  have top: "place e0 = (if ex_pending e0 = [] \<and> ex_workers e0 = [] then ?n + 6 else pass_rank ?n)"
    by (simp add: place_def pc Let_def)
  have all: "ens (\<lambda>e'. e' = e) (settle_all en now st m (ex_pending e)) (kept e0) (kept e0)" for st m
    by (rule ens_post [OF ens_pre [OF ens_settle_all_work [of e0 "ex_pending e"]]]) (auto simp: e pending_lined [OF b])
  have sorted: "length (filter P (ex_packets e0)) \<le> ?n" for P by (rule length_filter_le)
  show "ens (\<lambda>e'. e' = e) (if ex_pending e = [] \<and> ex_workers e = [] then goto PC_final
     else (case control_state_of (sr_id (ex_rec e)) s of
         PAUSE_REQUESTED \<Rightarrow> on_exec (\<lambda>e. (signal runner_pause e)\<lparr>ex_pc := PC_pausing\<rparr>)
       | KILL_REQUESTED \<Rightarrow> act_bind (settle_all en now RS_CANCELLED ''EMERGENCY_KILLED: swarm worker was not started.'' (ex_pending e))
           (\<lambda>_. on_exec (\<lambda>e. (signal runner_kill e)\<lparr>ex_pc := PC_killing\<rparr>))
       | STOP_REQUESTED \<Rightarrow> act_bind (settle_all en now RS_CANCELLED ''USER_STOP: swarm worker was not started.'' (ex_pending e))
           (\<lambda>_. goto (PC_wait False))
       | CS_NONE \<Rightarrow> goto (PC_scan (sort_key (\<lambda>p. se_coll en (wp_id p))
           (filter (\<lambda>p. wp_id p \<in> set (ex_pending e)) (ex_packets e))) False))) (progress e0) (kept e0)"
  proof (rule ens_if)
    assume "ex_pending e = [] \<and> ex_workers e = []"
    then show "ens (\<lambda>e'. e' = e) (goto PC_final) (progress e0) (kept e0)"
      using e by (auto intro!: ens_jump simp: place_simps top)
  next
    assume busy: "\<not> (ex_pending e = [] \<and> ex_workers e = [])"
    have sig: "progress e0 ((signal f e1)\<lparr>ex_pc := q\<rparr>)" if "kept e0 e1" "q = PC_pausing \<or> q = PC_killing" for f e1 q
    proof -
      have k: "open_work (signal f e1) = open_work e1" "polls_left (signal f e1) = polls_left e1" "ex_packets (signal f e1) = ex_packets e1"
        by (auto simp: open_work_def polls_left_def signal_def split_beta comp_def)
      have "polls_left e1 = polls_left e0" "open_work e1 \<le> open_work e0" "ex_packets e1 = ex_packets e0"
        using that(1) by (simp_all add: kept_def polls_left_def)
      then show ?thesis using that(2) busy e k by (auto simp: progress_def place_simps top pass_rank_def)
    qed
    show "ens (\<lambda>e'. e' = e) (case control_state_of (sr_id (ex_rec e)) s of
         PAUSE_REQUESTED \<Rightarrow> on_exec (\<lambda>e. (signal runner_pause e)\<lparr>ex_pc := PC_pausing\<rparr>)
       | KILL_REQUESTED \<Rightarrow> act_bind (settle_all en now RS_CANCELLED ''EMERGENCY_KILLED: swarm worker was not started.'' (ex_pending e))
           (\<lambda>_. on_exec (\<lambda>e. (signal runner_kill e)\<lparr>ex_pc := PC_killing\<rparr>))
       | STOP_REQUESTED \<Rightarrow> act_bind (settle_all en now RS_CANCELLED ''USER_STOP: swarm worker was not started.'' (ex_pending e))
           (\<lambda>_. goto (PC_wait False))
       | CS_NONE \<Rightarrow> goto (PC_scan (sort_key (\<lambda>p. se_coll en (wp_id p))
           (filter (\<lambda>p. wp_id p \<in> set (ex_pending e)) (ex_packets e))) False)) (progress e0) (kept e0)"
    proof (cases "control_state_of (sr_id (ex_rec e)) s")
      case CS_NONE
      then show ?thesis using busy e sorted by (auto intro!: ens_jump simp: place_simps top pass_rank_def le_imp_less_Suc)
    next
      case PAUSE_REQUESTED
      then show ?thesis using e sig by (auto intro!: ens_on_exec)
    next
      case KILL_REQUESTED
      then show ?thesis using sig by (auto intro!: ens_bind [OF all] ens_on_exec)
    next
      case STOP_REQUESTED
      have "ens (kept e0) (goto (PC_wait False)) (progress e0) (kept e0)"
        by (rule ens_jump) (use busy e in \<open>auto simp: place_simps top pass_rank_def kept_packets\<close>)
      then show ?thesis unfolding STOP_REQUESTED control_state.case by (rule ens_bind [OF all])
    qed
  qed
qed

lemma scan_down:
  assumes "ex_pc e0 = PC_scan (p # rest) l" and "kept e0 e"
  shows "place (e\<lparr>ex_pc := PC_scan rest l\<rparr>) < place e0" "place (e\<lparr>ex_pc := PC_wait l\<rparr>) < place e0"
    "place (e\<lparr>ex_pc := PC_allocate p rest l inputs\<rparr>) < place e0"
  using assms by (simp_all add: place_simps kept_packets) (simp_all add: place_def Let_def)

lemma work_consider:
  assumes "exec_inv e0" and pc: "ex_pc e0 = PC_scan (p # rest) l"
  shows "ens (\<lambda>e. e = e0) (consider_packet en now fresh p rest l) (progress e0) (kept e0)"
proof -
  have here: "kept e0 e0 \<and> wp_id p \<in> set (ex_pending e0)" using assms by (simp add: exec_inv_def lined_def)
  have go: "ens (\<lambda>e. kept e0 e) (goto (PC_scan rest l)) (progress e0) R" "ens (\<lambda>e. kept e0 e) (goto (PC_wait l)) (progress e0) R"
    "ens (\<lambda>e. kept e0 e) (goto (PC_allocate p rest l inputs)) (progress e0) R" for R inputs
    by (auto intro!: ens_jump simp: scan_down [OF pc])
  have settled: "ens (\<lambda>e. kept e0 e \<and> wp_id p \<in> set (ex_pending e)) (settle en now st m p) (kept e0) (kept e0)" for st m
    by (rule ens_post [OF ens_settle_work]) (auto simp: lowered_def)
  have not_admitted: "ens (\<lambda>e. e = e0) (act_bind (not_admitted en now d p) (\<lambda>_. goto (PC_scan rest l))) (progress e0) (kept e0)" for d
    unfolding not_admitted_def Let_def
  proof (rule ens_bind [OF ens_with_job go(1)], rule ens_bind [where Q = "\<lambda>e. kept e0 e \<and> wp_id p \<in> set (ex_pending e)"])
    fix e and s :: "'a swarm" and x :: unit
    assume e: "e = e0"
    show "ens (\<lambda>e'. e' = e) (if sd_status d = QUEUED \<and> request_id (sr_id (ex_rec e)) (wp_id p) \<notin> set (ex_queued e)
        then act_bind (on_exec (\<lambda>e'. e'\<lparr>ex_queued := ex_queued e' @ [request_id (sr_id (ex_rec e)) (wp_id p)]\<rparr>)) (\<lambda>_.
          emit en now (\<lambda>e. (job_event e EV_worker_queued now)\<lparr>ev_packet := Some (wp_id p), ev_reason := Some (sd_reason d)\<rparr>))
        else act_return ()) (\<lambda>e. kept e0 e \<and> wp_id p \<in> set (ex_pending e)) (kept e0)"
      using here e
      by (auto intro!: ens_if ens_rules ens_bind [OF ens_on_exec [where Q = "\<lambda>e. kept e0 e \<and> wp_id p \<in> set (ex_pending e)"]])
    show "ens (\<lambda>e. kept e0 e \<and> wp_id p \<in> set (ex_pending e))
        (if sd_status d = REJECTED then settle en now RS_BLOCKED (''SCHEDULER_REJECTED: '' @ sd_reason d) p else act_return ()) (kept e0) (kept e0)"
      by (auto intro!: ens_if ens_rules settled)
  qed
  have refuse: "ens (\<lambda>e. e = e0) (act_bind (refuse_packet en now oc p) (\<lambda>_. goto (PC_scan rest l))) (progress e0) (kept e0)" for oc
    unfolding refuse_packet_def
    by (rule ens_bind [OF ens_pre [OF ens_bind [OF ens_on_swarm ens_bind [OF ens_emit settled]]] go(1)]) (simp add: here)
  have admitted: "ens (\<lambda>e. e = e0) (act_bind (on_swarm f) (\<lambda>_. if c then act_bind (not_admitted en now d p) (\<lambda>_. goto (PC_scan rest l))
         else act_bind (on_swarm g) (\<lambda>_. goto (PC_allocate p rest l inputs)))) (progress e0) (kept e0)" for c d f g inputs
    by (rule ens_bind [OF ens_on_swarm], rule ens_if)
      (auto intro: not_admitted ens_bind [OF ens_on_swarm ens_pre [OF go(3)]])
  have admit: "ens (\<lambda>e. e = e0) (admit_packet en now fresh p rest l) (progress e0) (kept e0)"
    unfolding admit_packet_def
    by (rule ens_with_job) (simp only: split: sum.split prod.split, intro conjI allI impI; (rule ens_raise, simp | simp only:, rule admitted)?)
  have permit: "ens (\<lambda>e. e = e0) (permit_packet en now fresh p rest l) (progress e0) (kept e0)"
    unfolding permit_packet_def
  proof (rule ens_with_job)
    fix e and s :: "'a swarm"
    assume e: "e = e0"
    have "ens (\<lambda>e'. e' = e) (act_bind (on_swarm f) (\<lambda>_.
         if c then act_bind (refuse_packet en now oc p) (\<lambda>_. goto (PC_scan rest l))
         else admit_packet en now fresh p rest l)) (progress e0) (kept e0)" for f oc c
      unfolding e by (rule ens_bind [OF ens_on_swarm], rule ens_if) (rule refuse, rule admit)
    then show "ens (\<lambda>e'. e' = e) (case evaluateWritePermission (se_policy en) (fresh ''permission'') now (ry_id (ex_repo e)) (ru_id (ex_run e))
          (ru_iter (ex_run e)) p (sm_perm s) of
       None \<Rightarrow> raise (se_sqlMessage en)
     | Some (oc, perm) \<Rightarrow> act_bind (on_swarm (sm_perm_update (\<lambda>_. perm))) (\<lambda>_.
         if oc = ASK \<or> oc = DENY then act_bind (refuse_packet en now oc p) (\<lambda>_. goto (PC_scan rest l))
         else admit_packet en now fresh p rest l)) (progress e0) (kept e0)"
      using e by (auto intro: ens_raise split: option.split prod.split)
  qed
  show ?thesis
    unfolding consider_packet_def Let_def
    by (intro ens_with_job ens_if)
      (auto intro: ens_pre [OF go(1)] ens_pre [OF go(2)] permit ens_bind [OF ens_pre [OF settled] go(1)] simp: here)
qed

text \<open>A launch turns six into at most five; a settled or failed allocation lowers the work too.\<close>

lemma first_phase_weight: "first_phase en e p = (ph, rn) \<Longrightarrow> phase_weight ph \<le> 5"
  by (auto simp: first_phase_def split: sum.splits)

lemma work_allocate:
  assumes "exec_inv e0" and pc: "ex_pc e0 = PC_allocate p rest l inputs"
  shows "ens (\<lambda>e. e = e0) (exec_allocate en now fresh p rest l inputs) (progress e0) (kept e0)"
proof (rule ensI)
  fix e and s :: "'a swarm" and x e' s'
  assume e: "e = e0" and r: "exec_allocate en now fresh p rest l inputs (e, s) = (x, e', s')"
  have i: "wp_id p \<in> set (ex_pending e0)" and a: "accounted e0" using assms by (simp_all add: exec_inv_def lined_def books_kept_def)
  then have new: "wp_id p \<notin> set (map fst (ex_workers e0))" using books_distinct [OF a] by auto
  obtain y db w where al: "allocate (se_wt en) (fresh ''worktree'') now (ex_repo e) p (ex_base e) (replay_for en e inputs) (sm_db s, sm_world s)
      = (y, db, w)" by (metis surj_pair)
  show "case x of Inr _ \<Rightarrow> progress e0 e' | Inl _ \<Rightarrow> kept e0 e'"
  proof (cases y)
    case (Inl m)
    have "ens (\<lambda>e. e = e0) (act_bind (allocation_failed en now m p) (\<lambda>_. goto (PC_scan rest l))) (progress e0) (kept e0)"
      unfolding allocation_failed_def
      by (rule ens_bind [OF ens_with_job ens_jump [where P = "lowered e0"]], rule ens_bind [OF ens_on_swarm ens_pre [OF ens_settle_work]])
        (auto simp: i lowered_kept)
    from ensD [OF this e] show ?thesis using r al Inl by (simp add: exec_allocate_def)
  next
    case (Inr wt)
    obtain ph rn where f: "first_phase en e p = (ph, rn)" by (cases "first_phase en e p")
    have len: "Suc (length (removeAll (wp_id p) (ex_pending e0))) = length (ex_pending e0)"
      using mset_removeAll_distinct [OF _ i] books_distinct [OF a] by (metis distinct_append size_add_mset size_mset)
    have "\<exists>s''. launch en now p wt rest (e, s'') = (x, e', s')" using r al Inr by (auto simp: exec_allocate_def Let_def)
    then obtain s'' where "launch en now p wt rest (e, s'') = (x, e', s')" ..
    then have e': "e' = e\<lparr>ex_pending := removeAll (wp_id p) (ex_pending e),
          ex_workers := AList.update (wp_id p) \<lparr>wk_packet = p, wk_request = request_id (sr_id (ex_rec e)) (wp_id p), wk_tree = wt,
            wk_runner = rn, wk_attempt = None, wk_hookOk = True, wk_phase = ph\<rparr> (ex_workers e), ex_pc := PC_scan rest True\<rparr>" "isl x = False"
      by (auto simp: launch_def act_bind_def on_exec_def emit_def f)
    have "open_work e' < open_work e0"
      using len first_phase_weight [OF f] by (simp add: e' e open_work_def alist_update_new [OF new])
    then show ?thesis using e'(2) by (cases x) (simp_all add: progress_def)
  qed
qed

lemma work_wait:
  assumes "exec_inv e0" and pc: "ex_pc e0 = PC_wait l" and calm: "list_all (\<lambda>(i, w). wk_phase w \<noteq> W_rejected) (ex_workers e0)"
  shows "ens (\<lambda>e. e = e0) (exec_wait en now l) (progress e0) (no_more e0)"
  unfolding exec_wait_def
proof (rule ens_with_job, intro ens_if)
  fix e and s :: "'a swarm"
  assume e: "e = e0"
  have b: "books_kept e0" using assms by (simp add: exec_inv_def)
  let ?n = "length (ex_packets e0)"
  have here: "place e0 = (if l then pass_rank ?n + 2 else ?n + 8)" by (simp add: place_def pc Let_def)
  {
    assume w: "ex_workers e \<noteq> []"
    have "distinct (map fst (ex_workers e0))" using b books_distinct [of e0] by (auto simp: books_kept_def)
    then have "\<not> list_ex (left_or_rejected e0) (map fst (ex_workers e0))"
      using calm by (auto simp: list_ex_iff list_all_iff left_or_rejected_def)
    moreover have "left_or_rejected (e0\<lparr>ex_idle := 0, ex_pc := q\<rparr>) = left_or_rejected e0" for q
      by (simp add: left_or_rejected_def fun_eq_iff)
    ultimately have "place (e0\<lparr>ex_idle := 0, ex_pc := PC_race (map fst (ex_workers e0))\<rparr>) = ?n + 7"
      by (simp add: place_def Let_def)
    then have "progress e0 (e0\<lparr>ex_idle := 0, ex_pc := PC_race (map fst (ex_workers e0))\<rparr>)"
      using w e by (simp add: progress_def polls_left_def here pass_rank_def)
    then show "ens (\<lambda>e'. e' = e) (on_exec (\<lambda>e. e\<lparr>ex_idle := 0, ex_pc := PC_race (map fst (ex_workers e))\<rparr>)) (progress e0) (no_more e0)"
      using e by (auto intro!: ens_on_exec)
  }
  assume w: "\<not> ex_workers e \<noteq> []"
  show "ens (\<lambda>e'. e' = e) (goto PC_top) (progress e0) (no_more e0)" if "\<not> (ex_pending e \<noteq> [] \<and> \<not> l)"
  proof (rule ens_jump)
    fix e'
    assume "e' = e"
    moreover have "place (e0\<lparr>ex_pc := PC_top\<rparr>) = (if ex_pending e0 = [] then ?n + 6 else pass_rank ?n)"
      using w e by (simp add: place_def Let_def)
    ultimately show "kept e0 e' \<and> (lowered e0 e' \<or> place (e'\<lparr>ex_pc := PC_top\<rparr>) < place e0)"
      using that e here by (auto simp: pass_rank_def)
  qed
  assume p: "ex_pending e \<noteq> [] \<and> \<not> l"
  let ?e = "e0\<lparr>ex_idle := ex_idle e0 + 1\<rparr>"
  have idle: "ens (\<lambda>e'. e' = e) (on_exec (\<lambda>e'. e'\<lparr>ex_idle := ex_idle e' + 1\<rparr>)) (\<lambda>e'. e' = ?e) (no_more e0)"
    using e by (auto intro!: ens_on_exec)
  have all: "ens (\<lambda>e'. e' = ?e) (act_bind (settle_all en now st m (ex_pending e)) (\<lambda>_. goto PC_top)) (progress e0) (no_more e0)" for st m
  proof (rule ens_bind [OF ens_post [OF ens_pre [OF ens_settle_all_work [of ?e "ex_pending e"]]]])
    show "kept ?e e1 \<and> lined (ex_pending e) e1" if "e1 = ?e" for e1
      using that pending_lined [OF b] e by (simp add: lined_def)
    show "lowered ?e e1" if "kept ?e e1 \<and> (ex_pending e = [] \<or> lowered ?e e1)" for e1 using that p by simp
    show "no_more e0 e1" if "kept ?e e1" for e1 using that by (auto simp: kept_def no_more_def polls_left_def)
    show "ens (lowered ?e) (goto PC_top) (progress e0) (no_more e0)"
      by (rule ens_on_exec) (simp add: lowered_def progress_def)
  qed
  show "ens (\<lambda>e'. e' = e) (act_bind (on_exec (\<lambda>e. e\<lparr>ex_idle := ex_idle e + 1\<rparr>)) (\<lambda>_.
       if 600 < ex_idle e + 1
       then act_bind (settle_all en now RS_BLOCKED ''SCHEDULER_WAIT_TIMEOUT: packet did not become runnable.'' (ex_pending e))
              (\<lambda>_. goto PC_top)
       else goto PC_delay)) (progress e0) (no_more e0)"
  proof (rule ens_bind [OF idle], rule ens_if)
    show "ens (\<lambda>e'. e' = ?e) (goto PC_delay) (progress e0) (no_more e0)" if "\<not> 600 < ex_idle e + 1"
      using that e w by (auto intro!: ens_on_exec simp: progress_def polls_left_def)
  qed (rule all)
qed

text \<open>The places after the loop are passed once each; a race that is over goes back to the top.\<close>

lemma map_filter_length: "length (List.map_filter f xs) \<le> length xs"
  by (induction xs) (auto simp: map_filter_simps split: option.split)

lemma kept_record: "ens (kept e0) (write_report now cs xs i st b) Q R"
  if "\<And>e rep. kept e0 e \<Longrightarrow> Q (e\<lparr>ex_pc := PC_staging st b rep\<rparr>)"
  unfolding write_report_def by (rule ens_with_job) (auto intro!: ens_on_exec that)

lemma work_report:
  assumes "length (ex_packets e0) + 2 < place e0"
  shows "ens (kept e0) (write_report now cs xs i st b) (progress e0) R"
  by (rule kept_record) (use assms in \<open>auto intro!: jump_progress simp: place_simps kept_packets\<close>)

lemma work_final:
  assumes pc: "ex_pc e0 = PC_final"
  shows "ens (\<lambda>e. e = e0) (exec_final now) (progress e0) (kept e0)"
proof -
  have here: "place e0 = length (ex_packets e0) + 4" by (simp add: place_def pc Let_def)
  show ?thesis
    unfolding exec_final_def Let_def
    by (auto intro!: ens_with_job ens_jump ens_pre [OF work_report] simp: here place_simps kept_packets split: control_state.split)
qed

lemma work_integrate:
  assumes pc: "ex_pc e0 = PC_integrate cs xs"
  shows "ens (\<lambda>e. e = e0) (exec_integrate en fresh now cs xs) (progress e0) (kept e0)"
proof -
  have here: "place e0 = length (ex_packets e0) + 3" by (simp add: place_def pc Let_def)
  have first: "ens (\<lambda>e. e = e0) (if c then land_dag en now xs else integrate_swarm en fresh now xs) (kept e0) (kept e0)" for c
    by (rule ensI) (auto simp: land_dag_def integrate_swarm_def split: if_splits prod.splits option.splits list.splits)
  show ?thesis
    unfolding exec_integrate_def
    by (rule ens_with_job, rule ens_bind [OF ens_pre [OF first]]) (auto simp: here intro: ens_bind [OF ens_emit work_report])
qed

lemma work_end:
  shows "ex_pc e0 = PC_staging st b rep \<Longrightarrow> ens (\<lambda>e. e = e0) (exec_staging en st b rep) (progress e0) (kept e0)"
    and "ex_pc e0 = PC_release st b rep (i # ids) \<Longrightarrow> ens (\<lambda>e. e = e0) (exec_release en now st b rep i ids) (progress e0) (kept e0)"
    and "ex_pc e0 = PC_release st b rep [] \<Longrightarrow> ens (\<lambda>e. e = e0) (exec_store en now st b rep) (progress e0) (kept e0)"
    and "ex_pc e0 = PC_begin \<Longrightarrow> ens (\<lambda>e. e = e0) (exec_begin en now) (progress e0) (kept e0)"
proof -
  assume "ex_pc e0 = PC_staging st b rep"
  then have here: "place e0 = length (ex_packets e0) + 2" by (simp add: place_def Let_def)
  have "length (List.map_filter f (ex_packets e0)) < Suc (length (ex_packets e0))" for f :: "work_packet \<Rightarrow> ident option"
    using map_filter_length [of f "ex_packets e0"] by simp
  then show "ens (\<lambda>e. e = e0) (exec_staging en st b rep) (progress e0) (kept e0)"
    unfolding exec_staging_def
    by (intro ens_with_job ens_if) (auto intro!: ens_jump ens_bind [OF ens_on_swarm] simp: place_simps here)
next
  assume "ex_pc e0 = PC_release st b rep (i # ids)"
  then have here: "place e0 = 2 + length ids" by (simp add: place_def Let_def)
  show "ens (\<lambda>e. e = e0) (exec_release en now st b rep i ids) (progress e0) (kept e0)"
    unfolding exec_release_def by (rule ens_with_job) (auto intro!: ens_jump ens_bind [OF ens_on_swarm] simp: place_simps here)
next
  assume "ex_pc e0 = PC_release st b rep []"
  then have "place e0 = 1" by (simp add: place_def Let_def)
  then show "ens (\<lambda>e. e = e0) (exec_store en now st b rep) (progress e0) (kept e0)"
    by (intro ensI) (auto simp: exec_store_def Let_def progress_def place_def split: prod.splits)
next
  assume "ex_pc e0 = PC_begin"
  then have here: "place e0 = pass_rank (length (ex_packets e0)) + 1" by (simp add: place_def Let_def)
  show "ens (\<lambda>e. e = e0) (exec_begin en now) (progress e0) (kept e0)"
  proof (rule ensI)
    fix e and s :: "'a swarm" and x e' s'
    assume e: "e = e0" and r: "exec_begin en now (e, s) = (x, e', s')"
    then obtain b rec where "isl x = False" "e' = e0\<lparr>ex_base := b, ex_rec := rec, ex_pc := PC_top\<rparr>"
      by (auto simp: exec_begin_def split: prod.splits)
    moreover have "place (e0\<lparr>ex_base := b, ex_rec := rec, ex_pc := PC_top\<rparr>) \<le> pass_rank (length (ex_packets e0))"
      by (simp add: place_def Let_def pass_rank_def)
    ultimately show "case x of Inr _ \<Rightarrow> progress e0 e' | Inl _ \<Rightarrow> kept e0 e'"
      by (cases x) (auto simp: progress_def here open_work_def polls_left_def)
  qed
qed

lemma work_goto:
  assumes "place (e0\<lparr>ex_pc := q\<rparr>) < place e0"
  shows "ens (\<lambda>e. e = e0) (goto q) (progress e0) (no_more e0)"
  by (rule ens_jump) (simp add: assms)

lemma work_act:
  assumes inv: "exec_inv e0" and ready: "main_ready e0" and calm: "list_all (\<lambda>(i, w). wk_phase w \<noteq> W_rejected) (ex_workers e0)"
  shows "ens (\<lambda>e. e = e0) (exec_act en now fresh (ex_pc e0)) (progress e0) (no_more e0)"
proof -
  have weak: "ens P m (progress e0) (kept e0) \<Longrightarrow> ens P m (progress e0) (no_more e0)"
    for P and m :: "('a job, unit) act"
    by (erule ens_post) (auto simp: kept_def no_more_def polls_left_def)
  let ?n = "length (ex_packets e0)"
  show ?thesis
  proof (cases "ex_pc e0")
    case (PC_scan rest l)
    show ?thesis
    proof (cases rest)
      case Nil
      then show ?thesis using PC_scan by (auto simp: exec_act_def intro!: work_goto) (simp_all add: place_def Let_def)
    next
      case (Cons p ps)
      then show ?thesis using PC_scan weak [OF work_consider [OF inv]] by (simp add: exec_act_def)
    qed
  next
    case (PC_release st b rep ids)
    then show ?thesis using weak [OF work_end(2)] weak [OF work_end(3)] by (cases ids) (simp_all add: exec_act_def)
  next
    case (PC_race ids)
    then have "place e0 = pass_rank ?n + 1" using ready by (simp add: main_ready_def place_def Let_def)
    then show ?thesis using PC_race place_simps(10) [of e0 e0] by (auto simp: exec_act_def intro!: work_goto)
  next
    case PC_delay
    then have "place e0 = pass_rank ?n + 1" by (simp add: place_def Let_def)
    then show ?thesis using PC_delay place_simps(10) [of e0 e0] by (auto simp: exec_act_def intro!: work_goto)
  next
    case PC_killing
    then show ?thesis by (auto simp: exec_act_def intro!: work_goto) (simp add: place_def Let_def)
  next
    case PC_pausing
    then show ?thesis by (auto simp: exec_act_def intro!: work_goto) (simp add: place_def Let_def)
  next
    case PC_end
    then show ?thesis using ready by (simp add: main_ready_def)
  next
    case (PC_allocate p rest l inputs)
    then show ?thesis using weak [OF work_allocate [OF inv]] by (simp add: exec_act_def)
  next
    case (PC_wait l)
    then show ?thesis using work_wait [OF inv PC_wait calm] by (simp add: exec_act_def)
  qed (use weak [OF work_top [OF inv]] weak [OF work_final] weak [OF work_integrate] weak [OF work_end(1)] weak [OF work_end(4)]
      in \<open>simp_all add: exec_act_def\<close>)
qed

section \<open>Where an action may end\<close>

abbreviation ends_ok :: "('w job, 'a) act \<Rightarrow> bool" where
  "ends_ok m \<equiv> ens (\<lambda>_. True) m release_ok (\<lambda>_. True)"

lemma ends_bind: "(\<And>x. ends_ok (f x)) \<Longrightarrow> ends_ok (act_bind m f)"
proof -
  have "ens (\<lambda>_. True) m (\<lambda>_. True) (\<lambda>_. True)" by (rule ensI) (simp split: sum.split)
  then show "(\<And>x. ends_ok (f x)) \<Longrightarrow> ends_ok (act_bind m f)" by (rule ens_bind)
qed

lemma ends_with_job: "(\<And>e s. ends_ok (f e s)) \<Longrightarrow> ends_ok (with_job f)"
  by (rule ens_with_job) (blast intro: ens_pre)

lemma ends_goto: "(case q of PC_release _ _ _ _ \<Rightarrow> False | PC_race _ \<Rightarrow> False | _ \<Rightarrow> True) \<Longrightarrow> ends_ok (goto q)"
  by (rule ens_on_exec) (auto simp: release_ok_def split: pc.splits)

lemma ends_raise: "ends_ok (raise m)"
  by (rule ens_raise) simp

lemmas ends_rules = ends_bind ends_with_job ends_raise ends_goto

lemma ends_top: "ends_ok (exec_top en now)"
  unfolding exec_top_def
  by (auto intro!: ends_rules ens_on_exec simp: release_ok_def split: control_state.split)

lemma ends_admit: "ends_ok (admit_packet en now fresh p rest l)"
  unfolding admit_packet_def by (auto intro!: ends_rules split: sum.split prod.split)

lemma ends_consider: "ends_ok (consider_packet en now fresh p rest l)"
  unfolding consider_packet_def permit_packet_def Let_def
  by (auto intro!: ends_rules ends_admit split: option.split prod.split)

lemma ends_allocate: "ends_ok (exec_allocate en now fresh p rest l inputs)"
proof (rule ensI)
  fix e and s :: "'a swarm" and x e' s'
  assume r: "exec_allocate en now fresh p rest l inputs (e, s) = (x, e', s')"
  obtain y db w where a: "allocate (se_wt en) (fresh ''worktree'') now (ex_repo e) p (ex_base e) (replay_for en e inputs) (sm_db s, sm_world s)
      = (y, db, w)" by (metis surj_pair)
  show "case x of Inr _ \<Rightarrow> release_ok e' | Inl _ \<Rightarrow> True"
  proof (cases y)
    case (Inl m)
    have "ends_ok (act_bind (allocation_failed en now m p) (\<lambda>_. goto (PC_scan rest l)))" by (auto intro!: ends_rules)
    from ensD [OF this TrueI] show ?thesis using r a Inl by (simp add: exec_allocate_def)
  next
    case (Inr wt)
    have "ends_ok (launch en now p wt rest)"
      unfolding launch_def
      by (rule ens_bind [OF ens_on_exec ens_emit]) (simp add: release_ok_def split: prod.split)
    from ensD [OF this TrueI] show ?thesis using r a Inr by (simp add: exec_allocate_def Let_def)
  qed
qed

lemma ends_wait: "ends_ok (exec_wait en now l)"
  unfolding exec_wait_def
proof (rule ens_with_job, rule ens_if)
  fix e :: exec and s :: "'a swarm"
  assume "ex_workers e \<noteq> []"
  then show "ens (\<lambda>e'. e' = e) (on_exec (\<lambda>e. e\<lparr>ex_idle := 0, ex_pc := PC_race (map fst (ex_workers e))\<rparr>)) release_ok (\<lambda>_. True)"
    by (auto intro!: ens_on_exec simp: release_ok_def)
next
  fix e :: exec and s :: "'a swarm"
  show "ens (\<lambda>e'. e' = e) (if ex_pending e \<noteq> [] \<and> \<not> l
     then act_bind (on_exec (\<lambda>e. e\<lparr>ex_idle := ex_idle e + 1\<rparr>)) (\<lambda>_.
       if 600 < ex_idle e + 1
       then act_bind (settle_all en now RS_BLOCKED ''SCHEDULER_WAIT_TIMEOUT: packet did not become runnable.'' (ex_pending e))
              (\<lambda>_. goto PC_top)
       else goto PC_delay)
     else goto PC_top) release_ok (\<lambda>_. True)"
    by (rule ens_pre [where P = "\<lambda>_. True"]) (auto intro!: ends_rules)
qed

lemma ends_end: "ends_ok (exec_final now)" "ends_ok (exec_integrate en fresh now cs xs)" "ends_ok (exec_staging en st b rep)"
  "ends_ok (exec_store en now st b rep)" "ends_ok (exec_begin en now)"
  unfolding exec_final_def exec_integrate_def write_report_def Let_def exec_staging_def
proof -
  show "ends_ok (exec_store en now st b rep)" "ends_ok (exec_begin en now)"
    by (rule ensI, auto simp: exec_store_def exec_begin_def release_ok_def Let_def split: prod.splits)+
  show "ends_ok (with_job (\<lambda>e s. if st = SS_PAUSED \<or> st = SS_RECOVERY_REQUIRED then goto (PC_release st b rep [])
     else act_bind (on_swarm (\<lambda>s. if sr_strategy (ex_rec e) \<noteq> DAG then s
            else (case map_of (sm_stagings s) (sr_id (ex_rec e)) of None \<Rightarrow> s | Some sg \<Rightarrow> forget_checkout en (ex_repo e) sg s)))
       (\<lambda>_. goto (PC_release st b rep (List.map_filter (worktree_to_release e (sm_db s)) (ex_packets e))))))"
    by (intro ens_with_job ens_if ens_bind [OF ens_on_swarm] ens_on_exec) (auto simp: release_ok_def map_filter_length)
qed (auto intro!: ends_rules split: control_state.split)

lemma ends_act: "release_ok e \<Longrightarrow> ex_pc e = p \<Longrightarrow> exec_act en now fresh p (e, s) = (Inr x, e', s') \<Longrightarrow> release_ok e'"
proof -
  assume ok: "release_ok e" and pc: "ex_pc e = p" and r: "exec_act en now fresh p (e, s) = (Inr x, e', s')"
  have "ens (\<lambda>e'. e' = e) (exec_act en now fresh p) release_ok (\<lambda>_. True)"
  proof (cases p)
    case (PC_release st b rep ids)
    have "ens (\<lambda>e'. e' = e) (exec_release en now st b rep i is) release_ok (\<lambda>_. True)" if "ids = i # is" for i "is"
      unfolding exec_release_def
      by (intro ens_with_job ens_bind [OF ens_on_swarm] ens_on_exec) (use ok pc PC_release that in \<open>auto simp: release_ok_def\<close>)
    then show ?thesis using PC_release by (cases ids) (auto simp: exec_act_def intro: ens_pre [OF ends_end(4)])
  next
    case PC_end
    then show ?thesis using ok by (auto simp: exec_act_def intro: ens_return)
  qed (auto simp: exec_act_def intro!: ends_goto intro: ens_pre [OF ends_top] ens_pre [OF ends_consider] ens_pre [OF ends_allocate]
      ens_pre [OF ends_wait] ens_pre [OF ends_end(1)] ens_pre [OF ends_end(2)] ens_pre [OF ends_end(3)] ens_pre [OF ends_end(5)]
      ens_pre [OF ends_goto] split: list.split)
  from ensD [OF this refl r] show ?thesis by simp
qed

section \<open>Runs are bounded\<close>

definition alive :: "exec \<Rightarrow> bool" where
  "alive e \<longleftrightarrow> exec_inv e \<and> release_ok e"

definition calm :: "exec \<Rightarrow> bool" where
  "calm e \<longleftrightarrow> list_all (\<lambda>(i, w). wk_phase w \<noteq> W_rejected) (ex_workers e)"

lemma main_alive:
  assumes "alive e"
  shows "alive (fst (exec_main en now fresh (e, s)))"
proof -
  obtain x e' s' where r: "exec_act en now fresh (ex_pc e) (e, s) = (x, e', s')" by (metis surj_pair)
  have "release_ok (fst (exec_main en now fresh (e, s)))"
    using r ends_act [OF _ refl] assms by (cases x) (auto simp: exec_main_def alive_def release_ok_def [of "_\<lparr>ex_pc := PC_end\<rparr>"])
  then show ?thesis using main_inv [of "(e, s)"] assms by (simp add: alive_def)
qed

lemma main_progress:
  assumes a: "alive e" and ready: "main_ready e" and c: "calm e"
  shows "progress e (fst (exec_main en now fresh (e, s)))"
proof -
  obtain x e' s' where r: "exec_act en now fresh (ex_pc e) (e, s) = (x, e', s')" by (metis surj_pair)
  have "ens (\<lambda>e'. e' = e) (exec_act en now fresh (ex_pc e)) (progress e) (no_more e)"
    by (rule work_act) (use assms in \<open>simp_all add: alive_def calm_def\<close>)
  from ensD [OF this refl r] have d: "case x of Inr _ \<Rightarrow> progress e e' | Inl _ \<Rightarrow> no_more e e'" .
  show ?thesis
  proof (cases x)
    case (Inl m)
    have "place e > 0"
      using ready by (auto simp: place_def Let_def main_ready_def pass_rank_def split: pc.splits)
    moreover have "place (e'\<lparr>ex_pc := PC_end\<rparr>) = 0" by (simp add: place_def Let_def)
    ultimately have "progress e (e'\<lparr>ex_pc := PC_end\<rparr>)" using d Inl by (auto simp: progress_def no_more_def)
    then show ?thesis using r Inl by (simp add: exec_main_def)
  next
    case (Inr y)
    then show ?thesis using d r by (simp add: exec_main_def)
  qed
qed

abbreviation weight_of :: "ident \<times> worker \<Rightarrow> nat" where
  "weight_of x \<equiv> phase_weight (wk_phase (snd x))"

lemma phase_positive [simp]: "0 < phase_weight ph"
  by (cases ph) simp_all

lemma absent_unchanged: "i \<notin> fst ` set al \<Longrightarrow> map (\<lambda>(j, w). (j, if j = i then f w else w)) al = al"
  by (induction al) auto

lemma absent_mapped: "i \<notin> fst ` set al \<Longrightarrow> map (g \<circ> (\<lambda>(j, w). (j, if j = i then f w else w))) al = map g al"
  by (induction al) auto

lemma weight_drop:
  assumes "distinct (map fst al)" and "map_of al i = Some wk" and "phase_weight (wk_phase (f wk)) < phase_weight (wk_phase wk)"
  shows "sum_list (map weight_of (map (\<lambda>(j, w). (j, if j = i then f w else w)) al)) < sum_list (map weight_of al)"
  using assms by (induction al) (auto simp: absent_mapped split: if_splits)

lemma delete_absent: "i \<notin> fst ` set al \<Longrightarrow> AList.delete i al = al"
  by (induction al) auto

lemma weight_delete:
  assumes "distinct (map fst al)" and "map_of al i = Some wk"
  shows "sum_list (map weight_of (AList.delete i al)) < sum_list (map weight_of al)"
  using assms by (induction al) (auto simp: delete_absent split: if_splits)

lemma work_phase:
  assumes "exec_inv e" and "map_of (ex_workers e) i = Some wk" and "phase_weight ph < phase_weight (wk_phase wk)"
  shows "open_work (set_phase i ph e) < open_work e"
proof -
  have "distinct (map fst (ex_workers e))" using assms(1) books_distinct [of e] by (auto simp: exec_inv_def books_kept_def)
  from weight_drop [OF this assms(2), of "wk_phase_update (\<lambda>_. ph)"] assms(3)
  show ?thesis by (simp add: open_work_def set_worker_def)
qed

lemma work_retire:
  assumes "exec_inv e" and "map_of (ex_workers e) i = Some wk"
  shows "open_work (e\<lparr>ex_results := xs, ex_workers := AList.delete i (ex_workers e)\<rparr>) < open_work e"
proof -
  have "distinct (map fst (ex_workers e))" using assms(1) books_distinct [of e] by (auto simp: exec_inv_def books_kept_def)
  from weight_delete [OF this assms(2)] show ?thesis by (simp add: open_work_def)
qed

text \<open>A turn that changes anything goes down a phase or retires the worker.\<close>

lemma turn_lowers:
  assumes e: "exec_inv e" and wk: "map_of (ex_workers e) i = Some wk" and ch: "worker_turn en now i (e, s) \<noteq> (e, s)"
  shows "open_work (fst (worker_turn en now i (e, s))) < open_work e"
proof (cases "wk_phase wk")
  case (W_result x)
  obtain z e1 s1 where r: "record_result en now (wk_packet wk) x (e, s) = (z, e1, s1)" by (metis surj_pair)
  have "e1 = e" by (rule record_result_exec [OF r])
  then show ?thesis using wk W_result r work_phase [OF e wk] work_retire [OF e wk] by (cases z) (auto simp: worker_turn_def)
next
  case (W_staging y)
  obtain rep s1 where st: "stageNodeCommit en now (ex_repo e) (ex_rec e) y s = (rep, s1)" by (cases "stageNodeCommit en now (ex_repo e) (ex_rec e) y s")
  let ?s2 = "hook_integrated now e i (ir_status rep) s1"
  obtain z e3 s3 where r: "record_result en now (wk_packet wk) (staged_result wk y rep) (e, ?s2) = (z, e3, s3)" by (metis surj_pair)
  have "e3 = e" by (rule record_result_exec [OF r])
  then show ?thesis
    using wk W_staging st r work_phase [OF e wk] work_retire [OF e wk] by (cases z) (auto simp: worker_turn_def stage_worker_def Let_def)
next
  case (W_failed m)
  obtain z e1 s1 where r: "record_result en now (wk_packet wk) (syntheticResult now (wk_packet wk) RS_FAILED
              (''WORKER_RESULT_FAILED: '' @ m) (Some (provenance_of (wk_tree wk) None))) (e, s) = (z, e1, s1)" by (metis surj_pair)
  have "e1 = e" by (rule record_result_exec [OF r])
  then show ?thesis using wk W_failed r work_phase [OF e wk] work_retire [OF e wk] by (cases z) (auto simp: worker_turn_def)
qed (use ch wk in \<open>auto simp: worker_turn_def\<close>)

text \<open>Steps that do not count leave the measure alone.\<close>

lemma silent_measure:
  assumes "ex_pc e' = ex_pc e" "ex_pending e' = ex_pending e" "ex_idle e' = ex_idle e" "ex_packets e' = ex_packets e"
    and "map (map_prod id wk_phase) (ex_workers e') = map (map_prod id wk_phase) (ex_workers e)"
  shows "steps_left e' = steps_left e" "calm e' = calm e"
proof -
  let ?ph = "map_prod id wk_phase :: ident \<times> worker \<Rightarrow> ident \<times> phase"
  have "map weight_of al = map (phase_weight \<circ> snd) (map ?ph al)" for al by simp
  then have w: "map weight_of (ex_workers e') = map weight_of (ex_workers e)" using assms(5) by metis
  have lr: "left_or_rejected f i = (case map_of (map ?ph (ex_workers f)) i of None \<Rightarrow> True | Some ph \<Rightarrow> ph = W_rejected)" for f i
    by (simp add: left_or_rejected_def map_prod_def map_of_map split: option.split)
  have "left_or_rejected e' = left_or_rejected e" by (intro ext) (simp only: lr assms(5))
  moreover have "ex_workers e' = [] \<longleftrightarrow> ex_workers e = []" using assms(5) by (metis map_is_Nil_conv)
  ultimately show "steps_left e' = steps_left e"
    using assms w by (cases "ex_pc e") (simp_all add: steps_left_def open_work_def polls_left_def place_def Let_def)
  have "calm f = list_all (\<lambda>(i, ph). ph \<noteq> W_rejected) (map ?ph (ex_workers f))" for f
    by (simp add: calm_def list_all_iff) (auto split: prod.splits)
  then show "calm e' = calm e" using assms(5) by simp
qed

lemma same_phase_map:
  assumes "distinct (map fst al)" and "map_of al i = Some wk" and "wk_phase w = wk_phase wk"
  shows "map (map_prod id wk_phase) (map (\<lambda>(j, v). (j, if j = i then w else v)) al) = map (map_prod id wk_phase) al"
  using assms by (induction al) (auto split: if_splits intro: rev_image_eqI)

lemma packets_step: "engine_step en n j k \<Longrightarrow> ex_packets (fst k) = ex_packets (fst j)"
  by (drule static_step) (simp add: static_def)

lemma signal_measure: "steps_left (signal f e) = steps_left e" "calm (signal f e) = calm e"
  by (rule silent_measure; simp add: signal_def split_beta comp_def map_prod_def)+

lemma step_alive:
  assumes "engine_step en n j k" and "alive (fst j)"
  shows "alive (fst k)"
proof -
  have "exec_inv (fst k)" using step_inv [OF assms(1)] assms(2) by (simp add: alive_def)
  moreover have "release_ok (fst k)"
    using assms(1)
  proof cases
    case (Main now fresh)
    then show ?thesis using main_alive [of "fst j" en now fresh "snd j"] assms(2) by (simp add: alive_def)
  next
    case (Turn now i)
    obtain e s where j: "j = (e, s)" by (cases j)
    have "moved i e e' \<Longrightarrow> release_ok e \<Longrightarrow> release_ok e'" for e'
      by (auto simp: moved_def release_ok_def set_worker_def split: pc.splits)
    then show ?thesis
      using Turn j assms(2) worker_turn_moves [of e i _ en now s] by (cases "map_of (ex_workers e) i") (auto simp: alive_def worker_turn_def)
  next
    case (Returns now usage i)
    then show ?thesis using returns_moves [of en now usage i "fst j" "snd j"] assms(2)
      by (auto simp: alive_def release_ok_def set_worker_def split: pc.splits)
  next
    case (Unstarted now m i)
    then show ?thesis using unstarted_moves [of now m i "fst j" "snd j"] assms(2)
      by (auto simp: alive_def release_ok_def set_worker_def split: pc.splits)
  next
    case (Runner now aid v ev i)
    then show ?thesis using runner_moves_exec [of en now aid v ev i "fst j" "snd j"] assms(2)
      by (auto simp: alive_def release_ok_def set_worker_def split: pc.splits)
  qed (use assms(2) in \<open>auto simp: alive_def release_ok_def signal_def split: pc.splits\<close>)
  ultimately show ?thesis by (simp add: alive_def)
qed

text \<open>Runs in which no worker is rejected at a step.\<close>

inductive calm_run :: "'w swarm_env \<Rightarrow> nat \<Rightarrow> 'w job \<Rightarrow> 'w job \<Rightarrow> bool" for en :: "'w swarm_env" where
  Stay: "calm_run en 0 j j"
| Step: "calm_run en n j k \<Longrightarrow> calm (fst k) \<Longrightarrow> engine_step en m k l \<Longrightarrow> calm_run en (n + m) j l"

lemma step_measure:
  assumes "engine_step en n j k" and "alive (fst j)" and "calm (fst j)"
  shows "steps_left (fst k) + n \<le> steps_left (fst j)"
proof -
  have k: "alive (fst k)" "ex_packets (fst k) = ex_packets (fst j)" using step_alive [OF assms(1,2)] packets_step [OF assms(1)] by simp_all
  have inv: "exec_inv (fst j)" using assms(2) by (simp add: alive_def)
  have down: "steps_left (fst k) + 1 \<le> steps_left (fst j)" if "progress (fst j) (fst k)"
    using progress_steps [OF that k(2)] place_bound [of "fst k"] k by (simp add: alive_def)
  have less: "progress (fst j) (fst k)" if "open_work (fst k) < open_work (fst j)" using that by (simp add: progress_def)
  show ?thesis
    using assms(1)
  proof cases
    case (Main now fresh)
    then show ?thesis using down main_progress [of "fst j" en now fresh "snd j"] assms by simp
  next
    case (Returns now usage i)
    then obtain x s' wk where "k = (set_phase i (W_result x) (fst j), s')" "map_of (ex_workers (fst j)) i = Some wk" "wk_phase wk = W_running"
      using returns_moves [of en now usage i "fst j" "snd j"] by auto
    then show ?thesis using Returns(1) down less work_phase [OF inv] by simp
  next
    case (Unstarted now m i)
    then obtain x wk where "k = (set_phase i (W_result x) (fst j), snd j)" "map_of (ex_workers (fst j)) i = Some wk" "wk_phase wk = W_running"
      using unstarted_moves [of now m i "fst j" "snd j"] by auto
    then show ?thesis using Unstarted(1) down less work_phase [OF inv] by simp
  next
    case (Turn now i)
    obtain e s where j: "j = (e, s)" by (cases j)
    have "map_of (ex_workers e) i \<noteq> None" using Turn j by (auto simp: worker_turn_def split: option.splits)
    then obtain wk where wk: "map_of (ex_workers e) i = Some wk" by blast
    have "open_work (fst (worker_turn en now i (e, s))) < open_work e"
      by (rule turn_lowers [OF _ wk]) (use Turn j inv in simp_all)
    then show ?thesis using Turn j down less by simp
  next
    case (Runner now aid v ev i)
    have "steps_left (fst k) = steps_left (fst j)"
      using runner_moves_exec [of en now aid v ev i "fst j" "snd j"]
    proof
      assume "\<exists>w wk s'. runner_moves en now aid v ev i (fst j, snd j) = (set_worker i (\<lambda>_. w) (fst j), s')
        \<and> map_of (ex_workers (fst j)) i = Some wk \<and> wk_packet w = wk_packet wk \<and> wk_phase w = wk_phase wk"
      then obtain w wk s' where w: "k = (set_worker i (\<lambda>_. w) (fst j), s')" "map_of (ex_workers (fst j)) i = Some wk" "wk_phase w = wk_phase wk"
        using Runner by auto
      have d: "distinct (map fst (ex_workers (fst j)))" using inv books_distinct [of "fst j"] by (auto simp: exec_inv_def books_kept_def)
      show ?thesis
        using same_phase_map [OF d w(2,3)] w(1) by (intro silent_measure(1)) (simp_all add: set_worker_def)
    qed (use Runner in simp)
    then show ?thesis using Runner by simp
  qed (simp_all add: signal_measure)
qed

lemma calm_run_measure:
  "calm_run en n j k \<Longrightarrow> alive (fst j) \<Longrightarrow> alive (fst k) \<and> steps_left (fst k) + n \<le> steps_left (fst j)"
proof (induction rule: calm_run.induct)
  case (Step n j k m l)
  then show ?case using step_measure [of en m k l] step_alive [of en m k l] by auto
qed simp

definition step_bound :: "nat \<Rightarrow> nat" where
  "step_bound n = (6 * n * 603 + 602) * (5 * n + 17) + (3 * n + 12)"

lemma start_measure:
  assumes "distinct (map wp_id packets)" and "0 \<le> sr_maxConcurrency rec"
  shows "alive (fst (exec_start en now rec r ru packets hk s))"
    and "steps_left (fst (exec_start en now rec r ru packets hk s)) \<le> step_bound (length packets)"
proof -
  let ?e = "fst (exec_start en now rec r ru packets hk s)"
  have inv: "exec_inv ?e" by (rule start_inv [OF assms])
  have pc: "ex_pc ?e = PC_begin" "ex_workers ?e = []" "ex_packets ?e = packets" "ex_idle ?e = 0"
    by (simp_all add: exec_start_def Let_def)
  show "alive ?e" using inv pc by (simp add: alive_def release_ok_def)
  have "length (ex_pending ?e) \<le> length packets"
    using lined_length [of "ex_pending ?e" ?e] pending_lined [of ?e] inv pc by (simp add: exec_inv_def)
  then have "(6 * length (ex_pending ?e) * 603 + 601) * (5 * length packets + 17) \<le> (6 * length packets * 603 + 602) * (5 * length packets + 17)"
    by (intro mult_right_mono) simp_all
  then show "steps_left ?e \<le> step_bound (length packets)"
    using pc by (simp add: steps_left_def open_work_def polls_left_def place_def pass_rank_def Let_def step_bound_def)
qed

text \<open>
  C6: a strategy ends. In any interleaving of the loop with its workers, the controls and the rest of
  the controller, the loop and the promises of the workers take at most \<open>step_bound n\<close> steps for \<open>n\<close>
  packets, as long as no worker's promise is rejected. The bound includes the 600 idle polls. The packets have distinct
  identifiers and the limit is not negative.
\<close>

theorem strategy_terminates:
  assumes "distinct (map wp_id packets)" and "0 \<le> sr_maxConcurrency rec"
    and "calm_run en n (exec_start en now rec r ru packets hk s) k"
  shows "n \<le> step_bound (length packets)"
  using calm_run_measure [OF assms(3) start_measure(1) [OF assms(1,2)]] start_measure(2) [OF assms(1,2), of en now r ru hk s] by linarith


end
