(* ===== verification/Engine_Store.thy ===== *)
theory Engine_Store
  imports Swarm_Engine
begin

text \<open>
  The last step of a strategy: what it stores of its outcome and what becomes of the repository's lease.
\<close>

section \<open>Rows of strategies\<close>

definition strategy_write :: "strategy_patch \<Rightarrow> time \<Rightarrow> strategy_run \<Rightarrow> strategy_run" where
  "strategy_write p now c = c\<lparr>sr_status := set_col (sp_status p) (sr_status c),
            sr_control := set_col (sp_control p) (sr_control c),
            sr_started := set_col (sp_started p) (sr_started c), sr_finished := set_col (sp_finished p) (sr_finished c),
            sr_error := set_col (sp_error p) (sr_error c), sr_report := set_col (sp_report p) (sr_report c),
            sr_dispatch := set_col (sp_dispatch p) (sr_dispatch c), sr_base := set_col (sp_base p) (sr_base c),
            sr_updated := now\<rparr>"

lemma strategy_update_write:
  "strategy_update i p now t = (map_option (strategy_write p now) (strategy_get i t),
     case strategy_get i t of None \<Rightarrow> t | Some c \<Rightarrow> tbl_update (\<lambda>r. sr_id r = i) (\<lambda>_. strategy_write p now c) t)"
  by (simp add: strategy_update_def strategy_write_def Let_def split: option.split)

lemma strategy_get_update:
  "strategy_get j (snd (strategy_update i p now t)) =
     (if j = i then map_option (strategy_write p now) (strategy_get i t) else strategy_get j t)"
proof (cases "strategy_get i t")
  case (Some c)
  then have c: "sr_id (strategy_write p now c) = i" by (auto simp: strategy_get_def strategy_write_def dest: tbl_get_key)
  have "tbl_get sr_id j (tbl_update (\<lambda>r. sr_id r = i) (\<lambda>_. strategy_write p now c) t) =
      (if j = i then map_option (\<lambda>_. strategy_write p now c) (tbl_get sr_id i t) else tbl_get sr_id j t)"
    using c by (induction t) (auto simp: tbl_update_def table_simps)
  then show ?thesis using Some by (simp add: strategy_update_write strategy_get_def)
qed (auto simp: strategy_update_write)

text \<open>What the hooks of a DAG strategy do to strategies is to complete a report.\<close>

definition outcome_of :: "strategy_run \<Rightarrow> strategy_status \<times> control_state \<times> string option \<times> time option" where
  "outcome_of r = (sr_status r, sr_control r, sr_error r, sr_finished r)"

lemma report_outcome:
  "map_option outcome_of (strategy_get i (snd (strategy_update j (no_patch\<lparr>sp_report := rp\<rparr>) now ss))) = map_option outcome_of (strategy_get i ss)"
  by (simp add: strategy_get_update option.map_comp comp_def strategy_write_def outcome_of_def [abs_def] no_patch_def)

lemma updated_table: "fst (snd (case u of (Some n, ss') \<Rightarrow> (n, ss', t1) | (None, ss') \<Rightarrow> (r, ss', t1))) = snd u"
  by (cases u; cases "fst u") auto

lemma finalize_outcome:
  "map_option outcome_of (strategy_get i (fst (snd (finalize rank now rec (ss, t))))) = map_option outcome_of (strategy_get i ss)"
  unfolding finalize_def prod.case Let_def
  by (simp only: if_distrib [of "\<lambda>x. fst (snd x)"] option.case_distrib [of "\<lambda>x. fst (snd x)"] updated_table fst_conv snd_conv)
    (simp add: report_outcome split: option.split)

lemma event_outcome:
  "map_option outcome_of (strategy_get i (fst (applyEvent rank now sid ev (ss, t)))) = map_option outcome_of (strategy_get i ss)"
  using finalize_outcome by (simp add: applyEvent_def Let_def split: option.split)

lemma publish_outcome:
  "map_option outcome_of (strategy_get i (sm_strategies (sm_publish en now hk ev s))) = map_option outcome_of (strategy_get i (sm_strategies s))"
proof (cases "Option.bind hk hk_dag")
  case (Some c)
  obtain ss ns where a: "applyEvent (se_rank en) now (ev_strategy ev) ev (sm_strategies s, sm_nodes s) = (ss, ns)" by (metis surj_pair)
  then show ?thesis using Some event_outcome [of i "se_rank en" now "ev_strategy ev" ev "sm_strategies s" "sm_nodes s"]
    by (simp add: sm_publish_def Let_def)
qed (simp add: sm_publish_def Let_def)

lemma publish_own [simp]: "sm_own (sm_publish en now hk ev s) = sm_own s"
  by (simp add: sm_publish_def Let_def split: option.split prod.split)

lemma notify_own [simp]: "sm_own (sm_notify hk r s) = sm_own s" "sm_strategies (sm_notify hk r s) = sm_strategies s"
  by (simp_all add: sm_notify_def)

lemma cleanup_own [simp]: "sm_own (exec_cleanup sid s) = sm_own s" "sm_strategies (exec_cleanup sid s) = sm_strategies s"
  by (simp_all add: exec_cleanup_def split: option.split)

section \<open>The outcome that is stored\<close>

lemma store_state:
  assumes "ex_pc e = PC_release st blocker rep []"
  shows "exec_main en now fresh (e, s) = (case exec_store en now st blocker rep (e, s) of (_, e', s') \<Rightarrow> (e', exec_cleanup (sr_id (ex_rec e')) s'))"
  using assms by (simp add: exec_main_def exec_act_def exec_store_def Let_def split: prod.split)

text \<open>
  C10: a control has the last word. Whatever the integration found, the strategy is stored as
  recovery required after a kill and as cancelled after a stop, even if the control came while the
  strategy was finalized; otherwise it is stored with the status found. The control state itself stays.
  The state is the one in which all sessions are released and the strategy's row is read for the last time.
\<close>

theorem control_has_last_word:
  assumes "ex_pc e = PC_release st blocker rep []" and "strategy_get (sr_id (ex_rec e)) (sm_strategies s) = Some r"
  shows "let (e', s') = exec_main en now fresh (e, s); (st', blocker') = override_status (sr_control r) st blocker in
     ex_pc e' = PC_end \<and> map_option outcome_of (strategy_get (sr_id (ex_rec e)) (sm_strategies s'))
        = Some (st', sr_control r, blocker', Some (er_finished rep))
     \<and> (sr_control r = KILL_REQUESTED \<longrightarrow> st' = SS_RECOVERY_REQUIRED) \<and> (sr_control r = STOP_REQUESTED \<longrightarrow> st' = SS_CANCELLED)"
proof -
  let ?sid = "sr_id (ex_rec e)"
  obtain st' b' where o: "override_status (sr_control r) st blocker = (st', b')" by (cases "override_status (sr_control r) st blocker")
  have c: "control_state_of ?sid s = sr_control r" by (simp add: control_state_of_def assms(2))
  let ?p = "no_patch\<lparr>sp_status := Some st', sp_finished := Some (Some (er_finished rep)), sp_report := Some (Some rep), sp_error := Some b'\<rparr>"
  have u: "sm_update ?sid ?p now s = (Some (strategy_write ?p now r), s\<lparr>sm_strategies := snd (strategy_update ?sid ?p now (sm_strategies s))\<rparr>)"
    by (simp add: sm_update_def strategy_update_write assms(2))
  have g: "map_option outcome_of (strategy_get ?sid (snd (strategy_update ?sid ?p now (sm_strategies s)))) =
      Some (st', sr_control r, b', Some (er_finished rep))"
    by (simp add: strategy_get_update assms(2) strategy_write_def outcome_of_def no_patch_def)
  have "ex_pc (fst (exec_main en now fresh (e, s))) = PC_end"
    "map_option outcome_of (strategy_get ?sid (sm_strategies (snd (exec_main en now fresh (e, s))))) =
      Some (st', sr_control r, b', Some (er_finished rep))"
    using g by (simp_all add: store_state [OF assms(1)] exec_store_def Let_def c u o publish_outcome del: map_option_eq_Some)
  moreover have "(sr_control r = KILL_REQUESTED \<longrightarrow> st' = SS_RECOVERY_REQUIRED) \<and> (sr_control r = STOP_REQUESTED \<longrightarrow> st' = SS_CANCELLED)"
    using o by (auto simp: override_status_def)
  ultimately show ?thesis by (simp only: Let_def split_beta o fst_conv snd_conv)
qed

text \<open>
  The stored report is older than that: it names the status the finalization had found, also under a
  kill or a stop that overrode it.
\<close>

theorem report_keeps_overridden_status:
  assumes "ex_pc e = PC_release st blocker rep []" and "strategy_get (sr_id (ex_rec e)) (sm_strategies s) = Some r"
    and "hk_dag (ex_hooks e) = None"
  shows "map_option sr_report (strategy_get (sr_id (ex_rec e)) (sm_strategies (snd (exec_main en now fresh (e, s))))) = Some (Some rep)"
proof -
  let ?sid = "sr_id (ex_rec e)"
  obtain st' b' where o: "override_status (control_state_of ?sid s) st blocker = (st', b')"
    by (cases "override_status (control_state_of ?sid s) st blocker")
  let ?p = "no_patch\<lparr>sp_status := Some st', sp_finished := Some (Some (er_finished rep)), sp_report := Some (Some rep), sp_error := Some b'\<rparr>"
  have u: "sm_update ?sid ?p now s = (Some (strategy_write ?p now r), s\<lparr>sm_strategies := snd (strategy_update ?sid ?p now (sm_strategies s))\<rparr>)"
    by (simp add: sm_update_def strategy_update_write assms(2))
  have "map_option sr_report (strategy_get ?sid (snd (strategy_update ?sid ?p now (sm_strategies s)))) = Some (Some rep)"
    by (simp add: strategy_get_update assms(2) strategy_write_def no_patch_def)
  then show ?thesis
    by (simp add: store_state [OF assms(1)] exec_store_def Let_def u o sm_publish_def assms(3) del: map_option_eq_Some)
qed

section \<open>The lease\<close>

lemma quarantine_get: "lease_get j (quarantine repo m now own) =
   (if j = repo then map_option (lease_write L_QUARANTINED None None (Some (Some m)) now) (lease_get repo own) else lease_get j own)"
  by (simp add: quarantine_def Let_def)

text \<open>
  The repository stays locked while a worker may live. If some process of the strategy is not
  known to have ended, the end of the strategy, whatever its outcome, leaves the repository's lease in
  place, as it was or quarantined; so does a pause.
\<close>

theorem lease_outlives_workers:
  assumes "ex_pc e = PC_release st blocker rep []" and "lease_get (ry_id (ex_repo e)) (sm_own s) = Some l"
    and "list_ex (\<lambda>p. \<not> terminalProcessState p) (proc_listByActor (sr_id (ex_rec e)) (sm_own s))
       \<or> fst (override_status (control_state_of (sr_id (ex_rec e)) s) st blocker) = SS_PAUSED"
  shows "case lease_get (ry_id (ex_repo e)) (sm_own (snd (exec_main en now fresh (e, s)))) of None \<Rightarrow> False
     | Some l' \<Rightarrow> l' = l \<or> (ls_state l' = L_QUARANTINED \<and> ls_id l' = ls_id l)"
proof -
  obtain st' b' where o: "override_status (control_state_of (sr_id (ex_rec e)) s) st blocker = (st', b')"
    by (cases "override_status (control_state_of (sr_id (ex_rec e)) s) st blocker")
  have own: "sm_own (snd (exec_main en now fresh (e, s))) = close_lease en now (ry_id (ex_repo e)) (sr_id (ex_rec e)) st' (sm_own s)"
    by (auto simp: store_state [OF assms(1)] exec_store_def Let_def o sm_update_def split: prod.split)
  have "\<not> list_all terminalProcessState (proc_listByActor (sr_id (ex_rec e)) (sm_own s)) \<or> st' = SS_PAUSED"
    using assms(3) o by (auto simp: list_ex_iff list_all_iff)
  then show ?thesis
    unfolding own using assms(2)
    by (auto simp: close_lease_def Let_def quarantine_get lease_write_def split: option.split)
qed

end
