(* ===== verification/Engine_Scenarios.thy ===== *)
theory Engine_Scenarios
  imports Engine_Termination Engine_Store
begin

text \<open>
  The engine on concrete strategies: the witnesses of its laws, and the interleavings in which it does
  not do what its comments say.
\<close>

section \<open>A small world\<close>

definition demo_host :: "unit host" where
  "demo_host = \<lparr>hs_exec = (\<lambda>c args cwd w. if ''rev-parse'' \<in> set args then (Exec_ok (replicate 40 (CHR ''b'')), w)
       else if ''rev-list'' \<in> set args then (Exec_ok (replicate 40 (CHR ''b'')), w)
       else (Exec_ok [], w)),
     hs_exists = (\<lambda>p w. False), hs_mkdir = (\<lambda>p w. (None, w)), hs_rm = (\<lambda>p w. (None, w)), hs_write = (\<lambda>p t w. (None, w)),
     hs_subdirs = (\<lambda>p w. None)\<rparr>"

definition demo_env :: "unit swarm_env" where
  "demo_env = \<lparr>se_wt = \<lparr>we_host = demo_host, we_dataDir = ''/o'', we_classify = None\<rparr>,
     se_coll = (\<lambda>i. case i of [] \<Rightarrow> 0 | c # _ \<Rightarrow> of_char c), se_rank = (\<lambda>i. case i of [] \<Rightarrow> 0 | c # _ \<Rightarrow> of_char c),
     se_policy = None, se_owner = None, se_zodMessage = (\<lambda>_. ''zod''), se_sqlMessage = ''sql'', se_admitMessage = ''zod'',
     se_node = ''node'', se_testHarness = None, se_swarmHarness = None\<rparr>"

definition demo_strategy :: "strategy \<Rightarrow> strategy_run" where
  "demo_strategy k = \<lparr>sr_id = ''s'', sr_repo = ''r'', sr_campaign = ''a'', sr_run = ''a'', sr_iter = 1, sr_strategy = k, sr_status = SS_QUEUED,
     sr_maxConcurrency = 3, sr_packets = [], sr_control = CS_NONE, sr_dispatch = None, sr_base = Some (replicate 40 (CHR ''a'')),
     sr_started = None, sr_finished = None, sr_error = None, sr_report = None, sr_created = 0, sr_updated = 0\<rparr>"

definition demo_campaign :: run where
  "demo_campaign = \<lparr>ru_id = ''a'', ru_repo = ''r'', ru_goal = ''g'', ru_status = EXECUTING, ru_iter = 1, ru_max = 5, ru_dispatch = None,
     ru_error = None, ru_started = 0, ru_finished = None, ru_created = 0, ru_updated = 0, ru_drain = None\<rparr>"

definition demo_swarm :: "strategy \<Rightarrow> work_packet list \<Rightarrow> unit swarm" where
  "demo_swarm k ps = \<lparr>sm_db = demo_db ps, sm_repos = [demo_place], sm_runs = [demo_campaign], sm_strategies = [demo_strategy k],
     sm_controls = [], sm_sched = \<lparr>ss_policy = Some (Json DEFAULT_SCHEDULER_POLICY), ss_decisions = [], ss_active = [], ss_queued = []\<rparr>,
     sm_perm = \<lparr>ps_policies = [], ps_decisions = [], ps_attention = [], ps_events = []\<rparr>,
     sm_own = \<lparr>ow_leases = [], ow_procs = [], ow_audit = []\<rparr>, sm_nodes = [], sm_hooks = [], sm_stagings = [], sm_staged = [],
     sm_events = [], sm_completed = [], sm_world = ()\<rparr>"

definition demo_job :: "strategy \<Rightarrow> work_packet list \<Rightarrow> unit swarm \<Rightarrow> unit job" where
  "demo_job k ps s = exec_start demo_env 1 (demo_strategy k) demo_place demo_campaign ps no_hooks s"

text \<open>Steps of the loop alone, as far as it is ready; the ids differ from step to step.\<close>

fun main_run :: "'w swarm_env \<Rightarrow> nat \<Rightarrow> 'w job \<Rightarrow> 'w job" where
  "main_run en 0 j = j"
| "main_run en (Suc k) j = (let j1 = main_run en k j in
     if main_ready (fst j1) then exec_main en (int k + 2) (\<lambda>x. x @ js_nat k) j1 else j1)"

lemma main_run_reaches: "\<exists>n. engine_run en n j (main_run en k j)"
proof (induction k)
  case 0
  show ?case by (auto intro: engine_run.Stay)
next
  case (Suc k)
  then obtain n where "engine_run en n j (main_run en k j)" ..
  then show ?case by (auto simp: Let_def intro: engine_run.Step engine_step.Main)
qed

definition two_packets :: "work_packet list" where
  "two_packets = [demo_packet ''1'' [], demo_packet ''2'' [''1'']]"

section \<open>The witnesses of the laws\<close>

definition launched_job :: "unit job" where
  "launched_job = main_run demo_env 7 (demo_job SWARM two_packets (demo_swarm SWARM two_packets))"

theorem every_packet_accounted_witness:
  "let e = fst launched_job in
   mset (ex_pending e @ map fst (ex_workers e) @ map fst (ex_results e)) = mset [''1'', ''2'']"
proof -
  obtain n where n: "engine_run demo_env n (demo_job SWARM two_packets (demo_swarm SWARM two_packets)) launched_job"
    unfolding launched_job_def using main_run_reaches by blast
  have "mset (ex_pending (fst launched_job) @ map fst (ex_workers (fst launched_job)) @ map fst (ex_results (fst launched_job)))
      = mset (map wp_id two_packets)"
    by (rule every_packet_accounted [where s' = "snd launched_job"])
      (use n in \<open>simp_all add: demo_job_def two_packets_def demo_packet_def demo_strategy_def\<close>)
  then show ?thesis by (simp add: two_packets_def demo_packet_def Let_def del: mset_append)
qed

theorem concurrency_never_exceeded_witness: "int (length (ex_workers (fst launched_job))) \<le> 3"
proof -
  obtain n where n: "engine_run demo_env n (demo_job SWARM two_packets (demo_swarm SWARM two_packets)) launched_job"
    unfolding launched_job_def using main_run_reaches by blast
  have "int (length (ex_workers (fst launched_job))) \<le> sr_maxConcurrency (demo_strategy SWARM)"
    by (rule concurrency_never_exceeded [where s' = "snd launched_job"])
      (use n in \<open>simp_all add: demo_job_def two_packets_def demo_packet_def demo_strategy_def\<close>)
  then show ?thesis by (simp add: demo_strategy_def)
qed


theorem strategy_terminates_witness: "1 \<le> step_bound (length two_packets)"
proof -
  let ?j = "demo_job SWARM two_packets (demo_swarm SWARM two_packets)"
  have "main_ready (fst ?j)" "calm (fst ?j)" by (simp_all add: demo_job_def exec_start_def Let_def main_ready_def calm_def)
  then have "calm_run demo_env (0 + 1) ?j (exec_main demo_env 2 (\<lambda>x. x) ?j)"
    by (intro calm_run.Step [OF calm_run.Stay] engine_step.Main)
  then have "calm_run demo_env 1 (exec_start demo_env 1 (demo_strategy SWARM) demo_place demo_campaign two_packets no_hooks
      (demo_swarm SWARM two_packets)) (exec_main demo_env 2 (\<lambda>x. x) ?j)" by (simp add: demo_job_def)
  from strategy_terminates [OF _ _ this] show ?thesis by (simp add: two_packets_def demo_packet_def demo_strategy_def)
qed

definition killed_strategy :: strategy_run where
  "killed_strategy = (demo_strategy SWARM)\<lparr>sr_control := KILL_REQUESTED\<rparr>"

definition kill_asked :: "unit swarm" where
  "kill_asked = (demo_swarm SWARM two_packets)\<lparr>sm_strategies := [killed_strategy],
     sm_own := \<lparr>ow_leases = [demo_lease L_ACTIVE], ow_procs = [(demo_proc O_RUNNING)\<lparr>pr_actor := Some ''s''\<rparr>], ow_audit = []\<rparr>\<rparr>"

definition finishing :: exec where
  "finishing = (let j = demo_job SWARM two_packets (demo_swarm SWARM two_packets); e = fst j in
     e\<lparr>ex_pc := PC_release SS_COMPLETED None (report_of e (snd j) 8 [] [] None SS_COMPLETED None) []\<rparr>)"

lemma finishing_simps: "ex_pc finishing = PC_release SS_COMPLETED None (case ex_pc finishing of PC_release _ _ rep _ \<Rightarrow> rep | _ \<Rightarrow> undefined) []"
  "sr_id (ex_rec finishing) = ''s''" "ry_id (ex_repo finishing) = ''r''"
  "strategy_get ''s'' (sm_strategies kill_asked) = Some killed_strategy" "sr_control killed_strategy = KILL_REQUESTED"
  "lease_get ''r'' (sm_own kill_asked) = Some (demo_lease L_ACTIVE)"
  "proc_listByActor ''s'' (sm_own kill_asked) = [(demo_proc O_RUNNING)\<lparr>pr_actor := Some ''s''\<rparr>]"
  by (simp_all add: finishing_def Let_def demo_job_def exec_start_def demo_strategy_def demo_place_def kill_asked_def killed_strategy_def
      strategy_get_def lease_get_def table_simps demo_lease_def proc_listByActor_def demo_proc_def)

theorem control_has_last_word_witness:
  "let (e', s') = exec_main demo_env 9 (\<lambda>x. x) (finishing, kill_asked);
       (st', blocker') = override_status (sr_control killed_strategy) SS_COMPLETED None in
     ex_pc e' = PC_end \<and> map_option outcome_of (strategy_get (sr_id (ex_rec finishing)) (sm_strategies s'))
        = Some (st', sr_control killed_strategy, blocker',
            Some (er_finished (case ex_pc finishing of PC_release _ _ rep _ \<Rightarrow> rep | _ \<Rightarrow> undefined)))
     \<and> (sr_control killed_strategy = KILL_REQUESTED \<longrightarrow> st' = SS_RECOVERY_REQUIRED)
     \<and> (sr_control killed_strategy = STOP_REQUESTED \<longrightarrow> st' = SS_CANCELLED)"
  by (rule control_has_last_word [OF finishing_simps(1)]) (simp only: finishing_simps)

theorem report_keeps_overridden_status_witness:
  "map_option sr_report (strategy_get (sr_id (ex_rec finishing)) (sm_strategies (snd (exec_main demo_env 9 (\<lambda>x. x) (finishing, kill_asked)))))
     = Some (Some (case ex_pc finishing of PC_release _ _ rep _ \<Rightarrow> rep | _ \<Rightarrow> undefined))"
  by (rule report_keeps_overridden_status [OF finishing_simps(1), where r = killed_strategy])
    (simp only: finishing_simps, simp add: finishing_def Let_def demo_job_def exec_start_def no_hooks_def)

theorem lease_outlives_workers_witness:
  "case lease_get (ry_id (ex_repo finishing)) (sm_own (snd (exec_main demo_env 9 (\<lambda>x. x) (finishing, kill_asked)))) of None \<Rightarrow> False
     | Some l' \<Rightarrow> l' = demo_lease L_ACTIVE \<or> (ls_state l' = L_QUARANTINED \<and> ls_id l' = ls_id (demo_lease L_ACTIVE))"
  by (rule lease_outlives_workers [OF finishing_simps(1)]) (simp_all add: finishing_simps terminalProcessState_def demo_proc_def)

section \<open>A dependency that is running is judged by its old result\<close>

text \<open>
  The comment of the scan says that a dependency is never judged by its result from before a pause.
  It is only waited for while it is pending: once its worker is launched and another slot is
  free, the dependents are skipped, in the same scan, because of the old result.
\<close>

theorem stale_result_skips_dependent:
  "let s = demo_swarm SWARM two_packets;
       paused = s\<lparr>sm_db := snd (projr (recordResult 1 ''r'' (demo_packet ''1'' []) (demo_result ''1'' RS_CANCELLED) (sm_db s)))\<rparr>;
       e = fst (main_run demo_env 5 (demo_job SWARM two_packets paused)) in
   map (\<lambda>(i, w). (i, wk_phase w)) (ex_workers e) = [(''1'', W_running)]
   \<and> map_option re_status (map_of (ex_results e) ''2'') = Some RS_SKIPPED_DEPENDENCY"
  by code_simp

section \<open>A dependent starts before its dependency is staged\<close>

text \<open>
  A DAG node's worker records its completed result before its commit is staged, and a scan in
  that window takes the stored result for the node's: the dependent starts on a commit that the staging
  may still reject.
\<close>

definition three_packets :: "work_packet list" where
  "three_packets = [demo_packet ''1'' [], demo_packet ''2'' [], demo_packet ''3'' [''1'']]"

definition worker_ends :: "ident \<Rightarrow> unit job \<Rightarrow> unit job" where
  "worker_ends i j = worker_turn demo_env 9 i (worker_returns demo_env 9 (Inr None) i
     (runner_moves demo_env 9 ''x'' \<lparr>sv_pid = 1, sv_exe = None, sv_marker = None\<rparr> (Child_exit (Some 0)) i
       (runner_moves demo_env 9 ''x'' \<lparr>sv_pid = 1, sv_exe = None, sv_marker = None\<rparr> Spawned i j)))"

theorem dependent_starts_before_staging:
  "let e = fst (main_run demo_env 2 (worker_ends ''1'' (main_run demo_env 5
         (demo_job DAG three_packets (demo_swarm DAG three_packets))))) in
   map (\<lambda>(i, w). (i, case wk_phase w of W_staging _ \<Rightarrow> True | _ \<Rightarrow> False)) (ex_workers e) = [(''1'', True), (''2'', False)]
   \<and> (case ex_pc e of PC_allocate p _ _ inputs \<Rightarrow> wp_id p = ''3'' \<and> inputs = [replicate 40 (CHR ''b'')] | _ \<Rightarrow> False)"
  by code_simp

section \<open>A kill misses the worker that is being allocated\<close>

lemma launch_result:
  assumes "first_phase en e p = (ph, rn)"
  shows "\<exists>s'. launch en now p wt rest (e, s) = (Inr (), e\<lparr>ex_pending := removeAll (wp_id p) (ex_pending e),
     ex_workers := AList.update (wp_id p) \<lparr>wk_packet = p, wk_request = request_id (sr_id (ex_rec e)) (wp_id p), wk_tree = wt,
       wk_runner = rn, wk_attempt = None, wk_hookOk = True, wk_phase = ph\<rparr> (ex_workers e), ex_pc := PC_scan rest True\<rparr>, s')"
  by (simp add: launch_def act_bind_def on_exec_def emit_def assms)

lemma allocate_launches:
  assumes "ex_pc e = PC_allocate p rest l inputs"
    and "allocate (se_wt en) (fresh ''worktree'') now (ex_repo e) p (ex_base e) (replay_for en e inputs) (sm_db s, sm_world s) = (Inr wt, db, w)"
  shows "\<exists>s'. exec_act en now fresh (ex_pc e) (e, s) = launch en now p wt rest (e, s')"
  using assms by (auto simp: exec_act_def exec_allocate_def Let_def)

text \<open>
  A control reaches the workers in the map. While a worktree is allocated its worker is not there yet: it is
  launched afterwards with a runner that nobody killed or paused, and the loop looks at the control state
  again only when some worker has ended.
\<close>

theorem kill_misses_allocation:
  assumes "fst (first_phase en e p) = W_running" and "ex_pc e = PC_allocate p rest l inputs"
    and "\<not> isl (fst (allocate (se_wt en) (fresh ''worktree'') now (ex_repo e) p (ex_base e) (replay_for en e inputs) (sm_db s, sm_world s)))"
    and "control_state_of (sr_id (ex_rec e)) s = KILL_REQUESTED"
  shows "case exec_main en now fresh (signal runner_kill e, s) of (e', _) \<Rightarrow>
     ex_pc e' = PC_scan rest True
     \<and> map_option (\<lambda>w. (wk_phase w, map_option rn_killed (wk_runner w))) (map_of (ex_workers e') (wp_id p)) = Some (W_running, Some False)"
proof -
  let ?e = "signal runner_kill e"
  obtain rn where a1: "first_phase en e p = (W_running, rn)" using assms(1) by (metis prod.collapse)
  obtain wt db w where a3: "allocate (se_wt en) (fresh ''worktree'') now (ex_repo e) p (ex_base e) (replay_for en e inputs) (sm_db s, sm_world s)
      = (Inr wt, db, w)" using assms(3) by (metis sum.collapse(2) prod.collapse)
  have f: "first_phase en ?e p = first_phase en e p" "ex_repo ?e = ex_repo e" "ex_base ?e = ex_base e"
      "replay_for en ?e inputs = replay_for en e inputs" "ex_pc ?e = ex_pc e"
    by (simp_all add: first_phase_def signal_def replay_for_def)
  have "rn = Some (runner_step (bg_runtimeMs (wp_budget p)) (se_owner en \<noteq> None) Start new_runner)"
    using a1 unfolding first_phase_def by (simp split: sum.splits del: runner_step.simps)
  then have r: "map_option rn_killed rn = Some False" by (simp add: spawn_child_def new_runner_def)
  obtain s1 where "exec_act en now fresh (ex_pc ?e) (?e, s) = launch en now p wt rest (?e, s1)"
    using allocate_launches [of ?e p rest l inputs en fresh now s] assms(2) a3 f by auto
  moreover obtain s2 where "launch en now p wt rest (?e, s1) = (Inr (), ?e\<lparr>ex_pending := removeAll (wp_id p) (ex_pending ?e),
     ex_workers := AList.update (wp_id p) \<lparr>wk_packet = p, wk_request = request_id (sr_id (ex_rec ?e)) (wp_id p), wk_tree = wt,
       wk_runner = rn, wk_attempt = None, wk_hookOk = True, wk_phase = W_running\<rparr> (ex_workers ?e), ex_pc := PC_scan rest True\<rparr>, s2)"
    using launch_result [of en ?e p W_running rn now wt rest s1] f a1 by auto
  ultimately show ?thesis using r by (simp add: exec_main_def update_conv')
qed

definition allocating :: exec where
  "allocating = (fst (demo_job SWARM two_packets (demo_swarm SWARM two_packets)))\<lparr>
     ex_pc := PC_allocate (demo_packet ''1'' []) [demo_packet ''2'' [''1'']] False [], ex_base := Some (replicate 40 (CHR ''a''))\<rparr>"

theorem kill_misses_allocation_witness:
  "case exec_main demo_env 9 (\<lambda>x. x) (signal runner_kill allocating, kill_asked) of (e', _) \<Rightarrow>
     ex_pc e' = PC_scan [demo_packet ''2'' [''1'']] True
     \<and> map_option (\<lambda>w. (wk_phase w, map_option rn_killed (wk_runner w))) (map_of (ex_workers e') (wp_id (demo_packet ''1'' [])))
        = Some (W_running, Some False)"
proof (rule kill_misses_allocation [where inputs = "[]" and l = False])
  show "fst (first_phase demo_env allocating (demo_packet ''1'' [])) = W_running" by code_simp
  show "ex_pc allocating = PC_allocate (demo_packet ''1'' []) [demo_packet ''2'' [''1'']] False []" by (simp add: allocating_def)
  show "\<not> isl (fst (allocate (se_wt demo_env) ''worktree'' 9 (ex_repo allocating) (demo_packet ''1'' []) (ex_base allocating)
      (replay_for demo_env allocating []) (sm_db kill_asked, sm_world kill_asked)))" by code_simp
  show "control_state_of (sr_id (ex_rec allocating)) kill_asked = KILL_REQUESTED" by code_simp
qed

section \<open>A rejected worker makes the loop spin\<close>

text \<open>
  A result that cannot be recorded is replaced by a failed one with the error's message. The schema
  allows 4000 characters: with a longer message the second record fails as well, and the promise is rejected.
\<close>

lemma long_summary_refused:
  assumes "4000 < length (js_trim (re_summary x))"
  shows "workPacketResultSchema x = None"
  using assms by (simp add: workPacketResultSchema_def z_trimmed_def Let_def Option.bind_eq_None_conv)

theorem long_error_rejects_worker:
  assumes "map_of (ex_workers e) i = Some wk" and "wk_phase wk = W_failed m"
    and "4000 < length (js_trim (''WORKER_RESULT_FAILED: '' @ m))"
  shows "map_option wk_phase (map_of (ex_workers (fst (worker_turn en now i (e, s)))) i) = Some W_rejected"
proof -
  let ?x = "syntheticResult now (wk_packet wk) RS_FAILED (''WORKER_RESULT_FAILED: '' @ m) (Some (provenance_of (wk_tree wk) None))"
  have "workPacketResultSchema ?x = None" by (rule long_summary_refused) (use assms(3) in \<open>simp add: syntheticResult_def\<close>)
  then have r: "record_result en now (wk_packet wk) ?x (e, s) = (Inl (error_message en ?x PE_zod), e, s)"
    by (simp add: record_result_def sm_record_def recordResult_def)
  have m: "map_of (map (\<lambda>(j, w). (j, if j = i then f w else w)) al) i = map_option f (map_of al i)" for f :: "worker \<Rightarrow> worker" and al
    by (induction al) auto
  show ?thesis using assms(1,2) r by (simp add: worker_turn_def set_worker_def m)
qed

definition one_worker :: "phase \<Rightarrow> exec" where
  "one_worker ph = (fst (demo_job SWARM [demo_packet ''1'' []] (demo_swarm SWARM [demo_packet ''1'' []])))\<lparr>ex_pc := PC_race [''1''],
     ex_pending := [], ex_workers := [(''1'', \<lparr>wk_packet = demo_packet ''1'' [], wk_request = ''s:1'', wk_tree = demo_worker_tree,
       wk_runner = None, wk_attempt = None, wk_hookOk = True, wk_phase = ph\<rparr>)]\<rparr>"

lemma one_worker_fields [simp]: "ex_pc (one_worker ph) = PC_race [''1'']" "ex_pending (one_worker ph) = []" "ex_idle (one_worker ph) = 0"
  "sr_id (ex_rec (one_worker ph)) = ''s''" "ex_workers (one_worker ph) = [(''1'', \<lparr>wk_packet = demo_packet ''1'' [], wk_request = ''s:1'',
     wk_tree = demo_worker_tree, wk_runner = None, wk_attempt = None, wk_hookOk = True, wk_phase = ph\<rparr>)]"
  by (simp_all add: one_worker_def demo_job_def exec_start_def Let_def demo_strategy_def)

lemma long_trim: "length (js_trim (''WORKER_RESULT_FAILED: '' @ replicate 4000 (CHR ''x''))) = 4022"
  by (simp add: js_trim_def js_space_def)

theorem long_error_rejects_worker_witness:
  "map_option wk_phase (map_of (ex_workers (fst (worker_turn demo_env 9 ''1''
      (one_worker (W_failed (replicate 4000 (CHR ''x''))), demo_swarm SWARM [demo_packet ''1'' []])))) ''1'') = Some W_rejected"
proof (rule long_error_rejects_worker)
  show "map_of (ex_workers (one_worker (W_failed (replicate 4000 (CHR ''x''))))) ''1'' = Some \<lparr>wk_packet = demo_packet ''1'' [],
     wk_request = ''s:1'', wk_tree = demo_worker_tree, wk_runner = None, wk_attempt = None, wk_hookOk = True,
     wk_phase = W_failed (replicate 4000 (CHR ''x''))\<rparr>"
    by (simp only: one_worker_fields map_of.simps fst_conv snd_conv fun_upd_same)
  show "4000 < length (js_trim (''WORKER_RESULT_FAILED: '' @ replicate 4000 (CHR ''x'')))" by (simp only: long_trim)
qed (simp only: worker.select_convs)

text \<open>
  The rejected worker stays in the map, and its promise, caught, is resolved at once in every race: with nothing
  else to do the loop comes back to the same state in four steps, without ever waiting for anything.
\<close>

theorem rejected_worker_spins:
  assumes "ex_pc e = PC_race (map fst (ex_workers e))" and "ex_pending e = []" and "ex_idle e = 0"
    and "control_state_of (sr_id (ex_rec e)) s = CS_NONE" and "list_ex (\<lambda>(i, w). map_option wk_phase (map_of (ex_workers e) i) = Some W_rejected) (ex_workers e)"
  shows "let step = exec_main en now fresh in main_ready e \<and> step (step (step (step (e, s)))) = (e, s)"
proof -
  have w: "ex_workers e \<noteq> []" using assms(5) by auto
  have ready: "main_ready e" using assms(1,5) by (auto simp: main_ready_def list_ex_iff left_or_rejected_def split: option.splits) force
  have 1: "exec_main en now fresh (e, s) = (e\<lparr>ex_pc := PC_top\<rparr>, s)"
    by (simp add: exec_main_def exec_act_def assms(1) on_exec_def)
  have 2: "exec_main en now fresh (e\<lparr>ex_pc := PC_top\<rparr>, s) = (e\<lparr>ex_pc := PC_scan [] False\<rparr>, s)"
    using w assms(2,4) by (simp add: exec_main_def exec_act_def exec_top_def with_job_def on_exec_def)
  have 3: "exec_main en now fresh (e\<lparr>ex_pc := PC_scan [] False\<rparr>, s) = (e\<lparr>ex_pc := PC_wait False\<rparr>, s)"
    by (simp add: exec_main_def exec_act_def on_exec_def)
  have "e\<lparr>ex_idle := 0, ex_pc := PC_race (map fst (ex_workers e))\<rparr> = e" using assms(1,3) by (cases e) simp
  then have 4: "exec_main en now fresh (e\<lparr>ex_pc := PC_wait False\<rparr>, s) = (e, s)"
    using w assms(1) by (cases e) (auto simp: exec_main_def exec_act_def exec_wait_def with_job_def on_exec_def)
  show ?thesis by (simp add: ready 1 2 3 4)
qed

theorem rejected_worker_spins_witness:
  "let step = exec_main demo_env 9 (\<lambda>x. x) in main_ready (one_worker W_rejected) \<and>
     step (step (step (step (one_worker W_rejected, demo_swarm SWARM [demo_packet ''1'' []])))) = (one_worker W_rejected, demo_swarm SWARM [demo_packet ''1'' []])"
  by (rule rejected_worker_spins) (simp_all add: control_state_of_def demo_swarm_def demo_strategy_def strategy_get_def table_simps)

end
