(* ===== verification/Swarm_Control.thy ===== *)
theory Swarm_Control
  imports Swarm_Engine
begin

text \<open>
  \<open>SwarmExecutionService\<close>, third part: how a strategy is started, controlled and recovered. The service is the
  map \<open>active\<close> of its running activations (one \<open>exec\<close> for each) and the state they share.
  Concurrency limits are integers, as the request and plan schemas have them. What follows the first \<open>await\<close> of
  a control is one step with it; the runners it signals end by steps of the engine.
\<close>

type_synonym 'w service = "(ident \<times> exec) list \<times> 'w swarm"

section \<open>Validation\<close>

record start_options =
  so_packets :: "ident list"
  so_max :: "int option"

definition concurrency_of :: "start_options \<Rightarrow> int" where
  "concurrency_of opts = (case so_max opts of Some m \<Rightarrow> m | None \<Rightarrow> 2)"

definition packet_refusal :: "packet_db \<Rightarrow> ident \<Rightarrow> run \<Rightarrow> int \<Rightarrow> work_packet \<Rightarrow> string option" where
  "packet_refusal db repo ru iter p =
     (if wp_run p \<noteq> ru_id ru \<or> wp_campaign p \<noteq> ru_id ru \<or> wp_iter p \<noteq> iter \<or> getRepositoryId (wp_id p) db \<noteq> Some repo
      then Some (''Packet '' @ wp_id p @ '' does not belong to the requested campaign iteration.'')
      else if truthy (wp_parent p) \<and> wp_parent p \<noteq> ru_dispatch ru
      then Some (''Packet '' @ wp_id p @ '' parent dispatch is not the campaign'' @ [CHR 0x27] @ ''s active dispatch.'')
      else None)"

definition dependency_refusal :: "work_packet list \<Rightarrow> work_packet \<Rightarrow> string option" where
  "dependency_refusal ps p = (if list_ex (\<lambda>d. d \<notin> set (map wp_id ps)) (wp_depends p)
     then Some (''Packet '' @ wp_id p @ '' has a dependency outside the selected strategy.'') else None)"

definition first_refusal :: "('a \<Rightarrow> string option) \<Rightarrow> 'a list \<Rightarrow> string option" where
  "first_refusal f xs = first_row (List.map_filter f xs)"

definition select_packets :: "packet_db \<Rightarrow> ident list \<Rightarrow> work_packet list option" where
  "select_packets db ids = all_some (map (\<lambda>i. packet_get i db) ids)"

definition validatePackets :: "'w swarm \<Rightarrow> ident \<Rightarrow> run \<Rightarrow> int \<Rightarrow> work_packet list \<Rightarrow> string option" where
  "validatePackets s repo ru iter ps = (case first_refusal (packet_refusal (sm_db s) repo ru iter) ps of
       Some m \<Rightarrow> Some m
     | None \<Rightarrow> (case first_refusal (dependency_refusal ps) ps of
         Some m \<Rightarrow> Some m
       | None \<Rightarrow> if hasCycle ps then Some ''Swarm packet dependency graph contains a cycle.''
           else (case getActiveForRun (ru_id ru) (sm_strategies s) of
               Some b \<Rightarrow> if sr_status b \<noteq> SS_RECOVERY_REQUIRED
                 then Some (''A strategy is already active for campaign '' @ ru_id ru @ ''.'') else None
             | None \<Rightarrow> None)))"

definition validateStart ::
    "'w swarm \<Rightarrow> ident \<Rightarrow> ident \<Rightarrow> int \<Rightarrow> start_options \<Rightarrow> string + repository \<times> run \<times> work_packet list" where
  "validateStart s repo runId iter opts = (case repo_get repo (sm_repos s) of
       None \<Rightarrow> Inl (''Repository '' @ repo @ '' not found'')
     | Some r \<Rightarrow> (case run_get runId (sm_runs s) of
         None \<Rightarrow> Inl ''Campaign/run correlation is invalid.''
       | Some ru \<Rightarrow>
           if ru_repo ru \<noteq> repo then Inl ''Campaign/run correlation is invalid.''
           else if ru_iter ru \<noteq> iter
           then Inl (''Execution strategy iteration does not match the campaign'' @ [CHR 0x27] @ ''s current iteration.'')
           else if concurrency_of opts < 1 \<or> 32 < concurrency_of opts
           then Inl ''Swarm maxConcurrency must be an integer from 1 to 32.''
           else if so_packets opts = [] then Inl ''A strategy start requires at least one durable work packet.''
           else if length (js_set (so_packets opts)) \<noteq> length (so_packets opts) then Inl ''Swarm packet IDs must be unique.''
           else (case select_packets (sm_db s) (js_set (so_packets opts)) of
               None \<Rightarrow> Inl ''Every strategy packet must be durable before execution.''
             | Some ps \<Rightarrow> (case validatePackets s repo ru iter ps of Some m \<Rightarrow> Inl m | None \<Rightarrow> Inr (r, ru, ps)))))"

section \<open>Starting\<close>

definition createRecord ::
    "'w swarm_env \<Rightarrow> time \<Rightarrow> ident \<Rightarrow> strategy \<Rightarrow> repository \<Rightarrow> run \<Rightarrow> work_packet list \<Rightarrow> int \<Rightarrow> ident option \<Rightarrow> string option
     \<Rightarrow> 'w swarm \<Rightarrow> string + strategy_run \<times> 'w swarm" where
  "createRecord en now sid k r ru ps m dispatch base s =
     (let rec = \<lparr>sr_id = sid, sr_repo = ry_id r, sr_campaign = ru_id ru, sr_run = ru_id ru, sr_iter = ru_iter ru, sr_strategy = k,
            sr_status = SS_QUEUED, sr_maxConcurrency = m, sr_packets = map wp_id ps, sr_control = CS_NONE, sr_dispatch = dispatch,
            sr_base = base, sr_started = None, sr_finished = None, sr_error = None, sr_report = None, sr_created = now, sr_updated = now\<rparr>
      in (case strategy_create rec (sm_strategies s) of None \<Rightarrow> Inl (se_sqlMessage en)
        | Some t \<Rightarrow> Inr (rec, s\<lparr>sm_strategies := t\<rparr>)))"

definition lease_kind :: "strategy \<Rightarrow> actor_kind" where
  "lease_kind k = (if k = DAG then K_DAG else K_SWARM)"

definition strategy_name :: "strategy \<Rightarrow> string" where
  "strategy_name k = (case k of SINGLE_AGENT \<Rightarrow> ''SINGLE_AGENT'' | SWARM \<Rightarrow> ''SWARM'' | DAG \<Rightarrow> ''DAG'')"

definition acquire_name :: "acquire_outcome \<Rightarrow> string" where
  "acquire_name a = (case a of Acquired \<Rightarrow> ''acquired'' | Conflict \<Rightarrow> ''conflict'' | Quarantined \<Rightarrow> ''quarantined'')"

text \<open>The lease of the repository's actor; a message when it is refused. Its reason is the last audit entry's.\<close>

definition take_lease ::
    "'w swarm_env \<Rightarrow> time \<Rightarrow> ident \<Rightarrow> ident \<Rightarrow> strategy \<Rightarrow> ident \<Rightarrow> ident \<Rightarrow> int \<Rightarrow> 'w swarm \<Rightarrow> string option \<times> 'w swarm" where
  "take_lease en now leaseId sid k repo runId iter s = (case se_owner en of None \<Rightarrow> (None, s)
     | Some owner \<Rightarrow> (case acquire leaseId now repo owner (lease_kind k)
            \<lparr>ao_run = Some runId, ao_iteration = Some iter, ao_actor = Some sid\<rparr> (sm_own s) of
         ((oc, _), own) \<Rightarrow> (if oc = Acquired then None
            else Some (''Repository '' @ repo @ '' execution actor is '' @ acquire_name oc @ '' ('' @ au_reason (last (ow_audit own))
              @ ''); refusing '' @ strategy_name k @ '' start''), s\<lparr>sm_own := own\<rparr>)))"

definition bind_lease :: "'w swarm_env \<Rightarrow> time \<Rightarrow> ident \<Rightarrow> ident \<Rightarrow> ident \<Rightarrow> 'w swarm \<Rightarrow> 'w swarm" where
  "bind_lease en now repo sid runId s = (case se_owner en of None \<Rightarrow> s
     | Some _ \<Rightarrow> s\<lparr>sm_own := markActive repo now (bindActor repo sid (Some (Some runId)) now (sm_own s))\<rparr>)"

text \<open>\<open>onCreated\<close> of the hooks of a DAG.\<close>

definition on_created :: "time \<Rightarrow> hooks \<Rightarrow> ident \<Rightarrow> 'w swarm \<Rightarrow> 'w swarm option" where
  "on_created now hk sid s = (case hk_dag hk of None \<Rightarrow> Some s
     | Some c \<Rightarrow> map_option (\<lambda>ns. s\<lparr>sm_nodes := ns\<rparr>) (create_nodes now sid (dc_packets c) (dc_nodes c) (sm_nodes s)))"

text \<open>The hooks are installed and called, and \<open>executeRecord\<close> runs up to its first \<open>await\<close>.\<close>

definition activate ::
    "'w swarm_env \<Rightarrow> time \<Rightarrow> strategy_run \<Rightarrow> repository \<Rightarrow> run \<Rightarrow> work_packet list \<Rightarrow> hooks \<Rightarrow> 'w service \<Rightarrow> 'w service" where
  "activate en now rec r ru ps hk = (\<lambda>(jobs, s). case exec_start en now rec r ru ps hk s of
     (e, s1) \<Rightarrow> (AList.update (sr_id rec) e jobs, s1))"

definition begin_strategy ::
    "'w swarm_env \<Rightarrow> time \<Rightarrow> strategy_run \<Rightarrow> repository \<Rightarrow> run \<Rightarrow> work_packet list \<Rightarrow> hooks \<Rightarrow> 'w service
     \<Rightarrow> (string + strategy_run) \<times> 'w service" where
  "begin_strategy en now rec r ru ps hk = (\<lambda>(jobs, s).
     let s1 = s\<lparr>sm_hooks := AList.update (sr_id rec) hk (sm_hooks s)\<rparr> in
     case on_created now hk (sr_id rec) s1 of None \<Rightarrow> (Inl (se_sqlMessage en), jobs, s1)
     | Some s2 \<Rightarrow> (Inr rec, activate en now rec r ru ps hk (jobs, s2)))"

definition startStrategy ::
    "'w swarm_env \<Rightarrow> time \<Rightarrow> ident \<Rightarrow> ident \<Rightarrow> strategy \<Rightarrow> ident \<Rightarrow> ident \<Rightarrow> int \<Rightarrow> start_options \<Rightarrow> hooks \<Rightarrow> ident option \<Rightarrow> string option
     \<Rightarrow> 'w service \<Rightarrow> (string + strategy_run) \<times> 'w service" where
  "startStrategy en now leaseId sid k repo runId iter opts hk dispatch base = (\<lambda>(jobs, s).
     case validateStart s repo runId iter opts of Inl m \<Rightarrow> (Inl m, jobs, s)
     | Inr (r, ru, ps) \<Rightarrow> (case take_lease en now leaseId sid k repo runId iter s of
         (Some m, s1) \<Rightarrow> (Inl m, jobs, s1)
       | (None, s1) \<Rightarrow> (case createRecord en now sid k r ru ps (concurrency_of opts) dispatch base s1 of
           Inl m \<Rightarrow> (Inl m, jobs, s1)
         | Inr (rec, s2) \<Rightarrow> begin_strategy en now rec r ru ps hk (jobs, bind_lease en now repo sid runId s2))))"

text \<open>\<open>executeStrategy\<close> takes no lease; it waits for the end of what it starts.\<close>

definition executeStrategy ::
    "'w swarm_env \<Rightarrow> time \<Rightarrow> ident \<Rightarrow> strategy \<Rightarrow> ident \<Rightarrow> ident \<Rightarrow> int \<Rightarrow> start_options \<Rightarrow> hooks \<Rightarrow> ident option \<Rightarrow> string option
     \<Rightarrow> 'w service \<Rightarrow> (string + strategy_run) \<times> 'w service" where
  "executeStrategy en now sid k repo runId iter opts hk dispatch base = (\<lambda>(jobs, s).
     case validateStart s repo runId iter opts of Inl m \<Rightarrow> (Inl m, jobs, s)
     | Inr (r, ru, ps) \<Rightarrow> (case createRecord en now sid k r ru ps (concurrency_of opts) dispatch base s of
         Inl m \<Rightarrow> (Inl m, jobs, s)
       | Inr (rec, s1) \<Rightarrow> begin_strategy en now rec r ru ps hk (jobs, s1)))"

definition swarm_execute ::
    "'w swarm_env \<Rightarrow> time \<Rightarrow> ident \<Rightarrow> ident \<Rightarrow> ident \<Rightarrow> int \<Rightarrow> start_options \<Rightarrow> 'w service \<Rightarrow> (string + strategy_run) \<times> 'w service" where
  "swarm_execute en now sid repo runId iter opts = executeStrategy en now sid SWARM repo runId iter opts no_hooks None None"

definition startStrategyForDispatch ::
    "'w swarm_env \<Rightarrow> time \<Rightarrow> ident \<Rightarrow> ident \<Rightarrow> strategy \<Rightarrow> ident \<Rightarrow> ident \<Rightarrow> int \<Rightarrow> ident option \<Rightarrow> string option \<Rightarrow> execution_plan \<Rightarrow> hooks
     \<Rightarrow> 'w service \<Rightarrow> (string + strategy_run) \<times> 'w service" where
  "startStrategyForDispatch en now leaseId sid k repo runId iter dispatch base plan hk =
     startStrategy en now leaseId sid k repo runId iter
       \<lparr>so_packets = (case pn_packetIds plan of Some l \<Rightarrow> l | None \<Rightarrow> []), so_max = pn_maxConcurrency plan\<rparr> hk dispatch
       (case base of Some b \<Rightarrow> if isSha40 b then Some b else None | None \<Rightarrow> None)"

section \<open>Control\<close>

definition requested_state :: "strategy_decision \<Rightarrow> control_state" where
  "requested_state d = (case d of SD_PAUSE \<Rightarrow> PAUSE_REQUESTED | SD_STOP \<Rightarrow> STOP_REQUESTED | SD_KILL \<Rightarrow> KILL_REQUESTED | SD_RESUME \<Rightarrow> CS_NONE)"

definition packets_of :: "packet_db \<Rightarrow> strategy_run \<Rightarrow> work_packet list" where
  "packets_of db rec = List.map_filter (\<lambda>i. packet_get i db) (sr_packets rec)"

definition request_control :: "'w swarm_env \<Rightarrow> time \<Rightarrow> strategy_decision \<Rightarrow> string option \<Rightarrow> strategy_run \<Rightarrow> 'w swarm \<Rightarrow> 'w swarm" where
  "request_control en now d reason rec s =
     (let s1 = snd (sm_update (sr_id rec) (no_patch\<lparr>sp_control := Some (requested_state d),
                 sp_status := Some (if d = SD_STOP then SS_STOPPING else sr_status rec)\<rparr>) now s)
      in sm_publish en now (map_of (sm_hooks s1) (sr_id rec))
           ((mk_event EV_control now (sr_repo rec) (sr_id rec))\<lparr>ev_decision := Some d, ev_reason := reason\<rparr>) s1)"

definition requeue :: "time \<Rightarrow> work_packet list \<Rightarrow> 'w swarm \<Rightarrow> 'w swarm" where
  "requeue now ps s = fold (\<lambda>p s. if completed_before (sm_db s) p = None then sm_packetStatus (wp_id p) PK_QUEUED now s else s) ps s"

definition resume_strategy ::
    "'w swarm_env \<Rightarrow> time \<Rightarrow> repository \<Rightarrow> strategy_run \<Rightarrow> 'w service \<Rightarrow> (string + strategy_run) \<times> 'w service" where
  "resume_strategy en now r rec = (\<lambda>(jobs, s).
     if sr_status rec \<noteq> SS_PAUSED
     then (Inl (''Cannot resume strategy in status '' @ strategy_status_name (sr_status rec) @ ''.''), jobs, s)
     else (case run_get (sr_run rec) (sm_runs s) of
         None \<Rightarrow> (Inl (''Campaign '' @ sr_run rec @ '' not found.''), jobs, s)
       | Some ru \<Rightarrow>
           if ru_status ru \<noteq> PAUSED
           then (Inl (''Cannot resume strategy while campaign is '' @ loop_state_name (ru_status ru) @ ''.''), jobs, s)
           else (let ps = packets_of (sm_db s) rec in
             case sm_update (sr_id rec) (no_patch\<lparr>sp_control := Some CS_NONE, sp_status := Some SS_QUEUED, sp_finished := Some None\<rparr>)
                    now (requeue now ps s) of
               (None, s1) \<Rightarrow> (Inr rec, jobs, s1)
             | (Some x, s1) \<Rightarrow> (Inr x, activate en now x r ru ps (case map_of (sm_hooks s1) (sr_id rec) of None \<Rightarrow> no_hooks | Some hk \<Rightarrow> hk)
                 (jobs, s1)))))"

text \<open>The end of a paused strategy, which has no loop that could see the request.\<close>

fun cancel_packets :: "'w swarm_env \<Rightarrow> time \<Rightarrow> ident \<Rightarrow> string \<Rightarrow> work_packet list \<Rightarrow> 'w swarm \<Rightarrow> string option \<times> 'w swarm" where
  "cancel_packets en now repo blocker [] s = (None, s)"
| "cancel_packets en now repo blocker (p # ps) s = (if completed_before (sm_db s) p \<noteq> None then cancel_packets en now repo blocker ps s
     else (case sm_record en now repo p (syntheticResult now p RS_CANCELLED blocker None) s of
         Inl m \<Rightarrow> (Some m, s) | Inr (_, s1) \<Rightarrow> cancel_packets en now repo blocker ps s1))"

definition stopped_worktree :: "packet_db \<Rightarrow> work_packet \<Rightarrow> ident option" where
  "stopped_worktree db p = (case getWorktreeByPacket (wp_id p) db of None \<Rightarrow> None
     | Some wt \<Rightarrow> if wt_status wt \<notin> {WT_ACTIVE, WT_STALE, WT_ALLOCATED} then None
         else if Option.bind (getResult (wp_id p) db) re_blocker = Some ''POLICY_VIOLATION'' then None
         else Some (wt_id wt))"

definition release_worktrees :: "'w swarm_env \<Rightarrow> time \<Rightarrow> repository \<Rightarrow> ident list \<Rightarrow> 'w swarm \<Rightarrow> 'w swarm" where
  "release_worktrees en now r ids s = fold (\<lambda>i s. case worktree_release (se_wt en) (sm_own s) now r i (sm_db s, sm_world s) of
     (_, db, w) \<Rightarrow> s\<lparr>sm_db := db, sm_world := w\<rparr>) ids s"

definition forget_strategy :: "ident \<Rightarrow> 'w swarm \<Rightarrow> 'w swarm" where
  "forget_strategy sid s = s\<lparr>sm_hooks := AList.delete sid (sm_hooks s), sm_stagings := AList.delete sid (sm_stagings s),
     sm_staged := AList.delete sid (sm_staged s)\<rparr>"

definition paused_end :: "strategy_decision \<Rightarrow> strategy_status \<times> string" where
  "paused_end d = (if d = SD_STOP then (SS_CANCELLED, ''USER_STOP: paused strategy stopped.'')
     else (SS_RECOVERY_REQUIRED, ''EMERGENCY_KILLED: paused strategy killed.''))"

definition conclude_paused ::
    "'w swarm_env \<Rightarrow> time \<Rightarrow> strategy_decision \<Rightarrow> strategy_run \<Rightarrow> 'w swarm \<Rightarrow> strategy_run \<times> 'w swarm" where
  "conclude_paused en now d rec s = (let sid = sr_id rec; st = fst (paused_end d); blocker = snd (paused_end d) in
     case sm_update sid (no_patch\<lparr>sp_status := Some st, sp_control := Some (requested_state d), sp_finished := Some (Some now),
            sp_error := Some (Some blocker)\<rparr>) now s of
       (final, s1) \<Rightarrow> (let
           settled = (case final of Some x \<Rightarrow> x | None \<Rightarrow> rec\<lparr>sr_status := st, sr_control := requested_state d,
              sr_finished := Some now, sr_error := Some blocker, sr_updated := now\<rparr>);
           s2 = sm_publish en now (map_of (sm_hooks s1) sid)
             ((mk_event EV_completed now (sr_repo rec) sid)\<lparr>ev_status := Some st, ev_reason := Some blocker\<rparr>) s1;
           s3 = sm_notify (map_of (sm_hooks s2) sid) settled s2
         in (settled, forget_strategy sid s3)))"

definition settle_paused ::
    "'w swarm_env \<Rightarrow> time \<Rightarrow> strategy_decision \<Rightarrow> repository \<Rightarrow> strategy_run \<Rightarrow> 'w swarm \<Rightarrow> (string + strategy_run) \<times> 'w swarm" where
  "settle_paused en now d r rec s = (let ps = packets_of (sm_db s) rec in
     case cancel_packets en now (ry_id r) (snd (paused_end d)) ps s of
       (Some m, s1) \<Rightarrow> (Inl m, s1)
     | (None, s1) \<Rightarrow> (let
          s2 = (if d = SD_KILL then s1 else release_worktrees en now r (List.map_filter (stopped_worktree (sm_db s1)) ps) s1);
          s3 = (case map_of (sm_stagings s2) (sr_id rec) of None \<Rightarrow> s2 | Some sg \<Rightarrow> forget_checkout en r sg s2)
        in (case conclude_paused en now d rec s3 of (x, s4) \<Rightarrow> (Inr x, s4))))"

definition apply_control ::
    "'w swarm_env \<Rightarrow> time \<Rightarrow> strategy_decision \<Rightarrow> repository \<Rightarrow> strategy_run \<Rightarrow> 'w service \<Rightarrow> (string + strategy_run) \<times> 'w service" where
  "apply_control en now d r rec = (\<lambda>(jobs, s).
     let sid = sr_id rec; latest = (case strategy_get sid (sm_strategies s) of Some x \<Rightarrow> x | None \<Rightarrow> rec) in
     if d = SD_RESUME then resume_strategy en now r rec (jobs, s)
     else (case map_of jobs sid of
         Some e \<Rightarrow> (Inr latest, (case d of SD_PAUSE \<Rightarrow> AList.update sid (signal runner_pause e) jobs
            | SD_KILL \<Rightarrow> AList.update sid (signal runner_kill e) jobs | _ \<Rightarrow> jobs), s)
       | None \<Rightarrow> if d \<noteq> SD_PAUSE \<and> sr_status rec = SS_PAUSED
           then (case settle_paused en now d r rec s of (x, s1) \<Rightarrow> (x, jobs, s1)) else (Inr latest, jobs, s)))"

definition control ::
    "'w swarm_env \<Rightarrow> time \<Rightarrow> ident \<Rightarrow> ident \<Rightarrow> ident \<Rightarrow> strategy_decision \<Rightarrow> string option \<Rightarrow> 'w service
     \<Rightarrow> (string + strategy_run) \<times> 'w service" where
  "control en now cid repo sid d reason = (\<lambda>(jobs, s). case strategy_get sid (sm_strategies s) of
       None \<Rightarrow> (Inl ''Execution strategy run does not belong to this repository.'', jobs, s)
     | Some rec \<Rightarrow>
         if sr_repo rec \<noteq> repo then (Inl ''Execution strategy run does not belong to this repository.'', jobs, s)
         else if sr_strategy rec = SINGLE_AGENT then (Inl ''Single-agent runs do not accept strategy controls.'', jobs, s)
         else (case repo_get repo (sm_repos s) of
             None \<Rightarrow> (Inl (''Repository '' @ repo @ '' not found''), jobs, s)
           | Some r \<Rightarrow> (case createControl \<lparr>st_controlId = cid, st_strategy = sid, st_repo = repo, st_run = sr_run rec,
                  st_iter = sr_iter rec, st_decision = d, st_reason = reason, st_created = now\<rparr> (sm_controls s) of
               None \<Rightarrow> (Inl (se_sqlMessage en), jobs, s)
             | Some cs \<Rightarrow> apply_control en now d r rec (jobs, request_control en now d reason rec (s\<lparr>sm_controls := cs\<rparr>)))))"

section \<open>Queries\<close>

record strategy_detail =
  de_strategy :: strategy_run
  de_controls :: "strategy_control list"
  de_packets :: "work_packet list"
  de_results :: "packet_result list"

definition detail_of :: "strategy_run \<Rightarrow> 'w swarm \<Rightarrow> strategy_detail" where
  "detail_of rec s = (let ps = packets_of (sm_db s) rec in
     \<lparr>de_strategy = rec, de_controls = listControls (sr_id rec) (sm_controls s), de_packets = ps,
      de_results = List.map_filter (\<lambda>p. getResult (wp_id p) (sm_db s)) ps\<rparr>)"

definition getDetail :: "ident \<Rightarrow> ident \<Rightarrow> ident \<Rightarrow> 'w swarm \<Rightarrow> strategy_detail option" where
  "getDetail repo runId sid s = (case strategy_get sid (sm_strategies s) of None \<Rightarrow> None
     | Some rec \<Rightarrow> if sr_strategy rec \<noteq> SWARM \<or> sr_repo rec \<noteq> repo \<or> sr_run rec \<noteq> runId then None else Some (detail_of rec s))"

section \<open>Recovery\<close>

definition orphaned_packet :: "work_packet \<Rightarrow> bool" where
  "orphaned_packet p \<longleftrightarrow> wp_status p \<in> {PK_STARTING, PK_RUNNING, PK_RETRYING}"

fun recover_packets :: "'w swarm_env \<Rightarrow> time \<Rightarrow> ident \<Rightarrow> work_packet list \<Rightarrow> 'w swarm \<Rightarrow> string option \<times> 'w swarm" where
  "recover_packets en now repo [] s = (None, s)"
| "recover_packets en now repo (p # ps) s = (if \<not> orphaned_packet p then recover_packets en now repo ps s
     else (case sm_record en now repo p (syntheticResult now p RS_BLOCKED
            ''RECOVERY_REQUIRED: controller restarted without a live swarm worker.''
            (map_option (\<lambda>wt. provenance_of wt None) (getWorktreeByPacket (wp_id p) (sm_db s)))) s of
         Inl m \<Rightarrow> (Some m, s) | Inr (_, s1) \<Rightarrow> recover_packets en now repo ps s1))"

definition recovered_patch :: "time \<Rightarrow> strategy_patch" where
  "recovered_patch now = no_patch\<lparr>sp_status := Some SS_RECOVERY_REQUIRED, sp_control := Some CS_NONE,
     sp_error := Some (Some ''RECOVERY_REQUIRED: controller restarted without live swarm runners.''), sp_finished := Some (Some now)\<rparr>"

definition recover_worktrees :: "'w swarm_env \<Rightarrow> repository \<Rightarrow> 'w swarm \<Rightarrow> 'w swarm" where
  "recover_worktrees en r s = (case worktree_recover (se_wt en) (sm_own s) r (sm_db s, sm_world s) of
     (_, db, w) \<Rightarrow> s\<lparr>sm_db := db, sm_world := w\<rparr>)"

definition recover_strategy ::
    "'w swarm_env \<Rightarrow> time \<Rightarrow> repository \<Rightarrow> strategy_run \<Rightarrow> 'w swarm \<Rightarrow> string option \<times> strategy_run list \<times> 'w swarm" where
  "recover_strategy en now r rec s = (case recover_packets en now (ry_id r) (packets_of (sm_db s) rec) s of
       (Some m, s1) \<Rightarrow> (Some m, [], s1)
     | (None, s1) \<Rightarrow> (case sm_update (sr_id rec) (recovered_patch now) now (recover_worktrees en r s1) of
         (None, s2) \<Rightarrow> (None, [], s2)
       | (Some x, s2) \<Rightarrow> (None, [x], sm_publish en now None
           ((mk_event EV_recovery now (sr_repo x) (sr_id x))\<lparr>ev_reason := sr_error x\<rparr>) s2)))"

fun recover_each :: "'w swarm_env \<Rightarrow> time \<Rightarrow> strategy_run list \<Rightarrow> 'w swarm \<Rightarrow> (string + strategy_run list) \<times> 'w swarm" where
  "recover_each en now [] s = (Inr [], s)"
| "recover_each en now (rec # recs) s = (case repo_get (sr_repo rec) (sm_repos s) of
       None \<Rightarrow> recover_each en now recs s
     | Some r \<Rightarrow> (case recover_strategy en now r rec s of
         (Some m, _, s1) \<Rightarrow> (Inl m, s1)
       | (None, xs, s1) \<Rightarrow> (case recover_each en now recs s1 of
           (Inl m, s2) \<Rightarrow> (Inl m, s2) | (Inr ys, s2) \<Rightarrow> (Inr (xs @ ys), s2))))"

definition recoverAll :: "'w swarm_env \<Rightarrow> time \<Rightarrow> 'w swarm \<Rightarrow> (string + strategy_run list) \<times> 'w swarm" where
  "recoverAll en now s = recover_each en now (listRecoverable (sm_strategies s)) s"

end
