(* ===== verification/Dag_Strategy.thy ===== *)
theory Dag_Strategy
  imports Swarm_Control "HOL-Library.List_Lexorder" "HOL-Library.Char_ord"
begin

text \<open>
  \<open>DagExecutionService\<close> of \<open>apps/controller/src/strategy/dag-execution-service.ts\<close>: the validation of a graph of nodes
  against its packets, and the operations that run it on the swarm engine. The node table, the hooks
  and \<open>finalize\<close> are in \<open>Dag_Nodes\<close>.
\<close>

section \<open>Validation\<close>

record dag_request =
  dr_nodes :: "dag_node_def list"
  dr_max :: "int option"

fun check_nodes :: "ident list \<Rightarrow> ident list \<Rightarrow> dag_node_def list \<Rightarrow> string option" where
  "check_nodes nodeIds packetIds [] = None"
| "check_nodes nodeIds packetIds (n # ns) =
     (if dn_node n \<in> set nodeIds then Some (''DAG node ID is duplicated: '' @ dn_node n)
      else if dn_packet n \<in> set packetIds then Some (''DAG packet ID is duplicated: '' @ dn_packet n)
      else if dn_node n \<in> set (dn_depends n) then Some (''DAG node cannot depend on itself: '' @ dn_node n)
      else if \<not> distinct (dn_depends n) then Some (''DAG dependencies are duplicated for node '' @ dn_node n @ ''.'')
      else check_nodes (dn_node n # nodeIds) (dn_packet n # packetIds) ns)"

definition unknown_dependency :: "dag_node_def list \<Rightarrow> string option" where
  "unknown_dependency nodes = map_option (\<lambda>d. ''DAG dependency does not name a known node: '' @ d)
     (find (\<lambda>d. d \<notin> set (map dn_node nodes)) (concat (map dn_depends nodes)))"

definition node_graph :: "dag_node_def list \<Rightarrow> graph" where
  "node_graph nodes = map (\<lambda>n. (dn_node n, dn_depends n)) nodes"

definition dag_hasCycle :: "dag_node_def list \<Rightarrow> bool" where
  "dag_hasCycle nodes = has_cycle (node_graph nodes) (map dn_node nodes)"

definition packet_of_node :: "dag_node_def list \<Rightarrow> ident \<Rightarrow> ident" where
  "packet_of_node nodes d = (case tbl_get dn_node d nodes of Some n \<Rightarrow> dn_packet n | None \<Rightarrow> [])"

text \<open>\<open>sort\<close> of JavaScript compares code units.\<close>

definition node_refusal :: "packet_db \<Rightarrow> ident \<Rightarrow> ident \<Rightarrow> int \<Rightarrow> dag_node_def list \<Rightarrow> work_packet list \<Rightarrow> dag_node_def \<Rightarrow> string option" where
  "node_refusal db repo runId iter nodes ps n = (case tbl_get wp_id (dn_packet n) ps of
       None \<Rightarrow> Some ''Cannot read properties of undefined''
     | Some p \<Rightarrow>
         if wp_run p \<noteq> runId \<or> wp_campaign p \<noteq> runId \<or> wp_iter p \<noteq> iter \<or> getRepositoryId (wp_id p) db \<noteq> Some repo
         then Some (''Packet '' @ wp_id p @ '' does not belong to the requested campaign iteration.'')
         else if sort (map (packet_of_node nodes) (dn_depends n)) \<noteq> sort (wp_depends p)
         then Some (''DAG dependencies for node '' @ dn_node n @ '' do not match its typed packet dependencies.'')
         else None)"

definition validateNodes :: "packet_db \<Rightarrow> ident \<Rightarrow> ident \<Rightarrow> int \<Rightarrow> dag_node_def list \<Rightarrow> string + work_packet list" where
  "validateNodes db repo runId iter nodes = (case check_nodes [] [] nodes of
       Some m \<Rightarrow> Inl m
     | None \<Rightarrow> (case unknown_dependency nodes of
         Some m \<Rightarrow> Inl m
       | None \<Rightarrow> if dag_hasCycle nodes then Inl ''DAG dependency graph contains a cycle.''
           else (case select_packets db (map dn_packet nodes) of
               None \<Rightarrow> Inl ''Every DAG packet must be durable before execution.''
             | Some ps \<Rightarrow> (case first_refusal (node_refusal db repo runId iter nodes ps) nodes of Some m \<Rightarrow> Inl m | None \<Rightarrow> Inr ps))))"

definition dag_concurrency :: "dag_request \<Rightarrow> int" where
  "dag_concurrency req = (case dr_max req of Some m \<Rightarrow> m | None \<Rightarrow> 2)"

definition dag_validate :: "'w swarm \<Rightarrow> ident \<Rightarrow> ident \<Rightarrow> int \<Rightarrow> dag_request \<Rightarrow> string + dag_context" where
  "dag_validate s repo runId iter req = (case repo_get repo (sm_repos s) of
       None \<Rightarrow> Inl (''Repository '' @ repo @ '' not found'')
     | Some r \<Rightarrow> (case run_get runId (sm_runs s) of
         None \<Rightarrow> Inl ''Campaign/run correlation is invalid.''
       | Some ru \<Rightarrow>
           if ru_repo ru \<noteq> repo then Inl ''Campaign/run correlation is invalid.''
           else if ru_iter ru \<noteq> iter then Inl (''DAG iteration does not match the campaign'' @ [CHR 0x27] @ ''s current iteration.'')
           else if dag_concurrency req < 1 \<or> 32 < dag_concurrency req then Inl ''DAG maxConcurrency must be an integer from 1 to 32.''
           else if length (dr_nodes req) = 0 \<or> 100 < length (dr_nodes req) then Inl ''A DAG must contain between 1 and 100 nodes.''
           else (case validateNodes (sm_db s) repo runId iter (dr_nodes req) of
               Inl m \<Rightarrow> Inl m | Inr ps \<Rightarrow> Inr \<lparr>dc_nodes = dr_nodes req, dc_packets = ps\<rparr>)))"

section \<open>Operations\<close>

definition asWorkerOptions :: "dag_request \<Rightarrow> start_options" where
  "asWorkerOptions req = \<lparr>so_packets = map dn_packet (dr_nodes req), so_max = dr_max req\<rparr>"

definition dag_hooks :: "dag_context \<Rightarrow> bool \<Rightarrow> hooks" where
  "dag_hooks c completed = \<lparr>hk_dag = Some c, hk_completed = completed\<rparr>"

definition dag_start ::
    "'w swarm_env \<Rightarrow> time \<Rightarrow> ident \<Rightarrow> ident \<Rightarrow> ident \<Rightarrow> ident \<Rightarrow> int \<Rightarrow> dag_request \<Rightarrow> 'w service \<Rightarrow> (string + strategy_run) \<times> 'w service" where
  "dag_start en now leaseId sid repo runId iter req = (\<lambda>(jobs, s). case dag_validate s repo runId iter req of
       Inl m \<Rightarrow> (Inl m, jobs, s)
     | Inr c \<Rightarrow> startStrategy en now leaseId sid DAG repo runId iter (asWorkerOptions req) (dag_hooks c False) None None (jobs, s))"

text \<open>The start of \<open>execute\<close>; when the strategy has ended, \<open>dag_finalize\<close> is applied to its record.\<close>

definition dag_execute ::
    "'w swarm_env \<Rightarrow> time \<Rightarrow> ident \<Rightarrow> ident \<Rightarrow> ident \<Rightarrow> int \<Rightarrow> dag_request \<Rightarrow> 'w service \<Rightarrow> (string + strategy_run) \<times> 'w service" where
  "dag_execute en now sid repo runId iter req = (\<lambda>(jobs, s). case dag_validate s repo runId iter req of
       Inl m \<Rightarrow> (Inl m, jobs, s)
     | Inr c \<Rightarrow> executeStrategy en now sid DAG repo runId iter (asWorkerOptions req) (dag_hooks c False) None None (jobs, s))"

definition dag_startForDispatch ::
    "'w swarm_env \<Rightarrow> time \<Rightarrow> ident \<Rightarrow> ident \<Rightarrow> ident \<Rightarrow> ident \<Rightarrow> int \<Rightarrow> ident option \<Rightarrow> string option \<Rightarrow> execution_plan \<Rightarrow> bool
     \<Rightarrow> 'w service \<Rightarrow> (string + strategy_run) \<times> 'w service" where
  "dag_startForDispatch en now leaseId sid repo runId iter dispatch base plan completed = (\<lambda>(jobs, s).
     case dag_validate s repo runId iter \<lparr>dr_nodes = (case pn_dagNodes plan of Some l \<Rightarrow> l | None \<Rightarrow> []), dr_max = pn_maxConcurrency plan\<rparr> of
       Inl m \<Rightarrow> (Inl m, jobs, s)
     | Inr c \<Rightarrow> startStrategyForDispatch en now leaseId sid DAG repo runId iter dispatch base
          (plan\<lparr>pn_packetIds := Some (map wp_id (dc_packets c))\<rparr>) (dag_hooks c completed) (jobs, s))"

definition dag_get :: "ident \<Rightarrow> 'w swarm \<Rightarrow> strategy_run option" where
  "dag_get sid s = (case strategy_get sid (sm_strategies s) of None \<Rightarrow> None
     | Some r \<Rightarrow> if sr_strategy r = DAG then Some r else None)"

definition dag_listByRun :: "ident \<Rightarrow> 'w swarm \<Rightarrow> strategy_run list" where
  "dag_listByRun runId s = filter (\<lambda>r. sr_strategy r = DAG) (listByRun runId (sm_strategies s))"

definition dag_getDetail :: "'w swarm_env \<Rightarrow> ident \<Rightarrow> ident \<Rightarrow> ident \<Rightarrow> 'w swarm \<Rightarrow> (strategy_detail \<times> dag_node list) option" where
  "dag_getDetail en repo runId sid s = (case dag_get sid s of None \<Rightarrow> None
     | Some rec \<Rightarrow> if sr_repo rec \<noteq> repo \<or> sr_run rec \<noteq> runId then None
         else Some (detail_of rec s, node_list (se_rank en) sid (sm_nodes s)))"

definition killable_states :: "dag_node_status list" where
  "killable_states = [DN_QUEUED, DN_STARTING, DN_RUNNING, DN_WAITING_DEPENDENCY, DN_WAITING_PERMISSION, DN_RETRYING]"

definition control_nodes ::
    "(ident \<Rightarrow> int) \<Rightarrow> time \<Rightarrow> ident \<Rightarrow> strategy_decision \<Rightarrow> string option \<Rightarrow> dag_node list \<Rightarrow> dag_node list" where
  "control_nodes rank now sid d reason t = (case d of
       SD_PAUSE \<Rightarrow> t
     | SD_STOP \<Rightarrow> upd_listed rank sid (\<lambda>n. nd_status n \<in> set waiting_states)
         (\<lambda>_. no_node_patch\<lparr>np_status := Some DN_CANCELLED,
            np_reason := Some (Some (case reason of Some x \<Rightarrow> x | None \<Rightarrow> ''USER_STOP''))\<rparr>) now t
     | SD_KILL \<Rightarrow> upd_listed rank sid (\<lambda>n. nd_status n \<in> set killable_states)
         (\<lambda>_. no_node_patch\<lparr>np_status := Some DN_BLOCKED,
            np_reason := Some (Some (case reason of Some x \<Rightarrow> x | None \<Rightarrow> ''RECOVERY_REQUIRED: emergency kill''))\<rparr>) now t
     | SD_RESUME \<Rightarrow> upd_listed rank sid (\<lambda>n. nd_status n \<noteq> DN_COMPLETED)
         (\<lambda>n. no_node_patch\<lparr>np_status := Some (if waits (nd_depends n) then DN_WAITING_DEPENDENCY else DN_QUEUED),
            np_reason := Some None, np_finished := Some None\<rparr>) now t)"

definition dag_finalize :: "'w swarm_env \<Rightarrow> time \<Rightarrow> strategy_run \<Rightarrow> 'w swarm \<Rightarrow> strategy_run \<times> 'w swarm" where
  "dag_finalize en now rec s = (case finalize (se_rank en) now rec (sm_strategies s, sm_nodes s) of
     (x, ss, ns) \<Rightarrow> (x, s\<lparr>sm_strategies := ss, sm_nodes := ns\<rparr>))"

definition dag_control ::
    "'w swarm_env \<Rightarrow> time \<Rightarrow> ident \<Rightarrow> ident \<Rightarrow> ident \<Rightarrow> strategy_decision \<Rightarrow> string option \<Rightarrow> 'w service
     \<Rightarrow> (string + strategy_run) \<times> 'w service" where
  "dag_control en now cid repo sid d reason j = (case control en now cid repo sid d reason j of
       (Inl m, j1) \<Rightarrow> (Inl m, j1)
     | (Inr rec, jobs, s) \<Rightarrow>
         if sr_strategy rec \<noteq> DAG then (Inl ''The requested strategy run is not a DAG.'', jobs, s)
         else (case dag_finalize en now rec (s\<lparr>sm_nodes := control_nodes (se_rank en) now sid d reason (sm_nodes s)\<rparr>) of
             (x, s1) \<Rightarrow> (Inr x, jobs, s1)))"

definition recover_nodes :: "'w swarm_env \<Rightarrow> time \<Rightarrow> strategy_run \<Rightarrow> dag_node list \<Rightarrow> dag_node list" where
  "recover_nodes en now rec t = upd_listed (se_rank en) (sr_id rec) (\<lambda>n. nd_status n \<noteq> DN_COMPLETED)
     (\<lambda>_. no_node_patch\<lparr>np_status := Some DN_BLOCKED,
        np_reason := Some (Some ''RECOVERY_REQUIRED: controller restarted without a live DAG runner.''),
        np_finished := Some (Some now)\<rparr>) now t"

definition dag_recoverAll :: "'w swarm_env \<Rightarrow> time \<Rightarrow> 'w swarm \<Rightarrow> (string + strategy_run list) \<times> 'w swarm" where
  "dag_recoverAll en now s = (case recoverAll en now s of
       (Inl m, s1) \<Rightarrow> (Inl m, s1)
     | (Inr recs, s1) \<Rightarrow> (let dags = filter (\<lambda>r. sr_strategy r = DAG) recs
         in (Inr dags, s1\<lparr>sm_nodes := fold (recover_nodes en now) dags (sm_nodes s1)\<rparr>)))"

end
