(* ===== verification/Engine_Gate.thy ===== *)
theory Engine_Gate
  imports Engine_Laws
begin

text \<open>What a packet must have passed before the loop allocates a worktree for it.\<close>

definition allocating_packet :: "pc \<Rightarrow> work_packet option" where
  "allocating_packet q = (case q of PC_allocate p _ _ _ \<Rightarrow> Some p | _ \<Rightarrow> None)"

lemma allocating_simps [simp]: "allocating_packet (PC_wait l) = None" "allocating_packet (PC_scan xs l) = None"
  "allocating_packet (PC_allocate p xs l is) = Some p"
  by (simp_all add: allocating_packet_def)

abbreviation elsewhere :: "('w job, 'a) act \<Rightarrow> bool" where
  "elsewhere m \<equiv> ens (\<lambda>_. True) m (\<lambda>e. allocating_packet (ex_pc e) = None) (\<lambda>_. True)"

lemma elsewhere_bind: "(\<And>x. elsewhere (f x)) \<Longrightarrow> elsewhere (act_bind m f)"
proof -
  have "ens (\<lambda>_. True) m (\<lambda>_. True) (\<lambda>_. True)" by (rule ensI) (simp split: sum.split)
  then show "(\<And>x. elsewhere (f x)) \<Longrightarrow> elsewhere (act_bind m f)" by (rule ens_bind)
qed

lemma elsewhere_goto: "allocating_packet q = None \<Longrightarrow> elsewhere (goto q)"
  by (rule ens_on_exec) simp

lemma elsewhere_raise: "elsewhere (raise m)"
  by (rule ens_raise) simp

lemmas elsewhere_rules = elsewhere_bind elsewhere_goto elsewhere_raise

text \<open>An action that ends elsewhere does not bring the loop to an allocation.\<close>

lemma elsewhere_contra:
  assumes "elsewhere m" and "exec_act en now fresh (ex_pc e) (e, s) = m j" and "fst (exec_main en now fresh (e, s)) = e'"
  shows "allocating_packet (ex_pc e') = None"
proof -
  obtain x e1 s1 where r: "m j = (x, e1, s1)" by (metis surj_pair)
  obtain e0 s0 where j: "j = (e0, s0)" by (cases j)
  show ?thesis
    using ensD [OF assms(1) TrueI r [unfolded j]] r assms(2,3)
    by (cases x) (auto simp: exec_main_def allocating_packet_def)
qed

definition dependencies_done :: "exec \<Rightarrow> 'w swarm \<Rightarrow> work_packet \<Rightarrow> bool" where
  "dependencies_done e s p \<longleftrightarrow> list_all (\<lambda>d. d \<notin> set (ex_pending e)
     \<and> map_option re_status (result_or_stored (ex_results e) (sm_db s) d) = Some RS_COMPLETED) (wp_depends p)"

text \<open>
  C9: the gate of a launch. From its scan, the loop allocates a worktree for a packet only if a slot is free, every
  dependency is out of the pending set and has a completed result (in hand or stored), the write permission
  is neither asked for nor denied, and the scheduler admitted the request.
\<close>

theorem launch_needs_everything:
  assumes "ex_pc e = PC_scan (p # rest) l"
    and "allocating_packet (ex_pc (fst (exec_main en now fresh (e, s)))) \<noteq> None"
  shows "int (length (ex_workers e)) < sr_maxConcurrency (ex_rec e) \<and> dependencies_done e s p
    \<and> (case evaluateWritePermission (se_policy en) (fresh ''permission'') now (ry_id (ex_repo e)) (ru_id (ex_run e)) (ru_iter (ex_run e)) p (sm_perm s) of
         Some (oc, _) \<Rightarrow> oc \<noteq> ASK \<and> oc \<noteq> DENY | None \<Rightarrow> False)
    \<and> (case admit (fresh ''decision'') now (admission_of e p) (sm_sched s) of Inr (d, _) \<Rightarrow> sd_status d = ADMITTED | Inl _ \<Rightarrow> False)"
proof -
  have act: "exec_act en now fresh (ex_pc e) = consider_packet en now fresh p rest l" by (simp add: assms(1) exec_act_def)
  have no: "\<not> elsewhere m" if "consider_packet en now fresh p rest l (e, s) = m j" for m :: "('a job, unit) act" and j
  proof
    assume el: "elsewhere m"
    have "exec_act en now fresh (ex_pc e) (e, s) = m j" using that by (simp only: act)
    then have "allocating_packet (ex_pc (fst (exec_main en now fresh (e, s)))) = None"
      by (intro elsewhere_contra [where m = m and j = j, OF el _ refl])
    then show False using assms(2) by contradiction
  qed
  have slot: "\<not> sr_maxConcurrency (ex_rec e) \<le> int (length (ex_workers e))"
    using no [of "goto (PC_wait l)" "(e, s)"] by (auto simp: consider_packet_def with_job_def intro!: elsewhere_rules)
  have free: "\<not> list_ex (\<lambda>d. d \<in> set (ex_pending e)) (wp_depends p)"
    using no [of "goto (PC_scan rest l)" "(e, s)"] slot by (auto simp: consider_packet_def with_job_def intro!: elsewhere_rules)
  let ?deps = "map (result_or_stored (ex_results e) (sm_db s)) (wp_depends p)"
  have good: "\<not> list_ex (\<lambda>x. case x of None \<Rightarrow> False | Some y \<Rightarrow> re_status y \<noteq> RS_COMPLETED) ?deps"
    using no [of "act_bind (settle en now RS_SKIPPED_DEPENDENCY ''A dependency did not complete successfully.'' p) (\<lambda>_. goto (PC_scan rest l))" "(e, s)"]
      slot free by (auto simp: consider_packet_def with_job_def Let_def intro!: elsewhere_rules)
  have known: "None \<notin> set ?deps"
    using no [of "goto (PC_scan rest l)" "(e, s)"] slot free good
    by (auto simp: consider_packet_def with_job_def Let_def intro!: elsewhere_rules)
  have permit: "consider_packet en now fresh p rest l (e, s) = permit_packet en now fresh p rest l (e, s)"
    using slot free good known by (auto simp: consider_packet_def with_job_def Let_def)
  let ?ev = "evaluateWritePermission (se_policy en) (fresh ''permission'') now (ry_id (ex_repo e)) (ru_id (ex_run e)) (ru_iter (ex_run e)) p (sm_perm s)"
  obtain oc perm where ev: "?ev = Some (oc, perm)"
  proof (cases ?ev)
    case None
    then show ?thesis using no [of "raise (se_sqlMessage en)" "(e, s)"] permit
      by (auto simp: permit_packet_def with_job_def intro!: elsewhere_rules)
  next
    case (Some x)
    then show ?thesis using that by (cases x) blast
  qed
  have oc: "oc \<noteq> ASK" "oc \<noteq> DENY"
    using no [of "act_bind (on_swarm (sm_perm_update (\<lambda>_. perm))) (\<lambda>_. act_bind (refuse_packet en now oc p) (\<lambda>_. goto (PC_scan rest l)))" "(e, s)"] permit ev
    by (auto simp: permit_packet_def with_job_def intro!: elsewhere_rules)
  let ?s = "sm_perm_update (\<lambda>_. perm) s"
  have admits: "consider_packet en now fresh p rest l (e, s) = admit_packet en now fresh p rest l (e, ?s)"
    using permit ev oc by (simp add: permit_packet_def with_job_def act_bind_def on_swarm_def)
  have "case admit (fresh ''decision'') now (admission_of e p) (sm_sched s) of Inr (d, _) \<Rightarrow> sd_status d = ADMITTED | Inl _ \<Rightarrow> False"
  proof (cases "admit (fresh ''decision'') now (admission_of e p) (sm_sched s)")
    case (Inl err)
    then show ?thesis using no [of "raise (case err of ZodError \<Rightarrow> se_admitMessage en | SqliteError \<Rightarrow> se_sqlMessage en)" "(e, ?s)"] admits
      by (auto simp: admit_packet_def with_job_def intro!: elsewhere_rules)
  next
    case (Inr x)
    then obtain d sched where x: "admit (fresh ''decision'') now (admission_of e p) (sm_sched s) = Inr (d, sched)" by (cases x) blast
    have "sd_status d = ADMITTED"
    proof (rule ccontr)
      assume "sd_status d \<noteq> ADMITTED"
      then show False
        using no [of "act_bind (on_swarm (sm_sched_update (\<lambda>_. sched))) (\<lambda>_. act_bind (not_admitted en now d p) (\<lambda>_. goto (PC_scan rest l)))" "(e, ?s)"]
          admits x by (auto simp: admit_packet_def with_job_def intro!: elsewhere_rules)
    qed
    then show ?thesis by (simp add: x)
  qed
  moreover have "dependencies_done e s p"
    using free good known by (auto simp: dependencies_done_def list_all_iff list_ex_iff split: option.splits) (metis option.exhaust option.set_map image_eqI)
  ultimately show ?thesis using slot ev oc by simp
qed

end
