(* ===== verification/Engine_Board.thy ===== *)
theory Engine_Board
  imports Engine_Gate
begin

text \<open>
  An abstract account of a strategy, and the loop as a refinement of it. A board knows which packets are open, which
  have a worker (with the packets that one depends on), and how the others ended. A packet leaves the open ones by being
  settled without a worker, never as completed, or by being given to a worker when a slot is free and nothing it depends
  on is open; a worker ends with some status. That is all the loop, its workers and the controls can do.
\<close>

section \<open>The board\<close>

type_synonym board = "ident set \<times> (ident \<times> ident set) set \<times> (ident \<rightharpoonup> result_status)"

inductive board_step :: "int \<Rightarrow> board \<Rightarrow> board \<Rightarrow> bool" for limit :: int where
  Settle: "i \<in> P \<Longrightarrow> st \<noteq> RS_COMPLETED \<Longrightarrow> board_step limit (P, R, m) (P - {i}, R, m(i \<mapsto> st))"
| Start: "i \<in> P \<Longrightarrow> D \<inter> P = {} \<Longrightarrow> int (card R) < limit \<Longrightarrow> board_step limit (P, R, m) (P - {i}, insert (i, D) R, m)"
| Finish: "(i, D) \<in> R \<Longrightarrow> board_step limit (P, R, m) (P, R - {(i, D)}, m(i \<mapsto> st))"

inductive_cases board_stepE: "board_step limit b b'"

abbreviation board_steps :: "int \<Rightarrow> board \<Rightarrow> board \<Rightarrow> bool" where
  "board_steps limit \<equiv> (board_step limit)\<^sup>*\<^sup>*"

text \<open>
  On a board within its limit nobody works on what depends on an open packet, and no packet is in two places.
\<close>

definition board_ok :: "int \<Rightarrow> board \<Rightarrow> bool" where
  "board_ok limit b = (case b of (P, R, m) \<Rightarrow> finite R \<and> int (card R) \<le> limit \<and> (\<forall>(i, D) \<in> R. D \<inter> P = {})
     \<and> inj_on fst R \<and> P \<inter> fst ` R = {} \<and> (P \<union> fst ` R) \<inter> dom m = {})"

lemma board_step_ok: "board_step limit b b' \<Longrightarrow> board_ok limit b \<Longrightarrow> board_ok limit b'"
proof (induction rule: board_step.induct)
  case (Settle i P st R m)
  then show ?case by (auto simp: board_ok_def)
next
  case (Start i P D R m)
  then have "i \<notin> fst ` R" "finite R" by (auto simp: board_ok_def)
  then have "int (card (insert (i, D) R)) \<le> limit" using Start by (subst card_insert_disjoint) (auto simp: rev_image_eqI)
  then show ?case using Start by (auto simp: board_ok_def inj_on_def)
next
  case (Finish i D R P m st)
  then have "finite R" and c: "int (card R) \<le> limit" by (auto simp: board_ok_def)
  then have "card (R - {(i, D)}) \<le> card R" by (intro card_mono) auto
  moreover have "i \<notin> fst ` (R - {(i, D)})"
  proof
    assume "i \<in> fst ` (R - {(i, D)})"
    then obtain x where "x \<in> R" "x \<noteq> (i, D)" "fst x = fst (i, D)" by auto
    moreover have "inj_on fst R" using Finish by (simp add: board_ok_def)
    ultimately show False using Finish(1) by (meson inj_onD)
  qed
  moreover have "i \<in> fst ` R" using Finish(1) by force
  moreover have "inj_on fst (R - {(i, D)})" using Finish by (auto simp: board_ok_def intro: inj_on_subset)
  ultimately show ?case using Finish c by (auto simp: board_ok_def)
qed

lemma board_steps_ok: "board_steps limit b b' \<Longrightarrow> board_ok limit b \<Longrightarrow> board_ok limit b'"
  by (induction rule: rtranclp_induct) (auto intro: board_step_ok)

text \<open>Open packets only become fewer, and an outcome is final.\<close>

lemma board_step_mono:
  "board_step limit (P, R, m) (P', R', m') \<Longrightarrow> board_ok limit (P, R, m) \<Longrightarrow> P' \<subseteq> P \<and> m \<subseteq>\<^sub>m m'"
  by (erule board_stepE) (auto simp: board_ok_def map_le_def)

section \<open>The loop on the board\<close>

definition board :: "exec \<Rightarrow> board" where
  "board e = (set (ex_pending e), (\<lambda>(i, w). (i, set (wp_depends (wk_packet w)))) ` set (ex_workers e),
     \<lambda>i. map_option re_status (map_of (ex_results e) i))"

abbreviation limit_of :: "exec \<Rightarrow> int" where
  "limit_of e \<equiv> sr_maxConcurrency (ex_rec e)"

definition path :: "exec \<Rightarrow> exec \<Rightarrow> bool" where
  "path e e' \<longleftrightarrow> limit_of e' = limit_of e \<and> board_steps (limit_of e) (board e) (board e')"

lemma path_refl [simp]: "path e e"
  by (simp add: path_def)

lemma path_trans: "path e e1 \<Longrightarrow> path e1 e2 \<Longrightarrow> path e e2"
  by (auto simp: path_def)

definition refines :: "(exec \<Rightarrow> bool) \<Rightarrow> ('w job, 'a) act \<Rightarrow> bool" where
  "refines P m \<longleftrightarrow> (\<forall>e s. P e \<longrightarrow> path e (fst (snd (m (e, s)))))"

definition still :: "('w job, 'a) act \<Rightarrow> bool" where
  "still m \<longleftrightarrow> (\<forall>j. board (fst (snd (m j))) = board (fst j) \<and> limit_of (fst (snd (m j))) = limit_of (fst j))"

named_theorems still_rules

lemma still_bind [still_rules]: "still m \<Longrightarrow> (\<And>x. still (f x)) \<Longrightarrow> still (act_bind m f)"
  unfolding still_def act_bind_def by (auto split: prod.split sum.split) (metis fst_conv snd_conv)+

lemma still_with_job [still_rules]: "(\<And>e s. still (f e s)) \<Longrightarrow> still (with_job f)"
  by (simp add: still_def with_job_def split_beta)

lemma still_basic [still_rules]: "still (act_return x)" "still (on_swarm g)" "still (emit en now ev)" "still (raise m)"
  "still (record_result en now p y)"
  by (auto simp: still_def act_return_def on_swarm_def emit_def raise_def record_result_def split: sum.splits)

lemma still_on_exec [still_rules]: "(\<And>e. board (f e) = board e \<and> limit_of (f e) = limit_of e) \<Longrightarrow> still (on_exec f)"
  by (simp add: still_def on_exec_def split_beta)

lemma board_frame [simp]: "board (e\<lparr>ex_pc := p\<rparr>) = board e" "board (e\<lparr>ex_idle := k\<rparr>) = board e" "board (e\<lparr>ex_queued := q\<rparr>) = board e"
  "board (e\<lparr>ex_rec := r\<rparr>) = board e" "board (e\<lparr>ex_base := b\<rparr>) = board e"
  by (simp_all add: board_def)

lemma board_signal [simp]: "board (signal f e) = board e"
  by (force simp: board_def signal_def)

lemma still_goto [still_rules]: "still (goto p)"
  by (intro still_rules) simp

lemma still_report [still_rules]: "still (write_report now cs xs i st b)"
  unfolding write_report_def by (intro still_rules) simp

lemma still_end: "still (exec_final now)" "still (exec_integrate en fresh now cs xs)" "still (exec_staging en st b rep)"
  "still (exec_release en now st b rep i ids)" "still (exec_store en now st b rep)" "still (exec_begin en now)"
proof -
  show "still (exec_final now)"
    unfolding exec_final_def Let_def by (auto intro!: still_rules split: control_state.split)
  have "still (land_dag en now xs)" "still (integrate_swarm en fresh now xs)"
    by (auto simp: still_def land_dag_def integrate_swarm_def split: prod.split option.split list.split)
  then show "still (exec_integrate en fresh now cs xs)"
    unfolding exec_integrate_def by (auto intro!: still_rules)
  show "still (exec_staging en st b rep)" "still (exec_release en now st b rep i ids)"
    unfolding exec_staging_def exec_release_def by (auto intro!: still_rules)
  show "still (exec_store en now st b rep)" "still (exec_begin en now)"
    by (auto simp: still_def exec_store_def exec_begin_def Let_def split: prod.split)
qed

lemma refines_still: "still m \<Longrightarrow> refines P m"
  by (auto simp: refines_def still_def path_def)

lemma refines_bind:
  assumes m: "refines P m" and q: "ens P m Q R" and f: "\<And>x. refines Q (f x)"
  shows "refines P (act_bind m f)"
  unfolding refines_def
proof (intro allI impI)
  fix e s assume P: "P e"
  obtain y e1 s1 where y: "m (e, s) = (y, e1, s1)" by (metis surj_pair)
  have p1: "path e e1" using m P y unfolding refines_def by (metis fst_conv snd_conv)
  show "path e (fst (snd (act_bind m f (e, s))))"
  proof (cases y)
    case (Inl z)
    then show ?thesis using p1 y by (simp add: act_bind_def)
  next
    case (Inr z)
    then have "Q e1" using ensD [OF q P y] by simp
    then have "path e1 (fst (snd (f z (e1, s1))))" using f by (simp add: refines_def)
    then show ?thesis using p1 y Inr by (auto simp: act_bind_def intro: path_trans)
  qed
qed

lemma refines_then: "refines P m \<Longrightarrow> (\<And>x. still (f x)) \<Longrightarrow> refines P (act_bind m f)"
  by (rule refines_bind [where Q = "\<lambda>_. True" and R = "\<lambda>_. True"])
    (auto intro!: refines_still ensI split: sum.split)

lemma refines_with_job: "(\<And>e s. P e \<Longrightarrow> refines (\<lambda>e'. e' = e) (f e s)) \<Longrightarrow> refines P (with_job f)"
  by (simp add: refines_def with_job_def)

lemma refines_pre: "refines P m \<Longrightarrow> (\<And>e. P' e \<Longrightarrow> P e) \<Longrightarrow> refines P' m"
  by (simp add: refines_def)

lemma refines_if: "(c \<Longrightarrow> refines P m) \<Longrightarrow> (\<not> c \<Longrightarrow> refines P n) \<Longrightarrow> refines P (if c then m else n)"
  by simp

section \<open>The three moves\<close>

lemma schema_status: "workPacketResultSchema x = Some y \<Longrightarrow> re_status y = re_status x"
  by (auto simp: workPacketResultSchema_def bind_eq_Some_conv split: if_splits)

lemma sm_record_Inr:
  assumes "sm_record en now repo p x s = Inr (y, s')"
  shows "s' = s\<lparr>sm_db := sm_db s'\<rparr>" "getResult i (sm_db s') = (if i = wp_id p then Some y else getResult i (sm_db s))"
    "re_status y = re_status x"
proof -
  obtain db where db: "recordResult now repo p x (sm_db s) = Inr (y, db)" "s' = s\<lparr>sm_db := db\<rparr>"
    using assms by (auto simp: sm_record_def split: sum.splits)
  then show "s' = s\<lparr>sm_db := sm_db s'\<rparr>" "getResult i (sm_db s') = (if i = wp_id p then Some y else getResult i (sm_db s))"
    "re_status y = re_status x"
    using recordResult_Inr [OF db(1)] by (auto simp: packet_simps dest: schema_status)
qed

lemma record_result_status: "record_result en now p x (e, s) = (Inr y, e', s') \<Longrightarrow> re_status y = re_status x"
  by (auto simp: record_result_def split: sum.splits dest: sm_record_Inr(3))

lemma path_settle:
  assumes "i \<in> set (ex_pending e)" and "re_status y \<noteq> RS_COMPLETED"
  shows "path e (e\<lparr>ex_results := AList.update i y (ex_results e), ex_pending := removeAll i (ex_pending e)\<rparr>)" (is "path e ?e")
proof -
  have "board ?e = (set (ex_pending e) - {i}, fst (snd (board e)), (snd (snd (board e)))(i \<mapsto> re_status y))"
    by (auto simp: board_def update_conv')
  then have "board_step (limit_of e) (board e) (board ?e)"
    using board_step.Settle [of i "set (ex_pending e)" "re_status y" "limit_of e" "fst (snd (board e))" "snd (snd (board e))"] assms
    by (simp add: board_def)
  then show ?thesis by (auto simp: path_def)
qed

lemma refines_settle:
  assumes "st \<noteq> RS_COMPLETED"
  shows "refines (lined (wp_id p # ids)) (settle en now st b p)"
  unfolding refines_def
proof (intro allI impI)
  fix e s assume "lined (wp_id p # ids) e"
  then have i: "wp_id p \<in> set (ex_pending e)" by (simp add: lined_def)
  obtain x e1 s1 where r: "record_result en now p (syntheticResult now p st b None) (e, s) = (x, e1, s1)" by (metis surj_pair)
  have e1: "e1 = e" by (rule record_result_exec [OF r])
  show "path e (fst (snd (settle en now st b p (e, s))))"
  proof (cases x)
    case (Inl m)
    then show ?thesis using r e1 by (simp add: settle_def act_bind_def)
  next
    case (Inr y)
    then have "re_status y = st" using record_result_status [of en now p _ e s y e1 s1] r by (simp add: syntheticResult_def)
    then show ?thesis using path_settle [OF i, of y] assms r e1 Inr by (simp add: settle_def act_bind_def on_exec_def)
  qed
qed

lemma refines_settle_all: "st \<noteq> RS_COMPLETED \<Longrightarrow> refines (lined ids) (settle_all en now st b ids)"
proof (induction ids)
  case Nil
  show ?case by (auto intro!: refines_still still_rules)
next
  case (Cons i ids)
  have step: "refines (lined (wp_id p # ids)) (act_bind (settle en now st b p) (\<lambda>_. settle_all en now st b ids))" for p
    by (rule refines_bind [OF refines_settle [OF Cons.prems] ens_settle Cons.IH [OF Cons.prems]])
  show ?case
    unfolding settle_all.simps
  proof (rule refines_with_job)
    fix e and s :: "'a swarm"
    assume l: "lined (i # ids) e"
    show "refines (\<lambda>e'. e' = e) (case tbl_get wp_id i (ex_packets e) of None \<Rightarrow> raise ''Cannot read properties of undefined''
        | Some p \<Rightarrow> act_bind (settle en now st b p) (\<lambda>_. settle_all en now st b ids))"
    proof (cases "tbl_get wp_id i (ex_packets e)")
      case None
      then show ?thesis by (auto intro: refines_still still_rules)
    next
      case (Some p)
      then have "wp_id p = i" by (rule tbl_get_key)
      then show ?thesis using l Some by (auto intro: refines_pre [OF step [of p]])
    qed
  qed
qed

text \<open>What is launched waits for nothing open.\<close>

definition unblocked :: "work_packet \<Rightarrow> exec \<Rightarrow> bool" where
  "unblocked p e \<longleftrightarrow> set (wp_depends p) \<inter> set (ex_pending e) = {}"

lemma path_launch:
  assumes l: "lined (wp_id p # ids) e" "free_slot e" "unblocked p e" and w: "wk_packet w = p"
  shows "path e (e\<lparr>ex_pending := removeAll (wp_id p) (ex_pending e), ex_workers := AList.update (wp_id p) w (ex_workers e), ex_pc := q\<rparr>)" (is "path e ?e")
proof -
  let ?R = "(\<lambda>(i, w). (i, set (wp_depends (wk_packet w)))) ` set (ex_workers e)"
  have i: "wp_id p \<in> set (ex_pending e)" and a: "accounted e" using l(1) by (auto simp: lined_def books_kept_def)
  have d: "wp_id p \<notin> set (map fst (ex_workers e))" "distinct (map fst (ex_workers e))" using books_distinct [OF a] i by auto
  have "card ?R \<le> card (set (ex_workers e))" by (rule card_image_le) simp
  also have "\<dots> \<le> length (ex_workers e)" by (rule card_length)
  finally have "card ?R \<le> length (ex_workers e)" .
  then have "int (card ?R) < limit_of e" using l(2) by simp
  then have "board_step (limit_of e) (set (ex_pending e), ?R, snd (snd (board e)))
      (set (ex_pending e) - {wp_id p}, insert (wp_id p, set (wp_depends p)) ?R, snd (snd (board e)))"
    using i l(3) by (intro board_step.Start) (auto simp: unblocked_def)
  moreover have "board ?e = (set (ex_pending e) - {wp_id p}, insert (wp_id p, set (wp_depends p)) ?R, snd (snd (board e)))"
    using w by (auto simp: board_def alist_update_new [OF d(1)])
  moreover have "board e = (set (ex_pending e), ?R, snd (snd (board e)))" by (simp add: board_def)
  ultimately have "board_step (limit_of e) (board e) (board ?e)" by (simp only:)
  then show ?thesis by (simp add: path_def r_into_rtranclp)
qed

lemma path_retire:
  assumes "exec_inv e" and "map_of (ex_workers e) i = Some wk"
  shows "path e (e\<lparr>ex_results := AList.update i y (ex_results e), ex_workers := AList.delete i (ex_workers e)\<rparr>)" (is "path e ?e")
proof -
  let ?f = "\<lambda>(i, w). (i, set (wp_depends (wk_packet w)))"
  have in_w: "(i, wk) \<in> set (ex_workers e)" using assms(2) by (rule map_of_SomeD)
  have d: "distinct (map fst (ex_workers e))" using books_distinct assms(1) by (auto simp: exec_inv_def books_kept_def)
  have "x = (i, wk)" if "x \<in> set (ex_workers e)" "fst x = i" for x
    using d that in_w by (metis fst_conv distinct_map inj_onD)
  then have "?f ` set (AList.delete i (ex_workers e)) = ?f ` set (ex_workers e) - {?f (i, wk)}"
    by (fastforce simp: AList.delete_eq)
  then have "board ?e = (set (ex_pending e), ?f ` set (ex_workers e) - {(i, set (wp_depends (wk_packet wk)))},
      (snd (snd (board e)))(i \<mapsto> re_status y))"
    by (auto simp: board_def update_conv')
  moreover have "(i, set (wp_depends (wk_packet wk))) \<in> ?f ` set (ex_workers e)" using in_w by force
  ultimately have "board_step (limit_of e) (board e) (board ?e)"
    using board_step.Finish [of i "set (wp_depends (wk_packet wk))" "?f ` set (ex_workers e)" "limit_of e" "set (ex_pending e)" "snd (snd (board e))" "re_status y"]
    by (simp add: board_def)
  then show ?thesis by (auto simp: path_def)
qed

section \<open>The actions of the loop\<close>

lemma settle_on:
  assumes "lined (wp_id p # ids) e" and "st \<noteq> RS_COMPLETED"
  shows "refines (\<lambda>e'. e' = e) (settle en now st b p)"
  by (rule refines_pre [where P = "lined (wp_id p # ids)"]) (simp_all add: assms(1) refines_settle [OF assms(2)])

lemma refines_top: "refines books_kept (exec_top en now)"
  unfolding exec_top_def
proof (rule refines_with_job)
  fix e and s :: "'a swarm"
  assume b: "books_kept e"
  have all: "refines (\<lambda>e'. e' = e) (settle_all en now RS_CANCELLED m (ex_pending e))" for m
    by (rule refines_pre [OF refines_settle_all]) (simp_all add: pending_lined b)
  have sig: "still (on_exec (\<lambda>e. (signal f e)\<lparr>ex_pc := q\<rparr>))" for f q by (intro still_rules) simp
  show "refines (\<lambda>e'. e' = e) (if ex_pending e = [] \<and> ex_workers e = [] then goto PC_final
     else (case control_state_of (sr_id (ex_rec e)) s of
         PAUSE_REQUESTED \<Rightarrow> on_exec (\<lambda>e. (signal runner_pause e)\<lparr>ex_pc := PC_pausing\<rparr>)
       | KILL_REQUESTED \<Rightarrow> act_bind (settle_all en now RS_CANCELLED ''EMERGENCY_KILLED: swarm worker was not started.'' (ex_pending e))
           (\<lambda>_. on_exec (\<lambda>e. (signal runner_kill e)\<lparr>ex_pc := PC_killing\<rparr>))
       | STOP_REQUESTED \<Rightarrow> act_bind (settle_all en now RS_CANCELLED ''USER_STOP: swarm worker was not started.'' (ex_pending e))
           (\<lambda>_. goto (PC_wait False))
       | CS_NONE \<Rightarrow> goto (PC_scan (sort_key (\<lambda>p. se_coll en (wp_id p))
           (filter (\<lambda>p. wp_id p \<in> set (ex_pending e)) (ex_packets e))) False)))"
    by (auto intro: refines_still still_goto sig refines_then [OF all] split: control_state.split)
qed

lemma refines_not_admitted: "refines (lined (wp_id p # ids)) (not_admitted en now d p)"
  unfolding not_admitted_def Let_def
proof (rule refines_with_job)
  fix e and s :: "'a swarm"
  assume l: "lined (wp_id p # ids) e"
  let ?q = "if sd_status d = QUEUED \<and> request_id (sr_id (ex_rec e)) (wp_id p) \<notin> set (ex_queued e)
        then act_bind (on_exec (\<lambda>e'. e'\<lparr>ex_queued := ex_queued e' @ [request_id (sr_id (ex_rec e)) (wp_id p)]\<rparr>)) (\<lambda>_.
          emit en now (\<lambda>e. (job_event e EV_worker_queued now)\<lparr>ev_packet := Some (wp_id p), ev_reason := Some (sd_reason d)\<rparr>))
        else act_return ()"
  have q: "still ?q" by (auto intro!: still_rules)
  have "ens (\<lambda>e'. e' = e) ?q (lined (wp_id p # ids)) (\<lambda>_. True)"
    using l by (auto intro!: ens_if ens_rules ens_bind [where Q = "lined (wp_id p # ids)"] ens_on_exec)
  then show "refines (\<lambda>e'. e' = e) (act_bind ?q
     (\<lambda>_. if sd_status d = REJECTED then settle en now RS_BLOCKED (''SCHEDULER_REJECTED: '' @ sd_reason d) p else act_return ()))"
    by (rule refines_bind [OF refines_still [OF q]]) (auto intro: refines_settle refines_still still_rules)
qed

lemma refines_admit: "refines (lined (wp_id p # ids)) (admit_packet en now fresh p rest l)"
  unfolding admit_packet_def
proof (rule refines_with_job)
  fix e and s :: "'a swarm"
  assume l: "lined (wp_id p # ids) e"
  have go: "refines (\<lambda>e'. e' = e) (act_bind (on_swarm f) (\<lambda>_.
         if sd_status d \<noteq> ADMITTED then act_bind (not_admitted en now d p) (\<lambda>_. goto (PC_scan rest l))
         else act_bind (on_swarm g) (\<lambda>_. goto (PC_allocate p rest l (inputs_for e s p)))))" for f g d
  proof (rule refines_bind [OF refines_still ens_on_swarm], rule still_rules, rule refines_if)
    have "refines (\<lambda>e'. e' = e) (not_admitted en now d p)" using l by (auto intro: refines_pre [OF refines_not_admitted])
    then show "refines (\<lambda>e'. e' = e) (act_bind (not_admitted en now d p) (\<lambda>_. goto (PC_scan rest l)))"
      by (rule refines_then) (rule still_goto)
    show "refines (\<lambda>e'. e' = e) (act_bind (on_swarm g) (\<lambda>_. goto (PC_allocate p rest l (inputs_for e s p))))"
      by (intro refines_still still_bind still_goto still_basic)
  qed
  show "refines (\<lambda>e'. e' = e) (case admit (fresh ''decision'') now (admission_of e p) (sm_sched s) of
       Inl err \<Rightarrow> raise (case err of ZodError \<Rightarrow> se_admitMessage en | SqliteError \<Rightarrow> se_sqlMessage en)
     | Inr (d, sched) \<Rightarrow> act_bind (on_swarm (sm_sched_update (\<lambda>_. sched))) (\<lambda>_.
         if sd_status d \<noteq> ADMITTED then act_bind (not_admitted en now d p) (\<lambda>_. goto (PC_scan rest l))
         else act_bind (on_swarm (sm_packetStatus (wp_id p) PK_STARTING now)) (\<lambda>_.
           goto (PC_allocate p rest l (inputs_for e s p)))))"
  proof (cases "admit (fresh ''decision'') now (admission_of e p) (sm_sched s)")
    case (Inl err)
    then show ?thesis by (auto intro: refines_still still_rules)
  next
    case (Inr x)
    show ?thesis unfolding Inr sum.case by (cases x) (simp only: prod.case, rule go)
  qed
qed

lemma refines_permit: "refines (lined (wp_id p # ids)) (permit_packet en now fresh p rest l)"
  unfolding permit_packet_def
proof (rule refines_with_job)
  fix e and s :: "'a swarm"
  assume l: "lined (wp_id p # ids) e"
  have refuse: "refines (\<lambda>e'. e' = e) (act_bind (refuse_packet en now oc p) (\<lambda>_. goto (PC_scan rest l)))" for oc
    unfolding refuse_packet_def
    by (rule refines_then, rule refines_bind [OF refines_still ens_on_swarm], rule still_rules,
        rule refines_bind [OF refines_still ens_emit], rule still_rules)
      (use l in \<open>auto intro!: settle_on still_rules\<close>)
  have "refines (\<lambda>e'. e' = e) (act_bind (on_swarm f) (\<lambda>_.
         if oc = ASK \<or> oc = DENY then act_bind (refuse_packet en now oc p) (\<lambda>_. goto (PC_scan rest l))
         else admit_packet en now fresh p rest l))" for f oc
    by (rule refines_bind [OF refines_still ens_on_swarm], rule still_rules, rule refines_if)
      (use l in \<open>auto intro: refuse refines_pre [OF refines_admit]\<close>)
  then show "refines (\<lambda>e'. e' = e) (case evaluateWritePermission (se_policy en) (fresh ''permission'') now (ry_id (ex_repo e)) (ru_id (ex_run e))
          (ru_iter (ex_run e)) p (sm_perm s) of
       None \<Rightarrow> raise (se_sqlMessage en)
     | Some (oc, perm) \<Rightarrow> act_bind (on_swarm (sm_perm_update (\<lambda>_. perm))) (\<lambda>_.
         if oc = ASK \<or> oc = DENY then act_bind (refuse_packet en now oc p) (\<lambda>_. goto (PC_scan rest l))
         else admit_packet en now fresh p rest l))"
    by (auto intro: refines_still still_rules split: option.split prod.split)
qed

lemma refines_consider: "refines (lined (wp_id p # ids)) (consider_packet en now fresh p rest l)"
  unfolding consider_packet_def Let_def
proof (intro refines_with_job refines_if)
  fix e and s :: "'a swarm"
  assume l: "lined (wp_id p # ids) e"
  show "refines (\<lambda>e'. e' = e) (act_bind (settle en now RS_SKIPPED_DEPENDENCY ''A dependency did not complete successfully.'' p)
              (\<lambda>_. goto (PC_scan rest l)))"
    by (intro refines_then still_goto settle_on [OF l]) simp
  show "refines (\<lambda>e'. e' = e) (permit_packet en now fresh p rest l)"
    using l by (auto intro: refines_pre [OF refines_permit])
qed (auto intro: refines_still still_rules)

lemma refines_allocation_failed: "refines (lined (wp_id p # ids)) (allocation_failed en now m p)"
  unfolding allocation_failed_def
proof (rule refines_with_job, rule refines_bind [OF refines_still ens_on_swarm], rule still_basic)
  fix e and s :: "'a swarm"
  assume "lined (wp_id p # ids) e"
  then show "refines (\<lambda>e'. e' = e) (settle en now RS_BLOCKED (if starts_with m ''DEPENDENCY_REPLAY_FAILED'' then m
     else ''WORKTREE_ALLOCATION_FAILED: '' @ m) p)" by (rule settle_on) simp
qed

lemma refines_allocate:
  "refines (\<lambda>e. lined (wp_id p # ids) e \<and> free_slot e \<and> unblocked p e) (exec_allocate en now fresh p rest l inputs)"
  unfolding refines_def
proof (intro allI impI)
  fix e and s :: "'a swarm"
  assume l: "lined (wp_id p # ids) e \<and> free_slot e \<and> unblocked p e"
  obtain y db w where a: "allocate (se_wt en) (fresh ''worktree'') now (ex_repo e) p (ex_base e) (replay_for en e inputs) (sm_db s, sm_world s)
      = (y, db, w)" by (metis surj_pair)
  show "path e (fst (snd (exec_allocate en now fresh p rest l inputs (e, s))))"
  proof (cases y)
    case (Inl m)
    have "refines (lined (wp_id p # ids)) (act_bind (allocation_failed en now m p) (\<lambda>_. goto (PC_scan rest l)) :: ('a job, unit) act)"
      by (intro refines_then still_goto refines_allocation_failed)
    then show ?thesis using l a Inl by (simp add: refines_def exec_allocate_def)
  next
    case (Inr wt)
    obtain ph rn where f: "first_phase en e p = (ph, rn)" by (cases "first_phase en e p")
    have "path e (fst (snd (launch en now p wt rest (e, s'))))" for s' :: "'a swarm"
      using path_launch [of p ids e "\<lparr>wk_packet = p, wk_request = request_id (sr_id (ex_rec e)) (wp_id p), wk_tree = wt,
            wk_runner = rn, wk_attempt = None, wk_hookOk = True, wk_phase = ph\<rparr>" "PC_scan rest True"] l
      by (simp add: launch_def act_bind_def on_exec_def emit_def f)
    then show ?thesis using a Inr by (simp add: exec_allocate_def Let_def)
  qed
qed

lemma refines_wait: "refines books_kept (exec_wait en now l)"
  unfolding exec_wait_def
proof (rule refines_with_job, intro refines_if)
  fix e and s :: "'a swarm"
  assume b: "books_kept e"
  have all: "refines (lined (ex_pending e)) (act_bind (settle_all en now RS_BLOCKED m (ex_pending e)) (\<lambda>_. goto PC_top))" for m
    by (intro refines_then refines_settle_all still_goto) simp
  show "refines (\<lambda>e'. e' = e) (act_bind (on_exec (\<lambda>e. e\<lparr>ex_idle := ex_idle e + 1\<rparr>)) (\<lambda>_.
       if 600 < ex_idle e + 1
       then act_bind (settle_all en now RS_BLOCKED ''SCHEDULER_WAIT_TIMEOUT: packet did not become runnable.'' (ex_pending e))
              (\<lambda>_. goto PC_top)
       else goto PC_delay))"
  proof (rule refines_bind [where Q = "lined (ex_pending e)" and R = "\<lambda>_. True"])
    show "refines (\<lambda>e'. e' = e) (on_exec (\<lambda>e. e\<lparr>ex_idle := ex_idle e + 1\<rparr>))" by (intro refines_still still_rules) simp
    show "ens (\<lambda>e'. e' = e) (on_exec (\<lambda>e. e\<lparr>ex_idle := ex_idle e + 1\<rparr>)) (lined (ex_pending e)) (\<lambda>_. True)"
      using pending_lined [OF b] by (auto intro!: ens_on_exec simp: lined_def)
  qed (intro refines_if all refines_still still_goto)
qed (auto intro!: refines_still still_rules)

section \<open>The gate\<close>

text \<open>At an allocation the packet still waits for nothing open; no other action than a scan comes to one.\<close>

definition gate_open :: "exec \<Rightarrow> bool" where
  "gate_open e \<longleftrightarrow> (case allocating_packet (ex_pc e) of None \<Rightarrow> True | Some p \<Rightarrow> unblocked p e)"

lemma elsewhere_with_job: "(\<And>e s. elsewhere (f e s)) \<Longrightarrow> elsewhere (with_job f)"
  by (simp add: ens_def with_job_def)

lemma elsewhere_on_exec: "(\<And>e. allocating_packet (ex_pc (f e)) = None) \<Longrightarrow> elsewhere (on_exec f)"
  by (simp add: ens_on_exec)

lemma no_alloc [simp]: "allocating_packet (PC_staging st b rep) = None" "allocating_packet (PC_release st b rep ids) = None"
  "allocating_packet PC_end = None" "allocating_packet PC_top = None" "allocating_packet PC_final = None" "allocating_packet PC_delay = None"
  "allocating_packet PC_killing = None" "allocating_packet PC_pausing = None" "allocating_packet (PC_race ids) = None"
  "allocating_packet (PC_integrate cs xs) = None" "allocating_packet PC_begin = None"
  by (simp_all add: allocating_packet_def)

lemmas away = elsewhere_with_job elsewhere_on_exec elsewhere_rules

lemma away_exec: "elsewhere (exec_top en now)" "elsewhere (exec_wait en now l)" "elsewhere (exec_final now)"
  "elsewhere (exec_integrate en fresh now cs xs)" "elsewhere (exec_staging en st b rep)" "elsewhere (exec_release en now st b rep i ids)"
  "elsewhere (exec_store en now st b rep)" "elsewhere (exec_begin en now)"
proof -
  show "elsewhere (exec_top en now)" "elsewhere (exec_wait en now l)"
    unfolding exec_top_def exec_wait_def by (auto intro!: away split: control_state.split)
  have w: "elsewhere (write_report now cs xs i st b)" for cs xs i st b unfolding write_report_def by (auto intro!: away)
  show "elsewhere (exec_final now)" "elsewhere (exec_integrate en fresh now cs xs)" "elsewhere (exec_staging en st b rep)"
    "elsewhere (exec_release en now st b rep i ids)"
    unfolding exec_final_def exec_integrate_def exec_staging_def exec_release_def Let_def
    by (auto intro!: away w split: control_state.split)
  show "elsewhere (exec_store en now st b rep)" "elsewhere (exec_begin en now)"
    by (auto simp: ens_def exec_store_def exec_begin_def Let_def split: prod.split)
qed

lemma away_allocate: "elsewhere (exec_allocate en now fresh p rest l inputs)"
proof -
  have failed: "elsewhere (act_bind (allocation_failed en now m p) (\<lambda>_. goto (PC_scan rest l)) :: ('a job, unit) act)" for m
    by (intro away) simp
  have launch: "\<exists>e' s'. launch en now p wt rest (e, s) = (Inr (), e', s') \<and> allocating_packet (ex_pc e') = None" for wt e and s :: "'a swarm"
    by (cases "first_phase en e p") (simp add: launch_def act_bind_def on_exec_def emit_def)
  show ?thesis
    unfolding ens_def
  proof (intro allI impI)
    fix e and s :: "'a swarm"
    obtain y db w where a: "allocate (se_wt en) (fresh ''worktree'') now (ex_repo e) p (ex_base e) (replay_for en e inputs) (sm_db s, sm_world s)
      = (y, db, w)" by (metis surj_pair)
    show "case exec_allocate en now fresh p rest l inputs (e, s) of (Inl x, e', uu_) \<Rightarrow> True | (Inr x, e', uua_) \<Rightarrow> allocating_packet (ex_pc e') = None"
    proof (cases y)
      case (Inl m)
      then show ?thesis using failed [of m] a by (simp add: exec_allocate_def ens_def)
    next
      case (Inr wt)
      let ?s = "sm_packetStatus (wp_id p) PK_RUNNING now (hook_allocated now e (wp_id p) (wt_base wt) inputs
        (s\<lparr>sm_db := if inputs = [] then db else snd (updateWorktree (wt_id wt) (no_worktree_patch\<lparr>wu_inputs := Some inputs\<rparr>) db), sm_world := w\<rparr>))"
      have "exec_allocate en now fresh p rest l inputs (e, s) = launch en now p wt rest (e, ?s)"
        using a Inr by (simp add: exec_allocate_def Let_def)
      then show ?thesis using launch [of wt e ?s] by auto
    qed
  qed
qed

lemma elsewhere_gate: "elsewhere m \<Longrightarrow> ens P m gate_open (\<lambda>_. True)"
  by (rule ensI, drule (1) ensD [OF _ TrueI]) (auto simp: gate_open_def split: sum.splits)

lemma gate_admit: "ens (unblocked p) (admit_packet en now fresh p rest l) gate_open (\<lambda>_. True)"
  unfolding admit_packet_def
proof (rule ens_with_job)
  fix e and s :: "'a swarm"
  assume u: "unblocked p e"
  have go: "ens (\<lambda>e'. e' = e) (act_bind (on_swarm f) (\<lambda>_.
         if sd_status d \<noteq> ADMITTED then act_bind (not_admitted en now d p) (\<lambda>_. goto (PC_scan rest l))
         else act_bind (on_swarm g) (\<lambda>_. goto (PC_allocate p rest l is)))) gate_open (\<lambda>_. True)" for f g d "is"
  proof (rule ens_bind [OF ens_on_swarm], rule ens_if)
    show "ens (\<lambda>e'. e' = e) (act_bind (not_admitted en now d p) (\<lambda>_. goto (PC_scan rest l))) gate_open (\<lambda>_. True)"
      by (rule elsewhere_gate) (intro away, simp)
    show "ens (\<lambda>e'. e' = e) (act_bind (on_swarm g) (\<lambda>_. goto (PC_allocate p rest l is))) gate_open (\<lambda>_. True)"
      by (rule ens_bind [OF ens_on_swarm], rule ens_on_exec) (use u in \<open>simp add: gate_open_def unblocked_def\<close>)
  qed
  show "ens (\<lambda>e'. e' = e) (case admit (fresh ''decision'') now (admission_of e p) (sm_sched s) of
       Inl err \<Rightarrow> raise (case err of ZodError \<Rightarrow> se_admitMessage en | SqliteError \<Rightarrow> se_sqlMessage en)
     | Inr (d, sched) \<Rightarrow> act_bind (on_swarm (sm_sched_update (\<lambda>_. sched))) (\<lambda>_.
         if sd_status d \<noteq> ADMITTED then act_bind (not_admitted en now d p) (\<lambda>_. goto (PC_scan rest l))
         else act_bind (on_swarm (sm_packetStatus (wp_id p) PK_STARTING now)) (\<lambda>_.
           goto (PC_allocate p rest l (inputs_for e s p))))) gate_open (\<lambda>_. True)"
  proof (cases "admit (fresh ''decision'') now (admission_of e p) (sm_sched s)")
    case (Inl err)
    then show ?thesis by (auto intro: ens_raise)
  next
    case (Inr x)
    show ?thesis unfolding Inr sum.case by (cases x) (simp only: prod.case, rule go)
  qed
qed

lemma gate_permit: "ens (unblocked p) (permit_packet en now fresh p rest l) gate_open (\<lambda>_. True)"
  unfolding permit_packet_def
proof (rule ens_with_job)
  fix e and s :: "'a swarm"
  assume u: "unblocked p e"
  have "ens (\<lambda>e'. e' = e) (act_bind (on_swarm f) (\<lambda>_.
         if oc = ASK \<or> oc = DENY then act_bind (refuse_packet en now oc p) (\<lambda>_. goto (PC_scan rest l))
         else admit_packet en now fresh p rest l)) gate_open (\<lambda>_. True)" for f oc
  proof (rule ens_bind [OF ens_on_swarm], rule ens_if)
    show "ens (\<lambda>e'. e' = e) (act_bind (refuse_packet en now oc p) (\<lambda>_. goto (PC_scan rest l))) gate_open (\<lambda>_. True)"
      by (rule elsewhere_gate) (intro away, simp)
    show "ens (\<lambda>e'. e' = e) (admit_packet en now fresh p rest l) gate_open (\<lambda>_. True)"
      by (rule ens_pre [OF gate_admit]) (simp add: u)
  qed
  then show "ens (\<lambda>e'. e' = e) (case evaluateWritePermission (se_policy en) (fresh ''permission'') now (ry_id (ex_repo e)) (ru_id (ex_run e))
          (ru_iter (ex_run e)) p (sm_perm s) of
       None \<Rightarrow> raise (se_sqlMessage en)
     | Some (oc, perm) \<Rightarrow> act_bind (on_swarm (sm_perm_update (\<lambda>_. perm))) (\<lambda>_.
         if oc = ASK \<or> oc = DENY then act_bind (refuse_packet en now oc p) (\<lambda>_. goto (PC_scan rest l))
         else admit_packet en now fresh p rest l)) gate_open (\<lambda>_. True)"
    by (auto intro: ens_raise split: option.split prod.split)
qed

lemma gate_consider: "ens P (consider_packet en now fresh p rest l) gate_open (\<lambda>_. True)"
  unfolding consider_packet_def Let_def
proof (intro ens_with_job ens_if)
  fix e and s :: "'a swarm"
  show "ens (\<lambda>e'. e' = e) (permit_packet en now fresh p rest l) gate_open (\<lambda>_. True)"
    if "\<not> list_ex (\<lambda>d. d \<in> set (ex_pending e)) (wp_depends p)"
    by (rule ens_pre [OF gate_permit]) (use that in \<open>auto simp: unblocked_def list_ex_iff\<close>)
qed (auto intro!: elsewhere_gate away)

lemma gate_act: "ens (\<lambda>e. ex_pc e = p) (exec_act en now fresh p) gate_open (\<lambda>_. True)"
proof (cases "p = PC_end")
  case True
  then show ?thesis by (auto simp: exec_act_def gate_open_def intro!: ens_return)
next
  case False
  then show ?thesis
    by (auto simp: exec_act_def split: pc.split list.split
        intro!: elsewhere_gate gate_consider away_exec away_allocate intro: away)
qed

lemma gate_main: "gate_open (fst (exec_main en now fresh j))"
proof -
  obtain e s where j: "j = (e, s)" by (cases j)
  obtain x e' s' where r: "exec_act en now fresh (ex_pc e) (e, s) = (x, e', s')" by (metis surj_pair)
  from ensD [OF gate_act refl r] show ?thesis
    using j r by (cases x) (auto simp: exec_main_def gate_open_def)
qed

section \<open>Every step is a path on the board\<close>

lemma refines_act:
  assumes "exec_inv e" and "gate_open e" and "ex_pc e = p"
  shows "path e (fst (snd (exec_act en now fresh p (e, s))))"
proof -
  have b: "books_kept e" using assms(1) by (simp add: exec_inv_def)
  have by_still: "still m \<Longrightarrow> path e (fst (snd (m (e, s))))" for m :: "('a job, unit) act"
    using refines_still [of m "\<lambda>_. True"] by (simp add: refines_def)
  have go: "path e (fst (snd ((goto q :: ('a job, unit) act) (e, s))))" for q by (rule by_still) (rule still_goto)
  have w: "path e (fst (snd (exec_wait en now l (e, s))))" "path e (fst (snd (exec_top en now (e, s))))" for l
    using refines_wait [of en now l] refines_top [of en now] b by (simp_all add: refines_def)
  show ?thesis
  proof (cases p)
    case (PC_scan rest l)
    show ?thesis
    proof (cases rest)
      case Nil
      then show ?thesis using PC_scan go by (simp add: exec_act_def)
    next
      case (Cons x xs)
      then have "lined (wp_id x # map wp_id xs) e" using assms PC_scan by (simp add: exec_inv_def)
      then show ?thesis using refines_consider [of x "map wp_id xs" en now fresh xs l] PC_scan Cons by (simp add: exec_act_def refines_def)
    qed
  next
    case (PC_allocate x rest l inputs)
    then have "lined (wp_id x # map wp_id rest) e \<and> free_slot e \<and> unblocked x e"
      using assms by (simp add: exec_inv_def gate_open_def)
    then show ?thesis
      using refines_allocate [of x "map wp_id rest" en now fresh rest l inputs] PC_allocate by (simp add: exec_act_def refines_def)
  next
    case (PC_release st bl rep ids)
    then show ?thesis by (cases ids) (simp_all add: exec_act_def by_still still_end)
  qed (auto simp: exec_act_def go w intro: by_still still_end still_basic)
qed

lemma path_main:
  assumes "exec_inv (fst j)" and "gate_open (fst j)"
  shows "path (fst j) (fst (exec_main en now fresh j))"
proof -
  obtain e s where j: "j = (e, s)" by (cases j)
  obtain x e' s' where r: "exec_act en now fresh (ex_pc e) (e, s) = (x, e', s')" by (metis surj_pair)
  have "path e e'" using refines_act [of e "ex_pc e" en now fresh s] assms j r by simp
  then show ?thesis using j r by (cases x) (auto simp: exec_main_def path_def)
qed

lemma board_set_worker:
  assumes "\<And>w. (i, w) \<in> set (ex_workers e) \<Longrightarrow> wp_depends (wk_packet (f w)) = wp_depends (wk_packet w)"
  shows "board (set_worker i f e) = board e"
proof -
  have "map (\<lambda>(j, w). (j, set (wp_depends (wk_packet w)))) (ex_workers (set_worker i f e))
      = map (\<lambda>(j, w). (j, set (wp_depends (wk_packet w)))) (ex_workers e)"
    using assms by (auto simp: set_worker_def split: if_splits)
  from arg_cong [OF this, of set]
  have "(\<lambda>(j, w). (j, set (wp_depends (wk_packet w)))) ` set (ex_workers (set_worker i f e))
      = (\<lambda>(j, w). (j, set (wp_depends (wk_packet w)))) ` set (ex_workers e)" by (simp only: set_map)
  then show ?thesis by (simp add: board_def)
qed

lemma path_same: "board e' = board e \<Longrightarrow> limit_of e' = limit_of e \<Longrightarrow> path e e'"
  by (simp add: path_def)

lemma path_set_phase [simp]: "path e (set_phase i ph e)"
  by (rule path_same [OF board_set_worker]) simp_all

lemma path_moved:
  assumes "exec_inv e" and "map_of (ex_workers e) i = Some wk" and "moved i e e'"
  shows "path e e'"
  using assms(3) unfolding moved_def by (auto intro: path_retire [OF assms(1,2)])

lemma gate_same: "ex_pc e' = ex_pc e \<Longrightarrow> ex_pending e' = ex_pending e \<Longrightarrow> gate_open e' = gate_open e"
  by (simp add: gate_open_def unblocked_def split: option.split)

lemma step_path:
  "engine_step en n j k \<Longrightarrow> exec_inv (fst j) \<Longrightarrow> gate_open (fst j) \<Longrightarrow> path (fst j) (fst k) \<and> gate_open (fst k)"
proof (induction rule: engine_step.induct)
  case (Main j now fresh)
  then show ?case by (simp add: path_main gate_main)
next
  case (Returns now usage i j)
  then obtain x s' where "worker_returns en now usage i j = (set_phase i (W_result x) (fst j), s')"
    using returns_moves [of en now usage i "fst j" "snd j"] by auto
  then show ?case using Returns by (auto simp: gate_same [of "set_phase i (W_result x) (fst j)" "fst j"])
next
  case (Unstarted now m i j)
  then obtain x where "worker_unstarted now m i j = (set_phase i (W_result x) (fst j), snd j)"
    using unstarted_moves [of now m i "fst j" "snd j"] by auto
  then show ?case using Unstarted by (auto simp: gate_same [of "set_phase i (W_result x) (fst j)" "fst j"])
next
  case (Turn now i j)
  obtain e s where j: "j = (e, s)" by (cases j)
  show ?case
  proof (cases "map_of (ex_workers e) i")
    case None
    then show ?thesis using Turn j by (simp add: worker_turn_def)
  next
    case (Some wk)
    then have m: "moved i e (fst (worker_turn en now i (e, s)))" using worker_turn_moves [OF Some, of en now s] Turn j by auto
    then have "ex_pc (fst (worker_turn en now i (e, s))) = ex_pc e" "ex_pending (fst (worker_turn en now i (e, s))) = ex_pending e"
      by (auto simp: moved_def)
    then have "gate_open (fst (worker_turn en now i (e, s))) = gate_open e" by (rule gate_same)
    then show ?thesis using path_moved [OF _ Some m] Turn j by simp
  qed
next
  case (Runner j now aid v ev i)
  from runner_moves_exec [of en now aid v ev i "fst j" "snd j"] show ?case
  proof
    assume "\<exists>w wk s'. runner_moves en now aid v ev i (fst j, snd j) = (set_worker i (\<lambda>_. w) (fst j), s')
        \<and> map_of (ex_workers (fst j)) i = Some wk \<and> wk_packet w = wk_packet wk \<and> wk_phase w = wk_phase wk"
    then obtain w wk s' where w: "runner_moves en now aid v ev i j = (set_worker i (\<lambda>_. w) (fst j), s')"
      "map_of (ex_workers (fst j)) i = Some wk" "wk_packet w = wk_packet wk" by auto
    have d: "distinct (map fst (ex_workers (fst j)))" using books_distinct Runner by (auto simp: exec_inv_def books_kept_def)
    have "wp_depends (wk_packet w) = wp_depends (wk_packet v')" if "(i, v') \<in> set (ex_workers (fst j))" for v'
      using map_of_is_SomeI [OF d that] w by simp
    then have "board (set_worker i (\<lambda>_. w) (fst j)) = board (fst j)" by (intro board_set_worker)
    then show ?thesis using w(1) Runner gate_same [of "set_worker i (\<lambda>_. w) (fst j)" "fst j"] by (auto intro: path_same)
  qed (use Runner in simp)
next
  case (Killed e s)
  then show ?case using gate_same [of "signal runner_kill e" e] by (auto intro: path_same)
next
  case (Paused e s)
  then show ?case using gate_same [of "signal runner_pause e" e] by (auto intro: path_same)
qed simp

lemma run_path:
  "engine_run en n j k \<Longrightarrow> exec_inv (fst j) \<Longrightarrow> gate_open (fst j) \<Longrightarrow> path (fst j) (fst k) \<and> gate_open (fst k)"
proof (induction rule: engine_run.induct)
  case (Step n j k m l)
  then show ?case using step_path [OF Step(2)] run_inv [OF Step(1)] path_trans by blast
qed simp

section \<open>Every run\<close>

lemma start_board:
  assumes "distinct (map wp_id packets)" and "0 \<le> sr_maxConcurrency rec" and "e = fst (exec_start en now rec r ru packets hk s)"
  shows "exec_inv e" "gate_open e" "limit_of e = sr_maxConcurrency rec" "board_ok (sr_maxConcurrency rec) (board e)"
proof -
  show i: "exec_inv e" using start_inv [OF assms(1,2)] assms(3) by simp
  have e: "ex_pc e = PC_begin" "ex_workers e = []" "ex_rec e = rec" using assms(3) by (simp_all add: exec_start_def Let_def)
  then show "gate_open e" "limit_of e = sr_maxConcurrency rec" by (simp_all add: gate_open_def)
  have "set (ex_pending e) \<inter> set (map fst (ex_results e)) = {}"
    using books_distinct [of e] i by (auto simp: exec_inv_def books_kept_def)
  then show "board_ok (sr_maxConcurrency rec) (board e)"
    using assms(2) e(2) by (auto simp: board_def board_ok_def dest!: map_of_SomeD) force
qed

text \<open>
  C5: the loop refines the board. In every state a strategy can come to, each step of the loop, of a worker, of a child
  process or of a control is a sequence of moves of the board: a packet is settled without a worker, and then not as
  completed, or it is given to a worker within the limit while nothing it depends on is open, or a worker ends.
  The strategy is one whose packets have distinct identifiers and whose limit is not negative, which its start checks.
\<close>

theorem engine_refines_board:
  assumes "distinct (map wp_id packets)" and "0 \<le> sr_maxConcurrency rec"
    and "engine_run en n (exec_start en now rec r ru packets hk s) j" and "engine_step en m j k"
  shows "board_steps (sr_maxConcurrency rec) (board (fst j)) (board (fst k))"
proof -
  note st = start_board [OF assms(1,2) refl, of en now r ru hk s]
  have p: "path (fst (exec_start en now rec r ru packets hk s)) (fst j)" "gate_open (fst j)"
    using run_path [OF assms(3) st(1,2)] by simp_all
  have "path (fst j) (fst k)" using step_path [OF assms(4) run_inv [OF assms(3) st(1)] p(2)] by simp
  then show ?thesis using p(1) st(3) by (simp add: path_def)
qed

lemma run_board_ok:
  assumes "distinct (map wp_id packets)" and "0 \<le> sr_maxConcurrency rec"
    and "engine_run en n (exec_start en now rec r ru packets hk s) j"
  shows "exec_inv (fst j)" "gate_open (fst j)" "limit_of (fst j) = sr_maxConcurrency rec" "board_ok (sr_maxConcurrency rec) (board (fst j))"
proof -
  note st = start_board [OF assms(1,2) refl, of en now r ru hk s]
  show "exec_inv (fst j)" by (rule run_inv [OF assms(3) st(1)])
  show "gate_open (fst j)" "limit_of (fst j) = sr_maxConcurrency rec" "board_ok (sr_maxConcurrency rec) (board (fst j))"
    using run_path [OF assms(3) st(1,2)] st(3,4) by (auto simp: path_def intro: board_steps_ok)
qed

text \<open>
  C8: dependents wait. In no interleaving does a packet have a worker while a packet it depends on is still open,
  for packets with distinct identifiers and a limit that is not negative.
\<close>

theorem no_worker_before_its_dependencies:
  assumes "distinct (map wp_id packets)" and "0 \<le> sr_maxConcurrency rec"
    and "engine_run en n (exec_start en now rec r ru packets hk s) (e, s')"
  shows "list_all (\<lambda>(i, w). list_all (\<lambda>d. d \<notin> set (ex_pending e)) (wp_depends (wk_packet w))) (ex_workers e)"
  using run_board_ok(4) [OF assms] by (auto simp: board_ok_def board_def list_all_iff)

lemma board_steps_mono:
  "board_steps limit b b' \<Longrightarrow> board_ok limit b \<Longrightarrow> fst b' \<subseteq> fst b \<and> snd (snd b) \<subseteq>\<^sub>m snd (snd b')"
proof (induction rule: rtranclp_induct)
  case (step y z)
  have "board_ok limit y" using board_steps_ok [OF step(1) step(4)] .
  then have "fst z \<subseteq> fst y \<and> snd (snd y) \<subseteq>\<^sub>m snd (snd z)"
    using board_step_mono [of limit "fst y" "fst (snd y)" "snd (snd y)" "fst z" "fst (snd z)" "snd (snd z)"] step(2) by simp
  then show ?case using step by (auto intro: map_le_trans)
qed simp

text \<open>
  An outcome is final. A packet that has a result in hand keeps its status to the end of the strategy, and a packet that
  was given away never becomes open again.
\<close>

theorem outcome_is_final:
  assumes "distinct (map wp_id packets)" and "0 \<le> sr_maxConcurrency rec"
    and "engine_run en n (exec_start en now rec r ru packets hk s) j" and "engine_run en m j k"
  shows "set (ex_pending (fst k)) \<subseteq> set (ex_pending (fst j))
     \<and> (\<lambda>i. map_option re_status (map_of (ex_results (fst j)) i)) \<subseteq>\<^sub>m (\<lambda>i. map_option re_status (map_of (ex_results (fst k)) i))"
proof -
  note ok = run_board_ok [OF assms(1-3)]
  have "board_steps (sr_maxConcurrency rec) (board (fst j)) (board (fst k))"
    using run_path [OF assms(4) ok(1,2)] ok(3) by (simp add: path_def)
  from board_steps_mono [OF this ok(4)] show ?thesis by (simp add: board_def)
qed

end
