(* ===== verification/Control_Laws.thy ===== *)
theory Control_Laws
  imports Swarm_Control Engine_Store Engine_Board
begin

text \<open>What the controls of \<open>Swarm_Control\<close> guarantee, and their composition with the laws of the engine.\<close>

section \<open>Starting\<close>

text \<open>The packet table stores each packet under its own id, as \<open>packet_save\<close> does.\<close>

definition packets_keyed :: "packet_db \<Rightarrow> bool" where
  "packets_keyed db \<longleftrightarrow> list_all (\<lambda>r. case kr_json r of Json p \<Rightarrow> wp_id p = kr_id r | Corrupt \<Rightarrow> True) (db_packets db)"

lemma keyed_get: "packets_keyed db \<Longrightarrow> packet_get i db = Some p \<Longrightarrow> wp_id p = i"
proof -
  assume k: "packets_keyed db" and g: "packet_get i db = Some p"
  then obtain r where r: "tbl_get kr_id i (db_packets db) = Some r" "json_opt (kr_json r) = Some p"
    by (auto simp: packet_get_def bind_eq_Some_conv)
  have "r \<in> set (db_packets db)" "kr_id r = i" using r(1) by (auto dest: tbl_get_key tbl_get_in_set)
  moreover have "kr_json r = Json p" using r(2) by (cases "kr_json r") auto
  ultimately show "wp_id p = i" using k by (force simp: packets_keyed_def list_all_iff)
qed

lemma all_some_map: "all_some xs = Some ys \<Longrightarrow> xs = map Some ys"
  by (induction xs arbitrary: ys rule: all_some.induct) (auto split: option.splits)

lemma keyed_select: "packets_keyed db \<Longrightarrow> select_packets db ids = Some ps \<Longrightarrow> map wp_id ps = ids"
proof -
  assume k: "packets_keyed db" and "select_packets db ids = Some ps"
  then have m: "map (\<lambda>i. packet_get i db) ids = map Some ps" by (simp add: select_packets_def all_some_map)
  then have l: "length ids = length ps" by (metis length_map)
  have "wp_id (ps ! n) = ids ! n" if "n < length ids" for n
    using keyed_get [OF k] m that l by (metis nth_map)
  then show ?thesis using l by (intro nth_equalityI) auto
qed

lemma js_set_same: "length (js_set xs) = length xs \<Longrightarrow> js_set xs = xs \<and> distinct xs"
proof -
  assume "length (js_set xs) = length xs"
  then have "card (set (rev xs)) = length (rev xs)" by (simp add: js_set_def length_remdups_card_conv)
  then have "distinct (rev xs)" by (rule card_distinct)
  then show ?thesis by (simp add: js_set_distinct)
qed

lemma first_refusal_none: "first_refusal f xs = None \<longleftrightarrow> list_all (\<lambda>x. f x = None) xs"
  by (induction xs) (auto simp: first_refusal_def map_filter_simps split: option.split)

lemma validated:
  assumes v: "validateStart s repo runId iter opts = Inr (r, ru, ps)" and k: "packets_keyed (sm_db s)"
  shows "repo_get repo (sm_repos s) = Some r" "run_get runId (sm_runs s) = Some ru" "ru_iter ru = iter"
    "1 \<le> concurrency_of opts" "concurrency_of opts \<le> 32" "so_packets opts \<noteq> []" "distinct (so_packets opts)"
    "map wp_id ps = so_packets opts" "list_all (\<lambda>p. packet_refusal (sm_db s) repo ru iter p = None) ps"
    "list_all (\<lambda>p. dependency_refusal ps p = None) ps" "\<not> hasCycle ps"
    "case getActiveForRun (ru_id ru) (sm_strategies s) of None \<Rightarrow> True | Some b \<Rightarrow> sr_status b = SS_RECOVERY_REQUIRED"
proof -
  have all: "repo_get repo (sm_repos s) = Some r \<and> run_get runId (sm_runs s) = Some ru \<and> ru_iter ru = iter
    \<and> 1 \<le> concurrency_of opts \<and> concurrency_of opts \<le> 32 \<and> so_packets opts \<noteq> []
    \<and> length (js_set (so_packets opts)) = length (so_packets opts)
    \<and> select_packets (sm_db s) (js_set (so_packets opts)) = Some ps \<and> validatePackets s repo ru iter ps = None"
    using v by (auto simp: validateStart_def split: option.splits if_splits)
  then show "repo_get repo (sm_repos s) = Some r" "run_get runId (sm_runs s) = Some ru" "ru_iter ru = iter"
    "1 \<le> concurrency_of opts" "concurrency_of opts \<le> 32" "so_packets opts \<noteq> []" by simp_all
  have j: "js_set (so_packets opts) = so_packets opts" and "distinct (so_packets opts)" using all js_set_same by auto
  then show "distinct (so_packets opts)" "map wp_id ps = so_packets opts" using all keyed_select [OF k] by auto
  have "validatePackets s repo ru iter ps = None" using all by simp
  then show "list_all (\<lambda>p. packet_refusal (sm_db s) repo ru iter p = None) ps" "list_all (\<lambda>p. dependency_refusal ps p = None) ps"
    "\<not> hasCycle ps" "case getActiveForRun (ru_id ru) (sm_strategies s) of None \<Rightarrow> True | Some b \<Rightarrow> sr_status b = SS_RECOVERY_REQUIRED"
    by (auto simp: validatePackets_def first_refusal_none split: option.splits if_splits)
qed

lemma started:
  assumes "startStrategy en now leaseId sid k repo runId iter opts hk dispatch base (jobs, s) = (Inr rec, jobs', s')"
  obtains r ru ps s1 s2 s3 where "validateStart s repo runId iter opts = Inr (r, ru, ps)"
    and "take_lease en now leaseId sid k repo runId iter s = (None, s1)"
    and "createRecord en now sid k r ru ps (concurrency_of opts) dispatch base s1 = Inr (rec, s2)"
    and "sm_own s3 = sm_own (bind_lease en now repo sid runId s2)" and "sr_id rec = sid"
    and "sr_maxConcurrency rec = concurrency_of opts" and "activate en now rec r ru ps hk (jobs, s3) = (jobs', s')"
proof -
  obtain r ru ps where v: "validateStart s repo runId iter opts = Inr (r, ru, ps)"
    using assms by (cases "validateStart s repo runId iter opts") (auto simp: startStrategy_def)
  obtain m s1 where l: "take_lease en now leaseId sid k repo runId iter s = (m, s1)" by (metis surj_pair)
  have m: "m = None" using assms v l by (cases m) (auto simp: startStrategy_def)
  obtain rec' s2 where c: "createRecord en now sid k r ru ps (concurrency_of opts) dispatch base s1 = Inr (rec', s2)"
    using assms v l m by (cases "createRecord en now sid k r ru ps (concurrency_of opts) dispatch base s1") (auto simp: startStrategy_def)
  have id: "sr_id rec' = sid" "sr_maxConcurrency rec' = concurrency_of opts"
    using c by (auto simp: createRecord_def Let_def split: option.splits)
  have b: "begin_strategy en now rec' r ru ps hk (jobs, bind_lease en now repo sid runId s2) = (Inr rec, jobs', s')"
    using assms v l m c by (simp add: startStrategy_def)
  let ?s = "(bind_lease en now repo sid runId s2)\<lparr>sm_hooks := AList.update sid hk (sm_hooks (bind_lease en now repo sid runId s2))\<rparr>"
  obtain s3 where o: "on_created now hk sid ?s = Some s3"
    using b id by (cases "on_created now hk sid ?s") (auto simp: begin_strategy_def Let_def)
  then have "sm_own s3 = sm_own (bind_lease en now repo sid runId s2)"
    by (auto simp: on_created_def split: option.splits)
  moreover have "rec' = rec" "activate en now rec' r ru ps hk (jobs, s3) = (jobs', s')"
    using b id o by (auto simp: begin_strategy_def Let_def)
  ultimately show ?thesis using that v l m c id by blast
qed

lemma activated:
  assumes "activate en now rec r ru ps hk (jobs, s) = (jobs', s')"
  shows "exec_start en now rec r ru ps hk s = (the (map_of jobs' (sr_id rec)), s')"
    and "jobs' = AList.update (sr_id rec) (the (map_of jobs' (sr_id rec))) jobs" and "map_of jobs' (sr_id rec) \<noteq> None"
  using assms by (auto simp: activate_def update_conv' split: prod.splits)

lemma start_frame: "sm_own (snd (exec_start en now rec r ru ps hk s)) = sm_own s"
  by (simp add: exec_start_def Let_def sm_update_def split: prod.split)

text \<open>The lease of a started strategy: there was none, and now the strategy holds it.\<close>

lemma lease_taken:
  assumes "take_lease en now leaseId sid k repo runId iter s = (None, s1)" and "se_owner en = Some owner"
    and "sm_own s2 = sm_own s1"
  shows "lease_get repo (sm_own s) = None" "case lease_get repo (sm_own (bind_lease en now repo sid runId s2)) of None \<Rightarrow> False
    | Some l \<Rightarrow> ls_state l = L_ACTIVE \<and> ls_instance l = owner \<and> ls_actor l = Some sid \<and> ls_run l = Some runId"
proof -
  let ?a = "acquire leaseId now repo owner (lease_kind k) \<lparr>ao_run = Some runId, ao_iteration = Some iter, ao_actor = Some sid\<rparr> (sm_own s)"
  obtain oc l own where a: "?a = ((oc, l), own)" by (metis surj_pair)
  note c = acquire_cases [where leaseId = leaseId and now = now and repo = repo and inst = owner and kind = "lease_kind k"
      and opts = "\<lparr>ao_run = Some runId, ao_iteration = Some iter, ao_actor = Some sid\<rparr>" and s = "sm_own s", unfolded a]
  have t: "oc = Acquired" "sm_own s1 = own" using assms(1,2) a by (auto simp: take_lease_def split: if_splits)
  show none: "lease_get repo (sm_own s) = None"
    using c t
    by (auto split: option.splits if_splits)
  then obtain n where "lease_get repo own = Some n" "ls_instance n = owner"
    using c t
    by auto
  then show "case lease_get repo (sm_own (bind_lease en now repo sid runId s2)) of None \<Rightarrow> False
    | Some l \<Rightarrow> ls_state l = L_ACTIVE \<and> ls_instance l = owner \<and> ls_actor l = Some sid \<and> ls_run l = Some runId"
    by (simp add: bind_lease_def assms(2,3) t markActive_def bindActor_def lease_write_def set_col_def)
qed

lemma acyclic_selection: "\<not> hasCycle ps \<Longrightarrow> acyclic (edges (packet_graph ps))"
proof -
  have "has_cycle (packet_graph ps) (map wp_id ps) \<longleftrightarrow> \<not> acyclic (edges (packet_graph ps))"
    by (rule has_cycle_acyclic) (auto simp: packet_graph_def)
  then show "\<not> hasCycle ps \<Longrightarrow> ?thesis" by (simp add: hasCycle_def)
qed

lemma acquire_procs: "ow_procs (snd (acquire leaseId now repo inst kind opts own)) = ow_procs own"
proof (cases "lease_get repo own")
  case None
  then show ?thesis by (simp add: acquire_def Let_def lease_insert_new lease_get_append)
next
  case (Some l)
  then show ?thesis by (auto simp: acquire_def Let_def lease_insert_taken [where e = l])
qed

definition runnable_packet :: "'w swarm \<Rightarrow> ident \<Rightarrow> ident \<Rightarrow> int \<Rightarrow> ident list \<Rightarrow> work_packet \<Rightarrow> bool" where
  "runnable_packet s repo runId iter ids p \<longleftrightarrow> wp_run p = runId \<and> wp_campaign p = runId \<and> wp_iter p = iter
     \<and> getRepositoryId (wp_id p) (sm_db s) = Some repo \<and> list_all (\<lambda>d. d \<in> set ids) (wp_depends p)"

text \<open>
  C11: what a start has checked. A strategy that starts has distinct stored packets of its campaign, iteration and
  repository, with dependencies among themselves and no cycle, a limit of 1 to 32 workers, no strategy of the
  campaign but one that recovery closed, and the lease of a repository that had none. Stored packets carry the
  identifier of their row.
\<close>

theorem started_strategy_valid:
  assumes "startStrategy en now leaseId sid k repo runId iter opts hk dispatch base (jobs, s) = (Inr rec, jobs', s')"
    and "packets_keyed (sm_db s)"
  shows "case map_of jobs' sid of None \<Rightarrow> False | Some e \<Rightarrow>
     (let ids = so_packets opts in map wp_id (ex_packets e) = ids \<and> ids \<noteq> [] \<and> distinct ids
       \<and> list_all (runnable_packet s repo runId iter ids) (ex_packets e) \<and> acyclic (edges (packet_graph (ex_packets e))))
     \<and> sr_maxConcurrency (ex_rec e) = concurrency_of opts \<and> 1 \<le> concurrency_of opts \<and> concurrency_of opts \<le> 32
     \<and> (case getActiveForRun runId (sm_strategies s) of None \<Rightarrow> True | Some b \<Rightarrow> sr_status b = SS_RECOVERY_REQUIRED)
     \<and> (case se_owner en of None \<Rightarrow> True | Some owner \<Rightarrow> lease_get repo (sm_own s) = None
         \<and> (case lease_get repo (sm_own s') of None \<Rightarrow> False
            | Some l \<Rightarrow> ls_state l = L_ACTIVE \<and> ls_instance l = owner \<and> ls_actor l = Some sid \<and> ls_run l = Some runId))"
proof -
  obtain r ru ps s1 s2 s3 where v: "validateStart s repo runId iter opts = Inr (r, ru, ps)"
    and l: "take_lease en now leaseId sid k repo runId iter s = (None, s1)"
    and c: "createRecord en now sid k r ru ps (concurrency_of opts) dispatch base s1 = Inr (rec, s2)"
    and own: "sm_own s3 = sm_own (bind_lease en now repo sid runId s2)" and id: "sr_id rec = sid"
    and m: "sr_maxConcurrency rec = concurrency_of opts" and a: "activate en now rec r ru ps hk (jobs, s3) = (jobs', s')"
    using assms(1) by (rule started)
  obtain e where e: "map_of jobs' sid = Some e" "exec_start en now rec r ru ps hk s3 = (e, s')"
    using activated [OF a] id by auto
  have "ex_packets e = ps" "sr_maxConcurrency (ex_rec e) = concurrency_of opts"
    using start_static [of en now rec r ru ps hk s3] e(2) m by (simp_all add: static_def)
  moreover have ids: "map wp_id ps = so_packets opts" and run: "ru_id ru = runId"
    using validated [OF v assms(2)] by (auto simp: run_get_def dest: tbl_get_key)
  moreover have "list_all (runnable_packet s repo runId iter (so_packets opts)) ps"
    using validated(3,9,10) [OF v assms(2)] run ids
    by (auto simp: list_all_iff runnable_packet_def packet_refusal_def dependency_refusal_def list_ex_iff split: if_splits)
  moreover have "acyclic (edges (packet_graph ps))"
    using acyclic_selection [OF validated(11) [OF v assms(2)]] .
  moreover have "sm_own s' = sm_own s3" using start_frame [of en now rec r ru ps hk s3] e(2) by simp
  moreover have "case se_owner en of None \<Rightarrow> True | Some owner \<Rightarrow> lease_get repo (sm_own s) = None
         \<and> (case lease_get repo (sm_own s3) of None \<Rightarrow> False
            | Some l \<Rightarrow> ls_state l = L_ACTIVE \<and> ls_instance l = owner \<and> ls_actor l = Some sid \<and> ls_run l = Some runId)"
  proof (cases "se_owner en")
    case (Some owner)
    have "sm_own s2 = sm_own s1" using c by (auto simp: createRecord_def Let_def split: option.splits)
    then show ?thesis using lease_taken [OF l Some] own Some by simp
  qed simp
  ultimately show ?thesis using e(1) validated(4-7,12) [OF v assms(2)] by (simp add: Let_def split: option.splits)
qed

text \<open>
  C12: the start and the loop together. Whatever happens to a strategy that was started, each requested packet is
  pending, with a worker, or has a result, and never more workers run than were requested, nor than 32. Stored packets
  carry the identifier of their row.
\<close>

theorem started_strategy_keeps_books:
  assumes "startStrategy en now leaseId sid k repo runId iter opts hk dispatch base (jobs, s) = (Inr rec, jobs', s')"
    and "packets_keyed (sm_db s)" and "map_of jobs' sid = Some e" and "engine_run en n (e, s') (e', s'')"
  shows "mset (ex_pending e' @ map fst (ex_workers e') @ map fst (ex_results e')) = mset (so_packets opts)
     \<and> int (length (ex_workers e')) \<le> min 32 (concurrency_of opts)"
proof -
  obtain r ru ps s1 s2 s3 where v: "validateStart s repo runId iter opts = Inr (r, ru, ps)"
    and id: "sr_id rec = sid" and m: "sr_maxConcurrency rec = concurrency_of opts"
    and a: "activate en now rec r ru ps hk (jobs, s3) = (jobs', s')"
    using assms(1) by (rule started)
  have st: "exec_start en now rec r ru ps hk s3 = (e, s')" using activated [OF a] id assms(3) by simp
  have "exec_inv e" using start_inv [of ps rec en now r ru hk s3] st validated(4,7,8) [OF v assms(2)] m by simp
  then have inv: "exec_inv e'" using run_inv [OF assms(4)] by simp
  have "static e' = (ps, concurrency_of opts, sr_id rec, sr_strategy rec, r, ru, hk, now)"
    using static_run [OF assms(4)] start_static [of en now rec r ru ps hk s3] st m by simp
  then show ?thesis using inv validated(5,8) [OF v assms(2)]
    by (simp add: static_def exec_inv_def books_kept_def accounted_def within_limit_def packet_ids_def)
qed

text \<open>
  A refused start changes nothing. If starting under a fresh id throws, no activation is added and no table
  of packets, results, strategies, processes or leases differs.
\<close>

theorem refused_start_changes_nothing:
  assumes "startStrategy en now leaseId sid k repo runId iter opts hk dispatch base (jobs, s) = (Inl m, jobs', s')"
    and "strategy_get sid (sm_strategies s) = None" and "hk_dag hk = None"
  shows "jobs' = jobs \<and> sm_db s' = sm_db s \<and> sm_strategies s' = sm_strategies s \<and> sm_hooks s' = sm_hooks s
     \<and> ow_leases (sm_own s') = ow_leases (sm_own s) \<and> ow_procs (sm_own s') = ow_procs (sm_own s)"
proof (cases "validateStart s repo runId iter opts")
  case (Inl m')
  then show ?thesis using assms(1) by (simp add: startStrategy_def)
next
  case (Inr x)
  then obtain r ru ps where v: "validateStart s repo runId iter opts = Inr (r, ru, ps)" by (cases x) auto
  obtain l s1 where l: "take_lease en now leaseId sid k repo runId iter s = (l, s1)" by (metis surj_pair)
  have same: "sm_strategies s1 = sm_strategies s" "sm_db s1 = sm_db s" "sm_hooks s1 = sm_hooks s"
    using l by (auto simp: take_lease_def split: option.splits prod.splits)
  show ?thesis
  proof (cases l)
    case None
    have "strategy_get sid (sm_strategies s1) = None" using assms(2) same by simp
    then obtain rec' s2 where "createRecord en now sid k r ru ps (concurrency_of opts) dispatch base s1 = Inr (rec', s2)"
      by (auto simp: createRecord_def Let_def strategy_create_def tbl_insert_def strategy_get_def)
    then show ?thesis using assms(1,3) v l None
      by (simp add: startStrategy_def begin_strategy_def Let_def on_created_def split: prod.splits)
  next
    case (Some msg)
    then obtain owner where o: "se_owner en = Some owner" using l by (auto simp: take_lease_def split: option.splits)
    let ?opts = "\<lparr>ao_run = Some runId, ao_iteration = Some iter, ao_actor = Some sid\<rparr>"
    obtain oc x own where a: "acquire leaseId now repo owner (lease_kind k) ?opts (sm_own s) = ((oc, x), own)" by (metis surj_pair)
    have "oc \<noteq> Acquired" "sm_own s1 = own" using l Some a o by (auto simp: take_lease_def split: if_splits)
    then have "ow_leases own = ow_leases (sm_own s)"
      using acquire_cases [where leaseId = leaseId and now = now and repo = repo and inst = owner and kind = "lease_kind k"
        and opts = ?opts and s = "sm_own s", unfolded a] by (auto split: option.splits)
    moreover have "ow_procs own = ow_procs (sm_own s)"
      using acquire_procs [where leaseId = leaseId and now = now and repo = repo and inst = owner and kind = "lease_kind k"
        and opts = ?opts and own = "sm_own s"] a by simp
    ultimately show ?thesis using assms(1) v l Some same \<open>sm_own s1 = own\<close> by (simp add: startStrategy_def)
  qed
qed

section \<open>Control of a paused strategy\<close>

text \<open>Releasing a worktree touches neither packets nor results.\<close>

lemma updateWorktree_frame: "db_packets (snd (updateWorktree i u db)) = db_packets db" "db_results (snd (updateWorktree i u db)) = db_results db"
  by (simp_all add: updateWorktree_def Let_def split: option.split)

lemma wt_update_frame: "wt_update i u (db, w) = (x, db', w') \<Longrightarrow> db_packets db' = db_packets db \<and> db_results db' = db_results db"
  using updateWorktree_frame [of i u db] by (auto simp: wt_update_def split: prod.splits)

lemma worktree_release_frame:
  "worktree_release en own now r i (db, w) = (x, db', w') \<Longrightarrow> db_packets db' = db_packets db \<and> db_results db' = db_results db"
  by (auto simp: worktree_release_def dest: wt_update_frame split: if_splits option.splits prod.splits sum.splits)

lemma same_tables:
  assumes "db_packets db' = db_packets db" and "db_results db' = db_results db"
  shows "packet_get i db' = packet_get i db" "getResult i db' = getResult i db"
  using assms by (simp_all add: packet_get_def getResult_def)

lemma release_worktrees_frame:
  "\<exists>db w. release_worktrees en now r ids s = s\<lparr>sm_db := db, sm_world := w\<rparr> \<and> db_packets db = db_packets (sm_db s) \<and> db_results db = db_results (sm_db s)"
proof (induction ids arbitrary: s)
  case Nil
  show ?case by (intro exI [of _ "sm_db s"] exI [of _ "sm_world s"]) (simp add: release_worktrees_def)
next
  case (Cons i ids)
  obtain x db w where r: "worktree_release (se_wt en) (sm_own s) now r i (sm_db s, sm_world s) = (x, db, w)" by (metis surj_pair)
  then have f: "db_packets db = db_packets (sm_db s)" "db_results db = db_results (sm_db s)" by (auto dest: worktree_release_frame)
  have "release_worktrees en now r (i # ids) s = release_worktrees en now r ids (s\<lparr>sm_db := db, sm_world := w\<rparr>)"
    by (simp add: release_worktrees_def r)
  then show ?case using Cons.IH [of "s\<lparr>sm_db := db, sm_world := w\<rparr>"] f by auto
qed

definition result_settled :: "packet_db \<Rightarrow> ident \<Rightarrow> bool" where
  "result_settled db i \<longleftrightarrow> (case getResult i db of None \<Rightarrow> False | Some x \<Rightarrow> re_status x = RS_COMPLETED \<or> re_status x = RS_CANCELLED)"

lemma cancel_settles:
  "cancel_packets en now repo blocker ps s = (None, s') \<Longrightarrow> s' = s\<lparr>sm_db := sm_db s'\<rparr>
     \<and> (\<forall>i. result_settled (sm_db s) i \<longrightarrow> result_settled (sm_db s') i) \<and> list_all (\<lambda>p. result_settled (sm_db s') (wp_id p)) ps"
proof (induction ps arbitrary: s)
  case (Cons p ps)
  show ?case
  proof (cases "completed_before (sm_db s) p")
    case None
    let ?x = "syntheticResult now p RS_CANCELLED blocker None"
    obtain y s1 where y: "sm_record en now repo p ?x s = Inr (y, s1)" and rest: "cancel_packets en now repo blocker ps s1 = (None, s')"
      using Cons.prems None by (auto split: sum.splits)
    note f = sm_record_Inr [OF y]
    have "re_status y = RS_CANCELLED" using f(3) by (simp add: syntheticResult_def)
    then have "result_settled (sm_db s1) (wp_id p)" "\<And>i. result_settled (sm_db s) i \<Longrightarrow> result_settled (sm_db s1) i"
      using f(2) by (simp_all add: result_settled_def)
    moreover obtain db where "s1 = s\<lparr>sm_db := db\<rparr>" using f(1) by blast
    ultimately show ?thesis using Cons.IH [OF rest] by (cases s') auto
  next
    case (Some y)
    then have "result_settled (sm_db s) (wp_id p)" by (auto simp: completed_before_def result_settled_def split: option.splits if_splits)
    then show ?thesis using Cons.IH [of s] Cons.prems Some by auto
  qed
qed simp

lemma publish_frame [simp]: "sm_hooks (sm_publish en now hk ev s) = sm_hooks s" "sm_completed (sm_publish en now hk ev s) = sm_completed s"
  "sm_db (sm_publish en now hk ev s) = sm_db s" "sm_repos (sm_publish en now hk ev s) = sm_repos s"
  "sm_stagings (sm_publish en now hk ev s) = sm_stagings s" "sm_runs (sm_publish en now hk ev s) = sm_runs s"
  by (simp_all add: sm_publish_def Let_def split: option.split prod.split)

lemma sm_update_frame [simp]: "sm_hooks (snd (sm_update i p now s)) = sm_hooks s" "sm_completed (snd (sm_update i p now s)) = sm_completed s"
  "sm_db (snd (sm_update i p now s)) = sm_db s" "sm_repos (snd (sm_update i p now s)) = sm_repos s"
  "sm_runs (snd (sm_update i p now s)) = sm_runs s"
  by (simp_all add: sm_update_def split: prod.split)

lemma sm_update_row: "strategy_get i (sm_strategies s) = Some c \<Longrightarrow>
   sm_update i p now s = (Some (strategy_write p now c), s\<lparr>sm_strategies := snd (strategy_update i p now (sm_strategies s))\<rparr>)"
  by (simp add: sm_update_def strategy_update_write)

lemma request_frame: "sm_hooks (request_control en now d reason rec s) = sm_hooks s"
  "sm_completed (request_control en now d reason rec s) = sm_completed s" "sm_db (request_control en now d reason rec s) = sm_db s"
  by (simp_all add: request_control_def Let_def)

lemma request_row:
  assumes "strategy_get (sr_id rec) (sm_strategies s) = Some rec"
  shows "map_option outcome_of (strategy_get (sr_id rec) (sm_strategies (request_control en now d reason rec s)))
    = Some (if d = SD_STOP then SS_STOPPING else sr_status rec, requested_state d, sr_error rec, sr_finished rec)"
  using assms by (simp add: request_control_def Let_def publish_outcome sm_update_row strategy_get_update strategy_write_def
      outcome_of_def no_patch_def del: map_option_eq_Some)

text \<open>The last part: the row, the hooks, and what is forgotten.\<close>

lemma conclude_outcome:
  assumes "conclude_paused en now d rec s = (x, s')" and "strategy_get (sr_id rec) (sm_strategies s) = Some c"
  shows "outcome_of x = (fst (paused_end d), requested_state d, Some (snd (paused_end d)), Some now)"
    "map_option outcome_of (strategy_get (sr_id rec) (sm_strategies s')) = Some (outcome_of x)"
    "map_of (sm_hooks s') (sr_id rec) = None" "map_of (sm_stagings s') (sr_id rec) = None" "sm_db s' = sm_db s"
    "sm_completed s' = sm_completed s @ (case map_of (sm_hooks s) (sr_id rec) of Some hk \<Rightarrow> if hk_completed hk then [x] else [] | None \<Rightarrow> [])"
proof -
  let ?p = "no_patch\<lparr>sp_status := Some (fst (paused_end d)), sp_control := Some (requested_state d), sp_finished := Some (Some now),
      sp_error := Some (Some (snd (paused_end d)))\<rparr>"
  let ?s1 = "s\<lparr>sm_strategies := snd (strategy_update (sr_id rec) ?p now (sm_strategies s))\<rparr>"
  let ?ev = "(mk_event EV_completed now (sr_repo rec) (sr_id rec))\<lparr>ev_status := Some (fst (paused_end d)), ev_reason := Some (snd (paused_end d))\<rparr>"
  have x: "x = strategy_write ?p now c"
    and s': "s' = forget_strategy (sr_id rec) (sm_notify (map_of (sm_hooks s) (sr_id rec)) x
      (sm_publish en now (map_of (sm_hooks s) (sr_id rec)) ?ev ?s1))"
    using assms(1) by (auto simp: conclude_paused_def Let_def sm_update_row [OF assms(2)])
  from x show out: "outcome_of x = (fst (paused_end d), requested_state d, Some (snd (paused_end d)), Some now)"
    by (simp add: outcome_of_def strategy_write_def no_patch_def)
  have row: "strategy_get (sr_id rec) (snd (strategy_update (sr_id rec) ?p now (sm_strategies s))) = Some x"
    by (simp add: strategy_get_update assms(2) x)
  show "map_option outcome_of (strategy_get (sr_id rec) (sm_strategies s')) = Some (outcome_of x)"
    by (simp add: s' forget_strategy_def publish_outcome row del: map_option_eq_Some)
  show "map_of (sm_hooks s') (sr_id rec) = None" "map_of (sm_stagings s') (sr_id rec) = None" "sm_db s' = sm_db s"
    "sm_completed s' = sm_completed s @ (case map_of (sm_hooks s) (sr_id rec) of Some hk \<Rightarrow> if hk_completed hk then [x] else [] | None \<Rightarrow> [])"
    by (auto simp: s' forget_strategy_def delete_conv' sm_notify_def split: option.split)
qed

text \<open>
  A paused strategy can be ended. A stop or a kill that is accepted for a paused strategy without an activation
  ends it at once: its row is cancelled or recovery required, every packet of it has a completed or a cancelled
  result, its hooks are told exactly once and forgotten with its staging checkout, and no activation is made.
\<close>

theorem paused_strategy_ended:
  assumes "control en now cid repo sid d reason (jobs, s) = (Inr x, jobs', s')"
    and "strategy_get sid (sm_strategies s) = Some rec" and "sr_status rec = SS_PAUSED" and "map_of jobs sid = None"
    and "d = SD_STOP \<or> d = SD_KILL"
  shows "jobs' = jobs \<and> outcome_of x = (fst (paused_end d), requested_state d, Some (snd (paused_end d)), Some now)
    \<and> map_option outcome_of (strategy_get sid (sm_strategies s')) = Some (outcome_of x)
    \<and> list_all (\<lambda>p. result_settled (sm_db s') (wp_id p)) (packets_of (sm_db s) rec)
    \<and> map_of (sm_hooks s') sid = None \<and> map_of (sm_stagings s') sid = None
    \<and> sm_completed s' = sm_completed s @ (case map_of (sm_hooks s) sid of Some hk \<Rightarrow> if hk_completed hk then [x] else [] | None \<Rightarrow> [])"
proof -
  have id: "sr_id rec = sid" using assms(2) by (auto simp: strategy_get_def dest: tbl_get_key)
  obtain r cs where cs: "apply_control en now d r rec (jobs, request_control en now d reason rec (s\<lparr>sm_controls := cs\<rparr>)) = (Inr x, jobs', s')"
    using assms(1,2) by (auto simp: control_def split: option.splits if_splits)
  let ?s1 = "request_control en now d reason rec (s\<lparr>sm_controls := cs\<rparr>)"
  have ap: "settle_paused en now d r rec ?s1 = (Inr x, s')" "jobs' = jobs"
    using assms(3,4,5) cs id by (auto simp: apply_control_def Let_def split: prod.splits)
  let ?ps = "packets_of (sm_db ?s1) rec"
  obtain m s2 where c: "cancel_packets en now (ry_id r) (snd (paused_end d)) ?ps ?s1 = (m, s2)" by (metis surj_pair)
  have m: "m = None" using ap(1) c by (cases m) (auto simp: settle_paused_def Let_def)
  note cancelled = cancel_settles [OF c [unfolded m]]
  let ?s3 = "if d = SD_KILL then s2 else release_worktrees en now r (List.map_filter (stopped_worktree (sm_db s2)) ?ps) s2"
  let ?s4 = "case map_of (sm_stagings ?s3) (sr_id rec) of None \<Rightarrow> ?s3 | Some sg \<Rightarrow> forget_checkout en r sg ?s3"
  obtain y s5 where y: "conclude_paused en now d rec ?s4 = (y, s5)" by (metis surj_pair)
  then have fin: "conclude_paused en now d rec ?s4 = (x, s')"
    using ap(1) c m unfolding settle_paused_def Let_def by (simp only: prod.case option.case sum.inject prod.inject)
  have three: "\<exists>db w. ?s3 = s2\<lparr>sm_db := db, sm_world := w\<rparr> \<and> db_results db = db_results (sm_db s2)"
  proof (cases "d = SD_KILL")
    case True
    then show ?thesis by (intro exI [of _ "sm_db s2"] exI [of _ "sm_world s2"]) simp
  next
    case False
    then show ?thesis
      using release_worktrees_frame [of en now r "List.map_filter (stopped_worktree (sm_db s2)) ?ps" s2] by auto
  qed
  then obtain db w where s4: "?s4 = s2\<lparr>sm_db := db, sm_world := w\<rparr>" "db_results db = db_results (sm_db s2)"
    by (cases "map_of (sm_stagings ?s3) (sr_id rec)") (auto simp: forget_checkout_def)
  obtain db2 where s2: "s2 = ?s1\<lparr>sm_db := db2\<rparr>" using cancelled by blast
  obtain row where row: "strategy_get (sr_id rec) (sm_strategies ?s1) = Some row"
    using request_row [of rec "s\<lparr>sm_controls := cs\<rparr>" en now d reason] assms(2) id by auto
  have out: "strategy_get (sr_id rec) (sm_strategies ?s4) = Some row" using s4(1) s2 row by (simp only:) simp
  note ended = conclude_outcome [OF fin out]
  have "result_settled (sm_db ?s4) i = result_settled (sm_db s2) i" for i
    using s4 by (simp only:) (simp add: result_settled_def getResult_def)
  then have "list_all (\<lambda>p. result_settled (sm_db s') (wp_id p)) ?ps" using cancelled ended(5) by simp
  moreover have "sm_hooks ?s4 = sm_hooks s" "sm_completed ?s4 = sm_completed s" "sm_db ?s1 = sm_db s"
    using s4(1) s2 by (simp_all only: request_frame) (simp_all add: request_frame)
  ultimately show ?thesis using ap(2) ended id by simp
qed

section \<open>Resume\<close>

lemma requeue_frame: "getResult i (sm_db (requeue now ps s)) = getResult i (sm_db s)" "sm_strategies (requeue now ps s) = sm_strategies s"
  "sm_hooks (requeue now ps s) = sm_hooks s"
proof -
  have step: "getResult i (sm_db (sm_packetStatus j st now s)) = getResult i (sm_db s)"
    "sm_strategies (sm_packetStatus j st now s) = sm_strategies s" "sm_hooks (sm_packetStatus j st now s) = sm_hooks s" for i j st s
    by (simp_all add: sm_packetStatus_def packet_simps)
  show "getResult i (sm_db (requeue now ps s)) = getResult i (sm_db s)" "sm_strategies (requeue now ps s) = sm_strategies s"
    "sm_hooks (requeue now ps s) = sm_hooks s"
    unfolding requeue_def by (rule fold_invariant_value; simp add: step)+
qed

lemma set_js_set [simp]: "set (js_set xs) = set xs"
  by (simp add: js_set_def)

lemma completed_same: "(\<And>i. getResult i db = getResult i db') \<Longrightarrow> completed_before db = completed_before db'"
  by (simp add: completed_before_def fun_eq_iff)

lemma start_pending:
  assumes "exec_start en now rec r ru ps hk s = (e, s')"
  shows "ex_packets e = ps" "ex_workers e = []" "ex_pc e = PC_begin"
    "list_all (\<lambda>p. (wp_id p \<in> set (ex_pending e)) = (completed_before (sm_db s) p = None)) ps"
proof -
  have k: "completed_before (sm_db (sm_publish en now (Some hk) ev (snd (sm_update i p now (s\<lparr>sm_hooks := h\<rparr>)))))
      = completed_before (sm_db s)" for ev i p h by (rule completed_same) simp
  have known: "fst ` set (List.map_filter (\<lambda>p. map_option (Pair (wp_id p)) (f p)) ps) = wp_id ` {p \<in> set ps. f p \<noteq> None}" for f :: "work_packet \<Rightarrow> packet_result option"
    using arg_cong [OF known_ids [of f ps], of set] by simp
  show "ex_packets e = ps" "ex_workers e = []" "ex_pc e = PC_begin" using assms by (auto simp: exec_start_def Let_def)
  have "set (ex_pending e) = {i \<in> set (map wp_id ps). i \<notin> set (map wp_id (filter (\<lambda>p. completed_before (sm_db s) p \<noteq> None) ps))}"
    using assms known by (auto simp: exec_start_def Let_def k)
  moreover have "(wp_id p \<in> set (map wp_id (filter (\<lambda>p. completed_before (sm_db s) p \<noteq> None) ps))) = (completed_before (sm_db s) p \<noteq> None)"
    if "p \<in> set ps" for p
  proof
    assume "wp_id p \<in> set (map wp_id (filter (\<lambda>p. completed_before (sm_db s) p \<noteq> None) ps))"
    then obtain q where "wp_id p = wp_id q" "completed_before (sm_db s) q \<noteq> None" by auto
    then show "completed_before (sm_db s) p \<noteq> None" by (simp add: completed_before_def)
  next
    assume "completed_before (sm_db s) p \<noteq> None"
    then show "wp_id p \<in> set (map wp_id (filter (\<lambda>p. completed_before (sm_db s) p \<noteq> None) ps))" using that by simp
  qed
  ultimately show "list_all (\<lambda>p. (wp_id p \<in> set (ex_pending e)) = (completed_before (sm_db s) p = None)) ps"
    unfolding list_all_iff by fastforce
qed

lemma started_control:
  assumes "exec_start en now rec r ru ps hk s = (e, s')" and "strategy_get (sr_id rec) (sm_strategies s) \<noteq> None"
  shows "control_state_of (sr_id rec) s' = CS_NONE"
proof -
  let ?p = "no_patch\<lparr>sp_status := Some SS_RUNNING, sp_started := Some (Some now), sp_control := Some CS_NONE, sp_error := Some None\<rparr>"
  let ?s1 = "snd (sm_update (sr_id rec) ?p now (s\<lparr>sm_hooks := AList.update (sr_id rec) hk (sm_hooks s)\<rparr>))"
  obtain c where "strategy_get (sr_id rec) (sm_strategies s) = Some c" using assms(2) by blast
  then have "map_option outcome_of (strategy_get (sr_id rec) (sm_strategies ?s1)) = Some (outcome_of (strategy_write ?p now c))"
    by (simp add: sm_update_row strategy_get_update)
  moreover have "s' = sm_publish en now (Some hk) (mk_event EV_started now (ry_id r) (sr_id rec)) ?s1"
    using assms(1) by (simp add: exec_start_def Let_def)
  ultimately have "map_option outcome_of (strategy_get (sr_id rec) (sm_strategies s')) = Some (outcome_of (strategy_write ?p now c))"
    by (simp only: publish_outcome)
  then show ?thesis by (auto simp: control_state_of_def outcome_of_def strategy_write_def no_patch_def)
qed

text \<open>
  C14: what a resume does. It is accepted only for a paused strategy of a paused campaign; then the
  strategy has one activation, at its beginning and without workers, in which exactly the packets without a
  completed result are pending, its control state is cleared and every other activation is as before.
\<close>

theorem resume_restarts_unfinished:
  assumes "control en now cid repo sid SD_RESUME reason (jobs, s) = (Inr x, jobs', s')"
    and "strategy_get sid (sm_strategies s) = Some rec"
  shows "sr_status rec = SS_PAUSED \<and> map_option ru_status (run_get (sr_run rec) (sm_runs s)) = Some PAUSED
    \<and> control_state_of sid s' = CS_NONE
    \<and> (case map_of jobs' sid of None \<Rightarrow> False | Some e \<Rightarrow> ex_pc e = PC_begin \<and> ex_workers e = [] \<and> ex_packets e = packets_of (sm_db s) rec
        \<and> list_all (\<lambda>p. (wp_id p \<in> set (ex_pending e)) = (completed_before (sm_db s) p = None)) (ex_packets e)
        \<and> jobs' = AList.update sid e jobs)"
proof -
  have id: "sr_id rec = sid" using assms(2) by (auto simp: strategy_get_def dest: tbl_get_key)
  obtain r cs where "apply_control en now SD_RESUME r rec (jobs, request_control en now SD_RESUME reason rec (s\<lparr>sm_controls := cs\<rparr>)) = (Inr x, jobs', s')"
    using assms by (auto simp: control_def split: option.splits if_splits)
  then have re: "resume_strategy en now r rec (jobs, request_control en now SD_RESUME reason rec (s\<lparr>sm_controls := cs\<rparr>)) = (Inr x, jobs', s')"
    by (simp add: apply_control_def Let_def)
  let ?s1 = "request_control en now SD_RESUME reason rec (s\<lparr>sm_controls := cs\<rparr>)"
  have same: "sm_db ?s1 = sm_db s" "sm_runs ?s1 = sm_runs s" by (simp_all add: request_control_def Let_def)
  have p: "sr_status rec = SS_PAUSED" using re by (auto simp: resume_strategy_def split: if_splits)
  then obtain ru where ru: "run_get (sr_run rec) (sm_runs s) = Some ru" "ru_status ru = PAUSED"
    using re same by (auto simp: resume_strategy_def split: option.splits if_splits)
  let ?s2 = "requeue now (packets_of (sm_db s) rec) ?s1"
  obtain row where row: "strategy_get (sr_id rec) (sm_strategies ?s2) = Some row"
    using request_row [of rec "s\<lparr>sm_controls := cs\<rparr>" en now SD_RESUME reason] assms(2) id by (auto simp: requeue_frame)
  define pt where "pt = no_patch\<lparr>sp_control := Some CS_NONE, sp_status := Some SS_QUEUED, sp_finished := Some None\<rparr>"
  define s3 where "s3 = ?s2\<lparr>sm_strategies := snd (strategy_update (sr_id rec) pt now (sm_strategies ?s2))\<rparr>"
  define hk where "hk = (case map_of (sm_hooks s3) (sr_id rec) of None \<Rightarrow> no_hooks | Some hk \<Rightarrow> hk)"
  have a: "activate en now (strategy_write pt now row) r ru (packets_of (sm_db s) rec) hk (jobs, s3) = (jobs', s')"
    using re p ru by (auto simp: resume_strategy_def same Let_def sm_update_row [OF row] pt_def [symmetric] s3_def [symmetric] hk_def [symmetric])
  have rid: "sr_id (strategy_write pt now row) = sid" using row id by (auto simp: strategy_write_def strategy_get_def dest: tbl_get_key)
  obtain e where e: "map_of jobs' sid = Some e" "jobs' = AList.update sid e jobs"
    and st: "exec_start en now (strategy_write pt now row) r ru (packets_of (sm_db s) rec) hk s3 = (e, s')"
    using activated [OF a] rid by auto
  have "completed_before (sm_db s3) = completed_before (sm_db s)"
    by (rule completed_same) (simp add: s3_def requeue_frame same)
  moreover have "strategy_get sid (sm_strategies s3) = Some (strategy_write pt now row)"
    using row id by (simp add: s3_def strategy_get_update)
  then have "control_state_of sid s' = CS_NONE"
    using started_control [OF st] rid by simp
  ultimately show ?thesis using p ru e start_pending [OF st] by simp
qed

section \<open>Recovery\<close>

abbreviation recovers :: "repository list \<Rightarrow> strategy_run \<Rightarrow> bool" where
  "recovers repos rec \<equiv> repo_get (sr_repo rec) repos \<noteq> None"

text \<open>Of the strategy table, recovery writes one row for each listed strategy of a known repository.\<close>

definition recovered_row :: "time \<Rightarrow> strategy_run \<Rightarrow> strategy_run list \<Rightarrow> strategy_run list" where
  "recovered_row now rec t = snd (strategy_update (sr_id rec) (recovered_patch now) now t)"

lemma recover_packets_frame: "recover_packets en now repo ps s = (m, s') \<Longrightarrow> \<exists>db. s' = s\<lparr>sm_db := db\<rparr>"
proof (induction ps arbitrary: s)
  case Nil
  then show ?case by (auto intro: exI [of _ "sm_db s"])
next
  case (Cons p ps)
  show ?case
  proof (cases "orphaned_packet p")
    case True
    let ?x = "syntheticResult now p RS_BLOCKED ''RECOVERY_REQUIRED: controller restarted without a live swarm worker.''
      (map_option (\<lambda>wt. provenance_of wt None) (getWorktreeByPacket (wp_id p) (sm_db s)))"
    show ?thesis
    proof (cases "sm_record en now repo p ?x s")
      case (Inl e)
      then show ?thesis using Cons.prems True by (auto intro: exI [of _ "sm_db s"])
    next
      case (Inr y)
      then obtain x s1 where y: "sm_record en now repo p ?x s = Inr (x, s1)" by (cases y) auto
      obtain db where "s1 = s\<lparr>sm_db := db\<rparr>" using sm_record_Inr(1) [OF y] by blast
      then show ?thesis using Cons.IH [of s1] Cons.prems True y by auto
    qed
  next
    case False
    then show ?thesis using Cons.IH Cons.prems by simp
  qed
qed

lemma recover_strategy_table:
  assumes "recover_strategy en now r rec s = (None, xs, s')"
  shows "sm_strategies s' = recovered_row now rec (sm_strategies s)" "sm_repos s' = sm_repos s"
    "map sr_id xs = (if strategy_get (sr_id rec) (sm_strategies s) = None then [] else [sr_id rec])"
    "list_all (\<lambda>x. sr_status x = SS_RECOVERY_REQUIRED) xs"
proof -
  obtain m s1 where r: "recover_packets en now (ry_id r) (packets_of (sm_db s) rec) s = (m, s1)" by (metis surj_pair)
  obtain db where s1: "s1 = s\<lparr>sm_db := db\<rparr>" using recover_packets_frame [OF r] by blast
  have m: "m = None" using assms r by (cases m) (auto simp: recover_strategy_def)
  have w: "sm_strategies (recover_worktrees en r s1) = sm_strategies s" "sm_repos (recover_worktrees en r s1) = sm_repos s"
    by (simp_all add: recover_worktrees_def s1 split: prod.split)
  show "sm_strategies s' = recovered_row now rec (sm_strategies s)" "sm_repos s' = sm_repos s"
    "map sr_id xs = (if strategy_get (sr_id rec) (sm_strategies s) = None then [] else [sr_id rec])"
    "list_all (\<lambda>x. sr_status x = SS_RECOVERY_REQUIRED) xs"
    using assms r m w
    by (auto simp: recover_strategy_def recovered_row_def sm_update_def strategy_update_write strategy_write_def recovered_patch_def
        no_patch_def sm_publish_def strategy_get_def split: option.splits dest: tbl_get_key)
qed

lemma recover_each_table:
  "recover_each en now recs s = (Inr xs, s') \<Longrightarrow>
   sm_strategies s' = fold (recovered_row now) (filter (recovers (sm_repos s)) recs) (sm_strategies s)
   \<and> list_all (\<lambda>x. sr_status x = SS_RECOVERY_REQUIRED) xs"
proof (induction recs arbitrary: s xs)
  case (Cons rec recs)
  note r = Cons.prems
  show ?case
  proof (cases "repo_get (sr_repo rec) (sm_repos s)")
    case None
    then show ?thesis using Cons.IH [of s xs] r by simp
  next
    case (Some repo)
    obtain m ys s1 where st: "recover_strategy en now repo rec s = (m, ys, s1)" by (metis surj_pair)
    have m: "m = None" using r Some st by (cases m) auto
    obtain zs where z: "recover_each en now recs s1 = (Inr zs, s')" "xs = ys @ zs"
      using r Some st m by (auto split: prod.splits sum.splits)
    show ?thesis using Cons.IH [OF z(1)] recover_strategy_table [OF st [unfolded m]] Some z(2) by simp
  qed
qed simp

lemma recovered_row_keys: "map sr_id (recovered_row now rec t) = map sr_id t"
  by (auto simp: recovered_row_def strategy_update_write tbl_update_def strategy_write_def strategy_get_def
      split: option.split dest: tbl_get_key)

lemma fold_recovered:
  "map sr_id (fold (recovered_row now) recs t) = map sr_id t"
  "strategy_get i (fold (recovered_row now) recs t) \<noteq> strategy_get i t \<Longrightarrow> i \<in> sr_id ` set recs"
  "i \<in> sr_id ` set recs \<Longrightarrow> strategy_get i (fold (recovered_row now) recs t) = Some q \<Longrightarrow> sr_status q = SS_RECOVERY_REQUIRED"
proof (induction recs arbitrary: t)
  case (Cons rec recs)
  { case 1 then show ?case using Cons(1) by (simp add: recovered_row_keys)
  next
    case 2
    show ?case
    proof (cases "i \<in> sr_id ` set recs")
      case False
      then have "strategy_get i (fold (recovered_row now) recs (recovered_row now rec t)) = strategy_get i (recovered_row now rec t)"
        using Cons(2) by blast
      then have "strategy_get i (recovered_row now rec t) \<noteq> strategy_get i t" using 2 by simp
      then have "i = sr_id rec" by (simp add: recovered_row_def strategy_get_update split: if_splits)
      then show ?thesis by simp
    qed simp
  next
    case 3
    show ?case
    proof (cases "i \<in> sr_id ` set recs")
      case True
      then show ?thesis using Cons(3) [of "recovered_row now rec t"] 3 by simp
    next
      case False
      then have "strategy_get i (fold (recovered_row now) recs (recovered_row now rec t)) = strategy_get i (recovered_row now rec t)"
        using Cons(2) by blast
      then have "strategy_get i (recovered_row now rec t) = Some q" "i = sr_id rec" using 3 False by simp_all
      then show ?thesis by (auto simp: recovered_row_def strategy_get_update strategy_write_def recovered_patch_def no_patch_def)
    qed }
qed simp_all

text \<open>
  C13: recovery leaves no strategy behind. After \<open>recoverAll\<close> has returned, no strategy of a known repository is
  queued, running or stopping, what it returns is all marked recovery required, and no strategy was added or lost.
  Identifiers of strategies are unique.
\<close>

theorem recovery_leaves_no_orphan:
  assumes "recoverAll en now s = (Inr recs, s')" and "unique_keys sr_id (sm_strategies s)"
  shows "filter (\<lambda>r. sr_status r \<in> {SS_QUEUED, SS_RUNNING, SS_STOPPING} \<and> recovers (sm_repos s) r) (sm_strategies s') = []
    \<and> list_all (\<lambda>r. sr_status r = SS_RECOVERY_REQUIRED) recs \<and> map sr_id (sm_strategies s') = map sr_id (sm_strategies s)"
proof -
  let ?recs = "filter (recovers (sm_repos s)) (listRecoverable (sm_strategies s))"
  have t: "sm_strategies s' = fold (recovered_row now) ?recs (sm_strategies s)" "list_all (\<lambda>x. sr_status x = SS_RECOVERY_REQUIRED) recs"
    using recover_each_table [of en now "listRecoverable (sm_strategies s)" s recs s'] assms(1) by (simp_all add: recoverAll_def)
  have keys: "map sr_id (sm_strategies s') = map sr_id (sm_strategies s)" by (simp add: t(1) fold_recovered(1))
  have "\<not> (sr_status r \<in> {SS_QUEUED, SS_RUNNING, SS_STOPPING} \<and> recovers (sm_repos s) r)" if r: "r \<in> set (sm_strategies s')" for r
  proof
    assume active: "sr_status r \<in> {SS_QUEUED, SS_RUNNING, SS_STOPPING} \<and> recovers (sm_repos s) r"
    have g: "strategy_get (sr_id r) (sm_strategies s') = Some r"
      using tbl_get_unique [of sr_id "sm_strategies s'" r] r assms(2) keys by (simp add: strategy_get_def unique_keys_def)
    show False
    proof (cases "sr_id r \<in> sr_id ` set ?recs")
      case True
      then show False using fold_recovered(3) [OF True] g t(1) active by auto
    next
      case False
      then have "strategy_get (sr_id r) (sm_strategies s) = Some r" using fold_recovered(2) g t(1) by metis
      then have "r \<in> set ?recs" using active
        by (auto simp: strategy_get_def listRecoverable_def order_asc_def dest: tbl_get_in_set)
      then show False using False by blast
    qed
  qed
  then show ?thesis using t(2) keys by (simp add: filter_empty_conv)
qed

end
