(* ===== verification/Dag_Laws.thy ===== *)
theory Dag_Laws
  imports Dag_Strategy Control_Laws
begin

text \<open>What the validation of a DAG establishes for the engine, and what recovery does to its nodes.\<close>

section \<open>Validation\<close>











section \<open>Recovery\<close>

lemma node_list_of: "n \<in> set (node_list rank sid t) \<longleftrightarrow> n \<in> set t \<and> nd_strategy n = sid"
  by (simp add: node_list_def order_asc_def)

text \<open>A loop that updates the listed nodes of one strategy, each from the row it was listed with.\<close>

lemma upd_listed_row:
  assumes "unique_keys node_key t"
  shows "node_get s i (upd_listed rank sid p f now t) = (case node_get s i t of None \<Rightarrow> None
     | Some n \<Rightarrow> Some (if s = sid \<and> p n then node_write (f n) now n else n))"
proof -
  let ?step = "\<lambda>n t. if p n then upd_node sid (nd_id n) (f n) now t else t"
  let ?ds = "node_list rank sid t"
  have d: "distinct (map node_key ?ds)"
  proof -
    have "distinct (filter (\<lambda>n. nd_strategy n = sid) t)" "inj_on node_key (set t)"
      using assms by (auto simp: unique_keys_def distinct_map)
    then show ?thesis
      by (auto simp: distinct_map node_list_def order_asc_def inj_on_def distinct_sort)
  qed
  have key: "node_key n = (sid, nd_id n)" if "n \<in> set ?ds" for n using that by (simp add: node_list_of node_key_def)
  have "node_get s i (fold ?step xs u) = (case tbl_get node_key (s, i) xs of None \<Rightarrow> node_get s i u
      | Some n \<Rightarrow> if p n then map_option (node_write (f n) now) (node_get s i u) else node_get s i u)"
    if "distinct (map node_key xs)" "\<forall>n \<in> set xs. node_key n = (sid, nd_id n)" for xs u
    using that
  proof (induction xs arbitrary: u)
    case Nil
    then show ?case by (simp add: table_simps)
  next
    case (Cons n xs)
    then have "tbl_get node_key (node_key n) xs = None" by (simp add: tbl_get_None)
    then show ?case using Cons by (auto simp: table_simps node_get_update split: option.splits)
  qed
  then have "node_get s i (upd_listed rank sid p f now t) = (case tbl_get node_key (s, i) ?ds of None \<Rightarrow> node_get s i t
      | Some n \<Rightarrow> if p n then map_option (node_write (f n) now) (node_get s i t) else node_get s i t)"
    using d key unfolding upd_listed_def by blast
  moreover have "tbl_get node_key (s, i) ?ds = (if s = sid then node_get s i t else None)"
  proof (cases "node_get s i t")
    case None
    then have "tbl_get node_key (s, i) ?ds = None" by (auto simp: tbl_get_None node_get_def node_list_of)
    then show ?thesis using None by (auto simp only: if_split)
  next
    case (Some n)
    then have n: "n \<in> set t" "node_key n = (s, i)" by (auto simp: node_get_def dest: tbl_get_key tbl_get_in_set)
    show ?thesis
    proof (cases "s = sid")
      case True
      then have "n \<in> set ?ds" using n by (simp add: node_list_of node_key_def)
      then show ?thesis using tbl_get_unique [of node_key ?ds n] d n True Some by (simp add: unique_keys_def)
    next
      case False
      then have "tbl_get node_key (s, i) ?ds = None" by (auto simp: tbl_get_None node_list_of node_key_def)
      then show ?thesis using False by simp
    qed
  qed
  ultimately show ?thesis by (simp split: option.split)
qed

lemma upd_listed_keys: "map node_key (upd_listed rank sid p f now t) = map node_key t"
  unfolding upd_listed_def by (rule fold_invariant_value) (simp add: node_update_keys)

lemma recover_each_nodes: "recover_each en now recs s = (Inr xs, s') \<Longrightarrow> sm_nodes s' = sm_nodes s"
proof (induction recs arbitrary: s xs)
  case (Cons rec recs)
  show ?case
  proof (cases "repo_get (sr_repo rec) (sm_repos s)")
    case None
    then show ?thesis using Cons by simp
  next
    case (Some repo)
    obtain m ys s1 where st: "recover_strategy en now repo rec s = (m, ys, s1)" by (metis surj_pair)
    have "m = None" using Cons.prems Some st by (cases m) auto
    then obtain zs where z: "recover_each en now recs s1 = (Inr zs, s')"
      using Cons.prems Some st by (auto split: prod.splits sum.splits)
    obtain m2 s2 where p: "recover_packets en now (ry_id repo) (packets_of (sm_db s) rec) s = (m2, s2)" by (metis surj_pair)
    have "sm_nodes s1 = sm_nodes s" using st recover_packets_frame [OF p] p \<open>m = None\<close>
      by (auto simp: recover_strategy_def recover_worktrees_def sm_update_def sm_publish_def split: option.splits prod.splits)
    then show ?thesis using Cons.IH [OF z] by simp
  qed
qed simp

lemma recover_nodes_row:
  assumes "unique_keys node_key t"
  shows "node_get s i (recover_nodes en now rec t) = (case node_get s i t of None \<Rightarrow> None
     | Some n \<Rightarrow> Some (if s = sr_id rec \<and> nd_status n \<noteq> DN_COMPLETED
         then n\<lparr>nd_status := DN_BLOCKED, nd_reason := Some ''RECOVERY_REQUIRED: controller restarted without a live DAG runner.'',
                nd_finished := Some now, nd_updated := now\<rparr> else n))"
  by (simp add: recover_nodes_def upd_listed_row [OF assms] node_write_def no_node_patch_def split: option.split)

lemma fold_recover_nodes:
  "unique_keys node_key t \<Longrightarrow> unique_keys node_key (fold (recover_nodes en now) recs t)
     \<and> map_option nd_status (node_get s i (fold (recover_nodes en now) recs t)) = map_option
         (\<lambda>n. if s \<in> set (map sr_id recs) \<and> nd_status n \<noteq> DN_COMPLETED then DN_BLOCKED else nd_status n) (node_get s i t)"
proof (induction recs arbitrary: t)
  case (Cons rec recs)
  have u: "unique_keys node_key (recover_nodes en now rec t)"
    using Cons.prems by (simp add: recover_nodes_def upd_listed_keys unique_keys_def)
  show ?case using Cons.IH [OF u] by (auto simp: recover_nodes_row [OF Cons.prems] split: option.split)
qed simp

text \<open>
  A recovered DAG has no node at work. After the recovery of a controller that came back, each node of a strategy that
  was recovered is blocked or, if it had completed before, still completed; the nodes of other strategies are as they were.
\<close>

theorem recovered_dag_at_rest:
  assumes "dag_recoverAll en now s = (Inr recs, s')" and "unique_keys node_key (sm_nodes s)"
  shows "map_option nd_status (node_get sid i (sm_nodes s')) = map_option
     (\<lambda>n. if sid \<in> set (map sr_id recs) \<and> nd_status n \<noteq> DN_COMPLETED then DN_BLOCKED else nd_status n) (node_get sid i (sm_nodes s))"
proof -
  obtain all s1 where r: "recoverAll en now s = (Inr all, s1)" "recs = filter (\<lambda>r. sr_strategy r = DAG) all"
    "sm_nodes s' = fold (recover_nodes en now) recs (sm_nodes s1)"
    using assms(1) by (auto simp: dag_recoverAll_def Let_def split: prod.splits sum.splits)
  have "sm_nodes s1 = sm_nodes s" using recover_each_nodes r(1) unfolding recoverAll_def by blast
  then show ?thesis using fold_recover_nodes [of "sm_nodes s1" en now recs sid i] assms(2) r(3) by simp
qed

end
