(* ===== verification/Control_Scenarios.thy ===== *)
theory Control_Scenarios
  imports Engine_Scenarios Dag_Laws
begin

text \<open>
  The witnesses of the laws of the board, of the start, of the controls and of recovery, on the small world of
  \<open>Engine_Scenarios\<close>, and the controls that do not do what their comments say.
\<close>

section \<open>The gate and the board\<close>

definition scanning :: exec where
  "scanning = (fst (demo_job SWARM two_packets (demo_swarm SWARM two_packets)))\<lparr>ex_pc := PC_scan two_packets False,
     ex_base := Some (replicate 40 (CHR ''a''))\<rparr>"

theorem launch_needs_everything_witness:
  "let s = demo_swarm SWARM two_packets; p = demo_packet ''1'' [] in
   int (length (ex_workers scanning)) < sr_maxConcurrency (ex_rec scanning) \<and> dependencies_done scanning s p
    \<and> (case evaluateWritePermission (se_policy demo_env) ''permission'' 9 (ry_id (ex_repo scanning)) (ru_id (ex_run scanning))
          (ru_iter (ex_run scanning)) p (sm_perm s) of
         Some (oc, _) \<Rightarrow> oc \<noteq> ASK \<and> oc \<noteq> DENY | None \<Rightarrow> False)
    \<and> (case admit ''decision'' 9 (admission_of scanning p) (sm_sched s) of Inr (d, _) \<Rightarrow> sd_status d = ADMITTED | Inl _ \<Rightarrow> False)"
proof -
  have q: "ex_pc scanning = PC_scan (demo_packet ''1'' [] # [demo_packet ''2'' [''1'']]) False"
    by (simp add: scanning_def two_packets_def)
  have "allocating_packet (ex_pc (fst (exec_main demo_env 9 (\<lambda>x. x) (scanning, demo_swarm SWARM two_packets)))) \<noteq> None"
    by code_simp
  from launch_needs_everything [OF q this] show ?thesis by (simp only: Let_def)
qed

abbreviation demo_start :: "unit job" where
  "demo_start \<equiv> exec_start demo_env 1 (demo_strategy SWARM) demo_place demo_campaign two_packets no_hooks (demo_swarm SWARM two_packets)"

lemma demo_conditions: "distinct (map wp_id two_packets)" "0 \<le> sr_maxConcurrency (demo_strategy SWARM)"
  by (simp_all add: two_packets_def demo_packet_def demo_strategy_def)

lemma launched_run: "\<exists>n. engine_run demo_env n demo_start launched_job"
  unfolding launched_job_def demo_job_def by (rule main_run_reaches)

theorem engine_refines_board_witness:
  "board_steps 3 (board (fst launched_job)) (board (signal runner_kill (fst launched_job)))"
proof -
  obtain n where n: "engine_run demo_env n demo_start launched_job" using launched_run ..
  have "engine_step demo_env 0 launched_job (signal runner_kill (fst launched_job), snd launched_job)"
    using engine_step.Killed [of demo_env "fst launched_job" "snd launched_job"] by simp
  from engine_refines_board [OF demo_conditions n this] show ?thesis by (simp add: demo_strategy_def)
qed

theorem no_worker_before_its_dependencies_witness:
  "list_all (\<lambda>(i, w). list_all (\<lambda>d. d \<notin> set (ex_pending (fst launched_job))) (wp_depends (wk_packet w))) (ex_workers (fst launched_job))"
proof -
  obtain n where "engine_run demo_env n demo_start (fst launched_job, snd launched_job)" using launched_run by auto
  from no_worker_before_its_dependencies [OF demo_conditions this] show ?thesis .
qed

theorem outcome_is_final_witness:
  "set (ex_pending (signal runner_kill (fst launched_job))) \<subseteq> set (ex_pending (fst launched_job))
     \<and> (\<lambda>i. map_option re_status (map_of (ex_results (fst launched_job)) i))
         \<subseteq>\<^sub>m (\<lambda>i. map_option re_status (map_of (ex_results (signal runner_kill (fst launched_job))) i))"
proof -
  obtain n where n: "engine_run demo_env n demo_start launched_job" using launched_run ..
  have "engine_run demo_env (0 + 0) launched_job (signal runner_kill (fst launched_job), snd launched_job)"
    using engine_run.Step [OF engine_run.Stay engine_step.Killed, of demo_env "fst launched_job" "snd launched_job"] by simp
  from outcome_is_final [OF demo_conditions n this] show ?thesis by simp
qed


section \<open>Starting\<close>

definition owned_env :: "unit swarm_env" where
  "owned_env = demo_env\<lparr>se_owner := Some ''me''\<rparr>"

definition fresh_swarm :: "strategy \<Rightarrow> work_packet list \<Rightarrow> unit swarm" where
  "fresh_swarm k ps = (demo_swarm k ps)\<lparr>sm_strategies := []\<rparr>"

definition demo_options :: start_options where
  "demo_options = \<lparr>so_packets = [''1'', ''2''], so_max = Some 3\<rparr>"

definition demo_started :: "(string + strategy_run) \<times> unit service" where
  "demo_started = startStrategy owned_env 5 ''l'' ''s'' SWARM ''r'' ''a'' 1 demo_options no_hooks None None ([], fresh_swarm SWARM two_packets)"

lemma as_result: "isl x = False \<Longrightarrow> x = Inr (projr x)" "isl x \<Longrightarrow> x = Inl (projl x)"
  by (cases x; simp)+

lemma demo_started_parts: "startStrategy owned_env 5 ''l'' ''s'' SWARM ''r'' ''a'' 1 demo_options no_hooks None None ([], fresh_swarm SWARM two_packets)
    = (Inr (projr (fst demo_started)), fst (snd demo_started), snd (snd demo_started))"
proof -
  have "isl (fst demo_started) = False" by code_simp
  from as_result(1) [OF this] show ?thesis by (metis demo_started_def prod.collapse)
qed

lemma fresh_keyed: "packets_keyed (sm_db (fresh_swarm SWARM two_packets))"
  by code_simp

theorem started_strategy_valid_witness:
  "case map_of (fst (snd demo_started)) ''s'' of None \<Rightarrow> False | Some e \<Rightarrow>
     (let ids = so_packets demo_options in map wp_id (ex_packets e) = ids \<and> ids \<noteq> [] \<and> distinct ids
       \<and> list_all (runnable_packet (fresh_swarm SWARM two_packets) ''r'' ''a'' 1 ids) (ex_packets e)
       \<and> acyclic (edges (packet_graph (ex_packets e))))
     \<and> sr_maxConcurrency (ex_rec e) = concurrency_of demo_options \<and> 1 \<le> concurrency_of demo_options \<and> concurrency_of demo_options \<le> 32
     \<and> (case getActiveForRun ''a'' (sm_strategies (fresh_swarm SWARM two_packets)) of None \<Rightarrow> True | Some b \<Rightarrow> sr_status b = SS_RECOVERY_REQUIRED)
     \<and> (case se_owner owned_env of None \<Rightarrow> True | Some owner \<Rightarrow> lease_get ''r'' (sm_own (fresh_swarm SWARM two_packets)) = None
         \<and> (case lease_get ''r'' (sm_own (snd (snd demo_started))) of None \<Rightarrow> False
            | Some l \<Rightarrow> ls_state l = L_ACTIVE \<and> ls_instance l = owner \<and> ls_actor l = Some ''s'' \<and> ls_run l = Some ''a''))"
  by (rule started_strategy_valid [OF demo_started_parts fresh_keyed])

theorem started_strategy_keeps_books_witness:
  "case map_of (fst (snd demo_started)) ''s'' of None \<Rightarrow> False | Some e \<Rightarrow>
     (let e' = fst (main_run owned_env 7 (e, snd (snd demo_started))) in
       mset (ex_pending e' @ map fst (ex_workers e') @ map fst (ex_results e')) = mset [''1'', ''2''] \<and> int (length (ex_workers e')) \<le> 3)"
proof -
  have "map_of (fst (snd demo_started)) ''s'' \<noteq> None" by code_simp
  then obtain e where e: "map_of (fst (snd demo_started)) ''s'' = Some e" by blast
  let ?j = "main_run owned_env 7 (e, snd (snd demo_started))"
  obtain n where "engine_run owned_env n (e, snd (snd demo_started)) (fst ?j, snd ?j)"
    using main_run_reaches [of owned_env "(e, snd (snd demo_started))" 7] by auto
  from started_strategy_keeps_books [OF demo_started_parts fresh_keyed e this] show ?thesis
    by (simp add: e Let_def demo_options_def concurrency_of_def del: mset_append)
qed

definition full_house :: "unit swarm" where
  "full_house = (fresh_swarm SWARM two_packets)\<lparr>sm_strategies := [(demo_strategy SWARM)\<lparr>sr_id := ''old'', sr_status := SS_PAUSED\<rparr>]\<rparr>"

definition demo_refused :: "(string + strategy_run) \<times> unit service" where
  "demo_refused = startStrategy owned_env 5 ''l'' ''s'' SWARM ''r'' ''a'' 1 demo_options no_hooks None None ([], full_house)"

theorem refused_start_changes_nothing_witness:
  "let (x, jobs', s') = demo_refused in isl x \<and> jobs' = [] \<and> sm_db s' = sm_db full_house \<and> sm_strategies s' = sm_strategies full_house
     \<and> sm_hooks s' = sm_hooks full_house \<and> ow_leases (sm_own s') = ow_leases (sm_own full_house) \<and> ow_procs (sm_own s') = ow_procs (sm_own full_house)"
proof -
  have r: "isl (fst demo_refused)" by code_simp
  then have "startStrategy owned_env 5 ''l'' ''s'' SWARM ''r'' ''a'' 1 demo_options no_hooks None None ([], full_house)
      = (Inl (projl (fst demo_refused)), fst (snd demo_refused), snd (snd demo_refused))"
    by (metis as_result(2) demo_refused_def prod.collapse)
  moreover have "strategy_get ''s'' (sm_strategies full_house) = None" "hk_dag no_hooks = None" by code_simp+
  ultimately show ?thesis using refused_start_changes_nothing [of owned_env 5] r
    unfolding case_prod_beta Let_def by blast
qed

section \<open>Controls\<close>

definition paused_row :: strategy_run where
  "paused_row = (demo_strategy SWARM)\<lparr>sr_status := SS_PAUSED, sr_packets := [''1'', ''2'']\<rparr>"

definition paused_swarm :: "unit swarm" where
  "paused_swarm = (demo_swarm SWARM two_packets)\<lparr>sm_strategies := [paused_row], sm_runs := [demo_campaign\<lparr>ru_status := PAUSED\<rparr>],
     sm_db := snd (projr (recordResult 1 ''r'' (demo_packet ''1'' []) (demo_result ''1'' RS_COMPLETED) (demo_db two_packets)))\<rparr>"

definition demo_control :: "strategy_decision \<Rightarrow> (string + strategy_run) \<times> unit service" where
  "demo_control d = control demo_env 9 ''c'' ''r'' ''s'' d None ([], paused_swarm)"

lemma control_parts: "isl (fst (demo_control d)) = False \<Longrightarrow> control demo_env 9 ''c'' ''r'' ''s'' d None ([], paused_swarm)
    = (Inr (projr (fst (demo_control d))), fst (snd (demo_control d)), snd (snd (demo_control d)))"
  by (metis as_result(1) demo_control_def prod.collapse)

lemma paused_found: "strategy_get ''s'' (sm_strategies paused_swarm) = Some paused_row" "sr_status paused_row = SS_PAUSED"
  by (simp_all add: paused_swarm_def paused_row_def strategy_get_def demo_strategy_def table_simps)

theorem paused_strategy_ended_witness:
  "let (r, jobs', s') = demo_control SD_STOP; x = projr r in
     jobs' = [] \<and> outcome_of x = (fst (paused_end SD_STOP), requested_state SD_STOP, Some (snd (paused_end SD_STOP)), Some 9)
    \<and> map_option outcome_of (strategy_get ''s'' (sm_strategies s')) = Some (outcome_of x)
    \<and> list_all (\<lambda>p. result_settled (sm_db s') (wp_id p)) (packets_of (sm_db paused_swarm) paused_row)
    \<and> map_of (sm_hooks s') ''s'' = None \<and> map_of (sm_stagings s') ''s'' = None
    \<and> sm_completed s' = sm_completed paused_swarm
        @ (case map_of (sm_hooks paused_swarm) ''s'' of Some hk \<Rightarrow> if hk_completed hk then [x] else [] | None \<Rightarrow> [])"
proof -
  have "isl (fst (demo_control SD_STOP)) = False" by code_simp
  from paused_strategy_ended [OF control_parts [OF this] paused_found _ disjI1 [OF refl]]
  show ?thesis by (simp only: case_prod_beta Let_def map_of.simps)
qed

theorem resume_restarts_unfinished_witness:
  "let (r, jobs', s') = demo_control SD_RESUME in
     sr_status paused_row = SS_PAUSED \<and> map_option ru_status (run_get (sr_run paused_row) (sm_runs paused_swarm)) = Some PAUSED
    \<and> control_state_of ''s'' s' = CS_NONE
    \<and> (case map_of jobs' ''s'' of None \<Rightarrow> False | Some e \<Rightarrow> ex_pc e = PC_begin \<and> ex_workers e = []
        \<and> ex_packets e = packets_of (sm_db paused_swarm) paused_row
        \<and> list_all (\<lambda>p. (wp_id p \<in> set (ex_pending e)) = (completed_before (sm_db paused_swarm) p = None)) (ex_packets e)
        \<and> jobs' = AList.update ''s'' e [])"
proof -
  have "isl (fst (demo_control SD_RESUME)) = False" by code_simp
  from resume_restarts_unfinished [OF control_parts [OF this] paused_found(1)]
  show ?thesis by (simp only: case_prod_beta Let_def)
qed


section \<open>Recovery and graphs\<close>

definition crashed_swarm :: "strategy \<Rightarrow> unit swarm" where
  "crashed_swarm k = (demo_swarm k two_packets)\<lparr>sm_strategies := [(demo_strategy k)\<lparr>sr_status := SS_RUNNING, sr_packets := [''1'', ''2'']\<rparr>]\<rparr>"

theorem recovery_leaves_no_orphan_witness:
  "let (r, s') = recoverAll demo_env 9 (crashed_swarm SWARM) in
     filter (\<lambda>r. sr_status r \<in> {SS_QUEUED, SS_RUNNING, SS_STOPPING} \<and> recovers (sm_repos (crashed_swarm SWARM)) r) (sm_strategies s') = []
    \<and> list_all (\<lambda>r. sr_status r = SS_RECOVERY_REQUIRED) (projr r) \<and> map sr_id (sm_strategies s') = [''s'']"
proof -
  let ?y = "recoverAll demo_env 9 (crashed_swarm SWARM)"
  have "isl (fst ?y) = False" by code_simp
  then have "?y = (Inr (projr (fst ?y)), snd ?y)" by (metis as_result(1) prod.collapse)
  moreover have "unique_keys sr_id (sm_strategies (crashed_swarm SWARM))" by code_simp
  ultimately have "filter (\<lambda>r. sr_status r \<in> {SS_QUEUED, SS_RUNNING, SS_STOPPING} \<and> recovers (sm_repos (crashed_swarm SWARM)) r)
        (sm_strategies (snd ?y)) = []
      \<and> list_all (\<lambda>r. sr_status r = SS_RECOVERY_REQUIRED) (projr (fst ?y))
      \<and> map sr_id (sm_strategies (snd ?y)) = map sr_id (sm_strategies (crashed_swarm SWARM))"
    by (rule recovery_leaves_no_orphan)
  moreover have "map sr_id (sm_strategies (crashed_swarm SWARM)) = [''s'']" by code_simp
  ultimately show ?thesis by (simp only: case_prod_beta Let_def)
qed



section \<open>Controls that overreach\<close>

text \<open>
  A stop is taken for any strategy: a completed one becomes \<open>STOPPING\<close>, no loop ends it, and the next start of
  its campaign is refused because a strategy is active.
\<close>

definition finished_swarm :: "unit swarm" where
  "finished_swarm = (demo_swarm SWARM two_packets)\<lparr>sm_strategies := [(demo_strategy SWARM)\<lparr>sr_status := SS_COMPLETED\<rparr>]\<rparr>"

theorem stop_revives_finished_strategy:
  "isl (validateStart finished_swarm ''r'' ''a'' 1 demo_options) = False
   \<and> (case control demo_env 9 ''c'' ''r'' ''s'' SD_STOP None ([], finished_swarm) of (x, jobs, s) \<Rightarrow>
       jobs = [] \<and> map_option sr_status (strategy_get ''s'' (sm_strategies s)) = Some SS_STOPPING
       \<and> validateStart s ''r'' ''a'' 1 demo_options = Inl ''A strategy is already active for campaign a.'')"
  by code_simp

text \<open>
  A resume is stored before it is judged: refused because the strategy is not paused, it has cleared the kill that
  the running loop has not yet seen.
\<close>

definition killed_running :: "unit swarm" where
  "killed_running = (demo_swarm SWARM two_packets)\<lparr>sm_strategies := [(demo_strategy SWARM)\<lparr>sr_status := SS_RUNNING, sr_control := KILL_REQUESTED\<rparr>]\<rparr>"

theorem refused_resume_clears_kill:
  "case control demo_env 9 ''c'' ''r'' ''s'' SD_RESUME None ([], killed_running) of (x, _, s) \<Rightarrow>
     x = Inl ''Cannot resume strategy in status RUNNING.'' \<and> control_state_of ''s'' killed_running = KILL_REQUESTED \<and> control_state_of ''s'' s = CS_NONE"
  by code_simp

text \<open>
  Recovery does not look at the running activations. Called from its route on a live controller, it
  closes a strategy whose loop goes on, and the campaign accepts a second start beside it.
\<close>

theorem recovery_closes_live_strategy:
  "case demo_started of (_, jobs, s) \<Rightarrow> isl (validateStart s ''r'' ''a'' 1 demo_options)
   \<and> (case recoverAll owned_env 9 s of (_, s') \<Rightarrow> map fst jobs = [''s''] \<and> isl (validateStart s' ''r'' ''a'' 1 demo_options) = False
       \<and> control_state_of ''s'' s' = CS_NONE)"
  by code_simp

end
