(* ===== verification/Markers.thy ===== *)
theory Markers
  imports Git_Client Run_Stores "HOL-Library.Monad_Syntax"
begin

text \<open>
  What Sol and the executors commit for the controller to read: the dispatch and control markers and the result
  manifest of \<open>packages/shared/src\<close> (\<open>dispatch.ts\<close>, \<open>sol-control.ts\<close>, \<open>executor-result.ts\<close>), and the inspection of
  a commit by \<open>apps/controller/src/watcher/commit-inspector.ts\<close>. \<open>JSON.parse\<close> and the reading of
  ISO instants are parameters; the schemas are functions from a parsed value, \<open>None\<close> of which is a key that is
  missing. Of a schema error only the fixed message of the \<open>ValidationError\<close> is used.
\<close>

section \<open>Parsed values and schema combinators\<close>

datatype jv = V_null | V_bool bool | V_num rat | V_str string | V_arr "jv list" | V_obj "(string \<times> jv) list"

type_synonym 'a schema = "jv option \<Rightarrow> 'a option"

definition zs_string :: "nat \<Rightarrow> nat \<Rightarrow> string schema" where
  "zs_string lo hi x = (case x of Some (V_str s) \<Rightarrow> z_trimmed lo hi s | _ \<Rightarrow> None)"

definition zs_plain :: "(string \<Rightarrow> bool) \<Rightarrow> string schema" where
  "zs_plain p x = (case x of Some (V_str s) \<Rightarrow> if p s then Some s else None | _ \<Rightarrow> None)"

definition zs_int :: "int \<Rightarrow> int option \<Rightarrow> int schema" where
  "zs_int lo hi x = (case x of
       Some (V_num q) \<Rightarrow> (let n = \<lfloor>q\<rfloor> in
         if of_int n = q \<and> lo \<le> n \<and> (case hi of None \<Rightarrow> True | Some m \<Rightarrow> n \<le> m) then Some n else None)
     | _ \<Rightarrow> None)"

definition zs_literal :: "jv \<Rightarrow> unit schema" where
  "zs_literal v x = (if x = Some v then Some () else None)"

definition zs_enum :: "(string \<times> 'a) list \<Rightarrow> 'a schema" where
  "zs_enum tbl x = (case x of Some (V_str s) \<Rightarrow> map_of tbl s | _ \<Rightarrow> None)"

definition zs_datetime :: "(string \<Rightarrow> time option) \<Rightarrow> time schema" where
  "zs_datetime dt x = (case x of Some (V_str s) \<Rightarrow> dt s | _ \<Rightarrow> None)"

definition zs_optional :: "'a schema \<Rightarrow> 'a option schema" where
  "zs_optional f x = (if x = None then Some None else map_option Some (f x))"

definition zs_nullable :: "'a schema \<Rightarrow> 'a option schema" where
  "zs_nullable f x = (if x = Some V_null then Some None else map_option Some (f x))"

definition zs_array :: "nat \<Rightarrow> nat option \<Rightarrow> 'a schema \<Rightarrow> 'a list schema" where
  "zs_array lo hi f x = (case x of
       Some (V_arr vs) \<Rightarrow> if lo \<le> length vs \<and> (case hi of None \<Rightarrow> True | Some m \<Rightarrow> length vs \<le> m)
         then all_some (map (\<lambda>v. f (Some v)) vs) else None
     | _ \<Rightarrow> None)"

text \<open>An object; \<open>strict\<close> is the list of its keys when no other may occur.\<close>

definition zs_object :: "string list option \<Rightarrow> ((string \<Rightarrow> jv option) \<Rightarrow> 'a option) \<Rightarrow> 'a schema" where
  "zs_object strict f x = (case x of
       Some (V_obj fs) \<Rightarrow> if (case strict of None \<Rightarrow> True | Some ks \<Rightarrow> list_all (\<lambda>k. k \<in> set ks) (map fst fs))
         then f (map_of fs) else None
     | _ \<Rightarrow> None)"

definition zs_id :: "string schema" where
  "zs_id = zs_string 1 200"

section \<open>Marker paths\<close>

definition id_char :: "char \<Rightarrow> bool" where
  "id_char c \<longleftrightarrow> (let n = (of_char c :: nat) in
     (48 \<le> n \<and> n \<le> 57) \<or> (65 \<le> n \<and> n \<le> 90) \<or> (97 \<le> n \<and> n \<le> 122) \<or> c = CHR ''_'' \<or> c = CHR ''-'')"

text \<open>\<open>.replace(/\\/g, "/").replace(/^\//, "")\<close>.\<close>

definition normalized_path :: "string \<Rightarrow> string" where
  "normalized_path p = (case js_slashes p of c # cs \<Rightarrow> if c = CHR ''/'' then cs else c # cs | [] \<Rightarrow> [])"

text \<open>The group of \<open>/^.orca\/dir\/([a-zA-Z0-9_-]+)\.json$/\<close>; the first dot of the expression is any character.\<close>

definition marker_id :: "string \<Rightarrow> string \<Rightarrow> string option" where
  "marker_id dir p = (case normalized_path p of [] \<Rightarrow> None
     | c # cs \<Rightarrow> (let pre = ''orca/'' @ dir @ ''/''; body = drop (length pre) cs; n = length body - 5; name = take n body
         in if rx_dot c \<and> take (length pre) cs = pre \<and> drop n body = ''.json'' \<and> name \<noteq> [] \<and> list_all id_char name
            then Some name else None))"

definition extractDispatchIdFromPath :: "string \<Rightarrow> string option" where
  "extractDispatchIdFromPath p = marker_id ''dispatch'' p"

definition isDispatchFilePath :: "string \<Rightarrow> bool" where
  "isDispatchFilePath p \<longleftrightarrow> marker_id ''dispatch'' p \<noteq> None"

definition extractControlIdFromPath :: "string \<Rightarrow> string option" where
  "extractControlIdFromPath p = marker_id ''sol-control'' p"

definition isSolControlFilePath :: "string \<Rightarrow> bool" where
  "isSolControlFilePath p \<longleftrightarrow> marker_id ''sol-control'' p \<noteq> None"

definition extractResultDispatchId :: "string \<Rightarrow> string option" where
  "extractResultDispatchId p = marker_id ''results'' p"

definition isResultFilePath :: "string \<Rightarrow> bool" where
  "isResultFilePath p \<longleftrightarrow> marker_id ''results'' p \<noteq> None"

section \<open>The dispatch marker\<close>

record dispatch_marker =
  dm_run :: ident
  dm_id :: ident
  dm_iter :: int
  dm_created :: time
  dm_base :: string
  dm_change :: string
  dm_goal :: string
  dm_version :: int
  dm_strategy :: "strategy option"
  dm_plan :: "execution_plan option"

definition strategies :: "(string \<times> strategy) list" where
  "strategies = [(''SINGLE_AGENT'', SINGLE_AGENT), (''SWARM'', SWARM), (''DAG'', DAG)]"

definition dagNodeSchema :: "dag_node_def schema" where
  "dagNodeSchema = zs_object None (\<lambda>g. do {
     n \<leftarrow> zs_id (g ''nodeId'');
     p \<leftarrow> zs_id (g ''packetId'');
     ds \<leftarrow> zs_array 0 (Some 100) zs_id (g ''dependsOn'');
     Some \<lparr>dn_node = n, dn_packet = p, dn_depends = ds\<rparr> })"

definition executionPlanSchema :: "execution_plan schema" where
  "executionPlanSchema = zs_object (Some [''packetIds'', ''dagNodes'', ''maxConcurrency'']) (\<lambda>g. do {
     ps \<leftarrow> zs_optional (zs_array 1 (Some 100) zs_id) (g ''packetIds'');
     ns \<leftarrow> zs_optional (zs_array 1 (Some 100) dagNodeSchema) (g ''dagNodes'');
     m \<leftarrow> zs_optional (zs_int 1 (Some 32)) (g ''maxConcurrency'');
     Some \<lparr>pn_packetIds = ps, pn_dagNodes = ns, pn_maxConcurrency = m\<rparr> })"

definition dispatch_keys :: "string list" where
  "dispatch_keys = [''schemaVersion'', ''type'', ''runId'', ''dispatchId'', ''iteration'', ''createdAt'', ''baseSha'', ''changePath'',
     ''goal'', ''instructionsVersion'', ''strategy'', ''executionPlan'']"

definition dispatchMarkerSchema :: "(string \<Rightarrow> time option) \<Rightarrow> dispatch_marker schema" where
  "dispatchMarkerSchema dt = zs_object (Some dispatch_keys) (\<lambda>g. do {
     zs_literal (V_num 1) (g ''schemaVersion'');
     zs_literal (V_str ''dispatch'') (g ''type'');
     run \<leftarrow> zs_id (g ''runId'');
     i \<leftarrow> zs_id (g ''dispatchId'');
     iter \<leftarrow> zs_int 1 None (g ''iteration'');
     created \<leftarrow> zs_datetime dt (g ''createdAt'');
     base \<leftarrow> zs_plain isSha40 (g ''baseSha'');
     change \<leftarrow> zs_string 1 500 (g ''changePath'');
     _ \<leftarrow> (if isSafeRelativePath change then Some () else None);
     goal \<leftarrow> zs_string 1 1000 (g ''goal'');
     version \<leftarrow> zs_int 1 None (g ''instructionsVersion'');
     k \<leftarrow> zs_optional (zs_enum strategies) (g ''strategy'');
     plan \<leftarrow> zs_optional executionPlanSchema (g ''executionPlan'');
     Some \<lparr>dm_run = run, dm_id = i, dm_iter = iter, dm_created = created, dm_base = base, dm_change = change,
       dm_goal = goal, dm_version = version, dm_strategy = k, dm_plan = plan\<rparr> })"

definition validateDispatchMarker :: "(string \<Rightarrow> time option) \<Rightarrow> jv \<Rightarrow> string + dispatch_marker" where
  "validateDispatchMarker dt v = (case dispatchMarkerSchema dt (Some v) of
       None \<Rightarrow> Inl ''Dispatch marker is invalid.'' | Some m \<Rightarrow> Inr m)"

section \<open>The control marker\<close>

record control_marker =
  cm_run :: ident
  cm_id :: ident
  cm_iter :: int
  cm_created :: time
  cm_decision :: control_decision
  cm_dispatch :: "ident option"
  cm_summary :: string

definition decisions :: "(string \<times> control_decision) list" where
  "decisions = [(''GOAL_COMPLETE'', CD_GOAL_COMPLETE), (''BLOCKED'', CD_BLOCKED), (''NEEDS_HUMAN'', CD_NEEDS_HUMAN), (''PAUSED'', CD_PAUSED)]"

definition control_keys :: "string list" where
  "control_keys = [''schemaVersion'', ''type'', ''runId'', ''controlId'', ''iteration'', ''createdAt'', ''decision'', ''relatedDispatchId'', ''summary'']"

definition solControlMarkerSchema :: "(string \<Rightarrow> time option) \<Rightarrow> control_marker schema" where
  "solControlMarkerSchema dt = zs_object (Some control_keys) (\<lambda>g. do {
     zs_literal (V_num 1) (g ''schemaVersion'');
     zs_literal (V_str ''sol-control'') (g ''type'');
     run \<leftarrow> zs_id (g ''runId'');
     i \<leftarrow> zs_id (g ''controlId'');
     iter \<leftarrow> zs_int 0 None (g ''iteration'');
     created \<leftarrow> zs_datetime dt (g ''createdAt'');
     d \<leftarrow> zs_enum decisions (g ''decision'');
     r \<leftarrow> zs_optional (zs_nullable zs_id) (g ''relatedDispatchId'');
     summary \<leftarrow> zs_string 1 4000 (g ''summary'');
     Some \<lparr>cm_run = run, cm_id = i, cm_iter = iter, cm_created = created, cm_decision = d,
       cm_dispatch = (case r of None \<Rightarrow> None | Some x \<Rightarrow> x), cm_summary = summary\<rparr> })"

definition validateSolControlMarker :: "(string \<Rightarrow> time option) \<Rightarrow> jv \<Rightarrow> string + control_marker" where
  "validateSolControlMarker dt v = (case solControlMarkerSchema dt (Some v) of
       None \<Rightarrow> Inl ''Sol control marker is invalid.'' | Some m \<Rightarrow> Inr m)"

end
