(* ===== verification/Commit_Inspector.thy ===== *)
theory Commit_Inspector
  imports Markers
begin

text \<open>
  \<open>CommitInspector\<close> of \<open>apps/controller/src/watcher/commit-inspector.ts\<close>: what the watcher takes a commit for, and
  what it has checked before it takes one for a dispatch or a control.
\<close>

record marker_env =
  me_parse :: "string \<Rightarrow> string + jv"
  me_datetime :: "string \<Rightarrow> time option"

datatype inspection =
    VALID_DISPATCH string ident dispatch_marker
  | REJECTED_DISPATCH string "ident option" string
  | SOL_CONTROL string ident control_marker
  | REJECTED_SOL_CONTROL string "ident option" string
  | NO_DISPATCH string

definition dispatch_changes :: "file_change list \<Rightarrow> file_change list" where
  "dispatch_changes changes = filter (\<lambda>c. isDispatchFilePath (fc_path c)) changes"

definition control_changes :: "file_change list \<Rightarrow> file_change list" where
  "control_changes changes = filter (\<lambda>c. isSolControlFilePath (fc_path c)) changes"

definition other_changes :: "file_change list \<Rightarrow> file_change list" where
  "other_changes changes = filter (\<lambda>c. \<not> isDispatchFilePath (fc_path c) \<and> \<not> isSolControlFilePath (fc_path c)) changes"

definition paths_of :: "file_change list \<Rightarrow> string" where
  "paths_of cs = join_with '', '' (map fc_path cs)"

text \<open>\<open>'${x}'\<close> of an identifier that may be null.\<close>

definition quoted :: "ident option \<Rightarrow> string" where
  "quoted i = CHR 0x27 # (case i of None \<Rightarrow> ''null'' | Some x \<Rightarrow> x) @ [CHR 0x27]"

section \<open>Reading the one marker\<close>

type_synonym 'w reader = "string \<Rightarrow> 'w \<Rightarrow> (string + string) \<times> 'w"

definition read_control :: "marker_env \<Rightarrow> 'w reader \<Rightarrow> string \<Rightarrow> string \<Rightarrow> 'w \<Rightarrow> inspection \<times> 'w" where
  "read_control en get sha path w =
     (let cid = extractControlIdFromPath path;
          bad = (\<lambda>m. REJECTED_SOL_CONTROL sha cid (''Sol-control schema validation failed: '' @ m))
      in case get path w of (Inl m, w1) \<Rightarrow> (bad m, w1)
       | (Inr content, w1) \<Rightarrow> (case me_parse en content of
           Inl m \<Rightarrow> REJECTED_SOL_CONTROL sha cid (''Malformed JSON in sol-control file '' @ path @ '': '' @ m)
         | Inr v \<Rightarrow> (case validateSolControlMarker (me_datetime en) v of
             Inl m \<Rightarrow> bad m
           | Inr c \<Rightarrow> if Some (cm_id c) \<noteq> cid
               then REJECTED_SOL_CONTROL sha cid (''Control ID mismatch: filename ID '' @ quoted cid
                 @ '' does not match payload controlId '' @ quoted (Some (cm_id c)))
               else SOL_CONTROL sha (cm_id c) c), w1))"

definition read_dispatch :: "marker_env \<Rightarrow> 'w reader \<Rightarrow> string \<Rightarrow> string \<Rightarrow> 'w \<Rightarrow> inspection \<times> 'w" where
  "read_dispatch en get sha path w =
     (let i = extractDispatchIdFromPath path;
          bad = (\<lambda>m. REJECTED_DISPATCH sha i (''Dispatch schema validation failed: '' @ m))
      in case get path w of (Inl m, w1) \<Rightarrow> (bad m, w1)
       | (Inr content, w1) \<Rightarrow> (case me_parse en content of
           Inl m \<Rightarrow> REJECTED_DISPATCH sha i (''Malformed JSON in dispatch file '' @ path @ '': '' @ m)
         | Inr v \<Rightarrow> (case validateDispatchMarker (me_datetime en) v of
             Inl m \<Rightarrow> bad m
           | Inr d \<Rightarrow> if Some (dm_id d) \<noteq> i
               then REJECTED_DISPATCH sha i (''Dispatch ID mismatch: Filename ID '' @ quoted i
                 @ '' does not match JSON payload dispatchId '' @ quoted (Some (dm_id d)))
               else VALID_DISPATCH sha (dm_id d) d), w1))"

section \<open>Judging the changes\<close>

definition evaluate_control :: "marker_env \<Rightarrow> 'w reader \<Rightarrow> string \<Rightarrow> file_change list \<Rightarrow> file_change list \<Rightarrow> 'w \<Rightarrow> inspection \<times> 'w" where
  "evaluate_control en get sha controls others w =
     (let single = hd controls; reject = REJECTED_SOL_CONTROL sha (extractControlIdFromPath (fc_path single)) in
      if 1 < length controls
      then (reject (''Multiple sol-control files in single commit rejected: '' @ paths_of controls), w)
      else if fc_status single \<noteq> ''A''
      then (reject (''Sol-control immutability violation: file must be added, not modified/deleted (status='' @ fc_status single
              @ '', path='' @ fc_path single @ '')''), w)
      else if others \<noteq> []
      then (reject (''Mixed sol-control commit rejected: sol-control marker must be isolated, but also modified: '' @ paths_of others), w)
      else read_control en get sha (fc_path single) w)"

definition evaluate_dispatch :: "marker_env \<Rightarrow> 'w reader \<Rightarrow> string \<Rightarrow> file_change list \<Rightarrow> file_change list \<Rightarrow> 'w \<Rightarrow> inspection \<times> 'w" where
  "evaluate_dispatch en get sha dispatches others w =
     (let single = hd dispatches; i = extractDispatchIdFromPath (fc_path single) in
      if others \<noteq> []
      then (REJECTED_DISPATCH sha i (''Mixed commit rejected: Dispatch commit must only introduce a dispatch marker, but also modified: ''
              @ paths_of others), w)
      else if 1 < length dispatches
      then (REJECTED_DISPATCH sha None (''Multiple dispatch files in single commit rejected: Found '' @ paths_of dispatches), w)
      else if fc_status single \<noteq> ''A''
      then (REJECTED_DISPATCH sha i (''Dispatch immutability violation: Dispatch files cannot be modified or deleted (status=''
              @ fc_status single @ '', path='' @ fc_path single @ '')''), w)
      else read_dispatch en get sha (fc_path single) w)"

definition evaluateChanges :: "marker_env \<Rightarrow> 'w reader \<Rightarrow> string \<Rightarrow> file_change list \<Rightarrow> 'w \<Rightarrow> inspection \<times> 'w" where
  "evaluateChanges en get sha changes w =
     (if control_changes changes \<noteq> [] then evaluate_control en get sha (control_changes changes) (other_changes changes) w
      else if dispatch_changes changes = [] then (NO_DISPATCH sha, w)
      else evaluate_dispatch en get sha (dispatch_changes changes) (other_changes changes) w)"

definition inspectCommit :: "marker_env \<Rightarrow> 'w host \<Rightarrow> git_ctx \<Rightarrow> string \<Rightarrow> 'w \<Rightarrow> (string + inspection) \<times> 'w" where
  "inspectCommit en h c sha w = (case getCommitChanges h c sha w of
       (Inl m, w1) \<Rightarrow> (Inl m, w1)
     | (Inr changes, w1) \<Rightarrow> map_prod Inr id (evaluateChanges en (getFileContentAtCommit h c sha) sha changes w1))"

section \<open>What an accepted marker is\<close>

definition opt_all :: "('a \<Rightarrow> bool) \<Rightarrow> 'a option \<Rightarrow> bool" where
  "opt_all p x = (case x of None \<Rightarrow> True | Some v \<Rightarrow> p v)"

lemma opt_all_simps [simp]: "opt_all p None" "opt_all p (Some v) = p v"
  by (simp_all add: opt_all_def)

definition trimmed_between :: "nat \<Rightarrow> nat \<Rightarrow> string \<Rightarrow> bool" where
  "trimmed_between lo hi s \<longleftrightarrow> js_trim s = s \<and> lo \<le> length s \<and> length s \<le> hi"

abbreviation good_id :: "string \<Rightarrow> bool" where
  "good_id \<equiv> trimmed_between 1 200"

definition good_node :: "dag_node_def \<Rightarrow> bool" where
  "good_node n \<longleftrightarrow> good_id (dn_node n) \<and> good_id (dn_packet n) \<and> length (dn_depends n) \<le> 100 \<and> list_all good_id (dn_depends n)"

definition good_plan :: "execution_plan \<Rightarrow> bool" where
  "good_plan p \<longleftrightarrow> opt_all (\<lambda>l. 1 \<le> length l \<and> length l \<le> 100 \<and> list_all good_id l) (pn_packetIds p)
     \<and> opt_all (\<lambda>l. 1 \<le> length l \<and> length l \<le> 100 \<and> list_all good_node l) (pn_dagNodes p)
     \<and> opt_all (\<lambda>m. 1 \<le> m \<and> m \<le> 32) (pn_maxConcurrency p)"

definition good_dispatch :: "dispatch_marker \<Rightarrow> bool" where
  "good_dispatch d \<longleftrightarrow> good_id (dm_run d) \<and> good_id (dm_id d) \<and> 1 \<le> dm_iter d \<and> isSha40 (dm_base d)
     \<and> trimmed_between 1 500 (dm_change d) \<and> isSafeRelativePath (dm_change d) \<and> trimmed_between 1 1000 (dm_goal d)
     \<and> 1 \<le> dm_version d \<and> opt_all good_plan (dm_plan d)"

definition good_control :: "control_marker \<Rightarrow> bool" where
  "good_control c \<longleftrightarrow> good_id (cm_run c) \<and> good_id (cm_id c) \<and> 0 \<le> cm_iter c \<and> opt_all good_id (cm_dispatch c)
     \<and> trimmed_between 1 4000 (cm_summary c)"

end
