(* ===== verification/Watcher.thy ===== *)
theory Watcher
  imports Commit_Inspector Loop_State
begin

text \<open>
  \<open>WatcherService\<close> of \<open>apps/controller/src/watcher/watcher-service.ts\<close>: the polling of a repository's remote, the walk
  over its new commits and what is stored for each. The callbacks into the loop are parameters, as is what other
  handlers do to its state while git is awaited; an exception of a callback is caught, so only its effect counts.
  Events that are only published are left out.
\<close>

record 'w watch_env =
  ve_host :: "'w host"
  ve_markers :: marker_env
  ve_onDispatch :: "ident \<Rightarrow> ident \<Rightarrow> lstate \<Rightarrow> lstate"
  ve_onControl :: "ident \<Rightarrow> control_marker \<Rightarrow> lstate \<Rightarrow> lstate"
  ve_meanwhile :: "lstate \<Rightarrow> lstate"
  ve_sqlMessage :: string

record 'w watcher =
  wa_loop :: lstate
  wa_repos :: "repository list"
  wa_states :: "watcher_state list"
  wa_timers :: "ident list"
  wa_polls :: "ident list"
  wa_running :: bool
  wa_world :: 'w

abbreviation dispatches :: "lstate \<Rightarrow> dispatch list" where
  "dispatches l \<equiv> ap_dispatches (ts_app l)"

abbreviation controls :: "lstate \<Rightarrow> sol_control list" where
  "controls l \<equiv> ap_controls (ts_app l)"

definition on_loop :: "(lstate \<Rightarrow> lstate) \<Rightarrow> 'w watcher \<Rightarrow> 'w watcher" where
  "on_loop f s = s\<lparr>wa_loop := f (wa_loop s)\<rparr>"

text \<open>An awaited call of git.\<close>

definition on_host :: "'w watch_env \<Rightarrow> ('w \<Rightarrow> 'a \<times> 'w) \<Rightarrow> 'w watcher \<Rightarrow> 'a \<times> 'w watcher" where
  "on_host en f s = (case f (wa_world s) of (x, w) \<Rightarrow> (x, on_loop (ve_meanwhile en) (s\<lparr>wa_world := w\<rparr>)))"

section \<open>Timers\<close>

definition startWatchingRepo :: "ident \<Rightarrow> 'w watcher \<Rightarrow> 'w watcher" where
  "startWatchingRepo i s = (if i \<in> set (wa_timers s) then s else s\<lparr>wa_timers := wa_timers s @ [i]\<rparr>)"

definition stopWatchingRepo :: "ident \<Rightarrow> 'w watcher \<Rightarrow> 'w watcher" where
  "stopWatchingRepo i s = s\<lparr>wa_timers := removeAll i (wa_timers s)\<rparr>"

definition watcher_start :: "'w watcher \<Rightarrow> 'w watcher" where
  "watcher_start s = (if wa_running s then s
     else fold (\<lambda>r. if ry_enabled r then startWatchingRepo (ry_id r) else id) (wa_repos s) (s\<lparr>wa_running := True\<rparr>))"

definition watcher_stop :: "'w watcher \<Rightarrow> 'w watcher" where
  "watcher_stop s = s\<lparr>wa_running := False, wa_timers := [], wa_polls := []\<rparr>"

definition reconcileWatchingForRepository :: "ident \<Rightarrow> 'w watcher \<Rightarrow> 'w watcher" where
  "reconcileWatchingForRepository i s = (case tbl_get ry_id i (wa_repos s) of None \<Rightarrow> stopWatchingRepo i s
     | Some r \<Rightarrow> if ry_enabled r then startWatchingRepo i s else stopWatchingRepo i s)"

section \<open>What is stored for a commit\<close>

definition detected_dispatch :: "time \<Rightarrow> ident \<Rightarrow> string \<Rightarrow> ident \<Rightarrow> dispatch_marker \<Rightarrow> dispatch" where
  "detected_dispatch now repo sha i d = \<lparr>di_id = i, di_repo = repo, di_run = dm_run d, di_iter = dm_iter d, di_commit = sha,
     di_base = dm_base d, di_change = dm_change d, di_goal = dm_goal d, di_version = dm_version d, di_status = DI_detected,
     di_reason = None, di_strategy = dm_strategy d, di_plan = map_option Json (dm_plan d), di_created = dm_created d, di_updated = now\<rparr>"

definition rejected_dispatch :: "time \<Rightarrow> ident \<Rightarrow> string \<Rightarrow> ident \<Rightarrow> string \<Rightarrow> dispatch" where
  "rejected_dispatch now repo sha i reason = \<lparr>di_id = i, di_repo = repo, di_run = ''unknown'', di_iter = 0, di_commit = sha,
     di_base = sha, di_change = [], di_goal = [], di_version = 1, di_status = DI_rejected,
     di_reason = Some reason, di_strategy = None, di_plan = None, di_created = now, di_updated = now\<rparr>"

definition detected_control :: "time \<Rightarrow> ident \<Rightarrow> string \<Rightarrow> ident \<Rightarrow> control_marker \<Rightarrow> sol_control" where
  "detected_control now repo sha i c = \<lparr>sc_id = i, sc_repo = repo, sc_run = cm_run c, sc_controlId = i, sc_decision = cm_decision c,
     sc_iter = cm_iter c, sc_commit = sha, sc_dispatch = cm_dispatch c, sc_status = SC_detected, sc_reason = None,
     sc_created = now, sc_updated = now\<rparr>"

definition rejected_control :: "time \<Rightarrow> ident \<Rightarrow> string \<Rightarrow> ident \<Rightarrow> string \<Rightarrow> sol_control" where
  "rejected_control now repo sha i reason = \<lparr>sc_id = i, sc_repo = repo, sc_run = ''unknown'', sc_controlId = i, sc_decision = CD_BLOCKED,
     sc_iter = 0, sc_commit = sha, sc_dispatch = None, sc_status = SC_rejected, sc_reason = Some reason,
     sc_created = now, sc_updated = now\<rparr>"

definition rejection_id :: "string \<Rightarrow> time \<Rightarrow> string \<Rightarrow> ident option \<Rightarrow> ident" where
  "rejection_id pre now sha i = (if truthy i then the i else pre @ take 8 sha @ ''-'' @ js_int now)"

definition add_dispatch :: "'w watch_env \<Rightarrow> dispatch \<Rightarrow> 'w watcher \<Rightarrow> string option \<times> 'w watcher" where
  "add_dispatch en d s = (case dispatch_create d (dispatches (wa_loop s)) of None \<Rightarrow> (Some (ve_sqlMessage en), s)
     | Some t \<Rightarrow> (None, on_loop (upd_app (\<lambda>a. a\<lparr>ap_dispatches := t\<rparr>)) s))"

definition add_control :: "'w watch_env \<Rightarrow> sol_control \<Rightarrow> 'w watcher \<Rightarrow> string option \<times> 'w watcher" where
  "add_control en c s = (case control_create c (controls (wa_loop s)) of None \<Rightarrow> (Some (ve_sqlMessage en), s)
     | Some t \<Rightarrow> (None, on_loop (upd_app (\<lambda>a. a\<lparr>ap_controls := t\<rparr>)) s))"

text \<open>The message of what is thrown, if anything, and the state.\<close>

definition handleInspection :: "'w watch_env \<Rightarrow> time \<Rightarrow> ident \<Rightarrow> string \<Rightarrow> inspection \<Rightarrow> 'w watcher \<Rightarrow> string option \<times> 'w watcher" where
  "handleInspection en now repo sha x s = (case x of
       VALID_DISPATCH _ i d \<Rightarrow>
         if hasDispatch i (dispatches (wa_loop s)) then (None, s)
         else (case add_dispatch en (detected_dispatch now repo sha i d) s of
             (Some m, s1) \<Rightarrow> (Some m, s1)
           | (None, s1) \<Rightarrow> (None, on_loop (ve_onDispatch en repo i) s1))
     | REJECTED_DISPATCH _ i reason \<Rightarrow>
         (let j = rejection_id ''rejected-'' now sha i in
          if hasDispatch j (dispatches (wa_loop s)) then (None, s)
          else add_dispatch en (rejected_dispatch now repo sha j reason) s)
     | SOL_CONTROL _ i c \<Rightarrow>
         if hasControl i (controls (wa_loop s)) then (None, s)
         else (case add_control en (detected_control now repo sha i c) s of
             (Some m, s1) \<Rightarrow> (Some m, s1)
           | (None, s1) \<Rightarrow> (None, on_loop (ve_onControl en repo c) s1))
     | REJECTED_SOL_CONTROL _ i reason \<Rightarrow>
         (let j = rejection_id ''rejected-control-'' now sha i in
          if hasControl j (controls (wa_loop s)) then (None, s)
          else add_control en (rejected_control now repo sha j reason) s)
     | NO_DISPATCH _ \<Rightarrow> (None, s))"

section \<open>The poll\<close>

text \<open>The commits in order, up to the first that cannot be inspected; \<open>adv\<close> is the last one handled.\<close>

fun walk :: "'w watch_env \<Rightarrow> time \<Rightarrow> ident \<Rightarrow> git_ctx \<Rightarrow> string option \<Rightarrow> string list \<Rightarrow> 'w watcher
    \<Rightarrow> string option \<times> string option \<times> 'w watcher" where
  "walk en now repo c adv [] s = (None, adv, s)"
| "walk en now repo c adv (sha # shas) s = (case on_host en (inspectCommit (ve_markers en) (ve_host en) c sha) s of
       (Inl m, s1) \<Rightarrow> (Some m, adv, s1)
     | (Inr x, s1) \<Rightarrow> (case handleInspection en now repo sha x s1 of
         (Some m, s2) \<Rightarrow> (Some m, adv, s2)
       | (None, s2) \<Rightarrow> walk en now repo c (Some sha) shas s2))"

text \<open>\<open>upsertWatcherState\<close> at the end of a poll; \<open>sha\<close> is None when the observed commit is not part of it.\<close>

definition note_poll :: "time \<Rightarrow> ident \<Rightarrow> string option option \<Rightarrow> string option \<Rightarrow> 'w watcher \<Rightarrow> 'w watcher" where
  "note_poll now repo sha err s =
     s\<lparr>wa_states := snd (upsertWatcherState repo sha (Some (Some now)) (Some err) now (wa_states s))\<rparr>"

definition buildGitContext :: "repository \<Rightarrow> git_ctx" where
  "buildGitContext r = gitContext r (ry_localPath r)"

definition remote_url :: "repository \<Rightarrow> string" where
  "remote_url r = (if ry_env r = ENV_wsl then toWslPath (ry_remote r) else ry_remote r)"

definition observed :: "ident \<Rightarrow> 'w watcher \<Rightarrow> string option" where
  "observed repo s = Option.bind (getWatcherState repo (wa_states s)) ws_sha"

definition inspect_new :: "'w watch_env \<Rightarrow> time \<Rightarrow> ident \<Rightarrow> git_ctx \<Rightarrow> string option \<Rightarrow> string \<Rightarrow> string list \<Rightarrow> 'w watcher \<Rightarrow> 'w watcher" where
  "inspect_new en now repo c seen head shas s = (case walk en now repo c seen shas s of
       (None, _, s1) \<Rightarrow> note_poll now repo (Some (Some head)) None s1
     | (Some m, adv, s1) \<Rightarrow> note_poll now repo (Some adv) (Some (''Commit inspection error for ''
         @ (case adv of None \<Rightarrow> ''initial'' | Some a \<Rightarrow> a) @ ''..'' @ head @ '': '' @ m)) s1)"

definition poll_moved :: "'w watch_env \<Rightarrow> time \<Rightarrow> ident \<Rightarrow> git_ctx \<Rightarrow> string option \<Rightarrow> string \<Rightarrow> 'w watcher \<Rightarrow> 'w watcher" where
  "poll_moved en now repo c seen head s = (case on_host en (git_fetch (ve_host en) c ''origin'' ''main'') s of
       (Some m, s1) \<Rightarrow> note_poll now repo None (Some (''Fetch failed: '' @ m)) s1
     | (None, s1) \<Rightarrow> (case seen of
         None \<Rightarrow> inspect_new en now repo c seen head [head] s1
       | Some from_sha \<Rightarrow> (case on_host en (getRevList (ve_host en) c from_sha head) s1 of
           (Inl m, s2) \<Rightarrow> note_poll now repo None (Some (''rev-list failed: '' @ m)) s2
         | (Inr shas, s2) \<Rightarrow> if shas = [] then note_poll now repo (Some (Some head)) None s2
             else inspect_new en now repo c seen head shas s2)))"

definition executePollCycle :: "'w watch_env \<Rightarrow> time \<Rightarrow> repository \<Rightarrow> 'w watcher \<Rightarrow> 'w watcher" where
  "executePollCycle en now r s = (let repo = ry_id r; seen = observed repo s; c = buildGitContext r in
     case on_host en (getRemoteHeadSha (ve_host en) (remote_url r) ''main'' (Some c)) s of
       (Inl m, s1) \<Rightarrow> note_poll now repo None (Some (if m = [] then ''Failed to query remote HEAD'' else m)) s1
     | (Inr head, s1) \<Rightarrow>
         if \<not> truthy head then note_poll now repo None (Some (''Remote branch '' @ [CHR 0x27] @ ''main'' @ [CHR 0x27] @ '' not found'')) s1
         else if head = seen then note_poll now repo None None s1
         else poll_moved en now repo c seen (the head) s1)"

definition pollRepository :: "'w watch_env \<Rightarrow> time \<Rightarrow> ident \<Rightarrow> 'w watcher \<Rightarrow> 'w watcher" where
  "pollRepository en now repo s = (if repo \<in> set (wa_polls s) then s
     else (let s1 = s\<lparr>wa_polls := repo # wa_polls s\<rparr>;
          s2 = (case tbl_get ry_id repo (wa_repos s) of None \<Rightarrow> stopWatchingRepo repo s1
            | Some r \<Rightarrow> executePollCycle en now r s1)
        in s2\<lparr>wa_polls := removeAll repo (wa_polls s2)\<rparr>))"

record watcher_status =
  wz_watching :: bool
  wz_sha :: "string option"
  wz_polled :: "time option"
  wz_error :: "string option"
  wz_dispatch :: "ident option"

definition getWatcherStatus :: "ident \<Rightarrow> 'w watcher \<Rightarrow> watcher_status" where
  "getWatcherStatus repo s = (let st = getWatcherState repo (wa_states s) in
     \<lparr>wz_watching = (repo \<in> set (wa_timers s)), wz_sha = Option.bind st ws_sha, wz_polled = Option.bind st ws_polled,
      wz_error = Option.bind st ws_error,
      wz_dispatch = map_option di_id (find (\<lambda>d. di_status d = DI_detected) (dispatch_getByRepository repo (dispatches (wa_loop s))))\<rparr>)"

end
