(* ===== verification/Marker_Laws.thy ===== *)
theory Marker_Laws
  imports Commit_Inspector
begin

text \<open>What the schemas of the markers accept, and what a commit is that is taken for a dispatch or a control.\<close>

section \<open>Schemas\<close>

named_theorems schema_rules

lemma zs_string_good [schema_rules]: "zs_string lo hi x = Some s \<Longrightarrow> trimmed_between lo hi s"
  by (auto simp: zs_string_def z_trimmed_def trimmed_between_def Let_def js_trim_idem split: option.splits jv.splits if_splits)

lemma zs_id_good [schema_rules]: "zs_id x = Some s \<Longrightarrow> good_id s"
  unfolding zs_id_def by (rule zs_string_good)

lemma zs_string_of [simp]: "trimmed_between lo hi s \<Longrightarrow> zs_string lo hi (Some (V_str s)) = Some s"
  by (simp add: zs_string_def z_trimmed_def trimmed_between_def)

lemma zs_id_of [simp]: "good_id s \<Longrightarrow> zs_id (Some (V_str s)) = Some s"
  by (simp add: zs_id_def)

lemma zs_plain_good [schema_rules]: "zs_plain p x = Some s \<Longrightarrow> p s"
  by (auto simp: zs_plain_def split: option.splits jv.splits if_splits)

lemma zs_int_good: "zs_int lo hi x = Some n \<Longrightarrow> lo \<le> n \<and> (case hi of None \<Rightarrow> True | Some m \<Rightarrow> n \<le> m)"
  by (auto simp: zs_int_def Let_def split: option.splits jv.splits if_splits)

lemma zs_int_of [simp]: "zs_int lo hi (Some (V_num (of_int n))) = (if lo \<le> n \<and> (case hi of None \<Rightarrow> True | Some m \<Rightarrow> n \<le> m) then Some n else None)"
  by (simp add: zs_int_def Let_def)

lemma zs_optional_good: "zs_optional f x = Some y \<Longrightarrow> (\<And>v z. f v = Some z \<Longrightarrow> P z) \<Longrightarrow> opt_all P y"
  by (auto simp: zs_optional_def split: if_splits)

lemma zs_optional_missing [simp]: "zs_optional f None = Some None"
  by (simp add: zs_optional_def)

lemma zs_nullable_good: "zs_nullable f x = Some y \<Longrightarrow> (\<And>v z. f v = Some z \<Longrightarrow> P z) \<Longrightarrow> opt_all P y"
  by (auto simp: zs_nullable_def split: if_splits)

lemma zs_array_good:
  assumes "zs_array lo hi f x = Some ys" and "\<And>v y. f v = Some y \<Longrightarrow> P y"
  shows "lo \<le> length ys \<and> (case hi of None \<Rightarrow> True | Some m \<Rightarrow> length ys \<le> m) \<and> list_all P ys"
proof -
  obtain vs where x: "x = Some (V_arr vs)" using assms(1) by (auto simp: zs_array_def split: option.splits jv.splits)
  then have b: "lo \<le> length vs" "case hi of None \<Rightarrow> True | Some m \<Rightarrow> length vs \<le> m" and m: "map (\<lambda>v. f (Some v)) vs = map Some ys"
    using assms(1) by (auto simp: zs_array_def all_some_Some split: if_splits)
  have l: "length vs = length ys" using m by (metis length_map)
  moreover have "P (ys ! n)" if "n < length ys" for n
    using assms(2) m that l by (metis nth_map)
  ultimately show ?thesis using b by (simp add: list_all_length split: option.splits)
qed

lemma zs_array_of:
  assumes "list_all (\<lambda>y. f (Some (g y)) = Some y) ys" and "lo \<le> length ys" and "case hi of None \<Rightarrow> True | Some m \<Rightarrow> length ys \<le> m"
  shows "zs_array lo hi f (Some (V_arr (map g ys))) = Some ys"
  using assms by (simp add: zs_array_def all_some_Some list_all_iff split: option.splits)

lemma zs_object_some: "zs_object strict f x = Some y \<Longrightarrow> \<exists>g. f g = Some y"
  by (auto simp: zs_object_def split: option.splits jv.splits if_splits)

lemma dagNode_good: "dagNodeSchema x = Some n \<Longrightarrow> good_node n"
proof -
  assume "dagNodeSchema x = Some n"
  then obtain g where g: "zs_id (g ''nodeId'') = Some (dn_node n)" "zs_id (g ''packetId'') = Some (dn_packet n)"
      "zs_array 0 (Some 100) zs_id (g ''dependsOn'') = Some (dn_depends n)"
    by (auto simp: dagNodeSchema_def bind_eq_Some_conv dest!: zs_object_some)
  show ?thesis using zs_id_good [OF g(1)] zs_id_good [OF g(2)] zs_array_good [OF g(3), of good_id] zs_id_good
    by (simp add: good_node_def)
qed

lemma plan_good: "executionPlanSchema x = Some p \<Longrightarrow> good_plan p"
proof -
  assume "executionPlanSchema x = Some p"
  then obtain g ps ns m where f: "zs_optional (zs_array 1 (Some 100) zs_id) (g ''packetIds'') = Some ps"
      "zs_optional (zs_array 1 (Some 100) dagNodeSchema) (g ''dagNodes'') = Some ns"
      "zs_optional (zs_int 1 (Some 32)) (g ''maxConcurrency'') = Some m"
    and p: "p = \<lparr>pn_packetIds = ps, pn_dagNodes = ns, pn_maxConcurrency = m\<rparr>"
    by (auto simp: executionPlanSchema_def bind_eq_Some_conv dest!: zs_object_some)
  have "opt_all (\<lambda>l. 1 \<le> length l \<and> length l \<le> 100 \<and> list_all good_id l) ps"
    by (rule zs_optional_good [OF f(1)]) (use zs_array_good [where P = good_id, OF _ zs_id_good] in fastforce)
  moreover have "opt_all (\<lambda>l. 1 \<le> length l \<and> length l \<le> 100 \<and> list_all good_node l) ns"
    by (rule zs_optional_good [OF f(2)]) (use zs_array_good [where P = good_node, OF _ dagNode_good] in fastforce)
  moreover have "opt_all (\<lambda>k. 1 \<le> k \<and> k \<le> 32) m"
    by (rule zs_optional_good [OF f(3)]) (use zs_int_good in fastforce)
  ultimately show ?thesis by (simp add: good_plan_def p)
qed

lemma dispatch_good: "dispatchMarkerSchema dt x = Some d \<Longrightarrow> good_dispatch d"
proof -
  assume "dispatchMarkerSchema dt x = Some d"
  then obtain g where g: "zs_id (g ''runId'') = Some (dm_run d)" "zs_id (g ''dispatchId'') = Some (dm_id d)"
      "zs_int 1 None (g ''iteration'') = Some (dm_iter d)" "zs_plain isSha40 (g ''baseSha'') = Some (dm_base d)"
      "zs_string 1 500 (g ''changePath'') = Some (dm_change d)" "isSafeRelativePath (dm_change d)"
      "zs_string 1 1000 (g ''goal'') = Some (dm_goal d)" "zs_int 1 None (g ''instructionsVersion'') = Some (dm_version d)"
      "zs_optional executionPlanSchema (g ''executionPlan'') = Some (dm_plan d)"
    by (auto simp: dispatchMarkerSchema_def bind_eq_Some_conv split: if_splits dest!: zs_object_some)
  show ?thesis
    using zs_optional_good [OF g(9) plan_good] g(6) zs_id_good [OF g(1)] zs_id_good [OF g(2)] zs_int_good [OF g(3)]
      zs_plain_good [OF g(4)] zs_string_good [OF g(5)] zs_string_good [OF g(7)] zs_int_good [OF g(8)]
    by (simp add: good_dispatch_def)
qed

lemma control_good: "solControlMarkerSchema dt x = Some c \<Longrightarrow> good_control c"
proof -
  assume "solControlMarkerSchema dt x = Some c"
  then obtain g r where g: "zs_id (g ''runId'') = Some (cm_run c)" "zs_id (g ''controlId'') = Some (cm_id c)"
      "zs_int 0 None (g ''iteration'') = Some (cm_iter c)" "zs_optional (zs_nullable zs_id) (g ''relatedDispatchId'') = Some r"
      "zs_string 1 4000 (g ''summary'') = Some (cm_summary c)" and r: "cm_dispatch c = (case r of None \<Rightarrow> None | Some x \<Rightarrow> x)"
    by (auto simp: solControlMarkerSchema_def bind_eq_Some_conv dest!: zs_object_some)
  have "opt_all (opt_all good_id) r"
    by (rule zs_optional_good [OF g(4)]) (rule zs_nullable_good [OF _ zs_id_good])
  then show ?thesis using zs_id_good [OF g(1)] zs_id_good [OF g(2)] zs_int_good [OF g(3)] zs_string_good [OF g(5)] r
    by (auto simp: good_control_def split: option.splits)
qed


section \<open>Printing a marker\<close>

definition opt_field :: "string \<Rightarrow> ('a \<Rightarrow> jv) \<Rightarrow> 'a option \<Rightarrow> (string \<times> jv) list" where
  "opt_field k f x = (case x of None \<Rightarrow> [] | Some v \<Rightarrow> [(k, f v)])"

lemma map_of_opt_field [simp]:
  "map_of (opt_field k f x @ fs) j = (if j = k \<and> x \<noteq> None then map_option f x else map_of fs j)"
  "map_of (opt_field k f x) j = (if j = k then map_option f x else None)"
  by (simp_all add: opt_field_def split: option.splits)

lemma keys_opt_field [simp]: "list_all P (map fst (opt_field k f x)) = (x = None \<or> P k)"
  by (simp add: opt_field_def split: option.splits)

definition node_json :: "dag_node_def \<Rightarrow> jv" where
  "node_json n = V_obj [(''nodeId'', V_str (dn_node n)), (''packetId'', V_str (dn_packet n)),
     (''dependsOn'', V_arr (map V_str (dn_depends n)))]"

definition plan_json :: "execution_plan \<Rightarrow> jv" where
  "plan_json p = V_obj (opt_field ''packetIds'' (\<lambda>l. V_arr (map V_str l)) (pn_packetIds p)
     @ opt_field ''dagNodes'' (\<lambda>l. V_arr (map node_json l)) (pn_dagNodes p)
     @ opt_field ''maxConcurrency'' (\<lambda>m. V_num (of_int m)) (pn_maxConcurrency p))"

definition strategy_text :: "strategy \<Rightarrow> string" where
  "strategy_text k = (case k of SINGLE_AGENT \<Rightarrow> ''SINGLE_AGENT'' | SWARM \<Rightarrow> ''SWARM'' | DAG \<Rightarrow> ''DAG'')"

definition dispatch_json :: "(time \<Rightarrow> string) \<Rightarrow> dispatch_marker \<Rightarrow> jv" where
  "dispatch_json pr d = V_obj ([(''schemaVersion'', V_num 1), (''type'', V_str ''dispatch''), (''runId'', V_str (dm_run d)),
     (''dispatchId'', V_str (dm_id d)), (''iteration'', V_num (of_int (dm_iter d))), (''createdAt'', V_str (pr (dm_created d))),
     (''baseSha'', V_str (dm_base d)), (''changePath'', V_str (dm_change d)), (''goal'', V_str (dm_goal d)),
     (''instructionsVersion'', V_num (of_int (dm_version d)))]
     @ opt_field ''strategy'' (\<lambda>k. V_str (strategy_text k)) (dm_strategy d) @ opt_field ''executionPlan'' plan_json (dm_plan d))"

lemma zs_optional_of: "opt_all (\<lambda>v. f (Some (g v)) = Some v) x \<Longrightarrow> zs_optional f (map_option g x) = Some x"
  by (cases x) (simp_all add: zs_optional_def)

lemma node_of_json: "good_node n \<Longrightarrow> dagNodeSchema (Some (node_json n)) = Some n"
  using zs_array_of [of zs_id V_str "dn_depends n" 0 "Some 100"]
  by (simp add: dagNodeSchema_def node_json_def zs_object_def good_node_def list_all_iff)

lemma plan_of_json: "good_plan p \<Longrightarrow> executionPlanSchema (Some (plan_json p)) = Some p"
proof -
  assume g: "good_plan p"
  have "zs_optional (zs_array 1 (Some 100) zs_id) (map_option (\<lambda>l. V_arr (map V_str l)) (pn_packetIds p)) = Some (pn_packetIds p)"
    by (rule zs_optional_of, cases "pn_packetIds p") (use g in \<open>auto simp: good_plan_def list_all_iff intro!: zs_array_of\<close>)
  moreover have "zs_optional (zs_array 1 (Some 100) dagNodeSchema) (map_option (\<lambda>l. V_arr (map node_json l)) (pn_dagNodes p)) = Some (pn_dagNodes p)"
    by (rule zs_optional_of, cases "pn_dagNodes p") (use g in \<open>auto simp: good_plan_def list_all_iff intro!: zs_array_of node_of_json\<close>)
  moreover have "zs_optional (zs_int 1 (Some 32)) (map_option (\<lambda>m. V_num (of_int m)) (pn_maxConcurrency p)) = Some (pn_maxConcurrency p)"
    by (rule zs_optional_of, cases "pn_maxConcurrency p") (use g in \<open>auto simp: good_plan_def\<close>)
  ultimately show ?thesis by (simp add: executionPlanSchema_def plan_json_def zs_object_def del: map_of_append)
qed

text \<open>
  A printed dispatch marker is read back. For every well-formed marker the schema accepts its JSON
  object and gives the marker, whatever the notation of instants, as long as it is read back itself.
\<close>

theorem dispatch_marker_roundtrip:
  assumes "good_dispatch d" and "dt (pr (dm_created d)) = Some (dm_created d)"
  shows "validateDispatchMarker dt (dispatch_json pr d) = Inr d"
proof -
  have "zs_optional (zs_enum strategies) (map_option (\<lambda>k. V_str (strategy_text k)) (dm_strategy d)) = Some (dm_strategy d)"
    by (rule zs_optional_of, cases "dm_strategy d") (auto simp: zs_enum_def strategies_def strategy_text_def split: strategy.splits)
  moreover have "zs_optional executionPlanSchema (map_option plan_json (dm_plan d)) = Some (dm_plan d)"
    by (rule zs_optional_of, cases "dm_plan d") (use assms(1) in \<open>auto simp: good_dispatch_def plan_of_json\<close>)
  ultimately show ?thesis using assms
    by (simp add: validateDispatchMarker_def dispatchMarkerSchema_def dispatch_json_def zs_object_def zs_literal_def zs_plain_def
        zs_datetime_def dispatch_keys_def good_dispatch_def del: map_of_append)
qed

definition demo_marker :: dispatch_marker where
  "demo_marker = \<lparr>dm_run = ''a'', dm_id = ''d-1'', dm_iter = 2, dm_created = 5, dm_base = replicate 40 (CHR ''a''),
     dm_change = ''openspec/changes/x'', dm_goal = ''g'', dm_version = 1, dm_strategy = Some DAG,
     dm_plan = Some \<lparr>pn_packetIds = None, pn_dagNodes = Some [\<lparr>dn_node = ''n'', dn_packet = ''p'', dn_depends = []\<rparr>], pn_maxConcurrency = Some 2\<rparr>\<rparr>"

theorem dispatch_marker_roundtrip_witness:
  "validateDispatchMarker (\<lambda>s. if s = ''now'' then Some 5 else None) (dispatch_json (\<lambda>_. ''now'') demo_marker) = Inr demo_marker"
proof (rule dispatch_marker_roundtrip)
  show "good_dispatch demo_marker" by code_simp
qed (simp add: demo_marker_def)

section \<open>Inspection\<close>

lemma marker_id_chars: "marker_id dir p = Some i \<Longrightarrow> i \<noteq> [] \<and> list_all id_char i"
  by (auto simp: marker_id_def Let_def split: list.splits if_splits)

lemma only_dispatches:
  assumes "control_changes changes = []" and "other_changes changes = []"
  shows "dispatch_changes changes = changes"
  using assms by (auto simp: control_changes_def other_changes_def dispatch_changes_def filter_empty_conv filter_id_conv)

text \<open>
  C18: what a dispatch commit is. A commit that is taken for a dispatch adds one file and touches no other, the file is a
  dispatch marker by its path, its name is the identifier inside it, made of letters, digits, underscores and hyphens,
  and the marker is well formed.
\<close>

theorem accepted_dispatch_is_isolated:
  assumes "evaluateChanges en get sha changes w = (VALID_DISPATCH sha' i d, w')"
  shows "(case changes of [c] \<Rightarrow> fc_status c = ''A'' \<and> extractDispatchIdFromPath (fc_path c) = Some i | _ \<Rightarrow> False)
     \<and> sha' = sha \<and> dm_id d = i \<and> i \<noteq> [] \<and> list_all id_char i \<and> good_dispatch d"
proof -
  let ?ds = "dispatch_changes changes"
  have c: "control_changes changes = []"
    using assms by (auto simp: evaluateChanges_def evaluate_control_def read_control_def Let_def split: if_splits sum.splits prod.splits)
  then have e: "evaluate_dispatch en get sha ?ds (other_changes changes) w = (VALID_DISPATCH sha' i d, w')" "?ds \<noteq> []"
    using assms by (auto simp: evaluateChanges_def split: if_splits)
  then have o: "other_changes changes = []" "\<not> 1 < length ?ds" "fc_status (hd ?ds) = ''A''"
    and r: "read_dispatch en get sha (fc_path (hd ?ds)) w = (VALID_DISPATCH sha' i d, w')"
    by (auto simp: evaluate_dispatch_def Let_def split: if_splits)
  have ds: "?ds = changes" by (rule only_dispatches [OF c o(1)])
  then obtain ch where ch: "changes = [ch]" using e(2) o(2) by (cases changes) auto
  obtain v where v: "validateDispatchMarker (me_datetime en) v = Inr d"
    and x: "extractDispatchIdFromPath (fc_path ch) = Some i" "dm_id d = i" "sha' = sha"
    using r [unfolded ds, unfolded ch] by (auto simp: read_dispatch_def Let_def split: sum.splits prod.splits if_splits)
  have "good_dispatch d" using v dispatch_good by (auto simp: validateDispatchMarker_def split: option.splits)
  then show ?thesis using ch o(3) x marker_id_chars [of _ _ i] by (simp add: ds [unfolded ch] extractDispatchIdFromPath_def)
qed

definition adding :: "string \<Rightarrow> file_change list" where
  "adding p = [\<lparr>fc_status = ''A'', fc_path = p\<rparr>]"

definition demo_markers :: marker_env where
  "demo_markers = \<lparr>me_parse = (\<lambda>t. if t = ''d'' then Inr (dispatch_json (\<lambda>_. ''now'') demo_marker) else Inl ''bad''),
     me_datetime = (\<lambda>s. if s = ''now'' then Some 5 else None)\<rparr>"

theorem accepted_dispatch_is_isolated_witness:
  "(case adding ''.orca/dispatch/d-1.json'' of
       [c] \<Rightarrow> fc_status c = ''A'' \<and> extractDispatchIdFromPath (fc_path c) = Some ''d-1'' | _ \<Rightarrow> False)
     \<and> ''s'' = ''s'' \<and> dm_id demo_marker = ''d-1'' \<and> ''d-1'' \<noteq> [] \<and> list_all id_char ''d-1'' \<and> good_dispatch demo_marker"
  by (rule accepted_dispatch_is_isolated [where en = demo_markers and get = "\<lambda>_ w. (Inr ''d'', w)" and w = "()" and w' = "()" and sha = "''s''"])
    code_simp

section \<open>Paths and companions\<close>

text \<open>The dot at the start of the expression is not escaped: any directory of four letters after one character will do.\<close>

theorem marker_outside_orca:
  "extractDispatchIdFromPath ''Xorca/dispatch/d-1.json'' = Some ''d-1''
   \<and> fst (evaluateChanges demo_markers (\<lambda>_ w. (Inr ''d'', w)) ''s'' (adding ''Xorca/dispatch/d-1.json'') ()) = VALID_DISPATCH ''s'' ''d-1'' demo_marker"
  by code_simp

text \<open>
  A control must be isolated, but only from files that are no markers: dispatch files in the same commit, even changes of old
  ones, are passed over without a record.
\<close>

theorem control_hides_dispatches:
  assumes "evaluateChanges en get sha changes w = (SOL_CONTROL sha i c, w')"
    and "list_all (\<lambda>d. isDispatchFilePath (fc_path d) \<and> \<not> isSolControlFilePath (fc_path d)) ds"
  shows "evaluateChanges en get sha (changes @ ds) w = (SOL_CONTROL sha i c, w')"
proof -
  have c: "control_changes changes \<noteq> []"
  proof
    assume "control_changes changes = []"
    then show False using assms(1)
      by (auto simp: evaluateChanges_def evaluate_dispatch_def read_dispatch_def Let_def split: if_splits sum.splits prod.splits)
  qed
  have "control_changes ds = []" "other_changes ds = []" using assms(2) by (auto simp: control_changes_def other_changes_def list_all_iff filter_empty_conv)
  then have "control_changes (changes @ ds) = control_changes changes" "other_changes (changes @ ds) = other_changes changes"
    by (simp_all add: control_changes_def other_changes_def)
  then show ?thesis using assms(1) c by (simp add: evaluateChanges_def)
qed

end
