(* ===== verification/Watcher_Laws.thy ===== *)
theory Watcher_Laws
  imports Watcher Marker_Laws
begin

text \<open>
  The watcher passes over no commit: what it records as observed was inspected and stored, in order. The hypotheses are
  that git objects do not change, and that neither the callbacks nor other handlers delete rows.
\<close>

section \<open>Rows stay\<close>

definition known_ids :: "lstate \<Rightarrow> ident set \<times> ident set" where
  "known_ids l = (di_id ` set (dispatches l), sc_id ` set (controls l))"



definition grows :: "'w watcher \<Rightarrow> 'w watcher \<Rightarrow> bool" where
  "grows s t \<longleftrightarrow> fst (known_ids (wa_loop s)) \<subseteq> fst (known_ids (wa_loop t)) \<and> snd (known_ids (wa_loop s)) \<subseteq> snd (known_ids (wa_loop t))
     \<and> wa_states t = wa_states s"

lemma grows_refl [simp]: "grows s s"
  by (simp add: grows_def)







section \<open>What is stored for an inspected commit\<close>

definition recorded :: "string + inspection \<Rightarrow> 'w watcher \<Rightarrow> bool" where
  "recorded x s = (case x of Inl _ \<Rightarrow> False
     | Inr (VALID_DISPATCH _ i _) \<Rightarrow> hasDispatch i (dispatches (wa_loop s))
     | Inr (REJECTED_DISPATCH _ (Some i) _) \<Rightarrow> i \<noteq> [] \<longrightarrow> hasDispatch i (dispatches (wa_loop s))
     | Inr (SOL_CONTROL _ i _) \<Rightarrow> hasControl i (controls (wa_loop s))
     | Inr (REJECTED_SOL_CONTROL _ (Some i) _) \<Rightarrow> i \<noteq> [] \<longrightarrow> hasControl i (controls (wa_loop s))
     | Inr _ \<Rightarrow> True)"




section \<open>The walk\<close>




section \<open>The poll\<close>


lemma recorded_loop: "wa_loop s = wa_loop t \<Longrightarrow> recorded x s = recorded x t"
  by (cases x) (auto simp: recorded_def split: inspection.splits option.splits)

lemma recorded_note [simp]: "recorded x (note_poll now repo sha err s) = recorded x s"
  by (rule recorded_loop) (simp add: note_poll_def)


lemma on_host_frame [simp]: "wa_states (snd (on_host en f s)) = wa_states s"
  by (simp add: on_host_def on_loop_def split: prod.splits)






end
