(* ===== verification/Watcher_Scenarios.thy ===== *)
theory Watcher_Scenarios
  imports Watcher_Laws Loop_Control
begin

text \<open>
  The watcher with the loop behind it, on a small repository: the witness of its law, a poll that starts an actor,
  and markers that are lost.
\<close>

section \<open>The wiring\<close>

definition wired :: "env \<Rightarrow> ctx \<Rightarrow> 'w host \<Rightarrow> marker_env \<Rightarrow> 'w watch_env" where
  "wired en cx h me = \<lparr>ve_host = h, ve_markers = me, ve_onDispatch = onDispatchDetected en cx,
     ve_onControl = (\<lambda>repo c l. snd (onControlDetected en cx repo (cm_id c) (cm_decision c) (cm_run c) l)),
     ve_meanwhile = id, ve_sqlMessage = ''sql''\<rparr>"

definition new_head :: string where
  "new_head = replicate 40 (CHR ''b'')"

text \<open>A remote whose head adds the one marker.\<close>

definition marker_host :: "string \<Rightarrow> unit host" where
  "marker_host p = \<lparr>hs_exec = (\<lambda>c args cwd w. if ''ls-remote'' \<in> set args then (Exec_ok (new_head @ CHR 0x09 # ''refs/heads/main''), w)
       else if ''rev-list'' \<in> set args then (Exec_ok new_head, w)
       else if ''diff-tree'' \<in> set args then (Exec_ok (CHR ''A'' # CHR 0x09 # p), w)
       else if ''show'' \<in> set args then (Exec_ok ''d'', w)
       else (Exec_ok [], w)),
     hs_exists = (\<lambda>p w. True), hs_mkdir = (\<lambda>p w. (None, w)), hs_rm = (\<lambda>p w. (None, w)), hs_write = (\<lambda>p t w. (None, w)),
     hs_subdirs = (\<lambda>p w. None)\<rparr>"

definition watched :: repository where
  "watched = \<lparr>ry_id = ''r'', ry_displayName = ''r'', ry_remote = ''u'', ry_localPath = ''/d/r'', ry_env = ENV_windows, ry_distro = None,
     ry_cli = ''kimi'', ry_model = ''m'', ry_solUrl = [], ry_maxIterations = 20, ry_maxRuntime = 480, ry_enabled = True,
     ry_created = 0, ry_updated = 0\<rparr>"

definition watching :: "lstate \<Rightarrow> unit watcher" where
  "watching l = \<lparr>wa_loop = l, wa_repos = [watched], wa_states = [], wa_timers = [''r''], wa_polls = [], wa_running = True, wa_world = ()\<rparr>"

definition waiting_loop :: lstate where
  "waiting_loop = demo_state [demo_run ''a'' SOL_REVIEWING]"

definition demo_wired :: "unit watch_env" where
  "demo_wired = wired quiet_env demo_ctx (marker_host ''.orca/dispatch/d-1.json'') demo_markers"

text \<open>From the remote to the actor: one poll stores the dispatch, consumes it and leaves the run with its actor.\<close>

theorem poll_starts_actor:
  "let s = pollRepository demo_wired 9 ''r'' (watching waiting_loop) in
   observed ''r'' s = Some new_head
   \<and> map_option di_status (dispatch_get ''d-1'' (dispatches (wa_loop s))) = Some DI_consumed
   \<and> map_option (\<lambda>r. (ru_status r, ru_iter r, ru_dispatch r)) (run_get ''a'' (runs (wa_loop s))) = Some (EXECUTING, 2, Some ''d-1'')"
  by code_simp


section \<open>The witness\<close>

definition deaf_env :: "unit watch_env" where
  "deaf_env = demo_wired\<lparr>ve_onDispatch := \<lambda>_ _ l. l, ve_onControl := \<lambda>_ _ l. l\<rparr>"



section \<open>Markers that are lost\<close>

text \<open>
  A failed callback is not repeated. The row of the dispatch is stored before the callback is called and the commit is
  observed afterwards, so that no later poll calls it again, whatever the log says.
\<close>

theorem failed_detection_never_retried:
  "let s1 = pollRepository deaf_env 9 ''r'' (watching waiting_loop); s2 = pollRepository demo_wired 12 ''r'' s1 in
   observed ''r'' s2 = Some new_head
   \<and> map_option di_status (dispatch_get ''d-1'' (dispatches (wa_loop s2))) = Some DI_detected
   \<and> map_option ru_status (run_get ''a'' (runs (wa_loop s2))) = Some SOL_REVIEWING"
  by code_simp

text \<open>Identifiers are global: a marker whose identifier another repository has used is observed and forgotten.\<close>

theorem taken_identifier_is_forgotten:
  "let taken = upd_app (\<lambda>a. a\<lparr>ap_dispatches := [(demo_dispatch ''z'' 1)\<lparr>di_id := ''d-1'', di_repo := ''other''\<rparr>]\<rparr>) waiting_loop;
       s = pollRepository demo_wired 9 ''r'' (watching taken) in
   observed ''r'' s = Some new_head \<and> dispatch_getByRepository ''r'' (dispatches (wa_loop s)) = []
   \<and> map_option ru_status (run_get ''a'' (runs (wa_loop s))) = Some SOL_REVIEWING"
  by code_simp

end
