(* ===== verification/Executor_Results.thy ===== *)
theory Executor_Results
  imports Commit_Inspector Loop_Completion
begin

text \<open>
  The result contract of the direct executor: the schema of \<open>packages/shared/src/executor-result.ts\<close>, and of
  \<open>apps/controller/src/executor/executor-service.ts\<close> the identity check, the reading and the postflight
  verification of a result manifest, and the preflight inspection. Reading a file of the working tree with Node is a
  parameter; log events are left out.
\<close>

section \<open>The manifest\<close>

datatype check_status = CK_PASS | CK_FAIL | CK_NOT_RUN

record check_item =
  ck_name :: string
  ck_status :: check_status
  ck_summary :: string

record blocker_item =
  bk_code :: string
  bk_summary :: string
  bk_evidence :: "string option option"

record executor_info =
  xi_cli :: string
  xi_model :: string
  xi_env :: host_env

record executor_result =
  xt_run :: ident
  xt_dispatch :: ident
  xt_iter :: int
  xt_status :: executor_status
  xt_started :: time
  xt_finished :: time
  xt_base :: string
  xt_result :: string
  xt_executor :: executor_info
  xt_checks :: "check_item list"
  xt_blockers :: "blocker_item list"
  xt_summary :: string

definition verificationItemSchema :: "check_item schema" where
  "verificationItemSchema = zs_object (Some [''name'', ''status'', ''summary'']) (\<lambda>g. do {
     n \<leftarrow> zs_string 1 300 (g ''name'');
     st \<leftarrow> zs_enum [(''PASS'', CK_PASS), (''FAIL'', CK_FAIL), (''NOT_RUN'', CK_NOT_RUN)] (g ''status'');
     s \<leftarrow> zs_string 1 2000 (g ''summary'');
     Some \<lparr>ck_name = n, ck_status = st, ck_summary = s\<rparr> })"

definition blockerItemSchema :: "blocker_item schema" where
  "blockerItemSchema = zs_object (Some [''code'', ''summary'', ''evidence'']) (\<lambda>g. do {
     c \<leftarrow> zs_string 1 200 (g ''code'');
     s \<leftarrow> zs_string 1 2000 (g ''summary'');
     e \<leftarrow> zs_optional (zs_nullable (zs_plain (\<lambda>t. length t \<le> 4000))) (g ''evidence'');
     Some \<lparr>bk_code = c, bk_summary = s, bk_evidence = e\<rparr> })"

definition executorInfoSchema :: "executor_info schema" where
  "executorInfoSchema = zs_object (Some [''cli'', ''model'', ''environment'']) (\<lambda>g. do {
     c \<leftarrow> zs_string 1 200 (g ''cli'');
     m \<leftarrow> zs_string 1 300 (g ''model'');
     e \<leftarrow> zs_enum [(''windows'', ENV_windows), (''wsl'', ENV_wsl)] (g ''environment'');
     Some \<lparr>xi_cli = c, xi_model = m, xi_env = e\<rparr> })"

definition result_keys :: "string list" where
  "result_keys = [''schemaVersion'', ''type'', ''runId'', ''dispatchId'', ''iteration'', ''status'', ''startedAt'', ''finishedAt'',
     ''baseSha'', ''resultSha'', ''executor'', ''verification'', ''blockers'', ''summary'']"

definition result_states :: "(string \<times> executor_status) list" where
  "result_states = [(''COMPLETED'', ER_COMPLETED), (''BLOCKED'', ER_BLOCKED), (''NEEDS_HUMAN'', ER_NEEDS_HUMAN), (''FAILED'', ER_FAILED)]"

definition executorResultSchema :: "(string \<Rightarrow> time option) \<Rightarrow> executor_result schema" where
  "executorResultSchema dt = zs_object (Some result_keys) (\<lambda>g. do {
     zs_literal (V_num 1) (g ''schemaVersion'');
     zs_literal (V_str ''executor-result'') (g ''type'');
     run \<leftarrow> zs_id (g ''runId'');
     i \<leftarrow> zs_id (g ''dispatchId'');
     iter \<leftarrow> zs_int 1 None (g ''iteration'');
     st \<leftarrow> zs_enum result_states (g ''status'');
     started \<leftarrow> zs_datetime dt (g ''startedAt'');
     finished \<leftarrow> zs_datetime dt (g ''finishedAt'');
     base \<leftarrow> zs_plain isSha40 (g ''baseSha'');
     res \<leftarrow> zs_plain isSha40 (g ''resultSha'');
     x \<leftarrow> executorInfoSchema (g ''executor'');
     cs \<leftarrow> zs_array 0 None verificationItemSchema (g ''verification'');
     bs \<leftarrow> zs_array 0 None blockerItemSchema (g ''blockers'');
     s \<leftarrow> zs_string 1 4000 (g ''summary'');
     Some \<lparr>xt_run = run, xt_dispatch = i, xt_iter = iter, xt_status = st, xt_started = started, xt_finished = finished,
       xt_base = base, xt_result = res, xt_executor = x, xt_checks = cs, xt_blockers = bs, xt_summary = s\<rparr> })"

section \<open>Correlation\<close>

definition alnum :: "char \<Rightarrow> bool" where
  "alnum c \<longleftrightarrow> (let n = (of_char c :: nat) in (48 \<le> n \<and> n \<le> 57) \<or> (97 \<le> n \<and> n \<le> 122))"

text \<open>\<open>.replace(/\.(exe|cmd|bat|ps1)$/i, "")\<close>.\<close>

definition drop_extension :: "string \<Rightarrow> string" where
  "drop_extension s = (let n = length s - 4 in
     if 4 \<le> length s \<and> js_lower (drop n s) \<in> {''.exe'', ''.cmd'', ''.bat'', ''.ps1''} then take n s else s)"

definition identity_key :: "string \<Rightarrow> string" where
  "identity_key s = filter alnum (js_lower s)"

definition executorIdentityMatches :: "string \<Rightarrow> string \<Rightarrow> bool" where
  "executorIdentityMatches configured reported = (if reported = configured then True
     else (let stem = identity_key (drop_extension (last (js_split (CHR ''/'') (js_slashes configured)))); r = identity_key reported
        in stem \<noteq> [] \<and> r \<noteq> [] \<and> (r = stem \<or> has_sub stem r)))"

definition correlates :: "repository \<Rightarrow> dispatch \<Rightarrow> executor_result \<Rightarrow> bool" where
  "correlates r d x \<longleftrightarrow> xt_dispatch x = di_id d \<and> xt_run x = di_run d \<and> xt_iter x = di_iter d
     \<and> (xt_base x = di_base d \<or> xt_base x = di_commit d)
     \<and> executorIdentityMatches (ry_cli r) (xi_cli (xt_executor x)) \<and> xi_model (xt_executor x) = ry_model r
     \<and> xi_env (xt_executor x) = ry_env r"

section \<open>Postflight\<close>

record 'w result_env =
  rv_host :: "'w host"
  rv_markers :: marker_env
  rv_readFile :: "string \<Rightarrow> 'w \<Rightarrow> (string + string) \<times> 'w"

definition readWorkingTreeFile :: "'w result_env \<Rightarrow> git_ctx \<Rightarrow> string \<Rightarrow> 'w \<Rightarrow> (string + string) \<times> 'w" where
  "readWorkingTreeFile en c path w = (if gx_env c = ENV_wsl
     then runProc (rv_host en) ''wsl.exe'' (wsl_prefix c @ [''--'', ''cat'', path]) None w
     else rv_readFile en (path_join [gx_path c, path]) w)"

definition head_holds :: "'w result_env \<Rightarrow> git_ctx \<Rightarrow> string \<Rightarrow> string \<Rightarrow> 'w \<Rightarrow> bool \<times> 'w" where
  "head_holds en c res head w = (if head = res then (True, w) else client_isAncestor (rv_host en) res head (Some c) w)"

text \<open>
  The remote verification, with the attempts that are left. Only fetching and listing the remote can throw;
  an absent remote branch counts as verified.
\<close>

definition remote_attempt :: "'w result_env \<Rightarrow> repository \<Rightarrow> git_ctx \<Rightarrow> string \<Rightarrow> string \<Rightarrow> 'w \<Rightarrow> bool option \<times> 'w" where
  "remote_attempt en r c res head w = (case git_fetch (rv_host en) c ''origin'' ''main'' w of
       (Some _, w1) \<Rightarrow> (None, w1)
     | (None, w1) \<Rightarrow> (case getRemoteHeadSha (rv_host en) (if ry_env r = ENV_wsl then toWslPath (ry_remote r) else ry_remote r) ''main'' (Some c) w1 of
         (Inl _, w2) \<Rightarrow> (None, w2)
       | (Inr rh, w2) \<Rightarrow> if \<not> truthy rh then (Some True, w2)
           else (case head_holds en c res (the rh) w2 of (remoteOk, w3) \<Rightarrow>
             (case client_isAncestor (rv_host en) head (the rh) (Some c) w3 of (manifestOk, w4) \<Rightarrow>
               (Some (remoteOk \<and> manifestOk), w4)))))"

fun remote_verified :: "'w result_env \<Rightarrow> repository \<Rightarrow> git_ctx \<Rightarrow> string \<Rightarrow> string \<Rightarrow> nat \<Rightarrow> 'w \<Rightarrow> bool \<times> 'w" where
  "remote_verified en r c res head 0 w = (False, w)"
| "remote_verified en r c res head (Suc n) w = (case remote_attempt en r c res head w of
       (Some ok, w1) \<Rightarrow> (ok, w1) | (None, w1) \<Rightarrow> remote_verified en r c res head n w1)"

definition postflight :: "'w result_env \<Rightarrow> repository \<Rightarrow> git_ctx \<Rightarrow> string \<Rightarrow> executor_result \<Rightarrow> 'w \<Rightarrow> executor_result option \<times> 'w" where
  "postflight en r c path x w = (case getCurrentSha (rv_host en) c w of
       (head, w1) \<Rightarrow> if \<not> truthy head then (None, w1)
         else (case head_holds en c (xt_result x) (the head) w1 of
           (False, w2) \<Rightarrow> (None, w2)
         | (True, w2) \<Rightarrow> (case getFileContentAtCommit (rv_host en) c (the head) path w2 of
             (Inl _, w3) \<Rightarrow> (None, w3)
           | (Inr _, w3) \<Rightarrow> (case remote_verified en r c (xt_result x) (the head) 2 w3 of
               (ok, w4) \<Rightarrow> (if ok then Some x else None, w4)))))"

definition result_file :: "ident \<Rightarrow> string" where
  "result_file d = ''.orca/results/'' @ d @ ''.json''"

definition readAndValidateResult ::
    "'w result_env \<Rightarrow> repository option \<Rightarrow> dispatch option \<Rightarrow> ident \<Rightarrow> 'w \<Rightarrow> executor_result option \<times> 'w" where
  "readAndValidateResult en repo dispatch d w = (case (repo, dispatch) of
       (Some r, Some q) \<Rightarrow>
         (let c = gitContext r (ry_localPath r); path = result_file d in
          if \<not> isResultFilePath path then (None, w)
          else (case readWorkingTreeFile en c path w of
              (Inl _, w1) \<Rightarrow> (None, w1)
            | (Inr raw, w1) \<Rightarrow> (case me_parse (rv_markers en) raw of
                Inl _ \<Rightarrow> (None, w1)
              | Inr v \<Rightarrow> (case executorResultSchema (me_datetime (rv_markers en)) (Some v) of
                  None \<Rightarrow> (None, w1)
                | Some x \<Rightarrow> if correlates r q x then postflight en r c path x w1 else (None, w1)))))
     | _ \<Rightarrow> (None, w))"

end
