(* ===== verification/Executor_Store.thy ===== *)
theory Executor_Store
  imports Executor_Results Swarm_Worker Leases Publication
begin

text \<open>
  The table of executor runs (\<open>apps/controller/src/executor/executor-store.ts\<close>), what an executor is started with
  (\<open>packages/shared/src/prompt.ts\<close> and \<open>executor-service.ts\<close>), the preflight inspection, and the persisted logs
  (\<open>log-rotator.ts\<close>). The log directory is a listing with modification times.
\<close>

section \<open>The table\<close>

datatype exec_status = XS_pending | XS_running | XS_completed | XS_paused | XS_failed | XS_killed | XS_timed_out

record exec_row =
  er_id :: ident
  er_repo :: ident
  er_dispatch :: ident
  er_run :: ident
  er_iter :: int
  er_status :: exec_status
  er_exit :: "int option"
  er_log :: "string option"
  er_error :: "string option"
  er_started :: time
  er_finished :: "time option"
  er_created :: time
  er_updated :: time

definition exec_create :: "exec_row \<Rightarrow> exec_row list \<Rightarrow> exec_row list option" where
  "exec_create r t = tbl_insert er_id r t"

definition exec_get :: "ident \<Rightarrow> exec_row list \<Rightarrow> exec_row option" where
  "exec_get i t = tbl_get er_id i t"

definition exec_getByRepository :: "ident \<Rightarrow> exec_row list \<Rightarrow> exec_row list" where
  "exec_getByRepository repo t = order_desc er_started (filter (\<lambda>r. er_repo r = repo) t)"

definition exec_getByDispatch :: "ident \<Rightarrow> exec_row list \<Rightarrow> exec_row list" where
  "exec_getByDispatch d t = order_desc er_started (filter (\<lambda>r. er_dispatch r = d) t)"

definition exec_getActiveRun :: "ident \<Rightarrow> exec_row list \<Rightarrow> exec_row option" where
  "exec_getActiveRun repo t = first_row (order_desc er_started
     (filter (\<lambda>r. er_repo r = repo \<and> er_status r \<in> {XS_pending, XS_running}) t))"

text \<open>The optional columns of \<open>updateStatus\<close>: \<open>None\<close> keeps the stored value.\<close>

record exec_patch =
  ep_exit :: "int option option"
  ep_error :: "string option option"
  ep_finished :: "time option option"
  ep_log :: "string option option"

definition exec_updateStatus :: "ident \<Rightarrow> exec_status \<Rightarrow> exec_patch \<Rightarrow> time \<Rightarrow> exec_row list \<Rightarrow> exec_row list" where
  "exec_updateStatus i st p now t = tbl_update (\<lambda>r. er_id r = i)
     (\<lambda>r. r\<lparr>er_status := st, er_exit := set_col (ep_exit p) (er_exit r), er_error := set_col (ep_error p) (er_error r),
        er_finished := set_col (ep_finished p) (er_finished r), er_log := set_col (ep_log p) (er_log r), er_updated := now\<rparr>) t"

section \<open>What an executor is given\<close>

definition generateBootstrapPrompt :: "string \<Rightarrow> dispatch \<Rightarrow> bool \<Rightarrow> string" where
  "generateBootstrapPrompt name d recovery = join_with [CHR 0x0A]
     [''Orca-Strator autonomous executor turn for '' @ name @ ''.'',
      ''Dispatch ID: '' @ di_id d @ '' (Iteration '' @ js_int (di_iter d) @ '')'',
      ''Work Target: '' @ di_change d,
      ''Goal: '' @ di_goal d,
      [],
      ''Instructions:'',
      ''1. Read AGENTS.md, .agent/state.json, and repository instructions.'',
      ''2. Read .orca/dispatch/'' @ di_id d @ ''.json and the change artifacts in '' @ di_change d @ ''.'',
      ''3. Preserve and reconcile existing work on main.'',
      ''4. Implement the requested tasks and run relevant verification.'',
      ''5. Commit and push intended work to main.'',
      ''6. Write the final isolated result manifest at .orca/results/'' @ di_id d @ ''.json and push it.'',
      ''7. Exit with truthful status.'',
      if recovery then CHR 0x0A # ''This is a RESUME of an interrupted dispatch. Inspect and preserve any existing partial work on main; do not discard it. Continue and complete the remaining tasks.''
      else []]"

record preflight =
  pf_dirty :: bool
  pf_local :: "string option"
  pf_remote :: "string option"
  pf_summary :: string

definition bool_text :: "bool \<Rightarrow> string" where
  "bool_text b = (if b then ''true'' else ''false'')"

definition json_head :: "string option \<Rightarrow> string" where
  "json_head x = (case x of None \<Rightarrow> ''null'' | Some s \<Rightarrow> js_quote s)"

definition preflight_evidence :: "preflight \<Rightarrow> string" where
  "preflight_evidence p = CHR ''{'' # join_with '',''
     [js_quote ''dirty'' @ '':'' @ bool_text (pf_dirty p), js_quote ''localHead'' @ '':'' @ json_head (pf_local p),
      js_quote ''remoteHead'' @ '':'' @ json_head (pf_remote p), js_quote ''statusSummary'' @ '':'' @ js_quote (pf_summary p)] @ ''}''"

text \<open>The variables of the process; \<open>harness\<close> is what the controller's own environment has of the harness controls.\<close>

definition executor_vars ::
    "(string \<Rightarrow> string option) \<Rightarrow> repository \<Rightarrow> dispatch \<Rightarrow> preflight \<Rightarrow> bool \<Rightarrow> (string \<times> string) list" where
  "executor_vars harness r d p recovery =
     [(''ORCA_RUN_ID'', di_run d), (''ORCA_DISPATCH_ID'', di_id d),
      (''ORCA_DISPATCH_PATH'', ''.orca/dispatch/'' @ di_id d @ ''.json''), (''ORCA_CHANGE_PATH'', di_change d),
      (''ORCA_ITERATION'', js_int (di_iter d)), (''ORCA_EXECUTOR_CLI'', ry_cli r), (''ORCA_EXECUTOR_MODEL'', ry_model r),
      (''ORCA_ENVIRONMENT'', if ry_env r = ENV_wsl then ''wsl'' else ''windows''), (''ORCA_PREFLIGHT_EVIDENCE'', preflight_evidence p)]
     @ concat (map (\<lambda>k. if truthy (harness k) then [(k, the (harness k))] else [])
         [''ORCA_SLOW_MS'', ''ORCA_HARNESS_STATUS'', ''ORCA_HARNESS_EXIT_CODE''])
     @ (if recovery then [(''ORCA_RECOVERY'', ''true'')] else [])"

section \<open>Preflight\<close>

definition preflight_relation :: "'w host \<Rightarrow> git_ctx \<Rightarrow> string option \<Rightarrow> string option \<Rightarrow> 'w \<Rightarrow> string \<times> 'w" where
  "preflight_relation h c localHead remoteHead w =
     (if truthy localHead \<and> truthy remoteHead
      then (case client_isAncestor h (the localHead) (the remoteHead) (Some c) w of (behind, w1) \<Rightarrow>
        (case client_isAncestor h (the remoteHead) (the localHead) (Some c) w1 of (ahead, w2) \<Rightarrow>
          (if localHead = remoteHead then ''up-to-date'' else if ahead then ''ahead''
           else if behind then ''behind (fast-forwardable)'' else ''diverged'', w2)))
      else if truthy localHead then (''no-remote'', w) else (''no-local-head'', w))"

definition short_head :: "string option \<Rightarrow> string" where
  "short_head x = (case x of None \<Rightarrow> ''none'' | Some s \<Rightarrow> take 7 s)"

definition runPreflight :: "'w host option \<Rightarrow> repository \<Rightarrow> 'w \<Rightarrow> preflight \<times> 'w" where
  "runPreflight git r w = (case git of
       None \<Rightarrow> (\<lparr>pf_dirty = False, pf_local = None, pf_remote = None, pf_summary = ''no-git-client''\<rparr>, w)
     | Some h \<Rightarrow>
       (let c = gitContext r (ry_localPath r) in
        case getRemoteHeadSha h (if ry_env r = ENV_wsl then toWslPath (ry_remote r) else ry_remote r) ''main'' (Some c) w of (rh, w1) \<Rightarrow>
       (case getCurrentSha h c w1 of (lh, w2) \<Rightarrow>
       (case hasUncommittedChanges h c w2 of (d, w3) \<Rightarrow>
       (case git_fetch h c ''origin'' ''main'' w3 of (_, w4) \<Rightarrow>
         (let remoteHead = (case rh of Inl _ \<Rightarrow> None | Inr x \<Rightarrow> x); dirty = (case d of Inl _ \<Rightarrow> False | Inr b \<Rightarrow> b) in
          case preflight_relation h c lh remoteHead w4 of (rel, w5) \<Rightarrow>
            (\<lparr>pf_dirty = dirty, pf_local = lh, pf_remote = remoteHead,
              pf_summary = ''dirty='' @ bool_text dirty @ '' local='' @ short_head lh @ '' remote='' @ short_head remoteHead
                @ '' relation='' @ rel\<rparr>,
             if \<not> dirty \<and> rel = ''behind (fast-forwardable)'' then snd (git_fetch h c ''origin'' ''main'' w5) else w5)))))))"

section \<open>Logs\<close>

record log_file =
  lf_name :: string
  lf_mtime :: int

definition MAX_PERSISTED_LOG_LINES :: nat where
  "MAX_PERSISTED_LOG_LINES = 200"

definition log_dir :: "string \<Rightarrow> ident \<Rightarrow> string" where
  "log_dir dataDir repo = path_join [dataDir, ''logs'', repo]"

definition log_path :: "string \<Rightarrow> ident \<Rightarrow> ident \<Rightarrow> string" where
  "log_path dataDir repo aid = path_join [dataDir, ''logs'', repo, aid @ ''.log'']"

text \<open>
  \<open>pruneLogs\<close>: the files it deletes, oldest first, and how many went; \<open>unlink\<close> says whether deleting a file works.
\<close>

definition pruneLogs :: "(string \<Rightarrow> bool) \<Rightarrow> nat \<Rightarrow> log_file list \<Rightarrow> log_file list \<times> nat" where
  "pruneLogs unlink keep files = (if length files \<le> keep then (files, 0)
     else (let old = take (length files - keep) (sort_key lf_mtime files); gone = filter (\<lambda>f. unlink (lf_name f)) old
       in (filter (\<lambda>f. f \<notin> set gone) files, length gone)))"

definition hex_char :: "char \<Rightarrow> bool" where
  "hex_char c \<longleftrightarrow> (let n = (of_char c :: nat) in (48 \<le> n \<and> n \<le> 57) \<or> (65 \<le> n \<and> n \<le> 70) \<or> (97 \<le> n \<and> n \<le> 102))"

definition uuid_shaped :: "string \<Rightarrow> bool" where
  "uuid_shaped s \<longleftrightarrow> map length (js_split (CHR ''-'') s) = [8, 4, 4, 4, 12] \<and> list_all (list_all hex_char) (js_split (CHR ''-'') s)"

definition ends_with :: "string \<Rightarrow> string \<Rightarrow> bool" where
  "ends_with s p \<longleftrightarrow> length p \<le> length s \<and> drop (length s - length p) s = p"

fun latest_log :: "log_file list \<Rightarrow> log_file option \<Rightarrow> log_file option" where
  "latest_log [] best = best"
| "latest_log (f # fs) best = latest_log fs (if ends_with (lf_name f) ''.log'' \<and> (case best of None \<Rightarrow> True | Some b \<Rightarrow> lf_mtime b < lf_mtime f)
     then Some f else best)"

definition latestPersistedLog :: "log_file list \<Rightarrow> log_file option" where
  "latestPersistedLog files = latest_log files None"

definition log_tail :: "string \<Rightarrow> string list" where
  "log_tail text = (let ls = rev (dropWhile (\<lambda>l. l = []) (rev (js_split (CHR 0x0A) text)))
     in drop (length ls - MAX_PERSISTED_LOG_LINES) ls)"

definition no_slash :: "string \<Rightarrow> string" where
  "no_slash s = (if 1 < length s \<and> last s = CHR ''/'' then butlast s else s)"

text \<open>
  \<open>readPersistedLogTail\<close>: \<open>aid\<close> is a raw query parameter. \<open>listing\<close> is None when the directory cannot be read,
  \<open>content\<close> gives the text of an existing file.
\<close>

definition readPersistedLogTail ::
    "string \<Rightarrow> ident \<Rightarrow> log_file list option \<Rightarrow> (string \<Rightarrow> string option) \<Rightarrow> string option \<Rightarrow> string + string list" where
  "readPersistedLogTail dataDir repo listing content aid =
     (if truthy aid \<and> \<not> uuid_shaped (the aid) then Inl ''runAttemptId must be a UUID.''
      else if aid \<noteq> None \<and> \<not> starts_with (path_join [log_dir dataDir repo, the aid @ ''.log'']) (no_slash (log_dir dataDir repo) @ ''/'')
      then Inl ''runAttemptId must not escape the repository log directory.''
      else (let path = (case aid of Some a \<Rightarrow> Some (path_join [log_dir dataDir repo, a @ ''.log''])
              | None \<Rightarrow> Option.bind listing (\<lambda>fs. map_option (\<lambda>f. path_join [log_dir dataDir repo, lf_name f]) (latestPersistedLog fs)))
        in Inr (case Option.bind path content of None \<Rightarrow> [] | Some text \<Rightarrow> log_tail text)))"

end
