(* ===== verification/Executor_Service.thy ===== *)
theory Executor_Service
  imports Executor_Store
begin

text \<open>
  \<open>ExecutorService\<close> of \<open>apps/controller/src/executor/executor-service.ts\<close> as a machine: what runs between two awaits is one
  step, and the steps of several runs, kill and pause calls and child processes interleave freely. A launch is the closure
  of one \<open>launchRun\<close> after its preflight, with its runner. The preflight and the handling of a finished turn await git
  many times and are one step each, taken at their end. A spawn that throws is a spawn error. Left out are published events,
  log lines, the pruning call and usage telemetry.
\<close>

section \<open>State\<close>

datatype launch_phase = LP_spawning | LP_sleeping | LP_up | LP_over

record launch =
  la_attempt :: ident
  la_repo :: repository
  la_dispatch :: dispatch
  la_invocation :: invocation
  la_vars :: "(string \<times> string) list"
  la_watchdog :: int
  la_attempts :: int
  la_try :: int
  la_runner :: runner
  la_proc :: "ident option"
  la_spawned :: bool
  la_phase :: launch_phase

record prepared =
  pp_repo :: repository
  pp_dispatch :: dispatch
  pp_recovery :: bool

record turn =
  tu_repo :: ident
  tu_dispatch :: ident
  tu_status :: exec_status

datatype waiting = Kill_of ident | Pause_of ident

record 'w exec_state =
  xs_repos :: "repository list"
  xs_loop :: lstate
  xs_rows :: "exec_row list"
  xs_own :: own_state
  xs_active :: "(ident \<times> ident) list"
  xs_pending :: "(ident \<times> ident) list"
  xs_starting :: "ident list"
  xs_stopping :: bool
  xs_prep :: "prepared list"
  xs_launches :: "launch list"
  xs_turns :: "turn list"
  xs_waits :: "waiting list"
  xs_world :: 'w

record exec_policy =
  xp_watchdogMs :: int
  xp_attempts :: int

record 'w exec_env =
  xv_instance :: "ident option"
  xv_capture :: "int \<Rightarrow> string option \<times> string option"
  xv_watchdogMs :: int
  xv_policy :: "ident \<Rightarrow> exec_policy option"
  xv_node :: string
  xv_var :: "string \<Rightarrow> string option"
  xv_dataDir :: string
  xv_git :: "'w result_env option"
  xv_transition :: bool
  xv_onCompleted :: "ident \<Rightarrow> ident \<Rightarrow> executor_result option \<Rightarrow> lstate \<Rightarrow> lstate"
  xv_sqlMessage :: string

datatype exec_error = No_repository string | Invalid_start string

definition MAX_LAUNCH_ATTEMPTS :: int where
  "MAX_LAUNCH_ATTEMPTS = 3"

section \<open>Small parts\<close>

definition on_own :: "(own_state \<Rightarrow> own_state) \<Rightarrow> 'w exec_state \<Rightarrow> 'w exec_state" where
  "on_own f s = s\<lparr>xs_own := f (xs_own s)\<rparr>"

definition on_rows :: "(exec_row list \<Rightarrow> exec_row list) \<Rightarrow> 'w exec_state \<Rightarrow> 'w exec_state" where
  "on_rows f s = s\<lparr>xs_rows := f (xs_rows s)\<rparr>"

definition forget :: "ident \<Rightarrow> 'w exec_state \<Rightarrow> 'w exec_state" where
  "forget repo s = s\<lparr>xs_active := AList.delete repo (xs_active s), xs_pending := AList.delete repo (xs_pending s)\<rparr>"

definition start_over :: "ident \<Rightarrow> 'w exec_state \<Rightarrow> 'w exec_state" where
  "start_over repo s = s\<lparr>xs_starting := removeAll repo (xs_starting s)\<rparr>"

definition put_launch :: "launch \<Rightarrow> 'w exec_state \<Rightarrow> 'w exec_state" where
  "put_launch l s = s\<lparr>xs_launches := tbl_update (\<lambda>x. la_attempt x = la_attempt l) (\<lambda>_. l) (xs_launches s)\<rparr>"

abbreviation la_repoId :: "launch \<Rightarrow> ident" where
  "la_repoId l \<equiv> ry_id (la_repo l)"

definition finish_row :: "ident \<Rightarrow> exec_status \<Rightarrow> string option option \<Rightarrow> time \<Rightarrow> 'w exec_state \<Rightarrow> 'w exec_state" where
  "finish_row i st err now s = on_rows (exec_updateStatus i st
     \<lparr>ep_exit = None, ep_error = err, ep_finished = Some (Some now), ep_log = None\<rparr> now) s"

section \<open>Starting\<close>

text \<open>\<open>startRun\<close> up to the awaited preflight.\<close>

definition startRun :: "ident \<Rightarrow> ident \<Rightarrow> bool \<Rightarrow> 'w exec_state \<Rightarrow> exec_error option \<times> 'w exec_state" where
  "startRun repo d recovery s = (case tbl_get ry_id repo (xs_repos s) of
       None \<Rightarrow> (Some (No_repository (''Repository '' @ repo @ '' not found'')), s)
     | Some r \<Rightarrow>
         if xs_stopping s
         then (Some (Invalid_start (''ExecutorService is shutting down; refusing new run for repository '' @ repo)), s)
         else if repo \<in> set (xs_starting s)
         then (Some (Invalid_start (''Executor start already in progress for repository '' @ repo)), s)
         else if map_of (xs_active s) repo \<noteq> None \<or> map_of (xs_pending s) repo \<noteq> None
         then (Some (Invalid_start (''Executor is already running for repository '' @ repo)), s)
         else (case dispatch_get d (ap_dispatches (ts_app (xs_loop s))) of
             None \<Rightarrow> (Some (Invalid_start (''Dispatch '' @ d @ '' not found'')), s)
           | Some q \<Rightarrow> (None, s\<lparr>xs_starting := repo # xs_starting s,
               xs_prep := xs_prep s @ [\<lparr>pp_repo = r, pp_dispatch = q, pp_recovery = recovery\<rparr>]\<rparr>)))"

definition running_row :: "'w exec_env \<Rightarrow> time \<Rightarrow> ident \<Rightarrow> ident \<Rightarrow> dispatch \<Rightarrow> exec_row" where
  "running_row en now aid repo q = \<lparr>er_id = aid, er_repo = repo, er_dispatch = di_id q, er_run = di_run q,
     er_iter = di_iter q, er_status = XS_running, er_exit = None, er_log = Some (log_path (xv_dataDir en) repo aid),
     er_error = None, er_started = now, er_finished = None, er_created = now, er_updated = now\<rparr>"

definition outcome_name :: "acquire_outcome \<Rightarrow> string" where
  "outcome_name k = (case k of Acquired \<Rightarrow> ''acquired'' | Conflict \<Rightarrow> ''conflict'' | Quarantined \<Rightarrow> ''quarantined'')"

text \<open>The lease of the repository, when ownership is wired; a refusal is the error of the start.\<close>

definition take_actor_lease ::
    "'w exec_env \<Rightarrow> ident \<Rightarrow> time \<Rightarrow> ident \<Rightarrow> ident \<Rightarrow> dispatch \<Rightarrow> own_state \<Rightarrow> string option \<times> own_state" where
  "take_actor_lease en leaseId now aid repo q o1 = (case xv_instance en of
       None \<Rightarrow> (None, o1)
     | Some inst \<Rightarrow>
         (case acquire leaseId now repo inst K_SINGLE_AGENT
                 \<lparr>ao_run = Some (di_run q), ao_iteration = Some (di_iter q), ao_actor = Some aid\<rparr> o1 of
            ((Acquired, _), o2) \<Rightarrow> (None, bindActor repo aid (Some (Some (di_run q))) now o2)
          | ((k, _), o2) \<Rightarrow> (Some (''Repository '' @ repo @ '' execution actor is '' @ outcome_name k @ '' (''
              @ au_reason (last (ow_audit o2)) @ ''); refusing start''), o2)))"

text \<open>
  The end of a launch whose attempts are used up or aborted. Only a repository on which nothing was spawned gets its
  lease back.
\<close>

definition launch_failed :: "'w exec_env \<Rightarrow> time \<Rightarrow> launch \<Rightarrow> 'w exec_state \<Rightarrow> 'w exec_state" where
  "launch_failed en now l s =
     (let repo = la_repoId l;
          s1 = finish_row (la_attempt l) XS_failed (Some (Some (''Executor failed to start after '' @ js_int (la_attempts l)
                 @ '' attempts (contact/launch unavailable).''))) now (forget repo (put_launch (l\<lparr>la_phase := LP_over\<rparr>) s));
          s2 = (case xv_instance en of None \<Rightarrow> s1
            | Some inst \<Rightarrow>
                if la_spawned l \<or> la_proc l \<noteq> None
                then on_own (quarantine repo ''launch failed after real spawn without proven termination'' now) s1
                else if proc_listByActor (la_attempt l) (xs_own s1) = []
                then on_own (release repo inst now) s1
                else on_own (quarantine repo ''launch failed with ambiguous process state'' now) s1)
      in start_over repo s2)"

text \<open>One round of \<open>launchWithRetry\<close> up to the awaited spawn.\<close>

definition try_launch :: "'w exec_env \<Rightarrow> time \<Rightarrow> launch \<Rightarrow> 'w exec_state \<Rightarrow> 'w exec_state" where
  "try_launch en now l s =
     (if la_attempts l < la_try l \<or> xs_stopping s \<or> rn_killed (la_runner l) then launch_failed en now l s
      else put_launch (l\<lparr>la_phase := LP_spawning, la_runner := spawn_child (la_runner l)\<rparr>) s)"

definition launch_of :: "'w exec_env \<Rightarrow> ident \<Rightarrow> prepared \<Rightarrow> preflight \<Rightarrow> invocation \<Rightarrow> launch" where
  "launch_of en aid p ev iv =
     (let q = pp_dispatch p; policy = xv_policy en (di_run q) in
      \<lparr>la_attempt = aid, la_repo = pp_repo p, la_dispatch = q, la_invocation = iv,
       la_vars = executor_vars (xv_var en) (pp_repo p) q ev (pp_recovery p),
       la_watchdog = (case policy of None \<Rightarrow> xv_watchdogMs en | Some x \<Rightarrow> xp_watchdogMs x),
       la_attempts = (case policy of None \<Rightarrow> MAX_LAUNCH_ATTEMPTS | Some x \<Rightarrow> xp_attempts x),
       la_try = 1, la_runner = new_runner, la_proc = None, la_spawned = False, la_phase = LP_sleeping\<rparr>)"

definition start_invocation :: "'w exec_env \<Rightarrow> prepared \<Rightarrow> string + invocation" where
  "start_invocation en p = buildExecutorInvocation (xv_node en) (xv_var en ''ORCA_TEST_EXECUTOR_HARNESS'')
     (xv_var en ''ORCA_SWARM_TEST_HARNESS'') (resolveProfile (ry_cli (pp_repo p)))
     \<lparr>ip_cli = ry_cli (pp_repo p), ip_model = ry_model (pp_repo p),
      ip_prompt = generateBootstrapPrompt (ry_displayName (pp_repo p)) (pp_dispatch p) (pp_recovery p), ip_env = ry_env (pp_repo p)\<rparr>"

text \<open>\<open>launchRun\<close> after the preflight: the row, the lease, the registration, and the first attempt.\<close>

definition launchRun :: "'w exec_env \<Rightarrow> ident \<Rightarrow> ident \<Rightarrow> time \<Rightarrow> prepared \<Rightarrow> 'w exec_state \<Rightarrow> exec_error option \<times> 'w exec_state" where
  "launchRun en aid leaseId now p s0 =
     (let repo = ry_id (pp_repo p) in
      case runPreflight (map_option rv_host (xv_git en)) (pp_repo p) (xs_world s0) of (ev, w) \<Rightarrow>
      (let s = s0\<lparr>xs_world := w, xs_prep := removeAll p (xs_prep s0)\<rparr> in
       case exec_create (running_row en now aid repo (pp_dispatch p)) (xs_rows s) of
         None \<Rightarrow> (Some (Invalid_start (xv_sqlMessage en)), start_over repo s)
       | Some rows \<Rightarrow> (let s1 = s\<lparr>xs_rows := rows\<rparr> in
           case start_invocation en p of
             Inl m \<Rightarrow> (Some (Invalid_start m), start_over repo s1)
           | Inr iv \<Rightarrow> (case take_actor_lease en leaseId now aid repo (pp_dispatch p) (xs_own s1) of
               (Some m, o2) \<Rightarrow> (Some (Invalid_start m), start_over repo (s1\<lparr>xs_own := o2\<rparr>))
             | (None, o2) \<Rightarrow> (let l = launch_of en aid p ev iv in
                 (None, try_launch en now l (s1\<lparr>xs_own := o2, xs_pending := AList.update repo aid (xs_pending s1),
                    xs_launches := xs_launches s1 @ [l]\<rparr>)))))))"

section \<open>The child\<close>

definition child_record :: "'w exec_env \<Rightarrow> ident \<Rightarrow> ident \<Rightarrow> time \<Rightarrow> int \<Rightarrow> launch \<Rightarrow> proc_record" where
  "child_record en inst i now pid l = \<lparr>pr_id = i, pr_instance = inst, pr_repo = la_repoId l,
     pr_run = Some (di_run (la_dispatch l)), pr_iteration = Some (di_iter (la_dispatch l)), pr_actor = Some (la_attempt l),
     pr_packet = None, pr_kind = DIRECT_EXECUTOR, pr_pid = pid, pr_exe = fst (xv_capture en pid), pr_marker = snd (xv_capture en pid),
     pr_state = O_RUNNING, pr_created = now, pr_updated = now, pr_error = None\<rparr>"

text \<open>The child has spawned: the ownership hook runs, and \<open>start\<close> resolves or throws.\<close>

definition admit_child :: "int \<Rightarrow> bool \<Rightarrow> launch \<Rightarrow> 'w exec_state \<Rightarrow> 'w exec_state" where
  "admit_child ms hook l s =
     (let r = spawned ms hook (la_runner l); repo = la_repoId l
      in start_over repo (put_launch (l\<lparr>la_phase := LP_up, la_runner := (if hook then hook_settled ms True r else r)\<rparr>)
           (s\<lparr>xs_active := AList.update repo (la_attempt l) (xs_active s), xs_pending := AList.delete repo (xs_pending s)\<rparr>)))"

definition refuse_child :: "'w exec_env \<Rightarrow> time \<Rightarrow> launch \<Rightarrow> 'w exec_state \<Rightarrow> 'w exec_state" where
  "refuse_child en now l s =
     (let repo = la_repoId l; m = xv_sqlMessage en
      in start_over repo (finish_row (la_attempt l) XS_failed (Some (Some (''Executor ownership persistence failed: '' @ m))) now
           (forget repo (put_launch (l\<lparr>la_phase := LP_up, la_runner := hook_settled (la_watchdog l) False (spawned (la_watchdog l) True (la_runner l))\<rparr>)
             (on_own (quarantine repo (''process ownership persistence failed: '' @ m) now) s)))))"

definition child_spawned :: "'w exec_env \<Rightarrow> ident \<Rightarrow> int \<Rightarrow> time \<Rightarrow> launch \<Rightarrow> 'w exec_state \<Rightarrow> 'w exec_state" where
  "child_spawned en procId pid now l s = (case xv_instance en of
       None \<Rightarrow> admit_child (la_watchdog l) False l s
     | Some inst \<Rightarrow> (case proc_insert (child_record en inst procId now pid l) (xs_own s) of
         None \<Rightarrow> refuse_child en now (l\<lparr>la_proc := Some procId\<rparr>) s
       | Some o1 \<Rightarrow> admit_child (la_watchdog l) True (l\<lparr>la_proc := Some procId, la_spawned := True\<rparr>)
           (s\<lparr>xs_own := markActive (la_repoId l) now o1\<rparr>)))"

definition spawn_failed :: "'w exec_env \<Rightarrow> time \<Rightarrow> launch \<Rightarrow> 'w exec_state \<Rightarrow> 'w exec_state" where
  "spawn_failed en now l s = (if la_try l < la_attempts l then put_launch (l\<lparr>la_phase := LP_sleeping\<rparr>) s
     else launch_failed en now l s)"

definition retry_launch :: "'w exec_env \<Rightarrow> time \<Rightarrow> launch \<Rightarrow> 'w exec_state \<Rightarrow> 'w exec_state" where
  "retry_launch en now l s = try_launch en now (l\<lparr>la_try := la_try l + 1\<rparr>) s"

section \<open>The end of a child\<close>

text \<open>The final status and message of an exit.\<close>

definition exit_outcome :: "exit_details \<Rightarrow> exec_status \<times> string option" where
  "exit_outcome x =
     (if xd_reason x = PAUSED_EXIT \<or> xd_wasPaused x then (XS_paused, None)
      else if xd_reason x = EMERGENCY_KILLED \<or> xd_wasKilled x then (XS_killed, None)
      else if xd_reason x = WATCHDOG_TIMEOUT \<or> xd_timedOut x then (XS_timed_out, Some ''Executor watchdog timeout'')
      else (case xd_code x of None \<Rightarrow> (XS_completed, None)
        | Some c \<Rightarrow> if c \<noteq> 0 then (XS_failed, Some (''Executor process exited with non-zero code '' @ js_int c)) else (XS_completed, None)))"

definition process_of :: "launch \<Rightarrow> own_state \<Rightarrow> proc_record option" where
  "process_of l o1 = (let ps = proc_listByRepository (la_repoId l) o1 in
     case Option.bind (la_proc l) (\<lambda>i. find (\<lambda>p. pr_id p = i) ps) of Some p \<Rightarrow> Some p
     | None \<Rightarrow> find (\<lambda>p. pr_actor p = Some (la_attempt l)) ps)"

definition release_actor :: "'w exec_env \<Rightarrow> exit_details \<Rightarrow> time \<Rightarrow> launch \<Rightarrow> own_state \<Rightarrow> own_state" where
  "release_actor en x now l o1 = (case xv_instance en of None \<Rightarrow> o1
     | Some inst \<Rightarrow> release (la_repoId l) inst now (case process_of l o1 of None \<Rightarrow> o1
         | Some p \<Rightarrow> proc_setState (pr_id p)
             (if xd_wasKilled x \<or> xd_reason x = EMERGENCY_KILLED then O_KILL_CONFIRMED else O_EXITED) None now o1))"

definition on_exit :: "'w exec_env \<Rightarrow> time \<Rightarrow> exit_details \<Rightarrow> launch \<Rightarrow> 'w exec_state \<Rightarrow> 'w exec_state" where
  "on_exit en now x l s =
     (let s1 = on_own (release_actor en x now l) (forget (la_repoId l) (put_launch (l\<lparr>la_phase := LP_over\<rparr>) s));
          s2 = on_rows (exec_updateStatus (la_attempt l) (fst (exit_outcome x))
                 \<lparr>ep_exit = Some (xd_code x), ep_error = Some (snd (exit_outcome x)), ep_finished = Some (Some now), ep_log = None\<rparr> now) s1
      in s2\<lparr>xs_turns := xs_turns s2 @ [\<lparr>tu_repo = la_repoId l, tu_dispatch = di_id (la_dispatch l), tu_status = fst (exit_outcome x)\<rparr>]\<rparr>)"

text \<open>What the child, its watchdog or the adapter does to the runner of a launch that is up.\<close>

definition runner_moves :: "'w exec_env \<Rightarrow> runner_event \<Rightarrow> time \<Rightarrow> launch \<Rightarrow> 'w exec_state \<Rightarrow> 'w exec_state" where
  "runner_moves en e now l s =
     (let r = runner_step (la_watchdog l) (xv_instance en \<noteq> None) e (la_runner l); l1 = l\<lparr>la_runner := r\<rparr>
      in if length (rn_exits (la_runner l)) < length (rn_exits r) then on_exit en now (last (rn_exits r)) l1 s
         else put_launch l1 s)"

definition read_result :: "'w exec_env \<Rightarrow> ident \<Rightarrow> ident \<Rightarrow> 'w exec_state \<Rightarrow> executor_result option \<times> 'w exec_state" where
  "read_result en repo d s = (case xv_git en of None \<Rightarrow> (None, s)
     | Some g \<Rightarrow> (case readAndValidateResult g (tbl_get ry_id repo (xs_repos s)) (dispatch_get d (ap_dispatches (ts_app (xs_loop s)))) d (xs_world s) of
         (x, w) \<Rightarrow> (x, s\<lparr>xs_world := w\<rparr>)))"

definition consume_dispatch :: "ident \<Rightarrow> time \<Rightarrow> 'w exec_state \<Rightarrow> 'w exec_state" where
  "consume_dispatch d now s = s\<lparr>xs_loop := upd_app (\<lambda>a. a\<lparr>ap_dispatches :=
     dispatch_updateStatus d DI_consumed None now (ap_dispatches a)\<rparr>) (xs_loop s)\<rparr>"

definition handleTurnCompletion :: "'w exec_env \<Rightarrow> time \<Rightarrow> turn \<Rightarrow> 'w exec_state \<Rightarrow> 'w exec_state" where
  "handleTurnCompletion en now t s =
     (if tu_status t = XS_paused
      then (case read_result en (tu_repo t) (tu_dispatch t) s of (None, s1) \<Rightarrow> s1 | (Some _, s1) \<Rightarrow> consume_dispatch (tu_dispatch t) now s1)
      else (case (if tu_status t \<in> {XS_completed, XS_failed} then read_result en (tu_repo t) (tu_dispatch t) s else (None, s)) of
         (x, s1) \<Rightarrow> (let s2 = (if x \<noteq> None \<and> \<not> xv_transition en then consume_dispatch (tu_dispatch t) now s1 else s1)
           in s2\<lparr>xs_loop := xv_onCompleted en (tu_repo t) (tu_dispatch t) x (xs_loop s2)\<rparr>)))"

section \<open>Controls\<close>

definition kill_attempt :: "ident \<Rightarrow> 'w exec_state \<Rightarrow> 'w exec_state" where
  "kill_attempt aid s = s\<lparr>xs_launches := tbl_update (\<lambda>l. la_attempt l = aid)
     (\<lambda>l. l\<lparr>la_runner := runner_kill (la_runner l)\<rparr>) (xs_launches s)\<rparr>"

definition pause_attempt :: "ident \<Rightarrow> 'w exec_state \<Rightarrow> 'w exec_state" where
  "pause_attempt aid s = s\<lparr>xs_launches := tbl_update (\<lambda>l. la_attempt l = aid)
     (\<lambda>l. l\<lparr>la_runner := runner_pause (la_runner l)\<rparr>) (xs_launches s)\<rparr>"

definition registered :: "'w exec_state \<Rightarrow> ident \<Rightarrow> ident option" where
  "registered s repo = coalesce (map_of (xs_active s) repo) (map_of (xs_pending s) repo)"

text \<open>\<open>pauseRun\<close> and \<open>killRun\<close> up to the awaited signal, and after it.\<close>

definition pauseRun :: "ident \<Rightarrow> 'w exec_state \<Rightarrow> 'w exec_state" where
  "pauseRun repo s = (case map_of (xs_active s) repo of None \<Rightarrow> s
     | Some a \<Rightarrow> (pause_attempt a s)\<lparr>xs_waits := xs_waits s @ [Pause_of repo]\<rparr>)"

definition killRun :: "ident \<Rightarrow> 'w exec_state \<Rightarrow> 'w exec_state" where
  "killRun repo s = (case registered s repo of None \<Rightarrow> s
     | Some a \<Rightarrow> (kill_attempt a s)\<lparr>xs_waits := xs_waits s @ [Kill_of repo]\<rparr>)"

definition finish_active :: "ident \<Rightarrow> exec_status \<Rightarrow> time \<Rightarrow> 'w exec_state \<Rightarrow> 'w exec_state" where
  "finish_active repo st now s = (case exec_getActiveRun repo (xs_rows s) of None \<Rightarrow> s
     | Some r \<Rightarrow> finish_row (er_id r) st None now s)"

fun signal_sent :: "time \<Rightarrow> waiting \<Rightarrow> 'w exec_state \<Rightarrow> 'w exec_state" where
  "signal_sent now (Pause_of repo) s = finish_active repo XS_paused now (s\<lparr>xs_active := AList.delete repo (xs_active s)\<rparr>)"
| "signal_sent now (Kill_of repo) s = finish_active repo XS_killed now (forget repo s)"

definition shutdown_targets :: "'w exec_state \<Rightarrow> ident list" where
  "shutdown_targets s = map snd (filter (\<lambda>(repo, a). map_of (xs_active s) repo = None) (xs_pending s)) @ map snd (xs_active s)"

definition executor_shutdown :: "'w exec_state \<Rightarrow> 'w exec_state" where
  "executor_shutdown s = fold kill_attempt (shutdown_targets s) (s\<lparr>xs_stopping := True\<rparr>)"

definition executor_status_of :: "ident \<Rightarrow> 'w exec_state \<Rightarrow> bool \<times> exec_row option" where
  "executor_status_of repo s = (registered s repo \<noteq> None, exec_getActiveRun repo (xs_rows s))"

section \<open>The machine\<close>

text \<open>
  An event names what happens next. Attempt identifiers are fresh UUIDs. Other actors take leases through the same
  service and release the ones they hold.
\<close>

datatype exec_event =
    Start_call ident ident bool
  | Preflight_over ident ident time prepared
  | Child_spawned ident int time ident
  | Spawn_error time ident
  | Retry_due time ident
  | Runner_event runner_event time ident
  | Turn_over time turn
  | Pause_request ident
  | Kill_request ident
  | Signal_sent time waiting
  | Shutdown
  | Other_acquires ident time ident ident actor_kind acquire_opts
  | Other_releases ident ident time

definition with_launch :: "launch_phase \<Rightarrow> ident \<Rightarrow> (launch \<Rightarrow> 'w exec_state \<Rightarrow> 'w exec_state) \<Rightarrow> 'w exec_state \<Rightarrow> 'w exec_state" where
  "with_launch ph a f s = (case tbl_get la_attempt a (xs_launches s) of None \<Rightarrow> s
     | Some l \<Rightarrow> if la_phase l = ph then f l s else s)"

definition ours :: "'w exec_state \<Rightarrow> ident \<Rightarrow> bool" where
  "ours s repo \<longleftrightarrow> (case lease_get repo (xs_own s) of None \<Rightarrow> False
     | Some e \<Rightarrow> list_ex (\<lambda>l. ls_actor e = Some (la_attempt l)) (xs_launches s))"

fun own_event :: "runner_event \<Rightarrow> bool" where
  "own_event (Child_exit c) = True"
| "own_event Child_error = True"
| "own_event Watchdog = True"
| "own_event e = False"

fun exec_step :: "'w exec_env \<Rightarrow> exec_event \<Rightarrow> 'w exec_state \<Rightarrow> 'w exec_state" where
  "exec_step en (Start_call repo d recovery) s = snd (startRun repo d recovery s)"
| "exec_step en (Preflight_over aid leaseId now p) s =
     (if p \<in> set (xs_prep s) \<and> tbl_get la_attempt aid (xs_launches s) = None then snd (launchRun en aid leaseId now p s) else s)"
| "exec_step en (Child_spawned procId pid now a) s = with_launch LP_spawning a (child_spawned en procId pid now) s"
| "exec_step en (Spawn_error now a) s = with_launch LP_spawning a (spawn_failed en now) s"
| "exec_step en (Retry_due now a) s = with_launch LP_sleeping a (retry_launch en now) s"
| "exec_step en (Runner_event e now a) s = (if own_event e then with_launch LP_up a (runner_moves en e now) s else s)"
| "exec_step en (Turn_over now t) s =
     (if t \<in> set (xs_turns s) then handleTurnCompletion en now t (s\<lparr>xs_turns := remove1 t (xs_turns s)\<rparr>) else s)"
| "exec_step en (Pause_request repo) s = pauseRun repo s"
| "exec_step en (Kill_request repo) s = killRun repo s"
| "exec_step en (Signal_sent now x) s =
     (if x \<in> set (xs_waits s) then signal_sent now x (s\<lparr>xs_waits := remove1 x (xs_waits s)\<rparr>) else s)"
| "exec_step en Shutdown s = executor_shutdown s"
| "exec_step en (Other_acquires leaseId now repo inst kind opts) s = on_own (snd \<circ> acquire leaseId now repo inst kind opts) s"
| "exec_step en (Other_releases repo inst now) s = (if ours s repo then s else on_own (release repo inst now) s)"

definition exec_run :: "'w exec_env \<Rightarrow> exec_event list \<Rightarrow> 'w exec_state \<Rightarrow> 'w exec_state" where
  "exec_run en evs s = fold (exec_step en) evs s"

end
