(* ===== verification/Executor_Laws.thy ===== *)
theory Executor_Laws
  imports Executor_Service
begin

text \<open>
  What the executor service promises. Every launch that may still have a child is backed by the lease of its repository, taken
  under its own attempt, in every interleaving; so a repository never has two such launches and no other actor can be
  admitted beside one. The rest are the ends of a run as they are stored, and runs that are lost.
\<close>

section \<open>Leases that are kept\<close>

named_theorems exec_frame "what an operation leaves of launches and leases"

definition in_flight :: "launch \<Rightarrow> bool" where
  "in_flight l \<longleftrightarrow> la_phase l \<noteq> LP_over"

definition holds :: "ident \<Rightarrow> own_state \<Rightarrow> ident \<Rightarrow> ident \<Rightarrow> bool" where
  "holds inst o1 repo a \<longleftrightarrow> (case lease_get repo o1 of None \<Rightarrow> False | Some e \<Rightarrow> ls_actor e = Some a \<and> ls_instance e = inst)"

definition keeps_holder :: "own_state \<Rightarrow> own_state \<Rightarrow> ident \<Rightarrow> bool" where
  "keeps_holder o1 o2 repo \<longleftrightarrow> (\<forall>inst a. holds inst o1 repo a \<longrightarrow> holds inst o2 repo a)"

lemma keeps_holder_refl [simp, intro]: "keeps_holder o1 o1 repo"
  by (simp add: keeps_holder_def)

lemma keeps_holder_trans: "keeps_holder o1 o2 repo \<Longrightarrow> keeps_holder o2 o3 repo \<Longrightarrow> keeps_holder o1 o3 repo"
  by (simp add: keeps_holder_def)

lemma same_leases_keep: "lease_get repo o2 = lease_get repo o1 \<Longrightarrow> keeps_holder o1 o2 repo"
  by (simp add: keeps_holder_def holds_def)

lemma write_keeps [exec_frame]:
  "keeps_holder o1 (quarantine j m now o1) repo" "keeps_holder o1 (markActive j now o1) repo"
  by (auto simp: keeps_holder_def holds_def quarantine_def markActive_def Let_def lease_write_def split: option.splits)

lemma insert_keeps [exec_frame]: "proc_insert p o1 = Some o2 \<Longrightarrow> keeps_holder o1 o2 repo"
  by (simp add: same_leases_keep)

lemma setState_keeps [exec_frame]: "keeps_holder o1 (proc_setState i st m now o1) repo"
  by (simp add: same_leases_keep)

lemma acquire_keeps_holder [exec_frame]: "keeps_holder o1 (snd (acquire i now j inst k opts o1)) repo"
  unfolding keeps_holder_def holds_def by (auto simp: acquire_keeps split: option.splits)

lemma release_elsewhere [exec_frame]: "repo \<noteq> j \<Longrightarrow> keeps_holder o1 (release j inst now o1) repo"
  by (rule same_leases_keep) (simp add: release_def Let_def split: option.splits)

text \<open>A refused lease changes no lease, a taken one was free.\<close>

lemma take_lease_keeps [exec_frame]:
  assumes "take_actor_lease en i now aid repo q o1 = (m, o2)" and "xv_instance en = Some inst"
  shows "(if m = None then lease_get repo o1 = None \<and> holds inst o2 repo aid
      \<and> (\<forall>j. j \<noteq> repo \<longrightarrow> keeps_holder o1 o2 j) else (\<forall>j. keeps_holder o1 o2 j))"
proof -
  let ?op = "\<lparr>ao_run = Some (di_run q), ao_iteration = Some (di_iter q), ao_actor = Some aid\<rparr>"
  obtain oc l o3 where ac: "acquire i now repo inst K_SINGLE_AGENT ?op o1 = ((oc, l), o3)" by (metis surj_pair)
  show ?thesis
  proof (cases oc)
    case Acquired
    with ac acquire_cases [where leaseId = i and now = now and repo = repo and inst = inst and kind = K_SINGLE_AGENT and opts = ?op and s = o1] have free: "lease_get repo o1 = None"
      by (auto split: option.splits if_splits)
    then obtain n where o3: "lease_get repo o3 = Some n" "ls_instance n = inst" and "ow_leases o3 = ow_leases o1 @ [n]"
      using ac acquire_cases [where leaseId = i and now = now and repo = repo and inst = inst and kind = K_SINGLE_AGENT and opts = ?op and s = o1] by auto
    moreover from this have "ls_repo n = repo" by (auto simp: lease_get_def dest: tbl_get_key)
    ultimately have other: "j \<noteq> repo \<Longrightarrow> lease_get j o3 = lease_get j o1" for j
      by (simp add: lease_get_def table_simps split: option.split)
    from assms ac Acquired have "m = None" and "o2 = bindActor repo aid (Some (Some (di_run q))) now o3"
      by (auto simp: take_actor_lease_def)
    then show ?thesis
      using free o3 other by (auto simp: bindActor_def holds_def lease_write_def intro!: same_leases_keep)
  next
    case Conflict
    with assms ac have "m \<noteq> None" and "o2 = snd (acquire i now repo inst K_SINGLE_AGENT ?op o1)"
      by (auto simp: take_actor_lease_def)
    then show ?thesis by (auto simp: acquire_keeps_holder)
  next
    case Quarantined
    with assms ac have "m \<noteq> None" and "o2 = snd (acquire i now repo inst K_SINGLE_AGENT ?op o1)"
      by (auto simp: take_actor_lease_def)
    then show ?thesis by (auto simp: acquire_keeps_holder)
  qed
qed

section \<open>Launches and their leases\<close>

definition backed :: "ident \<Rightarrow> 'w exec_state \<Rightarrow> bool" where
  "backed inst s \<longleftrightarrow> unique_keys la_attempt (xs_launches s)
     \<and> (\<forall>l \<in> set (xs_launches s). in_flight l \<longrightarrow> holds inst (xs_own s) (la_repoId l) (la_attempt l))"

text \<open>Only launches and leases matter.\<close>

lemma backed_cong: "xs_launches s' = xs_launches s \<Longrightarrow> xs_own s' = xs_own s \<Longrightarrow> backed inst s' = backed inst s"
  by (simp add: backed_def)

lemma backed_irrelevant [exec_frame, simp]:
  "backed inst (on_rows f s) = backed inst s" "backed inst (forget repo s) = backed inst s"
  "backed inst (start_over repo s) = backed inst s" "backed inst (finish_row i st m now s) = backed inst s"
  "backed inst (finish_active repo st now s) = backed inst s"
  "backed inst (consume_dispatch d now s) = backed inst s"
  by (auto simp: on_rows_def forget_def start_over_def finish_row_def finish_active_def consume_dispatch_def backed_def
      split: option.splits)

lemma unique_replace:
  "unique_keys key (tbl_update (\<lambda>x. key x = key l) (\<lambda>_. l) t) = unique_keys key t"
proof -
  have "map key (tbl_update (\<lambda>x. key x = key l) (\<lambda>_. l) t) = map key t"
    by (auto simp: tbl_update_def)
  then show ?thesis by (simp add: unique_keys_def)
qed

lemma put_backed:
  "backed inst s \<Longrightarrow> (in_flight l \<Longrightarrow> holds inst (xs_own s) (la_repoId l) (la_attempt l)) \<Longrightarrow> backed inst (put_launch l s)"
  by (auto simp: backed_def put_launch_def unique_replace) (auto simp: tbl_update_def split: if_splits)

lemma own_backed: "backed inst s \<Longrightarrow> (\<And>repo. keeps_holder (xs_own s) (f (xs_own s)) repo) \<Longrightarrow> backed inst (on_own f s)"
  by (auto simp: backed_def on_own_def keeps_holder_def)

lemma backed_same_repo:
  assumes "backed inst s" and "l \<in> set (xs_launches s)" and "l' \<in> set (xs_launches s)" and "in_flight l" and "in_flight l'"
    and "la_repoId l = la_repoId l'"
  shows "l = l'"
proof -
  from assms have "holds inst (xs_own s) (la_repoId l) (la_attempt l)" and "holds inst (xs_own s) (la_repoId l) (la_attempt l')"
    by (auto simp: backed_def)
  then have "la_attempt l = la_attempt l'" by (auto simp: holds_def split: option.splits)
  with assms show ?thesis by (metis backed_def option.inject tbl_get_unique)
qed

text \<open>The end of a launch: what happens to its own lease concerns no other launch.\<close>

lemma end_backed:
  assumes "backed inst s" and "l \<in> set (xs_launches s)" and "in_flight l"
    and "la_attempt l1 = la_attempt l" and "la_repoId l1 = la_repoId l"
    and "\<And>repo. repo \<noteq> la_repoId l \<Longrightarrow> keeps_holder (xs_own s) (f (xs_own s)) repo"
  shows "backed inst (on_own f (put_launch (l1\<lparr>la_phase := LP_over\<rparr>) s))"
proof -
  have "holds inst (f (xs_own s)) (la_repoId x) (la_attempt x)"
    if x: "x \<in> set (xs_launches (put_launch (l1\<lparr>la_phase := LP_over\<rparr>) s))" "in_flight x" for x
  proof -
    from x assms(4) have old: "x \<in> set (xs_launches s)" and "la_attempt x \<noteq> la_attempt l"
      by (auto simp: put_launch_def tbl_update_def in_flight_def split: if_splits)
    then have "la_repoId x \<noteq> la_repoId l" using backed_same_repo [OF assms(1) old assms(2) x(2) assms(3)] by auto
    moreover have "holds inst (xs_own s) (la_repoId x) (la_attempt x)" using assms(1) old x(2) by (simp add: backed_def)
    ultimately show ?thesis using assms(6) by (simp add: keeps_holder_def)
  qed
  moreover have "unique_keys la_attempt (xs_launches (put_launch (l1\<lparr>la_phase := LP_over\<rparr>) s))"
    using assms(1) unique_replace [of la_attempt "l1\<lparr>la_phase := LP_over\<rparr>" "xs_launches s"] by (simp add: backed_def put_launch_def)
  ultimately show ?thesis by (simp add: backed_def on_own_def put_launch_def)
qed

section \<open>Every step keeps the leases\<close>

lemma launch_failed_backed:
  assumes "backed inst s" and "x \<in> set (xs_launches s)" and "in_flight x"
    and "la_attempt l = la_attempt x" and "la_repoId l = la_repoId x"
  shows "backed inst (launch_failed en now l s)"
proof -
  have e: "backed inst (on_own f (put_launch (l\<lparr>la_phase := LP_over\<rparr>) s))"
    if "\<And>o1 repo. repo \<noteq> la_repoId x \<Longrightarrow> keeps_holder o1 (f o1) repo" for f
    using end_backed [OF assms(1-3) assms(4,5)] that by blast
  have p: "on_own f (finish_row i st m now (forget repo t)) = finish_row i st m now (forget repo (on_own f t))" for f i st m repo and t :: "'a exec_state"
    by (simp add: on_own_def finish_row_def forget_def on_rows_def)
  show ?thesis
    using e [of id] e [of "quarantine (la_repoId x) m now" for m] e [of "release (la_repoId x) i now" for i] assms(5)
    by (auto simp: launch_failed_def Let_def p exec_frame on_own_def [of id] split: option.splits)
qed

lemma try_launch_backed:
  assumes "backed inst s" and "x \<in> set (xs_launches s)" and "in_flight x"
    and "la_attempt l = la_attempt x" and "la_repoId l = la_repoId x"
  shows "backed inst (try_launch en now l s)"
proof -
  have "holds inst (xs_own s) (la_repoId l) (la_attempt l)" using assms by (simp add: backed_def)
  then have "backed inst (put_launch (l\<lparr>la_phase := LP_spawning, la_runner := r\<rparr>) s)" for r
    using assms(1) by (simp add: put_backed)
  then show ?thesis using launch_failed_backed [OF assms] by (simp add: try_launch_def)
qed

lemma launchRun_backed:
  assumes "backed inst s" and "xv_instance en = Some inst" and "tbl_get la_attempt aid (xs_launches s) = None"
  shows "backed inst (snd (launchRun en aid leaseId now p s))"
proof -
  obtain ev w where pre: "runPreflight (map_option rv_host (xv_git en)) (pp_repo p) (xs_world s) = (ev, w)" by (metis surj_pair)
  obtain m o2 where tk: "take_actor_lease en leaseId now aid (ry_id (pp_repo p)) (pp_dispatch p) (xs_own s) = (m, o2)" by (metis surj_pair)
  note t = take_lease_keeps [OF tk assms(2)]
  have refused: "backed inst s'" if "m \<noteq> None" "xs_launches s' = xs_launches s" "xs_own s' = o2" for s' :: "'a exec_state"
    using own_backed [OF assms(1), of "\<lambda>_. o2"] t that by (auto simp: on_own_def backed_def)
  have taken: "backed inst s'" if m: "m = None" and new: "xs_launches s' = xs_launches s @ [l]" "xs_own s' = o2"
      "la_attempt l = aid" "la_repo l = pp_repo p" for s' :: "'a exec_state" and l
  proof -
    from t m have free: "lease_get (ry_id (pp_repo p)) (xs_own s) = None" and h: "holds inst o2 (ry_id (pp_repo p)) aid"
      and k: "\<And>j. j \<noteq> ry_id (pp_repo p) \<Longrightarrow> keeps_holder (xs_own s) o2 j" by simp_all
    have "holds inst o2 (la_repoId x) (la_attempt x)" if "x \<in> set (xs_launches s)" "in_flight x" for x
    proof -
      have old: "holds inst (xs_own s) (la_repoId x) (la_attempt x)" using assms(1) that by (simp add: backed_def)
      then have "la_repoId x \<noteq> ry_id (pp_repo p)" using free by (auto simp: holds_def)
      then show ?thesis using k old by (simp add: keeps_holder_def)
    qed
    then show ?thesis using assms(1,3) new h by (auto simp: backed_def unique_keys_append)
  qed
  have plain: "backed inst s'" if "xs_launches s' = xs_launches s" "xs_own s' = xs_own s" for s' :: "'a exec_state"
    using assms(1) that backed_cong by blast
  have l: "la_attempt (launch_of en aid p ev iv) = aid" "la_repo (launch_of en aid p ev iv) = pp_repo p"
    "in_flight (launch_of en aid p ev iv)" for iv by (simp_all add: launch_of_def Let_def in_flight_def)
  show ?thesis
  proof (cases "exec_create (running_row en now aid (ry_id (pp_repo p)) (pp_dispatch p)) (xs_rows s)")
    case None
    then show ?thesis by (simp add: launchRun_def pre Let_def plain)
  next
    case (Some rows)
    note row = this
    show ?thesis
    proof (cases "start_invocation en p")
      case (Inl e)
      with row show ?thesis by (simp add: launchRun_def pre Let_def plain)
    next
      case (Inr iv)
      note iv = this
      let ?l = "launch_of en aid p ev iv"
      let ?s = "s\<lparr>xs_world := w, xs_prep := removeAll p (xs_prep s), xs_rows := rows, xs_own := o2,
        xs_pending := AList.update (ry_id (pp_repo p)) aid (xs_pending s), xs_launches := xs_launches s @ [?l]\<rparr>"
      show ?thesis
      proof (cases m)
        case None
        have "backed inst ?s" by (rule taken [OF None, where l = ?l]) (simp_all add: l)
        then have "backed inst (try_launch en now ?l ?s)" by (rule try_launch_backed [where x = ?l]) (simp_all add: l)
        with row iv tk None show ?thesis by (simp add: launchRun_def pre Let_def)
      next
        case (Some e)
        with row iv tk show ?thesis by (simp add: launchRun_def pre Let_def refused)
      qed
    qed
  qed
qed

lemma spawned_backed:
  assumes "backed inst s" and "l \<in> set (xs_launches s)" and "in_flight l"
  shows "backed inst (child_spawned en procId pid now l s)" "backed inst (spawn_failed en now l s)"
    "backed inst (retry_launch en now l s)"
proof -
  have h: "holds inst (xs_own s) (la_repoId l) (la_attempt l)" using assms by (simp add: backed_def)
  have admit: "backed inst (admit_child ms hook (l\<lparr>la_proc := x, la_spawned := b\<rparr>) (s\<lparr>xs_own := o1\<rparr>))"
    if k: "\<And>repo. keeps_holder (xs_own s) o1 repo" for ms hook x b o1
  proof -
    have "backed inst (s\<lparr>xs_own := o1, xs_active := u, xs_pending := v\<rparr>)" for u v
      using own_backed [OF assms(1), of "\<lambda>_. o1"] k by (simp add: on_own_def backed_def)
    moreover have "holds inst o1 (la_repoId l) (la_attempt l)" using k h by (simp add: keeps_holder_def)
    ultimately show ?thesis by (simp add: admit_child_def Let_def put_backed)
  qed
  have plain: "backed inst (admit_child ms hook l s)" for ms hook
    using admit [where ms = ms and hook = hook and x = "la_proc l" and b = "la_spawned l" and ?o1.0 = "xs_own s"] by simp
  have refuse: "backed inst (refuse_child en now (l\<lparr>la_proc := x\<rparr>) s)" for x
  proof -
    have "backed inst (on_own (quarantine (la_repoId l) m now) s)" for m
      by (rule own_backed [OF assms(1)]) (rule write_keeps)
    moreover have "holds inst (quarantine (la_repoId l) m now (xs_own s)) (la_repoId l) (la_attempt l)" for m
      using h write_keeps(1) by (simp add: keeps_holder_def)
    ultimately show ?thesis by (simp add: refuse_child_def Let_def put_backed on_own_def)
  qed
  show "backed inst (child_spawned en procId pid now l s)"
    using refuse by (auto simp: child_spawned_def plain intro!: admit keeps_holder_trans [OF insert_keeps write_keeps(2)] split: option.splits)
  show "backed inst (spawn_failed en now l s)"
    using assms h by (auto simp: spawn_failed_def intro!: launch_failed_backed put_backed)
  show "backed inst (retry_launch en now l s)"
    using assms by (auto simp: retry_launch_def intro!: try_launch_backed)
qed

lemma exit_backed:
  assumes "backed inst s" and "l \<in> set (xs_launches s)" and "in_flight l" and "xv_instance en = Some inst"
  shows "backed inst (runner_moves en e now l s)"
proof -
  have h: "holds inst (xs_own s) (la_repoId l) (la_attempt l)" using assms by (simp add: backed_def)
  have k: "repo \<noteq> la_repoId l \<Longrightarrow> keeps_holder o1 (release_actor en x now (l\<lparr>la_runner := r\<rparr>) o1) repo" for repo o1 x r
    by (auto simp: release_actor_def intro: keeps_holder_trans [OF setState_keeps release_elsewhere] release_elsewhere split: option.splits)
  have p: "on_own f (forget repo t) = forget repo (on_own f t)" for f repo and t :: "'a exec_state"
    by (simp add: on_own_def forget_def)
  have "backed inst (on_exit en now x (l\<lparr>la_runner := r\<rparr>) s)" for x r
    using end_backed [OF assms(1-3), of "l\<lparr>la_runner := r\<rparr>" "release_actor en x now (l\<lparr>la_runner := r\<rparr>)"] k
    by (simp add: on_exit_def Let_def p backed_cong [of "_\<lparr>xs_turns := _\<rparr>"])
  then show ?thesis using assms(1) h by (auto simp: runner_moves_def Let_def intro!: put_backed)
qed

lemma ball_update: "(\<forall>x \<in> set (tbl_update p f t). Q x) = (\<forall>x \<in> set t. Q (if p x then f x else x))"
  by (auto simp: tbl_update_def)

lemma kill_backed [exec_frame]:
  "backed inst (kill_attempt a s) = backed inst s" "backed inst (pause_attempt a s) = backed inst s"
  by (simp_all add: backed_def kill_attempt_def pause_attempt_def unique_keys_update in_flight_def ball_update if_distrib cong: if_cong)

lemma kills_backed: "backed inst (fold kill_attempt as s) = backed inst s"
  by (induction as arbitrary: s) (simp_all add: kill_backed)

lemma control_backed:
  "backed inst (pauseRun repo s) = backed inst s" "backed inst (killRun repo s) = backed inst s"
  "backed inst (executor_shutdown s) = backed inst s" "backed inst (snd (startRun repo d rec s)) = backed inst s"
  using kills_backed [of inst "shutdown_targets s" "s\<lparr>xs_stopping := True\<rparr>"] kill_backed [of inst _ s]
  by (auto simp: pauseRun_def killRun_def executor_shutdown_def startRun_def backed_def split: option.splits)

lemma signal_backed: "backed inst (signal_sent now x s) = backed inst s"
  by (cases x) (simp_all add: backed_cong [of "_\<lparr>xs_active := _\<rparr>"])

lemma turn_backed: "backed inst (handleTurnCompletion en now t s) = backed inst s"
  by (auto simp: handleTurnCompletion_def read_result_def Let_def consume_dispatch_def backed_def
      split: option.splits prod.splits if_splits)

lemma others_release_backed:
  assumes "backed inst s" and "\<not> ours s repo"
  shows "backed inst (on_own (release repo i now) s)"
proof -
  have "holds inst (release repo i now (xs_own s)) (la_repoId x) (la_attempt x)"
    if x: "x \<in> set (xs_launches s)" "in_flight x" for x
  proof -
    have old: "holds inst (xs_own s) (la_repoId x) (la_attempt x)" using assms(1) x by (simp add: backed_def)
    with assms(2) x have "la_repoId x \<noteq> repo" by (auto simp: ours_def holds_def list_ex_iff split: option.splits)
    then show ?thesis using release_elsewhere old by (simp add: keeps_holder_def)
  qed
  with assms(1) show ?thesis by (simp add: backed_def on_own_def)
qed

lemma step_backed:
  assumes "backed inst s" and "xv_instance en = Some inst"
  shows "backed inst (exec_step en e s)"
proof -
  have w: "backed inst (with_launch ph a f s)" if "\<And>l. l \<in> set (xs_launches s) \<Longrightarrow> la_phase l = ph \<Longrightarrow> backed inst (f l s)" for ph a f
    using assms(1) that by (auto simp: with_launch_def dest: tbl_get_in_set split: option.splits)
  show ?thesis
  proof (cases e)
    case (Preflight_over aid leaseId now p)
    then show ?thesis using assms launchRun_backed by auto
  next
    case (Child_spawned procId pid now a)
    then show ?thesis by (auto intro!: w spawned_backed assms simp: in_flight_def)
  next
    case (Spawn_error now a)
    then show ?thesis by (auto intro!: w spawned_backed assms simp: in_flight_def)
  next
    case (Retry_due now a)
    then show ?thesis by (auto intro!: w spawned_backed assms simp: in_flight_def)
  next
    case (Runner_event ev now a)
    then show ?thesis by (auto intro!: w exit_backed assms simp: in_flight_def)
  next
    case (Turn_over now t)
    then show ?thesis using assms(1) by (simp add: turn_backed backed_cong [of "_\<lparr>xs_turns := _\<rparr>"])
  next
    case (Signal_sent now x)
    then show ?thesis using assms(1) by (simp add: signal_backed backed_cong [of "_\<lparr>xs_waits := _\<rparr>"])
  next
    case (Other_acquires i now repo j k opts)
    then show ?thesis using assms(1) by (auto intro!: own_backed acquire_keeps_holder)
  next
    case (Other_releases repo j now)
    then show ?thesis using assms(1) others_release_backed [OF assms(1)] by simp
  qed (simp_all add: assms(1) control_backed)
qed

lemma run_backed: "backed inst s \<Longrightarrow> xv_instance en = Some inst \<Longrightarrow> backed inst (exec_run en evs s)"
  unfolding exec_run_def by (induction evs arbitrary: s) (simp_all add: step_backed)

text \<open>
  C17: one executor per repository. From a service without launches on, whatever starts, spawns, retries, exits, kills, pauses,
  timeouts and shutdowns follow in whatever order, two launches of one repository that may still have a child are the same,
  and while there is one, no actor of any kind is given the lease of the repository. Hypothesis: the service knows the
  owner identity of its controller, under which it takes the leases.
\<close>

theorem one_executor_per_repository:
  assumes "xv_instance en = Some inst" and "xs_launches s0 = []"
  shows "let s = exec_run en evs s0 in \<forall>l \<in> set (xs_launches s). in_flight l \<longrightarrow>
       (\<forall>l' \<in> set (xs_launches s). in_flight l' \<and> la_repoId l' = la_repoId l \<longrightarrow> l' = l)
       \<and> fst (fst (acquire i now (la_repoId l) inst' kind opts (xs_own s))) \<noteq> Acquired"
proof -
  let ?s = "exec_run en evs s0"
  have b: "backed inst ?s" by (rule run_backed) (simp_all add: assms backed_def unique_keys_def)
  have "fst (fst (acquire i now (la_repoId l) inst' kind opts (xs_own ?s))) \<noteq> Acquired"
    if "l \<in> set (xs_launches ?s)" "in_flight l" for l
  proof -
    from b that have "holds inst (xs_own ?s) (la_repoId l) (la_attempt l)" by (simp add: backed_def)
    then show ?thesis
      using acquire_cases [where leaseId = i and now = now and repo = "la_repoId l" and inst = inst' and kind = kind and opts = opts and s = "xs_own ?s"]
      by (auto simp: holds_def split: option.splits if_splits)
  qed
  with backed_same_repo [OF b] show ?thesis unfolding Let_def by blast
qed

section \<open>The end of a run\<close>

definition reason_inv :: "runner \<Rightarrow> bool" where
  "reason_inv r \<longleftrightarrow> runner_inv r \<and> list_all (\<lambda>x. xd_reason x = WATCHDOG_TIMEOUT \<longrightarrow> xd_timedOut x) (rn_exits r)
     \<and> (case rn_pendingExit r of Some (c, WATCHDOG_TIMEOUT) \<Rightarrow> rn_timedOut r | _ \<Rightarrow> True)"

lemma reason_inv_step: "reason_inv r \<Longrightarrow> reason_inv (runner_step ms hook e r)"
  using runner_inv_step [of r ms hook e]
  by (cases e) (auto simp: reason_inv_def runner_defs exit_cause_def split: option.splits prod.splits exit_reason.splits)

lemma reason_inv_run: "reason_inv (runner_run ms hook evs)"
proof -
  have "reason_inv r \<Longrightarrow> reason_inv (fold (runner_step ms hook) evs r)" for r
    by (induction evs arbitrary: r) (simp_all add: reason_inv_step)
  then show ?thesis by (simp add: runner_run_def new_runner_def reason_inv_def runner_inv_def)
qed

text \<open>
  The watchdog ends its child with \<open>kill\<close>, and the kill is looked at before the timeout: whatever happens to a runner, its
  exit is never stored as timed out, and the expiry of the budget is never told.
\<close>

theorem timeout_never_stored:
  "list_all (\<lambda>x. fst (exit_outcome x) \<noteq> XS_timed_out) (rn_exits (runner_run ms hook evs))"
proof -
  have "fst (exit_outcome x) \<noteq> XS_timed_out"
    if "xd_reason x = WATCHDOG_TIMEOUT \<longrightarrow> xd_timedOut x" "xd_timedOut x \<longrightarrow> xd_wasKilled x \<or> xd_wasPaused x" for x
    using that by (auto simp: exit_outcome_def split: option.splits)
  then show ?thesis
    using reason_inv_run [of ms hook evs] by (auto simp: reason_inv_def runner_inv_def list_all_iff)
qed

text \<open>A child that a signal from elsewhere ended has no exit code; its run is stored as completed.\<close>

theorem signal_death_stored_as_completed:
  "map exit_outcome (rn_exits (runner_run 0 True [Start, Spawned, Hook_settled True, Child_exit None])) = [(XS_completed, None)]"
  by code_simp

end
