(* ===== verification/Result_Laws.thy ===== *)
theory Result_Laws
  imports Executor_Results
begin

text \<open>
  What an accepted result manifest stands for: it names the dispatch, its commit is part of the published history, and the
  manifest was committed. Git is trusted in its answers on ancestry and on the head of the remote only.
\<close>

section \<open>Trusted answers\<close>









section \<open>The remote\<close>



section \<open>The accepted result\<close>




section \<open>An example\<close>

definition sha_of :: "char \<Rightarrow> string" where
  "sha_of c = replicate 40 c"

definition result_json :: "string \<Rightarrow> string \<Rightarrow> jv" where
  "result_json base cli = V_obj [(''schemaVersion'', V_num 1), (''type'', V_str ''executor-result''), (''runId'', V_str ''a''),
     (''dispatchId'', V_str ''d-1''), (''iteration'', V_num 2), (''status'', V_str ''COMPLETED''), (''startedAt'', V_str ''now''),
     (''finishedAt'', V_str ''now''), (''baseSha'', V_str base), (''resultSha'', V_str (sha_of (CHR ''b''))),
     (''executor'', V_obj [(''cli'', V_str cli), (''model'', V_str ''m''), (''environment'', V_str ''windows'')]),
     (''verification'', V_arr []), (''blockers'', V_arr []), (''summary'', V_str ''s'')]"

text \<open>A checkout at \<open>b\<close>, whose one ancestor relation is that \<open>b\<close> is part of itself, and a remote that is there too.\<close>

definition result_host :: "unit host" where
  "result_host = \<lparr>hs_exec = (\<lambda>c args cwd w.
       if ''merge-base'' \<in> set args
       then (if last args = sha_of (CHR ''b'') \<and> last (butlast args) = sha_of (CHR ''b'') then Exec_ok [] else Exec_fail [] [], w)
       else if ''ls-remote'' \<in> set args then (Exec_ok (sha_of (CHR ''b'') @ CHR 0x09 # ''refs/heads/main''), w)
       else if ''rev-parse'' \<in> set args then (Exec_ok (sha_of (CHR ''b'')), w)
       else (Exec_ok ''d'', w)),
     hs_exists = (\<lambda>p w. True), hs_mkdir = (\<lambda>p w. (None, w)), hs_rm = (\<lambda>p w. (None, w)), hs_write = (\<lambda>p t w. (None, w)),
     hs_subdirs = (\<lambda>p w. None)\<rparr>"

definition result_reader :: "string \<Rightarrow> string \<Rightarrow> unit result_env" where
  "result_reader base cli = \<lparr>rv_host = result_host,
     rv_markers = \<lparr>me_parse = (\<lambda>t. Inr (result_json base cli)), me_datetime = (\<lambda>s. Some 5)\<rparr>,
     rv_readFile = (\<lambda>p w. (Inr ''d'', w))\<rparr>"

definition result_repo :: "string \<Rightarrow> repository" where
  "result_repo cli = \<lparr>ry_id = ''r'', ry_displayName = ''r'', ry_remote = ''u'', ry_localPath = ''/d/r'', ry_env = ENV_windows, ry_distro = None,
     ry_cli = cli, ry_model = ''m'', ry_solUrl = [], ry_maxIterations = 20, ry_maxRuntime = 480, ry_enabled = True,
     ry_created = 0, ry_updated = 0\<rparr>"

definition result_dispatch :: "string \<Rightarrow> dispatch" where
  "result_dispatch base = \<lparr>di_id = ''d-1'', di_repo = ''r'', di_run = ''a'', di_iter = 2, di_commit = sha_of (CHR ''c''), di_base = base,
     di_change = ''x'', di_goal = ''g'', di_version = 1, di_status = DI_detected, di_reason = None, di_strategy = None,
     di_plan = None, di_created = 0, di_updated = 0\<rparr>"







section \<open>Correlations that fail or hold too easily\<close>

text \<open>The same commit in capitals is no base: the manifest of a dispatch that names its base in capitals is refused.\<close>

theorem capital_base_refuses_result:
  "let base = replicate 40 (CHR ''A'') in isSha40 base \<and> js_lower base = sha_of (CHR ''a'')
   \<and> fst (readAndValidateResult (result_reader (sha_of (CHR ''a'')) ''kimi'') (Some (result_repo ''kimi''))
        (Some (result_dispatch base)) ''d-1'' ()) = None
   \<and> fst (readAndValidateResult (result_reader base ''kimi'') (Some (result_repo ''kimi''))
        (Some (result_dispatch base)) ''d-1'' ()) \<noteq> None"
  by code_simp

text \<open>A harness is taken for the configured one as soon as its name contains the configured name.\<close>

theorem other_harness_accepted:
  "executorIdentityMatches ''/opt/tools/code.exe'' ''opencode'' \<and> executorIdentityMatches ''/usr/bin/pi'' ''copilot-api''"
  by code_simp

end
