(* ===== verification/Executor_Scenarios.thy ===== *)
theory Executor_Scenarios
  imports Executor_Laws Result_Laws
begin

text \<open>
  The executor service on one repository: the witness of its law, a run from its start to its consumed dispatch, and runs
  whose record no longer tells what their process does.
\<close>

section \<open>A small service\<close>

definition exec_demo_env :: "unit exec_env" where
  "exec_demo_env = \<lparr>xv_instance = Some ''c'', xv_capture = (\<lambda>_. (Some ''kimi'', Some ''9'')), xv_watchdogMs = 0, xv_policy = (\<lambda>_. None),
     xv_node = ''node'', xv_var = (\<lambda>_. None), xv_dataDir = ''/data'', xv_git = None, xv_transition = False,
     xv_onCompleted = (\<lambda>_ _ _ l. l), xv_sqlMessage = ''sql''\<rparr>"

definition exec_demo_dispatch :: "ident \<Rightarrow> dispatch" where
  "exec_demo_dispatch i = (result_dispatch (sha_of (CHR ''a'')))\<lparr>di_id := i\<rparr>"

definition exec_demo_state :: "unit exec_state" where
  "exec_demo_state = \<lparr>xs_repos = [result_repo ''kimi''],
     xs_loop = upd_app (\<lambda>a. a\<lparr>ap_dispatches := map exec_demo_dispatch [''d-1'', ''d-2'', ''d-3'']\<rparr>) (demo_state []),
     xs_rows = [], xs_own = \<lparr>ow_leases = [], ow_procs = [], ow_audit = []\<rparr>, xs_active = [], xs_pending = [], xs_starting = [],
     xs_stopping = False, xs_prep = [], xs_launches = [], xs_turns = [], xs_waits = [], xs_world = ()\<rparr>"

definition starting :: "ident \<Rightarrow> ident \<Rightarrow> time \<Rightarrow> exec_event list" where
  "starting a d now = [Start_call ''r'' d False,
     Preflight_over a (CHR ''l'' # a) now \<lparr>pp_repo = result_repo ''kimi'', pp_dispatch = exec_demo_dispatch d, pp_recovery = False\<rparr>]"

definition up :: "ident \<Rightarrow> ident \<Rightarrow> time \<Rightarrow> exec_event list" where
  "up a d now = starting a d now @ [Child_spawned (CHR ''p'' # a) 100 now a]"

definition status_of :: "'w exec_state \<Rightarrow> ident \<Rightarrow> exec_status option" where
  "status_of s a = map_option er_status (exec_get a (xs_rows s))"

definition phase_of :: "'w exec_state \<Rightarrow> ident \<Rightarrow> launch_phase option" where
  "phase_of s a = map_option la_phase (tbl_get la_attempt a (xs_launches s))"

theorem one_executor_per_repository_witness:
  "let s = exec_run exec_demo_env (up ''a1'' ''d-1'' 5) exec_demo_state in \<forall>l \<in> set (xs_launches s). in_flight l \<longrightarrow>
       (\<forall>l' \<in> set (xs_launches s). in_flight l' \<and> la_repoId l' = la_repoId l \<longrightarrow> l' = l)
       \<and> fst (fst (acquire ''i'' 6 (la_repoId l) ''c'' K_SWARM \<lparr>ao_run = None, ao_iteration = None, ao_actor = None\<rparr> (xs_own s))) \<noteq> Acquired"
  by (rule one_executor_per_repository) (simp_all add: exec_demo_env_def exec_demo_state_def)

text \<open>The law is about something: the launch is up, registered, its row runs and its lease is active.\<close>

theorem executor_comes_up:
  "let s = exec_run exec_demo_env (up ''a1'' ''d-1'' 5) exec_demo_state in
     phase_of s ''a1'' = Some LP_up \<and> status_of s ''a1'' = Some XS_running \<and> fst (executor_status_of ''r'' s)
     \<and> map_option ls_state (lease_get ''r'' (xs_own s)) = Some L_ACTIVE \<and> xs_starting s = [] \<and> xs_pending s = []"
  by code_simp

text \<open>A run to its end: the exit frees the lease and the registration, and the turn consumes the dispatch of a valid result.\<close>

definition reading_env :: "unit exec_env" where
  "reading_env = exec_demo_env\<lparr>xv_git := Some (result_reader (sha_of (CHR ''a'')) ''kimi'')\<rparr>"

theorem executor_run_ends:
  "let s = exec_run reading_env (up ''a1'' ''d-1'' 5 @ [Runner_event (Child_exit (Some 0)) 8 ''a1'',
         Turn_over 9 \<lparr>tu_repo = ''r'', tu_dispatch = ''d-1'', tu_status = XS_completed\<rparr>]) exec_demo_state in
     status_of s ''a1'' = Some XS_completed \<and> lease_get ''r'' (xs_own s) = None \<and> \<not> fst (executor_status_of ''r'' s)
     \<and> map_option di_status (dispatch_get ''d-1'' (ap_dispatches (ts_app (xs_loop s)))) = Some DI_consumed"
  by code_simp

section \<open>Runs that are lost\<close>

text \<open>A start that the lease refuses has stored its row before: it stays running for ever.\<close>

definition quarantined_state :: "unit exec_state" where
  "quarantined_state = exec_demo_state\<lparr>xs_own := \<lparr>ow_leases = [\<lparr>ls_repo = ''r'', ls_id = ''l0'', ls_instance = ''old'', ls_run = None,
     ls_iteration = None, ls_kind = K_SWARM, ls_actor = None, ls_state = L_QUARANTINED, ls_created = 1, ls_updated = 1,
     ls_released = None, ls_error = None\<rparr>], ow_procs = [], ow_audit = []\<rparr>\<rparr>"

theorem refused_start_stays_running:
  "let s = exec_run exec_demo_env (starting ''a1'' ''d-1'' 5) quarantined_state in
     status_of s ''a1'' = Some XS_running \<and> xs_launches s = []
     \<and> map_option er_id (snd (executor_status_of ''r'' s)) = Some ''a1'' \<and> \<not> fst (executor_status_of ''r'' s)"
  by code_simp

text \<open>
  What \<open>killRun\<close> does after its signal is keyed by the repository. When the killed child has ended meanwhile and the next
  run is up, the kill unregisters that run and stores it as killed, while its child works on; it can be neither killed nor
  paused any more, and the start after it leaves a second row that runs for ever.
\<close>

theorem kill_hits_next_run:
  "let s = exec_run exec_demo_env (up ''a1'' ''d-1'' 5 @ [Kill_request ''r'', Runner_event (Child_exit None) 6 ''a1''] @ up ''a2'' ''d-2'' 7
         @ [Signal_sent 8 (Kill_of ''r'')]) exec_demo_state;
       t = exec_run exec_demo_env (Kill_request ''r'' # starting ''a3'' ''d-3'' 9) s in
     status_of s ''a2'' = Some XS_killed \<and> phase_of s ''a2'' = Some LP_up \<and> \<not> fst (executor_status_of ''r'' s)
     \<and> map_option (\<lambda>l. rn_killed (la_runner l)) (tbl_get la_attempt ''a2'' (xs_launches t)) = Some False
     \<and> status_of t ''a3'' = Some XS_running \<and> phase_of t ''a3'' = None"
  by code_simp

end
