(* ===== verification/Runtime_Lock.thy ===== *)
theory Runtime_Lock
  imports Markers Process_Probe
begin

text \<open>
  \<open>ControllerRuntimeLock\<close> of \<open>apps/controller/src/runtime/singleton-lock.ts\<close>: the lock file that makes one controller the
  owner of a data directory. A file is an inode with its content, since a handle keeps writing to the inode it opened. The
  calls of one controller are atomic first; then every access to the file is a step of its own, and controllers interleave.
\<close>

section \<open>The lock file\<close>

record lock_meta =
  lm_pid :: rat
  lm_started :: string
  lm_version :: string
  lm_protocol :: rat
  lm_endpoint :: "string option"
  lm_token :: "string option"
  lm_instance :: "ident option"

datatype lock_content = Unreadable string | Not_json | Parsed jv

record lock_fs =
  lk_file :: "(nat \<times> lock_content) option"
  lk_next :: nat

definition opt_key :: "string \<Rightarrow> string option \<Rightarrow> (string \<times> jv) list" where
  "opt_key k x = (case x of None \<Rightarrow> [] | Some s \<Rightarrow> [(k, V_str s)])"

text \<open>\<open>JSON.stringify\<close> of the metadata, as the value that is read back.\<close>

definition meta_json :: "lock_meta \<Rightarrow> jv" where
  "meta_json m = V_obj ([(''service'', V_str ''orca-controller''), (''pid'', V_num (lm_pid m)), (''startedAt'', V_str (lm_started m)),
     (''version'', V_str (lm_version m)), (''protocol'', V_num (lm_protocol m))]
     @ opt_key ''endpoint'' (lm_endpoint m) @ opt_key ''controlToken'' (lm_token m) @ opt_key ''instanceId'' (lm_instance m))"

definition text_field :: "jv option \<Rightarrow> string option" where
  "text_field x = (case x of Some (V_str s) \<Rightarrow> Some s | _ \<Rightarrow> None)"

definition number_field :: "jv option \<Rightarrow> rat option" where
  "number_field x = (case x of Some (V_num n) \<Rightarrow> Some n | _ \<Rightarrow> None)"

definition unknown_or :: "string \<Rightarrow> string option \<Rightarrow> string" where
  "unknown_or d x = (case x of None \<Rightarrow> d | Some s \<Rightarrow> s)"

definition meta_of :: "jv \<Rightarrow> lock_meta option" where
  "meta_of v = (case v of
       V_obj fs \<Rightarrow> (let g = map_of fs in
         (case (number_field (g ''pid''), text_field (g ''startedAt'')) of
            (Some n, Some t) \<Rightarrow> if g ''service'' = Some (V_str ''orca-controller'')
              then Some \<lparr>lm_pid = n, lm_started = t, lm_version = unknown_or ''unknown'' (text_field (g ''version'')),
                lm_protocol = (case number_field (g ''protocol'') of None \<Rightarrow> 0 | Some p \<Rightarrow> p),
                lm_endpoint = text_field (g ''endpoint''), lm_token = text_field (g ''controlToken''), lm_instance = None\<rparr>
              else None
          | _ \<Rightarrow> None))
     | _ \<Rightarrow> None)"

definition readMetadata :: "lock_fs \<Rightarrow> lock_meta option \<times> string option" where
  "readMetadata fs = (case lk_file fs of
       None \<Rightarrow> (None, None)
     | Some (_, Unreadable code) \<Rightarrow> (None, Some (''unreadable-lock: '' @ code))
     | Some (_, Not_json) \<Rightarrow> (None, Some ''unrecognized-lock-content'')
     | Some (_, Parsed v) \<Rightarrow> (case meta_of v of None \<Rightarrow> (None, Some ''unrecognized-lock-content'') | Some m \<Rightarrow> (Some m, None)))"

definition pid_alive :: "(int \<Rightarrow> kill0_result) \<Rightarrow> rat \<Rightarrow> bool" where
  "pid_alive kill0 q = (let n = \<lfloor>q\<rfloor> in of_int n = q \<and> 0 < n \<and> (kill0 n = Kill_ok \<or> kill0 n = Kill_EPERM))"

definition controlTokenMatches :: "jv \<Rightarrow> string option \<Rightarrow> bool" where
  "controlTokenMatches presented expected = (case (presented, expected) of
       (V_str a, Some b) \<Rightarrow> b \<noteq> [] \<and> length a = length b \<and> a = b | _ \<Rightarrow> False)"

section \<open>Calls\<close>

definition open_excl :: "lock_fs \<Rightarrow> (nat \<times> lock_fs) option" where
  "open_excl fs = (if lk_file fs = None
     then Some (lk_next fs, fs\<lparr>lk_file := Some (lk_next fs, Not_json), lk_next := lk_next fs + 1\<rparr>) else None)"

definition write_handle :: "nat \<Rightarrow> lock_content \<Rightarrow> lock_fs \<Rightarrow> lock_fs" where
  "write_handle i c fs = (case lk_file fs of None \<Rightarrow> fs | Some (j, _) \<Rightarrow> if j = i then fs\<lparr>lk_file := Some (j, c)\<rparr> else fs)"

definition rm_force :: "lock_fs \<Rightarrow> lock_fs" where
  "rm_force fs = fs\<lparr>lk_file := None\<rparr>"

datatype lock_outcome = Lock_acquired | Lock_reclaimed "lock_meta option" string | Lock_busy lock_meta

definition lock_owned :: "lock_outcome \<Rightarrow> bool" where
  "lock_owned r = (case r of Lock_busy _ \<Rightarrow> False | _ \<Rightarrow> True)"

definition unknownBusyMetadata :: lock_meta where
  "unknownBusyMetadata = \<lparr>lm_pid = - 1, lm_started = ''1970-01-01T00:00:00.000Z'', lm_version = ''unknown'', lm_protocol = 0,
     lm_endpoint = None, lm_token = None, lm_instance = None\<rparr>"

definition writeLock :: "lock_meta \<Rightarrow> lock_fs \<Rightarrow> bool \<times> lock_fs" where
  "writeLock me fs = (case open_excl (rm_force fs) of None \<Rightarrow> (False, rm_force fs)
     | Some (i, fs1) \<Rightarrow> (True, write_handle i (Parsed (meta_json me)) fs1))"

text \<open>\<open>me\<close> is what \<open>buildMetadata\<close> gives. A recorded pid that is no integer counts as dead; the reason names it rounded down.\<close>

definition lock_acquire :: "(int \<Rightarrow> kill0_result) \<Rightarrow> lock_meta \<Rightarrow> lock_fs \<Rightarrow> lock_outcome \<times> lock_fs" where
  "lock_acquire kill0 me fs = (case open_excl fs of
       Some (i, fs1) \<Rightarrow> (Lock_acquired, write_handle i (Parsed (meta_json me)) fs1)
     | None \<Rightarrow> (case readMetadata fs of
           (None, err) \<Rightarrow> (case writeLock me fs of
               (True, fs1) \<Rightarrow> (Lock_reclaimed None (unknown_or ''corrupt-lock'' err), fs1)
             | (False, fs1) \<Rightarrow> (Lock_busy unknownBusyMetadata, fs1))
         | (Some m, _) \<Rightarrow>
             if pid_alive kill0 (lm_pid m) then (Lock_busy m, fs)
             else (case writeLock me fs of
                 (True, fs1) \<Rightarrow> (Lock_reclaimed (Some m) (''stale-pid-'' @ js_int \<lfloor>lm_pid m\<rfloor> @ ''-not-alive''), fs1)
               | (False, fs1) \<Rightarrow> (Lock_busy m, fs1))))"

text \<open>\<open>writeFileSync\<close> by path keeps the inode of an existing file.\<close>

definition write_path :: "lock_content \<Rightarrow> lock_fs \<Rightarrow> lock_fs" where
  "write_path c fs = (case lk_file fs of
       None \<Rightarrow> fs\<lparr>lk_file := Some (lk_next fs, c), lk_next := lk_next fs + 1\<rparr>
     | Some (j, _) \<Rightarrow> fs\<lparr>lk_file := Some (j, c)\<rparr>)"

definition lock_refresh :: "bool \<Rightarrow> string option \<Rightarrow> lock_fs \<Rightarrow> lock_fs" where
  "lock_refresh owned endpoint fs = (if \<not> owned then fs else (case fst (readMetadata fs) of None \<Rightarrow> fs
     | Some m \<Rightarrow> write_path (Parsed (meta_json (m\<lparr>lm_endpoint := (case endpoint of None \<Rightarrow> lm_endpoint m | Some e \<Rightarrow> Some e)\<rparr>))) fs))"

definition lock_release :: "bool \<Rightarrow> rat \<Rightarrow> lock_fs \<Rightarrow> lock_fs" where
  "lock_release owned me fs = (if \<not> owned then fs else (case fst (readMetadata fs) of
       None \<Rightarrow> rm_force fs | Some m \<Rightarrow> if lm_pid m = me then rm_force fs else fs))"

section \<open>One call at a time\<close>

record lock_sys =
  ly_fs :: lock_fs
  ly_alive :: "int list"
  ly_owners :: "int list"

datatype lock_op = L_start int | L_acquire int lock_meta | L_refresh int "string option" | L_release int | L_crash int

definition kill0_of :: "int list \<Rightarrow> int \<Rightarrow> kill0_result" where
  "kill0_of alive p = (if p \<in> set alive then Kill_ok else Kill_other)"

fun lock_op_step :: "lock_op \<Rightarrow> lock_sys \<Rightarrow> lock_sys" where
  "lock_op_step (L_start p) s = (if 0 < p then s\<lparr>ly_alive := p # ly_alive s\<rparr> else s)"
| "lock_op_step (L_acquire p m) s = (if p \<in> set (ly_alive s) then
     (case lock_acquire (kill0_of (ly_alive s)) (m\<lparr>lm_pid := of_int p\<rparr>) (ly_fs s) of
        (r, fs) \<Rightarrow> s\<lparr>ly_fs := fs, ly_owners := (if lock_owned r then p # ly_owners s else ly_owners s)\<rparr>) else s)"
| "lock_op_step (L_refresh p e) s = s\<lparr>ly_fs := lock_refresh (p \<in> set (ly_owners s)) e (ly_fs s)\<rparr>"
| "lock_op_step (L_release p) s = s\<lparr>ly_fs := lock_release (p \<in> set (ly_owners s)) (of_int p) (ly_fs s),
     ly_owners := removeAll p (ly_owners s)\<rparr>"
| "lock_op_step (L_crash p) s = s\<lparr>ly_alive := removeAll p (ly_alive s), ly_owners := removeAll p (ly_owners s)\<rparr>"

definition no_lock :: lock_sys where
  "no_lock = \<lparr>ly_fs = \<lparr>lk_file = None, lk_next = 0\<rparr>, ly_alive = [], ly_owners = []\<rparr>"

lemma meta_roundtrip: "meta_of (meta_json m) = Some (m\<lparr>lm_instance := None\<rparr>)"
  by (cases "lm_endpoint m"; cases "lm_token m"; cases "lm_instance m")
    (simp_all add: meta_of_def meta_json_def opt_key_def number_field_def text_field_def unknown_or_def)

lemma read_recorded: "lk_file fs = Some (i, Parsed (meta_json m)) \<Longrightarrow> readMetadata fs = (Some (m\<lparr>lm_instance := None\<rparr>), None)"
  by (simp add: readMetadata_def meta_roundtrip)

definition recorded_owner :: "lock_fs \<Rightarrow> int \<Rightarrow> bool" where
  "recorded_owner fs p \<longleftrightarrow> (\<exists>i m. lk_file fs = Some (i, Parsed (meta_json m)) \<and> lm_pid m = of_int p)"

lemma recorded_read: "recorded_owner fs p \<Longrightarrow> \<exists>m. readMetadata fs = (Some m, None) \<and> lm_pid m = of_int p"
  by (auto simp: recorded_owner_def read_recorded)

lemma recorded_unique: "recorded_owner fs p \<Longrightarrow> recorded_owner fs q \<Longrightarrow> p = q"
  using recorded_read [of fs p] recorded_read [of fs q] by auto

text \<open>What a call leaves of the file.\<close>

lemma written: "writeLock me fs = (ok, fs1) \<Longrightarrow> ok \<and> (\<exists>i. lk_file fs1 = Some (i, Parsed (meta_json me)))"
  by (auto simp: writeLock_def open_excl_def rm_force_def write_handle_def)

lemma acquire_owner:
  assumes "lock_acquire k me fs = (r, fs1)"
  shows "if lock_owned r then (\<exists>i. lk_file fs1 = Some (i, Parsed (meta_json me)))
       \<and> (case fst (readMetadata fs) of None \<Rightarrow> True | Some m \<Rightarrow> \<not> pid_alive k (lm_pid m)) else fs1 = fs"
proof (cases "lk_file fs")
  case None
  with assms show ?thesis by (auto simp: lock_acquire_def open_excl_def write_handle_def lock_owned_def readMetadata_def)
next
  case (Some f)
  then have op: "open_excl fs = None" by (simp add: open_excl_def)
  obtain m err where rd: "readMetadata fs = (m, err)" by (metis surj_pair)
  obtain ok fs2 where w: "writeLock me fs = (ok, fs2)" by (metis surj_pair)
  from written [OF w] have ok: "ok = True" and f: "\<exists>i. lk_file fs2 = Some (i, Parsed (meta_json me))" by auto
  show ?thesis
  proof (cases m)
    case None
    with assms op rd w ok have "fs1 = fs2" and "lock_owned r" by (auto simp: lock_acquire_def lock_owned_def)
    with f rd None show ?thesis by simp
  next
    case (Some x)
    show ?thesis
    proof (cases "pid_alive k (lm_pid x)")
      case True
      with assms op rd w ok Some have "fs1 = fs" and "\<not> lock_owned r" by (auto simp: lock_acquire_def lock_owned_def)
      then show ?thesis by simp
    next
      case False
      with assms op rd w ok Some have "fs1 = fs2" and "lock_owned r" by (auto simp: lock_acquire_def lock_owned_def)
      with f rd Some False show ?thesis by simp
    qed
  qed
qed

lemma refresh_owner: "recorded_owner fs p \<Longrightarrow> recorded_owner (lock_refresh owned e fs) p"
proof -
  assume "recorded_owner fs p"
  then obtain i m where m: "lk_file fs = Some (i, Parsed (meta_json m))" "lm_pid m = of_int p" by (auto simp: recorded_owner_def)
  let ?m = "m\<lparr>lm_instance := None, lm_endpoint := (case e of None \<Rightarrow> lm_endpoint m | Some u \<Rightarrow> Some u)\<rparr>"
  have "lock_refresh owned e fs = (if owned then fs\<lparr>lk_file := Some (i, Parsed (meta_json ?m))\<rparr> else fs)"
    using m by (simp add: lock_refresh_def read_recorded [OF m(1)] write_path_def split: option.split)
  then have "\<exists>n. lk_file (lock_refresh owned e fs) = Some (i, Parsed (meta_json n)) \<and> lm_pid n = of_int p"
    using m by (cases owned) (simp, intro exI [of _ ?m], simp, simp, intro exI [of _ m], simp)
  then show ?thesis unfolding recorded_owner_def by blast
qed

lemma release_owner: "recorded_owner fs p \<Longrightarrow> p \<noteq> q \<Longrightarrow> lock_release owned (of_int q) fs = fs"
  using recorded_read [of fs p] by (auto simp: lock_release_def)

lemma owner_alive: "p \<in> set alive \<Longrightarrow> 0 < p \<Longrightarrow> pid_alive (kill0_of alive) (of_int p)"
  by (simp add: pid_alive_def kill0_of_def Let_def)

definition lock_inv :: "lock_sys \<Rightarrow> bool" where
  "lock_inv s \<longleftrightarrow> (\<forall>p \<in> set (ly_alive s). 0 < p) \<and> set (ly_owners s) \<subseteq> set (ly_alive s)
     \<and> (\<forall>p \<in> set (ly_owners s). recorded_owner (ly_fs s) p)"

lemma acquire_inv:
  assumes "lock_inv s" and "p \<in> set (ly_alive s)"
  shows "lock_inv (lock_op_step (L_acquire p m) s)"
proof -
  obtain r fs where ac: "lock_acquire (kill0_of (ly_alive s)) (m\<lparr>lm_pid := of_int p\<rparr>) (ly_fs s) = (r, fs)" by (metis surj_pair)
  note o = acquire_owner [OF ac]
  show ?thesis
  proof (cases "lock_owned r")
    case False
    with assms ac o show ?thesis by (simp add: lock_inv_def)
  next
    case True
    with o obtain i where "lk_file fs = Some (i, Parsed (meta_json (m\<lparr>lm_pid := of_int p\<rparr>)))" by auto
    then have new: "recorded_owner fs p" unfolding recorded_owner_def by (intro exI [of _ i] exI [of _ "m\<lparr>lm_pid := of_int p\<rparr>"]) simp
    have "ly_owners s = []"
    proof (rule ccontr)
      assume "ly_owners s \<noteq> []"
      then obtain q where q: "q \<in> set (ly_owners s)" by (cases "ly_owners s") auto
      with assms(1) recorded_read [of "ly_fs s" q] owner_alive [of q "ly_alive s"] o True show False
        by (auto simp: lock_inv_def)
    qed
    with assms ac True new show ?thesis by (simp add: lock_inv_def)
  qed
qed

lemma lock_step_inv: "lock_inv s \<Longrightarrow> lock_inv (lock_op_step op s)"
proof (cases op)
  case (L_acquire p m)
  then show "lock_inv s \<Longrightarrow> ?thesis" using acquire_inv by (cases "p \<in> set (ly_alive s)") auto
next
  case (L_release p)
  have "recorded_owner (lock_release owned (of_int p) (ly_fs s)) q" if "recorded_owner (ly_fs s) q" "q \<noteq> p" for owned q
    using release_owner [OF that] that(1) by simp
  then show "lock_inv s \<Longrightarrow> ?thesis" using L_release by (auto simp: lock_inv_def)
qed (auto simp: lock_inv_def refresh_owner)

text \<open>
  C28: one controller per data directory, as long as calls do not overlap. Whatever controllers start, acquire, refresh, release
  and crash one call after the other, no two live processes own the lock.
\<close>

theorem lock_has_one_owner:
  "let s = fold lock_op_step ops no_lock in (\<forall>p \<in> set (ly_owners s). \<forall>q \<in> set (ly_owners s). p = q) \<and> set (ly_owners s) \<subseteq> set (ly_alive s)"
proof -
  have "lock_inv s \<Longrightarrow> lock_inv (fold lock_op_step ops s)" for s
    by (induction ops arbitrary: s) (simp_all add: lock_step_inv)
  moreover have "lock_inv no_lock" by (simp add: lock_inv_def no_lock_def)
  ultimately have "lock_inv (fold lock_op_step ops no_lock)" by blast
  then show ?thesis unfolding Let_def lock_inv_def by (blast intro: recorded_unique)
qed

theorem lock_has_one_owner_witness:
  "let s = fold lock_op_step [L_start 5, L_acquire 5 unknownBusyMetadata, L_start 6, L_acquire 6 unknownBusyMetadata] no_lock in
     (\<forall>p \<in> set (ly_owners s). \<forall>q \<in> set (ly_owners s). p = q) \<and> set (ly_owners s) \<subseteq> set (ly_alive s)"
  by (rule lock_has_one_owner)

section \<open>Access by access\<close>

datatype lock_pc = PC_idle | PC_opened nat | PC_found | PC_stale | PC_removed | PC_reopened nat | PC_owner | PC_busy

record contender =
  co_meta :: lock_meta
  co_pc :: lock_pc

text \<open>One access of \<open>acquire\<close> to the file.\<close>

fun lock_access :: "(int \<Rightarrow> kill0_result) \<Rightarrow> contender \<Rightarrow> lock_fs \<Rightarrow> contender \<times> lock_fs" where
  "lock_access k c fs = (case co_pc c of
       PC_idle \<Rightarrow> (case open_excl fs of Some (i, fs1) \<Rightarrow> (c\<lparr>co_pc := PC_opened i\<rparr>, fs1) | None \<Rightarrow> (c\<lparr>co_pc := PC_found\<rparr>, fs))
     | PC_opened i \<Rightarrow> (c\<lparr>co_pc := PC_owner\<rparr>, write_handle i (Parsed (meta_json (co_meta c))) fs)
     | PC_found \<Rightarrow> (c\<lparr>co_pc := (case fst (readMetadata fs) of None \<Rightarrow> PC_stale
         | Some m \<Rightarrow> if pid_alive k (lm_pid m) then PC_busy else PC_stale)\<rparr>, fs)
     | PC_stale \<Rightarrow> (c\<lparr>co_pc := PC_removed\<rparr>, rm_force fs)
     | PC_removed \<Rightarrow> (case open_excl fs of Some (i, fs1) \<Rightarrow> (c\<lparr>co_pc := PC_reopened i\<rparr>, fs1) | None \<Rightarrow> (c\<lparr>co_pc := PC_busy\<rparr>, fs))
     | PC_reopened i \<Rightarrow> (c\<lparr>co_pc := PC_owner\<rparr>, write_handle i (Parsed (meta_json (co_meta c))) fs)
     | _ \<Rightarrow> (c, fs))"

declare lock_access.simps [simp del]

text \<open>Alone, the accesses are the call.\<close>

lemma accesses_are_the_call:
  assumes "lock_acquire k (co_meta c) fs = (r, fs1)" and "co_pc c = PC_idle"
  shows "((\<lambda>(c, fs). lock_access k c fs) ^^ 5) (c, fs) = (c\<lparr>co_pc := (if lock_owned r then PC_owner else PC_busy)\<rparr>, fs1)"
proof -
  have five: "(f ^^ 5) x = f (f (f (f (f x))))" for f :: "'b \<Rightarrow> 'b" and x by (simp add: numeral_eq_Suc)
  show ?thesis
  proof (cases "lk_file fs")
    case None
    with assms show ?thesis by (auto simp: five lock_access.simps lock_acquire_def open_excl_def lock_owned_def)
  next
    case (Some f)
    obtain m err where "readMetadata fs = (m, err)" by (metis surj_pair)
    with Some assms show ?thesis
      by (cases m) (auto simp: five lock_access.simps lock_acquire_def open_excl_def lock_owned_def writeLock_def rm_force_def split: if_splits)
  qed
qed

fun lock_race :: "(int \<Rightarrow> kill0_result) \<Rightarrow> nat list \<Rightarrow> contender list \<times> lock_fs \<Rightarrow> contender list \<times> lock_fs" where
  "lock_race k [] s = s"
| "lock_race k (n # ns) (cs, fs) = (if n < length cs
     then (case lock_access k (cs ! n) fs of (c, fs1) \<Rightarrow> lock_race k ns (cs[n := c], fs1)) else lock_race k ns (cs, fs))"

definition contend :: "int \<Rightarrow> contender" where
  "contend p = \<lparr>co_meta = unknownBusyMetadata\<lparr>lm_pid := of_int p\<rparr>, co_pc = PC_idle\<rparr>"

text \<open>
  The lock is made and filled in two accesses, and a lock without content counts as corrupt. A controller that looks in between
  reclaims it, and both own it.
\<close>

theorem half_written_lock_stolen:
  "map co_pc (fst (lock_race (\<lambda>_. Kill_ok) [0, 1, 1, 1, 1, 1, 0] ([contend 5, contend 6], \<lparr>lk_file = None, lk_next = 0\<rparr>)))
     = [PC_owner, PC_owner]"
  by code_simp

text \<open>A stale lock is removed by path: the second of two controllers that found it removes the lock of the first.\<close>

theorem stale_lock_reclaimed_twice:
  "map co_pc (fst (lock_race (\<lambda>p. if p = 4 then Kill_other else Kill_ok) [0, 0, 1, 1, 0, 0, 0, 1, 1, 1]
     ([contend 5, contend 6], \<lparr>lk_file = Some (0, Parsed (meta_json (co_meta (contend 4)))), lk_next = 1\<rparr>)))
   = [PC_owner, PC_owner]"
  by code_simp

text \<open>A controller that comes when the lock is complete and its owner lives is turned away, however it interleaves.\<close>

definition outside :: "contender \<Rightarrow> bool" where
  "outside c \<longleftrightarrow> co_pc c = PC_idle \<or> co_pc c = PC_found \<or> co_pc c = PC_busy"

lemma turned_away:
  assumes "recorded_owner fs p" and "pid_alive k (of_int p)" and "outside c" and "lock_access k c fs = (c', fs')"
  shows "fs' = fs \<and> outside c'"
  using recorded_read [OF assms(1)] assms by (auto simp: outside_def lock_access.simps open_excl_def recorded_owner_def)

theorem complete_lock_respected:
  assumes "recorded_owner fs p" and "pid_alive k (of_int p)" and "list_all outside cs"
  shows "case lock_race k ns (cs, fs) of (cs1, fs1) \<Rightarrow> fs1 = fs \<and> list_all outside cs1"
  using assms(3)
proof (induction ns arbitrary: cs)
  case (Cons n ns)
  show ?case
  proof (cases "n < length cs")
    case True
    obtain c fs' where a: "lock_access k (cs ! n) fs = (c, fs')" by (metis surj_pair)
    have "outside (cs ! n)" using Cons.prems True by (simp add: list_all_length)
    from turned_away [OF assms(1,2) this a] have "fs' = fs" and "outside c" by auto
    moreover from this have "list_all outside (cs[n := c])" using Cons.prems by (auto simp: list_all_iff dest!: subsetD [OF set_update_subset_insert])
    ultimately show ?thesis using Cons.IH True a by simp
  next
    case False
    then show ?thesis using Cons by simp
  qed
qed simp

theorem complete_lock_respected_witness:
  "case lock_race (\<lambda>_. Kill_ok) [0, 1, 0, 1] ([contend 6, contend 7], \<lparr>lk_file = Some (0, Parsed (meta_json (co_meta (contend 5)))), lk_next = 1\<rparr>) of
     (cs1, fs1) \<Rightarrow> fs1 = \<lparr>lk_file = Some (0, Parsed (meta_json (co_meta (contend 5)))), lk_next = 1\<rparr> \<and> list_all outside cs1"
  by (rule complete_lock_respected [where p = 5]) (auto simp: recorded_owner_def contend_def pid_alive_def outside_def Let_def)

text \<open>After the first refresh the lock no longer names the instance of its owner.\<close>

theorem refresh_forgets_instance:
  "lk_file fs = Some (i, Parsed (meta_json m)) \<Longrightarrow>
   lk_file (lock_refresh True e fs) = Some (i, Parsed (meta_json (m\<lparr>lm_endpoint := (case e of None \<Rightarrow> lm_endpoint m | Some u \<Rightarrow> Some u), lm_instance := None\<rparr>)))"
  by (cases m) (simp add: lock_refresh_def read_recorded write_path_def split: option.splits)

end
