(* ===== verification/Profile_Lock.thy ===== *)
theory Profile_Lock
  imports Git_Host Process_Probe
begin

text \<open>
  \<open>ProfileLockManager\<close> of \<open>apps/controller/src/browser/profile-lock.ts\<close>: who may use the browser profile. The state is what
  \<open>getLockInfo\<close> reads, None for a missing or unreadable file. The probes of processes and of Chrome are parameters.
\<close>

record lock_info =
  pl_pid :: int
  pl_at :: time
  pl_mode :: string
  pl_reason :: string

record profile_env =
  pe_pid :: int
  pe_kill :: "int \<Rightarrow> kill0_result"
  pe_inUse :: "bool option"
  pe_writes :: bool

definition resolveMode :: "string \<Rightarrow> string" where
  "resolveMode reason = (let r = js_lower reason in
     if has_sub ''setup'' r \<or> has_sub ''interactive'' r then ''INTERACTIVE_SETUP'' else ''AUTOMATED'')"

definition isProcessAlive :: "profile_env \<Rightarrow> int \<Rightarrow> bool" where
  "isProcessAlive en pid \<longleftrightarrow> pe_kill en pid = Kill_ok"

definition profile_acquire :: "profile_env \<Rightarrow> time \<Rightarrow> string \<Rightarrow> int option \<Rightarrow> lock_info option \<Rightarrow> bool \<times> lock_info option" where
  "profile_acquire en now reason owner f =
     (let mode = resolveMode reason; pid = (case owner of None \<Rightarrow> pe_pid en | Some p \<Rightarrow> p);
          take = (\<lambda>old. if pe_writes en
            then (True, Some \<lparr>pl_pid = pid, pl_at = now, pl_mode = mode, pl_reason = reason\<rparr>) else (False, old))
      in (case f of
           None \<Rightarrow> take None
         | Some e \<Rightarrow>
             if pl_pid e = pid then (pl_mode e = mode, f)
             else if isProcessAlive en (pl_pid e) then (False, f)
             else if pl_mode e = ''AUTOMATED'' \<and> pe_inUse en \<noteq> Some False then (False, f)
             else take None))"

definition releaseFor :: "int \<Rightarrow> lock_info option \<Rightarrow> lock_info option" where
  "releaseFor pid f = (case f of None \<Rightarrow> None | Some e \<Rightarrow> if pl_pid e = pid then None else f)"

definition profile_release :: "profile_env \<Rightarrow> lock_info option \<Rightarrow> lock_info option" where
  "profile_release en f = releaseFor (pe_pid en) f"

definition isLocked :: "profile_env \<Rightarrow> lock_info option \<Rightarrow> bool" where
  "isLocked en f = (case f of None \<Rightarrow> False | Some e \<Rightarrow> isProcessAlive en (pl_pid e))"

text \<open>
  The profile is never taken from a process that the probe finds alive, nor, for automation, while Chrome may use it; the
  same process does not get it in another mode.
\<close>

theorem profile_kept_from_others:
  assumes "profile_acquire en now reason owner (Some e) = (True, f)"
  shows "if pl_pid e = (case owner of None \<Rightarrow> pe_pid en | Some p \<Rightarrow> p) then pl_mode e = resolveMode reason \<and> f = Some e
    else \<not> isProcessAlive en (pl_pid e) \<and> (pl_mode e = ''AUTOMATED'' \<longrightarrow> pe_inUse en = Some False)"
  using assms by (auto simp: profile_acquire_def Let_def split: if_splits option.splits)

theorem profile_kept_from_others_witness:
  "if (7 :: int) = 8 then ''AUTOMATED'' = resolveMode ''AUTOMATED'' \<and> Some \<lparr>pl_pid = 8, pl_at = 5, pl_mode = ''AUTOMATED'', pl_reason = ''AUTOMATED''\<rparr>
       = Some \<lparr>pl_pid = 7, pl_at = 1, pl_mode = ''AUTOMATED'', pl_reason = ''x''\<rparr>
   else \<not> isProcessAlive \<lparr>pe_pid = 8, pe_kill = \<lambda>_. Kill_other, pe_inUse = Some False, pe_writes = True\<rparr> 7 \<and> (''AUTOMATED'' = ''AUTOMATED'' \<longrightarrow> Some False = Some False)"
  using profile_kept_from_others [where en = "\<lparr>pe_pid = 8, pe_kill = \<lambda>_. Kill_other, pe_inUse = Some False, pe_writes = True\<rparr>"
      and now = 5 and reason = "''AUTOMATED''" and owner = None and e = "\<lparr>pl_pid = 7, pl_at = 1, pl_mode = ''AUTOMATED'', pl_reason = ''x''\<rparr>"
      and f = "Some \<lparr>pl_pid = 8, pl_at = 5, pl_mode = ''AUTOMATED'', pl_reason = ''AUTOMATED''\<rparr>"]
  by (simp add: profile_acquire_def isProcessAlive_def resolveMode_def js_lower_def)

text \<open>
  A process of another user answers the probe with EPERM. The controller's own lock counts it as alive, this lock does not:
  the profile is taken while its owner lives.
\<close>

theorem foreign_owner_counts_as_dead:
  "pe_kill en (pl_pid e) = Kill_EPERM \<Longrightarrow> pe_writes en \<Longrightarrow> pl_pid e \<noteq> pe_pid en \<Longrightarrow> pl_mode e = ''INTERACTIVE_SETUP'' \<Longrightarrow>
   fst (profile_acquire en now reason None (Some e))"
  by (simp add: profile_acquire_def Let_def isProcessAlive_def)

end
