(* ===== verification/Wake_Submitter.thy ===== *)
theory Wake_Submitter
  imports Git_Host
begin

text \<open>
  \<open>SolWakeSubmitter\<close> of \<open>apps/controller/src/browser/sol-wake-submitter.ts\<close> and the message of
  \<open>packages/shared/src/sol-wake.ts\<close>: how a wake is typed into the page of Sol and what the page is taken for. The page is a
  record of the driver's calls that thread a state of their own; probes that run concurrently are made in order.
\<close>

section \<open>The message\<close>

text \<open>The em dash of the source stands as the character 0x97, as in Windows-1252.\<close>

definition generateSolWakeMessage :: "string \<Rightarrow> ident \<Rightarrow> int \<Rightarrow> string \<Rightarrow> string \<Rightarrow> string" where
  "generateSolWakeMessage name run iter dispatch result = join_with [CHR 0x0A]
     [''Orca-Strator'' @ (if result = ''INITIAL'' then '' initial autonomy wake'' else '' executor turn completed'') @ '' for '' @ name @ ''.'',
      ''Run: '' @ run,
      ''Iteration: '' @ js_int iter,
      ''Dispatch: '' @ dispatch,
      if result = ''INITIAL'' then ''Result status: (initial wake '' @ [CHR 0x97] @ '' no prior executor result)'' else ''Result status: '' @ result,
      [],
      ''Review the latest GitHub main state, the active OpenSpec change, and .orca/results/'' @ dispatch @ ''.json.'',
      ''Make any review/spec/code corrections that are useful.'',
      ''Then either:'',
      ''1. create and push the next focused OpenSpec work and finally an isolated new dispatch marker, or'',
      ''2. publish a durable terminal/control decision.'',
      ''Follow the repository'' @ [CHR 0x27] @ ''s agent/Orca protocol.'']"

section \<open>The page\<close>

record 'p page =
  pg_has :: "string \<Rightarrow> 'p \<Rightarrow> bool \<times> 'p"
  pg_wait :: "string \<Rightarrow> 'p \<Rightarrow> bool \<times> 'p"
  pg_text :: "string \<Rightarrow> 'p \<Rightarrow> string option \<times> 'p"
  pg_type :: "string \<Rightarrow> string \<Rightarrow> 'p \<Rightarrow> string option \<times> 'p"
  pg_click :: "string \<Rightarrow> 'p \<Rightarrow> string option \<times> 'p"
  pg_dismiss :: "string \<Rightarrow> 'p \<Rightarrow> bool \<times> 'p"

definition q1 :: string where "q1 = [CHR 0x27]"

definition inputSelectors :: "string list" where
  "inputSelectors = [''#prompt-textarea'', ''textarea[placeholder*='' @ q1 @ ''Message'' @ q1 @ '']'', ''div[contenteditable='' @ q1 @ ''true'' @ q1 @ '']'']"

definition sendButtonSelectors :: "string list" where
  "sendButtonSelectors = [''button[data-testid='' @ q1 @ ''send-button'' @ q1 @ '']'', ''button[aria-label='' @ q1 @ ''Send prompt'' @ q1 @ '']'',
     ''button[aria-label='' @ q1 @ ''Send message'' @ q1 @ '']'']"

definition busyDismissSelectors :: "string list" where
  "busyDismissSelectors = map (\<lambda>t. ''button:has-text('' @ q1 @ t @ q1 @ '')'') [''Okay'', ''OK'', ''Dismiss'', ''Got it'']"

definition authSelectors :: "string list" where
  "authSelectors = [''a[href*='' @ q1 @ ''auth/login'' @ q1 @ '']'', ''button:has-text('' @ q1 @ ''Log in'' @ q1 @ '')'', ''button:has-text('' @ q1 @ ''Sign in'' @ q1 @ '')'']"

definition captchaFrameSelectors :: "string list" where
  "captchaFrameSelectors = [''iframe[src*='' @ q1 @ ''cloudflare'' @ q1 @ '']'', ''iframe[src*='' @ q1 @ ''challenges.cloudflare'' @ q1 @ '']'',
     ''div[class*='' @ q1 @ ''cf-'' @ q1 @ '']'', ''#turnstile-wrapper'']"

definition bannerSelectors :: "string list" where
  "bannerSelectors = [''[role='' @ q1 @ ''dialog'' @ q1 @ '']'', ''[role='' @ q1 @ ''alert'' @ q1 @ '']'', ''[data-testid='' @ q1 @ ''modal'' @ q1 @ '']'',
     ''[data-testid='' @ q1 @ ''banner'' @ q1 @ '']'', ''.modal'', ''.banner'']"

definition authTextSignals :: "string list" where
  "authTextSignals = [''logged out'', ''log in to continue'', ''please log in'', ''session expired'']"

definition busyTextSignals :: "string list" where
  "busyTextSignals = [''too many requests'', ''you'' @ q1 @ ''ve reached your limit'', ''rate limit'', ''try again later'', ''high demand'']"

definition captchaSignals :: "string list" where
  "captchaSignals = [''cloudflare'', ''verify you are human'', ''captcha'', ''attention required'', ''checking if the site connection is secure'']"

text \<open>All selectors are probed; or one after the other up to the first that answers.\<close>

fun anyVisible :: "('p \<Rightarrow> bool \<times> 'p) list \<Rightarrow> 'p \<Rightarrow> bool \<times> 'p" where
  "anyVisible [] p = (False, p)"
| "anyVisible (f # fs) p = (case f p of (b, p1) \<Rightarrow> (case anyVisible fs p1 of (c, p2) \<Rightarrow> (b \<or> c, p2)))"

fun firstTrue :: "('p \<Rightarrow> bool \<times> 'p) list \<Rightarrow> 'p \<Rightarrow> bool \<times> 'p" where
  "firstTrue [] p = (False, p)"
| "firstTrue (f # fs) p = (case f p of (True, p1) \<Rightarrow> (True, p1) | (False, p1) \<Rightarrow> firstTrue fs p1)"

fun texts :: "('p \<Rightarrow> string option \<times> 'p) list \<Rightarrow> 'p \<Rightarrow> string list \<times> 'p" where
  "texts [] p = ([], p)"
| "texts (f # fs) p = (case f p of (t, p1) \<Rightarrow> (case texts fs p1 of (ts, p2) \<Rightarrow>
     (case t of Some (c # cs) \<Rightarrow> (c # cs) # ts | _ \<Rightarrow> ts, p2)))"

definition scopedText :: "'p page \<Rightarrow> 'p \<Rightarrow> string \<times> 'p" where
  "scopedText g p = (case texts (map (pg_text g) bannerSelectors) p of
     (ts, p1) \<Rightarrow> (join_with ('' '' @ CHR 0x0A # '' '') ts, p1))"

definition signalled :: "string list \<Rightarrow> string \<Rightarrow> bool" where
  "signalled signals text \<longleftrightarrow> list_ex (\<lambda>s. has_sub s (js_lower text)) signals"

definition detectAuthRequired :: "'p page \<Rightarrow> 'p \<Rightarrow> bool \<times> 'p" where
  "detectAuthRequired g p = (case anyVisible (map (pg_has g) authSelectors) p of (seen, p1) \<Rightarrow>
     (case scopedText g p1 of (t, p2) \<Rightarrow> (seen \<or> signalled authTextSignals t \<or> signalled captchaSignals t, p2)))"

definition detectCaptcha :: "'p page \<Rightarrow> 'p \<Rightarrow> bool \<times> 'p" where
  "detectCaptcha g p = (case anyVisible (map (pg_has g) captchaFrameSelectors) p of
       (True, p1) \<Rightarrow> (True, p1)
     | (False, p1) \<Rightarrow> (case scopedText g p1 of (t, p2) \<Rightarrow> (signalled captchaSignals t, p2)))"

definition detectBusy :: "'p page \<Rightarrow> 'p \<Rightarrow> bool \<times> 'p" where
  "detectBusy g p = (case scopedText g p of (t, p1) \<Rightarrow> (case anyVisible (map (pg_has g) busyDismissSelectors) p1 of (d, p2) \<Rightarrow>
     (signalled busyTextSignals t \<or> (d \<and> signalled busyTextSignals t), p2)))"

definition dismissBusyIfPresent :: "'p page \<Rightarrow> 'p \<Rightarrow> bool \<times> 'p" where
  "dismissBusyIfPresent g p = (case detectBusy g p of (False, p1) \<Rightarrow> (False, p1)
     | (True, p1) \<Rightarrow> firstTrue (map (pg_dismiss g) busyDismissSelectors) p1)"

section \<open>Submitting\<close>

text \<open>The checks between two actions; \<open>when\<close> ends the message of a busy page.\<close>

definition page_refusal :: "string \<Rightarrow> 'p page \<Rightarrow> 'p \<Rightarrow> string option \<times> 'p" where
  "page_refusal when g p = (case detectCaptcha g p of
       (True, p1) \<Rightarrow> (Some ''ATTENTION_REQUIRED: ChatGPT verification/CAPTCHA required'', p1)
     | (False, p1) \<Rightarrow> (case detectAuthRequired g p1 of
         (True, p2) \<Rightarrow> (Some ''CHATGPT_AUTH_REQUIRED: ChatGPT login required'', p2)
       | (False, p2) \<Rightarrow> (case detectBusy g p2 of
           (True, p3) \<Rightarrow> (Some (''BUSY: ChatGPT is busy (too many requests / rate limited)'' @ when), snd (dismissBusyIfPresent g p3))
         | (False, p3) \<Rightarrow> (None, p3))))"

text \<open>\<open>act\<close> on the first selector that shows and lets it; what it throws there is caught, not so on the last resort.\<close>

definition act_first :: "(string \<Rightarrow> 'p \<Rightarrow> string option \<times> 'p) \<Rightarrow> 'p page \<Rightarrow> string list \<Rightarrow> 'p \<Rightarrow> string option \<times> 'p" where
  "act_first act g sels p = (case firstTrue (map (\<lambda>sel p. (case pg_wait g sel p of
         (False, p1) \<Rightarrow> (False, p1) | (True, p1) \<Rightarrow> (case act sel p1 of (m, p2) \<Rightarrow> (m = None, p2)))) sels) p of
       (True, p1) \<Rightarrow> (None, p1) | (False, p1) \<Rightarrow> act (hd sels) p1)"

definition submitWake :: "'p page \<Rightarrow> string \<Rightarrow> 'p \<Rightarrow> string option \<times> 'p" where
  "submitWake g message p = (case page_refusal [] g p of (Some m, p1) \<Rightarrow> (Some m, p1)
     | (None, p1) \<Rightarrow> (case act_first (\<lambda>sel. pg_type g sel message) g inputSelectors p1 of (Some m, p2) \<Rightarrow> (Some m, p2)
     | (None, p2) \<Rightarrow> (case page_refusal [] g p2 of (Some m, p3) \<Rightarrow> (Some m, p3)
     | (None, p3) \<Rightarrow> (case act_first (pg_click g) g sendButtonSelectors p3 of (Some m, p4) \<Rightarrow> (Some m, p4)
     | (None, p4) \<Rightarrow> page_refusal '' after submit'' g p4))))"

section \<open>What a submission means\<close>

text \<open>
  A page that is no longer of the form the checks accept is never typed into or clicked: on a page that shows a captcha, a login
  or a busy banner the submission throws before it acts.
\<close>

theorem refused_page_untouched:
  "page_refusal [] g p = (Some m, p1) \<Longrightarrow> submitWake g message p = (Some m, p1)"
  by (simp add: submitWake_def)

theorem refused_page_untouched_witness:
  "submitWake \<lparr>pg_has = \<lambda>s n. (s = ''#turnstile-wrapper'', n), pg_wait = \<lambda>s n. (True, n), pg_text = \<lambda>s n. (None, n),
       pg_type = \<lambda>s t n. (None, n + 1), pg_click = \<lambda>s n. (None, n + 1), pg_dismiss = \<lambda>s n. (False, n)\<rparr> ''m'' (0 :: nat)
     = (Some ''ATTENTION_REQUIRED: ChatGPT verification/CAPTCHA required'', 0)"
  by (rule refused_page_untouched) code_simp

text \<open>
  An action whose promise is rejected may have taken effect: when the click on a button throws after it has sent, the next
  button is clicked as well.
\<close>

theorem failed_click_sends_again:
  "snd (submitWake \<lparr>pg_has = \<lambda>s n. (False, n), pg_wait = \<lambda>s n. (True, n), pg_text = \<lambda>s n. (None, n),
       pg_type = \<lambda>s t n. (None, n), pg_click = \<lambda>s n. (if n = 0 then Some ''timeout'' else None, n + 1), pg_dismiss = \<lambda>s n. (False, n)\<rparr> ''m'' (0 :: nat)) = 2"
  by code_simp

end
