(* ===== verification/Sol_Wake.thy ===== *)
theory Sol_Wake
  imports Profile_Lock Wake_Submitter Loop_Wake
begin

text \<open>
  The delivery of wakes to Sol: the tables of \<open>sol-operation-store.ts\<close> and \<open>sol-wake-store.ts\<close>, and of
  \<open>browser-manager.ts\<close> the submission with its backpressure, the completion, the timeouts, the stall, the
  rehydration after a restart, and the ownership of the profile. What runs between two awaits is one step; the driver's part of a
  submission is the step that settles it, with the driver's state and the message of what was thrown. A timer may call the check
  of the timeouts at any time, repository by repository. Published events and the readiness report are left out.
\<close>

section \<open>Tables\<close>

datatype op_status = OP_active | OP_stalled | OP_completed
datatype wake_status = WK_pending | WK_submitted | WK_failed | WK_busy

record sol_op =
  so_repo :: ident
  so_run :: ident
  so_iter :: int
  so_wake :: ident
  so_dispatch :: "ident option"
  so_url :: string
  so_name :: string
  so_result :: string
  so_message :: string
  so_submitted :: "time option"
  so_deadline :: time
  so_timeouts :: nat
  so_waitMs :: "int option"
  so_busy :: nat
  so_status :: op_status
  so_created :: time
  so_updated :: time

text \<open>The columns that the callers of \<open>update\<close> give.\<close>

record op_patch =
  oq_submitted :: "time option option"
  oq_deadline :: "time option"
  oq_timeouts :: "nat option"
  oq_busy :: "nat option"
  oq_status :: "op_status option"

definition no_op_patch :: op_patch where
  "no_op_patch = \<lparr>oq_submitted = None, oq_deadline = None, oq_timeouts = None, oq_busy = None, oq_status = None\<rparr>"

definition default_wait :: int where
  "default_wait = 20 * 60 * 1000"

definition op_row :: "sol_op \<Rightarrow> sol_op" where
  "op_row r = r\<lparr>so_waitMs := Some (case so_waitMs r of None \<Rightarrow> default_wait | Some w \<Rightarrow> w)\<rparr>"

definition op_upsert :: "sol_op \<Rightarrow> sol_op list \<Rightarrow> sol_op list" where
  "op_upsert r t = (case tbl_get so_repo (so_repo r) t of
       None \<Rightarrow> t @ [op_row r]
     | Some _ \<Rightarrow> tbl_update (\<lambda>x. so_repo x = so_repo r) (\<lambda>x. (op_row r)\<lparr>so_created := so_created x\<rparr>) t)"

definition op_get :: "ident \<Rightarrow> sol_op list \<Rightarrow> sol_op option" where
  "op_get repo t = tbl_get so_repo repo t"

definition op_listActive :: "sol_op list \<Rightarrow> sol_op list" where
  "op_listActive t = filter (\<lambda>r. so_status r = OP_active) t"

definition op_merge :: "op_patch \<Rightarrow> time \<Rightarrow> sol_op \<Rightarrow> sol_op" where
  "op_merge p now r = r\<lparr>so_submitted := set_col (oq_submitted p) (so_submitted r), so_deadline := set_col (oq_deadline p) (so_deadline r),
     so_timeouts := set_col (oq_timeouts p) (so_timeouts r), so_busy := set_col (oq_busy p) (so_busy r),
     so_status := set_col (oq_status p) (so_status r), so_updated := now\<rparr>"

definition op_update :: "ident \<Rightarrow> op_patch \<Rightarrow> time \<Rightarrow> sol_op list \<Rightarrow> sol_op list" where
  "op_update repo p now t = (case op_get repo t of None \<Rightarrow> t | Some r \<Rightarrow> op_upsert (op_merge p now r) t)"

definition op_delete :: "ident \<Rightarrow> sol_op list \<Rightarrow> sol_op list" where
  "op_delete repo t = tbl_delete (\<lambda>r. so_repo r = repo) t"

record sol_wake =
  wk_id :: ident
  wk_repo :: ident
  wk_run :: ident
  wk_dispatch :: "ident option"
  wk_url :: string
  wk_message :: string
  wk_status :: wake_status
  wk_error :: "string option"
  wk_submitted :: "time option"
  wk_created :: time
  wk_updated :: time

definition wake_create :: "sol_wake \<Rightarrow> sol_wake list \<Rightarrow> sol_wake list option" where
  "wake_create w t = tbl_insert wk_id w t"

definition wake_get :: "ident \<Rightarrow> sol_wake list \<Rightarrow> sol_wake option" where
  "wake_get i t = tbl_get wk_id i t"

definition wake_getByRepository :: "ident \<Rightarrow> sol_wake list \<Rightarrow> sol_wake list" where
  "wake_getByRepository repo t = order_desc wk_created (filter (\<lambda>w. wk_repo w = repo) t)"

definition wake_getByDispatch :: "ident \<Rightarrow> sol_wake list \<Rightarrow> sol_wake list" where
  "wake_getByDispatch d t = order_desc wk_created (filter (\<lambda>w. wk_dispatch w = Some d) t)"

definition wake_updateStatus :: "ident \<Rightarrow> wake_status \<Rightarrow> string option option \<Rightarrow> time option option \<Rightarrow> time \<Rightarrow> sol_wake list \<Rightarrow> sol_wake list" where
  "wake_updateStatus i st err submitted now t = tbl_update (\<lambda>w. wk_id w = i)
     (\<lambda>w. w\<lparr>wk_status := st, wk_error := set_col err (wk_error w), wk_submitted := set_col submitted (wk_submitted w), wk_updated := now\<rparr>) t"

section \<open>The manager\<close>

text \<open>
  A call of \<open>submitSolWake\<close> that has not settled: the operation it found or made, and the number of attempts at the
  profile it has left; None once it has the profile. A retry of a timed out wake, with the instant of its check when it
  comes from the rehydration. \<open>bm_retried\<close> is a history variable: the wakes that were retried after a timeout.
\<close>

record wake_call =
  wc_repo :: ident
  wc_op :: sol_op
  wc_left :: "nat option"

record wake_retry =
  wt_op :: sol_op
  wt_since :: "time option"

record manager =
  bm_ops :: "sol_op list"
  bm_wakes :: "sol_wake list"
  bm_memory :: "(ident \<times> sol_op) list"
  bm_timers :: "ident list"
  bm_lock :: "lock_info option"
  bm_running :: bool
  bm_pages :: "ident list"
  bm_setup :: bool
  bm_setupPid :: "int option"
  bm_calls :: "wake_call list"
  bm_retries :: "wake_retry list"
  bm_stalled :: "(ident \<times> ident \<times> string) list"
  bm_retried :: "ident list"

record manager_env =
  be_profile :: profile_env
  be_timeoutMs :: int

definition WAKE_LOCK_RETRIES :: nat where
  "WAKE_LOCK_RETRIES = 5"

definition on_ops :: "(sol_op list \<Rightarrow> sol_op list) \<Rightarrow> manager \<Rightarrow> manager" where
  "on_ops f b = b\<lparr>bm_ops := f (bm_ops b)\<rparr>"

definition on_wakes :: "(sol_wake list \<Rightarrow> sol_wake list) \<Rightarrow> manager \<Rightarrow> manager" where
  "on_wakes f b = b\<lparr>bm_wakes := f (bm_wakes b)\<rparr>"

definition scheduleSolTimeout :: "ident \<Rightarrow> manager \<Rightarrow> manager" where
  "scheduleSolTimeout repo b = b\<lparr>bm_timers := List.insert repo (bm_timers b)\<rparr>"

definition clear_timer :: "ident \<Rightarrow> manager \<Rightarrow> manager" where
  "clear_timer repo b = b\<lparr>bm_timers := removeAll repo (bm_timers b)\<rparr>"

definition registerSolOperation :: "sol_op \<Rightarrow> manager \<Rightarrow> manager" where
  "registerSolOperation r b = (let b1 = (clear_timer (so_repo r) b)\<lparr>bm_memory := AList.update (so_repo r) r (bm_memory b)\<rparr>
     in if so_status r = OP_active then scheduleSolTimeout (so_repo r) b1 else b1)"

section \<open>Submitting\<close>

definition wake_message :: "wake_request \<Rightarrow> string" where
  "wake_message q = generateSolWakeMessage (wr_repositoryName q) (wr_run q) (wr_iteration q)
     (case wr_dispatch q of Some (c # cs) \<Rightarrow> c # cs | _ \<Rightarrow> ''none'') (wr_result q)"

definition same_intent :: "wake_request \<Rightarrow> sol_op option \<Rightarrow> bool" where
  "same_intent q x = (case x of None \<Rightarrow> False
     | Some r \<Rightarrow> so_run r = wr_run q \<and> so_message r = wake_message q \<and> so_status r = OP_active)"

definition new_operation :: "manager_env \<Rightarrow> ident \<Rightarrow> time \<Rightarrow> ident \<Rightarrow> wake_request \<Rightarrow> sol_op" where
  "new_operation en wakeId now repo q = \<lparr>so_repo = repo, so_run = wr_run q, so_iter = wr_iteration q, so_wake = wakeId,
     so_dispatch = wr_dispatch q, so_url = wr_url q, so_name = wr_repositoryName q, so_result = wr_result q,
     so_message = wake_message q, so_submitted = None,
     so_deadline = now + (case wr_waitMs q of None \<Rightarrow> be_timeoutMs en | Some w \<Rightarrow> w), so_timeouts = 0, so_waitMs = None,
     so_busy = 0, so_status = OP_active, so_created = now, so_updated = now\<rparr>"

definition pending_wake :: "sol_op \<Rightarrow> sol_wake" where
  "pending_wake r = \<lparr>wk_id = so_wake r, wk_repo = so_repo r, wk_run = so_run r, wk_dispatch = so_dispatch r, wk_url = so_url r,
     wk_message = so_message r, wk_status = WK_pending, wk_error = None, wk_submitted = None, wk_created = so_created r,
     wk_updated = so_created r\<rparr>"

text \<open>The operation of a call: a stored one of the same intent, or a new one. Wake identifiers are fresh.\<close>

definition intend :: "manager_env \<Rightarrow> ident \<Rightarrow> time \<Rightarrow> ident \<Rightarrow> wake_request \<Rightarrow> manager \<Rightarrow> sol_op \<times> manager" where
  "intend en wakeId now repo q b = (case op_get repo (bm_ops b) of
       Some r \<Rightarrow> if same_intent q (Some r)
         then (r, on_ops (op_update repo (no_op_patch\<lparr>oq_status := Some OP_active\<rparr>) now) b)
         else (let n = new_operation en wakeId now repo q in
           (n, registerSolOperation n (on_wakes (\<lambda>t. t @ [pending_wake n]) (on_ops (op_upsert n) b))))
     | None \<Rightarrow> (let n = new_operation en wakeId now repo q in
           (n, registerSolOperation n (on_wakes (\<lambda>t. t @ [pending_wake n]) (on_ops (op_upsert n) b)))))"

definition lock_message :: string where
  "lock_message = ''Profile is locked by setup browser or another process''"

text \<open>An attempt at the profile with \<open>n\<close> left; the last failure is followed by one more pause.\<close>

definition try_profile :: "manager_env \<Rightarrow> time \<Rightarrow> nat \<Rightarrow> wake_call \<Rightarrow> manager \<Rightarrow> manager" where
  "try_profile en now n c b = (case profile_acquire (be_profile en) now ''AUTOMATED'' None (bm_lock b) of
       (True, f) \<Rightarrow> b\<lparr>bm_lock := f, bm_calls := bm_calls b @ [c\<lparr>wc_left := None\<rparr>]\<rparr>
     | (False, f) \<Rightarrow> b\<lparr>bm_lock := f, bm_calls := bm_calls b @ [c\<lparr>wc_left := Some (n - 1)\<rparr>]\<rparr>)"

definition submitSolWake :: "manager_env \<Rightarrow> ident \<Rightarrow> time \<Rightarrow> ident \<Rightarrow> wake_request \<Rightarrow> manager \<Rightarrow> manager" where
  "submitSolWake en wakeId now repo q b = (case intend en wakeId now repo q b of
     (r, b1) \<Rightarrow> try_profile en now WAKE_LOCK_RETRIES \<lparr>wc_repo = repo, wc_op = r, wc_left = None\<rparr> b1)"

text \<open>The pause after a failed attempt is over. What the caller is told is an outcome of the loop's environment.\<close>

definition profile_pause_over :: "manager_env \<Rightarrow> time \<Rightarrow> nat \<Rightarrow> wake_call \<Rightarrow> manager \<Rightarrow> wake_outcome option \<times> manager" where
  "profile_pause_over en now n c b = (if n = 0
     then (Some (W_busy (Some lock_message)), on_wakes (wake_updateStatus (so_wake (wc_op c)) WK_busy (Some (Some lock_message)) None now) b)
     else (None, try_profile en now n c b))"

definition needsAttention :: "string \<Rightarrow> bool" where
  "needsAttention m \<longleftrightarrow> list_ex (\<lambda>s. has_sub s (js_lower m))
     [''attention_required'', ''chatgpt_auth_required'', ''verification'', ''cloudflare'', ''captcha'', ''login required'']"

definition isBusyMessage :: "string \<Rightarrow> bool" where
  "isBusyMessage m \<longleftrightarrow> has_sub ''busy'' (js_lower m)"

definition null_message :: string where
  "null_message = ''Cannot read properties of null (reading '' @ q1 @ ''repositoryId'' @ q1 @ '')''"

text \<open>\<open>registerSolOperation(this.solStore.get(repositoryId)!)\<close>, which throws when the row is gone.\<close>

definition register_stored :: "ident \<Rightarrow> manager \<Rightarrow> string option \<times> manager" where
  "register_stored repo b = (case op_get repo (bm_ops b) of None \<Rightarrow> (Some null_message, b) | Some r \<Rightarrow> (None, registerSolOperation r b))"

definition close_idle :: "manager_env \<Rightarrow> manager \<Rightarrow> manager" where
  "close_idle en b = (if \<not> bm_setup b \<and> bm_pages b = [] \<and> bm_memory b = [] then b\<lparr>bm_running := False, bm_pages := []\<rparr> else b)"

definition after_call :: "manager_env \<Rightarrow> manager \<Rightarrow> manager" where
  "after_call en b = (let b1 = close_idle en b in
     if bm_running b1 then b1 else b1\<lparr>bm_lock := profile_release (be_profile en) (bm_lock b1)\<rparr>)"

text \<open>The catch of the submission; \<open>now\<close> is the instant of the call.\<close>

definition submission_failed :: "time \<Rightarrow> string \<Rightarrow> wake_call \<Rightarrow> manager \<Rightarrow> wake_outcome \<times> manager" where
  "submission_failed now m c b =
     (let repo = wc_repo c; w = so_wake (wc_op c) in
      if isBusyMessage m then
        (let b1 = on_wakes (wake_updateStatus w WK_busy (Some (Some m)) None now)
               (on_ops (op_update repo (no_op_patch\<lparr>oq_busy := Some (so_busy (wc_op c) + 1), oq_status := Some OP_active\<rparr>) now) b)
         in (case register_stored repo b1 of (None, b2) \<Rightarrow> (W_busy (Some m), b2) | (Some e, b2) \<Rightarrow> (W_throws e, b2)))
      else
        (let b1 = on_ops (op_update repo (no_op_patch\<lparr>oq_status := Some OP_stalled\<rparr>) now)
               (on_wakes (wake_updateStatus w WK_failed (Some (Some m)) None now) b)
         in (case register_stored repo b1 of
              (None, b2) \<Rightarrow> (W_throws (if needsAttention m then ''ATTENTION_REQUIRED: '' @ m else m), b2)
            | (Some e, b2) \<Rightarrow> (W_throws e, b2))))"

text \<open>The driver's part is over: \<open>thrown\<close> by launch, page or submitter, and the driver as it is then.\<close>

definition submission_settled ::
    "manager_env \<Rightarrow> time \<Rightarrow> string option \<Rightarrow> bool \<Rightarrow> ident list \<Rightarrow> wake_call \<Rightarrow> manager \<Rightarrow> wake_outcome \<times> manager" where
  "submission_settled en now thrown running pages c b0 =
     (let b = b0\<lparr>bm_running := running, bm_pages := pages\<rparr>; repo = wc_repo c; w = so_wake (wc_op c);
          r = (case thrown of
            Some m \<Rightarrow> submission_failed now m c b
          | None \<Rightarrow> (let b1 = on_ops (op_update repo (no_op_patch\<lparr>oq_submitted := Some (Some now), oq_status := Some OP_active, oq_busy := Some 0\<rparr>) now)
                 (on_wakes (wake_updateStatus w WK_submitted None (Some (Some now)) now) b)
              in (case register_stored repo b1 of
                   (None, b2) \<Rightarrow> (W_submitted, b2)
                 | (Some e, b2) \<Rightarrow> submission_failed now e c b2)))
      in (fst r, after_call en (snd r)))"

section \<open>Completion, timeouts and stalls\<close>

text \<open>The page of a repository is closed; \<open>closeRepositoryPage\<close>.\<close>

definition closeRepositoryPage :: "manager_env \<Rightarrow> ident \<Rightarrow> manager \<Rightarrow> manager" where
  "closeRepositoryPage en repo b = (let b1 = b\<lparr>bm_pages := removeAll repo (bm_pages b)\<rparr> in
     if \<not> bm_setup b1 \<and> bm_pages b1 = [] \<and> bm_memory b1 = []
     then b1\<lparr>bm_running := False, bm_lock := profile_release (be_profile en) (bm_lock b1)\<rparr> else b1)"

definition completeSolOperation :: "manager_env \<Rightarrow> time \<Rightarrow> ident \<Rightarrow> ident option \<Rightarrow> int option \<Rightarrow> manager \<Rightarrow> manager" where
  "completeSolOperation en now repo run expected b = (case map_of (bm_memory b) repo of
       None \<Rightarrow> b
     | Some r \<Rightarrow>
         if (case run of Some (c # cs) \<Rightarrow> so_run r \<noteq> c # cs | _ \<Rightarrow> False) then b
         else if (case expected of None \<Rightarrow> False | Some n \<Rightarrow> so_iter r + 1 \<noteq> n) then b
         else closeRepositoryPage en repo (on_ops (op_delete repo \<circ> op_update repo (no_op_patch\<lparr>oq_status := Some OP_completed\<rparr>) now)
           ((clear_timer repo b)\<lparr>bm_memory := AList.delete repo (bm_memory b)\<rparr>)))"

definition stallSolOperation :: "manager_env \<Rightarrow> time \<Rightarrow> ident \<Rightarrow> sol_op \<Rightarrow> string \<Rightarrow> manager \<Rightarrow> manager" where
  "stallSolOperation en now repo r m b =
     (let b1 = on_ops (op_update repo (no_op_patch\<lparr>oq_status := Some OP_stalled\<rparr>) now)
            ((clear_timer repo b)\<lparr>bm_memory := AList.delete repo (bm_memory b)\<rparr>);
          b2 = (case wake_get (so_wake r) (bm_wakes b1) of None \<Rightarrow> b1
            | Some w \<Rightarrow> if wk_status w = WK_submitted then on_wakes (wake_updateStatus (so_wake r) WK_failed (Some (Some m)) None now) b1 else b1)
      in closeRepositoryPage en (so_repo r) (b2\<lparr>bm_stalled := bm_stalled b2 @ [(so_repo r, so_run r, m)]\<rparr>))"

text \<open>\<open>retrySolWake\<close> up to its first await; its error is swallowed by the caller.\<close>

definition retrySolWake :: "manager_env \<Rightarrow> time \<Rightarrow> time option \<Rightarrow> sol_op \<Rightarrow> manager \<Rightarrow> bool \<times> manager" where
  "retrySolWake en now since r b = (let b0 = b\<lparr>bm_retried := bm_retried b @ [so_wake r]\<rparr> in
     if bm_running b0 then (True, b0\<lparr>bm_retries := bm_retries b0 @ [\<lparr>wt_op = r, wt_since = since\<rparr>]\<rparr>)
     else (case profile_acquire (be_profile en) now ''AUTOMATED'' None (bm_lock b0) of
         (True, f) \<Rightarrow> (True, b0\<lparr>bm_lock := f, bm_retries := bm_retries b0 @ [\<lparr>wt_op = r, wt_since = since\<rparr>]\<rparr>)
       | (False, f) \<Rightarrow> (False, b0\<lparr>bm_lock := f\<rparr>)))"

definition wait_of :: "manager_env \<Rightarrow> sol_op \<Rightarrow> int" where
  "wait_of en r = (case so_waitMs r of None \<Rightarrow> be_timeoutMs en | Some w \<Rightarrow> w)"

definition spend_timeout :: "manager_env \<Rightarrow> time \<Rightarrow> sol_op \<Rightarrow> sol_op" where
  "spend_timeout en now r = r\<lparr>so_timeouts := so_timeouts r + 1, so_deadline := now + wait_of en r\<rparr>"

definition timeout_patch :: "manager_env \<Rightarrow> time \<Rightarrow> sol_op \<Rightarrow> op_patch" where
  "timeout_patch en now r = no_op_patch\<lparr>oq_timeouts := Some (so_timeouts r + 1), oq_deadline := Some (now + wait_of en r)\<rparr>"

definition stall_text :: string where
  "stall_text = ''Sol operation timed out after one retry with no dispatch or control transition (SOL_STALLED)''"

definition wake_busy :: "sol_op \<Rightarrow> manager \<Rightarrow> bool" where
  "wake_busy r b \<longleftrightarrow> map_option wk_status (wake_get (so_wake r) (bm_wakes b)) = Some WK_busy"

text \<open>One round of \<open>checkSolTimeouts\<close>.\<close>

definition checkSolTimeout :: "manager_env \<Rightarrow> time \<Rightarrow> ident \<Rightarrow> manager \<Rightarrow> manager" where
  "checkSolTimeout en now repo b = (case map_of (bm_memory b) repo of None \<Rightarrow> b
     | Some r \<Rightarrow>
         if so_status r = OP_stalled \<or> so_status r = OP_completed \<or> wake_busy r b \<or> now < so_deadline r then b
         else if so_timeouts r < 1
         then (let r1 = spend_timeout en now r in snd (retrySolWake en now None r1
             (scheduleSolTimeout repo (on_ops (op_update repo (timeout_patch en now r) now)
               (b\<lparr>bm_memory := AList.update repo r1 (bm_memory b)\<rparr>)))))
         else stallSolOperation en now repo r stall_text b)"

text \<open>The en dash of the source stands as the character 0x96, as in Windows-1252.\<close>

definition retry_text :: string where
  "retry_text = ''Sol operation timed out after restart (retry failed) '' @ [CHR 0x96] @ '' SOL_STALLED''"

definition no_window_text :: string where
  "no_window_text = ''Sol operation timed out after restart (no retry window) '' @ [CHR 0x96] @ '' SOL_STALLED''"

text \<open>A failed retry of the rehydration looks at the deadline again, with the instant of its own check.\<close>

definition retry_failed :: "manager_env \<Rightarrow> time \<Rightarrow> wake_retry \<Rightarrow> manager \<Rightarrow> manager" where
  "retry_failed en now x b = (case wt_since x of None \<Rightarrow> b
     | Some since \<Rightarrow> (case op_get (so_repo (wt_op x)) (bm_ops b) of None \<Rightarrow> b
         | Some cur \<Rightarrow> if so_deadline cur \<le> since then stallSolOperation en now (so_repo (wt_op x)) cur retry_text b else b))"

definition retry_settled :: "manager_env \<Rightarrow> time \<Rightarrow> bool \<Rightarrow> bool \<Rightarrow> ident list \<Rightarrow> wake_retry \<Rightarrow> manager \<Rightarrow> manager" where
  "retry_settled en now ok running pages x b0 = (let b = b0\<lparr>bm_running := running, bm_pages := pages\<rparr> in
     if ok then on_wakes (wake_updateStatus (so_wake (wt_op x)) WK_submitted None (Some (Some now)) now) b else retry_failed en now x b)"

text \<open>One round of \<open>rehydrateFromStore\<close>; \<open>awaiting\<close>: the repository has an active run that reviews or waits for Sol.\<close>

definition rehydrate_one :: "manager_env \<Rightarrow> time \<Rightarrow> bool \<Rightarrow> ident \<Rightarrow> manager \<Rightarrow> manager" where
  "rehydrate_one en now awaiting repo b = (case op_get repo (bm_ops b) of None \<Rightarrow> b
     | Some r \<Rightarrow>
         if so_status r \<noteq> OP_active \<or> \<not> awaiting \<or> map_of (bm_memory b) repo \<noteq> None then b
         else if wake_busy r b then b\<lparr>bm_memory := AList.update repo r (bm_memory b)\<rparr>
         else if now < so_deadline r then scheduleSolTimeout repo (b\<lparr>bm_memory := AList.update repo r (bm_memory b)\<rparr>)
         else if so_timeouts r < 1
         then (let r1 = spend_timeout en now r; x = \<lparr>wt_op = r1, wt_since = Some now\<rparr> in
             case retrySolWake en now (Some now) r1 (scheduleSolTimeout repo (on_ops (op_update repo (timeout_patch en now r) now)
                 (b\<lparr>bm_memory := AList.update repo r1 (bm_memory b)\<rparr>))) of
               (True, b1) \<Rightarrow> b1 | (False, b1) \<Rightarrow> retry_failed en now x b1)
         else stallSolOperation en now repo r no_window_text b)"

section \<open>The setup window, and the end\<close>

text \<open>\<open>openSetupBrowser\<close>: \<open>missing\<close> names where Chrome was looked for in vain, \<open>spawned\<close> is the pid of the window or the error.\<close>

definition chrome_missing :: "string \<Rightarrow> string" where
  "chrome_missing source = ''Google Chrome was not found on this machine ('' @ source @ ''). Install Google Chrome to use the ChatGPT setup browser; Orca intentionally does not fall back to an incompatible bundled browser.''"

definition openSetupBrowser :: "manager_env \<Rightarrow> time \<Rightarrow> string option \<Rightarrow> string + int \<Rightarrow> manager \<Rightarrow> string option \<times> manager" where
  "openSetupBrowser en now missing spawned b =
     (if bm_setup b then (None, b)
      else if missing \<noteq> None then (map_option chrome_missing missing, b)
      else if isLocked (be_profile en) (bm_lock b)
      then (Some (if map_option pl_mode (bm_lock b) = Some ''AUTOMATED''
             then ''Automated Chrome owns the profile; setup cannot reuse it until automated operations finish.''
             else ''Browser profile is currently locked by another process.''), b)
      else (case spawned of
          Inl m \<Rightarrow> (Some (''Failed to launch external setup Chrome: '' @ m), b)
        | Inr pid \<Rightarrow> (case profile_acquire (be_profile en) now ''INTERACTIVE_SETUP_EXTERNAL_CHROME'' (Some pid) (bm_lock b) of
            (False, f) \<Rightarrow> (Some ''Browser profile was claimed while launching setup Chrome; no browser was left running.'', b\<lparr>bm_lock := f\<rparr>)
          | (True, f) \<Rightarrow> (None, b\<lparr>bm_lock := f, bm_setup := True, bm_setupPid := Some pid\<rparr>))))"

definition releaseSetupOwnership :: "manager \<Rightarrow> manager" where
  "releaseSetupOwnership b = b\<lparr>bm_lock := (case bm_setupPid b of None \<Rightarrow> bm_lock b | Some p \<Rightarrow> releaseFor p (bm_lock b)),
     bm_setup := False, bm_setupPid := None\<rparr>"

definition closeSetupBrowser :: "manager \<Rightarrow> manager" where
  "closeSetupBrowser b = (if bm_setup b then releaseSetupOwnership b else b)"

definition manager_close :: "manager_env \<Rightarrow> manager \<Rightarrow> manager" where
  "manager_close en b = b\<lparr>bm_timers := [], bm_memory := [], bm_running := False, bm_pages := [],
     bm_lock := profile_release (be_profile en) (bm_lock b), bm_setup := False, bm_setupPid := None\<rparr>"

text \<open>After a crash the tables and the lock file are left.\<close>

definition manager_restart :: "manager \<Rightarrow> manager" where
  "manager_restart b = b\<lparr>bm_timers := [], bm_memory := [], bm_running := False, bm_pages := [], bm_setup := False, bm_setupPid := None,
     bm_calls := [], bm_retries := []\<rparr>"

section \<open>The machine\<close>

datatype manager_event =
    Wake_call ident time ident wake_request
  | Pause_over time wake_call
  | Call_settled time "string option" bool "ident list" wake_call
  | Transition time ident "ident option" "int option"
  | Timeout_check time ident
  | Retry_settled time bool bool "ident list" wake_retry
  | Rehydrate time bool ident
  | Close_page ident
  | Setup_open time "string option" "string + int"
  | Setup_close
  | Manager_close
  | Manager_restart

fun manager_step :: "manager_env \<Rightarrow> manager_event \<Rightarrow> manager \<Rightarrow> manager" where
  "manager_step en (Wake_call w now repo q) b = (if wake_get w (bm_wakes b) = None then submitSolWake en w now repo q b else b)"
| "manager_step en (Pause_over now c) b = (if c \<in> set (bm_calls b)
     then (case wc_left c of None \<Rightarrow> b | Some n \<Rightarrow> snd (profile_pause_over en now n c (b\<lparr>bm_calls := remove1 c (bm_calls b)\<rparr>))) else b)"
| "manager_step en (Call_settled now thrown running pages c) b = (if c \<in> set (bm_calls b) \<and> wc_left c = None
     then snd (submission_settled en now thrown running pages c (b\<lparr>bm_calls := remove1 c (bm_calls b)\<rparr>)) else b)"
| "manager_step en (Transition now repo run expected) b = completeSolOperation en now repo run expected b"
| "manager_step en (Timeout_check now repo) b = checkSolTimeout en now repo b"
| "manager_step en (Retry_settled now ok running pages x) b = (if x \<in> set (bm_retries b)
     then retry_settled en now ok running pages x (b\<lparr>bm_retries := remove1 x (bm_retries b)\<rparr>) else b)"
| "manager_step en (Rehydrate now awaiting repo) b = rehydrate_one en now awaiting repo b"
| "manager_step en (Close_page repo) b = closeRepositoryPage en repo b"
| "manager_step en (Setup_open now missing spawned) b = snd (openSetupBrowser en now missing spawned b)"
| "manager_step en Setup_close b = closeSetupBrowser b"
| "manager_step en Manager_close b = manager_close en b"
| "manager_step en Manager_restart b = manager_restart b"

definition manager_run :: "manager_env \<Rightarrow> manager_event list \<Rightarrow> manager \<Rightarrow> manager" where
  "manager_run en evs b = fold (manager_step en) evs b"

end
