(* ===== verification/Wake_Laws.thy ===== *)
theory Wake_Laws
  imports Sol_Wake
begin

text \<open>
  A wake is retried after a timeout at most once. What the proof follows is the view of the table of the operations
  (repository to wake and spent retries): every step of the manager leaves it, opens a fresh wake, spends the one retry of a
  wake, or deletes an entry; the operations in memory are a part of it.
\<close>

section \<open>The view\<close>

definition op_key :: "sol_op \<Rightarrow> ident \<times> nat" where
  "op_key r = (so_wake r, so_timeouts r)"

definition op_view :: "sol_op list \<Rightarrow> ident \<Rightarrow> (ident \<times> nat) option" where
  "op_view t k = map_option op_key (op_get k t)"

definition mem_view :: "manager \<Rightarrow> ident \<Rightarrow> (ident \<times> nat) option" where
  "mem_view b k = map_option op_key (map_of (bm_memory b) k)"

definition wake_ids :: "manager \<Rightarrow> ident set" where
  "wake_ids b = wk_id ` set (bm_wakes b)"

lemma tbl_get_tbl_update_keys: "(\<And>x. x \<in> set t \<Longrightarrow> p x \<Longrightarrow> key (f x) = key x) \<Longrightarrow>
    tbl_get key k (tbl_update p f t) = map_option (\<lambda>x. if p x then f x else x) (tbl_get key k t)"
  unfolding tbl_get_def tbl_update_def by (induction t) auto

lemma tbl_get_single: "tbl_get key k [x] = (if key x = k then Some x else None)"
  by (simp add: tbl_get_def)

lemma op_row_fields [simp]: "so_repo (op_row r) = so_repo r" "op_key (op_row r) = op_key r" "op_key (r\<lparr>so_created := c\<rparr>) = op_key r"
  by (simp_all add: op_row_def op_key_def)

lemma view_upsert: "op_view (op_upsert r t) = (op_view t)(so_repo r \<mapsto> op_key r)"
proof
  fix k
  show "op_view (op_upsert r t) k = ((op_view t)(so_repo r \<mapsto> op_key r)) k"
  proof (cases "tbl_get so_repo (so_repo r) t")
    case None
    then show ?thesis
      by (cases "tbl_get so_repo k t") (auto simp: op_view_def op_get_def op_upsert_def tbl_get_append tbl_get_single)
  next
    case (Some y)
    have "tbl_get so_repo k (op_upsert r t) = map_option (\<lambda>x. if so_repo x = so_repo r then (op_row r)\<lparr>so_created := so_created x\<rparr> else x) (tbl_get so_repo k t)"
      unfolding op_upsert_def Some option.case by (rule tbl_get_tbl_update_keys) simp
    then show ?thesis using Some tbl_get_key [of so_repo k t]
      by (cases "tbl_get so_repo k t") (auto simp: op_view_def op_get_def)
  qed
qed

lemma op_get_key: "op_get k t = Some r \<Longrightarrow> so_repo r = k"
  unfolding op_get_def by (rule tbl_get_key)

lemma view_update: "op_view (op_update repo p now t) = (case op_view t repo of None \<Rightarrow> op_view t
    | Some (w, n) \<Rightarrow> (op_view t)(repo \<mapsto> (w, case oq_timeouts p of None \<Rightarrow> n | Some m \<Rightarrow> m)))"
proof (cases "op_get repo t")
  case None
  then show ?thesis by (simp add: op_update_def op_view_def)
next
  case (Some r)
  have "so_repo (op_merge p now r) = repo" using op_get_key [OF Some] by (simp add: op_merge_def)
  then show ?thesis using Some by (simp add: op_update_def view_upsert op_view_def op_key_def op_merge_def set_col_def split: option.splits)
qed

lemma view_update_same [simp]: "oq_timeouts p = None \<Longrightarrow> op_view (op_update repo p now t) = op_view t"
  by (cases "op_view t repo") (simp_all add: view_update fun_upd_idem split: prod.splits)

lemma view_delete: "op_view (op_delete repo t) = (op_view t)(repo := None)"
proof
  fix k
  show "op_view (op_delete repo t) k = ((op_view t)(repo := None)) k"
    unfolding op_view_def op_get_def op_delete_def tbl_get_def tbl_delete_def by (induction t) auto
qed

lemma ids_updateStatus [simp]: "wk_id ` set (wake_updateStatus i st err sub now t) = wk_id ` set t"
  unfolding wake_updateStatus_def tbl_update_def by (induction t) auto

lemma mem_set [simp]: "map_of (AList.update k r m) j = (if j = k then Some r else map_of m j)"
  by (simp add: update_conv)

lemma mem_drop [simp]: "map_of (AList.delete k m) j = (if j = k then None else map_of m j)"
  by (simp add: delete_conv)

section \<open>The retries\<close>

definition retry_ok :: "manager \<Rightarrow> bool" where
  "retry_ok b \<longleftrightarrow> (\<forall>k v. mem_view b k = Some v \<longrightarrow> op_view (bm_ops b) k = Some v)
     \<and> (\<forall>k w n. op_view (bm_ops b) k = Some (w, n) \<longrightarrow> w \<in> wake_ids b \<and> (w \<in> set (bm_retried b) \<longrightarrow> 0 < n)
         \<and> (\<forall>j m. op_view (bm_ops b) j = Some (w, m) \<longrightarrow> j = k))
     \<and> set (bm_retried b) \<subseteq> wake_ids b \<and> distinct (bm_retried b)"

text \<open>A step that touches neither the view, the wakes nor the retries, and puts only what is stored into memory.\<close>

definition calm :: "manager \<Rightarrow> manager \<Rightarrow> bool" where
  "calm b b' \<longleftrightarrow> op_view (bm_ops b') = op_view (bm_ops b) \<and> wake_ids b' = wake_ids b \<and> bm_retried b' = bm_retried b
     \<and> (\<forall>k v. mem_view b' k = Some v \<longrightarrow> mem_view b k = Some v \<or> op_view (bm_ops b) k = Some v)"

lemma calm_ok: "calm b b' \<Longrightarrow> retry_ok b \<Longrightarrow> retry_ok b'"
  unfolding calm_def retry_ok_def by metis

lemma calm_refl [simp]: "calm b b"
  by (simp add: calm_def)

lemma calm_trans: "calm a b \<Longrightarrow> calm b c \<Longrightarrow> calm a c"
  unfolding calm_def by metis

lemma calm_same: "bm_ops b' = bm_ops b \<Longrightarrow> bm_wakes b' = bm_wakes b \<Longrightarrow> bm_retried b' = bm_retried b \<Longrightarrow>
    bm_memory b' = bm_memory b \<Longrightarrow> calm b b'"
  unfolding calm_def mem_view_def wake_ids_def by simp

lemma calm_clear: "bm_ops b' = bm_ops b \<Longrightarrow> bm_wakes b' = bm_wakes b \<Longrightarrow> bm_retried b' = bm_retried b \<Longrightarrow>
    bm_memory b' = [] \<Longrightarrow> calm b b'"
  unfolding calm_def mem_view_def wake_ids_def by simp

lemma calm_drop: "bm_ops b' = bm_ops b \<Longrightarrow> bm_wakes b' = bm_wakes b \<Longrightarrow> bm_retried b' = bm_retried b \<Longrightarrow>
    bm_memory b' = AList.delete k (bm_memory b) \<Longrightarrow> calm b b'"
  unfolding calm_def mem_view_def wake_ids_def by simp

lemma calm_on_ops: "oq_timeouts p = None \<Longrightarrow> calm b (on_ops (op_update repo p now) b)"
  by (simp add: calm_def mem_view_def wake_ids_def on_ops_def)

lemma calm_on_wakes: "calm b (on_wakes (wake_updateStatus i st err sub now) b)"
  by (simp add: calm_def mem_view_def wake_ids_def on_wakes_def)

lemma register_fields [simp]: "bm_ops (registerSolOperation r b) = bm_ops b" "bm_wakes (registerSolOperation r b) = bm_wakes b"
  "bm_retried (registerSolOperation r b) = bm_retried b" "bm_memory (registerSolOperation r b) = AList.update (so_repo r) r (bm_memory b)"
  by (simp_all add: registerSolOperation_def scheduleSolTimeout_def clear_timer_def Let_def)

lemma calm_register_stored: "calm b (snd (register_stored repo b))"
  by (auto simp: register_stored_def calm_def mem_view_def wake_ids_def op_view_def dest: op_get_key split: option.splits if_splits)

lemmas calm_basic = calm_on_ops calm_on_wakes calm_register_stored

lemma calm_try_profile: "calm b (try_profile en now n c b)"
  by (rule calm_same) (simp_all add: try_profile_def split: prod.split bool.split)

lemma calm_close_idle: "calm b (close_idle en b)"
  by (rule calm_same) (simp_all add: close_idle_def)

lemma calm_after_call: "calm b (after_call en b)"
  by (rule calm_same) (simp_all add: after_call_def close_idle_def Let_def)

lemma calm_pause_over: "calm b (snd (profile_pause_over en now n c b))"
  unfolding profile_pause_over_def by (simp add: calm_on_wakes calm_try_profile)

lemma calm_ops_then_wakes: "oq_timeouts p = None \<Longrightarrow>
    calm b (on_wakes (wake_updateStatus i st err sub now) (on_ops (op_update repo p now) b))"
  by (rule calm_trans [OF calm_on_ops calm_on_wakes])

lemma calm_wakes_then_ops: "oq_timeouts p = None \<Longrightarrow>
    calm b (on_ops (op_update repo p now) (on_wakes (wake_updateStatus i st err sub now) b))"
  by (rule calm_trans [OF calm_on_wakes calm_on_ops])

lemma calm_failed: "calm b (snd (submission_failed now m c b))"
proof (cases "isBusyMessage m")
  case True
  then have "snd (submission_failed now m c b) = snd (register_stored (wc_repo c)
      (on_wakes (wake_updateStatus (so_wake (wc_op c)) WK_busy (Some (Some m)) None now)
               (on_ops (op_update (wc_repo c) (no_op_patch\<lparr>oq_busy := Some (so_busy (wc_op c) + 1), oq_status := Some OP_active\<rparr>) now) b)))"
    by (simp add: submission_failed_def Let_def split: prod.splits option.splits)
  then show ?thesis by (simp add: calm_trans [OF calm_ops_then_wakes calm_register_stored] no_op_patch_def)
next
  case False
  then have "snd (submission_failed now m c b) = snd (register_stored (wc_repo c)
      (on_ops (op_update (wc_repo c) (no_op_patch\<lparr>oq_status := Some OP_stalled\<rparr>) now)
               (on_wakes (wake_updateStatus (so_wake (wc_op c)) WK_failed (Some (Some m)) None now) b)))"
    by (simp add: submission_failed_def Let_def split: prod.splits option.splits)
  then show ?thesis by (simp add: calm_trans [OF calm_wakes_then_ops calm_register_stored] no_op_patch_def)
qed

lemma calm_settled: "calm b (snd (submission_settled en now thrown running pages c b))"
proof -
  let ?b = "b\<lparr>bm_running := running, bm_pages := pages\<rparr>"
  let ?b1 = "on_ops (op_update (wc_repo c) (no_op_patch\<lparr>oq_submitted := Some (Some now), oq_status := Some OP_active, oq_busy := Some 0\<rparr>) now)
                 (on_wakes (wake_updateStatus (so_wake (wc_op c)) WK_submitted None (Some (Some now)) now) ?b)"
  let ?r = "register_stored (wc_repo c) ?b1"
  have c0: "calm b ?b" by (rule calm_same) simp_all
  have c1: "calm b ?b1" by (rule calm_trans [OF c0 calm_trans [OF calm_on_wakes calm_on_ops]]) (simp add: no_op_patch_def)
  have c2: "calm b (snd ?r)" by (rule calm_trans [OF c1 calm_register_stored])
  have c3: "calm b (snd (submission_failed now m c ?b))" for m by (rule calm_trans [OF c0 calm_failed])
  have c4: "calm b (snd (submission_failed now m c (snd ?r)))" for m by (rule calm_trans [OF c2 calm_failed])
  obtain e b2 where r: "?r = (e, b2)" by fastforce
  have "calm b (snd (case thrown of Some m \<Rightarrow> submission_failed now m c ?b
      | None \<Rightarrow> (case ?r of (None, b2) \<Rightarrow> (W_submitted, b2) | (Some e, b2) \<Rightarrow> submission_failed now e c b2)))"
    using c2 c3 c4 unfolding r by (simp split: option.split)
  then show ?thesis unfolding submission_settled_def Let_def snd_conv by (rule calm_trans [OF _ calm_after_call])
qed

lemma calm_close_page: "calm b (closeRepositoryPage en repo b)"
  by (rule calm_same) (simp_all add: closeRepositoryPage_def Let_def)

lemma calm_stall: "calm b (stallSolOperation en now repo r m b)"
proof -
  let ?b0 = "(clear_timer repo b)\<lparr>bm_memory := AList.delete repo (bm_memory b)\<rparr>"
  let ?b1 = "on_ops (op_update repo (no_op_patch\<lparr>oq_status := Some OP_stalled\<rparr>) now) ?b0"
  let ?b2 = "case wake_get (so_wake r) (bm_wakes ?b1) of None \<Rightarrow> ?b1
            | Some w \<Rightarrow> if wk_status w = WK_submitted then on_wakes (wake_updateStatus (so_wake r) WK_failed (Some (Some m)) None now) ?b1 else ?b1"
  have "calm b ?b0" by (rule calm_drop [of _ _ repo]) (simp_all add: clear_timer_def)
  then have c1: "calm b ?b1" by (rule calm_trans [OF _ calm_on_ops]) (simp add: no_op_patch_def)
  have "calm ?b1 ?b2" by (simp add: calm_on_wakes split: option.split)
  then have c2: "calm b ?b2" by (rule calm_trans [OF c1])
  have "calm ?b2 (?b2\<lparr>bm_stalled := bm_stalled ?b2 @ [(so_repo r, so_run r, m)]\<rparr>)" by (rule calm_same) simp_all
  then show ?thesis unfolding stallSolOperation_def Let_def by (rule calm_trans [OF calm_trans [OF c2] calm_close_page])
qed

lemma calm_retry_failed: "calm b (retry_failed en now x b)"
  by (simp add: retry_failed_def calm_stall split: option.split)

lemma calm_retry_settled: "calm b (retry_settled en now ok running pages x b)"
proof -
  let ?b = "b\<lparr>bm_running := running, bm_pages := pages\<rparr>"
  have c: "calm b ?b" by (rule calm_same) simp_all
  show ?thesis unfolding retry_settled_def Let_def
    using calm_trans [OF c calm_on_wakes] calm_trans [OF c calm_retry_failed] by simp
qed

lemma calm_setup: "calm b (snd (openSetupBrowser en now missing spawned b))"
  by (rule calm_same) (simp_all add: openSetupBrowser_def split: sum.split prod.split bool.split)

lemma calm_ends: "calm b (closeSetupBrowser b)" "calm b (manager_close en b)" "calm b (manager_restart b)"
  by (rule calm_same; simp add: closeSetupBrowser_def releaseSetupOwnership_def)
    (rule calm_clear; simp add: manager_close_def manager_restart_def)+

section \<open>The steps that are not calm\<close>

lemma ok_delete:
  assumes "retry_ok b" "op_view (bm_ops b') = (op_view (bm_ops b))(repo := None)" "wake_ids b' = wake_ids b"
    "bm_retried b' = bm_retried b" "mem_view b' = (mem_view b)(repo := None)"
  shows "retry_ok b'"
  using assms(1) unfolding retry_ok_def assms(2-5) by (auto split: if_splits)

lemma ok_open:
  assumes "retry_ok b" "op_view (bm_ops b') = (op_view (bm_ops b))(repo \<mapsto> (w, 0))" "wake_ids b' = insert w (wake_ids b)"
    "bm_retried b' = bm_retried b" "mem_view b' = (mem_view b)(repo \<mapsto> (w, 0))" "w \<notin> wake_ids b"
  shows "retry_ok b'"
proof -
  have "v = (w, 0) \<or> fst v \<noteq> w" if "op_view (bm_ops b) k = Some v" for k v
    using assms(1,6) that unfolding retry_ok_def by (cases v) auto
  then show ?thesis using assms(1,6) unfolding retry_ok_def assms(2-5)
    by (auto split: if_splits)
qed

lemma ok_spend:
  assumes "retry_ok b" "op_view (bm_ops b) repo = Some (w, 0)" "op_view (bm_ops b') = (op_view (bm_ops b))(repo \<mapsto> (w, 1))"
    "wake_ids b' = wake_ids b" "bm_retried b' = bm_retried b @ [w]" "mem_view b' = (mem_view b)(repo \<mapsto> (w, 1))"
  shows "retry_ok b'"
proof -
  have w: "w \<in> wake_ids b" "w \<notin> set (bm_retried b)"
    using assms(1,2) unfolding retry_ok_def by (metis, metis less_irrefl)
  have "k = repo" if "op_view (bm_ops b) k = Some (w, n)" for k n using assms(1,2) that unfolding retry_ok_def by blast
  then show ?thesis using assms(1,2) w unfolding retry_ok_def assms(3-6) by (auto split: if_splits)
qed

lemma ok_complete:
  assumes ok: "retry_ok b"
  shows "retry_ok (completeSolOperation en now repo run expected b)"
proof -
  let ?b1 = "on_ops (op_delete repo \<circ> op_update repo (no_op_patch\<lparr>oq_status := Some OP_completed\<rparr>) now)
           ((clear_timer repo b)\<lparr>bm_memory := AList.delete repo (bm_memory b)\<rparr>)"
  have "retry_ok ?b1"
    by (rule ok_delete [OF ok, of _ repo])
      (auto simp: on_ops_def clear_timer_def wake_ids_def mem_view_def view_delete no_op_patch_def)
  then have "retry_ok (closeRepositoryPage en repo ?b1)" by (rule calm_ok [OF calm_close_page])
  then show ?thesis using ok by (simp add: completeSolOperation_def split: option.split)
qed

lemma ok_intend:
  assumes "retry_ok b" "wake_get w (bm_wakes b) = None"
  shows "retry_ok (snd (intend en w now repo q b))"
proof -
  let ?n = "new_operation en w now repo q"
  have new: "retry_ok (registerSolOperation ?n (on_wakes (\<lambda>t. t @ [pending_wake ?n]) (on_ops (op_upsert ?n) b)))"
    by (rule ok_open [OF assms(1), of _ repo w])
      (use assms(2) in \<open>auto simp: on_ops_def on_wakes_def wake_ids_def mem_view_def view_upsert op_key_def new_operation_def pending_wake_def
        wake_get_def tbl_get_None\<close>)
  have old: "retry_ok (on_ops (op_update repo (no_op_patch\<lparr>oq_status := Some OP_active\<rparr>) now) b)"
    by (rule calm_ok [OF calm_on_ops assms(1)]) (simp add: no_op_patch_def)
  show ?thesis using new old by (simp add: intend_def Let_def split: option.split)
qed

lemma ok_submit: "retry_ok b \<Longrightarrow> wake_get w (bm_wakes b) = None \<Longrightarrow> retry_ok (submitSolWake en w now repo q b)"
  unfolding submitSolWake_def by (cases "intend en w now repo q b") (metis calm_ok calm_try_profile ok_intend snd_conv prod.case)

lemma retry_fields: "bm_ops (snd (retrySolWake en now since r b)) = bm_ops b" "bm_wakes (snd (retrySolWake en now since r b)) = bm_wakes b"
  "bm_memory (snd (retrySolWake en now since r b)) = bm_memory b"
  "bm_retried (snd (retrySolWake en now since r b)) = bm_retried b @ [so_wake r]"
  by (simp_all add: retrySolWake_def Let_def split: prod.split bool.split)

lemma ok_retry:
  assumes "retry_ok b" "op_view (bm_ops b) repo = Some (op_key r)" "so_timeouts r < 1"
  shows "retry_ok (snd (retrySolWake en now since (spend_timeout en now r)
     (scheduleSolTimeout repo (on_ops (op_update repo (timeout_patch en now r) now)
        (b\<lparr>bm_memory := AList.update repo (spend_timeout en now r) (bm_memory b)\<rparr>)))))"
  by (rule ok_spend [OF assms(1), of repo "so_wake r"])
    (use assms(2,3) in \<open>auto simp: retry_fields op_key_def spend_timeout_def timeout_patch_def no_op_patch_def scheduleSolTimeout_def on_ops_def
      wake_ids_def mem_view_def view_update\<close>)

lemma ok_check: "retry_ok b \<Longrightarrow> retry_ok (checkSolTimeout en now repo b)"
proof (cases "map_of (bm_memory b) repo")
  case (Some r)
  assume ok: "retry_ok b"
  then have "op_view (bm_ops b) repo = Some (op_key r)" using Some unfolding retry_ok_def mem_view_def by (metis option.simps(9))
  then show ?thesis unfolding checkSolTimeout_def Some Let_def option.case
    using ok ok_retry [OF ok, of repo r] calm_ok [OF calm_stall ok] by simp
qed (simp add: checkSolTimeout_def)

lemma ok_rehydrate: "retry_ok b \<Longrightarrow> retry_ok (rehydrate_one en now awaiting repo b)"
proof (cases "op_get repo (bm_ops b)")
  case (Some r)
  assume ok: "retry_ok b"
  have v: "op_view (bm_ops b) repo = Some (op_key r)" using Some by (simp add: op_view_def)
  have c: "calm b (b\<lparr>bm_memory := AList.update repo r (bm_memory b)\<rparr>)"
    using v by (auto simp: calm_def mem_view_def wake_ids_def split: if_splits)
  have c': "calm b (scheduleSolTimeout repo (b\<lparr>bm_memory := AList.update repo r (bm_memory b)\<rparr>))"
    by (rule calm_trans [OF c calm_same]) (simp_all add: scheduleSolTimeout_def)
  let ?x = "retrySolWake en now (Some now) (spend_timeout en now r) (scheduleSolTimeout repo (on_ops (op_update repo (timeout_patch en now r) now)
        (b\<lparr>bm_memory := AList.update repo (spend_timeout en now r) (bm_memory b)\<rparr>)))"
  obtain good b1 where x: "?x = (good, b1)" by fastforce
  have b1: "retry_ok b1" if "so_timeouts r < 1" using ok_retry [OF ok v that, of en now "Some now"] x by simp
  have f: "retry_ok (retry_failed en now \<lparr>wt_op = spend_timeout en now r, wt_since = Some now\<rparr> b1)" if "so_timeouts r < 1"
    by (rule calm_ok [OF calm_retry_failed b1 [OF that]])
  show ?thesis unfolding rehydrate_one_def Some Let_def option.case x prod.case
    using ok calm_ok [OF c ok] calm_ok [OF c' ok] calm_ok [OF calm_stall ok] b1 f
    by (cases good) simp_all
qed (simp add: rehydrate_one_def)

lemma ok_step: "retry_ok b \<Longrightarrow> retry_ok (manager_step en e b)"
proof (cases e)
  case (Pause_over now c)
  assume ok: "retry_ok b"
  have "calm b (b\<lparr>bm_calls := remove1 c (bm_calls b)\<rparr>)" by (rule calm_same) simp_all
  then have "retry_ok (b\<lparr>bm_calls := remove1 c (bm_calls b)\<rparr>)" using ok by (rule calm_ok)
  then show ?thesis using ok Pause_over by (simp add: calm_ok [OF calm_pause_over] split: option.split)
next
  case (Call_settled now thrown running pages c)
  assume ok: "retry_ok b"
  have "calm b (b\<lparr>bm_calls := remove1 c (bm_calls b)\<rparr>)" by (rule calm_same) simp_all
  then have "retry_ok (b\<lparr>bm_calls := remove1 c (bm_calls b)\<rparr>)" using ok by (rule calm_ok)
  then show ?thesis using ok Call_settled by (simp add: calm_ok [OF calm_settled])
next
  case (Retry_settled now good running pages x)
  assume ok: "retry_ok b"
  have "calm b (b\<lparr>bm_retries := remove1 x (bm_retries b)\<rparr>)" by (rule calm_same) simp_all
  then have "retry_ok (b\<lparr>bm_retries := remove1 x (bm_retries b)\<rparr>)" using ok by (rule calm_ok)
  then show ?thesis using ok Retry_settled by (simp add: calm_ok [OF calm_retry_settled])
qed (simp_all add: ok_submit ok_complete ok_check ok_rehydrate calm_ok [OF calm_close_page] calm_ok [OF calm_setup] calm_ok [OF calm_ends(1)]
    calm_ok [OF calm_ends(2)] calm_ok [OF calm_ends(3)])

lemma ok_run: "retry_ok b \<Longrightarrow> retry_ok (manager_run en evs b)"
  unfolding manager_run_def by (induction evs arbitrary: b) (simp_all add: ok_step)

definition fresh_manager :: manager where
  "fresh_manager = \<lparr>bm_ops = [], bm_wakes = [], bm_memory = [], bm_timers = [], bm_lock = None, bm_running = False, bm_pages = [],
     bm_setup = False, bm_setupPid = None, bm_calls = [], bm_retries = [], bm_stalled = [], bm_retried = []\<rparr>"

text \<open>
  C27: whatever happens to the manager, a wake is retried after a timeout at most once: calls, submissions that settle in any
  way and at any time, transitions, checks of the timeouts by any timer, rehydrations, the setup window, shutdowns and
  restarts, in any order. The spent retry is stored with the operation, and a later wake has another identifier.
\<close>

theorem timeout_retry_once: "distinct (bm_retried (manager_run en evs fresh_manager))"
proof -
  have "retry_ok fresh_manager"
    by (simp add: retry_ok_def fresh_manager_def mem_view_def op_view_def op_get_def tbl_get_def)
  then show ?thesis using ok_run unfolding retry_ok_def by blast
qed

end
