(* ===== verification/Wake_Scenarios.thy ===== *)
theory Wake_Scenarios
  imports Wake_Laws
begin

text \<open>
  Behaviours of the wake delivery that its comments do not promise: general statements where the code has them for every
  state, runs of the machine otherwise.
\<close>

section \<open>Budgets\<close>

text \<open>A call that gives up on the profile answers busy and spends nothing of the stored budget of busy retries.\<close>

theorem lock_refusal_spends_nothing:
  "fst (profile_pause_over en now n c b) = Some r \<Longrightarrow> r = W_busy (Some lock_message) \<and> bm_ops (snd (profile_pause_over en now n c b)) = bm_ops b"
  by (auto simp: profile_pause_over_def on_wakes_def split: if_splits)

text \<open>The budget of the run for the completion reaches the first deadline only: the stored wait is the default.\<close>

theorem stored_wait_is_default:
  assumes "\<not> same_intent q (op_get repo (bm_ops b))"
  shows "map_option so_waitMs (op_get repo (bm_ops (snd (intend en w now repo q b)))) = Some (Some default_wait)"
proof -
  let ?n = "new_operation en w now repo q"
  have "op_get repo (op_upsert ?n t) = (case tbl_get so_repo repo t of None \<Rightarrow> Some (op_row ?n)
      | Some x \<Rightarrow> Some ((op_row ?n)\<lparr>so_created := so_created x\<rparr>))" for t
  proof -
    have r: "so_repo ?n = repo" by (simp add: new_operation_def)
    have "tbl_get so_repo repo (tbl_update (\<lambda>x. so_repo x = repo) (\<lambda>x. (op_row ?n)\<lparr>so_created := so_created x\<rparr>) t)
        = map_option (\<lambda>x. if so_repo x = repo then (op_row ?n)\<lparr>so_created := so_created x\<rparr> else x) (tbl_get so_repo repo t)"
      by (rule tbl_get_tbl_update_keys) (simp add: r)
    then show ?thesis unfolding op_get_def op_upsert_def r
      by (auto simp: tbl_get_append tbl_get_single r dest: tbl_get_key split: option.split)
  qed
  then have "map_option so_waitMs (op_get repo (op_upsert ?n t)) = Some (Some default_wait)" for t
    by (simp add: op_row_def new_operation_def split: option.split)
  then show ?thesis using assms
    by (cases "op_get repo (bm_ops b)") (simp_all add: intend_def Let_def on_ops_def on_wakes_def)
qed

section \<open>Runs\<close>

definition we :: manager_env where
  "we = \<lparr>be_profile = \<lparr>pe_pid = 7, pe_kill = \<lambda>p. if p = 7 then Kill_ok else Kill_other, pe_inUse = Some False, pe_writes = True\<rparr>, be_timeoutMs = 1000\<rparr>"

definition wq :: "string \<Rightarrow> wake_request" where
  "wq res = \<lparr>wr_repositoryName = ''repo'', wr_run = ''run'', wr_iteration = 1, wr_dispatch = Some ''d'', wr_result = res, wr_url = ''u'', wr_waitMs = None\<rparr>"

definition awake :: manager where
  "awake = manager_step we (Wake_call ''w1'' 10 ''r'' (wq ''COMPLETED'')) fresh_manager"

text \<open>
  The transition that answers a wake is detected while the submission still awaits: the operation is completed and deleted, the
  submission then registers a row that is gone, and the wake that Sol has answered is reported as failed to the loop.
\<close>

theorem answered_wake_reported_failed:
  "(let b = manager_step we (Transition 20 ''r'' (Some ''run'') (Some 2)) awake; c = hd (bm_calls b);
        (r, b') = submission_settled we 30 None True [''r''] c b
    in r = W_throws null_message \<and> map_option wk_status (wake_get ''w1'' (bm_wakes b')) = Some WK_failed)"
  by code_simp

text \<open>
  A wake that failed leaves a stalled operation in memory, which no check of the timeouts removes: the browser is kept open, the profile stays owned by
  the controller, and the setup window that the attention asks for is refused.
\<close>

theorem failed_wake_refuses_setup:
  "(let c = hd (bm_calls awake); b = snd (submission_settled we 30 (Some ''CHATGPT_AUTH_REQUIRED'') True [] c awake);
        b' = manager_run we [Timeout_check 99999999 ''r'', Close_page ''r''] b
    in bm_running b' \<and> fst (openSetupBrowser we 40 None (Inr 9) b')
      = Some ''Automated Chrome owns the profile; setup cannot reuse it until automated operations finish.'')"
  by code_simp

text \<open>A restart while a COMPLETED wake is pending: the reconciliation submits an INITIAL one, which replaces the stored intent.\<close>

theorem restart_replaces_intent:
  "(let b = manager_run we [Manager_restart, Rehydrate 20 True ''r'', Wake_call ''w2'' 21 ''r'' (wq ''INITIAL'')] awake
    in map_option so_result (op_get ''r'' (bm_ops awake)) = Some ''COMPLETED''
      \<and> map_option (\<lambda>r. (so_result r, so_wake r)) (op_get ''r'' (bm_ops b)) = Some (''INITIAL'', ''w2''))"
  by code_simp

text \<open>The ordinary course: the wake is submitted, its answer misses the deadline, it is retried once and then stalls.\<close>

theorem missed_deadlines_stall:
  "(let c = hd (bm_calls awake);
        b = manager_run we [Call_settled 30 None True [''r''] c, Timeout_check 2000 ''r'', Timeout_check 99999999 ''r''] awake
    in bm_retried b = [''w1''] \<and> bm_stalled b = [(''r'', ''run'', stall_text)] \<and> bm_memory b = []
      \<and> bm_lock b = None \<and> map_option so_status (op_get ''r'' (bm_ops b)) = Some OP_stalled)"
  by code_simp

end
