(* ===== verification/Startup.thy ===== *)
theory Startup
  imports Wake_Laws Executor_Store Loop_Drain
begin

text \<open>
  The reconciliation at startup (\<open>startup-reconciler.ts\<close>) over the loop, the browser manager and the rows of the executor, and the
  handler of a stalled Sol operation that \<open>app.ts\<close> sets. A stall is handled by the handler set at that time: the
  application reconciles before it sets one.
\<close>

record system =
  sy_loop :: lstate
  sy_manager :: manager
  sy_exec :: "exec_row list"

text \<open>The handler of a stall.\<close>

definition solStalled :: "ctx \<Rightarrow> ident \<Rightarrow> ident \<Rightarrow> string \<Rightarrow> lstate \<Rightarrow> lstate" where
  "solStalled cx repo i msg s = (case run_get i (runs s) of None \<Rightarrow> s
     | Some _ \<Rightarrow> (case active_run repo (ts_app s) of None \<Rightarrow> s
         | Some a \<Rightarrow> if ru_id a \<noteq> i then s
             else if ru_status a = SOL_REVIEWING \<or> ru_status a = SOL_PENDING then upd_app (stall cx repo i msg) s else s))"

definition awaiting_sol :: "ident \<Rightarrow> lstate \<Rightarrow> bool" where
  "awaiting_sol repo s \<longleftrightarrow> (case active_run repo (ts_app s) of None \<Rightarrow> False
     | Some r \<Rightarrow> ru_status r = SOL_REVIEWING \<or> ru_status r = SOL_PENDING)"

text \<open>\<open>rehydrateFromStore\<close>; \<open>handled\<close>: a handler of stalls is set.\<close>

definition rehydrate_step :: "manager_env \<Rightarrow> ctx \<Rightarrow> bool \<Rightarrow> ident \<Rightarrow> system \<Rightarrow> system" where
  "rehydrate_step me cx handled repo y =
     (let b = sy_manager y; b' = rehydrate_one me (cx_now cx) (awaiting_sol repo (sy_loop y)) repo b;
          new = drop (length (bm_stalled b)) (bm_stalled b')
      in y\<lparr>sy_manager := b',
           sy_loop := (if handled then fold (\<lambda>(r, i, m). solStalled cx r i m) new (sy_loop y) else sy_loop y)\<rparr>)"

definition rehydrateFromStore :: "manager_env \<Rightarrow> ctx \<Rightarrow> bool \<Rightarrow> ident list \<Rightarrow> system \<Rightarrow> system" where
  "rehydrateFromStore me cx handled repos y = fold (rehydrate_step me cx handled) repos y"

section \<open>The rows of the executor\<close>

definition exec_status_name :: "exec_status \<Rightarrow> string" where
  "exec_status_name s = (case s of XS_pending \<Rightarrow> ''pending'' | XS_running \<Rightarrow> ''running'' | XS_completed \<Rightarrow> ''completed''
     | XS_paused \<Rightarrow> ''paused'' | XS_failed \<Rightarrow> ''failed'' | XS_killed \<Rightarrow> ''killed'' | XS_timed_out \<Rightarrow> ''timed_out'')"

definition is_stale :: "exec_row \<Rightarrow> bool" where
  "is_stale r \<longleftrightarrow> er_status r = XS_running \<or> er_status r = XS_pending"

definition orphan_text :: "exec_status \<Rightarrow> string" where
  "orphan_text s = ''Orphaned by controller restart: executor run was still marked '' @ exec_status_name s
     @ '' but no live process existed at startup reconciliation. Marked failed to prevent two writers to one working tree.''"

definition repair_row :: "time \<Rightarrow> exec_row \<Rightarrow> exec_row list \<Rightarrow> exec_row list" where
  "repair_row now r t = exec_updateStatus (er_id r) XS_failed
     \<lparr>ep_exit = None, ep_error = Some (Some (orphan_text (er_status r))), ep_finished = Some (Some now), ep_log = None\<rparr> now t"

definition stale_rows :: "ident \<Rightarrow> exec_row list \<Rightarrow> exec_row list" where
  "stale_rows repo t = filter is_stale (exec_getByRepository repo t)"

definition repair_rows :: "time \<Rightarrow> ident \<Rightarrow> exec_row list \<Rightarrow> exec_row list" where
  "repair_rows now repo t = fold (repair_row now) (stale_rows repo t) t"

section \<open>The reconciliation\<close>

record reconcile_counts =
  rk_reconciled :: nat
  rk_recovery :: nat
  rk_orphaned :: nat

definition restart_error :: string where
  "restart_error = ''Controller process restarted while executor turn was in progress. Manual recovery required.''"

definition reconcile_repo :: "env \<Rightarrow> ctx \<Rightarrow> ident \<Rightarrow> reconcile_counts \<times> system \<Rightarrow> reconcile_counts \<times> system" where
  "reconcile_repo en cx repo ky = (case ky of (k, y) \<Rightarrow>
     (let k1 = k\<lparr>rk_orphaned := rk_orphaned k + length (stale_rows repo (sy_exec y))\<rparr>;
          y1 = y\<lparr>sy_exec := repair_rows (cx_now cx) repo (sy_exec y)\<rparr>
      in case active_run repo (ts_app (sy_loop y1)) of None \<Rightarrow> (k1, y1)
       | Some r \<Rightarrow> (let k2 = k1\<lparr>rk_reconciled := rk_reconciled k1 + 1\<rparr> in
           if ru_status r = EXECUTING \<or> ru_status r = EXECUTOR_PENDING
           then (k2\<lparr>rk_recovery := rk_recovery k2 + 1\<rparr>, y1\<lparr>sy_loop := upd_app (updateStatus cx (ru_id r) RECOVERY_REQUIRED
                   (no_updates\<lparr>up_error := Some (Some restart_error)\<rparr>)) (sy_loop y1)\<rparr>)
           else if ru_status r = SOL_PENDING then (k2, y1\<lparr>sy_loop := resubmitPendingWake en cx repo r (sy_loop y1)\<rparr>)
           else (k2, y1))))"

definition reconcile :: "env \<Rightarrow> manager_env \<Rightarrow> ctx \<Rightarrow> bool \<Rightarrow> system \<Rightarrow> reconcile_counts \<times> system" where
  "reconcile en me cx handled y =
     (let repos = map rc_id (ap_repos (ts_app (sy_loop y)));
          y1 = y\<lparr>sy_loop := rehydrateWallClockCeilings en cx (sy_loop y)\<rparr>;
          y2 = rehydrateFromStore me cx handled repos y1;
          y3 = y2\<lparr>sy_loop := rehydrateBusyBackpressure en (sy_loop y2)\<rparr>
      in fold (reconcile_repo en cx) repos (\<lparr>rk_reconciled = 0, rk_recovery = 0, rk_orphaned = 0\<rparr>, y3))"

text \<open>The application at startup: no handler of stalls is set yet.\<close>

definition startup_reconcile :: "env \<Rightarrow> manager_env \<Rightarrow> ctx \<Rightarrow> system \<Rightarrow> reconcile_counts \<times> system" where
  "startup_reconcile en me cx y = reconcile en me cx False y"

section \<open>No row of an executor outlives its controller\<close>

lemma repair_row_stale:
  assumes "x \<in> set (repair_row now r t)" "is_stale x"
  shows "er_id x \<noteq> er_id r \<and> x \<in> set t"
proof -
  have "x \<in> set (tbl_update (\<lambda>q. er_id q = er_id r) (\<lambda>q. q\<lparr>er_status := XS_failed, er_exit := er_exit q,
      er_error := Some (orphan_text (er_status r)), er_finished := Some now, er_log := er_log q, er_updated := now\<rparr>) t)"
    using assms(1) by (simp add: repair_row_def exec_updateStatus_def set_col_def)
  then obtain q where q: "q \<in> set t" "x = (if er_id q = er_id r then q\<lparr>er_status := XS_failed, er_exit := er_exit q,
      er_error := Some (orphan_text (er_status r)), er_finished := Some now, er_log := er_log q, er_updated := now\<rparr> else q)"
    unfolding tbl_update_def set_map by (rule imageE)
  then show ?thesis using assms(2) by (cases "er_id q = er_id r") (simp_all add: is_stale_def)
qed

lemma repair_fold_stale: "x \<in> set (fold (repair_row now) rs t) \<Longrightarrow> is_stale x \<Longrightarrow> x \<in> set t \<and> er_id x \<notin> er_id ` set rs"
proof (induction rs arbitrary: t)
  case (Cons r rs)
  then have x: "x \<in> set (repair_row now r t)" "er_id x \<notin> er_id ` set rs" by simp_all
  show ?case using repair_row_stale [OF x(1) Cons.prems(2)] x(2) by simp
qed simp

lemma repair_rows_stale:
  assumes "x \<in> set (repair_rows now repo t)" "is_stale x"
  shows "x \<in> set t \<and> er_repo x \<noteq> repo"
proof -
  have x: "x \<in> set t" "er_id x \<notin> er_id ` set (stale_rows repo t)"
    using repair_fold_stale assms unfolding repair_rows_def by blast+
  have "er_repo x \<noteq> repo"
  proof
    assume "er_repo x = repo"
    then have "x \<in> set (stale_rows repo t)"
      using x(1) assms(2) by (simp add: stale_rows_def exec_getByRepository_def order_desc_def)
    then show False using x(2) by blast
  qed
  then show ?thesis using x(1) by blast
qed

lemma reconcile_repo_exec: "sy_exec (snd (reconcile_repo en cx repo ky)) = repair_rows (cx_now cx) repo (sy_exec (snd ky))"
  by (cases ky) (simp add: reconcile_repo_def Let_def split: option.split)

lemma reconcile_repos_stale: "x \<in> set (sy_exec (snd (fold (reconcile_repo en cx) repos ky))) \<Longrightarrow> is_stale x \<Longrightarrow>
    x \<in> set (sy_exec (snd ky)) \<and> er_repo x \<notin> set repos"
proof (induction repos arbitrary: ky)
  case (Cons r rs)
  then have x: "x \<in> set (sy_exec (snd (reconcile_repo en cx r ky)))" "er_repo x \<notin> set rs" by simp_all
  show ?case using repair_rows_stale [OF x(1) [unfolded reconcile_repo_exec] Cons.prems(2)] x(2) by simp
qed simp

lemma rehydrate_exec: "sy_exec (rehydrateFromStore me cx h repos y) = sy_exec y"
  unfolding rehydrateFromStore_def by (induction repos arbitrary: y) (simp_all add: rehydrate_step_def Let_def)

text \<open>
  C29: after the reconciliation at startup no row of a listed repository says that an executor runs or waits to run, whatever the
  loop and the browser do meanwhile; rows of repositories that are not listed are left as they were.
\<close>

theorem startup_leaves_no_running_row:
  assumes "x \<in> set (sy_exec (snd (startup_reconcile en me cx y)))" "is_stale x"
  shows "x \<in> set (sy_exec y) \<and> er_repo x \<notin> rc_id ` set (ap_repos (ts_app (sy_loop y)))"
proof -
  have "x \<in> set (sy_exec y) \<and> er_repo x \<notin> set (map rc_id (ap_repos (ts_app (sy_loop y))))"
    using reconcile_repos_stale [OF assms [unfolded startup_reconcile_def reconcile_def Let_def]] by (simp add: rehydrate_exec)
  then show ?thesis by simp
qed

text \<open>An executor that was running when the controller died needs recovery by hand.\<close>

theorem interrupted_run_needs_recovery:
  assumes "active_run repo (ts_app (sy_loop y)) = Some r" "ru_status r = EXECUTING \<or> ru_status r = EXECUTOR_PENDING"
  shows "\<exists>q. run_get (ru_id r) (runs (sy_loop (snd (reconcile_repo en cx repo (k, y))))) = Some q
    \<and> ru_status q = RECOVERY_REQUIRED \<and> ru_error q = Some restart_error"
proof -
  have "r \<in> set (runs (sy_loop y))" using assms(1)
    by (auto simp: active_run_def getActiveRun_def first_row_def order_desc_def split: list.splits dest!: arg_cong [where f = set])
  then obtain q where "run_get (ru_id r) (runs (sy_loop y)) = Some q"
    by (cases "run_get (ru_id r) (runs (sy_loop y))") (auto simp: run_get_def tbl_get_None)
  then show ?thesis using assms by (auto simp: reconcile_repo_def Let_def loop_simps run_simps run_write_def no_updates_def)
qed

section \<open>A stall at startup is lost\<close>

lemma rehydrate_unhandled: "sy_loop (rehydrateFromStore me cx False repos y) = sy_loop y"
  unfolding rehydrateFromStore_def by (induction repos arbitrary: y) (simp_all add: rehydrate_step_def Let_def)

text \<open>Whatever stalls during the rehydration, the loop does not learn of it: the browser's part of the startup leaves it alone.\<close>

theorem startup_stall_unheard:
  "startup_reconcile en me cx y = (let repos = map rc_id (ap_repos (ts_app (sy_loop y)));
       y2 = rehydrateFromStore me cx False repos (y\<lparr>sy_loop := rehydrateWallClockCeilings en cx (sy_loop y)\<rparr>)
     in fold (reconcile_repo en cx) repos (\<lparr>rk_reconciled = 0, rk_recovery = 0, rk_orphaned = 0\<rparr>,
          y2\<lparr>sy_loop := rehydrateBusyBackpressure en (rehydrateWallClockCeilings en cx (sy_loop y))\<rparr>))"
  by (simp add: startup_reconcile_def reconcile_def Let_def rehydrate_unhandled)

section \<open>Examples\<close>

definition boot_manager :: manager where
  "boot_manager = (let en = \<lparr>be_profile = \<lparr>pe_pid = 7, pe_kill = \<lambda>p. if p = 7 then Kill_ok else Kill_other, pe_inUse = Some False, pe_writes = True\<rparr>, be_timeoutMs = 1000\<rparr>;
       q = \<lparr>wr_repositoryName = ''R'', wr_run = ''run'', wr_iteration = 1, wr_dispatch = Some ''d'', wr_result = ''COMPLETED'', wr_url = ''u'', wr_waitMs = None\<rparr>;
       b = manager_step en (Wake_call ''w1'' 10 ''r'' q) fresh_manager
     in manager_run en [Call_settled 30 None True [''r''] (hd (bm_calls b)), Timeout_check 2000 ''r'', Manager_restart] b)"

definition boot_row :: "ident \<Rightarrow> ident \<Rightarrow> exec_row" where
  "boot_row i repo = \<lparr>er_id = i, er_repo = repo, er_dispatch = ''d'', er_run = ''run'', er_iter = 1, er_status = XS_running, er_exit = None,
     er_log = None, er_error = None, er_started = 0, er_finished = None, er_created = 0, er_updated = 0\<rparr>"

definition boot_env :: manager_env where
  "boot_env = \<lparr>be_profile = \<lparr>pe_pid = 8, pe_kill = \<lambda>p. if p = 8 then Kill_ok else Kill_other, pe_inUse = Some False, pe_writes = True\<rparr>, be_timeoutMs = 1000\<rparr>"

definition boot_system :: system where
  "boot_system = \<lparr>sy_loop = demo_state [demo_run ''run'' SOL_REVIEWING], sy_manager = boot_manager, sy_exec = [boot_row ''a'' ''r'', boot_row ''b'' ''z'']\<rparr>"

definition boot_loop :: env where
  "boot_loop = demo_env (\<lambda>_ _ s. (W_submitted, s))"

theorem startup_leaves_no_running_row_witness:
  "boot_row ''b'' ''z'' \<in> set (sy_exec boot_system) \<and> er_repo (boot_row ''b'' ''z'') \<notin> rc_id ` set (ap_repos (ts_app (sy_loop boot_system)))"
proof (rule startup_leaves_no_running_row [where en = boot_loop and me = boot_env and cx = "demo_ctx\<lparr>cx_now := 9999999\<rparr>"])
  show "boot_row ''b'' ''z'' \<in> set (sy_exec (snd (startup_reconcile boot_loop boot_env (demo_ctx\<lparr>cx_now := 9999999\<rparr>) boot_system)))" by code_simp
  show "is_stale (boot_row ''b'' ''z'')" by code_simp
qed

text \<open>
  The wait of a reviewing run ran out while the controller was down, its one retry spent. The reconciliation stalls the operation; the run goes on
  reviewing with no operation in memory and no timer but that of its ceiling.
\<close>

theorem reviewing_run_waits_forever:
  "(let y = snd (startup_reconcile boot_loop boot_env (demo_ctx\<lparr>cx_now := 9999999\<rparr>) boot_system)
    in map ru_status (runs (sy_loop y)) = [SOL_REVIEWING] \<and> map so_status (bm_ops (sy_manager y)) = [OP_stalled]
      \<and> bm_memory (sy_manager y) = [] \<and> bm_timers (sy_manager y) = [] \<and> ap_busyTimers (ts_app (sy_loop y)) ''r'' = None)"
  by code_simp

theorem reviewing_run_stalls_when_heard:
  "map ru_status (runs (sy_loop (snd (reconcile boot_loop boot_env (demo_ctx\<lparr>cx_now := 9999999\<rparr>) True boot_system)))) = [SOL_STALLED]"
  by code_simp

end
