(* ===== verification/Usage_Telemetry.thy ===== *)
theory Usage_Telemetry
  imports Event_Bus
begin

text \<open>
  What an executor reports of its own consumption: the schema and the summary of \<open>packages/shared/src/usage-telemetry.ts\<close>, the table
  of \<open>usage-telemetry-store.ts\<close> and the service of \<open>usage-telemetry-service.ts\<close>. Numbers are rationals, so sums do not round; a
  missing field and a null are the same, as the code treats them. Of a schema error the fixed message is used.
\<close>

section \<open>The input\<close>

datatype usage_source = U_NATIVE | U_PROVIDER | U_STRUCTURED | U_UNKNOWN
datatype cost_status = Cost_exact | Cost_estimated | Cost_unknown

record usage_input =
  us_repo :: ident
  us_run :: "ident option"
  us_iter :: "int option"
  us_dispatch :: "ident option"
  us_execRun :: "ident option"
  us_executor :: string
  us_provider :: "string option"
  us_model :: string
  us_input :: "rat option"
  us_cached :: "rat option"
  us_output :: "rat option"
  us_reasoning :: "rat option"
  us_requests :: "rat option"
  us_latency :: "rat option"
  us_retries :: "rat option"
  us_rateLimits :: "rat option"
  us_exact :: "rat option"
  us_estimated :: "rat option"
  us_currency :: "string option"
  us_given :: "cost_status option"
  us_source :: usage_source
  us_at :: "time option"
  us_notes :: "string option"

text \<open>\<open>f.nullable().optional()\<close>, read by code that does not tell the two apart.\<close>

definition zs_maybe :: "'a schema \<Rightarrow> 'a option schema" where
  "zs_maybe f x = (case x of None \<Rightarrow> Some None | Some V_null \<Rightarrow> Some None | Some v \<Rightarrow> map_option Some (f (Some v)))"

definition zs_nonneg :: "rat schema" where
  "zs_nonneg x = (case x of Some (V_num q) \<Rightarrow> if 0 \<le> q then Some q else None | _ \<Rightarrow> None)"

definition usage_keys :: "string list" where
  "usage_keys = [''repositoryId'', ''runId'', ''iteration'', ''dispatchId'', ''executorRunId'', ''executor'', ''provider'', ''model'',
     ''inputTokens'', ''cachedInputTokens'', ''outputTokens'', ''reasoningTokens'', ''requestCount'', ''latencyMs'', ''retryCount'',
     ''rateLimitEvents'', ''exactCost'', ''estimatedCost'', ''currency'', ''costStatus'', ''source'', ''recordedAt'', ''notes'']"

definition cost_statuses :: "(string \<times> cost_status) list" where
  "cost_statuses = [(''EXACT'', Cost_exact), (''ESTIMATED'', Cost_estimated), (''UNKNOWN'', Cost_unknown)]"

definition usage_sources :: "(string \<times> usage_source) list" where
  "usage_sources = [(''NATIVE_EXECUTOR'', U_NATIVE), (''PROVIDER_RESPONSE'', U_PROVIDER), (''STRUCTURED_RESULT'', U_STRUCTURED), (''UNKNOWN'', U_UNKNOWN)]"

definition cost_of :: "'a usage_input_scheme \<Rightarrow> cost_status" where
  "cost_of u = (case us_given u of Some c \<Rightarrow> c
     | None \<Rightarrow> if us_exact u \<noteq> None then Cost_exact else if us_estimated u \<noteq> None then Cost_estimated else Cost_unknown)"

text \<open>The refinement of the schema: no two costs, and a status that fits the cost.\<close>

definition cost_refined :: "usage_input \<Rightarrow> bool" where
  "cost_refined u \<longleftrightarrow> \<not> (us_exact u \<noteq> None \<and> us_estimated u \<noteq> None)
     \<and> \<not> (cost_of u = Cost_exact \<and> us_exact u = None) \<and> \<not> (cost_of u = Cost_estimated \<and> us_estimated u = None)
     \<and> \<not> (cost_of u = Cost_unknown \<and> (us_exact u \<noteq> None \<or> us_estimated u \<noteq> None))"

definition usage_fields :: "(string \<Rightarrow> time option) \<Rightarrow> (string \<Rightarrow> jv option) \<Rightarrow> usage_input option" where
  "usage_fields dt g = do {
     repo \<leftarrow> zs_string 1 200 (g ''repositoryId'');
     run \<leftarrow> zs_maybe (zs_string 0 200) (g ''runId'');
     iter \<leftarrow> zs_maybe (zs_int 1 None) (g ''iteration'');
     d \<leftarrow> zs_maybe (zs_string 0 200) (g ''dispatchId'');
     er \<leftarrow> zs_maybe (zs_string 0 200) (g ''executorRunId'');
     x \<leftarrow> zs_string 1 200 (g ''executor'');
     p \<leftarrow> zs_maybe (zs_string 0 200) (g ''provider'');
     m \<leftarrow> zs_string 1 300 (g ''model'');
     a1 \<leftarrow> zs_maybe zs_nonneg (g ''inputTokens'');
     a2 \<leftarrow> zs_maybe zs_nonneg (g ''cachedInputTokens'');
     a3 \<leftarrow> zs_maybe zs_nonneg (g ''outputTokens'');
     a4 \<leftarrow> zs_maybe zs_nonneg (g ''reasoningTokens'');
     a5 \<leftarrow> zs_maybe zs_nonneg (g ''requestCount'');
     a6 \<leftarrow> zs_maybe zs_nonneg (g ''latencyMs'');
     a7 \<leftarrow> zs_maybe zs_nonneg (g ''retryCount'');
     a8 \<leftarrow> zs_maybe zs_nonneg (g ''rateLimitEvents'');
     c1 \<leftarrow> zs_maybe zs_nonneg (g ''exactCost'');
     c2 \<leftarrow> zs_maybe zs_nonneg (g ''estimatedCost'');
     cur \<leftarrow> zs_maybe (zs_string 0 20) (g ''currency'');
     st \<leftarrow> zs_optional (zs_enum cost_statuses) (g ''costStatus'');
     src \<leftarrow> zs_enum usage_sources (g ''source'');
     t \<leftarrow> zs_optional (zs_datetime dt) (g ''recordedAt'');
     n \<leftarrow> zs_maybe (zs_plain (\<lambda>s. length s \<le> 2000)) (g ''notes'');
     Some \<lparr>us_repo = repo, us_run = run, us_iter = iter, us_dispatch = d, us_execRun = er, us_executor = x, us_provider = p,
       us_model = m, us_input = a1, us_cached = a2, us_output = a3, us_reasoning = a4, us_requests = a5, us_latency = a6,
       us_retries = a7, us_rateLimits = a8, us_exact = c1, us_estimated = c2, us_currency = cur, us_given = st, us_source = src,
       us_at = t, us_notes = n\<rparr> }"

definition usageMetricInputSchema :: "(string \<Rightarrow> time option) \<Rightarrow> usage_input schema" where
  "usageMetricInputSchema dt = zs_object (Some usage_keys)
     (\<lambda>g. Option.bind (usage_fields dt g) (\<lambda>u. if cost_refined u then Some u else None))"

section \<open>The table\<close>

record usage_metric = usage_input +
  us_id :: ident
  us_cost :: cost_status
  us_recorded :: time

definition usage_metric_of :: "ident \<Rightarrow> time \<Rightarrow> usage_input \<Rightarrow> usage_metric" where
  "usage_metric_of i now u = usage_input.extend u \<lparr>us_id = i, us_cost = cost_of u, us_recorded = (case us_at u of None \<Rightarrow> now | Some t \<Rightarrow> t)\<rparr>"

definition usage_listByRepository :: "ident \<Rightarrow> nat \<Rightarrow> usage_metric list \<Rightarrow> usage_metric list" where
  "usage_listByRepository repo n t = take n (order_desc us_recorded (filter (\<lambda>m. us_repo m = repo) t))"

definition usage_listByRun :: "ident \<Rightarrow> usage_metric list \<Rightarrow> usage_metric list" where
  "usage_listByRun run t = order_asc us_recorded (filter (\<lambda>m. us_run m = Some run) t)"

definition usage_listByIteration :: "ident \<Rightarrow> int \<Rightarrow> usage_metric list \<Rightarrow> usage_metric list" where
  "usage_listByIteration run i t = order_asc us_recorded (filter (\<lambda>m. us_run m = Some run \<and> us_iter m = Some i) t)"

section \<open>The service\<close>

text \<open>\<open>ut_marked\<close>: the repositories whose capability snapshot was told of usage; \<open>ut_events\<close>: what was published.\<close>

record usage_state =
  ut_rows :: "usage_metric list"
  ut_marked :: "ident list"
  ut_events :: "(time \<times> ident \<times> fields) list"

definition cost_name :: "cost_status \<Rightarrow> string" where
  "cost_name c = (case c of Cost_exact \<Rightarrow> ''EXACT'' | Cost_estimated \<Rightarrow> ''ESTIMATED'' | Cost_unknown \<Rightarrow> ''UNKNOWN'')"

definition source_name :: "usage_source \<Rightarrow> string" where
  "source_name s = (case s of U_NATIVE \<Rightarrow> ''NATIVE_EXECUTOR'' | U_PROVIDER \<Rightarrow> ''PROVIDER_RESPONSE'' | U_STRUCTURED \<Rightarrow> ''STRUCTURED_RESULT'' | U_UNKNOWN \<Rightarrow> ''UNKNOWN'')"

definition given :: "string \<Rightarrow> string option \<Rightarrow> fields" where
  "given k x = (case x of None \<Rightarrow> [] | Some s \<Rightarrow> [(k, V_str s)])"

definition usage_event :: "usage_metric \<Rightarrow> fields" where
  "usage_event m = given ''runId'' (us_run m) @ (case us_iter m of None \<Rightarrow> [] | Some i \<Rightarrow> [(''iteration'', V_num (of_int i))])
     @ given ''dispatchId'' (us_dispatch m) @ [(''usageId'', V_str (us_id m)), (''executor'', V_str (us_executor m))]
     @ given ''provider'' (us_provider m) @ [(''model'', V_str (us_model m)), (''source'', V_str (source_name (us_source m))),
       (''costStatus'', V_str (cost_name (us_cost m)))]"

definition invalid_usage :: string where
  "invalid_usage = ''Usage telemetry is invalid or incomplete.''"

text \<open>\<open>record\<close>; \<open>stores\<close> is the message of SQLite when the row is refused.\<close>

definition record_usage ::
    "(string \<Rightarrow> time option) \<Rightarrow> (usage_metric \<Rightarrow> string option) \<Rightarrow> ident \<Rightarrow> time \<Rightarrow> jv \<Rightarrow> usage_state \<Rightarrow> (string + usage_metric) \<times> usage_state" where
  "record_usage dt stores i now v s = (case usageMetricInputSchema dt (Some v) of
       None \<Rightarrow> (Inl invalid_usage, s)
     | Some u \<Rightarrow> (let m = usage_metric_of i now u in
         case stores m of Some e \<Rightarrow> (Inl e, s)
         | None \<Rightarrow> (Inr m, s\<lparr>ut_rows := ut_rows s @ [m],
             ut_marked := (if us_source m \<noteq> U_UNKNOWN then ut_marked s @ [us_repo m] else ut_marked s),
             ut_events := ut_events s @ [(us_recorded m, us_repo m, usage_event m)]\<rparr>)))"

record usage_context =
  uc_repo :: ident
  uc_run :: ident
  uc_iter :: int
  uc_dispatch :: "ident option"
  uc_execRun :: "ident option"
  uc_executor :: string
  uc_model :: string
  uc_provider :: "string option"

definition raw_number :: "fields \<Rightarrow> string \<Rightarrow> rat option" where
  "raw_number raw k = (case map_of raw k of Some (V_num q) \<Rightarrow> if 0 \<le> q then Some q else None | _ \<Rightarrow> None)"

definition raw_text :: "fields \<Rightarrow> string \<Rightarrow> string option" where
  "raw_text raw k = (case map_of raw k of Some (V_str (c # cs)) \<Rightarrow> Some (c # cs) | _ \<Rightarrow> None)"

definition counted_keys :: "string list" where
  "counted_keys = [''inputTokens'', ''cachedInputTokens'', ''outputTokens'', ''reasoningTokens'', ''requestCount'', ''latencyMs'',
     ''retryCount'', ''rateLimitEvents'']"

definition useful_keys :: "string list" where
  "useful_keys = counted_keys @ [''exactCost'', ''estimatedCost'']"

definition has_useful_value :: "fields \<Rightarrow> bool" where
  "has_useful_value raw \<longleftrightarrow> list_ex (\<lambda>k. map_of raw k \<noteq> None \<and> map_of raw k \<noteq> Some V_null) useful_keys"

definition jv_text :: "string option \<Rightarrow> jv" where
  "jv_text x = (case x of None \<Rightarrow> V_null | Some s \<Rightarrow> V_str s)"

definition jv_number :: "rat option \<Rightarrow> jv" where
  "jv_number x = (case x of None \<Rightarrow> V_null | Some q \<Rightarrow> V_num q)"

definition adapter_input :: "usage_context \<Rightarrow> fields \<Rightarrow> jv" where
  "adapter_input c raw = V_obj ([(''repositoryId'', V_str (uc_repo c)), (''runId'', V_str (uc_run c)), (''iteration'', V_num (of_int (uc_iter c)))]
     @ [(''dispatchId'', jv_text (uc_dispatch c)), (''executorRunId'', jv_text (uc_execRun c)), (''executor'', V_str (uc_executor c)),
        (''model'', V_str (uc_model c)), (''provider'', jv_text (coalesce (raw_text raw ''provider'') (uc_provider c)))]
     @ map (\<lambda>k. (k, jv_number (raw_number raw k))) useful_keys
     @ [(''currency'', jv_text (raw_text raw ''currency'')),
        (''costStatus'', V_str (if raw_number raw ''exactCost'' \<noteq> None then ''EXACT'' else if raw_number raw ''estimatedCost'' \<noteq> None then ''ESTIMATED'' else ''UNKNOWN'')),
        (''source'', V_str ''NATIVE_EXECUTOR''), (''notes'', jv_text (raw_text raw ''notes''))])"

text \<open>\<open>usage\<close>: None when the adapter has no such method, \<open>Inl\<close> when it throws.\<close>

definition captureAdapterUsage ::
    "(string \<Rightarrow> time option) \<Rightarrow> (usage_metric \<Rightarrow> string option) \<Rightarrow> ident \<Rightarrow> time \<Rightarrow> (string + fields) option \<Rightarrow> usage_context
      \<Rightarrow> usage_state \<Rightarrow> (string + usage_metric option) \<times> usage_state" where
  "captureAdapterUsage dt stores i now usage c s = (case usage of
       None \<Rightarrow> (Inr None, s)
     | Some (Inl _) \<Rightarrow> (Inr None, s)
     | Some (Inr raw) \<Rightarrow>
         if \<not> has_useful_value raw \<or> (raw_number raw ''exactCost'' \<noteq> None \<and> raw_number raw ''estimatedCost'' \<noteq> None) then (Inr None, s)
         else (case record_usage dt stores i now (adapter_input c raw) s of
             (Inl e, s1) \<Rightarrow> (Inl e, s1) | (Inr m, s1) \<Rightarrow> (Inr (Some m), s1)))"

section \<open>The summary\<close>

record usage_summary =
  um_count :: nat
  um_known :: nat
  um_unknown :: nat
  um_input :: "rat option"
  um_cached :: "rat option"
  um_output :: "rat option"
  um_reasoning :: "rat option"
  um_requests :: "rat option"
  um_latency :: "rat option"
  um_retries :: "rat option"
  um_rateLimits :: "rat option"
  um_exact :: "rat option"
  um_estimated :: "rat option"
  um_currencies :: "string list"
  um_providers :: "string list"
  um_models :: "string list"

definition sum_of :: "(usage_metric \<Rightarrow> rat option) \<Rightarrow> usage_metric list \<Rightarrow> rat option" where
  "sum_of f ms = (case List.map_filter f ms of [] \<Rightarrow> None | vs \<Rightarrow> Some (fold (\<lambda>v t. t + v) vs 0))"

text \<open>\<open>[...new Set(xs)]\<close>, the empty texts left out.\<close>

definition distinct_texts :: "string option list \<Rightarrow> string list" where
  "distinct_texts xs = rev (remdups (rev (filter (\<lambda>s. s \<noteq> []) (List.map_filter id xs))))"

definition is_unknown :: "usage_metric \<Rightarrow> bool" where
  "is_unknown m \<longleftrightarrow> us_source m = U_UNKNOWN \<and> us_cost m = Cost_unknown"

definition summarizeUsage :: "usage_metric list \<Rightarrow> usage_summary" where
  "summarizeUsage ms = \<lparr>um_count = length ms, um_known = length (filter (\<lambda>m. \<not> is_unknown m) ms), um_unknown = length (filter is_unknown ms),
     um_input = sum_of us_input ms, um_cached = sum_of us_cached ms, um_output = sum_of us_output ms, um_reasoning = sum_of us_reasoning ms,
     um_requests = sum_of us_requests ms, um_latency = sum_of us_latency ms, um_retries = sum_of us_retries ms,
     um_rateLimits = sum_of us_rateLimits ms, um_exact = sum_of us_exact ms, um_estimated = sum_of us_estimated ms,
     um_currencies = distinct_texts (map us_currency ms), um_providers = distinct_texts (map us_provider ms),
     um_models = distinct_texts (map (\<lambda>m. Some (us_model m)) ms)\<rparr>"

section \<open>Laws\<close>

text \<open>The status of a stored cost says which cost the row has; the checks of the table ask for no more.\<close>

definition cost_honest :: "usage_metric \<Rightarrow> bool" where
  "cost_honest m \<longleftrightarrow> (us_cost m = Cost_exact \<longleftrightarrow> us_exact m \<noteq> None) \<and> (us_cost m = Cost_estimated \<longleftrightarrow> us_estimated m \<noteq> None)"

lemma bind_guard: "Option.bind x (\<lambda>u. if p u then Some u else None) = Some u \<Longrightarrow> p u"
  by (cases x) (simp_all split: if_splits)

lemma zs_object_Some: "zs_object ks f x = Some u \<Longrightarrow> \<exists>g. f g = Some u"
  unfolding zs_object_def by (simp split: option.splits jv.splits if_splits) blast+

lemma schema_refined: "usageMetricInputSchema dt (Some v) = Some u \<Longrightarrow> cost_refined u"
  unfolding usageMetricInputSchema_def by (drule zs_object_Some, erule exE, rule bind_guard)

lemma metric_fields [simp]: "us_exact (usage_metric_of i now u) = us_exact u" "us_estimated (usage_metric_of i now u) = us_estimated u"
  "us_cost (usage_metric_of i now u) = cost_of u"
  by (simp_all add: usage_metric_of_def usage_input.defs)

lemma refined_honest: "cost_refined u \<Longrightarrow> cost_honest (usage_metric_of i now u)"
  unfolding cost_refined_def cost_honest_def by (cases "cost_of u") auto

theorem recorded_costs_honest:
  assumes "list_all cost_honest (ut_rows s)"
  shows "list_all cost_honest (ut_rows (snd (record_usage dt stores i now v s)))"
proof (cases "usageMetricInputSchema dt (Some v)")
  case (Some u)
  then show ?thesis using assms refined_honest [OF schema_refined [OF Some]]
    by (simp add: record_usage_def Let_def split: option.split)
qed (use assms in \<open>simp add: record_usage_def\<close>)

text \<open>An adapter is heard or passed over, but a report whose texts are too long throws into the completion that asked for it.\<close>

theorem capture_changes_rows_by_one:
  "case captureAdapterUsage dt stores i now usage c s of
     (Inr (Some m), s1) \<Rightarrow> ut_rows s1 = ut_rows s @ [m] \<and> us_id m = i
   | (_, s1) \<Rightarrow> s1 = s"
  by (auto simp: captureAdapterUsage_def record_usage_def Let_def usage_metric_of_def usage_input.defs split: option.splits sum.splits if_splits)

lemma map_filter_append: "List.map_filter f (xs @ ys) = List.map_filter f xs @ List.map_filter f ys"
  by (simp add: List.map_filter_def)

lemma fold_plus: "fold (\<lambda>v t. t + v) vs (a :: rat) = a + sum_list vs"
  by (induction vs arbitrary: a) simp_all

lemma sum_of_values: "sum_of f ms = (case List.map_filter f ms of [] \<Rightarrow> None | v # vs \<Rightarrow> Some (sum_list (v # vs)))"
  by (cases "List.map_filter f ms") (simp_all add: sum_of_def fold_plus)

text \<open>Summaries add up: what was not reported stays unreported, and is not taken for nought.\<close>

theorem sums_add_up:
  "sum_of f (xs @ ys) = (case (sum_of f xs, sum_of f ys) of (None, b) \<Rightarrow> b | (a, None) \<Rightarrow> a | (Some a, Some b) \<Rightarrow> Some (a + b))"
  by (cases "List.map_filter f xs"; cases "List.map_filter f ys") (simp_all add: sum_of_values map_filter_append add.assoc)

end
