(* ===== verification/Ledger.thy ===== *)
theory Ledger
  imports Usage_Telemetry "HOL-Library.Sublist"
begin

text \<open>
  The ledger of a campaign: the table of \<open>campaign-ledger-store.ts\<close> and, of \<open>campaign-ledger-service.ts\<close>, the recording of an event
  with its attribution to a run, and the read model of summaries, iterations and phases. \<open>JSON.parse\<close>, the printing of numbers and
  the row that SQLite accepts for its foreign keys are as in the code; an identifier in an event that is no text is passed over.
\<close>

section \<open>Rows\<close>

datatype trace_phase = TP_campaign | TP_sol_wake | TP_sol_review | TP_dispatch | TP_executor_launch | TP_executor_activity | TP_git_preflight
  | TP_result | TP_git_postflight | TP_control | TP_recovery | TP_permission | TP_budget

datatype trace_status = TS_info | TS_started | TS_succeeded | TS_failed | TS_blocked | TS_retrying

record trace_row =
  tr_id :: ident
  tr_repo :: ident
  tr_run :: "ident option"
  tr_iter :: "rat option"
  tr_phase :: trace_phase
  tr_type :: string
  tr_dispatch :: "ident option"
  tr_result :: "string option"
  tr_control :: "ident option"
  tr_at :: time
  tr_duration :: "rat option"
  tr_status :: trace_status
  tr_reason :: "string option"
  tr_json :: string

record bus_event =
  bv_type :: string
  bv_at :: time
  bv_repo :: ident
  bv_data :: fields

record ledger =
  lg_rows :: "trace_row list"
  lg_repos :: "ident list"
  lg_runs :: "run list"
  lg_dispatches :: "dispatch list"
  lg_controls :: "ident list"

text \<open>The text of a row: what is too long is shortened, and in the last resort cut.\<close>

definition stored_json :: "(rat \<Rightarrow> string) \<Rightarrow> fields \<Rightarrow> string" where
  "stored_json nt fs = (let json = json_text nt (V_obj fs) in
     if length json \<le> 4096 then json
     else (let cut_json = json_text nt (V_obj (shorten nt 4096 cut_to_ledger fs)) in
       if length cut_json \<le> 4096 then cut_json else take (4096 - 20) cut_json @ truncated_mark))"

text \<open>\<open>map\<close>: the data of a row that is read.\<close>

definition row_data :: "(string \<Rightarrow> jv option) \<Rightarrow> trace_row \<Rightarrow> fields" where
  "row_data parse r = (case parse (tr_json r) of None \<Rightarrow> [(''parseError'', V_bool True)] | Some (V_obj fs) \<Rightarrow> fs | Some _ \<Rightarrow> [])"

definition keys_exist :: "trace_row \<Rightarrow> ledger \<Rightarrow> bool" where
  "keys_exist r s \<longleftrightarrow> tr_repo r \<in> set (lg_repos s) \<and> (case tr_run r of None \<Rightarrow> True | Some i \<Rightarrow> i \<in> ru_id ` set (lg_runs s))
     \<and> (case tr_dispatch r of None \<Rightarrow> True | Some i \<Rightarrow> i \<in> di_id ` set (lg_dispatches s))
     \<and> (case tr_control r of None \<Rightarrow> True | Some i \<Rightarrow> i \<in> set (lg_controls s))"

definition ledger_record :: "trace_row \<Rightarrow> ledger \<Rightarrow> bool \<times> ledger" where
  "ledger_record r s = (if keys_exist r s then (True, s\<lparr>lg_rows := lg_rows s @ [r]\<rparr>) else (False, s))"

definition ledger_listByRepository :: "ident \<Rightarrow> nat \<Rightarrow> ledger \<Rightarrow> trace_row list" where
  "ledger_listByRepository repo n s = rev (take n (order_desc tr_at (filter (\<lambda>r. tr_repo r = repo) (lg_rows s))))"

definition ledger_listByRun :: "ident \<Rightarrow> nat \<Rightarrow> ledger \<Rightarrow> trace_row list" where
  "ledger_listByRun run n s = take n (order_asc tr_at (filter (\<lambda>r. tr_run r = Some run) (lg_rows s)))"

definition ledger_listByIteration :: "ident \<Rightarrow> rat \<Rightarrow> ledger \<Rightarrow> trace_row list" where
  "ledger_listByIteration run i s = order_asc tr_at (filter (\<lambda>r. tr_run r = Some run \<and> tr_iter r = Some i) (lg_rows s))"

definition countByRun :: "ident \<Rightarrow> ledger \<Rightarrow> nat" where
  "countByRun run s = length (filter (\<lambda>r. tr_run r = Some run) (lg_rows s))"

definition countIterations :: "ident \<Rightarrow> ledger \<Rightarrow> nat" where
  "countIterations run s = card (set (List.map_filter tr_iter (filter (\<lambda>r. tr_run r = Some run) (lg_rows s))))"

section \<open>Phase and status of an event\<close>

definition string_value :: "jv option \<Rightarrow> string option" where
  "string_value x = (case x of Some (V_str (c # cs)) \<Rightarrow> Some (c # cs) | _ \<Rightarrow> None)"

definition number_value :: "jv option \<Rightarrow> rat option" where
  "number_value x = (case x of Some (V_num q) \<Rightarrow> Some q | _ \<Rightarrow> None)"

definition plain_text :: "jv option \<Rightarrow> string option" where
  "plain_text x = (case x of Some (V_str s) \<Rightarrow> Some s | _ \<Rightarrow> None)"

definition as_object :: "jv option \<Rightarrow> fields option" where
  "as_object x = (case x of Some (V_obj fs) \<Rightarrow> Some fs | _ \<Rightarrow> None)"

definition truthy :: "jv option \<Rightarrow> bool" where
  "truthy x = (case x of None \<Rightarrow> False | Some V_null \<Rightarrow> False | Some (V_bool b) \<Rightarrow> b | Some (V_num q) \<Rightarrow> q \<noteq> 0 | Some (V_str s) \<Rightarrow> s \<noteq> [] | Some _ \<Rightarrow> True)"

definition phase_table :: "(string \<times> trace_phase) list" where
  "phase_table = [(''watcher.dispatch_detected'', TP_dispatch), (''watcher.dispatch_rejected'', TP_dispatch), (''watcher.control_detected'', TP_control),
     (''watcher.poll_completed'', TP_dispatch), (''executor.log'', TP_executor_activity), (''executor.started'', TP_executor_launch),
     (''executor.completed'', TP_result), (''sol.wake_submitted'', TP_sol_wake), (''sol.wake_busy'', TP_sol_wake), (''sol.wake_retrying'', TP_sol_wake),
     (''sol.wake_failed'', TP_recovery), (''sol.operation_completed'', TP_sol_review), (''executor.capability_probed'', TP_executor_launch),
     (''executor.usage_recorded'', TP_executor_activity), (''permission.decision'', TP_permission), (''strategy.permission_required'', TP_permission),
     (''budget.expired'', TP_budget), (''strategy.control'', TP_control), (''strategy.integration_completed'', TP_git_postflight),
     (''strategy.recovery'', TP_recovery), (''strategy.worker_started'', TP_executor_activity), (''strategy.worker_completed'', TP_executor_activity),
     (''strategy.worker_queued'', TP_executor_activity), (''strategy.started'', TP_executor_launch), (''strategy.completed'', TP_result)]"

definition state_phase :: "string option \<Rightarrow> trace_phase" where
  "state_phase st = (case st of None \<Rightarrow> TP_campaign | Some s \<Rightarrow>
     if s = ''SOL_PENDING'' then TP_sol_wake else if s = ''SOL_REVIEWING'' then TP_sol_review
     else if s = ''EXECUTOR_PENDING'' then TP_executor_launch else if s = ''EXECUTING'' then TP_executor_activity
     else if s \<in> set [''RECOVERY_REQUIRED'', ''ATTENTION_REQUIRED'', ''SOL_STALLED''] then TP_recovery
     else if s \<in> set [''GOAL_COMPLETE'', ''BLOCKED'', ''NEEDS_HUMAN'', ''STOPPED'', ''CEILING_REACHED''] then TP_control else TP_campaign)"

definition mapPhase :: "string \<Rightarrow> fields \<Rightarrow> trace_phase" where
  "mapPhase k fs = (case map_of phase_table k of Some p \<Rightarrow> p
     | None \<Rightarrow> if prefix ''lease.'' k
         \<or> k \<in> set [''process.verdict'', ''transition.retry'', ''outbox.retry'', ''recovery.decision'', ''scheduler.lease_reconciled''] then TP_recovery
       else if k = ''loop.state_changed'' then state_phase (string_value (map_of fs ''loopState'')) else TP_campaign)"

definition is_text :: "fields \<Rightarrow> string \<Rightarrow> string \<Rightarrow> bool" where
  "is_text fs k v \<longleftrightarrow> map_of fs k = Some (V_str v)"

definition mapStatus :: "string \<Rightarrow> fields \<Rightarrow> trace_status" where
  "mapStatus k fs =
     (if k = ''permission.decision'' then (if is_text fs ''outcome'' ''ASK'' then TS_blocked else if is_text fs ''outcome'' ''DENY'' then TS_failed else TS_succeeded)
      else if k = ''strategy.permission_required'' then TS_blocked
      else if prefix ''lease.'' k then (if k = ''lease.quarantined'' \<or> k = ''lease.conflict'' then TS_failed else TS_info)
      else if k = ''process.verdict'' then TS_info
      else if k = ''transition.retry'' \<or> k = ''outbox.retry'' then TS_retrying
      else if k = ''recovery.decision'' then (if is_text fs ''decision'' ''quarantine'' then TS_failed else TS_info)
      else if k = ''watcher.dispatch_rejected'' \<or> truthy (map_of fs ''failureReason'') \<or> truthy (map_of fs ''reason'') then TS_failed
      else if k = ''watcher.dispatch_detected'' \<or> k = ''watcher.control_detected'' then TS_succeeded
      else if k = ''executor.started'' then TS_started
      else if k = ''executor.completed'' then (if is_text fs ''resultStatus'' ''COMPLETED'' then TS_succeeded
             else if is_text fs ''resultStatus'' ''BLOCKED'' \<or> is_text fs ''resultStatus'' ''NEEDS_HUMAN'' then TS_blocked else TS_failed)
      else if k = ''sol.wake_submitted'' \<or> k = ''sol.operation_completed'' then TS_succeeded
      else if k = ''sol.wake_busy'' \<or> k = ''sol.wake_retrying'' then TS_retrying
      else if k = ''sol.wake_failed'' then TS_failed
      else if k = ''budget.expired'' then TS_failed
      else if k = ''strategy.control'' then (if is_text fs ''decision'' ''KILL'' then TS_failed else TS_started)
      else if k = ''strategy.completed'' then (case string_value (map_of fs ''strategyStatus'') of None \<Rightarrow> TS_failed
          | Some st \<Rightarrow> if st = ''COMPLETED'' \<or> st = ''PARTIAL'' then TS_succeeded else if st = ''BLOCKED'' \<or> st = ''RECOVERY_REQUIRED'' then TS_blocked else TS_failed)
      else if k = ''strategy.worker_completed'' then (if is_text fs ''resultStatus'' ''COMPLETED'' then TS_succeeded else TS_failed)
      else if k = ''strategy.worker_queued'' then TS_retrying
      else if k = ''strategy.integration_completed''
        then (if is_text fs ''integrationStatus'' ''COMPLETED'' \<or> is_text fs ''integrationStatus'' ''PARTIAL'' then TS_succeeded else TS_blocked)
      else if k = ''strategy.recovery'' then TS_blocked
      else if k = ''loop.state_changed'' then (case string_value (map_of fs ''loopState'') of None \<Rightarrow> TS_started
          | Some st \<Rightarrow> if st \<in> set [''BLOCKED'', ''NEEDS_HUMAN'', ''RECOVERY_REQUIRED'', ''SOL_STALLED'', ''ATTENTION_REQUIRED''] then TS_blocked else TS_started)
      else TS_info)"

section \<open>Attribution\<close>

definition event_dispatch :: "string \<Rightarrow> fields \<Rightarrow> ident option" where
  "event_dispatch k fs = (let g = map_of fs; d = as_object (g ''dispatch''); c = as_object (g ''control'') in
     coalesce (string_value (g ''dispatchId''))
       (coalesce (if k = ''executor.log'' then string_value (g ''runId'') else None)
         (coalesce (Option.bind d (\<lambda>ob. plain_text (map_of ob ''id''))) (Option.bind c (\<lambda>ob. plain_text (map_of ob ''relatedDispatchId''))))))"

definition event_control :: "string \<Rightarrow> fields \<Rightarrow> ident option" where
  "event_control k fs = (if k = ''watcher.control_detected'' \<or> k = ''watcher.control_rejected''
     then coalesce (string_value (map_of fs ''controlId'')) (Option.bind (as_object (map_of fs ''control'')) (\<lambda>ob. plain_text (map_of ob ''controlId'')))
     else None)"

text \<open>The run of a dispatch that has one, with the iteration of the dispatch.\<close>

definition dispatch_row :: "ident option \<Rightarrow> ledger \<Rightarrow> (ident option \<times> int) option" where
  "dispatch_row d s = (case d of Some (c # cs) \<Rightarrow>
       map_option (\<lambda>x. (if run_get (di_run x) (lg_runs s) = None then None else Some (di_run x), di_iter x)) (tbl_get di_id (c # cs) (lg_dispatches s))
     | _ \<Rightarrow> None)"

definition explicit_run :: "fields \<Rightarrow> ident option" where
  "explicit_run fs = (let r = coalesce (string_value (map_of fs ''runId''))
        (coalesce (Option.bind (as_object (map_of fs ''dispatch'')) (\<lambda>ob. string_value (map_of ob ''runId'')))
          (Option.bind (as_object (map_of fs ''control'')) (\<lambda>ob. string_value (map_of ob ''runId''))))
     in if r = Some ''unknown'' then None else r)"

definition is_audit :: "string \<Rightarrow> bool" where
  "is_audit k \<longleftrightarrow> list_ex (\<lambda>p. prefix p k) [''lease.'', ''process.'', ''transition.'', ''outbox.'', ''recovery.'']"

definition event_run :: "bus_event \<Rightarrow> fields \<Rightarrow> ledger \<Rightarrow> ident option" where
  "event_run e fs s = (let d = dispatch_row (event_dispatch (bv_type e) fs) s in
     case explicit_run fs of
       Some i \<Rightarrow> if run_get i (lg_runs s) = None then None else Some i
     | None \<Rightarrow> (case d of
         Some (r, _) \<Rightarrow> r
       | None \<Rightarrow> if prefix ''repository.'' (bv_type e) \<or> is_audit (bv_type e) then None
           else map_option ru_id (getLatestRun (bv_repo e) (lg_runs s))))"

definition object_number :: "string \<Rightarrow> fields \<Rightarrow> rat option" where
  "object_number k fs = Option.bind (as_object (map_of fs k)) (\<lambda>ob. number_value (map_of ob ''iteration''))"

definition event_iteration :: "bus_event \<Rightarrow> fields \<Rightarrow> ledger \<Rightarrow> rat option" where
  "event_iteration e fs s = coalesce (number_value (map_of fs ''iteration'')) (coalesce (object_number ''dispatch'' fs)
     (coalesce (object_number ''control'' fs) (map_option (\<lambda>d. of_int (snd d)) (dispatch_row (event_dispatch (bv_type e) fs) s))))"

definition trace_of :: "(rat \<Rightarrow> string) \<Rightarrow> ident \<Rightarrow> bus_event \<Rightarrow> ledger \<Rightarrow> trace_row" where
  "trace_of nt i e s = (let fs = boundDataJson nt MAX_DATA_JSON (bv_data e); k = bv_type e in
     \<lparr>tr_id = i, tr_repo = bv_repo e, tr_run = event_run e fs s, tr_iter = event_iteration e fs s, tr_phase = mapPhase k fs, tr_type = k,
      tr_dispatch = event_dispatch k fs, tr_result = string_value (map_of fs ''resultId''), tr_control = event_control k fs, tr_at = bv_at e,
      tr_duration = number_value (map_of fs ''durationMs''), tr_status = mapStatus k fs,
      tr_reason = coalesce (string_value (map_of fs ''failureReason'')) (string_value (map_of fs ''reason'')), tr_json = stored_json nt fs\<rparr>)"

definition recordEvent :: "(rat \<Rightarrow> string) \<Rightarrow> ident \<Rightarrow> bus_event \<Rightarrow> ledger \<Rightarrow> bool \<times> ledger" where
  "recordEvent nt i e s = (if bv_type e = ''repository.deleted'' then (False, s) else ledger_record (trace_of nt i e s) s)"

section \<open>The read model\<close>

definition durationBetween :: "time option \<Rightarrow> time option \<Rightarrow> int option" where
  "durationBetween a b = (case (a, b) of (Some x, Some y) \<Rightarrow> if x \<le> y then Some (y - x) else None | _ \<Rightarrow> None)"

definition first_seen :: "'a list \<Rightarrow> 'a list" where
  "first_seen xs = rev (remdups (rev xs))"

definition worst_status :: "trace_row list \<Rightarrow> trace_status" where
  "worst_status rs = (let ss = map tr_status rs in if TS_failed \<in> set ss then TS_failed else if TS_blocked \<in> set ss then TS_blocked
     else if TS_retrying \<in> set ss then TS_retrying else if TS_succeeded \<in> set ss then TS_succeeded else TS_info)"

record iteration_summary =
  it_iter :: rat
  it_count :: nat
  it_duration :: "int option"
  it_phases :: "trace_phase list"
  it_status :: trace_status
  it_latest :: "time option"

definition iteration_rows :: "rat \<Rightarrow> trace_row list \<Rightarrow> trace_row list" where
  "iteration_rows i rs = filter (\<lambda>r. tr_iter r = Some i) rs"

definition summary_of :: "rat \<Rightarrow> trace_row list \<Rightarrow> iteration_summary" where
  "summary_of i rs = \<lparr>it_iter = i, it_count = length rs,
     it_duration = durationBetween (map_option tr_at (first_row rs)) (map_option tr_at (first_row (rev rs))),
     it_phases = first_seen (map tr_phase rs), it_status = worst_status rs, it_latest = map_option tr_at (first_row (rev rs))\<rparr>"

definition buildIterations :: "trace_row list \<Rightarrow> iteration_summary list" where
  "buildIterations rs = map (\<lambda>i. summary_of i (iteration_rows i rs)) (sort (first_seen (List.map_filter tr_iter rs)))"

definition getIteration :: "rat \<Rightarrow> trace_row list \<Rightarrow> iteration_summary" where
  "getIteration i rs = (case find (\<lambda>x. it_iter x = i) (buildIterations rs) of Some x \<Rightarrow> x
     | None \<Rightarrow> \<lparr>it_iter = i, it_count = 0, it_duration = None, it_phases = [], it_status = TS_info, it_latest = None\<rparr>)"

record campaign_summary =
  ca_run :: run
  ca_events :: nat
  ca_iterations :: nat
  ca_duration :: "int option"
  ca_latest :: "time option"
  ca_phase :: "trace_phase option"
  ca_failure :: "string option"

definition buildSummary :: "run \<Rightarrow> trace_row list \<Rightarrow> campaign_summary" where
  "buildSummary r rs = (let latest = first_row (rev rs) in
     \<lparr>ca_run = r, ca_events = length rs, ca_iterations = length (first_seen (List.map_filter tr_iter rs)),
      ca_duration = durationBetween (Some (ru_started r)) (coalesce (ru_finished r) (map_option tr_at latest)),
      ca_latest = map_option tr_at latest, ca_phase = map_option tr_phase latest,
      ca_failure = first_row (filter (\<lambda>m. m \<noteq> []) (List.map_filter tr_reason (rev rs)))\<rparr>)"

definition ledger_list :: "ident \<Rightarrow> nat \<Rightarrow> ledger \<Rightarrow> campaign_summary list" where
  "ledger_list repo n s = (if repo \<notin> set (lg_repos s) then []
     else map (\<lambda>r. buildSummary r (ledger_listByRun (ru_id r) 2000 s)) (take n (run_getByRepository repo (lg_runs s))))"

text \<open>\<open>withPhaseDurations\<close>: the first row of each stretch of a phase gets the time until the next one begins.\<close>

fun phase_runs :: "trace_row list \<Rightarrow> trace_row list list" where
  "phase_runs [] = []"
| "phase_runs (r # rs) = (case phase_runs rs of
     (q # g) # gs \<Rightarrow> if tr_phase q = tr_phase r then (r # q # g) # gs else [r] # (q # g) # gs
   | gs \<Rightarrow> [r] # gs)"

fun span_durations :: "time option \<Rightarrow> trace_row list list \<Rightarrow> trace_row list" where
  "span_durations fin [] = []"
| "span_durations fin ([] # gs) = span_durations fin gs"
| "span_durations fin ((r # g) # gs) =
     (let stop = (case gs of (q # _) # _ \<Rightarrow> Some (tr_at q) | _ \<Rightarrow> coalesce fin (Some (tr_at (last (r # g)))))
      in (r\<lparr>tr_duration := map_option of_int (durationBetween (Some (tr_at r)) stop)\<rparr> # g) @ span_durations fin gs)"

definition withPhaseDurations :: "time option \<Rightarrow> trace_row list \<Rightarrow> trace_row list" where
  "withPhaseDurations fin rs = span_durations fin (phase_runs rs)"

definition getTimeline :: "ident \<Rightarrow> ident \<Rightarrow> nat \<Rightarrow> ledger \<Rightarrow> trace_row list" where
  "getTimeline repo i n s = (case run_get i (lg_runs s) of None \<Rightarrow> []
     | Some r \<Rightarrow> if repo \<notin> set (lg_repos s) \<or> ru_repo r \<noteq> repo then []
         else (let t = withPhaseDurations (ru_finished r) (ledger_listByRun i 2000 s) in drop (length t - n) t))"

section \<open>Laws\<close>

lemma stored_json_bound: "length (stored_json nt fs) \<le> 4096"
  by (simp add: stored_json_def Let_def truncated_mark_def)

definition ledger_ok :: "ledger \<Rightarrow> bool" where
  "ledger_ok s \<longleftrightarrow> list_all (\<lambda>r. length (tr_json r) \<le> 4096 \<and> keys_exist r s) (lg_rows s)"

lemma keys_exist_rows [simp]: "keys_exist r (s\<lparr>lg_rows := t\<rparr>) = keys_exist r s"
  by (simp add: keys_exist_def cong: option.case_cong)

text \<open>However large the event, a row holds at most 4096 characters of it, and what a row refers to exists.\<close>

theorem recorded_rows_bounded: "ledger_ok s \<Longrightarrow> ledger_ok (snd (recordEvent nt i e s))"
  by (simp add: recordEvent_def ledger_record_def ledger_ok_def trace_of_def Let_def stored_json_bound)

text \<open>A run that an event names explicitly is its run or, when it is not stored, nothing: it is never replaced by another.\<close>

theorem explicit_run_respected:
  assumes "explicit_run (boundDataJson nt MAX_DATA_JSON (bv_data e)) = Some j"
  shows "tr_run (trace_of nt i e s) = (if run_get j (lg_runs s) = None then None else Some j)"
  using assms by (simp add: trace_of_def Let_def event_run_def)

text \<open>But an event whose objects alone are too long loses its keys, and goes to the latest run of the repository whatever run it named.\<close>

theorem oversize_event_goes_to_latest:
  assumes "\<not> length (json_text nt (V_obj (bv_data e))) \<le> MAX_DATA_JSON"
    and "\<not> length (json_text nt (V_obj (shorten nt MAX_DATA_JSON cut_to_ledger (bv_data e)))) \<le> MAX_DATA_JSON"
    and "bv_type e = ''watcher.dispatch_detected''"
  shows "tr_run (trace_of nt i e s) = map_option ru_id (getLatestRun (bv_repo e) (lg_runs s))" "tr_dispatch (trace_of nt i e s) = None"
proof -
  obtain d where d: "boundDataJson nt MAX_DATA_JSON (bv_data e) = [(''_truncated'', V_bool True), (''detail'', V_str d)]"
    using assms(1,2) by (simp add: boundDataJson_def Let_def)
  show "tr_dispatch (trace_of nt i e s) = None"
    by (simp add: trace_of_def Let_def d event_dispatch_def assms(3) string_value_def as_object_def coalesce_def)
  show "tr_run (trace_of nt i e s) = map_option ru_id (getLatestRun (bv_repo e) (lg_runs s))"
    by (simp add: trace_of_def Let_def d event_run_def event_dispatch_def explicit_run_def assms(3) string_value_def as_object_def coalesce_def
      dispatch_row_def is_audit_def)
qed

text \<open>The phases cut the timeline into stretches and lose no row; only durations change.\<close>

lemma phase_runs_concat: "concat (phase_runs rs) = rs"
  by (induction rs rule: phase_runs.induct) (auto split: list.splits if_splits)

lemma span_rows: "map (\<lambda>r. r\<lparr>tr_duration := None\<rparr>) (span_durations fin gs) = map (\<lambda>r. r\<lparr>tr_duration := None\<rparr>) (concat gs)"
  by (induction fin gs rule: span_durations.induct) (simp_all add: Let_def)

theorem timeline_keeps_rows:
  "map (\<lambda>r. r\<lparr>tr_duration := None\<rparr>) (withPhaseDurations fin rs) = map (\<lambda>r. r\<lparr>tr_duration := None\<rparr>) rs"
  unfolding withPhaseDurations_def span_rows phase_runs_concat ..

lemma set_first_seen: "set (first_seen xs) = set xs"
  by (simp add: first_seen_def)

text \<open>The iterations partition the rows that have one.\<close>

theorem iterations_count_rows:
  "sum_list (map it_count (buildIterations rs)) = length (filter (\<lambda>r. tr_iter r \<noteq> None) rs)"
proof -
  have count: "sum_list (map (\<lambda>i. length (iteration_rows i rs)) js) = length (filter (\<lambda>r. \<exists>i \<in> set js. tr_iter r = Some i) rs)" if "distinct js" for js
    using that
  proof (induction js)
    case (Cons j js)
    have "length (filter (\<lambda>r. \<exists>i \<in> set (j # js). tr_iter r = Some i) t)
        = length (filter (\<lambda>r. tr_iter r = Some j) t) + length (filter (\<lambda>r. \<exists>i \<in> set js. tr_iter r = Some i) t)" for t
      using Cons.prems by (induction t) auto
    note split = this [of rs]
    have "distinct js" using Cons.prems by simp
    then have ih: "sum_list (map (\<lambda>i. length (iteration_rows i rs)) js) = length (filter (\<lambda>r. \<exists>i \<in> set js. tr_iter r = Some i) rs)" by (rule Cons.IH)
    show ?case unfolding split using ih by (simp add: iteration_rows_def)
  qed simp
  have "distinct (sort (first_seen (List.map_filter tr_iter rs)))" by (simp add: first_seen_def)
  moreover have "filter (\<lambda>r. \<exists>i \<in> set (sort (first_seen (List.map_filter tr_iter rs))). tr_iter r = Some i) rs = filter (\<lambda>r. tr_iter r \<noteq> None) rs"
    by (rule filter_cong) (auto simp: set_first_seen List.map_filter_def image_iff)
  ultimately show ?thesis using count by (simp add: buildIterations_def summary_of_def comp_def)
qed

end
