(* ===== verification/Repositories.thy ===== *)
theory Repositories
  imports Marker_Laws
begin

text \<open>
  The repositories that Orca watches: the schemas of \<open>packages/shared/src/validation.ts\<close>, the table of \<open>repository-store.ts\<close> and
  the service of \<open>repository-service.ts\<close>, with the runs that the deletion of a repository takes along. Of a schema error the
  fixed message of the \<open>ValidationError\<close> is used; the bus is the list of what was published.
\<close>

section \<open>Schemas\<close>

text \<open>\<open>z.string().trim().min(1)\<close>, the same without a minimum, and a boolean.\<close>

definition zs_trim :: "string schema" where
  "zs_trim x = (case x of Some (V_str s) \<Rightarrow> Some (js_trim s) | _ \<Rightarrow> None)"

definition zs_text :: "string schema" where
  "zs_text x = Option.bind (zs_trim x) (\<lambda>t. if t \<noteq> [] then Some t else None)"

definition zs_bool :: "bool schema" where
  "zs_bool x = (case x of Some (V_bool b) \<Rightarrow> Some b | _ \<Rightarrow> None)"

definition url_char :: "char \<Rightarrow> bool" where
  "url_char c \<longleftrightarrow> is_letter c \<or> (48 \<le> (of_char c :: nat) \<and> (of_char c :: nat) \<le> 57) \<or> c = CHR ''_'' \<or> c = CHR ''-''"

definition drop_prefix :: "string \<Rightarrow> string \<Rightarrow> string option" where
  "drop_prefix p s = (if take (length p) s = p then Some (drop (length p) s) else None)"

text \<open>A part of a path, and what follows it.\<close>

definition url_part :: "string \<Rightarrow> string option" where
  "url_part s = (if takeWhile url_char s \<noteq> [] then Some (dropWhile url_char s) else None)"

definition url_end :: "string \<Rightarrow> bool" where
  "url_end s \<longleftrightarrow> (case s of [] \<Rightarrow> True | c # cs \<Rightarrow> c = CHR ''?'' \<and> list_all rx_dot cs)"

definition url_path :: "string \<Rightarrow> bool" where
  "url_path s \<longleftrightarrow> (case drop_prefix ''c/'' s of
       Some r \<Rightarrow> (case url_part r of Some t \<Rightarrow> url_end t | None \<Rightarrow> False)
     | None \<Rightarrow> (case drop_prefix ''g/'' s of None \<Rightarrow> False
         | Some r \<Rightarrow> (case url_part r of None \<Rightarrow> False
             | Some t \<Rightarrow> (case drop_prefix ''/c/'' t of None \<Rightarrow> False
                 | Some u \<Rightarrow> (case url_part u of None \<Rightarrow> False | Some v \<Rightarrow> url_end v)))))"

definition conversation_url :: "string \<Rightarrow> bool" where
  "conversation_url s \<longleftrightarrow> (case drop_prefix ''https://chatgpt.com/'' s of Some r \<Rightarrow> url_path r
     | None \<Rightarrow> (case drop_prefix ''https://chat.openai.com/'' s of Some r \<Rightarrow> url_path r | None \<Rightarrow> False))"

definition zs_url :: "string schema" where
  "zs_url x = Option.bind (zs_trim x) (\<lambda>t. if conversation_url t then Some t else None)"

definition environments :: "(string \<times> host_env) list" where
  "environments = [(''windows'', ENV_windows), (''wsl'', ENV_wsl)]"

record repo_config =
  rg_name :: string
  rg_remote :: string
  rg_path :: string
  rg_env :: host_env
  rg_distro :: "string option"
  rg_cli :: string
  rg_model :: string
  rg_url :: string
  rg_iterations :: int
  rg_minutes :: int
  rg_enabled :: bool

definition DEFAULT_MAX_ITERATIONS :: int where "DEFAULT_MAX_ITERATIONS = 20"
definition DEFAULT_MAX_RUNTIME_MINUTES :: int where "DEFAULT_MAX_RUNTIME_MINUTES = 480"

definition repo_keys :: "string list" where
  "repo_keys = [''displayName'', ''githubRemote'', ''localPath'', ''environment'', ''wslDistribution'', ''executorCli'', ''executorModel'',
     ''solConversationUrl'', ''maxIterations'', ''maxRuntimeMinutes'', ''enabled'']"

definition with_default :: "'a \<Rightarrow> 'a option \<Rightarrow> 'a" where
  "with_default d x = (case x of None \<Rightarrow> d | Some v \<Rightarrow> v)"

definition repo_fields :: "(string \<Rightarrow> jv option) \<Rightarrow> repo_config option" where
  "repo_fields g = do {
     n \<leftarrow> zs_text (g ''displayName'');
     r \<leftarrow> zs_text (g ''githubRemote'');
     p \<leftarrow> zs_text (g ''localPath'');
     e \<leftarrow> zs_enum environments (g ''environment'');
     d \<leftarrow> zs_optional (zs_nullable zs_trim) (g ''wslDistribution'');
     c \<leftarrow> zs_text (g ''executorCli'');
     m \<leftarrow> zs_text (g ''executorModel'');
     u \<leftarrow> zs_url (g ''solConversationUrl'');
     i \<leftarrow> zs_optional (zs_int 1 None) (g ''maxIterations'');
     t \<leftarrow> zs_optional (zs_int 1 None) (g ''maxRuntimeMinutes'');
     b \<leftarrow> zs_optional zs_bool (g ''enabled'');
     Some \<lparr>rg_name = n, rg_remote = r, rg_path = p, rg_env = e, rg_distro = with_default None d, rg_cli = c, rg_model = m, rg_url = u,
       rg_iterations = with_default DEFAULT_MAX_ITERATIONS i, rg_minutes = with_default DEFAULT_MAX_RUNTIME_MINUTES t,
       rg_enabled = with_default True b\<rparr> }"

definition distro_given :: "repo_config \<Rightarrow> bool" where
  "distro_given c \<longleftrightarrow> (rg_env c = ENV_wsl \<longrightarrow> rg_distro c \<noteq> None \<and> rg_distro c \<noteq> Some [])"

definition createRepositorySchema :: "repo_config schema" where
  "createRepositorySchema = zs_object (Some repo_keys) (\<lambda>g. Option.bind (repo_fields g) (\<lambda>c. if distro_given c then Some c else None))"

record domain_error =
  de_code :: string
  de_message :: string
  de_status :: nat

definition validation_error :: "string \<Rightarrow> domain_error" where
  "validation_error m = \<lparr>de_code = ''VALIDATION_ERROR'', de_message = m, de_status = 422\<rparr>"

definition validateCreateRepository :: "jv \<Rightarrow> domain_error + repo_config" where
  "validateCreateRepository v = (case createRepositorySchema (Some v) of
       None \<Rightarrow> Inl (validation_error ''Repository configuration is invalid.'')
     | Some c \<Rightarrow> Inr (c\<lparr>rg_distro := (if rg_env c = ENV_windows then None else rg_distro c)\<rparr>))"

text \<open>A patch: the missing fields are None.\<close>

record repo_patch =
  rq_name :: "string option"
  rq_remote :: "string option"
  rq_path :: "string option"
  rq_env :: "host_env option"
  rq_distro :: "string option option"
  rq_cli :: "string option"
  rq_model :: "string option"
  rq_url :: "string option"
  rq_iterations :: "int option"
  rq_minutes :: "int option"
  rq_enabled :: "bool option"

definition patch_fields :: "(string \<Rightarrow> jv option) \<Rightarrow> repo_patch option" where
  "patch_fields g = do {
     n \<leftarrow> zs_optional zs_text (g ''displayName'');
     r \<leftarrow> zs_optional zs_text (g ''githubRemote'');
     p \<leftarrow> zs_optional zs_text (g ''localPath'');
     e \<leftarrow> zs_optional (zs_enum environments) (g ''environment'');
     d \<leftarrow> zs_optional (zs_nullable zs_trim) (g ''wslDistribution'');
     c \<leftarrow> zs_optional zs_text (g ''executorCli'');
     m \<leftarrow> zs_optional zs_text (g ''executorModel'');
     u \<leftarrow> zs_optional zs_url (g ''solConversationUrl'');
     i \<leftarrow> zs_optional (zs_int 1 None) (g ''maxIterations'');
     t \<leftarrow> zs_optional (zs_int 1 None) (g ''maxRuntimeMinutes'');
     b \<leftarrow> zs_optional zs_bool (g ''enabled'');
     Some \<lparr>rq_name = n, rq_remote = r, rq_path = p, rq_env = e, rq_distro = d, rq_cli = c, rq_model = m, rq_url = u,
       rq_iterations = i, rq_minutes = t, rq_enabled = b\<rparr> }"

definition updateRepositorySchema :: "repo_patch schema" where
  "updateRepositorySchema x = (case x of Some (V_obj []) \<Rightarrow> None | _ \<Rightarrow> zs_object (Some repo_keys) patch_fields x)"

definition validateUpdateRepository :: "jv \<Rightarrow> domain_error + repo_patch" where
  "validateUpdateRepository v = (case updateRepositorySchema (Some v) of
       None \<Rightarrow> Inl (validation_error ''Repository patch is invalid.'') | Some p \<Rightarrow> Inr p)"

definition jv_maybe :: "string option \<Rightarrow> jv" where
  "jv_maybe x = (case x of None \<Rightarrow> V_null | Some s \<Rightarrow> V_str s)"

definition env_text :: "host_env \<Rightarrow> string" where
  "env_text e = (case e of ENV_windows \<Rightarrow> ''windows'' | ENV_wsl \<Rightarrow> ''wsl'')"

definition config_jv :: "repo_config \<Rightarrow> jv" where
  "config_jv c = V_obj [(''displayName'', V_str (rg_name c)), (''githubRemote'', V_str (rg_remote c)), (''localPath'', V_str (rg_path c)),
     (''environment'', V_str (env_text (rg_env c))), (''wslDistribution'', jv_maybe (rg_distro c)), (''executorCli'', V_str (rg_cli c)),
     (''executorModel'', V_str (rg_model c)), (''solConversationUrl'', V_str (rg_url c)), (''maxIterations'', V_num (of_int (rg_iterations c))),
     (''maxRuntimeMinutes'', V_num (of_int (rg_minutes c))), (''enabled'', V_bool (rg_enabled c))]"

definition config_of :: "repository \<Rightarrow> repo_config" where
  "config_of r = \<lparr>rg_name = ry_displayName r, rg_remote = ry_remote r, rg_path = ry_localPath r, rg_env = ry_env r, rg_distro = ry_distro r,
     rg_cli = ry_cli r, rg_model = ry_model r, rg_url = ry_solUrl r, rg_iterations = ry_maxIterations r, rg_minutes = ry_maxRuntime r,
     rg_enabled = ry_enabled r\<rparr>"

definition repository_of :: "ident \<Rightarrow> time \<Rightarrow> time \<Rightarrow> repo_config \<Rightarrow> repository" where
  "repository_of i created updated c = \<lparr>ry_id = i, ry_displayName = rg_name c, ry_remote = rg_remote c, ry_localPath = rg_path c,
     ry_env = rg_env c, ry_distro = rg_distro c, ry_cli = rg_cli c, ry_model = rg_model c, ry_solUrl = rg_url c,
     ry_maxIterations = rg_iterations c, ry_maxRuntime = rg_minutes c, ry_enabled = rg_enabled c, ry_created = created, ry_updated = updated\<rparr>"

definition merged_config :: "repository \<Rightarrow> repo_patch \<Rightarrow> repo_config" where
  "merged_config r p = (let e = with_default (ry_env r) (rq_env p) in
     \<lparr>rg_name = with_default (ry_displayName r) (rq_name p), rg_remote = with_default (ry_remote r) (rq_remote p),
      rg_path = with_default (ry_localPath r) (rq_path p), rg_env = e,
      rg_distro = (if e = ENV_windows then None else with_default (ry_distro r) (rq_distro p)),
      rg_cli = with_default (ry_cli r) (rq_cli p), rg_model = with_default (ry_model r) (rq_model p),
      rg_url = with_default (ry_solUrl r) (rq_url p), rg_iterations = with_default (ry_maxIterations r) (rq_iterations p),
      rg_minutes = with_default (ry_maxRuntime r) (rq_minutes p), rg_enabled = with_default (ry_enabled r) (rq_enabled p)\<rparr>)"

definition validateMergedRepository :: "time \<Rightarrow> repository \<Rightarrow> repo_patch \<Rightarrow> domain_error + repository" where
  "validateMergedRepository now r p = (case validateCreateRepository (config_jv (merged_config r p)) of
       Inl e \<Rightarrow> Inl e | Inr c \<Rightarrow> Inr (repository_of (ry_id r) (ry_created r) now c))"

section \<open>The table and the service\<close>

record repo_state =
  rp_repos :: "repository list"
  rp_runs :: "run list"
  rp_events :: "(string \<times> time \<times> ident) list"

definition repo_list :: "repo_state \<Rightarrow> repository list" where
  "repo_list s = order_desc ry_created (rp_repos s)"

definition repo_find :: "ident \<Rightarrow> repo_state \<Rightarrow> repository option" where
  "repo_find i s = tbl_get ry_id i (rp_repos s)"

definition not_found :: "ident \<Rightarrow> domain_error" where
  "not_found i = \<lparr>de_code = ''REPOSITORY_NOT_FOUND'', de_message = ''Repository with ID '' @ [CHR 0x22] @ i @ [CHR 0x22] @ '' not found.'', de_status = 404\<rparr>"

definition getRepository :: "ident \<Rightarrow> repo_state \<Rightarrow> domain_error + repository" where
  "getRepository i s = (case repo_find i s of None \<Rightarrow> Inl (not_found i) | Some r \<Rightarrow> Inr r)"

definition repo_publish :: "string \<Rightarrow> time \<Rightarrow> ident \<Rightarrow> repo_state \<Rightarrow> repo_state" where
  "repo_publish k t i s = s\<lparr>rp_events := rp_events s @ [(k, t, i)]\<rparr>"

text \<open>\<open>i\<close> is the identifier that is drawn, a fresh one.\<close>

definition createRepository :: "ident \<Rightarrow> time \<Rightarrow> jv \<Rightarrow> repo_state \<Rightarrow> (domain_error + repository) \<times> repo_state" where
  "createRepository i now v s = (case validateCreateRepository v of
       Inl e \<Rightarrow> (Inl e, s)
     | Inr c \<Rightarrow> (let r = repository_of i now now c in
         (Inr r, repo_publish ''repository.created'' now i (s\<lparr>rp_repos := rp_repos s @ [r]\<rparr>))))"

definition updateRepository :: "ident \<Rightarrow> time \<Rightarrow> jv \<Rightarrow> repo_state \<Rightarrow> (domain_error + repository) \<times> repo_state" where
  "updateRepository i now v s = (case getRepository i s of Inl e \<Rightarrow> (Inl e, s)
     | Inr r \<Rightarrow> (case validateUpdateRepository v of Inl e \<Rightarrow> (Inl e, s)
         | Inr p \<Rightarrow> (case validateMergedRepository now r p of Inl e \<Rightarrow> (Inl e, s)
             | Inr q \<Rightarrow> (Inr q, repo_publish ''repository.updated'' now i (s\<lparr>rp_repos := tbl_update (\<lambda>x. ry_id x = i) (\<lambda>_. q) (rp_repos s)\<rparr>)))))"

definition active_run_error :: "ident \<Rightarrow> ident \<Rightarrow> domain_error" where
  "active_run_error i run = \<lparr>de_code = ''REPOSITORY_ACTIVE_RUN'', de_message = ''Repository '' @ [CHR 0x22] @ i @ [CHR 0x22]
     @ '' cannot be deleted while run '' @ [CHR 0x22] @ run @ [CHR 0x22] @ '' is active.'', de_status = 409\<rparr>"

text \<open>The rows of a deleted repository cascade; of them the runs are modelled.\<close>

definition deleteRepository :: "ident \<Rightarrow> time \<Rightarrow> repo_state \<Rightarrow> (domain_error + unit) \<times> repo_state" where
  "deleteRepository i now s = (case getRepository i s of Inl e \<Rightarrow> (Inl e, s)
     | Inr _ \<Rightarrow> (case getActiveRun i (rp_runs s) of
         Some r \<Rightarrow> (Inl (active_run_error i (ru_id r)), s)
       | None \<Rightarrow> (Inr (), repo_publish ''repository.deleted'' now i
           (s\<lparr>rp_repos := tbl_delete (\<lambda>r. ry_id r = i) (rp_repos s), rp_runs := tbl_delete (\<lambda>r. ru_repo r = i) (rp_runs s)\<rparr>))))"

section \<open>What is stored is valid\<close>

definition text_ok :: "string \<Rightarrow> bool" where
  "text_ok s \<longleftrightarrow> s \<noteq> [] \<and> js_trim s = s"

definition config_ok :: "repo_config \<Rightarrow> bool" where
  "config_ok c \<longleftrightarrow> text_ok (rg_name c) \<and> text_ok (rg_remote c) \<and> text_ok (rg_path c) \<and> text_ok (rg_cli c) \<and> text_ok (rg_model c)
     \<and> js_trim (rg_url c) = rg_url c \<and> conversation_url (rg_url c) \<and> 1 \<le> rg_iterations c \<and> 1 \<le> rg_minutes c
     \<and> (case rg_env c of ENV_windows \<Rightarrow> rg_distro c = None | ENV_wsl \<Rightarrow> (\<exists>d. rg_distro c = Some d \<and> text_ok d))"

lemma zs_trim_good: "zs_trim x = Some t \<Longrightarrow> js_trim t = t"
  by (auto simp: zs_trim_def split: option.splits jv.splits)

lemma zs_text_good: "zs_text x = Some t \<Longrightarrow> text_ok t"
  by (auto simp: zs_text_def text_ok_def bind_eq_Some_conv dest: zs_trim_good split: if_splits)

lemma zs_url_good: "zs_url x = Some t \<Longrightarrow> js_trim t = t \<and> conversation_url t"
  by (auto simp: zs_url_def bind_eq_Some_conv dest: zs_trim_good split: if_splits)

lemma default_int_good: "zs_optional (zs_int 1 None) x = Some i \<Longrightarrow> 1 \<le> d \<Longrightarrow> 1 \<le> with_default d i"
  by (auto simp: zs_optional_def with_default_def dest: zs_int_good split: if_splits)

lemma default_trim_good: "zs_optional (zs_nullable zs_trim) x = Some y \<Longrightarrow> with_default None y = Some d \<Longrightarrow> js_trim d = d"
  by (auto simp: zs_optional_def zs_nullable_def with_default_def dest: zs_trim_good split: if_splits)

lemma repo_fields_good:
  assumes "repo_fields g = Some c"
  shows "text_ok (rg_name c) \<and> text_ok (rg_remote c) \<and> text_ok (rg_path c) \<and> text_ok (rg_cli c) \<and> text_ok (rg_model c)
    \<and> js_trim (rg_url c) = rg_url c \<and> conversation_url (rg_url c) \<and> 1 \<le> rg_iterations c \<and> 1 \<le> rg_minutes c
    \<and> (\<forall>d. rg_distro c = Some d \<longrightarrow> js_trim d = d)"
proof -
  obtain n r p e d cl m u i t b where f: "zs_text (g ''displayName'') = Some n" "zs_text (g ''githubRemote'') = Some r"
      "zs_text (g ''localPath'') = Some p" "zs_text (g ''executorCli'') = Some cl" "zs_text (g ''executorModel'') = Some m"
      "zs_url (g ''solConversationUrl'') = Some u" "zs_optional (zs_int 1 None) (g ''maxIterations'') = Some i"
      "zs_optional (zs_int 1 None) (g ''maxRuntimeMinutes'') = Some t" "zs_optional (zs_nullable zs_trim) (g ''wslDistribution'') = Some d"
    and c: "c = \<lparr>rg_name = n, rg_remote = r, rg_path = p, rg_env = e, rg_distro = with_default None d, rg_cli = cl, rg_model = m, rg_url = u,
       rg_iterations = with_default DEFAULT_MAX_ITERATIONS i, rg_minutes = with_default DEFAULT_MAX_RUNTIME_MINUTES t,
       rg_enabled = with_default True b\<rparr>"
    using assms unfolding repo_fields_def bind_eq_Some_conv by blast
  show ?thesis unfolding c using zs_text_good [OF f(1)] zs_text_good [OF f(2)] zs_text_good [OF f(3)] zs_text_good [OF f(4)] zs_text_good [OF f(5)]
      zs_url_good [OF f(6)] default_int_good [OF f(7)] default_int_good [OF f(8)] default_trim_good [OF f(9)]
    by (simp add: DEFAULT_MAX_ITERATIONS_def DEFAULT_MAX_RUNTIME_MINUTES_def)
qed

lemma created_ok: "validateCreateRepository v = Inr c \<Longrightarrow> config_ok c"
proof -
  assume v: "validateCreateRepository v = Inr c"
  then have "createRepositorySchema (Some v) \<noteq> None" by (cases "createRepositorySchema (Some v)") (simp_all add: validateCreateRepository_def)
  then obtain d where d1: "createRepositorySchema (Some v) = Some d" by blast
  have "c = d\<lparr>rg_distro := (if rg_env d = ENV_windows then None else rg_distro d)\<rparr>"
    using v unfolding validateCreateRepository_def d1 by simp
  note d = d1 this
  then obtain g where "Option.bind (repo_fields g) (\<lambda>c. if distro_given c then Some c else None) = Some d"
    using zs_object_some [OF d(1) [unfolded createRepositorySchema_def]] by (elim exE)
  then obtain e where e: "repo_fields g = Some e" "(if distro_given e then Some e else None) = Some d"
    unfolding bind_eq_Some_conv by (elim exE conjE)
  then have f: "repo_fields g = Some d" "distro_given d" by (simp_all split: if_splits)
  note good = repo_fields_good [OF f(1)]
  show "config_ok c"
  proof (cases "rg_env d")
    case ENV_wsl
    then obtain t where "rg_distro d = Some t" "t \<noteq> []" using f(2) unfolding distro_given_def by (cases "rg_distro d") simp_all
    then show ?thesis using good ENV_wsl unfolding d(2) by (simp add: config_ok_def text_ok_def)
  next
    case ENV_windows
    then show ?thesis using good unfolding d(2) by (simp add: config_ok_def)
  qed
qed

lemma config_of_repository [simp]: "config_of (repository_of i t u c) = c"
  by (simp add: config_of_def repository_of_def)

lemma merged_ok: "validateMergedRepository now r p = Inr q \<Longrightarrow> config_ok (config_of q) \<and> ry_id q = ry_id r"
proof -
  assume "validateMergedRepository now r p = Inr q"
  then obtain c where c: "validateCreateRepository (config_jv (merged_config r p)) = Inr c" "q = repository_of (ry_id r) (ry_created r) now c"
    by (auto simp: validateMergedRepository_def split: sum.splits)
  show ?thesis using created_ok [OF c(1)] unfolding c(2) config_of_repository by (simp add: repository_of_def)
qed

datatype repo_op = R_create ident time jv | R_update ident time jv | R_delete ident time

fun repo_step :: "repo_op \<Rightarrow> repo_state \<Rightarrow> repo_state" where
  "repo_step (R_create i now v) s = (if repo_find i s = None then snd (createRepository i now v s) else s)"
| "repo_step (R_update i now v) s = snd (updateRepository i now v s)"
| "repo_step (R_delete i now) s = snd (deleteRepository i now s)"

definition repos_ok :: "repo_state \<Rightarrow> bool" where
  "repos_ok s \<longleftrightarrow> unique_keys ry_id (rp_repos s) \<and> list_all (\<lambda>r. config_ok (config_of r)) (rp_repos s)"

lemma unique_snoc: "unique_keys key t \<Longrightarrow> tbl_get key (key r) t = None \<Longrightarrow> unique_keys key (t @ [r])"
  by (auto simp: unique_keys_def tbl_get_None)

lemma publish_fields [simp]: "rp_repos (repo_publish k t i s) = rp_repos s" "rp_runs (repo_publish k t i s) = rp_runs s"
  by (simp_all add: repo_publish_def)

lemma create_kept:
  assumes "repos_ok s" "repo_find i s = None"
  shows "repos_ok (snd (createRepository i now v s))"
proof (cases "validateCreateRepository v")
  case (Inr c)
  have "ry_id (repository_of i now now c) = i" by (simp add: repository_of_def)
  moreover have "config_ok (config_of (repository_of i now now c))" using created_ok [OF Inr] by simp
  ultimately show ?thesis using assms unfolding createRepository_def Inr Let_def repos_ok_def repo_find_def
    by (simp add: unique_snoc)
qed (use assms(1) in \<open>simp add: createRepository_def\<close>)

lemma update_kept:
  assumes "repos_ok s"
  shows "repos_ok (snd (updateRepository i now v s))"
proof (cases "snd (updateRepository i now v s) = s")
  case False
  then obtain r p q where q: "repo_find i s = Some r" "validateMergedRepository now r p = Inr q"
      "rp_repos (snd (updateRepository i now v s)) = tbl_update (\<lambda>x. ry_id x = i) (\<lambda>_. q) (rp_repos s)"
    by (auto simp: updateRepository_def getRepository_def split: sum.splits option.splits)
  have "ry_id r = i" using q(1) unfolding repo_find_def by (rule tbl_get_key)
  then have k: "ry_id q = i" and c: "config_ok (config_of q)" using merged_ok [OF q(2)] by simp_all
  have m: "map ry_id (tbl_update (\<lambda>x. ry_id x = i) (\<lambda>_. q) t) = map ry_id t" for t
    unfolding tbl_update_def by (simp add: k)
  have "list_all P (tbl_update (\<lambda>x. ry_id x = i) (\<lambda>_. q) t)" if "list_all P t" "P q" for P t
    using that unfolding tbl_update_def by (induction t) simp_all
  then show ?thesis using assms c unfolding repos_ok_def q(3) unique_keys_def m by blast
qed (use assms in simp)

lemma delete_kept: "repos_ok s \<Longrightarrow> repos_ok (snd (deleteRepository i now s))"
proof -
  assume ok: "repos_ok s"
  have "list_all P (tbl_delete p t)" if "list_all P t" for P p and t :: "repository list"
    using that unfolding tbl_delete_def by (induction t) simp_all
  then have "repos_ok (s\<lparr>rp_repos := tbl_delete (\<lambda>r. ry_id r = i) (rp_repos s), rp_runs := rs, rp_events := es\<rparr>)" for rs es
    using ok unique_keys_delete [of ry_id "rp_repos s"] unfolding repos_ok_def by simp
  then show ?thesis using ok by (simp add: deleteRepository_def repo_publish_def split: sum.split option.split)
qed

text \<open>
  Whatever is created, patched and deleted, in any order, every stored repository has trimmed texts that are not empty, a
  conversation URL, positive limits, and a WSL distribution exactly under WSL.
\<close>

theorem stored_repositories_valid: "repos_ok (fold repo_step ops \<lparr>rp_repos = [], rp_runs = runs, rp_events = []\<rparr>)"
proof -
  have "repos_ok s \<Longrightarrow> repos_ok (repo_step op s)" for op s
    by (cases op) (simp_all add: create_kept update_kept delete_kept)
  then have "repos_ok s \<Longrightarrow> repos_ok (fold repo_step ops s)" for s
    by (induction ops arbitrary: s) simp_all
  then show ?thesis by (simp add: repos_ok_def unique_keys_def)
qed

text \<open>A repository with an active run is not deleted.\<close>

theorem active_repository_kept:
  "getActiveRun i (rp_runs s) = Some r \<Longrightarrow> repo_find i s \<noteq> None \<Longrightarrow>
   deleteRepository i now s = (Inl (active_run_error i (ru_id r)), s)"
  by (auto simp: deleteRepository_def getRepository_def)

text \<open>What a patch does not name stays, and a stored repository passes its own schema.\<close>

lemma zs_text_of [simp]: "text_ok s \<Longrightarrow> zs_text (Some (V_str s)) = Some s"
  by (simp add: zs_text_def zs_trim_def text_ok_def)

lemma zs_url_of [simp]: "js_trim s = s \<Longrightarrow> conversation_url s \<Longrightarrow> zs_url (Some (V_str s)) = Some s"
  by (simp add: zs_url_def zs_trim_def)

lemma zs_distro_of: "(case d of None \<Rightarrow> True | Some t \<Rightarrow> text_ok t) \<Longrightarrow> zs_optional (zs_nullable zs_trim) (Some (jv_maybe d)) = Some (Some d)"
  by (cases d) (simp_all add: zs_optional_def zs_nullable_def zs_trim_def jv_maybe_def text_ok_def)

lemma fields_of_config:
  assumes "config_ok c" "g = map_of [(''displayName'', V_str (rg_name c)), (''githubRemote'', V_str (rg_remote c)), (''localPath'', V_str (rg_path c)),
     (''environment'', V_str (env_text (rg_env c))), (''wslDistribution'', jv_maybe (rg_distro c)), (''executorCli'', V_str (rg_cli c)),
     (''executorModel'', V_str (rg_model c)), (''solConversationUrl'', V_str (rg_url c)), (''maxIterations'', V_num (of_int (rg_iterations c))),
     (''maxRuntimeMinutes'', V_num (of_int (rg_minutes c))), (''enabled'', V_bool (rg_enabled c))]"
  shows "repo_fields g = Some c"
proof -
  have e: "zs_enum environments (Some (V_str (env_text (rg_env c)))) = Some (rg_env c)"
    by (cases "rg_env c") (simp_all add: zs_enum_def environments_def env_text_def)
  have d: "zs_optional (zs_nullable zs_trim) (Some (jv_maybe (rg_distro c))) = Some (Some (rg_distro c))"
    by (rule zs_distro_of) (use assms(1) in \<open>cases "rg_env c"; auto simp: config_ok_def\<close>)
  have b: "zs_optional zs_bool (Some (V_bool (rg_enabled c))) = Some (Some (rg_enabled c))"
    by (simp add: zs_optional_def zs_bool_def)
  have i: "zs_optional (zs_int 1 None) (Some (V_num (of_int n))) = Some (Some n)" if "1 \<le> n" for n
    using that by (simp add: zs_optional_def)
  show ?thesis using assms(1) unfolding assms(2) repo_fields_def
    by (simp add: e d b i config_ok_def with_default_def)
qed

theorem config_roundtrip: "config_ok c \<Longrightarrow> validateCreateRepository (config_jv c) = Inr c"
proof -
  assume c: "config_ok c"
  have k: "rg_distro c = None" if "rg_env c = ENV_windows" using c that by (simp add: config_ok_def)
  have d: "distro_given c" using c by (cases "rg_env c") (auto simp: config_ok_def distro_given_def text_ok_def)
  have "createRepositorySchema (Some (config_jv c)) = Some c"
    unfolding createRepositorySchema_def zs_object_def config_jv_def
    by (simp add: repo_keys_def fields_of_config [OF c refl, simplified] d)
  then show ?thesis using k by (cases "rg_env c") (simp_all add: validateCreateRepository_def)
qed

end
