(* ===== verification/Supervisor.thy ===== *)
theory Supervisor
  imports Runtime_Lock Git_Host "HOL-Library.State_Monad"
begin

text \<open>
  The desktop's supervision of the controller (\<open>apps/desktop/src/controller-supervisor.ts\<close>, with the pairing rule of
  \<open>packages/shared/src/product.ts\<close>): the probe of the endpoint, the authenticated replacement of another build, the start of a
  controller and the watch afterwards. Every access to the world outside is an operation of \<open>desk_env\<close> that may change that
  world, so anything can happen between two of them; the state monad threads the world and the log of what the desktop did and saw.
  A loop over the clock takes fuel and answers \<open>None\<close> when it is used up. Numbers in messages are printed by \<open>dk_num\<close>. A list of active
  campaigns that is not an array counts as empty.
\<close>

section \<open>The pairing rule\<close>

datatype build_mode = Packaged | Development

record controller_identity =
  ci_version :: string
  ci_protocol :: rat
  ci_pid :: rat
  ci_build :: "string option"
  ci_mode :: "build_mode option"
  ci_schema :: "rat option"

record desktop_identity =
  di_version :: string
  di_build :: "string option"
  di_mode :: build_mode
  di_schema :: "rat option"

datatype probed = P_identity controller_identity | P_foreign nat | P_absent

datatype compat_verdict = EXACT_MATCH | COMPATIBLE_VERSION_SKEW | RESTART_REQUIRED | PROTOCOL_INCOMPATIBLE
  | DATABASE_INCOMPATIBLE | FOREIGN_LISTENER | ABSENT

definition ORCA_PROTOCOL_VERSION :: rat where
  "ORCA_PROTOCOL_VERSION = 1"

definition newer_schema :: "rat option \<Rightarrow> rat option \<Rightarrow> bool" where
  "newer_schema a b = (case (a, b) of (Some x, Some y) \<Rightarrow> y < x | _ \<Rightarrow> False)"

definition evaluateControllerCompatibility :: "desktop_identity \<Rightarrow> probed \<Rightarrow> compat_verdict" where
  "evaluateControllerCompatibility d p = (case p of
       P_absent \<Rightarrow> ABSENT
     | P_foreign _ \<Rightarrow> FOREIGN_LISTENER
     | P_identity i \<Rightarrow>
         if ci_protocol i \<noteq> ORCA_PROTOCOL_VERSION then PROTOCOL_INCOMPATIBLE
         else if newer_schema (ci_schema i) (di_schema d) then DATABASE_INCOMPATIBLE
         else if ci_version i = di_version d \<and> ci_build i = di_build d then EXACT_MATCH
         else if di_mode d = Development then COMPATIBLE_VERSION_SKEW
         else RESTART_REQUIRED)"

section \<open>The world outside\<close>

record http_req =
  rq_method :: string
  rq_url :: string
  rq_headers :: "(string \<times> string) list"
  rq_body :: "string option"
  rq_timeout :: nat

text \<open>A response holds what \<open>JSON.parse\<close> makes of its body, \<open>None\<close> when it throws.\<close>

datatype fetched = Fetch_error string | Fetch_response nat "jv option"

record lock_info =
  li_pid :: rat
  li_started :: "string option"
  li_version :: "string option"
  li_endpoint :: "string option"
  li_token :: "string option"

record spawn_plan =
  sp_command :: string
  sp_args :: "string list"
  sp_env :: "string \<rightharpoonup> string"

record launched_child =
  lc_exited :: bool
  lc_code :: "int option"
  lc_signal :: "string option"

datatype startup_state = DS_CHECKING_CONTROLLER | DS_STARTING_CONTROLLER | DS_WAITING_FOR_READY | DS_CONNECTED | DS_PORT_CONFLICT
  | DS_INCOMPATIBLE_CONTROLLER | DS_DATABASE_TOO_NEW | DS_RESTART_PENDING | DS_STARTUP_FAILED

datatype desk_event = E_report startup_state "string option" | E_http http_req fetched | E_lock "lock_info option"
  | E_alive rat bool | E_spawn spawn_plan

record 'w desk_env =
  dk_clock :: "'w \<Rightarrow> int \<times> 'w"
  dk_sleep :: "nat \<Rightarrow> 'w \<Rightarrow> 'w"
  dk_fetch :: "http_req \<Rightarrow> 'w \<Rightarrow> fetched \<times> 'w"
  dk_read :: "string \<Rightarrow> 'w \<Rightarrow> lock_content \<times> 'w"
  dk_kill0 :: "int \<Rightarrow> 'w \<Rightarrow> kill0_result \<times> 'w"
  dk_spawn :: "spawn_plan \<Rightarrow> 'w \<Rightarrow> 'w"
  dk_child :: "'w \<Rightarrow> launched_child \<times> 'w"
  dk_stopped :: "'w \<Rightarrow> bool \<times> 'w"
  dk_process_env :: "string \<rightharpoonup> string"
  dk_num :: "rat \<Rightarrow> string"

record 'w desk =
  ds_world :: 'w
  ds_log :: "desk_event list"

type_synonym ('w, 'a) desk_act = "('w desk, 'a) state"

abbreviation ret :: "'a \<Rightarrow> ('w, 'a) desk_act" where
  "ret \<equiv> State_Monad.return"

definition world_op :: "('w \<Rightarrow> 'a \<times> 'w) \<Rightarrow> ('a \<Rightarrow> desk_event list) \<Rightarrow> ('w, 'a) desk_act" where
  "world_op f e = State (\<lambda>s. case f (ds_world s) of (a, w) \<Rightarrow> (a, \<lparr>ds_world = w, ds_log = e a @ ds_log s\<rparr>))"

definition report :: "startup_state \<Rightarrow> string option \<Rightarrow> ('w, unit) desk_act" where
  "report st d = world_op (Pair ()) (\<lambda>_. [E_report st d])"

definition clock :: "'w desk_env \<Rightarrow> ('w, int) desk_act" where
  "clock en = world_op (dk_clock en) (\<lambda>_. [])"

definition rest :: "'w desk_env \<Rightarrow> nat \<Rightarrow> ('w, unit) desk_act" where
  "rest en ms = world_op (\<lambda>w. ((), dk_sleep en ms w)) (\<lambda>_. [])"

definition fetchWithTimeout :: "'w desk_env \<Rightarrow> http_req \<Rightarrow> ('w, fetched) desk_act" where
  "fetchWithTimeout en r = world_op (dk_fetch en r) (\<lambda>x. [E_http r x])"

definition signal_alive :: "'w desk_env \<Rightarrow> rat \<Rightarrow> ('w, bool) desk_act" where
  "signal_alive en p = world_op (\<lambda>w. if of_int \<lfloor>p\<rfloor> = p \<and> 0 < \<lfloor>p\<rfloor>
       then (case dk_kill0 en \<lfloor>p\<rfloor> w of (k, w') \<Rightarrow> (k = Kill_ok \<or> k = Kill_EPERM, w')) else (False, w)) (\<lambda>b. [E_alive p b])"

section \<open>Reading what is out there\<close>

definition PROBE_TIMEOUT_MS :: nat where "PROBE_TIMEOUT_MS = 1500"

definition request :: "string \<Rightarrow> string \<Rightarrow> (string \<times> string) list \<Rightarrow> string option \<Rightarrow> http_req" where
  "request m url hs b = \<lparr>rq_method = m, rq_url = url, rq_headers = hs, rq_body = b, rq_timeout = PROBE_TIMEOUT_MS\<rparr>"

text \<open>A field that is checked only when it is there.\<close>

definition present_field :: "(jv \<Rightarrow> 'a option) \<Rightarrow> jv option \<Rightarrow> 'a option option" where
  "present_field p x = (case x of None \<Rightarrow> Some None | Some v \<Rightarrow> map_option Some (p v))"

definition mode_of :: "jv \<Rightarrow> build_mode option" where
  "mode_of v = (if v = V_str ''packaged'' then Some Packaged else if v = V_str ''development'' then Some Development else None)"

definition identity_fields :: "(string \<times> jv) list \<Rightarrow> controller_identity option" where
  "identity_fields fs = (let g = map_of fs in
     if g ''service'' = Some (V_str ''orca-controller'')
     then (case (text_field (g ''version''), number_field (g ''protocol''), number_field (g ''pid'')) of
         (Some v, Some p, Some n) \<Rightarrow>
           (case (present_field (\<lambda>x. text_field (Some x)) (g ''buildId''), present_field mode_of (g ''mode''),
               present_field (\<lambda>x. number_field (Some x)) (g ''maxSchemaVersion'')) of
              (Some b, Some m, Some s) \<Rightarrow> Some \<lparr>ci_version = v, ci_protocol = p, ci_pid = n, ci_build = b, ci_mode = m, ci_schema = s\<rparr>
            | _ \<Rightarrow> None)
       | _ \<Rightarrow> None)
     else None)"

definition parseIdentityBody :: "jv option \<Rightarrow> controller_identity option" where
  "parseIdentityBody b = (case b of
       Some (V_obj fs) \<Rightarrow> (case map_of fs ''identity'' of
           None \<Rightarrow> identity_fields fs | Some V_null \<Rightarrow> identity_fields fs | Some (V_obj gs) \<Rightarrow> identity_fields gs | Some _ \<Rightarrow> None)
     | _ \<Rightarrow> None)"

definition probed_of :: "fetched \<Rightarrow> probed" where
  "probed_of x = (case x of
       Fetch_error _ \<Rightarrow> P_absent
     | Fetch_response st b \<Rightarrow> (case parseIdentityBody b of None \<Rightarrow> P_foreign st | Some i \<Rightarrow> P_identity i))"

definition probeControllerRaw :: "'w desk_env \<Rightarrow> string \<Rightarrow> ('w, probed) desk_act" where
  "probeControllerRaw en base = do {
     x \<leftarrow> fetchWithTimeout en (request ''GET'' (base @ ''/api/system/identity'') [] None);
     ret (probed_of x) }"

datatype probe_outcome = PO_compatible controller_identity | PO_incompatible "controller_identity option" string
  | PO_foreign nat | PO_absent

definition outcome_of :: "'w desk_env \<Rightarrow> probed \<Rightarrow> probe_outcome" where
  "outcome_of en p = (case p of
       P_absent \<Rightarrow> PO_absent
     | P_foreign st \<Rightarrow> PO_foreign st
     | P_identity i \<Rightarrow> if ci_protocol i \<noteq> ORCA_PROTOCOL_VERSION
         then PO_incompatible (Some i) (''protocol '' @ dk_num en (ci_protocol i) @ '' != '' @ dk_num en ORCA_PROTOCOL_VERSION)
         else PO_compatible i)"

definition probeController :: "'w desk_env \<Rightarrow> string \<Rightarrow> ('w, probe_outcome) desk_act" where
  "probeController en base = do { p \<leftarrow> probeControllerRaw en base; ret (outcome_of en p) }"

text \<open>The outcome of a prober that callers inject, in the shape of the raw prober.\<close>

definition legacy_probed :: "probe_outcome \<Rightarrow> probed" where
  "legacy_probed x = (case x of
       PO_absent \<Rightarrow> P_absent
     | PO_foreign st \<Rightarrow> P_foreign st
     | PO_incompatible i _ \<Rightarrow> P_identity (case i of Some i \<Rightarrow> i
         | None \<Rightarrow> \<lparr>ci_version = ''unknown'', ci_protocol = ORCA_PROTOCOL_VERSION + 999, ci_pid = - 1, ci_build = None, ci_mode = None, ci_schema = None\<rparr>)
     | PO_compatible i \<Rightarrow> P_identity i)"

definition lock_info_of :: "jv \<Rightarrow> lock_info option" where
  "lock_info_of v = (case v of
       V_obj fs \<Rightarrow> (let g = map_of fs in
         (case number_field (g ''pid'') of
            Some n \<Rightarrow> if g ''service'' = Some (V_str ''orca-controller'')
              then Some \<lparr>li_pid = n, li_started = text_field (g ''startedAt''), li_version = text_field (g ''version''),
                li_endpoint = text_field (g ''endpoint''), li_token = text_field (g ''controlToken'')\<rparr>
              else None
          | None \<Rightarrow> None))
     | _ \<Rightarrow> None)"

definition readControllerLockInfo :: "'w desk_env \<Rightarrow> string \<Rightarrow> ('w, lock_info option) desk_act" where
  "readControllerLockInfo en dir = world_op (\<lambda>w. case dk_read en (path_join [dir, ''controller.lock'']) w of
       (c, w') \<Rightarrow> (case c of Parsed v \<Rightarrow> lock_info_of v | _ \<Rightarrow> None, w')) (\<lambda>i. [E_lock i])"

definition campaigns_of :: "jv option \<Rightarrow> jv list" where
  "campaigns_of x = (case x of Some (V_arr cs) \<Rightarrow> cs | _ \<Rightarrow> [])"

datatype lifecycle_status = LC_idle | LC_active "jv list"

definition token_header :: "string \<Rightarrow> string \<times> string" where
  "token_header tok = (''x-orca-control-token'', tok)"

definition http_status :: "nat \<Rightarrow> string" where
  "http_status st = ''http-'' @ js_nat st"

definition lifecycle_of :: "fetched \<Rightarrow> string + lifecycle_status" where
  "lifecycle_of x = (case x of
       Fetch_error e \<Rightarrow> Inl (''unreachable: '' @ e)
     | Fetch_response st b \<Rightarrow>
         if st = 401 then Inl ''token-rejected''
         else if st \<noteq> 200 then Inl (http_status st)
         else (case b of
             None \<Rightarrow> Inl ''unparseable-body''
           | Some (V_obj fs) \<Rightarrow>
               if map_of fs ''state'' = Some (V_str ''idle'') then Inr LC_idle
               else if map_of fs ''state'' = Some (V_str ''active-campaigns'') then Inr (LC_active (campaigns_of (map_of fs ''activeCampaigns'')))
               else Inl ''unrecognized-state''
           | Some _ \<Rightarrow> Inl ''unrecognized-state''))"

definition fetchLifecycleStatus :: "'w desk_env \<Rightarrow> string \<Rightarrow> string \<Rightarrow> ('w, string + lifecycle_status) desk_act" where
  "fetchLifecycleStatus en base tok = do {
     x \<leftarrow> fetchWithTimeout en (request ''GET'' (base @ ''/api/system/lifecycle'') [token_header tok] None);
     ret (lifecycle_of x) }"

datatype shutdown_result = Accepted | Refused string "jv list"

definition shutdown_of :: "fetched \<Rightarrow> shutdown_result" where
  "shutdown_of x = (case x of
       Fetch_error e \<Rightarrow> Refused (''unreachable: '' @ e) []
     | Fetch_response st b \<Rightarrow>
         if st = 409 then (case b of
             None \<Rightarrow> Refused ''http-409'' []
           | Some V_null \<Rightarrow> Refused ''http-409'' []
           | Some (V_obj fs) \<Rightarrow> Refused (if map_of fs ''error'' = Some (V_str ''SHUTDOWN_REFUSED_ACTIVE'') then ''active-campaigns'' else ''http-409'')
               (campaigns_of (map_of fs ''activeCampaigns''))
           | Some _ \<Rightarrow> Refused ''http-409'' [])
         else if st = 401 then Refused ''token-rejected'' []
         else if st \<noteq> 200 then Refused (http_status st) []
         else Accepted)"

definition requestGracefulShutdown :: "'w desk_env \<Rightarrow> string \<Rightarrow> string \<Rightarrow> ('w, shutdown_result) desk_act" where
  "requestGracefulShutdown en base tok = do {
     x \<leftarrow> fetchWithTimeout en (request ''POST'' (base @ ''/api/system/shutdown'')
         [token_header tok, (''content-type'', ''application/json'')] (Some ''{}''));
     ret (shutdown_of x) }"

section \<open>The replacement of another build\<close>

datatype replacement = RO_lock_absent string | RO_owner_dead string | RO_not_replaceable string | RO_active string "jv list"
  | RO_timeout string | RO_replaced string

text \<open>The rest of an operation that may have run out of fuel.\<close>

definition and_then :: "('w, 'a option) desk_act \<Rightarrow> ('a \<Rightarrow> ('w, 'b option) desk_act) \<Rightarrow> ('w, 'b option) desk_act" where
  "and_then m f = do { x \<leftarrow> m; (case x of None \<Rightarrow> ret None | Some a \<Rightarrow> f a) }"

definition pid_text :: "rat \<Rightarrow> string" where
  "pid_text p = ''(pid='' @ js_int \<lfloor>p\<rfloor> @ '')''"

text \<open>\<open>Math.round(ms / 1000)\<close>.\<close>

definition rounded_seconds :: "int \<Rightarrow> string" where
  "rounded_seconds ms = js_int ((ms + 500) div 1000) @ ''s''"

fun await_release :: "nat \<Rightarrow> 'w desk_env \<Rightarrow> string \<Rightarrow> rat \<Rightarrow> int \<Rightarrow> ('w, replacement option) desk_act" where
  "await_release 0 en dir p deadline = ret None"
| "await_release (Suc n) en dir p deadline = do {
     t \<leftarrow> clock en;
     (if t < deadline then do {
        i \<leftarrow> readControllerLockInfo en dir;
        (if i = None
         then ret (Some (RO_replaced (''Previous controller '' @ pid_text p @ '' exited gracefully and released ownership.'')))
         else do { rest en 100; await_release n en dir p deadline }) }
      else ret (Some (RO_timeout ''Process exited but ownership metadata did not clear within 5s; refusing to race it.''))) }"

fun await_exit :: "nat \<Rightarrow> 'w desk_env \<Rightarrow> string \<Rightarrow> rat \<Rightarrow> int \<Rightarrow> int \<Rightarrow> ('w, replacement option) desk_act" where
  "await_exit 0 en dir p timeout deadline = ret None"
| "await_exit (Suc n) en dir p timeout deadline = do {
     t \<leftarrow> clock en;
     (if t < deadline then do {
        rest en 250;
        a \<leftarrow> signal_alive en p;
        (if \<not> a then do { t' \<leftarrow> clock en; await_release n en dir p (t' + 5000) }
         else await_exit n en dir p timeout deadline) }
      else ret (Some (RO_timeout (''Controller '' @ pid_text p @ '' did not exit within '' @ rounded_seconds timeout
             @ '' of an accepted graceful shutdown.'')))) }"

definition active_text :: "rat \<Rightarrow> jv list \<Rightarrow> string" where
  "active_text p cs = js_nat (length cs) @ '' active campaign'' @ (if length cs = 1 then [] else ''s'')
     @ '' still running under the previous controller '' @ pid_text p @ ''. Background work continues; Orca will retry once idle.''"

definition no_token_text :: string where
  "no_token_text = ''The running controller predates safe-replacement metadata (no control token). Quit the old Orca controller manually, then retry.''"

definition no_lock_text :: string where
  "no_lock_text = ''No readable controller ownership metadata; treating previous owner as absent.''"

text \<open>After the owner was seen alive and the token read: the status, the request and the wait.\<close>

definition shut_down_owner :: "nat \<Rightarrow> 'w desk_env \<Rightarrow> string \<Rightarrow> string \<Rightarrow> int \<Rightarrow> rat \<Rightarrow> string \<Rightarrow> ('w, replacement option) desk_act" where
  "shut_down_owner n en base dir timeout p tok = do {
     st \<leftarrow> fetchLifecycleStatus en base tok;
     (case st of
        Inl why \<Rightarrow> ret (Some (RO_not_replaceable (''Cannot prove safe shutdown of pid='' @ js_int \<lfloor>p\<rfloor>
          @ '' ('' @ why @ ''); refusing to disturb it.'')))
      | Inr (LC_active cs) \<Rightarrow> ret (Some (RO_active (active_text p cs) cs))
      | Inr LC_idle \<Rightarrow> do {
          sd \<leftarrow> requestGracefulShutdown en base tok;
          (case sd of
             Refused why cs \<Rightarrow> if why = ''active-campaigns''
               then ret (Some (RO_active (''Controller refused shutdown because campaigns became active '' @ pid_text p @ ''.'') cs))
               else ret (Some (RO_not_replaceable (''Graceful shutdown was not accepted (reason: '' @ why @ ''); nothing was terminated.'')))
           | Accepted \<Rightarrow> do { t \<leftarrow> clock en; await_exit n en dir p timeout (t + timeout) }) }) }"

definition attemptControllerReplacement ::
  "nat \<Rightarrow> 'w desk_env \<Rightarrow> string \<Rightarrow> string \<Rightarrow> int \<Rightarrow> ('w, replacement option) desk_act" where
  "attemptControllerReplacement n en base dir timeout = do {
     i \<leftarrow> readControllerLockInfo en dir;
     (case i of
        None \<Rightarrow> ret (Some (RO_lock_absent no_lock_text))
      | Some l \<Rightarrow>
          if of_int \<lfloor>li_pid l\<rfloor> \<noteq> li_pid l then ret (Some (RO_lock_absent no_lock_text))
          else do {
            a \<leftarrow> signal_alive en (li_pid l);
            (if \<not> a
             then ret (Some (RO_owner_dead (''Previous controller '' @ pid_text (li_pid l) @ '' is not alive; stale lock can be reclaimed safely.'')))
             else (case li_token l of
                None \<Rightarrow> ret (Some (RO_not_replaceable no_token_text))
              | Some tok \<Rightarrow> if tok = [] then ret (Some (RO_not_replaceable no_token_text))
                  else shut_down_owner n en base dir timeout (li_pid l) tok)) }) }"

section \<open>The plan of a start\<close>

record ensure_deps =
  ed_base :: string
  ed_version :: string
  ed_exec :: string
  ed_resources :: string
  ed_dist :: string
  ed_packaged :: bool
  ed_build :: "string option"
  ed_schema :: "rat option"
  ed_host :: "string option"
  ed_port :: "rat option"
  ed_dataDir :: "string option"
  ed_budget :: "int option"

text \<open>A pair is spread into the environment when its value is truthy.\<close>

definition truthy_text :: "string option \<Rightarrow> bool" where
  "truthy_text x = (case x of None \<Rightarrow> False | Some s \<Rightarrow> s \<noteq> [])"

definition env_if :: "string \<Rightarrow> string option \<Rightarrow> (string \<rightharpoonup> string) \<Rightarrow> (string \<rightharpoonup> string)" where
  "env_if k x m = (if truthy_text x then m(k := x) else m)"

definition option_env :: "'w desk_env \<Rightarrow> ensure_deps \<Rightarrow> (string \<rightharpoonup> string) \<Rightarrow> (string \<rightharpoonup> string)" where
  "option_env en d m = env_if ''ORCA_DATA_DIR'' (ed_dataDir d)
     (env_if ''ORCA_PORT'' (case ed_port d of None \<Rightarrow> None | Some p \<Rightarrow> if p = 0 then None else Some (dk_num en p))
     (env_if ''ORCA_HOST'' (ed_host d) (env_if ''ORCA_BUILD_COMMIT'' (ed_build d) m)))"

definition buildControllerSpawnPlan :: "'w desk_env \<Rightarrow> ensure_deps \<Rightarrow> spawn_plan" where
  "buildControllerSpawnPlan en d = \<lparr>sp_command = ed_exec d,
     sp_args = [path_join [ed_resources d, ''controller'', ''dist'', ''index.js'']],
     sp_env = option_env en d ((dk_process_env en)(''NODE_ENV'' \<mapsto> ''production'', ''ELECTRON_RUN_AS_NODE'' \<mapsto> ''1'',
       ''ORCA_PACKAGED'' \<mapsto> ''1'', ''ORCA_BUILD_VERSION'' \<mapsto> ed_version d))\<rparr>"

definition buildDevFallbackSpawnPlan :: "'w desk_env \<Rightarrow> ensure_deps \<Rightarrow> spawn_plan option" where
  "buildDevFallbackSpawnPlan en d = (if dk_process_env en ''ORCA_ALLOW_DEV_CONTROLLER_SPAWN'' \<noteq> Some ''1'' then None
     else Some \<lparr>sp_command = ed_exec d,
       sp_args = [path_join [ed_dist d, ''../../controller/dist/index.js'']],
       sp_env = option_env en d ((dk_process_env en)(''ELECTRON_RUN_AS_NODE'' \<mapsto> ''1'', ''ORCA_BUILD_VERSION'' \<mapsto> ed_version d))\<rparr>)"

definition launch_child :: "'w desk_env \<Rightarrow> spawn_plan \<Rightarrow> ('w, unit) desk_act" where
  "launch_child en p = world_op (\<lambda>w. ((), dk_spawn en p w)) (\<lambda>_. [E_spawn p])"

definition tracked_child :: "'w desk_env \<Rightarrow> ('w, launched_child) desk_act" where
  "tracked_child en = world_op (dk_child en) (\<lambda>_. [])"

section \<open>Ensuring a controller\<close>

datatype ensure_result = ER_connected bool "controller_identity option" | ER_pending string | ER_terminal startup_state string

definition desktop_of :: "ensure_deps \<Rightarrow> desktop_identity" where
  "desktop_of d = \<lparr>di_version = ed_version d, di_build = ed_build d,
     di_mode = (if ed_packaged d then Packaged else Development), di_schema = ed_schema d\<rparr>"

definition classify_probe :: "ensure_deps \<Rightarrow> probed \<Rightarrow> compat_verdict" where
  "classify_probe d p = evaluateControllerCompatibility (desktop_of d) p"

definition reusable :: "compat_verdict \<Rightarrow> bool" where
  "reusable v \<longleftrightarrow> v = EXACT_MATCH \<or> v = COMPATIBLE_VERSION_SKEW"

definition identity_in :: "probed \<Rightarrow> controller_identity option" where
  "identity_in p = (case p of P_identity i \<Rightarrow> Some i | _ \<Rightarrow> None)"

definition or_undefined :: "'w desk_env \<Rightarrow> rat option \<Rightarrow> string" where
  "or_undefined en x = (case x of None \<Rightarrow> ''undefined'' | Some q \<Rightarrow> dk_num en q)"

definition connect :: "'w desk_env \<Rightarrow> bool \<Rightarrow> string \<Rightarrow> probed \<Rightarrow> string \<Rightarrow> ('w, ensure_result) desk_act" where
  "connect en reused before p after = do {
     report DS_CONNECTED (Some (before @ or_undefined en (map_option ci_pid (identity_in p)) @ after));
     ret (ER_connected reused (identity_in p)) }"

definition stop_at :: "startup_state \<Rightarrow> string \<Rightarrow> ('w, ensure_result) desk_act" where
  "stop_at st detail = do { report st (Some detail); ret (ER_terminal st detail) }"

definition REPLACEMENT_SHUTDOWN_TIMEOUT_MS :: int where "REPLACEMENT_SHUTDOWN_TIMEOUT_MS = 20000"
definition CONTROLLER_START_BUDGET_MS :: int where "CONTROLLER_START_BUDGET_MS = 45000"
definition READY_POLL_INITIAL_MS :: nat where "READY_POLL_INITIAL_MS = 250"
definition READY_POLL_MAX_MS :: nat where "READY_POLL_MAX_MS = 2000"

definition no_dir_text :: string where
  "no_dir_text = ''A different Orca controller build owns this endpoint and no data directory is configured for safe replacement. Quit the old Orca controller, then retry.''"

definition pend :: "string \<Rightarrow> ('w, ensure_result) desk_act" where
  "pend detail = do { report DS_RESTART_PENDING (Some detail); ret (ER_pending detail) }"

text \<open>Some result stops the start; \<open>None\<close> in it lets the caller proceed.\<close>

definition update_pending :: "string \<Rightarrow> ('w, ensure_result option option) desk_act" where
  "update_pending dt = do {
     r \<leftarrow> pend (''Update pending: background work continues under the previous controller. '' @ dt);
     ret (Some (Some r)) }"

definition proceed_with :: "string \<Rightarrow> ('w, ensure_result option option) desk_act" where
  "proceed_with dt = do { report DS_STARTING_CONTROLLER (Some dt); ret (Some None) }"

definition resolveRestartRequired :: "nat \<Rightarrow> 'w desk_env \<Rightarrow> ensure_deps \<Rightarrow> ('w, ensure_result option option) desk_act" where
  "resolveRestartRequired m en d = (case ed_dataDir d of
       None \<Rightarrow> do { r \<leftarrow> pend no_dir_text; ret (Some (Some r)) }
     | Some dir \<Rightarrow>
         if dir = [] then do { r \<leftarrow> pend no_dir_text; ret (Some (Some r)) }
         else and_then (attemptControllerReplacement m en (ed_base d) dir REPLACEMENT_SHUTDOWN_TIMEOUT_MS) (\<lambda>a.
           (case a of
              RO_active dt _ \<Rightarrow> update_pending dt
            | RO_not_replaceable dt \<Rightarrow> update_pending dt
            | RO_timeout dt \<Rightarrow> update_pending dt
            | RO_lock_absent dt \<Rightarrow> proceed_with dt
            | RO_owner_dead dt \<Rightarrow> proceed_with dt
            | RO_replaced dt \<Rightarrow> proceed_with dt)))"

definition occupied_text :: string where
  "occupied_text = ''Port at the configured endpoint is occupied by another application; Orca will not terminate it.''"

definition exit_text :: "int \<Rightarrow> string" where
  "exit_text c = ''Controller exited during startup (exit code '' @ js_int c @ '': '' @
     (if c = 12 then ''its database schema is newer than this build supports (downgrade refused; data untouched)''
      else if c = 10 then ''another controller owns the data directory'' else ''the port is occupied'') @ '').''"

definition crash_text :: "int \<Rightarrow> string option \<Rightarrow> string" where
  "crash_text c sg = ''Controller process exited unexpectedly (exit code '' @ js_int c
     @ (if truthy_text sg then '', signal '' @ the sg else []) @ ''). Check logs under the Orca data directory.''"

definition after_race :: "nat \<Rightarrow> 'w desk_env \<Rightarrow> ensure_deps \<Rightarrow> int \<Rightarrow> ('w, ensure_result option option) desk_act" where
  "after_race m en d c = do {
     p \<leftarrow> probeControllerRaw en (ed_base d);
     (let v = classify_probe d p in
      if reusable v then do { r \<leftarrow> connect en True ''reused controller pid='' p []; ret (Some (Some r)) }
      else if v = FOREIGN_LISTENER then do { r \<leftarrow> stop_at DS_PORT_CONFLICT occupied_text; ret (Some (Some r)) }
      else if v = RESTART_REQUIRED then resolveRestartRequired m en d
      else if v = DATABASE_INCOMPATIBLE
        then do { r \<leftarrow> stop_at DS_DATABASE_TOO_NEW ''The winning controller manages a newer database schema than this application supports.''; ret (Some (Some r)) }
      else if v = PROTOCOL_INCOMPATIBLE
        then do { r \<leftarrow> stop_at DS_INCOMPATIBLE_CONTROLLER ''The winning controller speaks an incompatible protocol.''; ret (Some (Some r)) }
      else do {
        r \<leftarrow> stop_at (if c = 12 then DS_DATABASE_TOO_NEW else if c = 11 then DS_PORT_CONFLICT else DS_STARTUP_FAILED) (exit_text c);
        ret (Some (Some r)) }) }"

definition check_child :: "nat \<Rightarrow> 'w desk_env \<Rightarrow> ensure_deps \<Rightarrow> ('w, ensure_result option option) desk_act" where
  "check_child m en d = do {
     ch \<leftarrow> tracked_child en;
     (case (lc_exited ch, lc_code ch) of
        (True, Some c) \<Rightarrow>
          if c = 10 \<or> c = 11 \<or> c = 12 then after_race m en d c
          else if c \<noteq> 0 then do { r \<leftarrow> stop_at DS_STARTUP_FAILED (crash_text c (lc_signal ch)); ret (Some (Some r)) }
          else ret (Some None)
      | _ \<Rightarrow> ret (Some None)) }"

definition poll_once :: "nat \<Rightarrow> 'w desk_env \<Rightarrow> ensure_deps \<Rightarrow> nat \<Rightarrow> ('w, ensure_result option option) desk_act" where
  "poll_once m en d delay = do {
     rest en delay;
     p \<leftarrow> probeControllerRaw en (ed_base d);
     (let v = classify_probe d p in
      if reusable v then do { r \<leftarrow> connect en False ''controller pid='' p []; ret (Some (Some r)) }
      else if v = RESTART_REQUIRED then resolveRestartRequired m en d
      else if v = DATABASE_INCOMPATIBLE
        then do { r \<leftarrow> stop_at DS_DATABASE_TOO_NEW ''The controller that just became ready manages a database schema newer than this application supports.''; ret (Some (Some r)) }
      else if v = PROTOCOL_INCOMPATIBLE
        then do { r \<leftarrow> stop_at DS_INCOMPATIBLE_CONTROLLER ''Controller became ready with an incompatible protocol.''; ret (Some (Some r)) }
      else if v = FOREIGN_LISTENER then do { r \<leftarrow> stop_at DS_PORT_CONFLICT occupied_text; ret (Some (Some r)) }
      else check_child m en d) }"

definition budget_of :: "ensure_deps \<Rightarrow> int" where
  "budget_of d = (case ed_budget d of None \<Rightarrow> CONTROLLER_START_BUDGET_MS | Some b \<Rightarrow> b)"

definition last_probe :: "'w desk_env \<Rightarrow> ensure_deps \<Rightarrow> ('w, ensure_result option) desk_act" where
  "last_probe en d = do {
     p \<leftarrow> probeControllerRaw en (ed_base d);
     (if reusable (classify_probe d p) then do { r \<leftarrow> connect en False ''controller pid='' p []; ret (Some r) }
      else do {
        r \<leftarrow> stop_at DS_STARTUP_FAILED (''Controller did not become ready within '' @ rounded_seconds (budget_of d)
               @ ''. Check logs under the Orca data directory.'');
        ret (Some r) }) }"

fun poll_ready :: "nat \<Rightarrow> nat \<Rightarrow> 'w desk_env \<Rightarrow> ensure_deps \<Rightarrow> int \<Rightarrow> nat \<Rightarrow> ('w, ensure_result option) desk_act" where
  "poll_ready m 0 en d started delay = ret None"
| "poll_ready m (Suc n) en d started delay = do {
     t \<leftarrow> clock en;
     (if t - started < budget_of d
      then and_then (poll_once m en d delay) (\<lambda>x. (case x of
             Some r \<Rightarrow> ret (Some r)
           | None \<Rightarrow> poll_ready m n en d started (min (delay * 2) READY_POLL_MAX_MS)))
      else last_probe en d) }"

definition start_controller :: "nat \<Rightarrow> nat \<Rightarrow> 'w desk_env \<Rightarrow> ensure_deps \<Rightarrow> int \<Rightarrow> ('w, ensure_result option) desk_act" where
  "start_controller m n en d started =
     (case (if ed_packaged d then Some (buildControllerSpawnPlan en d) else buildDevFallbackSpawnPlan en d) of
        None \<Rightarrow> do {
          r \<leftarrow> stop_at DS_STARTUP_FAILED ''No controller is running and this build has no packaged controller resources. Start the development supervisor (`npm run dev`) instead.'';
          ret (Some r) }
      | Some plan \<Rightarrow> do {
          report DS_STARTING_CONTROLLER (Some (join_with '' '' (sp_args plan)));
          launch_child en plan;
          report DS_WAITING_FOR_READY None;
          poll_ready m n en d started READY_POLL_INITIAL_MS })"

definition or_text :: "string \<Rightarrow> string option \<Rightarrow> string" where
  "or_text dflt x = (case x of None \<Rightarrow> dflt | Some s \<Rightarrow> s)"

definition too_new_text :: "'w desk_env \<Rightarrow> ensure_deps \<Rightarrow> probed \<Rightarrow> string" where
  "too_new_text en d p = ''The running Orca controller manages a newer database schema (''
     @ or_text ''unknown'' (map_option (dk_num en) (Option.bind (identity_in p) ci_schema))
     @ '') than this application supports ('' @ or_text ''unknown'' (map_option (dk_num en) (ed_schema d))
     @ ''). Install a matching or newer Orca release; your data was not modified.''"

definition ensureController :: "nat \<Rightarrow> nat \<Rightarrow> 'w desk_env \<Rightarrow> ensure_deps \<Rightarrow> ('w, ensure_result option) desk_act" where
  "ensureController m n en d = do {
     started \<leftarrow> clock en;
     report DS_CHECKING_CONTROLLER None;
     p \<leftarrow> probeControllerRaw en (ed_base d);
     (case classify_probe d p of
        EXACT_MATCH \<Rightarrow> do { r \<leftarrow> connect en True ''reused controller pid='' p []; ret (Some r) }
      | COMPATIBLE_VERSION_SKEW \<Rightarrow> do {
          r \<leftarrow> connect en True ''reused controller pid='' p '' (development version skew tolerated)''; ret (Some r) }
      | RESTART_REQUIRED \<Rightarrow> and_then (resolveRestartRequired m en d) (\<lambda>x. (case x of
            Some r \<Rightarrow> ret (Some r) | None \<Rightarrow> start_controller m n en d started))
      | DATABASE_INCOMPATIBLE \<Rightarrow> do { r \<leftarrow> stop_at DS_DATABASE_TOO_NEW (too_new_text en d p); ret (Some r) }
      | PROTOCOL_INCOMPATIBLE \<Rightarrow> do {
          r \<leftarrow> stop_at DS_INCOMPATIBLE_CONTROLLER (''Incompatible Orca controller already owns '' @ ed_base d @ '' (protocol ''
            @ or_undefined en (map_option ci_protocol (identity_in p)) @ '' != '' @ dk_num en ORCA_PROTOCOL_VERSION
            @ ''). Close it or update Orca.'');
          ret (Some r) }
      | FOREIGN_LISTENER \<Rightarrow> do {
          r \<leftarrow> stop_at DS_PORT_CONFLICT (''Port at '' @ ed_base d @ '' is occupied by another application (HTTP ''
            @ (case p of P_foreign st \<Rightarrow> js_nat st | _ \<Rightarrow> ''?'') @ ''). Orca will not terminate it.'');
          ret (Some r) }
      | ABSENT \<Rightarrow> start_controller m n en d started) }"

section \<open>The watch after the start\<close>

record watch =
  wt_fails :: nat
  wt_pid :: "rat option"

text \<open>The default probe of the watch: it accepts an outcome of kind \<open>identity\<close>, which \<open>probeController\<close> never has.\<close>

definition outcome_kind :: "probe_outcome \<Rightarrow> string" where
  "outcome_kind x = (case x of PO_compatible _ \<Rightarrow> ''compatible'' | PO_incompatible _ _ \<Rightarrow> ''incompatible''
     | PO_foreign _ \<Rightarrow> ''foreign'' | PO_absent \<Rightarrow> ''absent'')"

definition outcome_identity :: "probe_outcome \<Rightarrow> controller_identity option" where
  "outcome_identity x = (case x of PO_compatible i \<Rightarrow> Some i | PO_incompatible i _ \<Rightarrow> i | _ \<Rightarrow> None)"

definition default_identityFn :: "'w desk_env \<Rightarrow> string \<Rightarrow> ('w, controller_identity option) desk_act" where
  "default_identityFn en base = do {
     x \<leftarrow> probeController en base;
     ret (if outcome_kind x = ''identity'' then outcome_identity x else None) }"

definition pid_or_null :: "'w desk_env \<Rightarrow> rat option \<Rightarrow> string" where
  "pid_or_null en x = (case x of None \<Rightarrow> ''null'' | Some q \<Rightarrow> dk_num en q)"

definition em_dash :: string where
  "em_dash = [CHR 0xE2, CHR 0x80, CHR 0x94]"

text \<open>A recovery answers \<open>None\<close> when it threw.\<close>

definition watch_recover :: "'w desk_env \<Rightarrow> ('w, ensure_result option) desk_act \<Rightarrow> watch \<Rightarrow> ('w, watch) desk_act" where
  "watch_recover en recover w = do {
     report DS_STARTING_CONTROLLER (Some (''controller connection lost '' @ em_dash @ '' recovering''));
     x \<leftarrow> recover;
     (case x of
        None \<Rightarrow> do { report DS_STARTUP_FAILED (Some ''controller recovery attempt threw''); ret (w\<lparr>wt_fails := 0\<rparr>) }
      | Some (ER_connected _ i) \<Rightarrow> do {
          report DS_CONNECTED (Some (''controller recovered pid='' @ pid_or_null en (map_option ci_pid i)));
          ret (w\<lparr>wt_pid := map_option ci_pid i, wt_fails := 0\<rparr>) }
      | Some (ER_pending dt) \<Rightarrow> do { report DS_RESTART_PENDING (Some dt); ret (w\<lparr>wt_fails := 0\<rparr>) }
      | Some (ER_terminal st dt) \<Rightarrow> do { report st (Some dt); ret (w\<lparr>wt_fails := 0\<rparr>) }) }"

definition watch_round :: "'w desk_env \<Rightarrow> ('w, controller_identity option) desk_act \<Rightarrow> ('w, ensure_result option) desk_act \<Rightarrow> nat
    \<Rightarrow> watch \<Rightarrow> ('w, watch) desk_act" where
  "watch_round en identityFn recover threshold w = do {
     i \<leftarrow> identityFn;
     (if i \<noteq> None \<and> 0 < ci_pid (the i)
      then ret \<lparr>wt_fails = (if 0 < wt_fails w \<or> Some (ci_pid (the i)) \<noteq> wt_pid w then 0 else wt_fails w), wt_pid = Some (ci_pid (the i))\<rparr>
      else (let w' = w\<lparr>wt_fails := wt_fails w + 1\<rparr> in
        if wt_fails w' < threshold then ret w'
        else (case wt_pid w' of
            None \<Rightarrow> watch_recover en recover w'
          | Some p \<Rightarrow> do {
              a \<leftarrow> signal_alive en p;
              (if a then ret w' else watch_recover en recover w') }))) }"

text \<open>The rounds until the watch is stopped, or as many as there is fuel.\<close>

fun watch_loop :: "nat \<Rightarrow> 'w desk_env \<Rightarrow> ('w, controller_identity option) desk_act \<Rightarrow> ('w, ensure_result option) desk_act \<Rightarrow> nat
    \<Rightarrow> nat \<Rightarrow> watch \<Rightarrow> ('w, watch) desk_act" where
  "watch_loop 0 en identityFn recover threshold interval w = ret w"
| "watch_loop (Suc n) en identityFn recover threshold interval w = do {
     st \<leftarrow> world_op (dk_stopped en) (\<lambda>_. []);
     (if st then ret w else do {
        rest en interval;
        st' \<leftarrow> world_op (dk_stopped en) (\<lambda>_. []);
        (if st' then ret w else do {
           w' \<leftarrow> watch_round en identityFn recover threshold w;
           watch_loop n en identityFn recover threshold interval w' }) }) }"

end
