(* ===== verification/Supervisor_Laws.thy ===== *)
theory Supervisor_Laws
  imports Supervisor
begin

text \<open>
  What the desktop may do to a controller that runs, what it connects to, and why its start ends. Statements are weakest
  preconditions over the world and the log, for every world: each operation may answer anything.
\<close>

section \<open>Weakest preconditions\<close>

named_theorems wp

definition wp_of :: "('s, 'a) state \<Rightarrow> ('a \<Rightarrow> 's \<Rightarrow> bool) \<Rightarrow> 's \<Rightarrow> bool" where
  "wp_of m Q s = (case run_state m s of (a, t) \<Rightarrow> Q a t)"

lemma wp_bind [wp]: "wp_of m (\<lambda>a. wp_of (f a) Q) s \<Longrightarrow> wp_of (m \<bind> f) Q s"
  by (simp add: wp_of_def split: prod.splits)

lemma wp_ret [wp]: "Q a s \<Longrightarrow> wp_of (ret a) Q s"
  by (simp add: wp_of_def)

lemma wp_world [wp]:
  assumes "\<And>a w. f (ds_world s) = (a, w) \<Longrightarrow> Q a \<lparr>ds_world = w, ds_log = e a @ ds_log s\<rparr>"
  shows "wp_of (world_op f e) Q s"
  using assms by (auto simp: wp_of_def world_op_def split: prod.splits)

lemma wp_and_then [wp]: "wp_of m (\<lambda>x s. case x of None \<Rightarrow> Q None s | Some a \<Rightarrow> wp_of (f a) Q s) s \<Longrightarrow> wp_of (and_then m f) Q s"
  unfolding and_then_def by (rule wp_bind) (auto simp: wp_of_def split: prod.splits option.splits)

lemma wp_if [wp]: "(b \<Longrightarrow> wp_of m Q s) \<Longrightarrow> (\<not> b \<Longrightarrow> wp_of m' Q s) \<Longrightarrow> wp_of (if b then m else m') Q s"
  by simp

lemma wp_conseq: "wp_of m R s \<Longrightarrow> (\<And>a t. R a t \<Longrightarrow> Q a t) \<Longrightarrow> wp_of m Q s"
  by (simp add: wp_of_def split: prod.splits)

lemma wp_result: "wp_of m Q s \<Longrightarrow> run_state m s = (a, t) \<Longrightarrow> Q a t"
  by (simp add: wp_of_def)

section \<open>What the log may hold\<close>

definition shutdown_request :: "http_req \<Rightarrow> bool" where
  "shutdown_request r \<longleftrightarrow> rq_method r = ''POST''"

definition token_of :: "http_req \<Rightarrow> string option" where
  "token_of r = map_of (rq_headers r) ''x-orca-control-token''"

text \<open>
  What stands directly below a request to shut down, newest first: the same token was told idle, the process of the lock file was
  seen alive, and the lock file held that process and token.
\<close>

fun proven_idle :: "http_req \<Rightarrow> desk_event list \<Rightarrow> bool" where
  "proven_idle r (E_http q x # E_alive p a # E_lock (Some i) # l) \<longleftrightarrow>
     \<not> shutdown_request q \<and> token_of q = token_of r \<and> lifecycle_of x = Inr LC_idle
     \<and> a \<and> li_pid i = p \<and> li_token i = token_of r \<and> token_of r \<noteq> None"
| "proven_idle r _ \<longleftrightarrow> False"

fun shutdown_guarded :: "desk_event list \<Rightarrow> bool" where
  "shutdown_guarded [] \<longleftrightarrow> True"
| "shutdown_guarded (e # l) \<longleftrightarrow> shutdown_guarded l \<and>
     (case e of E_http r _ \<Rightarrow> shutdown_request r \<longrightarrow> proven_idle r l | _ \<Rightarrow> True)"

fun spawn_count :: "desk_event list \<Rightarrow> nat" where
  "spawn_count [] = 0"
| "spawn_count (E_spawn _ # l) = Suc (spawn_count l)"
| "spawn_count (_ # l) = spawn_count l"

text \<open>A controller the desktop may use: the protocol, no newer schema, and the exact build if the desktop is packaged.\<close>

definition paired :: "ensure_deps \<Rightarrow> controller_identity \<Rightarrow> bool" where
  "paired d i \<longleftrightarrow> ci_protocol i = ORCA_PROTOCOL_VERSION \<and> \<not> newer_schema (ci_schema i) (ed_schema d)
     \<and> (ed_packaged d \<longrightarrow> ci_version i = ed_version d \<and> ci_build i = ed_build d)"

text \<open>The last answer of the endpoint before the desktop connected was this identity.\<close>

fun answered :: "ensure_deps \<Rightarrow> controller_identity \<Rightarrow> desk_event list \<Rightarrow> bool" where
  "answered d i (E_report st _ # E_http q (Fetch_response _ b) # l) \<longleftrightarrow>
     st = DS_CONNECTED \<and> rq_url q = ed_base d @ ''/api/system/identity'' \<and> parseIdentityBody b = Some i"
| "answered d i _ \<longleftrightarrow> False"

definition well_connected :: "ensure_deps \<Rightarrow> ensure_result \<Rightarrow> desk_event list \<Rightarrow> bool" where
  "well_connected d r l = (case r of
       ER_connected _ x \<Rightarrow> (case x of None \<Rightarrow> False | Some i \<Rightarrow> paired d i \<and> answered d i l)
     | _ \<Rightarrow> True)"

lemma reusable_paired: "reusable (classify_probe d (P_identity i)) \<Longrightarrow> paired d i"
  by (auto simp: reusable_def classify_probe_def evaluateControllerCompatibility_def paired_def desktop_of_def split: if_splits)

lemma reusable_identity: "reusable (classify_probe d p) \<Longrightarrow> \<exists>i. p = P_identity i"
  by (cases p) (simp_all add: reusable_def classify_probe_def evaluateControllerCompatibility_def)

lemma exact_reusable: "classify_probe d p = EXACT_MATCH \<Longrightarrow> reusable (classify_probe d p)"
    "classify_probe d p = COMPATIBLE_VERSION_SKEW \<Longrightarrow> reusable (classify_probe d p)"
  by (simp_all add: reusable_def)

text \<open>The invariant of the log, with the number of starts.\<close>

definition log_ok :: "nat \<Rightarrow> desk_event list \<Rightarrow> bool" where
  "log_ok k l \<longleftrightarrow> shutdown_guarded l \<and> spawn_count l = k"

lemma log_ok_simps [simp]:
  "log_ok k (E_report st dt # l) = log_ok k l"
  "log_ok k (E_lock i # l) = log_ok k l"
  "log_ok k (E_alive p a # l) = log_ok k l"
  "log_ok (Suc k) (E_spawn pl # l) = log_ok k l"
  "log_ok k (E_http r x # l) \<longleftrightarrow> log_ok k l \<and> (shutdown_request r \<longrightarrow> proven_idle r l)"
  by (auto simp: log_ok_def)

declare await_release.simps [simp del] await_exit.simps [simp del] poll_ready.simps [simp del]

section \<open>The operations keep it\<close>

lemma wp_report [wp]: "(\<And>w. Q () \<lparr>ds_world = w, ds_log = E_report st dt # ds_log s\<rparr>) \<Longrightarrow> wp_of (report st dt) Q s"
  unfolding report_def by (rule wp_world) simp

lemma wp_fetch [wp]: "(\<And>x w. Q x \<lparr>ds_world = w, ds_log = E_http r x # ds_log s\<rparr>) \<Longrightarrow> wp_of (fetchWithTimeout en r) Q s"
  unfolding fetchWithTimeout_def by (rule wp_world) simp

lemma wp_clock [wp]: "(\<And>t w. Q t \<lparr>ds_world = w, ds_log = ds_log s\<rparr>) \<Longrightarrow> wp_of (clock en) Q s"
  unfolding clock_def by (rule wp_world) simp

lemma wp_rest [wp]: "(\<And>w. Q () \<lparr>ds_world = w, ds_log = ds_log s\<rparr>) \<Longrightarrow> wp_of (rest en ms) Q s"
  unfolding rest_def by (rule wp_world) simp

lemma wp_alive [wp]: "(\<And>a w. Q a \<lparr>ds_world = w, ds_log = E_alive p a # ds_log s\<rparr>) \<Longrightarrow> wp_of (signal_alive en p) Q s"
  unfolding signal_alive_def by (rule wp_world) simp

lemma wp_lock [wp]: "(\<And>i w. Q i \<lparr>ds_world = w, ds_log = E_lock i # ds_log s\<rparr>) \<Longrightarrow> wp_of (readControllerLockInfo en dir) Q s"
  unfolding readControllerLockInfo_def by (rule wp_world) simp

lemma wp_child [wp]: "(\<And>c w. Q c \<lparr>ds_world = w, ds_log = ds_log s\<rparr>) \<Longrightarrow> wp_of (tracked_child en) Q s"
  unfolding tracked_child_def by (rule wp_world) simp

lemma wp_launch [wp]: "(\<And>w. Q () \<lparr>ds_world = w, ds_log = E_spawn p # ds_log s\<rparr>) \<Longrightarrow> wp_of (launch_child en p) Q s"
  unfolding launch_child_def by (rule wp_world) simp

lemma get_request [simp]: "\<not> shutdown_request (request ''GET'' u hs b)"
  by (simp add: shutdown_request_def request_def)

lemma release_keeps: "log_ok k (ds_log s) \<Longrightarrow> wp_of (await_release n en dir p dl) (\<lambda>_ t. log_ok k (ds_log t)) s"
proof (induction n arbitrary: s)
  case (Suc n)
  show ?case unfolding await_release.simps by (intro wp) (use Suc in simp_all)
qed (simp add: wp await_release.simps await_exit.simps poll_ready.simps)

lemma exit_keeps: "log_ok k (ds_log s) \<Longrightarrow> wp_of (await_exit n en dir p tm dl) (\<lambda>_ t. log_ok k (ds_log t)) s"
proof (induction n arbitrary: s)
  case (Suc n)
  show ?case unfolding await_exit.simps by (intro wp) (use Suc in \<open>simp_all add: release_keeps\<close>)
qed (simp add: wp await_release.simps await_exit.simps poll_ready.simps)

lemma shut_down_keeps:
  assumes "log_ok k (ds_log s)" "ds_log s = E_alive p True # E_lock (Some i) # l" "li_pid i = p" "li_token i = Some tok"
  shows "wp_of (shut_down_owner n en base dir tm p tok) (\<lambda>_ t. log_ok k (ds_log t)) s"
proof -
  have get: "token_of (request ''GET'' u [token_header tok] b) = Some tok" for u b
    by (simp add: token_of_def request_def token_header_def)
  have post: "token_of (request ''POST'' u [token_header tok, h] b) = Some tok" for u h b
    by (simp add: token_of_def request_def token_header_def)
  show ?thesis
    unfolding shut_down_owner_def fetchLifecycleStatus_def requestGracefulShutdown_def
    apply (intro wp)
    subgoal for x w
      apply (cases "lifecycle_of x")
      subgoal using assms by (simp add: wp)
      subgoal for st
        apply (cases st)
        subgoal
          apply simp
          apply (intro wp)
          subgoal for y w'
            apply (cases "shutdown_of y")
            subgoal using assms by (auto intro!: wp exit_keeps simp: get post)
            subgoal using assms by (auto intro!: wp simp: get post)
            done
          done
        subgoal using assms by (simp add: wp)
        done
      done
    done
qed

lemma attempt_keeps:
  assumes "log_ok k (ds_log s)"
  shows "wp_of (attemptControllerReplacement n en base dir tm) (\<lambda>_ t. log_ok k (ds_log t)) s"
  unfolding attemptControllerReplacement_def
  apply (intro wp)
  subgoal for i w
    apply (cases i)
    subgoal using assms by (simp add: wp)
    subgoal for l
      using assms by (auto intro!: wp shut_down_keeps split: option.splits)
    done
  done

section \<open>The results of the start\<close>

text \<open>What holds of an answer, of an answer that may stop the start, and of the result with fuel.\<close>

definition fine :: "ensure_deps \<Rightarrow> nat \<Rightarrow> ensure_result \<Rightarrow> 'w desk \<Rightarrow> bool" where
  "fine d k r t \<longleftrightarrow> log_ok k (ds_log t) \<and> well_connected d r (ds_log t)"

definition fine_step :: "ensure_deps \<Rightarrow> nat \<Rightarrow> ensure_result option option \<Rightarrow> 'w desk \<Rightarrow> bool" where
  "fine_step d k x t \<longleftrightarrow> log_ok k (ds_log t) \<and> (case x of Some (Some r) \<Rightarrow> well_connected d r (ds_log t) | _ \<Rightarrow> True)"

definition fine_end :: "ensure_deps \<Rightarrow> nat \<Rightarrow> ensure_result option \<Rightarrow> 'w desk \<Rightarrow> bool" where
  "fine_end d k x t \<longleftrightarrow> log_ok k (ds_log t) \<and> (case x of Some r \<Rightarrow> well_connected d r (ds_log t) | None \<Rightarrow> True)"

lemma fine_stepI [simp]: "fine_step d k (Some (Some r)) t = fine d k r t" "fine_step d k (Some None) t = log_ok k (ds_log t)"
    "fine_step d k None t = log_ok k (ds_log t)"
  by (simp_all add: fine_step_def fine_def)

lemma fine_endI [simp]: "fine_end d k (Some r) t = fine d k r t" "fine_end d k None t = log_ok k (ds_log t)"
  by (simp_all add: fine_end_def fine_def)

lemma wp_probe [wp]:
  assumes "\<And>x w. Q (probed_of x) \<lparr>ds_world = w, ds_log = E_http (request ''GET'' (base @ ''/api/system/identity'') [] None) x # ds_log s\<rparr>"
  shows "wp_of (probeControllerRaw en base) Q s"
  unfolding probeControllerRaw_def by (intro wp) (rule assms)

lemma stop_fine: "log_ok k (ds_log s) \<Longrightarrow> wp_of (stop_at st dt) (fine d k) s"
  unfolding stop_at_def by (intro wp) (simp add: fine_def well_connected_def)

lemma pend_fine: "log_ok k (ds_log s) \<Longrightarrow> wp_of (pend dt) (fine d k) s"
  unfolding pend_def by (intro wp) (simp add: fine_def well_connected_def)

lemma connect_fine:
  assumes "log_ok k (ds_log s)" "reusable (classify_probe d (probed_of x))"
    and "ds_log s = E_http (request ''GET'' (ed_base d @ ''/api/system/identity'') [] None) x # l"
  shows "wp_of (connect en b pre (probed_of x) post) (fine d k) s"
proof -
  obtain i where i: "probed_of x = P_identity i" using reusable_identity [OF assms(2)] by blast
  then obtain st bd where x: "x = Fetch_response st bd" "parseIdentityBody bd = Some i"
    by (cases x) (auto simp: probed_of_def split: option.splits)
  have "paired d i" using reusable_paired assms(2) i by simp
  then show ?thesis
    unfolding connect_def using assms(1,3) x(2)
    by (intro wp) (simp add: fine_def well_connected_def identity_in_def i [unfolded x(1)] x(1) request_def)
qed

lemma wrap_step: "wp_of m (fine d k) s \<Longrightarrow> wp_of (do { r \<leftarrow> m; ret (Some (Some r)) }) (fine_step d k) s"
  by (rule wp_bind) (erule wp_conseq, simp add: wp)

lemma wrap_end: "wp_of m (fine d k) s \<Longrightarrow> wp_of (do { r \<leftarrow> m; ret (Some r) }) (fine_end d k) s"
  by (rule wp_bind) (erule wp_conseq, simp add: wp)

lemmas wraps = wrap_step [OF stop_fine] wrap_step [OF pend_fine] wrap_step [OF connect_fine]
  wrap_end [OF stop_fine] wrap_end [OF connect_fine]

lemma resolve_fine:
  assumes "log_ok k (ds_log s)"
  shows "wp_of (resolveRestartRequired m en d) (fine_step d k) s"
proof -
  have upd: "wp_of (update_pending dt) (fine_step d k) t" if "log_ok k (ds_log t)" for dt and t :: "'a desk"
    unfolding update_pending_def by (rule wraps) (rule that)
  have pro: "wp_of (proceed_with dt) (fine_step d k) t" if "log_ok k (ds_log t)" for dt and t :: "'a desk"
    unfolding proceed_with_def by (intro wp) (simp add: that)
  have "wp_of (and_then (attemptControllerReplacement m en (ed_base d) dir REPLACEMENT_SHUTDOWN_TIMEOUT_MS) (\<lambda>a.
           (case a of RO_active dt _ \<Rightarrow> update_pending dt | RO_not_replaceable dt \<Rightarrow> update_pending dt | RO_timeout dt \<Rightarrow> update_pending dt
            | RO_lock_absent dt \<Rightarrow> proceed_with dt | RO_owner_dead dt \<Rightarrow> proceed_with dt | RO_replaced dt \<Rightarrow> proceed_with dt)))
      (fine_step d k) s" for dir
    by (rule wp_and_then, rule wp_conseq, rule attempt_keeps, rule assms) (auto intro: upd pro split: option.split replacement.split)
  then show ?thesis
    unfolding resolveRestartRequired_def using assms by (auto intro: wraps split: option.split)
qed

lemma after_race_fine: "log_ok k (ds_log s) \<Longrightarrow> wp_of (after_race m en d c) (fine_step d k) s"
  unfolding after_race_def Let_def
  by (rule wp_bind, rule wp_probe, intro wp_if) (auto intro: wraps resolve_fine)

lemma check_child_fine: "log_ok k (ds_log s) \<Longrightarrow> wp_of (check_child m en d) (fine_step d k) s"
  unfolding check_child_def
  by (rule wp_bind, rule wp_child) (auto intro!: after_race_fine intro: wraps wp_ret split: bool.split option.split)

lemma poll_once_fine: "log_ok k (ds_log s) \<Longrightarrow> wp_of (poll_once m en d delay) (fine_step d k) s"
  unfolding poll_once_def Let_def
  by (rule wp_bind, rule wp_rest, rule wp_bind, rule wp_probe, intro wp_if) (auto intro: wraps resolve_fine check_child_fine)

lemma last_probe_fine: "log_ok k (ds_log s) \<Longrightarrow> wp_of (last_probe en d) (fine_end d k) s"
  unfolding last_probe_def by (rule wp_bind, rule wp_probe, rule wp_if) (auto intro: wraps)

lemma poll_ready_fine: "log_ok k (ds_log s) \<Longrightarrow> wp_of (poll_ready m n en d started delay) (fine_end d k) s"
proof (induction n arbitrary: s delay)
  case (Suc n)
  have step: "wp_of (poll_once m en d delay) (fine_step d k) t" if "log_ok k (ds_log t)" for t :: "'a desk"
    using that by (rule poll_once_fine)
  show ?case
    unfolding poll_ready.simps
    apply (intro wp)
    subgoal for t w
      by (rule wp_conseq [OF step]) (use Suc in \<open>auto simp: fine_step_def fine_def intro: wp_ret split: option.split\<close>)
    subgoal using Suc.prems by (simp add: last_probe_fine)
    done
qed (simp add: wp await_release.simps await_exit.simps poll_ready.simps)

definition safe_end :: "ensure_deps \<Rightarrow> ensure_result option \<Rightarrow> 'w desk \<Rightarrow> bool" where
  "safe_end d x t \<longleftrightarrow> fine_end d 0 x t \<or> fine_end d 1 x t"

lemma safe_endI: "fine d 0 r t \<Longrightarrow> safe_end d (Some r) t" "log_ok 0 (ds_log t) \<Longrightarrow> safe_end d None t"
  by (simp_all add: safe_end_def)

lemma no_start_safe: "wp_of m (fine_end d 0) s \<Longrightarrow> wp_of m (safe_end d) s"
  by (erule wp_conseq) (simp add: safe_end_def)

lemmas safe_stop = no_start_safe [OF wraps(4)]
lemmas safe_connect = no_start_safe [OF wraps(5)]

lemma start_safe:
  assumes "log_ok 0 (ds_log s)"
  shows "wp_of (start_controller m n en d started) (safe_end d) s"
proof -
  have launched: "wp_of (do { report a b; launch_child en plan; report a' b'; poll_ready m n en d started dl }) (safe_end d) s"
    for a b plan a' b' dl
  proof -
    have "wp_of (poll_ready m n en d started dl) (safe_end d) t" if "log_ok (Suc 0) (ds_log t)" for t :: "'a desk"
      using poll_ready_fine [OF that] by (rule wp_conseq) (simp add: safe_end_def)
    then show ?thesis by (intro wp) (use assms in simp)
  qed
  show ?thesis
    unfolding start_controller_def by (simp only: split: option.split) (blast intro: safe_stop [OF assms] launched)
qed

lemma restart_safe:
  assumes "log_ok 0 (ds_log s)"
  shows "wp_of (and_then (resolveRestartRequired m en d) (\<lambda>x. case x of Some r \<Rightarrow> ret (Some r)
      | None \<Rightarrow> start_controller m n en d started)) (safe_end d) s"
  by (rule wp_and_then, rule wp_conseq, rule resolve_fine, rule assms)
    (auto simp: fine_step_def intro!: start_safe wp_ret safe_endI simp: fine_def split: option.splits)

lemma ensure_safe:
  assumes "log_ok 0 (ds_log s)"
  shows "wp_of (ensureController m n en d) (safe_end d) s"
  unfolding ensureController_def
  by (rule wp_bind, rule wp_clock, rule wp_bind, rule wp_report, rule wp_bind, rule wp_probe)
    (use assms in \<open>auto intro!: start_safe restart_safe safe_stop safe_connect simp: reusable_def split: compat_verdict.split\<close>)

section \<open>The start ends\<close>

text \<open>
  A clock that sleeping moves: a reading lies between the time before and after it, no operation turns the time back, and a sleep
  of some milliseconds takes that long.
\<close>

definition steady_clock :: "'w desk_env \<Rightarrow> ('w \<Rightarrow> int) \<Rightarrow> bool" where
  "steady_clock en tm \<longleftrightarrow>
     (\<forall>w. tm w \<le> fst (dk_clock en w) \<and> fst (dk_clock en w) \<le> tm (snd (dk_clock en w)))
     \<and> (\<forall>w ms. tm w + int ms \<le> tm (dk_sleep en ms w))
     \<and> (\<forall>w r. tm w \<le> tm (snd (dk_fetch en r w)))
     \<and> (\<forall>w p. tm w \<le> tm (snd (dk_read en p w)))
     \<and> (\<forall>w p. tm w \<le> tm (snd (dk_kill0 en p w)))
     \<and> (\<forall>w p. tm w \<le> tm (dk_spawn en p w))
     \<and> (\<forall>w. tm w \<le> tm (snd (dk_child en w)))"

definition now_of :: "('w \<Rightarrow> int) \<Rightarrow> 'w desk \<Rightarrow> int" where
  "now_of tm s = tm (ds_world s)"

lemma wp_timed:
  assumes "\<And>w. tm w \<le> tm (snd (f w))" "\<And>a t. now_of tm s \<le> now_of tm t \<Longrightarrow> Q a t"
  shows "wp_of (world_op f e) Q s"
  by (rule wp_world, rule assms(2)) (metis assms(1) now_of_def desk.select_convs(1) snd_conv)

named_theorems timed

lemma time_report [timed]: "(\<And>t. now_of tm s \<le> now_of tm t \<Longrightarrow> Q () t) \<Longrightarrow> wp_of (report st dt) Q s"
  unfolding report_def by (rule wp_timed [where tm = tm]) simp_all

lemma time_fetch: "steady_clock en tm \<Longrightarrow> (\<And>x t. now_of tm s \<le> now_of tm t \<Longrightarrow> Q x t) \<Longrightarrow> wp_of (fetchWithTimeout en r) Q s"
  unfolding fetchWithTimeout_def by (rule wp_timed [where tm = tm]) (simp_all add: steady_clock_def)

lemma time_lock: "steady_clock en tm \<Longrightarrow> (\<And>x t. now_of tm s \<le> now_of tm t \<Longrightarrow> Q x t) \<Longrightarrow> wp_of (readControllerLockInfo en dir) Q s"
  unfolding readControllerLockInfo_def by (rule wp_timed [where tm = tm]) (simp_all add: steady_clock_def split: prod.split, metis snd_conv)

lemma time_alive: "steady_clock en tm \<Longrightarrow> (\<And>x t. now_of tm s \<le> now_of tm t \<Longrightarrow> Q x t) \<Longrightarrow> wp_of (signal_alive en p) Q s"
  unfolding signal_alive_def by (rule wp_timed [where tm = tm]) (simp_all add: steady_clock_def split: prod.split, metis snd_conv)

lemma time_child: "steady_clock en tm \<Longrightarrow> (\<And>x t. now_of tm s \<le> now_of tm t \<Longrightarrow> Q x t) \<Longrightarrow> wp_of (tracked_child en) Q s"
  unfolding tracked_child_def by (rule wp_timed [where tm = tm]) (simp_all add: steady_clock_def)

lemma time_launch: "steady_clock en tm \<Longrightarrow> (\<And>t. now_of tm s \<le> now_of tm t \<Longrightarrow> Q () t) \<Longrightarrow> wp_of (launch_child en p) Q s"
  unfolding launch_child_def by (rule wp_timed [where tm = tm]) (simp_all add: steady_clock_def)

lemma time_rest:
  assumes "steady_clock en tm" "\<And>t. now_of tm s + int ms \<le> now_of tm t \<Longrightarrow> Q () t"
  shows "wp_of (rest en ms) Q s"
proof -
  have "tm (ds_world s) + int ms \<le> tm (dk_sleep en ms (ds_world s))" using assms(1) by (simp add: steady_clock_def)
  then show ?thesis unfolding rest_def by (intro wp_world) (auto intro!: assms(2) simp: now_of_def)
qed

lemma time_clock:
  assumes "steady_clock en tm" "\<And>x t. now_of tm s \<le> x \<Longrightarrow> x \<le> now_of tm t \<Longrightarrow> Q x t"
  shows "wp_of (clock en) Q s"
proof -
  have "tm (ds_world s) \<le> fst (dk_clock en (ds_world s))" "fst (dk_clock en (ds_world s)) \<le> tm (snd (dk_clock en (ds_world s)))"
    using assms(1) by (simp_all add: steady_clock_def)
  then show ?thesis unfolding clock_def by (intro wp_world) (auto intro!: assms(2) simp: now_of_def)
qed

lemmas ticks = time_report time_fetch time_lock time_alive time_child time_launch time_rest time_clock

text \<open>Some result, no earlier than a time.\<close>

definition done_after :: "('w \<Rightarrow> int) \<Rightarrow> int \<Rightarrow> 'a option \<Rightarrow> 'w desk \<Rightarrow> bool" where
  "done_after tm u x t \<longleftrightarrow> x \<noteq> None \<and> u \<le> now_of tm t"

lemma done_Some [simp]: "done_after tm u (Some x) t \<longleftrightarrow> u \<le> now_of tm t"
  by (simp add: done_after_def)

lemma release_ends:
  assumes "steady_clock en tm"
  shows "u \<le> now_of tm s \<Longrightarrow> dl - now_of tm s \<le> 100 * int n \<Longrightarrow> wp_of (await_release (Suc n) en dir p dl) (done_after tm u) s"
proof (induction n arbitrary: s)
  case 0
  show ?case unfolding await_release.simps
    by (rule wp_bind, rule time_clock [OF assms]) (use 0 in \<open>auto intro: wp_ret\<close>)
next
  case (Suc n)
  have again: "wp_of (do { rest en 100; await_release (Suc n) en dir p dl }) (done_after tm u) t"
    if "now_of tm s \<le> now_of tm t" for t
    by (rule wp_bind, rule time_rest [OF assms], rule Suc.IH) (use that Suc.prems in auto)
  show ?case
    unfolding await_release.simps(2) [of "Suc n"]
    apply (rule wp_bind, rule time_clock [OF assms], rule wp_if)
    subgoal
      by (rule wp_bind, rule time_lock [OF assms], rule wp_if) (use Suc.prems in \<open>auto intro: wp_ret again\<close>)
    subgoal using Suc.prems by (auto intro: wp_ret)
    done
qed

lemma exit_ends:
  assumes "steady_clock en tm"
  shows "u \<le> now_of tm s \<Longrightarrow> dl - now_of tm s \<le> 250 * int n \<Longrightarrow> wp_of (await_exit (n + 52) en dir p tmo dl) (done_after tm u) s"
proof (induction n arbitrary: s)
  case 0
  show ?case unfolding add_0_left numeral_nat(2) await_exit.simps
    by (rule wp_bind, rule time_clock [OF assms]) (use 0 in \<open>auto intro: wp_ret\<close>)
next
  case (Suc n)
  have release: "wp_of (do { t' \<leftarrow> clock en; await_release (n + 52) en dir p (t' + 5000) }) (done_after tm u) t"
    if "now_of tm s \<le> now_of tm t" for t
  proof -
    have "wp_of (await_release (Suc (n + 51)) en dir p (x + 5000)) (done_after tm u) t'"
      if "now_of tm t \<le> x" "x \<le> now_of tm t'" for x t'
      by (rule release_ends [OF assms]) (use that \<open>now_of tm s \<le> now_of tm t\<close> Suc.prems in auto)
    then show ?thesis by (intro wp_bind time_clock [OF assms]) (simp add: add.commute)
  qed
  show ?case
    unfolding add_Suc await_exit.simps
    apply (rule wp_bind, rule time_clock [OF assms], rule wp_if)
    subgoal for x t
      by (rule wp_bind, rule time_rest [OF assms], rule wp_bind, rule time_alive [OF assms], rule wp_if)
        (use Suc.prems in \<open>auto intro: release Suc.IH\<close>)
    subgoal using Suc.prems by (auto intro: wp_ret)
    done
qed

lemma shut_down_ends:
  assumes "steady_clock en tm" "u \<le> now_of tm s" "tmo \<le> 250 * int n"
  shows "wp_of (shut_down_owner (n + 52) en base dir tmo p tok) (done_after tm u) s"
proof -
  have exit: "wp_of (do { t \<leftarrow> clock en; await_exit (n + 52) en dir p tmo (t + tmo) }) (done_after tm u) t"
    if "now_of tm s \<le> now_of tm t" for t
    by (rule wp_bind, rule time_clock [OF assms(1)], rule exit_ends [OF assms(1)]) (use that assms(2,3) in auto)
  have request: "wp_of (do { sd \<leftarrow> requestGracefulShutdown en base tok;
      (case sd of
         Refused why cs \<Rightarrow> if why = ''active-campaigns'' then ret (Some (f cs)) else ret (Some (g why))
       | Accepted \<Rightarrow> do { t \<leftarrow> clock en; await_exit (n + 52) en dir p tmo (t + tmo) }) }) (done_after tm u) t"
    if "now_of tm s \<le> now_of tm t" for t and f :: "jv list \<Rightarrow> replacement" and g :: "string \<Rightarrow> replacement"
    unfolding requestGracefulShutdown_def
    by (rule wp_bind, rule wp_bind, rule time_fetch [OF assms(1)], rule wp_ret)
      (use that assms(2) in \<open>auto intro!: exit wp_ret split: shutdown_result.split\<close>)
  show ?thesis
    unfolding shut_down_owner_def fetchLifecycleStatus_def
    by (rule wp_bind, rule wp_bind, rule time_fetch [OF assms(1)], rule wp_ret)
      (use assms(2) in \<open>auto intro!: request wp_ret split: sum.split lifecycle_status.split\<close>)
qed

lemma attempt_ends:
  assumes "steady_clock en tm" "u \<le> now_of tm s" "tmo \<le> 250 * int n"
  shows "wp_of (attemptControllerReplacement (n + 52) en base dir tmo) (done_after tm u) s"
proof -
  have owner: "wp_of (do { a \<leftarrow> signal_alive en (li_pid l);
       (if \<not> a then ret (Some r)
        else (case li_token l of None \<Rightarrow> ret (Some r')
          | Some tok \<Rightarrow> if tok = [] then ret (Some r') else shut_down_owner (n + 52) en base dir tmo (li_pid l) tok)) })
      (done_after tm u) t" if "now_of tm s \<le> now_of tm t" for t l r r'
    by (rule wp_bind, rule time_alive [OF assms(1)])
      (use that assms in \<open>auto intro!: wp_ret shut_down_ends split: option.split\<close>)
  show ?thesis
    unfolding attemptControllerReplacement_def
    apply (rule wp_bind, rule time_lock [OF assms(1)])
    subgoal for i t
      apply (cases i)
      subgoal using assms(2) by (simp add: wp_ret)
      subgoal for l
        apply (simp only: option.simps)
        apply (rule wp_if)
        subgoal using assms(2) by (simp add: wp_ret)
        subgoal by (rule owner)
        done
      done
    done
qed

lemma time_probe: "steady_clock en tm \<Longrightarrow> (\<And>x t. now_of tm s \<le> now_of tm t \<Longrightarrow> Q x t) \<Longrightarrow> wp_of (probeControllerRaw en base) Q s"
  unfolding probeControllerRaw_def by (rule wp_bind, rule time_fetch) (auto intro: wp_ret)

lemma connect_ends: "u \<le> now_of tm s \<Longrightarrow> wp_of (do { r \<leftarrow> connect en b pre p post; ret (Some (f r)) }) (done_after tm u) s"
  unfolding connect_def by (rule wp_bind, rule wp_bind, rule time_report [where tm = tm]) (simp add: wp_of_def)

lemma stop_ends: "u \<le> now_of tm s \<Longrightarrow> wp_of (do { r \<leftarrow> stop_at st dt; ret (Some (f r)) }) (done_after tm u) s"
  unfolding stop_at_def by (rule wp_bind, rule wp_bind, rule time_report [where tm = tm]) (simp add: wp_of_def)

lemma pend_ends: "u \<le> now_of tm s \<Longrightarrow> wp_of (do { r \<leftarrow> pend dt; ret (Some (f r)) }) (done_after tm u) s"
  unfolding pend_def by (rule wp_bind, rule wp_bind, rule time_report [where tm = tm]) (simp add: wp_of_def)

lemma proceed_ends: "u \<le> now_of tm s \<Longrightarrow> wp_of (proceed_with dt) (done_after tm u) s"
  unfolding proceed_with_def by (rule wp_bind, rule time_report [where tm = tm]) (auto intro: wp_ret)

lemmas short_ends = connect_ends stop_ends pend_ends proceed_ends

lemma and_then_ends: "wp_of m (done_after tm u) s \<Longrightarrow> (\<And>a t. u \<le> now_of tm t \<Longrightarrow> wp_of (f a) (done_after tm u) t) \<Longrightarrow>
    wp_of (and_then m f) (done_after tm u) s"
  by (rule wp_and_then, erule wp_conseq) (auto simp: done_after_def)

lemma resolve_ends:
  assumes "steady_clock en tm" "u \<le> now_of tm s" "132 \<le> m"
  shows "wp_of (resolveRestartRequired m en d) (done_after tm u) s"
proof -
  obtain n where m: "m = n + 52" "80 \<le> n" using assms(3) that [of "m - 52"] by simp
  have upd: "wp_of (update_pending dt) (done_after tm u) t" if "u \<le> now_of tm t" for dt t
    unfolding update_pending_def by (rule pend_ends) (rule that)
  show ?thesis
    unfolding resolveRestartRequired_def m(1)
    using assms(2) m(2)
    by (auto intro!: and_then_ends attempt_ends [OF assms(1)] upd proceed_ends short_ends
        simp: REPLACEMENT_SHUTDOWN_TIMEOUT_MS_def split: option.split replacement.split)
qed

lemma after_race_ends:
  assumes "steady_clock en tm" "u \<le> now_of tm s" "132 \<le> m"
  shows "wp_of (after_race m en d c) (done_after tm u) s"
  unfolding after_race_def Let_def
  by (rule wp_bind, rule time_probe [OF assms(1)], intro wp_if)
    (use assms in \<open>auto intro: short_ends resolve_ends\<close>)

lemma check_child_ends:
  assumes "steady_clock en tm" "u \<le> now_of tm s" "132 \<le> m"
  shows "wp_of (check_child m en d) (done_after tm u) s"
  unfolding check_child_def
  by (rule wp_bind, rule time_child [OF assms(1)])
    (use assms in \<open>auto intro!: after_race_ends short_ends wp_ret split: bool.split option.split\<close>)

lemma poll_once_ends:
  assumes "steady_clock en tm" "u \<le> now_of tm s + int delay" "132 \<le> m"
  shows "wp_of (poll_once m en d delay) (done_after tm u) s"
  unfolding poll_once_def Let_def
  by (rule wp_bind, rule time_rest [OF assms(1)], rule wp_bind, rule time_probe [OF assms(1)], intro wp_if)
    (use assms in \<open>auto intro: short_ends resolve_ends check_child_ends\<close>)

lemma last_probe_ends:
  assumes "steady_clock en tm" "u \<le> now_of tm s"
  shows "wp_of (last_probe en d) (done_after tm u) s"
  unfolding last_probe_def
  by (rule wp_bind, rule time_probe [OF assms(1)], intro wp_if) (use assms(2) in \<open>auto intro: short_ends\<close>)

lemma poll_ready_ends:
  assumes "steady_clock en tm" "132 \<le> m"
  shows "budget_of d - (now_of tm s - started) \<le> 250 * int n \<Longrightarrow> 250 \<le> delay \<Longrightarrow> u \<le> now_of tm s \<Longrightarrow>
    wp_of (poll_ready m (Suc n) en d started delay) (done_after tm u) s"
proof (induction n arbitrary: s delay)
  case 0
  show ?case unfolding poll_ready.simps
    by (rule wp_bind, rule time_clock [OF assms(1)], rule wp_if) (use 0 in \<open>auto intro: last_probe_ends [OF assms(1)]\<close>)
next
  case (Suc n)
  have step: "wp_of (and_then (poll_once m en d delay) (\<lambda>x. case x of Some r \<Rightarrow> ret (Some r)
      | None \<Rightarrow> poll_ready m (Suc n) en d started (min (delay * 2) READY_POLL_MAX_MS))) (done_after tm u) t"
    if "now_of tm s \<le> now_of tm t" for t
  proof (rule wp_and_then, rule wp_conseq, rule poll_once_ends [OF assms(1) order_refl assms(2)])
    fix x :: "ensure_result option option" and t' :: "'a desk"
    assume "done_after tm (now_of tm t + int delay) x t'"
    then have x: "x \<noteq> None" "now_of tm s + 250 \<le> now_of tm t'"
      using that Suc.prems(2) by (auto simp: done_after_def)
    have "wp_of (poll_ready m (Suc n) en d started (min (delay * 2) READY_POLL_MAX_MS)) (done_after tm u) t'"
      by (rule Suc.IH) (use x(2) Suc.prems in \<open>auto simp: READY_POLL_MAX_MS_def\<close>)
    then show "case x of None \<Rightarrow> done_after tm u None t' | Some a \<Rightarrow> wp_of (case a of Some r \<Rightarrow> ret (Some r)
        | None \<Rightarrow> poll_ready m (Suc n) en d started (min (delay * 2) READY_POLL_MAX_MS)) (done_after tm u) t'"
      using x Suc.prems(3) by (auto intro: wp_ret split: option.split)
  qed
  show ?case unfolding poll_ready.simps(2) [of m "Suc n"]
    by (rule wp_bind, rule time_clock [OF assms(1)], rule wp_if) (use Suc.prems in \<open>auto intro: step last_probe_ends [OF assms(1)]\<close>)
qed

lemma start_ends:
  assumes "steady_clock en tm" "132 \<le> m" "budget_of d - (now_of tm s - started) \<le> 250 * int n"
  shows "wp_of (start_controller m (Suc n) en d started) (done_after tm (now_of tm s)) s"
proof -
  have launched: "wp_of (do { report a b; launch_child en plan; report a' b'; poll_ready m (Suc n) en d started READY_POLL_INITIAL_MS })
      (done_after tm (now_of tm s)) s" for a b plan a' b'
    by (rule wp_bind, rule time_report [where tm = tm], rule wp_bind, rule time_launch [OF assms(1)],
        rule wp_bind, rule time_report [where tm = tm], rule poll_ready_ends [OF assms(1,2)])
      (use assms(3) in \<open>simp_all add: READY_POLL_INITIAL_MS_def\<close>)
  show ?thesis
    unfolding start_controller_def by (simp only: split: option.split) (intro conjI allI impI stop_ends order_refl launched)
qed

lemma ensure_ends:
  assumes "steady_clock en tm" "132 \<le> m" "budget_of d \<le> 250 * int n"
  shows "wp_of (ensureController m (Suc n) en d) (done_after tm (now_of tm s)) s"
proof -
  have start: "wp_of (start_controller m (Suc n) en d x) (done_after tm (now_of tm s)) t"
    if "x \<le> now_of tm t" "now_of tm s \<le> now_of tm t" for x t
    by (rule wp_conseq, rule start_ends [OF assms(1,2)]) (use that assms(3) in \<open>auto simp: done_after_def\<close>)
  have restart: "wp_of (and_then (resolveRestartRequired m en d) (\<lambda>y. case y of Some r \<Rightarrow> ret (Some r)
      | None \<Rightarrow> start_controller m (Suc n) en d x)) (done_after tm (now_of tm s)) t"
    if "x \<le> now_of tm t" "now_of tm s \<le> now_of tm t" for x t
  proof (rule wp_and_then, rule wp_conseq, rule resolve_ends [OF assms(1) order_refl assms(2)])
    fix y :: "ensure_result option option" and t' :: "'a desk"
    assume "done_after tm (now_of tm t) y t'"
    then show "case y of None \<Rightarrow> done_after tm (now_of tm s) None t' | Some a \<Rightarrow> wp_of (case a of Some r \<Rightarrow> ret (Some r)
        | None \<Rightarrow> start_controller m (Suc n) en d x) (done_after tm (now_of tm s)) t'"
      using that by (auto simp: done_after_def intro!: wp_ret start split: option.split)
  qed
  show ?thesis
    unfolding ensureController_def
    by (rule wp_bind, rule time_clock [OF assms(1)], rule wp_bind, rule time_report [where tm = tm], rule wp_bind,
        rule time_probe [OF assms(1)])
      (auto intro!: start restart short_ends split: compat_verdict.split)
qed

section \<open>What a start does, and that it ends\<close>

text \<open>
  C30: Whatever the world does, a start asks a controller to shut down only right after the lock file gave the token, its process was
  seen alive and the controller answered that token that it is idle; it launches at most one controller; and it connects only to a
  controller whose last answer was an identity of this protocol, with no newer schema and, for a packaged desktop, of exactly its build.
\<close>

theorem desktop_start_is_safe:
  "shutdown_guarded (ds_log (snd (run_state (ensureController m n en d) \<lparr>ds_world = w, ds_log = []\<rparr>)))
   \<and> spawn_count (ds_log (snd (run_state (ensureController m n en d) \<lparr>ds_world = w, ds_log = []\<rparr>))) \<le> 1
   \<and> (case fst (run_state (ensureController m n en d) \<lparr>ds_world = w, ds_log = []\<rparr>) of
        None \<Rightarrow> True
      | Some r \<Rightarrow> well_connected d r (ds_log (snd (run_state (ensureController m n en d) \<lparr>ds_world = w, ds_log = []\<rparr>))))"
proof -
  have "wp_of (ensureController m n en d) (safe_end d) \<lparr>ds_world = w, ds_log = []\<rparr>"
    by (rule ensure_safe) (simp add: log_ok_def)
  then show ?thesis by (auto simp: wp_of_def safe_end_def fine_end_def log_ok_def split: prod.splits option.splits)
qed

text \<open>With a steady clock and enough fuel a start has a result.\<close>

lemma start_returns:
  assumes "steady_clock en tm" "132 \<le> m" "budget_of d \<le> 250 * int n"
  shows "\<exists>r. fst (run_state (ensureController m (Suc n) en d) s) = Some r"
  using ensure_ends [OF assms, of s] by (auto simp: wp_of_def done_after_def split: prod.splits)

text \<open>The default budget needs 181 polls.\<close>

corollary default_start_returns: "steady_clock en tm \<Longrightarrow> ed_budget d = None \<Longrightarrow> \<exists>r. fst (run_state (ensureController 132 181 en d) s) = Some r"
  using start_returns [of en tm 132 d 180 s] by (simp add: budget_of_def CONTROLLER_START_BUDGET_MS_def)

text \<open>A prober injected by a caller classifies every answer as the raw prober does.\<close>

lemma legacy_probe_agrees: "classify_probe d (legacy_probed (outcome_of en p)) = classify_probe d p"
  by (cases p) (simp_all add: outcome_of_def legacy_probed_def)

section \<open>The watch\<close>

text \<open>While the known process lives, a round does not recover anything: it is the same for every recovery.\<close>

lemma live_owner_undisturbed:
  assumes "wt_pid w = Some (of_int p)" "0 < p" "\<And>v. fst (dk_kill0 en p v) = Kill_ok"
  shows "watch_round en idf recover threshold w = watch_round en idf recover' threshold w"
proof -
  have alive: "run_state (signal_alive en (of_int p)) s = (True, snd (run_state (signal_alive en (of_int p)) s))" for s
    using assms(2) assms(3) [of "ds_world s"]
    by (cases "dk_kill0 en p (ds_world s)") (simp add: signal_alive_def world_op_def)
  have same: "do { a \<leftarrow> signal_alive en (of_int p); (if a then ret w' else x) } = do { a \<leftarrow> signal_alive en (of_int p); (if a then ret w' else y) }"
    for w' :: watch and x y
  proof (rule State_Monad.state_ext)
    fix s :: "'a desk"
    obtain t where "run_state (signal_alive en (of_int p)) s = (True, t)" using alive by blast
    then show "run_state (do { a \<leftarrow> signal_alive en (of_int p); (if a then ret w' else x) }) s
        = run_state (do { a \<leftarrow> signal_alive en (of_int p); (if a then ret w' else y) }) s" by simp
  qed
  have pid: "wt_pid (w\<lparr>wt_fails := k\<rparr>) = Some (of_int p)" for k using assms(1) by simp
  show ?thesis
    unfolding watch_round_def Let_def
    by (simp only: pid option.case) (intro arg_cong2 [where f = State_Monad.bind] refl ext if_cong same)
qed

text \<open>The default probe of the watch sees no controller, whatever the endpoint answers.\<close>

lemma default_probe_blind: "wp_of (default_identityFn en base) (\<lambda>i _. i = None) s"
  unfolding default_identityFn_def probeController_def
  by (rule wp_bind, rule wp_bind, rule wp_probe) (simp add: wp_of_def outcome_of_def outcome_kind_def split: probed.split)

text \<open>So every round counts as a failed probe, and a dead known process is recovered although the controller answers.\<close>

lemma default_round_fails:
  assumes "wt_fails w + 1 < threshold"
  shows "wp_of (watch_round en (default_identityFn en base) recover threshold w) (\<lambda>w' _. w' = w\<lparr>wt_fails := wt_fails w + 1\<rparr>) s"
  unfolding watch_round_def Let_def
  by (rule wp_bind, rule wp_conseq, rule default_probe_blind) (use assms in \<open>simp add: wp_of_def\<close>)

text \<open>Without a data directory another build is never replaced, whoever owns the endpoint: nothing is read and nothing is asked.\<close>

lemma no_dir_no_replacement:
  assumes "ed_dataDir d = None"
  shows "run_state (resolveRestartRequired m en d) s
     = (Some (Some (ER_pending no_dir_text)), s\<lparr>ds_log := E_report DS_RESTART_PENDING (Some no_dir_text) # ds_log s\<rparr>)"
  using assms by (cases s) (simp add: resolveRestartRequired_def pend_def report_def world_op_def)

section \<open>A race that is won and lost\<close>

text \<open>
  Another build takes the data directory while this desktop waits for its child, which exits with code 10. The desktop shuts the
  other controller down, starts nothing in its place and reports that another controller owns the directory.
\<close>

record race_world =
  rw_time :: int
  rw_up :: bool

definition other_identity :: jv where
  "other_identity = V_obj [(''service'', V_str ''orca-controller''), (''version'', V_str ''2''), (''protocol'', V_num 1), (''pid'', V_num 7)]"

definition race_fetch :: "http_req \<Rightarrow> race_world \<Rightarrow> fetched \<times> race_world" where
  "race_fetch r w = (if \<not> rw_up w then (Fetch_error ''refused'', w)
     else if rq_method r = ''POST'' then (Fetch_response 200 None, w\<lparr>rw_up := False\<rparr>)
     else if rq_headers r = [] then (Fetch_response 200 (Some other_identity), w)
     else (Fetch_response 200 (Some (V_obj [(''state'', V_str ''idle'')])), w))"

definition race_env :: "race_world desk_env" where
  "race_env = \<lparr>dk_clock = \<lambda>w. (rw_time w, w), dk_sleep = \<lambda>ms w. w\<lparr>rw_time := rw_time w + int ms\<rparr>, dk_fetch = race_fetch,
     dk_read = \<lambda>p w. (if rw_up w then Parsed (V_obj [(''service'', V_str ''orca-controller''), (''pid'', V_num 7), (''controlToken'', V_str ''t'')])
       else Unreadable ''ENOENT'', w),
     dk_kill0 = \<lambda>p w. (if rw_up w then Kill_ok else Kill_other, w), dk_spawn = \<lambda>p w. w\<lparr>rw_up := True\<rparr>,
     dk_child = \<lambda>w. (\<lparr>lc_exited = True, lc_code = Some 10, lc_signal = None\<rparr>, w), dk_stopped = \<lambda>w. (False, w),
     dk_process_env = Map.empty, dk_num = \<lambda>q. ''1''\<rparr>"

definition race_deps :: ensure_deps where
  "race_deps = \<lparr>ed_base = ''http://h'', ed_version = ''1'', ed_exec = ''orca'', ed_resources = ''/r'', ed_dist = ''/d'', ed_packaged = True,
     ed_build = None, ed_schema = None, ed_host = None, ed_port = None, ed_dataDir = Some ''/data'', ed_budget = None\<rparr>"

lemma race_steady: "steady_clock race_env rw_time"
  by (auto simp: steady_clock_def race_env_def race_fetch_def)

definition race_end :: "ensure_result option \<times> race_world desk" where
  "race_end = run_state (ensureController 4 4 race_env race_deps) \<lparr>ds_world = \<lparr>rw_time = 0, rw_up = False\<rparr>, ds_log = []\<rparr>"

lemma race_leaves_no_controller:
  "fst race_end = Some (ER_terminal DS_STARTUP_FAILED (exit_text 10)) \<and> \<not> rw_up (ds_world (snd race_end))
   \<and> spawn_count (ds_log (snd race_end)) = 1"
  by code_simp

end
