(* ===== verification/Spec2Isabelle.thy ===== *)
theory Spec2Isabelle
  imports Permissions Scheduler Process_Probe Leases Transitions Loop_Control Publication Dag_Nodes Control_Scenarios Watcher_Scenarios Executor_Scenarios
    Runtime_Lock Wake_Scenarios Startup Ledger Repositories Supervisor_Laws
begin

text \<open>
  Orca runs coding campaigns on local repositories. A campaign alternates between Sol, a reviewer reached through a
  browser, and an execution strategy that works on the repository: one agent, a swarm of workers on work packets,
  or a graph (DAG) of such packets. This library models the controller (\<open>apps/controller/src\<close>) with the schemas of
  \<open>packages/shared/src\<close> that it stores, and proves what makes its parts and their composition correct.

  \<^bold>\<open>The parts and how they meet.\<close> The loop service moves a campaign through its states and commits each move together with
  the effects it causes (transitions and outbox). A dispatch of Sol starts an execution actor through the iteration
  coordinator: the executor service, or the swarm engine. The engine validates packets, takes the lease of the
  repository, and then runs a loop that asks the permission policy and the inference scheduler before it allocates a
  worktree and starts a worker for a packet; it stages or integrates their commits, publishes \<open>main\<close>, stores a report and
  calls back into the loop. Controls and recovery change the same tables from outside.

  \<^bold>\<open>Theories and sources.\<close>
  \<^item> \<open>Prelude\<close>: identifiers, JavaScript strings, JSON columns, tables as row lists and the locales \<open>guarded_insert\<close> and
    \<open>unique_store\<close> of tables with a unique key, interpreted on the stores that provide them.
  \<^item> \<open>Permissions\<close> (\<open>permissions.ts\<close>, \<open>permission-policy-service.ts\<close>, \<open>permission-store.ts\<close>) and \<open>Scheduler\<close>
    (\<open>scheduler-service.ts\<close>, \<open>scheduler-policy-store.ts\<close>).
  \<^item> \<open>Process_Probe\<close> (\<open>process-probe.ts\<close>; the locale \<open>process_probe\<close> is its interface, with both probes as interpretations),
    \<open>Leases\<close> (\<open>actor-lease-service.ts\<close>, \<open>ownership-store.ts\<close>) and \<open>Transitions\<close> (\<open>transition-service.ts\<close>).
  \<^item> \<open>Run_Stores\<close>, \<open>Loop_State\<close>, \<open>Loop_Wake\<close>, \<open>Loop_Drain\<close>, \<open>Loop_Dispatch\<close>, \<open>Loop_Completion\<close>, \<open>Loop_Control\<close>
    (\<open>loop-service.ts\<close> and its stores) and \<open>Coordinator\<close> (\<open>iteration-execution-coordinator.ts\<close>, \<open>strategy-ownership.ts\<close>).
  \<^item> \<open>Work_Packets\<close> (schemas, tables and service of packets and results), \<open>Work_Graph\<close> (the dependency graph),
    \<open>Git_Host\<close> (paths, and git and the file system as a parameter), \<open>Worktrees\<close> (\<open>worktree-isolation-service.ts\<close>),
    \<open>Integration\<close> and \<open>Publication\<close> (\<open>integration-service.ts\<close>).
  \<^item> \<open>Git_Client\<close> (\<open>git-client.ts\<close>), \<open>Executor_Runner\<close> (\<open>executor-runner.ts\<close>), and \<open>swarm-execution-service.ts\<close> in four
    theories: \<open>Swarm_Worker\<close> (the worker's prompt, scope check and result, with \<open>profiles.ts\<close>), \<open>Swarm_State\<close> (the
    shared state, staging and landing), \<open>Swarm_Engine\<close> (\<open>executeRecord\<close>, \<open>runWorker\<close>, \<open>failStrategy\<close>) and \<open>Swarm_Control\<close>
    (starting, controls, queries, recovery).
  \<^item> \<open>Dag_Nodes\<close> and \<open>Dag_Strategy\<close> (\<open>dag-node-store.ts\<close>, \<open>dag-execution-service.ts\<close>).
  \<^item> \<open>Markers\<close> (\<open>dispatch.ts\<close>, \<open>sol-control.ts\<close> and the paths of \<open>executor-result.ts\<close>: schemas as functions of a parsed
    value), \<open>Commit_Inspector\<close> (\<open>commit-inspector.ts\<close>) and \<open>Watcher\<close> (\<open>watcher-service.ts\<close>), with their laws in \<open>Marker_Laws\<close>
    and \<open>Watcher_Laws\<close>; \<open>Watcher_Scenarios\<close> wires the watcher to the loop.
  \<^item> The direct executor: \<open>Executor_Results\<close> (the result manifest and its verification, \<open>executor-result.ts\<close> and
    \<open>executor-service.ts\<close>), \<open>Executor_Store\<close> (\<open>executor-store.ts\<close>, \<open>prompt.ts\<close>, \<open>log-rotator.ts\<close>, preflight and logs) and
    \<open>Executor_Service\<close> (\<open>executor-service.ts\<close> as a machine whose events are calls, children, timers and other actors), with
    \<open>Result_Laws\<close>, \<open>Executor_Laws\<close> and \<open>Executor_Scenarios\<close>.
  \<^item> The delivery of wakes: \<open>Profile_Lock\<close> (\<open>profile-lock.ts\<close>), \<open>Wake_Submitter\<close> (\<open>sol-wake-submitter.ts\<close> over a page, and the
    message of \<open>sol-wake.ts\<close>), \<open>Sol_Wake\<close> (\<open>browser-manager.ts\<close>, \<open>sol-operation-store.ts\<close>, \<open>sol-wake-store.ts\<close>: a machine
    of calls, settling submissions, timers and restarts) with \<open>Wake_Laws\<close> and \<open>Wake_Scenarios\<close>; \<open>Startup\<close>
    (\<open>startup-reconciler.ts\<close>), which composes it with the loop and the executor rows; \<open>Runtime_Lock\<close> (\<open>singleton-lock.ts\<close>).
  \<^item> What is told: \<open>Event_Bus\<close> (\<open>event-bus.ts\<close>: redaction, bounds, listeners) and \<open>Usage_Telemetry\<close> (\<open>usage-telemetry.ts\<close>, its store and
    service), \<open>Ledger\<close> (\<open>campaign-ledger-store.ts\<close>, \<open>campaign-ledger-service.ts\<close>); and \<open>Repositories\<close> (\<open>validation.ts\<close>,
    \<open>repository-service.ts\<close>).
  \<^item> The desktop: \<open>Supervisor\<close> (\<open>controller-supervisor.ts\<close>, \<open>product.ts\<close>, in the state monad over an arbitrary world) and
    \<open>Supervisor_Laws\<close>, with weakest preconditions for what it may do and a clock for why it ends.
  \<^item> Laws of the engine: \<open>Engine_Laws\<close> (books and limit), \<open>Engine_Termination\<close>, \<open>Engine_Gate\<close>, \<open>Engine_Board\<close>
    (the abstract board and the refinement), \<open>Engine_Store\<close>, \<open>Control_Laws\<close>, \<open>Dag_Laws\<close>; \<open>Engine_Scenarios\<close> and
    \<open>Control_Scenarios\<close> hold concrete strategies, the witnesses and the interleavings that go wrong.

  \<^bold>\<open>How the model is built.\<close> Each service is a record of its tables and maps, each method a definition that
  takes and returns that state; what a method throws is the \<open>Inl\<close> of a sum or a \<open>None\<close>. Integers are \<open>int\<close> (JavaScript
  numbers that the schemas restrict to integers far below 2 to the 53rd), instants are integers, identifiers that the
  code draws are arguments. Stored JSON is a value or \<open>Corrupt\<close>. Code that is not in the repository, and the operating
  system, are parameters: git and the file system (\<open>host\<close>, a record of functions that thread a world of their own), the
  process table, the messages of the schema library and of SQLite, \<open>localeCompare\<close> as a rank, \<open>JSON.parse\<close> and the reading of
  ISO instants.

  The engine is a step relation. \<open>exec_main\<close> executes the loop of \<open>executeRecord\<close> from one \<open>await\<close> to the next, with the
  place in the program as a value; \<open>worker_turn\<close>, \<open>worker_returns\<close> and \<open>worker_unstarted\<close> do the same for the promise
  of a worker; \<open>runner_moves\<close> carries the events of a child process; a step may also be a control or any change by the
  rest of the controller of the state they share. \<open>engine_run\<close> is every interleaving of these, and counts the
  steps of the loop and of the promises.

  \<^bold>\<open>What is shown.\<close> Of the campaign: a dispatch is one commit and is delivered once, a completion is applied once, an
  unconfirmed success is never taken for one, a control is applied in one commit, transitions are applied at most once with
  all their effects stored, and replayed once, leases are freed
  only on evidence that all processes are dead. Of the engine: it refines a board on which packets only move from open to a worker
  or an outcome, it terminates and is never stuck, no packet runs before its dependencies, no worktree is
  allocated without admission and permission, a stop or a kill has the last word, and starts, pauses, resumes and recovery
  do what they promise. Of the packets: results are canonical, cycles are found exactly, worktrees stay
  below the data directory and are not reclaimed under a live worker, integration picks exactly the commits of recorded worktrees, in
  dependency order,
  and \<open>PUBLISHED\<close> means that the remote has the commit. Of the watcher: a dispatch is a commit that adds one well-formed marker and
  nothing else, and a poll passes over no commit. Of the executor: a repository has one executor in every interleaving, and an
  accepted result is published. Of the controller's own life: calls of the runtime lock leave one owner, a wake is retried after a
  timeout at most once, and no row of an executor survives a startup as running. Of the desktop: a start disturbs only a controller
  that proved to be idle, launches at most one and connects only to a matching build. Where the code does something else than it
  says, a lemma states what it does.

  \<^bold>\<open>Bounds.\<close> Loops of the code that poll are recursion on the number of polls: \<open>timeout div 200\<close> for the
  boundary waits of the coordinator (50, 75 or 150 polls), 600 idle rounds in the engine, as in the code. The graph
  searches are total functions, with the ids not yet on the path as their measure. \<open>step_bound n\<close> bounds
  the steps of a strategy of n packets; it is proved from a measure that each step lowers, as long as
  no worker's promise is rejected. The start of the desktop takes fuel for its waits and polls: with a clock that sleeping moves, 132 rounds
  are enough for a replacement and 181 polls for the default budget.

  \<^bold>\<open>Not modelled.\<close> The database driver and its migrations, the browser's driver, the search for Chrome, the migration of its profile and the
  readiness report, the HTTP routes, the WebSocket, the
  user interface and the windows of the desktop are I/O or presentation. The adapters of the
  executor and its capability probe start processes and are left out; so are log lines, and what the modelled services publish where nothing reads it back. Two operations between which the code does not await are one step; an awaited
  call of git or of the file system is one step of the host. A failure of the database's own \<open>BEGIN\<close>, \<open>COMMIT\<close> or of a plain read is
  not modelled. Paths are POSIX paths, characters are
  Latin-1. Audit entries are kept where the code reads them again.
\<close>

section \<open>Properties that span components\<close>

text \<open>
  C21: no second writer after a restart. If a process recorded by a prior instance for a repository is not
  terminal in the table and the host still reports it alive, then after the startup
  reconciliation with the portable probe the repository's lease is still there and
  \<open>acquire\<close> refuses, whatever evidence the probe holds. Hypotheses: a repository has at most one lease row, and
  this one has a lease of another instance.
\<close>

theorem restart_with_live_writer_blocks:
  assumes "lease_ok s" and "lease_get repo s = Some l" and "ls_instance l \<noteq> cur"
    and "p \<in> set (ow_procs s)" and "pr_repo p = repo" and "\<not> terminalProcessState p"
    and "isPidAlive stat kill0 (pr_pid p)"
  shows "fst (fst (acquire lid t repo inst kind opts
     (snd (reconcileOnStartup (portable_classify stat kill0 cap) now cur None s)))) = Quarantined"
proof -
  have "portable_classify stat kill0 cap (identity_of p) \<noteq> DEAD"
    using portable.dead_gone [of stat kill0 cap "identity_of p"] assms(7) by (simp add: identity_of_def)
  moreover have "ls_repo l = repo" using assms(2) by (auto simp: lease_get_def dest: tbl_get_key)
  ultimately have "\<not> lease_safe (portable_classify stat kill0 cap) (ow_procs s) l"
    using assms(4-6) by (auto simp: lease_safe_def Let_def list_all_iff)
  with reconcile_cases [OF assms(1), where repo = repo and cur = cur and classify = "portable_classify stat kill0 cap"
      and now = now and lid = lid and t = t and inst = inst and kind = kind and opts = opts] assms(2,3)
  show ?thesis by (auto simp: Let_def)
qed

theorem restart_with_live_writer_blocks_witness:
  "fst (fst (acquire ''l2'' 9 ''r'' ''new'' K_DAG \<lparr>ao_run = None, ao_iteration = None, ao_actor = None\<rparr>
     (snd (reconcileOnStartup (portable_classify (\<lambda>_. None) (\<lambda>_. Kill_EPERM) Map.empty) 5 ''new'' None
        \<lparr>ow_leases = [demo_lease L_ACTIVE], ow_procs = [demo_proc O_RUNNING], ow_audit = []\<rparr>)))) = Quarantined"
  by (rule restart_with_live_writer_blocks [where l = "demo_lease L_ACTIVE" and p = "demo_proc O_RUNNING"])
    (simp_all add: lease_ok_def unique_keys_def lease_get_def table_simps demo_lease_def demo_proc_def
      terminalProcessState_def isPidAlive_def readLinuxProcState_def)

end
